(* ===== verification/Prelude.thy ===== *)
theory Prelude
  imports Main "HOL-Library.Word" "HOL-Library.AList"
begin

text \<open>
  The shared base of the development: the model's machine types, Rust's standard
  containers and the string operations the components use, with the lemmas their proofs
  rest on.

  \<^item> Rust's \<^verbatim>\<open>String\<close>/\<^verbatim>\<open>str\<close> is its UTF-8 byte sequence, here a \<open>string\<close> (an Isabelle
    \<open>char\<close> is one byte); \<^verbatim>\<open>len()\<close> is \<open>length\<close>.
  \<^item> \<^verbatim>\<open>HashMap\<close> is an association list and \<^verbatim>\<open>HashSet\<close> a list: lookups see only the map (the
    set) it denotes, and the list order is the container's iteration order. Theorems hold
    for every list, so for every iteration order.
  \<^item> \<^verbatim>\<open>f64\<close> is its 64-bit pattern with IEEE equality written out; the modelled code copies and
    compares floats and never computes with them.
  \<^item> \<^verbatim>\<open>i64\<close> values are only copied by the modelled code and are \<open>int\<close>s.
\<close>

unbundle bit_operations_syntax

section \<open>Collections of facts\<close>

named_theorems hm_simps \<open>lookups in a hash map after an update\<close>
named_theorems fold_frame \<open>fields a fold step leaves alone\<close>
named_theorems inv_intros \<open>invariant preservation, one fact per operation\<close>

section \<open>Machine types\<close>

type_synonym u8 = "8 word"
type_synonym u32 = "32 word"
type_synonym u64 = "64 word"
type_synonym i64 = int
type_synonym f64 = "64 word"

definition f64_is_nan :: "f64 \<Rightarrow> bool" where
  "f64_is_nan b \<longleftrightarrow> b AND 0x7FF0000000000000 = 0x7FF0000000000000 \<and> b AND 0x000FFFFFFFFFFFFF \<noteq> 0"

definition f64_eq :: "f64 \<Rightarrow> f64 \<Rightarrow> bool" where
  "f64_eq a b \<longleftrightarrow> \<not> f64_is_nan a \<and> \<not> f64_is_nan b \<and>
     (a = b \<or> (a AND 0x7FFFFFFFFFFFFFFF = 0 \<and> b AND 0x7FFFFFFFFFFFFFFF = 0))"

section \<open>Rust's ordering\<close>

datatype ordering = Less | Equal | Greater

definition cmp :: "'a::linorder \<Rightarrow> 'a \<Rightarrow> ordering" where
  "cmp a b = (if a < b then Less else if a = b then Equal else Greater)"

fun reverse_ordering :: "ordering \<Rightarrow> ordering" where
  "reverse_ordering Less = Greater"
| "reverse_ordering Equal = Equal"
| "reverse_ordering Greater = Less"

lemma cmp_refl [simp]: "cmp a a = Equal"
  by (simp add: cmp_def)

lemma cmp_eq_simps [simp]:
  "cmp a b = Equal \<longleftrightarrow> a = b"
  "cmp a b = Less \<longleftrightarrow> a < b"
  "cmp a b = Greater \<longleftrightarrow> b < a"
  by (auto simp: cmp_def)

lemma cmp_swap: "cmp b a = reverse_ordering (cmp a b)"
  by (auto simp: cmp_def)

section \<open>Hash maps and hash sets\<close>

type_synonym ('k, 'v) hashmap = "('k \<times> 'v) list"
type_synonym 'a hashset = "'a list"

abbreviation hm_get :: "('k, 'v) hashmap \<Rightarrow> 'k \<Rightarrow> 'v option" where
  "hm_get m k \<equiv> map_of m k"

definition hm_insert :: "'k \<Rightarrow> 'v \<Rightarrow> ('k, 'v) hashmap \<Rightarrow> ('k, 'v) hashmap" where
  "hm_insert k v m = AList.update k v m"

definition hm_remove :: "'k \<Rightarrow> ('k, 'v) hashmap \<Rightarrow> ('k, 'v) hashmap" where
  "hm_remove k m = AList.delete k m"

definition hm_contains :: "('k, 'v) hashmap \<Rightarrow> 'k \<Rightarrow> bool" where
  "hm_contains m k \<longleftrightarrow> map_of m k \<noteq> None"

definition hm_keys :: "('k, 'v) hashmap \<Rightarrow> 'k list" where
  "hm_keys m = map fst m"

text \<open>\<open>get_mut\<close>: apply an update to the value of one key, if it is there.\<close>

definition hm_modify :: "'k \<Rightarrow> ('v \<Rightarrow> 'v) \<Rightarrow> ('k, 'v) hashmap \<Rightarrow> ('k, 'v) hashmap" where
  "hm_modify k f m = (case map_of m k of None \<Rightarrow> m | Some v \<Rightarrow> AList.update k (f v) m)"

definition hm_wf :: "('k, 'v) hashmap \<Rightarrow> bool" where
  "hm_wf m \<longleftrightarrow> distinct (map fst m)"

lemma hm_get_insert [simp, hm_simps]:
  "map_of (hm_insert k v m) = (map_of m)(k \<mapsto> v)"
  by (simp add: hm_insert_def update_conv')

lemma hm_get_remove [simp, hm_simps]:
  "map_of (hm_remove k m) = (map_of m)(k := None)"
  by (simp add: hm_remove_def delete_conv')

lemma hm_get_modify [hm_simps]:
  "map_of (hm_modify k f m) k' = (if k' = k then map_option f (map_of m k) else map_of m k')"
  by (auto simp: hm_modify_def update_conv' split: option.splits)

lemma hm_wf_nil [simp]: "hm_wf []"
  by (simp add: hm_wf_def)

lemma hm_wf_insert [simp, intro]: "hm_wf m \<Longrightarrow> hm_wf (hm_insert k v m)"
  by (simp add: hm_wf_def hm_insert_def distinct_update)

lemma hm_wf_remove [simp, intro]: "hm_wf m \<Longrightarrow> hm_wf (hm_remove k m)"
  by (simp add: hm_wf_def hm_remove_def distinct_delete)

lemma hm_wf_modify [simp, intro]: "hm_wf m \<Longrightarrow> hm_wf (hm_modify k f m)"
  by (auto simp: hm_wf_def hm_modify_def distinct_update split: option.splits)

lemma hm_contains_iff: "hm_contains m k \<longleftrightarrow> k \<in> set (hm_keys m)"
  by (auto simp: hm_contains_def hm_keys_def map_of_eq_None_iff)

lemma hm_wf_get_iff: "hm_wf m \<Longrightarrow> map_of m k = Some v \<longleftrightarrow> (k, v) \<in> set m"
  by (simp add: hm_wf_def)

lemma set_hm_insert: "set (hm_insert k v m) \<subseteq> insert (k, v) (set m)"
  by (induction m) (auto simp: hm_insert_def)

lemma set_hm_remove: "set (hm_remove k m) \<subseteq> set m"
  by (auto simp: hm_remove_def AList.delete_eq)

text \<open>An insertion at a fresh key is appended to the iteration order.\<close>

lemma hm_insert_fresh: "k \<notin> fst ` set m \<Longrightarrow> hm_insert k v m = m @ [(k, v)]"
  by (induction m) (auto simp: hm_insert_def)

definition hs_insert :: "'a \<Rightarrow> 'a hashset \<Rightarrow> 'a hashset" where
  "hs_insert x xs = (if x \<in> set xs then xs else xs @ [x])"

definition hs_remove :: "'a \<Rightarrow> 'a hashset \<Rightarrow> 'a hashset" where
  "hs_remove x xs = removeAll x xs"

lemma set_hs_insert [simp]: "set (hs_insert x xs) = insert x (set xs)"
  by (auto simp: hs_insert_def)

lemma set_hs_remove [simp]: "set (hs_remove x xs) = set xs - {x}"
  by (auto simp: hs_remove_def)

lemma distinct_hs_insert [simp]: "distinct xs \<Longrightarrow> distinct (hs_insert x xs)"
  by (auto simp: hs_insert_def)

lemma distinct_hs_remove [simp]: "distinct xs \<Longrightarrow> distinct (hs_remove x xs)"
  by (auto simp: hs_remove_def distinct_removeAll)

section \<open>Lists\<close>

text \<open>\<^verbatim>\<open>iter_mut().rev()\<close> with an early return: update the last element a partial function accepts.\<close>

fun update_first :: "('a \<Rightarrow> 'a option) \<Rightarrow> 'a list \<Rightarrow> 'a list" where
  "update_first f [] = []"
| "update_first f (x # xs) = (case f x of Some y \<Rightarrow> y # xs | None \<Rightarrow> x # update_first f xs)"

definition update_last :: "('a \<Rightarrow> 'a option) \<Rightarrow> 'a list \<Rightarrow> 'a list" where
  "update_last f xs = rev (update_first f (rev xs))"

lemma length_update_first [simp]: "length (update_first f xs) = length xs"
  by (induction xs) (auto split: option.splits)

lemma length_update_last [simp]: "length (update_last f xs) = length xs"
  by (simp add: update_last_def)

lemma update_first_pred:
  assumes "\<And>x y. x \<in> set xs \<Longrightarrow> f x = Some y \<Longrightarrow> P y" "\<forall>x \<in> set xs. P x"
  shows "\<forall>x \<in> set (update_first f xs). P x"
  using assms by (induction xs) (auto split: option.splits)

lemma update_last_pred:
  assumes "\<And>x y. x \<in> set xs \<Longrightarrow> f x = Some y \<Longrightarrow> P y" "\<forall>x \<in> set xs. P x"
  shows "\<forall>x \<in> set (update_last f xs). P x"
  using update_first_pred [of "rev xs" f P] assms by (simp add: update_last_def)

lemma update_first_map:
  assumes "\<And>x y. x \<in> set xs \<Longrightarrow> f x = Some y \<Longrightarrow> g y = g x"
  shows "map g (update_first f xs) = map g xs"
  using assms by (induction xs) (auto split: option.splits)

lemma update_last_map:
  assumes "\<And>x y. x \<in> set xs \<Longrightarrow> f x = Some y \<Longrightarrow> g y = g x"
  shows "map g (update_last f xs) = map g xs"
  using update_first_map [of "rev xs" f g] assms by (simp add: update_last_def rev_map [symmetric])

lemma update_last_snoc:
  "update_last f (xs @ [x]) = (case f x of Some y \<Rightarrow> xs @ [y] | None \<Rightarrow> update_last f xs @ [x])"
  by (simp add: update_last_def split: option.splits)

text \<open>
  \<open>since P Q xs\<close>: some element satisfies \<open>P\<close> and every later one satisfies \<open>Q\<close>; the shape of
  "asked and not answered since".
\<close>

definition since :: "('a \<Rightarrow> bool) \<Rightarrow> ('a \<Rightarrow> bool) \<Rightarrow> 'a list \<Rightarrow> bool" where
  "since P Q zs \<longleftrightarrow> (\<exists>xs e ys. zs = xs @ e # ys \<and> P e \<and> list_all Q ys)"

lemma since_Nil [simp]: "\<not> since P Q []"
  by (simp add: since_def)

lemma since_snoc: "since P Q (zs @ [z]) \<longleftrightarrow> P z \<or> since P Q zs \<and> Q z"
proof
  assume "since P Q (zs @ [z])"
  then obtain xs e ys where d: "zs @ [z] = xs @ e # ys" "P e" "list_all Q ys"
    by (auto simp: since_def)
  then show "P z \<or> since P Q zs \<and> Q z"
    by (cases ys rule: rev_cases) (auto simp: since_def)
next
  assume "P z \<or> since P Q zs \<and> Q z"
  then show "since P Q (zs @ [z])"
  proof
    assume "P z"
    then show ?thesis
      unfolding since_def by (intro exI [of _ zs] exI [of _ z] exI [of _ "[]"]) simp
  next
    assume "since P Q zs \<and> Q z"
    then obtain xs e ys where "zs = xs @ e # ys" "P e" "list_all Q ys" "Q z"
      by (auto simp: since_def)
    then show ?thesis
      unfolding since_def by (intro exI [of _ xs] exI [of _ e] exI [of _ "ys @ [z]"]) simp
  qed
qed

section \<open>Strings\<close>

text \<open>\<^verbatim>\<open>str::split(c)\<close>: always at least one piece, an empty one between adjacent separators.\<close>

fun split_on :: "char \<Rightarrow> string \<Rightarrow> string list" where
  "split_on c [] = [[]]"
| "split_on c (x # xs) =
     (if x = c then [] # split_on c xs
      else case split_on c xs of [] \<Rightarrow> [[x]] | p # ps \<Rightarrow> (x # p) # ps)"

text \<open>\<^verbatim>\<open>[&str]::join(sep)\<close>.\<close>

fun join :: "string \<Rightarrow> string list \<Rightarrow> string" where
  "join sep [] = []"
| "join sep [p] = p"
| "join sep (p # q # ps) = p @ sep @ join sep (q # ps)"

text \<open>\<^verbatim>\<open>str::split_once(c)\<close>.\<close>

fun split_once :: "char \<Rightarrow> string \<Rightarrow> (string \<times> string) option" where
  "split_once c [] = None"
| "split_once c (x # xs) =
     (if x = c then Some ([], xs)
      else map_option (\<lambda>(a, b). (x # a, b)) (split_once c xs))"

fun starts_with :: "string \<Rightarrow> string \<Rightarrow> bool" where
  "starts_with xs [] = True"
| "starts_with [] (y # ys) = False"
| "starts_with (x # xs) (y # ys) = (x = y \<and> starts_with xs ys)"

fun str_contains :: "string \<Rightarrow> string \<Rightarrow> bool" where
  "str_contains [] needle = (needle = [])"
| "str_contains (x # xs) needle = (starts_with (x # xs) needle \<or> str_contains xs needle)"

text \<open>\<^verbatim>\<open>str::to_ascii_lowercase\<close>.\<close>

definition ascii_lowercase :: "string \<Rightarrow> string" where
  "ascii_lowercase s = map (\<lambda>c. let n = of_char c :: nat in if 65 \<le> n \<and> n \<le> 90 then char_of (n + 32) else c) s"

text \<open>The decimal digits of \<^verbatim>\<open>{}\<close> on a \<^verbatim>\<open>usize\<close>.\<close>

fun show_nat :: "nat \<Rightarrow> string" where
  "show_nat n = (if n < 10 then [char_of (48 + n)]
                 else show_nat (n div 10) @ [char_of (48 + n mod 10)])"

declare show_nat.simps [simp del]

definition byte_of :: "char \<Rightarrow> nat" where
  "byte_of c = of_char c"

definition is_ascii_digit :: "char \<Rightarrow> bool" where
  "is_ascii_digit c \<longleftrightarrow> 48 \<le> byte_of c \<and> byte_of c \<le> 57"

definition is_ascii_alphanumeric :: "char \<Rightarrow> bool" where
  "is_ascii_alphanumeric c \<longleftrightarrow> is_ascii_digit c
     \<or> (65 \<le> byte_of c \<and> byte_of c \<le> 90)
     \<or> (97 \<le> byte_of c \<and> byte_of c \<le> 122)"

lemma split_on_not_Nil [simp]: "split_on c xs \<noteq> []"
  by (cases xs) (auto split: list.splits)

lemma split_on_no_sep: "p \<in> set (split_on c xs) \<Longrightarrow> c \<notin> set p"
proof (induction xs arbitrary: p)
  case (Cons x xs)
  then show ?case by (auto split: list.splits if_splits)
qed simp

lemma join_Cons_head: "join sep ((x # p) # ps) = x # join sep (p # ps)"
  by (cases ps) auto

lemma join_Nil_head: "ps \<noteq> [] \<Longrightarrow> join sep ([] # ps) = sep @ join sep ps"
  by (cases ps) auto

lemma join_split_on: "join [c] (split_on c xs) = xs"
proof (induction xs)
  case (Cons x xs)
  then show ?case
    by (cases "split_on c xs") (auto simp: join_Cons_head)
qed simp

lemma split_on_append_sep: "c \<notin> set p \<Longrightarrow> split_on c (p @ c # xs) = p # split_on c xs"
  by (induction p) auto

lemma split_on_single: "c \<notin> set p \<Longrightarrow> split_on c p = [p]"
  by (induction p) auto

lemma split_on_join:
  assumes "ps \<noteq> []" "\<forall>p \<in> set ps. c \<notin> set p"
  shows "split_on c (join [c] ps) = ps"
  using assms
proof (induction "[c]" ps rule: join.induct)
  case (3 p q ps)
  then show ?case by (simp add: split_on_append_sep)
qed (simp_all add: split_on_single)

lemma split_once_Some: "split_once c xs = Some (a, b) \<Longrightarrow> xs = a @ c # b \<and> c \<notin> set a"
  by (induction xs arbitrary: a) (auto split: if_splits)

lemma split_once_None: "split_once c xs = None \<longleftrightarrow> c \<notin> set xs"
  by (induction xs) auto

lemma split_once_append: "c \<notin> set a \<Longrightarrow> split_once c (a @ c # b) = Some (a, b)"
  by (induction a) auto

lemma starts_with_iff: "starts_with xs ys \<longleftrightarrow> (\<exists>zs. xs = ys @ zs)"
  by (induction xs ys rule: starts_with.induct) auto

lemma str_contains_iff: "str_contains xs ys \<longleftrightarrow> (\<exists>us vs. xs = us @ ys @ vs)"
proof (induction xs)
  case (Cons x xs)
  have "(\<exists>us vs. x # xs = us @ ys @ vs) \<longleftrightarrow>
      (\<exists>vs. x # xs = ys @ vs) \<or> (\<exists>us vs. xs = us @ ys @ vs)"
    by (metis append_Cons append_Nil list.exhaust list.inject)
  then show ?case using Cons by (simp add: starts_with_iff)
qed auto

end
