(* ===== verification/Session_Types.thy ===== *)
theory Session_Types
  imports Prelude
begin

text \<open>
  The wire vocabulary of \<^verbatim>\<open>server/pantoken-protocol/src/session_driver.rs\<close>: session
  references, status enums, the session snapshot, the host-UI requests and the
  discriminated union of driver events, with the accessors every component uses. Structs
  are records (each field carries its struct's prefix, since Isabelle's field names are
  global), enums are datatypes: \<open>E_X\<close> is \<^verbatim>\<open>SessionDriverEvent::X\<close> and \<open>H_X\<close> is
  \<^verbatim>\<open>HostUiRequest::X\<close>, as the sources' own aliases \<^verbatim>\<open>E\<close> and \<^verbatim>\<open>H\<close> abbreviate them. A JSON value
  (\<^verbatim>\<open>serde_json::Value\<close>) is the data type of its variants, a number kept as its literal.
\<close>

section \<open>JSON values and primitive aliases\<close>

datatype json_value =
    J_Null
  | J_Bool bool
  | J_Number string
  | J_String string
  | J_Array "json_value list"
  | J_Object "(string \<times> json_value) list"

type_synonym WorkspaceId = string
type_synonym SessionId = string
type_synonym RunId = string
type_synonym Timestamp = string

section \<open>References, status and mode enums\<close>

record WorkspaceRef =
  wr_workspace_id :: WorkspaceId
  wr_path :: string
  wr_display_name :: "string option"

record SessionRef =
  sr_workspace_id :: WorkspaceId
  sr_session_id :: SessionId

datatype SessionStatus = St_Idle | St_Initializing | St_Running | St_Failed

datatype PermissionMonitorMode = Pm_Standard | Pm_Bypass | Pm_BypassPlus | Pm_Autonomous

datatype SessionMessageDeliveryMode = Dm_Steer | Dm_FollowUp

section \<open>Message payloads\<close>

datatype ImageContent = Image string string

record ResolvedRef =
  rr_kind :: string
  rr_name :: string
  rr_file_kind :: "string option"

record SessionQueuedMessage =
  qm_id :: string
  qm_mode :: SessionMessageDeliveryMode
  qm_text :: string
  qm_created_at :: Timestamp
  qm_updated_at :: Timestamp
  qm_references :: "ResolvedRef list option"

record SessionConfig =
  cfg_model_id :: "string option"
  cfg_thinking_level :: "string option"
  cfg_available_thinking_levels :: "string list option"

definition default_session_config :: SessionConfig where
  "default_session_config =
     \<lparr>cfg_model_id = None, cfg_thinking_level = None, cfg_available_thinking_levels = None\<rparr>"

record SessionUsage =
  us_tokens :: "i64 option"
  us_context_window :: i64
  us_percent :: "f64 option"

text \<open>The derived \<^verbatim>\<open>PartialEq\<close> of \<^verbatim>\<open>SessionUsage\<close>: float equality on \<^verbatim>\<open>percent\<close>.\<close>

fun usage_eq :: "SessionUsage \<Rightarrow> SessionUsage \<Rightarrow> bool" where
  "usage_eq a b \<longleftrightarrow> us_tokens a = us_tokens b \<and> us_context_window a = us_context_window b \<and>
     (case (us_percent a, us_percent b) of
        (None, None) \<Rightarrow> True
      | (Some p, Some q) \<Rightarrow> f64_eq p q
      | _ \<Rightarrow> False)"

datatype McpServerStatus = Mcp_Connected | Mcp_Disconnected | Mcp_Reconnecting | Mcp_Disabled

record McpServerInfo =
  mcp_server_name :: string
  mcp_status :: McpServerStatus
  mcp_tool_count :: i64

record GoalInfo =
  goal_summary :: string
  goal_lifecycle :: string

datatype FlaggedFileMode = Ff_Included | Ff_Referenced

record FlaggedFile =
  ff_path :: string
  ff_mode :: FlaggedFileMode

datatype TodoStatus = Td_Pending | Td_InProgress | Td_Done | Td_Blocked

record TodoItem =
  td_id :: i64
  td_title :: string
  td_description :: string
  td_status :: TodoStatus
  td_dependencies :: "i64 list"
  td_created_at :: "string option"

section \<open>Session snapshot\<close>

record SessionSnapshot =
  sn_ref :: SessionRef
  sn_workspace :: WorkspaceRef
  sn_title :: string
  sn_status :: SessionStatus
  sn_updated_at :: Timestamp
  sn_archived_at :: "Timestamp option"
  sn_preview :: "string option"
  sn_config :: "SessionConfig option"
  sn_usage :: "SessionUsage option"
  sn_running_run_id :: "RunId option"
  sn_queued_messages :: "SessionQueuedMessage list option"
  sn_facet :: "string option"
  sn_permission_monitor :: "PermissionMonitorMode option"
  sn_adventurous_handoff :: "bool option"
  sn_notification_autodrain :: "bool option"
  sn_active_plan :: "string option"
  sn_goal :: "GoalInfo option option"
  sn_flags :: "FlaggedFile list option"
  sn_todos :: "TodoItem list option"
  sn_mcp_servers :: "McpServerInfo list option"
  sn_cwd :: "string option"
  sn_cwd_stack_depth :: "i64 option"

section \<open>Session list entries\<close>

record SessionListEntry =
  le_session_id :: SessionId
  le_path :: string
  le_cwd :: string
  le_display_name :: "string option"
  le_preview :: string
  le_user_message_count :: i64
  le_updated_at :: Timestamp
  le_created_at :: Timestamp
  le_last_user_message_at :: Timestamp
  le_parent_session_path :: "string option"
  le_usage :: "SessionUsage option"
  le_archived :: bool

section \<open>Host UI requests\<close>

record QnaQuestionOption =
  qo_label :: string
  qo_description :: "string option"

record QnaQuestion =
  qq_question :: string
  qq_context :: "string option"
  qq_options :: "QnaQuestionOption list option"
  qq_multi_select :: "bool option"

datatype NotifyLevel = Nl_Info | Nl_Warning | Nl_Error

datatype WidgetPlacement = Wp_AboveComposer | Wp_BelowComposer

text \<open>
  The arguments follow the fields of each variant, in the order of the enum. The three
  \<^verbatim>\<open>action_labels\<close> of a plan are a triple.
\<close>

datatype HostUiRequest =
    H_Confirm (request_id: string) string string "bool option" "i64 option"
  | H_Unknown (request_id: string) string string
  | H_Input (request_id: string) string "string option" "string option" "i64 option"
  | H_Select (request_id: string) string "string list" "bool option" "i64 option"
  | H_Editor (request_id: string) string "string option"
  | H_Qna (request_id: string) "string option" "QnaQuestion list" "i64 option"
  | H_Plan (request_id: string) string string "string option" "string option"
      "string \<times> string \<times> string" "string option" "i64 option"
  | H_Permission (request_id: string) string "string option" "string option" "string list"
      "i64 option"
  | H_Notify (request_id: string) string "NotifyLevel option"
  | H_Status (request_id: string) string "string option"
  | H_Widget (request_id: string) string "string list option" "WidgetPlacement option"
  | H_Title (request_id: string) string
  | H_EditorText (request_id: string) string
  | H_Reset (request_id: string)

fun is_dialog_request :: "HostUiRequest \<Rightarrow> bool" where
  "is_dialog_request (H_Confirm _ _ _ _ _) = True"
| "is_dialog_request (H_Unknown _ _ _) = True"
| "is_dialog_request (H_Input _ _ _ _ _) = True"
| "is_dialog_request (H_Select _ _ _ _ _) = True"
| "is_dialog_request (H_Editor _ _ _) = True"
| "is_dialog_request (H_Qna _ _ _ _) = True"
| "is_dialog_request (H_Plan _ _ _ _ _ _ _ _) = True"
| "is_dialog_request (H_Permission _ _ _ _ _ _) = True"
| "is_dialog_request _ = False"

section \<open>Events\<close>

datatype ExtensionIssueClassification = TerminalOnly

record ExtensionCompatibilityIssue =
  ei_capability :: string
  ei_classification :: ExtensionIssueClassification
  ei_message :: string
  ei_extension_path :: "string option"
  ei_event_name :: "string option"

datatype SessionClosedReason = Cr_Manual | Cr_Ended | Cr_Failed

record SessionErrorInfo =
  err_message :: string
  err_code :: "string option"
  err_details :: "json_value option"

record SessionEventBase =
  eb_session_ref :: SessionRef
  eb_timestamp :: Timestamp
  eb_run_id :: "RunId option"
  eb_subagent_handle :: "string option"

datatype NestedReplayStatusKind = Nr_Loading | Nr_Available | Nr_Unavailable

datatype AssistantDeltaChannel = Ch_Text | Ch_Thinking

text \<open>
  Every variant starts with the flattened \<^verbatim>\<open>base\<close>; the selector \<open>ev_base\<close> is what the four
  accessors (\<^verbatim>\<open>session_ref\<close>, \<^verbatim>\<open>timestamp\<close>, \<^verbatim>\<open>subagent_handle\<close>, \<^verbatim>\<open>run_id\<close>) match out of it.
\<close>

datatype SessionDriverEvent =
    E_SessionOpened (ev_base: SessionEventBase) SessionSnapshot
  | E_SessionUpdated (ev_base: SessionEventBase) SessionSnapshot
  | E_AssistantDelta (ev_base: SessionEventBase) string "AssistantDeltaChannel option"
      "string option"
  | E_QueuedMessageStarted (ev_base: SessionEventBase) SessionQueuedMessage
  | E_QueueUpdated (ev_base: SessionEventBase) "SessionQueuedMessage list"
  | E_UserMessage (ev_base: SessionEventBase) string string "ImageContent list option"
      "string option" "ResolvedRef list option"
  | E_CustomMessage (ev_base: SessionEventBase) string string string bool bool
  | E_ToolStarted (ev_base: SessionEventBase) string string "json_value option"
      "string option" "string option"
  | E_ToolUpdated (ev_base: SessionEventBase) string "string option" "f64 option"
  | E_ToolFinished (ev_base: SessionEventBase) string bool "json_value option"
      "ImageContent list option" "bool option"
  | E_RunCompleted (ev_base: SessionEventBase) SessionSnapshot "string option" "string option"
  | E_UsageUpdated (ev_base: SessionEventBase) SessionUsage
  | E_RunFailed (ev_base: SessionEventBase) SessionErrorInfo
  | E_HostUiRequest (ev_base: SessionEventBase) HostUiRequest
  | E_HostUiResolved (ev_base: SessionEventBase) string
  | E_ExtensionCompatibilityIssue (ev_base: SessionEventBase) ExtensionCompatibilityIssue
  | E_SessionClosed (ev_base: SessionEventBase) SessionClosedReason
  | E_SessionReset (ev_base: SessionEventBase)
  | E_NestedReplayStatus (ev_base: SessionEventBase) string NestedReplayStatusKind
      "string option"

definition ev_session_ref :: "SessionDriverEvent \<Rightarrow> SessionRef" where
  "ev_session_ref ev = eb_session_ref (ev_base ev)"

definition ev_timestamp :: "SessionDriverEvent \<Rightarrow> Timestamp" where
  "ev_timestamp ev = eb_timestamp (ev_base ev)"

definition ev_subagent_handle :: "SessionDriverEvent \<Rightarrow> string option" where
  "ev_subagent_handle ev = eb_subagent_handle (ev_base ev)"

definition ev_run_id :: "SessionDriverEvent \<Rightarrow> RunId option" where
  "ev_run_id ev = eb_run_id (ev_base ev)"

definition ev_session_id :: "SessionDriverEvent \<Rightarrow> SessionId" where
  "ev_session_id ev = sr_session_id (ev_session_ref ev)"

lemmas ev_accessors =
  ev_session_ref_def ev_timestamp_def ev_subagent_handle_def ev_run_id_def ev_session_id_def

end
