(* ===== verification/Session_State.thy ===== *)
theory Session_State
  imports Session_Types
begin

text \<open>
  The folded session state and its reducer, \<^verbatim>\<open>server/pantoken-protocol/src/state.rs\<close>:
  transcript items, ambient widgets, \<open>SessionState\<close>, the helpers on the item list and
  \<open>fold_event\<close> with one equation per kind of event. The lemmas show the well-formedness
  invariant every fold keeps, that only the last item can be streaming, and what each
  group of events settles.
\<close>

section \<open>Transcript items\<close>

record UserItem =
  ui_id :: string
  ui_text :: string
  ui_images :: "ImageContent list option"
  ui_references :: "ResolvedRef list option"
  ui_ts :: "string option"
  ui_entry_id :: "string option"
  ui_delivery :: "string option"
  ui_delivery_error :: "string option"

record AssistantItem =
  ai_id :: string
  ai_text :: string
  ai_thinking :: string
  ai_streaming :: bool
  ai_ts :: "string option"
  ai_entry_id :: "string option"
  ai_completed_at :: "string option"

datatype ToolStatus = Ts_Running | Ts_Ok | Ts_Error | Ts_Interrupted

record ToolItem =
  ti_id :: string
  ti_name :: string
  ti_label :: "string option"
  ti_description :: "string option"
  ti_input :: "json_value option"
  ti_output :: "json_value option"
  ti_images :: "ImageContent list option"
  ti_text :: "string option"
  ti_progress :: "f64 option"
  ti_status :: ToolStatus
  ti_started_at :: "string option"
  ti_finished_at :: "string option"

datatype NoticeLevel = Lv_Info | Lv_Warning | Lv_Error

record NoticeItem =
  ni_id :: string
  ni_level :: NoticeLevel
  ni_text :: string

record InjectItem =
  ii_id :: string
  ii_custom_type :: string
  ii_text :: string
  ii_display :: bool
  ii_turn_boundary :: bool
  ii_ts :: "string option"

datatype TranscriptItem =
    T_User UserItem
  | T_Assistant AssistantItem
  | T_Tool ToolItem
  | T_Notice NoticeItem
  | T_Inject InjectItem

section \<open>Ambient state\<close>

datatype AmbientPlacement = Ap_AboveComposer | Ap_BelowComposer

record AmbientWidget =
  aw_key :: string
  aw_lines :: "string list"
  aw_placement :: AmbientPlacement

record AmbientState =
  am_statuses :: "(string, string) hashmap"
  am_widgets :: "(string, AmbientWidget) hashmap"
  am_title :: "string option"

definition default_ambient :: AmbientState where
  "default_ambient = \<lparr>am_statuses = [], am_widgets = [], am_title = None\<rparr>"

section \<open>Session state\<close>

record SessionState =
  ss_session_ref :: "SessionRef option"
  ss_title :: string
  ss_status :: SessionStatus
  ss_config :: SessionConfig
  ss_usage :: "SessionUsage option"
  ss_facet :: "string option"
  ss_permission_monitor :: "PermissionMonitorMode option"
  ss_adventurous_handoff :: "bool option"
  ss_notification_autodrain :: "bool option"
  ss_active_plan :: "string option"
  ss_goal :: "GoalInfo option option"
  ss_flags :: "FlaggedFile list"
  ss_todos :: "TodoItem list"
  ss_mcp_servers :: "McpServerInfo list"
  ss_cwd :: "string option"
  ss_cwd_stack_depth :: "i64 option"
  ss_items :: "TranscriptItem list"
  ss_pending_approvals :: "HostUiRequest list"
  ss_ambient :: AmbientState
  ss_queued :: "SessionQueuedMessage list"

definition initial_session_state :: SessionState where
  "initial_session_state = \<lparr>
     ss_session_ref = None, ss_title = '''', ss_status = St_Idle,
     ss_config = default_session_config, ss_usage = None, ss_facet = None,
     ss_permission_monitor = None, ss_adventurous_handoff = None,
     ss_notification_autodrain = None, ss_active_plan = None, ss_goal = None,
     ss_flags = [], ss_todos = [], ss_mcp_servers = [], ss_cwd = None,
     ss_cwd_stack_depth = None, ss_items = [], ss_pending_approvals = [],
     ss_ambient = default_ambient, ss_queued = []\<rparr>"

section \<open>Helpers on the item list\<close>

definition open_assistant :: "TranscriptItem list \<Rightarrow> AssistantItem option" where
  "open_assistant items =
     (if items = [] then None
      else case last items of
        T_Assistant a \<Rightarrow> if ai_streaming a then Some a else None
      | _ \<Rightarrow> None)"

definition close_open_assistant :: "TranscriptItem list \<Rightarrow> string option \<Rightarrow> TranscriptItem list" where
  "close_open_assistant items completed_at =
     (case open_assistant items of
        None \<Rightarrow> items
      | Some a \<Rightarrow>
          let a' = a\<lparr>ai_streaming := False\<rparr>;
              a'' = (case completed_at of None \<Rightarrow> a' | Some ts \<Rightarrow> a'\<lparr>ai_completed_at := Some ts\<rparr>)
          in butlast items @ [T_Assistant a''])"

datatype EntryIdKind = Ek_User | Ek_Assistant

fun stamp_entry_id :: "EntryIdKind \<Rightarrow> string \<Rightarrow> TranscriptItem \<Rightarrow> TranscriptItem option" where
  "stamp_entry_id Ek_User eid (T_User u) = Some (T_User (u\<lparr>ui_entry_id := Some eid\<rparr>))"
| "stamp_entry_id Ek_Assistant eid (T_Assistant a) =
     Some (T_Assistant (a\<lparr>ai_entry_id := Some eid\<rparr>))"
| "stamp_entry_id _ _ _ = None"

definition stamp_last_entry_id ::
  "TranscriptItem list \<Rightarrow> EntryIdKind \<Rightarrow> string \<Rightarrow> TranscriptItem list" where
  "stamp_last_entry_id items kind entry_id = update_last (stamp_entry_id kind entry_id) items"

fun interrupt_tool :: "string \<Rightarrow> TranscriptItem \<Rightarrow> TranscriptItem" where
  "interrupt_tool finished_at (T_Tool t) =
     (if ti_status t = Ts_Running
      then T_Tool (t\<lparr>ti_status := Ts_Interrupted, ti_finished_at := Some finished_at\<rparr>)
      else T_Tool t)"
| "interrupt_tool finished_at item = item"

definition interrupt_running_tools :: "TranscriptItem list \<Rightarrow> string \<Rightarrow> TranscriptItem list" where
  "interrupt_running_tools items finished_at = map (interrupt_tool finished_at) items"

definition push_item :: "TranscriptItem \<Rightarrow> SessionState \<Rightarrow> SessionState" where
  "push_item it st =
     st\<lparr>ss_items := close_open_assistant (ss_items st) None @ [it]\<rparr>"

section \<open>The reducer, one operation per kind of event\<close>

definition or_keep :: "'a option \<Rightarrow> 'a \<Rightarrow> 'a" where
  "or_keep new old = (case new of Some v \<Rightarrow> v | None \<Rightarrow> old)"

definition or_keep_opt :: "'a option \<Rightarrow> 'a option \<Rightarrow> 'a option" where
  "or_keep_opt new old = (case new of Some v \<Rightarrow> Some v | None \<Rightarrow> old)"

text \<open>The arm shared by \<^verbatim>\<open>sessionOpened\<close>, \<^verbatim>\<open>sessionUpdated\<close> and \<^verbatim>\<open>runCompleted\<close>, up to the closing of the bubble.\<close>

definition fold_snapshot :: "SessionState \<Rightarrow> SessionSnapshot \<Rightarrow> Timestamp \<Rightarrow> SessionState" where
  "fold_snapshot st sn ts = st\<lparr>
     ss_session_ref := Some (sn_ref sn),
     ss_title := sn_title sn,
     ss_status := sn_status sn,
     ss_config := or_keep (sn_config sn) (ss_config st),
     ss_usage := or_keep_opt (sn_usage sn) (ss_usage st),
     ss_facet := or_keep_opt (sn_facet sn) (ss_facet st),
     ss_permission_monitor := or_keep_opt (sn_permission_monitor sn) (ss_permission_monitor st),
     ss_adventurous_handoff := or_keep_opt (sn_adventurous_handoff sn) (ss_adventurous_handoff st),
     ss_notification_autodrain :=
       or_keep_opt (sn_notification_autodrain sn) (ss_notification_autodrain st),
     ss_active_plan := or_keep_opt (sn_active_plan sn) (ss_active_plan st),
     ss_goal := (case sn_goal sn of
                   None \<Rightarrow> ss_goal st
                 | Some None \<Rightarrow> None
                 | Some (Some g) \<Rightarrow> Some (Some g)),
     ss_flags := or_keep (sn_flags sn) (ss_flags st),
     ss_todos := or_keep (sn_todos sn) (ss_todos st),
     ss_mcp_servers := or_keep (sn_mcp_servers sn) (ss_mcp_servers st),
     ss_cwd := or_keep_opt (sn_cwd sn) (ss_cwd st),
     ss_cwd_stack_depth := or_keep_opt (sn_cwd_stack_depth sn) (ss_cwd_stack_depth st),
     ss_queued := or_keep (sn_queued_messages sn) (ss_queued st),
     ss_items := (if sn_status sn \<noteq> St_Running
                  then close_open_assistant (ss_items st) (Some ts) else ss_items st)\<rparr>"

text \<open>What \<^verbatim>\<open>runCompleted\<close> adds: settle the running tools, stamp the branch handles.\<close>

definition settle_run ::
  "TranscriptItem list \<Rightarrow> Timestamp \<Rightarrow> string option \<Rightarrow> string option \<Rightarrow> TranscriptItem list" where
  "settle_run items ts user_entry_id assistant_entry_id =
     (let items1 = interrupt_running_tools items ts;
          items2 = (case assistant_entry_id of
                      Some aid \<Rightarrow> stamp_last_entry_id items1 Ek_Assistant aid
                    | None \<Rightarrow> items1)
      in case user_entry_id of
           Some uid \<Rightarrow> stamp_last_entry_id items2 Ek_User uid
         | None \<Rightarrow> items2)"

fun append_delta :: "AssistantDeltaChannel option \<Rightarrow> string \<Rightarrow> TranscriptItem \<Rightarrow> TranscriptItem" where
  "append_delta (Some Ch_Thinking) text (T_Assistant a) =
     T_Assistant (a\<lparr>ai_thinking := ai_thinking a @ text\<rparr>)"
| "append_delta _ text (T_Assistant a) = T_Assistant (a\<lparr>ai_text := ai_text a @ text\<rparr>)"
| "append_delta _ text item = item"

definition new_bubble :: "Timestamp \<Rightarrow> nat \<Rightarrow> string option \<Rightarrow> AssistantItem" where
  "new_bubble ts n entry_id = \<lparr>
     ai_id = ''a-'' @ ts @ ''-'' @ show_nat n, ai_text = '''', ai_thinking = '''',
     ai_streaming = True, ai_ts = Some ts, ai_entry_id = entry_id, ai_completed_at = None\<rparr>"

definition fold_delta ::
  "TranscriptItem list \<Rightarrow> Timestamp \<Rightarrow> string \<Rightarrow> AssistantDeltaChannel option \<Rightarrow> string option
    \<Rightarrow> TranscriptItem list" where
  "fold_delta items ts text channel entry_id =
     (let items' = (case open_assistant items of
                      None \<Rightarrow> items @ [T_Assistant (new_bubble ts (length items) entry_id)]
                    | Some _ \<Rightarrow> items)
      in butlast items' @ [append_delta channel text (last items')])"

fun update_tool :: "string \<Rightarrow> (ToolItem \<Rightarrow> ToolItem) \<Rightarrow> TranscriptItem \<Rightarrow> TranscriptItem" where
  "update_tool call_id f (T_Tool t) = (if ti_id t = call_id then T_Tool (f t) else T_Tool t)"
| "update_tool call_id f item = item"

definition tool_progress :: "string option \<Rightarrow> f64 option \<Rightarrow> ToolItem \<Rightarrow> ToolItem" where
  "tool_progress text progress t =
     t\<lparr>ti_text := or_keep_opt text (ti_text t),
       ti_progress := or_keep_opt progress (ti_progress t)\<rparr>"

definition finish_status :: "bool \<Rightarrow> bool option \<Rightarrow> ToolStatus" where
  "finish_status success interrupted =
     (if interrupted = Some True then Ts_Interrupted else if success then Ts_Ok else Ts_Error)"

definition tool_finish ::
  "bool \<Rightarrow> json_value option \<Rightarrow> ImageContent list option \<Rightarrow> bool option \<Rightarrow> Timestamp
    \<Rightarrow> ToolItem \<Rightarrow> ToolItem" where
  "tool_finish success output images interrupted ts t =
     t\<lparr>ti_status := finish_status success interrupted,
       ti_output := output,
       ti_images := or_keep_opt images (ti_images t),
       ti_finished_at := Some ts\<rparr>"

fun placement_of :: "WidgetPlacement option \<Rightarrow> AmbientPlacement" where
  "placement_of None = Ap_AboveComposer"
| "placement_of (Some Wp_AboveComposer) = Ap_AboveComposer"
| "placement_of (Some Wp_BelowComposer) = Ap_BelowComposer"

fun notice_level_of :: "NotifyLevel option \<Rightarrow> NoticeLevel" where
  "notice_level_of None = Lv_Info"
| "notice_level_of (Some Nl_Info) = Lv_Info"
| "notice_level_of (Some Nl_Warning) = Lv_Warning"
| "notice_level_of (Some Nl_Error) = Lv_Error"

definition host_request_id :: "HostUiRequest \<Rightarrow> string" where
  "host_request_id req = request_id req"

text \<open>The fire-and-forget requests. Dialogs never reach this match (\<^verbatim>\<open>unreachable!\<close>): see \<open>fold_request\<close>.\<close>

fun fold_ambient :: "SessionState \<Rightarrow> HostUiRequest \<Rightarrow> SessionState" where
  "fold_ambient st (H_Status _ key text) =
     st\<lparr>ss_ambient := (ss_ambient st)\<lparr>am_statuses :=
        (case text of
           Some t \<Rightarrow> hm_insert key t (am_statuses (ss_ambient st))
         | None \<Rightarrow> hm_remove key (am_statuses (ss_ambient st)))\<rparr>\<rparr>"
| "fold_ambient st (H_Widget _ key lines placement) =
     st\<lparr>ss_ambient := (ss_ambient st)\<lparr>am_widgets :=
        (case lines of
           Some (l # ls) \<Rightarrow>
             hm_insert key \<lparr>aw_key = key, aw_lines = l # ls, aw_placement = placement_of placement\<rparr>
               (am_widgets (ss_ambient st))
         | _ \<Rightarrow> hm_remove key (am_widgets (ss_ambient st)))\<rparr>\<rparr>"
| "fold_ambient st (H_Title _ title) =
     st\<lparr>ss_ambient := (ss_ambient st)\<lparr>am_title := Some title\<rparr>\<rparr>"
| "fold_ambient st (H_Notify rid message level) =
     push_item (T_Notice \<lparr>ni_id = rid, ni_level = notice_level_of level, ni_text = message\<rparr>) st"
| "fold_ambient st (H_Reset _) = st\<lparr>ss_ambient := default_ambient\<rparr>"
| "fold_ambient st (H_EditorText _ _) = st"
| "fold_ambient st _ = st"

definition fold_request :: "SessionState \<Rightarrow> HostUiRequest \<Rightarrow> SessionState" where
  "fold_request st request =
     (if is_dialog_request request
      then if \<exists>p \<in> set (ss_pending_approvals st). host_request_id p = host_request_id request
           then st
           else st\<lparr>ss_pending_approvals := ss_pending_approvals st @ [request]\<rparr>
      else fold_ambient st request)"

definition error_notice :: "Timestamp \<Rightarrow> SessionErrorInfo \<Rightarrow> TranscriptItem" where
  "error_notice ts err =
     T_Notice \<lparr>ni_id = ''err-'' @ ts, ni_level = Lv_Error, ni_text = err_message err\<rparr>"

definition compat_notice :: "Timestamp \<Rightarrow> ExtensionCompatibilityIssue \<Rightarrow> TranscriptItem" where
  "compat_notice ts issue =
     T_Notice \<lparr>ni_id = ''compat-'' @ ts, ni_level = Lv_Warning,
       ni_text = ''Extension capability '' @ [CHR 0x22] @ ei_capability issue @ [CHR 0x22]
                 @ '' is terminal-only: '' @ ei_message issue\<rparr>"

fun fold_event :: "SessionState \<Rightarrow> SessionDriverEvent \<Rightarrow> SessionState" where
  "fold_event st (E_SessionOpened b sn) = fold_snapshot st sn (eb_timestamp b)"
| "fold_event st (E_SessionUpdated b sn) = fold_snapshot st sn (eb_timestamp b)"
| "fold_event st (E_RunCompleted b sn uid aid) =
     (let st' = fold_snapshot st sn (eb_timestamp b)
      in st'\<lparr>ss_items := settle_run (ss_items st') (eb_timestamp b) uid aid\<rparr>)"
| "fold_event st (E_UserMessage b mid text images entry_id references) =
     push_item (T_User \<lparr>ui_id = mid, ui_text = text, ui_images = images,
       ui_references = references, ui_ts = Some (eb_timestamp b), ui_entry_id = entry_id,
       ui_delivery = None, ui_delivery_error = None\<rparr>) st"
| "fold_event st (E_CustomMessage b mid custom_type text display turn_boundary) =
     push_item (T_Inject \<lparr>ii_id = mid, ii_custom_type = custom_type, ii_text = text,
       ii_display = display, ii_turn_boundary = turn_boundary,
       ii_ts = Some (eb_timestamp b)\<rparr>) st"
| "fold_event st (E_QueuedMessageStarted b m) =
     (push_item (T_User \<lparr>ui_id = qm_id m, ui_text = qm_text m, ui_images = None,
        ui_references = qm_references m, ui_ts = Some (qm_created_at m), ui_entry_id = None,
        ui_delivery = None, ui_delivery_error = None\<rparr>) st)
     \<lparr>ss_queued := filter (\<lambda>q. qm_id q \<noteq> qm_id m) (ss_queued st)\<rparr>"
| "fold_event st (E_QueueUpdated b messages) = st\<lparr>ss_queued := messages\<rparr>"
| "fold_event st (E_AssistantDelta b text channel entry_id) =
     st\<lparr>ss_items := fold_delta (ss_items st) (eb_timestamp b) text channel entry_id\<rparr>"
| "fold_event st (E_ToolStarted b tool_name call_id input label description) =
     push_item (T_Tool \<lparr>ti_id = call_id, ti_name = tool_name, ti_label = label,
       ti_description = description, ti_input = input, ti_output = None, ti_images = None,
       ti_text = None, ti_progress = None, ti_status = Ts_Running,
       ti_started_at = Some (eb_timestamp b), ti_finished_at = None\<rparr>) st"
| "fold_event st (E_ToolUpdated b call_id text progress) =
     st\<lparr>ss_items := map (update_tool call_id (tool_progress text progress)) (ss_items st)\<rparr>"
| "fold_event st (E_ToolFinished b call_id success output images interrupted) =
     st\<lparr>ss_items := map (update_tool call_id
         (tool_finish success output images interrupted (eb_timestamp b))) (ss_items st)\<rparr>"
| "fold_event st (E_UsageUpdated b usage) = st\<lparr>ss_usage := Some usage\<rparr>"
| "fold_event st (E_RunFailed b err) =
     st\<lparr>ss_items := interrupt_running_tools (close_open_assistant (ss_items st) None)
                      (eb_timestamp b) @ [error_notice (eb_timestamp b) err],
        ss_status := St_Failed\<rparr>"
| "fold_event st (E_HostUiRequest b request) = fold_request st request"
| "fold_event st (E_HostUiResolved b rid) =
     st\<lparr>ss_pending_approvals := filter (\<lambda>p. host_request_id p \<noteq> rid) (ss_pending_approvals st)\<rparr>"
| "fold_event st (E_ExtensionCompatibilityIssue b issue) =
     push_item (compat_notice (eb_timestamp b) issue) st"
| "fold_event st (E_SessionClosed b reason) =
     st\<lparr>ss_items := interrupt_running_tools
          (close_open_assistant (ss_items st) (Some (eb_timestamp b))) (eb_timestamp b),
        ss_status := (if reason = Cr_Failed then St_Failed else St_Idle)\<rparr>"
| "fold_event st (E_SessionReset b) = st\<lparr>ss_items := []\<rparr>"
| "fold_event st (E_NestedReplayStatus b handle status reason) = st"

fun fold_all_from :: "SessionState \<Rightarrow> SessionDriverEvent list \<Rightarrow> SessionState" where
  "fold_all_from st [] = st"
| "fold_all_from st (ev # evs) = fold_all_from (fold_event st ev) evs"

definition fold_all :: "SessionDriverEvent list \<Rightarrow> SessionState" where
  "fold_all events = fold_all_from initial_session_state events"

section \<open>Well-formed states\<close>

fun item_streaming :: "TranscriptItem \<Rightarrow> bool" where
  "item_streaming (T_Assistant a) = ai_streaming a"
| "item_streaming _ = False"

fun item_running :: "TranscriptItem \<Rightarrow> bool" where
  "item_running (T_Tool t) = (ti_status t = Ts_Running)"
| "item_running _ = False"

fun item_key :: "TranscriptItem \<Rightarrow> nat \<times> string" where
  "item_key (T_User u) = (0, ui_id u)"
| "item_key (T_Assistant a) = (1, ai_id a)"
| "item_key (T_Tool t) = (2, ti_id t)"
| "item_key (T_Notice n) = (3, ni_id n)"
| "item_key (T_Inject i) = (4, ii_id i)"

definition items_wf :: "TranscriptItem list \<Rightarrow> bool" where
  "items_wf items \<longleftrightarrow> (\<forall>it \<in> set (butlast items). \<not> item_streaming it)"

definition approvals_wf :: "HostUiRequest list \<Rightarrow> bool" where
  "approvals_wf ps \<longleftrightarrow> (\<forall>p \<in> set ps. is_dialog_request p) \<and> distinct (map host_request_id ps)"

definition widget_entry_wf :: "string \<times> AmbientWidget \<Rightarrow> bool" where
  "widget_entry_wf e \<longleftrightarrow> aw_key (snd e) = fst e \<and> aw_lines (snd e) \<noteq> []"

definition ambient_wf :: "AmbientState \<Rightarrow> bool" where
  "ambient_wf am \<longleftrightarrow> hm_wf (am_statuses am) \<and> hm_wf (am_widgets am) \<and>
     (\<forall>e \<in> set (am_widgets am). widget_entry_wf e)"

definition state_wf :: "SessionState \<Rightarrow> bool" where
  "state_wf st \<longleftrightarrow> items_wf (ss_items st) \<and> approvals_wf (ss_pending_approvals st) \<and>
     ambient_wf (ss_ambient st) \<and> ss_goal st \<noteq> Some None"

lemma open_assistant_Some:
  "open_assistant items = Some a \<longleftrightarrow>
     (\<exists>xs. items = xs @ [T_Assistant a]) \<and> ai_streaming a"
  by (cases items rule: rev_cases) (auto simp: open_assistant_def split: TranscriptItem.splits)

lemma open_assistant_snoc:
  "open_assistant (xs @ [x]) =
     (case x of T_Assistant a \<Rightarrow> if ai_streaming a then Some a else None | _ \<Rightarrow> None)"
  by (simp add: open_assistant_def)

lemma open_assistant_None_last:
  "open_assistant items = None \<Longrightarrow> items \<noteq> [] \<Longrightarrow> \<not> item_streaming (last items)"
  by (cases items rule: rev_cases)
     (auto simp: open_assistant_def split: TranscriptItem.splits if_splits)

text \<open>Closing the bubble of a well-formed list leaves nothing streaming.\<close>

lemma close_open_assistant_none_streaming:
  assumes "items_wf items"
  shows "\<forall>it \<in> set (close_open_assistant items c). \<not> item_streaming it"
proof (cases "open_assistant items")
  case None
  show ?thesis
  proof (cases items rule: rev_cases)
    case (snoc xs x)
    with None assms open_assistant_None_last [OF None] show ?thesis
      by (auto simp: close_open_assistant_def items_wf_def)
  qed (simp add: close_open_assistant_def open_assistant_def)
next
  case (Some a)
  then obtain xs where "items = xs @ [T_Assistant a]" by (auto simp: open_assistant_Some)
  with Some assms show ?thesis
    by (auto simp: close_open_assistant_def items_wf_def Let_def split: option.splits)
qed

lemma items_wf_none_streaming: "\<forall>it \<in> set items. \<not> item_streaming it \<Longrightarrow> items_wf items"
  by (auto simp: items_wf_def dest: in_set_butlastD)

lemma items_wf_snoc: "items_wf (xs @ [x]) \<longleftrightarrow> (\<forall>it \<in> set xs. \<not> item_streaming it)"
  by (simp add: items_wf_def)

lemma item_key_close: "map item_key (close_open_assistant items c) = map item_key items"
  by (cases "open_assistant items")
     (auto simp: close_open_assistant_def open_assistant_Some Let_def split: option.splits)

lemma item_streaming_interrupt [simp]: "item_streaming (interrupt_tool ts it) = item_streaming it"
  by (cases it) auto

lemma item_key_interrupt [simp]: "item_key (interrupt_tool ts it) = item_key it"
  by (cases it) auto

lemma item_streaming_update_tool [simp]: "item_streaming (update_tool cid f it) = item_streaming it"
  by (cases it) auto

lemma item_key_update_tool [simp]:
  "(\<And>t. ti_id (f t) = ti_id t) \<Longrightarrow> item_key (update_tool cid f it) = item_key it"
  by (cases it) auto

lemma stamp_entry_id_frame:
  "stamp_entry_id k e it = Some it' \<Longrightarrow>
     item_key it' = item_key it \<and> item_streaming it' = item_streaming it \<and>
     item_running it' = item_running it"
  by (cases "(k, e, it)" rule: stamp_entry_id.cases) auto

lemma map_stamp:
  assumes "\<And>it it'. stamp_entry_id k e it = Some it' \<Longrightarrow> g it' = g it"
  shows "map g (stamp_last_entry_id items k e) = map g items"
  unfolding stamp_last_entry_id_def by (rule update_last_map) (use assms in blast)

lemma items_wf_map: "items_wf items \<longleftrightarrow> (\<forall>b \<in> set (butlast (map item_streaming items)). \<not> b)"
  by (auto simp: items_wf_def map_butlast [symmetric])

lemma items_wf_cong: "map item_streaming xs = map item_streaming ys \<Longrightarrow> items_wf xs = items_wf ys"
  by (simp add: items_wf_map)

lemma streaming_interrupt_running: 
  "map item_streaming (interrupt_running_tools items ts) = map item_streaming items"
  by (simp add: interrupt_running_tools_def)

lemma interrupt_running_none: "\<forall>it \<in> set (interrupt_running_tools items ts). \<not> item_running it"
proof -
  have "\<not> item_running (interrupt_tool ts it)" for it by (cases it) auto
  then show ?thesis by (simp add: interrupt_running_tools_def)
qed

lemma settle_run_map:
  assumes "\<And>k e it it'. stamp_entry_id k e it = Some it' \<Longrightarrow> g it' = g it"
  shows "map g (settle_run items ts uid aid) = map g (interrupt_running_tools items ts)"
  by (auto simp: settle_run_def Let_def map_stamp assms split: option.splits)

lemmas settle_run_streaming =
  settle_run_map [where g = item_streaming, OF stamp_entry_id_frame [THEN conjunct2, THEN conjunct1]]
lemmas settle_run_key = settle_run_map [where g = item_key, OF stamp_entry_id_frame [THEN conjunct1]]
lemmas settle_run_running =
  settle_run_map [where g = item_running, OF stamp_entry_id_frame [THEN conjunct2, THEN conjunct2]]

lemma append_delta_streaming [simp]: "item_streaming (append_delta c t it) = item_streaming it"
  by (cases "(c, t, it)" rule: append_delta.cases) auto

lemma append_delta_key [simp]: "item_key (append_delta c t it) = item_key it"
  by (cases "(c, t, it)" rule: append_delta.cases) auto

lemma fold_delta_items_wf:
  assumes "items_wf items"
  shows "items_wf (fold_delta items ts text ch eid)"
proof (cases "open_assistant items")
  case None
  then have "\<forall>it \<in> set items. \<not> item_streaming it"
    using close_open_assistant_none_streaming [OF assms, of None]
    by (simp add: close_open_assistant_def)
  with None show ?thesis by (simp add: fold_delta_def items_wf_snoc)
next
  case (Some a)
  with assms show ?thesis
    by (auto simp: fold_delta_def items_wf_snoc open_assistant_Some open_assistant_snoc Let_def)
qed

lemma fold_snapshot_items_wf: "items_wf (ss_items st) \<Longrightarrow> items_wf (ss_items (fold_snapshot st sn ts))"
  by (auto simp: fold_snapshot_def intro: items_wf_none_streaming
     dest: close_open_assistant_none_streaming)

lemma push_item_items_wf:
  "items_wf (ss_items st) \<Longrightarrow> items_wf (ss_items (push_item it st))"
  using close_open_assistant_none_streaming by (auto simp: push_item_def items_wf_snoc)

lemma fold_ambient_items_wf:
  "items_wf (ss_items st) \<Longrightarrow> items_wf (ss_items (fold_ambient st r))"
  by (cases "(st, r)" rule: fold_ambient.cases) (auto intro: push_item_items_wf)

lemma fold_event_items_wf:
  assumes "items_wf (ss_items st)"
  shows "items_wf (ss_items (fold_event st ev))"
proof (cases ev)
  case (E_RunCompleted b sn uid aid)
  then show ?thesis
    using fold_snapshot_items_wf [OF assms, of sn "eb_timestamp b"]
    by (simp add: Let_def items_wf_map settle_run_streaming streaming_interrupt_running)
next
  case (E_RunFailed b err)
  show ?thesis
    using close_open_assistant_none_streaming [OF assms, of None]
    by (simp add: E_RunFailed items_wf_snoc interrupt_running_tools_def)
next
  case (E_SessionClosed b r)
  show ?thesis
    using close_open_assistant_none_streaming [OF assms, of "Some (eb_timestamp b)"]
    by (auto simp: E_SessionClosed interrupt_running_tools_def intro!: items_wf_none_streaming)
next
  case (E_ToolUpdated b cid tx p)
  then show ?thesis using assms by (simp add: items_wf_map comp_def)
next
  case (E_ToolFinished b cid s out im i)
  then show ?thesis using assms by (simp add: items_wf_map comp_def)
next
  case (E_SessionReset b)
  then show ?thesis by (simp add: items_wf_def)
qed (insert assms, auto simp: fold_request_def intro: fold_snapshot_items_wf push_item_items_wf
       fold_delta_items_wf fold_ambient_items_wf)


text \<open>Approvals, ambient state and goal.\<close>

lemma approvals_wf_append:
  assumes "approvals_wf ps" "is_dialog_request r"
    "\<not> (\<exists>p \<in> set ps. host_request_id p = host_request_id r)"
  shows "approvals_wf (ps @ [r])"
  using assms by (force simp: approvals_wf_def)

lemma approvals_wf_filter: "approvals_wf ps \<Longrightarrow> approvals_wf (filter P ps)"
  by (auto simp: approvals_wf_def distinct_map_filter)

lemma fold_widget_wf:
  assumes "hm_wf ws" "\<forall>e \<in> set ws. widget_entry_wf e" "ls \<noteq> []"
  shows "\<forall>e \<in> set (hm_insert k \<lparr>aw_key = k, aw_lines = ls, aw_placement = p\<rparr> ws). widget_entry_wf e"
  using assms set_hm_insert [of k "\<lparr>aw_key = k, aw_lines = ls, aw_placement = p\<rparr>" ws]
  by (auto simp: widget_entry_wf_def)

lemma fold_ambient_wf:
  assumes "ambient_wf (ss_ambient st)"
  shows "ambient_wf (ss_ambient (fold_ambient st r))"
proof (cases r)
  case (H_Widget rid key ls pl)
  show ?thesis
  proof (cases "\<exists>l ls'. ls = Some (l # ls')")
    case True
    then obtain l ls' where ls: "ls = Some (l # ls')" by blast
    from assms have "\<forall>e \<in> set (hm_insert key \<lparr>aw_key = key, aw_lines = l # ls',
        aw_placement = placement_of pl\<rparr> (am_widgets (ss_ambient st))). widget_entry_wf e"
      by (intro fold_widget_wf) (auto simp: ambient_wf_def)
    with assms ls show ?thesis by (simp add: H_Widget ambient_wf_def)
  next
    case False
    then have "am_widgets (ss_ambient (fold_ambient st r)) = hm_remove key (am_widgets (ss_ambient st))"
      "am_statuses (ss_ambient (fold_ambient st r)) = am_statuses (ss_ambient st)"
      by (auto simp: H_Widget split: option.splits list.splits)
    with assms set_hm_remove [of key "am_widgets (ss_ambient st)"] show ?thesis
      by (auto simp: ambient_wf_def)
  qed
qed (insert assms, auto simp: ambient_wf_def push_item_def default_ambient_def split: option.splits)

lemma fold_ambient_frame [simp]:
  "ss_pending_approvals (fold_ambient st r) = ss_pending_approvals st"
  "ss_goal (fold_ambient st r) = ss_goal st"
  by (cases "(st, r)" rule: fold_ambient.cases; simp add: push_item_def)+

lemma push_item_frame [simp]:
  "ss_pending_approvals (push_item it st) = ss_pending_approvals st"
  "ss_ambient (push_item it st) = ss_ambient st"
  "ss_goal (push_item it st) = ss_goal st"
  by (simp_all add: push_item_def)

lemma fold_snapshot_frame [simp]:
  "ss_pending_approvals (fold_snapshot st sn ts) = ss_pending_approvals st"
  "ss_ambient (fold_snapshot st sn ts) = ss_ambient st"
  by (simp_all add: fold_snapshot_def)

lemma fold_snapshot_goal: "ss_goal st \<noteq> Some None \<Longrightarrow> ss_goal (fold_snapshot st sn ts) \<noteq> Some None"
  by (auto simp: fold_snapshot_def split: option.splits)

lemma fold_event_approvals_wf:
  assumes "approvals_wf (ss_pending_approvals st)"
  shows "approvals_wf (ss_pending_approvals (fold_event st ev))"
  using assms
  by (cases ev) (auto simp: fold_request_def Let_def intro: approvals_wf_append approvals_wf_filter)

lemma fold_event_ambient_wf:
  assumes "ambient_wf (ss_ambient st)"
  shows "ambient_wf (ss_ambient (fold_event st ev))"
  using assms by (cases ev) (auto simp: fold_request_def Let_def intro: fold_ambient_wf)

lemma fold_event_goal:
  assumes "ss_goal st \<noteq> Some None"
  shows "ss_goal (fold_event st ev) \<noteq> Some None"
  using assms fold_snapshot_goal by (cases ev) (simp_all add: fold_request_def Let_def)

lemma state_wf_initial: "state_wf initial_session_state"
  by (simp add: state_wf_def initial_session_state_def items_wf_def approvals_wf_def ambient_wf_def
      default_ambient_def)

lemma state_wf_fold_event [inv_intros]: "state_wf st \<Longrightarrow> state_wf (fold_event st ev)"
  by (simp add: state_wf_def fold_event_items_wf fold_event_approvals_wf fold_event_ambient_wf
      fold_event_goal)

lemma state_wf_fold_all_from [inv_intros]: "state_wf st \<Longrightarrow> state_wf (fold_all_from st evs)"
  by (induction evs arbitrary: st) (auto intro: state_wf_fold_event)

lemma fold_all_from_append [simp]: "fold_all_from st (xs @ ys) = fold_all_from (fold_all_from st xs) ys"
  by (induction xs arbitrary: st) auto

lemma fold_all_snoc: "fold_all (evs @ [ev]) = fold_event (fold_all evs) ev"
  by (simp add: fold_all_def)

lemma fold_all_state_wf: "state_wf (fold_all evs)"
  by (simp add: fold_all_def state_wf_fold_all_from state_wf_initial)

section \<open>The transcript is append-only\<close>

definition item_keys :: "SessionState \<Rightarrow> (nat \<times> string) list" where
  "item_keys st = map item_key (ss_items st)"

fun is_reset :: "SessionDriverEvent \<Rightarrow> bool" where
  "is_reset (E_SessionReset _) = True"
| "is_reset _ = False"

lemma item_keys_push: "item_keys (push_item it st) = item_keys st @ [item_key it]"
  by (simp add: item_keys_def push_item_def item_key_close)

lemma item_keys_snapshot: "item_keys (fold_snapshot st sn ts) = item_keys st"
  by (simp add: item_keys_def fold_snapshot_def item_key_close)

lemma item_keys_delta:
  "\<exists>ks. length ks \<le> 1 \<and> map item_key (fold_delta items ts tx ch eid) = map item_key items @ ks"
proof (cases "open_assistant items")
  case None
  then show ?thesis by (simp add: fold_delta_def)
next
  case (Some a)
  then show ?thesis
    by (auto simp: fold_delta_def open_assistant_Some open_assistant_snoc)
qed

lemma item_keys_interrupt: "map item_key (interrupt_running_tools items ts) = map item_key items"
  by (simp add: interrupt_running_tools_def)

lemma item_keys_ambient:
  "\<exists>ks. length ks \<le> 1 \<and> item_keys (fold_ambient st r) = item_keys st @ ks"
  by (cases "(st, r)" rule: fold_ambient.cases) (simp_all add: item_keys_push, simp_all add: item_keys_def)

lemma tool_fn_id [simp]: "ti_id (tool_progress a b t) = ti_id t"
  "ti_id (tool_finish c d e f g t) = ti_id t"
  by (simp_all add: tool_progress_def tool_finish_def)

lemma item_keys_tools:
  "(\<And>t. ti_id (f t) = ti_id t) \<Longrightarrow> map item_key (map (update_tool cid f) items) = map item_key items"
  by (simp add: comp_def)

lemma fold_event_item_keys:
  assumes "\<not> is_reset ev"
  shows "\<exists>ks. length ks \<le> 1 \<and> item_keys (fold_event st ev) = item_keys st @ ks"
proof (cases ev)
  case (E_RunCompleted b sn uid aid)
  have "item_keys (fold_event st ev) = item_keys (fold_snapshot st sn (eb_timestamp b))"
    by (simp add: E_RunCompleted Let_def item_keys_def settle_run_key item_keys_interrupt)
  then show ?thesis by (simp add: item_keys_snapshot)
next
  case (E_AssistantDelta b tx ch eid)
  then show ?thesis using item_keys_delta by (simp add: item_keys_def)
next
  case (E_HostUiRequest b r)
  then show ?thesis
    using item_keys_ambient [of st r] by (auto simp: fold_request_def item_keys_def)
next
  case (E_RunFailed b err)
  then show ?thesis by (simp add: item_keys_def item_keys_interrupt item_key_close)
next
  case (E_SessionClosed b r)
  then show ?thesis by (simp add: item_keys_def item_keys_interrupt item_key_close)
next
  case (E_ToolUpdated b cid tx p)
  then show ?thesis by (simp add: item_keys_def item_keys_tools del: map_map)
next
  case (E_ToolFinished b cid s out im i)
  then show ?thesis by (simp add: item_keys_def item_keys_tools del: map_map)
next
  case (E_QueuedMessageStarted b m)
  then show ?thesis using item_keys_push by (simp add: item_keys_def)
qed (insert assms, simp_all add: item_keys_snapshot item_keys_push, simp_all add: item_keys_def)


section \<open>What the events settle\<close>

definition quiet :: "SessionState \<Rightarrow> bool" where
  "quiet st \<longleftrightarrow> (\<forall>it \<in> set (ss_items st). \<not> item_streaming it \<and> \<not> item_running it)"

lemma none_of_cong:
  assumes "map P xs = map P ys" "\<forall>y \<in> set ys. \<not> P y"
  shows "\<forall>x \<in> set xs. \<not> P x"
proof -
  have "True \<notin> set (map P ys)" using assms(2) by auto
  then have "True \<notin> set (map P xs)" using assms(1) by simp
  then show ?thesis by force
qed

lemma run_completed_quiet:
  assumes "items_wf (ss_items st)" "sn_status sn \<noteq> St_Running"
  shows "quiet (fold_event st (E_RunCompleted b sn uid aid))"
proof -
  let ?its = "ss_items (fold_snapshot st sn (eb_timestamp b))"
  let ?out = "settle_run ?its (eb_timestamp b) uid aid"
  have "\<forall>it \<in> set ?its. \<not> item_streaming it"
    using close_open_assistant_none_streaming [OF assms(1)] assms(2)
    by (simp add: fold_snapshot_def)
  then have "\<forall>it \<in> set ?out. \<not> item_streaming it"
    by (rule none_of_cong [rotated]) (simp add: settle_run_streaming streaming_interrupt_running)
  moreover have "\<forall>it \<in> set ?out. \<not> item_running it"
    by (rule none_of_cong [OF settle_run_running interrupt_running_none])
  ultimately show ?thesis by (simp add: quiet_def Let_def)
qed

lemma interrupt_close_quiet:
  assumes "items_wf items"
  shows "\<forall>it \<in> set (interrupt_running_tools (close_open_assistant items c) ts).
           \<not> item_streaming it \<and> \<not> item_running it"
  using interrupt_running_none [of "close_open_assistant items c" ts]
    close_open_assistant_none_streaming [OF assms, of c]
  by (auto simp: interrupt_running_tools_def)

lemma run_failed_quiet:
  "items_wf (ss_items st) \<Longrightarrow> quiet (fold_event st (E_RunFailed b err))"
  using interrupt_close_quiet by (auto simp: quiet_def error_notice_def)

lemma session_closed_quiet:
  "items_wf (ss_items st) \<Longrightarrow> quiet (fold_event st (E_SessionClosed b r))"
  using interrupt_close_quiet by (simp add: quiet_def)

section \<open>Which dialogs are pending\<close>

fun requests_dialog :: "string \<Rightarrow> SessionDriverEvent \<Rightarrow> bool" where
  "requests_dialog rid (E_HostUiRequest b r) = (is_dialog_request r \<and> request_id r = rid)"
| "requests_dialog rid _ = False"

fun resolves_dialog :: "string \<Rightarrow> SessionDriverEvent \<Rightarrow> bool" where
  "resolves_dialog rid (E_HostUiResolved b r) = (r = rid)"
| "resolves_dialog rid _ = False"

definition pending_ids :: "SessionState \<Rightarrow> string set" where
  "pending_ids st = host_request_id ` set (ss_pending_approvals st)"

lemma pending_ids_request:
  "rid \<in> pending_ids (fold_request st r) \<longleftrightarrow>
     is_dialog_request r \<and> request_id r = rid \<or> rid \<in> pending_ids st"
proof (cases "is_dialog_request r \<and> (\<exists>p \<in> set (ss_pending_approvals st). request_id p = request_id r)")
  case True
  then have "request_id r \<in> pending_ids st"
    by (metis host_request_id_def image_eqI pending_ids_def)
  with True show ?thesis by (auto simp: fold_request_def host_request_id_def)
qed (auto simp: pending_ids_def fold_request_def host_request_id_def)

lemma pending_ids_fold_event:
  "rid \<in> pending_ids (fold_event st ev) \<longleftrightarrow>
     requests_dialog rid ev \<or> (rid \<in> pending_ids st \<and> \<not> resolves_dialog rid ev)"
  by (cases ev) (simp_all add: pending_ids_request, auto simp: pending_ids_def Let_def)


lemma pending_ids_fold_all:
  "rid \<in> pending_ids (fold_all evs) \<longleftrightarrow>
     since (requests_dialog rid) (\<lambda>e. \<not> resolves_dialog rid e) evs"
proof (induction evs rule: rev_induct)
  case Nil
  then show ?case by (simp add: fold_all_def pending_ids_def initial_session_state_def)
next
  case (snoc e evs)
  then show ?case by (auto simp: fold_all_snoc pending_ids_fold_event since_snoc)
qed

section \<open>Streaming\<close>

fun delta_text :: "SessionDriverEvent \<Rightarrow> string" where
  "delta_text (E_AssistantDelta b tx ch eid) = (if ch = Some Ch_Thinking then [] else tx)"
| "delta_text _ = []"

fun delta_thinking :: "SessionDriverEvent \<Rightarrow> string" where
  "delta_thinking (E_AssistantDelta b tx ch eid) = (if ch = Some Ch_Thinking then tx else [])"
| "delta_thinking _ = []"

fun is_delta :: "SessionDriverEvent \<Rightarrow> bool" where
  "is_delta (E_AssistantDelta b tx ch eid) = True"
| "is_delta _ = False"

lemma append_delta_eq:
  "append_delta ch tx (T_Assistant a) =
     T_Assistant (a\<lparr>ai_text := ai_text a @ (if ch = Some Ch_Thinking then [] else tx),
       ai_thinking := ai_thinking a @ (if ch = Some Ch_Thinking then tx else [])\<rparr>)"
  by (cases "(ch, tx, T_Assistant a)" rule: append_delta.cases) auto

lemma fold_delta_open:
  assumes "ss_items st = xs @ [T_Assistant a]" "ai_streaming a" "is_delta ev"
  shows "fold_event st ev = st\<lparr>ss_items := xs @ [T_Assistant
    (a\<lparr>ai_text := ai_text a @ delta_text ev, ai_thinking := ai_thinking a @ delta_thinking ev\<rparr>)]\<rparr>"
  using assms by (cases ev) (auto simp: fold_delta_def open_assistant_snoc append_delta_eq)

lemma fold_deltas_open:
  assumes "ss_items st = xs @ [T_Assistant a]" "ai_streaming a" "list_all is_delta evs"
  shows "fold_all_from st evs = st\<lparr>ss_items := xs @ [T_Assistant
    (a\<lparr>ai_text := ai_text a @ concat (map delta_text evs),
       ai_thinking := ai_thinking a @ concat (map delta_thinking evs)\<rparr>)]\<rparr>"
  using assms
proof (induction evs arbitrary: st a)
  case (Cons ev evs)
  then show ?case by (simp add: fold_delta_open)
qed simp

lemma fold_delta_closed:
  assumes "open_assistant (ss_items st) = None"
  shows "fold_event st (E_AssistantDelta b tx ch eid) =
    st\<lparr>ss_items := ss_items st @ [append_delta ch tx
      (T_Assistant (new_bubble (eb_timestamp b) (length (ss_items st)) eid))]\<rparr>"
  using assms by (simp add: fold_delta_def)

lemma fold_delta_run:
  assumes "open_assistant (ss_items st) = None" "list_all is_delta evs"
  shows "ss_items (fold_all_from st (E_AssistantDelta b tx ch eid # evs)) = ss_items st @
    [T_Assistant ((new_bubble (eb_timestamp b) (length (ss_items st)) eid)
      \<lparr>ai_text := concat (map delta_text (E_AssistantDelta b tx ch eid # evs)),
       ai_thinking := concat (map delta_thinking (E_AssistantDelta b tx ch eid # evs))\<rparr>)]"
  using assms
  by (simp add: fold_delta_closed append_delta_eq fold_deltas_open new_bubble_def
      del: fold_event.simps)

section \<open>Properties\<close>

text \<open>
  Property C3. Every state the reducer can reach from the initial one is well formed: only the last
  transcript item can be streaming, the pending approvals are dialogs with distinct request
  ids, the ambient maps have one entry per key with every widget filed under its own key
  and showing at least one line, and the goal is never the "cleared" marker.
\<close>

theorem fold_state_well_formed: "state_wf (fold_all evs)"
  by (rule fold_all_state_wf)

text \<open>
  The transcript is append-only: folding one event keeps the kinds and ids of all items
  in place and adds at most one item at the end, except a session reset, which empties it.
\<close>

theorem transcript_append_only:
  "\<exists>ks. length ks \<le> 1 \<and>
     item_keys (fold_event st ev) = (if is_reset ev then [] else item_keys st @ ks)"
proof (cases "is_reset ev")
  case True
  then have "item_keys (fold_event st ev) = []" by (cases ev) (simp_all add: item_keys_def)
  with True show ?thesis by (intro exI [of _ "[]"]) simp
next
  case False
  with fold_event_item_keys show ?thesis by simp
qed

fun ends_turn :: "SessionDriverEvent \<Rightarrow> bool" where
  "ends_turn (E_RunCompleted b sn uid aid) = (sn_status sn \<noteq> St_Running)"
| "ends_turn (E_RunFailed b err) = True"
| "ends_turn (E_SessionClosed b r) = True"
| "ends_turn _ = False"

text \<open>
  The end of a turn settles the transcript: after a completed (not still running), failed
  or closed run no assistant bubble is streaming and no tool card is running, whatever
  events came before.
\<close>

theorem turn_end_settles:
  assumes "ends_turn ev"
  shows "quiet (fold_all (evs @ [ev]))"
proof -
  have "items_wf (ss_items (fold_all evs))"
    using fold_all_state_wf by (simp add: state_wf_def)
  then show ?thesis
    using assms run_completed_quiet run_failed_quiet session_closed_quiet
    by (cases ev) (simp_all add: fold_all_snoc del: fold_event.simps)
qed

abbreviation sample_base :: SessionEventBase where
  "sample_base \<equiv> \<lparr>eb_session_ref = \<lparr>sr_workspace_id = ''ws'', sr_session_id = ''s1''\<rparr>,
     eb_timestamp = ''t0'', eb_run_id = None, eb_subagent_handle = None\<rparr>"

theorem turn_end_settles_witness:
  "quiet (fold_all ([E_ToolStarted sample_base ''bash'' ''c1'' None None None,
     E_AssistantDelta sample_base ''hi'' None None] @ [E_SessionClosed sample_base Cr_Ended]))"
  by (rule turn_end_settles) simp

text \<open>
  A dialog is pending exactly when it has been requested and not resolved since: the id of
  a request is among the pending approvals if and only if some event requested it as a
  dialog and no later event resolved it.
\<close>

theorem pending_dialogs_exact:
  "rid \<in> pending_ids (fold_all evs) \<longleftrightarrow>
     since (requests_dialog rid) (\<lambda>e. \<not> resolves_dialog rid e) evs"
  by (rule pending_ids_fold_all)

text \<open>
  A run of assistant deltas after anything that is not a streaming bubble folds into
  exactly one new item, a bubble with the first delta's timestamp and entry id whose text
  and thinking are the concatenations of the deltas of each channel.
\<close>

theorem delta_run_is_one_bubble:
  assumes "open_assistant (ss_items st) = None" "list_all is_delta evs"
  shows "ss_items (fold_all_from st (E_AssistantDelta b tx ch eid # evs)) = ss_items st @
    [T_Assistant ((new_bubble (eb_timestamp b) (length (ss_items st)) eid)
      \<lparr>ai_text := concat (map delta_text (E_AssistantDelta b tx ch eid # evs)),
       ai_thinking := concat (map delta_thinking (E_AssistantDelta b tx ch eid # evs))\<rparr>)]"
  using assms by (rule fold_delta_run)

theorem delta_run_is_one_bubble_witness:
  "ss_items (fold_all_from initial_session_state
      [E_AssistantDelta sample_base ''He'' None None, E_AssistantDelta sample_base ''llo'' (Some Ch_Text) None])
   = [T_Assistant ((new_bubble ''t0'' 0 None)\<lparr>ai_text := ''Hello'', ai_thinking := ''''\<rparr>)]"
  using delta_run_is_one_bubble [of initial_session_state
      "[E_AssistantDelta sample_base ''llo'' (Some Ch_Text) None]" sample_base "''He''" None None]
  by (simp add: initial_session_state_def open_assistant_def del: fold_all_from.simps)

end
