(* ===== verification/Journal.thy ===== *)
theory Journal
  imports Session_State
begin

text \<open>
  The per-session append-only journal, \<^verbatim>\<open>server/pantoken-server/src/journal.rs\<close>: a compacted
  prefix, a bounded tail ring of stamped frames, delta coalescing, seeds and resume. The
  header of that file states its invariant: at every instant the fold of the seed is the
  state a connected client has folded. The lemmas prove it for every sequence of appends,
  together with the bounds of the ring and the soundness of a tail resume.

  \<^verbatim>\<open>Instant::now()\<close> is the argument \<open>now\<close>; the two lengths \<^verbatim>\<open>serde_json\<close> computes for the byte
  estimate are the fields of \<open>serde_len\<close>.
\<close>

section \<open>Data\<close>

definition TAIL_MAX_FRAMES :: nat where
  "TAIL_MAX_FRAMES = 1024"

definition TAIL_MAX_BYTES :: nat where
  "TAIL_MAX_BYTES = 256 * 1024"

record JournalFrame =
  jf_seq :: nat
  jf_ev :: SessionDriverEvent
  jf_bytes :: nat

record SessionJournal =
  j_epoch :: nat
  j_seq :: nat
  j_compacted :: "SessionDriverEvent list"
  j_tail :: "JournalFrame list"
  j_tail_bytes :: nat
  j_session_ref :: "SessionRef option"
  j_last_activity :: nat

record serde_len =
  json_len :: "json_value \<Rightarrow> nat"
  request_len :: "HostUiRequest \<Rightarrow> nat option"

section \<open>Merging and coalescing\<close>

definition event_subagent_handle :: "SessionDriverEvent \<Rightarrow> string option" where
  "event_subagent_handle ev = eb_subagent_handle (ev_base ev)"

definition effective_channel :: "AssistantDeltaChannel option \<Rightarrow> AssistantDeltaChannel" where
  "effective_channel ch = (case ch of Some c \<Rightarrow> c | None \<Rightarrow> Ch_Text)"

fun try_merge :: "SessionDriverEvent \<Rightarrow> SessionDriverEvent \<Rightarrow> SessionDriverEvent option" where
  "try_merge (E_AssistantDelta b tx ch eid) (E_AssistantDelta b' tx' ch' eid') =
     (if event_subagent_handle (E_AssistantDelta b tx ch eid)
           \<noteq> event_subagent_handle (E_AssistantDelta b' tx' ch' eid') then None
      else if effective_channel ch \<noteq> effective_channel ch' then None
      else Some (E_AssistantDelta b (tx @ tx') (Some (effective_channel ch)) eid))"
| "try_merge (E_UsageUpdated b u) (E_UsageUpdated b' u') = Some (E_UsageUpdated b' u')"
| "try_merge _ _ = None"

definition compacted_append ::
  "SessionDriverEvent list \<Rightarrow> SessionDriverEvent \<Rightarrow> SessionDriverEvent list" where
  "compacted_append compacted ev =
     (if compacted = [] then [ev]
      else case try_merge (last compacted) ev of
        Some merged \<Rightarrow> butlast compacted @ [merged]
      | None \<Rightarrow> compacted @ [ev])"

definition coalesce_events :: "SessionDriverEvent list \<Rightarrow> SessionDriverEvent list" where
  "coalesce_events events = foldl compacted_append [] events"

section \<open>The journal's operations\<close>

definition first_ref :: "SessionDriverEvent list \<Rightarrow> SessionRef option" where
  "first_ref seed = (case seed of [] \<Rightarrow> None | e # _ \<Rightarrow> Some (ev_session_ref e))"

definition create_journal :: "nat \<Rightarrow> nat \<Rightarrow> SessionDriverEvent list \<Rightarrow> SessionJournal" where
  "create_journal now epoch seed = \<lparr>
     j_epoch = epoch, j_seq = 0, j_compacted = coalesce_events seed, j_tail = [],
     j_tail_bytes = 0, j_session_ref = first_ref seed, j_last_activity = now\<rparr>"

definition bump_epoch ::
  "nat \<Rightarrow> SessionJournal \<Rightarrow> nat \<Rightarrow> SessionDriverEvent list \<Rightarrow> SessionJournal" where
  "bump_epoch now j epoch seed = j\<lparr>
     j_epoch := epoch, j_seq := 0, j_compacted := coalesce_events seed, j_tail := [],
     j_tail_bytes := 0, j_session_ref := first_ref seed, j_last_activity := now\<rparr>"

definition OVERHEAD :: nat where
  "OVERHEAD = 64"

definition opt_len :: "string option \<Rightarrow> nat" where
  "opt_len s = (case s of Some t \<Rightarrow> length t | None \<Rightarrow> 0)"

definition opt_json_len :: "serde_len \<Rightarrow> json_value option \<Rightarrow> nat" where
  "opt_json_len sd v = (case v of Some j \<Rightarrow> json_len sd j | None \<Rightarrow> 0)"

fun estimated_bytes :: "serde_len \<Rightarrow> SessionDriverEvent \<Rightarrow> nat" where
  "estimated_bytes sd (E_AssistantDelta b tx ch eid) = length tx + OVERHEAD"
| "estimated_bytes sd (E_UserMessage b mid tx im eid refs) = length mid + length tx + OVERHEAD"
| "estimated_bytes sd (E_CustomMessage b mid ct tx d tb) =
     length mid + length ct + length tx + OVERHEAD"
| "estimated_bytes sd (E_ToolStarted b name cid input label desc) =
     length name + length cid + opt_json_len sd input + opt_len label + opt_len desc + OVERHEAD"
| "estimated_bytes sd (E_ToolUpdated b cid tx p) = length cid + opt_len tx + OVERHEAD"
| "estimated_bytes sd (E_ToolFinished b cid s out im i) = length cid + opt_json_len sd out + OVERHEAD"
| "estimated_bytes sd (E_RunFailed b err) = length (err_message err) + OVERHEAD"
| "estimated_bytes sd (E_HostUiRequest b r) =
     (case request_len sd r of Some n \<Rightarrow> n | None \<Rightarrow> OVERHEAD)"
| "estimated_bytes sd _ = OVERHEAD"

text \<open>The eviction loop of \<^verbatim>\<open>append_event\<close>: while the ring overflows, its oldest frame joins the prefix.\<close>

fun evict_tail ::
  "SessionDriverEvent list \<Rightarrow> JournalFrame list \<Rightarrow> nat
    \<Rightarrow> SessionDriverEvent list \<times> JournalFrame list \<times> nat" where
  "evict_tail compacted [] bytes = (compacted, [], bytes)"
| "evict_tail compacted (f # fs) bytes =
     (if length (f # fs) > TAIL_MAX_FRAMES \<or> bytes > TAIL_MAX_BYTES
      then evict_tail (compacted_append compacted (jf_ev f)) fs (bytes - jf_bytes f)
      else (compacted, f # fs, bytes))"

definition append_event ::
  "serde_len \<Rightarrow> nat \<Rightarrow> SessionJournal \<Rightarrow> SessionDriverEvent \<Rightarrow> SessionJournal \<times> nat" where
  "append_event sd now j ev =
     (let seq = j_seq j + 1;
          bytes = estimated_bytes sd ev;
          tail = j_tail j @ [\<lparr>jf_seq = seq, jf_ev = ev, jf_bytes = bytes\<rparr>];
          (compacted', tail', bytes') = evict_tail (j_compacted j) tail (j_tail_bytes j + bytes)
      in (j\<lparr>j_seq := seq, j_compacted := compacted', j_tail := tail', j_tail_bytes := bytes',
            j_last_activity := now\<rparr>, seq))"

definition tail_covers :: "SessionJournal \<Rightarrow> nat \<Rightarrow> bool" where
  "tail_covers j seq =
     (if seq > j_seq j then False
      else if seq = j_seq j then True
      else case j_tail j of
        f # _ \<Rightarrow> jf_seq f \<le> seq + 1
      | [] \<Rightarrow> False)"

definition build_seed :: "SessionJournal \<Rightarrow> nat \<times> nat \<times> SessionDriverEvent list" where
  "build_seed j = (j_epoch j, j_seq j, coalesce_events (j_compacted j @ map jf_ev (j_tail j)))"

definition seed_events :: "SessionJournal \<Rightarrow> SessionDriverEvent list" where
  "seed_events j = snd (snd (build_seed j))"

section \<open>Metadata seeds\<close>

fun placement_to_widget :: "AmbientPlacement \<Rightarrow> WidgetPlacement" where
  "placement_to_widget Ap_AboveComposer = Wp_AboveComposer"
| "placement_to_widget Ap_BelowComposer = Wp_BelowComposer"

definition meta_snapshot :: "SessionState \<Rightarrow> SessionRef \<Rightarrow> Timestamp \<Rightarrow> SessionSnapshot" where
  "meta_snapshot st r ts = \<lparr>
     sn_ref = r,
     sn_workspace = \<lparr>wr_workspace_id = sr_workspace_id r, wr_path = '''', wr_display_name = None\<rparr>,
     sn_title = ss_title st, sn_status = ss_status st, sn_updated_at = ts,
     sn_archived_at = None, sn_preview = None, sn_config = Some (ss_config st),
     sn_usage = ss_usage st, sn_running_run_id = None,
     sn_queued_messages = Some (ss_queued st), sn_facet = ss_facet st,
     sn_permission_monitor = ss_permission_monitor st,
     sn_adventurous_handoff = ss_adventurous_handoff st,
     sn_notification_autodrain = ss_notification_autodrain st,
     sn_active_plan = ss_active_plan st,
     sn_goal = (case ss_goal st of Some (Some g) \<Rightarrow> Some (Some g) | _ \<Rightarrow> None),
     sn_flags = Some (ss_flags st), sn_todos = Some (ss_todos st),
     sn_mcp_servers = Some (ss_mcp_servers st), sn_cwd = ss_cwd st,
     sn_cwd_stack_depth = ss_cwd_stack_depth st\<rparr>"

definition meta_base :: "SessionRef \<Rightarrow> Timestamp \<Rightarrow> SessionEventBase" where
  "meta_base r ts = \<lparr>eb_session_ref = r, eb_timestamp = ts, eb_run_id = None,
     eb_subagent_handle = None\<rparr>"

definition meta_requests :: "SessionState \<Rightarrow> HostUiRequest list" where
  "meta_requests st =
     map (\<lambda>(k, t). H_Status (''meta-status-'' @ k) k (Some t)) (am_statuses (ss_ambient st))
     @ map (\<lambda>(_, w). H_Widget (''meta-widget-'' @ aw_key w) (aw_key w) (Some (aw_lines w))
              (Some (placement_to_widget (aw_placement w)))) (am_widgets (ss_ambient st))
     @ (case am_title (ss_ambient st) of
          Some t \<Rightarrow> [H_Title ''meta-title'' t]
        | None \<Rightarrow> [])
     @ ss_pending_approvals st"

definition meta_seed_events ::
  "SessionState \<Rightarrow> SessionRef \<Rightarrow> Timestamp \<Rightarrow> SessionDriverEvent list" where
  "meta_seed_events st session_ref ts =
     (let r = (case ss_session_ref st of Some r \<Rightarrow> r | None \<Rightarrow> session_ref);
          b = meta_base r ts
      in E_SessionOpened b (meta_snapshot st r ts) # map (E_HostUiRequest b) (meta_requests st))"

section \<open>Coalescing is fold-equivalent\<close>

text \<open>
  What a reducer promises to a compactor: merging two adjacent events does not change the
  fold, and appending either pushes the event or merges it into the last one.
\<close>

locale mergeable_fold =
  fixes step :: "'s \<Rightarrow> 'e \<Rightarrow> 's"
    and run :: "'s \<Rightarrow> 'e list \<Rightarrow> 's"
    and merge :: "'e \<Rightarrow> 'e \<Rightarrow> 'e option"
    and app :: "'e list \<Rightarrow> 'e \<Rightarrow> 'e list"
  assumes run_nil: "run s [] = s"
    and run_append: "run s (xs @ ys) = run (run s xs) ys"
    and run_single: "run s [e] = step s e"
    and merge_sound: "merge a b = Some c \<Longrightarrow> step (step s a) b = step s c"
    and app_cases: "app xs e = xs @ [e] \<or>
      (\<exists>ys x m. xs = ys @ [x] \<and> merge x e = Some m \<and> app xs e = ys @ [m])"
begin

lemma run_app: "run s (app xs e) = step (run s xs) e"
  using app_cases [of xs e]
proof
  assume "\<exists>ys x m. xs = ys @ [x] \<and> merge x e = Some m \<and> app xs e = ys @ [m]"
  then obtain ys x m where "xs = ys @ [x]" "merge x e = Some m" "app xs e = ys @ [m]" by blast
  then show ?thesis by (simp add: run_append run_single merge_sound)
qed (simp add: run_append run_single)

lemma run_foldl_app: "run s (foldl app xs es) = run s (xs @ es)"
proof (induction es arbitrary: xs)
  case (Cons e es)
  have "run s (foldl app xs (e # es)) = run (run s (app xs e)) es"
    by (simp add: Cons run_append)
  also have "\<dots> = run (run s (xs @ [e])) es"
    by (simp add: run_app run_append run_single)
  also have "\<dots> = run s ((xs @ [e]) @ es)"
    by (simp only: run_append)
  finally show ?case by simp
qed simp

end

lemma effective_channel_thinking: "effective_channel ch = Ch_Thinking \<longleftrightarrow> ch = Some Ch_Thinking"
  by (auto simp: effective_channel_def split: option.splits)

lemma fold_delta_merge:
  assumes "effective_channel ch = effective_channel ch'"
  shows "fold_event (fold_event st (E_AssistantDelta b tx ch eid)) (E_AssistantDelta b' tx' ch' eid')
    = fold_event st (E_AssistantDelta b (tx @ tx') (Some (effective_channel ch)) eid)"
proof -
  have same: "ch' = Some Ch_Thinking \<longleftrightarrow> ch = Some Ch_Thinking"
    using assms by (metis effective_channel_thinking)
  show ?thesis
  proof (cases "open_assistant (ss_items st)")
    case None
    then show ?thesis
      by (simp add: same fold_delta_def append_delta_eq open_assistant_snoc new_bubble_def
          effective_channel_thinking)
  next
    case (Some a)
    then obtain xs where "ss_items st = xs @ [T_Assistant a]" "ai_streaming a"
      by (auto simp: open_assistant_Some)
    then show ?thesis
      by (simp add: same fold_delta_def append_delta_eq open_assistant_snoc
          effective_channel_thinking)
  qed
qed

lemma try_merge_sound:
  assumes "try_merge a b = Some c"
  shows "fold_event (fold_event st a) b = fold_event st c"
  using assms
  by (cases "(a, b)" rule: try_merge.cases)
     (auto simp del: fold_event.simps(8) simp: fold_delta_merge split: if_splits)

lemma compacted_append_cases:
  "compacted_append xs e = xs @ [e] \<or>
     (\<exists>ys x m. xs = ys @ [x] \<and> try_merge x e = Some m \<and> compacted_append xs e = ys @ [m])"
  by (cases xs rule: rev_cases) (auto simp: compacted_append_def split: option.splits)

interpretation jm: mergeable_fold fold_event fold_all_from try_merge compacted_append
  by (unfold_locales; (rule compacted_append_cases | simp add: try_merge_sound))

lemma coalesce_fold: "fold_all_from st (coalesce_events evs) = fold_all_from st evs"
  using jm.run_foldl_app [of st "[]" evs] by (simp add: coalesce_events_def)


section \<open>What a journal represents\<close>

text \<open>
  \<open>journal_rep j pre evs\<close>: the journal \<open>j\<close> stands for the transcript \<open>pre\<close> (the seed of its
  epoch) followed by the stamped events \<open>evs\<close>. Some number \<open>n\<close> of them has been evicted into
  the compacted prefix; the tail holds the rest, with the sequence numbers from \<open>n + 1\<close>.
\<close>

definition stamped_from :: "nat \<Rightarrow> JournalFrame list \<Rightarrow> bool" where
  "stamped_from n fs \<longleftrightarrow> map jf_seq fs = [Suc n..<Suc n + length fs]"

definition journal_rep ::
  "SessionJournal \<Rightarrow> SessionDriverEvent list \<Rightarrow> SessionDriverEvent list \<Rightarrow> bool" where
  "journal_rep j pre evs \<longleftrightarrow>
     (\<exists>n. n \<le> length evs \<and> map jf_ev (j_tail j) = drop n evs \<and> stamped_from n (j_tail j)
        \<and> (\<forall>st. fold_all_from st (j_compacted j) = fold_all_from st (pre @ take n evs)))
     \<and> j_seq j = length evs \<and> j_tail_bytes j = sum_list (map jf_bytes (j_tail j))"

definition tail_bounded :: "SessionJournal \<Rightarrow> bool" where
  "tail_bounded j \<longleftrightarrow> length (j_tail j) \<le> TAIL_MAX_FRAMES \<and> j_tail_bytes j \<le> TAIL_MAX_BYTES"

lemma journal_rep_create: "journal_rep (create_journal now ep pre) pre []"
  by (simp add: journal_rep_def create_journal_def stamped_from_def coalesce_fold)

lemma journal_rep_bump: "journal_rep (bump_epoch now j ep pre) pre []"
  by (simp add: journal_rep_def bump_epoch_def stamped_from_def coalesce_fold)

lemma tail_bounded_create: "tail_bounded (create_journal now ep pre)"
  by (simp add: tail_bounded_def create_journal_def)

lemma stamped_from_Cons:
  "stamped_from n (f # fs) \<longleftrightarrow> jf_seq f = Suc n \<and> stamped_from (Suc n) fs"
  by (simp add: stamped_from_def upt_conv_Cons del: upt_Suc)

lemma stamped_from_snoc:
  "stamped_from n (fs @ [f]) \<longleftrightarrow> stamped_from n fs \<and> jf_seq f = Suc (n + length fs)"
  by (simp add: stamped_from_def)

lemma stamped_from_drop:
  "stamped_from n fs \<Longrightarrow> k \<le> length fs \<Longrightarrow> stamped_from (n + k) (drop k fs)"
  by (simp add: stamped_from_def drop_map [symmetric] drop_upt del: upt_Suc)

text \<open>The eviction loop: some prefix of the ring moves into the compacted events, byte count in step.\<close>

lemma evict_tail_result:
  assumes "evict_tail c fs bytes = (c', fs', bytes')" "bytes = sum_list (map jf_bytes fs)"
  shows "\<exists>k. k \<le> length fs \<and> fs' = drop k fs \<and> bytes' = sum_list (map jf_bytes fs')
     \<and> (\<forall>st. fold_all_from st c' = fold_all_from st (c @ map jf_ev (take k fs)))"
  using assms
proof (induction c fs bytes rule: evict_tail.induct)
  case (1 c bytes)
  then show ?case by simp
next
  case (2 c f fs bytes)
  show ?case
  proof (cases "length (f # fs) > TAIL_MAX_FRAMES \<or> bytes > TAIL_MAX_BYTES")
    case True
    with 2 obtain k where "k \<le> length fs" "fs' = drop k fs" "bytes' = sum_list (map jf_bytes fs')"
      "\<forall>st. fold_all_from st c' = fold_all_from st (compacted_append c (jf_ev f) @ map jf_ev (take k fs))"
      by auto
    then show ?thesis by (intro exI [of _ "Suc k"]) (simp add: jm.run_app)
  next
    case False
    with 2 show ?thesis by (intro exI [of _ 0]) auto
  qed
qed

lemma evict_tail_bounded:
  assumes "evict_tail c fs bytes = (c', fs', bytes')" "bytes = sum_list (map jf_bytes fs)"
  shows "length fs' \<le> TAIL_MAX_FRAMES \<and> bytes' \<le> TAIL_MAX_BYTES"
  using assms
  by (induction c fs bytes rule: evict_tail.induct) (auto split: if_splits)

lemma append_event_fields:
  assumes "append_event sd now j ev = (j', seq)"
  shows "seq = Suc (j_seq j)" "j_seq j' = Suc (j_seq j)" "j_epoch j' = j_epoch j"
    "j_session_ref j' = j_session_ref j" "j_last_activity j' = now"
  using assms by (auto simp: append_event_def Let_def split: prod.splits)

lemma journal_rep_append:
  assumes rep: "journal_rep j pre evs" and app: "append_event sd now j ev = (j', seq)"
  shows "journal_rep j' pre (evs @ [ev])"
proof -
  obtain n where n: "n \<le> length evs" "map jf_ev (j_tail j) = drop n evs" "stamped_from n (j_tail j)"
    "\<And>st. fold_all_from st (j_compacted j) = fold_all_from st (pre @ take n evs)"
    and seq: "j_seq j = length evs" and bytes: "j_tail_bytes j = sum_list (map jf_bytes (j_tail j))"
    using rep by (auto simp: journal_rep_def)
  define f where "f = \<lparr>jf_seq = j_seq j + 1, jf_ev = ev, jf_bytes = estimated_bytes sd ev\<rparr>"
  obtain c' fs' b' where ev: "evict_tail (j_compacted j) (j_tail j @ [f])
      (j_tail_bytes j + estimated_bytes sd ev) = (c', fs', b')"
    by (metis prod_cases3)
  have j': "j' = j\<lparr>j_seq := j_seq j + 1, j_compacted := c', j_tail := fs', j_tail_bytes := b',
      j_last_activity := now\<rparr>"
    using app ev by (auto simp: append_event_def Let_def f_def)
  obtain k where k: "k \<le> length (j_tail j @ [f])" "fs' = drop k (j_tail j @ [f])"
    "b' = sum_list (map jf_bytes fs')"
    "\<And>st. fold_all_from st c' = fold_all_from st (j_compacted j @ map jf_ev (take k (j_tail j @ [f])))"
    using evict_tail_result [OF ev] bytes by (auto simp: f_def)
  have len: "length (j_tail j) = length evs - n" using n(2) by (metis length_drop length_map)
  have evs: "map jf_ev (j_tail j @ [f]) = drop n (evs @ [ev])"
    using n(1,2) by (simp add: f_def)
  have st: "stamped_from n (j_tail j @ [f])"
    using n(1,3) len seq by (simp add: stamped_from_snoc f_def)
  have "map jf_ev fs' = drop (n + k) (evs @ [ev])"
    using evs k(2) by (metis add.commute drop_drop drop_map)
  moreover have "stamped_from (n + k) fs'"
    using stamped_from_drop [OF st k(1)] k(2) by simp
  moreover have "map jf_ev (take k (j_tail j @ [f])) = take k (drop n (evs @ [ev]))"
    using evs by (metis take_map)
  then have "fold_all_from s c' = fold_all_from s (pre @ take (n + k) (evs @ [ev]))" for s
    using n(1,4) by (simp add: k(4) take_add del: take_append) (simp add: add.commute)
  moreover have "n + k \<le> length (evs @ [ev])" using k(1) len n(1) by simp
  ultimately show ?thesis
    using k(3) seq by (auto simp: journal_rep_def j' simp del: drop_append take_append)
qed

lemma tail_bounded_append:
  assumes "journal_rep j pre evs" "append_event sd now j ev = (j', seq)"
  shows "tail_bounded j'"
proof -
  obtain c' fs' b' where ev: "evict_tail (j_compacted j)
      (j_tail j @ [\<lparr>jf_seq = j_seq j + 1, jf_ev = ev, jf_bytes = estimated_bytes sd ev\<rparr>])
      (j_tail_bytes j + estimated_bytes sd ev) = (c', fs', b')"
    by (metis prod_cases3)
  then have "length fs' \<le> TAIL_MAX_FRAMES \<and> b' \<le> TAIL_MAX_BYTES"
    by (rule evict_tail_bounded) (use assms(1) in \<open>simp add: journal_rep_def\<close>)
  with assms(2) ev show ?thesis
    by (auto simp: append_event_def tail_bounded_def Let_def)
qed


lemma seed_events_rep:
  assumes "journal_rep j pre evs"
  shows "fold_all_from st (seed_events j) = fold_all_from st (pre @ evs)"
proof -
  obtain n where n: "map jf_ev (j_tail j) = drop n evs"
    "\<And>st. fold_all_from st (j_compacted j) = fold_all_from st (pre @ take n evs)"
    using assms by (auto simp: journal_rep_def)
  have "fold_all_from st (seed_events j) = fold_all_from (fold_all_from st (pre @ take n evs)) (drop n evs)"
    by (simp add: seed_events_def build_seed_def coalesce_fold n)
  also have "\<dots> = fold_all_from st (pre @ take n evs @ drop n evs)"
    by (simp only: fold_all_from_append append_assoc)
  finally show ?thesis by simp
qed

definition folded_journal :: "SessionJournal \<Rightarrow> SessionState" where
  "folded_journal j = fold_all (seed_events j)"

lemma folded_journal_rep: "journal_rep j pre evs \<Longrightarrow> folded_journal j = fold_all (pre @ evs)"
  by (simp add: folded_journal_def fold_all_def seed_events_rep del: fold_all_from_append)

section \<open>Resume\<close>

definition resume_frames :: "SessionJournal \<Rightarrow> nat \<Rightarrow> JournalFrame list" where
  "resume_frames j seq = filter (\<lambda>f. jf_seq f > seq) (j_tail j)"

lemma stamped_filter:
  assumes "stamped_from n fs" "n \<le> k"
  shows "filter (\<lambda>f. jf_seq f > k) fs = drop (k - n) fs"
  using assms
proof (induction fs arbitrary: n)
  case (Cons f fs)
  then show ?case
  proof (cases "k = n")
    case True
    have "jf_seq g > k" if "g \<in> set (f # fs)" for g
    proof -
      from that have "jf_seq g \<in> set (map jf_seq (f # fs))" by auto
      then show ?thesis using Cons.prems(1) True by (simp only: stamped_from_def) auto
    qed
    then show ?thesis using True by (simp add: filter_id_conv)
  next
    case False
    then have "filter (\<lambda>f. jf_seq f > k) fs = drop (k - Suc n) fs"
      using Cons.prems by (intro Cons.IH) (auto simp: stamped_from_Cons)
    moreover have "k - n = Suc (k - Suc n)" using False Cons.prems(2) by simp
    moreover have "\<not> jf_seq f > k" using Cons.prems False by (simp add: stamped_from_Cons)
    ultimately show ?thesis by simp
  qed
qed simp

text \<open>The guard means exactly that nothing between the client's watermark and the ring is missing.\<close>

lemma tail_covers_iff:
  assumes "journal_rep j pre evs"
  shows "tail_covers j k \<longleftrightarrow> j_seq j - length (j_tail j) \<le> k \<and> k \<le> j_seq j"
proof -
  obtain n where n: "n \<le> length evs" "map jf_ev (j_tail j) = drop n evs" "stamped_from n (j_tail j)"
    and seq: "j_seq j = length evs"
    using assms by (auto simp: journal_rep_def)
  have len: "length (j_tail j) = length evs - n" using n(2) by (metis length_drop length_map)
  show ?thesis
    using n seq len
    by (cases "j_tail j") (auto simp: tail_covers_def stamped_from_Cons)
qed

lemma resume_frames_rep:
  assumes rep: "journal_rep j pre evs" and cov: "tail_covers j k"
  shows "map jf_ev (resume_frames j k) = drop k evs"
    and "map jf_seq (resume_frames j k) = [Suc k..<Suc (length evs)]"
proof -
  obtain n where n: "n \<le> length evs" "map jf_ev (j_tail j) = drop n evs" "stamped_from n (j_tail j)"
    and seq: "j_seq j = length evs"
    using rep by (auto simp: journal_rep_def)
  have len: "length (j_tail j) = length evs - n" using n(2) by (metis length_drop length_map)
  then have k: "n \<le> k" "k \<le> length evs"
    using cov tail_covers_iff [OF rep] seq n(1) by auto
  have fr: "resume_frames j k = drop (k - n) (j_tail j)"
    unfolding resume_frames_def by (rule stamped_filter [OF n(3) k(1)])
  show "map jf_ev (resume_frames j k) = drop k evs"
    using k(1) by (simp add: fr drop_map [symmetric] n(2))
  show "map jf_seq (resume_frames j k) = [Suc k..<Suc (length evs)]"
    using k n(1,3) len by (simp add: fr drop_map [symmetric] stamped_from_def drop_upt del: upt_Suc)
qed

section \<open>Runs of appends\<close>

definition append_all ::
  "serde_len \<Rightarrow> SessionJournal \<Rightarrow> (nat \<times> SessionDriverEvent) list \<Rightarrow> SessionJournal" where
  "append_all sd j evs = foldl (\<lambda>j (now, ev). fst (append_event sd now j ev)) j evs"

lemma append_all_snoc:
  "append_all sd j (evs @ [(now, ev)]) = fst (append_event sd now (append_all sd j evs) ev)"
  by (simp add: append_all_def)

lemma append_all_rep:
  assumes "journal_rep j pre old"
  shows "journal_rep (append_all sd j evs) pre (old @ map snd evs)"
proof (induction evs rule: rev_induct)
  case Nil
  with assms show ?case by (simp add: append_all_def)
next
  case (snoc e evs)
  obtain now ev where e: "e = (now, ev)" by (cases e)
  show ?case
    using journal_rep_append [OF snoc prod.collapse [symmetric], of sd now ev]
    by (simp add: e append_all_snoc)
qed

lemma append_all_bounded:
  assumes "journal_rep j pre old" "tail_bounded j"
  shows "tail_bounded (append_all sd j evs)"
proof (cases evs rule: rev_cases)
  case Nil
  with assms show ?thesis by (simp add: append_all_def)
next
  case (snoc es e)
  obtain now ev where e: "e = (now, ev)" by (cases e)
  show ?thesis
    using tail_bounded_append [OF append_all_rep [OF assms(1)] prod.collapse [symmetric]]
    by (simp add: snoc e append_all_snoc)
qed

section \<open>The metadata seed reproduces everything but the items\<close>

lemma placement_roundtrip [simp]: "placement_of (Some (placement_to_widget p)) = p"
  by (cases p) auto

lemma fold_requests:
  "fold_all_from st (map (E_HostUiRequest b) rs) = foldl fold_request st rs"
  by (induction rs arbitrary: st) auto

lemma fold_request_ambient: "\<not> is_dialog_request r \<Longrightarrow> fold_request st r = fold_ambient st r"
  by (simp add: fold_request_def)

lemma fold_status_requests:
  assumes "distinct (map fst sts)" "fst ` set sts \<inter> fst ` set (am_statuses (ss_ambient st)) = {}"
  shows "foldl fold_request st (map (\<lambda>(k, t). H_Status (f k) k (Some t)) sts) =
    st\<lparr>ss_ambient := (ss_ambient st)\<lparr>am_statuses := am_statuses (ss_ambient st) @ sts\<rparr>\<rparr>"
  using assms
proof (induction sts arbitrary: st)
  case (Cons p sts)
  obtain k t where p: "p = (k, t)" by (cases p)
  show ?case
    using Cons.prems by (simp add: p Cons.IH fold_request_ambient hm_insert_fresh)
qed simp

lemma fold_widget_requests:
  assumes "distinct (map fst ws)" "fst ` set ws \<inter> fst ` set (am_widgets (ss_ambient st)) = {}"
    "\<forall>e \<in> set ws. widget_entry_wf e"
  shows "foldl fold_request st (map (\<lambda>(_, w). H_Widget (g w) (aw_key w) (Some (aw_lines w))
              (Some (placement_to_widget (aw_placement w)))) ws) =
    st\<lparr>ss_ambient := (ss_ambient st)\<lparr>am_widgets := am_widgets (ss_ambient st) @ ws\<rparr>\<rparr>"
  using assms
proof (induction ws arbitrary: st)
  case (Cons p ws)
  obtain k w where p: "p = (k, w)" by (cases p)
  with Cons.prems have w: "aw_key w = k" "aw_lines w \<noteq> []" by (auto simp: widget_entry_wf_def)
  then obtain l ls where ls: "aw_lines w = l # ls" by (cases "aw_lines w") auto
  have "w = \<lparr>aw_key = k, aw_lines = l # ls, aw_placement = aw_placement w\<rparr>"
    using w ls by simp
  then have "fold_request st (H_Widget (g w) (aw_key w) (Some (aw_lines w))
      (Some (placement_to_widget (aw_placement w)))) =
    st\<lparr>ss_ambient := (ss_ambient st)\<lparr>am_widgets := am_widgets (ss_ambient st) @ [(k, w)]\<rparr>\<rparr>"
    using Cons.prems p w ls by (simp add: fold_request_ambient hm_insert_fresh)
  then show ?case
    using Cons.prems by (simp add: p Cons.IH)
qed simp

lemma fold_approval_requests:
  assumes "approvals_wf (ss_pending_approvals st @ ps)"
  shows "foldl fold_request st ps = st\<lparr>ss_pending_approvals := ss_pending_approvals st @ ps\<rparr>"
  using assms
proof (induction ps arbitrary: st)
  case (Cons p ps)
  then have "is_dialog_request p" "host_request_id p \<notin> host_request_id ` set (ss_pending_approvals st)"
    by (auto simp: approvals_wf_def)
  then have "fold_request st p = st\<lparr>ss_pending_approvals := ss_pending_approvals st @ [p]\<rparr>"
    unfolding fold_request_def by (metis (no_types, lifting) image_eqI)
  with Cons show ?case by simp
qed simp

definition meta_of :: "SessionState \<Rightarrow> SessionRef \<Rightarrow> SessionState" where
  "meta_of st r = st\<lparr>ss_session_ref := Some (case ss_session_ref st of Some r' \<Rightarrow> r' | None \<Rightarrow> r),
     ss_items := []\<rparr>"

lemma or_keep_simps [simp]: "or_keep (Some v) old = v" "or_keep_opt new None = new"
  by (simp_all add: or_keep_def or_keep_opt_def split: option.splits)

lemma close_nothing [simp]: "close_open_assistant [] c = []"
  by (simp add: close_open_assistant_def open_assistant_def)

lemma fold_meta_snapshot:
  assumes "ss_goal st \<noteq> Some None"
  shows "fold_snapshot initial_session_state (meta_snapshot st r ts) ts =
    st\<lparr>ss_session_ref := Some r, ss_items := [], ss_pending_approvals := [],
       ss_ambient := default_ambient\<rparr>"
proof -
  consider "ss_goal st = None" | g where "ss_goal st = Some (Some g)"
    using assms by (metis option.exhaust)
  then show ?thesis
    by cases (cases st, simp add: fold_snapshot_def meta_snapshot_def initial_session_state_def)+
qed

lemma fold_meta_seed:
  assumes "state_wf st"
  shows "fold_all (meta_seed_events st r ts) = meta_of st r"
proof -
  define r' where "r' = (case ss_session_ref st of Some r' \<Rightarrow> r' | None \<Rightarrow> r)"
  let ?s0 = "st\<lparr>ss_session_ref := Some r', ss_items := [], ss_pending_approvals := [],
       ss_ambient := default_ambient\<rparr>"
  have wf: "hm_wf (am_statuses (ss_ambient st))" "hm_wf (am_widgets (ss_ambient st))"
    "\<forall>e \<in> set (am_widgets (ss_ambient st)). widget_entry_wf e"
    "approvals_wf (ss_pending_approvals st)" "ss_goal st \<noteq> Some None"
    using assms by (auto simp: state_wf_def ambient_wf_def)
  have "fold_all (meta_seed_events st r ts) = foldl fold_request ?s0 (meta_requests st)"
    using fold_meta_snapshot [OF wf(5), of r' ts]
    by (simp add: fold_all_def meta_seed_events_def Let_def r'_def [symmetric] fold_requests meta_base_def)
  also have "\<dots> = meta_of st r"
    using wf(1-4)
    by (cases "am_title (ss_ambient st)")
       (simp_all add: meta_requests_def fold_status_requests fold_widget_requests fold_approval_requests
        default_ambient_def hm_wf_def meta_of_def r'_def [symmetric] fold_request_ambient)
  finally show ?thesis .
qed

section \<open>Properties\<close>

text \<open>
  Property C37. Delta coalescing is fold-equivalent: from any state, folding the coalesced events gives
  the same state as folding the events themselves.
\<close>

theorem coalescing_preserves_fold:
  "fold_all_from st (coalesce_events evs) = fold_all_from st evs"
  by (rule coalesce_fold)

text \<open>
  Property C4. The journal's invariant: however many events were appended, evicted and compacted,
  the seed built from the journal folds to the state of the whole transcript, the seed of
  the epoch followed by every appended event.
\<close>

theorem seed_reproduces_transcript:
  "fold_all (seed_events (append_all sd (create_journal now ep pre) evs)) = fold_all (pre @ map snd evs)"
  using folded_journal_rep [OF append_all_rep [OF journal_rep_create]]
  by (simp add: folded_journal_def)

text \<open>
  Property C5. A tail resume is lossless: a client that has folded the first \<open>k\<close> events of the epoch and
  whose watermark the ring covers reaches the journal's current state by folding the
  replayed frames, and these carry the sequence numbers from \<open>k + 1\<close> on without a gap.
\<close>

theorem resume_catches_up:
  assumes "tail_covers (append_all sd (create_journal now ep pre) evs) k"
  shows "fold_all_from (fold_all (pre @ take k (map snd evs)))
      (map jf_ev (resume_frames (append_all sd (create_journal now ep pre) evs) k))
    = fold_all (pre @ map snd evs)
    \<and> map jf_seq (resume_frames (append_all sd (create_journal now ep pre) evs) k)
    = [Suc k..<Suc (length evs)]"
proof
  have rep: "journal_rep (append_all sd (create_journal now ep pre) evs) pre (map snd evs)"
    using append_all_rep [OF journal_rep_create] by simp
  show "map jf_seq (resume_frames (append_all sd (create_journal now ep pre) evs) k)
    = [Suc k..<Suc (length evs)]"
    using resume_frames_rep(2) [OF rep assms] by simp
  have "fold_all_from (fold_all (pre @ take k (map snd evs))) (drop k (map snd evs))
    = fold_all_from initial_session_state ((pre @ take k (map snd evs)) @ drop k (map snd evs))"
    by (simp only: fold_all_from_append fold_all_def)
  also have "(pre @ take k (map snd evs)) @ drop k (map snd evs) = pre @ map snd evs"
    by (simp only: append_assoc append_take_drop_id)
  finally show "fold_all_from (fold_all (pre @ take k (map snd evs)))
      (map jf_ev (resume_frames (append_all sd (create_journal now ep pre) evs) k))
    = fold_all (pre @ map snd evs)"
    by (simp only: resume_frames_rep(1) [OF rep assms] fold_all_def)
qed

abbreviation sample_serde :: serde_len where
  "sample_serde \<equiv> \<lparr>json_len = (\<lambda>_. 2), request_len = (\<lambda>_. Some 40)\<rparr>"

abbreviation sample_evs :: "(nat \<times> SessionDriverEvent) list" where
  "sample_evs \<equiv> [(1, E_AssistantDelta sample_base ''a'' None None),
     (2, E_AssistantDelta sample_base ''b'' None None)]"

lemma sample_covers: "tail_covers (append_all sample_serde (create_journal 0 7 []) sample_evs) 1"
  by (simp add: append_all_def append_event_def create_journal_def tail_covers_def OVERHEAD_def
      TAIL_MAX_FRAMES_def TAIL_MAX_BYTES_def)

theorem resume_catches_up_witness:
  "map jf_seq (resume_frames (append_all sample_serde (create_journal 0 7 []) sample_evs) 1) = [2]"
  using resume_catches_up [OF sample_covers] by simp

text \<open>
  The resume guard is exact: the ring covers a watermark if and only if the watermark is
  not ahead of the journal and no event after it has been evicted from the ring.
\<close>

theorem resume_guard_exact:
  "tail_covers (append_all sd (create_journal now ep pre) evs) k \<longleftrightarrow>
     length evs - length (j_tail (append_all sd (create_journal now ep pre) evs)) \<le> k
     \<and> k \<le> length evs"
proof -
  have rep: "journal_rep (append_all sd (create_journal now ep pre) evs) pre (map snd evs)"
    using append_all_rep [OF journal_rep_create] by simp
  then have "j_seq (append_all sd (create_journal now ep pre) evs) = length evs"
    by (simp add: journal_rep_def)
  then show ?thesis using tail_covers_iff [OF rep] by simp
qed

text \<open>
  Property C38. The tail ring never exceeds its caps of 1024 frames and 256 KiB of estimated bytes, and
  the byte counter is the sum of the frames it accounts for, so it never underflows.
\<close>

theorem ring_is_bounded:
  "length (j_tail (append_all sd (create_journal now ep pre) evs)) \<le> 1024 \<and>
   j_tail_bytes (append_all sd (create_journal now ep pre) evs) \<le> 262144 \<and>
   j_tail_bytes (append_all sd (create_journal now ep pre) evs)
     = sum_list (map jf_bytes (j_tail (append_all sd (create_journal now ep pre) evs)))"
  using append_all_bounded [OF journal_rep_create tail_bounded_create]
    append_all_rep [OF journal_rep_create]
  by (simp add: tail_bounded_def TAIL_MAX_FRAMES_def TAIL_MAX_BYTES_def journal_rep_def)

text \<open>
  The metadata seed is lossless: folding the events that \<open>meta_seed_events\<close> synthesizes from
  any folded state gives that state back with its items cleared, every other field
  (config, usage, queue, ambient maps, pending approvals) intact.
\<close>

theorem meta_seed_roundtrip:
  "fold_all (meta_seed_events (fold_all evs) r ts) = meta_of (fold_all evs) r"
  by (rule fold_meta_seed [OF fold_all_state_wf])

end
