(* ===== verification/Frame.thy ===== *)
theory Frame
  imports Prelude
begin

text \<open>
  The length-prefixed framing codec of the stdio transport
  (\<^verbatim>\<open>pantoken-protocol/src/frame.rs\<close> and \<^verbatim>\<open>transport.rs\<close>): encoding one envelope as a frame,
  the incremental decoder over arbitrary read boundaries, and the decoding of a frame body.

  Bytes are 8-bit words and the length prefix is a 32-bit word in big-endian order. JSON
  serialization is a package outside the repository: \<open>serde_json::to_vec\<close> and \<open>from_str\<close> are
  the fields of a parameter record, over any message type, with an error's message standing
  for the error; what a theorem needs of them (their round trip) is a hypothesis of that
  theorem.
\<close>

section \<open>Envelopes and errors\<close>

type_synonym bytes = "u8 list"

record 'm WireEnvelope =
  we_message :: 'm

definition new_envelope :: "'m \<Rightarrow> 'm WireEnvelope" where
  "new_envelope m = \<lparr>we_message = m\<rparr>"

definition MAX_FRAME_BYTES :: nat where
  "MAX_FRAME_BYTES = 16 * 1024 * 1024"

type_synonym serde_error = string

datatype FrameError =
    Oversized u32 nat
  | JsonTooLarge
  | InvalidUtf8
  | Truncated
  | MalformedJson serde_error
  | Empty

text \<open>\<^verbatim>\<open>serde_json\<close> at one message type: \<open>to_vec\<close> and \<open>from_str\<close>, an error on the left.\<close>

record 'm serde_json =
  to_vec :: "'m WireEnvelope \<Rightarrow> serde_error + bytes"
  from_str :: "bytes \<Rightarrow> serde_error + 'm WireEnvelope"

section \<open>Encoding\<close>

definition to_be_bytes :: "u32 \<Rightarrow> bytes" where
  "to_be_bytes w = [ucast (drop_bit 24 w), ucast (drop_bit 16 w), ucast (drop_bit 8 w), ucast w]"

definition from_be_bytes :: "u8 \<Rightarrow> u8 \<Rightarrow> u8 \<Rightarrow> u8 \<Rightarrow> u32" where
  "from_be_bytes b0 b1 b2 b3 =
     push_bit 24 (ucast b0) OR push_bit 16 (ucast b1) OR push_bit 8 (ucast b2) OR ucast b3"

definition encode_json :: "bytes \<Rightarrow> FrameError + bytes" where
  "encode_json json =
     (if length json > MAX_FRAME_BYTES then Inl JsonTooLarge
      else Inr (to_be_bytes (word_of_nat (length json)) @ json))"

definition encode :: "'m serde_json \<Rightarrow> 'm WireEnvelope \<Rightarrow> FrameError + bytes" where
  "encode serde message =
     (case to_vec serde message of Inl e \<Rightarrow> Inl (MalformedJson e) | Inr json \<Rightarrow> encode_json json)"

definition encode_client :: "'m serde_json \<Rightarrow> 'm WireEnvelope \<Rightarrow> FrameError + bytes" where
  "encode_client serde message =
     (case to_vec serde message of Inl e \<Rightarrow> Inl (MalformedJson e) | Inr json \<Rightarrow> encode_json json)"

section \<open>Decoding a frame body\<close>

text \<open>
  \<^verbatim>\<open>std::str::from_utf8\<close>: well-formed byte sequences only (no overlong forms, no surrogates,
  nothing above U+10FFFF).
\<close>

definition byte_in :: "nat \<Rightarrow> nat \<Rightarrow> u8 \<Rightarrow> bool" where
  "byte_in lo hi b \<longleftrightarrow> lo \<le> unat b \<and> unat b \<le> hi"

fun utf8_valid :: "bytes \<Rightarrow> bool" where
  "utf8_valid [] = True"
| "utf8_valid [a] = byte_in 0 0x7F a"
| "utf8_valid [a, b] = (if byte_in 0 0x7F a then utf8_valid [b]
     else byte_in 0xC2 0xDF a \<and> byte_in 0x80 0xBF b)"
| "utf8_valid [a, b, c] = (if byte_in 0 0x7F a then utf8_valid [b, c]
     else if byte_in 0xC2 0xDF a then byte_in 0x80 0xBF b \<and> utf8_valid [c]
     else (unat a = 0xE0 \<and> byte_in 0xA0 0xBF b \<or> byte_in 0xE1 0xEC a \<and> byte_in 0x80 0xBF b
           \<or> unat a = 0xED \<and> byte_in 0x80 0x9F b \<or> byte_in 0xEE 0xEF a \<and> byte_in 0x80 0xBF b)
          \<and> byte_in 0x80 0xBF c)"
| "utf8_valid (a # b # c # d # xs) = (if byte_in 0 0x7F a then utf8_valid (b # c # d # xs)
     else if byte_in 0xC2 0xDF a then byte_in 0x80 0xBF b \<and> utf8_valid (c # d # xs)
     else if byte_in 0xE0 0xEF a then
       (unat a = 0xE0 \<and> byte_in 0xA0 0xBF b \<or> byte_in 0xE1 0xEC a \<and> byte_in 0x80 0xBF b
           \<or> unat a = 0xED \<and> byte_in 0x80 0x9F b \<or> byte_in 0xEE 0xEF a \<and> byte_in 0x80 0xBF b)
          \<and> byte_in 0x80 0xBF c \<and> utf8_valid (d # xs)
     else (unat a = 0xF0 \<and> byte_in 0x90 0xBF b \<or> byte_in 0xF1 0xF3 a \<and> byte_in 0x80 0xBF b
           \<or> unat a = 0xF4 \<and> byte_in 0x80 0x8F b)
          \<and> byte_in 0x80 0xBF c \<and> byte_in 0x80 0xBF d \<and> utf8_valid xs)"

definition decode_envelope ::
  "'m serde_json \<Rightarrow> bytes \<Rightarrow> FrameError + 'm WireEnvelope" where
  "decode_envelope serde body =
     (if body = [] then Inl Empty
      else if \<not> utf8_valid body then Inl InvalidUtf8
      else case from_str serde body of Inl e \<Rightarrow> Inl (MalformedJson e) | Inr m \<Rightarrow> Inr m)"

definition decode :: "'m serde_json \<Rightarrow> bytes \<Rightarrow> FrameError + 'm WireEnvelope" where
  "decode serde body = decode_envelope serde body"

definition decode_client :: "'m serde_json \<Rightarrow> bytes \<Rightarrow> FrameError + 'm WireEnvelope" where
  "decode_client serde body = decode_envelope serde body"

section \<open>The incremental decoder\<close>

record FrameDecoder =
  fd_buf :: bytes

definition new_decoder :: FrameDecoder where
  "new_decoder = \<lparr>fd_buf = []\<rparr>"

text \<open>The loop of \<open>push\<close> on the buffered bytes: the results it pushes and the buffer it leaves.\<close>

function push_loop :: "bytes \<Rightarrow> (FrameError + bytes) list \<times> bytes" where
  "push_loop buf =
     (if length buf < 4 then ([], buf)
      else
        let declared = from_be_bytes (buf ! 0) (buf ! 1) (buf ! 2) (buf ! 3) in
        if unat declared > MAX_FRAME_BYTES
        then ([Inl (Oversized declared MAX_FRAME_BYTES)], [])
        else
          let body_len = unat declared; total_len = 4 + body_len in
          if length buf < total_len then ([], buf)
          else
            let body = take body_len (drop 4 buf);
                (results, rest) = push_loop (drop total_len buf)
            in ((if body = [] then Inl Empty else Inr body) # results, rest))"
  by pat_completeness auto
termination by (relation "measure length") auto

declare push_loop.simps [simp del]

definition push ::
  "FrameDecoder \<Rightarrow> bytes \<Rightarrow> (FrameError + bytes) list \<times> FrameDecoder" where
  "push d bs = (let (results, rest) = push_loop (fd_buf d @ bs) in (results, \<lparr>fd_buf = rest\<rparr>))"

definition finish :: "FrameDecoder \<Rightarrow> FrameError option" where
  "finish d = (if fd_buf d = [] then None else Some Truncated)"

section \<open>The length prefix\<close>

lemma length_to_be_bytes [simp]: "length (to_be_bytes w) = 4"
  by (simp add: to_be_bytes_def)

lemma be_bytes_roundtrip:
  "from_be_bytes (to_be_bytes w ! 0) (to_be_bytes w ! 1) (to_be_bytes w ! 2) (to_be_bytes w ! 3) = w"
proof (rule bit_word_eqI)
  fix n assume "n < LENGTH(32)"
  then consider "n < 8" | "8 \<le> n" "n < 16" | "16 \<le> n" "n < 24" | "24 \<le> n" "n < 32"
    by fastforce
  then show "bit (from_be_bytes (to_be_bytes w ! 0) (to_be_bytes w ! 1) (to_be_bytes w ! 2)
      (to_be_bytes w ! 3)) n = bit w n"
    by cases (auto simp: from_be_bytes_def to_be_bytes_def bit_simps)
qed

lemma unat_len32: "n \<le> MAX_FRAME_BYTES \<Longrightarrow> unat (word_of_nat n :: u32) = n"
  by (simp add: unat_of_nat MAX_FRAME_BYTES_def)

section \<open>The decoder loop\<close>

lemmas push_loop_unfold = push_loop.simps

definition declared_len :: "bytes \<Rightarrow> u32" where
  "declared_len buf = from_be_bytes (buf ! 0) (buf ! 1) (buf ! 2) (buf ! 3)"

lemma push_loop_short: "length buf < 4 \<Longrightarrow> push_loop buf = ([], buf)"
  by (subst push_loop_unfold) simp

lemma push_loop_oversized:
  "\<not> length buf < 4 \<Longrightarrow> MAX_FRAME_BYTES < unat (declared_len buf) \<Longrightarrow>
   push_loop buf = ([Inl (Oversized (declared_len buf) MAX_FRAME_BYTES)], [])"
  by (subst push_loop_unfold) (simp add: Let_def declared_len_def)

lemma push_loop_wait:
  "\<not> length buf < 4 \<Longrightarrow> \<not> MAX_FRAME_BYTES < unat (declared_len buf) \<Longrightarrow>
   length buf < 4 + unat (declared_len buf) \<Longrightarrow> push_loop buf = ([], buf)"
  by (subst push_loop_unfold) (simp add: Let_def declared_len_def)

definition body_result :: "bytes \<Rightarrow> FrameError + bytes" where
  "body_result body = (if body = [] then Inl Empty else Inr body)"

lemma push_loop_body:
  "\<not> length buf < 4 \<Longrightarrow> \<not> MAX_FRAME_BYTES < unat (declared_len buf) \<Longrightarrow>
   \<not> length buf < 4 + unat (declared_len buf) \<Longrightarrow>
   push_loop buf = (body_result (take (unat (declared_len buf)) (drop 4 buf))
       # fst (push_loop (drop (4 + unat (declared_len buf)) buf)),
     snd (push_loop (drop (4 + unat (declared_len buf)) buf)))"
  by (subst push_loop_unfold) (simp add: Let_def body_result_def split_beta declared_len_def)

lemma push_loop_cases [case_names short oversized wait body]:
  assumes "length buf < 4 \<Longrightarrow> P"
    "\<not> length buf < 4 \<Longrightarrow> MAX_FRAME_BYTES < unat (declared_len buf) \<Longrightarrow> P"
    "\<not> length buf < 4 \<Longrightarrow> \<not> MAX_FRAME_BYTES < unat (declared_len buf) \<Longrightarrow>
       length buf < 4 + unat (declared_len buf) \<Longrightarrow> P"
    "\<not> length buf < 4 \<Longrightarrow> \<not> MAX_FRAME_BYTES < unat (declared_len buf) \<Longrightarrow>
       \<not> length buf < 4 + unat (declared_len buf) \<Longrightarrow> P"
  shows P
  using assms by blast

lemma push_loop_induct [case_names step]:
  assumes "\<And>buf. (\<And>n. length buf \<ge> 4 \<Longrightarrow> P (drop (4 + n) buf)) \<Longrightarrow> P buf"
  shows "P buf"
proof (induction buf rule: measure_induct_rule [of length])
  case (less buf)
  show ?case by (rule assms) (rule less, simp)
qed

fun is_oversized :: "FrameError + bytes \<Rightarrow> bool" where
  "is_oversized (Inl (Oversized d l)) = True"
| "is_oversized _ = False"

definition fine :: "(FrameError + bytes) list \<Rightarrow> bool" where
  "fine rs \<longleftrightarrow> list_all (\<lambda>r. \<not> is_oversized r) rs"

lemma is_oversized_body [simp]: "\<not> is_oversized (body_result b)"
  by (simp add: body_result_def)

lemma declared_len_append: "\<not> length a < 4 \<Longrightarrow> declared_len (a @ b) = declared_len a"
  by (auto simp: declared_len_def nth_append)

lemma push_loop_append:
  assumes "fine (fst (push_loop a))"
  shows "push_loop (a @ b) = (fst (push_loop a) @ fst (push_loop (snd (push_loop a) @ b)),
    snd (push_loop (snd (push_loop a) @ b)))"
  using assms
proof (induction a rule: push_loop_induct)
  case (step a)
  show ?case
  proof (cases a rule: push_loop_cases)
    case body
    let ?n = "unat (declared_len a)"
    have split: "push_loop a = (body_result (take ?n (drop 4 a)) # fst (push_loop (drop (4 + ?n) a)),
        snd (push_loop (drop (4 + ?n) a)))"
      using body by (rule push_loop_body)
    have "push_loop (a @ b) = (body_result (take ?n (drop 4 a)) # fst (push_loop (drop (4 + ?n) a @ b)),
        snd (push_loop (drop (4 + ?n) a @ b)))"
      using push_loop_body [of "a @ b"] body by (simp add: declared_len_append)
    moreover have "fine (fst (push_loop (drop (4 + ?n) a)))"
      using step.prems split by (simp add: fine_def)
    ultimately show ?thesis
      using step.IH [of ?n] body split by simp
  next
    case oversized
    then show ?thesis using step.prems by (simp add: push_loop_oversized fine_def)
  qed (simp_all add: push_loop_short push_loop_wait)
qed

text \<open>An oversized prefix ends the loop: whatever follows it in the buffer is discarded.\<close>

lemma push_loop_append_oversized:
  assumes "\<not> fine (fst (push_loop a))"
  shows "push_loop (a @ b) = push_loop a"
  using assms
proof (induction a rule: push_loop_induct)
  case (step a)
  show ?case
  proof (cases a rule: push_loop_cases)
    case body
    let ?n = "unat (declared_len a)"
    have "\<not> fine (fst (push_loop (drop (4 + ?n) a)))"
      using step.prems push_loop_body [OF body] by (simp add: fine_def)
    then show ?thesis
      using step.IH [of ?n] body push_loop_body [of "a @ b"] push_loop_body [OF body]
      by (simp add: declared_len_append)
  next
    case oversized
    then show ?thesis
      using push_loop_oversized [of "a @ b"] push_loop_oversized [of a]
      by (simp add: declared_len_append)
  qed (use step.prems in \<open>simp_all add: push_loop_short push_loop_wait fine_def\<close>)
qed

lemma push_loop_rest_bound: "length (snd (push_loop a)) < 4 + MAX_FRAME_BYTES"
proof (induction a rule: push_loop_induct)
  case (step a)
  show ?case
    by (cases a rule: push_loop_cases)
       (use step in \<open>simp_all add: push_loop_short push_loop_wait push_loop_oversized push_loop_body
          MAX_FRAME_BYTES_def\<close>)
qed

fun framing_result :: "FrameError + bytes \<Rightarrow> bool" where
  "framing_result (Inr body) = (body \<noteq> [] \<and> length body \<le> MAX_FRAME_BYTES)"
| "framing_result (Inl (Oversized declared limit)) =
     (limit = MAX_FRAME_BYTES \<and> limit < unat declared)"
| "framing_result (Inl e) = (e = Empty)"

lemma push_loop_results: "list_all framing_result (fst (push_loop a))"
proof (induction a rule: push_loop_induct)
  case (step a)
  show ?case
    by (cases a rule: push_loop_cases)
       (use step in \<open>auto simp: push_loop_short push_loop_wait push_loop_oversized push_loop_body
          body_result_def\<close>)
qed

section \<open>Frames of a stream\<close>

definition frame :: "bytes \<Rightarrow> bytes" where
  "frame body = to_be_bytes (word_of_nat (length body)) @ body"

definition sendable :: "bytes \<Rightarrow> bool" where
  "sendable body \<longleftrightarrow> body \<noteq> [] \<and> length body \<le> MAX_FRAME_BYTES"

lemma encode_json_frame: "sendable body \<Longrightarrow> encode_json body = Inr (frame body)"
  by (simp add: encode_json_def frame_def sendable_def)

lemma declared_len_frame: "length body \<le> MAX_FRAME_BYTES \<Longrightarrow>
    unat (declared_len (frame body @ rest)) = length body"
  using be_bytes_roundtrip [of "word_of_nat (length body)"] unat_len32
  by (simp add: declared_len_def frame_def nth_append)

lemma push_loop_frame:
  assumes "sendable body"
  shows "push_loop (frame body @ rest) = (Inr body # fst (push_loop rest), snd (push_loop rest))"
proof -
  have n: "unat (declared_len (frame body @ rest)) = length body"
    using assms by (intro declared_len_frame) (simp add: sendable_def)
  have "length (frame body @ rest) = 4 + length body + length rest" by (simp add: frame_def)
  moreover have "take (length body) (drop 4 (frame body @ rest)) = body"
    "drop (4 + length body) (frame body @ rest) = rest"
    by (simp_all add: frame_def)
  ultimately show ?thesis
    using push_loop_body [of "frame body @ rest", unfolded n] assms
    by (simp add: sendable_def body_result_def)
qed

lemma push_loop_frames:
  "list_all sendable bodies \<Longrightarrow> push_loop (concat (map frame bodies)) = (map Inr bodies, [])"
  by (induction bodies) (simp_all add: push_loop_short push_loop_frame)

section \<open>Read boundaries\<close>

text \<open>
  A stream parser is fed in chunks, as the reads happen to split the stream. What it has to
  promise for the split not to matter is that feeding two chunks one after the other is
  feeding them joined, as long as the stream is acceptable from the parser's state.
\<close>

fun feed_chunks :: "('s \<Rightarrow> 'c list \<Rightarrow> 'r list \<times> 's) \<Rightarrow> 's \<Rightarrow> 'c list list \<Rightarrow> 'r list \<times> 's" where
  "feed_chunks feed s [] = ([], s)"
| "feed_chunks feed s (c # cs) =
     (let (rs, s') = feed s c; (rs', s'') = feed_chunks feed s' cs in (rs @ rs', s''))"

locale chunked_parser =
  fixes feed :: "'s \<Rightarrow> 'c list \<Rightarrow> 'r list \<times> 's"
    and ok :: "'s \<Rightarrow> 'c list \<Rightarrow> bool"
  assumes feed_append: "ok s (a @ b) \<Longrightarrow>
      feed s (a @ b) = (fst (feed s a) @ fst (feed (snd (feed s a)) b), snd (feed (snd (feed s a)) b))"
    and ok_rest: "ok s (a @ b) \<Longrightarrow> ok (snd (feed s a)) b"
begin

lemma feed_chunks_concat:
  "ok s (concat (c # cs)) \<Longrightarrow> feed_chunks feed s (c # cs) = feed s (concat (c # cs))"
proof (induction cs arbitrary: s c)
  case Nil
  then show ?case by (simp add: split_beta)
next
  case (Cons c' cs)
  have "ok (snd (feed s c)) (concat (c' # cs))"
    using Cons.prems by (intro ok_rest) simp
  then have IH: "feed_chunks feed (snd (feed s c)) (c' # cs) = feed (snd (feed s c)) (concat (c' # cs))"
    by (rule Cons.IH)
  have "feed_chunks feed s (c # c' # cs) =
      (fst (feed s c) @ fst (feed_chunks feed (snd (feed s c)) (c' # cs)),
       snd (feed_chunks feed (snd (feed s c)) (c' # cs)))"
    by (simp add: split_beta)
  also have "\<dots> = feed s (c @ concat (c' # cs))"
    unfolding IH using Cons.prems by (intro feed_append [symmetric]) simp
  finally show ?case by simp
qed

end

definition stream_ok :: "FrameDecoder \<Rightarrow> bytes \<Rightarrow> bool" where
  "stream_ok d bs \<longleftrightarrow> fine (fst (push_loop (fd_buf d @ bs)))"

lemma push_eq: "push d bs = (fst (push_loop (fd_buf d @ bs)), \<lparr>fd_buf = snd (push_loop (fd_buf d @ bs))\<rparr>)"
  by (simp add: push_def split_beta)

lemma stream_ok_prefix: "stream_ok d (a @ b) \<Longrightarrow> fine (fst (push_loop (fd_buf d @ a)))"
  using push_loop_append_oversized [of "fd_buf d @ a" b]
  by (cases "fine (fst (push_loop (fd_buf d @ a)))") (simp_all add: stream_ok_def)

interpretation fd: chunked_parser push stream_ok
proof
  fix d a b assume ok: "stream_ok d (a @ b)"
  note app = push_loop_append [OF stream_ok_prefix [OF ok], of b]
  show "push d (a @ b) =
      (fst (push d a) @ fst (push (snd (push d a)) b), snd (push (snd (push d a)) b))"
    using app by (simp add: push_eq)
  show "stream_ok (snd (push d a)) b"
    using app ok by (simp add: stream_ok_def push_eq fine_def)
qed

lemma stream_ok_frames:
  "list_all sendable bodies \<Longrightarrow> stream_ok new_decoder (concat (map frame bodies))"
  by (simp add: stream_ok_def new_decoder_def push_loop_frames fine_def list_all_iff)

lemma feed_frames:
  assumes "list_all sendable bodies" "concat chunks = concat (map frame bodies)"
  shows "feed_chunks push new_decoder chunks = (map Inr bodies, new_decoder)"
proof (cases chunks)
  case Nil
  then have "bodies = []" using assms by (cases bodies) (simp_all add: frame_def to_be_bytes_def)
  with Nil show ?thesis by simp
next
  case (Cons c cs)
  have "feed_chunks push new_decoder chunks = push new_decoder (concat chunks)"
    unfolding Cons using assms Cons by (intro fd.feed_chunks_concat) (simp add: stream_ok_frames)
  then show ?thesis
    using assms by (simp add: push_eq new_decoder_def push_loop_frames)
qed

section \<open>Properties\<close>

text \<open>
  Read boundaries do not matter: as long as the stream, joined to what the decoder has
  buffered, declares no oversized frame, feeding it in any chunks gives the results and the
  final decoder of feeding it at once.
\<close>

theorem fragmentation_independent:
  assumes "stream_ok d (concat (c # cs))"
  shows "feed_chunks push d (c # cs) = push d (concat (c # cs))"
  using assms by (rule fd.feed_chunks_concat)

theorem fragmentation_independent_witness:
  "feed_chunks push new_decoder ([0, 0] # [[0, 1, 65, 0], [0]]) =
   push new_decoder (concat ([0, 0] # [[0, 1, 65, 0], [0]]))"
proof (rule fragmentation_independent)
  have "push_loop ([0, 0] @ [0, 1, 65, 0] @ [0]) = ([Inr [65]], [0, 0])"
    using push_loop_frame [of "[65]" "[0, 0]"]
    by (simp add: sendable_def MAX_FRAME_BYTES_def frame_def to_be_bytes_def push_loop_short)
  then show "stream_ok new_decoder (concat ([0, 0] # [[0, 1, 65, 0], [0]]))"
    by (simp add: stream_ok_def new_decoder_def fine_def)
qed

text \<open>What the codec relies on of \<^verbatim>\<open>serde_json\<close> for one message: it serializes to valid UTF-8 within
  the frame limit, and parsing that text gives the message back.\<close>

definition serde_roundtrips :: "'m serde_json \<Rightarrow> 'm WireEnvelope \<Rightarrow> bool" where
  "serde_roundtrips serde m \<longleftrightarrow> (case to_vec serde m of
     Inl _ \<Rightarrow> False
   | Inr json \<Rightarrow> sendable json \<and> utf8_valid json \<and> from_str serde json = Inr m)"

definition received :: "'m serde_json \<Rightarrow> bytes list \<Rightarrow> (FrameError + 'm WireEnvelope) list" where
  "received serde chunks =
     map (case_sum Inl (decode serde)) (fst (feed_chunks push new_decoder chunks))"

text \<open>
  Property C6. The transport delivers: when \<^verbatim>\<open>serde_json\<close> round-trips each message, the frames encoded for
  a list of messages, concatenated and split into reads at arbitrary points, decode to
  exactly these messages in order, with nothing left over at the end of the stream.
\<close>

theorem transport_roundtrip:
  assumes "list_all (serde_roundtrips serde) ms"
    and "map Inr frames = map (encode serde) ms"
    and "concat chunks = concat frames"
  shows "received serde chunks = map Inr ms \<and>
    finish (snd (feed_chunks push new_decoder chunks)) = None"
proof -
  let ?bodies = "map (projr \<circ> to_vec serde) ms"
  have ser: "to_vec serde m = Inr (projr (to_vec serde m)) \<and> sendable (projr (to_vec serde m)) \<and>
      utf8_valid (projr (to_vec serde m)) \<and> from_str serde (projr (to_vec serde m)) = Inr m"
    if "m \<in> set ms" for m
    using that assms(1) by (cases "to_vec serde m") (force simp: list_all_iff serde_roundtrips_def)+
  have enc: "encode serde m = Inr (frame (projr (to_vec serde m)))" if "m \<in> set ms" for m
    using ser [OF that] encode_json_frame by (cases "to_vec serde m") (auto simp: encode_def)
  then have "map Inr frames = (map Inr (map frame ?bodies) :: (FrameError + bytes) list)"
    using assms(2) by simp
  then have "frames = map frame ?bodies"
    by (simp only: inj_map_eq_map inj_Inr)
  then have "feed_chunks push new_decoder chunks = (map Inr ?bodies, new_decoder)"
    using assms(3) ser by (intro feed_frames) (auto simp: list_all_iff)
  moreover have "decode serde (projr (to_vec serde m)) = Inr m" if "m \<in> set ms" for m
    using ser [OF that] by (auto simp: decode_def decode_envelope_def sendable_def)
  ultimately show ?thesis
    by (simp add: received_def finish_def new_decoder_def)
qed

definition toy_serde :: "bool serde_json" where
  "toy_serde = \<lparr>to_vec = (\<lambda>m. Inr [if we_message m then 49 else 48]),
     from_str = (\<lambda>s. if s = [49] then Inr (new_envelope True)
                     else if s = [48] then Inr (new_envelope False) else Inl ''syntax'')\<rparr>"

theorem transport_roundtrip_witness:
  "received toy_serde [[0, 0, 0], [1, 49, 0, 0, 0, 1], [48]]
     = map Inr [new_envelope True, new_envelope False] \<and>
   finish (snd (feed_chunks push new_decoder [[0, 0, 0], [1, 49, 0, 0, 0, 1], [48]])) = None"
proof (rule transport_roundtrip [of _ _ "[[0, 0, 0, 1, 49], [0, 0, 0, 1, 48]]"])
  show "list_all (serde_roundtrips toy_serde) [new_envelope True, new_envelope False]"
    by (simp add: serde_roundtrips_def toy_serde_def new_envelope_def sendable_def
        MAX_FRAME_BYTES_def byte_in_def)
  show "map Inr [[0, 0, 0, 1, 49], [0, 0, 0, 1, 48]]
      = map (encode toy_serde) [new_envelope True, new_envelope False]"
    by (simp add: encode_def toy_serde_def new_envelope_def encode_json_def MAX_FRAME_BYTES_def
        to_be_bytes_def)
qed simp

text \<open>
  The decoder's memory is bounded: whatever bytes it is fed, after \<open>push\<close> it buffers fewer
  than four bytes plus the frame limit.
\<close>

theorem decoder_buffer_bounded:
  "length (fd_buf (snd (push d bs))) < 4 + 16 * 1024 * 1024"
  using push_loop_rest_bound by (simp add: push_eq MAX_FRAME_BYTES_def)

text \<open>
  What \<open>push\<close> reports: a body that is non-empty and within the limit, an empty frame, or a
  prefix that declares more than the limit; never an encoding or parsing error.
\<close>

theorem push_results_are_framing: "list_all framing_result (fst (push d bs))"
  by (simp add: push_eq push_loop_results)

text \<open>
  An oversized prefix discards every byte that follows it in the same read, complete valid
  frames included, while the same frame in the next read is delivered: after an oversized
  frame the results depend on the read boundaries.
\<close>

theorem oversized_drops_rest_of_read:
  assumes "16 * 1024 * 1024 < unat (w :: u32)" "sendable body"
  shows "push new_decoder (to_be_bytes w @ frame body)
      = ([Inl (Oversized w MAX_FRAME_BYTES)], new_decoder)
    \<and> feed_chunks push new_decoder [to_be_bytes w, frame body]
      = ([Inl (Oversized w MAX_FRAME_BYTES), Inr body], new_decoder)"
proof -
  have d: "declared_len (to_be_bytes w @ rest) = w" for rest
    using be_bytes_roundtrip [of w] by (simp add: declared_len_def nth_append)
  have over: "push_loop (to_be_bytes w @ rest) = ([Inl (Oversized w MAX_FRAME_BYTES)], [])" for rest
    using push_loop_oversized [of "to_be_bytes w @ rest"] assms(1) d
    by (simp add: MAX_FRAME_BYTES_def)
  have "push_loop (frame body) = ([Inr body], [])"
    using push_loop_frame [OF assms(2), of "[]"] by (simp add: push_loop_short)
  then show ?thesis using over [of "frame body"] over [of "[]"]
    by (simp add: push_eq new_decoder_def)
qed

theorem oversized_drops_rest_of_read_witness:
  "push new_decoder (to_be_bytes 0xFFFFFFFF @ frame [49])
      = ([Inl (Oversized 0xFFFFFFFF MAX_FRAME_BYTES)], new_decoder)
    \<and> feed_chunks push new_decoder [to_be_bytes 0xFFFFFFFF, frame [49]]
      = ([Inl (Oversized 0xFFFFFFFF MAX_FRAME_BYTES), Inr [49]], new_decoder)"
  by (rule oversized_drops_rest_of_read) (simp_all add: sendable_def MAX_FRAME_BYTES_def)

end
