(* ===== verification/Layout.thy ===== *)
theory Layout
  imports Prelude "HOL-Library.Sublist"
begin

text \<open>
  The remote on-disk layout (\<^verbatim>\<open>pantoken-remote-layout/src/layout.rs\<close>): resolving the root from
  environment values, deriving the paths below it, and validating roots and inputs.

  A \<^verbatim>\<open>PathBuf\<close> or \<^verbatim>\<open>OsStr\<close> is its byte string on Unix. \<^verbatim>\<open>Path::join\<close> and \<^verbatim>\<open>Path::components\<close> are the
  standard library's: joining an absolute path replaces the base, and the components skip
  repeated separators and interior dots.
\<close>

section \<open>Paths\<close>

type_synonym path = string

abbreviation slash :: char where "slash \<equiv> CHR ''/''"

datatype Component = RootDir | CurDir | ParentDir | Normal string

definition is_absolute :: "path \<Rightarrow> bool" where
  "is_absolute p \<longleftrightarrow> starts_with p ''/''"

definition join_path :: "path \<Rightarrow> path \<Rightarrow> path" where
  "join_path p q =
     (if is_absolute q then q
      else if p \<noteq> [] \<and> last p \<noteq> slash then p @ slash # q
      else p @ q)"

definition component_of :: "string \<Rightarrow> Component" where
  "component_of piece = (if piece = ''..'' then ParentDir else Normal piece)"

definition path_names :: "path \<Rightarrow> Component list" where
  "path_names p = map component_of (filter (\<lambda>x. x \<noteq> [] \<and> x \<noteq> ''.'') (split_on slash p))"

definition components :: "path \<Rightarrow> Component list" where
  "components p =
     (if is_absolute p then [RootDir]
      else if hd (split_on slash p) = ''.'' then [CurDir] else []) @ path_names p"

section \<open>Resolving the root\<close>

text \<open>
  \<^verbatim>\<open>str::trim\<close> removes Unicode white space; a string is all white space when it is a sequence
  of these characters' UTF-8 encodings. Bytes that are not valid UTF-8 never are, so
  \<^verbatim>\<open>to_str\<close> failing and a non-blank string have the same answer, as in the code.
\<close>

definition white3 :: "nat \<Rightarrow> nat \<Rightarrow> nat \<Rightarrow> bool" where
  "white3 a b c \<longleftrightarrow> a = 0xE1 \<and> b = 0x9A \<and> c = 0x80
     \<or> a = 0xE2 \<and> b = 0x80 \<and> (0x80 \<le> c \<and> c \<le> 0x8A \<or> c = 0xA8 \<or> c = 0xA9 \<or> c = 0xAF)
     \<or> a = 0xE2 \<and> b = 0x81 \<and> c = 0x9F
     \<or> a = 0xE3 \<and> b = 0x80 \<and> c = 0x80"

fun all_whitespace :: "string \<Rightarrow> bool" where
  "all_whitespace [] = True"
| "all_whitespace (a # xs) =
     (if 9 \<le> byte_of a \<and> byte_of a \<le> 13 \<or> byte_of a = 32 then all_whitespace xs
      else case xs of
        [] \<Rightarrow> False
      | b # ys \<Rightarrow>
          if byte_of a = 0xC2 \<and> (byte_of b = 0x85 \<or> byte_of b = 0xA0) then all_whitespace ys
          else (case ys of
            [] \<Rightarrow> False
          | c # zs \<Rightarrow> white3 (byte_of a) (byte_of b) (byte_of c) \<and> all_whitespace zs))"

definition is_nonempty :: "string \<Rightarrow> bool" where
  "is_nonempty v \<longleftrightarrow> v \<noteq> [] \<and> \<not> all_whitespace v"

definition filter_nonempty :: "string option \<Rightarrow> string option" where
  "filter_nonempty v = (case v of Some s \<Rightarrow> if is_nonempty s then Some s else None | None \<Rightarrow> None)"

definition home_dir_from_value :: "string option \<Rightarrow> path" where
  "home_dir_from_value home = (case filter_nonempty home of Some h \<Rightarrow> h | None \<Rightarrow> ''/'')"

definition default_remote_root_with_env :: "string option \<Rightarrow> string option \<Rightarrow> path" where
  "default_remote_root_with_env home xdg_data_home =
     (let data_home = (case filter_nonempty xdg_data_home of
            Some x \<Rightarrow> x
          | None \<Rightarrow> join_path (join_path (home_dir_from_value home) ''.local'') ''share'')
      in join_path data_home ''pantoken'')"

definition remote_root_from_values :: "string option \<Rightarrow> string option \<Rightarrow> string option \<Rightarrow> path" where
  "remote_root_from_values remote_root home xdg_data_home =
     (case filter_nonempty remote_root of
        Some r \<Rightarrow> r
      | None \<Rightarrow> default_remote_root_with_env home xdg_data_home)"

text \<open>The process environment is a map from variable names.\<close>

definition default_remote_root :: "(string \<Rightarrow> string option) \<Rightarrow> path" where
  "default_remote_root env = default_remote_root_with_env (env ''HOME'') (env ''XDG_DATA_HOME'')"

definition remote_root_from_env :: "(string \<Rightarrow> string option) \<Rightarrow> path" where
  "remote_root_from_env env =
     remote_root_from_values (env ''PANTOKEN_REMOTE_ROOT'') (env ''HOME'') (env ''XDG_DATA_HOME'')"

section \<open>Validation and derivation\<close>

datatype LayoutError =
    EmptyRoot
  | RelativeRoot
  | TraversalInRoot
  | TraversalInInput string

definition validate_layout :: "path \<Rightarrow> LayoutError + unit" where
  "validate_layout root =
     (if root = [] then Inl EmptyRoot
      else if \<not> is_absolute root then Inl RelativeRoot
      else if ParentDir \<in> set (components root) then Inl TraversalInRoot
      else Inr ())"

definition sanitize_or_err :: "string \<Rightarrow> LayoutError + string" where
  "sanitize_or_err input =
     (if ParentDir \<in> set (components input) then Inl (TraversalInInput input) else Inr input)"

definition releases_dir :: "path \<Rightarrow> path" where
  "releases_dir root = join_path root ''releases''"

definition tools_dir :: "path \<Rightarrow> path" where
  "tools_dir root = join_path root ''tools''"

text \<open>The \<^verbatim>\<open>?\<close> on both inputs, in argument order, then the joins.\<close>

definition versioned_path :: "path \<Rightarrow> string \<Rightarrow> string \<Rightarrow> string \<Rightarrow> LayoutError + path" where
  "versioned_path base version target leaf =
     (case sanitize_or_err version of
        Inl e \<Rightarrow> Inl e
      | Inr v \<Rightarrow>
          (case sanitize_or_err target of
             Inl e \<Rightarrow> Inl e
           | Inr t \<Rightarrow> Inr (join_path (join_path (join_path base v) t) leaf)))"

definition release_artifact :: "path \<Rightarrow> string \<Rightarrow> string \<Rightarrow> LayoutError + path" where
  "release_artifact root version target =
     versioned_path (releases_dir root) version target ''pantoken-server''"

definition polytoken_binary :: "path \<Rightarrow> string \<Rightarrow> string \<Rightarrow> LayoutError + path" where
  "polytoken_binary root version target =
     versioned_path (join_path (tools_dir root) ''polytoken'') version target ''polytoken''"

definition run_dir :: "path \<Rightarrow> path" where
  "run_dir root = join_path root ''run''"

definition private_socket :: "path \<Rightarrow> path" where
  "private_socket root = join_path (run_dir root) ''server.sock''"

definition pid_file :: "path \<Rightarrow> path" where
  "pid_file root = join_path (run_dir root) ''server.pid''"

definition logs_dir :: "path \<Rightarrow> path" where
  "logs_dir root = join_path root ''logs''"

definition install_metadata :: "path \<Rightarrow> path" where
  "install_metadata root = join_path root ''install.json''"

section \<open>Components of a joined path\<close>

lemma split_on_append: "split_on c (xs @ c # ys) = split_on c xs @ split_on c ys"
  by (induction xs) (auto split: list.splits)

lemma names_sep: "path_names (xs @ slash # ys) = path_names xs @ path_names ys"
  by (simp add: path_names_def split_on_append)

lemma names_Nil [simp]: "path_names [] = []"
  by (simp add: path_names_def)

lemma names_join:
  assumes "\<not> is_absolute q"
  shows "path_names (join_path p q) = path_names p @ path_names q"
proof (cases "p \<noteq> [] \<and> last p = slash")
  case True
  then obtain p' where "p = p' @ [slash]" by (metis append_butlast_last_id)
  then show ?thesis using assms names_sep [of p' q] names_sep [of p' "[]"]
    by (simp add: join_path_def)
qed (use assms in \<open>auto simp: join_path_def names_sep\<close>)

lemma absolute_join [simp]: "is_absolute p \<Longrightarrow> is_absolute (join_path p q)"
  by (cases p) (auto simp: join_path_def is_absolute_def)

lemma components_join:
  "is_absolute p \<Longrightarrow> \<not> is_absolute q \<Longrightarrow> components (join_path p q) = components p @ path_names q"
  by (simp add: components_def names_join)

lemma sanitize_no_parent: "sanitize_or_err s = Inr t \<longleftrightarrow> t = s \<and> ParentDir \<notin> set (path_names s)"
  by (auto simp: sanitize_or_err_def components_def)

lemmas dir_defs = releases_dir_def tools_dir_def run_dir_def private_socket_def pid_file_def
  logs_dir_def install_metadata_def

lemma relative_names [simp]:
  "\<not> is_absolute ''releases''" "\<not> is_absolute ''tools''" "\<not> is_absolute ''polytoken''"
  "\<not> is_absolute ''pantoken-server''" "\<not> is_absolute ''run''" "\<not> is_absolute ''server.sock''"
  "\<not> is_absolute ''server.pid''" "\<not> is_absolute ''logs''" "\<not> is_absolute ''install.json''"
  "\<not> is_absolute ''pantoken''" "\<not> is_absolute ''.local''" "\<not> is_absolute ''share''"
  by (simp_all add: is_absolute_def)

lemma versioned_components:
  assumes "versioned_path base version target leaf = Inr p" "is_absolute base"
    and "\<not> is_absolute version" "\<not> is_absolute target" "\<not> is_absolute leaf"
  shows "components p = components base @ path_names version @ path_names target @ path_names leaf
    \<and> ParentDir \<notin> set (path_names version @ path_names target)"
  using assms
  by (auto simp: versioned_path_def sanitize_no_parent components_join split: sum.splits)

lemma validate_layout_ok:
  "validate_layout root = Inr () \<longleftrightarrow> is_absolute root \<and> ParentDir \<notin> set (path_names root)"
  by (auto simp: validate_layout_def components_def is_absolute_def)

lemma names_leaf [simp]:
  "path_names ''releases'' = [Normal ''releases'']" "path_names ''tools'' = [Normal ''tools'']"
  "path_names ''polytoken'' = [Normal ''polytoken'']"
  "path_names ''pantoken-server'' = [Normal ''pantoken-server'']"
  "path_names ''pantoken'' = [Normal ''pantoken'']" "path_names ''.local'' = [Normal ''.local'']"
  "path_names ''share'' = [Normal ''share'']"
  by (simp_all add: path_names_def component_of_def)

lemma RootDir_components: "RootDir \<in> set (components p) \<longleftrightarrow> is_absolute p"
  by (auto simp: components_def path_names_def component_of_def)

lemma validate_layout_components:
  "validate_layout root = Inr () \<longleftrightarrow>
     RootDir \<in> set (components root) \<and> ParentDir \<notin> set (components root)"
  by (auto simp: validate_layout_ok RootDir_components) (auto simp: components_def)

definition first_nonblank :: "string option list \<Rightarrow> string" where
  "first_nonblank vs = (case filter is_nonempty (map the (filter (\<lambda>v. v \<noteq> None) vs)) of
     [] \<Rightarrow> ''/'' | v # _ \<Rightarrow> v)"

lemma filter_nonempty_simps [simp]:
  "filter_nonempty None = None"
  "filter_nonempty (Some s) = (if is_nonempty s then Some s else None)"
  by (simp_all add: filter_nonempty_def)

lemma remote_root_source:
  assumes "src = first_nonblank [remote_root, xdg, home]" "is_absolute src"
  shows "\<exists>suffix. components (remote_root_from_values remote_root home xdg) = components src @ suffix
    \<and> ParentDir \<notin> set suffix"
  using assms
  by (cases remote_root; cases xdg; cases home)
     (auto simp: first_nonblank_def remote_root_from_values_def default_remote_root_with_env_def
       home_dir_from_value_def components_join)

definition below :: "path \<Rightarrow> path \<Rightarrow> bool" where
  "below base p \<longleftrightarrow> prefix (components base) (components p) \<and> ParentDir \<notin> set (components p)"

lemma versioned_below:
  assumes "is_absolute base" "ParentDir \<notin> set (components base)" "\<not> is_absolute version"
    "\<not> is_absolute target" "\<not> is_absolute leaf" "ParentDir \<notin> set (path_names leaf)"
  shows "case versioned_path base version target leaf of
      Inr p \<Rightarrow> below base p
    | Inl e \<Rightarrow> e = TraversalInInput (if ParentDir \<in> set (path_names version) then version else target)"
proof (cases "versioned_path base version target leaf")
  case (Inr p)
  then show ?thesis
    using versioned_components [OF Inr] assms by (simp add: below_def)
next
  case (Inl e)
  then show ?thesis using assms
    by (auto simp: versioned_path_def sanitize_or_err_def components_def split: if_splits)
qed

section \<open>Properties\<close>

text \<open>
  Derived binaries stay below their directory: for a root that validates and relative version
  and target inputs, \<open>release_artifact\<close> and \<open>polytoken_binary\<close> return a path whose components
  extend those of the releases (tools) directory and contain no parent component, or an
  error naming the first input with a parent component.
\<close>

theorem artifacts_stay_below_root:
  assumes "validate_layout root = Inr ()" "\<not> is_absolute version" "\<not> is_absolute target"
  shows "(case release_artifact root version target of
      Inr p \<Rightarrow> below (releases_dir root) p
    | Inl e \<Rightarrow> e = TraversalInInput (if ParentDir \<in> set (path_names version) then version else target))
    \<and> (case polytoken_binary root version target of
      Inr p \<Rightarrow> below (tools_dir root) p
    | Inl e \<Rightarrow> e = TraversalInInput (if ParentDir \<in> set (path_names version) then version else target))"
proof
  have root: "is_absolute root" "ParentDir \<notin> set (components root)"
    using assms(1) by (auto simp: validate_layout_ok components_def)
  show "case release_artifact root version target of
      Inr p \<Rightarrow> below (releases_dir root) p
    | Inl e \<Rightarrow> e = TraversalInInput (if ParentDir \<in> set (path_names version) then version else target)"
    unfolding release_artifact_def using assms root
    by (intro versioned_below) (simp_all add: releases_dir_def components_join)
  have "case polytoken_binary root version target of
      Inr p \<Rightarrow> below (join_path (tools_dir root) ''polytoken'') p
    | Inl e \<Rightarrow> e = TraversalInInput (if ParentDir \<in> set (path_names version) then version else target)"
    unfolding polytoken_binary_def using assms root
    by (intro versioned_below) (simp_all add: tools_dir_def components_join)
  then show "case polytoken_binary root version target of
      Inr p \<Rightarrow> below (tools_dir root) p
    | Inl e \<Rightarrow> e = TraversalInInput (if ParentDir \<in> set (path_names version) then version else target)"
    using root
    by (auto simp: below_def tools_dir_def components_join prefix_def split: sum.splits)
qed

theorem artifacts_stay_below_root_witness:
  "below (releases_dir ''/home/u'') ''/home/u/releases/1.2.3/linux/pantoken-server''"
proof -
  have "validate_layout ''/home/u'' = Inr ()" "\<not> is_absolute ''1.2.3''" "\<not> is_absolute ''linux''"
    by (simp_all add: validate_layout_ok is_absolute_def path_names_def component_of_def)
  note artifacts_stay_below_root [OF this]
  moreover have "release_artifact ''/home/u'' ''1.2.3'' ''linux''
      = Inr ''/home/u/releases/1.2.3/linux/pantoken-server''"
    by code_simp
  ultimately show ?thesis by simp
qed

text \<open>
  An absolute version or target escapes the layout: sanitizing only rejects parent components,
  and joining an absolute path replaces the base, so with an absolute version the artifact's
  path is the same for every root.
\<close>

theorem absolute_input_escapes_root:
  assumes "is_absolute version" "ParentDir \<notin> set (path_names version)"
    and "ParentDir \<notin> set (path_names target)"
  shows "release_artifact root version target
    = Inr (join_path (join_path version target) ''pantoken-server'')"
  using assms
  by (simp add: release_artifact_def versioned_path_def sanitize_or_err_def components_def
      join_path_def [of "releases_dir root"])

theorem absolute_input_escapes_root_witness:
  "release_artifact ''/home/u'' ''/etc'' ''linux'' = Inr ''/etc/linux/pantoken-server''"
  using absolute_input_escapes_root [of "''/etc''" "''linux''" "''/home/u''"]
  by (simp add: is_absolute_def path_names_def component_of_def join_path_def)

text \<open>
  The resolved root is valid whenever its source is: the root comes from the first variable
  that is set and not blank (the override, then the XDG data home, then the home directory,
  then the file system root), and validates if that value is absolute and has no parent
  component.
\<close>

theorem resolved_root_validates:
  assumes "is_absolute (first_nonblank [remote_root, xdg, home])"
    and "ParentDir \<notin> set (components (first_nonblank [remote_root, xdg, home]))"
  shows "validate_layout (remote_root_from_values remote_root home xdg) = Inr ()"
proof -
  obtain suffix where "components (remote_root_from_values remote_root home xdg)
      = components (first_nonblank [remote_root, xdg, home]) @ suffix" "ParentDir \<notin> set suffix"
    using remote_root_source assms(1) by blast
  then show ?thesis
    using assms by (simp add: validate_layout_components RootDir_components [symmetric])
qed

theorem resolved_root_validates_witness:
  "validate_layout (remote_root_from_values (Some ''  '') (Some ''/home/u'') None) = Inr ()"
proof (rule resolved_root_validates)
  have "first_nonblank [Some ''  '', None, Some ''/home/u''] = ''/home/u''" by code_simp
  then show "is_absolute (first_nonblank [Some ''  '', None, Some ''/home/u''])"
    "ParentDir \<notin> set (components (first_nonblank [Some ''  '', None, Some ''/home/u'']))"
    by (simp_all add: is_absolute_def components_def path_names_def component_of_def)
qed

end
