(* ===== verification/Semver.thy ===== *)
theory Semver
  imports Prelude "HOL-Library.Product_Lexorder" "HOL-Library.List_Lexorder"
    "HOL-Library.Char_ord" "HOL-Library.Option_ord"
begin

text \<open>
  Version strings (\<^verbatim>\<open>pantoken-remote-layout/src/semver.rs\<close>): parsing and comparison with
  prerelease precedence. \<open>u64\<close> components are 64-bit words; \<^verbatim>\<open>str::parse::<u64>\<close> fails on
  overflow, which the two callers treat differently. Rust compares \<^verbatim>\<open>str\<close>s bytewise
  lexicographically, which is the order the library gives to lists of \<open>char\<close>.

  The comparison is shown to be the order of a key: the key's type is built from the
  library's lexicographic orders.
\<close>

section \<open>Numbers\<close>

definition digits_value :: "string \<Rightarrow> nat" where
  "digits_value s = foldl (\<lambda>n c. 10 * n + (byte_of c - 48)) 0 s"

text \<open>\<^verbatim>\<open>str::parse::<u64>\<close>: an optional plus sign, then one or more digits, and no overflow.\<close>

definition parse_u64 :: "string \<Rightarrow> u64 option" where
  "parse_u64 s =
     (let ds = (if starts_with s ''+'' then tl s else s) in
      if ds \<noteq> [] \<and> list_all is_ascii_digit ds \<and> digits_value ds < 2 ^ 64
      then Some (word_of_nat (digits_value ds)) else None)"

section \<open>Versions\<close>

record Version =
  v_major :: u64
  v_minor :: u64
  v_patch :: u64
  v_prerelease :: "string option"

text \<open>One turn of the loop over the three components.\<close>

definition parse_component :: "string \<Rightarrow> u64 option" where
  "parse_component part =
     (if part = [] then None
      else if part = ''0'' then Some 0
      else if \<not> list_all is_ascii_digit part then None
      else if starts_with part ''0'' then None
      else parse_u64 part)"

definition segment_ok :: "string \<Rightarrow> bool" where
  "segment_ok segment \<longleftrightarrow> segment \<noteq> [] \<and>
     list_all (\<lambda>c. is_ascii_alphanumeric c \<or> c = CHR ''-'') segment"

definition prerelease_ok :: "string option \<Rightarrow> bool" where
  "prerelease_ok prerelease = (case prerelease of
     None \<Rightarrow> True
   | Some pre \<Rightarrow> pre \<noteq> [] \<and> list_all segment_ok (split_on (CHR ''.'') pre))"

definition parse_version :: "string \<Rightarrow> Version option" where
  "parse_version s =
     (let (core, prerelease) = (case split_once (CHR ''-'') s of
            Some (c, p) \<Rightarrow> (c, Some p)
          | None \<Rightarrow> (s, None))
      in case split_on (CHR ''.'') core of
           [a, b, c] \<Rightarrow>
             (case (parse_component a, parse_component b, parse_component c) of
                (Some ma, Some mi, Some pa) \<Rightarrow>
                  if prerelease_ok prerelease
                  then Some \<lparr>v_major = ma, v_minor = mi, v_patch = pa, v_prerelease = prerelease\<rparr>
                  else None
              | _ \<Rightarrow> None)
         | _ \<Rightarrow> None)"

definition parse_semver :: "string \<Rightarrow> bool" where
  "parse_semver s \<longleftrightarrow> parse_version s \<noteq> None"

section \<open>Comparison\<close>

definition numeric_segment :: "string \<Rightarrow> bool" where
  "numeric_segment s \<longleftrightarrow> list_all is_ascii_digit s \<and> s \<noteq> []"

definition unwrap_or :: "'a \<Rightarrow> 'a option \<Rightarrow> 'a" where
  "unwrap_or d x = (case x of None \<Rightarrow> d | Some v \<Rightarrow> v)"

definition compare_prerelease_segment :: "string \<Rightarrow> string \<Rightarrow> ordering" where
  "compare_prerelease_segment a b =
     (case (numeric_segment a, numeric_segment b) of
        (True, True) \<Rightarrow> cmp (unwrap_or 0 (parse_u64 a)) (unwrap_or 0 (parse_u64 b))
      | (True, False) \<Rightarrow> Less
      | (False, True) \<Rightarrow> Greater
      | (False, False) \<Rightarrow> cmp a b)"

fun compare_segments :: "(string \<times> string) list \<Rightarrow> ordering option" where
  "compare_segments [] = None"
| "compare_segments ((sa, sb) # rest) =
     (let ord = compare_prerelease_segment sa sb
      in if ord \<noteq> Equal then Some ord else compare_segments rest)"

definition compare_prerelease :: "string \<Rightarrow> string \<Rightarrow> ordering" where
  "compare_prerelease a b =
     (let segs_a = split_on (CHR ''.'') a; segs_b = split_on (CHR ''.'') b in
      case compare_segments (zip segs_a segs_b) of
        Some ord \<Rightarrow> ord
      | None \<Rightarrow> cmp (length segs_a) (length segs_b))"

definition compare_versions :: "Version \<Rightarrow> Version \<Rightarrow> ordering" where
  "compare_versions a b =
     (case cmp (v_major a) (v_major b) of
        Equal \<Rightarrow>
          (case cmp (v_minor a) (v_minor b) of
             Equal \<Rightarrow>
               (case cmp (v_patch a) (v_patch b) of
                  Equal \<Rightarrow>
                    (case (v_prerelease a, v_prerelease b) of
                       (None, None) \<Rightarrow> Equal
                     | (None, Some _) \<Rightarrow> Greater
                     | (Some _, None) \<Rightarrow> Less
                     | (Some pa, Some pb) \<Rightarrow> compare_prerelease pa pb)
                | ord \<Rightarrow> ord)
           | ord \<Rightarrow> ord)
      | ord \<Rightarrow> ord)"

definition compare_semver :: "string \<Rightarrow> string \<Rightarrow> ordering" where
  "compare_semver a b =
     (case (parse_version a, parse_version b) of
        (Some va, Some vb) \<Rightarrow> compare_versions va vb
      | (Some _, None) \<Rightarrow> Greater
      | (None, Some _) \<Rightarrow> Less
      | (None, None) \<Rightarrow> Equal)"

section \<open>The comparison is the order of a key\<close>

text \<open>
  A comparator: what a caller that sorts or picks the newest version relies on.
\<close>

locale comparator =
  fixes compare :: "'a \<Rightarrow> 'a \<Rightarrow> ordering"
  assumes compare_refl: "compare a a = Equal"
    and compare_swap: "compare b a = reverse_ordering (compare a b)"
    and compare_trans: "compare a b \<noteq> Greater \<Longrightarrow> compare b c \<noteq> Greater \<Longrightarrow> compare a c \<noteq> Greater"
begin

lemma compare_total: "compare a b \<noteq> Greater \<or> compare b a \<noteq> Greater"
  by (cases "compare a b") (simp_all add: compare_swap [of b a])

lemma compare_less_trans:
  assumes "compare a b = Less" "compare b c = Less"
  shows "compare a c = Less"
proof (cases "compare a c")
  case Equal
  then have "compare c a \<noteq> Greater" by (simp add: compare_swap [of c a])
  then have "compare b a \<noteq> Greater" using compare_trans [of b c a] assms by simp
  then show ?thesis using assms by (simp add: compare_swap [of b a])
next
  case Greater
  then show ?thesis using compare_trans [of a b c] assms by simp
qed

lemma compare_equal_trans:
  assumes "compare a b = Equal" "compare b c = Equal"
  shows "compare a c = Equal"
proof -
  have "compare a c \<noteq> Greater" "compare c a \<noteq> Greater"
    using compare_trans [of a b c] compare_trans [of c b a] assms
    by (simp_all add: compare_swap [of c b] compare_swap [of b a])
  then show ?thesis by (cases "compare a c") (simp_all add: compare_swap [of c a])
qed

end

lemma reverse_ordering_Less [simp]: "reverse_ordering x = Less \<longleftrightarrow> x = Greater"
  by (cases x) simp_all

lemma comparator_of_key: "(\<And>a b. compare a b = cmp (key a) (key b :: 'k::linorder)) \<Longrightarrow> comparator compare"
  by unfold_locales (auto simp: cmp_def split: if_splits)

definition segment_key :: "string \<Rightarrow> bool \<times> u64 \<times> string" where
  "segment_key s = (if numeric_segment s then (False, unwrap_or 0 (parse_u64 s), [])
                    else (True, 0, s))"

definition prerelease_key :: "string option \<Rightarrow> bool \<times> (bool \<times> u64 \<times> string) list" where
  "prerelease_key p = (case p of
     None \<Rightarrow> (True, [])
   | Some s \<Rightarrow> (False, map segment_key (split_on (CHR ''.'') s)))"

definition version_key ::
  "Version \<Rightarrow> u64 \<times> u64 \<times> u64 \<times> bool \<times> (bool \<times> u64 \<times> string) list" where
  "version_key v = (v_major v, v_minor v, v_patch v, prerelease_key (v_prerelease v))"

lemma segment_compare_key: "compare_prerelease_segment a b = cmp (segment_key a) (segment_key b)"
  by (auto simp: compare_prerelease_segment_def segment_key_def cmp_def less_prod_def)

lemma compare_segments_key:
  "(case compare_segments (zip xs ys) of Some ord \<Rightarrow> ord | None \<Rightarrow> cmp (length xs) (length ys))
   = cmp (map segment_key xs) (map segment_key ys)"
proof (induction xs ys rule: list_induct2')
  case (4 x xs y ys)
  have "cmp (map segment_key (x # xs)) (map segment_key (y # ys)) =
      (if compare_prerelease_segment x y \<noteq> Equal then compare_prerelease_segment x y
       else cmp (map segment_key xs) (map segment_key ys))"
    by (auto simp: segment_compare_key cmp_def)
  then show ?case
    unfolding 4 [symmetric] by (auto simp: Let_def cmp_def split: option.splits)
qed (simp_all add: cmp_def)

lemma compare_prerelease_key:
  "compare_prerelease a b
   = cmp (map segment_key (split_on (CHR ''.'') a)) (map segment_key (split_on (CHR ''.'') b))"
  unfolding compare_prerelease_def Let_def by (rule compare_segments_key)

lemma cmp_pair: "cmp (a, b) (c, d) = (case cmp a c of Equal \<Rightarrow> cmp b d | ord \<Rightarrow> ord)"
  by (auto simp: cmp_def less_prod_def)

lemma prerelease_compare_key:
  "(case (p, q) of
      (None, None) \<Rightarrow> Equal
    | (None, Some _) \<Rightarrow> Greater
    | (Some _, None) \<Rightarrow> Less
    | (Some pa, Some pb) \<Rightarrow> compare_prerelease pa pb) = cmp (prerelease_key p) (prerelease_key q)"
  by (cases p; cases q) (simp_all add: prerelease_key_def cmp_pair compare_prerelease_key cmp_def)

lemma compare_versions_key: "compare_versions a b = cmp (version_key a) (version_key b)"
  unfolding compare_versions_def version_key_def cmp_pair prerelease_compare_key ..

lemma compare_semver_key:
  "compare_semver a b = cmp (map_option version_key (parse_version a)) (map_option version_key (parse_version b))"
  by (auto simp: compare_semver_def compare_versions_key cmp_def split: option.splits)

interpretation semver: comparator compare_semver
  by (rule comparator_of_key) (rule compare_semver_key)

section \<open>Decimal numbers\<close>

lemma digits_value_Nil [simp]: "digits_value [] = 0"
  by (simp add: digits_value_def)

lemma digits_value_snoc: "digits_value (xs @ [c]) = 10 * digits_value xs + (byte_of c - 48)"
  by (simp add: digits_value_def)

lemma byte_of_char_of: "n < 256 \<Longrightarrow> byte_of (char_of n) = n"
  by (simp add: byte_of_def of_char_of)

lemma char_of_byte_of: "char_of (byte_of c) = c"
  by (simp add: byte_of_def)

lemma zero_char: "char_of (48 :: nat) = CHR ''0''" "byte_of (CHR ''0'') = 48"
  by code_simp+

lemma digits_value_single [simp]: "digits_value [c] = byte_of c - 48"
  by (simp add: digits_value_def)

lemma digit_char: "(d :: nat) < 10 \<Longrightarrow> is_ascii_digit (char_of (48 + d))"
  by (simp add: is_ascii_digit_def byte_of_char_of)

lemma digits_show_nat: "list_all is_ascii_digit (show_nat n)"
proof (induction n rule: show_nat.induct)
  case (1 n)
  then show ?case
    by (subst show_nat.simps) (auto simp: digit_char list_all_append)
qed

lemma digits_value_show_nat: "digits_value (show_nat n) = n"
proof (induction n rule: show_nat.induct)
  case (1 n)
  then show ?case
    by (subst show_nat.simps)
       (auto simp: digits_value_snoc byte_of_char_of)
qed

lemma show_nat_not_Nil [simp]: "show_nat n \<noteq> []"
  by (subst show_nat.simps) simp

lemma hd_show_nat: "0 < n \<Longrightarrow> hd (show_nat n) \<noteq> CHR ''0''"
proof (induction n rule: show_nat.induct)
  case (1 n)
  show ?case
  proof (cases "n < 10")
    case True
    have "char_of (48 + n) \<noteq> (CHR ''0'')"
      using True 1(2) byte_of_char_of [of "48 + n"] zero_char(2) by fastforce
    with True show ?thesis by (subst show_nat.simps) simp
  next
    case False
    then show ?thesis using 1 by (subst show_nat.simps) simp
  qed
qed

definition canonical_number :: "string \<Rightarrow> bool" where
  "canonical_number s \<longleftrightarrow> s \<noteq> [] \<and> list_all is_ascii_digit s \<and> (hd s = CHR ''0'' \<longrightarrow> s = ''0'')"

lemma digits_value_pos:
  "s \<noteq> [] \<Longrightarrow> list_all is_ascii_digit s \<Longrightarrow> hd s \<noteq> CHR ''0'' \<Longrightarrow> 0 < digits_value s"
proof (induction s rule: rev_induct)
  case (snoc c xs)
  show ?case
  proof (cases "xs = []")
    case True
    have "byte_of c \<noteq> 48"
      using snoc.prems True char_of_byte_of [of c] zero_char by auto
    then show ?thesis using snoc.prems True by (simp add: digits_value_snoc is_ascii_digit_def)
  next
    case False
    then show ?thesis using snoc by (simp add: digits_value_snoc list_all_append)
  qed
qed simp

lemma show_digits_value: "canonical_number s \<Longrightarrow> show_nat (digits_value s) = s"
proof (induction s rule: rev_induct)
  case (snoc c xs)
  define d where "d = byte_of c - 48"
  have c: "d < 10" "char_of (48 + d) = c"
    using snoc.prems char_of_byte_of [of c]
    by (auto simp: canonical_number_def list_all_append is_ascii_digit_def d_def)
  show ?case
  proof (cases "xs = []")
    case True
    then show ?thesis using c by (simp add: d_def [symmetric] show_nat.simps)
  next
    case False
    have hd: "hd xs \<noteq> CHR ''0''" and dig: "list_all is_ascii_digit xs"
      using snoc.prems False by (auto simp: canonical_number_def list_all_append)
    then have pos: "0 < digits_value xs" using False by (intro digits_value_pos)
    have "show_nat (digits_value xs) = xs"
      using snoc.IH False hd dig by (simp add: canonical_number_def)
    then show ?thesis
      using c pos by (subst show_nat.simps) (simp add: digits_value_snoc d_def [symmetric])
  qed
qed (simp add: canonical_number_def)

section \<open>Parsing is exact\<close>

lemma parse_u64_digits:
  assumes "list_all is_ascii_digit s" "s \<noteq> []"
  shows "parse_u64 s = (if digits_value s < 2 ^ 64 then Some (word_of_nat (digits_value s)) else None)"
proof -
  have "\<not> starts_with s ''+''"
    using assms by (cases s) (auto simp: is_ascii_digit_def byte_of_def)
  then show ?thesis using assms by (simp add: parse_u64_def)
qed

lemma unat_bound64: "unat (w :: u64) < 2 ^ 64"
  using unsigned_less [of w] by simp

lemma parse_component_iff:
  "parse_component s = Some w \<longleftrightarrow> s = show_nat (unat w)"
proof
  assume p: "parse_component s = Some w"
  show "s = show_nat (unat w)"
  proof (cases "s = ''0''")
    case True
    then show ?thesis using p by (simp add: parse_component_def show_nat.simps zero_char)
  next
    case False
    then have s: "s \<noteq> []" "list_all is_ascii_digit s" "\<not> starts_with s ''0''" "parse_u64 s = Some w"
      using p by (auto simp: parse_component_def split: if_splits)
    then have "digits_value s < 2 ^ 64" "w = word_of_nat (digits_value s)"
      using parse_u64_digits [of s] by (auto split: if_splits)
    then have "unat w = digits_value s" by (simp add: unat_of_nat)
    moreover have "canonical_number s" using s by (cases s) (auto simp: canonical_number_def)
    ultimately show ?thesis using show_digits_value by simp
  qed
next
  assume s: "s = show_nat (unat w)"
  show "parse_component s = Some w"
  proof (cases "unat w = 0")
    case True
    then show ?thesis using s by (simp add: parse_component_def show_nat.simps unat_eq_0 zero_char)
  next
    case False
    then have "\<not> starts_with s ''0''"
      using hd_show_nat [of "unat w"] s by (auto simp: starts_with_iff)
    moreover have "s \<noteq> ''0''" using calculation by auto
    moreover have "digits_value s < 2 ^ 64"
      using s unat_bound64 by (simp add: digits_value_show_nat)
    ultimately show ?thesis
      using s by (simp add: parse_component_def digits_show_nat parse_u64_digits digits_value_show_nat)
  qed
qed

definition render_version :: "Version \<Rightarrow> string" where
  "render_version v = join ''.'' [show_nat (unat (v_major v)), show_nat (unat (v_minor v)),
       show_nat (unat (v_patch v))]
     @ (case v_prerelease v of None \<Rightarrow> [] | Some p \<Rightarrow> CHR ''-'' # p)"

lemma not_in_digits: "\<not> is_ascii_digit c \<Longrightarrow> c \<notin> set (show_nat n)"
  using digits_show_nat [of n] by (auto simp: list_all_iff)

lemma sep_not_digit [simp]: "\<not> is_ascii_digit (CHR ''.'')" "\<not> is_ascii_digit (CHR ''-'')"
  by (simp_all add: is_ascii_digit_def byte_of_def)

lemma parse_core:
  "(\<exists>a b c. split_on (CHR ''.'') core = [a, b, c] \<and> parse_component a = Some ma
      \<and> parse_component b = Some mi \<and> parse_component c = Some pa)
   \<longleftrightarrow> core = join ''.'' [show_nat (unat ma), show_nat (unat mi), show_nat (unat pa)]"
proof
  assume "\<exists>a b c. split_on (CHR ''.'') core = [a, b, c] \<and> parse_component a = Some ma
      \<and> parse_component b = Some mi \<and> parse_component c = Some pa"
  then show "core = join ''.'' [show_nat (unat ma), show_nat (unat mi), show_nat (unat pa)]"
    using join_split_on [of "CHR ''.''" core] by (auto simp: parse_component_iff)
next
  assume core: "core = join ''.'' [show_nat (unat ma), show_nat (unat mi), show_nat (unat pa)]"
  have "split_on (CHR ''.'') core = [show_nat (unat ma), show_nat (unat mi), show_nat (unat pa)]"
    unfolding core by (rule split_on_join) (simp_all add: not_in_digits)
  then show "\<exists>a b c. split_on (CHR ''.'') core = [a, b, c] \<and> parse_component a = Some ma
      \<and> parse_component b = Some mi \<and> parse_component c = Some pa"
    by (simp add: parse_component_iff)
qed

lemma parse_version_Some_iff:
  "parse_version s = Some v \<longleftrightarrow>
     (\<exists>core a b c. (case split_once (CHR ''-'') s of Some (c, p) \<Rightarrow> (c, Some p) | None \<Rightarrow> (s, None))
         = (core, v_prerelease v)
       \<and> split_on (CHR ''.'') core = [a, b, c] \<and> parse_component a = Some (v_major v)
       \<and> parse_component b = Some (v_minor v) \<and> parse_component c = Some (v_patch v)
       \<and> prerelease_ok (v_prerelease v))"
  by (auto simp: parse_version_def Let_def split: option.splits list.splits prod.splits)

lemma split_once_render:
  assumes "CHR ''-'' \<notin> set core"
  shows "(case split_once (CHR ''-'') (core @ (case p of None \<Rightarrow> [] | Some q \<Rightarrow> CHR ''-'' # q)) of
      Some (c, q) \<Rightarrow> (c, Some q) | None \<Rightarrow> (core @ (case p of None \<Rightarrow> [] | Some q \<Rightarrow> CHR ''-'' # q), None))
    = (core, p)"
proof (cases p)
  case None
  have "split_once (CHR ''-'') core = None" using assms by (simp add: split_once_None)
  with None show ?thesis by simp
qed (simp add: assms split_once_append)

lemma parse_version_render:
  "parse_version s = Some v \<longleftrightarrow> s = render_version v \<and> prerelease_ok (v_prerelease v)"
proof
  let ?core = "join ''.'' [show_nat (unat (v_major v)), show_nat (unat (v_minor v)),
       show_nat (unat (v_patch v))]"
  let ?split = "case split_once (CHR ''-'') s of Some (c, p) \<Rightarrow> (c, Some p) | None \<Rightarrow> (s, None)"
  {
    assume "parse_version s = Some v"
    then obtain core where c: "?split = (core, v_prerelease v)" "core = ?core" "prerelease_ok (v_prerelease v)"
      unfolding parse_version_Some_iff using parse_core by metis
    then show "s = render_version v \<and> prerelease_ok (v_prerelease v)"
      using split_once_Some [of "CHR ''-''" s]
      by (auto simp: render_version_def split: option.splits)
  next
    assume r: "s = render_version v \<and> prerelease_ok (v_prerelease v)"
    have "CHR ''-'' \<notin> set ?core" by (simp add: not_in_digits)
    then have "?split = (?core, v_prerelease v)"
      using split_once_render r unfolding render_version_def by blast
    moreover obtain a b c where "split_on (CHR ''.'') ?core = [a, b, c]" "parse_component a = Some (v_major v)"
        "parse_component b = Some (v_minor v)" "parse_component c = Some (v_patch v)"
      using parse_core by blast
    ultimately show "parse_version s = Some v"
      using r unfolding parse_version_Some_iff by blast
  }
qed

section \<open>Properties\<close>

text \<open>
  Parsing is exact: a string parses to a version if and only if it is the canonical
  rendering of that version (decimal components without leading zeros, within 64 bits, and
  the prerelease after the first hyphen) and the prerelease is well formed.
\<close>

theorem parse_version_exact:
  "parse_version s = Some v \<longleftrightarrow> s = render_version v \<and> prerelease_ok (v_prerelease v)"
  by (rule parse_version_render)

text \<open>
  The comparison is a total preorder on all strings: it is the lexicographic order of a key
  made of the three components, release above prerelease, and the prerelease segments with
  numeric ones below the others; strings that do not parse are below all versions.
\<close>

theorem compare_semver_refines_key_order:
  "compare_semver a b =
     cmp (map_option version_key (parse_version a)) (map_option version_key (parse_version b))"
  by (rule compare_semver_key)

text \<open>
  Releases outrank their prereleases: of two versions with the same components, the one with
  no prerelease compares greater than the one with any well-formed prerelease.
\<close>

theorem release_above_prerelease:
  assumes "prerelease_ok (Some p)"
  shows "compare_semver (render_version (v\<lparr>v_prerelease := None\<rparr>))
    (render_version (v\<lparr>v_prerelease := Some p\<rparr>)) = Greater"
proof -
  have "parse_version (render_version (v\<lparr>v_prerelease := None\<rparr>)) = Some (v\<lparr>v_prerelease := None\<rparr>)"
    "parse_version (render_version (v\<lparr>v_prerelease := Some p\<rparr>)) = Some (v\<lparr>v_prerelease := Some p\<rparr>)"
    using assms unfolding parse_version_render by (simp_all add: prerelease_ok_def)
  then show ?thesis by (simp add: compare_semver_def compare_versions_def)
qed

lemma show_sample: "show_nat 0 = ''0''" "show_nat 5 = ''5''"
  by code_simp+

theorem release_above_prerelease_witness: "compare_semver ''0.5.0'' ''0.5.0-unstable.9'' = Greater"
  using release_above_prerelease [of "''unstable.9''"
      "\<lparr>v_major = 0, v_minor = 5, v_patch = 0, v_prerelease = None\<rparr>"]
  by (simp add: render_version_def prerelease_ok_def segment_ok_def is_ascii_alphanumeric_def
      is_ascii_digit_def byte_of_def show_sample)

text \<open>
  Numeric prerelease segments are compared by value only within 64 bits: a segment of digits
  whose value does not fit compares below every positive number that does, although it is
  the larger number.
\<close>

theorem oversized_numeric_segment_below:
  assumes "numeric_segment a" "numeric_segment b"
    and "2 ^ 64 \<le> digits_value a" "digits_value b < 2 ^ 64" "0 < digits_value b"
  shows "compare_prerelease_segment a b = Less \<and> digits_value b < digits_value a"
proof -
  have "parse_u64 a = None" "parse_u64 b = Some (word_of_nat (digits_value b))"
    using assms by (simp_all add: parse_u64_digits numeric_segment_def)
  moreover have "(0 :: u64) < word_of_nat (digits_value b)"
    using assms by (simp add: word_less_nat_alt unat_of_nat)
  ultimately show ?thesis
    using assms by (simp add: compare_prerelease_segment_def unwrap_or_def)
qed

theorem oversized_numeric_segment_below_witness:
  "compare_prerelease_segment ''99999999999999999999'' ''1'' = Less \<and>
   digits_value ''1'' < digits_value ''99999999999999999999''"
  by (rule oversized_numeric_segment_below)
     (simp_all add: numeric_segment_def is_ascii_digit_def digits_value_def byte_of_def)

end
