(* ===== verification/Manifest.thy ===== *)
theory Manifest
  imports Semver
begin

text \<open>
  Release manifests (\<^verbatim>\<open>pantoken-remote-layout/src/manifest.rs\<close>): the manifest type, the field
  validation with its order of checks, and the platform-matrix check of received manifests.
\<close>

section \<open>Data\<close>

definition PROTOCOL_VERSION :: u32 where
  "PROTOCOL_VERSION = 6"

datatype ArchiveFormat = TarGz | Zip

record ReleaseTarget =
  rt_target_triple :: string
  rt_artifact_url :: string
  rt_sha256 :: string
  rt_archive_format :: ArchiveFormat

record PantokenReleaseManifest =
  rm_release_version :: string
  rm_protocol_version :: u32
  rm_build_sha :: "string option"
  rm_targets :: "ReleaseTarget list"

definition SUPPORTED_TARGET_TRIPLES :: "string list" where
  "SUPPORTED_TARGET_TRIPLES = [''aarch64-apple-darwin'', ''x86_64-unknown-linux-gnu'']"

datatype ManifestError =
    NoTargets
  | DuplicateTargets "string list"
  | InvalidSha256 string string
  | ProtocolVersionMismatch u32 u32
  | InvalidReleaseVersion string
  | IncompleteTargetMatrix "string list"

section \<open>Validation\<close>

definition is_valid_sha256 :: "string \<Rightarrow> bool" where
  "is_valid_sha256 s \<longleftrightarrow> length s = 64 \<and>
     list_all (\<lambda>c. is_ascii_digit c \<or> 97 \<le> byte_of c \<and> byte_of c \<le> 102) s"

text \<open>The loop over the targets: the triples seen so far and the duplicates found so far.\<close>

fun find_dups :: "string list \<Rightarrow> string list \<Rightarrow> string list \<Rightarrow> string list" where
  "find_dups seen dups [] = dups"
| "find_dups seen dups (t # ts) =
     (if t \<in> set seen
      then find_dups seen (if t \<in> set dups then dups else dups @ [t]) ts
      else find_dups (hs_insert t seen) dups ts)"

definition validate_manifest_fields :: "PantokenReleaseManifest \<Rightarrow> ManifestError + unit" where
  "validate_manifest_fields m =
     (if rm_targets m = [] then Inl NoTargets
      else
        let dups = find_dups [] [] (map rt_target_triple (rm_targets m)) in
        if dups \<noteq> [] then Inl (DuplicateTargets dups)
        else case find (\<lambda>t. \<not> is_valid_sha256 (rt_sha256 t)) (rm_targets m) of
          Some t \<Rightarrow> Inl (InvalidSha256 (rt_target_triple t) (rt_sha256 t))
        | None \<Rightarrow>
            if rm_protocol_version m \<noteq> PROTOCOL_VERSION
            then Inl (ProtocolVersionMismatch PROTOCOL_VERSION (rm_protocol_version m))
            else if \<not> parse_semver (rm_release_version m)
            then Inl (InvalidReleaseVersion (rm_release_version m))
            else Inr ())"

definition validate_target_matrix_completeness :: "PantokenReleaseManifest \<Rightarrow> ManifestError + unit" where
  "validate_target_matrix_completeness m =
     (let present = map rt_target_triple (rm_targets m);
          missing = filter (\<lambda>triple. triple \<notin> set present) SUPPORTED_TARGET_TRIPLES
      in if missing = [] then Inr () else Inl (IncompleteTargetMatrix missing))"

definition validate_manifest :: "PantokenReleaseManifest \<Rightarrow> ManifestError + unit" where
  "validate_manifest m = (case validate_manifest_fields m of
     Inl e \<Rightarrow> Inl e
   | Inr _ \<Rightarrow> validate_target_matrix_completeness m)"

section \<open>The duplicate check\<close>

lemma find_dups_spec:
  assumes "set dups \<subseteq> set seen" "distinct dups"
  shows "distinct (find_dups seen dups ts) \<and>
    set (find_dups seen dups ts) = set dups \<union> {t. (t \<in> set seen \<and> t \<in> set ts) \<or> 2 \<le> count_list ts t}"
  using assms
proof (induction seen dups ts rule: find_dups.induct)
  case (1 seen dups)
  then show ?case by simp
next
  case (2 seen dups t ts)
  have two: "2 \<le> Suc n \<longleftrightarrow> 0 < n" for n :: nat by auto
  have mem: "0 < count_list ts x \<longleftrightarrow> x \<in> set ts" for x
    by (simp add: count_list_0_iff neq0_conv [symmetric] del: neq0_conv)
  have pos: "2 \<le> count_list ts x \<Longrightarrow> x \<in> set ts" for x
    using mem [of x] by linarith
  show ?case
  proof (cases "t \<in> set seen")
    case True
    with 2 have "distinct (find_dups seen (if t \<in> set dups then dups else dups @ [t]) ts)"
      "set (find_dups seen (if t \<in> set dups then dups else dups @ [t]) ts) =
        set (if t \<in> set dups then dups else dups @ [t]) \<union>
        {x. (x \<in> set seen \<and> x \<in> set ts) \<or> 2 \<le> count_list ts x}"
      by auto
    with True show ?thesis using pos by (auto simp: two mem)
  next
    case False
    then have "distinct (find_dups (hs_insert t seen) dups ts)"
      "set (find_dups (hs_insert t seen) dups ts) =
        set dups \<union> {x. (x \<in> set (hs_insert t seen) \<and> x \<in> set ts) \<or> 2 \<le> count_list ts x}"
      using 2 by auto
    with False show ?thesis using pos mem by (auto simp: two Suc_le_eq)
  qed
qed

lemma find_SomeD: "find P xs = Some x \<Longrightarrow> x \<in> set xs \<and> P x"
  by (induction xs) (auto split: if_splits)

lemma find_dups_empty_iff: "find_dups [] [] ts = [] \<longleftrightarrow> distinct ts"
proof -
  have "set (find_dups [] [] ts) = {t. 2 \<le> count_list ts t}"
    using find_dups_spec [of "[]" "[]" ts] by simp
  moreover have "distinct ts \<longleftrightarrow> (\<forall>t. \<not> 2 \<le> count_list ts t)"
    by (induction ts) (auto simp: not_le less_Suc_eq_le count_list_0_iff numeral_2_eq_2 le_Suc_eq)
  ultimately show ?thesis by auto
qed

section \<open>Properties\<close>

text \<open>
  A received manifest is accepted if and only if it has a target, its triples are distinct and
  cover the supported matrix, every digest is 64 lowercase hexadecimal characters, the
  protocol version is this build's and the release version is semantic.
\<close>

theorem manifest_accepted_iff:
  "validate_manifest m = Inr () \<longleftrightarrow>
     rm_targets m \<noteq> [] \<and> distinct (map rt_target_triple (rm_targets m))
     \<and> list_all (\<lambda>t. is_valid_sha256 (rt_sha256 t)) (rm_targets m)
     \<and> rm_protocol_version m = 6 \<and> (\<exists>v. parse_version (rm_release_version m) = Some v)
     \<and> {''aarch64-apple-darwin'', ''x86_64-unknown-linux-gnu''} \<subseteq> set (map rt_target_triple (rm_targets m))"
  by (auto simp: validate_manifest_def validate_manifest_fields_def Let_def find_dups_empty_iff
      find_None_iff list_all_iff parse_semver_def PROTOCOL_VERSION_def SUPPORTED_TARGET_TRIPLES_def
      validate_target_matrix_completeness_def filter_empty_conv
      split: option.splits sum.splits if_splits dest: find_SomeD)

text \<open>
  A manifest rejected for duplicates names exactly the triples that occur more than once,
  each of them once.
\<close>

theorem duplicates_reported_exactly:
  "case validate_manifest_fields m of
     Inl (DuplicateTargets dups) \<Rightarrow> distinct dups \<and> dups \<noteq> []
       \<and> set dups = {t. 2 \<le> count_list (map rt_target_triple (rm_targets m)) t}
   | _ \<Rightarrow> True"
  using find_dups_spec [of "[]" "[]" "map rt_target_triple (rm_targets m)"]
  by (auto simp: validate_manifest_fields_def Let_def split: option.splits)

end
