(* ===== verification/Tar_Validate.thy ===== *)
theory Tar_Validate
  imports Prelude
begin

text \<open>
  The validator of release archives (\<^verbatim>\<open>pantoken-tar-validate/src/lib.rs\<close>): path normalisation,
  the checks of one member in the code's order, the walk over the members and the required
  members at the end.

  Decompression and tar parsing are packages outside the repository: an archive is what the
  \<^verbatim>\<open>tar\<close> package yields for it, a failure to start (\<open>None\<close>) or a list of entries, each a failure
  or the path (after \<^verbatim>\<open>to_string_lossy\<close>), the entry type and the mode field (\<open>None\<close> when it does
  not parse).
\<close>

section \<open>Archives\<close>

datatype EntryType =
    Regular | HardLink | Symlink | CharacterSpecial | BlockSpecial | Directory | Fifo | Continuous
  | GNULongName | GNULongLink | GNUSparse | XGlobalHeader | XHeader | OtherType u8

record Entry =
  te_path :: "string option"
  te_type :: EntryType
  te_mode :: "u32 option"

type_synonym archive = "Entry option list option"

datatype TarValidateError = Malformed | Unsafe string

definition VALID :: int where "VALID = 0"
definition MALFORMED :: int where "MALFORMED = 2"
definition UNSAFE :: int where "UNSAFE = 3"

definition REQUIRED :: "string list" where
  "REQUIRED = [''VERSION'', ''BUILD_SHA'', ''bin/pantoken-server'']"

definition CANONICAL_PREFIXES :: "string list" where
  "CANONICAL_PREFIXES = [''VERSION'', ''BUILD_SHA'', ''bin/pantoken-server'']"

section \<open>Path normalisation\<close>

fun normalise_parts :: "string list \<Rightarrow> string list option" where
  "normalise_parts [] = Some []"
| "normalise_parts (c # cs) =
     (if c = '''' \<or> c = ''.'' then normalise_parts cs
      else if c = ''..'' then None
      else map_option ((#) c) (normalise_parts cs))"

definition normalise_path :: "string \<Rightarrow> string option" where
  "normalise_path name =
     (if name = [] then Some []
      else if starts_with name ''/'' then None
      else map_option (join ''/'') (normalise_parts (split_on (CHR ''/'') name)))"

section \<open>Checks of one member\<close>

definition is_member_safe :: "Entry \<Rightarrow> string + unit" where
  "is_member_safe hdr =
     (if te_type hdr = Symlink \<or> te_type hdr = HardLink then Inl ''symlink or hardlink''
      else if te_type hdr = BlockSpecial \<or> te_type hdr = CharacterSpecial
           \<or> te_type hdr = XGlobalHeader \<or> te_type hdr = XHeader
      then Inl ''device file''
      else Inr ())"

fun show_octal :: "nat \<Rightarrow> string" where
  "show_octal n = (if n < 8 then [char_of (48 + n)]
                   else show_octal (n div 8) @ [char_of (48 + n mod 8)])"

declare show_octal.simps [simp del]

definition check_owner_mode :: "Entry \<Rightarrow> string + unit" where
  "check_owner_mode hdr =
     (let mode = (case te_mode hdr of Some m \<Rightarrow> m | None \<Rightarrow> 0) in
      if mode AND 18 \<noteq> 0
      then Inl (''unsafe mode '' @ show_octal (unat mode)
                @ '': group-write or other-write bits set'')
      else Inr ())"

definition prefix_allowed :: "string \<Rightarrow> bool" where
  "prefix_allowed path \<longleftrightarrow> path \<in> set CANONICAL_PREFIXES \<or> path = ''bin''"

definition check_no_forbidden :: "string \<Rightarrow> string + unit" where
  "check_no_forbidden path =
     (if str_contains path ''node_modules'' then Inl ''node_modules''
      else if str_contains path ''/.git/'' \<or> starts_with path ''.git/'' \<or> path = ''.git''
      then Inl ''.git''
      else if path = ''Cargo.toml'' \<or> path = ''Cargo.lock'' then Inl ''Cargo.toml/Cargo.lock''
      else Inr ())"

section \<open>The walk\<close>

text \<open>
  One turn of the loop on an entry that was read: an error, or the new names and the set of
  names seen.
\<close>

definition unsafe_because :: "string \<Rightarrow> string \<Rightarrow> TarValidateError" where
  "unsafe_because raw_name reason = Unsafe (raw_name @ '': '' @ reason)"

definition check_entry ::
  "Entry \<Rightarrow> string list \<Rightarrow> string hashset \<Rightarrow> TarValidateError + (string list \<times> string hashset)" where
  "check_entry entry names seen = (case te_path entry of
     None \<Rightarrow> Inl Malformed
   | Some raw_name \<Rightarrow> (case normalise_path raw_name of
       None \<Rightarrow> Inl (Unsafe raw_name)
     | Some norm \<Rightarrow>
         if norm = [] then Inr (names, seen)
         else case is_member_safe entry of
           Inl reason \<Rightarrow> Inl (unsafe_because raw_name reason)
         | Inr _ \<Rightarrow> (case check_owner_mode entry of
             Inl reason \<Rightarrow> Inl (unsafe_because raw_name reason)
           | Inr _ \<Rightarrow> (case check_no_forbidden norm of
               Inl reason \<Rightarrow> Inl (unsafe_because raw_name reason)
             | Inr _ \<Rightarrow>
                 if \<not> prefix_allowed norm
                 then Inl (unsafe_because raw_name ''not in canonical schema'')
                 else if norm \<in> set seen
                 then Inl (unsafe_because raw_name ''duplicate normalised path'')
                 else Inr (names @ [norm], hs_insert norm seen)))))"

fun walk_entries ::
  "Entry option list \<Rightarrow> string list \<Rightarrow> string hashset \<Rightarrow> TarValidateError + string list" where
  "walk_entries [] names seen = Inr names"
| "walk_entries (None # rest) names seen = Inl Malformed"
| "walk_entries (Some entry # rest) names seen =
     (case check_entry entry names seen of
        Inl e \<Rightarrow> Inl e
      | Inr (names', seen') \<Rightarrow> walk_entries rest names' seen')"

definition check_required_members :: "string list \<Rightarrow> TarValidateError + string list" where
  "check_required_members found =
     (case find (\<lambda>r. r \<notin> set found) REQUIRED of
        Some required \<Rightarrow> Inl (Unsafe (''missing required member: '' @ required))
      | None \<Rightarrow> Inr found)"

definition validate_tar :: "archive \<Rightarrow> TarValidateError + string list" where
  "validate_tar arch = (case arch of
     None \<Rightarrow> Inl Malformed
   | Some entries \<Rightarrow> (case walk_entries entries [] [] of
       Inl e \<Rightarrow> Inl e
     | Inr names \<Rightarrow> check_required_members names))"

section \<open>Normalisation\<close>

definition plain_part :: "string \<Rightarrow> bool" where
  "plain_part c \<longleftrightarrow> c \<noteq> '''' \<and> c \<noteq> ''.'' \<and> c \<noteq> ''..''"

lemma normalise_parts_eq:
  "normalise_parts cs = (if ''..'' \<in> set cs then None
     else Some (filter plain_part cs))"
proof (induction cs)
  case (Cons c cs)
  have "plain_part c \<longleftrightarrow> c \<noteq> '''' \<and> c \<noteq> ''.'' \<and> c \<noteq> ''..''" by (simp add: plain_part_def)
  then show ?case using Cons by auto
qed simp

lemma split_join_plain:
  assumes "list_all plain_part ps" "\<forall>p \<in> set ps. CHR ''/'' \<notin> set p" "ps \<noteq> []"
  shows "split_on (CHR ''/'') (join ''/'' ps) = ps"
  using assms split_on_join [of ps "CHR ''/''"] by simp

lemma join_plain_head:
  assumes "list_all plain_part ps" "\<forall>p \<in> set ps. CHR ''/'' \<notin> set p" "ps \<noteq> []"
  shows "join ''/'' ps \<noteq> [] \<and> \<not> starts_with (join ''/'' ps) ''/''"
proof -
  obtain p qs where ps: "ps = p # qs" using assms(3) by (cases ps) auto
  then obtain x p' where "p = x # p'" using assms(1) by (cases p) (auto simp: plain_part_def)
  then show ?thesis using assms(2) ps by (auto simp: join_Cons_head)
qed

lemma normalise_path_idem:
  assumes "normalise_path name = Some n"
  shows "normalise_path n = Some n"
proof (cases "n = []")
  case False
  define ps where "ps = filter plain_part (split_on (CHR ''/'') name)"
  have n: "n = join ''/'' ps" and ps: "ps \<noteq> []"
    using assms False by (auto simp: normalise_path_def normalise_parts_eq ps_def split: if_splits)
  have plain: "list_all plain_part ps" "\<forall>p \<in> set ps. CHR ''/'' \<notin> set p"
    using split_on_no_sep [of _ "CHR ''/''" name] by (auto simp: ps_def list_all_iff)
  have "''..'' \<notin> set ps" using plain(1) by (auto simp: list_all_iff plain_part_def)
  moreover have "filter plain_part ps = ps" using plain(1) by (simp add: list_all_iff filter_id_conv)
  ultimately show ?thesis
    using join_plain_head [OF plain ps] split_join_plain [OF plain ps] n
    by (simp add: normalise_path_def normalise_parts_eq)
qed (simp add: normalise_path_def)

section \<open>What an accepted archive contains\<close>

text \<open>The member a checked entry contributes, if any, and what the checks ask of it.\<close>

definition entry_names :: "Entry option \<Rightarrow> string list" where
  "entry_names e = (case e of
     Some entry \<Rightarrow> (case te_path entry of
         Some raw \<Rightarrow> (case normalise_path raw of Some n \<Rightarrow> (if n = [] then [] else [n]) | None \<Rightarrow> [])
       | None \<Rightarrow> [])
   | None \<Rightarrow> [])"

definition member_ok :: "Entry \<Rightarrow> string \<Rightarrow> bool" where
  "member_ok entry n \<longleftrightarrow>
     te_type entry \<notin> {Symlink, HardLink, BlockSpecial, CharacterSpecial, XGlobalHeader, XHeader}
     \<and> (case te_mode entry of Some m \<Rightarrow> m AND 18 = 0 | None \<Rightarrow> True)
     \<and> n \<in> set (''bin'' # REQUIRED)"

definition entry_ok :: "Entry option \<Rightarrow> bool" where
  "entry_ok e = (case e of
     None \<Rightarrow> False
   | Some entry \<Rightarrow> (case te_path entry of
         None \<Rightarrow> False
       | Some raw \<Rightarrow> (case normalise_path raw of
           None \<Rightarrow> False
         | Some n \<Rightarrow> n = [] \<or> member_ok entry n)))"

lemma canonical_not_forbidden:
  "check_no_forbidden ''VERSION'' = Inr ()" "check_no_forbidden ''BUILD_SHA'' = Inr ()"
  "check_no_forbidden ''bin'' = Inr ()" "check_no_forbidden ''bin/pantoken-server'' = Inr ()"
  by code_simp+

lemma allowed_not_forbidden: "prefix_allowed n \<Longrightarrow> check_no_forbidden n = Inr ()"
  by (auto simp: prefix_allowed_def CANONICAL_PREFIXES_def canonical_not_forbidden)

lemma is_member_safe_ok:
  "is_member_safe entry = Inr () \<longleftrightarrow>
     te_type entry \<notin> {Symlink, HardLink, BlockSpecial, CharacterSpecial, XGlobalHeader, XHeader}"
  by (simp add: is_member_safe_def)

lemma check_owner_mode_ok:
  "check_owner_mode entry = Inr () \<longleftrightarrow> (case te_mode entry of Some m \<Rightarrow> m AND 18 = 0 | None \<Rightarrow> True)"
  by (simp add: check_owner_mode_def Let_def split: option.splits)

lemma prefix_allowed_iff: "prefix_allowed n \<longleftrightarrow> n \<in> set (''bin'' # REQUIRED)"
  unfolding prefix_allowed_def CANONICAL_PREFIXES_def REQUIRED_def by auto

lemma member_ok_iff:
  "member_ok entry n \<longleftrightarrow> is_member_safe entry = Inr () \<and> check_owner_mode entry = Inr () \<and> prefix_allowed n"
  unfolding member_ok_def is_member_safe_ok check_owner_mode_ok prefix_allowed_iff ..

lemma check_member:
  assumes "te_path entry = Some raw" "normalise_path raw = Some n" "n \<noteq> []"
  shows "check_entry entry names seen = Inr r \<longleftrightarrow>
    member_ok entry n \<and> n \<notin> set seen \<and> r = (names @ [n], hs_insert n seen)"
  using assms
  by (auto simp: check_entry_def member_ok_iff allowed_not_forbidden split: sum.splits)

lemma check_entry_ok:
  "check_entry entry names seen = Inr r \<longleftrightarrow>
     entry_ok (Some entry) \<and> set (entry_names (Some entry)) \<inter> set seen = {}
     \<and> r = (names @ entry_names (Some entry),
            (case entry_names (Some entry) of n # _ \<Rightarrow> hs_insert n seen | [] \<Rightarrow> seen))"
proof (cases "te_path entry")
  case (Some raw)
  show ?thesis
  proof (cases "normalise_path raw")
    case None
    then show ?thesis using Some by (simp add: check_entry_def entry_ok_def)
  next
    case n: (Some n)
    show ?thesis
    proof (cases "n = []")
      case True
      then show ?thesis using Some n by (auto simp: check_entry_def entry_ok_def entry_names_def)
    next
      case False
      then show ?thesis
        using check_member [OF Some n False, of names seen] Some n
        by (auto simp: entry_ok_def entry_names_def)
    qed
  qed
qed (simp add: check_entry_def entry_ok_def)

lemma entry_names_cases: "entry_names e = [] \<or> (\<exists>n. entry_names e = [n])"
  by (auto simp: entry_names_def split: option.splits)

text \<open>The set of names seen is the list of names collected.\<close>

lemma walk_entries_ok:
  assumes "set seen = set names"
  shows "walk_entries es names seen = Inr r \<longleftrightarrow>
     list_all entry_ok es \<and> distinct (concat (map entry_names es))
     \<and> set (concat (map entry_names es)) \<inter> set names = {}
     \<and> r = names @ concat (map entry_names es)"
  using assms
proof (induction es arbitrary: names seen)
  case (Cons e es)
  show ?case
  proof (cases e)
    case (Some entry)
    define ns where "ns = entry_names (Some entry)"
    show ?thesis
    proof (cases "entry_ok (Some entry) \<and> set ns \<inter> set seen = {}")
      case True
      define seen' where "seen' = (case ns of n # _ \<Rightarrow> hs_insert n seen | [] \<Rightarrow> seen)"
      have ns: "ns = [] \<or> (\<exists>n. ns = [n])" unfolding ns_def by (rule entry_names_cases)
      have "check_entry entry names seen = Inr (names @ ns, seen')"
        using True check_entry_ok [of entry names seen] by (simp add: seen'_def ns_def)
      then have step: "walk_entries (e # es) names seen = walk_entries es (names @ ns) seen'"
        using Some by simp
      have "set seen' = set (names @ ns)"
        using ns Cons.prems unfolding seen'_def by (elim disjE exE) simp_all
      note IH = Cons.IH [OF this]
      have cat: "concat (map entry_names (e # es)) = ns @ concat (map entry_names es)"
        by (simp add: Some ns_def)
      have oks: "list_all entry_ok (e # es) \<longleftrightarrow> list_all entry_ok es" by (simp add: Some True)
      have "distinct ns" using ns by auto
      moreover have "set ns \<inter> set names = {}" using True Cons.prems by simp
      ultimately show ?thesis
        unfolding step IH cat oks distinct_append set_append append_assoc by blast
    next
      case False
      then have "check_entry entry names seen \<noteq> Inr r" for r
        unfolding check_entry_ok ns_def by blast
      then obtain err where "check_entry entry names seen = Inl err"
        by (cases "check_entry entry names seen") auto
      then show ?thesis using False Cons.prems Some by (auto simp: ns_def [symmetric])
    qed
  qed (simp add: entry_ok_def)
qed auto

lemma find_required_None:
  "find (\<lambda>r. r \<notin> set found) REQUIRED = None \<longleftrightarrow> set REQUIRED \<subseteq> set found"
  by (auto simp: find_None_iff)

lemma check_required_ok:
  "check_required_members found = Inr names \<longleftrightarrow> names = found \<and> set REQUIRED \<subseteq> set found"
  unfolding find_required_None [symmetric] by (auto simp: check_required_members_def split: option.splits)

lemma validate_tar_ok:
  "validate_tar arch = Inr names \<longleftrightarrow>
     (\<exists>es. arch = Some es \<and> list_all entry_ok es \<and> names = concat (map entry_names es)
       \<and> distinct names \<and> set REQUIRED \<subseteq> set names)"
proof (cases arch)
  case (Some es)
  show ?thesis
  proof (cases "walk_entries es [] []")
    case (Inl e)
    then have "\<not> (list_all entry_ok es \<and> distinct (concat (map entry_names es)))"
      using walk_entries_ok [of "[]" "[]" es "concat (map entry_names es)"] by simp
    then show ?thesis using Some Inl by (auto simp: validate_tar_def)
  next
    case (Inr ns)
    then have ns: "list_all entry_ok es" "distinct ns" "ns = concat (map entry_names es)"
      using walk_entries_ok [of "[]" "[]" es ns] by auto
    show ?thesis
      using ns(1,2) unfolding Some ns(3) by (auto simp: validate_tar_def Inr ns(3) check_required_ok simp del: set_concat)
  qed
qed (simp add: validate_tar_def)

lemma entry_names_allowed: "entry_ok e \<Longrightarrow> set (entry_names e) \<subseteq> insert ''bin'' (set REQUIRED)"
  by (auto simp: entry_ok_def entry_names_def member_ok_def split: option.splits if_splits)

section \<open>Properties\<close>

text \<open>
  Normalisation is safe and idempotent: a normalised path normalises to itself, and none of
  its components is empty, a dot or a parent reference.
\<close>

theorem normalise_path_stable:
  assumes "normalise_path name = Some n"
  shows "normalise_path n = Some n \<and> (n = [] \<or> list_all plain_part (split_on (CHR ''/'') n))"
proof (cases "n = []")
  case False
  define ps where "ps = filter plain_part (split_on (CHR ''/'') name)"
  have n: "n = join ''/'' ps" "ps \<noteq> []"
    using assms False by (auto simp: normalise_path_def normalise_parts_eq ps_def split: if_splits)
  have plain: "list_all plain_part ps" "\<forall>p \<in> set ps. CHR ''/'' \<notin> set p"
    using split_on_no_sep [of _ "CHR ''/''" name] by (auto simp: ps_def list_all_iff)
  show ?thesis
    using normalise_path_idem [OF assms] split_join_plain [OF plain n(2)] plain(1) n(1) by simp
qed (simp add: normalise_path_def)

theorem normalise_path_stable_witness:
  "normalise_path ''bin/pantoken-server'' = Some ''bin/pantoken-server''"
proof -
  have "normalise_path ''./bin//pantoken-server'' = Some ''bin/pantoken-server''"
    by (simp add: normalise_path_def)
  from normalise_path_stable [OF this] show ?thesis by blast
qed

text \<open>
  Acceptance is exact: an archive is accepted with a list of names if and only if every entry
  was read, has a relative path without parent references, and is the archive root or one
  of the canonical members (or the bin directory) with an admissible type and mode, the
  names being the normalised paths in order, without repetition, and all required members
  are among them.
\<close>

theorem archive_accepted_iff:
  "validate_tar arch = Inr names \<longleftrightarrow>
     (\<exists>es. arch = Some es \<and> list_all entry_ok es \<and> names = concat (map entry_names es)
       \<and> distinct names \<and> {''VERSION'', ''BUILD_SHA'', ''bin/pantoken-server''} \<subseteq> set names)"
  using validate_tar_ok by (simp add: REQUIRED_def)

text \<open>
  An accepted archive holds exactly the canonical files: the three required members and, at
  most, the bin directory.
\<close>

theorem accepted_names_canonical:
  assumes "validate_tar arch = Inr names"
  shows "set names - {''bin''} = {''VERSION'', ''BUILD_SHA'', ''bin/pantoken-server''}"
proof -
  obtain es where es: "list_all entry_ok es" "names = concat (map entry_names es)"
      "set REQUIRED \<subseteq> set names"
    using assms validate_tar_ok by blast
  have "set names \<subseteq> insert ''bin'' (set REQUIRED)"
    using es(1,2) entry_names_allowed by (fastforce simp: list_all_iff)
  moreover have "''bin'' \<notin> set REQUIRED" by (simp add: REQUIRED_def)
  ultimately have "set names - {''bin''} = set REQUIRED" using es(3) by blast
  then show ?thesis by (simp add: REQUIRED_def)
qed

definition sample_entry :: "EntryType \<Rightarrow> u32 option \<Rightarrow> string \<Rightarrow> Entry option" where
  "sample_entry ty mode p = Some \<lparr>te_path = Some p, te_type = ty, te_mode = mode\<rparr>"

lemmas tar_eval = validate_tar_def sample_entry_def check_entry_def normalise_path_def
  is_member_safe_def check_owner_mode_def check_no_forbidden_def prefix_allowed_def
  CANONICAL_PREFIXES_def check_required_members_def REQUIRED_def hs_insert_def

theorem accepted_names_canonical_witness:
  "set [''VERSION'', ''BUILD_SHA'', ''bin'', ''bin/pantoken-server''] - {''bin''}
   = {''VERSION'', ''BUILD_SHA'', ''bin/pantoken-server''}"
proof (rule accepted_names_canonical)
  show "validate_tar (Some [sample_entry Regular (Some 420) ''./VERSION'',
      sample_entry Regular (Some 420) ''BUILD_SHA'', sample_entry Directory (Some 493) ''bin/'',
      sample_entry Regular (Some 493) ''bin/pantoken-server''])
    = Inr [''VERSION'', ''BUILD_SHA'', ''bin'', ''bin/pantoken-server'']"
    by (simp add: tar_eval)
qed

text \<open>
  Not every special file is rejected: a FIFO under each required name, with the set-user-id
  bit in its mode, is accepted, although the validator is to reject special files and
  unsafe modes.
\<close>

theorem fifo_members_accepted:
  "validate_tar (Some [sample_entry Fifo (Some 2541) ''VERSION'', sample_entry Fifo (Some 2541) ''BUILD_SHA'',
      sample_entry Fifo (Some 2541) ''bin/pantoken-server''])
   = Inr [''VERSION'', ''BUILD_SHA'', ''bin/pantoken-server'']"
  by (simp add: tar_eval)

end
