(* ===== verification/Session_Lists.thy ===== *)
theory Session_Lists
  imports Session_Types
begin

text \<open>
  Two policies over session lists (\<^verbatim>\<open>pantoken-server/src/shared\<close>): which kept-warm sessions to
  evict (\<^verbatim>\<open>warm_cap.rs\<close>) and how the warm sessions and those on disk are merged into one list
  (\<^verbatim>\<open>session_list.rs\<close>). Both loops are shown equal to their declarative reading.
\<close>

section \<open>Warm-session eviction\<close>

text \<open>The loop over \<open>order\<close>, with the ids chosen so far.\<close>

fun eviction_loop :: "'a option \<Rightarrow> ('a \<Rightarrow> bool) \<Rightarrow> int \<Rightarrow> 'a list \<Rightarrow> 'a list \<Rightarrow> 'a list" where
  "eviction_loop protected_id evictable need evict [] = evict"
| "eviction_loop protected_id evictable need evict (sid # order) =
     (if int (length evict) \<ge> need then evict
      else if Some sid = protected_id then eviction_loop protected_id evictable need evict order
      else if \<not> evictable sid then eviction_loop protected_id evictable need evict order
      else eviction_loop protected_id evictable need (evict @ [sid]) order)"

definition eviction_plan :: "'a list \<Rightarrow> 'a option \<Rightarrow> i64 \<Rightarrow> ('a \<Rightarrow> bool) \<Rightarrow> 'a list" where
  "eviction_plan order protected_id cap evictable =
     (if cap \<le> 0 \<or> int (length order) \<le> cap then []
      else eviction_loop protected_id evictable (int (length order) - cap) [] order)"

definition eligible :: "'a option \<Rightarrow> ('a \<Rightarrow> bool) \<Rightarrow> 'a \<Rightarrow> bool" where
  "eligible protected_id evictable sid \<longleftrightarrow> Some sid \<noteq> protected_id \<and> evictable sid"

lemma eviction_loop_take:
  "eviction_loop p f need evict order =
     evict @ take (nat need - length evict) (filter (eligible p f) order)"
proof (induction order arbitrary: evict)
  case (Cons sid order)
  show ?case
  proof (cases "int (length evict) \<ge> need")
    case False
    then have "nat need - length evict = Suc (nat need - length (evict @ [sid]))" by simp
    then show ?thesis using False Cons by (simp add: eligible_def)
  qed (simp add: nat_le_iff)
qed simp

lemma eviction_plan_take:
  "eviction_plan order p cap f =
     (if cap \<le> 0 then []
      else take (nat (int (length order) - cap)) (filter (eligible p f) order))"
  by (auto simp: eviction_plan_def eviction_loop_take)

section \<open>Merging session lists\<close>

text \<open>Collecting pairs into a \<^verbatim>\<open>HashMap\<close>: a later pair replaces an earlier one with its key.\<close>

definition collect_map :: "('k \<times> 'v) list \<Rightarrow> ('k, 'v) hashmap" where
  "collect_map kvs = foldl (\<lambda>m (k, v). hm_insert k v m) [] kvs"

definition overlay_display_name ::
  "(SessionId, SessionListEntry) hashmap \<Rightarrow> SessionListEntry \<Rightarrow> SessionListEntry" where
  "overlay_display_name warm_by_id e = (case hm_get warm_by_id (le_session_id e) of
     Some w \<Rightarrow> (if le_display_name w \<noteq> None then e\<lparr>le_display_name := le_display_name w\<rparr> else e)
   | None \<Rightarrow> e)"

definition merge_session_lists ::
  "SessionListEntry list \<Rightarrow> SessionListEntry list \<Rightarrow> SessionListEntry list" where
  "merge_session_lists on_disk warm =
     (let on_disk_ids = map le_session_id on_disk;
          warm_by_id = collect_map (map (\<lambda>e. (le_session_id e, e))
             (filter (\<lambda>e. le_session_id e \<in> set on_disk_ids) warm))
      in filter (\<lambda>e. le_session_id e \<notin> set on_disk_ids) warm
         @ map (overlay_display_name warm_by_id) on_disk)"

lemma collect_map_get: "map_of (collect_map kvs) = map_of (rev kvs)"
proof (induction kvs rule: rev_induct)
  case (snoc kv kvs)
  then show ?case by (cases kv) (simp add: collect_map_def)
qed (simp add: collect_map_def)

lemma overlay_id [simp]: "le_session_id (overlay_display_name m e) = le_session_id e"
  by (auto simp: overlay_display_name_def split: option.splits)

text \<open>The live title of a session: the display name of its last warm entry.\<close>

definition live_title :: "SessionListEntry list \<Rightarrow> SessionId \<Rightarrow> string option" where
  "live_title warm sid = (case filter (\<lambda>w. le_session_id w = sid) warm of
     [] \<Rightarrow> None | ws \<Rightarrow> le_display_name (last ws))"

lemma map_of_last:
  "map_of (rev (map (\<lambda>e. (f e, e)) xs)) k =
     (case filter (\<lambda>e. f e = k) xs of [] \<Rightarrow> None | ws \<Rightarrow> Some (last ws))"
  by (induction xs rule: rev_induct) (auto split: list.splits)

lemma overlay_live_title:
  assumes "e \<in> set on_disk"
  shows "overlay_display_name (collect_map (map (\<lambda>e. (le_session_id e, e))
      (filter (\<lambda>e. le_session_id e \<in> le_session_id ` set on_disk) warm))) e =
    (case live_title warm (le_session_id e) of Some t \<Rightarrow> e\<lparr>le_display_name := Some t\<rparr> | None \<Rightarrow> e)"
proof -
  have "filter (\<lambda>w. le_session_id w = le_session_id e)
      (filter (\<lambda>e. le_session_id e \<in> le_session_id ` set on_disk) warm)
    = filter (\<lambda>w. le_session_id w = le_session_id e) warm"
    using assms by (auto intro!: filter_cong)
  then show ?thesis
    by (auto simp: overlay_display_name_def collect_map_get map_of_last live_title_def
        split: option.splits list.splits)
qed

section \<open>Properties\<close>

text \<open>
  Eviction takes the least recently focused sessions that may be evicted, as many as the set
  exceeds its cap, in order; the protected session and sessions that are not evictable are
  never chosen, and a cap that is not positive means no eviction.
\<close>

theorem eviction_plan_oldest_eligible:
  "eviction_plan order p cap f =
     (if cap \<le> 0 then []
      else take (nat (int (length order) - cap)) (filter (eligible p f) order))"
  by (rule eviction_plan_take)

text \<open>
  After eviction the set fits its cap whenever enough of its sessions may be evicted, and is
  over it by exactly the shortfall otherwise.
\<close>

theorem eviction_reaches_cap:
  assumes "0 < cap" "distinct order"
  shows "int (length (filter (\<lambda>s. s \<notin> set (eviction_plan order p cap f)) order)) =
    max (min cap (int (length order))) (int (length order) - int (length (filter (eligible p f) order)))"
proof -
  let ?plan = "eviction_plan order p cap f"
  have plan: "?plan = take (nat (int (length order) - cap)) (filter (eligible p f) order)"
    using assms(1) by (simp add: eviction_plan_take)
  have "distinct ?plan" unfolding plan using assms(2) by simp
  moreover have "set ?plan \<subseteq> set order"
    unfolding plan by (auto dest: in_set_takeD)
  moreover from this have "{x \<in> set order. x \<in> set ?plan} = set ?plan" by blast
  ultimately have len: "length (filter (\<lambda>s. s \<in> set ?plan) order) = length ?plan"
    using assms(2) distinct_card [of ?plan] distinct_card [of "filter (\<lambda>s. s \<in> set ?plan) order"]
    by simp
  have "length (filter (\<lambda>s. s \<notin> set ?plan) order) + length (filter (\<lambda>s. s \<in> set ?plan) order)
      = length order"
    using sum_length_filter_compl [of "\<lambda>s. s \<in> set ?plan" order] by simp
  moreover have "length (filter (eligible p f) order) \<le> length order" by simp
  moreover have "length ?plan = min (length (filter (eligible p f) order)) (nat (int (length order) - cap))"
    unfolding plan by simp
  ultimately show ?thesis using len assms(1) by linarith
qed

theorem eviction_reaches_cap_witness:
  "int (length (filter (\<lambda>s. s \<notin> set (eviction_plan [1, 2, 3, 4 :: nat] (Some 1) 2 (\<lambda>s. s \<noteq> 2)))
     [1, 2, 3, 4])) = 2"
  using eviction_reaches_cap [of 2 "[1, 2, 3, 4 :: nat]" "Some 1" "\<lambda>s. s \<noteq> 2"]
  by (simp add: eligible_def)

text \<open>
  The merged list is the warm-only entries followed by the entries on disk, in their orders,
  each entry on disk unchanged but for its display name, which is the live title when the
  session is warm and has one.
\<close>

theorem merge_session_lists_eq:
  "merge_session_lists on_disk warm =
     filter (\<lambda>w. le_session_id w \<notin> le_session_id ` set on_disk) warm
     @ map (\<lambda>e. case live_title warm (le_session_id e) of
              Some t \<Rightarrow> e\<lparr>le_display_name := Some t\<rparr> | None \<Rightarrow> e) on_disk"
  using overlay_live_title by (simp add: merge_session_lists_def Let_def cong: map_cong)

text \<open>
  No session is lost or listed twice: the merged list has a session's id exactly when one of
  the two lists has it, and once each if the two lists had no repetitions.
\<close>

theorem merge_session_lists_ids:
  "set (map le_session_id (merge_session_lists on_disk warm))
     = set (map le_session_id on_disk) \<union> set (map le_session_id warm)
   \<and> (if distinct (map le_session_id on_disk) \<and> distinct (map le_session_id warm)
      then distinct (map le_session_id (merge_session_lists on_disk warm)) else True)"
proof -
  have ids: "map le_session_id (merge_session_lists on_disk warm) =
      filter (\<lambda>i. i \<notin> le_session_id ` set on_disk) (map le_session_id warm) @ map le_session_id on_disk"
    by (simp add: merge_session_lists_def Let_def filter_map comp_def)
  show ?thesis unfolding ids by auto
qed

end
