(* ===== verification/Stores.thy ===== *)
theory Stores
  imports Prelude
begin

text \<open>
  The two small persistent stores of the server: the archive index (\<^verbatim>\<open>archive_store.rs\<close>) and
  the local settings (\<^verbatim>\<open>settings_store.rs\<close>).

  Each store is one file. The file system's part is explicit: \<open>disk_file\<close> is what reading finds,
  and a write is given its outcome, success or an error that leaves the file with arbitrary
  content. JSON text is produced and parsed by a package outside the repository: a \<open>codec\<close> at
  the stored type is a parameter, and a theorem that needs its round trip says so.
\<close>

section \<open>Files and codecs\<close>

datatype disk_file = Absent | Unreadable | Content string

datatype write_outcome = Written | WriteFailed string disk_file

record 'a codec =
  to_string_pretty :: "'a \<Rightarrow> string + string"
  from_json :: "string \<Rightarrow> 'a option"

definition codec_roundtrips :: "'a codec \<Rightarrow> 'a \<Rightarrow> bool" where
  "codec_roundtrips c x \<longleftrightarrow> (case to_string_pretty c x of
     Inr json \<Rightarrow> from_json c json = Some x | Inl _ \<Rightarrow> False)"

text \<open>\<^verbatim>\<open>fs::write\<close> of a text: the file afterwards, and the error message if it failed.\<close>

definition fs_write :: "string \<Rightarrow> write_outcome \<Rightarrow> disk_file \<times> string option" where
  "fs_write json outcome = (case outcome of
     Written \<Rightarrow> (Content json, None)
   | WriteFailed err left \<Rightarrow> (left, Some err))"

section \<open>The archive index\<close>

record ArchiveStore =
  as_file :: string
  as_archived :: "string hashset"

definition load_archive :: "string list codec \<Rightarrow> disk_file \<Rightarrow> ArchiveStore \<Rightarrow> ArchiveStore" where
  "load_archive c disk s = (case disk of
     Absent \<Rightarrow> s
   | Unreadable \<Rightarrow> s
   | Content raw \<Rightarrow> (case from_json c raw of
       Some arr \<Rightarrow> s\<lparr>as_archived := foldl (\<lambda>xs p. hs_insert p xs) (as_archived s) arr\<rparr>
     | None \<Rightarrow> s))"

definition new_archive_store :: "string list codec \<Rightarrow> string \<Rightarrow> disk_file \<Rightarrow> ArchiveStore" where
  "new_archive_store c path disk = load_archive c disk \<lparr>as_file = path, as_archived = []\<rparr>"

definition archive_has :: "ArchiveStore \<Rightarrow> string \<Rightarrow> bool" where
  "archive_has s path \<longleftrightarrow> path \<in> set (as_archived s)"

definition persist_archive ::
  "string list codec \<Rightarrow> write_outcome \<Rightarrow> ArchiveStore \<Rightarrow> disk_file \<Rightarrow> disk_file \<times> (string + unit)" where
  "persist_archive c outcome s disk = (case to_string_pretty c (as_archived s) of
     Inl err \<Rightarrow> (disk, Inl (''failed to serialize archive index: '' @ err))
   | Inr json \<Rightarrow> (case fs_write json outcome of
       (disk', None) \<Rightarrow> (disk', Inr ())
     | (disk', Some err) \<Rightarrow> (disk', Inl (''failed to write '' @ as_file s @ '': '' @ err))))"

definition archive_set ::
  "string list codec \<Rightarrow> write_outcome \<Rightarrow> string \<Rightarrow> bool \<Rightarrow> ArchiveStore \<Rightarrow> disk_file
    \<Rightarrow> ArchiveStore \<times> disk_file \<times> (string + unit)" where
  "archive_set c outcome path archived s disk =
     (let was_archived = path \<in> set (as_archived s) in
      if was_archived = archived then (s, disk, Inr ())
      else
        let s1 = s\<lparr>as_archived := (if archived then hs_insert path (as_archived s)
                                   else hs_remove path (as_archived s))\<rparr>
        in case persist_archive c outcome s1 disk of
             (disk', Inl err) \<Rightarrow>
               (s1\<lparr>as_archived := (if was_archived then hs_insert path (as_archived s1)
                                   else hs_remove path (as_archived s1))\<rparr>, disk', Inl err)
           | (disk', Inr _) \<Rightarrow> (s1, disk', Inr ()))"

section \<open>Local settings\<close>

record PantokenSettings =
  ps_login_shell :: "string option"
  ps_background_model :: "string option"
  ps_enabled_extensions :: "string list option"

definition default_settings :: PantokenSettings where
  "default_settings = \<lparr>ps_login_shell = None, ps_background_model = None, ps_enabled_extensions = None\<rparr>"

record PartialSettings =
  pp_login_shell :: "string option option"
  pp_background_model :: "string option option"
  pp_enabled_extensions :: "string list option option"

text \<open>\<^verbatim>\<open>Option::flatten\<close> and the patch rule: a field of the patch that is there replaces, null clears.\<close>

definition flatten :: "'a option option \<Rightarrow> 'a option" where
  "flatten x = (case x of Some y \<Rightarrow> y | None \<Rightarrow> None)"

definition or_current :: "'a option option \<Rightarrow> 'a option \<Rightarrow> 'a option" where
  "or_current patch current = flatten (case patch of Some p \<Rightarrow> Some p | None \<Rightarrow> Some current)"

text \<open>The settings are parsed as the all-optional \<^verbatim>\<open>PartialSettings\<close> and printed as \<^verbatim>\<open>PantokenSettings\<close>.\<close>

record settings_codec =
  print_settings :: "PantokenSettings \<Rightarrow> string + string"
  parse_partial :: "string \<Rightarrow> PartialSettings option"

definition read_pantoken_settings :: "settings_codec \<Rightarrow> disk_file \<Rightarrow> PantokenSettings" where
  "read_pantoken_settings c disk = (case disk of
     Absent \<Rightarrow> default_settings
   | Unreadable \<Rightarrow> default_settings
   | Content raw \<Rightarrow> (case parse_partial c raw of
       Some partial \<Rightarrow> \<lparr>ps_login_shell = flatten (pp_login_shell partial),
          ps_background_model = flatten (pp_background_model partial),
          ps_enabled_extensions = flatten (pp_enabled_extensions partial)\<rparr>
     | None \<Rightarrow> default_settings))"

definition patch_settings :: "PantokenSettings \<Rightarrow> PartialSettings \<Rightarrow> PantokenSettings" where
  "patch_settings current patch = \<lparr>
     ps_login_shell = or_current (pp_login_shell patch) (ps_login_shell current),
     ps_background_model = or_current (pp_background_model patch) (ps_background_model current),
     ps_enabled_extensions = or_current (pp_enabled_extensions patch) (ps_enabled_extensions current)\<rparr>"

definition write_pantoken_settings ::
  "settings_codec \<Rightarrow> write_outcome \<Rightarrow> disk_file \<Rightarrow> PartialSettings \<Rightarrow> PantokenSettings \<times> disk_file" where
  "write_pantoken_settings c outcome disk patch =
     (let next = patch_settings (read_pantoken_settings c disk) patch;
          json = (case print_settings c next of Inr j \<Rightarrow> j | Inl _ \<Rightarrow> ''{}'')
      in (next, fst (fs_write (json @ [CHR 0x0A]) outcome)))"

section \<open>Lemmas\<close>

lemma set_foldl_insert [simp]: "set (foldl (\<lambda>xs p. hs_insert p xs) xs ps) = set xs \<union> set ps"
  by (induction ps arbitrary: xs) auto

lemma persist_archive_ok:
  "persist_archive c outcome s disk = (disk', Inr ()) \<longleftrightarrow>
     outcome = Written \<and> (\<exists>json. to_string_pretty c (as_archived s) = Inr json \<and> disk' = Content json)"
  by (auto simp: persist_archive_def fs_write_def split: sum.splits write_outcome.splits)

lemma archive_set_persists:
  assumes "archive_has s path \<noteq> archived"
    and "archive_set c outcome path archived s disk = (s', disk', Inr ())"
  shows "persist_archive c outcome s' disk = (disk', Inr ())"
  using assms
  by (auto simp: archive_set_def archive_has_def Let_def split: prod.splits sum.splits if_splits)

text \<open>What the settings store relies on of the codec: parsing what it printed gives every field back.\<close>

definition settings_roundtrip :: "settings_codec \<Rightarrow> PantokenSettings \<Rightarrow> bool" where
  "settings_roundtrip c s \<longleftrightarrow> (case print_settings c s of
     Inl _ \<Rightarrow> False
   | Inr json \<Rightarrow> (case parse_partial c (json @ [CHR 0x0A]) of
       None \<Rightarrow> False
     | Some p \<Rightarrow> flatten (pp_login_shell p) = ps_login_shell s
         \<and> flatten (pp_background_model p) = ps_background_model s
         \<and> flatten (pp_enabled_extensions p) = ps_enabled_extensions s))"

section \<open>Properties\<close>

text \<open>
  Setting a flag succeeds or changes nothing: on success the path has the requested flag and
  every other path keeps its own; on failure the set of archived paths is unchanged, so the
  same request can be retried.
\<close>

theorem archive_set_atomic:
  "case archive_set c outcome path archived s disk of
     (s', disk', Inr _) \<Rightarrow> archive_has s' path = archived
       \<and> set (as_archived s') - {path} = set (as_archived s) - {path}
   | (s', disk', Inl _) \<Rightarrow> set (as_archived s') = set (as_archived s) \<and> archive_has s path \<noteq> archived"
  by (auto simp: archive_set_def Let_def archive_has_def split: prod.splits sum.splits)

text \<open>
  A change that was reported successful is durable: when the codec round-trips the set that
  was written, a store opened on the file afterwards has the same archived paths as the
  store in memory.
\<close>

theorem archive_set_durable:
  assumes "archive_has s path \<noteq> archived"
    and "archive_set c outcome path archived s disk = (s', disk', Inr ())"
    and "codec_roundtrips c (as_archived s')"
  shows "archive_has (new_archive_store c (as_file s) disk') p = archive_has s' p"
proof -
  obtain json where "to_string_pretty c (as_archived s') = Inr json" "disk' = Content json"
    using archive_set_persists [OF assms(1,2)] unfolding persist_archive_ok by blast
  then show ?thesis
    using assms(3)
    by (simp add: codec_roundtrips_def new_archive_store_def load_archive_def archive_has_def)
qed

definition toy_codec :: "string list codec" where
  "toy_codec = \<lparr>to_string_pretty = (\<lambda>xs. Inr (join [CHR 0x0A] (rev xs))),
     from_json = (\<lambda>s. Some (rev (split_on (CHR 0x0A) s)))\<rparr>"

theorem archive_set_durable_witness:
  "archive_has (new_archive_store toy_codec ''f'' (Content ''/a'')) ''/a''
   = archive_has \<lparr>as_file = ''f'', as_archived = [''/a'']\<rparr> ''/a''"
  using archive_set_durable [of "\<lparr>as_file = ''f'', as_archived = []\<rparr>" "''/a''" True toy_codec Written
      Absent "\<lparr>as_file = ''f'', as_archived = [''/a'']\<rparr>" "Content ''/a''" "''/a''"]
  by (simp add: archive_has_def archive_set_def hs_insert_def persist_archive_def fs_write_def
      toy_codec_def codec_roundtrips_def)

text \<open>
  A settings write returns the current settings overlaid with the patch, field by field (an
  absent field keeps its value, a null one clears it), and when the codec round-trips the
  result and the write succeeds, reading the file back gives what was returned.
\<close>

theorem settings_write_read:
  assumes "settings_roundtrip c (patch_settings (read_pantoken_settings c disk) patch)"
  shows "write_pantoken_settings c Written disk patch = (next, disk') \<Longrightarrow>
    next = patch_settings (read_pantoken_settings c disk) patch \<and> read_pantoken_settings c disk' = next"
  using assms
  by (auto simp: write_pantoken_settings_def Let_def fs_write_def settings_roundtrip_def
      read_pantoken_settings_def split: sum.splits option.splits)

definition toy_settings_codec :: settings_codec where
  "toy_settings_codec = \<lparr>print_settings = (\<lambda>s. Inr (case ps_login_shell s of Some t \<Rightarrow> CHR ''='' # t | None \<Rightarrow> [])),
     parse_partial = (\<lambda>j. Some \<lparr>pp_login_shell = (case j of [] \<Rightarrow> None | c # t \<Rightarrow>
          if c = CHR ''='' then Some (Some (butlast t)) else None),
        pp_background_model = None, pp_enabled_extensions = None\<rparr>)\<rparr>"

theorem settings_write_read_witness:
  "read_pantoken_settings toy_settings_codec (Content [CHR ''='', CHR ''z'', CHR 0x0A])
   = \<lparr>ps_login_shell = Some ''z'', ps_background_model = None, ps_enabled_extensions = None\<rparr>"
  using settings_write_read [of toy_settings_codec Absent
      "\<lparr>pp_login_shell = Some (Some ''z''), pp_background_model = None, pp_enabled_extensions = None\<rparr>"
      "\<lparr>ps_login_shell = Some ''z'', ps_background_model = None, ps_enabled_extensions = None\<rparr>"
      "Content [CHR ''='', CHR ''z'', CHR 0x0A]"]
  by (simp add: settings_roundtrip_def toy_settings_codec_def read_pantoken_settings_def default_settings_def
      patch_settings_def or_current_def flatten_def write_pantoken_settings_def fs_write_def)

end
