(* ===== verification/Activity_Text.thy ===== *)
theory Activity_Text
  imports Session_Types
begin

text \<open>
  The hub's text helpers (\<^verbatim>\<open>pantoken-server/src/hub.rs\<close>): the one-line clipped texts that describe
  what a session is doing or waiting for. Strings are UTF-8 byte strings, so white space is
  recognised by its encodings, and slicing a \<^verbatim>\<open>str\<close> inside a character panics: a helper that can
  panic returns \<open>None\<close> then. \<^verbatim>\<open>str::to_lowercase\<close> (the Unicode tables) is the parameter \<open>lower\<close>.
\<close>

section \<open>White space\<close>

text \<open>The length of the white-space character a string starts with, 0 if it starts with none.\<close>

definition ws_len :: "string \<Rightarrow> nat" where
  "ws_len s = (case map byte_of s of
     [] \<Rightarrow> 0
   | a # r \<Rightarrow>
       if 9 \<le> a \<and> a \<le> 13 \<or> a = 32 then 1
       else (case r of
           [] \<Rightarrow> 0
         | b # q \<Rightarrow>
             if a = 0xC2 \<and> (b = 0x85 \<or> b = 0xA0) then 2
             else (case q of
                 [] \<Rightarrow> 0
               | c # _ \<Rightarrow>
                   if a = 0xE1 \<and> b = 0x9A \<and> c = 0x80
                      \<or> a = 0xE2 \<and> b = 0x80 \<and> (0x80 \<le> c \<and> c \<le> 0x8A \<or> c = 0xA8 \<or> c = 0xA9 \<or> c = 0xAF)
                      \<or> a = 0xE2 \<and> b = 0x81 \<and> c = 0x9F
                      \<or> a = 0xE3 \<and> b = 0x80 \<and> c = 0x80
                   then 3 else 0)))"

lemma ws_len_Nil [simp]: "ws_len [] = 0"
  by (simp add: ws_len_def)

lemma ws_len_drop: "ws_len s \<noteq> 0 \<Longrightarrow> length (drop (ws_len s) s) < length s"
  by (cases s) simp_all

text \<open>\<^verbatim>\<open>str::split_whitespace\<close>, with the word being read.\<close>

function split_ws :: "string \<Rightarrow> string \<Rightarrow> string list" where
  "split_ws word [] = (if word = [] then [] else [word])"
| "split_ws word (c # s) =
     (if ws_len (c # s) = 0 then split_ws (word @ [c]) s
      else (if word = [] then [] else [word]) @ split_ws [] (drop (ws_len (c # s)) (c # s)))"
  by pat_completeness auto
termination
  by (relation "measure (\<lambda>(w, s). length s)") auto

definition split_whitespace :: "string \<Rightarrow> string list" where
  "split_whitespace s = split_ws [] s"

function trim_start :: "string \<Rightarrow> string" where
  "trim_start s = (if ws_len s = 0 then s else trim_start (drop (ws_len s) s))"
  by pat_completeness auto
termination
  by (relation "measure length") (simp_all only: wf_measure in_measure ws_len_drop not_False_eq_True)

declare trim_start.simps [simp del]

fun trim_end :: "string \<Rightarrow> string" where
  "trim_end [] = []"
| "trim_end (c # s) = (if trim_start (c # s) = [] then [] else c # trim_end s)"

definition str_trim :: "string \<Rightarrow> string" where
  "str_trim s = trim_end (trim_start s)"

section \<open>Clipping\<close>

text \<open>\<^verbatim>\<open>str::is_char_boundary\<close> and the slice \<^verbatim>\<open>&s[..n]\<close>, which panics off a boundary.\<close>

definition is_char_boundary :: "string \<Rightarrow> nat \<Rightarrow> bool" where
  "is_char_boundary s n \<longleftrightarrow> n = 0 \<or> n = length s
     \<or> n < length s \<and> \<not> (0x80 \<le> byte_of (s ! n) \<and> byte_of (s ! n) \<le> 0xBF)"

definition slice_to :: "string \<Rightarrow> nat \<Rightarrow> string option" where
  "slice_to s n = (if is_char_boundary s n then Some (take n s) else None)"

definition ellipsis :: string where
  "ellipsis = [CHR 0xE2, CHR 0x80, CHR 0xA6]"

definition clipped :: "string \<Rightarrow> nat \<Rightarrow> string option" where
  "clipped value limit =
     (let one_line = join '' '' (split_whitespace value) in
      if length one_line > limit
      then map_option (\<lambda>s. s @ ellipsis) (slice_to one_line (limit - 1))
      else Some one_line)"

section \<open>Activity texts\<close>

fun input_string_of :: "(string \<times> json_value) list \<Rightarrow> string list \<Rightarrow> string option option" where
  "input_string_of obj [] = Some None"
| "input_string_of obj (key # keys) =
     (case map_of obj key of
        Some (J_String s) \<Rightarrow>
          (let trimmed = str_trim s in
           if trimmed \<noteq> [] then map_option Some (clipped trimmed 72)
           else input_string_of obj keys)
      | _ \<Rightarrow> input_string_of obj keys)"

definition input_string :: "json_value option \<Rightarrow> string list \<Rightarrow> string option option" where
  "input_string input keys = (case input of
     Some (J_Object obj) \<Rightarrow> input_string_of obj keys
   | _ \<Rightarrow> Some None)"

definition describe :: "string \<Rightarrow> string \<Rightarrow> string option option \<Rightarrow> string option" where
  "describe verb fallback path = map_option (\<lambda>p. case p of
     Some p \<Rightarrow> verb @ p | None \<Rightarrow> fallback) path"

text \<open>The path is looked up before the name is examined, so a panic there comes first.\<close>

definition tool_activity :: "(string \<Rightarrow> string) \<Rightarrow> SessionDriverEvent \<Rightarrow> string option" where
  "tool_activity lower ev = (case ev of
     E_ToolStarted b tool_name call_id input label description \<Rightarrow>
       (let name = lower tool_name;
            path = input_string input [''path'', ''filePath'', ''file_path'']
        in if path = None then None
           else if str_contains name ''read'' then describe ''Reading '' ''Reading files'' path
           else if str_contains name ''edit'' \<or> str_contains name ''write''
           then describe ''Editing '' ''Editing files'' path
           else if str_contains name ''search'' \<or> str_contains name ''grep'' \<or> name = ''rg''
           then Some ''Searching the workspace''
           else if name = ''bash'' \<or> name = ''shell'' \<or> name = ''exec''
           then describe ''Running '' ''Running a command'' (input_string input [''command'', ''cmd''])
           else clipped (case label of
                  Some l \<Rightarrow> l
                | None \<Rightarrow> (case description of Some d \<Rightarrow> d | None \<Rightarrow> tool_name)) 72)
   | _ \<Rightarrow> Some ''Working'')"

fun request_kind :: "HostUiRequest \<Rightarrow> string" where
  "request_kind (H_Confirm _ _ _ _ _) = ''confirm''"
| "request_kind (H_Unknown _ _ _) = ''unknown''"
| "request_kind (H_Select _ _ _ _ _) = ''select''"
| "request_kind (H_Input _ _ _ _ _) = ''input''"
| "request_kind (H_Editor _ _ _) = ''editor''"
| "request_kind (H_Qna _ _ _ _) = ''qna''"
| "request_kind (H_Permission _ _ _ _ _ _) = ''permission''"
| "request_kind (H_Plan _ _ _ _ _ _ _ _) = ''planHandoff''"
| "request_kind (H_Notify _ _ _) = ''notify''"
| "request_kind (H_Status _ _ _) = ''status''"
| "request_kind (H_Widget _ _ _ _) = ''widget''"
| "request_kind (H_Title _ _) = ''title''"
| "request_kind (H_EditorText _ _) = ''editorText''"
| "request_kind (H_Reset _) = ''reset''"

fun title_of_request :: "HostUiRequest \<Rightarrow> string option" where
  "title_of_request (H_Confirm _ title _ _ _) = Some title"
| "title_of_request (H_Unknown _ title _) = Some title"
| "title_of_request (H_Input _ title _ _ _) = Some title"
| "title_of_request (H_Select _ title _ _ _) = Some title"
| "title_of_request (H_Editor _ title _) = Some title"
| "title_of_request (H_Qna _ title _ _) = title"
| "title_of_request (H_Permission _ title _ _ _ _) = Some title"
| "title_of_request (H_Plan _ title _ _ _ _ _ _) = Some title"
| "title_of_request (H_Title _ title) = Some title"
| "title_of_request _ = None"

fun message_of_request :: "HostUiRequest \<Rightarrow> string option" where
  "message_of_request (H_Confirm _ _ message _ _) = Some message"
| "message_of_request (H_Unknown _ _ message) = Some message"
| "message_of_request (H_Notify _ message _) = Some message"
| "message_of_request _ = None"

definition request_title :: "HostUiRequest \<Rightarrow> string option" where
  "request_title request = (case title_of_request request of
     Some (c # cs) \<Rightarrow> clipped (c # cs) 72
   | _ \<Rightarrow> (case message_of_request request of
       Some (c # cs) \<Rightarrow> clipped (c # cs) 72
     | _ \<Rightarrow> Some (if request_kind request = ''qna'' then ''Questions need answers''
                   else ''Waiting on you'')))"

fun type_discriminator :: "SessionDriverEvent \<Rightarrow> string" where
  "type_discriminator (E_SessionOpened _ _) = ''sessionOpened''"
| "type_discriminator (E_SessionUpdated _ _) = ''sessionUpdated''"
| "type_discriminator (E_SessionClosed _ _) = ''sessionClosed''"
| "type_discriminator (E_AssistantDelta _ _ _ _) = ''assistantDelta''"
| "type_discriminator (E_ToolStarted _ _ _ _ _ _) = ''toolStarted''"
| "type_discriminator (E_ToolUpdated _ _ _ _) = ''toolUpdated''"
| "type_discriminator (E_ToolFinished _ _ _ _ _ _) = ''toolFinished''"
| "type_discriminator (E_UserMessage _ _ _ _ _ _) = ''userMessage''"
| "type_discriminator (E_RunCompleted _ _ _ _) = ''runCompleted''"
| "type_discriminator (E_RunFailed _ _) = ''runFailed''"
| "type_discriminator (E_UsageUpdated _ _) = ''usageUpdated''"
| "type_discriminator (E_HostUiRequest _ _) = ''hostUiRequest''"
| "type_discriminator (E_HostUiResolved _ _) = ''hostUiResolved''"
| "type_discriminator (E_QueueUpdated _ _) = ''queueUpdated''"
| "type_discriminator (E_QueuedMessageStarted _ _) = ''queuedMessageStarted''"
| "type_discriminator (E_CustomMessage _ _ _ _ _ _) = ''customMessage''"
| "type_discriminator (E_ExtensionCompatibilityIssue _ _) = ''extensionCompatibilityIssue''"
| "type_discriminator (E_SessionReset _) = ''sessionReset''"
| "type_discriminator (E_NestedReplayStatus _ _ _ _) = ''nestedReplayStatus''"

section \<open>What clipping guarantees\<close>

lemma length_clipped:
  assumes "clipped value limit = Some s" "0 < limit"
  shows "length s \<le> limit + 2"
  using assms by (auto simp: clipped_def Let_def slice_to_def ellipsis_def split: if_splits)

definition ascii :: "string \<Rightarrow> bool" where
  "ascii s \<longleftrightarrow> list_all (\<lambda>c. byte_of c < 0x80) s"

lemma ascii_boundary: "ascii s \<Longrightarrow> n \<le> length s \<Longrightarrow> is_char_boundary s n"
  by (cases "n = length s") (auto simp: ascii_def is_char_boundary_def list_all_length not_le)

lemma split_ws_sub: "w \<in> set (split_ws word s) \<Longrightarrow> set w \<subseteq> set word \<union> set s"
proof (induction word s arbitrary: w rule: split_ws.induct)
  case (2 word c s)
  show ?case
  proof (cases "ws_len (c # s) = 0")
    case False
    then consider "w = word" | "w \<in> set (split_ws [] (drop (ws_len (c # s)) (c # s)))"
      using 2(3) by (auto split: if_splits)
    then show ?thesis
    proof cases
      case 2
      then have "set w \<subseteq> set (drop (ws_len (c # s)) (c # s))"
        using \<open>ws_len (c # s) \<noteq> 0\<close> "2.IH"(2) by fastforce
      then show ?thesis using set_drop_subset by fastforce
    qed auto
  qed (use 2 in fastforce)
qed (auto split: if_splits)

lemma ascii_join: "list_all ascii ws \<Longrightarrow> ascii (join '' '' ws)"
  by (induction "'' ''" ws rule: join.induct) (auto simp: ascii_def list_all_append byte_of_def)

lemma ascii_one_line: "ascii s \<Longrightarrow> ascii (join '' '' (split_whitespace s))"
  using split_ws_sub [of _ "[]" s]
  by (intro ascii_join) (fastforce simp: split_whitespace_def list_all_iff ascii_def)

lemma clipped_ascii: "ascii s \<Longrightarrow> clipped s limit \<noteq> None"
  using ascii_boundary [OF ascii_one_line, of s "limit - 1"]
  by (auto simp: clipped_def Let_def slice_to_def)

end
