(* ===== verification/Wire.thy ===== *)
theory Wire
  imports Session_Types Stores Manifest
begin

text \<open>
  The server-to-client messages (\<^verbatim>\<open>pantoken-protocol/src/wire.rs\<close>) with the catalogue types they
  carry (\<^verbatim>\<open>session_driver.rs\<close>). The \<^verbatim>\<open>u64\<close> stamps (epoch, sequence number) are natural numbers: they
  only count up by one.
\<close>

section \<open>Catalogue types\<close>

datatype ModelCatalogDiagnostic = CouldNotBeParsed string | EmptyOutput string | NoResponse string

record ModelOption =
  mo_model_id :: string
  mo_label :: string
  mo_thinking_levels :: "string list option"
  mo_default_thinking_level :: "string option"

record ModelDefaults =
  md_model_id :: "string option"
  md_thinking_level :: "string option"
  md_favorites :: "string list"
  md_default_permission_monitor :: "PermissionMonitorMode option"

datatype CommandSource = Cs_Extension | Cs_Prompt | Cs_Skill | Cs_Builtin

record CommandInfo =
  ci_name :: string
  ci_description :: "string option"
  ci_source :: CommandSource
  ci_argument_hint :: "string option"

record FileInfo =
  fi_path :: string
  fi_is_directory :: bool

record DirListing =
  dl_path :: string
  dl_parent :: "string option"
  dl_entries :: "string list"
  dl_error :: "bool option"

record PathStat =
  pst_path :: string
  pst_exists :: bool
  pst_is_dir :: bool

record AtRefs =
  ar_skills :: "string list"
  ar_subagents :: "string list"

datatype JobKind = Jk_Shell | Jk_Subagent

datatype JobStatusKind = Js_Reserved | Js_Running | Js_Completed | Js_Failed | Js_Cancelled

record BackgroundJob =
  bj_handle :: string
  bj_kind :: JobKind
  bj_status :: JobStatusKind
  bj_tool_name :: string
  bj_created_at :: string
  bj_ended_at :: "string option"
  bj_started_at :: "string option"
  bj_updated_at :: string
  bj_subagent_type :: "string option"
  bj_model :: "string option"
  bj_subagent_handle :: "string option"
  bj_expiring :: "bool option"
  bj_output_tail :: "string option"
  bj_output_bytes :: "i64 option"

section \<open>Server messages\<close>

record LoginEnvStatus =
  env_active_shell :: "string option"
  env_ok :: bool
  env_detail :: "string option"

record TrustRequestOption =
  to_label :: string
  to_trusted :: bool

record TrustRequest =
  tr_request_id :: string
  tr_cwd :: string
  tr_title :: string
  tr_options :: "TrustRequestOption list"

datatype SessionAttentionPhase = Ph_Running | Ph_Waiting | Ph_Failed | Ph_Done

record SessionAttention =
  sa_session_id :: SessionId
  sa_phase :: SessionAttentionPhase
  sa_activity :: "string option"
  sa_pending_count :: "i64 option"
  sa_pending_title :: "string option"
  sa_updated_at :: string

record ResumeToken =
  rk_session_id :: SessionId
  rk_epoch :: nat
  rk_seq :: nat

datatype ServerMessage =
    M_Hello u32 string string string "string option"
  | M_Pong
  | M_Seed "SessionId option" nat nat "SessionDriverEvent list"
  | M_Event SessionDriverEvent nat nat
  | M_SessionList "SessionListEntry list" "SessionId option" string
  | M_SessionStatus "SessionId list" "SessionId list option" "SessionAttention list option"
  | M_ModelList "ModelOption list" "ModelCatalogDiagnostic option"
  | M_CommandList "CommandInfo list"
  | M_FacetList "string list"
  | M_JobsList "BackgroundJob list"
  | M_FileIndex "FileInfo list" bool
  | M_FileList string "FileInfo list" "bool option"
  | M_AtRefs AtRefs
  | M_DirListing DirListing u64
  | M_PathStat PathStat u64
  | M_ModelDefaults ModelDefaults
  | M_PantokenSettings PantokenSettings LoginEnvStatus bool "string option"
  | M_TrustRequest TrustRequest
  | M_TrustResolved string
  | M_UpdateStatus bool "string option" bool "string option" "string option" "bool option"
  | M_EditorPrefill string
  | M_PromptResult string bool "SessionId option" "string option"
  | M_QueueRestored "string list" "string list"
  | M_AbortResult "string option" bool "string option"
  | M_Error string "string option"

end
