(* ===== verification/Attention.thy ===== *)
theory Attention
  imports Activity_Text Wire Session_State
begin

text \<open>
  The hub's cross-session tracking (\<^verbatim>\<open>pantoken-server/src/hub.rs\<close>): which sessions are running or
  initializing, and the attention record of each warm session. The fields of \<^verbatim>\<open>SessionHub\<close> this
  part owns are the record \<open>Tracking\<close>. A step that can panic (through \<open>clipped\<close>) returns \<open>None\<close>
  then.
\<close>

section \<open>State\<close>

datatype AttentionPhase = A_Running | A_Failed | A_Done

record AttentionRecord =
  at_phase :: AttentionPhase
  at_activity :: "string option"
  at_updated_at :: string
  at_pending :: "(string, string) hashmap"

record Tracking =
  tk_running :: "SessionId hashset"
  tk_initializing :: "SessionId hashset"
  tk_attention :: "(SessionId, AttentionRecord) hashmap"
  tk_session_titles :: "(SessionId, string) hashmap"

definition empty_tracking :: Tracking where
  "empty_tracking = \<lparr>tk_running = [], tk_initializing = [], tk_attention = [], tk_session_titles = []\<rparr>"

section \<open>Running and initializing sets\<close>

definition set_running :: "SessionId \<Rightarrow> bool \<Rightarrow> Tracking \<Rightarrow> Tracking" where
  "set_running sid on t =
     (if on then t\<lparr>tk_running := hs_insert sid (tk_running t),
                  tk_initializing := hs_remove sid (tk_initializing t)\<rparr>
      else t\<lparr>tk_running := hs_remove sid (tk_running t)\<rparr>)"

definition set_initializing :: "SessionId \<Rightarrow> bool \<Rightarrow> Tracking \<Rightarrow> Tracking" where
  "set_initializing sid on t =
     (if on then t\<lparr>tk_initializing := hs_insert sid (tk_initializing t),
                  tk_running := hs_remove sid (tk_running t)\<rparr>
      else t\<lparr>tk_initializing := hs_remove sid (tk_initializing t)\<rparr>)"

fun snapshot_status :: "SessionDriverEvent \<Rightarrow> SessionStatus option" where
  "snapshot_status (E_SessionOpened b sn) = Some (sn_status sn)"
| "snapshot_status (E_SessionUpdated b sn) = Some (sn_status sn)"
| "snapshot_status (E_RunCompleted b sn u a) = Some (sn_status sn)"
| "snapshot_status _ = None"

fun snapshot_title :: "SessionDriverEvent \<Rightarrow> string option" where
  "snapshot_title (E_SessionOpened b sn) = Some (sn_title sn)"
| "snapshot_title (E_SessionUpdated b sn) = Some (sn_title sn)"
| "snapshot_title (E_RunCompleted b sn u a) = Some (sn_title sn)"
| "snapshot_title _ = None"

fun error_message :: "SessionDriverEvent \<Rightarrow> string option" where
  "error_message (E_RunFailed b err) = Some (err_message err)"
| "error_message _ = None"

definition track_running_set :: "SessionId \<Rightarrow> SessionDriverEvent \<Rightarrow> Tracking \<Rightarrow> Tracking" where
  "track_running_set sid ev t =
     (let disc = type_discriminator ev in
      if disc \<in> {''sessionOpened'', ''sessionUpdated'', ''runCompleted''}
      then set_initializing sid (snapshot_status ev = Some St_Initializing)
             (set_running sid (snapshot_status ev = Some St_Running) t)
      else if disc \<in> {''assistantDelta'', ''toolStarted'', ''toolUpdated'', ''userMessage'',
                       ''queuedMessageStarted''}
      then set_running sid True t
      else if disc \<in> {''runFailed'', ''sessionClosed''}
      then set_initializing sid False (set_running sid False t)
      else t)"

definition track_running :: "SessionId \<Rightarrow> SessionDriverEvent \<Rightarrow> Tracking \<Rightarrow> Tracking \<times> bool" where
  "track_running sid ev t =
     (let before = sid \<in> set (tk_running t);
          before_init = sid \<in> set (tk_initializing t);
          t' = track_running_set sid ev t
      in (t', (sid \<in> set (tk_running t')) \<noteq> before \<or> (sid \<in> set (tk_initializing t')) \<noteq> before_init))"

section \<open>Attention records\<close>

fun wire_phase :: "AttentionPhase \<Rightarrow> SessionAttentionPhase" where
  "wire_phase A_Running = Ph_Running"
| "wire_phase A_Failed = Ph_Failed"
| "wire_phase A_Done = Ph_Done"

definition attention_for :: "Tracking \<Rightarrow> SessionId \<Rightarrow> SessionAttention option" where
  "attention_for t sid = (case hm_get (tk_attention t) sid of
     None \<Rightarrow> None
   | Some r \<Rightarrow>
       (case map snd (at_pending r) of
          p # ps \<Rightarrow> Some \<lparr>sa_session_id = sid, sa_phase = Ph_Waiting,
             sa_activity = Some ''Waiting on you'', sa_pending_count = Some (int (length (p # ps))),
             sa_pending_title = Some p, sa_updated_at = at_updated_at r\<rparr>
        | [] \<Rightarrow> Some \<lparr>sa_session_id = sid, sa_phase = wire_phase (at_phase r),
             sa_activity = at_activity r, sa_pending_count = None, sa_pending_title = None,
             sa_updated_at = at_updated_at r\<rparr>))"

definition ensure_attention :: "SessionId \<Rightarrow> string \<Rightarrow> Tracking \<Rightarrow> Tracking" where
  "ensure_attention sid ts t =
     (if hm_contains (tk_attention t) sid then t
      else t\<lparr>tk_attention := hm_insert sid \<lparr>at_phase = A_Running, at_activity = Some ''Working'',
               at_updated_at = ts, at_pending = []\<rparr> (tk_attention t)\<rparr>)"

definition modify_attention :: "SessionId \<Rightarrow> (AttentionRecord \<Rightarrow> AttentionRecord) \<Rightarrow> Tracking \<Rightarrow> Tracking" where
  "modify_attention sid f t = t\<lparr>tk_attention := hm_modify sid f (tk_attention t)\<rparr>"

definition set_attention_base ::
  "SessionId \<Rightarrow> AttentionPhase \<Rightarrow> string option \<Rightarrow> string \<Rightarrow> Tracking \<Rightarrow> Tracking" where
  "set_attention_base sid phase activity ts t =
     modify_attention sid (\<lambda>r.
       let changed = at_phase r \<noteq> phase \<or> at_activity r \<noteq> activity
       in r\<lparr>at_phase := phase, at_activity := activity,
            at_updated_at := (if changed then ts else at_updated_at r)\<rparr>)
     (ensure_attention sid ts t)"

definition phase_is :: "Tracking \<Rightarrow> SessionId \<Rightarrow> AttentionPhase \<Rightarrow> bool" where
  "phase_is t sid p = (case hm_get (tk_attention t) sid of Some r \<Rightarrow> at_phase r = p | None \<Rightarrow> False)"

definition record_title :: "SessionId \<Rightarrow> SessionDriverEvent \<Rightarrow> Tracking \<Rightarrow> Tracking" where
  "record_title sid ev t = (case snapshot_title ev of
     Some title \<Rightarrow> t\<lparr>tk_session_titles := hm_insert sid title (tk_session_titles t)\<rparr>
   | None \<Rightarrow> t)"

definition track_snapshot :: "SessionId \<Rightarrow> SessionDriverEvent \<Rightarrow> string \<Rightarrow> Tracking \<Rightarrow> Tracking" where
  "track_snapshot sid ev ts t =
     (let t1 = record_title sid ev t in
      case snapshot_status ev of
        Some St_Running \<Rightarrow> set_attention_base sid A_Running (Some ''Working'') ts t1
      | Some St_Initializing \<Rightarrow> set_attention_base sid A_Running (Some ''Starting session'') ts t1
      | Some St_Failed \<Rightarrow> set_attention_base sid A_Failed (Some ''Run failed'') ts t1
      | Some St_Idle \<Rightarrow>
          (if (case hm_get (tk_attention t1) sid of
                 Some r \<Rightarrow> at_phase r = A_Running \<and> at_pending r = []
               | None \<Rightarrow> False)
           then set_attention_base sid A_Done (Some ''Done'') ts t1
           else t1)
      | None \<Rightarrow> t1)"

definition track_request :: "SessionId \<Rightarrow> HostUiRequest \<Rightarrow> string \<Rightarrow> Tracking \<Rightarrow> Tracking option" where
  "track_request sid request ts t =
     (if is_dialog_request request
      then map_option (\<lambda>title.
             modify_attention sid (\<lambda>r. r\<lparr>at_pending := hm_insert (request_id request) title (at_pending r),
                                        at_updated_at := ts\<rparr>)
               (ensure_attention sid ts t))
             (request_title request)
      else case request of
        H_Status _ _ (Some tx) \<Rightarrow>
          (if phase_is t sid A_Running
           then map_option (\<lambda>a. set_attention_base sid A_Running (Some a) ts t) (clipped tx 72)
           else Some t)
      | H_Title _ title \<Rightarrow> Some (t\<lparr>tk_session_titles := hm_insert sid title (tk_session_titles t)\<rparr>)
      | _ \<Rightarrow> Some t)"

fun track_attention_step ::
  "(string \<Rightarrow> string) \<Rightarrow> SessionId \<Rightarrow> SessionDriverEvent \<Rightarrow> Tracking \<Rightarrow> Tracking option" where
  "track_attention_step lower sid (E_SessionOpened b sn) t =
     Some (track_snapshot sid (E_SessionOpened b sn) (eb_timestamp b) t)"
| "track_attention_step lower sid (E_SessionUpdated b sn) t =
     Some (track_snapshot sid (E_SessionUpdated b sn) (eb_timestamp b) t)"
| "track_attention_step lower sid (E_UserMessage b _ _ _ _ _) t =
     Some (set_attention_base sid A_Running (Some ''Starting'') (eb_timestamp b) t)"
| "track_attention_step lower sid (E_QueuedMessageStarted b _) t =
     Some (set_attention_base sid A_Running (Some ''Queued a follow-up'') (eb_timestamp b) t)"
| "track_attention_step lower sid (E_AssistantDelta b _ channel _) t =
     Some (set_attention_base sid A_Running
       (Some (if channel = Some Ch_Thinking then ''Thinking'' else ''Responding'')) (eb_timestamp b) t)"
| "track_attention_step lower sid (E_ToolStarted b n c i l d) t =
     map_option (\<lambda>a. set_attention_base sid A_Running (Some a) (eb_timestamp b) t)
       (tool_activity lower (E_ToolStarted b n c i l d))"
| "track_attention_step lower sid (E_ToolFinished b _ _ _ _ _) t =
     Some (if phase_is t sid A_Running
           then set_attention_base sid A_Running (Some ''Working'') (eb_timestamp b) t else t)"
| "track_attention_step lower sid (E_RunCompleted b sn u a) t =
     Some (set_attention_base sid A_Done (Some ''Done'') (eb_timestamp b)
       (record_title sid (E_RunCompleted b sn u a) t))"
| "track_attention_step lower sid (E_RunFailed b err) t =
     (let t1 = modify_attention sid (\<lambda>r. r\<lparr>at_pending := []\<rparr>) (ensure_attention sid (eb_timestamp b) t)
      in map_option (\<lambda>a. set_attention_base sid A_Failed (Some a) (eb_timestamp b) t1)
           (clipped (err_message err) 72))"
| "track_attention_step lower sid (E_HostUiRequest b request) t =
     track_request sid request (eb_timestamp b) t"
| "track_attention_step lower sid (E_HostUiResolved b rid) t =
     Some (modify_attention sid (\<lambda>r. if hm_contains (at_pending r) rid
            then r\<lparr>at_pending := hm_remove rid (at_pending r), at_updated_at := eb_timestamp b\<rparr>
            else r) t)"
| "track_attention_step lower sid (E_SessionClosed b reason) t =
     Some (t\<lparr>tk_attention := hm_remove sid (tk_attention t),
             tk_session_titles := hm_remove sid (tk_session_titles t)\<rparr>)"
| "track_attention_step lower sid _ t = Some t"

definition track_attention ::
  "(string \<Rightarrow> string) \<Rightarrow> SessionId \<Rightarrow> SessionDriverEvent \<Rightarrow> Tracking \<Rightarrow> (Tracking \<times> bool) option" where
  "track_attention lower sid ev t =
     map_option (\<lambda>t'. (t', attention_for t sid \<noteq> attention_for t' sid))
       (track_attention_step lower sid ev t)"

definition attention_badge_count :: "Tracking \<Rightarrow> nat" where
  "attention_badge_count t =
     length (filter (\<lambda>(_, r). at_pending r \<noteq> [] \<or> at_phase r = A_Failed) (tk_attention t))"

definition session_status_msg :: "Tracking \<Rightarrow> ServerMessage" where
  "session_status_msg t = M_SessionStatus (tk_running t) (Some (tk_initializing t))
     (Some (List.map_filter (attention_for t) (hm_keys (tk_attention t))))"

text \<open>One event through both trackers, as every caller does.\<close>

definition track_event ::
  "(string \<Rightarrow> string) \<Rightarrow> SessionDriverEvent \<Rightarrow> Tracking \<Rightarrow> (Tracking \<times> bool) option" where
  "track_event lower ev t =
     (let sid = ev_session_id ev; (t1, status_changed) = track_running sid ev t
      in map_option (\<lambda>(t2, attention_changed). (t2, status_changed \<or> attention_changed))
           (track_attention lower sid ev t1))"

section \<open>The running set is exact\<close>

fun run_effect :: "SessionDriverEvent \<Rightarrow> bool option" where
  "run_effect (E_SessionOpened b sn) = Some (sn_status sn = St_Running)"
| "run_effect (E_SessionUpdated b sn) = Some (sn_status sn = St_Running)"
| "run_effect (E_RunCompleted b sn u a) = Some (sn_status sn = St_Running)"
| "run_effect (E_AssistantDelta b tx ch eid) = Some True"
| "run_effect (E_ToolStarted b n c i l d) = Some True"
| "run_effect (E_ToolUpdated b c tx p) = Some True"
| "run_effect (E_UserMessage b m tx im eid r) = Some True"
| "run_effect (E_QueuedMessageStarted b m) = Some True"
| "run_effect (E_RunFailed b err) = Some False"
| "run_effect (E_SessionClosed b r) = Some False"
| "run_effect _ = None"

definition marks_running :: "SessionId \<Rightarrow> SessionDriverEvent \<Rightarrow> bool" where
  "marks_running sid ev \<longleftrightarrow> ev_session_id ev = sid \<and> run_effect ev = Some True"

definition clears_running :: "SessionId \<Rightarrow> SessionDriverEvent \<Rightarrow> bool" where
  "clears_running sid ev \<longleftrightarrow> ev_session_id ev = sid \<and> run_effect ev = Some False"

lemma running_step:
  "set (tk_running (track_running_set sid ev t)) =
     (case run_effect ev of
        Some True \<Rightarrow> insert sid (set (tk_running t))
      | Some False \<Rightarrow> set (tk_running t) - {sid}
      | None \<Rightarrow> set (tk_running t))"
  by (cases ev) (auto simp: track_running_set_def Let_def set_running_def set_initializing_def)

lemma tracking_disjoint_step:
  assumes "set (tk_running t) \<inter> set (tk_initializing t) = {}"
  shows "set (tk_running (track_running_set sid ev t)) \<inter> set (tk_initializing (track_running_set sid ev t)) = {}"
  using assms
  by (cases ev) (auto simp: track_running_set_def Let_def set_running_def set_initializing_def)

definition track_running_all :: "SessionDriverEvent list \<Rightarrow> Tracking" where
  "track_running_all evs = foldl (\<lambda>t ev. fst (track_running (ev_session_id ev) ev t)) empty_tracking evs"

lemma fst_track_running [simp]: "fst (track_running sid ev t) = track_running_set sid ev t"
  by (simp add: track_running_def Let_def)

lemma track_running_all_snoc:
  "track_running_all (evs @ [ev]) = track_running_set (ev_session_id ev) ev (track_running_all evs)"
  by (simp add: track_running_all_def)

lemma running_all:
  "sid \<in> set (tk_running (track_running_all evs)) \<longleftrightarrow>
     since (marks_running sid) (\<lambda>e. \<not> clears_running sid e) evs"
proof (induction evs rule: rev_induct)
  case Nil
  then show ?case by (simp add: track_running_all_def empty_tracking_def)
next
  case (snoc ev evs)
  then show ?case
    by (auto simp: track_running_all_snoc running_step since_snoc marks_running_def clears_running_def
        split: option.splits bool.splits)
qed

lemma running_disjoint_all:
  "set (tk_running (track_running_all evs)) \<inter> set (tk_initializing (track_running_all evs)) = {}"
proof (induction evs rule: rev_induct)
  case (snoc ev evs)
  then show ?case unfolding track_running_all_snoc by (rule tracking_disjoint_step)
qed (simp add: track_running_all_def empty_tracking_def)

section \<open>Pending dialogs\<close>

definition pending_keys :: "Tracking \<Rightarrow> SessionId \<Rightarrow> string set" where
  "pending_keys t sid = (case hm_get (tk_attention t) sid of
     Some r \<Rightarrow> set (hm_keys (at_pending r)) | None \<Rightarrow> {})"

lemma set_hm_keys: "set (hm_keys m) = dom (map_of m)"
  by (simp add: hm_keys_def dom_map_of_conv_image_fst)

lemma hm_keys_insert [simp]: "set (hm_keys (hm_insert k v m)) = insert k (set (hm_keys m))"
  by (simp add: set_hm_keys)

lemma hm_keys_remove [simp]: "set (hm_keys (hm_remove k m)) = set (hm_keys m) - {k}"
  by (simp add: set_hm_keys)

lemma hm_keys_Nil [simp]: "hm_keys [] = []"
  by (simp add: hm_keys_def)

lemma pending_ensure [simp]: "pending_keys (ensure_attention sid ts t) = pending_keys t"
  by (auto simp: pending_keys_def ensure_attention_def hm_contains_def fun_eq_iff split: option.splits)

lemma contains_ensure [simp]:
  "\<exists>r. map_of (tk_attention (ensure_attention sid ts t)) sid = Some r"
  by (auto simp: ensure_attention_def hm_contains_def)

lemma pending_modify:
  "s \<noteq> sid \<Longrightarrow> pending_keys (modify_attention sid f t) s = pending_keys t s"
  "hm_get (tk_attention t) sid = Some r \<Longrightarrow>
     pending_keys (modify_attention sid f t) sid = set (hm_keys (at_pending (f r)))"
  "hm_get (tk_attention t) sid = None \<Longrightarrow> pending_keys (modify_attention sid f t) sid = {}"
  by (simp_all add: pending_keys_def modify_attention_def hm_get_modify)

lemma pending_keys_at:
  "hm_get (tk_attention t) sid = Some r \<Longrightarrow> pending_keys t sid = set (hm_keys (at_pending r))"
  "hm_get (tk_attention t) sid = None \<Longrightarrow> pending_keys t sid = {}"
  by (simp_all add: pending_keys_def)

lemma pending_modify_same:
  assumes "\<And>r. at_pending (f r) = at_pending r"
  shows "pending_keys (modify_attention sid f t) = pending_keys t"
proof
  fix s
  show "pending_keys (modify_attention sid f t) s = pending_keys t s"
    using assms by (cases "hm_get (tk_attention t) sid"; cases "s = sid")
      (simp_all add: pending_modify pending_keys_at)
qed

lemma pending_base [simp]: "pending_keys (set_attention_base sid ph a ts t) = pending_keys t"
  by (simp add: set_attention_base_def pending_modify_same Let_def)

lemma pending_titles [simp]:
  "pending_keys (t\<lparr>tk_session_titles := x\<rparr>) = pending_keys t"
  "pending_keys (record_title sid ev t) = pending_keys t"
  "pending_keys (track_running_set sid ev t) = pending_keys t"
  by (auto simp: pending_keys_def fun_eq_iff record_title_def track_running_set_def Let_def
      set_running_def set_initializing_def split: option.splits)

lemma pending_snapshot [simp]: "pending_keys (track_snapshot sid ev ts t) = pending_keys t"
  by (auto simp: track_snapshot_def Let_def split: option.splits SessionStatus.splits)

definition asks :: "SessionId \<Rightarrow> string \<Rightarrow> SessionDriverEvent \<Rightarrow> bool" where
  "asks sid rid ev \<longleftrightarrow> ev_session_id ev = sid \<and> requests_dialog rid ev"

fun withdraws :: "SessionId \<Rightarrow> string \<Rightarrow> SessionDriverEvent \<Rightarrow> bool" where
  "withdraws sid rid (E_HostUiResolved b r) = (sr_session_id (eb_session_ref b) = sid \<and> r = rid)"
| "withdraws sid rid (E_RunFailed b err) = (sr_session_id (eb_session_ref b) = sid)"
| "withdraws sid rid (E_SessionClosed b reason) = (sr_session_id (eb_session_ref b) = sid)"
| "withdraws sid rid _ = False"

lemma pending_request:
  assumes "track_request sid request ts t = Some t'"
  shows "pending_keys t' s = pending_keys t s \<union>
    (if s = sid \<and> is_dialog_request request then {request_id request} else {})"
proof (cases "is_dialog_request request")
  case True
  then obtain title where "t' = modify_attention sid (\<lambda>r. r\<lparr>at_pending := hm_insert (request_id request) title (at_pending r),
      at_updated_at := ts\<rparr>) (ensure_attention sid ts t)"
    using assms by (auto simp: track_request_def)
  moreover obtain r where r: "map_of (tk_attention (ensure_attention sid ts t)) sid = Some r"
    using contains_ensure by blast
  moreover have "pending_keys t sid = set (hm_keys (at_pending r))"
    using pending_keys_at(1) [OF r] by simp
  ultimately show ?thesis using True
    by (cases "s = sid") (simp_all add: pending_modify)
next
  case False
  then show ?thesis using assms
    by (cases request) (auto simp: track_request_def split: option.splits if_splits)
qed

lemma pending_step:
  assumes "track_attention_step lower (ev_session_id ev) ev t = Some t'"
  shows "rid \<in> pending_keys t' sid \<longleftrightarrow>
    asks sid rid ev \<or> rid \<in> pending_keys t sid \<and> \<not> withdraws sid rid ev"
proof (cases ev)
  case (E_HostUiRequest b request)
  then show ?thesis
    using assms pending_request [of "ev_session_id ev" request "eb_timestamp b" t t' sid]
    by (auto simp: asks_def ev_session_id_def ev_session_ref_def)
next
  case (E_RunFailed b err)
  define s0 where "s0 = ev_session_id ev"
  define t1 where "t1 = modify_attention s0 (\<lambda>r. r\<lparr>at_pending := []\<rparr>) (ensure_attention s0 (eb_timestamp b) t)"
  obtain r where "map_of (tk_attention (ensure_attention s0 (eb_timestamp b) t)) s0 = Some r"
    using contains_ensure by blast
  then have t1: "pending_keys t1 sid = (if sid = s0 then {} else pending_keys t sid)"
    by (simp add: t1_def pending_modify)
  have "pending_keys t' = pending_keys t1"
    using assms E_RunFailed unfolding t1_def by (auto simp: Let_def s0_def)
  moreover have "\<not> asks sid rid ev" "withdraws sid rid ev \<longleftrightarrow> sid = s0"
    using E_RunFailed by (auto simp: asks_def s0_def ev_session_id_def ev_session_ref_def)
  ultimately show ?thesis using t1 by simp
next
  case (E_HostUiResolved b r)
  define s0 where "s0 = ev_session_id ev"
  have t': "t' = modify_attention s0 (\<lambda>x. if hm_contains (at_pending x) r
      then x\<lparr>at_pending := hm_remove r (at_pending x), at_updated_at := eb_timestamp b\<rparr> else x) t"
    using assms E_HostUiResolved by (simp add: s0_def)
  have "pending_keys t' sid = (if sid = s0 then pending_keys t sid - {r} else pending_keys t sid)"
    unfolding t'
    by (cases "hm_get (tk_attention t) s0")
       (simp_all add: pending_modify pending_keys_at hm_contains_iff)
  moreover have "\<not> asks sid rid ev" "withdraws sid rid ev \<longleftrightarrow> sid = s0 \<and> r = rid"
    using E_HostUiResolved by (auto simp: asks_def s0_def ev_session_id_def ev_session_ref_def)
  ultimately show ?thesis by auto
next
  case (E_SessionClosed b reason)
  then show ?thesis
    using assms by (auto simp: asks_def ev_session_id_def ev_session_ref_def pending_keys_def split: if_splits option.splits)
qed (use assms in \<open>auto simp: asks_def ev_session_id_def split: if_splits\<close>)

fun track_all :: "(string \<Rightarrow> string) \<Rightarrow> SessionDriverEvent list \<Rightarrow> Tracking \<Rightarrow> Tracking option" where
  "track_all lower [] t = Some t"
| "track_all lower (ev # evs) t =
     (case track_event lower ev t of None \<Rightarrow> None | Some (t', _) \<Rightarrow> track_all lower evs t')"

lemma track_all_append:
  "track_all lower (xs @ ys) t = (case track_all lower xs t of None \<Rightarrow> None | Some t' \<Rightarrow> track_all lower ys t')"
  by (induction xs arbitrary: t) (auto split: option.splits)

lemma track_event_step:
  "map_option fst (track_event lower ev t) =
     track_attention_step lower (ev_session_id ev) ev (track_running_set (ev_session_id ev) ev t)"
  by (auto simp: track_event_def track_attention_def Let_def track_running_def option.map_comp comp_def
      split_beta option.map_ident)

lemma pending_all:
  "track_all lower evs empty_tracking = Some t \<Longrightarrow>
   rid \<in> pending_keys t sid \<longleftrightarrow> since (asks sid rid) (\<lambda>e. \<not> withdraws sid rid e) evs"
proof (induction evs arbitrary: t rule: rev_induct)
  case Nil
  then show ?case by (auto simp: pending_keys_def empty_tracking_def)
next
  case (snoc ev evs)
  then obtain t1 where t1: "track_all lower evs empty_tracking = Some t1"
      "map_option fst (track_event lower ev t1) = Some t"
    by (auto simp: track_all_append split: option.splits prod.splits)
  then have "track_attention_step lower (ev_session_id ev) ev (track_running_set (ev_session_id ev) ev t1) = Some t"
    by (simp add: track_event_step)
  from pending_step [OF this] show ?case
    using snoc.IH [OF t1(1)] by (simp add: since_snoc)
qed

definition waiting :: "Tracking \<Rightarrow> SessionId \<Rightarrow> bool" where
  "waiting t sid \<longleftrightarrow> map_option sa_phase (attention_for t sid) = Some Ph_Waiting"

lemma waiting_iff: "waiting t sid \<longleftrightarrow> pending_keys t sid \<noteq> {}"
proof (cases "hm_get (tk_attention t) sid")
  case (Some r)
  then show ?thesis
    by (cases "at_pending r"; cases "at_phase r")
       (auto simp: waiting_def attention_for_def pending_keys_def hm_keys_def)
qed (simp add: waiting_def attention_for_def pending_keys_def)

section \<open>Properties\<close>

text \<open>
  The running set is exact: a session is in it if and only if some event of the session
  marked it running (a running snapshot, a delta, a tool start or update, a user or queued
  message) and no later event of the session cleared it (any other snapshot, a failed run, a
  close); and no session is running and initializing at once.
\<close>

theorem running_set_exact:
  "(sid \<in> set (tk_running (track_running_all evs)) \<longleftrightarrow>
      since (marks_running sid) (\<lambda>e. \<not> clears_running sid e) evs)
   \<and> set (tk_running (track_running_all evs)) \<inter> set (tk_initializing (track_running_all evs)) = {}"
  using running_all running_disjoint_all by blast

text \<open>
  A session is reported as waiting exactly when it has an open dialog: after any events that
  were tracked without a panic, the wire phase of a session is Waiting if and only if some
  dialog was requested in it and since then neither resolved, nor swept away by a failed run
  or a close of that session.
\<close>

theorem waiting_exact:
  "case track_all lower evs empty_tracking of
     Some t \<Rightarrow> waiting t sid \<longleftrightarrow>
       (\<exists>rid. since (asks sid rid) (\<lambda>e. \<not> withdraws sid rid e) evs)
   | None \<Rightarrow> True"
proof (cases "track_all lower evs empty_tracking")
  case (Some t)
  then show ?thesis using pending_all [OF Some] by (auto simp: waiting_iff)
qed simp

definition long_message :: string where
  "long_message = replicate 70 (CHR ''a'') @ [CHR 0xC3, CHR 0xA9, CHR ''b'']"

lemma letters_kept: "split_ws w (replicate n (CHR ''a'') @ s) = split_ws (w @ replicate n (CHR ''a'')) s"
proof (induction n arbitrary: w)
  case (Suc n)
  have "byte_of (CHR ''a'') = 97" by code_simp
  then have "ws_len (CHR ''a'' # t) = 0" for t by (simp add: ws_len_def split: list.split)
  then show ?case using Suc.IH [of "w @ [CHR ''a'']"] by simp
qed simp

lemma clipped_long_message: "clipped long_message 72 = None"
proof -
  have b: "byte_of (CHR 0xC3) = 0xC3" "byte_of (CHR 0xA9) = 0xA9" "byte_of (CHR ''b'') = 98" by code_simp+
  then have "split_whitespace long_message = [long_message]"
    by (simp add: split_whitespace_def long_message_def letters_kept ws_len_def)
  moreover have "long_message ! 71 = CHR 0xA9" by (simp add: long_message_def nth_append)
  moreover have "length long_message = 73" by (simp add: long_message_def)
  ultimately show ?thesis using b by (simp add: clipped_def slice_to_def is_char_boundary_def)
qed

text \<open>
  Clipping panics on text whose cut falls inside a character: a failed run whose message is
  seventy ASCII letters, a two-byte character and one more letter makes the attention
  tracker panic, in every state.
\<close>

theorem run_failed_can_panic:
  "track_attention lower sid (E_RunFailed b \<lparr>err_message = long_message, err_code = c, err_details = d\<rparr>) t = None"
  by (simp add: track_attention_def Let_def clipped_long_message)

end
