(* ===== verification/Client_View.thy ===== *)
theory Client_View
  imports Wire Journal
begin

text \<open>
  The web client's side of the protocol: what it does with the two messages that touch the
  transcript (\<^verbatim>\<open>client/src/lib/store.svelte.ts\<close>, the cases \<^verbatim>\<open>seed\<close> and \<^verbatim>\<open>event\<close> of the message switch).
  A seed is folded from zero and replaces the view; an event of another epoch is dropped, one
  that is not the next in sequence asks for a seed, and the next one is folded. The reducer
  the client shares with the server is \<open>fold_event\<close>.
\<close>

record ClientView =
  cv_seed_session_id :: "SessionId option"
  cv_seed_epoch :: nat
  cv_seed_seq :: nat
  cv_session :: SessionState
  cv_seed_requested :: bool

definition initial_view :: ClientView where
  "initial_view = \<lparr>cv_seed_session_id = None, cv_seed_epoch = 0, cv_seed_seq = 0,
     cv_session = initial_session_state, cv_seed_requested = False\<rparr>"

fun receive :: "ClientView \<Rightarrow> ServerMessage \<Rightarrow> ClientView" where
  "receive v (M_Seed sid epoch seq evs) =
     \<lparr>cv_seed_session_id = sid, cv_seed_epoch = epoch, cv_seed_seq = seq,
      cv_session = fold_all evs, cv_seed_requested = False\<rparr>"
| "receive v (M_Event ev epoch seq) =
     (if epoch \<noteq> cv_seed_epoch v then v
      else if seq \<noteq> Suc (cv_seed_seq v) then v\<lparr>cv_seed_requested := True\<rparr>
      else v\<lparr>cv_seed_seq := seq, cv_session := fold_event (cv_session v) ev,
             cv_seed_requested := False\<rparr>)"
| "receive v _ = v"

definition receive_all :: "ClientView \<Rightarrow> ServerMessage list \<Rightarrow> ClientView" where
  "receive_all v ms = foldl receive v ms"

text \<open>The token a reconnecting client sends (\<^verbatim>\<open>setResumeProvider\<close>).\<close>

definition resume_token :: "ClientView \<Rightarrow> ResumeToken option" where
  "resume_token v = (case cv_seed_session_id v of
     Some sid \<Rightarrow> (if sid \<noteq> [] \<and> cv_seed_epoch v > 0
       then Some \<lparr>rk_session_id = sid, rk_epoch = cv_seed_epoch v, rk_seq = cv_seed_seq v\<rparr> else None)
   | None \<Rightarrow> None)"

lemma receive_all_Nil [simp]: "receive_all v [] = v"
  by (simp add: receive_all_def)

lemma receive_all_append [simp]: "receive_all v (xs @ ys) = receive_all (receive_all v xs) ys"
  by (simp add: receive_all_def)

lemma receive_all_single [simp]: "receive_all v [m] = receive v m"
  by (simp add: receive_all_def)

text \<open>
  A view is in step with a journal when it shows the journal's session, carries its epoch and
  sequence number, and its state is the fold of the journal, with no seed request open.
\<close>

definition in_step :: "SessionId \<Rightarrow> SessionJournal \<Rightarrow> ClientView \<Rightarrow> bool" where
  "in_step sid j v \<longleftrightarrow> cv_seed_session_id v = Some sid \<and> cv_seed_epoch v = j_epoch j
     \<and> cv_seed_seq v = j_seq j \<and> cv_session v = fold_all (seed_events j) \<and> \<not> cv_seed_requested v"

end
