(* ===== verification/Hub.thy ===== *)
theory Hub
  imports Attention Client_View
begin

text \<open>
  The session hub (\<^verbatim>\<open>pantoken-server/src/hub.rs\<close>): journals, client connections, delivery, event
  ingestion with delta coalescing, the attach of clients with resume, session switches, idle
  eviction, usage refresh, desktop updates, the prompt ledger and the reset.

  \<^item> The hub runs under one lock; every method is a function from the hub's state to its new
    state. A method that can panic (in \<open>clipped\<close>) returns \<open>None\<close> then.
  \<^item> Asynchronous completions are queued as data, \<open>HubOp\<close>, where the code queues closures; the
    driver's answers and the clock are arguments.
  \<^item> A client's bounded channel is the list of messages accepted so far, the number the
    connection's task has taken out, and whether the receiving end is gone.
  \<^item> \<^verbatim>\<open>Instant\<close>s and \<^verbatim>\<open>now_ms\<close> are natural numbers of milliseconds. Counters that only count up by
    one (\<^verbatim>\<open>epoch_counter\<close>, \<^verbatim>\<open>next_client_key\<close>) are natural numbers; \<^verbatim>\<open>authorization_generation\<close>, which
    the code lets wrap, is a 64-bit word.
\<close>

section \<open>State\<close>

definition CLIENT_QUEUE_CAPACITY :: nat where
  "CLIENT_QUEUE_CAPACITY = 128"

definition SWAP_BUFFER_CAP :: nat where
  "SWAP_BUFFER_CAP = 256"

definition SWAP_BUFFER_TTL_MS :: nat where
  "SWAP_BUFFER_TTL_MS = 5000"

definition PROMPT_RESULT_CAP :: nat where
  "PROMPT_RESULT_CAP = 2048"

record Channel =
  ch_sent :: "ServerMessage list"
  ch_read :: nat
  ch_closed :: bool

text \<open>A queued switch: its swap closure and the waiting caller are named by numbers.\<close>

record PendingSwitch =
  psw_swap :: nat
  psw_reseed :: bool
  psw_retry_on_raced_events :: bool
  psw_suppress_error :: bool
  psw_resolve :: nat

record ClientConn =
  cc_send :: Channel
  cc_focused_id :: "SessionId option"
  cc_switch_in_flight :: bool
  cc_pending_switch :: "PendingSwitch option"

datatype DeliveryFailure = Full | Closed

datatype DeliveryOutcome = Delivered | DeliveryFailed nat string DeliveryFailure

datatype HubOp =
    Op_FetchJobs SessionId
  | Op_SessionList string
  | Op_LiveRefresh bool bool bool
  | Op_CommandList nat SessionId
  | Op_FacetList nat SessionId
  | Op_FileIndex nat SessionId
  | Op_AtRefs nat SessionId
  | Op_ModelDefaults

record HubNotification =
  hn_title :: string
  hn_body :: string
  hn_tag :: "string option"
  hn_url :: "string option"
  hn_badge :: "nat option"

record BufferedSwapEvent =
  bse_at_ms :: nat
  bse_ev :: SessionDriverEvent

record SessionHub =
  h_has_notify :: bool
  h_server_id :: string
  h_server_label :: string
  h_data_dir :: "string option"
  h_build_sha :: string
  h_delta_flush_ms :: nat
  h_journal_idle_evict_ms :: i64
  h_journals :: "(SessionId, SessionJournal) hashmap"
  h_pending_deltas :: "(SessionId, SessionDriverEvent) hashmap"
  h_swap_buffer :: "(SessionId, BufferedSwapEvent list) hashmap"
  h_swaps_in_flight :: nat
  h_track :: Tracking
  h_default_focus_id :: "SessionId option"
  h_ever_connected :: bool
  h_session_list_dirty :: bool
  h_last_usage_emitted :: "(SessionId, SessionUsage) hashmap"
  h_update_sha :: "string option"
  h_applying :: bool
  h_update_status :: "string option"
  h_update_reason :: "string option"
  h_authorization_generation :: u64
  h_lease_nonce :: "string option"
  h_lease_sha :: "string option"
  h_lease_expires_at :: "nat option"
  h_lease_expires_at_unix_ms :: "nat option"
  h_desktop_stale :: bool
  h_force_requested :: bool
  h_prompt_results :: "(string, ServerMessage) hashmap"
  h_prompt_result_order :: "string list"
  h_clients :: "(nat, ClientConn) hashmap"
  h_next_client_key :: nat
  h_epoch_counter :: nat
  h_hub_ops :: "HubOp list"
  h_notifications :: "HubNotification list"
  h_removed :: "(nat \<times> Channel) list"
  h_resolved :: "(nat \<times> SessionId option) list"

text \<open>
  What the hub takes from outside: Unicode lowercasing, the serialized length of JSON values
  (for the journal's size estimate), URL encoding, and whether a runtime hosts the caller.
\<close>

record Env =
  env_lower :: "string \<Rightarrow> string"
  env_serde :: serde_len
  env_urlencode :: "string \<Rightarrow> string"
  env_runtime :: bool

section \<open>Delivery\<close>

text \<open>\<^verbatim>\<open>mpsc::Sender::try_send\<close> on a channel of the hub's capacity.\<close>

definition try_send :: "ServerMessage \<Rightarrow> Channel \<Rightarrow> DeliveryFailure + Channel" where
  "try_send m ch =
     (if ch_closed ch then Inl Closed
      else if length (ch_sent ch) - ch_read ch \<ge> CLIENT_QUEUE_CAPACITY then Inl Full
      else Inr (ch\<lparr>ch_sent := ch_sent ch @ [m]\<rparr>))"

text \<open>
  Removing a client signals its connection's task (\<open>h_removed\<close>), which keeps the receiving end of the
  channel and may still write out what was queued; a waiting switch is resolved with nothing.
\<close>

definition remove_client :: "nat \<Rightarrow> SessionHub \<Rightarrow> SessionHub" where
  "remove_client key h = (case hm_get (h_clients h) key of
     None \<Rightarrow> h
   | Some conn \<Rightarrow> h\<lparr>h_clients := hm_remove key (h_clients h),
        h_removed := h_removed h @ [(key, cc_send conn)],
        h_resolved := h_resolved h @ (case cc_pending_switch conn of
            Some p \<Rightarrow> [(psw_resolve p, None)] | None \<Rightarrow> [])\<rparr>)"

definition deliver :: "nat \<Rightarrow> string \<Rightarrow> ServerMessage \<Rightarrow> SessionHub \<Rightarrow> SessionHub \<times> DeliveryOutcome" where
  "deliver key ctx m h = (case hm_get (h_clients h) key of
     None \<Rightarrow> (h, DeliveryFailed key ctx Closed)
   | Some conn \<Rightarrow> (case try_send m (cc_send conn) of
       Inr ch \<Rightarrow> (h\<lparr>h_clients := hm_insert key (conn\<lparr>cc_send := ch\<rparr>) (h_clients h)\<rparr>, Delivered)
     | Inl kind \<Rightarrow> (remove_client key h, DeliveryFailed key ctx kind)))"

text \<open>The delivery loops: one message, or one message per client.\<close>

definition deliver_each :: "string \<Rightarrow> (nat \<times> ServerMessage) list \<Rightarrow> SessionHub \<Rightarrow> SessionHub" where
  "deliver_each ctx kms h = foldl (\<lambda>h (k, m). fst (deliver k ctx m h)) h kms"

definition deliver_all :: "nat list \<Rightarrow> string \<Rightarrow> ServerMessage \<Rightarrow> SessionHub \<Rightarrow> SessionHub" where
  "deliver_all keys ctx m h = deliver_each ctx (map (\<lambda>k. (k, m)) keys) h"

definition send_to_client :: "nat \<Rightarrow> ServerMessage \<Rightarrow> SessionHub \<Rightarrow> SessionHub" where
  "send_to_client key m h = fst (deliver key ''per_client'' m h)"

definition broadcast :: "ServerMessage \<Rightarrow> SessionHub \<Rightarrow> SessionHub" where
  "broadcast m h = deliver_all (hm_keys (h_clients h)) ''broadcast'' m h"

definition has_client :: "SessionHub \<Rightarrow> nat \<Rightarrow> bool" where
  "has_client h key = hm_contains (h_clients h) key"

definition client_count :: "SessionHub \<Rightarrow> nat" where
  "client_count h = length (h_clients h)"

definition clients_focused :: "SessionHub \<Rightarrow> SessionId \<Rightarrow> nat list" where
  "clients_focused h sid = map fst (filter (\<lambda>(_, c). cc_focused_id c = Some sid) (h_clients h))"

definition has_viewer :: "SessionHub \<Rightarrow> SessionId \<Rightarrow> bool" where
  "has_viewer h sid \<longleftrightarrow> list_ex (\<lambda>(_, c). cc_focused_id c = Some sid) (h_clients h)"

definition set_client_focus :: "nat \<Rightarrow> SessionId \<Rightarrow> SessionHub \<Rightarrow> SessionHub" where
  "set_client_focus key sid h =
     h\<lparr>h_clients := hm_modify key (\<lambda>c. c\<lparr>cc_focused_id := Some sid\<rparr>) (h_clients h)\<rparr>"

section \<open>Seeds\<close>

definition seed_of :: "SessionHub \<Rightarrow> SessionId option \<Rightarrow> (nat \<times> nat \<times> SessionDriverEvent list) option" where
  "seed_of h sid = (case sid of
     None \<Rightarrow> None
   | Some s \<Rightarrow> map_option build_seed (hm_get (h_journals h) s))"

definition folded_state :: "SessionHub \<Rightarrow> SessionId option \<Rightarrow> SessionState option" where
  "folded_state h sid = map_option (\<lambda>(_, _, evs). fold_all evs) (seed_of h sid)"

definition seed_msg :: "SessionHub \<Rightarrow> SessionId option \<Rightarrow> ServerMessage" where
  "seed_msg h sid = (case seed_of h sid of
     Some (epoch, seq, evs) \<Rightarrow> M_Seed sid epoch seq evs
   | None \<Rightarrow> M_Seed sid 0 0 [])"

section \<open>Ingestion\<close>

definition ingest_reset :: "Env \<Rightarrow> nat \<Rightarrow> SessionDriverEvent \<Rightarrow> SessionHub \<Rightarrow> SessionHub" where
  "ingest_reset env now ev h =
     (let sid = ev_session_id ev in
      case hm_get (h_journals h) sid of
        None \<Rightarrow> h
      | Some j \<Rightarrow>
          (let st = fold_event (fold_all (seed_events j)) ev;
               meta = meta_seed_events st (ev_session_ref ev) (ev_timestamp ev);
               epoch = Suc (h_epoch_counter h);
               h1 = h\<lparr>h_epoch_counter := epoch,
                      h_journals := hm_modify sid (\<lambda>j. bump_epoch now j epoch meta) (h_journals h)\<rparr>
           in deliver_all (clients_focused h1 sid) ''ingest.session_reset'' (seed_msg h1 (Some sid)) h1))"

definition ingest_now :: "Env \<Rightarrow> nat \<Rightarrow> SessionDriverEvent \<Rightarrow> SessionHub \<Rightarrow> SessionHub" where
  "ingest_now env now ev h =
     (if type_discriminator ev = ''sessionReset'' then ingest_reset env now ev h
      else
        let sid = ev_session_id ev in
        case hm_get (h_journals h) sid of
          None \<Rightarrow> h
        | Some j \<Rightarrow>
            (let (j', seq) = append_event (env_serde env) now j ev;
                 h1 = h\<lparr>h_journals := hm_insert sid j' (h_journals h)\<rparr>
             in deliver_all (clients_focused h1 sid) ''ingest.event'' (M_Event ev (j_epoch j') seq) h1))"

definition flush_pending :: "Env \<Rightarrow> nat \<Rightarrow> SessionId \<Rightarrow> SessionHub \<Rightarrow> SessionHub" where
  "flush_pending env now sid h = (case hm_get (h_pending_deltas h) sid of
     None \<Rightarrow> h
   | Some pev \<Rightarrow> ingest_now env now pev
       (h\<lparr>h_pending_deltas := hm_remove sid (h_pending_deltas h)\<rparr>))"

definition drop_pending :: "SessionId \<Rightarrow> SessionHub \<Rightarrow> SessionHub" where
  "drop_pending sid h = h\<lparr>h_pending_deltas := hm_remove sid (h_pending_deltas h)\<rparr>"

text \<open>Starting a run of coalesced deltas; without a runtime there is no flush timer and the event is
  appended at once.\<close>

definition start_run :: "Env \<Rightarrow> nat \<Rightarrow> SessionDriverEvent \<Rightarrow> SessionHub \<Rightarrow> SessionHub" where
  "start_run env now ev h =
     (if \<not> env_runtime env then ingest_now env now ev h
      else h\<lparr>h_pending_deltas := hm_insert (ev_session_id ev) ev (h_pending_deltas h)\<rparr>)"

definition ingest :: "Env \<Rightarrow> nat \<Rightarrow> SessionDriverEvent \<Rightarrow> SessionHub \<Rightarrow> SessionHub" where
  "ingest env now ev h =
     (let sid = ev_session_id ev in
      if h_delta_flush_ms h = 0 \<or> \<not> hm_contains (h_journals h) sid then ingest_now env now ev h
      else if type_discriminator ev \<noteq> ''assistantDelta''
      then ingest_now env now ev (flush_pending env now sid h)
      else case hm_get (h_pending_deltas h) sid of
        None \<Rightarrow> start_run env now ev h
      | Some pev \<Rightarrow>
          (case try_merge pev ev of
             Some merged \<Rightarrow> h\<lparr>h_pending_deltas := hm_insert sid merged (h_pending_deltas h)\<rparr>
           | None \<Rightarrow> start_run env now ev (flush_pending env now sid h)))"

section \<open>Driver events\<close>

definition broadcast_session_status :: "SessionHub \<Rightarrow> SessionHub" where
  "broadcast_session_status h = broadcast (session_status_msg (h_track h)) h"

text \<open>The difference of two \<^verbatim>\<open>u128\<close> clock readings, which wraps when the clock was set back.\<close>

definition elapsed_ms :: "nat \<Rightarrow> nat \<Rightarrow> nat" where
  "elapsed_ms now at = nat ((int now - int at) mod 2 ^ 128)"

definition buffer_swap_event :: "nat \<Rightarrow> SessionId \<Rightarrow> SessionDriverEvent \<Rightarrow> SessionHub \<Rightarrow> SessionHub" where
  "buffer_swap_event now sid ev h =
     (let kept = filter (\<lambda>(_, fs). \<not> list_all (\<lambda>f. elapsed_ms now (bse_at_ms f) > SWAP_BUFFER_TTL_MS) fs)
                   (h_swap_buffer h);
          fs = (case hm_get kept sid of Some fs \<Rightarrow> fs | None \<Rightarrow> []);
          fs' = (if length fs < SWAP_BUFFER_CAP then fs @ [\<lparr>bse_at_ms = now, bse_ev = ev\<rparr>] else fs)
      in h\<lparr>h_swap_buffer := hm_insert sid fs' kept\<rparr>)"

definition take_swap_buffer ::
  "nat \<Rightarrow> SessionId \<Rightarrow> nat \<Rightarrow> SessionHub \<Rightarrow> SessionHub \<times> SessionDriverEvent list" where
  "take_swap_buffer now sid since_ms h = (case hm_get (h_swap_buffer h) sid of
     None \<Rightarrow> (h, [])
   | Some fs \<Rightarrow> (h\<lparr>h_swap_buffer := hm_remove sid (h_swap_buffer h)\<rparr>,
       map bse_ev (filter (\<lambda>f. elapsed_ms now (bse_at_ms f) \<le> SWAP_BUFFER_TTL_MS
                               \<and> bse_at_ms f \<ge> since_ms) fs)))"

text \<open>The notification an event gives rise to once everyone has left.\<close>

definition notification_for :: "Env \<Rightarrow> SessionDriverEvent \<Rightarrow> SessionHub \<Rightarrow> HubNotification option option" where
  "notification_for env ev h =
     (let sid = ev_session_id ev;
          session = (case hm_get (tk_session_titles (h_track h)) sid of Some t \<Rightarrow> t | None \<Rightarrow> sid);
          url = Some (''/?session='' @ env_urlencode env sid);
          badge = Some (attention_badge_count (h_track h))
      in case ev of
        E_RunCompleted _ _ _ _ \<Rightarrow> Some (Some \<lparr>hn_title = ''pantoken'',
          hn_body = session @ '' finished its turn'', hn_tag = Some (''pantoken-run-'' @ sid),
          hn_url = url, hn_badge = badge\<rparr>)
      | E_RunFailed _ err \<Rightarrow> map_option (\<lambda>m. Some \<lparr>hn_title = ''pantoken'',
          hn_body = session @ '' failed: '' @ m, hn_tag = Some (''pantoken-run-'' @ sid),
          hn_url = url, hn_badge = badge\<rparr>) (clipped (err_message err) 72)
      | E_HostUiRequest _ request \<Rightarrow> Some (if is_dialog_request request
          then Some \<lparr>hn_title = ''Approval needed'',
            hn_body = session @ '': '' @ (case title_of_request request of Some t \<Rightarrow> t | None \<Rightarrow> ''Waiting on you''),
            hn_tag = Some (''pantoken-approval-'' @ sid), hn_url = url, hn_badge = badge\<rparr>
          else None)
      | _ \<Rightarrow> Some None)"

definition maybe_notify :: "Env \<Rightarrow> SessionDriverEvent \<Rightarrow> SessionHub \<Rightarrow> SessionHub option" where
  "maybe_notify env ev h =
     (if \<not> h_has_notify h then Some h
      else if h_ever_connected h \<and> client_count h = 0
      then map_option (\<lambda>n. h\<lparr>h_notifications := h_notifications h @ (case n of Some x \<Rightarrow> [x] | None \<Rightarrow> [])\<rparr>)
             (notification_for env ev h)
      else Some h)"

definition dirties_session_list :: "SessionDriverEvent \<Rightarrow> bool" where
  "dirties_session_list ev \<longleftrightarrow> type_discriminator ev \<in> {''userMessage'', ''runCompleted'', ''runFailed'',
     ''sessionOpened'', ''sessionClosed'', ''sessionUpdated''}"

definition drop_closed :: "SessionDriverEvent \<Rightarrow> SessionHub \<Rightarrow> SessionHub" where
  "drop_closed ev h =
     (let sid = ev_session_id ev in
      if type_discriminator ev = ''sessionClosed'' \<and> h_default_focus_id h \<noteq> Some sid
         \<and> \<not> has_viewer h sid
      then (drop_pending sid h)\<lparr>h_journals := hm_remove sid (h_journals h)\<rparr>
      else h)"

definition enqueue_jobs :: "SessionDriverEvent \<Rightarrow> SessionHub \<Rightarrow> SessionHub" where
  "enqueue_jobs ev h =
     (if type_discriminator ev \<in> {''sessionUpdated'', ''runCompleted''}
      then h\<lparr>h_hub_ops := h_hub_ops h @ [Op_FetchJobs (ev_session_id ev)]\<rparr> else h)"

definition on_event :: "Env \<Rightarrow> nat \<Rightarrow> SessionDriverEvent \<Rightarrow> SessionHub \<Rightarrow> SessionHub option" where
  "on_event env now ev h = (case track_event (env_lower env) ev (h_track h) of
     None \<Rightarrow> None
   | Some (t, changed) \<Rightarrow>
       (let sid = ev_session_id ev;
            h1 = h\<lparr>h_track := t\<rparr>;
            h2 = (if changed then broadcast_session_status h1 else h1);
            h3 = (if dirties_session_list ev then h2\<lparr>h_session_list_dirty := True\<rparr> else h2);
            h4 = (if h_swaps_in_flight h3 > 0 \<and> \<not> hm_contains (h_journals h3) sid
                  then buffer_swap_event now sid ev h3 else h3);
            h5 = ingest env now ev h4;
            h6 = enqueue_jobs ev (drop_closed ev h5)
        in maybe_notify env ev h6))"

section \<open>Construction and the landing session\<close>

text \<open>Every event of a seed goes through the trackers; the flag says whether one of them changed.\<close>

fun track_seed :: "Env \<Rightarrow> SessionDriverEvent list \<Rightarrow> Tracking \<times> bool \<Rightarrow> (Tracking \<times> bool) option" where
  "track_seed env [] tc = Some tc"
| "track_seed env (ev # evs) (t, c) = (case track_event (env_lower env) ev t of
     None \<Rightarrow> None
   | Some (t', c') \<Rightarrow> track_seed env evs (t', c' \<or> c))"

definition seed_default :: "Env \<Rightarrow> nat \<Rightarrow> SessionDriverEvent list option \<Rightarrow> SessionHub \<Rightarrow> SessionHub option" where
  "seed_default env now default_seed h = (case default_seed of
     None \<Rightarrow> Some h
   | Some [] \<Rightarrow> Some h
   | Some (e # es) \<Rightarrow>
       (case track_seed env (e # es) (h_track h, False) of
          None \<Rightarrow> None
        | Some (t, _) \<Rightarrow>
            (let sid = ev_session_id e; epoch = Suc (h_epoch_counter h)
             in Some (h\<lparr>h_track := t, h_epoch_counter := epoch,
                  h_journals := hm_insert sid (create_journal now epoch (e # es)) (h_journals h),
                  h_default_focus_id := Some sid\<rparr>))))"

record HubConfig =
  hc_has_notify :: bool
  hc_server_id :: string
  hc_server_label :: string
  hc_data_dir :: "string option"
  hc_build_sha :: string
  hc_delta_flush_ms :: nat
  hc_journal_idle_evict_ms :: i64

definition empty_hub :: "HubConfig \<Rightarrow> nat \<Rightarrow> SessionHub" where
  "empty_hub cfg now = \<lparr>
     h_has_notify = hc_has_notify cfg, h_server_id = hc_server_id cfg,
     h_server_label = hc_server_label cfg, h_data_dir = hc_data_dir cfg,
     h_build_sha = hc_build_sha cfg, h_delta_flush_ms = hc_delta_flush_ms cfg,
     h_journal_idle_evict_ms = hc_journal_idle_evict_ms cfg,
     h_journals = [], h_pending_deltas = [], h_swap_buffer = [], h_swaps_in_flight = 0,
     h_track = empty_tracking, h_default_focus_id = None, h_ever_connected = False,
     h_session_list_dirty = True, h_last_usage_emitted = [], h_update_sha = None,
     h_applying = False, h_update_status = None, h_update_reason = None,
     h_authorization_generation = 0, h_lease_nonce = None, h_lease_sha = None,
     h_lease_expires_at = None, h_lease_expires_at_unix_ms = None, h_desktop_stale = False,
     h_force_requested = False, h_prompt_results = [], h_prompt_result_order = [],
     h_clients = [], h_next_client_key = 0, h_epoch_counter = now, h_hub_ops = [],
     h_notifications = [], h_removed = [], h_resolved = []\<rparr>"

definition new_hub :: "Env \<Rightarrow> HubConfig \<Rightarrow> nat \<Rightarrow> SessionDriverEvent list option \<Rightarrow> SessionHub option" where
  "new_hub env cfg now default_seed = seed_default env now default_seed (empty_hub cfg now)"

section \<open>Clients\<close>

definition update_status_msg :: "SessionHub \<Rightarrow> ServerMessage" where
  "update_status_msg h = M_UpdateStatus (h_update_sha h \<noteq> None) (h_update_sha h) (h_applying h)
     (h_update_status h) (h_update_reason h) (Some (h_desktop_stale h))"

definition hello_msg :: "SessionHub \<Rightarrow> ServerMessage" where
  "hello_msg h = M_Hello PROTOCOL_VERSION (h_server_id h) (h_server_label h)
     (case h_data_dir h of Some d \<Rightarrow> d | None \<Rightarrow> []) (Some (h_build_sha h))"

text \<open>The resume guard: the journal is at the token's epoch and its ring covers the watermark.\<close>

definition resumable :: "SessionJournal \<Rightarrow> ResumeToken \<Rightarrow> bool" where
  "resumable j r \<longleftrightarrow> j_epoch j = rk_epoch r \<and> tail_covers j (rk_seq r)"

definition initial_focus :: "SessionHub \<Rightarrow> ResumeToken option \<Rightarrow> SessionId option" where
  "initial_focus h resume = (case resume of
     None \<Rightarrow> h_default_focus_id h
   | Some r \<Rightarrow> (case hm_get (h_journals h) (rk_session_id r) of
       Some j \<Rightarrow> (if resumable j r then Some (rk_session_id r) else h_default_focus_id h)
     | None \<Rightarrow> h_default_focus_id h))"

text \<open>The replay of the tail stops at the first delivery that fails.\<close>

fun replay_tail :: "nat \<Rightarrow> nat \<Rightarrow> JournalFrame list \<Rightarrow> SessionHub \<Rightarrow> SessionHub" where
  "replay_tail key epoch [] h = h"
| "replay_tail key epoch (f # fs) h =
     (case deliver key ''bootstrap.resume_tail'' (M_Event (jf_ev f) epoch (jf_seq f)) h of
        (h', Delivered) \<Rightarrow> replay_tail key epoch fs h'
      | (h', _) \<Rightarrow> h')"

definition bootstrap_transcript :: "nat \<Rightarrow> ResumeToken option \<Rightarrow> SessionId option \<Rightarrow> SessionHub \<Rightarrow> SessionHub" where
  "bootstrap_transcript key resume focused h = (case resume of
     None \<Rightarrow> fst (deliver key ''bootstrap.seed'' (seed_msg h focused) h)
   | Some r \<Rightarrow> (case hm_get (h_journals h) (rk_session_id r) of
       None \<Rightarrow> fst (deliver key ''bootstrap.seed'' (seed_msg h focused) h)
     | Some j \<Rightarrow>
         if resumable j r then replay_tail key (j_epoch j) (resume_frames j (rk_seq r)) h
         else fst (deliver key ''bootstrap.seed'' (seed_msg h (Some (rk_session_id r))) h)))"

text \<open>The trailing status messages, each sent only while the client is still there.\<close>

definition bootstrap_status :: "nat \<Rightarrow> ServerMessage \<Rightarrow> SessionHub \<Rightarrow> SessionHub" where
  "bootstrap_status key settings_msg h =
     (if \<not> has_client h key then h
      else
        let h1 = fst (deliver key ''bootstrap.session_status'' (session_status_msg (h_track h)) h) in
        if \<not> has_client h1 key then h1
        else
          let h2 = fst (deliver key ''bootstrap.update_status'' (update_status_msg h1) h1) in
          if \<not> has_client h2 key then h2
          else fst (deliver key ''bootstrap.settings'' settings_msg h2))"

definition register_client :: "SessionId option \<Rightarrow> SessionHub \<Rightarrow> SessionHub" where
  "register_client focused h = h\<lparr>
     h_clients := hm_insert (h_next_client_key h)
       \<lparr>cc_send = \<lparr>ch_sent = [], ch_read = 0, ch_closed = False\<rparr>, cc_focused_id = focused,
        cc_switch_in_flight = False, cc_pending_switch = None\<rparr> (h_clients h),
     h_next_client_key := Suc (h_next_client_key h),
     h_ever_connected := True\<rparr>"

definition add_client :: "ResumeToken option \<Rightarrow> ServerMessage \<Rightarrow> SessionHub \<Rightarrow> SessionHub \<times> nat" where
  "add_client resume settings_msg h =
     (let focused = initial_focus h resume;
          key = h_next_client_key h;
          h1 = register_client focused h
      in case deliver key ''bootstrap.hello'' (hello_msg h1) h1 of
           (h2, Delivered) \<Rightarrow>
             (bootstrap_status key settings_msg (bootstrap_transcript key resume focused h2), key)
         | (h2, _) \<Rightarrow> (h2, key))"

section \<open>Session lists, eviction, usage\<close>

definition broadcast_session_list_with ::
  "SessionListEntry list \<Rightarrow> string \<Rightarrow> SessionHub \<Rightarrow> SessionHub" where
  "broadcast_session_list_with sessions default_cwd h =
     (deliver_each ''session_list.broadcast''
        (map (\<lambda>(k, c). (k, M_SessionList sessions (cc_focused_id c) default_cwd)) (h_clients h)) h)
     \<lparr>h_session_list_dirty := False\<rparr>"

definition idle_victim :: "nat \<Rightarrow> (SessionId \<Rightarrow> bool) \<Rightarrow> SessionHub \<Rightarrow> SessionId \<Rightarrow> SessionJournal \<Rightarrow> bool" where
  "idle_victim now has_warm h sid j \<longleftrightarrow>
     h_default_focus_id h \<noteq> Some sid \<and> \<not> has_viewer h sid
     \<and> sid \<notin> set (tk_running (h_track h)) \<and> sid \<notin> set (tk_initializing (h_track h))
     \<and> \<not> hm_contains (h_pending_deltas h) sid
     \<and> \<not> (int (now - j_last_activity j) < h_journal_idle_evict_ms h)
     \<and> \<not> has_warm sid"

definition evict_idle_journals_at :: "nat \<Rightarrow> (SessionId \<Rightarrow> bool) \<Rightarrow> SessionHub \<Rightarrow> SessionHub" where
  "evict_idle_journals_at now has_warm h =
     (if h_journal_idle_evict_ms h \<le> 0 then h
      else if h_swaps_in_flight h > 0 then h
      else
        let victims = map fst (filter (\<lambda>(sid, j). idle_victim now has_warm h sid j) (h_journals h))
        in foldl (\<lambda>h sid. (drop_pending sid h)\<lparr>h_journals := hm_remove sid (h_journals h)\<rparr>) h victims)"

definition usage_event :: "SessionHub \<Rightarrow> SessionId \<Rightarrow> string \<Rightarrow> SessionUsage \<Rightarrow> SessionDriverEvent" where
  "usage_event h sid now_iso usage = E_UsageUpdated
     \<lparr>eb_session_ref = (case hm_get (h_journals h) sid of
          Some j \<Rightarrow> (case j_session_ref j of
              Some r \<Rightarrow> r | None \<Rightarrow> \<lparr>sr_workspace_id = sid, sr_session_id = sid\<rparr>)
        | None \<Rightarrow> \<lparr>sr_workspace_id = sid, sr_session_id = sid\<rparr>),
      eb_timestamp = now_iso, eb_run_id = None, eb_subagent_handle = None\<rparr> usage"

definition refresh_usage_of ::
  "Env \<Rightarrow> nat \<Rightarrow> string \<Rightarrow> (SessionId \<Rightarrow> SessionUsage option) \<Rightarrow> SessionId \<Rightarrow> SessionHub \<Rightarrow> SessionHub" where
  "refresh_usage_of env now now_iso get_usage sid h = (case get_usage sid of
     None \<Rightarrow> h
   | Some usage \<Rightarrow>
       (if (case hm_get (h_last_usage_emitted h) sid of Some u \<Rightarrow> usage_eq u usage | None \<Rightarrow> False)
        then h
        else
          let h1 = h\<lparr>h_last_usage_emitted := hm_insert sid usage (h_last_usage_emitted h)\<rparr>
          in ingest env now (usage_event h1 sid now_iso usage) h1))"

definition refresh_usage ::
  "Env \<Rightarrow> nat \<Rightarrow> string \<Rightarrow> (SessionId \<Rightarrow> SessionUsage option) \<Rightarrow> SessionHub \<Rightarrow> SessionHub" where
  "refresh_usage env now now_iso get_usage h =
     foldl (\<lambda>h sid. refresh_usage_of env now now_iso get_usage sid h) h
       (filter (\<lambda>sid. sid \<in> set (tk_running (h_track h))) (hm_keys (h_journals h)))"

definition needs_live_refresh :: "SessionHub \<Rightarrow> bool" where
  "needs_live_refresh h \<longleftrightarrow> tk_running (h_track h) \<noteq> [] \<and> h_clients h \<noteq> []"

section \<open>Desktop updates\<close>

definition clear_update_lease :: "SessionHub \<Rightarrow> SessionHub" where
  "clear_update_lease h = h\<lparr>h_lease_nonce := None, h_lease_sha := None, h_lease_expires_at := None,
     h_lease_expires_at_unix_ms := None\<rparr>"

record UpdateReport =
  ur_applying :: bool
  ur_force :: bool
  ur_authorization_generation :: "u64 option"
  ur_lease_nonce :: "string option"
  ur_lease_sha :: "string option"
  ur_lease_expires_at :: "nat option"

definition report_update ::
  "string option \<Rightarrow> bool \<Rightarrow> bool option \<Rightarrow> SessionHub \<Rightarrow> SessionHub \<times> UpdateReport" where
  "report_update sha apply_failed desktop_stale h =
     (let sha_changed = (sha \<noteq> h_update_sha h);
          h1 = (if sha_changed
                then (let g = clear_update_lease (h\<lparr>h_update_sha := sha,
                            h_authorization_generation := h_authorization_generation h + 1\<rparr>);
                          g' = g\<lparr>h_update_status := None, h_update_reason := None\<rparr>
                      in if sha = None then g'\<lparr>h_applying := False\<rparr> else g')
                else h);
          failed = (apply_failed \<and> h_applying h1);
          h2 = (if failed then clear_update_lease (h1\<lparr>h_applying := False,
                  h_update_status := Some ''rejected'', h_update_reason := Some ''failed''\<rparr>) else h1);
          h3 = (if apply_failed then h2\<lparr>h_force_requested := False\<rparr> else h2);
          h4 = (case desktop_stale of Some st \<Rightarrow> h3\<lparr>h_desktop_stale := st\<rparr> | None \<Rightarrow> h3);
          h5 = (if sha_changed \<or> failed then broadcast (update_status_msg h4) h4 else h4);
          force = h_force_requested h5;
          h6 = h5\<lparr>h_force_requested := False\<rparr>
      in (h6, \<lparr>ur_applying = h_applying h6, ur_force = force,
           ur_authorization_generation = map_option (\<lambda>_. h_authorization_generation h6) (h_lease_nonce h6),
           ur_lease_nonce = h_lease_nonce h6, ur_lease_sha = h_lease_sha h6,
           ur_lease_expires_at = h_lease_expires_at_unix_ms h6\<rparr>))"

definition consume_update_permit ::
  "nat \<Rightarrow> u64 \<Rightarrow> string \<Rightarrow> string \<Rightarrow> SessionHub \<Rightarrow> SessionHub \<times> (string + unit)" where
  "consume_update_permit now generation nonce sha h =
     (if tk_running (h_track h) \<noteq> [] \<or> tk_initializing (h_track h) \<noteq> []
      then (let h1 = (clear_update_lease h)\<lparr>h_applying := False, h_update_status := Some ''deferred'',
                       h_update_reason := Some ''busy''\<rparr>
            in (broadcast (update_status_msg h1) h1, Inl ''busy''))
      else if generation \<noteq> h_authorization_generation h then (h, Inl ''generation_mismatch'')
      else if h_lease_nonce h \<noteq> Some nonce then (h, Inl ''replayed'')
      else if h_lease_sha h \<noteq> Some sha \<or> h_update_sha h \<noteq> Some sha then (h, Inl ''sha_mismatch'')
      else if (case h_lease_expires_at h of None \<Rightarrow> True | Some expiry \<Rightarrow> expiry \<le> now)
      then (clear_update_lease h, Inl ''expired'')
      else
        let h1 = (clear_update_lease h)\<lparr>h_applying := True, h_update_status := None,
                   h_update_reason := None\<rparr>
        in (broadcast (update_status_msg h1) h1, Inr ()))"

section \<open>The prompt ledger\<close>

definition check_prompt_idempotency :: "string option \<Rightarrow> SessionHub \<Rightarrow> ServerMessage option" where
  "check_prompt_idempotency prompt_id h = (case prompt_id of
     None \<Rightarrow> None | Some pid \<Rightarrow> hm_get (h_prompt_results h) pid)"

fun trim_prompt_ledger ::
  "string list \<Rightarrow> (string, ServerMessage) hashmap \<Rightarrow> string list \<times> (string, ServerMessage) hashmap" where
  "trim_prompt_ledger [] results = ([], results)"
| "trim_prompt_ledger (oldest # order) results =
     (if length (oldest # order) > PROMPT_RESULT_CAP
      then trim_prompt_ledger order (hm_remove oldest results)
      else (oldest # order, results))"

definition cache_prompt_result :: "string \<Rightarrow> ServerMessage \<Rightarrow> SessionHub \<Rightarrow> SessionHub" where
  "cache_prompt_result prompt_id m h =
     (let order = (if hm_contains (h_prompt_results h) prompt_id
                   then filter (\<lambda>p. p \<noteq> prompt_id) (h_prompt_result_order h)
                   else h_prompt_result_order h);
          (order', results') = trim_prompt_ledger (order @ [prompt_id])
             (hm_insert prompt_id m (h_prompt_results h))
      in h\<lparr>h_prompt_results := results', h_prompt_result_order := order'\<rparr>)"

section \<open>Session switches\<close>

datatype RestoreFailureClass = Rf_Startup | Rf_Auth | Rf_Unreachable | Rf_Other

datatype RetryAffordance = Retryable | Terminal

record LeaseHolder =
  lh_summary :: string
  lh_expires_at :: "string option"

datatype SessionSwitchError =
    LeaseConflict "LeaseHolder option" string
  | MissingSessionPath string string
  | MissingCwd string string
  | RestoreFailure RestoreFailureClass RetryAffordance string
  | Unexpected string string

definition em_dash :: string where
  "em_dash = [CHR 0xE2, CHR 0x80, CHR 0x94]"

fun render_switch_error :: "SessionSwitchError \<Rightarrow> string \<times> string option" where
  "render_switch_error (MissingCwd cwd _) =
     (''Couldn't restore this session '' @ em_dash @ '' its directory no longer exists ('' @ cwd
        @ ''). Move the project back to that path, or archive this session.'', Some ''session-switch'')"
| "render_switch_error (MissingSessionPath path detail) =
     (''Couldn't open this session '' @ em_dash @ '' its path wasn't recognized ('' @ path @ ''). '' @ detail,
      Some ''session-switch'')"
| "render_switch_error (LeaseConflict holder detail) =
     ((case holder of
         Some lh \<Rightarrow> (if lh_summary lh \<noteq> []
            then detail @ '' (holder: '' @ lh_summary lh
                 @ (case lh_expires_at lh of Some v \<Rightarrow> '', lease expires at '' @ v | None \<Rightarrow> []) @ '')''
            else detail)
       | None \<Rightarrow> detail), Some ''session-switch'')"
| "render_switch_error (RestoreFailure Rf_Startup _ detail) =
     (''Couldn't open this session '' @ em_dash @ '' the daemon failed to start ('' @ detail
        @ ''). Try again, or open it in the TUI to diagnose.'', Some ''session-switch'')"
| "render_switch_error (RestoreFailure Rf_Auth _ _) =
     (''Couldn't authenticate to the session daemon. The daemon may be a different version than expected.'',
      Some ''session-switch'')"
| "render_switch_error (RestoreFailure Rf_Unreachable _ _) =
     (''Couldn't reach the session daemon. Try again '' @ em_dash
        @ '' if it persists, the daemon may be wedged.'', Some ''session-switch'')"
| "render_switch_error (RestoreFailure Rf_Other _ detail) =
     (''session switch failed: '' @ detail, Some ''session-switch'')"
| "render_switch_error (Unexpected operation detail) =
     (''session switch failed ('' @ operation @ ''): '' @ detail, None)"

definition no_session_error :: ServerMessage where
  "no_session_error = M_Error ''session switch returned no session'' None"

definition fold_swap_seed ::
  "Env \<Rightarrow> SessionDriverEvent list \<Rightarrow> SessionHub \<Rightarrow> (SessionHub \<times> bool \<times> SessionId option) option" where
  "fold_swap_seed env seed h = (case track_seed env seed (h_track h, False) of
     None \<Rightarrow> None
   | Some (t, meta_changed) \<Rightarrow> Some (h\<lparr>h_track := t\<rparr>, meta_changed,
       (case ss_session_ref (fold_all seed) of
          Some r \<Rightarrow> Some (sr_session_id r)
        | None \<Rightarrow> (case seed of e # _ \<Rightarrow> Some (ev_session_id e) | [] \<Rightarrow> None))))"

definition superseded :: "SessionHub \<Rightarrow> nat \<Rightarrow> bool" where
  "superseded h key = (case hm_get (h_clients h) key of
     Some c \<Rightarrow> cc_pending_switch c \<noteq> None | None \<Rightarrow> False)"

definition start_journal :: "nat \<Rightarrow> bool \<Rightarrow> bool \<Rightarrow> SessionId \<Rightarrow> SessionDriverEvent list \<Rightarrow> SessionHub \<Rightarrow> SessionHub" where
  "start_journal now reseed meta_changed sid seed h =
     (if reseed \<or> \<not> hm_contains (h_journals h) sid
      then (let epoch = Suc (h_epoch_counter h);
                h1 = (drop_pending sid h)\<lparr>h_epoch_counter := epoch,
                       h_journals := hm_insert sid (create_journal now epoch seed) (h_journals h)\<rparr>
            in if meta_changed then broadcast_session_status h1 else h1)
      else h)"

definition reseed_coviewers :: "nat \<Rightarrow> SessionId \<Rightarrow> SessionHub \<Rightarrow> SessionHub" where
  "reseed_coviewers key sid h =
     deliver_all (map fst (filter (\<lambda>(k, c). k \<noteq> key \<and> cc_focused_id c = Some sid) (h_clients h)))
       ''finish_switch.coviewer_seed'' (seed_msg h (Some sid)) h"

definition switch_refreshes :: "nat \<Rightarrow> SessionId \<Rightarrow> HubOp list" where
  "switch_refreshes key sid = [Op_SessionList ''switch_session_list'', Op_CommandList key sid,
     Op_FacetList key sid, Op_FileIndex key sid, Op_AtRefs key sid, Op_ModelDefaults]"

definition finish_switch ::
  "Env \<Rightarrow> nat \<Rightarrow> nat \<Rightarrow> SessionDriverEvent list \<Rightarrow> bool \<Rightarrow> SessionHub
    \<Rightarrow> (SessionHub \<times> SessionId option) option" where
  "finish_switch env now key seed reseed h =
     (if seed = [] then Some (send_to_client key no_session_error h, None)
      else case fold_swap_seed env seed h of
        None \<Rightarrow> None
      | Some (h1, meta_changed, None) \<Rightarrow> Some (send_to_client key no_session_error h1, None)
      | Some (h1, meta_changed, Some sid) \<Rightarrow>
          (let h2 = start_journal now reseed meta_changed sid seed h1 in
           if superseded h2 key then Some (h2, Some sid)
           else
             let h3 = set_client_focus key sid h2;
                 h4 = send_to_client key (seed_msg h3 (Some sid)) h3;
                 h5 = (if reseed then reseed_coviewers key sid h4 else h4)
             in Some (h5\<lparr>h_hub_ops := h_hub_ops h5 @ switch_refreshes key sid\<rparr>, Some sid)))"

text \<open>
  \<^verbatim>\<open>switch_to\<close> up to the call of the swap: single flight per connection, the latest request waits
  (and supersedes an earlier waiting one). The flag says whether the swap is run now.
\<close>

definition switch_begin :: "nat \<Rightarrow> PendingSwitch \<Rightarrow> SessionHub \<Rightarrow> SessionHub \<times> bool" where
  "switch_begin key req h = (case hm_get (h_clients h) key of
     None \<Rightarrow> (h\<lparr>h_swaps_in_flight := h_swaps_in_flight h + 1\<rparr>, True)
   | Some c \<Rightarrow>
       if cc_switch_in_flight c
       then (h\<lparr>h_clients := hm_insert key (c\<lparr>cc_pending_switch := Some req\<rparr>) (h_clients h),
               h_resolved := h_resolved h @ (case cc_pending_switch c of
                  Some p \<Rightarrow> [(psw_resolve p, None)] | None \<Rightarrow> [])\<rparr>, False)
       else (h\<lparr>h_clients := hm_insert key (c\<lparr>cc_switch_in_flight := True\<rparr>) (h_clients h),
               h_swaps_in_flight := h_swaps_in_flight h + 1\<rparr>, True))"

text \<open>
  \<^verbatim>\<open>switch_to\<close> from the swap's return: the error or the new journal and focus, then the release of the
  flight and the waiting request, which the caller runs next.
\<close>

definition release_flight :: "nat \<Rightarrow> SessionHub \<Rightarrow> SessionHub \<times> PendingSwitch option" where
  "release_flight key h = (case hm_get (h_clients h) key of
     None \<Rightarrow> (h, None)
   | Some c \<Rightarrow> (h\<lparr>h_clients := hm_insert key (c\<lparr>cc_switch_in_flight := False, cc_pending_switch := None\<rparr>)
       (h_clients h)\<rparr>, cc_pending_switch c))"

definition switch_complete ::
  "Env \<Rightarrow> nat \<Rightarrow> nat \<Rightarrow> (SessionSwitchError + SessionDriverEvent list) \<Rightarrow> bool \<Rightarrow> bool \<Rightarrow> SessionHub
    \<Rightarrow> (SessionHub \<times> SessionId option \<times> PendingSwitch option) option" where
  "switch_complete env now key seed_result reseed suppress_error h =
     (let h1 = h\<lparr>h_swaps_in_flight := h_swaps_in_flight h - 1\<rparr>;
          res = (case seed_result of
            Inr seed \<Rightarrow> finish_switch env now key seed reseed h1
          | Inl raw \<Rightarrow> Some
              (if \<not> superseded h1 key \<and> \<not> suppress_error
               then (case render_switch_error raw of (message, kind) \<Rightarrow>
                       send_to_client key (M_Error message kind) h1)
               else h1, None))
      in case res of
           None \<Rightarrow> None
         | Some (h2, sid) \<Rightarrow>
             (case release_flight key h2 of (h3, queued) \<Rightarrow> Some (h3, sid, queued)))"

section \<open>Reset\<close>

definition reset_client :: "SessionId option \<Rightarrow> nat \<Rightarrow> SessionHub \<Rightarrow> SessionHub" where
  "reset_client focus key h =
     (let h1 = (case focus of
            Some sid \<Rightarrow> set_client_focus key sid h
          | None \<Rightarrow> h\<lparr>h_clients := hm_modify key (\<lambda>c. c\<lparr>cc_focused_id := None\<rparr>) (h_clients h)\<rparr>)
      in send_to_client key (seed_msg h1 focus) h1)"

definition clear_hub :: "SessionHub \<Rightarrow> SessionHub" where
  "clear_hub h = h\<lparr>h_journals := [], h_pending_deltas := [], h_swap_buffer := [],
     h_track := empty_tracking, h_last_usage_emitted := [], h_default_focus_id := None,
     h_session_list_dirty := True, h_swaps_in_flight := 0, h_prompt_results := [],
     h_prompt_result_order := []\<rparr>"

definition reset :: "Env \<Rightarrow> nat \<Rightarrow> bool \<Rightarrow> SessionDriverEvent list option \<Rightarrow> SessionHub \<Rightarrow> SessionHub option" where
  "reset env now bootstrap default_seed h =
     (case (if bootstrap then seed_default env now default_seed (clear_hub h) else Some (clear_hub h)) of
        None \<Rightarrow> None
      | Some h1 \<Rightarrow>
          (let h2 = foldl (\<lambda>h k. reset_client (h_default_focus_id h1) k h) h1 (hm_keys (h_clients h1));
               h3 = broadcast_session_status h2
           in Some (h3\<lparr>h_hub_ops := h_hub_ops h3 @ [Op_SessionList ''reset_session_list'']\<rparr>)))"

end
