(* ===== verification/Hub_Invariant.thy ===== *)
theory Hub_Invariant
  imports Hub
begin

text \<open>
  The invariant behind the hub's promise to its clients. The journals are used through the interface
  \<open>transcript_log\<close>; the lemmas on delivery say what one message, a round of messages or a removal does to
  the connections; \<open>goodx\<close> is the invariant (every connection in step with the journal of its
  session, every view a client may ever have held a moment of that session's history), and
  the lemmas of the last part say how single deliveries and a journal's publication keep it.
\<close>

section \<open>Logs and views\<close>

text \<open>
  The hub relies on its journals only through this interface: a log has a stamp (epoch and
  sequence number) and a fold; appending advances the sequence number by one and the fold by
  one event, and starting a log under an epoch folds its seed.
\<close>

locale transcript_log =
  fixes ok :: "'j \<Rightarrow> bool"
    and epoch :: "'j \<Rightarrow> nat"
    and seq :: "'j \<Rightarrow> nat"
    and folded :: "'j \<Rightarrow> SessionState"
    and append :: "'j \<Rightarrow> SessionDriverEvent \<Rightarrow> 'j"
    and start :: "nat \<Rightarrow> SessionDriverEvent list \<Rightarrow> 'j"
  assumes start_ok: "ok (start e s)"
    and start_stamp: "epoch (start e s) = e" "seq (start e s) = 0"
    and start_folded: "folded (start e s) = fold_all s"
    and append_ok: "ok j \<Longrightarrow> ok (append j ev)"
    and append_stamp: "epoch (append j ev) = epoch j" "seq (append j ev) = Suc (seq j)"
    and append_folded: "ok j \<Longrightarrow> folded (append j ev) = fold_event (folded j) ev"
begin

definition shown :: "SessionId \<Rightarrow> 'j \<Rightarrow> ClientView \<Rightarrow> bool" where
  "shown sid j v \<longleftrightarrow> cv_seed_session_id v = Some sid \<and> cv_seed_epoch v = epoch j
     \<and> cv_seed_seq v = seq j \<and> cv_session v = folded j \<and> \<not> cv_seed_requested v"

lemma shown_append:
  "ok j \<Longrightarrow> shown sid j v \<Longrightarrow>
   shown sid (append j ev) (receive v (M_Event ev (epoch (append j ev)) (seq (append j ev))))"
  by (simp add: shown_def append_stamp append_folded)

lemma shown_seed:
  "fold_all evs = folded j \<Longrightarrow> shown sid j (receive v (M_Seed (Some sid) (epoch j) (seq j) evs))"
  by (simp add: shown_def)

end

definition journal_ok :: "SessionJournal \<Rightarrow> bool" where
  "journal_ok j \<longleftrightarrow> (\<exists>pre evs. journal_rep j pre evs)"

lemma fst_append_fields:
  "j_epoch (fst (append_event sd now j ev)) = j_epoch j"
  "j_seq (fst (append_event sd now j ev)) = Suc (j_seq j)"
  "snd (append_event sd now j ev) = Suc (j_seq j)"
  by (simp_all add: append_event_def Let_def split_beta)

lemma rep_append_fst:
  "journal_rep j pre evs \<Longrightarrow> journal_rep (fst (append_event sd now j ev)) pre (evs @ [ev])"
  by (rule journal_rep_append) (simp_all add: prod_eq_iff)

interpretation jlog: transcript_log journal_ok j_epoch j_seq folded_journal
  "\<lambda>j ev. fst (append_event sd now j ev)" "create_journal now" for sd now
proof
  show "journal_ok (create_journal now e s)" for e s
    using journal_rep_create journal_ok_def by blast
  show "folded_journal (create_journal now e s) = fold_all s" for e s
    using folded_journal_rep [OF journal_rep_create] by simp
  show "journal_ok (fst (append_event sd now j ev))" if "journal_ok j" for j ev
    using that rep_append_fst unfolding journal_ok_def by blast
  show "folded_journal (fst (append_event sd now j ev)) = fold_event (folded_journal j) ev"
    if ok: "journal_ok j" for j ev
  proof -
    obtain pre evs where rep: "journal_rep j pre evs" using ok unfolding journal_ok_def by blast
    have "folded_journal (fst (append_event sd now j ev)) = fold_all (pre @ evs @ [ev])"
      using folded_journal_rep [OF rep_append_fst [OF rep]] by simp
    then show ?thesis using folded_journal_rep [OF rep] by (simp add: fold_all_def)
  qed
qed (simp_all add: fst_append_fields create_journal_def)

lemma shown_in_step: "jlog.shown = in_step"
  by (intro ext) (simp add: jlog.shown_def in_step_def folded_journal_def)

lemmas in_step_append = jlog.shown_append [unfolded shown_in_step]
lemmas in_step_seed = jlog.shown_seed [unfolded shown_in_step]

section \<open>Delivery\<close>

text \<open>What one delivery does to the connection it goes to: the message is queued, or it is removed.\<close>

definition push_conn :: "ServerMessage \<Rightarrow> ClientConn \<Rightarrow> ClientConn option" where
  "push_conn m c = (case try_send m (cc_send c) of
     Inr ch \<Rightarrow> Some (c\<lparr>cc_send := ch\<rparr>) | Inl _ \<Rightarrow> None)"

lemma push_conn_Some:
  assumes "push_conn m c = Some c'"
  shows "ch_sent (cc_send c') = ch_sent (cc_send c) @ [m]" "cc_focused_id c' = cc_focused_id c"
    "cc_pending_switch c' = cc_pending_switch c" "cc_switch_in_flight c' = cc_switch_in_flight c"
    "ch_closed (cc_send c') = ch_closed (cc_send c)" "ch_read (cc_send c') = ch_read (cc_send c)"
  using assms by (auto simp: push_conn_def try_send_def split: if_splits)

text \<open>Everything of the hub but its connections; no delivery touches it.\<close>

definition core :: "SessionHub \<Rightarrow> SessionHub" where
  "core h = h\<lparr>h_clients := [], h_removed := [], h_resolved := []\<rparr>"

lemma core_fields:
  assumes "core a = core b"
  shows "h_journals a = h_journals b" "h_default_focus_id a = h_default_focus_id b"
    "h_epoch_counter a = h_epoch_counter b" "h_pending_deltas a = h_pending_deltas b"
    "h_next_client_key a = h_next_client_key b" "h_track a = h_track b"
    "h_delta_flush_ms a = h_delta_flush_ms b" "h_swaps_in_flight a = h_swaps_in_flight b"
    "h_journal_idle_evict_ms a = h_journal_idle_evict_ms b" "h_applying a = h_applying b"
    "h_force_requested a = h_force_requested b" "h_lease_nonce a = h_lease_nonce b"
    "h_authorization_generation a = h_authorization_generation b" "h_update_sha a = h_update_sha b"
    "h_lease_sha a = h_lease_sha b" "h_hub_ops a = h_hub_ops b"
    "h_lease_expires_at a = h_lease_expires_at b"
  using assms by (cases a; cases b; simp add: core_def)+

lemma core_remove [simp]: "core (remove_client k h) = core h"
  by (simp add: remove_client_def core_def split: option.splits)

lemma core_deliver [simp]: "core (fst (deliver k ctx m h)) = core h"
  by (simp add: deliver_def split: option.splits sum.splits) (simp add: core_def)

lemma core_deliver_each [simp]: "core (deliver_each ctx kms h) = core h"
proof (induction kms arbitrary: h)
  case (Cons km kms)
  then show ?case by (cases km) (simp add: deliver_each_def)
qed (simp add: deliver_each_def)

lemma core_deliver_all [simp]: "core (deliver_all ks ctx m h) = core h"
  by (simp add: deliver_all_def)

lemma core_broadcast [simp]: "core (broadcast m h) = core h"
  by (simp add: broadcast_def)

lemma core_send [simp]: "core (send_to_client k m h) = core h"
  by (simp add: send_to_client_def)

lemmas deliver_fields [simp] = core_fields [OF core_deliver] 
lemmas deliver_all_fields [simp] = core_fields [OF core_deliver_all]
lemmas deliver_each_fields [simp] = core_fields [OF core_deliver_each]
lemmas broadcast_fields [simp] = core_fields [OF core_broadcast]
lemmas send_fields [simp] = core_fields [OF core_send]

lemma remove_get: "hm_get (h_clients (remove_client k h)) = (hm_get (h_clients h))(k := None)"
  by (auto simp: remove_client_def fun_eq_iff split: option.splits)

lemma deliver_get:
  "hm_get (h_clients (fst (deliver k ctx m h))) k' =
     (if k' = k then Option.bind (hm_get (h_clients h) k) (push_conn m) else hm_get (h_clients h) k')"
  by (auto simp: deliver_def push_conn_def remove_get split: option.splits sum.splits)

lemma remove_wf: "hm_wf (h_clients h) \<Longrightarrow> hm_wf (h_clients (remove_client k h))"
  by (simp add: remove_client_def hm_wf_remove split: option.splits)

lemma deliver_wf: "hm_wf (h_clients h) \<Longrightarrow> hm_wf (h_clients (fst (deliver k ctx m h)))"
  by (simp add: deliver_def remove_wf hm_wf_insert split: option.splits sum.splits)

lemma deliver_each_wf: "hm_wf (h_clients h) \<Longrightarrow> hm_wf (h_clients (deliver_each ctx kms h))"
  by (induction kms arbitrary: h) (auto simp: deliver_each_def deliver_wf split_beta)

lemma deliver_each_get:
  "distinct (map fst kms) \<Longrightarrow>
   hm_get (h_clients (deliver_each ctx kms h)) k =
     (case map_of kms k of
        Some m \<Rightarrow> Option.bind (hm_get (h_clients h) k) (push_conn m)
      | None \<Rightarrow> hm_get (h_clients h) k)"
proof (induction kms arbitrary: h)
  case (Cons km kms)
  obtain k0 m0 where km: "km = (k0, m0)" by (cases km)
  have step: "deliver_each ctx (km # kms) h = deliver_each ctx kms (fst (deliver k0 ctx m0 h))"
    by (simp add: deliver_each_def km)
  have "k0 \<notin> fst ` set kms" using Cons.prems km by simp
  then have "map_of kms k0 = None" by (simp add: map_of_eq_None_iff)
  then show ?case
    unfolding step using Cons km by (auto simp: deliver_get split: option.splits)
qed (simp add: deliver_each_def)

lemma deliver_all_get:
  assumes "distinct ks"
  shows "hm_get (h_clients (deliver_all ks ctx m h)) k =
     (if k \<in> set ks then Option.bind (hm_get (h_clients h) k) (push_conn m)
      else hm_get (h_clients h) k)"
proof -
  have "map_of (map (\<lambda>k. (k, m)) ks) k = (if k \<in> set ks then Some m else None)"
    by (induction ks) auto
  then show ?thesis using assms by (simp add: deliver_all_def deliver_each_get comp_def)
qed

lemma deliver_all_wf: "hm_wf (h_clients h) \<Longrightarrow> hm_wf (h_clients (deliver_all ks ctx m h))"
  by (simp add: deliver_all_def deliver_each_wf)

lemma focused_keys:
  assumes "hm_wf (h_clients h)"
  shows "distinct (clients_focused h sid)"
    and "k \<in> set (clients_focused h sid) \<longleftrightarrow>
      (\<exists>c. hm_get (h_clients h) k = Some c \<and> cc_focused_id c = Some sid)"
proof -
  have "distinct (map fst (h_clients h))" using assms by (simp add: hm_wf_def)
  then show "distinct (clients_focused h sid)"
    by (simp add: clients_focused_def distinct_map_filter)
  show "k \<in> set (clients_focused h sid) \<longleftrightarrow>
      (\<exists>c. hm_get (h_clients h) k = Some c \<and> cc_focused_id c = Some sid)"
    using hm_wf_get_iff [OF assms] by (force simp: clients_focused_def)
qed

lemma has_viewer_iff:
  "hm_wf (h_clients h) \<Longrightarrow> has_viewer h sid \<longleftrightarrow>
     (\<exists>k c. hm_get (h_clients h) k = Some c \<and> cc_focused_id c = Some sid)"
  by (auto simp: has_viewer_def list_ex_iff hm_wf_get_iff)

section \<open>The invariant\<close>

text \<open>The channels of connections, live or removed.\<close>

definition chan :: "SessionHub \<Rightarrow> nat \<Rightarrow> Channel \<Rightarrow> bool" where
  "chan h k ch \<longleftrightarrow> (\<exists>c. hm_get (h_clients h) k = Some c \<and> cc_send c = ch) \<or> (k, ch) \<in> set (h_removed h)"

lemma chan_live: "hm_get (h_clients h) k = Some c \<Longrightarrow> chan h k (cc_send c)"
  by (auto simp: chan_def)

lemma remove_chan: "chan (remove_client k h) k' ch \<Longrightarrow> chan h k' ch"
  by (auto simp: chan_def remove_client_def split: option.splits if_splits)

lemma deliver_chan:
  assumes "chan (fst (deliver k ctx m h)) k' ch"
  shows "chan h k' ch \<or> (k' = k \<and> (\<exists>c c'. hm_get (h_clients h) k = Some c
    \<and> push_conn m c = Some c' \<and> ch = cc_send c'))"
proof (cases "hm_get (h_clients h) k")
  case None
  then show ?thesis using assms by (simp add: deliver_def)
next
  case (Some c)
  show ?thesis
  proof (cases "try_send m (cc_send c)")
    case (Inl e)
    then have "chan (remove_client k h) k' ch" using assms Some by (simp add: deliver_def)
    then show ?thesis using remove_chan by blast
  next
    case (Inr ch')
    then show ?thesis using assms Some
      by (auto simp: deliver_def chan_def push_conn_def split: if_splits)
  qed
qed

lemma deliver_each_chan:
  "distinct (map fst kms) \<Longrightarrow> chan (deliver_each ctx kms h) k ch \<Longrightarrow>
   chan h k ch \<or> (\<exists>c c' m. map_of kms k = Some m \<and> hm_get (h_clients h) k = Some c
     \<and> push_conn m c = Some c' \<and> ch = cc_send c')"
proof (induction kms arbitrary: h)
  case (Cons km kms)
  obtain k0 m0 where km: "km = (k0, m0)" by (cases km)
  let ?h1 = "fst (deliver k0 ctx m0 h)"
  have "chan (deliver_each ctx kms ?h1) k ch"
    using Cons.prems(2) by (simp add: deliver_each_def km)
  then have "chan ?h1 k ch \<or> (\<exists>c c' m. map_of kms k = Some m \<and> hm_get (h_clients ?h1) k = Some c
     \<and> push_conn m c = Some c' \<and> ch = cc_send c')"
    using Cons by simp
  moreover have "map_of kms k0 = None" using Cons.prems(1) km by (simp add: map_of_eq_None_iff)
  ultimately show ?case
    using km deliver_chan [of k0 ctx m0 h k ch] by (cases "k = k0") (auto simp: deliver_get)
qed (simp add: deliver_each_def)

lemma deliver_all_chan:
  assumes "distinct ks" "chan (deliver_all ks ctx m h) k ch"
  shows "chan h k ch \<or> (\<exists>c c'. k \<in> set ks \<and> hm_get (h_clients h) k = Some c
     \<and> push_conn m c = Some c' \<and> ch = cc_send c')"
proof -
  let ?kms = "map (\<lambda>k. (k, m)) ks"
  have key: "m' = m \<and> k \<in> set ks" if "map_of ?kms k = Some m'" for m'
    using map_of_SomeD [OF that] by auto
  have "distinct (map fst ?kms)" using assms(1) by (simp add: comp_def)
  from deliver_each_chan [OF this assms(2) [unfolded deliver_all_def]] show ?thesis
    using key by blast
qed

text \<open>
  A view is faithful when it is a moment of its session's history: if the journal is still at
  the view's epoch, the view is the fold of the journal's first events, as many as its
  sequence number says.
\<close>

definition moment :: "SessionId \<Rightarrow> SessionJournal \<Rightarrow> SessionDriverEvent list \<Rightarrow> SessionDriverEvent list
    \<Rightarrow> nat \<Rightarrow> ClientView \<Rightarrow> bool" where
  "moment sid j pre evs s v \<longleftrightarrow> journal_rep j pre evs \<and> s \<le> length evs
     \<and> cv_seed_session_id v = Some sid \<and> cv_seed_epoch v = j_epoch j \<and> cv_seed_seq v = s
     \<and> cv_session v = fold_all (pre @ take s evs) \<and> \<not> cv_seed_requested v"

definition faithful :: "(SessionId \<Rightarrow> SessionJournal option) \<Rightarrow> nat \<Rightarrow> ClientView \<Rightarrow> bool" where
  "faithful js ec v \<longleftrightarrow> \<not> cv_seed_requested v \<and> cv_seed_epoch v \<le> ec
     \<and> (\<forall>sid j. cv_seed_session_id v = Some sid \<and> js sid = Some j \<and> j_epoch j = cv_seed_epoch v
          \<longrightarrow> (\<exists>pre evs. moment sid j pre evs (cv_seed_seq v) v))"

lemma journal_rep_seq: "journal_rep j pre evs \<Longrightarrow> j_seq j = length evs"
  by (auto simp: journal_rep_def)

lemma moment_in_step:
  assumes "journal_rep j pre evs"
  shows "moment sid j pre evs (length evs) v \<longleftrightarrow> in_step sid j v"
  using assms folded_journal_rep [OF assms] journal_rep_seq [OF assms]
  by (auto simp: moment_def in_step_def folded_journal_def)

lemma moment_next:
  assumes "moment sid j pre evs s v" "s < length evs"
  shows "moment sid j pre evs (Suc s) (receive v (M_Event (evs ! s) (j_epoch j) (Suc s)))"
  using assms by (simp add: moment_def take_Suc_conv_app_nth fold_all_def)

lemma moment_faithful:
  assumes "moment sid j pre evs s v" "js sid = Some j" "j_epoch j \<le> ec"
  shows "faithful js ec v"
proof -
  have "cv_seed_seq v = s" "cv_seed_session_id v = Some sid" using assms(1) by (auto simp: moment_def)
  moreover have "cv_seed_epoch v = j_epoch j" "\<not> cv_seed_requested v" using assms(1) by (auto simp: moment_def)
  ultimately show ?thesis using assms unfolding faithful_def by auto
qed

lemma in_step_faithful:
  assumes "in_step sid j v" "journal_ok j" "js sid = Some j" "j_epoch j \<le> ec"
  shows "faithful js ec v"
proof -
  obtain pre evs where "journal_rep j pre evs" using assms(2) by (auto simp: journal_ok_def)
  then show ?thesis using assms moment_in_step moment_faithful by blast
qed

text \<open>How the journals evolve: a journal is extended, dropped, or replaced under a fresh epoch.\<close>

definition extends :: "SessionJournal \<Rightarrow> SessionJournal \<Rightarrow> bool" where
  "extends j j' \<longleftrightarrow> j_epoch j' = j_epoch j
     \<and> (\<forall>pre evs. journal_rep j pre evs \<longrightarrow> (\<exists>more. journal_rep j' pre (evs @ more)))"

definition evolves :: "(SessionId \<Rightarrow> SessionJournal option) \<Rightarrow> nat
    \<Rightarrow> (SessionId \<Rightarrow> SessionJournal option) \<Rightarrow> nat \<Rightarrow> bool" where
  "evolves js ec js' ec' \<longleftrightarrow> ec \<le> ec' \<and> (\<forall>sid j'. js' sid = Some j' \<longrightarrow>
     j_epoch j' > ec \<or> (\<exists>j. js sid = Some j \<and> extends j j'))"

lemma extends_refl [simp]: "extends j j"
  unfolding extends_def by (metis append_Nil2)

lemma extends_append: "extends j (fst (append_event sd now j ev))"
  unfolding extends_def by (auto simp: fst_append_fields intro: rep_append_fst)

lemma moment_extends:
  assumes m: "moment sid j pre evs s v" and e: "extends j j'"
  shows "\<exists>evs'. moment sid j' pre evs' s v"
proof -
  have rep: "journal_rep j pre evs" using m by (simp add: moment_def)
  then obtain more where "journal_rep j' pre (evs @ more)" using e by (auto simp: extends_def)
  then have "moment sid j' pre (evs @ more) s v" using m e by (auto simp: moment_def extends_def)
  then show ?thesis by blast
qed

lemma faithful_evolves:
  assumes v: "faithful js ec v" and ev: "evolves js ec js' ec'"
  shows "faithful js' ec' v"
  unfolding faithful_def
proof (intro conjI allI impI)
  have ec: "cv_seed_epoch v \<le> ec" "ec \<le> ec'" using v ev by (auto simp: faithful_def evolves_def)
  then show "cv_seed_epoch v \<le> ec'" by simp
  show "\<not> cv_seed_requested v" using v by (simp add: faithful_def)
  fix sid j'
  assume a: "cv_seed_session_id v = Some sid \<and> js' sid = Some j' \<and> j_epoch j' = cv_seed_epoch v"
  then have "\<not> j_epoch j' > ec" using ec by simp
  then obtain j where j: "js sid = Some j" "extends j j'" using a ev unfolding evolves_def by blast
  then have "j_epoch j = cv_seed_epoch v" using a by (simp add: extends_def)
  then obtain pre evs where "moment sid j pre evs (cv_seed_seq v) v"
    using v a j unfolding faithful_def by blast
  then show "\<exists>pre evs. moment sid j' pre evs (cv_seed_seq v) v"
    using moment_extends j(2) by blast
qed

lemma evolves_refl [simp]: "evolves js ec js ec"
  by (auto simp: evolves_def)

lemma evolves_upd:
  assumes "(\<exists>j. js sid = Some j \<and> extends j j') \<or> j_epoch j' > ec" "ec \<le> ec'"
  shows "evolves js ec (js(sid \<mapsto> j')) ec'"
  using assms by (auto simp: evolves_def)

lemma evolves_drop: "evolves js ec (js(sid := None)) ec"
  by (auto simp: evolves_def)

text \<open>Every prefix of a channel, received from the view its connection began with, is faithful.\<close>

definition past_ok :: "(SessionId \<Rightarrow> SessionJournal option) \<Rightarrow> nat \<Rightarrow> ClientView \<Rightarrow> Channel \<Rightarrow> bool" where
  "past_ok js ec v ch \<longleftrightarrow> (\<forall>n. faithful js ec (receive_all v (take n (ch_sent ch))))"

lemma past_ok_evolves: "past_ok js ec v ch \<Longrightarrow> evolves js ec js' ec' \<Longrightarrow> past_ok js' ec' v ch"
  by (auto simp: past_ok_def intro: faithful_evolves)

lemma past_ok_snoc:
  assumes "past_ok js ec v ch" "ch_sent ch' = ch_sent ch @ [m]"
    and "faithful js ec (receive (receive_all v (ch_sent ch)) m)"
  shows "past_ok js ec v ch'"
  unfolding past_ok_def
proof
  fix n
  show "faithful js ec (receive_all v (take n (ch_sent ch')))"
    using assms by (cases "n \<le> length (ch_sent ch)") (auto simp: past_ok_def)
qed

lemma past_ok_full: "past_ok js ec v ch \<Longrightarrow> faithful js ec (receive_all v (ch_sent ch))"
  unfolding past_ok_def by (metis order_refl take_all)

definition conn_ok :: "(SessionId \<Rightarrow> SessionJournal option) \<Rightarrow> ClientView \<Rightarrow> ClientConn \<Rightarrow> bool" where
  "conn_ok js v c = (case cc_focused_id c of
     None \<Rightarrow> cv_seed_session_id (receive_all v (ch_sent (cc_send c))) = None
   | Some sid \<Rightarrow> \<exists>j. js sid = Some j \<and> in_step sid j (receive_all v (ch_sent (cc_send c))))"

text \<open>
  The hub's own invariant: the maps have one entry per key, client keys are below the next one,
  every journal represents a transcript and its epoch has been issued, the landing session
  has a journal, and no request waits behind a switch.
\<close>

definition hub_ok :: "SessionHub \<Rightarrow> bool" where
  "hub_ok h \<longleftrightarrow> hm_wf (h_clients h) \<and> hm_wf (h_journals h)
     \<and> (\<forall>k ch. chan h k ch \<longrightarrow> k < h_next_client_key h)
     \<and> (\<forall>k c. hm_get (h_clients h) k = Some c \<longrightarrow> cc_pending_switch c = None)
     \<and> (\<forall>sid j. hm_get (h_journals h) sid = Some j \<longrightarrow> journal_ok j \<and> j_epoch j \<le> h_epoch_counter h)
     \<and> (\<forall>sid. h_default_focus_id h = Some sid \<longrightarrow> hm_contains (h_journals h) sid)"

text \<open>
  Everything holds, the connections picked by \<open>P\<close> (by key and focus) apart, which may be out of step.
\<close>

definition goodx :: "(nat \<Rightarrow> SessionId option \<Rightarrow> bool) \<Rightarrow> (nat \<Rightarrow> ClientView) \<Rightarrow> SessionHub \<Rightarrow> bool" where
  "goodx P views h \<longleftrightarrow> hub_ok h
     \<and> (\<forall>k c. hm_get (h_clients h) k = Some c \<and> \<not> P k (cc_focused_id c)
          \<longrightarrow> conn_ok (hm_get (h_journals h)) (views k) c)
     \<and> (\<forall>k ch. chan h k ch \<longrightarrow> past_ok (hm_get (h_journals h)) (h_epoch_counter h) (views k) ch)"

abbreviation good :: "(nat \<Rightarrow> ClientView) \<Rightarrow> SessionHub \<Rightarrow> bool" where
  "good \<equiv> goodx (\<lambda>_ _. False)"

text \<open>The invariant looks at six fields only.\<close>

lemma good_cong:
  assumes "h_clients a = h_clients b" "h_journals a = h_journals b" "h_removed a = h_removed b"
    "h_next_client_key a = h_next_client_key b" "h_default_focus_id a = h_default_focus_id b"
    "h_epoch_counter a = h_epoch_counter b"
  shows "goodx P views a = goodx P views b"
  using assms by (simp add: goodx_def hub_ok_def chan_def)

lemma goodD:
  assumes "goodx P views h"
  shows "hm_wf (h_clients h)" "hm_wf (h_journals h)"
    and "chan h k ch \<Longrightarrow> k < h_next_client_key h"
    and "hm_get (h_clients h) k = Some c \<Longrightarrow> cc_pending_switch c = None"
    and "hm_get (h_clients h) k = Some c \<Longrightarrow> \<not> P k (cc_focused_id c) \<Longrightarrow> conn_ok (hm_get (h_journals h)) (views k) c"
    and "hm_get (h_journals h) sid = Some j \<Longrightarrow> journal_ok j \<and> j_epoch j \<le> h_epoch_counter h"
    and "h_default_focus_id h = Some sid \<Longrightarrow> \<exists>j. hm_get (h_journals h) sid = Some j"
    and "chan h k ch \<Longrightarrow> past_ok (hm_get (h_journals h)) (h_epoch_counter h) (views k) ch"
  using assms by (auto simp: goodx_def hub_ok_def hm_contains_def)

lemma goodI:
  assumes "hm_wf (h_clients h)" "hm_wf (h_journals h)"
    and "\<And>k c. hm_get (h_clients h) k = Some c \<Longrightarrow> cc_pending_switch c = None"
    and "\<And>k c. hm_get (h_clients h) k = Some c \<Longrightarrow> \<not> P k (cc_focused_id c) \<Longrightarrow>
       conn_ok (hm_get (h_journals h)) (views k) c"
    and "\<And>k ch. chan h k ch \<Longrightarrow> k < h_next_client_key h
       \<and> past_ok (hm_get (h_journals h)) (h_epoch_counter h) (views k) ch"
    and "\<And>sid j. hm_get (h_journals h) sid = Some j \<Longrightarrow> journal_ok j \<and> j_epoch j \<le> h_epoch_counter h"
    and "\<And>sid. h_default_focus_id h = Some sid \<Longrightarrow> \<exists>j. hm_get (h_journals h) sid = Some j"
  shows "goodx P views h"
  using assms by (auto simp: goodx_def hub_ok_def hm_contains_def)

lemma conn_ok_cong:
  assumes "conn_ok js v c" "cc_focused_id c' = cc_focused_id c"
    "receive_all v (ch_sent (cc_send c')) = receive_all v (ch_sent (cc_send c))"
    "\<And>sid. cc_focused_id c = Some sid \<Longrightarrow> js' sid = js sid"
  shows "conn_ok js' v c'"
  using assms by (auto simp: conn_ok_def split: option.splits)

lemma goodx_weaken:
  assumes "goodx P views h" "\<And>k c. hm_get (h_clients h) k = Some c \<Longrightarrow> P k (cc_focused_id c) \<Longrightarrow> Q k (cc_focused_id c)"
  shows "goodx Q views h"
  using assms unfolding goodx_def by blast

subsection \<open>Single deliveries\<close>

text \<open>
  One delivery: if the message brings the receiver's view to an acceptable state, the receiver is in
  step afterwards, or gone.
\<close>

lemma goodx_deliver:
  assumes good: "goodx P views h"
    and m: "\<And>c. hm_get (h_clients h) k = Some c \<Longrightarrow>
      (let v = receive (receive_all (views k) (ch_sent (cc_send c))) m in
        faithful (hm_get (h_journals h)) (h_epoch_counter h) v
        \<and> (Q k (cc_focused_id c) \<or> (\<forall>c'. cc_focused_id c' = cc_focused_id c
             \<and> receive_all (views k) (ch_sent (cc_send c')) = v
             \<longrightarrow> conn_ok (hm_get (h_journals h)) (views k) c')))"
    and Q: "\<And>k' f. k' \<noteq> k \<Longrightarrow> P k' f \<Longrightarrow> Q k' f"
  shows "goodx Q views (fst (deliver k ctx m h))"
proof (rule goodI)
  let ?h = "fst (deliver k ctx m h)"
  note g = goodD [OF good]
  show "cc_pending_switch c = None" if "hm_get (h_clients ?h) k' = Some c" for k' c
    using that g(4) by (auto simp: deliver_get bind_eq_Some_conv push_conn_Some split: if_splits)
  show "conn_ok (hm_get (h_journals ?h)) (views k') c'"
    if live: "hm_get (h_clients ?h) k' = Some c'" and nQ: "\<not> Q k' (cc_focused_id c')" for k' c'
  proof (cases "k' = k")
    case True
    then obtain c where c: "hm_get (h_clients h) k = Some c" "push_conn m c = Some c'"
      using live by (auto simp: deliver_get bind_eq_Some_conv)
    then show ?thesis using m [OF c(1)] nQ True push_conn_Some [OF c(2)] by (simp add: Let_def)
  next
    case False
    then show ?thesis using live nQ g(5) Q by (auto simp: deliver_get)
  qed
  show "k' < h_next_client_key ?h \<and> past_ok (hm_get (h_journals ?h)) (h_epoch_counter ?h) (views k') ch"
    if ch: "chan ?h k' ch" for k' ch
    using deliver_chan [OF ch]
  proof
    assume "chan h k' ch"
    then show ?thesis using g(3,8) by simp
  next
    assume "k' = k \<and> (\<exists>c c'. hm_get (h_clients h) k = Some c \<and> push_conn m c = Some c' \<and> ch = cc_send c')"
    then obtain c c' where c: "k' = k" "hm_get (h_clients h) k = Some c" "push_conn m c = Some c'" "ch = cc_send c'"
      by blast
    have "past_ok (hm_get (h_journals h)) (h_epoch_counter h) (views k) ch"
      using past_ok_snoc [OF g(8) [OF chan_live [OF c(2)]]] push_conn_Some(1) [OF c(3)] c(4) m [OF c(2)]
      by (simp add: Let_def)
    then show ?thesis using c g(3) [OF chan_live [OF c(2)]] by simp
  qed
qed (use goodD [OF good] deliver_wf in auto)

text \<open>Messages that do not touch the transcript.\<close>

fun neutral :: "ServerMessage \<Rightarrow> bool" where
  "neutral (M_Seed _ _ _ _) = False"
| "neutral (M_Event _ _ _) = False"
| "neutral _ = True"

lemma neutral_receive: "neutral m \<Longrightarrow> receive v m = v"
  by (cases m) simp_all

lemma neutral_status [simp]: "neutral (session_status_msg t)" "neutral (update_status_msg h)"
  "neutral (hello_msg h)" "neutral no_session_error"
  by (simp_all add: session_status_msg_def update_status_msg_def hello_msg_def no_session_error_def)

lemma goodx_neutral:
  assumes good: "goodx P views h" and m: "neutral m"
  shows "goodx P views (fst (deliver k ctx m h))"
proof (rule goodx_deliver [OF good])
  fix c assume c: "hm_get (h_clients h) k = Some c"
  let ?js = "hm_get (h_journals h)"
  have "P k (cc_focused_id c) \<or> (\<forall>c'. cc_focused_id c' = cc_focused_id c
      \<and> receive_all (views k) (ch_sent (cc_send c')) = receive_all (views k) (ch_sent (cc_send c))
      \<longrightarrow> conn_ok ?js (views k) c')"
    using goodD(5) [OF good c] conn_ok_cong by blast
  then show "let v = receive (receive_all (views k) (ch_sent (cc_send c))) m in
        faithful ?js (h_epoch_counter h) v
        \<and> (P k (cc_focused_id c) \<or> (\<forall>c'. cc_focused_id c' = cc_focused_id c
             \<and> receive_all (views k) (ch_sent (cc_send c')) = v \<longrightarrow> conn_ok ?js (views k) c'))"
    using past_ok_full [OF goodD(8) [OF good chan_live [OF c]]]
    by (simp only: neutral_receive [OF m] Let_def)
qed

lemma goodx_deliver_each:
  "goodx P views h \<Longrightarrow> list_all (\<lambda>(k, m). neutral m) kms \<Longrightarrow> goodx P views (deliver_each ctx kms h)"
  by (induction kms arbitrary: h) (auto simp: deliver_each_def goodx_neutral)

lemma goodx_broadcast: "goodx P views h \<Longrightarrow> neutral m \<Longrightarrow> goodx P views (broadcast m h)"
  by (simp add: broadcast_def deliver_all_def goodx_deliver_each list_all_iff)

lemma goodx_status: "goodx P views h \<Longrightarrow> goodx P views (broadcast_session_status h)"
  by (simp add: broadcast_session_status_def goodx_broadcast)

lemma goodx_send: "goodx P views h \<Longrightarrow> neutral m \<Longrightarrow> goodx P views (send_to_client k m h)"
  by (simp add: send_to_client_def goodx_neutral)

lemma goodx_remove:
  assumes good: "goodx P views h"
  shows "goodx P views (remove_client k h)"
proof (rule goodI)
  note g = goodD [OF good] and fields = core_fields [OF core_remove, of k h]
  show "k' < h_next_client_key (remove_client k h)
      \<and> past_ok (hm_get (h_journals (remove_client k h))) (h_epoch_counter (remove_client k h)) (views k') ch"
    if "chan (remove_client k h) k' ch" for k' ch
    using g(3,8) remove_chan [OF that] fields by simp
qed (use goodD [OF good] remove_wf core_fields [OF core_remove, of k h] in
      \<open>auto simp: remove_get split: if_splits\<close>)

text \<open>A seed of the session a connection is focused on puts it in step.\<close>

lemma seed_msg_journal:
  "hm_get (h_journals h) sid = Some j \<Longrightarrow>
   seed_msg h (Some sid) = M_Seed (Some sid) (j_epoch j) (j_seq j) (seed_events j)"
  by (simp add: seed_msg_def seed_of_def seed_events_def build_seed_def)

lemma seed_msg_None: "seed_msg h None = M_Seed None 0 0 []"
  by (simp add: seed_msg_def seed_of_def)

lemma seed_in_step:
  "hm_get (h_journals h) sid = Some j \<Longrightarrow> in_step sid j (receive v (seed_msg h (Some sid)))"
  using in_step_seed [of "seed_events j" j] by (simp add: seed_msg_journal folded_journal_def)

lemma goodx_seed:
  assumes good: "goodx P views h"
    and focus: "\<And>c. hm_get (h_clients h) k = Some c \<Longrightarrow> cc_focused_id c = f"
    and f: "\<And>sid. f = Some sid \<Longrightarrow> \<exists>j. hm_get (h_journals h) sid = Some j"
  shows "goodx (\<lambda>k' f. P k' f \<and> k' \<noteq> k) views (fst (deliver k ctx (seed_msg h f) h))"
proof (rule goodx_deliver [OF good])
  fix c assume c: "hm_get (h_clients h) k = Some c"
  let ?js = "hm_get (h_journals h)" and ?v = "receive (receive_all (views k) (ch_sent (cc_send c))) (seed_msg h f)"
  have "faithful ?js (h_epoch_counter h) ?v \<and> (\<forall>c'. cc_focused_id c' = f
      \<and> receive_all (views k) (ch_sent (cc_send c')) = ?v \<longrightarrow> conn_ok ?js (views k) c')"
  proof (cases f)
    case None
    then show ?thesis by (simp add: seed_msg_None faithful_def conn_ok_def)
  next
    case (Some sid)
    then obtain j where j: "?js sid = Some j" using f by blast
    have step: "in_step sid j ?v" using seed_in_step [OF j] Some by blast
    then show ?thesis
      using in_step_faithful [OF step, where js = ?js] goodD(6) [OF good j] j Some
      by (auto simp: conn_ok_def)
  qed
  then show "let v = ?v in faithful ?js (h_epoch_counter h) v
      \<and> ((P k (cc_focused_id c) \<and> k \<noteq> k) \<or> (\<forall>c'. cc_focused_id c' = cc_focused_id c
          \<and> receive_all (views k) (ch_sent (cc_send c')) = v \<longrightarrow> conn_ok ?js (views k) c'))"
    using focus [OF c] by (simp add: Let_def)
qed simp

subsection \<open>Publishing to the viewers of a session\<close>

text \<open>
  A journal changes and its viewers get a message that moves a view in step with the old
  journal to one in step with the new one.
\<close>

lemma good_publish:
  assumes good: "good views h"
    and h1: "h_clients h1 = h_clients h" "h_next_client_key h1 = h_next_client_key h"
      "h_default_focus_id h1 = h_default_focus_id h" "h_removed h1 = h_removed h"
    and js: "hm_wf (h_journals h1)" "hm_get (h_journals h1) = (hm_get (h_journals h))(sid \<mapsto> j')"
    and ec: "h_epoch_counter h \<le> h_epoch_counter h1" "j_epoch j' \<le> h_epoch_counter h1"
      "(\<exists>j. hm_get (h_journals h) sid = Some j \<and> extends j j') \<or> j_epoch j' > h_epoch_counter h"
    and ok: "journal_ok j'"
    and step: "\<And>v j. hm_get (h_journals h) sid = Some j \<Longrightarrow> in_step sid j v \<Longrightarrow> in_step sid j' (receive v m)"
  shows "good views (deliver_all (clients_focused h1 sid) ctx m h1)"
proof (rule goodI)
  let ?h' = "deliver_all (clients_focused h1 sid) ctx m h1"
  note g = goodD [OF good]
  have wf: "hm_wf (h_clients h1)" using g(1) h1 by simp
  note keys = focused_keys [OF wf, where sid = sid]
  have evo: "evolves (hm_get (h_journals h)) (h_epoch_counter h) (hm_get (h_journals h1)) (h_epoch_counter h1)"
    unfolding js(2) using ec(3,1) by (rule evolves_upd)
  have viewer: "\<exists>c. hm_get (h_clients h) k = Some c \<and> cc_focused_id c = Some sid
      \<and> in_step sid j' (receive (receive_all (views k) (ch_sent (cc_send c))) m)"
    if key: "k \<in> set (clients_focused h1 sid)" for k
  proof -
    obtain c where c: "hm_get (h_clients h) k = Some c" "cc_focused_id c = Some sid"
      using key keys(2) h1 by auto
    then show ?thesis using g(5) [OF c(1)] step by (auto simp: conn_ok_def)
  qed
  show "cc_pending_switch c = None" if "hm_get (h_clients ?h') k = Some c" for k c
    using that g(4) h1 keys(1)
    by (auto simp: deliver_all_get bind_eq_Some_conv push_conn_Some split: if_splits)
  show "conn_ok (hm_get (h_journals ?h')) (views k) c'" if live: "hm_get (h_clients ?h') k = Some c'" for k c'
  proof (cases "k \<in> set (clients_focused h1 sid)")
    case True
    obtain c where c: "hm_get (h_clients h) k = Some c" "cc_focused_id c = Some sid"
      "in_step sid j' (receive (receive_all (views k) (ch_sent (cc_send c))) m)"
      using viewer [OF True] by blast
    then have "push_conn m c = Some c'"
      using live keys(1) True h1 by (simp add: deliver_all_get)
    from push_conn_Some [OF this] show ?thesis using c js by (simp add: conn_ok_def)
  next
    case False
    then have c: "hm_get (h_clients h) k = Some c'"
      using live keys(1) h1 by (simp add: deliver_all_get)
    then have "cc_focused_id c' \<noteq> Some sid" using False keys(2) h1 by auto
    then show ?thesis
      using js h1 by (intro conn_ok_cong [OF g(5) [OF c]]) auto
  qed
  show "k < h_next_client_key ?h' \<and> past_ok (hm_get (h_journals ?h')) (h_epoch_counter ?h') (views k) ch"
    if ch: "chan ?h' k ch" for k ch
  proof -
    have old: "chan h1 k' ch' \<longleftrightarrow> chan h k' ch'" for k' ch' using h1 by (simp add: chan_def)
    have past: "past_ok (hm_get (h_journals h1)) (h_epoch_counter h1) (views k) ch'" if "chan h k ch'" for ch'
      using past_ok_evolves [OF g(8) [OF that] evo] .
    from deliver_all_chan [OF keys(1) ch] show ?thesis
    proof
      assume "chan h1 k ch"
      then show ?thesis using g(3) past old h1 by simp
    next
      assume "\<exists>c c'. k \<in> set (clients_focused h1 sid) \<and> hm_get (h_clients h1) k = Some c
        \<and> push_conn m c = Some c' \<and> ch = cc_send c'"
      then obtain c c' where c: "k \<in> set (clients_focused h1 sid)" "hm_get (h_clients h) k = Some c"
        "push_conn m c = Some c'" "ch = cc_send c'" using h1 by auto
      have "in_step sid j' (receive (receive_all (views k) (ch_sent (cc_send c))) m)"
        using viewer [OF c(1)] c(2) by simp
      then have "faithful (hm_get (h_journals h1)) (h_epoch_counter h1)
          (receive (receive_all (views k) (ch_sent (cc_send c))) m)"
        using in_step_faithful ok js ec(2) by (metis fun_upd_same)
      then have "past_ok (hm_get (h_journals h1)) (h_epoch_counter h1) (views k) ch"
        using past_ok_snoc [OF past [OF chan_live [OF c(2)]]] push_conn_Some(1) [OF c(3)] c(4) by simp
      then show ?thesis using g(3) [OF chan_live [OF c(2)]] h1 by simp
    qed
  qed
  show "journal_ok j \<and> j_epoch j \<le> h_epoch_counter ?h'" if "hm_get (h_journals ?h') sid' = Some j" for sid' j
  proof (cases "sid' = sid")
    case True
    then show ?thesis using that js ok ec by simp
  next
    case False
    then show ?thesis using that js g(6) [of sid' j] ec(1) by auto
  qed
qed (use goodD [OF good] h1 js deliver_all_wf [of h1] in \<open>auto split: if_splits\<close>)

end
