(* ===== verification/Hub_Sync.thy ===== *)
theory Hub_Sync
  imports Hub_Invariant
begin

text \<open>
  Every operation of the hub keeps the invariant: ingestion, eviction, driver events, usage, switches,
  updates, reset and the attach of clients with and without resume. The last part puts the
  hub and its clients together as a transition system and concludes by rule induction.
\<close>

section \<open>Every operation keeps the invariant\<close>

subsection \<open>Ingestion\<close>

lemma good_ingest_reset:
  assumes good: "good views h"
  shows "good views (ingest_reset env now ev h)"
proof (cases "hm_get (h_journals h) (ev_session_id ev)")
  case None
  then show ?thesis using good by (simp add: ingest_reset_def)
next
  case (Some j)
  define meta where "meta = meta_seed_events (fold_event (fold_all (seed_events j)) ev) (ev_session_ref ev) (ev_timestamp ev)"
  define j' where "j' = bump_epoch now j (Suc (h_epoch_counter h)) meta"
  define h1 where "h1 = h\<lparr>h_epoch_counter := Suc (h_epoch_counter h),
    h_journals := hm_modify (ev_session_id ev) (\<lambda>j. bump_epoch now j (Suc (h_epoch_counter h)) meta) (h_journals h)\<rparr>"
  have js: "hm_get (h_journals h1) = (hm_get (h_journals h))(ev_session_id ev \<mapsto> j')"
    using Some by (auto simp: h1_def j'_def hm_get_modify)
  have ep: "j_epoch j' = Suc (h_epoch_counter h)" by (simp add: j'_def bump_epoch_def create_journal_def)
  have "journal_ok j'" unfolding j'_def journal_ok_def using journal_rep_bump by blast
  then have "good views (deliver_all (clients_focused h1 (ev_session_id ev)) ''ingest.session_reset''
      (seed_msg h1 (Some (ev_session_id ev))) h1)"
    using goodD(2) [OF good] ep js seed_in_step [of h1 "ev_session_id ev" j']
    by (intro good_publish [OF good, where j' = j']) (simp_all add: h1_def fun_eq_iff)
  then show ?thesis using Some by (simp add: ingest_reset_def h1_def meta_def Let_def)
qed

lemma good_ingest_now:
  assumes good: "good views h"
  shows "good views (ingest_now env now ev h)"
proof (cases "type_discriminator ev = ''sessionReset''")
  case True
  then show ?thesis using good_ingest_reset [OF good] by (simp add: ingest_now_def)
next
  case False
  note notreset = this
  show ?thesis
  proof (cases "hm_get (h_journals h) (ev_session_id ev)")
    case None
    then show ?thesis using good notreset by (simp add: ingest_now_def)
  next
    case (Some j)
    define j' where "j' = fst (append_event (env_serde env) now j ev)"
    define h1 where "h1 = h\<lparr>h_journals := hm_insert (ev_session_id ev) j' (h_journals h)\<rparr>"
    have ok: "journal_ok j" "j_epoch j \<le> h_epoch_counter h" using goodD(6) [OF good Some] by auto
    have j': "journal_ok j'" "extends j j'" "j_epoch j' = j_epoch j" "j_seq j' = snd (append_event (env_serde env) now j ev)"
      using jlog.append_ok [OF ok(1)] extends_append fst_append_fields unfolding j'_def by metis+
    have "in_step (ev_session_id ev) j' (receive v (M_Event ev (j_epoch j') (j_seq j')))"
      if "in_step (ev_session_id ev) j v" for v
      using in_step_append [OF ok(1) that] unfolding j'_def .
    then have "good views (deliver_all (clients_focused h1 (ev_session_id ev)) ''ingest.event''
        (M_Event ev (j_epoch j') (j_seq j')) h1)"
      using goodD(2) [OF good] ok j' Some
      by (intro good_publish [OF good, where j' = j']) (auto simp: h1_def)
    then show ?thesis
      using Some notreset j'(4) by (simp add: ingest_now_def h1_def Let_def split_beta flip: j'_def)
  qed
qed

lemma goodx_pending [simp]: "goodx P views (h\<lparr>h_pending_deltas := d\<rparr>) = goodx P views h"
  by (rule good_cong) simp_all

lemma good_flush: "good views h \<Longrightarrow> good views (flush_pending env now sid h)"
  by (simp add: flush_pending_def good_ingest_now split: option.splits)

lemma good_start_run: "good views h \<Longrightarrow> good views (start_run env now ev h)"
  by (simp add: start_run_def good_ingest_now)

lemma good_ingest: "good views h \<Longrightarrow> good views (ingest env now ev h)"
  by (simp add: ingest_def Let_def good_ingest_now good_flush good_start_run split: option.splits)

subsection \<open>Dropping journals\<close>

lemma good_drop_journal:
  assumes good: "good views h" and unseen: "\<not> has_viewer h sid" "h_default_focus_id h \<noteq> Some sid"
  shows "good views ((drop_pending sid h)\<lparr>h_journals := hm_remove sid (h_journals h)\<rparr>)" (is "good views ?h")
proof (rule goodI)
  note g = goodD [OF good]
  have same: "h_clients ?h = h_clients h" "h_removed ?h = h_removed h" "h_next_client_key ?h = h_next_client_key h"
    "h_epoch_counter ?h = h_epoch_counter h" "h_default_focus_id ?h = h_default_focus_id h"
    by (simp_all add: drop_pending_def)
  have js: "hm_get (h_journals ?h) = (hm_get (h_journals h))(sid := None)" by (simp add: fun_eq_iff)
  show "conn_ok (hm_get (h_journals ?h)) (views k) c" if live: "hm_get (h_clients ?h) k = Some c" for k c
  proof -
    have c: "hm_get (h_clients h) k = Some c" using live same by simp
    then have "cc_focused_id c \<noteq> Some sid" using unseen(1) has_viewer_iff [OF g(1)] by blast
    then show ?thesis by (intro conn_ok_cong [OF g(5) [OF c]]) (auto simp: js)
  qed
  show "k < h_next_client_key ?h \<and> past_ok (hm_get (h_journals ?h)) (h_epoch_counter ?h) (views k) ch"
    if "chan ?h k ch" for k ch
  proof -
    have "chan h k ch" using that same by (simp add: chan_def)
    then show ?thesis using g(3) past_ok_evolves [OF g(8) evolves_drop] same js by simp
  qed
  show "journal_ok j \<and> j_epoch j \<le> h_epoch_counter ?h" if "hm_get (h_journals ?h) sid' = Some j" for sid' j
    using that js same g(6) [of sid' j] by (auto split: if_splits)
  show "\<exists>j. hm_get (h_journals ?h) s = Some j" if "h_default_focus_id ?h = Some s" for s
    using that g(7) [of s] unseen(2) same js by auto
qed (use goodD [OF good] in \<open>auto simp: drop_pending_def\<close>)

lemma good_drop_closed: "good views h \<Longrightarrow> good views (drop_closed ev h)"
  using good_drop_journal by (simp add: drop_closed_def Let_def)

lemma good_evict:
  assumes good: "good views h"
  shows "good views (evict_idle_journals_at now has_warm h)"
proof -
  define drop where "drop = (\<lambda>h sid. (drop_pending sid h)\<lparr>h_journals := hm_remove sid (h_journals h)\<rparr>)"
  have "good views (foldl drop g sids)"
    if "good views g" "h_clients g = h_clients h" "h_default_focus_id g = h_default_focus_id h"
      "\<forall>sid\<in>set sids. \<not> has_viewer h sid \<and> h_default_focus_id h \<noteq> Some sid" for g sids
    using that
  proof (induction sids arbitrary: g)
    case (Cons sid sids)
    have "\<not> has_viewer g sid" "h_default_focus_id g \<noteq> Some sid"
      using Cons.prems by (auto simp: has_viewer_def)
    then have "good views (drop g sid)" using good_drop_journal Cons.prems(1) by (simp add: drop_def)
    then show ?case using Cons by (auto simp: drop_def drop_pending_def)
  qed simp
  then show ?thesis using good
    by (auto simp: evict_idle_journals_at_def Let_def idle_victim_def simp flip: drop_def)
qed

subsection \<open>Driver events and usage\<close>

lemma goodx_fields [simp]:
  "goodx P views (h\<lparr>h_track := t\<rparr>) = goodx P views h"
  "goodx P views (h\<lparr>h_session_list_dirty := b\<rparr>) = goodx P views h"
  "goodx P views (h\<lparr>h_swap_buffer := sb\<rparr>) = goodx P views h"
  "goodx P views (h\<lparr>h_hub_ops := ops\<rparr>) = goodx P views h"
  "goodx P views (h\<lparr>h_notifications := ns\<rparr>) = goodx P views h"
  "goodx P views (h\<lparr>h_last_usage_emitted := us\<rparr>) = goodx P views h"
  "goodx P views (h\<lparr>h_swaps_in_flight := n\<rparr>) = goodx P views h"
  "goodx P views (h\<lparr>h_force_requested := b\<rparr>) = goodx P views h"
  "goodx P views (h\<lparr>h_desktop_stale := b\<rparr>) = goodx P views h"
  "goodx P views (h\<lparr>h_prompt_results := rs, h_prompt_result_order := ro\<rparr>) = goodx P views h"
  by (rule good_cong; simp)+

lemma good_on_event:
  assumes good: "good views h" and ev: "on_event env now ev h = Some h'"
  shows "good views h'"
proof -
  obtain t changed where t: "track_event (env_lower env) ev (h_track h) = Some (t, changed)"
    using ev by (auto simp: on_event_def split: option.splits)
  define h2 where "h2 = (if changed then broadcast_session_status (h\<lparr>h_track := t\<rparr>) else h\<lparr>h_track := t\<rparr>)"
  define h3 where "h3 = (if dirties_session_list ev then h2\<lparr>h_session_list_dirty := True\<rparr> else h2)"
  define h4 where "h4 = (if h_swaps_in_flight h3 > 0 \<and> \<not> hm_contains (h_journals h3) (ev_session_id ev)
      then buffer_swap_event now (ev_session_id ev) ev h3 else h3)"
  define h6 where "h6 = enqueue_jobs ev (drop_closed ev (ingest env now ev h4))"
  have "on_event env now ev h = maybe_notify env ev h6"
    unfolding on_event_def t h6_def h4_def h3_def h2_def Let_def option.case prod.case by (rule refl)
  then have "maybe_notify env ev h6 = Some h'" using ev by simp
  then obtain ns where h': "h' = h6 \<or> h' = h6\<lparr>h_notifications := ns\<rparr>"
    by (auto simp: maybe_notify_def split: if_splits)
  have "good views h2" using good by (simp add: h2_def goodx_status)
  then have "good views h3" by (simp add: h3_def)
  then have "good views h4" by (simp add: h4_def buffer_swap_event_def Let_def)
  then have "good views h6" by (simp add: h6_def enqueue_jobs_def good_drop_closed good_ingest)
  then show ?thesis using h' by auto
qed

lemma good_refresh_usage:
  assumes "good views h"
  shows "good views (refresh_usage env now now_iso get_usage h)"
proof -
  have one: "good views (refresh_usage_of env now now_iso get_usage sid g)" if "good views g" for g sid
    using that by (simp add: refresh_usage_of_def Let_def good_ingest split: option.splits)
  have "good views (foldl (\<lambda>h sid. refresh_usage_of env now now_iso get_usage sid h) g sids)"
    if "good views g" for g sids
    using that by (induction sids arbitrary: g) (simp_all add: one)
  then show ?thesis using assms by (simp add: refresh_usage_def)
qed

subsection \<open>Connections\<close>

text \<open>A connection's flags and its reading end change; what was sent to it does not.\<close>

lemma goodx_touch:
  assumes good: "goodx P views h" and c: "hm_get (h_clients h) k = Some c"
    and c': "cc_focused_id c' = cc_focused_id c" "ch_sent (cc_send c') = ch_sent (cc_send c)"
      "cc_pending_switch c' = None"
  shows "goodx P views (h\<lparr>h_clients := hm_insert k c' (h_clients h)\<rparr>)" (is "goodx P views ?h")
proof (rule goodI)
  note g = goodD [OF good]
  show "conn_ok (hm_get (h_journals ?h)) (views k') d"
    if "hm_get (h_clients ?h) k' = Some d" "\<not> P k' (cc_focused_id d)" for k' d
  proof (cases "k' = k")
    case True
    then have "d = c'" using that by simp
    then have "conn_ok (hm_get (h_journals h)) (views k') c" using that True c' g(5) [OF c] by simp
    from conn_ok_cong [OF this] show ?thesis using \<open>d = c'\<close> c' by simp
  next
    case False
    then show ?thesis using that g(5) by simp
  qed
  show "k' < h_next_client_key ?h \<and> past_ok (hm_get (h_journals ?h)) (h_epoch_counter ?h) (views k') ch"
    if "chan ?h k' ch" for k' ch
  proof -
    from that have "chan h k' ch \<or> k' = k \<and> ch = cc_send c'" by (auto simp: chan_def split: if_splits)
    then show ?thesis using g(3,8) g(3,8) [OF chan_live [OF c]] c' by (auto simp: past_ok_def)
  qed
qed (use goodD [OF good] c' in \<open>auto split: if_splits\<close>)

lemma good_switch_begin:
  assumes "good views h" "\<And>c. hm_get (h_clients h) k = Some c \<Longrightarrow> \<not> cc_switch_in_flight c"
  shows "good views (fst (switch_begin k req h))"
proof (cases "hm_get (h_clients h) k")
  case (Some c)
  have "good views (h\<lparr>h_clients := hm_insert k (c\<lparr>cc_switch_in_flight := True\<rparr>) (h_clients h)\<rparr>)"
    using goodD(4) [OF assms(1) Some] by (intro goodx_touch [OF assms(1) Some]) simp_all
  then show ?thesis using Some assms(2) by (simp add: switch_begin_def)
qed (use assms in \<open>simp add: switch_begin_def\<close>)

lemma goodx_release:
  assumes "goodx P views h"
  shows "goodx P views (fst (release_flight k h))"
proof (cases "hm_get (h_clients h) k")
  case (Some c)
  then show ?thesis using goodx_touch [OF assms Some] by (simp add: release_flight_def)
qed (use assms in \<open>simp add: release_flight_def\<close>)

definition refocus :: "nat \<Rightarrow> SessionId option \<Rightarrow> SessionHub \<Rightarrow> SessionHub" where
  "refocus k f h = h\<lparr>h_clients := hm_modify k (\<lambda>c. c\<lparr>cc_focused_id := f\<rparr>) (h_clients h)\<rparr>"

lemma refocus_fields [simp]: "h_journals (refocus k f h) = h_journals h" "h_track (refocus k f h) = h_track h"
  "h_default_focus_id (refocus k f h) = h_default_focus_id h"
  by (simp_all add: refocus_def)

lemma goodx_refocus:
  assumes good: "goodx P views h"
  shows "goodx (\<lambda>k' f. P k' f \<or> k' = k) views (refocus k f h)"
proof (rule goodI)
  note g = goodD [OF good]
  show "k' < h_next_client_key (refocus k f h)
      \<and> past_ok (hm_get (h_journals (refocus k f h))) (h_epoch_counter (refocus k f h)) (views k') ch"
    if "chan (refocus k f h) k' ch" for k' ch
  proof -
    have "chan h k' ch" using that by (auto simp: chan_def refocus_def hm_get_modify split: if_splits)
    then show ?thesis using g(3,8) by (simp add: refocus_def)
  qed
qed (use goodD [OF good] in \<open>auto simp: refocus_def hm_get_modify split: if_splits\<close>)

subsection \<open>Starting journals\<close>

lemma goodx_fresh_journal:
  assumes good: "goodx P views h"
    and h1: "h_clients h1 = h_clients h" "h_next_client_key h1 = h_next_client_key h" "h_removed h1 = h_removed h"
      "h_default_focus_id h1 = h_default_focus_id h \<or> h_default_focus_id h1 = Some sid"
      "h_epoch_counter h1 = Suc (h_epoch_counter h)"
      "h_journals h1 = hm_insert sid (create_journal now (Suc (h_epoch_counter h)) seed) (h_journals h)"
  shows "goodx (\<lambda>k f. P k f \<or> f = Some sid) views h1"
proof (rule goodI)
  let ?j = "create_journal now (Suc (h_epoch_counter h)) seed"
  note g = goodD [OF good]
  have js: "hm_get (h_journals h1) = (hm_get (h_journals h))(sid \<mapsto> ?j)" using h1(6) by (simp add: fun_eq_iff)
  show "conn_ok (hm_get (h_journals h1)) (views k) c"
    if "hm_get (h_clients h1) k = Some c" "\<not> (P k (cc_focused_id c) \<or> cc_focused_id c = Some sid)" for k c
    using that h1(1) by (intro conn_ok_cong [OF g(5)]) (auto simp: js)
  show "k < h_next_client_key h1 \<and> past_ok (hm_get (h_journals h1)) (h_epoch_counter h1) (views k) ch"
    if "chan h1 k ch" for k ch
  proof -
    have ch: "chan h k ch" using that h1 by (simp add: chan_def)
    have "evolves (hm_get (h_journals h)) (h_epoch_counter h) (hm_get (h_journals h1)) (h_epoch_counter h1)"
      unfolding js by (rule evolves_upd) (simp_all add: h1 jlog.start_stamp)
    then show ?thesis using past_ok_evolves [OF g(8) [OF ch]] g(3) [OF ch] h1 by simp
  qed
  show "journal_ok j \<and> j_epoch j \<le> h_epoch_counter h1" if "hm_get (h_journals h1) s = Some j" for s j
  proof (cases "s = sid")
    case True
    then have "j = ?j" using that js by simp
    then show ?thesis using jlog.start_ok jlog.start_stamp h1(5) by simp
  next
    case False
    then show ?thesis using that js g(6) [of s j] h1(5) by auto
  qed
  show "\<exists>j. hm_get (h_journals h1) s = Some j" if "h_default_focus_id h1 = Some s" for s
    using that h1(4) g(7) [of s] js by auto
qed (use goodD [OF good] h1 in auto)

lemma goodx_start_journal:
  assumes good: "good views h"
  shows "goodx (\<lambda>k f. reseed \<and> f = Some sid) views (start_journal now reseed mc sid seed h)"
proof (cases "reseed \<or> \<not> hm_contains (h_journals h) sid")
  case True
  define h1 where "h1 = (drop_pending sid h)\<lparr>h_epoch_counter := Suc (h_epoch_counter h),
    h_journals := hm_insert sid (create_journal now (Suc (h_epoch_counter h)) seed) (h_journals h)\<rparr>"
  have "goodx (\<lambda>k f. False \<or> f = Some sid) views h1"
    by (rule goodx_fresh_journal [OF good]) (simp_all add: h1_def drop_pending_def)
  then have "goodx (\<lambda>k f. reseed \<and> f = Some sid) views h1"
  proof (rule goodx_weaken)
    fix k c assume c: "hm_get (h_clients h1) k = Some c" "False \<or> cc_focused_id c = Some sid"
    then have "conn_ok (hm_get (h_journals h)) (views k) c"
      using goodD(5) [OF good] by (simp add: h1_def drop_pending_def)
    then show "reseed \<and> cc_focused_id c = Some sid"
      using c True by (auto simp: conn_ok_def hm_contains_def)
  qed
  then show ?thesis
    using True by (simp add: start_journal_def h1_def Let_def goodx_status)
next
  case False
  then show ?thesis using good by (simp add: start_journal_def)
qed

lemma status_fields [simp]: "h_journals (broadcast_session_status h) = h_journals h"
  "h_default_focus_id (broadcast_session_status h) = h_default_focus_id h"
  by (simp_all add: broadcast_session_status_def)

lemma start_journal_has: "\<exists>j. hm_get (h_journals (start_journal now reseed mc sid seed h)) sid = Some j"
  by (auto simp: start_journal_def Let_def drop_pending_def hm_contains_def)

subsection \<open>Switches\<close>

lemma seed_msg_cong: "h_journals a = h_journals b \<Longrightarrow> seed_msg a f = seed_msg b f"
  by (simp add: seed_msg_def seed_of_def cong: option.case_cong)

lemma deliver_focus:
  "hm_get (h_clients (fst (deliver k ctx m h))) k' = Some c' \<Longrightarrow>
   \<exists>c. hm_get (h_clients h) k' = Some c \<and> cc_focused_id c' = cc_focused_id c"
  by (auto simp: deliver_get bind_eq_Some_conv dest: push_conn_Some(2) split: if_splits)

lemma goodx_seed_all:
  assumes "goodx P views h" "hm_get (h_journals h) sid = Some j"
    and "\<And>k c. k \<in> set ks \<Longrightarrow> hm_get (h_clients h) k = Some c \<Longrightarrow> cc_focused_id c = Some sid"
  shows "goodx (\<lambda>k f. P k f \<and> k \<notin> set ks) views (deliver_all ks ctx (seed_msg h (Some sid)) h)"
  using assms
proof (induction ks arbitrary: P h)
  case (Cons k ks)
  let ?h1 = "fst (deliver k ctx (seed_msg h (Some sid)) h)"
  have one: "goodx (\<lambda>k' f. P k' f \<and> k' \<noteq> k) views ?h1"
    using Cons.prems by (intro goodx_seed) auto
  have "cc_focused_id c = Some sid" if "k' \<in> set ks" "hm_get (h_clients ?h1) k' = Some c" for k' c
    using deliver_focus [OF that(2)] Cons.prems(3) [of k'] that(1) by auto
  then have "goodx (\<lambda>k' f. (P k' f \<and> k' \<noteq> k) \<and> k' \<notin> set ks) views
      (deliver_all ks ctx (seed_msg ?h1 (Some sid)) ?h1)"
    using Cons.prems(2) by (intro Cons.IH [OF one]) auto
  moreover have "seed_msg ?h1 (Some sid) = seed_msg h (Some sid)" by (rule seed_msg_cong) simp
  ultimately show ?case by (simp add: deliver_all_def deliver_each_def conj_assoc)
qed (simp add: deliver_all_def deliver_each_def)

lemma deliver_all_focus:
  "distinct ks \<Longrightarrow> hm_get (h_clients (deliver_all ks ctx m h)) k = Some c' \<Longrightarrow>
   \<exists>c. hm_get (h_clients h) k = Some c \<and> cc_focused_id c' = cc_focused_id c"
  by (auto simp: deliver_all_get bind_eq_Some_conv dest: push_conn_Some(2) split: if_splits)

lemma good_reseed_coviewers:
  assumes good: "goodx (\<lambda>k f. f = Some sid \<and> k \<noteq> key) views h"
    and j: "hm_get (h_journals h) sid = Some j"
  shows "good views (reseed_coviewers key sid h)"
proof -
  let ?ks = "map fst (filter (\<lambda>(k, c). k \<noteq> key \<and> cc_focused_id c = Some sid) (h_clients h))"
  have wf: "hm_wf (h_clients h)" using goodD(1) [OF good] .
  then have dist: "distinct ?ks" by (simp add: hm_wf_def distinct_map_filter)
  have keys: "k \<in> set ?ks \<longleftrightarrow> (\<exists>c. hm_get (h_clients h) k = Some c \<and> k \<noteq> key \<and> cc_focused_id c = Some sid)" for k
    using hm_wf_get_iff [OF wf] by force
  have "goodx (\<lambda>k f. (f = Some sid \<and> k \<noteq> key) \<and> k \<notin> set ?ks) views (reseed_coviewers key sid h)"
    unfolding reseed_coviewers_def using keys by (intro goodx_seed_all [OF good j]) auto
  then show ?thesis
  proof (rule goodx_weaken)
    fix k c' assume live: "hm_get (h_clients (reseed_coviewers key sid h)) k = Some c'"
      and "(cc_focused_id c' = Some sid \<and> k \<noteq> key) \<and> k \<notin> set ?ks"
    then show False
      using deliver_all_focus [OF dist live [unfolded reseed_coviewers_def]] keys by auto
  qed
qed

lemma good_finish_switch:
  assumes good: "good views h" and fin: "finish_switch env now key seed reseed h = Some (h', sid')"
  shows "good views h'"
proof (cases "seed = []")
  case True
  then show ?thesis using fin good by (auto simp: finish_switch_def goodx_send)
next
  case False
  then obtain h1 mc os where fs: "fold_swap_seed env seed h = Some (h1, mc, os)"
    using fin by (cases "fold_swap_seed env seed h") (auto simp: finish_switch_def)
  have h1: "good views h1" using fs good by (auto simp: fold_swap_seed_def split: option.splits prod.splits)
  show ?thesis
  proof (cases os)
    case None
    then show ?thesis using fin fs False h1 by (auto simp: finish_switch_def goodx_send)
  next
    case (Some sid)
    define h2 where "h2 = start_journal now reseed mc sid seed h1"
    define h3 where "h3 = set_client_focus key sid h2"
    define h4 where "h4 = send_to_client key (seed_msg h3 (Some sid)) h3"
    define h5 where "h5 = (if reseed then reseed_coviewers key sid h4 else h4)"
    have h2: "goodx (\<lambda>k f. reseed \<and> f = Some sid) views h2"
      unfolding h2_def by (rule goodx_start_journal [OF h1])
    then have "\<not> superseded h2 key" using goodD(4) [OF h2] by (auto simp: superseded_def split: option.splits)
    then have "finish_switch env now key seed reseed h
        = Some (h5\<lparr>h_hub_ops := h_hub_ops h5 @ switch_refreshes key sid\<rparr>, Some sid)"
      using False fs Some
      by (simp only: finish_switch_def if_False option.case prod.case Let_def flip: h2_def h3_def h4_def h5_def)
    then have h': "h' = h5\<lparr>h_hub_ops := h_hub_ops h5 @ switch_refreshes key sid\<rparr>"
      using fin by simp
    have h3r: "h3 = refocus key (Some sid) h2" by (simp add: h3_def set_client_focus_def refocus_def)
    obtain j where j: "hm_get (h_journals h3) sid = Some j"
      using start_journal_has [of now reseed mc sid seed h1] by (auto simp: h3r h2_def)
    have "goodx (\<lambda>k f. ((reseed \<and> f = Some sid) \<or> k = key) \<and> k \<noteq> key) views h4"
      unfolding h4_def send_to_client_def
    proof (rule goodx_seed)
      show "goodx (\<lambda>k f. (reseed \<and> f = Some sid) \<or> k = key) views h3"
        unfolding h3r by (rule goodx_refocus [OF h2])
      show "cc_focused_id c = Some sid" if "hm_get (h_clients h3) key = Some c" for c
        using that by (auto simp: h3r refocus_def hm_get_modify)
    qed (use j in simp)
    then have h4: "goodx (\<lambda>k f. (f = Some sid \<and> k \<noteq> key) \<and> reseed) views h4"
      by (rule goodx_weaken) blast
    have "good views h5"
    proof (cases reseed)
      case True
      then show ?thesis using good_reseed_coviewers [of sid key views h4 j] h4 j
        by (simp add: h5_def h4_def)
    next
      case False
      then show ?thesis using h4 by (simp add: h5_def)
    qed
    then show ?thesis using h' by simp
  qed
qed

lemma good_switch_complete:
  assumes good: "good views h"
    and sw: "switch_complete env now key res reseed suppress h = Some (h', sid, q)"
  shows "good views h'"
proof -
  define h1 where "h1 = h\<lparr>h_swaps_in_flight := h_swaps_in_flight h - 1\<rparr>"
  have h1: "good views h1" using good by (simp add: h1_def)
  have "\<exists>h2. good views h2 \<and> h' = fst (release_flight key h2)"
  proof (cases res)
    case (Inl raw)
    obtain msg kind where err: "render_switch_error raw = (msg, kind)" by (cases "render_switch_error raw")
    define h2 where "h2 = (if \<not> superseded h1 key \<and> \<not> suppress
      then send_to_client key (M_Error msg kind) h1 else h1)"
    have "good views h2" using h1 by (simp add: h2_def goodx_send)
    moreover have "h' = fst (release_flight key h2)"
      using sw Inl err
      by (auto simp: switch_complete_def Let_def h2_def h1_def split: prod.splits)
    ultimately show ?thesis by blast
  next
    case (Inr seed)
    then obtain h2 s where fin: "finish_switch env now key seed reseed h1 = Some (h2, s)"
      using sw by (cases "finish_switch env now key seed reseed h1") (auto simp: switch_complete_def h1_def Let_def)
    then have "good views h2" using good_finish_switch h1 by blast
    then show ?thesis using sw Inr fin
      by (auto simp: switch_complete_def h1_def Let_def split: prod.splits)
  qed
  then show ?thesis using goodx_release by blast
qed

subsection \<open>Updates, lists, prompts\<close>

lemma goodx_lease [simp]: "goodx P views (clear_update_lease h) = goodx P views h"
  by (rule good_cong) (simp_all add: clear_update_lease_def)

lemma goodx_update_fields [simp]:
  "goodx P views (h\<lparr>h_applying := b, h_update_status := s, h_update_reason := r\<rparr>) = goodx P views h"
  "goodx P views (h\<lparr>h_applying := b\<rparr>) = goodx P views h"
  "goodx P views (h\<lparr>h_update_status := s, h_update_reason := r\<rparr>) = goodx P views h"
  "goodx P views (h\<lparr>h_update_sha := u, h_authorization_generation := ag\<rparr>) = goodx P views h"
  by (rule good_cong; simp)+

lemma good_report_update: "good views h \<Longrightarrow> good views (fst (report_update sha failed stale h))"
  by (simp add: report_update_def Let_def goodx_broadcast split: option.splits)

lemma good_consume_permit: "good views h \<Longrightarrow> good views (fst (consume_update_permit now g nonce sha h))"
  by (simp add: consume_update_permit_def Let_def goodx_broadcast)

lemma good_session_list: "good views h \<Longrightarrow> good views (broadcast_session_list_with ss cwd h)"
  by (auto simp: broadcast_session_list_with_def list_all_iff intro!: goodx_deliver_each)

lemma good_cache_prompt: "good views h \<Longrightarrow> good views (cache_prompt_result pid m h)"
  by (simp add: cache_prompt_result_def Let_def split: prod.splits)

subsection \<open>Construction and reset\<close>

lemma goodx_seed_default:
  assumes good: "goodx P views h" and sd: "seed_default env now ds h = Some h'"
  shows "\<exists>sid. goodx (\<lambda>k f. P k f \<or> f = Some sid) views h'"
proof (cases "ds = None \<or> ds = Some []")
  case True
  then have h': "h' = h" using sd by (auto simp: seed_default_def)
  have "goodx (\<lambda>k f. P k f \<or> f = Some []) views h" using good by (rule goodx_weaken) simp
  then show ?thesis unfolding h' by (rule exI)
next
  case False
  then obtain e es where ds: "ds = Some (e # es)" by (cases ds) (auto simp: neq_Nil_conv)
  then obtain t c where "track_seed env (e # es) (h_track h, False) = Some (t, c)"
    using sd by (cases "track_seed env (e # es) (h_track h, False)") (auto simp: seed_default_def)
  then have "h' = h\<lparr>h_track := t, h_epoch_counter := Suc (h_epoch_counter h),
      h_journals := hm_insert (ev_session_id e) (create_journal now (Suc (h_epoch_counter h)) (e # es)) (h_journals h),
      h_default_focus_id := Some (ev_session_id e)\<rparr>"
    using sd ds by (simp add: seed_default_def Let_def)
  then show ?thesis
    by (intro exI [of _ "ev_session_id e"] goodx_fresh_journal [OF good]) simp_all
qed

lemma good_empty: "good views (empty_hub cfg now)"
  by (rule goodI) (simp_all add: empty_hub_def chan_def)

lemma seed_default_clients: "seed_default env now ds h = Some h' \<Longrightarrow> h_clients h' = h_clients h"
  by (auto simp: seed_default_def Let_def split: option.splits list.splits prod.splits)

lemma good_new_hub:
  assumes "new_hub env cfg now ds = Some h"
  shows "good views h"
proof -
  obtain sid where g: "goodx (\<lambda>k f. False \<or> f = Some sid) views h"
    using goodx_seed_default [OF good_empty] assms by (force simp: new_hub_def)
  have "h_clients h = []" using seed_default_clients assms by (force simp: new_hub_def empty_hub_def)
  then show ?thesis using goodx_weaken [OF g] by simp
qed

lemma goodx_clear:
  assumes good: "good views h"
  shows "goodx (\<lambda>_ _. True) views (clear_hub h)"
proof (rule goodI)
  note g = goodD [OF good]
  show "k < h_next_client_key (clear_hub h)
      \<and> past_ok (hm_get (h_journals (clear_hub h))) (h_epoch_counter (clear_hub h)) (views k) ch"
    if "chan (clear_hub h) k ch" for k ch
  proof -
    have ch: "chan h k ch" using that by (simp add: chan_def clear_hub_def)
    have "evolves (hm_get (h_journals h)) (h_epoch_counter h) (\<lambda>_. None) (h_epoch_counter h)"
      by (simp add: evolves_def)
    then show ?thesis using past_ok_evolves [OF g(8) [OF ch]] g(3) [OF ch] by (simp add: clear_hub_def)
  qed
qed (use goodD [OF good] in \<open>auto simp: clear_hub_def\<close>)

lemma reset_client_eq:
  "reset_client f k h = fst (deliver k ''per_client'' (seed_msg (refocus k f h) f) (refocus k f h))"
  by (simp add: reset_client_def send_to_client_def refocus_def set_client_focus_def Let_def split: option.splits)

lemma reset_client_journals [simp]: "h_journals (reset_client f k h) = h_journals h"
  by (simp add: reset_client_eq)

lemma goodx_reset_client:
  assumes good: "goodx P views h" and f: "\<And>sid. f = Some sid \<Longrightarrow> \<exists>j. hm_get (h_journals h) sid = Some j"
  shows "goodx (\<lambda>k' f. P k' f \<and> k' \<noteq> k) views (reset_client f k h)"
proof -
  have "goodx (\<lambda>k' f. (P k' f \<or> k' = k) \<and> k' \<noteq> k) views (reset_client f k h)"
    unfolding reset_client_eq
    by (rule goodx_seed [OF goodx_refocus [OF good]]) (use f in \<open>auto simp: refocus_def hm_get_modify\<close>)
  then show ?thesis by (rule goodx_weaken) blast
qed

lemma reset_client_keys:
  "hm_get (h_clients (reset_client f k h)) k' \<noteq> None \<Longrightarrow> hm_get (h_clients h) k' \<noteq> None"
  by (auto simp: reset_client_eq deliver_get refocus_def hm_get_modify bind_eq_Some_conv split: if_splits)

lemma goodx_reset_all:
  assumes "goodx P views h" "\<And>sid. f = Some sid \<Longrightarrow> \<exists>j. hm_get (h_journals h) sid = Some j"
  shows "goodx (\<lambda>k' f. P k' f \<and> k' \<notin> set ks) views (foldl (\<lambda>h k. reset_client f k h) h ks)
    \<and> (\<forall>k. hm_get (h_clients (foldl (\<lambda>h k. reset_client f k h) h ks)) k \<noteq> None
        \<longrightarrow> hm_get (h_clients h) k \<noteq> None)"
  using assms
proof (induction ks arbitrary: P h)
  case (Cons k ks)
  have "goodx (\<lambda>k' f. P k' f \<and> k' \<noteq> k) views (reset_client f k h)"
    using goodx_reset_client Cons.prems by blast
  from Cons.IH [OF this] Cons.prems(2) show ?case
    using reset_client_keys by (simp add: conj_assoc) blast
qed simp

lemma good_reset:
  assumes good: "good views h" and rs: "reset env now boot ds h = Some h'"
  shows "good views h'"
proof -
  obtain h1 where h1: "(if boot then seed_default env now ds (clear_hub h) else Some (clear_hub h)) = Some h1"
    using rs by (auto simp: reset_def split: option.splits)
  define h2 where "h2 = foldl (\<lambda>h k. reset_client (h_default_focus_id h1) k h) h1 (hm_keys (h_clients h1))"
  have h': "h' = (broadcast_session_status h2)\<lparr>h_hub_ops := h_hub_ops (broadcast_session_status h2) @ [Op_SessionList ''reset_session_list'']\<rparr>"
    using rs h1 by (simp add: reset_def h2_def Let_def)
  have "goodx (\<lambda>_ _. True) views h1"
  proof (cases boot)
    case True
    then have "seed_default env now ds (clear_hub h) = Some h1" using h1 by simp
    from goodx_seed_default [OF goodx_clear [OF good] this] show ?thesis by simp
  next
    case False
    then show ?thesis using h1 goodx_clear [OF good] by simp
  qed
  then have all: "goodx (\<lambda>k f. k \<notin> set (hm_keys (h_clients h1))) views h2
    \<and> (\<forall>k. hm_get (h_clients h2) k \<noteq> None \<longrightarrow> hm_get (h_clients h1) k \<noteq> None)"
    using goodx_reset_all [where P = "\<lambda>_ _. True" and h = h1 and f = "h_default_focus_id h1"
        and ks = "hm_keys (h_clients h1)" and views = views] goodD(7)
    unfolding h2_def by auto
  have "good views h2"
  proof (rule goodx_weaken [OF all [THEN conjunct1]])
    fix k c assume "hm_get (h_clients h2) k = Some c" "k \<notin> set (hm_keys (h_clients h1))"
    then show False using all by (auto simp: hm_contains_iff [symmetric] hm_contains_def)
  qed
  then show ?thesis using h' by (simp add: goodx_status)
qed

subsection \<open>Attaching clients\<close>

text \<open>A connection registers; its view is the one the client holds when it connects.\<close>

lemma goodx_register:
  assumes good: "good views h" and v: "faithful (hm_get (h_journals h)) (h_epoch_counter h) v"
  shows "goodx (\<lambda>k _. k = h_next_client_key h) (views(h_next_client_key h := v)) (register_client f h)"
    (is "goodx _ ?views ?h")
proof (rule goodI)
  note g = goodD [OF good]
  have fresh: "hm_get (h_clients h) (h_next_client_key h) = None"
    using g(3) [OF chan_live] by (metis less_irrefl not_Some_eq)
  show "conn_ok (hm_get (h_journals ?h)) (?views k) c"
    if "hm_get (h_clients ?h) k = Some c" "k \<noteq> h_next_client_key h" for k c
    using that g(5) by (simp add: register_client_def)
  show "k < h_next_client_key ?h \<and> past_ok (hm_get (h_journals ?h)) (h_epoch_counter ?h) (?views k) ch"
    if ch: "chan ?h k ch" for k ch
  proof (cases "k = h_next_client_key h")
    case True
    then have "ch_sent ch = []" using ch g(3) by (auto simp: chan_def register_client_def)
    then show ?thesis using True v by (simp add: register_client_def past_ok_def)
  next
    case False
    then have "chan h k ch" using ch by (simp add: chan_def register_client_def)
    then show ?thesis using g(3,8) False by (auto simp: register_client_def less_Suc_eq)
  qed
qed (use goodD [OF good] in \<open>auto simp: register_client_def split: if_splits\<close>)

lemma goodx_gone:
  assumes "goodx (\<lambda>k' _. k' = k) views h" "hm_get (h_clients h) k = None"
  shows "good views h"
  using assms(1) by (rule goodx_weaken) (use assms(2) in auto)

lemma deliver_failed:
  "deliver k ctx m h = (h', DeliveryFailed a b d) \<Longrightarrow> hm_get (h_clients h') k = None"
  by (auto simp: deliver_def remove_get split: option.splits sum.splits)

lemma deliver_live:
  assumes "deliver k ctx m h = (h', Delivered)"
  shows "\<exists>c c'. hm_get (h_clients h) k = Some c \<and> push_conn m c = Some c' \<and> hm_get (h_clients h') k = Some c'"
  using assms by (auto simp: deliver_def push_conn_def split: option.splits sum.splits)

lemma goodx_replay:
  assumes "goodx (\<lambda>k' _. k' = k) views h" "hm_get (h_journals h) sid = Some j"
    and "hm_get (h_clients h) k = Some c" "cc_focused_id c = Some sid"
    and "moment sid j pre evs s (receive_all (views k) (ch_sent (cc_send c)))"
    and "map jf_ev fs = drop s evs" "map jf_seq fs = [Suc s..<Suc (length evs)]"
  shows "good views (replay_tail k (j_epoch j) fs h)"
  using assms
proof (induction fs arbitrary: h c s)
  case Nil
  then have s: "s = length evs" by (simp add: moment_def)
  have rep: "journal_rep j pre evs" using Nil.prems(5) by (simp add: moment_def)
  have "in_step sid j (receive_all (views k) (ch_sent (cc_send c)))"
    using Nil.prems(5) moment_in_step [OF rep] unfolding s by blast
  then have "conn_ok (hm_get (h_journals h)) (views k) c" using Nil.prems(2,4) by (simp add: conn_ok_def)
  then have "good views h" using Nil.prems(1,3) unfolding goodx_def by (metis option.inject)
  then show ?case by simp
next
  case (Cons f fs)
  have s: "s < length evs" using Cons.prems(7) by (cases "s < length evs") auto
  have f: "jf_ev f = evs ! s" "map jf_ev fs = drop (Suc s) evs" "jf_seq f = Suc s"
      "map jf_seq fs = [Suc (Suc s)..<Suc (length evs)]"
    using Cons.prems(6,7) s by (auto simp: Cons_nth_drop_Suc [symmetric] upt_conv_Cons simp del: upt_Suc)
  let ?m = "M_Event (jf_ev f) (j_epoch j) (jf_seq f)"
  have next_view: "moment sid j pre evs (Suc s) (receive (receive_all (views k) (ch_sent (cc_send c))) ?m)"
    using moment_next [OF Cons.prems(5) s] by (simp only: f)
  have good': "goodx (\<lambda>k' _. k' = k) views (fst (deliver k ctx ?m h))" for ctx
  proof (rule goodx_deliver [OF Cons.prems(1)])
    fix d assume "hm_get (h_clients h) k = Some d"
    then have "d = c" using Cons.prems(3) by simp
    have "faithful (hm_get (h_journals h)) (h_epoch_counter h)
        (receive (receive_all (views k) (ch_sent (cc_send c))) ?m)"
      using moment_faithful [OF next_view, where js = "hm_get (h_journals h)"] Cons.prems(2)
        goodD(6) [OF Cons.prems(1,2)] by simp
    then show "let v = receive (receive_all (views k) (ch_sent (cc_send d))) ?m
      in faithful (hm_get (h_journals h)) (h_epoch_counter h) v \<and> (k = k \<or>
         (\<forall>c'. cc_focused_id c' = cc_focused_id d \<and> receive_all (views k) (ch_sent (cc_send c')) = v \<longrightarrow>
              conn_ok (hm_get (h_journals h)) (views k) c'))"
      using \<open>d = c\<close> by (simp only: Let_def simp_thms)
  qed simp
  obtain h' out where d: "deliver k ''bootstrap.resume_tail'' ?m h = (h', out)"
    by (cases "deliver k ''bootstrap.resume_tail'' ?m h")
  have h': "goodx (\<lambda>k' _. k' = k) views h'" "h_journals h' = h_journals h"
    using good' [of "''bootstrap.resume_tail''"] deliver_fields(1) [of k "''bootstrap.resume_tail''" ?m h] d by auto
  show ?case
  proof (cases out)
    case Delivered
    then obtain c' where c': "push_conn ?m c = Some c'" "hm_get (h_clients h') k = Some c'"
      using deliver_live d Cons.prems(3) by fastforce
    have "good views (replay_tail k (j_epoch j) fs h')"
    proof (rule Cons.IH)
      show "moment sid j pre evs (Suc s) (receive_all (views k) (ch_sent (cc_send c')))"
        unfolding push_conn_Some(1) [OF c'(1)] receive_all_append receive_all_single by (rule next_view)
    qed (use h' c' f push_conn_Some(2) [OF c'(1)] Cons.prems(2,4) in simp_all)
    then show ?thesis using d Delivered by simp
  next
    case (DeliveryFailed a b e)
    then show ?thesis using d h'(1) goodx_gone deliver_failed by auto
  qed
qed

text \<open>
  A client reconnects with the view \<open>v\<close>. The guard excludes the one case in which the hub focuses the
  client on one session and seeds it with another (\<open>stale_resume_diverges\<close> below).
\<close>

definition stale :: "SessionHub \<Rightarrow> ResumeToken option \<Rightarrow> bool" where
  "stale h resume = (case resume of
     None \<Rightarrow> False
   | Some r \<Rightarrow> (case hm_get (h_journals h) (rk_session_id r) of
       None \<Rightarrow> False
     | Some j \<Rightarrow> \<not> resumable j r \<and> h_default_focus_id h \<noteq> Some (rk_session_id r)))"

lemma good_bootstrap_transcript:
  assumes good: "goodx (\<lambda>k' _. k' = k) views h"
    and c: "hm_get (h_clients h) k = Some c" "cc_focused_id c = initial_focus h resume"
    and v: "receive_all (views k) (ch_sent (cc_send c)) = v"
      "faithful (hm_get (h_journals h)) (h_epoch_counter h) v"
    and r: "resume = None \<or> resume = resume_token v" "\<not> stale h resume"
  shows "good views (bootstrap_transcript k resume (initial_focus h resume) h)"
proof -
  have seeded: "good views (fst (deliver k ctx (seed_msg h f) h))"
    if "initial_focus h resume = f" "f = h_default_focus_id h" for f ctx
  proof -
    have "goodx (\<lambda>k' f. k' = k \<and> k' \<noteq> k) views (fst (deliver k ctx (seed_msg h f) h))"
      using that c goodD(7) [OF good] by (intro goodx_seed [OF good]) auto
    then show ?thesis by simp
  qed
  show ?thesis
  proof (cases resume)
    case None
    then show ?thesis using seeded by (simp add: bootstrap_transcript_def initial_focus_def)
  next
    case (Some r)
    show ?thesis
    proof (cases "hm_get (h_journals h) (rk_session_id r)")
      case None
      then show ?thesis using seeded Some by (simp add: bootstrap_transcript_def initial_focus_def)
    next
      case j: (Some j)
      show ?thesis
      proof (cases "resumable j r")
        case True
        have tok: "cv_seed_session_id v = Some (rk_session_id r)" "cv_seed_epoch v = rk_epoch r" "cv_seed_seq v = rk_seq r"
          using assms(6) Some by (auto simp: resume_token_def split: option.splits if_splits)
        then obtain pre evs where m: "moment (rk_session_id r) j pre evs (rk_seq r) v"
          using v(2) j True unfolding faithful_def resumable_def by metis
        then have rep: "journal_rep j pre evs" by (simp add: moment_def)
        have cov: "tail_covers j (rk_seq r)" using True by (simp add: resumable_def)
        have "good views (replay_tail k (j_epoch j) (resume_frames j (rk_seq r)) h)"
          using c m v(1) True Some j resume_frames_rep [OF rep cov]
          by (intro goodx_replay [OF good j c(1)]) (simp_all add: initial_focus_def)
        then show ?thesis using True Some j by (simp add: bootstrap_transcript_def)
      next
        case False
        then have "h_default_focus_id h = Some (rk_session_id r)" using r(2) Some j by (simp add: stale_def)
        then show ?thesis using seeded False Some j by (simp add: bootstrap_transcript_def initial_focus_def)
      qed
    qed
  qed
qed

lemma goodx_bootstrap_status: "goodx P views h \<Longrightarrow> neutral sm \<Longrightarrow> goodx P views (bootstrap_status k sm h)"
  by (simp add: bootstrap_status_def Let_def goodx_neutral)

lemma good_add_client:
  assumes good: "good views h" and v: "faithful (hm_get (h_journals h)) (h_epoch_counter h) v"
    and r: "resume = None \<or> resume = resume_token v" "\<not> stale h resume" and sm: "neutral sm"
  shows "good (views(h_next_client_key h := v)) (fst (add_client resume sm h))"
proof -
  let ?k = "h_next_client_key h" and ?views = "views(h_next_client_key h := v)"
  define f where "f = initial_focus h resume"
  define h1 where "h1 = register_client f h"
  obtain h2 out where d: "deliver ?k ''bootstrap.hello'' (hello_msg h1) h1 = (h2, out)"
    by (cases "deliver ?k ''bootstrap.hello'' (hello_msg h1) h1")
  have h1: "goodx (\<lambda>k _. k = ?k) ?views h1" unfolding h1_def by (rule goodx_register [OF good v])
  then have h2: "goodx (\<lambda>k _. k = ?k) ?views h2"
    using goodx_neutral [OF h1, of "hello_msg h1"] d by (metis fst_conv neutral_status(3))
  have same: "h_journals h2 = h_journals h" "h_default_focus_id h2 = h_default_focus_id h"
      "h_epoch_counter h2 = h_epoch_counter h"
  proof -
    have "h2 = fst (deliver ?k ''bootstrap.hello'' (hello_msg h1) h1)" using d by simp
    then show "h_journals h2 = h_journals h" "h_default_focus_id h2 = h_default_focus_id h"
        "h_epoch_counter h2 = h_epoch_counter h"
      by (simp_all only: deliver_fields) (simp_all add: h1_def register_client_def)
  qed
  have f2: "initial_focus h2 resume = f" "stale h2 resume = stale h resume"
    unfolding f_def initial_focus_def stale_def same by (rule refl)+
  show ?thesis
  proof (cases out)
    case Delivered
    obtain c c' where c: "hm_get (h_clients h1) ?k = Some c" "push_conn (hello_msg h1) c = Some c'"
        "hm_get (h_clients h2) ?k = Some c'"
      using deliver_live d Delivered by blast
    have "ch_sent (cc_send c) = []" "cc_focused_id c = f" using c(1) by (auto simp: h1_def register_client_def)
    then have c': "receive_all (?views ?k) (ch_sent (cc_send c')) = v" "cc_focused_id c' = initial_focus h2 resume"
      using push_conn_Some [OF c(2)] f2 by (simp_all add: neutral_receive)
    have "good ?views (bootstrap_transcript ?k resume (initial_focus h2 resume) h2)"
      by (rule good_bootstrap_transcript [OF h2 c(3) c'(2,1)]) (use v r f2 same in simp_all)
    then show ?thesis using d Delivered f2 goodx_bootstrap_status [OF _ sm]
      by (simp add: add_client_def f_def h1_def Let_def)
  next
    case (DeliveryFailed a b e)
    then show ?thesis using goodx_gone [OF h2] deliver_failed d
      by (simp add: add_client_def f_def h1_def Let_def)
  qed
qed

section \<open>The system\<close>

text \<open>
  One hub and its clients. For each connection the system remembers the view its client held when it
  connected; what the client shows is that view with the messages it has received so far.
\<close>

record System =
  sy_hub :: SessionHub
  sy_views :: "nat \<Rightarrow> ClientView"

text \<open>
  The steps: the driver's events, the flush timer, clients that connect, reconnect (with the view they
  had, wherever in an earlier channel they were), read and leave, switches, replies to one
  client or all that carry no transcript, session lists, eviction, usage, the desktop's
  update calls, the prompt ledger and the reset. A client starts a switch only when none of
  its own is in flight; its requests are applied one after the other.
\<close>

inductive hub_step :: "Env \<Rightarrow> System \<Rightarrow> System \<Rightarrow> bool" for env where
  Event: "on_event env now ev (sy_hub s) = Some h' \<Longrightarrow> hub_step env s (s\<lparr>sy_hub := h'\<rparr>)"
| Flush: "hub_step env s (s\<lparr>sy_hub := flush_pending env now sid (sy_hub s)\<rparr>)"
| Connect: "add_client None (M_PantokenSettings st le ro er) (sy_hub s) = (h', k) \<Longrightarrow>
    hub_step env s \<lparr>sy_hub = h', sy_views = (sy_views s)(k := initial_view)\<rparr>"
| Reconnect: "chan (sy_hub s) k0 ch \<Longrightarrow> v = receive_all (sy_views s k0) (take n (ch_sent ch)) \<Longrightarrow>
    \<not> stale (sy_hub s) (resume_token v) \<Longrightarrow>
    add_client (resume_token v) (M_PantokenSettings st le ro er) (sy_hub s) = (h', k) \<Longrightarrow>
    hub_step env s \<lparr>sy_hub = h', sy_views = (sy_views s)(k := v)\<rparr>"
| Read: "hm_get (h_clients (sy_hub s)) k = Some c \<Longrightarrow> ch_read (cc_send c) < length (ch_sent (cc_send c)) \<Longrightarrow>
    hub_step env s (s\<lparr>sy_hub := (sy_hub s)\<lparr>h_clients := hm_insert k
      (c\<lparr>cc_send := (cc_send c)\<lparr>ch_read := Suc (ch_read (cc_send c))\<rparr>\<rparr>) (h_clients (sy_hub s))\<rparr>\<rparr>)"
| Close: "hm_get (h_clients (sy_hub s)) k = Some c \<Longrightarrow>
    hub_step env s (s\<lparr>sy_hub := (sy_hub s)\<lparr>h_clients := hm_insert k
      (c\<lparr>cc_send := (cc_send c)\<lparr>ch_closed := True\<rparr>\<rparr>) (h_clients (sy_hub s))\<rparr>\<rparr>)"
| Disconnect: "hub_step env s (s\<lparr>sy_hub := remove_client k (sy_hub s)\<rparr>)"
| SwitchBegin: "(\<And>c. hm_get (h_clients (sy_hub s)) k = Some c \<Longrightarrow> \<not> cc_switch_in_flight c) \<Longrightarrow>
    hub_step env s (s\<lparr>sy_hub := fst (switch_begin k req (sy_hub s))\<rparr>)"
| SwitchComplete: "switch_complete env now k res reseed suppress (sy_hub s) = Some (h', sid, q) \<Longrightarrow>
    hub_step env s (s\<lparr>sy_hub := h'\<rparr>)"
| Reply: "neutral m \<Longrightarrow> hub_step env s (s\<lparr>sy_hub := send_to_client k m (sy_hub s)\<rparr>)"
| Announce: "neutral m \<Longrightarrow> hub_step env s (s\<lparr>sy_hub := broadcast m (sy_hub s)\<rparr>)"
| SessionList: "hub_step env s (s\<lparr>sy_hub := broadcast_session_list_with ss cwd (sy_hub s)\<rparr>)"
| Evict: "hub_step env s (s\<lparr>sy_hub := evict_idle_journals_at now has_warm (sy_hub s)\<rparr>)"
| Usage: "hub_step env s (s\<lparr>sy_hub := refresh_usage env now now_iso usage (sy_hub s)\<rparr>)"
| UpdateReported: "hub_step env s (s\<lparr>sy_hub := fst (report_update sha failed dstale (sy_hub s))\<rparr>)"
| PermitConsumed: "hub_step env s (s\<lparr>sy_hub := fst (consume_update_permit now gen nonce usha (sy_hub s))\<rparr>)"
| PromptCached: "hub_step env s (s\<lparr>sy_hub := cache_prompt_result pid m (sy_hub s)\<rparr>)"
| Reset: "reset env now boot ds (sy_hub s) = Some h' \<Longrightarrow> hub_step env s (s\<lparr>sy_hub := h'\<rparr>)"

inductive reachable :: "Env \<Rightarrow> System \<Rightarrow> bool" for env where
  Start: "new_hub env cfg now ds = Some h \<Longrightarrow> reachable env \<lparr>sy_hub = h, sy_views = (\<lambda>_. initial_view)\<rparr>"
| Step: "reachable env s \<Longrightarrow> hub_step env s s' \<Longrightarrow> reachable env s'"

abbreviation system_ok :: "System \<Rightarrow> bool" where
  "system_ok s \<equiv> good (sy_views s) (sy_hub s)"

lemma faithful_initial: "faithful js ec initial_view"
  by (simp add: faithful_def initial_view_def)

lemma add_client_key: "snd (add_client resume sm h) = h_next_client_key h"
  by (auto simp: add_client_def Let_def split: prod.splits DeliveryOutcome.splits)

lemma system_ok_attach:
  assumes ok: "system_ok s" and v: "faithful (hm_get (h_journals (sy_hub s))) (h_epoch_counter (sy_hub s)) v"
    and r: "resume = None \<or> resume = resume_token v" "\<not> stale (sy_hub s) resume"
    and add: "add_client resume (M_PantokenSettings st le ro er) (sy_hub s) = (h', k)"
  shows "system_ok \<lparr>sy_hub = h', sy_views = (sy_views s)(k := v)\<rparr>"
proof -
  have "k = h_next_client_key (sy_hub s)" using add_client_key add by (metis snd_conv)
  then show ?thesis using good_add_client [OF ok v r, of "M_PantokenSettings st le ro er"] add by simp
qed

lemma system_ok_step:
  assumes ok: "system_ok s" and st: "hub_step env s s'"
  shows "system_ok s'"
  using st ok
proof (cases rule: hub_step.cases)
  case (Event now ev h')
  then show ?thesis using good_on_event ok by simp
next
  case (Connect st le ro er h' k)
  then show ?thesis using system_ok_attach [OF ok faithful_initial, where resume = None] by (simp add: stale_def)
next
  case (Reconnect k0 ch v n st le ro er h' k)
  have "faithful (hm_get (h_journals (sy_hub s))) (h_epoch_counter (sy_hub s)) v"
    using goodD(8) [OF ok Reconnect(2)] Reconnect(3) by (simp add: past_ok_def)
  from system_ok_attach [OF ok this disjI2 [OF refl] Reconnect(4,5)] show ?thesis using Reconnect(1) by simp
next
  case (Read k c)
  then show ?thesis using goodx_touch [OF ok] goodD(4) [OF ok] by simp
next
  case (Close k c)
  then show ?thesis using goodx_touch [OF ok] goodD(4) [OF ok] by simp
next
  case (SwitchBegin k req)
  then show ?thesis using good_switch_begin [OF ok] by simp
next
  case (SwitchComplete now k res reseed suppress h' sid q)
  then show ?thesis using good_switch_complete [OF ok] by simp
next
  case (Reset now boot ds h')
  then show ?thesis using good_reset [OF ok] by simp
qed (simp_all add: good_flush goodx_remove goodx_send goodx_broadcast good_session_list good_evict
    good_refresh_usage good_report_update good_consume_permit good_cache_prompt)

lemma reachable_ok: "reachable env s \<Longrightarrow> system_ok s"
  by (induction rule: reachable.induct) (auto simp: good_new_hub intro: system_ok_step)

end
