(* ===== verification/Hub_Requests.thy ===== *)
theory Hub_Requests
  imports Hub
begin

text \<open>
  Arms of the hub's client dispatch (\<^verbatim>\<open>handle_client\<close> in \<^verbatim>\<open>pantoken-server/src/hub.rs\<close>) that act on the hub itself:
  the heartbeat, seed requests, detaching a session, and the two update requests. The random
  nonce, the clocks and the driver's answers are arguments.
\<close>

section \<open>Session paths\<close>

definition session_id_from_path :: "string \<Rightarrow> SessionId option" where
  "session_id_from_path path =
     (let normalized = map (\<lambda>c. if c = CHR 0x5C then CHR ''/'' else c) path;
          parts = filter (\<lambda>s. s \<noteq> []) (split_on (CHR ''/'') normalized);
          n = length parts
      in if n \<ge> 2 \<and> parts ! (n - 1) = ''session.json'' then Some (parts ! (n - 2)) else None)"

section \<open>Requests\<close>

definition handle_ping :: "nat \<Rightarrow> SessionHub \<Rightarrow> SessionHub" where
  "handle_ping key h = send_to_client key M_Pong h"

definition focused_of :: "nat \<Rightarrow> SessionHub \<Rightarrow> SessionId option" where
  "focused_of key h = Option.bind (hm_get (h_clients h) key) cc_focused_id"

definition handle_request_seed :: "nat \<Rightarrow> SessionId option \<Rightarrow> SessionHub \<Rightarrow> SessionHub" where
  "handle_request_seed key session_id h =
     send_to_client key (seed_msg h (case session_id of Some s \<Rightarrow> Some s | None \<Rightarrow> focused_of key h)) h"

definition client_driver_error :: "string \<Rightarrow> string" where
  "client_driver_error operation = operation @ '' failed; see server logs for details''"

text \<open>
  The completion of a detach. The driver's answer is the failed operation, or the session list and the
  home directory that are read afterwards.
\<close>

definition drop_detached :: "SessionId \<Rightarrow> SessionHub \<Rightarrow> SessionHub" where
  "drop_detached sid h =
     (let h1 = (if h_default_focus_id h = Some sid then h\<lparr>h_default_focus_id := None\<rparr> else h);
          h2 = drop_pending sid h1
      in if hm_contains (h_journals h2) sid
         then (let epoch = Suc (h_epoch_counter h2);
                   h3 = h2\<lparr>h_journals := hm_remove sid (h_journals h2), h_epoch_counter := epoch\<rparr>
               in deliver_all (clients_focused h3 sid) ''detach_session.empty_seed''
                    (M_Seed (Some sid) epoch 0 []) h3)
         else h2)"

definition detach_session ::
  "nat \<Rightarrow> string \<Rightarrow> string + SessionListEntry list \<times> string \<Rightarrow> SessionHub \<Rightarrow> SessionHub" where
  "detach_session key path result h = (case result of
     Inl operation \<Rightarrow> send_to_client key (M_Error (client_driver_error operation) None) h
   | Inr (sessions, default_cwd) \<Rightarrow>
       broadcast_session_list_with sessions default_cwd
         (case session_id_from_path path of Some sid \<Rightarrow> drop_detached sid h | None \<Rightarrow> h))"

definition UPDATE_LEASE_MS :: nat where
  "UPDATE_LEASE_MS = 30000"

text \<open>\<^verbatim>\<open>u128::saturating_add\<close> cannot saturate here: the clock is a count of milliseconds since 1970.\<close>

definition authorize_update :: "nat \<Rightarrow> nat \<Rightarrow> string \<Rightarrow> SessionHub \<Rightarrow> SessionHub" where
  "authorize_update now now_unix_ms nonce h =
     (if h_update_sha h \<noteq> None \<and> \<not> h_applying h
      then (let h1 = (if tk_running (h_track h) \<noteq> [] \<or> tk_initializing (h_track h) \<noteq> []
              then clear_update_lease (h\<lparr>h_update_status := Some ''deferred'', h_update_reason := Some ''busy''\<rparr>)
              else h\<lparr>h_authorization_generation := h_authorization_generation h + 1,
                     h_lease_nonce := Some nonce, h_lease_sha := h_update_sha h,
                     h_lease_expires_at := Some (now + UPDATE_LEASE_MS),
                     h_lease_expires_at_unix_ms := Some (now_unix_ms + UPDATE_LEASE_MS),
                     h_update_status := None, h_update_reason := None\<rparr>)
            in broadcast (update_status_msg h1) h1)
      else h)"

definition apply_update :: "nat \<Rightarrow> nat \<Rightarrow> string \<Rightarrow> SessionHub \<Rightarrow> SessionHub" where
  "apply_update now now_unix_ms nonce h = authorize_update now now_unix_ms nonce h"

definition force_update :: "nat \<Rightarrow> nat \<Rightarrow> string \<Rightarrow> SessionHub \<Rightarrow> SessionHub" where
  "force_update now now_unix_ms nonce h = authorize_update now now_unix_ms nonce (h\<lparr>h_force_requested := True\<rparr>)"

text \<open>Revealing the data directory: \<open>opened\<close> is what the file manager answers.\<close>

definition open_data_dir :: "nat \<Rightarrow> (string \<Rightarrow> string option) \<Rightarrow> SessionHub \<Rightarrow> SessionHub" where
  "open_data_dir key opened h = (case h_data_dir h of
     Some dir \<Rightarrow> (case opened dir of
         Some e \<Rightarrow> send_to_client key (M_Error (''couldn't open the data directory: '' @ e) None) h
       | None \<Rightarrow> h)
   | None \<Rightarrow> send_to_client key (M_Error ''data directory is not configured on this server'' None) h)"

end
