(* ===== verification/Hub_Props.thy ===== *)
theory Hub_Props
  imports Hub_Sync Hub_Requests
begin

text \<open>
  The properties of the hub: clients in step with their sessions, the limits of resume, idle eviction,
  the update permit, the prompt ledger and failed switches.
\<close>

section \<open>What clients see\<close>

text \<open>The state a client shows once it has received everything sent to it.\<close>

definition client_state :: "System \<Rightarrow> nat \<Rightarrow> ClientConn \<Rightarrow> ClientView" where
  "client_state s k c = receive_all (sy_views s k) (ch_sent (cc_send c))"


text \<open>A landing session and a client connected to it.\<close>

definition sample_env :: Env where
  "sample_env = \<lparr>env_lower = (\<lambda>s. s), env_serde = sample_serde, env_urlencode = (\<lambda>s. s), env_runtime = True\<rparr>"

definition sample_cfg :: HubConfig where
  "sample_cfg = \<lparr>hc_has_notify = False, hc_server_id = ''id'', hc_server_label = ''label'', hc_data_dir = None,
     hc_build_sha = ''sha'', hc_delta_flush_ms = 0, hc_journal_idle_evict_ms = 0\<rparr>"

definition sample_seed :: "SessionDriverEvent list" where
  "sample_seed = [E_AssistantDelta sample_base ''hi'' None None]"

definition sample_hub :: SessionHub where
  "sample_hub = the (new_hub sample_env sample_cfg 1 (Some sample_seed))"

definition sample_settings :: ServerMessage where
  "sample_settings = M_PantokenSettings default_settings
     \<lparr>env_active_shell = None, env_ok = True, env_detail = None\<rparr> False None"

definition sample_system :: System where
  "sample_system = \<lparr>sy_hub = fst (add_client None sample_settings sample_hub), sy_views = (\<lambda>_. initial_view)\<rparr>"

lemma sample_started: "new_hub sample_env sample_cfg 1 (Some sample_seed) = Some sample_hub"
  unfolding sample_hub_def by code_simp

lemma sample_reachable: "reachable sample_env sample_system"
proof -
  let ?s = "\<lparr>sy_hub = sample_hub, sy_views = (\<lambda>_. initial_view)\<rparr>"
  have "hub_step sample_env ?s \<lparr>sy_hub = fst (add_client None sample_settings sample_hub),
      sy_views = (sy_views ?s)(snd (add_client None sample_settings sample_hub) := initial_view)\<rparr>"
    by (rule hub_step.Connect [where st = default_settings]) (simp add: sample_settings_def)
  moreover have "(sy_views ?s)(snd (add_client None sample_settings sample_hub) := initial_view) = (\<lambda>_. initial_view)"
    by auto
  ultimately show ?thesis
    using reachable.Start [OF sample_started] reachable.Step unfolding sample_system_def by metis
qed

definition sample_conn :: ClientConn where
  "sample_conn = the (hm_get (h_clients (sy_hub sample_system)) 0)"

lemma sample_conn_live: "hm_get (h_clients (sy_hub sample_system)) 0 = Some sample_conn"
  unfolding sample_conn_def by code_simp

lemma sample_conn_focus: "cc_focused_id sample_conn = Some (sr_session_id (eb_session_ref sample_base))"
  by code_simp



definition sample_sid :: SessionId where
  "sample_sid = sr_session_id (eb_session_ref sample_base)"

definition sample_journal :: SessionJournal where
  "sample_journal = the (hm_get (h_journals (sy_hub sample_system)) sample_sid)"

lemma sample_journal_get: "hm_get (h_journals (sy_hub sample_system)) sample_sid = Some sample_journal"
  unfolding sample_journal_def by code_simp

definition sample_view :: ClientView where
  "sample_view = receive_all (sy_views sample_system 0) (take 2 (ch_sent (cc_send sample_conn)))"

lemma sample_view_fields: "cv_seed_session_id sample_view = Some sample_sid"
    "j_epoch sample_journal = cv_seed_epoch sample_view"
  by code_simp+


section \<open>The limits of resume\<close>

text \<open>A connection whose channel nobody reads yet, as during the attach, with what was sent to it.\<close>

definition unread :: "nat \<Rightarrow> SessionId option \<Rightarrow> ServerMessage list \<Rightarrow> SessionHub \<Rightarrow> bool" where
  "unread k f ms h \<longleftrightarrow> (\<exists>c. hm_get (h_clients h) k = Some c \<and> cc_send c = \<lparr>ch_sent = ms, ch_read = 0, ch_closed = False\<rparr>
     \<and> cc_focused_id c = f)"

lemma deliver_unread:
  assumes "unread k f ms h"
  shows "if length ms < CLIENT_QUEUE_CAPACITY
    then snd (deliver k ctx m h) = Delivered \<and> unread k f (ms @ [m]) (fst (deliver k ctx m h))
    else snd (deliver k ctx m h) \<noteq> Delivered \<and> \<not> has_client (fst (deliver k ctx m h)) k"
  using assms
  by (auto simp: unread_def deliver_def try_send_def has_client_def hm_contains_def remove_get)

lemma unread_live: "unread k f ms h \<Longrightarrow> has_client h k"
  by (auto simp: unread_def has_client_def hm_contains_def)

lemma replay_unread:
  assumes "unread k f ms h" "length ms \<le> CLIENT_QUEUE_CAPACITY"
  shows "if length ms + length fs \<le> CLIENT_QUEUE_CAPACITY
    then unread k f (ms @ map (\<lambda>f. M_Event (jf_ev f) e (jf_seq f)) fs) (replay_tail k e fs h)
    else \<not> has_client (replay_tail k e fs h) k"
  using assms
proof (induction fs arbitrary: ms h)
  case (Cons fr fs)
  let ?m = "M_Event (jf_ev fr) e (jf_seq fr)" and ?ctx = "''bootstrap.resume_tail''"
  note d = deliver_unread [OF Cons.prems(1), of ?ctx ?m]
  show ?case
  proof (cases "length ms < CLIENT_QUEUE_CAPACITY")
    case True
    then have "replay_tail k e (fr # fs) h = replay_tail k e fs (fst (deliver k ?ctx ?m h))"
      using d by (cases "deliver k ?ctx ?m h") simp
    then show ?thesis using Cons.IH [of "ms @ [?m]" "fst (deliver k ?ctx ?m h)"] d True
      by (simp del: replay_tail.simps split: if_splits)
  next
    case False
    then have "replay_tail k e (fr # fs) h = fst (deliver k ?ctx ?m h)"
      using d by (cases "deliver k ?ctx ?m h"; cases "snd (deliver k ?ctx ?m h)") auto
    then show ?thesis using d False by simp
  qed
qed simp

lemma update_status_core: "core a = core b \<Longrightarrow> update_status_msg a = update_status_msg b"
  by (cases a; cases b) (simp add: core_def update_status_msg_def)

lemma status_unread:
  assumes "unread k f ms h" "length ms \<le> CLIENT_QUEUE_CAPACITY"
  shows "if length ms + 3 \<le> CLIENT_QUEUE_CAPACITY
    then unread k f (ms @ [session_status_msg (h_track h), update_status_msg h, sm]) (bootstrap_status k sm h)
    else \<not> has_client (bootstrap_status k sm h) k"
proof -
  define h1 where "h1 = fst (deliver k ''bootstrap.session_status'' (session_status_msg (h_track h)) h)"
  define h2 where "h2 = fst (deliver k ''bootstrap.update_status'' (update_status_msg h1) h1)"
  have b: "bootstrap_status k sm h = (if \<not> has_client h1 k then h1 else if \<not> has_client h2 k then h2
      else fst (deliver k ''bootstrap.settings'' sm h2))"
    using unread_live [OF assms(1)] by (simp add: bootstrap_status_def h1_def h2_def Let_def)
  have u: "update_status_msg h1 = update_status_msg h"
    unfolding h1_def by (rule update_status_core [OF core_deliver])
  show ?thesis
    using deliver_unread [OF assms(1), of "''bootstrap.session_status''" "session_status_msg (h_track h)", folded h1_def]
      deliver_unread [of k f "ms @ [session_status_msg (h_track h)]" h1 "''bootstrap.update_status''" "update_status_msg h1", folded h2_def]
      deliver_unread [of k f "ms @ [session_status_msg (h_track h), update_status_msg h]" h2 "''bootstrap.settings''" sm]
      unread_live
    unfolding b u by (auto split: if_splits)
qed

text \<open>The attach after the greeting.\<close>

lemma add_client_hello:
  obtains h2 where "unread (h_next_client_key h) (initial_focus h resume) [hello_msg h2] h2"
    "h_journals h2 = h_journals h" "h_track h2 = h_track h"
    "fst (add_client resume sm h) = bootstrap_status (h_next_client_key h) sm
       (bootstrap_transcript (h_next_client_key h) resume (initial_focus h resume) h2)"
proof -
  let ?k = "h_next_client_key h" and ?f = "initial_focus h resume"
  define h1 where "h1 = register_client ?f h"
  define h2 where "h2 = fst (deliver ?k ''bootstrap.hello'' (hello_msg h1) h1)"
  have "unread ?k ?f [] h1" by (simp add: unread_def h1_def register_client_def)
  from deliver_unread [OF this, of "''bootstrap.hello''" "hello_msg h1"]
  have d: "snd (deliver ?k ''bootstrap.hello'' (hello_msg h1) h1) = Delivered" "unread ?k ?f [hello_msg h1] h2"
    by (simp_all add: CLIENT_QUEUE_CAPACITY_def h2_def)
  have "hello_msg h2 = hello_msg h1"
    using core_deliver [of ?k "''bootstrap.hello''" "hello_msg h1" h1] unfolding h2_def
    by (cases h1; cases "fst (deliver ?k ''bootstrap.hello'' (hello_msg h1) h1)") (simp add: core_def hello_msg_def)
  moreover have "h_journals h2 = h_journals h" "h_track h2 = h_track h"
    unfolding h2_def deliver_fields by (simp_all add: h1_def register_client_def)
  moreover have "fst (add_client resume sm h) = bootstrap_status ?k sm (bootstrap_transcript ?k resume ?f h2)"
    using d(1) by (cases "deliver ?k ''bootstrap.hello'' (hello_msg h1) h1") (simp add: add_client_def h1_def h2_def Let_def)
  ultimately show thesis using that [of h2] d(2) by simp
qed

text \<open>
  Property C7. A resume survives its own replay exactly when it is short: the whole tail goes into the client's
  queue before anything reads from it, behind the greeting and before three status messages, so a
  client that missed more than 124 events is disconnected during the attach although the
  journal's ring (1024 frames) covers it. Reconnecting with the same token gives the same result.
\<close>

theorem resume_fits_iff:
  assumes "hm_get (h_journals h) (rk_session_id r) = Some j" "resumable j r"
  shows "has_client (fst (add_client (Some r) settings_msg h)) (h_next_client_key h)
    \<longleftrightarrow> length (resume_frames j (rk_seq r)) \<le> 124"
proof -
  let ?k = "h_next_client_key h" and ?fs = "resume_frames j (rk_seq r)"
  obtain h2 where h2: "unread ?k (initial_focus h (Some r)) [hello_msg h2] h2" "h_journals h2 = h_journals h"
    "fst (add_client (Some r) settings_msg h) = bootstrap_status ?k settings_msg
       (bootstrap_transcript ?k (Some r) (initial_focus h (Some r)) h2)"
    using add_client_hello by metis
  have b: "bootstrap_transcript ?k (Some r) (initial_focus h (Some r)) h2 = replay_tail ?k (j_epoch j) ?fs h2"
    using assms h2(2) by (simp add: bootstrap_transcript_def)
  note replay = replay_unread [OF h2(1), of ?fs "j_epoch j"]
  show ?thesis
  proof (cases "Suc (length ?fs) \<le> CLIENT_QUEUE_CAPACITY")
    case True
    then have "unread ?k (initial_focus h (Some r))
        ([hello_msg h2] @ map (\<lambda>f. M_Event (jf_ev f) (j_epoch j) (jf_seq f)) ?fs) (replay_tail ?k (j_epoch j) ?fs h2)"
      using replay by (simp add: CLIENT_QUEUE_CAPACITY_def)
    from status_unread [OF this, of settings_msg] True show ?thesis
      unfolding h2(3) b using unread_live by (auto simp: CLIENT_QUEUE_CAPACITY_def split: if_splits)
  next
    case False
    then have "\<not> has_client (replay_tail ?k (j_epoch j) ?fs h2) ?k"
      using replay by (simp add: CLIENT_QUEUE_CAPACITY_def)
    then show ?thesis using False unfolding h2(3) b
      by (simp add: bootstrap_status_def CLIENT_QUEUE_CAPACITY_def)
  qed
qed

definition sample_token :: ResumeToken where
  "sample_token = \<lparr>rk_session_id = sample_sid, rk_epoch = 2, rk_seq = 0\<rparr>"

lemma sample_token_resumable: "resumable sample_journal sample_token"
  by code_simp

theorem resume_fits_iff_witness:
  "has_client (fst (add_client (Some sample_token) sample_settings (sy_hub sample_system)))
     (h_next_client_key (sy_hub sample_system))
   \<longleftrightarrow> length (resume_frames sample_journal 0) \<le> 124"
  using resume_fits_iff [of "sy_hub sample_system" sample_token sample_journal sample_settings]
    sample_journal_get sample_token_resumable by (simp add: sample_token_def)

text \<open>
  A stale token splits the hub's idea of a client from the client's own: when the token's session has a
  journal that cannot be resumed and is not the landing session, the client is registered
  as a viewer of the landing session but is sent the seed of the token's session, which it shows from
  then on. (The steps of \<open>hub_step\<close> leave this case out; everywhere else the two agree.)
\<close>

theorem stale_resume_diverges:
  assumes "hm_get (h_journals h) (rk_session_id r) = Some j" "\<not> resumable j r"
    and "h_default_focus_id h \<noteq> Some (rk_session_id r)" "neutral settings_msg"
  shows "\<exists>c. hm_get (h_clients (fst (add_client (Some r) settings_msg h))) (h_next_client_key h) = Some c
    \<and> cc_focused_id c = h_default_focus_id h
    \<and> cv_seed_session_id (receive_all v (ch_sent (cc_send c))) = Some (rk_session_id r)
    \<and> cc_focused_id c \<noteq> cv_seed_session_id (receive_all v (ch_sent (cc_send c)))"
proof -
  let ?k = "h_next_client_key h" and ?sid = "rk_session_id r"
  have f: "initial_focus h (Some r) = h_default_focus_id h" using assms by (simp add: initial_focus_def)
  obtain h2 where h2: "unread ?k (h_default_focus_id h) [hello_msg h2] h2" "h_journals h2 = h_journals h"
    "fst (add_client (Some r) settings_msg h) = bootstrap_status ?k settings_msg
       (bootstrap_transcript ?k (Some r) (h_default_focus_id h) h2)"
    using add_client_hello [of h "Some r"] f by metis
  let ?h3 = "fst (deliver ?k ''bootstrap.seed'' (seed_msg h2 (Some ?sid)) h2)"
  have b: "bootstrap_transcript ?k (Some r) (h_default_focus_id h) h2 = ?h3"
    using assms h2(2) by (simp add: bootstrap_transcript_def)
  have "unread ?k (h_default_focus_id h) ([hello_msg h2] @ [seed_msg h2 (Some ?sid)]) ?h3"
    using deliver_unread [OF h2(1)] by (simp add: CLIENT_QUEUE_CAPACITY_def)
  from status_unread [OF this, of settings_msg]
  have "unread ?k (h_default_focus_id h) (([hello_msg h2] @ [seed_msg h2 (Some ?sid)])
      @ [session_status_msg (h_track ?h3), update_status_msg ?h3, settings_msg]) (bootstrap_status ?k settings_msg ?h3)"
    by (simp add: CLIENT_QUEUE_CAPACITY_def)
  moreover have "receive_all v (([hello_msg h2] @ [seed_msg h2 (Some ?sid)])
      @ [session_status_msg (h_track ?h3), update_status_msg ?h3, settings_msg]) = receive v (seed_msg h2 (Some ?sid))"
    using assms(4) by (simp add: receive_all_def neutral_receive)
  moreover have "cv_seed_session_id (receive v (seed_msg h2 (Some ?sid))) = Some ?sid"
    using assms(1) h2(2) by (simp add: seed_msg_journal)
  ultimately show ?thesis using assms(3) unfolding h2(3) b unread_def by fastforce
qed

definition other_hub :: SessionHub where
  "other_hub = sample_hub\<lparr>h_journals := hm_insert ''other'' (create_journal 1 3 sample_seed) (h_journals sample_hub)\<rparr>"

theorem stale_resume_diverges_witness:
  "\<exists>c. hm_get (h_clients (fst (add_client (Some \<lparr>rk_session_id = ''other'', rk_epoch = 1, rk_seq = 0\<rparr>)
      sample_settings other_hub))) (h_next_client_key other_hub) = Some c
    \<and> cc_focused_id c = Some sample_sid
    \<and> cv_seed_session_id (receive_all initial_view (ch_sent (cc_send c))) = Some ''other''"
proof -
  have d: "h_default_focus_id other_hub = Some sample_sid" by code_simp
  have n: "sample_sid \<noteq> ''other''" by code_simp
  have j: "hm_get (h_journals other_hub) ''other'' = Some (create_journal 1 3 sample_seed)"
    by (simp add: other_hub_def)
  show ?thesis
    using stale_resume_diverges [of other_hub "\<lparr>rk_session_id = ''other'', rk_epoch = 1, rk_seq = 0\<rparr>"
        "create_journal 1 3 sample_seed" sample_settings initial_view] d n j
    by (auto simp: resumable_def create_journal_def sample_settings_def)
qed

section \<open>Idle eviction\<close>

lemma evict_get:
  "hm_get (h_journals (foldl (\<lambda>h sid. (drop_pending sid h)\<lparr>h_journals := hm_remove sid (h_journals h)\<rparr>) h sids)) sid
   = (if sid \<in> set sids then None else hm_get (h_journals h) sid)"
  by (induction sids arbitrary: h) (auto simp: drop_pending_def)

text \<open>
  Property C8. Idle eviction drops only what nobody needs: a journal that was there and is gone belonged to a
  session that is not the landing session, has no viewer, is neither running nor initializing, has no
  coalesced delta waiting and no warm daemon, had been idle for the configured time, and no
  switch was in flight; every other journal is unchanged.
\<close>

theorem eviction_spares_live_sessions:
  assumes "hm_wf (h_journals h)" "hm_get (h_journals h) sid = Some j"
    and "hm_get (h_journals (evict_idle_journals_at now has_warm h)) sid \<noteq> Some j"
  shows "h_default_focus_id h \<noteq> Some sid \<and> \<not> has_viewer h sid \<and> sid \<notin> set (tk_running (h_track h))
    \<and> sid \<notin> set (tk_initializing (h_track h)) \<and> hm_get (h_pending_deltas h) sid = None \<and> \<not> has_warm sid
    \<and> 0 < h_journal_idle_evict_ms h \<and> h_journal_idle_evict_ms h \<le> int (now - j_last_activity j)
    \<and> h_swaps_in_flight h = 0
    \<and> hm_get (h_journals (evict_idle_journals_at now has_warm h)) sid = None"
proof -
  let ?vs = "map fst (filter (\<lambda>(sid, j). idle_victim now has_warm h sid j) (h_journals h))"
  have on: "0 < h_journal_idle_evict_ms h" "h_swaps_in_flight h = 0"
    using assms(2,3) by (auto simp: evict_idle_journals_at_def split: if_splits)
  then have get: "hm_get (h_journals (evict_idle_journals_at now has_warm h)) sid
      = (if sid \<in> set ?vs then None else hm_get (h_journals h) sid)"
    using evict_get [of h ?vs sid] by (simp add: evict_idle_journals_at_def Let_def del: set_map)
  then have "sid \<in> set ?vs" using assms(2,3) by (metis (no_types, lifting))
  then obtain j' where "(sid, j') \<in> set (h_journals h)" "idle_victim now has_warm h sid j'" by auto
  then have "idle_victim now has_warm h sid j" using assms(2) hm_wf_get_iff [OF assms(1)] by (metis option.inject)
  then show ?thesis using on get \<open>sid \<in> set ?vs\<close> unfolding idle_victim_def hm_contains_def by simp
qed

definition idle_hub :: SessionHub where
  "idle_hub = other_hub\<lparr>h_journal_idle_evict_ms := 1000\<rparr>"

theorem eviction_spares_live_sessions_witness:
  "hm_get (h_journals (evict_idle_journals_at 5000 (\<lambda>_. False) idle_hub)) ''other'' = None
   \<and> h_default_focus_id idle_hub \<noteq> Some ''other''"
proof -
  have wf: "hm_wf (h_journals idle_hub)" unfolding hm_wf_def by code_simp
  have j: "hm_get (h_journals idle_hub) ''other'' = Some (create_journal 1 3 sample_seed)"
    by (simp add: idle_hub_def other_hub_def)
  have "hm_get (h_journals (evict_idle_journals_at 5000 (\<lambda>_. False) idle_hub)) ''other'' = None" by code_simp
  then show ?thesis using eviction_spares_live_sessions [OF wf j, of 5000 "\<lambda>_. False"] by simp
qed

section \<open>The update permit\<close>

text \<open>
  Property C9. An update permit is good for one use, at the right moment: it is granted only while no session runs or
  initializes, for the current generation, nonce and commit, before its expiry; afterwards the
  hub is applying, and no further permit is granted on the state it leaves, whatever is presented.
\<close>

theorem permit_single_use:
  assumes "consume_update_permit now generation nonce sha h = (h', Inr ())"
  shows "tk_running (h_track h) = [] \<and> tk_initializing (h_track h) = []
    \<and> generation = h_authorization_generation h \<and> h_lease_nonce h = Some nonce
    \<and> h_lease_sha h = Some sha \<and> h_update_sha h = Some sha
    \<and> (case h_lease_expires_at h of None \<Rightarrow> False | Some expiry \<Rightarrow> now < expiry)
    \<and> h_applying h' \<and> snd (consume_update_permit now' generation' nonce' sha' h') \<noteq> Inr ()"
proof -
  define h1 where "h1 = (clear_update_lease h)\<lparr>h_applying := True, h_update_status := None, h_update_reason := None\<rparr>"
  have granted: "tk_running (h_track h) = [] \<and> tk_initializing (h_track h) = []
    \<and> generation = h_authorization_generation h \<and> h_lease_nonce h = Some nonce
    \<and> h_lease_sha h = Some sha \<and> h_update_sha h = Some sha
    \<and> (case h_lease_expires_at h of None \<Rightarrow> False | Some expiry \<Rightarrow> now < expiry)
    \<and> h' = broadcast (update_status_msg h1) h1"
    using assms unfolding consume_update_permit_def h1_def
    by (simp add: Let_def split: if_splits option.splits)
  then have h': "h' = broadcast (update_status_msg h1) h1" by blast
  have "h_lease_nonce h' = None" "h_applying h'"
    unfolding h' broadcast_fields by (simp_all add: h1_def clear_update_lease_def)
  then have "snd (consume_update_permit now' generation' nonce' sha' h') \<noteq> Inr ()"
    by (simp add: consume_update_permit_def Let_def)
  then show ?thesis using granted \<open>h_applying h'\<close> by blast
qed

definition leased_hub :: SessionHub where
  "leased_hub = (empty_hub sample_cfg 1)\<lparr>h_update_sha := Some ''abc'', h_lease_nonce := Some ''n'', h_lease_sha := Some ''abc'',
     h_lease_expires_at := Some 100\<rparr>"

theorem permit_single_use_witness:
  "h_applying (fst (consume_update_permit 50 0 ''n'' ''abc'' leased_hub))
   \<and> snd (consume_update_permit 60 0 ''n'' ''abc'' (fst (consume_update_permit 50 0 ''n'' ''abc'' leased_hub))) \<noteq> Inr ()"
proof -
  have "snd (consume_update_permit 50 0 ''n'' ''abc'' leased_hub) = Inr ()" by code_simp
  then have "consume_update_permit 50 0 ''n'' ''abc'' leased_hub
      = (fst (consume_update_permit 50 0 ''n'' ''abc'' leased_hub), Inr ())"
    by (simp add: prod_eq_iff)
  from permit_single_use [OF this, of 60 0 "''n''" "''abc''"] show ?thesis by blast
qed

text \<open>
  An authorized update goes through: when the desktop's update is staged, nothing is being applied and no
  session is busy, the permit issued by a client's request is granted to whoever presents its
  generation, nonce and commit within 30 seconds, and refused as expired afterwards.
\<close>

theorem authorized_update_granted:
  assumes "h_update_sha h = Some sha" "\<not> h_applying h"
    and "tk_running (h_track h) = []" "tk_initializing (h_track h) = []"
  shows "snd (consume_update_permit t (h_authorization_generation h + 1) nonce sha
      (apply_update now unix_ms nonce h)) = (if t < now + 30000 then Inr () else Inl ''expired'')"
proof -
  define h1 where "h1 = h\<lparr>h_authorization_generation := h_authorization_generation h + 1,
    h_lease_nonce := Some nonce, h_lease_sha := h_update_sha h, h_lease_expires_at := Some (now + UPDATE_LEASE_MS),
    h_lease_expires_at_unix_ms := Some (unix_ms + UPDATE_LEASE_MS), h_update_status := None, h_update_reason := None\<rparr>"
  have "apply_update now unix_ms nonce h = broadcast (update_status_msg h1) h1"
    using assms by (simp add: apply_update_def authorize_update_def h1_def Let_def)
  then show ?thesis
    using assms by (simp add: consume_update_permit_def Let_def) (simp add: h1_def UPDATE_LEASE_MS_def)
qed

definition staged_hub :: SessionHub where
  "staged_hub = (empty_hub sample_cfg 1)\<lparr>h_update_sha := Some ''abc''\<rparr>"

theorem authorized_update_granted_witness:
  "snd (consume_update_permit 40 1 ''n'' ''abc'' (apply_update 30 99 ''n'' staged_hub)) = Inr ()"
  using authorized_update_granted [of staged_hub "''abc''" 40 "''n''" 30 99]
  by (simp add: staged_hub_def empty_hub_def empty_tracking_def)

section \<open>The prompt ledger\<close>

definition ledger_ok :: "SessionHub \<Rightarrow> bool" where
  "ledger_ok h \<longleftrightarrow> distinct (h_prompt_result_order h) \<and> hm_wf (h_prompt_results h)
     \<and> set (h_prompt_result_order h) = set (hm_keys (h_prompt_results h))
     \<and> length (h_prompt_result_order h) \<le> PROMPT_RESULT_CAP"

lemma trim_small: "length order \<le> PROMPT_RESULT_CAP \<Longrightarrow> trim_prompt_ledger order rs = (order, rs)"
  by (cases order) simp_all

lemma trim_one:
  "length order = PROMPT_RESULT_CAP \<Longrightarrow> trim_prompt_ledger (p # order) rs = (order, hm_remove p rs)"
  by (simp add: trim_small)

lemma keys_insert: "set (hm_keys (hm_insert k v m)) = insert k (set (hm_keys m))"
  by (auto simp: hm_contains_iff [symmetric] hm_contains_def)

lemma keys_remove: "set (hm_keys (hm_remove k m)) = set (hm_keys m) - {k}"
  by (auto simp: hm_contains_iff [symmetric] hm_contains_def)

text \<open>
  The ledger of prompt results keeps its index and its bound, answers a repeated prompt id with the
  result just cached, and forgets at most the oldest other entry, and that one only when it
  is full.
\<close>

theorem prompt_ledger_remembers:
  assumes "ledger_ok h"
  shows "ledger_ok (cache_prompt_result pid m h)
    \<and> check_prompt_idempotency (Some pid) (cache_prompt_result pid m h) = Some m
    \<and> (\<forall>q. q \<noteq> pid \<longrightarrow> check_prompt_idempotency (Some q) (cache_prompt_result pid m h) =
        (if length (filter (\<lambda>p. p \<noteq> pid) (h_prompt_result_order h)) = PROMPT_RESULT_CAP
            \<and> q = hd (filter (\<lambda>p. p \<noteq> pid) (h_prompt_result_order h))
         then None else check_prompt_idempotency (Some q) h))"
proof -
  let ?rs = "h_prompt_results h"
  define order where "order = filter (\<lambda>p. p \<noteq> pid) (h_prompt_result_order h)"
  have ok: "distinct order" "pid \<notin> set order" "length order \<le> PROMPT_RESULT_CAP"
      "set order = set (hm_keys ?rs) - {pid}" "hm_wf ?rs"
    using assms by (auto simp: ledger_ok_def order_def intro: le_trans [OF length_filter_le])
  have norm: "(if hm_contains ?rs pid then filter (\<lambda>p. p \<noteq> pid) (h_prompt_result_order h) else h_prompt_result_order h) = order"
    using assms by (auto simp: order_def ledger_ok_def hm_contains_iff intro!: filter_id_conv [THEN iffD2, symmetric])
  show ?thesis
  proof (cases "length order = PROMPT_RESULT_CAP")
    case False
    then have "cache_prompt_result pid m h
        = h\<lparr>h_prompt_results := hm_insert pid m ?rs, h_prompt_result_order := order @ [pid]\<rparr>"
      using ok(3) norm by (simp add: cache_prompt_result_def trim_small)
    then show ?thesis using ok False
      by (auto simp: ledger_ok_def check_prompt_idempotency_def keys_insert simp flip: order_def)
  next
    case True
    then obtain p rest where p: "order = p # rest" by (cases order) (auto simp: PROMPT_RESULT_CAP_def)
    have "cache_prompt_result pid m h
        = h\<lparr>h_prompt_results := hm_remove p (hm_insert pid m ?rs), h_prompt_result_order := rest @ [pid]\<rparr>"
      using True norm p trim_one [of "rest @ [pid]" p] by (simp add: cache_prompt_result_def)
    then show ?thesis using ok True p
      by (auto simp: ledger_ok_def check_prompt_idempotency_def keys_insert keys_remove simp flip: order_def)
  qed
qed

theorem prompt_ledger_remembers_witness:
  "check_prompt_idempotency (Some ''p'') (cache_prompt_result ''p'' M_Pong sample_hub) = Some M_Pong"
proof -
  have "ledger_ok sample_hub" unfolding ledger_ok_def hm_wf_def PROMPT_RESULT_CAP_def by code_simp
  from prompt_ledger_remembers [OF this, of "''p''" M_Pong] show ?thesis by blast
qed

section \<open>Failed switches\<close>

text \<open>
  Property C10. A switch that fails leaves everything where it was: every journal stays, every client that is still
  connected keeps its focus, the flight of the switching client is over, and no session is returned.
\<close>

theorem failed_switch_changes_nothing:
  assumes "switch_complete env now key (Inl raw) reseed suppress h = Some (h', sid, queued)"
  shows "sid = None \<and> h_journals h' = h_journals h \<and> h_default_focus_id h' = h_default_focus_id h
    \<and> (\<forall>k c'. hm_get (h_clients h') k = Some c' \<longrightarrow>
         (\<exists>c. hm_get (h_clients h) k = Some c \<and> cc_focused_id c' = cc_focused_id c)
         \<and> (k = key \<longrightarrow> \<not> cc_switch_in_flight c' \<and> cc_pending_switch c' = None))"
proof -
  define h1 where "h1 = h\<lparr>h_swaps_in_flight := h_swaps_in_flight h - 1\<rparr>"
  obtain msg kind where err: "render_switch_error raw = (msg, kind)" by (cases "render_switch_error raw")
  define h2 where "h2 = (if \<not> superseded h1 key \<and> \<not> suppress
    then send_to_client key (M_Error msg kind) h1 else h1)"
  have h': "h' = fst (release_flight key h2)" "sid = None"
    using assms err by (auto simp: switch_complete_def Let_def h2_def h1_def split: prod.splits)
  have h2: "h_journals h2 = h_journals h" "h_default_focus_id h2 = h_default_focus_id h"
    by (simp_all add: h2_def h1_def)
  have live: "\<exists>c. hm_get (h_clients h) k = Some c \<and> cc_focused_id d = cc_focused_id c"
    if "hm_get (h_clients h2) k = Some d" for k d
    using that deliver_focus [of key "''per_client''" "M_Error msg kind" h1 k d]
    by (auto simp: h2_def h1_def send_to_client_def split: if_splits)
  show ?thesis
  proof (cases "hm_get (h_clients h2) key")
    case None
    then show ?thesis using h' h2 live by (auto simp: release_flight_def)
  next
    case (Some d)
    then show ?thesis using h' h2 live by (auto simp: release_flight_def split: if_splits)
  qed
qed

theorem failed_switch_changes_nothing_witness:
  "h_journals (fst (the (switch_complete sample_env 9 0 (Inl (Unexpected ''open'' ''x'')) False False (sy_hub sample_system))))
     = h_journals (sy_hub sample_system)"
proof -
  let ?r = "switch_complete sample_env 9 0 (Inl (Unexpected ''open'' ''x'')) False False (sy_hub sample_system)"
  obtain h' sid q where r: "?r = Some (h', sid, q)"
    by (cases ?r) (auto simp: switch_complete_def Let_def split: prod.splits)
  from failed_switch_changes_nothing [OF r] r show ?thesis by simp
qed

section \<open>Detached sessions\<close>

lemma neutral_push: "neutral m \<Longrightarrow> push_conn m c = Some c' \<Longrightarrow>
   receive_all v (ch_sent (cc_send c')) = receive_all v (ch_sent (cc_send c))"
  by (simp add: push_conn_Some neutral_receive)

text \<open>What a client still connected after a neutral broadcast shows is what it showed before.\<close>

lemma broadcast_view:
  assumes "hm_wf (h_clients h)" "neutral m" "hm_get (h_clients (broadcast m h)) k = Some c'"
  shows "\<exists>c. hm_get (h_clients h) k = Some c \<and> cc_focused_id c' = cc_focused_id c
    \<and> receive_all v (ch_sent (cc_send c')) = receive_all v (ch_sent (cc_send c))"
proof -
  have "distinct (hm_keys (h_clients h))" using assms(1) by (simp add: hm_wf_def hm_keys_def)
  then have "hm_get (h_clients h) k = Some c' \<or> (\<exists>c. hm_get (h_clients h) k = Some c \<and> push_conn m c = Some c')"
    using assms(3) by (auto simp: broadcast_def deliver_all_get bind_eq_Some_conv split: if_splits)
  then show ?thesis using neutral_push [OF assms(2)] push_conn_Some(2) by metis
qed

lemma reopened_view:
  assumes wf: "hm_wf (h_clients h)" and fin: "finish_switch env now key seed False h = Some (h', Some sid)"
    and absent: "hm_get (h_journals h) sid = None" and k: "k \<noteq> key" "hm_get (h_clients h') k = Some c'"
  shows "\<exists>c. hm_get (h_clients h) k = Some c \<and> cc_focused_id c' = cc_focused_id c
      \<and> receive_all v (ch_sent (cc_send c')) = receive_all v (ch_sent (cc_send c))"
    and "\<exists>j. hm_get (h_journals h') sid = Some j \<and> j_epoch j = Suc (h_epoch_counter h)"
proof -
  obtain h1 mc where fs: "fold_swap_seed env seed h = Some (h1, mc, Some sid)"
    using fin by (auto simp: finish_switch_def Let_def split: if_splits option.splits prod.splits)
  then have h1: "h_clients h1 = h_clients h" "h_journals h1 = h_journals h" "h_epoch_counter h1 = h_epoch_counter h"
    by (auto simp: fold_swap_seed_def split: option.splits prod.splits)
  define g where "g = (drop_pending sid h1)\<lparr>h_epoch_counter := Suc (h_epoch_counter h1),
    h_journals := hm_insert sid (create_journal now (Suc (h_epoch_counter h1)) seed) (h_journals h1)\<rparr>"
  define h2 where "h2 = start_journal now False mc sid seed h1"
  have g: "h_clients g = h_clients h" "hm_get (h_journals g) sid = Some (create_journal now (Suc (h_epoch_counter h)) seed)"
    using h1 by (simp_all add: g_def drop_pending_def)
  have h2: "h2 = (if mc then broadcast_session_status g else g)"
    using absent h1 by (simp add: h2_def start_journal_def g_def hm_contains_def Let_def)
  have "hm_get (h_clients h') k = hm_get (h_clients h2) k \<and> h_journals h' = h_journals h2"
    using fin fs k(1) by (auto simp: finish_switch_def Let_def h2_def send_to_client_def deliver_get
        set_client_focus_def hm_get_modify split: if_splits)
  then have get: "hm_get (h_clients h2) k = Some c'" and js: "h_journals h' = h_journals h2" using k(2) by auto
  show "\<exists>c. hm_get (h_clients h) k = Some c \<and> cc_focused_id c' = cc_focused_id c
      \<and> receive_all v (ch_sent (cc_send c')) = receive_all v (ch_sent (cc_send c))"
    using get broadcast_view [of g "session_status_msg (h_track g)" k c' v] wf g(1)
    unfolding h2 broadcast_session_status_def by (auto split: if_splits)
  show "\<exists>j. hm_get (h_journals h') sid = Some j \<and> j_epoch j = Suc (h_epoch_counter h)"
    using js g(2) unfolding h2 by (auto simp: create_journal_def)
qed

lemma detached_hub:
  assumes wf: "hm_wf (h_clients h)" and j: "hm_contains (h_journals h) sid"
  shows "h_epoch_counter (drop_detached sid h) = Suc (h_epoch_counter h)"
    and "hm_get (h_journals (drop_detached sid h)) sid = None"
    and "hm_wf (h_clients (drop_detached sid h))"
    and "hm_get (h_clients h) k = Some c \<Longrightarrow> cc_focused_id c = Some sid \<Longrightarrow>
      hm_get (h_clients (drop_detached sid h)) k = push_conn (M_Seed (Some sid) (Suc (h_epoch_counter h)) 0 []) c"
proof -
  define h1 where "h1 = (drop_pending sid (if h_default_focus_id h = Some sid then h\<lparr>h_default_focus_id := None\<rparr> else h))
    \<lparr>h_journals := hm_remove sid (h_journals h), h_epoch_counter := Suc (h_epoch_counter h)\<rparr>"
  let ?m = "M_Seed (Some sid) (Suc (h_epoch_counter h)) 0 []"
  have h1: "h_clients h1 = h_clients h" "h_epoch_counter h1 = Suc (h_epoch_counter h)"
    "hm_get (h_journals h1) sid = None" by (simp_all add: h1_def drop_pending_def)
  have d: "drop_detached sid h = deliver_all (clients_focused h1 sid) ''detach_session.empty_seed'' ?m h1"
    using j by (simp add: drop_detached_def Let_def h1_def drop_pending_def)
  have wf1: "hm_wf (h_clients h1)" using wf h1 by simp
  show "h_epoch_counter (drop_detached sid h) = Suc (h_epoch_counter h)"
    "hm_get (h_journals (drop_detached sid h)) sid = None" unfolding d using h1 by simp_all
  show "hm_wf (h_clients (drop_detached sid h))" unfolding d using deliver_all_wf wf1 by blast
  assume c: "hm_get (h_clients h) k = Some c" "cc_focused_id c = Some sid"
  have "k \<in> set (clients_focused h1 sid)" using focused_keys(2) [OF wf1] c h1 by auto
  then show "hm_get (h_clients (drop_detached sid h)) k = push_conn ?m c"
    using c h1 focused_keys(1) [OF wf1] unfolding d by (simp add: deliver_all_get)
qed

text \<open>
  Reopening a detached session strands the clients that were viewing it: a client focused on a session
  that is detached, and then opened by another client, is still focused on that session, but the
  view it has after receiving everything is at an older epoch than the session's new journal, so
  it drops every further event of the session without asking for a seed.
\<close>

theorem detached_viewer_stranded:
  assumes "hm_wf (h_clients h)" "hm_contains (h_journals h) sid"
    and "hm_get (h_clients h) k = Some c" "cc_focused_id c = Some sid" "k \<noteq> key"
    and "finish_switch env now key seed False (drop_detached sid h) = Some (h', Some sid)"
    and "hm_get (h_clients h') k = Some c'"
  shows "cc_focused_id c' = Some sid
    \<and> (\<exists>j. hm_get (h_journals h') sid = Some j
         \<and> receive (receive_all v (ch_sent (cc_send c'))) (M_Event ev (j_epoch j) seq)
           = receive_all v (ch_sent (cc_send c')))"
proof -
  note d = detached_hub [OF assms(1,2)]
  obtain m where m: "hm_get (h_clients (drop_detached sid h)) k = Some m" "cc_focused_id c' = cc_focused_id m"
      "receive_all v (ch_sent (cc_send c')) = receive_all v (ch_sent (cc_send m))"
    using reopened_view(1) [OF d(3) assms(6) d(2) assms(5,7)] by blast
  then have push: "push_conn (M_Seed (Some sid) (Suc (h_epoch_counter h)) 0 []) c = Some m"
    using d(4) [OF assms(3,4)] by simp
  have "cc_focused_id c' = Some sid" using m(2) push_conn_Some(2) [OF push] assms(4) by simp
  moreover have "cv_seed_epoch (receive_all v (ch_sent (cc_send c'))) = Suc (h_epoch_counter h)"
    using m(3) push_conn_Some(1) [OF push] by simp
  moreover obtain j where "hm_get (h_journals h') sid = Some j" "j_epoch j = Suc (Suc (h_epoch_counter h))"
    using reopened_view(2) [OF d(3) assms(6) d(2) assms(5,7)] d(1) by auto
  ultimately show ?thesis by auto
qed

text \<open>Two clients view the landing session; the second detaches it and opens it again.\<close>

definition two_viewers :: SessionHub where
  "two_viewers = fst (add_client None sample_settings (sy_hub sample_system))"

definition reopened :: SessionHub where
  "reopened = fst (the (finish_switch sample_env 9 1 sample_seed False (drop_detached sample_sid two_viewers)))"

theorem detached_viewer_stranded_witness:
  "cc_focused_id (the (hm_get (h_clients reopened) 0)) = Some sample_sid"
proof -
  have wf: "hm_wf (h_clients two_viewers)" unfolding hm_wf_def by code_simp
  have j: "hm_contains (h_journals two_viewers) sample_sid" by code_simp
  have f: "map_option cc_focused_id (hm_get (h_clients two_viewers) 0) = Some (Some sample_sid)" by code_simp
  have fin: "map_option snd (finish_switch sample_env 9 1 sample_seed False (drop_detached sample_sid two_viewers))
      = Some (Some sample_sid)" by code_simp
  have live: "hm_get (h_clients reopened) 0 = Some (the (hm_get (h_clients reopened) 0))" by code_simp
  have fin': "finish_switch sample_env 9 1 sample_seed False (drop_detached sample_sid two_viewers)
      = Some (reopened, Some sample_sid)"
    using fin by (cases "finish_switch sample_env 9 1 sample_seed False (drop_detached sample_sid two_viewers)")
      (auto simp: reopened_def)
  obtain c where c: "hm_get (h_clients two_viewers) 0 = Some c" "cc_focused_id c = Some sample_sid"
    using f by (cases "hm_get (h_clients two_viewers) 0") auto
  show ?thesis
    using detached_viewer_stranded [OF wf j c _ fin' live, of initial_view "E_SessionReset sample_base" 1] by simp
qed

end
