(* ===== verification/Daemon_Types.thy ===== *)
theory Daemon_Types
  imports Session_Types
begin

text \<open>
  The daemon's wire vocabulary of \<^verbatim>\<open>server/pantoken-daemon-types/src/lib.rs\<close>, as far as the event
  mapper, the host-UI bridge and the driver read it: the event union \<^verbatim>\<open>DaemonEvent\<close> with all its
  variants (\<open>D_X\<close> is \<^verbatim>\<open>DaemonEvent::X\<close>, its arguments are the variant's fields in the order of the
  source), the payload types it carries and the state snapshot of \<^verbatim>\<open>GET /state\<close>. Types the protocol
  also has under the same name carry a \<open>Daemon\<close> prefix. An \<^verbatim>\<open>i32\<close> is an \<open>int\<close>: these values are copied
  and printed, and compared with zero.
\<close>

section \<open>Enumerations\<close>

datatype (plugins only: code) AskUserQuestionMode = Am_SingleSelect | Am_MultiSelect | Am_Text

datatype (plugins only: code) CancellationReason = Cn_UserCancelled | Cn_Shutdown | Cn_HookBlocked

datatype (plugins only: code) Capability =
  Cap_ReadFiles | Cap_WriteFiles | Cap_Network | Cap_Shell | Cap_ModelAccess | Cap_SessionState

datatype (plugins only: code) ClassifierOutcome = Co_Allow | Co_Unsure | Co_Deny

datatype (plugins only: code) CompactionReason = Cp_Threshold | Cp_Manual

datatype (plugins only: code) FlagMode = Fm_Included | Fm_Referenced

datatype (plugins only: code) HookOutcome = Ho_Allowed | Ho_Blocked | Ho_Suppressed | Ho_Error

datatype (plugins only: code) InterrogativeType =
  It_Permission | It_Confirmation | It_Clarification | It_Capability | It_PlanHandoff | It_GoalProposal

datatype (plugins only: code) DaemonMcpServerStatus = Dms_Connected | Dms_Disconnected | Dms_Reconnecting | Dms_Disabled

datatype (plugins only: code) McpTransportKind = Mt_Stdio | Mt_Http

datatype (plugins only: code) PersistenceTarget = Pt_Session | Pt_ProjectLocal | Pt_Project | Pt_UserLocal | Pt_User

datatype (plugins only: code) ProviderErrorPhase = Pp_HttpResponse | Pp_SseEvent | Pp_LocalPreSendGuard

datatype (plugins only: code) SubagentResultKind = Sr_Success | Sr_Failure | Sr_Cancelled

datatype (plugins only: code) TitleChangeSource = Tc_Operator | Tc_Inferred | Tc_Fallback

datatype (plugins only: code) DaemonTodoStatus = Dtd_Pending | Dtd_InProgress | Dtd_Done | Dtd_Blocked

datatype (plugins only: code) ToolLoading = Tl_Eager | Tl_NativeDeferred | Tl_NoTools

datatype (plugins only: code) SourceControlKind = Sc_Git | Sc_Jj | Sc_Sapling

type_synonym PromptId = string
type_synonym i32 = int

section \<open>Payloads\<close>

record AskUserQuestionOption =
  ao_description :: string
  ao_id :: string
  ao_justification :: "string option"
  ao_label :: string
  ao_preview :: "string option"

record AskUserQuestion =
  aq_allow_free_text :: "bool option"
  aq_context :: "string option"
  aq_id :: string
  aq_mode :: AskUserQuestionMode
  aq_options :: "AskUserQuestionOption list option"
  aq_question :: string

record AskUserQuestionPayload =
  ap_questions :: "AskUserQuestion list"

record AskUserQuestionReply =
  ar_free_text :: "string option"
  ar_question_id :: string
  ar_selected_option_ids :: "string list option"

datatype (plugins only: code) BlockDeltaPayload =
    Bd_Text string
  | Bd_ToolUseInput string
  | Bd_Thinking string
  | Bd_SignatureDelta string
  | Bd_RedactedThinking string
  | Bd_OpenAiReasoningOpaque string string
  | Bd_OpenAiReasoningSummary string

datatype (plugins only: code) ContentBlockKind =
    Ck_Text
  | Ck_ToolUse string string "json_value option"
  | Ck_Thinking
  | Ck_RedactedThinking
  | Ck_OpenAiReasoningOpaque

record CacheMissAlert =
  cm_occupancy_tokens :: i32

record ClarificationOption =
  co_key :: string
  co_label :: string

record ContextUsageSnapshot =
  cu_limit_tokens :: i32
  cu_used_tokens :: i32

record GoalFileReference =
  gf_display_path :: string
  gf_path :: string

record TerminalReason =
  tr_detail :: "string option"
  tr_kind :: string

record CurrentGoal =
  cg_activated_at :: string
  cg_blocked_at :: "string option"
  cg_completed_at :: "string option"
  cg_continuation_count :: i32
  cg_created_at :: string
  cg_file :: GoalFileReference
  cg_id :: string
  cg_last_reiterated_at :: "string option"
  cg_lifecycle :: string
  cg_source :: string
  cg_summary :: string
  cg_terminal_reason :: "TerminalReason option"
  cg_updated_at :: string

record ExtensionContext =
  ec_capabilities :: "Capability list"
  ec_extension_name :: string
  ec_manifest_summary :: string

datatype (plugins only: code) FailureReason =
    Fr_NoModelFits
  | Fr_ProviderError string
  | Fr_RateLimited "i64 option"
  | Fr_EmptySummary
  | Fr_InternalError string

record FlagEntry =
  fe_mode :: FlagMode
  fe_path :: string

record GoalProposalActionLabels =
  gl_accept :: string
  gl_reject :: string

record GoalProposalContext =
  gp_action_labels :: GoalProposalActionLabels
  gp_proposed_file_path :: "string option"
  gp_proposed_summary :: string
  gp_title :: string

record SubagentOutcome =
  so_kind :: SubagentResultKind
  so_message :: "string option"

datatype (plugins only: code) NotificationType =
    Nt_JobComplete "i32 option"
  | Nt_HookResult
  | Nt_SubagentComplete string SubagentOutcome
  | Nt_ExtensionMessage string
  | Nt_Unknown

record Notification =
  nf_detail :: "json_value option"
  nf_id :: string
  nf_notification_type :: NotificationType
  nf_source :: string
  nf_summary :: string
  nf_timestamp :: string

record PendingTurnInputItem =
  pi_admission_prompt_id :: PromptId
  pi_content :: string
  pi_id :: string

record PendingTurnInputSnapshot =
  pis_items :: "PendingTurnInputItem list"
  pis_queue_revision :: i64

record PermissionCandidateRuleFloorContext =
  pf_subject :: "string option"
  pf_subject_kind :: "string option"
  pf_tool_name :: string

record PermissionCandidateRuleContext =
  pr_candidate_rule_raw :: string
  pr_candidate_rule_resolved_today :: string
  pr_default_target :: PersistenceTarget
  pr_floor_context :: PermissionCandidateRuleFloorContext
  pr_keep_targets :: "PersistenceTarget list"

record ModelLocator =
  ml_provider :: string
  ml_provider_name :: string

datatype (plugins only: code) PermissionMonitor =
    Mon_Standard
  | Mon_Bypass
  | Mon_BypassPlus
  | Mon_Autonomous "ModelLocator option" "string option" "i32 option"

record PermissionToolCallContext =
  ptc_input :: json_value
  ptc_tool_name :: string
  ptc_tool_use_id :: string

record PlanHandoffActionLabels =
  pal_cancel :: string
  pal_implement_current_context :: string
  pal_implement_new_context :: string
  pal_refuse :: "string option"

record PlanHandoffContext =
  ph_action_labels :: PlanHandoffActionLabels
  ph_display_path :: string
  ph_plan_path :: string
  ph_plan_text :: string
  ph_target_facet :: string
  ph_title :: string

record ProviderUpstreamErrorMetadata =
  pu_code :: "string option"
  pu_event_type :: "string option"
  pu_http_status :: "i32 option"
  pu_message_char_length :: "i64 option"
  pu_phase :: ProviderErrorPhase

datatype (plugins only: code) ProviderError =
    Pe_RateLimited "i64 option"
  | Pe_AuthFailed
  | Pe_LoginRequired string
  | Pe_ModelNotFound
  | Pe_ContextTooLarge "ProviderUpstreamErrorMetadata option"
  | Pe_Transport string "string option"
  | Pe_ProtocolMalformed string
  | Pe_Canceled
  | Pe_Other string string

record ProviderUsageSnapshot =
  pus_boxed_until :: "string option"
  pus_concurrency_hard_cap :: "i32 option"
  pus_concurrency_limit :: "i32 option"
  pus_concurrent_sessions :: "i32 option"
  pus_degraded :: "bool option"
  pus_remaining_requests :: "i32 option"
  pus_request_hard_cap :: "i32 option"
  pus_request_limit :: "i32 option"
  pus_request_utilization_bps :: "i32 option"
  pus_request_window_seconds :: "i32 option"
  pus_requests_in_window :: "i32 option"

record ResolvedPromptReference =
  rp_file_kind :: "string option"
  rp_kind :: string
  rp_name :: string

datatype (plugins only: code) SystemReminderReason =
    Rr_SessionStart
  | Rr_SessionResumed
  | Rr_PostCompaction string
  | Rr_PostContextCleared
  | Rr_HookAdditionalContext string
  | Rr_SkillReference string "PromptId option"
  | Rr_FileReference string "PromptId option"
  | Rr_SubagentReference string "PromptId option"
  | Rr_ForcedToolCall string
  | Rr_ContextPressure
  | Rr_TaskTrackingNudge
  | Rr_TodoStatusNudge
  | Rr_GoalReminder
  | Rr_PlanModeReinforcement
  | Rr_PlanReviewRequired
  | Rr_PlanVerification
  | Rr_CwdChanged
  | Rr_WorkingDirectoryDeleted
  | Rr_McpServerDisabled string
  | Rr_McpServerEnabled string
  | Rr_PermissionRuleMessage string
  | Rr_EmptyResponseNudge
  | Rr_NotificationDrain
  | Rr_PlanReentryTodoCleanup

datatype (plugins only: code) ToolExposureReason =
    Te_ModelChanged
  | Te_FacetChanged
  | Te_ReloadAffectedToolLoading
  | Te_CompactionReset
  | Te_EagerFallbackActivated
  | Te_SessionEditFormatRelocked string string

datatype (plugins only: code) ToolRevealSource = Ts_ToolSearch

datatype (plugins only: code) UsageAction = Ua_Proceed | Ua_Delay i64 | Ua_Backoff i64

datatype (plugins only: code) InterrogativeResponse =
    Ir_Cancel
  | Ir_PermissionAnswer bool "PersistenceTarget option"
  | Ir_ConfirmationAnswer bool
  | Ir_ClarificationChoice string
  | Ir_ClarificationText string
  | Ir_CapabilityAnswer bool
  | Ir_PlanHandoffAnswer json_value
  | Ir_GoalProposalAnswer bool
  | Ir_AskUserQuestionAnswers "AskUserQuestionReply list"

section \<open>Events\<close>

text \<open>The handle field of every variant that has one is its last argument of type \<open>string option\<close>
  unless the source orders a later field behind it.\<close>

datatype (plugins only:) DaemonEvent =
    D_Heartbeat "string option" string
  | D_ContentBlockStart i32 ContentBlockKind PromptId "string option"
  | D_ContentBlockDelta i32 BlockDeltaPayload PromptId "string option"
  | D_ContentBlockStop i32 PromptId "string option"
  | D_MessageStart PromptId "string option"
  | D_MessageComplete "CacheMissAlert option" PromptId "string option"
  | D_PendingTurnInputQueued PromptId string string i64 "string option"
  | D_PendingTurnInputDequeued string i64 "string option"
  | D_PendingTurnInputDrained "PromptId list" string PromptId "string list" i64 i64
      "ResolvedPromptReference list option" "string option"
  | D_PendingTurnInputDiscarded "PromptId list option" "string option" "string list"
      "ResolvedPromptReference list option" i64 string "string option" "string option"
  | D_TurnCancelled PromptId CancellationReason "string option"
  | D_ModelError ProviderError PromptId "string option"
  | D_StreamDiscontinuity i64 "string option"
  | D_ToolCall string "json_value option" string PromptId "string option"
  | D_ToolResult string "string option" "json_value option" "bool option" PromptId "string option"
  | D_JobPromoted string "string option"
  | D_JobCompleted i32 string "string option"
  | D_JobExpiring string "string option"
  | D_JobCancelled string "string option"
  | D_JobUpdated string "string option"
  | D_SessionRewound i64 "PromptId option" "string option"
  | D_SessionStateChanged "string list" "string option"
  | D_SessionTitleChanged TitleChangeSource "string option" string
  | D_FacetSwitch string "string option" string
  | D_ContextCleared string "string option" "string option"
  | D_ModelSwitch string "string option" "string option" string "string option"
  | D_PermissionMonitorSwitch PermissionMonitor "string option" PermissionMonitor
  | D_Interrogative "ClarificationOption list option" "ExtensionContext option"
      "GoalProposalContext option" string InterrogativeType "PermissionCandidateRuleContext option"
      "PermissionToolCallContext option" "PlanHandoffContext option" PromptId string "string option"
  | D_AskUserQuestion string AskUserQuestionPayload PromptId "string option"
  | D_HookFired "string option" string string HookOutcome "string option"
  | D_ContextLoaded string string "string option"
  | D_CompactionStarted string CompactionReason "string option"
  | D_CompactionComplete string i64 "string option" i64 i64
  | D_CompactionCancelled string CancellationReason "string option"
  | D_CompactionFailed string FailureReason "string option"
  | D_CompactionRetry i32 string i32 FailureReason "string option"
  | D_SubagentCompactionNotice string string "string option" string
  | D_NotificationQueued Notification "string option"
  | D_NotificationsDrained i32 "string option"
  | D_NotificationAutodrainSwitch bool
  | D_SystemReminder string string string SystemReminderReason string "string option"
  | D_ToolReveal PromptId ToolRevealSource "string option" "string list"
  | D_ToolExposureChanged "i32 option" i32 ToolLoading ToolExposureReason i32 "string option"
  | D_GoalDriverUpdate "CurrentGoal option" "string option" "string option" string
  | D_ClassifierDecision string ClassifierOutcome PromptId "string option" "string option" string
  | D_ExtensionRegistered string "string option"
  | D_SubagentStarted string string string
  | D_SubagentCompleted string SubagentOutcome string
  | D_SubagentMessaged string string string
  | D_McpServerConnected i32 string i32 McpTransportKind
  | D_McpServerDisconnected string string McpTransportKind
  | D_McpServerReconnecting i32 i64 string McpTransportKind
  | D_McpServerDisabled string string McpTransportKind
  | D_ImageReferenceResolved i64 string string PromptId "string option"
  | D_UsageThrottle UsageAction "PromptId option" string ProviderUsageSnapshot "string option"
  | D_RetryWait i32 i64 string string i32 PromptId "string option"
  | D_AgentBlockViolation string "PromptId option" "string option" string

section \<open>The state snapshot\<close>

record TodoSnapshot =
  ts_dependencies :: "i64 list"
  ts_description :: string
  ts_emitted_at :: "string option"
  ts_id :: i64
  ts_status :: DaemonTodoStatus
  ts_title :: string

record McpServerStatusEntry =
  mse_server_name :: string
  mse_status :: DaemonMcpServerStatus
  mse_tool_count :: i32

text \<open>The fields of \<^verbatim>\<open>SessionStateSnapshot\<close> that the server reads; the others are not read anywhere.\<close>

record SessionStateSnapshot =
  sss_active_facet :: string
  sss_active_model :: "string option"
  sss_active_plan :: "string option"
  sss_active_reasoning_effort :: "string option"
  sss_adventurous_handoff_active :: "bool option"
  sss_available_skills :: "string list option"
  sss_available_subagents :: "string list option"
  sss_context_usage :: "ContextUsageSnapshot option"
  sss_current_goal :: "CurrentGoal option"
  sss_cwd :: "string option"
  sss_cwd_stack_depth :: "i64 option"
  sss_flags :: "FlagEntry list"
  sss_mcp_servers :: "McpServerStatusEntry list option"
  sss_pending_interrogatives :: "DaemonEvent list option"
  sss_project_cwd :: "string option"
  sss_session_title :: "string option"
  sss_todos :: "TodoSnapshot list"
  sss_turn_in_flight :: "bool option"

end
