(* ===== verification/Ui_Bridge.thy ===== *)
theory Ui_Bridge
  imports Daemon_Types
begin

text \<open>
  The reverse half of the host-UI bridge, \<^verbatim>\<open>server/pantoken-server/src/polytoken/ui_bridge.rs\<close>: what
  is remembered of a daemon question while its card is open (\<^verbatim>\<open>PendingInterrogative\<close>), which approval
  choices a permission card offers, and how the operator's answer becomes the response that is
  posted to the daemon. The answers are those of \<^verbatim>\<open>session_driver.rs\<close> (\<^verbatim>\<open>HostUiResponse\<close>). The forward
  half, which builds the cards, is in \<open>Event_Map\<close>; the two halves meet in \<open>Interrogatives\<close>.
\<close>

section \<open>The operator's answers\<close>

record QnaAnswer =
  qa_selected_option_indices :: "i64 list"
  qa_custom_text :: string

datatype HostUiResponse =
    R_Value (response_request_id: string) string "string option"
  | R_Confirmed (response_request_id: string) bool
  | R_Answers (response_request_id: string) "QnaAnswer list"
  | R_Cancelled (response_request_id: string) bool

section \<open>Pending questions\<close>

datatype PendingInterrogativeType =
    Pi_Permission
  | Pi_Confirmation
  | Pi_Clarification
  | Pi_Capability
  | Pi_PlanHandoff
  | Pi_GoalProposal
  | Pi_AskUserQuestion
  | Pi_Unknown

primrec pending_type_of :: "InterrogativeType \<Rightarrow> PendingInterrogativeType" where
  "pending_type_of It_Permission = Pi_Permission"
| "pending_type_of It_Confirmation = Pi_Confirmation"
| "pending_type_of It_Clarification = Pi_Clarification"
| "pending_type_of It_Capability = Pi_Capability"
| "pending_type_of It_PlanHandoff = Pi_PlanHandoff"
| "pending_type_of It_GoalProposal = Pi_GoalProposal"

record PendingQuestion =
  pq_question_id :: string
  pq_option_ids :: "string list"
  pq_option_labels :: "string list option"

record ApprovalChoice =
  ac_granted :: bool
  ac_persistence_target :: "PersistenceTarget option"

record PendingInterrogative =
  pg_interrogative_id :: string
  pg_interrogative_type :: PendingInterrogativeType
  pg_clarification_labels :: "string list option"
  pg_clarification_option_keys :: "string list option"
  pg_plan_handoff_labels :: "string list option"
  pg_plan_handoff_refuse_label :: "string option"
  pg_questions :: "PendingQuestion list option"
  pg_permission_choices :: "ApprovalChoice list option"

section \<open>Approval choices\<close>

definition PERMISSION_APPROVAL_CHOICES :: "ApprovalChoice list" where
  "PERMISSION_APPROVAL_CHOICES = [
     \<lparr>ac_granted = False, ac_persistence_target = None\<rparr>,
     \<lparr>ac_granted = True, ac_persistence_target = None\<rparr>,
     \<lparr>ac_granted = True, ac_persistence_target = Some Pt_Session\<rparr>,
     \<lparr>ac_granted = True, ac_persistence_target = Some Pt_ProjectLocal\<rparr>,
     \<lparr>ac_granted = True, ac_persistence_target = Some Pt_Project\<rparr>,
     \<lparr>ac_granted = True, ac_persistence_target = Some Pt_UserLocal\<rparr>,
     \<lparr>ac_granted = True, ac_persistence_target = Some Pt_User\<rparr>]"

definition PERMISSION_APPROVAL_LABELS :: "string list" where
  "PERMISSION_APPROVAL_LABELS = [''Deny'', ''Allow once'', ''Allow for session'',
     ''Allow for project (local)'', ''Allow for project'', ''Allow for user (local)'', ''Allow for user'']"

definition PLAN_HANDOFF_DECISIONS :: "string list" where
  "PLAN_HANDOFF_DECISIONS = [''implement_new_context'', ''implement_current_context'', ''cancel'']"

text \<open>\<^verbatim>\<open>slice::get\<close> and \<^verbatim>\<open>Iterator::position\<close>.\<close>

definition get_at :: "'a list \<Rightarrow> nat \<Rightarrow> 'a option" where
  "get_at xs i = (if i < length xs then Some (xs ! i) else None)"

fun position :: "('a \<Rightarrow> bool) \<Rightarrow> 'a list \<Rightarrow> nat option" where
  "position p [] = None"
| "position p (x # xs) = (if p x then Some 0 else map_option Suc (position p xs))"

definition approval_from_index :: "nat \<Rightarrow> ApprovalChoice option" where
  "approval_from_index idx = get_at PERMISSION_APPROVAL_CHOICES idx"

definition prune_approval_options :: "PersistenceTarget list option \<Rightarrow> ApprovalChoice list" where
  "prune_approval_options keep_targets = (case keep_targets of
     None \<Rightarrow> PERMISSION_APPROVAL_CHOICES
   | Some [] \<Rightarrow> PERMISSION_APPROVAL_CHOICES
   | Some targets \<Rightarrow> filter (\<lambda>choice. case ac_persistence_target choice of
         None \<Rightarrow> True | Some pt \<Rightarrow> pt \<in> set targets) PERMISSION_APPROVAL_CHOICES)"

section \<open>Building the response\<close>

definition build_ask_user_question_reply :: "nat \<Rightarrow> QnaAnswer \<Rightarrow> PendingQuestion list \<Rightarrow> AskUserQuestionReply" where
  "build_ask_user_question_reply i ans questions =
     (let q = get_at questions i;
          option_ids = (case q of Some q \<Rightarrow> pq_option_ids q | None \<Rightarrow> []);
          selected = List.map_filter (\<lambda>idx. if idx \<ge> 0 then get_at option_ids (nat idx) else None)
                       (qa_selected_option_indices ans);
          free_text = (if qa_custom_text ans = [] then None else Some (qa_custom_text ans))
      in \<lparr>ar_free_text = free_text,
          ar_question_id = (case q of Some q \<Rightarrow> pq_question_id q | None \<Rightarrow> []),
          ar_selected_option_ids = Some selected\<rparr>)"

definition answer_clarification :: "PendingInterrogative \<Rightarrow> HostUiResponse \<Rightarrow> InterrogativeResponse option" where
  "answer_clarification pending response = (case response of
     R_Value _ value feedback \<Rightarrow>
       if feedback \<noteq> None then None
       else (case (pg_clarification_labels pending, pg_clarification_option_keys pending) of
           (Some (l # ls), Some keys) \<Rightarrow>
             (case position (\<lambda>l. l = value) (l # ls) of
                Some idx \<Rightarrow> map_option Ir_ClarificationChoice (get_at keys idx)
              | None \<Rightarrow> None)
         | _ \<Rightarrow> Some (Ir_ClarificationText value))
   | R_Answers _ answers \<Rightarrow>
       Some (Ir_ClarificationText (case answers of a # _ \<Rightarrow> qa_custom_text a | [] \<Rightarrow> []))
   | _ \<Rightarrow> None)"

text \<open>The decision posted for a plan: one of three strings, or an object that carries the feedback.\<close>

definition refuse_decision :: "string \<Rightarrow> json_value" where
  "refuse_decision feedback = J_Object [(''refuse'', J_Object [(''feedback'', J_String feedback)])]"

definition answer_plan_handoff :: "PendingInterrogative \<Rightarrow> HostUiResponse \<Rightarrow> InterrogativeResponse option" where
  "answer_plan_handoff pending response = (case response of
     R_Value _ value feedback \<Rightarrow>
       (case pg_plan_handoff_labels pending of
          None \<Rightarrow> None
        | Some labels \<Rightarrow>
            if length labels \<noteq> length PLAN_HANDOFF_DECISIONS then None
            else
              let refuse = pg_plan_handoff_refuse_label pending;
                  collision = (case refuse of Some r \<Rightarrow> r \<in> set (take 2 labels) | None \<Rightarrow> False)
              in (case feedback of
                    Some fb \<Rightarrow>
                      (let refusal_label = (case refuse of Some r \<Rightarrow> r | None \<Rightarrow> labels ! 2)
                       in if collision \<or> value \<noteq> refusal_label then None
                          else Some (Ir_PlanHandoffAnswer (refuse_decision fb)))
                  | None \<Rightarrow>
                      if (case refuse of Some r \<Rightarrow> r \<noteq> labels ! 2 \<and> r = value | None \<Rightarrow> False) then None
                      else map_option (\<lambda>idx. Ir_PlanHandoffAnswer (J_String (PLAN_HANDOFF_DECISIONS ! idx)))
                             (position (\<lambda>l. l = value) labels)))
   | _ \<Rightarrow> None)"

definition answer_permission :: "PendingInterrogative \<Rightarrow> HostUiResponse \<Rightarrow> InterrogativeResponse option" where
  "answer_permission pending response = (case response of
     R_Value _ value feedback \<Rightarrow>
       if feedback \<noteq> None then None
       else (case position (\<lambda>l. l = value) PERMISSION_APPROVAL_LABELS of
           None \<Rightarrow> None
         | Some idx \<Rightarrow> (case approval_from_index idx of
             None \<Rightarrow> None
           | Some choice \<Rightarrow>
               if (case pg_permission_choices pending of Some cs \<Rightarrow> choice \<notin> set cs | None \<Rightarrow> False) then None
               else Some (Ir_PermissionAnswer (ac_granted choice) (ac_persistence_target choice))))
   | _ \<Rightarrow> None)"

definition confirmed_of :: "HostUiResponse \<Rightarrow> bool option" where
  "confirmed_of response = (case response of R_Confirmed _ c \<Rightarrow> Some c | _ \<Rightarrow> None)"

definition answer_questions :: "PendingInterrogative \<Rightarrow> HostUiResponse \<Rightarrow> InterrogativeResponse option" where
  "answer_questions pending response = (case response of
     R_Answers _ answers \<Rightarrow>
       (let questions = (case pg_questions pending of Some qs \<Rightarrow> qs | None \<Rightarrow> [])
        in Some (Ir_AskUserQuestionAnswers
             (map (\<lambda>(i, ans). build_ask_user_question_reply i ans questions) (List.enumerate 0 answers))))
   | _ \<Rightarrow> None)"

definition build_interrogative_response ::
  "PendingInterrogative \<Rightarrow> HostUiResponse \<Rightarrow> InterrogativeResponse option" where
  "build_interrogative_response pending response = (case response of
     R_Cancelled _ _ \<Rightarrow> Some Ir_Cancel
   | _ \<Rightarrow> (case pg_interrogative_type pending of
       Pi_Confirmation \<Rightarrow> map_option Ir_ConfirmationAnswer (confirmed_of response)
     | Pi_Clarification \<Rightarrow> answer_clarification pending response
     | Pi_Capability \<Rightarrow> map_option Ir_CapabilityAnswer (confirmed_of response)
     | Pi_PlanHandoff \<Rightarrow> answer_plan_handoff pending response
     | Pi_Permission \<Rightarrow> answer_permission pending response
     | Pi_AskUserQuestion \<Rightarrow> answer_questions pending response
     | Pi_GoalProposal \<Rightarrow> map_option Ir_GoalProposalAnswer (confirmed_of response)
     | Pi_Unknown \<Rightarrow> Some Ir_Cancel))"

section \<open>Lemmas\<close>

lemma position_Some:
  "position p xs = Some i \<Longrightarrow> i < length xs \<and> p (xs ! i)"
  by (induction xs arbitrary: i) (auto split: if_splits)

lemma position_None: "position p xs = None \<longleftrightarrow> (\<forall>x \<in> set xs. \<not> p x)"
  by (induction xs) auto

lemma position_distinct:
  "distinct xs \<Longrightarrow> i < length xs \<Longrightarrow> position (\<lambda>x. x = xs ! i) xs = Some i"
proof (induction xs arbitrary: i)
  case (Cons x xs)
  then show ?case by (cases i) (auto simp: nth_mem)
qed simp

lemma labels_distinct: "distinct PERMISSION_APPROVAL_LABELS" and
  choices_distinct: "distinct PERMISSION_APPROVAL_CHOICES" and
  labels_length: "length PERMISSION_APPROVAL_LABELS = 7" and
  choices_length: "length PERMISSION_APPROVAL_CHOICES = 7"
  by (simp_all add: PERMISSION_APPROVAL_LABELS_def PERMISSION_APPROVAL_CHOICES_def)

lemma prune_subset: "set (prune_approval_options kt) \<subseteq> set PERMISSION_APPROVAL_CHOICES"
  by (auto simp: prune_approval_options_def split: option.splits list.splits)

text \<open>What pruning leaves: without a rule everything, otherwise the two targetless choices and the
  grants whose target the rule names.\<close>

lemma prune_mem:
  "choice \<in> set (prune_approval_options kt) \<longleftrightarrow> choice \<in> set PERMISSION_APPROVAL_CHOICES \<and>
     (case (kt, ac_persistence_target choice) of
        (Some (t # ts), Some pt) \<Rightarrow> pt \<in> set (t # ts)
      | _ \<Rightarrow> True)"
  by (auto simp: prune_approval_options_def split: option.splits list.splits)

end
