(* ===== verification/Event_Map.thy ===== *)
theory Event_Map
  imports Ui_Bridge Activity_Text Complex_Main "HOL-Library.Log_Nat"
begin

text \<open>
  The event mapper, \<^verbatim>\<open>server/pantoken-server/src/polytoken/event_map.rs\<close>: one daemon event, the
  accumulator of the streaming turn and the driver's context give zero or more driver events and
  zero or more effects for the driver to carry out. \<open>map_daemon_event\<close> is the whole mapper with its
  assertions; its result is \<open>None\<close> when the Rust code panics. The context trait \<^verbatim>\<open>MapCtx\<close> is a record of
  what its methods return (the clock is read more than once per event, so \<open>mc_now\<close> gives the reading of
  every call), and the two entry points of \<^verbatim>\<open>serde_json\<close> that the mapper uses are the record \<open>JsonLib\<close>.
\<close>

section \<open>The accumulator\<close>

datatype (plugins only: code) BlockKind = Bk_Text | Bk_ToolUse | Bk_Thinking | Bk_RedactedThinking | Bk_OpenAiReasoningOpaque

record ToolUseBlockMeta =
  tb_id :: string
  tb_name :: string

definition OPAQUE_REASONING_PLACEHOLDER :: string where
  "OPAQUE_REASONING_PLACEHOLDER = ''opaque reasoning block''"

record FoldAccumulator =
  fa_block_kind :: "BlockKind option"
  fa_block_prompt_id :: "string option"
  fa_block_index :: "i32 option"
  fa_opaque_summary_emitted :: bool
  fa_expected_prompt_id :: "string option"
  fa_tool_input_buffer :: string
  fa_tool_use_block :: "ToolUseBlockMeta option"
  fa_turn_error :: "string option"

definition create_accumulator :: FoldAccumulator where
  "create_accumulator = \<lparr>fa_block_kind = None, fa_block_prompt_id = None, fa_block_index = None,
     fa_opaque_summary_emitted = False, fa_expected_prompt_id = None, fa_tool_input_buffer = [],
     fa_tool_use_block = None, fa_turn_error = None\<rparr>"

definition reset_accumulator :: "FoldAccumulator \<Rightarrow> FoldAccumulator" where
  "reset_accumulator acc = acc\<lparr>fa_block_kind := None, fa_block_prompt_id := None, fa_block_index := None,
     fa_opaque_summary_emitted := False, fa_expected_prompt_id := None, fa_tool_input_buffer := [],
     fa_tool_use_block := None, fa_turn_error := None\<rparr>"

section \<open>Context and effects\<close>

record MapCtx =
  mc_ref :: SessionRef
  mc_workspace :: WorkspaceRef
  mc_now :: "nat \<Rightarrow> Timestamp"
  mc_snapshot :: "SessionStatus \<Rightarrow> SessionSnapshot"
  mc_live_status :: SessionStatus

record JsonLib =
  jl_to_string_pretty :: "json_value \<Rightarrow> string"
  jl_from_str :: "string \<Rightarrow> json_value option"

datatype (plugins only: code) FetchEmit = Fe_RunCompleted | Fe_SessionUpdated

datatype (plugins only: code) DaemonEffect =
    Ef_FetchState FetchEmit "string option"
  | Ef_Reseed
  | Ef_QueueAdd string string
  | Ef_QueueRemove "string list"
  | Ef_SetMonitorMode PermissionMonitorMode
  | Ef_SetAutodrainEnabled bool
  | Ef_RegisterInterrogative PendingInterrogative

type_synonym FoldResult = "SessionDriverEvent list \<times> DaemonEffect list"

definition meta :: "MapCtx \<Rightarrow> SessionEventBase" where
  "meta ctx = \<lparr>eb_session_ref = mc_ref ctx, eb_timestamp = mc_now ctx 0, eb_run_id = None,
     eb_subagent_handle = None\<rparr>"

definition event_base :: "MapCtx \<Rightarrow> SessionEventBase" where
  "event_base ctx = meta ctx"

definition notify :: "SessionEventBase \<Rightarrow> string \<Rightarrow> string \<Rightarrow> NotifyLevel \<Rightarrow> SessionDriverEvent" where
  "notify base rid message level = E_HostUiRequest base (H_Notify rid message (Some level))"

section \<open>Texts\<close>

definition show_int :: "int \<Rightarrow> string" where
  "show_int i = (if i < 0 then ''-'' @ show_nat (nat (- i)) else show_nat (nat i))"

definition em_dash_text :: string where
  "em_dash_text = [CHR 0xE2, CHR 0x80, CHR 0x94]"

primrec result_kind_text :: "SubagentResultKind \<Rightarrow> string" where
  "result_kind_text Sr_Success = ''Success''"
| "result_kind_text Sr_Failure = ''Failure''"
| "result_kind_text Sr_Cancelled = ''Cancelled''"

definition notification_message :: "Notification \<Rightarrow> string" where
  "notification_message n = (case nf_notification_type n of
     Nt_JobComplete (Some code) \<Rightarrow> ''Job completed (exit '' @ show_int code @ '')''
   | Nt_JobComplete None \<Rightarrow> ''Job completed''
   | Nt_SubagentComplete handle outcome \<Rightarrow> ''Subagent '' @ handle @ '' '' @ result_kind_text (so_kind outcome)
   | _ \<Rightarrow> nf_summary n)"

definition plan_review_label :: "SystemReminderReason \<Rightarrow> string option" where
  "plan_review_label reason = (case reason of
     Rr_PlanReviewRequired \<Rightarrow> Some ''Plan review required''
   | Rr_PlanModeReinforcement \<Rightarrow> Some ''Plan mode reminder''
   | Rr_PlanVerification \<Rightarrow> Some ''Plan verification''
   | _ \<Rightarrow> None)"

primrec provider_error_message :: "ProviderError \<Rightarrow> string" where
  "provider_error_message (Pe_RateLimited secs) = (case secs of
     Some s \<Rightarrow> ''Rate limited (retry in '' @ show_int s @ ''s)'' | None \<Rightarrow> ''Rate limited'')"
| "provider_error_message Pe_AuthFailed = ''Authentication failed''"
| "provider_error_message (Pe_LoginRequired profile) = ''Login required ('' @ profile @ '')''"
| "provider_error_message Pe_ModelNotFound = ''Model not found''"
| "provider_error_message (Pe_ContextTooLarge upstream) = ''Context too large''"
| "provider_error_message (Pe_Transport message source_detail) = ''Transport error: '' @ message"
| "provider_error_message (Pe_ProtocolMalformed detail) = ''Protocol error: '' @ detail"
| "provider_error_message Pe_Canceled = ''Request canceled''"
| "provider_error_message (Pe_Other code message) = code @ '': '' @ message"

section \<open>Goal and usage\<close>

definition project_goal :: "CurrentGoal option option \<Rightarrow> GoalInfo option option" where
  "project_goal g = (case g of
     Some (Some goal) \<Rightarrow> Some (Some \<lparr>goal_summary = cg_summary goal, goal_lifecycle = cg_lifecycle goal\<rparr>)
   | Some None \<Rightarrow> Some None
   | None \<Rightarrow> None)"

text \<open>
  Double-precision arithmetic on the values that occur here, quotients of two 32-bit integers and their
  hundredfold: the exact result rounded to 53 significant bits, ties to even. They are far from the
  ends of the exponent range.
\<close>

definition pow2 :: "int \<Rightarrow> rat" where
  "pow2 k = (if k \<ge> 0 then 2 ^ nat k else 1 / 2 ^ nat (- k))"

definition floor_log2 :: "rat \<Rightarrow> int" where
  "floor_log2 x = (let (a, b) = quotient_of x; k = bitlen a - bitlen b
                   in if pow2 k \<le> x then k else k - 1)"

definition round_half_even :: "rat \<Rightarrow> int" where
  "round_half_even x = (let f = \<lfloor>x\<rfloor>; d = x - of_int f
     in if d < 1 / 2 then f else if d > 1 / 2 then f + 1 else if even f then f else f + 1)"

definition f64_round_pos :: "rat \<Rightarrow> rat" where
  "f64_round_pos x = (let e = floor_log2 x - 52 in of_int (round_half_even (x / pow2 e)) * pow2 e)"

definition f64_round :: "rat \<Rightarrow> rat" where
  "f64_round x = (if x = 0 then 0 else if x > 0 then f64_round_pos x else - f64_round_pos (- x))"

definition f64_div :: "rat \<Rightarrow> rat \<Rightarrow> rat" where
  "f64_div a b = f64_round (a / b)"

definition f64_mul :: "rat \<Rightarrow> rat \<Rightarrow> rat" where
  "f64_mul a b = f64_round (a * b)"

text \<open>\<^verbatim>\<open>f64::round\<close>: half away from zero.\<close>

definition round_half_away :: "rat \<Rightarrow> int" where
  "round_half_away x = (if x \<ge> 0 then \<lfloor>x + 1 / 2\<rfloor> else - \<lfloor>- x + 1 / 2\<rfloor>)"

text \<open>The bit pattern of a small non-negative whole double.\<close>

definition f64_of_nat :: "nat \<Rightarrow> f64" where
  "f64_of_nat n = (if n = 0 then 0 else
     let e = nat (bitlen (int n)) - 1
     in push_bit 52 (word_of_nat (1023 + e)) + push_bit (52 - e) (word_of_nat (n - 2 ^ e)))"

definition F64_NEG_ZERO :: f64 where
  "F64_NEG_ZERO = 0x8000000000000000"

text \<open>\<^verbatim>\<open>(used as f64 / limit as f64 * 100.0).round().clamp(0.0, 100.0)\<close>; a negative quotient that rounds
  to zero is the negative zero, which the clamp leaves alone.\<close>

definition context_percent :: "i32 \<Rightarrow> i32 \<Rightarrow> f64" where
  "context_percent used limit =
     (let p = round_half_away (f64_mul (f64_div (of_int used) (of_int limit)) 100)
      in if p = 0 \<and> used < 0 then F64_NEG_ZERO
         else if p < 0 then 0 else if p > 100 then f64_of_nat 100 else f64_of_nat (nat p))"

definition usage_from_state :: "SessionStateSnapshot option \<Rightarrow> SessionUsage option" where
  "usage_from_state state = (case Option.bind state sss_context_usage of
     None \<Rightarrow> None
   | Some cu \<Rightarrow> Some \<lparr>us_tokens = Some (cu_used_tokens cu), us_context_window = cu_limit_tokens cu,
        us_percent = (if cu_limit_tokens cu > 0
                      then Some (context_percent (cu_used_tokens cu) (cu_limit_tokens cu)) else None)\<rparr>)"

section \<open>Snapshots\<close>

primrec flag_mode_of :: "FlagMode \<Rightarrow> FlaggedFileMode" where
  "flag_mode_of Fm_Included = Ff_Included"
| "flag_mode_of Fm_Referenced = Ff_Referenced"

primrec todo_status_of :: "DaemonTodoStatus \<Rightarrow> TodoStatus" where
  "todo_status_of Dtd_Pending = Td_Pending"
| "todo_status_of Dtd_InProgress = Td_InProgress"
| "todo_status_of Dtd_Done = Td_Done"
| "todo_status_of Dtd_Blocked = Td_Blocked"

primrec mcp_status_of :: "DaemonMcpServerStatus \<Rightarrow> McpServerStatus" where
  "mcp_status_of Dms_Connected = Mcp_Connected"
| "mcp_status_of Dms_Disconnected = Mcp_Disconnected"
| "mcp_status_of Dms_Reconnecting = Mcp_Reconnecting"
| "mcp_status_of Dms_Disabled = Mcp_Disabled"

definition flagged_file :: "FlagEntry \<Rightarrow> FlaggedFile" where
  "flagged_file f = \<lparr>ff_path = fe_path f, ff_mode = flag_mode_of (fe_mode f)\<rparr>"

definition todo_item :: "TodoSnapshot \<Rightarrow> TodoItem" where
  "todo_item t = \<lparr>td_id = ts_id t, td_title = ts_title t, td_description = ts_description t,
     td_status = todo_status_of (ts_status t), td_dependencies = ts_dependencies t,
     td_created_at = ts_emitted_at t\<rparr>"

definition mcp_server_info :: "McpServerStatusEntry \<Rightarrow> McpServerInfo" where
  "mcp_server_info s = \<lparr>mcp_server_name = mse_server_name s, mcp_status = mcp_status_of (mse_status s),
     mcp_tool_count = mse_tool_count s\<rparr>"

definition snapshot_from_state ::
  "SessionStateSnapshot option \<Rightarrow> SessionRef \<Rightarrow> WorkspaceRef \<Rightarrow> SessionStatus \<Rightarrow> Timestamp
    \<Rightarrow> PermissionMonitorMode option \<Rightarrow> bool option \<Rightarrow> SessionSnapshot" where
  "snapshot_from_state state ref workspace status now monitor_mode autodrain_enabled = \<lparr>
     sn_ref = ref, sn_workspace = workspace,
     sn_title = (case Option.bind state sss_session_title of Some t \<Rightarrow> t | None \<Rightarrow> sr_session_id ref),
     sn_status = status, sn_updated_at = now, sn_archived_at = None, sn_preview = None,
     sn_config = map_option (\<lambda>m. \<lparr>cfg_model_id = Some m,
         cfg_thinking_level = Option.bind state sss_active_reasoning_effort,
         cfg_available_thinking_levels = None\<rparr>) (Option.bind state sss_active_model),
     sn_usage = usage_from_state state, sn_running_run_id = None, sn_queued_messages = None,
     sn_facet = map_option sss_active_facet state,
     sn_permission_monitor = monitor_mode,
     sn_adventurous_handoff =
       (if Option.bind state sss_adventurous_handoff_active = Some True then Some True else None),
     sn_notification_autodrain = autodrain_enabled,
     sn_active_plan = Option.bind state sss_active_plan,
     sn_goal = project_goal (map_option sss_current_goal state),
     sn_flags = map_option (\<lambda>s. map flagged_file (sss_flags s)) state,
     sn_todos = map_option (\<lambda>s. map todo_item (sss_todos s)) state,
     sn_mcp_servers = map_option (map mcp_server_info) (Option.bind state sss_mcp_servers),
     sn_cwd = Option.bind state sss_cwd,
     sn_cwd_stack_depth = Option.bind state sss_cwd_stack_depth\<rparr>"

section \<open>Tool input and output\<close>

definition parse_tool_input :: "JsonLib \<Rightarrow> string \<Rightarrow> json_value option" where
  "parse_tool_input jl buffer = (if buffer = [] then None
     else case jl_from_str jl buffer of Some v \<Rightarrow> Some v | None \<Rightarrow> Some (J_String buffer))"

definition as_object :: "json_value \<Rightarrow> (string \<times> json_value) list option" where
  "as_object v = (case v of J_Object kvs \<Rightarrow> Some kvs | _ \<Rightarrow> None)"

definition as_str :: "json_value \<Rightarrow> string option" where
  "as_str v = (case v of J_String s \<Rightarrow> Some s | _ \<Rightarrow> None)"

definition as_array :: "json_value \<Rightarrow> json_value list option" where
  "as_array v = (case v of J_Array vs \<Rightarrow> Some vs | _ \<Rightarrow> None)"

definition get_str :: "(string \<times> json_value) list \<Rightarrow> string \<Rightarrow> string option" where
  "get_str kvs k = Option.bind (map_of kvs k) as_str"

definition or_content :: "string option \<Rightarrow> string \<Rightarrow> string" where
  "or_content content s = (if s = [] then (case content of Some c \<Rightarrow> c | None \<Rightarrow> []) else s)"

text \<open>The image variant, if it carries both its data and its media type.\<close>

definition image_result ::
  "string option \<Rightarrow> (string \<times> json_value) list \<Rightarrow> (json_value option \<times> ImageContent list option) option" where
  "image_result content kvs = (case Option.bind (map_of kvs ''image'') as_object of
     None \<Rightarrow> None
   | Some img \<Rightarrow> (case (get_str img ''data'', get_str img ''media_type'') of
       (Some data, Some media_type) \<Rightarrow>
         Some (Some (J_String (or_content content
                 (case get_str img ''text_fallback'' of Some t \<Rightarrow> t | None \<Rightarrow> []))),
               Some [Image data media_type])
     | _ \<Rightarrow> None))"

definition block_text :: "json_value \<Rightarrow> string option" where
  "block_text b = (case as_object b of
     None \<Rightarrow> None
   | Some kvs \<Rightarrow> if get_str kvs ''type'' = Some ''text'' then get_str kvs ''text'' else None)"

definition extract_tool_result ::
  "string option \<Rightarrow> json_value option \<Rightarrow> json_value option \<times> ImageContent list option" where
  "extract_tool_result content content_full =
     (let short = (map_option J_String content, None);
          rich = (\<lambda>s. (Some (J_String (or_content content s)), None))
      in case content_full of
        None \<Rightarrow> short
      | Some cf \<Rightarrow>
          (let whole = (if cf = J_Null \<or> cf = J_Object [] then short else (Some cf, None))
           in case as_object cf of
             None \<Rightarrow> whole
           | Some kvs \<Rightarrow>
               (case image_result content kvs of
                  Some r \<Rightarrow> r
                | None \<Rightarrow> (case get_str kvs ''text'' of
                    Some t \<Rightarrow> rich t
                  | None \<Rightarrow> (case Option.bind (map_of kvs ''blocks'') as_array of
                      Some blocks \<Rightarrow> rich (concat (List.map_filter block_text blocks))
                    | None \<Rightarrow> (case Option.bind (map_of kvs ''diff_preview'') as_object of
                        Some dp \<Rightarrow> rich (case get_str dp ''summary'' of Some s \<Rightarrow> s | None \<Rightarrow> [])
                      | None \<Rightarrow> whole))))))"

section \<open>Queue\<close>

definition map_resolved_references :: "ResolvedPromptReference list \<Rightarrow> ResolvedRef list" where
  "map_resolved_references refs =
     map (\<lambda>r. \<lparr>rr_kind = rp_kind r, rr_name = rp_name r, rr_file_kind = rp_file_kind r\<rparr>) refs"

definition drained_queue_message ::
  "string \<Rightarrow> string option \<Rightarrow> Timestamp \<Rightarrow> ResolvedPromptReference list option \<Rightarrow> SessionQueuedMessage" where
  "drained_queue_message text item_id ts resolved =
     \<lparr>qm_id = (case item_id of Some i \<Rightarrow> i | None \<Rightarrow> ''drain-'' @ ts), qm_mode = Dm_Steer, qm_text = text,
      qm_created_at = ts, qm_updated_at = ts, qm_references = map_option map_resolved_references resolved\<rparr>"

fun join_with :: "string \<Rightarrow> string list \<Rightarrow> string" where
  "join_with sep [] = []"
| "join_with sep [x] = x"
| "join_with sep (x # xs) = x @ sep @ join_with sep xs"

definition format_missing_references_message :: "(string \<times> string) list \<Rightarrow> string" where
  "format_missing_references_message refs =
     ''Queued message dropped '' @ em_dash_text @ '' missing references: ''
     @ join_with '', '' (map (\<lambda>(kind, name). kind @ '' '' @ [CHR 0x22] @ name @ [CHR 0x22]) refs)"

definition queue_message_from_item :: "PendingTurnInputItem \<Rightarrow> Timestamp \<Rightarrow> SessionQueuedMessage" where
  "queue_message_from_item item ts =
     \<lparr>qm_id = pi_id item, qm_mode = Dm_Steer, qm_text = pi_content item, qm_created_at = ts,
      qm_updated_at = ts, qm_references = None\<rparr>"

definition queue_messages_from_snapshot :: "PendingTurnInputSnapshot \<Rightarrow> Timestamp \<Rightarrow> SessionQueuedMessage list" where
  "queue_messages_from_snapshot snapshot ts = map (\<lambda>i. queue_message_from_item i ts) (pis_items snapshot)"

section \<open>Cards\<close>

definition host_ui :: "SessionEventBase \<Rightarrow> HostUiRequest \<Rightarrow> SessionDriverEvent" where
  "host_ui base request = E_HostUiRequest base request"

definition safe_stringify :: "JsonLib \<Rightarrow> json_value \<Rightarrow> string" where
  "safe_stringify jl value = jl_to_string_pretty jl value"

text \<open>The preview of a tool's input on a permission card; cutting it inside a character panics.\<close>

definition tool_input_preview :: "JsonLib \<Rightarrow> json_value \<Rightarrow> string option" where
  "tool_input_preview jl input =
     (let json = safe_stringify jl input
      in if length json > 500 then map_option (\<lambda>s. s @ ellipsis) (slice_to json 499) else Some json)"

definition choice_label :: "ApprovalChoice \<Rightarrow> string option" where
  "choice_label choice = Option.bind (position (\<lambda>c. c = choice) PERMISSION_APPROVAL_CHOICES)
     (get_at PERMISSION_APPROVAL_LABELS)"

type_synonym InterrogativeMapping = "SessionDriverEvent \<times> PendingInterrogative"

definition build_permission_request ::
  "JsonLib \<Rightarrow> string \<Rightarrow> string \<Rightarrow> PermissionCandidateRuleContext option \<Rightarrow> PermissionToolCallContext option
    \<Rightarrow> SessionEventBase \<Rightarrow> PendingInterrogative \<Rightarrow> InterrogativeMapping option" where
  "build_permission_request jl interrogative_id question rule tool_call base pending =
     (let choices = prune_approval_options (map_option pr_keep_targets rule);
          card = (\<lambda>tool_input. (host_ui base (H_Permission interrogative_id
               (if question = [] then ''Approve?'' else question)
               (map_option ptc_tool_name tool_call) tool_input
               (List.map_filter choice_label choices) None),
             pending\<lparr>pg_permission_choices := Some choices\<rparr>))
      in case tool_call of
           None \<Rightarrow> Some (card None)
         | Some tc \<Rightarrow> map_option (\<lambda>s. card (Some s)) (tool_input_preview jl (ptc_input tc)))"

definition blank_pending :: "string \<Rightarrow> PendingInterrogativeType \<Rightarrow> PendingInterrogative" where
  "blank_pending interrogative_id ty = \<lparr>pg_interrogative_id = interrogative_id, pg_interrogative_type = ty,
     pg_clarification_labels = None, pg_clarification_option_keys = None, pg_plan_handoff_labels = None,
     pg_plan_handoff_refuse_label = None, pg_questions = None, pg_permission_choices = None\<rparr>"

definition plan_labels :: "PlanHandoffContext option \<Rightarrow> string \<times> string \<times> string" where
  "plan_labels plan_handoff = (case plan_handoff of
     Some ph \<Rightarrow> (pal_implement_new_context (ph_action_labels ph),
                  pal_implement_current_context (ph_action_labels ph), pal_cancel (ph_action_labels ph))
   | None \<Rightarrow> (''Implement (new context)'', ''Implement (current context)'', ''Cancel''))"

definition labels_to_vec :: "string \<times> string \<times> string \<Rightarrow> string list" where
  "labels_to_vec labels = (case labels of (a, b, c) \<Rightarrow> [a, b, c])"

definition build_interrogative_mapping ::
  "JsonLib \<Rightarrow> string \<Rightarrow> InterrogativeType \<Rightarrow> string \<Rightarrow> ClarificationOption list option
    \<Rightarrow> PlanHandoffContext option \<Rightarrow> GoalProposalContext option \<Rightarrow> PermissionCandidateRuleContext option
    \<Rightarrow> PermissionToolCallContext option \<Rightarrow> SessionEventBase \<Rightarrow> InterrogativeMapping option" where
  "build_interrogative_mapping jl interrogative_id ty question options plan_handoff goal_proposal rule tool_call base =
     (let pending = blank_pending interrogative_id (pending_type_of ty)
      in case ty of
        It_Confirmation \<Rightarrow>
          Some (host_ui base (H_Confirm interrogative_id ''Confirm'' question None None), pending)
      | It_Clarification \<Rightarrow>
          (let opts = (case options of Some os \<Rightarrow> os | None \<Rightarrow> []); labels = map co_label opts
           in Some (host_ui base (H_Select interrogative_id question labels None None),
                pending\<lparr>pg_clarification_labels := Some labels,
                        pg_clarification_option_keys := Some (map co_key opts)\<rparr>))
      | It_Capability \<Rightarrow>
          Some (host_ui base (H_Confirm interrogative_id ''Grant capability?'' question None None), pending)
      | It_PlanHandoff \<Rightarrow>
          (let labels = plan_labels plan_handoff;
               refuse = Option.bind plan_handoff (\<lambda>ph. pal_refuse (ph_action_labels ph))
           in Some (host_ui base (H_Plan interrogative_id
                  (case plan_handoff of Some ph \<Rightarrow> ph_title ph | None \<Rightarrow> ''Plan handoff'')
                  (case plan_handoff of Some ph \<Rightarrow> ph_plan_text ph | None \<Rightarrow> [])
                  (map_option ph_display_path plan_handoff) (map_option ph_target_facet plan_handoff)
                  labels refuse None),
                pending\<lparr>pg_plan_handoff_labels := Some (labels_to_vec labels),
                        pg_plan_handoff_refuse_label := refuse\<rparr>))
      | It_Permission \<Rightarrow> build_permission_request jl interrogative_id question rule tool_call base pending
      | It_GoalProposal \<Rightarrow>
          (let title = (case goal_proposal of Some g \<Rightarrow> gp_title g | None \<Rightarrow> ''Goal proposal'');
               summary = (case goal_proposal of Some g \<Rightarrow> gp_proposed_summary g | None \<Rightarrow> [])
           in Some (host_ui base (H_Confirm interrogative_id title
                  (if summary = [] then title else summary) None None), pending)))"

definition question_options :: "AskUserQuestion \<Rightarrow> AskUserQuestionOption list" where
  "question_options q = (case aq_options q of Some os \<Rightarrow> os | None \<Rightarrow> [])"

definition pending_question :: "AskUserQuestion \<Rightarrow> PendingQuestion" where
  "pending_question q = \<lparr>pq_question_id = aq_id q, pq_option_ids = map ao_id (question_options q),
     pq_option_labels = Some (map ao_label (question_options q))\<rparr>"

definition qna_question :: "AskUserQuestion \<Rightarrow> QnaQuestion" where
  "qna_question q = \<lparr>qq_question = aq_question q, qq_context = aq_context q,
     qq_options = map_option (map (\<lambda>opt. \<lparr>qo_label = ao_label opt,
         qo_description = (if ao_description opt = [] then None else Some (ao_description opt))\<rparr>)) (aq_options q),
     qq_multi_select = Some (aq_mode q = Am_MultiSelect)\<rparr>"

definition build_ask_user_question_mapping ::
  "string \<Rightarrow> AskUserQuestion list \<Rightarrow> SessionEventBase \<Rightarrow> InterrogativeMapping" where
  "build_ask_user_question_mapping interrogative_id questions base =
     (host_ui base (H_Qna interrogative_id None (map qna_question questions) None),
      (blank_pending interrogative_id Pi_AskUserQuestion)\<lparr>pg_questions := Some (map pending_question questions)\<rparr>)"

section \<open>After a state fetch\<close>

definition build_post_fetch_event :: "FetchEmit \<Rightarrow> MapCtx \<Rightarrow> string option \<Rightarrow> SessionDriverEvent" where
  "build_post_fetch_event emit ctx prompt_id = (case emit of
     Fe_RunCompleted \<Rightarrow> E_RunCompleted (meta ctx) (mc_snapshot ctx St_Idle) prompt_id prompt_id
   | Fe_SessionUpdated \<Rightarrow> E_SessionUpdated (meta ctx) (mc_snapshot ctx (mc_live_status ctx)))"

primrec monitor_to_mode :: "PermissionMonitor \<Rightarrow> PermissionMonitorMode" where
  "monitor_to_mode Mon_Standard = Pm_Standard"
| "monitor_to_mode Mon_Bypass = Pm_Bypass"
| "monitor_to_mode Mon_BypassPlus = Pm_BypassPlus"
| "monitor_to_mode (Mon_Autonomous _ _ _) = Pm_Autonomous"

section \<open>Blocks\<close>

primrec block_kind_from_content :: "ContentBlockKind \<Rightarrow> BlockKind" where
  "block_kind_from_content Ck_Text = Bk_Text"
| "block_kind_from_content (Ck_ToolUse _ _ _) = Bk_ToolUse"
| "block_kind_from_content Ck_Thinking = Bk_Thinking"
| "block_kind_from_content Ck_RedactedThinking = Bk_RedactedThinking"
| "block_kind_from_content Ck_OpenAiReasoningOpaque = Bk_OpenAiReasoningOpaque"

definition block_matches :: "FoldAccumulator \<Rightarrow> string \<Rightarrow> i32 \<Rightarrow> bool" where
  "block_matches acc prompt_id block_index \<longleftrightarrow>
     fa_block_prompt_id acc = Some prompt_id \<and> fa_block_index acc = Some block_index"

definition clear_block_identity :: "FoldAccumulator \<Rightarrow> FoldAccumulator" where
  "clear_block_identity acc = acc\<lparr>fa_block_kind := None, fa_block_prompt_id := None, fa_block_index := None,
     fa_opaque_summary_emitted := False\<rparr>"

definition thinking_delta :: "SessionEventBase \<Rightarrow> string \<Rightarrow> SessionDriverEvent" where
  "thinking_delta base text = E_AssistantDelta base text (Some Ch_Thinking) None"

definition finalize_opaque_block ::
  "FoldAccumulator \<Rightarrow> SessionEventBase \<Rightarrow> FoldAccumulator \<times> SessionDriverEvent list" where
  "finalize_opaque_block acc base =
     (clear_block_identity acc,
      if fa_block_kind acc \<in> {Some Bk_RedactedThinking, Some Bk_OpenAiReasoningOpaque}
         \<and> \<not> fa_opaque_summary_emitted acc
      then [thinking_delta base OPAQUE_REASONING_PLACEHOLDER] else [])"

end
