(* ===== verification/Event_Mapper.thy ===== *)
theory Event_Mapper
  imports Event_Map
begin

text \<open>
  The mapper function of \<^verbatim>\<open>event_map.rs\<close> on the helpers of \<open>Event_Map\<close>: the tables of wire names and
  dispositions, the mapping of every variant of the daemon's event union, the annotation of nested
  events with their subagent's handle and the assertions that close \<^verbatim>\<open>map_daemon_event\<close>. The theorems
  say when the mapper panics, that it ignores what belongs to another prompt, that what a block of
  private reasoning shows is its summary or one fixed placeholder, and what a turn with an error
  comes to.
\<close>

section \<open>Subagent handles\<close>

primrec subagent_handle :: "DaemonEvent \<Rightarrow> string option" where
  "subagent_handle (D_Heartbeat h _) = h"
| "subagent_handle (D_ContentBlockStart _ _ _ h) = h"
| "subagent_handle (D_ContentBlockDelta _ _ _ h) = h"
| "subagent_handle (D_ContentBlockStop _ _ h) = h"
| "subagent_handle (D_MessageStart _ h) = h"
| "subagent_handle (D_MessageComplete _ _ h) = h"
| "subagent_handle (D_PendingTurnInputQueued _ _ _ _ h) = h"
| "subagent_handle (D_PendingTurnInputDequeued _ _ h) = h"
| "subagent_handle (D_PendingTurnInputDrained _ _ _ _ _ _ _ h) = h"
| "subagent_handle (D_PendingTurnInputDiscarded _ _ _ _ _ _ _ h) = h"
| "subagent_handle (D_TurnCancelled _ _ h) = h"
| "subagent_handle (D_ModelError _ _ h) = h"
| "subagent_handle (D_StreamDiscontinuity _ h) = h"
| "subagent_handle (D_ToolCall _ _ _ _ h) = h"
| "subagent_handle (D_ToolResult _ _ _ _ _ h) = h"
| "subagent_handle (D_JobPromoted _ h) = h"
| "subagent_handle (D_JobCompleted _ _ h) = h"
| "subagent_handle (D_JobExpiring _ h) = h"
| "subagent_handle (D_JobCancelled _ h) = h"
| "subagent_handle (D_JobUpdated _ h) = h"
| "subagent_handle (D_SessionRewound _ _ h) = h"
| "subagent_handle (D_SessionStateChanged _ h) = h"
| "subagent_handle (D_SessionTitleChanged _ h _) = h"
| "subagent_handle (D_FacetSwitch _ h _) = h"
| "subagent_handle (D_ContextCleared _ _ h) = h"
| "subagent_handle (D_ModelSwitch _ _ h _ _) = h"
| "subagent_handle (D_PermissionMonitorSwitch _ h _) = h"
| "subagent_handle (D_Interrogative _ _ _ _ _ _ _ _ _ _ h) = h"
| "subagent_handle (D_AskUserQuestion _ _ _ h) = h"
| "subagent_handle (D_HookFired _ _ _ _ h) = h"
| "subagent_handle (D_ContextLoaded _ _ h) = h"
| "subagent_handle (D_CompactionStarted _ _ h) = h"
| "subagent_handle (D_CompactionComplete _ _ h _ _) = h"
| "subagent_handle (D_CompactionCancelled _ _ h) = h"
| "subagent_handle (D_CompactionFailed _ _ h) = h"
| "subagent_handle (D_CompactionRetry _ _ _ _ _) = None"
| "subagent_handle (D_SubagentCompactionNotice _ _ h _) = h"
| "subagent_handle (D_NotificationQueued _ h) = h"
| "subagent_handle (D_NotificationsDrained _ h) = h"
| "subagent_handle (D_NotificationAutodrainSwitch _) = None"
| "subagent_handle (D_SystemReminder _ _ _ _ _ h) = h"
| "subagent_handle (D_ToolReveal _ _ h _) = h"
| "subagent_handle (D_ToolExposureChanged _ _ _ _ _ h) = h"
| "subagent_handle (D_GoalDriverUpdate _ _ h _) = h"
| "subagent_handle (D_ClassifierDecision _ _ _ _ h _) = h"
| "subagent_handle (D_ExtensionRegistered _ h) = h"
| "subagent_handle (D_SubagentStarted _ _ _) = None"
| "subagent_handle (D_SubagentCompleted _ _ _) = None"
| "subagent_handle (D_SubagentMessaged _ _ _) = None"
| "subagent_handle (D_McpServerConnected _ _ _ _) = None"
| "subagent_handle (D_McpServerDisconnected _ _ _) = None"
| "subagent_handle (D_McpServerReconnecting _ _ _ _) = None"
| "subagent_handle (D_McpServerDisabled _ _ _) = None"
| "subagent_handle (D_ImageReferenceResolved _ _ _ _ h) = h"
| "subagent_handle (D_UsageThrottle _ _ _ _ h) = h"
| "subagent_handle (D_RetryWait _ _ _ _ _ _ h) = h"
| "subagent_handle (D_AgentBlockViolation _ _ h _) = h"

primrec set_base :: "SessionEventBase \<Rightarrow> SessionDriverEvent \<Rightarrow> SessionDriverEvent" where
  "set_base base (E_SessionOpened _ a) = E_SessionOpened base a"
| "set_base base (E_SessionUpdated _ a) = E_SessionUpdated base a"
| "set_base base (E_AssistantDelta _ a b c) = E_AssistantDelta base a b c"
| "set_base base (E_QueuedMessageStarted _ a) = E_QueuedMessageStarted base a"
| "set_base base (E_QueueUpdated _ a) = E_QueueUpdated base a"
| "set_base base (E_UserMessage _ a b c d e) = E_UserMessage base a b c d e"
| "set_base base (E_CustomMessage _ a b c d e) = E_CustomMessage base a b c d e"
| "set_base base (E_ToolStarted _ a b c d e) = E_ToolStarted base a b c d e"
| "set_base base (E_ToolUpdated _ a b c) = E_ToolUpdated base a b c"
| "set_base base (E_ToolFinished _ a b c d e) = E_ToolFinished base a b c d e"
| "set_base base (E_RunCompleted _ a b c) = E_RunCompleted base a b c"
| "set_base base (E_UsageUpdated _ a) = E_UsageUpdated base a"
| "set_base base (E_RunFailed _ a) = E_RunFailed base a"
| "set_base base (E_HostUiRequest _ a) = E_HostUiRequest base a"
| "set_base base (E_HostUiResolved _ a) = E_HostUiResolved base a"
| "set_base base (E_ExtensionCompatibilityIssue _ a) = E_ExtensionCompatibilityIssue base a"
| "set_base base (E_SessionClosed _ a) = E_SessionClosed base a"
| "set_base base (E_SessionReset _) = E_SessionReset base"
| "set_base base (E_NestedReplayStatus _ a b c) = E_NestedReplayStatus base a b c"

definition annotate_subagent_handle :: "string option \<Rightarrow> SessionDriverEvent list \<Rightarrow> SessionDriverEvent list" where
  "annotate_subagent_handle handle events = (case handle of
     None \<Rightarrow> events
   | Some h \<Rightarrow> map (\<lambda>ev. set_base ((ev_base ev)\<lparr>eb_subagent_handle := Some h\<rparr>) ev) events)"

section \<open>Wire names and dispositions\<close>

datatype (plugins only: code) EventDisposition =
    Ed_Mapped
  | Ed_StateRefetch
  | Ed_StateRefetchOrNoop
  | Ed_Reseed
  | Ed_UserNotice
  | Ed_IntentionalNoop

definition DAEMON_EVENT_VARIANT_NAMES :: "string list" where
  "DAEMON_EVENT_VARIANT_NAMES = [
     ''heartbeat'',
     ''content_block_start'',
     ''content_block_delta'',
     ''content_block_stop'',
     ''message_start'',
     ''message_complete'',
     ''pending_turn_input_queued'',
     ''pending_turn_input_dequeued'',
     ''pending_turn_input_drained'',
     ''pending_turn_input_discarded'',
     ''turn_cancelled'',
     ''model_error'',
     ''stream_discontinuity'',
     ''tool_call'',
     ''tool_result'',
     ''job_promoted'',
     ''job_completed'',
     ''job_expiring'',
     ''job_cancelled'',
     ''job_updated'',
     ''session_rewound'',
     ''session_state_changed'',
     ''session_title_changed'',
     ''facet_switch'',
     ''context_cleared'',
     ''model_switch'',
     ''permission_monitor_switch'',
     ''interrogative'',
     ''ask_user_question'',
     ''hook_fired'',
     ''context_loaded'',
     ''compaction_started'',
     ''compaction_complete'',
     ''compaction_cancelled'',
     ''compaction_failed'',
     ''compaction_retry'',
     ''subagent_compaction_notice'',
     ''notification_queued'',
     ''notifications_drained'',
     ''notification_autodrain_switch'',
     ''system_reminder'',
     ''tool_reveal'',
     ''tool_exposure_changed'',
     ''goal_driver_update'',
     ''classifier_decision'',
     ''extension_registered'',
     ''subagent_started'',
     ''subagent_completed'',
     ''subagent_messaged'',
     ''mcp_server_connected'',
     ''mcp_server_disconnected'',
     ''mcp_server_reconnecting'',
     ''mcp_server_disabled'',
     ''image_reference_resolved'',
     ''usage_throttle'',
     ''retry_wait'',
     ''agent_block_violation'']"

definition DAEMON_EVENT_DISPOSITIONS :: "(string \<times> EventDisposition) list" where
  "DAEMON_EVENT_DISPOSITIONS = [
     (''message_start'', Ed_Mapped),
     (''content_block_start'', Ed_Mapped),
     (''content_block_delta'', Ed_Mapped),
     (''content_block_stop'', Ed_Mapped),
     (''tool_call'', Ed_Mapped),
     (''tool_result'', Ed_Mapped),
     (''pending_turn_input_drained'', Ed_Mapped),
     (''session_title_changed'', Ed_Mapped),
     (''model_switch'', Ed_Mapped),
     (''permission_monitor_switch'', Ed_Mapped),
     (''interrogative'', Ed_Mapped),
     (''ask_user_question'', Ed_Mapped),
     (''notification_autodrain_switch'', Ed_Mapped),
     (''goal_driver_update'', Ed_Mapped),
     (''hook_fired'', Ed_Mapped),
     (''message_complete'', Ed_StateRefetchOrNoop),
     (''turn_cancelled'', Ed_StateRefetch),
     (''pending_turn_input_queued'', Ed_StateRefetch),
     (''pending_turn_input_dequeued'', Ed_StateRefetch),
     (''pending_turn_input_discarded'', Ed_StateRefetch),
     (''session_state_changed'', Ed_StateRefetch),
     (''facet_switch'', Ed_StateRefetch),
     (''compaction_complete'', Ed_StateRefetch),
     (''subagent_started'', Ed_StateRefetch),
     (''subagent_completed'', Ed_StateRefetch),
     (''stream_discontinuity'', Ed_Reseed),
     (''session_rewound'', Ed_Reseed),
     (''context_cleared'', Ed_Reseed),
     (''model_error'', Ed_UserNotice),
     (''retry_wait'', Ed_UserNotice),
     (''agent_block_violation'', Ed_UserNotice),
     (''tool_exposure_changed'', Ed_UserNotice),
     (''compaction_started'', Ed_UserNotice),
     (''compaction_cancelled'', Ed_UserNotice),
     (''compaction_failed'', Ed_UserNotice),
     (''subagent_compaction_notice'', Ed_UserNotice),
     (''notification_queued'', Ed_UserNotice),
     (''system_reminder'', Ed_UserNotice),
     (''mcp_server_connected'', Ed_UserNotice),
     (''mcp_server_disconnected'', Ed_UserNotice),
     (''mcp_server_reconnecting'', Ed_UserNotice),
     (''mcp_server_disabled'', Ed_UserNotice),
     (''heartbeat'', Ed_IntentionalNoop),
     (''job_promoted'', Ed_IntentionalNoop),
     (''job_completed'', Ed_IntentionalNoop),
     (''job_expiring'', Ed_IntentionalNoop),
     (''job_cancelled'', Ed_IntentionalNoop),
     (''job_updated'', Ed_IntentionalNoop),
     (''context_loaded'', Ed_IntentionalNoop),
     (''compaction_retry'', Ed_IntentionalNoop),
     (''notifications_drained'', Ed_IntentionalNoop),
     (''tool_reveal'', Ed_IntentionalNoop),
     (''classifier_decision'', Ed_IntentionalNoop),
     (''extension_registered'', Ed_IntentionalNoop),
     (''subagent_messaged'', Ed_IntentionalNoop),
     (''image_reference_resolved'', Ed_IntentionalNoop),
     (''usage_throttle'', Ed_IntentionalNoop)]"

definition event_disposition_for_wire_name :: "string \<Rightarrow> EventDisposition option" where
  "event_disposition_for_wire_name name =
     (if name \<in> {''message_start'', ''content_block_start'', ''content_block_delta'',
          ''content_block_stop'', ''tool_call'', ''tool_result'', ''pending_turn_input_drained'',
          ''session_title_changed'', ''model_switch'', ''permission_monitor_switch'',
          ''interrogative'', ''ask_user_question'', ''notification_autodrain_switch'',
          ''goal_driver_update'', ''hook_fired''} then Some Ed_Mapped
      else if name \<in> {''message_complete''} then Some Ed_StateRefetchOrNoop
      else if name \<in> {''turn_cancelled'', ''pending_turn_input_queued'', ''pending_turn_input_dequeued'',
          ''pending_turn_input_discarded'', ''session_state_changed'', ''facet_switch'',
          ''compaction_complete'', ''subagent_started'', ''subagent_completed''} then Some Ed_StateRefetch
      else if name \<in> {''stream_discontinuity'', ''session_rewound'', ''context_cleared''} then Some Ed_Reseed
      else if name \<in> {''model_error'', ''retry_wait'', ''agent_block_violation'', ''tool_exposure_changed'',
          ''compaction_started'', ''compaction_cancelled'', ''compaction_failed'',
          ''subagent_compaction_notice'', ''notification_queued'', ''system_reminder'',
          ''mcp_server_connected'', ''mcp_server_disconnected'', ''mcp_server_reconnecting'',
          ''mcp_server_disabled''} then Some Ed_UserNotice
      else if name \<in> {''heartbeat'', ''job_promoted'', ''job_completed'', ''job_expiring'', ''job_cancelled'',
          ''job_updated'', ''context_loaded'', ''compaction_retry'', ''notifications_drained'',
          ''tool_reveal'', ''classifier_decision'', ''extension_registered'',
          ''subagent_messaged'', ''image_reference_resolved'', ''usage_throttle''} then Some Ed_IntentionalNoop
      else None)"

primrec event_wire_name :: "DaemonEvent \<Rightarrow> string" where
  "event_wire_name (D_Heartbeat _ _) = ''heartbeat''"
| "event_wire_name (D_ContentBlockStart _ _ _ _) = ''content_block_start''"
| "event_wire_name (D_ContentBlockDelta _ _ _ _) = ''content_block_delta''"
| "event_wire_name (D_ContentBlockStop _ _ _) = ''content_block_stop''"
| "event_wire_name (D_MessageStart _ _) = ''message_start''"
| "event_wire_name (D_MessageComplete _ _ _) = ''message_complete''"
| "event_wire_name (D_PendingTurnInputQueued _ _ _ _ _) = ''pending_turn_input_queued''"
| "event_wire_name (D_PendingTurnInputDequeued _ _ _) = ''pending_turn_input_dequeued''"
| "event_wire_name (D_PendingTurnInputDrained _ _ _ _ _ _ _ _) = ''pending_turn_input_drained''"
| "event_wire_name (D_PendingTurnInputDiscarded _ _ _ _ _ _ _ _) = ''pending_turn_input_discarded''"
| "event_wire_name (D_TurnCancelled _ _ _) = ''turn_cancelled''"
| "event_wire_name (D_ModelError _ _ _) = ''model_error''"
| "event_wire_name (D_StreamDiscontinuity _ _) = ''stream_discontinuity''"
| "event_wire_name (D_ToolCall _ _ _ _ _) = ''tool_call''"
| "event_wire_name (D_ToolResult _ _ _ _ _ _) = ''tool_result''"
| "event_wire_name (D_JobPromoted _ _) = ''job_promoted''"
| "event_wire_name (D_JobCompleted _ _ _) = ''job_completed''"
| "event_wire_name (D_JobExpiring _ _) = ''job_expiring''"
| "event_wire_name (D_JobCancelled _ _) = ''job_cancelled''"
| "event_wire_name (D_JobUpdated _ _) = ''job_updated''"
| "event_wire_name (D_SessionRewound _ _ _) = ''session_rewound''"
| "event_wire_name (D_SessionStateChanged _ _) = ''session_state_changed''"
| "event_wire_name (D_SessionTitleChanged _ _ _) = ''session_title_changed''"
| "event_wire_name (D_FacetSwitch _ _ _) = ''facet_switch''"
| "event_wire_name (D_ContextCleared _ _ _) = ''context_cleared''"
| "event_wire_name (D_ModelSwitch _ _ _ _ _) = ''model_switch''"
| "event_wire_name (D_PermissionMonitorSwitch _ _ _) = ''permission_monitor_switch''"
| "event_wire_name (D_Interrogative _ _ _ _ _ _ _ _ _ _ _) = ''interrogative''"
| "event_wire_name (D_AskUserQuestion _ _ _ _) = ''ask_user_question''"
| "event_wire_name (D_HookFired _ _ _ _ _) = ''hook_fired''"
| "event_wire_name (D_ContextLoaded _ _ _) = ''context_loaded''"
| "event_wire_name (D_CompactionStarted _ _ _) = ''compaction_started''"
| "event_wire_name (D_CompactionComplete _ _ _ _ _) = ''compaction_complete''"
| "event_wire_name (D_CompactionCancelled _ _ _) = ''compaction_cancelled''"
| "event_wire_name (D_CompactionFailed _ _ _) = ''compaction_failed''"
| "event_wire_name (D_CompactionRetry _ _ _ _ _) = ''compaction_retry''"
| "event_wire_name (D_SubagentCompactionNotice _ _ _ _) = ''subagent_compaction_notice''"
| "event_wire_name (D_NotificationQueued _ _) = ''notification_queued''"
| "event_wire_name (D_NotificationsDrained _ _) = ''notifications_drained''"
| "event_wire_name (D_NotificationAutodrainSwitch _) = ''notification_autodrain_switch''"
| "event_wire_name (D_SystemReminder _ _ _ _ _ _) = ''system_reminder''"
| "event_wire_name (D_ToolReveal _ _ _ _) = ''tool_reveal''"
| "event_wire_name (D_ToolExposureChanged _ _ _ _ _ _) = ''tool_exposure_changed''"
| "event_wire_name (D_GoalDriverUpdate _ _ _ _) = ''goal_driver_update''"
| "event_wire_name (D_ClassifierDecision _ _ _ _ _ _) = ''classifier_decision''"
| "event_wire_name (D_ExtensionRegistered _ _) = ''extension_registered''"
| "event_wire_name (D_SubagentStarted _ _ _) = ''subagent_started''"
| "event_wire_name (D_SubagentCompleted _ _ _) = ''subagent_completed''"
| "event_wire_name (D_SubagentMessaged _ _ _) = ''subagent_messaged''"
| "event_wire_name (D_McpServerConnected _ _ _ _) = ''mcp_server_connected''"
| "event_wire_name (D_McpServerDisconnected _ _ _) = ''mcp_server_disconnected''"
| "event_wire_name (D_McpServerReconnecting _ _ _ _) = ''mcp_server_reconnecting''"
| "event_wire_name (D_McpServerDisabled _ _ _) = ''mcp_server_disabled''"
| "event_wire_name (D_ImageReferenceResolved _ _ _ _ _) = ''image_reference_resolved''"
| "event_wire_name (D_UsageThrottle _ _ _ _ _) = ''usage_throttle''"
| "event_wire_name (D_RetryWait _ _ _ _ _ _ _) = ''retry_wait''"
| "event_wire_name (D_AgentBlockViolation _ _ _ _) = ''agent_block_violation''"

text \<open>\<^verbatim>\<open>event_disposition\<close> expects a disposition for every wire name; \<open>None\<close> is its panic.\<close>

definition event_disposition :: "DaemonEvent \<Rightarrow> EventDisposition option" where
  "event_disposition ev = event_disposition_for_wire_name (event_wire_name ev)"

section \<open>The arms of the mapper\<close>

type_synonym MapResult = "(FoldAccumulator \<times> FoldResult) option"

text \<open>An arm that leaves the accumulator alone, and one that also does nothing else.\<close>

definition fold_result :: "FoldAccumulator \<Rightarrow> SessionDriverEvent list \<Rightarrow> DaemonEffect list \<Rightarrow> MapResult" where
  "fold_result acc events effects = Some (acc, events, effects)"

definition fetch_updated :: DaemonEffect where
  "fetch_updated = Ef_FetchState Fe_SessionUpdated None"

definition clear_tool_state :: "FoldAccumulator \<Rightarrow> FoldAccumulator" where
  "clear_tool_state acc = acc\<lparr>fa_tool_input_buffer := [], fa_tool_use_block := None\<rparr>"

definition map_message_start :: "PromptId \<Rightarrow> FoldAccumulator \<Rightarrow> MapCtx \<Rightarrow> MapResult" where
  "map_message_start prompt_id acc ctx =
     (let (acc1, events) = finalize_opaque_block acc (meta ctx);
          acc2 = (clear_tool_state acc1)\<lparr>fa_expected_prompt_id := Some prompt_id, fa_turn_error := None\<rparr>
      in fold_result acc2 (events @ [E_SessionUpdated (meta ctx) (mc_snapshot ctx St_Running)]) [])"

definition map_message_complete :: "PromptId \<Rightarrow> FoldAccumulator \<Rightarrow> MapCtx \<Rightarrow> MapResult" where
  "map_message_complete prompt_id acc ctx =
     (if (case fa_expected_prompt_id acc of Some e \<Rightarrow> e \<noteq> prompt_id | None \<Rightarrow> False) then fold_result acc [] []
      else
        let (acc1, events) = finalize_opaque_block acc (meta ctx);
            acc2 = (clear_tool_state acc1)\<lparr>fa_expected_prompt_id := None\<rparr>;
            fetch = Ef_FetchState Fe_RunCompleted (Some prompt_id)
        in case fa_turn_error acc2 of
             Some message \<Rightarrow> fold_result (acc2\<lparr>fa_turn_error := None\<rparr>)
               (events @ [E_RunFailed (meta ctx) \<lparr>err_message = message, err_code = None, err_details = None\<rparr>]) [fetch]
           | None \<Rightarrow> fold_result acc2 events [fetch])"

definition map_content_block_start ::
  "i32 \<Rightarrow> ContentBlockKind \<Rightarrow> PromptId \<Rightarrow> FoldAccumulator \<Rightarrow> MapCtx \<Rightarrow> MapResult" where
  "map_content_block_start block_index block_type prompt_id acc ctx =
     (if fa_expected_prompt_id acc \<noteq> Some prompt_id then fold_result acc [] []
      else
        let (acc1, events) = finalize_opaque_block acc (meta ctx)
        in fold_result (acc1\<lparr>fa_block_prompt_id := Some prompt_id, fa_block_index := Some block_index,
               fa_block_kind := Some (block_kind_from_content block_type), fa_opaque_summary_emitted := False,
               fa_tool_input_buffer := [],
               fa_tool_use_block := (case block_type of Ck_ToolUse i n _ \<Rightarrow> Some \<lparr>tb_id = i, tb_name = n\<rparr> | _ \<Rightarrow> None)\<rparr>)
             events [])"

definition map_block_delta :: "BlockDeltaPayload \<Rightarrow> FoldAccumulator \<Rightarrow> MapCtx \<Rightarrow> MapResult" where
  "map_block_delta delta acc ctx = (case delta of
     Bd_Text text \<Rightarrow> (if fa_block_kind acc = Some Bk_Text
       then fold_result acc [E_AssistantDelta (meta ctx) text (Some Ch_Text) None] [] else fold_result acc [] [])
   | Bd_Thinking text \<Rightarrow> (if fa_block_kind acc = Some Bk_Thinking
       then fold_result acc [thinking_delta (meta ctx) text] [] else fold_result acc [] [])
   | Bd_RedactedThinking _ \<Rightarrow> fold_result acc [] []
   | Bd_OpenAiReasoningOpaque _ _ \<Rightarrow> fold_result acc [] []
   | Bd_OpenAiReasoningSummary text \<Rightarrow>
       (if fa_block_kind acc = Some Bk_OpenAiReasoningOpaque \<and> text \<noteq> []
        then fold_result (acc\<lparr>fa_opaque_summary_emitted := True\<rparr>) [thinking_delta (meta ctx) text] []
        else fold_result acc [] [])
   | Bd_ToolUseInput partial_json \<Rightarrow>
       fold_result (if fa_block_kind acc = Some Bk_ToolUse
         then acc\<lparr>fa_tool_input_buffer := fa_tool_input_buffer acc @ partial_json\<rparr> else acc) [] []
   | Bd_SignatureDelta _ \<Rightarrow> fold_result acc [] [])"

definition map_content_block_delta ::
  "i32 \<Rightarrow> BlockDeltaPayload \<Rightarrow> PromptId \<Rightarrow> FoldAccumulator \<Rightarrow> MapCtx \<Rightarrow> MapResult" where
  "map_content_block_delta block_index delta prompt_id acc ctx =
     (if \<not> block_matches acc prompt_id block_index then fold_result acc [] [] else map_block_delta delta acc ctx)"

definition map_content_block_stop :: "i32 \<Rightarrow> PromptId \<Rightarrow> FoldAccumulator \<Rightarrow> MapCtx \<Rightarrow> MapResult" where
  "map_content_block_stop block_index prompt_id acc ctx =
     (if \<not> block_matches acc prompt_id block_index then fold_result acc [] []
      else let (acc1, events) = finalize_opaque_block acc (meta ctx) in fold_result acc1 events [])"

definition map_tool_call ::
  "JsonLib \<Rightarrow> string \<Rightarrow> json_value option \<Rightarrow> string \<Rightarrow> FoldAccumulator \<Rightarrow> MapCtx \<Rightarrow> MapResult" where
  "map_tool_call jl call_id input name acc ctx =
     (let resolved_input = (case input of Some v \<Rightarrow> Some v | None \<Rightarrow> parse_tool_input jl (fa_tool_input_buffer acc));
          resolved_name = (if name \<noteq> [] then name
            else case fa_tool_use_block acc of Some b \<Rightarrow> tb_name b | None \<Rightarrow> ''unknown'');
          resolved_call_id = (if call_id \<noteq> [] then call_id
            else case fa_tool_use_block acc of Some b \<Rightarrow> tb_id b | None \<Rightarrow> [])
      in fold_result acc [E_ToolStarted (meta ctx) resolved_name resolved_call_id resolved_input None None] [])"

definition map_tool_result ::
  "string \<Rightarrow> string option \<Rightarrow> json_value option \<Rightarrow> bool option \<Rightarrow> FoldAccumulator \<Rightarrow> MapCtx \<Rightarrow> MapResult" where
  "map_tool_result call_id content content_full is_error acc ctx =
     (let (output, images) = extract_tool_result content content_full
      in fold_result acc [E_ToolFinished (meta ctx) call_id (is_error \<noteq> Some True) output images None] [])"

definition map_discarded ::
  "string list \<Rightarrow> ResolvedPromptReference list option \<Rightarrow> FoldAccumulator \<Rightarrow> MapCtx \<Rightarrow> MapResult" where
  "map_discarded item_ids missing acc ctx =
     fold_result acc
       (case missing of
          Some (r # rs) \<Rightarrow> [notify (meta ctx) (''discard-missing-refs-'' @ mc_now ctx 0)
            (format_missing_references_message (map (\<lambda>r. (rp_kind r, rp_name r)) (r # rs))) Nl_Warning]
        | _ \<Rightarrow> []) [Ef_QueueRemove item_ids]"

text \<open>The message of a drained item carries a second reading of the clock.\<close>

definition map_drained ::
  "string \<Rightarrow> string list \<Rightarrow> ResolvedPromptReference list option \<Rightarrow> FoldAccumulator \<Rightarrow> MapCtx \<Rightarrow> MapResult" where
  "map_drained content item_ids resolved acc ctx =
     fold_result acc [E_QueuedMessageStarted (meta ctx)
         (drained_queue_message content (case item_ids of i # _ \<Rightarrow> Some i | [] \<Rightarrow> None) (mc_now ctx 1) resolved)]
       [Ef_QueueRemove item_ids]"

text \<open>A notice whose id is a prefix and the event's timestamp.\<close>

definition notice :: "MapCtx \<Rightarrow> string \<Rightarrow> string \<Rightarrow> NotifyLevel \<Rightarrow> SessionDriverEvent" where
  "notice ctx prefix message level = notify (meta ctx) (prefix @ mc_now ctx 0) message level"

definition map_model_error :: "ProviderError \<Rightarrow> FoldAccumulator \<Rightarrow> MapCtx \<Rightarrow> MapResult" where
  "map_model_error err acc ctx = fold_result (acc\<lparr>fa_turn_error := Some (provider_error_message err)\<rparr>)
     [notice ctx ''model-error-'' (provider_error_message err) Nl_Error] []"

definition live_update :: "MapCtx \<Rightarrow> (SessionSnapshot \<Rightarrow> SessionSnapshot) \<Rightarrow> SessionDriverEvent" where
  "live_update ctx f = E_SessionUpdated (meta ctx) (f (mc_snapshot ctx (mc_live_status ctx)))"

definition map_system_reminder ::
  "SystemReminderReason \<Rightarrow> string \<Rightarrow> string \<Rightarrow> FoldAccumulator \<Rightarrow> MapCtx \<Rightarrow> MapResult" where
  "map_system_reminder reason slug body acc ctx =
     fold_result acc [E_CustomMessage (meta ctx) (''reminder-'' @ slug @ ''-'' @ mc_now ctx 0)
         (case plan_review_label reason of Some l \<Rightarrow> l | None \<Rightarrow> slug) body
         (plan_review_label reason \<noteq> None) (reason = Rr_GoalReminder)] []"

definition map_interrogative :: "FoldAccumulator \<Rightarrow> InterrogativeMapping \<Rightarrow> FoldAccumulator \<times> FoldResult" where
  "map_interrogative acc m = (case m of (event, pending) \<Rightarrow> (acc, [event], [Ef_RegisterInterrogative pending]))"

definition map_goal_update :: "CurrentGoal option \<Rightarrow> string \<Rightarrow> FoldAccumulator \<Rightarrow> MapCtx \<Rightarrow> MapResult" where
  "map_goal_update goal transition acc ctx = (case goal of
     Some g \<Rightarrow> fold_result acc [live_update ctx (\<lambda>sn. sn\<lparr>sn_goal := project_goal (Some (Some g))\<rparr>)] [fetch_updated]
   | None \<Rightarrow> if transition = ''cleared''
       then fold_result acc [live_update ctx (\<lambda>sn. sn\<lparr>sn_goal := Some None\<rparr>)] [fetch_updated]
       else fold_result acc [] [fetch_updated])"

definition map_hook_fired :: "string \<Rightarrow> HookOutcome \<Rightarrow> FoldAccumulator \<Rightarrow> MapCtx \<Rightarrow> MapResult" where
  "map_hook_fired event_type outcome acc ctx =
     (if outcome = Ho_Blocked \<and> event_type = ''stop''
      then fold_result acc [E_RunCompleted (meta ctx) (mc_snapshot ctx St_Idle) None None,
             E_CustomMessage (meta ctx) (''stop-hook-redirect-'' @ mc_now ctx 0) ''stop_hook_redirect''
               (''Stop hook redirected '' @ em_dash_text @ '' continuing.'') False True] []
      else fold_result acc [] [])"

definition map_tool_exposure :: "ToolExposureReason \<Rightarrow> FoldAccumulator \<Rightarrow> MapCtx \<Rightarrow> MapResult" where
  "map_tool_exposure reason acc ctx =
     (if reason = Te_EagerFallbackActivated
      then fold_result acc [notice ctx ''fallback-'' (''Auto-switched to a fallback model '' @ em_dash_text
             @ '' the primary may be down or rate-limited'') Nl_Warning] []
      else fold_result acc [] [])"

section \<open>The mapper\<close>

primrec map_daemon_event_inner ::
  "DaemonEvent \<Rightarrow> JsonLib \<Rightarrow> FoldAccumulator \<Rightarrow> MapCtx \<Rightarrow> MapResult" where
  "map_daemon_event_inner (D_MessageStart prompt_id _) jl acc ctx = map_message_start prompt_id acc ctx"
| "map_daemon_event_inner (D_MessageComplete _ prompt_id _) jl acc ctx = map_message_complete prompt_id acc ctx"
| "map_daemon_event_inner (D_TurnCancelled _ _ _) jl acc ctx = fold_result acc [] [fetch_updated]"
| "map_daemon_event_inner (D_ContentBlockStart block_index block_type prompt_id _) jl acc ctx =
     map_content_block_start block_index block_type prompt_id acc ctx"
| "map_daemon_event_inner (D_ContentBlockDelta block_index delta prompt_id _) jl acc ctx =
     map_content_block_delta block_index delta prompt_id acc ctx"
| "map_daemon_event_inner (D_ContentBlockStop block_index prompt_id _) jl acc ctx =
     map_content_block_stop block_index prompt_id acc ctx"
| "map_daemon_event_inner (D_ToolCall call_id input name _ _) jl acc ctx = map_tool_call jl call_id input name acc ctx"
| "map_daemon_event_inner (D_ToolResult call_id content content_full is_error _ _) jl acc ctx =
     map_tool_result call_id content content_full is_error acc ctx"
| "map_daemon_event_inner (D_PendingTurnInputQueued _ content item_id _ _) jl acc ctx =
     fold_result acc [] [Ef_QueueAdd item_id content]"
| "map_daemon_event_inner (D_PendingTurnInputDequeued item_id _ _) jl acc ctx =
     fold_result acc [] [Ef_QueueRemove [item_id]]"
| "map_daemon_event_inner (D_PendingTurnInputDiscarded _ _ item_ids missing _ _ _ _) jl acc ctx =
     map_discarded item_ids missing acc ctx"
| "map_daemon_event_inner (D_PendingTurnInputDrained _ content _ item_ids _ _ resolved _) jl acc ctx =
     map_drained content item_ids resolved acc ctx"
| "map_daemon_event_inner (D_ModelError err _ _) jl acc ctx = map_model_error err acc ctx"
| "map_daemon_event_inner (D_RetryWait attempt _ error_summary _ max_retries _ _) jl acc ctx =
     fold_result acc [notice ctx ''retry-'' (''Retrying (attempt '' @ show_int attempt @ ''/'' @ show_int max_retries
       @ ''): '' @ error_summary) Nl_Warning] []"
| "map_daemon_event_inner (D_StreamDiscontinuity _ _) jl acc ctx = fold_result acc [] [Ef_Reseed]"
| "map_daemon_event_inner (D_SessionTitleChanged _ _ title) jl acc ctx =
     fold_result acc [live_update ctx (\<lambda>sn. sn\<lparr>sn_title := title\<rparr>)] []"
| "map_daemon_event_inner (D_SessionStateChanged _ _) jl acc ctx = fold_result acc [] [fetch_updated]"
| "map_daemon_event_inner (D_ModelSwitch _ _ _ to_model to_reasoning_effort) jl acc ctx =
     fold_result acc [live_update ctx (\<lambda>sn. sn\<lparr>sn_config := Some \<lparr>cfg_model_id = Some to_model,
       cfg_thinking_level = to_reasoning_effort, cfg_available_thinking_levels = None\<rparr>\<rparr>)] []"
| "map_daemon_event_inner (D_AgentBlockViolation _ _ _ tool_name) jl acc ctx =
     fold_result acc [notice ctx ''block-violation-'' (''Blocked: the agent tried to use '' @ tool_name
       @ '', which is blocked by a constraint'') Nl_Warning] []"
| "map_daemon_event_inner (D_ToolExposureChanged _ _ _ reason _ _) jl acc ctx = map_tool_exposure reason acc ctx"
| "map_daemon_event_inner (D_SessionRewound _ _ _) jl acc ctx = fold_result acc [] [Ef_Reseed]"
| "map_daemon_event_inner (D_ContextCleared _ _ _) jl acc ctx = fold_result acc [] [Ef_Reseed]"
| "map_daemon_event_inner (D_FacetSwitch _ _ _) jl acc ctx = fold_result acc [] [fetch_updated]"
| "map_daemon_event_inner (D_CompactionStarted _ _ _) jl acc ctx =
     fold_result acc [notice ctx ''compact-'' (''Compacting context'' @ ellipsis) Nl_Info] []"
| "map_daemon_event_inner (D_CompactionComplete _ _ _ _ _) jl acc ctx =
     fold_result acc [notice ctx ''compact-done-'' ''Context compacted'' Nl_Info] [fetch_updated]"
| "map_daemon_event_inner (D_CompactionCancelled _ _ _) jl acc ctx =
     fold_result acc [notice ctx ''compact-cancelled-'' ''Compaction cancelled'' Nl_Warning] []"
| "map_daemon_event_inner (D_CompactionFailed _ _ _) jl acc ctx =
     fold_result acc [notice ctx ''compact-failed-'' ''Compaction failed'' Nl_Error] []"
| "map_daemon_event_inner (D_SubagentCompactionNotice _ _ _ summary) jl acc ctx =
     fold_result acc [notice ctx ''subagent-compact-'' summary Nl_Info] []"
| "map_daemon_event_inner (D_NotificationQueued notification _) jl acc ctx =
     fold_result acc [notify (meta ctx) (''notif-'' @ nf_id notification) (notification_message notification) Nl_Info] []"
| "map_daemon_event_inner (D_SystemReminder body _ _ reason slug _) jl acc ctx =
     map_system_reminder reason slug body acc ctx"
| "map_daemon_event_inner (D_Interrogative options _ goal_proposal interrogative_id ty rule tool_call plan_handoff
       _ question _) jl acc ctx =
     map_option (map_interrogative acc) (build_interrogative_mapping jl interrogative_id ty question options
       plan_handoff goal_proposal rule tool_call (meta ctx))"
| "map_daemon_event_inner (D_AskUserQuestion interrogative_id payload _ _) jl acc ctx =
     Some (map_interrogative acc (build_ask_user_question_mapping interrogative_id (ap_questions payload) (meta ctx)))"
| "map_daemon_event_inner (D_PermissionMonitorSwitch _ _ to_monitor) jl acc ctx =
     fold_result acc [live_update ctx (\<lambda>sn. sn\<lparr>sn_permission_monitor := Some (monitor_to_mode to_monitor)\<rparr>)]
       [Ef_SetMonitorMode (monitor_to_mode to_monitor)]"
| "map_daemon_event_inner (D_GoalDriverUpdate goal _ _ transition) jl acc ctx = map_goal_update goal transition acc ctx"
| "map_daemon_event_inner (D_NotificationAutodrainSwitch enabled) jl acc ctx =
     fold_result acc [live_update ctx (\<lambda>sn. sn\<lparr>sn_notification_autodrain := Some enabled\<rparr>)]
       [Ef_SetAutodrainEnabled enabled]"
| "map_daemon_event_inner (D_HookFired _ event_type _ outcome _) jl acc ctx = map_hook_fired event_type outcome acc ctx"
| "map_daemon_event_inner (D_Heartbeat _ _) jl acc ctx = fold_result acc [] []"
| "map_daemon_event_inner (D_NotificationsDrained _ _) jl acc ctx = fold_result acc [] []"
| "map_daemon_event_inner (D_ContextLoaded _ _ _) jl acc ctx = fold_result acc [] []"
| "map_daemon_event_inner (D_ToolReveal _ _ _ _) jl acc ctx = fold_result acc [] []"
| "map_daemon_event_inner (D_ClassifierDecision _ _ _ _ _ _) jl acc ctx = fold_result acc [] []"
| "map_daemon_event_inner (D_ExtensionRegistered _ _) jl acc ctx = fold_result acc [] []"
| "map_daemon_event_inner (D_ImageReferenceResolved _ _ _ _ _) jl acc ctx = fold_result acc [] []"
| "map_daemon_event_inner (D_JobPromoted _ _) jl acc ctx = fold_result acc [] []"
| "map_daemon_event_inner (D_JobCompleted _ _ _) jl acc ctx = fold_result acc [] []"
| "map_daemon_event_inner (D_JobExpiring _ _) jl acc ctx = fold_result acc [] []"
| "map_daemon_event_inner (D_JobCancelled _ _) jl acc ctx = fold_result acc [] []"
| "map_daemon_event_inner (D_JobUpdated _ _) jl acc ctx = fold_result acc [] []"
| "map_daemon_event_inner (D_UsageThrottle _ _ _ _ _) jl acc ctx = fold_result acc [] []"
| "map_daemon_event_inner (D_CompactionRetry _ _ _ _ _) jl acc ctx = fold_result acc [] []"
| "map_daemon_event_inner (D_SubagentMessaged _ _ _) jl acc ctx = fold_result acc [] []"
| "map_daemon_event_inner (D_SubagentStarted _ _ _) jl acc ctx = fold_result acc [] [fetch_updated]"
| "map_daemon_event_inner (D_SubagentCompleted _ _ _) jl acc ctx = fold_result acc [] [fetch_updated]"
| "map_daemon_event_inner (D_McpServerConnected _ server_name _ _) jl acc ctx =
     fold_result acc [notice ctx ''mcp-conn-'' (''MCP server '' @ server_name @ '' connected'') Nl_Info] []"
| "map_daemon_event_inner (D_McpServerDisconnected reason server_name _) jl acc ctx =
     fold_result acc [notice ctx ''mcp-disc-'' (''MCP server '' @ server_name @ '' disconnected ('' @ reason @ '')'') Nl_Warning] []"
| "map_daemon_event_inner (D_McpServerReconnecting attempt _ server_name _) jl acc ctx =
     fold_result acc [notice ctx ''mcp-reconn-'' (''MCP server '' @ server_name @ '' reconnecting (attempt ''
       @ show_int attempt @ '')'' @ ellipsis) Nl_Info] []"
| "map_daemon_event_inner (D_McpServerDisabled reason server_name _) jl acc ctx =
     fold_result acc [notice ctx ''mcp-disabled-'' (''MCP server '' @ server_name @ '' disabled ('' @ reason @ '')'') Nl_Warning] []"

text \<open>The closing assertions, by disposition.\<close>

definition is_fetch_state :: "DaemonEffect \<Rightarrow> bool" where
  "is_fetch_state ef = (case ef of Ef_FetchState _ _ \<Rightarrow> True | _ \<Rightarrow> False)"

primrec disposition_assert :: "EventDisposition \<Rightarrow> FoldResult \<Rightarrow> bool" where
  "disposition_assert Ed_StateRefetch r = (snd r \<noteq> [])"
| "disposition_assert Ed_StateRefetchOrNoop r = (snd r = [] \<or> list_ex is_fetch_state (snd r))"
| "disposition_assert Ed_Reseed r = (Ef_Reseed \<in> set (snd r))"
| "disposition_assert Ed_IntentionalNoop r = (fst r = [] \<and> snd r = [])"
| "disposition_assert Ed_Mapped r = True"
| "disposition_assert Ed_UserNotice r = True"

definition map_daemon_event :: "JsonLib \<Rightarrow> DaemonEvent \<Rightarrow> FoldAccumulator \<Rightarrow> MapCtx \<Rightarrow> MapResult" where
  "map_daemon_event jl ev acc ctx = (case event_disposition ev of
     None \<Rightarrow> None
   | Some disposition \<Rightarrow> (case map_daemon_event_inner ev jl acc ctx of
       None \<Rightarrow> None
     | Some (acc', events, effects) \<Rightarrow>
         (let result = (annotate_subagent_handle (subagent_handle ev) events, effects)
          in if disposition_assert disposition result then Some (acc', result) else None)))"

section \<open>Dispositions\<close>

text \<open>The independently written table agrees with the classifier.\<close>

lemma dispositions_table:
  "list_all (\<lambda>(name, d). event_disposition_for_wire_name name = Some d) DAEMON_EVENT_DISPOSITIONS"
  by (simp add: DAEMON_EVENT_DISPOSITIONS_def event_disposition_for_wire_name_def)

section \<open>When the mapper panics\<close>

lemmas arm_defs = fold_result_def map_message_start_def map_message_complete_def map_content_block_start_def
  map_content_block_delta_def map_block_delta_def map_content_block_stop_def map_tool_call_def map_tool_result_def
  map_discarded_def map_drained_def map_model_error_def map_system_reminder_def map_interrogative_def
  map_goal_update_def map_hook_fired_def map_tool_exposure_def

lemma annotate_Nil [simp]: "annotate_subagent_handle h [] = []"
  by (simp add: annotate_subagent_handle_def split: option.split)

lemma permission_request_None:
  "build_permission_request jl i q rule tool_call base pending = None \<longleftrightarrow>
     (\<exists>tc. tool_call = Some tc \<and> tool_input_preview jl (ptc_input tc) = None)"
  by (auto simp: build_permission_request_def Let_def split: option.splits)

lemma interrogative_mapping_None:
  "build_interrogative_mapping jl i ty q opts ph gp rule tool_call base = None \<longleftrightarrow>
     ty = It_Permission \<and> (\<exists>tc. tool_call = Some tc \<and> tool_input_preview jl (ptc_input tc) = None)"
  by (cases ty) (simp_all add: build_interrogative_mapping_def Let_def permission_request_None)

lemma preview_None:
  "tool_input_preview jl v = None \<longleftrightarrow>
     500 < length (jl_to_string_pretty jl v) \<and> \<not> is_char_boundary (jl_to_string_pretty jl v) 499"
  by (simp add: tool_input_preview_def safe_stringify_def slice_to_def Let_def)


text \<open>Every event has a disposition, and what its arm does meets the assertion of that disposition.\<close>

lemma disposition_assert_holds:
  "\<exists>d. event_disposition ev = Some d \<and> (\<forall>acc' events effects.
     map_daemon_event_inner ev jl acc ctx = Some (acc', events, effects) \<longrightarrow>
     disposition_assert d (annotate_subagent_handle (subagent_handle ev) events, effects))"
  apply (cases ev)
  apply (simp_all add: event_disposition_def event_disposition_for_wire_name_def)
  apply (auto simp: fold_result_def fetch_updated_def map_message_complete_def map_discarded_def Let_def
      is_fetch_state_def finalize_opaque_block_def split: if_splits option.splits prod.splits)
  done

lemma map_daemon_event_eq:
  "map_daemon_event jl ev acc ctx = map_option (\<lambda>(acc', events, effects).
     (acc', annotate_subagent_handle (subagent_handle ev) events, effects)) (map_daemon_event_inner ev jl acc ctx)"
  using disposition_assert_holds [of ev jl acc ctx]
  by (fastforce simp: map_daemon_event_def Let_def split: option.splits prod.splits)

lemma inner_None:
  "map_daemon_event_inner ev jl acc ctx = None \<longleftrightarrow>
     (\<exists>options ext goal i rule tc plan p q h.
        ev = D_Interrogative options ext goal i It_Permission rule (Some tc) plan p q h
        \<and> tool_input_preview jl (ptc_input tc) = None)"
  by (cases ev) (simp_all add: arm_defs interrogative_mapping_None Let_def finalize_opaque_block_def
      split: if_splits option.splits prod.splits BlockDeltaPayload.splits)

section \<open>Streams\<close>

text \<open>A stream of events, each with the context of its moment, through the mapper.\<close>

fun map_events :: "JsonLib \<Rightarrow> (DaemonEvent \<times> MapCtx) list \<Rightarrow> FoldAccumulator \<Rightarrow> MapResult" where
  "map_events jl [] acc = Some (acc, [], [])"
| "map_events jl ((ev, ctx) # evs) acc = (case map_daemon_event jl ev acc ctx of
     None \<Rightarrow> None
   | Some (acc1, es1, fs1) \<Rightarrow> map_option (\<lambda>(acc2, es2, fs2). (acc2, es1 @ es2, fs1 @ fs2)) (map_events jl evs acc1))"

text \<open>The open block belongs to the turn in progress.\<close>

definition acc_ok :: "FoldAccumulator \<Rightarrow> bool" where
  "acc_ok acc \<longleftrightarrow> (case fa_block_prompt_id acc of
     None \<Rightarrow> fa_block_kind acc = None \<and> fa_block_index acc = None \<and> \<not> fa_opaque_summary_emitted acc
   | Some p \<Rightarrow> fa_expected_prompt_id acc = Some p)"

text \<open>The prompt an event of the message stream belongs to.\<close>

definition stream_prompt :: "DaemonEvent \<Rightarrow> PromptId option" where
  "stream_prompt ev = (case ev of
     D_ContentBlockStart _ _ p _ \<Rightarrow> Some p
   | D_ContentBlockDelta _ _ p _ \<Rightarrow> Some p
   | D_ContentBlockStop _ p _ \<Rightarrow> Some p
   | D_MessageComplete _ p _ \<Rightarrow> Some p
   | _ \<Rightarrow> None)"

lemma finalize_simps [simp]:
  "fst (finalize_opaque_block acc base) = clear_block_identity acc"
  by (simp add: finalize_opaque_block_def)

lemma acc_ok_create [simp]: "acc_ok create_accumulator"
  by (simp add: acc_ok_def create_accumulator_def)

lemma acc_ok_inner:
  "map_daemon_event_inner ev jl acc ctx = Some (acc', r) \<Longrightarrow> acc_ok acc \<Longrightarrow> acc_ok acc'"
  apply (cases ev)
  apply (auto simp: arm_defs acc_ok_def finalize_opaque_block_def clear_block_identity_def clear_tool_state_def Let_def
      split: if_splits option.splits prod.splits BlockDeltaPayload.splits)
  done

lemma map_event_inner:
  "map_daemon_event jl ev acc ctx = Some (acc', es, fs) \<Longrightarrow>
     \<exists>es0. map_daemon_event_inner ev jl acc ctx = Some (acc', es0, fs)
       \<and> es = annotate_subagent_handle (subagent_handle ev) es0"
  by (auto simp: map_daemon_event_eq)

lemma acc_ok_events:
  "map_events jl evs acc = Some (acc', r) \<Longrightarrow> acc_ok acc \<Longrightarrow> acc_ok acc'"
proof (induction evs arbitrary: acc r)
  case (Cons e evs)
  obtain ev ctx where "e = (ev, ctx)" by (cases e)
  with Cons.prems obtain acc1 es1 fs1 r2 where "map_daemon_event jl ev acc ctx = Some (acc1, es1, fs1)"
    and rest: "map_events jl evs acc1 = Some (acc', r2)" by (auto split: option.splits)
  then have "acc_ok acc1" using Cons.prems(2) by (auto dest!: map_event_inner intro: acc_ok_inner)
  with rest show ?case by (rule Cons.IH)
qed simp

lemma stale_inner:
  assumes "acc_ok acc" "fa_expected_prompt_id acc = Some p" "stream_prompt ev = Some q" "q \<noteq> p"
  shows "map_daemon_event_inner ev jl acc ctx = Some (acc, [], [])"
  using assms by (cases ev)
    (auto simp: stream_prompt_def arm_defs block_matches_def acc_ok_def split: option.splits)

section \<open>Private reasoning\<close>

text \<open>An event with the provider's private bytes blanked out.\<close>

definition scrub :: "DaemonEvent \<Rightarrow> DaemonEvent" where
  "scrub ev = (case ev of
     D_ContentBlockDelta i (Bd_RedactedThinking _) p h \<Rightarrow> D_ContentBlockDelta i (Bd_RedactedThinking []) p h
   | D_ContentBlockDelta i (Bd_OpenAiReasoningOpaque _ _) p h \<Rightarrow> D_ContentBlockDelta i (Bd_OpenAiReasoningOpaque [] []) p h
   | D_ContentBlockDelta i (Bd_SignatureDelta _) p h \<Rightarrow> D_ContentBlockDelta i (Bd_SignatureDelta []) p h
   | _ \<Rightarrow> ev)"

lemma scrub_event: "map_daemon_event jl (scrub ev) acc ctx = map_daemon_event jl ev acc ctx"
proof -
  have "map_daemon_event_inner (scrub ev) jl acc ctx = map_daemon_event_inner ev jl acc ctx
      \<and> subagent_handle (scrub ev) = subagent_handle ev"
    by (cases ev) (simp_all add: scrub_def map_content_block_delta_def map_block_delta_def split: BlockDeltaPayload.split)
  then show ?thesis by (simp add: map_daemon_event_eq)
qed

lemma map_events_append:
  "map_events jl (xs @ ys) acc = (case map_events jl xs acc of
     None \<Rightarrow> None
   | Some (acc1, es1, fs1) \<Rightarrow> map_option (\<lambda>(acc2, es2, fs2). (acc2, es1 @ es2, fs1 @ fs2)) (map_events jl ys acc1))"
  by (induction jl xs acc rule: map_events.induct) (auto simp: option.map_comp option.map_ident comp_def case_prod_unfold split: option.splits)

text \<open>The readable summaries among the deltas of a block, and the text a list of events adds to the
  thinking channel.\<close>

definition summaries :: "BlockDeltaPayload list \<Rightarrow> string" where
  "summaries ds = concat (map (\<lambda>d. case d of Bd_OpenAiReasoningSummary t \<Rightarrow> t | _ \<Rightarrow> []) ds)"

definition thinking_text :: "SessionDriverEvent list \<Rightarrow> string" where
  "thinking_text es = concat (map (\<lambda>e. case e of E_AssistantDelta _ t (Some Ch_Thinking) _ \<Rightarrow> t | _ \<Rightarrow> []) es)"

definition is_thinking :: "SessionDriverEvent \<Rightarrow> bool" where
  "is_thinking e = (case e of E_AssistantDelta _ _ (Some Ch_Thinking) _ \<Rightarrow> True | _ \<Rightarrow> False)"

definition block_deltas :: "i32 \<Rightarrow> PromptId \<Rightarrow> string option \<Rightarrow> (BlockDeltaPayload \<times> MapCtx) list \<Rightarrow> (DaemonEvent \<times> MapCtx) list" where
  "block_deltas i p h ds = map (\<lambda>(d, ctx). (D_ContentBlockDelta i d p h, ctx)) ds"

lemma annotate_delta:
  "annotate_subagent_handle h [thinking_delta b t] = [thinking_delta (b\<lparr>eb_subagent_handle := (case h of Some x \<Rightarrow> Some x | None \<Rightarrow> eb_subagent_handle b)\<rparr>) t]"
  by (simp add: annotate_subagent_handle_def thinking_delta_def split: option.split)

lemma thinking_delta_simps [simp]:
  "thinking_text [] = []" "thinking_text (thinking_delta b t # es) = t @ thinking_text es"
  "thinking_text (es @ es') = thinking_text es @ thinking_text es'" "is_thinking (thinking_delta b t)"
  by (simp_all add: thinking_text_def thinking_delta_def is_thinking_def)

lemma opaque_deltas:
  assumes "block_matches acc p i" "fa_block_kind acc = Some Bk_OpenAiReasoningOpaque"
  shows "\<exists>es. map_events jl (block_deltas i p h ds) acc
      = Some (acc\<lparr>fa_opaque_summary_emitted := fa_opaque_summary_emitted acc \<or> summaries (map fst ds) \<noteq> []\<rparr>, es, [])
    \<and> thinking_text es = summaries (map fst ds) \<and> list_all is_thinking es"
  using assms
proof (induction ds arbitrary: acc)
  case Nil
  show ?case by (simp add: block_deltas_def summaries_def)
next
  case (Cons x ds)
  obtain d ctx where x: "x = (d, ctx)" by (cases x)
  define acc1 where "acc1 = acc\<lparr>fa_opaque_summary_emitted := fa_opaque_summary_emitted acc \<or> summaries [d] \<noteq> []\<rparr>"
  have ok: "block_matches acc1 p i" "fa_block_kind acc1 = Some Bk_OpenAiReasoningOpaque"
    using Cons.prems by (simp_all add: acc1_def block_matches_def)
  obtain es where es: "map_events jl (block_deltas i p h ds) acc1
      = Some (acc1\<lparr>fa_opaque_summary_emitted := fa_opaque_summary_emitted acc1 \<or> summaries (map fst ds) \<noteq> []\<rparr>, es, [])"
    "thinking_text es = summaries (map fst ds)" "list_all is_thinking es"
    using Cons.IH [OF ok] by blast
  have "\<exists>es1. map_daemon_event jl (D_ContentBlockDelta i d p h) acc ctx = Some (acc1, es1, [])
      \<and> thinking_text es1 = summaries [d] \<and> list_all is_thinking es1"
    using Cons.prems by (cases d) (auto simp: map_daemon_event_eq map_content_block_delta_def map_block_delta_def
        fold_result_def acc1_def summaries_def annotate_delta)
  then obtain es1 where es1: "map_daemon_event jl (D_ContentBlockDelta i d p h) acc ctx = Some (acc1, es1, [])"
    "thinking_text es1 = summaries [d]" "list_all is_thinking es1" by blast
  have "map_events jl (block_deltas i p h (x # ds)) acc
      = Some (acc\<lparr>fa_opaque_summary_emitted := fa_opaque_summary_emitted acc \<or> summaries (map fst (x # ds)) \<noteq> []\<rparr>, es1 @ es, [])"
    using es1 es by (simp add: block_deltas_def x acc1_def summaries_def disj_assoc)
  then show ?case using es es1 by (simp add: x summaries_def)
qed

section \<open>Turns that fail\<close>

text \<open>The messages of the failures among some events, and the last provider error among daemon events.\<close>

definition failed_messages :: "SessionDriverEvent list \<Rightarrow> string list" where
  "failed_messages es = concat (map (\<lambda>e. case e of E_RunFailed _ i \<Rightarrow> [err_message i] | _ \<Rightarrow> []) es)"

fun last_error :: "string option \<Rightarrow> DaemonEvent list \<Rightarrow> string option" where
  "last_error e [] = e"
| "last_error e (ev # evs) = last_error (case ev of D_ModelError err _ _ \<Rightarrow> Some (provider_error_message err) | _ \<Rightarrow> e) evs"

text \<open>An event that neither starts a message nor completes the message of this prompt.\<close>

definition within_turn :: "PromptId \<Rightarrow> DaemonEvent \<Rightarrow> bool" where
  "within_turn p ev = (case ev of D_MessageStart _ _ \<Rightarrow> False | D_MessageComplete _ q _ \<Rightarrow> q \<noteq> p | _ \<Rightarrow> True)"

lemma failed_messages_simps [simp]:
  "failed_messages [] = []"
  "failed_messages (e # es) = (case e of E_RunFailed _ i \<Rightarrow> [err_message i] | _ \<Rightarrow> []) @ failed_messages es"
  "failed_messages (xs @ ys) = failed_messages xs @ failed_messages ys"
  by (simp_all add: failed_messages_def)

lemma failed_set_base [simp]:
  "(case set_base b e of E_RunFailed _ i \<Rightarrow> [err_message i] | _ \<Rightarrow> []) = (case e of E_RunFailed _ i \<Rightarrow> [err_message i] | _ \<Rightarrow> [])"
  by (cases e) simp_all

lemma failed_annotate [simp]: "failed_messages (annotate_subagent_handle h es) = failed_messages es"
  by (simp add: failed_messages_def annotate_subagent_handle_def comp_def split: option.split)

lemma finalize_keeps [simp]:
  "failed_messages (snd (finalize_opaque_block acc b)) = []"
  "fa_turn_error (clear_block_identity acc) = fa_turn_error acc"
  "fa_expected_prompt_id (clear_block_identity acc) = fa_expected_prompt_id acc"
  by (simp_all add: finalize_opaque_block_def failed_messages_def thinking_delta_def clear_block_identity_def)

lemma within_turn_inner:
  assumes "map_daemon_event_inner ev jl acc ctx = Some (acc', es, fs)"
    and "within_turn p ev" "fa_expected_prompt_id acc = Some p"
  shows "fa_expected_prompt_id acc' = Some p \<and> failed_messages es = []
    \<and> fa_turn_error acc' = (case ev of D_ModelError err _ _ \<Rightarrow> Some (provider_error_message err) | _ \<Rightarrow> fa_turn_error acc)"
proof (cases ev)
  case (D_Interrogative o1 o2 o3 o4 o5 o6 o7 o8 o9 o10 o11)
  then show ?thesis using assms
    by (auto simp: map_interrogative_def build_interrogative_mapping_def build_permission_request_def Let_def host_ui_def
        failed_messages_def split: InterrogativeType.splits option.splits)
qed (use assms in \<open>auto simp: arm_defs within_turn_def failed_messages_def finalize_opaque_block_def clear_block_identity_def
    Let_def notice_def notify_def live_update_def thinking_delta_def build_ask_user_question_mapping_def host_ui_def
    split: if_splits option.splits prod.splits list.splits BlockDeltaPayload.splits\<close>)

lemma within_turn_events:
  assumes "map_events jl body acc = Some (acc', es, fs)"
    and "\<forall>(ev, ctx) \<in> set body. within_turn p ev" "fa_expected_prompt_id acc = Some p"
  shows "fa_expected_prompt_id acc' = Some p \<and> failed_messages es = []
    \<and> fa_turn_error acc' = last_error (fa_turn_error acc) (map fst body)"
  using assms
proof (induction body arbitrary: acc es fs)
  case (Cons x body)
  obtain ev ctx where x: "x = (ev, ctx)" by (cases x)
  with Cons.prems(1) obtain acc1 es1 fs1 es2 fs2 where s: "map_daemon_event jl ev acc ctx = Some (acc1, es1, fs1)"
    "map_events jl body acc1 = Some (acc', es2, fs2)" "es = es1 @ es2" by (auto split: option.splits)
  obtain es0 where i: "map_daemon_event_inner ev jl acc ctx = Some (acc1, es0, fs1)"
    "es1 = annotate_subagent_handle (subagent_handle ev) es0" using map_event_inner [OF s(1)] by blast
  have "within_turn p ev" using Cons.prems(2) x by auto
  note step = within_turn_inner [OF i(1) this Cons.prems(3)]
  have "\<forall>(ev, ctx) \<in> set body. within_turn p ev" using Cons.prems(2) by auto
  then show ?case using Cons.IH [OF s(2)] step i(2) s(3) by (simp add: x)
qed simp

section \<open>A context and a JSON library to run the mapper with\<close>

definition sample_json :: JsonLib where
  "sample_json = \<lparr>jl_to_string_pretty = (\<lambda>_. []), jl_from_str = (\<lambda>_. None)\<rparr>"

definition sample_ctx :: MapCtx where
  "sample_ctx = (let ref = \<lparr>sr_workspace_id = ''w'', sr_session_id = ''s''\<rparr>;
       ws = \<lparr>wr_workspace_id = ''w'', wr_path = ''/p'', wr_display_name = None\<rparr>
     in \<lparr>mc_ref = ref, mc_workspace = ws, mc_now = (\<lambda>_. ''t''),
         mc_snapshot = (\<lambda>st. snapshot_from_state None ref ws st ''t'' None None), mc_live_status = St_Idle\<rparr>)"

lemma mapper_total_iff:
  "map_daemon_event jl ev acc ctx = None \<longleftrightarrow>
     (\<exists>options ext goal i rule tc plan p q h.
        ev = D_Interrogative options ext goal i It_Permission rule (Some tc) plan p q h
        \<and> tool_input_preview jl (ptc_input tc) = None)"
  by (simp add: map_daemon_event_eq inner_None)

section \<open>Properties\<close>

text \<open>
  Property C40. The mapper panics in one case only. Every daemon event has a disposition and meets the assertion of
  its disposition, so the sole panic left is the byte slice of a permission card's input preview: a
  pretty-printed tool input of more than 500 bytes whose byte 499 lies inside a character.
\<close>

theorem mapper_panics_iff:
  "map_daemon_event jl ev acc ctx = None \<longleftrightarrow>
     (\<exists>options ext goal i rule tc plan p q h.
        ev = D_Interrogative options ext goal i It_Permission rule (Some tc) plan p q h
        \<and> 500 < length (jl_to_string_pretty jl (ptc_input tc))
        \<and> \<not> is_char_boundary (jl_to_string_pretty jl (ptc_input tc)) 499)"
  by (simp add: mapper_total_iff preview_None)

text \<open>
  Delayed events of another prompt are ignored: wherever the stream of events from the start has led,
  while the turn of one prompt is in progress a block or completion event of a different prompt leaves the accumulator as
  it is and emits nothing.
\<close>

theorem stale_prompt_ignored:
  assumes "map_events jl evs create_accumulator = Some (acc, r)"
    and "fa_expected_prompt_id acc = Some p" "stream_prompt ev = Some q" "q \<noteq> p"
  shows "map_daemon_event jl ev acc ctx = Some (acc, [], [])"
  using stale_inner [OF acc_ok_events [OF assms(1)] assms(2-4)] by (simp add: map_daemon_event_eq)

theorem stale_prompt_ignored_witness:
  "map_daemon_event sample_json (D_ContentBlockStop 0 ''p2'' None)
      (create_accumulator\<lparr>fa_expected_prompt_id := Some ''p1''\<rparr>) sample_ctx
    = Some (create_accumulator\<lparr>fa_expected_prompt_id := Some ''p1''\<rparr>, [], [])"
proof -
  have run: "map_events sample_json [(D_MessageStart ''p1'' None, sample_ctx)] create_accumulator
      = Some (create_accumulator\<lparr>fa_expected_prompt_id := Some ''p1''\<rparr>,
          [E_SessionUpdated (meta sample_ctx) (mc_snapshot sample_ctx St_Running)], [])"
    by (simp add: map_daemon_event_eq map_message_start_def fold_result_def finalize_opaque_block_def
        clear_block_identity_def clear_tool_state_def create_accumulator_def annotate_subagent_handle_def)
  show ?thesis
    using stale_prompt_ignored [OF run, of "''p1''" "D_ContentBlockStop 0 ''p2'' None" "''p2''" sample_ctx]
    by (simp add: stream_prompt_def)
qed

text \<open>
  Property C39. Private reasoning never leaves the mapper: blanking out the redacted, opaque and signature payloads
  of a stream changes nothing of what the mapper emits, requests or remembers.
\<close>

theorem private_bytes_never_leak:
  "map_events jl (map (\<lambda>(ev, ctx). (scrub ev, ctx)) evs) acc = map_events jl evs acc"
  by (induction jl evs acc rule: map_events.induct) (auto simp: scrub_event split: option.split)

text \<open>
  What a block of opaque reasoning shows: from its start to its stop, whatever deltas come in between,
  the mapper adds text to the thinking channel only, and the text is the concatenation of the block's
  readable summaries, or the fixed placeholder once when they are empty.
\<close>

theorem opaque_block_shows_summary_or_placeholder:
  assumes "fa_expected_prompt_id acc = Some p" "fa_block_kind acc = None"
  shows "\<exists>acc' es. map_events jl ((D_ContentBlockStart i Ck_OpenAiReasoningOpaque p h, ctx)
        # block_deltas i p h ds @ [(D_ContentBlockStop i p h, ctx')]) acc = Some (acc', es, [])
    \<and> list_all is_thinking es
    \<and> thinking_text es = (if summaries (map fst ds) = [] then OPAQUE_REASONING_PLACEHOLDER else summaries (map fst ds))"
proof -
  define acc1 where "acc1 = acc\<lparr>fa_block_prompt_id := Some p, fa_block_index := Some i,
    fa_block_kind := Some Bk_OpenAiReasoningOpaque, fa_opaque_summary_emitted := False,
    fa_tool_input_buffer := [], fa_tool_use_block := None\<rparr>"
  have start: "map_daemon_event jl (D_ContentBlockStart i Ck_OpenAiReasoningOpaque p h) acc ctx = Some (acc1, [], [])"
    using assms by (simp add: map_daemon_event_eq map_content_block_start_def fold_result_def finalize_opaque_block_def
        clear_block_identity_def acc1_def)
  obtain es where es: "map_events jl (block_deltas i p h ds) acc1
      = Some (acc1\<lparr>fa_opaque_summary_emitted := summaries (map fst ds) \<noteq> []\<rparr>, es, [])"
    "thinking_text es = summaries (map fst ds)" "list_all is_thinking es"
    using opaque_deltas [of acc1 p i jl h ds] by (auto simp: acc1_def block_matches_def)
  define acc2 where "acc2 = acc1\<lparr>fa_opaque_summary_emitted := summaries (map fst ds) \<noteq> []\<rparr>"
  define es2 where "es2 = (if summaries (map fst ds) = []
    then annotate_subagent_handle h [thinking_delta (meta ctx') OPAQUE_REASONING_PLACEHOLDER] else [])"
  have "map_daemon_event jl (D_ContentBlockStop i p h) acc2 ctx' = Some (clear_block_identity acc2, es2, [])"
    by (simp add: map_daemon_event_eq map_content_block_stop_def block_matches_def fold_result_def
        finalize_opaque_block_def acc2_def acc1_def es2_def)
  then show ?thesis
    using start es by (auto simp: map_events_append acc2_def es2_def annotate_delta)
qed


theorem opaque_block_shows_summary_or_placeholder_witness:
  "\<exists>acc' es. map_events sample_json ((D_ContentBlockStart 0 Ck_OpenAiReasoningOpaque ''p'' None, sample_ctx)
        # block_deltas 0 ''p'' None [(Bd_OpenAiReasoningOpaque ''secret'' ''id'', sample_ctx)]
        @ [(D_ContentBlockStop 0 ''p'' None, sample_ctx)])
      (create_accumulator\<lparr>fa_expected_prompt_id := Some ''p''\<rparr>) = Some (acc', es, [])
    \<and> thinking_text es = ''opaque reasoning block''"
  using opaque_block_shows_summary_or_placeholder [of "create_accumulator\<lparr>fa_expected_prompt_id := Some ''p''\<rparr>" "''p''"
      sample_json 0 None sample_ctx "[(Bd_OpenAiReasoningOpaque ''secret'' ''id'', sample_ctx)]" sample_ctx]
  by (auto simp: create_accumulator_def summaries_def OPAQUE_REASONING_PLACEHOLDER_def)

text \<open>
  A turn fails exactly when a provider error was not retried: between the start of a message and its
  completion, with anything but another start or completion of the prompt in between, one failure is
  reported if there was a provider error, with the text of the last one, and none otherwise. Either way
  the completed run is fetched from the daemon as well, and no error is left for the next turn.
\<close>

theorem turn_fails_iff_unretried_error:
  assumes "map_events jl ((D_MessageStart p h, ctx) # body @ [(D_MessageComplete alert p h', ctx')]) acc = Some (acc', es, fs)"
    and "\<forall>(ev, c) \<in> set body. within_turn p ev"
  shows "failed_messages es = (case last_error None (map fst body) of Some m \<Rightarrow> [m] | None \<Rightarrow> [])
    \<and> last fs = Ef_FetchState Fe_RunCompleted (Some p) \<and> fa_turn_error acc' = None"
proof -
  obtain acc0 es0 fs0 where s: "map_daemon_event jl (D_MessageStart p h) acc ctx = Some (acc0, es0, fs0)"
    using assms(1) by (auto split: option.splits)
  have acc0: "fa_expected_prompt_id acc0 = Some p" "fa_turn_error acc0 = None" "failed_messages es0 = []"
    using s by (auto simp: map_daemon_event_eq map_message_start_def fold_result_def clear_tool_state_def
        finalize_opaque_block_def thinking_delta_def split: prod.splits if_splits)
  obtain acc1 es1 fs1 where b: "map_events jl body acc0 = Some (acc1, es1, fs1)"
    using assms(1) s by (auto simp: map_events_append split: option.splits)
  note turn = within_turn_events [OF b assms(2) acc0(1)]
  obtain es2 fs2 where c: "map_daemon_event jl (D_MessageComplete alert p h') acc1 ctx' = Some (acc', es2, fs2)"
    "es = es0 @ es1 @ es2" "fs = fs0 @ fs1 @ fs2"
    using assms(1) s b by (auto simp: map_events_append split: option.splits)
  have "failed_messages es2 = (case fa_turn_error acc1 of Some m \<Rightarrow> [m] | None \<Rightarrow> [])
      \<and> fs2 = [Ef_FetchState Fe_RunCompleted (Some p)] \<and> fa_turn_error acc' = None"
    using c(1) turn by (auto simp: map_daemon_event_eq map_message_complete_def fold_result_def clear_tool_state_def Let_def
        finalize_opaque_block_def thinking_delta_def clear_block_identity_def split: prod.splits option.splits if_splits)
  then show ?thesis using turn acc0 c by simp
qed

theorem turn_fails_iff_unretried_error_witness:
  "\<exists>acc' es fs. map_events sample_json [(D_MessageStart ''p'' None, sample_ctx), (D_ModelError Pe_AuthFailed ''p'' None, sample_ctx),
      (D_MessageComplete None ''p'' None, sample_ctx)] create_accumulator = Some (acc', es, fs)
    \<and> failed_messages es = [''Authentication failed'']"
proof -
  have "map_events sample_json ((D_MessageStart ''p'' None, sample_ctx) # [(D_ModelError Pe_AuthFailed ''p'' None, sample_ctx)]
      @ [(D_MessageComplete None ''p'' None, sample_ctx)]) create_accumulator \<noteq> None"
    by (simp add: map_daemon_event_eq map_message_start_def map_model_error_def map_message_complete_def fold_result_def
        finalize_opaque_block_def Let_def split: option.split)
  then obtain acc' es fs where run: "map_events sample_json ((D_MessageStart ''p'' None, sample_ctx)
      # [(D_ModelError Pe_AuthFailed ''p'' None, sample_ctx)]
      @ [(D_MessageComplete None ''p'' None, sample_ctx)]) create_accumulator = Some (acc', es, fs)"
    by (metis not_None_eq prod_cases3)
  from turn_fails_iff_unretried_error [OF run] run show ?thesis by (simp add: within_turn_def)
qed

end
