(* ===== verification/Interrogatives.thy ===== *)
theory Interrogatives
  imports Event_Mapper
begin

text \<open>
  The two halves of the host-UI bridge together: the cards that \<open>Event_Map\<close> builds from a daemon
  question, and the responses that \<open>Ui_Bridge\<close> builds from the operator's answer to the card. What the
  cards with a list of labels have in common is the locale \<open>select_card\<close>: the answer carries the label
  itself, and the response is the meaning of the label's position. It is interpreted for the
  clarification, the permission and the plan card.
\<close>

section \<open>Cards that offer labels\<close>

locale select_card =
  fixes offer :: "'q \<Rightarrow> string list"
    and answer :: "'q \<Rightarrow> string \<Rightarrow> 'r option"
    and meaning :: "'q \<Rightarrow> nat \<Rightarrow> 'r"
    and valid :: "'q \<Rightarrow> bool"
  assumes answer_position: "valid q \<Longrightarrow> answer q v = map_option (meaning q) (position (\<lambda>l. l = v) (offer q))"
begin

lemma chosen: "valid q \<Longrightarrow> distinct (offer q) \<Longrightarrow> i < length (offer q) \<Longrightarrow> answer q (offer q ! i) = Some (meaning q i)"
  by (simp add: answer_position position_distinct)

lemma rejected: "valid q \<Longrightarrow> answer q v = None \<longleftrightarrow> v \<notin> set (offer q)"
  by (auto simp: answer_position position_None)

lemma meant: "valid q \<Longrightarrow> answer q v = Some r \<Longrightarrow> \<exists>i < length (offer q). v = offer q ! i \<and> r = meaning q i"
  using position_Some by (fastforce simp: answer_position)

end

section \<open>Clarifications\<close>

definition clarification_pending :: "string \<Rightarrow> ClarificationOption list \<Rightarrow> PendingInterrogative" where
  "clarification_pending i opts = (blank_pending i Pi_Clarification)\<lparr>pg_clarification_labels := Some (map co_label opts),
     pg_clarification_option_keys := Some (map co_key opts)\<rparr>"

interpretation clarification: select_card
  "map co_label" "\<lambda>opts v. build_interrogative_response (clarification_pending i opts) (R_Value rid v None)"
  "\<lambda>opts k. Ir_ClarificationChoice (co_key (opts ! k))" "\<lambda>opts. opts \<noteq> []"
  for i rid
proof
  fix opts v assume ne: "opts \<noteq> ([] :: ClarificationOption list)"
  show "build_interrogative_response (clarification_pending i opts) (R_Value rid v None)
    = map_option (\<lambda>k. Ir_ClarificationChoice (co_key (opts ! k))) (position (\<lambda>l. l = v) (map co_label opts))"
  proof (cases "position (\<lambda>l. l = v) (map co_label opts)")
    case None
    then show ?thesis using ne
      by (cases opts) (auto simp: build_interrogative_response_def answer_clarification_def clarification_pending_def
          blank_pending_def split: option.splits)
  next
    case (Some k)
    then have "k < length opts" using position_Some by fastforce
    then show ?thesis using ne Some
      by (cases opts) (auto simp: build_interrogative_response_def answer_clarification_def clarification_pending_def
          blank_pending_def get_at_def nth_Cons' split: option.splits)
  qed
qed

section \<open>Permissions\<close>

definition permission_pending :: "string \<Rightarrow> PersistenceTarget list option \<Rightarrow> PendingInterrogative" where
  "permission_pending i kt = (blank_pending i Pi_Permission)\<lparr>pg_permission_choices := Some (prune_approval_options kt)\<rparr>"

definition permission_offer :: "PersistenceTarget list option \<Rightarrow> string list" where
  "permission_offer kt = List.map_filter choice_label (prune_approval_options kt)"

definition permission_meaning :: "ApprovalChoice \<Rightarrow> InterrogativeResponse" where
  "permission_meaning c = Ir_PermissionAnswer (ac_granted c) (ac_persistence_target c)"

lemma choice_label_nth: "k < 7 \<Longrightarrow> choice_label (PERMISSION_APPROVAL_CHOICES ! k) = Some (PERMISSION_APPROVAL_LABELS ! k)"
  using position_distinct [OF choices_distinct, of k]
  by (simp add: choice_label_def get_at_def choices_length labels_length)

lemma choices_cases: "c \<in> set PERMISSION_APPROVAL_CHOICES \<Longrightarrow> \<exists>k < 7. c = PERMISSION_APPROVAL_CHOICES ! k"
  by (metis choices_length in_set_conv_nth)

definition label_of :: "ApprovalChoice \<Rightarrow> string" where
  "label_of c = (case choice_label c of Some l \<Rightarrow> l | None \<Rightarrow> [])"

lemma offer_map: "permission_offer kt = map label_of (prune_approval_options kt)"
proof -
  have "choice_label c = Some (label_of c)" if "c \<in> set (prune_approval_options kt)" for c
    using that prune_subset choices_cases choice_label_nth by (fastforce simp: label_of_def)
  then show ?thesis
    unfolding permission_offer_def by (induction "prune_approval_options kt") (auto simp: List.map_filter_def)
qed

lemma label_of_nth: "k < 7 \<Longrightarrow> label_of (PERMISSION_APPROVAL_CHOICES ! k) = PERMISSION_APPROVAL_LABELS ! k"
  by (simp add: label_of_def choice_label_nth)

lemma label_of_inj: "inj_on label_of (set PERMISSION_APPROVAL_CHOICES)"
proof (rule inj_onI)
  fix c d assume "c \<in> set PERMISSION_APPROVAL_CHOICES" "d \<in> set PERMISSION_APPROVAL_CHOICES" "label_of c = label_of d"
  then show "c = d" using choices_cases label_of_nth labels_distinct
    by (metis labels_length nth_eq_iff_index_eq)
qed

lemma prune_distinct: "distinct (prune_approval_options kt)"
  using choices_distinct by (auto simp: prune_approval_options_def split: option.splits list.splits)

lemma offer_distinct: "distinct (permission_offer kt)"
  using prune_distinct label_of_inj prune_subset by (auto simp: offer_map distinct_map intro: inj_on_subset)

lemma permission_answer:
  "build_interrogative_response (permission_pending i kt) (R_Value rid v None)
    = map_option (\<lambda>k. permission_meaning (prune_approval_options kt ! k)) (position (\<lambda>l. l = v) (permission_offer kt))"
proof (cases "position (\<lambda>l. l = v) (permission_offer kt)")
  case None
  then have "v \<notin> label_of ` set (prune_approval_options kt)" by (auto simp: position_None offer_map)
  then have "build_interrogative_response (permission_pending i kt) (R_Value rid v None) = None"
    using position_Some [of _ PERMISSION_APPROVAL_LABELS] label_of_nth
    by (fastforce simp: build_interrogative_response_def answer_permission_def permission_pending_def blank_pending_def
        approval_from_index_def get_at_def labels_length choices_length image_iff split: option.splits)
  with None show ?thesis by simp
next
  case (Some k)
  define c where "c = prune_approval_options kt ! k"
  have k: "k < length (prune_approval_options kt)" "v = label_of c"
    using position_Some [OF Some] by (auto simp: offer_map c_def)
  then have mem: "c \<in> set (prune_approval_options kt)" by (simp add: c_def)
  then obtain n where n: "n < 7" "c = PERMISSION_APPROVAL_CHOICES ! n" using prune_subset choices_cases by blast
  then have "position (\<lambda>l. l = v) PERMISSION_APPROVAL_LABELS = Some n"
    using position_distinct [OF labels_distinct, of n] k(2) by (simp add: label_of_nth labels_length)
  then show ?thesis using Some mem n
    by (simp add: build_interrogative_response_def answer_permission_def permission_pending_def blank_pending_def
        approval_from_index_def get_at_def choices_length permission_meaning_def flip: c_def)
qed

interpretation permission: select_card
  permission_offer "\<lambda>kt v. build_interrogative_response (permission_pending i kt) (R_Value rid v None)"
  "\<lambda>kt k. permission_meaning (prune_approval_options kt ! k)" "\<lambda>_. True"
  for i rid
  by unfold_locales (rule permission_answer)

lemma deny_offered:
  "build_interrogative_response (permission_pending i kt) (R_Value rid ''Deny'' None) = Some (Ir_PermissionAnswer False None)"
proof -
  have "PERMISSION_APPROVAL_CHOICES ! 0 \<in> set (prune_approval_options kt)"
    by (auto simp: prune_mem PERMISSION_APPROVAL_CHOICES_def split: option.splits list.splits)
  then show ?thesis
    by (simp add: build_interrogative_response_def answer_permission_def permission_pending_def blank_pending_def
        approval_from_index_def get_at_def PERMISSION_APPROVAL_LABELS_def choices_length)
      (simp add: PERMISSION_APPROVAL_CHOICES_def)
qed

lemma grant_allowed:
  assumes "build_interrogative_response (permission_pending i (map_option pr_keep_targets rule)) (R_Value rid v None)
    = Some (Ir_PermissionAnswer g (Some t))"
  shows "g \<and> (case rule of Some ru \<Rightarrow> pr_keep_targets ru = [] \<or> t \<in> set (pr_keep_targets ru) | None \<Rightarrow> True)"
proof -
  obtain k where k: "k < length (permission_offer (map_option pr_keep_targets rule))"
    "Ir_PermissionAnswer g (Some t) = permission_meaning (prune_approval_options (map_option pr_keep_targets rule) ! k)"
    using permission.meant [OF _ assms] by auto
  define c where "c = prune_approval_options (map_option pr_keep_targets rule) ! k"
  have c: "c \<in> set (prune_approval_options (map_option pr_keep_targets rule))" "ac_granted c = g" "ac_persistence_target c = Some t"
    using k by (simp_all add: c_def offer_map permission_meaning_def)
  then have "c \<in> set PERMISSION_APPROVAL_CHOICES" using prune_subset by blast
  then have "g" using c by (auto simp: PERMISSION_APPROVAL_CHOICES_def)
  moreover have "pr_keep_targets ru = [] \<or> t \<in> set (pr_keep_targets ru)" if "rule = Some ru" for ru
    using c that by (cases "pr_keep_targets ru") (auto simp: prune_mem)
  ultimately show ?thesis by (simp split: option.split)
qed

section \<open>Plans\<close>

definition plan_refuse :: "PlanHandoffContext option \<Rightarrow> string option" where
  "plan_refuse ph = Option.bind ph (\<lambda>p. pal_refuse (ph_action_labels p))"

definition plan_pending :: "string \<Rightarrow> PlanHandoffContext option \<Rightarrow> PendingInterrogative" where
  "plan_pending i ph = (blank_pending i Pi_PlanHandoff)\<lparr>pg_plan_handoff_labels := Some (labels_to_vec (plan_labels ph)),
     pg_plan_handoff_refuse_label := plan_refuse ph\<rparr>"

definition plan_offer :: "PlanHandoffContext option \<Rightarrow> string list" where
  "plan_offer ph = labels_to_vec (plan_labels ph)"

definition plan_valid :: "PlanHandoffContext option \<Rightarrow> bool" where
  "plan_valid ph = (case plan_refuse ph of None \<Rightarrow> True | Some r \<Rightarrow> r \<notin> set (take 2 (plan_offer ph)))"

lemma length_labels [simp]: "length (labels_to_vec l) = 3"
  by (simp add: labels_to_vec_def split: prod.split)

lemma length_decisions [simp]: "length PLAN_HANDOFF_DECISIONS = 3"
  by (simp add: PLAN_HANDOFF_DECISIONS_def)

lemma three_cases: "length xs = 3 \<Longrightarrow> \<exists>a b c. xs = [a, b, c]"
  by (simp add: numeral_3_eq_3 length_Suc_conv) blast

interpretation plan: select_card
  plan_offer "\<lambda>ph v. build_interrogative_response (plan_pending i ph) (R_Value rid v None)"
  "\<lambda>_ k. Ir_PlanHandoffAnswer (J_String (PLAN_HANDOFF_DECISIONS ! k))" plan_valid
  for i rid
proof
  fix ph v assume valid: "plan_valid ph"
  obtain a b c where l: "labels_to_vec (plan_labels ph) = [a, b, c]" using three_cases length_labels by blast
  show "build_interrogative_response (plan_pending i ph) (R_Value rid v None)
    = map_option (\<lambda>k. Ir_PlanHandoffAnswer (J_String (PLAN_HANDOFF_DECISIONS ! k))) (position (\<lambda>l. l = v) (plan_offer ph))"
    using valid by (auto simp: build_interrogative_response_def answer_plan_handoff_def plan_pending_def blank_pending_def
        plan_valid_def plan_offer_def l Let_def split: option.splits)
qed

text \<open>A refusal with feedback: it goes through exactly when the value is the refusal label and that
  label is not one of the two implementation labels.\<close>

lemma plan_refusal:
  "build_interrogative_response (plan_pending i ph) (R_Value rid v (Some fb)) =
     (if plan_valid ph \<and> v = (case plan_refuse ph of Some r \<Rightarrow> r | None \<Rightarrow> plan_offer ph ! 2)
      then Some (Ir_PlanHandoffAnswer (refuse_decision fb)) else None)"
  by (auto simp: build_interrogative_response_def answer_plan_handoff_def plan_pending_def blank_pending_def
      plan_valid_def plan_offer_def Let_def split: option.splits)

section \<open>From the daemon's question to the daemon's answer\<close>

text \<open>What the mapper emits and registers for a question: the card, and what is kept of the question.\<close>

definition raises_card ::
  "JsonLib \<Rightarrow> DaemonEvent \<Rightarrow> FoldAccumulator \<Rightarrow> MapCtx \<Rightarrow> HostUiRequest \<Rightarrow> PendingInterrogative \<Rightarrow> bool" where
  "raises_card jl ev acc ctx request pending \<longleftrightarrow> (\<exists>base. map_daemon_event jl ev acc ctx
     = Some (acc, [E_HostUiRequest base request], [Ef_RegisterInterrogative pending]))"

lemma annotate_host_ui: "\<exists>base'. annotate_subagent_handle h [host_ui base request] = [E_HostUiRequest base' request]"
  by (cases h) (simp_all add: annotate_subagent_handle_def host_ui_def)

lemma raises_interrogative:
  assumes "build_interrogative_mapping jl i ty q options plan goal rule tc (meta ctx)
    = Some (host_ui (meta ctx) request, pending)"
  shows "raises_card jl (D_Interrogative options ext goal i ty rule tc plan p q h) acc ctx request pending"
  using annotate_host_ui [of h "meta ctx" request] assms
  by (auto simp: raises_card_def map_daemon_event_eq map_interrogative_def)

text \<open>
  Choosing an option of a clarification card answers the daemon with the key of that very option: the
  card lists the labels of the daemon's options in their order, and when the labels are distinct the
  answer that carries the label of the \<open>k\<close>-th option becomes the \<open>k\<close>-th key.
\<close>

theorem clarification_roundtrip:
  assumes "distinct (map co_label opts)" "k < length opts"
  shows "\<exists>pending. raises_card jl (D_Interrogative (Some opts) ext goal i It_Clarification rule tc plan p q h) acc ctx
      (H_Select i q (map co_label opts) None None) pending
    \<and> build_interrogative_response pending (R_Value i (map co_label opts ! k) None)
      = Some (Ir_ClarificationChoice (co_key (opts ! k)))"
proof -
  have "raises_card jl (D_Interrogative (Some opts) ext goal i It_Clarification rule tc plan p q h) acc ctx
      (H_Select i q (map co_label opts) None None) (clarification_pending i opts)"
    by (rule raises_interrogative) (simp add: build_interrogative_mapping_def clarification_pending_def Let_def)
  moreover have "opts \<noteq> []" using assms(2) by auto
  ultimately show ?thesis using clarification.chosen [of opts k i i] assms by auto
qed

theorem clarification_roundtrip_witness:
  "\<exists>pending. raises_card sample_json (D_Interrogative (Some [\<lparr>co_key = ''a'', co_label = ''Apple''\<rparr>, \<lparr>co_key = ''b'', co_label = ''Bean''\<rparr>])
      None None ''i'' It_Clarification None None None ''p'' ''Which?'' None) create_accumulator sample_ctx
      (H_Select ''i'' ''Which?'' [''Apple'', ''Bean''] None None) pending
    \<and> build_interrogative_response pending (R_Value ''i'' ''Bean'' None) = Some (Ir_ClarificationChoice ''b'')"
  using clarification_roundtrip [of "[\<lparr>co_key = ''a'', co_label = ''Apple''\<rparr>, \<lparr>co_key = ''b'', co_label = ''Bean''\<rparr>]" 1
      sample_json None None "''i''" None None None "''p''" "''Which?''" None create_accumulator sample_ctx] by simp

text \<open>
  A permission card answers for exactly what it offers: whenever the mapper raises one, its labels are
  distinct, a label that is not on the card is refused, denying is always on it, and a grant that the
  daemon would remember is a grant for one of the targets the daemon's rule allows (for any target
  when it sends no rule).
\<close>

theorem permission_answers_exact:
  assumes "map_daemon_event jl (D_Interrogative options ext goal i It_Permission rule tc plan p q h) acc ctx = Some r"
  shows "\<exists>title name input offered pending.
      raises_card jl (D_Interrogative options ext goal i It_Permission rule tc plan p q h) acc ctx
        (H_Permission i title name input offered None) pending
      \<and> distinct offered
      \<and> (\<forall>v. build_interrogative_response pending (R_Value rid v None) = None \<longleftrightarrow> v \<notin> set offered)
      \<and> build_interrogative_response pending (R_Value rid ''Deny'' None) = Some (Ir_PermissionAnswer False None)
      \<and> (\<forall>v g t. build_interrogative_response pending (R_Value rid v None) = Some (Ir_PermissionAnswer g (Some t)) \<longrightarrow>
          g \<and> (case rule of Some ru \<Rightarrow> pr_keep_targets ru = [] \<or> t \<in> set (pr_keep_targets ru) | None \<Rightarrow> True))"
proof -
  let ?kt = "map_option pr_keep_targets rule"
  obtain input where "build_interrogative_mapping jl i It_Permission q options plan goal rule tc (meta ctx)
      = Some (host_ui (meta ctx) (H_Permission i (if q = [] then ''Approve?'' else q) (map_option ptc_tool_name tc)
          input (permission_offer ?kt) None), permission_pending i ?kt)"
    using assms by (auto simp: map_daemon_event_eq build_interrogative_mapping_def build_permission_request_def Let_def
        permission_offer_def permission_pending_def split: option.splits)
  then have "raises_card jl (D_Interrogative options ext goal i It_Permission rule tc plan p q h) acc ctx
      (H_Permission i (if q = [] then ''Approve?'' else q) (map_option ptc_tool_name tc)
          input (permission_offer ?kt) None) (permission_pending i ?kt)"
    by (rule raises_interrogative)
  moreover have "build_interrogative_response (permission_pending i ?kt) (R_Value rid v None) = None
      \<longleftrightarrow> v \<notin> set (permission_offer ?kt)" for v
    using permission.rejected [where q = ?kt and v = v and i = i and rid = rid] by simp
  moreover have "build_interrogative_response (permission_pending i ?kt) (R_Value rid ''Deny'' None)
      = Some (Ir_PermissionAnswer False None)"
    by (rule deny_offered)
  moreover have "g \<and> (case rule of Some ru \<Rightarrow> pr_keep_targets ru = [] \<or> t \<in> set (pr_keep_targets ru) | None \<Rightarrow> True)"
    if "build_interrogative_response (permission_pending i ?kt) (R_Value rid v None) = Some (Ir_PermissionAnswer g (Some t))"
    for v g t
    using that by (rule grant_allowed)
  ultimately show ?thesis using offer_distinct by blast
qed

theorem permission_answers_exact_witness:
  "\<exists>title name input offered pending.
      raises_card sample_json (D_Interrogative None None None ''i'' It_Permission None None None ''p'' [] None) create_accumulator sample_ctx
        (H_Permission ''i'' title name input offered None) pending
      \<and> build_interrogative_response pending (R_Value ''i'' ''Deny'' None) = Some (Ir_PermissionAnswer False None)"
proof -
  have "map_daemon_event sample_json (D_Interrogative None None None ''i'' It_Permission None None None ''p'' [] None)
      create_accumulator sample_ctx \<noteq> None" by (simp add: mapper_total_iff)
  then obtain r where "map_daemon_event sample_json (D_Interrogative None None None ''i'' It_Permission None None None ''p'' [] None)
      create_accumulator sample_ctx = Some r" by blast
  from permission_answers_exact [OF this, of "''i''"] show ?thesis by blast
qed

text \<open>
  A plan card decides what its button says: when the labels are distinct and the daemon's refusal label
  is not one of the two implementation labels, the \<open>k\<close>-th label answers with the \<open>k\<close>-th decision, and
  feedback under the refusal label (the cancel label, when there is none) is posted as a refusal.
\<close>

theorem plan_roundtrip:
  assumes "distinct (plan_offer ph)" "plan_valid ph" "k < 3"
  shows "\<exists>title text path facet labels refuse pending.
      raises_card jl (D_Interrogative options ext goal i It_PlanHandoff rule tc ph p q h) acc ctx
        (H_Plan i title text path facet labels refuse None) pending
      \<and> labels_to_vec labels = plan_offer ph
      \<and> build_interrogative_response pending (R_Value rid (plan_offer ph ! k) None)
        = Some (Ir_PlanHandoffAnswer (J_String ([''implement_new_context'', ''implement_current_context'', ''cancel''] ! k)))
      \<and> build_interrogative_response pending
          (R_Value rid (case refuse of Some r \<Rightarrow> r | None \<Rightarrow> plan_offer ph ! 2) (Some feedback))
        = Some (Ir_PlanHandoffAnswer (refuse_decision feedback))"
proof -
  have "raises_card jl (D_Interrogative options ext goal i It_PlanHandoff rule tc ph p q h) acc ctx
      (H_Plan i (case ph of Some x \<Rightarrow> ph_title x | None \<Rightarrow> ''Plan handoff'')
        (case ph of Some x \<Rightarrow> ph_plan_text x | None \<Rightarrow> []) (map_option ph_display_path ph)
        (map_option ph_target_facet ph) (plan_labels ph) (plan_refuse ph) None) (plan_pending i ph)"
    by (rule raises_interrogative)
      (simp add: build_interrogative_mapping_def plan_pending_def plan_refuse_def Let_def)
  moreover have "labels_to_vec (plan_labels ph) = plan_offer ph" by (simp add: plan_offer_def)
  moreover have "length (plan_offer ph) = 3" by (simp add: plan_offer_def)
  ultimately show ?thesis
    using plan.chosen [where q = ph and i = k and ia = i and rid = rid] plan_refusal [of i ph rid _ feedback] assms
    unfolding PLAN_HANDOFF_DECISIONS_def by fastforce
qed

theorem plan_roundtrip_witness:
  "\<exists>title text path facet labels refuse pending.
      raises_card sample_json (D_Interrogative None None None ''i'' It_PlanHandoff None None None ''p'' [] None) create_accumulator sample_ctx
        (H_Plan ''i'' title text path facet labels refuse None) pending
      \<and> build_interrogative_response pending (R_Value ''i'' ''Cancel'' None) = Some (Ir_PlanHandoffAnswer (J_String ''cancel''))"
proof -
  have offer: "plan_offer None = [''Implement (new context)'', ''Implement (current context)'', ''Cancel'']"
    by (simp add: plan_offer_def plan_labels_def labels_to_vec_def)
  have "distinct (plan_offer None)" "plan_valid None" by (simp_all add: offer plan_valid_def plan_refuse_def)
  from plan_roundtrip [OF this, of 2 sample_json None None None "''i''" None None "''p''" "[]" None create_accumulator sample_ctx "''i''" "[]"]
  show ?thesis by (simp add: offer del: split_paired_Ex) blast
qed

end
