(* ===== verification/History_Seed.thy ===== *)
theory History_Seed
  imports Event_Map Session_State
begin

text \<open>
  The replay of a session's history, \<^verbatim>\<open>server/pantoken-server/src/polytoken/history_seed.rs\<close>: the items
  of \<^verbatim>\<open>GET /history\<close>, untyped JSON objects, become the events that rebuild the transcript. A tool call
  whose result is missing is closed by a synthetic event at the end. The two sequences the driver
  builds around a replay (\<^verbatim>\<open>build_branch_seed\<close>, \<^verbatim>\<open>build_reseed_events\<close> of \<^verbatim>\<open>driver.rs\<close>) are here too.
\<close>

section \<open>Reading untyped items\<close>

definition jget :: "json_value \<Rightarrow> string \<Rightarrow> json_value option" where
  "jget v k = Option.bind (as_object v) (\<lambda>kvs. map_of kvs k)"

definition jget_str :: "json_value \<Rightarrow> string \<Rightarrow> string option" where
  "jget_str v k = Option.bind (jget v k) as_str"

definition jget_bool :: "json_value \<Rightarrow> string \<Rightarrow> bool option" where
  "jget_bool v k = Option.bind (jget v k) (\<lambda>b. case b of J_Bool x \<Rightarrow> Some x | _ \<Rightarrow> None)"

definition jget_array :: "json_value \<Rightarrow> string \<Rightarrow> json_value list option" where
  "jget_array v k = Option.bind (jget v k) as_array"

definition str_or :: "string \<Rightarrow> string option \<Rightarrow> string" where
  "str_or d s = (case s of Some x \<Rightarrow> x | None \<Rightarrow> d)"

definition history_plan_review_label :: "string \<Rightarrow> string option" where
  "history_plan_review_label reason_type =
     (if reason_type = ''plan_review_required'' then Some ''Plan review required''
      else if reason_type = ''plan_mode_reinforcement'' then Some ''Plan mode reminder''
      else if reason_type = ''plan_verification'' then Some ''Plan verification''
      else None)"

section \<open>Tool results\<close>

definition lift_rest ::
  "(string \<times> json_value) list \<Rightarrow> bool \<Rightarrow> json_value option \<times> ImageContent list option \<times> bool" where
  "lift_rest kvs success = (case get_str kvs ''text'' of
     Some text \<Rightarrow> (Some (J_String text), None, success)
   | None \<Rightarrow> (case Option.bind (map_of kvs ''blocks'') as_array of
       Some blocks \<Rightarrow> (Some (J_String (concat (List.map_filter block_text blocks))), None, success)
     | None \<Rightarrow> (if kvs = [] then None else Some (J_Object kvs), None, success)))"

definition lift_tool_result ::
  "json_value option \<Rightarrow> bool option \<Rightarrow> json_value option \<times> ImageContent list option \<times> bool" where
  "lift_tool_result content is_error =
     (let success = (is_error \<noteq> Some True)
      in case Option.bind content as_object of
           None \<Rightarrow> (None, None, success)
         | Some kvs \<Rightarrow>
             (case Option.bind (map_of kvs ''image'') as_object of
                Some img \<Rightarrow> (case (get_str img ''data'', get_str img ''media_type'') of
                    (Some data, Some media_type) \<Rightarrow>
                      (Some (J_String (str_or [] (get_str img ''text_fallback''))), Some [Image data media_type], success)
                  | _ \<Rightarrow> lift_rest kvs success)
              | None \<Rightarrow> lift_rest kvs success))"

section \<open>Synthetic timestamps\<close>

text \<open>\<^verbatim>\<open>civil_from_days\<close> on the non-negative day counts it is called with; Rust's \<^verbatim>\<open>/\<close> is then \<open>div\<close>.\<close>

definition civil_from_days :: "nat \<Rightarrow> nat \<times> nat \<times> nat" where
  "civil_from_days days =
     (let z = days + 719468;
          era = z div 146097;
          doe = z - era * 146097;
          yoe = (doe - doe div 1460 + doe div 36524 - doe div 146096) div 365;
          y = yoe + era * 400;
          doy = doe - (365 * yoe + yoe div 4 - yoe div 100);
          mp = (5 * doy + 2) div 153;
          d = doy - (153 * mp + 2) div 5 + 1;
          m = (if mp < 10 then mp + 3 else mp - 9)
      in (if m \<le> 2 then y + 1 else y, m, d))"

definition zero_pad :: "nat \<Rightarrow> nat \<Rightarrow> string" where
  "zero_pad w n = replicate (w - length (show_nat n)) (CHR ''0'') @ show_nat n"

definition format_synthetic_iso :: "nat \<Rightarrow> string" where
  "format_synthetic_iso ms =
     (let total_secs = ms div 1000; millis = ms mod 1000;
          days = total_secs div 86400; rem = total_secs mod 86400;
          hour = rem div 3600; minute = (rem mod 3600) div 60; second = rem mod 60;
          (year, month, day) = civil_from_days days
      in zero_pad 4 year @ ''-'' @ zero_pad 2 month @ ''-'' @ zero_pad 2 day @ ''T'' @ zero_pad 2 hour @ '':''
         @ zero_pad 2 minute @ '':'' @ zero_pad 2 second @ ''.'' @ zero_pad 3 millis @ ''Z'')"

text \<open>The closure \<^verbatim>\<open>ts\<close>; the product saturates at the largest 64-bit value.\<close>

definition history_ts :: "json_value \<Rightarrow> nat \<Rightarrow> Timestamp" where
  "history_ts item i = (case jget_str item ''emitted_at'' of
     Some emitted \<Rightarrow> emitted
   | None \<Rightarrow> format_synthetic_iso (min (i * 1000) (2 ^ 64 - 1)))"

section \<open>Items\<close>

definition history_base :: "SessionRef \<Rightarrow> Timestamp \<Rightarrow> SessionEventBase" where
  "history_base ref ts = \<lparr>eb_session_ref = ref, eb_timestamp = ts, eb_run_id = None, eb_subagent_handle = None\<rparr>"

text \<open>The bare snapshot that carries one changed setting of the past.\<close>

definition history_snapshot :: "SessionRef \<Rightarrow> Timestamp \<Rightarrow> SessionConfig option \<Rightarrow> string option \<Rightarrow> SessionSnapshot" where
  "history_snapshot ref ts config facet = \<lparr>sn_ref = ref,
     sn_workspace = \<lparr>wr_workspace_id = sr_workspace_id ref, wr_path = [], wr_display_name = None\<rparr>,
     sn_title = [], sn_status = St_Idle, sn_updated_at = ts, sn_archived_at = None, sn_preview = None,
     sn_config = config, sn_usage = None, sn_running_run_id = None, sn_queued_messages = None, sn_facet = facet,
     sn_permission_monitor = None, sn_adventurous_handoff = None, sn_notification_autodrain = None,
     sn_active_plan = None, sn_goal = None, sn_flags = None, sn_todos = None, sn_mcp_servers = None,
     sn_cwd = None, sn_cwd_stack_depth = None\<rparr>"

text \<open>One block of an assistant item.\<close>

definition history_block :: "SessionEventBase \<Rightarrow> string option \<Rightarrow> json_value \<Rightarrow> SessionDriverEvent list" where
  "history_block base prompt_id b = (case jget_str b ''type'' of
     None \<Rightarrow> []
   | Some ty \<Rightarrow>
       if ty = ''text'' then [E_AssistantDelta base (str_or [] (jget_str b ''text'')) (Some Ch_Text) prompt_id]
       else if ty = ''thinking'' then [E_AssistantDelta base (str_or [] (jget_str b ''text'')) (Some Ch_Thinking) prompt_id]
       else if ty = ''tool_use''
       then [E_ToolStarted base (str_or [] (jget_str b ''name'')) (str_or [] (jget_str b ''id'')) (jget b ''input'') None None]
       else if ty = ''redacted_thinking''
       then [E_AssistantDelta base OPAQUE_REASONING_PLACEHOLDER (Some Ch_Thinking) prompt_id]
       else if ty = ''open_ai_reasoning_opaque''
       then [E_AssistantDelta base (case jget_str b ''summary'' of
               Some (c # cs) \<Rightarrow> c # cs | _ \<Rightarrow> OPAQUE_REASONING_PLACEHOLDER) (Some Ch_Thinking) prompt_id]
       else [])"

definition history_user :: "SessionEventBase \<Rightarrow> nat \<Rightarrow> json_value \<Rightarrow> SessionDriverEvent list \<times> nat" where
  "history_user base seq item =
     (let text = str_or [] (jget_str item ''content'')
      in case jget_str item ''prompt_id'' of
           Some pid \<Rightarrow> ([E_UserMessage base pid text None (Some pid) None], seq)
         | None \<Rightarrow> ([E_UserMessage base (''u-'' @ show_nat seq) text None None None], seq + 1))"

definition history_reminder :: "SessionEventBase \<Rightarrow> nat \<Rightarrow> json_value \<Rightarrow> SessionDriverEvent" where
  "history_reminder base i item =
     (let reason_type = Option.bind (jget item ''reason'') (\<lambda>r. jget_str r ''type'');
          label = Option.bind reason_type history_plan_review_label;
          slug = str_or ''reminder'' (jget_str item ''slug'')
      in E_CustomMessage base (''reminder-'' @ slug @ ''-'' @ show_nat i) (str_or slug label)
           (str_or [] (jget_str item ''body'')) (label \<noteq> None) (reason_type = Some ''goal_reminder''))"

definition history_compaction :: "SessionEventBase \<Rightarrow> nat \<Rightarrow> nat \<Rightarrow> json_value \<Rightarrow> SessionDriverEvent list \<times> nat" where
  "history_compaction base i seq item =
     (let (suffix, seq') = (case jget_str item ''compaction_id'' of
            Some cid \<Rightarrow> (cid, seq) | None \<Rightarrow> (show_nat seq, seq + 1))
      in ([E_CustomMessage base (''compaction-'' @ suffix @ ''-'' @ show_nat i) ''compaction''
             (str_or ''Context compacted'' (jget_str item ''summary'')) True False], seq'))"

definition history_finished :: "SessionEventBase \<Rightarrow> json_value \<Rightarrow> SessionDriverEvent" where
  "history_finished base item =
     (let (output, images, success) = lift_tool_result (jget item ''content'') (jget_bool item ''is_error'')
      in E_ToolFinished base (str_or [] (jget_str item ''call_id'')) success output images None)"

text \<open>One iteration of the loop: the events of item \<open>i\<close> and the counter of synthetic ids after it.\<close>

definition history_item :: "SessionRef \<Rightarrow> nat \<Rightarrow> nat \<Rightarrow> json_value \<Rightarrow> SessionDriverEvent list \<times> nat" where
  "history_item ref i seq item =
     (let base = history_base ref (history_ts item i)
      in case jget_str item ''type'' of
           None \<Rightarrow> ([], seq)
         | Some ty \<Rightarrow>
             if ty = ''user'' then history_user base seq item
             else if ty = ''assistant''
             then (case jget_array item ''blocks'' of
                 None \<Rightarrow> ([], seq)
               | Some blocks \<Rightarrow> (concat (map (history_block base (jget_str item ''prompt_id'')) blocks), seq))
             else if ty = ''tool_result'' then ([history_finished base item], seq)
             else if ty = ''system_reminder'' then ([history_reminder base i item], seq)
             else if ty = ''model_switch''
             then (case jget_str item ''to_model'' of
                 None \<Rightarrow> ([], seq)
               | Some m \<Rightarrow> ([E_SessionUpdated base (history_snapshot ref (history_ts item i)
                   (Some \<lparr>cfg_model_id = Some m, cfg_thinking_level = jget_str item ''to_reasoning_effort'',
                     cfg_available_thinking_levels = None\<rparr>) None)], seq))
             else if ty = ''facet_switch''
             then (case jget_str item ''to_facet'' of
                 None \<Rightarrow> ([], seq)
               | Some f \<Rightarrow> ([E_SessionUpdated base (history_snapshot ref (history_ts item i) None (Some f))], seq))
             else if ty = ''compaction_fencepost'' then history_compaction base i seq item
             else if ty = ''context_cleared''
             then ([E_CustomMessage base (''context-cleared-'' @ show_nat i) ''context-cleared'' ''Context cleared'' True False], seq)
             else if ty = ''session_lifecycle''
             then ([E_CustomMessage base (''lifecycle-'' @ show_nat i) ''lifecycle'' (str_or [] (jget_str item ''text'')) False False], seq)
             else ([], seq))"

fun history_items :: "SessionRef \<Rightarrow> nat \<Rightarrow> nat \<Rightarrow> json_value list \<Rightarrow> SessionDriverEvent list" where
  "history_items ref i seq [] = []"
| "history_items ref i seq (item # items) =
     (let (evs, seq') = history_item ref i seq item in evs @ history_items ref (Suc i) seq' items)"

text \<open>
  \<^verbatim>\<open>started_call_ids\<close> and \<^verbatim>\<open>finished_call_ids\<close> are pushed together with the events, so they are the call
  ids of the tool events emitted so far.
\<close>

definition started_call_ids :: "SessionDriverEvent list \<Rightarrow> string list" where
  "started_call_ids evs = List.map_filter (\<lambda>ev. case ev of E_ToolStarted _ _ c _ _ _ \<Rightarrow> Some c | _ \<Rightarrow> None) evs"

definition finished_call_ids :: "SessionDriverEvent list \<Rightarrow> string list" where
  "finished_call_ids evs = List.map_filter (\<lambda>ev. case ev of E_ToolFinished _ c _ _ _ _ \<Rightarrow> Some c | _ \<Rightarrow> None) evs"

definition history_to_seed_events :: "json_value list \<Rightarrow> SessionRef \<Rightarrow> SessionDriverEvent list" where
  "history_to_seed_events items ref =
     (if items = [] then []
      else
        let evs = history_items ref 0 0 items;
            base = history_base ref (history_ts (last items) (length items))
        in evs @ map (\<lambda>c. E_ToolFinished base c False None None (Some True))
             (filter (\<lambda>c. c \<notin> set (finished_call_ids evs)) (started_call_ids evs)))"

section \<open>The sequences around a replay\<close>

definition build_branch_seed ::
  "(nat \<Rightarrow> Timestamp) \<Rightarrow> SessionSnapshot \<Rightarrow> json_value list \<Rightarrow> SessionRef \<Rightarrow> SessionDriverEvent list" where
  "build_branch_seed clock snapshot items ref =
     (let history = history_to_seed_events items ref
      in [E_SessionOpened (history_base ref (clock 0)) snapshot] @ history
         @ (if history \<noteq> [] then [E_SessionUpdated (history_base ref (clock 1)) snapshot] else []))"

definition build_reseed_events ::
  "(nat \<Rightarrow> Timestamp) \<Rightarrow> SessionSnapshot \<Rightarrow> json_value list \<Rightarrow> SessionRef \<Rightarrow> SessionDriverEvent list" where
  "build_reseed_events clock snapshot items ref =
     [E_SessionReset (history_base ref (clock 0))] @ history_to_seed_events items ref
     @ [E_SessionUpdated (history_base ref (clock 1)) snapshot]"

definition user_prompt_text :: "json_value list \<Rightarrow> string \<Rightarrow> string option" where
  "user_prompt_text items prompt_id =
     (case List.map_filter (\<lambda>item. if jget_str item ''type'' = Some ''user'' \<and> jget_str item ''prompt_id'' = Some prompt_id
          then jget_str item ''content'' else None) items of
        [] \<Rightarrow> None | t # _ \<Rightarrow> Some t)"

section \<open>Tools that are still running\<close>

definition running_ids :: "TranscriptItem list \<Rightarrow> string set" where
  "running_ids items = {ti_id t |t. T_Tool t \<in> set items \<and> ti_status t = Ts_Running}"

lemma running_ids_append [simp]: "running_ids (xs @ ys) = running_ids xs \<union> running_ids ys"
  by (auto simp: running_ids_def)

lemma running_ids_simps [simp]:
  "running_ids [] = {}" "running_ids [T_Assistant a] = {}" "running_ids [T_User u] = {}"
  "running_ids [T_Inject j] = {}" "running_ids [T_Notice n] = {}"
  "running_ids [T_Tool t] = (if ti_status t = Ts_Running then {ti_id t} else {})"
  by (auto simp: running_ids_def)

lemma running_ids_close [simp]: "running_ids (close_open_assistant items c) = running_ids items"
  by (cases "open_assistant items")
    (auto simp: close_open_assistant_def open_assistant_Some Let_def split: option.splits)

lemma running_ids_interrupt [simp]: "running_ids (interrupt_running_tools items ts) = {}"
proof -
  have "T_Tool t \<noteq> interrupt_tool ts it" if "ti_status t = Ts_Running" for it t
    using that by (cases it) auto
  then show ?thesis by (auto simp: running_ids_def interrupt_running_tools_def)
qed

lemma running_ids_delta [simp]: "running_ids (fold_delta items ts tx ch eid) = running_ids items"
proof (cases "open_assistant items")
  case None
  then show ?thesis by (auto simp: fold_delta_def append_delta_eq)
next
  case (Some a)
  then show ?thesis by (auto simp: fold_delta_def open_assistant_Some open_assistant_snoc append_delta_eq)
qed

lemma running_ids_finish:
  "running_ids (map (update_tool c (tool_finish s out im i ts)) items) = running_ids items - {c}"
proof -
  have "(T_Tool t \<in> update_tool c (tool_finish s out im i ts) ` set items \<and> ti_status t = Ts_Running)
      \<longleftrightarrow> (T_Tool t \<in> set items \<and> ti_status t = Ts_Running \<and> ti_id t \<noteq> c)" for t
  proof
    assume l: "T_Tool t \<in> update_tool c (tool_finish s out im i ts) ` set items \<and> ti_status t = Ts_Running"
    then obtain it where "it \<in> set items" "T_Tool t = update_tool c (tool_finish s out im i ts) it" by auto
    then show "T_Tool t \<in> set items \<and> ti_status t = Ts_Running \<and> ti_id t \<noteq> c"
      using l by - (cases it; auto simp: tool_finish_def finish_status_def split: if_splits)
  next
    assume r: "T_Tool t \<in> set items \<and> ti_status t = Ts_Running \<and> ti_id t \<noteq> c"
    then have "T_Tool t = update_tool c (tool_finish s out im i ts) (T_Tool t)" by simp
    with r show "T_Tool t \<in> update_tool c (tool_finish s out im i ts) ` set items \<and> ti_status t = Ts_Running"
      by (metis image_eqI)
  qed
  then show ?thesis unfolding running_ids_def set_map by blast
qed

text \<open>The events a replay consists of.\<close>

definition replay_event :: "SessionDriverEvent \<Rightarrow> bool" where
  "replay_event ev = (case ev of
     E_UserMessage _ _ _ _ _ _ \<Rightarrow> True
   | E_AssistantDelta _ _ _ _ \<Rightarrow> True
   | E_ToolStarted _ _ _ _ _ _ \<Rightarrow> True
   | E_ToolFinished _ _ _ _ _ _ \<Rightarrow> True
   | E_CustomMessage _ _ _ _ _ _ \<Rightarrow> True
   | E_SessionUpdated _ _ \<Rightarrow> True
   | _ \<Rightarrow> False)"

lemma replay_running_step:
  assumes "replay_event ev"
  shows "running_ids (ss_items (fold_event st ev)) = (case ev of
     E_ToolStarted _ _ c _ _ _ \<Rightarrow> insert c (running_ids (ss_items st))
   | E_ToolFinished _ c _ _ _ _ \<Rightarrow> running_ids (ss_items st) - {c}
   | _ \<Rightarrow> running_ids (ss_items st))"
  using assms by (cases ev) (auto simp: replay_event_def push_item_def fold_snapshot_def running_ids_finish)

text \<open>A history in order: no result before the call it belongs to.\<close>

fun in_order :: "string set \<Rightarrow> SessionDriverEvent list \<Rightarrow> bool" where
  "in_order F [] = True"
| "in_order F (ev # evs) = (case ev of
     E_ToolStarted _ _ c _ _ _ \<Rightarrow> c \<notin> F \<and> in_order F evs
   | E_ToolFinished _ c _ _ _ _ \<Rightarrow> in_order (insert c F) evs
   | _ \<Rightarrow> in_order F evs)"

lemma call_ids_Nil [simp]: "started_call_ids [] = []" "finished_call_ids [] = []"
  by (simp_all add: started_call_ids_def finished_call_ids_def List.map_filter_simps)

lemma call_ids_Cons [simp]:
  "started_call_ids (ev # evs) = (case ev of E_ToolStarted _ _ c _ _ _ \<Rightarrow> [c] | _ \<Rightarrow> []) @ started_call_ids evs"
  "finished_call_ids (ev # evs) = (case ev of E_ToolFinished _ c _ _ _ _ \<Rightarrow> [c] | _ \<Rightarrow> []) @ finished_call_ids evs"
  by (cases ev; simp add: started_call_ids_def finished_call_ids_def List.map_filter_simps)+

lemma running_fold:
  assumes "list_all replay_event evs" "in_order F evs" "running_ids (ss_items st) \<inter> F = {}"
  shows "running_ids (ss_items (fold_all_from st evs))
    \<subseteq> (running_ids (ss_items st) \<union> set (started_call_ids evs)) - (F \<union> set (finished_call_ids evs))"
  using assms
proof (induction evs arbitrary: st F)
  case Nil
  then show ?case by auto
next
  case (Cons ev evs)
  let ?st = "fold_event st ev"
  have ev: "replay_event ev" and rest: "list_all replay_event evs" using Cons.prems(1) by auto
  note step = replay_running_step [OF ev, of st]
  define F' where "F' = (case ev of E_ToolFinished _ c _ _ _ _ \<Rightarrow> insert c F | _ \<Rightarrow> F)"
  have ord: "in_order F' evs" "running_ids (ss_items ?st) \<inter> F' = {}"
    using Cons.prems(2,3) step by (auto simp: F'_def split: SessionDriverEvent.splits)
  have "running_ids (ss_items (fold_all_from ?st evs))
    \<subseteq> (running_ids (ss_items ?st) \<union> set (started_call_ids evs)) - (F' \<union> set (finished_call_ids evs))"
    by (rule Cons.IH [OF rest ord])
  also have "\<dots> \<subseteq> (running_ids (ss_items st) \<union> set (started_call_ids (ev # evs))) - (F \<union> set (finished_call_ids (ev # evs)))"
    using step by (cases ev) (auto simp: F'_def)
  finally show ?case by simp
qed

lemma running_settle:
  "running_ids (ss_items (fold_all_from st (map (\<lambda>c. E_ToolFinished b c s out im i) cs))) = running_ids (ss_items st) - set cs"
  by (induction cs arbitrary: st) (auto simp: running_ids_finish)

section \<open>What a replay consists of\<close>

lemma history_block_events: "list_all replay_event (history_block b p v)"
  by (simp add: history_block_def replay_event_def split: option.split)

lemma history_item_events: "list_all replay_event (fst (history_item ref i seq item))"
  using history_block_events
  by (auto simp: history_item_def history_user_def history_finished_def history_reminder_def history_compaction_def Let_def
      replay_event_def list_all_iff split: option.split prod.split)

lemma history_items_events: "list_all replay_event (history_items ref i seq items)"
proof (induction ref i seq items rule: history_items.induct)
  case (2 ref i seq item items)
  then show ?case using history_item_events [of ref i seq item] by (auto split: prod.split)
qed simp

lemma replay_settles:
  assumes "running_ids (ss_items st) = {}" "in_order {} (history_items ref 0 0 items)"
  shows "running_ids (ss_items (fold_all_from st (history_to_seed_events items ref))) = {}"
proof (cases "items = []")
  case False
  let ?evs = "history_items ref 0 0 items"
  have "running_ids (ss_items (fold_all_from st ?evs)) \<subseteq> set (started_call_ids ?evs) - set (finished_call_ids ?evs)"
    using running_fold [OF history_items_events assms(2), of st] assms(1) by simp
  then show ?thesis using False
    by (auto simp: history_to_seed_events_def Let_def fold_all_from_append running_settle)
qed (simp add: history_to_seed_events_def assms)

text \<open>A list with no running tool, once its open bubble is closed, is quiet.\<close>

lemma quiet_close:
  assumes "items_wf items" "running_ids items = {}" "ss_items st = close_open_assistant items c"
  shows "quiet st"
proof -
  have "\<not> item_running it" if "it \<in> set (ss_items st)" for it
  proof
    assume "item_running it"
    then obtain t where "it = T_Tool t" "ti_status t = Ts_Running" by (cases it) auto
    then have "ti_id t \<in> running_ids (ss_items st)" using that by (auto simp: running_ids_def)
    then show False using assms(2,3) by simp
  qed
  then show ?thesis using close_open_assistant_none_streaming [OF assms(1)] assms(3) by (simp add: quiet_def)
qed

lemma snapshot_items: "ss_items (fold_event st (E_SessionUpdated b sn))
    = (if sn_status sn \<noteq> St_Running then close_open_assistant (ss_items st) (Some (eb_timestamp b)) else ss_items st)"
  by (simp add: fold_snapshot_def)

lemma snapshot_settles:
  assumes "state_wf st" "running_ids (ss_items st) = {}"
  shows "running_ids (ss_items (fold_event st (E_SessionUpdated b sn))) = {}
    \<and> ss_status (fold_event st (E_SessionUpdated b sn)) = sn_status sn
    \<and> ss_title (fold_event st (E_SessionUpdated b sn)) = sn_title sn
    \<and> (sn_status sn \<noteq> St_Running \<longrightarrow> quiet (fold_event st (E_SessionUpdated b sn)))"
proof -
  have "quiet (fold_event st (E_SessionUpdated b sn))" if "sn_status sn \<noteq> St_Running"
    using that assms quiet_close [of "ss_items st"] snapshot_items [of st b sn] by (simp add: state_wf_def)
  moreover have "running_ids (ss_items (fold_event st (E_SessionUpdated b sn))) = {}"
    using assms(2) snapshot_items [of st b sn] by (simp split: if_splits)
  ultimately show ?thesis by (simp add: fold_snapshot_def)
qed

section \<open>Properties\<close>

text \<open>
  A reloaded session is settled: after the seed of an opened session has been folded, no tool of the
  transcript is shown running, the status and title are the snapshot's, and unless the snapshot says that a
  turn runs nothing streams either. The history must be in order, with no result before its call.
\<close>

theorem branch_seed_settled:
  assumes "in_order {} (history_items ref 0 0 items)"
  shows "running_ids (ss_items (fold_all (build_branch_seed clock sn items ref))) = {}
    \<and> ss_status (fold_all (build_branch_seed clock sn items ref)) = sn_status sn
    \<and> ss_title (fold_all (build_branch_seed clock sn items ref)) = sn_title sn
    \<and> (sn_status sn \<noteq> St_Running \<longrightarrow> quiet (fold_all (build_branch_seed clock sn items ref)))"
proof -
  let ?open = "fold_event initial_session_state (E_SessionOpened (history_base ref (clock 0)) sn)"
  have items: "ss_items ?open = []"
    by (simp add: fold_snapshot_def initial_session_state_def close_open_assistant_def open_assistant_def)
  let ?st = "fold_all_from ?open (history_to_seed_events items ref)"
  have wf: "state_wf ?st" by (intro inv_intros state_wf_initial)
  have run: "running_ids (ss_items ?st) = {}" by (rule replay_settles) (simp_all only: items running_ids_simps assms)
  show ?thesis
  proof (cases "history_to_seed_events items ref = []")
    case True
    then show ?thesis using items
      by (simp add: build_branch_seed_def fold_all_def quiet_def) (simp add: fold_snapshot_def)
  next
    case False
    then have eq: "fold_all (build_branch_seed clock sn items ref) = fold_event ?st (E_SessionUpdated (history_base ref (clock 1)) sn)"
      by (simp add: build_branch_seed_def fold_all_def fold_all_from_append)
    show ?thesis unfolding eq by (rule snapshot_settles [OF wf run])
  qed
qed

text \<open>A history whose only tool call has no result.\<close>

definition sample_ref :: SessionRef where
  "sample_ref = \<lparr>sr_workspace_id = ''w'', sr_session_id = ''s''\<rparr>"

definition orphan_history :: "json_value list" where
  "orphan_history = [J_Object [(''type'', J_String ''assistant''), (''blocks'', J_Array [J_Object [(''type'', J_String ''tool_use''),
     (''id'', J_String ''c1''), (''name'', J_String ''bash'')]])]]"

lemma orphan_in_order: "in_order {} (history_items sample_ref 0 0 orphan_history)"
  by (simp add: orphan_history_def history_item_def Let_def jget_str_def jget_array_def jget_def
      as_object_def as_str_def as_array_def history_block_def)

theorem branch_seed_settled_witness:
  "running_ids (ss_items (fold_all (build_branch_seed (\<lambda>_. ''t'') (history_snapshot sample_ref ''t'' None None)
      orphan_history sample_ref))) = {}"
  using branch_seed_settled [OF orphan_in_order] by simp

text \<open>
  A reseed of an open session rebuilds its transcript: whatever was shown before, afterwards the items
  are those of the daemon's history alone, no tool is shown running (not even one that still runs), and
  unless the snapshot says that a turn runs the transcript is quiet.
\<close>

theorem reseed_settled:
  assumes "in_order {} (history_items ref 0 0 items)" "state_wf st"
  shows "running_ids (ss_items (fold_all_from st (build_reseed_events clock sn items ref))) = {}
    \<and> (sn_status sn \<noteq> St_Running \<longrightarrow> quiet (fold_all_from st (build_reseed_events clock sn items ref)))
    \<and> item_keys (fold_all_from st (build_reseed_events clock sn items ref))
      = item_keys (fold_all_from (st\<lparr>ss_items := []\<rparr>) (history_to_seed_events items ref))"
proof -
  let ?st = "fold_all_from (st\<lparr>ss_items := []\<rparr>) (history_to_seed_events items ref)"
  have "st\<lparr>ss_items := []\<rparr> = fold_event st (E_SessionReset (history_base ref (clock 0)))" by simp
  then have wf: "state_wf ?st" using assms(2) by (metis inv_intros)
  have run: "running_ids (ss_items ?st) = {}" by (rule replay_settles) (simp_all add: assms)
  have eq: "fold_all_from st (build_reseed_events clock sn items ref)
      = fold_event ?st (E_SessionUpdated (history_base ref (clock 1)) sn)"
    by (simp add: build_reseed_events_def fold_all_from_append)
  show ?thesis using snapshot_settles [OF wf run] snapshot_items [of ?st]
    unfolding eq by (simp add: item_keys_def item_key_close split: if_splits)
qed

theorem reseed_settled_witness:
  "running_ids (ss_items (fold_all_from initial_session_state (build_reseed_events (\<lambda>_. ''t'')
      ((history_snapshot sample_ref ''t'' None None)\<lparr>sn_status := St_Running\<rparr>) orphan_history sample_ref))) = {}"
  using reseed_settled [OF orphan_in_order state_wf_initial] by simp

end
