(* ===== verification/Context_Percent.thy ===== *)
theory Context_Percent
  imports Event_Map
begin

text \<open>
  The percentage of the context meter (\<^verbatim>\<open>usage_from_state\<close> of \<^verbatim>\<open>event_map.rs\<close>): the double-precision
  computation of \<open>Event_Map\<close> against exact rational arithmetic. Each rounding is off by at most one part in
  \<open>2 ^ 53\<close>, and the distance of a ratio of 32-bit integers from a half integer is either zero or far larger.
\<close>

section \<open>The context percentage\<close>

lemma pow2_pos [simp]: "0 < pow2 k"
  by (simp add: pow2_def)

lemma abs_pow2 [simp]: "\<bar>pow2 k\<bar> = pow2 k"
  by (simp add: pow2_def)

lemma pow2_add_nat: "pow2 (e + int n) = pow2 e * 2 ^ n"
proof (cases "e \<ge> 0")
  case True
  then show ?thesis by (simp add: pow2_def nat_add_distrib power_add)
next
  case False
  show ?thesis
  proof (cases "e + int n \<ge> 0")
    case True
    then have "n = nat (- e) + nat (e + int n)" using False by simp
    then have "(2::rat) ^ n = 2 ^ nat (- e) * 2 ^ nat (e + int n)" by (metis power_add)
    then show ?thesis using True False by (simp add: pow2_def)
  next
    case F2: False
    then have "nat (- e) = nat (- e - int n) + n" using False by simp
    then have "(2::rat) ^ nat (- e) = 2 ^ nat (- e - int n) * 2 ^ n" by (metis power_add)
    then show ?thesis using F2 False by (simp add: pow2_def)
  qed
qed

lemma bitlen_bounds_rat:
  assumes "a > 0"
  shows "(2::rat) ^ nat (bitlen a - 1) \<le> of_int a" "of_int a < (2::rat) ^ nat (bitlen a)"
proof -
  have "2 ^ nat (bitlen a - 1) \<le> a" "a < 2 ^ nat (bitlen a)" using bitlen_bounds [OF assms] by simp_all
  then have "of_int (2 ^ nat (bitlen a - 1)) \<le> (of_int a :: rat)" "of_int a < (of_int (2 ^ nat (bitlen a)) :: rat)"
    by (simp_all only: of_int_le_iff of_int_less_iff)
  then show "(2::rat) ^ nat (bitlen a - 1) \<le> of_int a" "of_int a < (2::rat) ^ nat (bitlen a)" by simp_all
qed

lemma floor_log2_le:
  assumes "x > 0"
  shows "pow2 (floor_log2 x) \<le> x"
proof -
  obtain a b where q: "quotient_of x = (a, b)" by (cases "quotient_of x")
  have ab: "a > 0" "b > 0" "x = of_int a / of_int b"
    using quotient_of_div [OF q] quotient_of_denom_pos [OF q] assms by (auto simp: zero_less_divide_iff)
  let ?k = "bitlen a - bitlen b"
  have nn: "bitlen a \<ge> 1" "bitlen b \<ge> 0" using ab bitlen_nonneg [of a] bitlen_nonneg [of b] bitlen_eq_zero_iff [of a] by auto
  have "pow2 (?k - 1) * of_int b \<le> pow2 (?k - 1) * 2 ^ nat (bitlen b)"
    using bitlen_bounds_rat(2) [OF ab(2)] by (intro mult_left_mono) (auto intro: less_imp_le)
  also have "\<dots> = pow2 (?k - 1 + int (nat (bitlen b)))" by (simp only: pow2_add_nat)
  also have "\<dots> = 2 ^ nat (bitlen a - 1)" using nn by (simp add: pow2_def)
  also have "\<dots> \<le> of_int a" using bitlen_bounds_rat(1) [OF ab(1)] .
  finally have "pow2 (?k - 1) \<le> x" using ab by (simp add: pos_le_divide_eq)
  then show ?thesis by (simp add: floor_log2_def q Let_def)
qed

lemma round_half_even_error: "\<bar>of_int (round_half_even x) - x\<bar> \<le> 1 / 2"
proof -
  define d where "d = x - of_int \<lfloor>x\<rfloor>"
  have "0 \<le> d" "d < 1" by (simp_all add: d_def) linarith+
  moreover have "x = of_int \<lfloor>x\<rfloor> + d" by (simp add: d_def)
  ultimately show ?thesis
    unfolding round_half_even_def Let_def d_def [symmetric] by (auto simp: abs_le_iff)
qed

text \<open>One rounding is off by at most one part in \<open>2 ^ 53\<close>.\<close>

lemma f64_round_error:
  assumes "x \<ge> 0"
  shows "\<bar>f64_round x - x\<bar> \<le> x / 2 ^ 53"
proof (cases "x = 0")
  case False
  with assms have x: "x > 0" by simp
  define e where "e = floor_log2 x - 52"
  have e: "2 ^ 52 * pow2 e \<le> x"
    using floor_log2_le [OF x] pow2_add_nat [of e 52] by (simp add: e_def mult.commute)
  have "f64_round x - x = (of_int (round_half_even (x / pow2 e)) - x / pow2 e) * pow2 e"
    using x by (simp add: f64_round_def f64_round_pos_def Let_def e_def left_diff_distrib less_imp_neq [OF pow2_pos, symmetric])
  then have "\<bar>f64_round x - x\<bar> = \<bar>of_int (round_half_even (x / pow2 e)) - x / pow2 e\<bar> * pow2 e"
    by (simp add: abs_mult)
  also have "\<dots> \<le> 1 / 2 * pow2 e" using round_half_even_error by (intro mult_right_mono) (auto intro: less_imp_le)
  also have "\<dots> \<le> x / 2 ^ 53" using e by simp
  finally show ?thesis .
qed (simp add: f64_round_def)

lemma f64_round_bounds:
  assumes "x \<ge> 0"
  shows "9007199254740992 * f64_round x \<le> 9007199254740993 * x" "9007199254740991 * x \<le> 9007199254740992 * f64_round x"
proof -
  have "\<bar>f64_round x - x\<bar> * 9007199254740992 \<le> x" using f64_round_error [OF assms] by simp
  then show "9007199254740992 * f64_round x \<le> 9007199254740993 * x" "9007199254740991 * x \<le> 9007199254740992 * f64_round x"
    by (cases "f64_round x \<ge> x"; simp add: algebra_simps)+
qed

lemma percent_error:
  assumes "0 \<le> t" "t \<le> 1" "p = f64_mul (f64_round t) 100"
  shows "1099511627776 * p \<le> 1 + 109951162777600 * t" "109951162777600 * t \<le> 1 + 1099511627776 * p" "0 \<le> p"
proof -
  note q = f64_round_bounds [OF assms(1)]
  have q0: "0 \<le> f64_round t * 100" using q assms(1) by linarith
  note r = f64_round_bounds [OF q0, folded f64_mul_def, folded assms(3)]
  show "1099511627776 * p \<le> 1 + 109951162777600 * t" "109951162777600 * t \<le> 1 + 1099511627776 * p" "0 \<le> p"
    using q r assms(1,2) by linarith+
qed

lemma half_integer_gap:
  fixes n u l :: int and e :: rat
  assumes "0 < l" "l < 2 ^ 31" "\<bar>of_int n - 100 * (of_int u / of_int l :: rat)\<bar> \<le> 1 / 2 + 1 / 2 ^ 40"
  shows "\<bar>of_int n - 100 * (of_int u / of_int l :: rat)\<bar> \<le> 1 / 2"
proof -
  let ?L = "of_int l :: rat"
  have "of_int l < (of_int (2 ^ 31) :: rat)" using assms(2) by (simp only: of_int_less_iff)
  then have L: "?L > 0" "?L < 2147483648" using assms(1) by simp_all
  have d: "of_int n - 100 * (of_int u / ?L) = of_int (2 * l * n - 200 * u) / (2 * ?L)"
    using L by (simp add: field_simps)
  have "\<bar>of_int (2 * l * n - 200 * u) :: rat\<bar> \<le> (1 / 2 + 1 / 2 ^ 40) * (2 * ?L)"
    using assms(3) L unfolding d by (simp add: abs_div divide_le_eq)
  also have "\<dots> < ?L + 1" using L by simp
  finally have "of_int \<bar>2 * l * n - 200 * u\<bar> < (of_int (l + 1) :: rat)" by simp
  then have "\<bar>2 * l * n - 200 * u\<bar> \<le> l" by (simp only: of_int_less_iff)
  then have "of_int \<bar>2 * l * n - 200 * u\<bar> \<le> ?L" by (simp only: of_int_le_iff)
  then show ?thesis using L unfolding d by (simp add: abs_div divide_le_eq)
qed

text \<open>
  The context meter shows a nearest whole percentage: for a used part of a limit, both 32-bit counts of
  tokens, the double that is sent is a whole number from 0 to 100 at most half a percent away from the
  exact ratio, in spite of the two roundings before it.
\<close>

theorem context_percent_nearest:
  assumes "0 \<le> used" "used \<le> limit" "0 < limit" "limit < 2 ^ 31"
  shows "\<exists>n. n \<le> 100 \<and> context_percent used limit = f64_of_nat n
    \<and> \<bar>of_nat n - 100 * (of_int used / of_int limit :: rat)\<bar> \<le> 1 / 2"
proof -
  define t where "t = (of_int used / of_int limit :: rat)"
  define p where "p = f64_mul (f64_div (of_int used) (of_int limit)) 100"
  have t: "0 \<le> t" "t \<le> 1" using assms by (simp_all add: t_def)
  have e: "1099511627776 * p \<le> 1 + 109951162777600 * t" "109951162777600 * t \<le> 1 + 1099511627776 * p" "0 \<le> p"
    using percent_error [OF t, of p] by (simp_all add: p_def f64_div_def t_def)
  define n where "n = round_half_away p"
  have n: "n = \<lfloor>p + 1 / 2\<rfloor>" using e(3) by (simp add: n_def round_half_away_def)
  have fl: "of_int n \<le> p + 1 / 2" "p + 1 / 2 < of_int n + 1" unfolding n by linarith+
  have "of_int n - 100 * t \<le> 1 / 2 + 1 / 2 ^ 40" "100 * t - of_int n \<le> 1 / 2 + 1 / 2 ^ 40"
    using fl e by simp_all
  then have "\<bar>of_int n - 100 * t\<bar> \<le> 1 / 2 + 1 / 2 ^ 40" by (simp only: abs_le_iff minus_diff_eq)
  then have near: "\<bar>of_int n - 100 * t\<bar> \<le> 1 / 2"
    unfolding t_def by (rule half_integer_gap [OF assms(3,4)])
  have "0 \<le> n" using e(3) by (simp add: n)
  moreover have "of_int n < (101 :: rat)" using abs_le_D1 [OF near] t by linarith
  then have "n \<le> 100" by simp
  ultimately have "context_percent used limit = f64_of_nat (nat n)" "nat n \<le> 100"
    "\<bar>of_nat (nat n) - 100 * (of_int used / of_int limit :: rat)\<bar> \<le> 1 / 2"
    using near assms(1) by (auto simp: context_percent_def n_def p_def Let_def t_def)
  then show ?thesis by blast
qed

theorem context_percent_nearest_witness:
  "\<exists>n. n \<le> 100 \<and> context_percent 1 3 = f64_of_nat n \<and> \<bar>of_nat n - 100 * (of_int 1 / of_int 3 :: rat)\<bar> \<le> 1 / 2"
  using context_percent_nearest [of 1 3] by simp

end
