(* ===== verification/Lifecycle.thy ===== *)
theory Lifecycle
  imports Stores Hub
begin

text \<open>
  Two small parts of the driver that decide what may happen to a session: the lifecycle store
  (\<^verbatim>\<open>polytoken/lifecycle_store.rs\<close>), which remembers destroyed sessions across restarts, and the
  classification of restore failures (\<^verbatim>\<open>polytoken/restore_error.rs\<close>, \<^verbatim>\<open>map_warm_error\<close> of
  \<^verbatim>\<open>polytoken/driver.rs\<close>). The file system is modelled as in \<open>Stores\<close>; the store is written to a
  temporary file that is renamed over the old one, and the rename has an outcome of its own.
\<close>

section \<open>The lifecycle store\<close>

datatype LifecycleState =
    Ls_EmptyDefault
  | Ls_AcceptedPrompt
  | Ls_LiveConfigAction
  | Ls_DestroyPending
  | Ls_Tombstoned
  | Ls_Unknown

record LifecycleStore =
  lc_states :: "(string, LifecycleState) hashmap"
  lc_load_error :: "string option"

text \<open>\<open>err\<close> is the text of the parse or read error.\<close>

definition new_lifecycle_store ::
  "(string, LifecycleState) hashmap codec \<Rightarrow> string \<Rightarrow> disk_file \<Rightarrow> LifecycleStore" where
  "new_lifecycle_store c err disk = (case disk of
     Content raw \<Rightarrow> (case from_json c raw of
         Some states \<Rightarrow> \<lparr>lc_states = states, lc_load_error = None\<rparr>
       | None \<Rightarrow> \<lparr>lc_states = [], lc_load_error = Some (''invalid lifecycle store: '' @ err)\<rparr>)
   | Absent \<Rightarrow> \<lparr>lc_states = [], lc_load_error = None\<rparr>
   | Unreadable \<Rightarrow> \<lparr>lc_states = [], lc_load_error = Some (''could not read lifecycle store: '' @ err)\<rparr>)"

definition ensure_healthy :: "LifecycleStore \<Rightarrow> string + unit" where
  "ensure_healthy s = (case lc_load_error s of None \<Rightarrow> Inr () | Some e \<Rightarrow> Inl e)"

definition lifecycle_state :: "LifecycleStore \<Rightarrow> string \<Rightarrow> LifecycleState" where
  "lifecycle_state s key = (case hm_get (lc_states s) key of Some st \<Rightarrow> st | None \<Rightarrow> Ls_Unknown)"

definition is_tombstoned :: "LifecycleStore \<Rightarrow> string \<Rightarrow> bool" where
  "is_tombstoned s key \<longleftrightarrow> lifecycle_state s key = Ls_Tombstoned"

record PersistOutcome =
  po_write :: write_outcome
  po_rename :: "string option"

definition persist_lifecycle ::
  "(string, LifecycleState) hashmap codec \<Rightarrow> PersistOutcome \<Rightarrow> LifecycleStore \<Rightarrow> disk_file
    \<Rightarrow> disk_file \<times> (string + unit)" where
  "persist_lifecycle c out s disk = (case to_string_pretty c (lc_states s) of
     Inl e \<Rightarrow> (disk, Inl (''serialize lifecycle store: '' @ e))
   | Inr json \<Rightarrow> (case fs_write json (po_write out) of
       (tmp, Some e) \<Rightarrow> (disk, Inl (''write lifecycle store: '' @ e))
     | (tmp, None) \<Rightarrow> (case po_rename out of
         Some e \<Rightarrow> (disk, Inl (''replace lifecycle store: '' @ e))
       | None \<Rightarrow> (tmp, Inr ()))))"

definition set_lifecycle ::
  "(string, LifecycleState) hashmap codec \<Rightarrow> PersistOutcome \<Rightarrow> string \<Rightarrow> LifecycleState \<Rightarrow> LifecycleStore
    \<Rightarrow> disk_file \<Rightarrow> LifecycleStore \<times> disk_file \<times> (string + unit)" where
  "set_lifecycle c out key st s disk = (case ensure_healthy s of
     Inl e \<Rightarrow> (s, disk, Inl e)
   | Inr _ \<Rightarrow> (let s1 = s\<lparr>lc_states := hm_insert key st (lc_states s)\<rparr>
               in (s1, persist_lifecycle c out s1 disk)))"

definition remove_lifecycle ::
  "(string, LifecycleState) hashmap codec \<Rightarrow> PersistOutcome \<Rightarrow> string \<Rightarrow> LifecycleStore
    \<Rightarrow> disk_file \<Rightarrow> LifecycleStore \<times> disk_file \<times> (string + unit)" where
  "remove_lifecycle c out key s disk = (case ensure_healthy s of
     Inl e \<Rightarrow> (s, disk, Inl e)
   | Inr _ \<Rightarrow> (let s1 = s\<lparr>lc_states := hm_remove key (lc_states s)\<rparr>
               in (s1, persist_lifecycle c out s1 disk)))"

definition tombstones :: "LifecycleStore \<Rightarrow> string hashset" where
  "tombstones s = map fst (filter (\<lambda>(_, st). st = Ls_Tombstoned) (lc_states s))"

section \<open>Restore failures\<close>

datatype RestoreErrorClass =
    Re_MissingCwd
  | Re_DaemonStartupFailure
  | Re_AuthFailure
  | Re_LeaseConflict
  | Re_Unreachable
  | Re_Other

definition is_permanent :: "RestoreErrorClass \<Rightarrow> bool" where
  "is_permanent cls \<longleftrightarrow> cls \<in> {Re_MissingCwd, Re_DaemonStartupFailure, Re_AuthFailure}"

definition classify :: "string \<Rightarrow> RestoreErrorClass" where
  "classify raw =
     (if str_contains raw ''session directory no longer exists'' \<or> str_contains raw ''no such directory:''
      then Re_MissingCwd
      else if str_contains raw ''polytoken daemon failed to start:'' \<or> str_contains raw ''polytoken daemon exited early''
      then Re_DaemonStartupFailure
      else if str_contains raw ''lease claim failed (401)'' \<or> str_contains raw ''unauthorized'' then Re_AuthFailure
      else if str_contains raw ''another TUI is attached'' \<or> str_contains raw ''lease claim failed (409)''
      then Re_LeaseConflict
      else if str_contains raw ''lease claim failed (0)'' \<or> str_contains raw ''request timed out''
        \<or> str_contains raw ''did not become ready within'' \<or> str_contains raw ''did not become healthy within''
        \<or> str_contains raw ''daemon health probe failed'' \<or> str_contains raw ''ECONNREFUSED''
        \<or> str_contains raw ''fetch failed''
      then Re_Unreachable
      else Re_Other)"

record LeaseHeldInfo =
  lhi_summary :: string
  lhi_expires_at :: "string option"

datatype WarmInstallError =
    We_Health string
  | We_LeaseConflict "LeaseHeldInfo option" string
  | We_Lease string
  | We_Subscription string
  | We_Hydration string
  | We_Startup string
  | We_History string

primrec warm_error_detail :: "WarmInstallError \<Rightarrow> string" where
  "warm_error_detail (We_Health d) = d"
| "warm_error_detail (We_LeaseConflict _ d) = d"
| "warm_error_detail (We_Lease d) = d"
| "warm_error_detail (We_Subscription d) = d"
| "warm_error_detail (We_Hydration d) = d"
| "warm_error_detail (We_Startup d) = d"
| "warm_error_detail (We_History d) = d"

definition format_lease_conflict_message :: "LeaseHeldInfo option \<Rightarrow> int option \<Rightarrow> string" where
  "format_lease_conflict_message held seconds_to_lapse = (case held of
     None \<Rightarrow> ''lease claim failed (409): another TUI is attached''
   | Some h \<Rightarrow> ''another TUI is attached to this session ('' @ lhi_summary h
       @ ''). Detach it there (/detach) or wait ''
       @ (case seconds_to_lapse of Some s \<Rightarrow> (if s < 0 then ''-'' @ show_nat (nat (- s)) else show_nat (nat s)) @ ''s''
          | None \<Rightarrow> ''~30s'')
       @ '' for its lease to lapse.'')"

definition transport_class :: "string \<Rightarrow> RestoreFailureClass" where
  "transport_class detail =
     (if str_contains detail ''401'' \<or> str_contains (ascii_lowercase detail) ''unauthorized'' then Rf_Auth
      else if str_contains (ascii_lowercase detail) ''connection'' \<or> str_contains (ascii_lowercase detail) ''connect''
        \<or> str_contains (ascii_lowercase detail) ''refused''
      then Rf_Unreachable
      else Rf_Other)"

definition startup_class :: "RestoreErrorClass \<Rightarrow> RestoreFailureClass" where
  "startup_class cls = (case cls of
     Re_DaemonStartupFailure \<Rightarrow> Rf_Startup | Re_AuthFailure \<Rightarrow> Rf_Auth | Re_Unreachable \<Rightarrow> Rf_Unreachable | _ \<Rightarrow> Rf_Other)"

definition map_warm_error :: "string \<Rightarrow> WarmInstallError \<Rightarrow> SessionSwitchError" where
  "map_warm_error operation err = (case err of
     We_LeaseConflict holder detail \<Rightarrow>
       (let display_detail = format_lease_conflict_message holder None
        in LeaseConflict (map_option (\<lambda>h. \<lparr>lh_summary = lhi_summary h, lh_expires_at = lhi_expires_at h\<rparr>) holder)
             (if detail = [] then display_detail else detail @ '': '' @ display_detail))
   | We_Startup detail \<Rightarrow>
       RestoreFailure (startup_class (classify detail))
         (if is_permanent (classify detail) then Terminal else Retryable) detail
   | _ \<Rightarrow> (let detail = warm_error_detail err
           in RestoreFailure (transport_class detail) Retryable (operation @ '': '' @ detail)))"

section \<open>Properties\<close>

text \<open>
  What the store relies on of the JSON package: reading what was printed gives the same map, in
  whatever order its entries come.
\<close>

definition map_codec_roundtrips :: "('k, 'v) hashmap codec \<Rightarrow> ('k, 'v) hashmap \<Rightarrow> bool" where
  "map_codec_roundtrips c m \<longleftrightarrow> (case to_string_pretty c m of
     Inl _ \<Rightarrow> True
   | Inr json \<Rightarrow> (case from_json c json of Some m' \<Rightarrow> map_of m' = map_of m | None \<Rightarrow> False))"

lemmas lifecycle_defs = new_lifecycle_store_def ensure_healthy_def lifecycle_state_def is_tombstoned_def
  persist_lifecycle_def fs_write_def set_lifecycle_def remove_lifecycle_def Let_def

definition one_entry_codec :: "(string, LifecycleState) hashmap codec" where
  "one_entry_codec = \<lparr>
     to_string_pretty = (\<lambda>m. case m of [(k, Ls_Tombstoned)] \<Rightarrow> Inr k | _ \<Rightarrow> Inl ''unsupported''),
     from_json = (\<lambda>k. if k = ''?'' then None else Some [(k, Ls_Tombstoned)])\<rparr>"

text \<open>
  A lifecycle store that could not be read fails closed: no update succeeds, and neither the memory
  nor the file changes, whatever the update.
\<close>

theorem unhealthy_store_fails_closed:
  assumes "disk \<noteq> Absent" "\<forall>raw. disk = Content raw \<longrightarrow> from_json c raw = None"
    and "s = new_lifecycle_store c err disk"
  shows "\<exists>e. set_lifecycle c out key st s disk' = (s, disk', Inl e) \<and> remove_lifecycle c out key s disk' = (s, disk', Inl e)"
  using assms by (cases disk) (auto simp: lifecycle_defs)

theorem unhealthy_store_fails_closed_witness:
  "\<exists>e. set_lifecycle one_entry_codec \<lparr>po_write = Written, po_rename = None\<rparr> ''s'' Ls_Tombstoned
      (new_lifecycle_store one_entry_codec ''bad'' (Content ''?'')) (Content ''?'')
    = (new_lifecycle_store one_entry_codec ''bad'' (Content ''?''), Content ''?'', Inl e)"
proof -
  have "from_json one_entry_codec ''?'' = None" by (simp add: one_entry_codec_def)
  then show ?thesis
    using unhealthy_store_fails_closed [of "Content ''?''" one_entry_codec "new_lifecycle_store one_entry_codec ''bad'' (Content ''?'')" "''bad''"]
    by fastforce
qed

text \<open>
  A lifecycle decision is durable: after an update that was reported successful, the state of every
  session read back by a restarted server is the one in memory, the updated session included, and an
  update that reports an error leaves the file as it was.
\<close>

theorem lifecycle_set_durable:
  assumes "set_lifecycle c out key st s disk = (s', disk', r)"
    and "map_codec_roundtrips c (hm_insert key st (lc_states s))"
  shows "(r = Inr () \<longrightarrow> lifecycle_state s' key = st \<and> ensure_healthy (new_lifecycle_store c err disk') = Inr ()
      \<and> (\<forall>k. lifecycle_state (new_lifecycle_store c err disk') k = lifecycle_state s' k))
    \<and> (r \<noteq> Inr () \<longrightarrow> disk' = disk)"
  using assms by (auto simp: lifecycle_defs map_codec_roundtrips_def
      split: option.splits sum.splits write_outcome.splits prod.splits)

theorem lifecycle_set_durable_witness:
  "\<exists>s' disk' r. set_lifecycle one_entry_codec \<lparr>po_write = Written, po_rename = None\<rparr> ''s'' Ls_Tombstoned
      \<lparr>lc_states = [], lc_load_error = None\<rparr> Absent = (s', disk', r)
    \<and> r = Inr () \<and> is_tombstoned (new_lifecycle_store one_entry_codec ''bad'' disk') ''s''"
proof -
  let ?set = "set_lifecycle one_entry_codec \<lparr>po_write = Written, po_rename = None\<rparr> ''s'' Ls_Tombstoned
      \<lparr>lc_states = [], lc_load_error = None\<rparr> Absent"
  obtain s' disk' r where eq: "?set = (s', disk', r)" by (metis prod_cases3)
  have "r = Inr ()" using eq by (auto simp: lifecycle_defs one_entry_codec_def hm_insert_def)
  then show ?thesis
    using lifecycle_set_durable [OF eq, of "''bad''"] eq
    by (simp add: map_codec_roundtrips_def one_entry_codec_def hm_insert_def is_tombstoned_def)
qed

text \<open>
  An update that fails to replace the file still changes the store in memory: the new state is
  answered from then on although the caller was told that the update failed.
\<close>

theorem failed_update_stays_in_memory:
  assumes "ensure_healthy s = Inr ()" "set_lifecycle c out key st s disk = (s', disk', Inl e)"
  shows "lifecycle_state s' key = st \<and> disk' = disk"
  using assms by (auto simp: lifecycle_defs split: option.splits sum.splits write_outcome.splits prod.splits)

theorem failed_update_stays_in_memory_witness:
  "is_tombstoned (fst (set_lifecycle one_entry_codec \<lparr>po_write = Written, po_rename = Some ''EACCES''\<rparr> ''s'' Ls_Tombstoned
      \<lparr>lc_states = [], lc_load_error = None\<rparr> Absent)) ''s''"
  using failed_update_stays_in_memory [of "\<lparr>lc_states = [], lc_load_error = None\<rparr>" one_entry_codec
      "\<lparr>po_write = Written, po_rename = Some ''EACCES''\<rparr>" "''s''" Ls_Tombstoned Absent]
  by (simp add: lifecycle_defs one_entry_codec_def hm_insert_def)

text \<open>
  A daemon that does not answer its health check is reported as an unknown failure, not as an
  unreachable daemon: the classifier for startup errors knows the text, the mapping of a failed
  health check does not.
\<close>

theorem failed_health_check_not_unreachable:
  "map_warm_error operation (We_Health ''daemon health probe failed'')
     = RestoreFailure Rf_Other Retryable (operation @ '': daemon health probe failed'')
   \<and> classify ''daemon health probe failed'' = Re_Unreachable"
  by (simp add: map_warm_error_def transport_class_def ascii_lowercase_def classify_def)

end
