(* ===== verification/Models.thy ===== *)
theory Models
  imports Activity_Text Wire
begin

text \<open>
  The model catalogue, \<^verbatim>\<open>server/pantoken-server/src/polytoken/models.rs\<close>: the text that
  \<^verbatim>\<open>polytoken models\<close> prints is scanned line by line into the list of models and the default markers.
  The scan of the loop is the record \<open>ModelScan\<close>; its fields are the loop's mutable variables.
\<close>

section \<open>String operations\<close>

text \<open>\<^verbatim>\<open>str::find\<close>, \<^verbatim>\<open>str::replace\<close> (for a non-empty pattern) and \<^verbatim>\<open>str::trim\<close>.\<close>

fun str_find :: "string \<Rightarrow> string \<Rightarrow> nat option" where
  "str_find needle [] = (if needle = [] then Some 0 else None)"
| "str_find needle (c # s) = (if starts_with (c # s) needle then Some 0 else map_option Suc (str_find needle s))"

function str_replace :: "string \<Rightarrow> string \<Rightarrow> string \<Rightarrow> string" where
  "str_replace pat rep [] = []"
| "str_replace pat rep (c # s) =
     (if pat \<noteq> [] \<and> starts_with (c # s) pat then rep @ str_replace pat rep (drop (length pat) (c # s))
      else c # str_replace pat rep s)"
  by pat_completeness auto
termination
  by (relation "measure (\<lambda>(p, r, s). length s)") auto

definition ws_end_len :: "string \<Rightarrow> nat" where
  "ws_end_len s = (case filter (\<lambda>n. n \<le> length s \<and> ws_len (drop (length s - n) s) = n) [1, 2, 3] of
     [] \<Rightarrow> 0 | n # _ \<Rightarrow> n)"

lemma ws_end_len_le: "ws_end_len s \<le> length s"
  by (auto simp: ws_end_len_def split: list.splits dest!: filter_eq_ConsD)

function trim_end :: "string \<Rightarrow> string" where
  "trim_end s = (if ws_end_len s = 0 then s else trim_end (take (length s - ws_end_len s) s))"
  by pat_completeness auto
termination
proof (relation "measure length")
  fix s :: string
  assume "ws_end_len s \<noteq> 0"
  then show "(take (length s - ws_end_len s) s, s) \<in> measure length"
    using ws_end_len_le [of s] by (simp add: min_def)
qed simp

declare trim_end.simps [simp del]

definition trim :: "string \<Rightarrow> string" where
  "trim s = trim_end (trim_start s)"

definition strip_prefix :: "string \<Rightarrow> string \<Rightarrow> string option" where
  "strip_prefix s p = (if starts_with s p then Some (drop (length p) s) else None)"

definition strip_cr :: "string \<Rightarrow> string" where
  "strip_cr raw = (if raw \<noteq> [] \<and> last raw = CHR 0x0D then butlast raw else raw)"

section \<open>Reasoning levels\<close>

record ReasoningInfo =
  ri_levels :: "string list"
  ri_default_level :: "string option"

definition default_reasoning :: ReasoningInfo where
  "default_reasoning = \<lparr>ri_levels = [], ri_default_level = None\<rparr>"

text \<open>
  One piece of the \<^verbatim>\<open>levels=\<close> segment. Lowercasing can only produce the marker's letters from ASCII
  letters, so ASCII lowercasing decides whether the marker occurs.
\<close>

definition reasoning_piece :: "ReasoningInfo \<Rightarrow> string \<Rightarrow> ReasoningInfo" where
  "reasoning_piece info raw =
     (let is_default = str_contains (ascii_lowercase raw) ''(default)'';
          level = trim (str_replace ''(DEFAULT)'' [] (str_replace ''(default)'' [] raw))
      in if level = [] then info
         else info\<lparr>ri_levels := ri_levels info @ [level],
                   ri_default_level := (if is_default \<and> ri_default_level info = None then Some level
                                        else ri_default_level info)\<rparr>)"

definition parse_reasoning :: "string \<Rightarrow> ReasoningInfo" where
  "parse_reasoning reasoning_line = (case str_find ''levels='' reasoning_line of
     None \<Rightarrow> default_reasoning
   | Some after_levels \<Rightarrow>
       (let rest = drop (after_levels + length ''levels='') reasoning_line;
            segment = hd (split_on (CHR '';'') rest)
        in foldl reasoning_piece default_reasoning (split_on (CHR '','') segment)))"

section \<open>Lines\<close>

definition first_token_after_prefix :: "string \<Rightarrow> string \<Rightarrow> string option" where
  "first_token_after_prefix line p = Option.bind (strip_prefix line p) (\<lambda>rest. case split_whitespace rest of
     [] \<Rightarrow> None | t # _ \<Rightarrow> Some t)"

definition parse_model_header :: "string \<Rightarrow> string option" where
  "parse_model_header line = Option.bind (strip_prefix line ''-'') (\<lambda>rest.
     if ws_len rest = 0 then None
     else (case split_whitespace (drop (ws_len rest) rest) of [] \<Rightarrow> None | t # _ \<Rightarrow> if t = [] then None else Some t))"

definition parse_indented_field_rest :: "string \<Rightarrow> string \<Rightarrow> string option" where
  "parse_indented_field_rest line field =
     (if line = [] \<or> ws_len line = 0 then None
      else map_option trim_start (strip_prefix (trim_start line) field))"

section \<open>The scan\<close>

record ParsedModels =
  pm_models :: "ModelOption list"
  pm_default_model :: "string option"
  pm_default_small_model :: "string option"
  pm_default_thinking_level :: "string option"

record ModelScan =
  sc_default_model :: "string option"
  sc_default_small_model :: "string option"
  sc_models :: "ModelOption list"
  sc_current_id :: "string option"
  sc_current_reasoning :: "string option"
  sc_in_models_section :: bool
  sc_default_thinking_level :: "string option"

definition initial_scan :: ModelScan where
  "initial_scan = \<lparr>sc_default_model = None, sc_default_small_model = None, sc_models = [], sc_current_id = None,
     sc_current_reasoning = None, sc_in_models_section = False, sc_default_thinking_level = None\<rparr>"

text \<open>The \<^verbatim>\<open>flush\<close> closure with what its two callers do with the result.\<close>

definition flush_model :: "ModelScan \<Rightarrow> ModelScan" where
  "flush_model s = (case sc_current_id s of
     None \<Rightarrow> s\<lparr>sc_current_reasoning := None\<rparr>
   | Some mid \<Rightarrow>
       (let info = map_option parse_reasoning (sc_current_reasoning s);
            lvl = Option.bind info ri_default_level
        in s\<lparr>sc_current_id := None, sc_current_reasoning := None,
             sc_models := sc_models s @ [\<lparr>mo_model_id = mid, mo_label = mid,
               mo_thinking_levels = map_option ri_levels info, mo_default_thinking_level = lvl\<rparr>],
             sc_default_thinking_level := (if Some mid = sc_default_model s then lvl
                                           else sc_default_thinking_level s)\<rparr>))"

definition scan_line :: "ModelScan \<Rightarrow> string \<Rightarrow> ModelScan" where
  "scan_line s raw = (let line = strip_cr raw in
     case first_token_after_prefix line ''default_model:'' of
       Some t \<Rightarrow> s\<lparr>sc_default_model := Some t\<rparr>
     | None \<Rightarrow> (case first_token_after_prefix line ''default_small_model:'' of
         Some t \<Rightarrow> s\<lparr>sc_default_small_model := Some t\<rparr>
       | None \<Rightarrow>
           if trim line = ''models:'' then s\<lparr>sc_in_models_section := True\<rparr>
           else (case (if sc_in_models_section s then parse_model_header line else None) of
               Some mid \<Rightarrow> (flush_model s)\<lparr>sc_current_id := Some mid\<rparr>
             | None \<Rightarrow>
                 if sc_current_id s = None then s
                 else (case parse_indented_field_rest line ''reasoning:'' of
                     Some rest \<Rightarrow> s\<lparr>sc_current_reasoning := Some rest\<rparr>
                   | None \<Rightarrow> s))))"

definition parse_models :: "string \<Rightarrow> ParsedModels" where
  "parse_models stdout =
     (let s = flush_model (foldl scan_line initial_scan (split_on (CHR 0x0A) stdout))
      in \<lparr>pm_models = sc_models s, pm_default_model = sc_default_model s,
          pm_default_small_model = sc_default_small_model s, pm_default_thinking_level = sc_default_thinking_level s\<rparr>)"

definition model_post_key :: "string \<Rightarrow> string" where
  "model_post_key model_id = model_id"

definition empty_models :: ParsedModels where
  "empty_models = \<lparr>pm_models = [], pm_default_model = None, pm_default_small_model = None,
     pm_default_thinking_level = None\<rparr>"

section \<open>Tokens\<close>

text \<open>Ids and levels that the catalogue prints: visible ASCII characters without its separators.\<close>

definition plain_char :: "char \<Rightarrow> bool" where
  "plain_char c \<longleftrightarrow> 33 \<le> byte_of c \<and> byte_of c \<le> 126 \<and> c \<notin> set '',;()''"

definition plain_token :: "string \<Rightarrow> bool" where
  "plain_token t \<longleftrightarrow> t \<noteq> [] \<and> list_all plain_char t"

lemma ws_len_visible: "33 \<le> byte_of c \<Longrightarrow> byte_of c \<le> 126 \<Longrightarrow> ws_len (c # s) = 0"
  by (auto simp: ws_len_def split: list.splits)

lemma ws_len_plain [simp]: "plain_char c \<Longrightarrow> ws_len (c # s) = 0"
  by (rule ws_len_visible) (simp_all add: plain_char_def)

lemma ws_len_space [simp]: "ws_len (CHR '' '' # s) = 1"
  by (simp add: ws_len_def byte_of_def)

lemma split_ws_plain: "list_all plain_char t \<Longrightarrow> word @ t \<noteq> [] \<Longrightarrow> split_ws word t = [word @ t]"
  by (induction t arbitrary: word) auto

lemma split_whitespace_token: "plain_token t \<Longrightarrow> split_whitespace (CHR '' '' # t) = [t]"
  by (simp add: split_whitespace_def plain_token_def split_ws_plain)

lemma split_whitespace_plain: "plain_token t \<Longrightarrow> split_whitespace t = [t]"
  by (simp add: split_whitespace_def plain_token_def split_ws_plain)

lemma trim_start_plain: "plain_token t \<Longrightarrow> trim_start (t @ s) = t @ s"
  by (cases t) (simp_all add: plain_token_def trim_start.simps)

lemma trim_start_space [simp]: "trim_start (CHR '' '' # s) = trim_start s"
  by (subst trim_start.simps) simp

lemma ws_len_drop_plain: "list_all plain_char t \<Longrightarrow> ws_len (drop n t) = 0"
proof (cases "drop n t")
  case (Cons c s)
  assume "list_all plain_char t"
  then have "plain_char c" using in_set_dropD [of c n t] Cons by (simp add: list_all_iff)
  then show ?thesis using Cons by simp
qed simp

lemma trim_end_plain: "list_all plain_char t \<Longrightarrow> trim_end t = t"
  by (subst trim_end.simps) (simp add: ws_end_len_def ws_len_drop_plain)

lemma trim_end_space: "list_all plain_char t \<Longrightarrow> trim_end (t @ '' '') = t"
  by (subst trim_end.simps) (simp add: ws_end_len_def trim_end_plain)

lemma trim_token: "plain_token t \<Longrightarrow> trim t = t" "plain_token t \<Longrightarrow> trim (CHR '' '' # t) = t"
  "plain_token t \<Longrightarrow> trim (t @ '' '') = t" "plain_token t \<Longrightarrow> trim (CHR '' '' # t @ '' '') = t"
  using trim_start_plain [of t "[]"] trim_start_plain [of t "'' ''"]
  by (simp_all add: trim_def trim_end_plain trim_end_space plain_token_def)

section \<open>The default marker\<close>

lemma starts_with_append_self [simp]: "starts_with (p @ s) p"
  by (induction p) simp_all

lemma str_contains_suffix: "str_contains (xs @ p) p"
proof (induction xs)
  case Nil
  then show ?case by (cases p) (simp_all add: starts_with_append_self [of _ "[]", simplified])
qed simp

lemma str_contains_needs_head: "c \<notin> set xs \<Longrightarrow> \<not> str_contains xs (c # p)"
  by (induction xs) auto

lemma str_replace_absent: "c \<notin> set xs \<Longrightarrow> str_replace (c # p) rep xs = xs"
  by (induction xs) auto

lemma str_replace_suffix: "c \<notin> set xs \<Longrightarrow> str_replace (c # p) rep (xs @ c # p) = xs @ rep"
proof (induction xs)
  case Nil
  then show ?case using starts_with_append_self [of "c # p" "[]"] by simp
qed auto

lemma ascii_lowercase_append [simp]: "ascii_lowercase (xs @ ys) = ascii_lowercase xs @ ascii_lowercase ys"
  by (simp add: ascii_lowercase_def)

lemma ascii_lower_char_paren:
  assumes "(if 65 \<le> (of_char c :: nat) \<and> (of_char c :: nat) \<le> 90 then char_of (of_char c + 32 :: nat) else c) = CHR ''(''"
  shows "c = CHR ''(''"
proof (rule ccontr)
  assume "c \<noteq> CHR ''(''"
  with assms have n: "65 \<le> (of_char c :: nat)" "(of_char c :: nat) \<le> 90" and eq: "char_of (of_char c + 32 :: nat) = CHR ''(''"
    by (auto split: if_splits)
  have "(of_char (char_of (of_char c + 32 :: nat) :: char) :: nat) = (of_char c + 32) mod 256" by simp
  then show False using n unfolding eq by simp
qed

lemma ascii_lowercase_keeps_out_paren: "CHR ''('' \<notin> set xs \<Longrightarrow> CHR ''('' \<notin> set (ascii_lowercase xs)"
proof
  assume absent: "CHR ''('' \<notin> set xs" and "CHR ''('' \<in> set (ascii_lowercase xs)"
  then obtain c where "c \<in> set xs"
    "(if 65 \<le> (of_char c :: nat) \<and> (of_char c :: nat) \<le> 90 then char_of (of_char c + 32 :: nat) else c) = CHR ''(''"
    by (auto simp only: ascii_lowercase_def Let_def set_map image_iff)
  then show False using ascii_lower_char_paren absent by metis
qed

section \<open>The documented output\<close>

text \<open>
  The output of \<^verbatim>\<open>polytoken models\<close> as the module documents it: the default markers, the section marker and
  one block per model, whose reasoning line lists the levels with the default marked.
\<close>

record CatalogEntry =
  ce_id :: string
  ce_reasoning :: "(string \<times> bool) list option"

definition print_level :: "string \<times> bool \<Rightarrow> string" where
  "print_level l = fst l @ (if snd l then '' (default)'' else [])"

definition print_reasoning :: "(string \<times> bool) list \<Rightarrow> string" where
  "print_reasoning ls = ''effort set=custom; levels='' @ join '', '' (map print_level ls) @ ''; can_disable=yes''"

definition print_entry :: "CatalogEntry \<Rightarrow> string list" where
  "print_entry e = (''- '' @ ce_id e) # (case ce_reasoning e of
     None \<Rightarrow> [] | Some ls \<Rightarrow> [''  reasoning: '' @ print_reasoning ls])"

definition catalog_lines :: "string option \<Rightarrow> string option \<Rightarrow> CatalogEntry list \<Rightarrow> string list" where
  "catalog_lines dm dsm es = (case dm of None \<Rightarrow> [] | Some m \<Rightarrow> [''default_model: '' @ m])
      @ (case dsm of None \<Rightarrow> [] | Some m \<Rightarrow> [''default_small_model: '' @ m])
      @ [[], ''models:''] @ concat (map print_entry es) @ [[]]"

definition print_catalog :: "bool \<Rightarrow> string option \<Rightarrow> string option \<Rightarrow> CatalogEntry list \<Rightarrow> string" where
  "print_catalog crlf dm dsm es =
     join [CHR 0x0A] (map (\<lambda>l. l @ (if crlf then [CHR 0x0D] else [])) (catalog_lines dm dsm es))"

definition entry_ok :: "CatalogEntry \<Rightarrow> bool" where
  "entry_ok e \<longleftrightarrow> plain_token (ce_id e) \<and> pred_option (list_all (plain_token \<circ> fst)) (ce_reasoning e)"

definition catalog_ok :: "string option \<Rightarrow> string option \<Rightarrow> CatalogEntry list \<Rightarrow> bool" where
  "catalog_ok dm dsm es \<longleftrightarrow> pred_option plain_token dm \<and> pred_option plain_token dsm \<and> list_all entry_ok es"

definition marked_level :: "(string \<times> bool) list \<Rightarrow> string option" where
  "marked_level ls = map_option fst (List.find snd ls)"

definition entry_option :: "CatalogEntry \<Rightarrow> ModelOption" where
  "entry_option e = \<lparr>mo_model_id = ce_id e, mo_label = ce_id e,
     mo_thinking_levels = map_option (map fst) (ce_reasoning e),
     mo_default_thinking_level = Option.bind (ce_reasoning e) marked_level\<rparr>"

lemma plain_token_no_sep: "plain_token t \<Longrightarrow> c \<in> set '',;() '' \<Longrightarrow> c \<notin> set t"
proof
  assume t: "plain_token t" and c: "c \<in> set '',;() ''" and "c \<in> set t"
  then have plain: "plain_char c" by (simp add: plain_token_def list_all_iff)
  have "\<not> plain_char (CHR '' '')" by (simp add: plain_char_def byte_of_def)
  moreover have "c \<notin> set '',;()''" using plain unfolding plain_char_def by blast
  ultimately show False using c plain by auto
qed

lemma reasoning_piece_level:
  assumes "plain_token (fst l)" "pre = [] \<or> pre = '' ''"
  shows "reasoning_piece info (pre @ print_level l) = info\<lparr>ri_levels := ri_levels info @ [fst l],
    ri_default_level := (if snd l \<and> ri_default_level info = None then Some (fst l) else ri_default_level info)\<rparr>"
proof -
  have paren: "CHR ''('' \<notin> set (fst l)" using plain_token_no_sep [OF assms(1)] by simp
  have ne: "fst l \<noteq> []" using assms(1) by (simp add: plain_token_def)
  show ?thesis
  proof (cases "snd l")
    case True
    define xs where "xs = pre @ fst l @ '' ''"
    have raw: "pre @ print_level l = xs @ ''(default)''" using True by (simp add: print_level_def xs_def)
    have out: "CHR ''('' \<notin> set xs" using paren assms(2) by (auto simp: xs_def)
    have "str_replace ''(DEFAULT)'' [] (str_replace ''(default)'' [] (xs @ ''(default)'')) = xs"
      by (simp only: str_replace_suffix [OF out] str_replace_absent [OF out] append_Nil2)
    moreover have "trim xs = fst l" using trim_token [OF assms(1)] assms(2) by (auto simp: xs_def)
    moreover have "str_contains (ascii_lowercase (xs @ ''(default)'')) ''(default)''"
      using str_contains_suffix [of "ascii_lowercase xs" "''(default)''"] by (simp add: ascii_lowercase_def)
    ultimately show ?thesis unfolding raw using True ne by (cases info) (simp add: reasoning_piece_def Let_def)
  next
    case False
    have raw: "pre @ print_level l = pre @ fst l" using False by (simp add: print_level_def)
    have out: "CHR ''('' \<notin> set (pre @ fst l)" using paren assms(2) by auto
    have "str_replace ''(DEFAULT)'' [] (str_replace ''(default)'' [] (pre @ fst l)) = pre @ fst l"
      by (simp only: str_replace_absent [OF out])
    moreover have "trim (pre @ fst l) = fst l" using trim_token [OF assms(1)] assms(2) by auto
    moreover have "\<not> str_contains (ascii_lowercase (pre @ fst l)) ''(default)''"
      by (rule str_contains_needs_head [OF ascii_lowercase_keeps_out_paren [OF out]])
    ultimately show ?thesis unfolding raw using False ne by (cases info) (simp add: reasoning_piece_def Let_def)
  qed
qed

lemma reasoning_pieces:
  assumes "list_all (plain_token \<circ> fst) ls"
  shows "foldl reasoning_piece info (map (\<lambda>l. CHR '' '' # print_level l) ls)
    = info\<lparr>ri_levels := ri_levels info @ map fst ls,
        ri_default_level := (case ri_default_level info of Some d \<Rightarrow> Some d | None \<Rightarrow> marked_level ls)\<rparr>"
  using assms
proof (induction ls arbitrary: info)
  case Nil
  then show ?case by (cases info) (auto simp: marked_level_def split: option.splits)
next
  case (Cons l ls)
  then show ?case using reasoning_piece_level [of l "'' ''" info]
    by (auto simp: marked_level_def split: option.splits)
qed

lemma print_level_chars: "plain_token (fst l) \<Longrightarrow> c \<in> set '',;'' \<Longrightarrow> c \<notin> set (print_level l)"
  using plain_token_no_sep [of "fst l"] by (auto simp: print_level_def)

lemma split_levels:
  assumes "list_all (plain_token \<circ> fst) (l # ls)"
  shows "split_on (CHR '','') (join '', '' (map print_level (l # ls)))
    = print_level l # map (\<lambda>l. CHR '' '' # print_level l) ls"
  using assms
proof (induction ls arbitrary: l)
  case Nil
  then show ?case using print_level_chars [of l "CHR '',''"] by (simp add: split_on_single)
next
  case (Cons m ls)
  have "split_on (CHR '','') (CHR '' '' # r) = (CHR '' '' # hd (split_on (CHR '','') r)) # tl (split_on (CHR '','') r)" for r
    by (cases "split_on (CHR '','') r") (simp_all)
  then show ?case using Cons print_level_chars [of l "CHR '',''"] by (simp add: split_on_append_sep)
qed

lemma join_chars: "c \<in> set (join sep ps) \<Longrightarrow> c \<in> set sep \<or> (\<exists>p \<in> set ps. c \<in> set p)"
  by (induction sep ps rule: join.induct) auto

lemma parse_reasoning_print:
  assumes "list_all (plain_token \<circ> fst) ls"
  shows "parse_reasoning (print_reasoning ls) = \<lparr>ri_levels = map fst ls, ri_default_level = marked_level ls\<rparr>"
proof -
  let ?seg = "join '', '' (map print_level ls)"
  have "CHR '';'' \<notin> set ?seg"
    using join_chars [of "CHR '';''" "'', ''" "map print_level ls"] print_level_chars [of _ "CHR '';''"] assms
    by (auto simp: list_all_iff)
  then have seg: "hd (split_on (CHR '';'') (?seg @ ''; can_disable=yes'')) = ?seg"
    using split_on_append_sep [of "CHR '';''" ?seg "'' can_disable=yes''"] by simp
  have find: "str_find ''levels='' (print_reasoning ls) = Some 19" by (simp add: print_reasoning_def)
  have rest: "drop (19 + length ''levels='') (print_reasoning ls) = ?seg @ ''; can_disable=yes''"
    by (simp add: print_reasoning_def)
  have eq: "parse_reasoning (print_reasoning ls) = foldl reasoning_piece default_reasoning (split_on (CHR '','') ?seg)"
    unfolding parse_reasoning_def find option.case Let_def rest seg ..
  show ?thesis
  proof (cases ls)
    case Nil
    show ?thesis unfolding eq using Nil
      by (simp add: reasoning_piece_def default_reasoning_def marked_level_def trim_def trim_start.simps trim_end.simps ws_end_len_def)
  next
    case (Cons l ms)
    have "foldl reasoning_piece default_reasoning (split_on (CHR '','') ?seg)
      = foldl reasoning_piece (reasoning_piece default_reasoning (print_level l)) (map (\<lambda>l. CHR '' '' # print_level l) ms)"
      using split_levels [of l ms] assms Cons by simp
    also have "\<dots> = \<lparr>ri_levels = map fst ls, ri_default_level = marked_level ls\<rparr>"
      using reasoning_piece_level [of l "[]" default_reasoning] reasoning_pieces [of ms] assms Cons
      by (auto simp: default_reasoning_def marked_level_def split: option.splits)
    finally show ?thesis unfolding eq .
  qed
qed

section \<open>Scanning the documented lines\<close>

lemma strip_cr_print: "(l = [] \<or> last l \<noteq> CHR 0x0D) \<Longrightarrow> strip_cr (l @ (if crlf then [CHR 0x0D] else [])) = l"
  by (auto simp: strip_cr_def)

lemma scan_line_strip: "strip_cr raw = strip_cr l \<Longrightarrow> scan_line s raw = scan_line s l"
  by (simp add: scan_line_def)

lemma plain_last: "plain_token t \<Longrightarrow> last t \<noteq> CHR 0x0D"
proof
  assume t: "plain_token t" and "last t = CHR 0x0D"
  then have "plain_char (CHR 0x0D)" using last_in_set [of t] by (auto simp: plain_token_def list_all_iff)
  then show False by (simp add: plain_char_def byte_of_def)
qed

lemma trim_end_prefix: "\<exists>n. trim_end s = take n s"
proof (induction s rule: trim_end.induct)
  case (1 s)
  show ?case
  proof (cases "ws_end_len s = 0")
    case True
    then have "trim_end s = take (length s) s" by (subst trim_end.simps) simp
    then show ?thesis ..
  next
    case False
    then obtain n where "trim_end (take (length s - ws_end_len s) s) = take n (take (length s - ws_end_len s) s)"
      using 1 by blast
    then have "trim_end s = take (min n (length s - ws_end_len s)) s"
      using False by (subst trim_end.simps) simp
    then show ?thesis ..
  qed
qed

lemma trim_head: "plain_char c \<Longrightarrow> trim (c # s) = d # t \<Longrightarrow> c = d"
proof -
  assume "plain_char c" and eq: "trim (c # s) = d # t"
  then have "trim_start (c # s) = c # s" by (subst trim_start.simps) simp
  then obtain n where "trim (c # s) = take n (c # s)" using trim_end_prefix [of "c # s"] by (auto simp: trim_def)
  then show "c = d" using eq by (cases n) auto
qed

lemma plain_char_eval: "plain_char (CHR ''-'')" "plain_char (CHR ''r'')" "plain_char (CHR ''m'')" "plain_char (CHR ''e'')"
  by (simp_all add: plain_char_def byte_of_def)

lemmas scan_line_simps = scan_line_def strip_cr_def first_token_after_prefix_def strip_prefix_def Let_def

lemma scan_default_model: "plain_token m \<Longrightarrow> scan_line s (''default_model: '' @ m) = s\<lparr>sc_default_model := Some m\<rparr>"
  using plain_last [of m] by (auto simp: scan_line_simps split_whitespace_token plain_token_def)

lemma scan_default_small_model:
  "plain_token m \<Longrightarrow> scan_line s (''default_small_model: '' @ m) = s\<lparr>sc_default_small_model := Some m\<rparr>"
  using plain_last [of m] by (auto simp: scan_line_simps split_whitespace_token plain_token_def)

lemma scan_blank: "scan_line s [] = s"
  by (simp add: scan_line_simps trim_def trim_start.simps trim_end.simps ws_end_len_def
      parse_model_header_def parse_indented_field_rest_def)

lemma scan_section: "scan_line s ''models:'' = s\<lparr>sc_in_models_section := True\<rparr>"
proof -
  have "trim ''models:'' = ''models:''"
    by (rule trim_token) (simp add: plain_token_def plain_char_def byte_of_def)
  then show ?thesis by (simp add: scan_line_simps)
qed

lemma scan_header:
  assumes "plain_token mid" "sc_in_models_section s"
  shows "scan_line s (''- '' @ mid) = (flush_model s)\<lparr>sc_current_id := Some mid\<rparr>"
proof -
  have "trim (''- '' @ mid) \<noteq> ''models:''"
    using trim_head [of "CHR ''-''" "CHR '' '' # mid" "CHR ''m''" "''odels:''"] plain_char_eval(1) by auto
  moreover have "strip_cr (''- '' @ mid) = ''- '' @ mid" using plain_last [OF assms(1)] by (auto simp: strip_cr_def)
  moreover have "parse_model_header (''- '' @ mid) = Some mid"
    using assms(1) split_whitespace_plain [OF assms(1)] by (simp add: parse_model_header_def strip_prefix_def plain_token_def)
  ultimately show ?thesis using assms(2)
    by (simp add: scan_line_def first_token_after_prefix_def strip_prefix_def)
qed

lemma scan_reasoning:
  assumes "sc_current_id s \<noteq> None"
  shows "scan_line s (''  reasoning: '' @ print_reasoning ls) = s\<lparr>sc_current_reasoning := Some (print_reasoning ls)\<rparr>"
proof -
  let ?rest = "''reasoning: '' @ print_reasoning ls"
  have start: "trim_start (''  reasoning: '' @ print_reasoning ls) = ?rest"
    using plain_char_eval(2) by (simp add: trim_start.simps [of "CHR ''r'' # _"])
  have "trim (''  reasoning: '' @ print_reasoning ls) = trim ?rest"
    using start trim_start_plain [of "''r''" "''easoning: '' @ print_reasoning ls"] plain_char_eval(2)
    by (simp add: trim_def plain_token_def)
  then have "trim (''  reasoning: '' @ print_reasoning ls) \<noteq> ''models:''"
    using trim_head [of "CHR ''r''" "''easoning: '' @ print_reasoning ls" "CHR ''m''" "''odels:''"] plain_char_eval(2) by auto
  moreover have "strip_cr (''  reasoning: '' @ print_reasoning ls) = ''  reasoning: '' @ print_reasoning ls"
    by (simp add: strip_cr_def print_reasoning_def)
  moreover have "parse_indented_field_rest (''  reasoning: '' @ print_reasoning ls) ''reasoning:'' = Some (print_reasoning ls)"
  proof -
    have "trim_start (print_reasoning ls) = print_reasoning ls"
      using plain_char_eval(4) by (simp add: print_reasoning_def trim_start.simps [of "CHR ''e'' # _"])
    then show ?thesis using start by (simp add: parse_indented_field_rest_def strip_prefix_def)
  qed
  ultimately show ?thesis using assms
    by (auto simp: scan_line_def first_token_after_prefix_def strip_prefix_def parse_model_header_def Let_def)
qed

lemma flush_model_simps [simp]:
  "sc_default_model (flush_model s) = sc_default_model s"
  "sc_default_small_model (flush_model s) = sc_default_small_model s"
  "sc_in_models_section (flush_model s) = sc_in_models_section s"
  "sc_current_id (flush_model s) = None"
  "sc_current_reasoning (flush_model s) = None"
  by (auto simp: flush_model_def Let_def split: option.splits)

lemma scan_entry:
  assumes "plain_token (ce_id e)" "sc_in_models_section s"
  shows "foldl scan_line s (print_entry e) = (flush_model s)\<lparr>sc_current_id := Some (ce_id e),
    sc_current_reasoning := map_option print_reasoning (ce_reasoning e)\<rparr>"
proof -
  have "sc_current_reasoning (flush_model s) = None" by simp
  then have "(flush_model s)\<lparr>sc_current_id := Some (ce_id e)\<rparr>
    = (flush_model s)\<lparr>sc_current_id := Some (ce_id e), sc_current_reasoning := None\<rparr>"
    by (cases "flush_model s") simp
  then show ?thesis using assms scan_header [OF assms] scan_reasoning [of "(flush_model s)\<lparr>sc_current_id := Some (ce_id e)\<rparr>"]
    by (cases "ce_reasoning e") (simp_all add: print_entry_def)
qed

definition default_level_of :: "string option \<Rightarrow> CatalogEntry list \<Rightarrow> string option" where
  "default_level_of dm es = (case filter (\<lambda>e. Some (ce_id e) = dm) es of
     [] \<Rightarrow> None | ms \<Rightarrow> Option.bind (ce_reasoning (last ms)) marked_level)"

lemma default_level_of_snoc:
  "default_level_of dm (es @ [e]) = (if Some (ce_id e) = dm then Option.bind (ce_reasoning e) marked_level
     else default_level_of dm es)"
  by (cases "filter (\<lambda>e. Some (ce_id e) = dm) es") (auto simp: default_level_of_def)

lemma scan_entries:
  assumes "list_all entry_ok es" "sc_in_models_section s" "sc_current_id s = None" "sc_models s = []"
    "sc_default_thinking_level s = None"
  shows "flush_model (foldl scan_line s (concat (map print_entry es))) = s\<lparr>sc_current_reasoning := None,
      sc_models := map entry_option es, sc_default_thinking_level := default_level_of (sc_default_model s) es\<rparr>
    \<and> sc_in_models_section (foldl scan_line s (concat (map print_entry es)))"
  using assms(1)
proof (induction es rule: rev_induct)
  case Nil
  then show ?case using assms(2-) by (cases s) (simp add: flush_model_def default_level_of_def)
next
  case (snoc e es)
  let ?u = "foldl scan_line s (concat (map print_entry es))"
  have IH: "flush_model ?u = s\<lparr>sc_current_reasoning := None, sc_models := map entry_option es,
      sc_default_thinking_level := default_level_of (sc_default_model s) es\<rparr>" "sc_in_models_section ?u"
    using snoc by auto
  have e: "plain_token (ce_id e)" "pred_option (list_all (plain_token \<circ> fst)) (ce_reasoning e)"
    using snoc.prems by (auto simp: entry_ok_def)
  have step: "foldl scan_line s (concat (map print_entry (es @ [e]))) = (flush_model ?u)\<lparr>sc_current_id := Some (ce_id e),
    sc_current_reasoning := map_option print_reasoning (ce_reasoning e)\<rparr>"
    using scan_entry [OF e(1) IH(2)] by simp
  show ?case unfolding step IH(1) using e(2) assms(2,3)
    by (cases "ce_reasoning e"; cases s)
      (auto simp: flush_model_def entry_option_def default_level_of_snoc parse_reasoning_print Let_def)
qed

lemma plain_token_no_eol: "plain_token t \<Longrightarrow> c \<in> {CHR 0x0A, CHR 0x0D} \<Longrightarrow> c \<notin> set t"
proof
  assume "plain_token t" "c \<in> {CHR 0x0A, CHR 0x0D}" "c \<in> set t"
  then have "plain_char c" "byte_of c < 33" by (auto simp: plain_token_def list_all_iff byte_of_def)
  then show False by (simp add: plain_char_def)
qed

lemma print_reasoning_no_eol:
  assumes "list_all (plain_token \<circ> fst) ls" "c \<in> {CHR 0x0A, CHR 0x0D}"
  shows "c \<notin> set (print_reasoning ls)"
proof -
  have "c \<notin> set (print_level l)" if "l \<in> set ls" for l
    using that assms plain_token_no_eol [of "fst l" c] by (auto simp: print_level_def list_all_iff)
  then have "c \<notin> set (join '', '' (map print_level ls))"
    using join_chars [of c "'', ''" "map print_level ls"] assms(2) by auto
  then show ?thesis using assms(2) by (auto simp: print_reasoning_def)
qed

lemma print_entry_no_eol: "entry_ok e \<Longrightarrow> l \<in> set (print_entry e) \<Longrightarrow> c \<in> {CHR 0x0A, CHR 0x0D} \<Longrightarrow> c \<notin> set l"
  using plain_token_no_eol [of "ce_id e" c] print_reasoning_no_eol [of _ c]
  by (cases "ce_reasoning e") (auto simp: print_entry_def entry_ok_def)

lemma scan_printed_lines:
  assumes "\<And>l c. l \<in> set ls \<Longrightarrow> c \<in> {CHR 0x0A, CHR 0x0D} \<Longrightarrow> c \<notin> set l" "ls \<noteq> []"
  shows "foldl scan_line s (split_on (CHR 0x0A) (join [CHR 0x0A] (map (\<lambda>l. l @ (if crlf then [CHR 0x0D] else [])) ls)))
    = foldl scan_line s ls"
proof -
  have "strip_cr (l @ (if crlf then [CHR 0x0D] else [])) = l" "strip_cr l = l" if "l \<in> set ls" for l
  proof -
    have "l \<noteq> [] \<Longrightarrow> last l \<noteq> CHR 0x0D" using assms(1) [OF that, of "CHR 0x0D"] last_in_set [of l] by force
    then show "strip_cr (l @ (if crlf then [CHR 0x0D] else [])) = l" "strip_cr l = l" by (auto simp: strip_cr_def)
  qed
  then have "scan_line t (l @ (if crlf then [CHR 0x0D] else [])) = scan_line t l" if "l \<in> set ls" for l t
    using that scan_line_strip by metis
  then have scan: "foldl scan_line s (map (\<lambda>l. l @ (if crlf then [CHR 0x0D] else [])) ls) = foldl scan_line s ls"
    unfolding foldl_map by (intro foldl_cong refl) auto
  have "split_on (CHR 0x0A) (join [CHR 0x0A] (map (\<lambda>l. l @ (if crlf then [CHR 0x0D] else [])) ls))
    = map (\<lambda>l. l @ (if crlf then [CHR 0x0D] else [])) ls"
    using assms by (intro split_on_join) auto
  then show ?thesis using scan by simp
qed

lemma catalog_lines_no_eol:
  assumes "catalog_ok dm dsm es" "l \<in> set (catalog_lines dm dsm es)" "c \<in> {CHR 0x0A, CHR 0x0D}"
  shows "c \<notin> set l"
proof -
  have "list_all entry_ok es" using assms(1) by (simp add: catalog_ok_def)
  then show ?thesis using assms plain_token_no_eol [of _ c] print_entry_no_eol [of _ l c]
    by (auto simp: catalog_lines_def catalog_ok_def list_all_iff split: option.splits)
qed

lemma scan_catalog_lines:
  assumes "catalog_ok dm dsm es"
  shows "flush_model (foldl scan_line initial_scan (catalog_lines dm dsm es))
    = initial_scan\<lparr>sc_default_model := dm, sc_default_small_model := dsm, sc_in_models_section := True,
        sc_models := map entry_option es, sc_default_thinking_level := default_level_of dm es\<rparr>"
proof -
  let ?s = "initial_scan\<lparr>sc_default_model := dm, sc_default_small_model := dsm, sc_in_models_section := True\<rparr>"
  have "foldl scan_line initial_scan (catalog_lines dm dsm es) = foldl scan_line ?s (concat (map print_entry es) @ [[]])"
    using assms scan_default_model scan_default_small_model
    by (cases dm; cases dsm) (simp_all add: catalog_lines_def catalog_ok_def scan_blank scan_section initial_scan_def)
  also have "\<dots> = foldl scan_line ?s (concat (map print_entry es))" by (simp add: scan_blank)
  finally have "foldl scan_line initial_scan (catalog_lines dm dsm es) = foldl scan_line ?s (concat (map print_entry es))" .
  moreover have "list_all entry_ok es" using assms by (simp add: catalog_ok_def)
  ultimately show ?thesis using scan_entries [of es ?s] by (simp add: initial_scan_def)
qed

section \<open>Properties\<close>

text \<open>
  The catalogue is read back as it was printed: for every catalogue in the documented format, with
  either line ending, the parser returns each model with its levels and its marked level, the two default
  markers, and as the default thinking level the marked level of the default model.
\<close>

theorem parse_models_print:
  assumes "catalog_ok dm dsm es"
  shows "parse_models (print_catalog crlf dm dsm es) = \<lparr>pm_models = map entry_option es, pm_default_model = dm,
    pm_default_small_model = dsm, pm_default_thinking_level = default_level_of dm es\<rparr>"
  using scan_printed_lines [of "catalog_lines dm dsm es" initial_scan crlf] catalog_lines_no_eol [OF assms]
    scan_catalog_lines [OF assms]
  by (simp add: parse_models_def print_catalog_def catalog_lines_def)

theorem parse_models_print_witness:
  "parse_models (print_catalog True (Some ''a/b'') None [\<lparr>ce_id = ''a/b'', ce_reasoning = Some [(''low'', False), (''high'', True)]\<rparr>])
    = \<lparr>pm_models = [\<lparr>mo_model_id = ''a/b'', mo_label = ''a/b'', mo_thinking_levels = Some [''low'', ''high''],
         mo_default_thinking_level = Some ''high''\<rparr>], pm_default_model = Some ''a/b'',
       pm_default_small_model = None, pm_default_thinking_level = Some ''high''\<rparr>"
  using parse_models_print [of "Some ''a/b''" None "[\<lparr>ce_id = ''a/b'', ce_reasoning = Some [(''low'', False), (''high'', True)]\<rparr>]" True]
  by (simp add: catalog_ok_def entry_ok_def plain_token_def plain_char_def byte_of_def entry_option_def default_level_of_def
      marked_level_def)

text \<open>
  A marker in mixed case is recognised as the default but not removed from the level, so a
  selection of that level is posted with the marker in it.
\<close>

theorem mixed_case_marker_kept:
  "parse_reasoning ''levels=high (Default), low''
     = \<lparr>ri_levels = [''high (Default)'', ''low''], ri_default_level = Some ''high (Default)''\<rparr>"
  by code_simp

end
