(* ===== verification/Model_Cache.thy ===== *)
theory Model_Cache
  imports Models
begin

text \<open>
  The single-flight model cache of the driver (\<^verbatim>\<open>get_or_fetch_parsed_models\<close> and its invalidation in
  \<^verbatim>\<open>server/pantoken-server/src/polytoken/driver.rs\<close>). Concurrent callers on a cold cache elect one fetcher by
  a compare-and-swap on a flag; the others wait on a \<^verbatim>\<open>tokio::sync::Notify\<close> and pass the wake-up on. The
  state is the shared fields together with the program counter of every caller, one step per atomic
  action, so every interleaving is a sequence of steps. The \<^verbatim>\<open>Notify\<close> keeps at most one stored permit and a
  first-in first-out queue of parked waiters.
\<close>

section \<open>State\<close>

datatype CallerPc =
    Pc_Check
  | Pc_Cas
  | Pc_Run
  | Pc_Fetched ParsedModels
  | Pc_Notify ParsedModels
  | Pc_Wait
  | Pc_Parked
  | Pc_Woken
  | Pc_Done ParsedModels

record ModelCache =
  mc_model_cache :: "ParsedModels option"
  mc_diagnostic :: "ModelCatalogDiagnostic option"
  mc_fetching :: bool
  mc_permit :: bool
  mc_queue :: "nat list"
  mc_callers :: "CallerPc list"

text \<open>What \<^verbatim>\<open>run_polytoken\<close> answers: standard output and error, or a subprocess that could not run.\<close>

datatype RunOutcome = Ran string string | Run_Failed

definition new_model_cache :: ModelCache where
  "new_model_cache = \<lparr>mc_model_cache = None, mc_diagnostic = None, mc_fetching = False, mc_permit = False,
     mc_queue = [], mc_callers = []\<rparr>"

section \<open>Operations\<close>

text \<open>\<^verbatim>\<open>s.chars().take(n).collect()\<close> on UTF-8 bytes.\<close>

fun take_chars :: "nat \<Rightarrow> string \<Rightarrow> string" where
  "take_chars n [] = []"
| "take_chars n (c # s) =
     (if 0x80 \<le> byte_of c \<and> byte_of c < 0xC0 then c # take_chars n s
      else case n of 0 \<Rightarrow> [] | Suc m \<Rightarrow> c # take_chars m s)"

definition catalog_diagnostic :: "string \<Rightarrow> string \<Rightarrow> ParsedModels \<Rightarrow> ModelCatalogDiagnostic option" where
  "catalog_diagnostic stdout stderr parsed =
     (if pm_models parsed \<noteq> [] then None
      else if trim stdout = [] then
        Some (EmptyOutput (if trim stderr = [] then ''polytoken models returned empty stdout''
          else ''polytoken models returned empty stdout; stderr: '' @ take_chars 500 stderr))
      else Some (CouldNotBeParsed ''polytoken models returned output, but no model entries were parsed''))"

definition store_fetch :: "RunOutcome \<Rightarrow> ModelCache \<Rightarrow> ModelCache \<times> ParsedModels" where
  "store_fetch out s = (case out of
     Ran stdout stderr \<Rightarrow>
       (let parsed = parse_models stdout
        in (s\<lparr>mc_diagnostic := catalog_diagnostic stdout stderr parsed, mc_model_cache := Some parsed\<rparr>, parsed))
   | Run_Failed \<Rightarrow>
       (s\<lparr>mc_diagnostic := Some (NoResponse ''could not discover models; check polytoken configuration'')\<rparr>, empty_models))"

definition set_caller :: "nat \<Rightarrow> CallerPc \<Rightarrow> ModelCache \<Rightarrow> ModelCache" where
  "set_caller i pc s = s\<lparr>mc_callers := (mc_callers s)[i := pc]\<rparr>"

definition notify_one :: "ModelCache \<Rightarrow> ModelCache" where
  "notify_one s = (case mc_queue s of
     [] \<Rightarrow> s\<lparr>mc_permit := True\<rparr>
   | j # q \<Rightarrow> set_caller j Pc_Woken (s\<lparr>mc_queue := q\<rparr>))"

definition poll_notified :: "nat \<Rightarrow> ModelCache \<Rightarrow> ModelCache" where
  "poll_notified i s =
     (if mc_permit s then set_caller i Pc_Woken (s\<lparr>mc_permit := False\<rparr>)
      else set_caller i Pc_Parked (s\<lparr>mc_queue := mc_queue s @ [i]\<rparr>))"

text \<open>The next atomic action of caller \<open>i\<close>; a parked caller and one that has returned have none.\<close>

definition get_or_fetch_step :: "RunOutcome \<Rightarrow> nat \<Rightarrow> ModelCache \<Rightarrow> ModelCache option" where
  "get_or_fetch_step out i s =
     (if i \<ge> length (mc_callers s) then None
      else case mc_callers s ! i of
        Pc_Check \<Rightarrow> Some (case mc_model_cache s of
            Some cached \<Rightarrow> set_caller i (Pc_Done cached) s
          | None \<Rightarrow> set_caller i Pc_Cas s)
      | Pc_Cas \<Rightarrow> Some (if mc_fetching s then set_caller i Pc_Wait s
          else set_caller i Pc_Run (s\<lparr>mc_fetching := True\<rparr>))
      | Pc_Run \<Rightarrow> (let (s1, parsed) = store_fetch out s in Some (set_caller i (Pc_Fetched parsed) s1))
      | Pc_Fetched parsed \<Rightarrow> Some (set_caller i (Pc_Notify parsed) (s\<lparr>mc_fetching := False\<rparr>))
      | Pc_Notify parsed \<Rightarrow> Some (set_caller i (Pc_Done parsed) (notify_one s))
      | Pc_Wait \<Rightarrow> Some (poll_notified i s)
      | Pc_Parked \<Rightarrow> None
      | Pc_Woken \<Rightarrow> Some (set_caller i Pc_Check (notify_one s))
      | Pc_Done _ \<Rightarrow> None)"

definition invalidate_model_cache :: "ModelCache \<Rightarrow> ModelCache" where
  "invalidate_model_cache s = s\<lparr>mc_model_cache := None, mc_diagnostic := None\<rparr>"

definition call_models :: "ModelCache \<Rightarrow> ModelCache" where
  "call_models s = s\<lparr>mc_callers := mc_callers s @ [Pc_Check]\<rparr>"

section \<open>Runs\<close>

inductive cache_step :: "ModelCache \<Rightarrow> ModelCache \<Rightarrow> bool" where
  caller: "get_or_fetch_step out i s = Some s' \<Longrightarrow> cache_step s s'"
| invalidate: "cache_step s (invalidate_model_cache s)"
| call: "cache_step s (call_models s)"

inductive cache_reachable :: "ModelCache \<Rightarrow> bool" where
  init: "cache_reachable new_model_cache"
| step: "cache_reachable s \<Longrightarrow> cache_step s s' \<Longrightarrow> cache_reachable s'"

text \<open>A schedule of callers with the outcome each subprocess would have.\<close>

fun run_callers :: "(nat \<times> RunOutcome) list \<Rightarrow> ModelCache \<Rightarrow> ModelCache option" where
  "run_callers [] s = Some s"
| "run_callers ((i, out) # acts) s = (case get_or_fetch_step out i s of
     None \<Rightarrow> None | Some s' \<Rightarrow> run_callers acts s')"

section \<open>The invariant\<close>

definition owner :: "CallerPc \<Rightarrow> bool" where
  "owner pc \<longleftrightarrow> (case pc of Pc_Run \<Rightarrow> True | Pc_Fetched _ \<Rightarrow> True | _ \<Rightarrow> False)"

definition baton :: "CallerPc \<Rightarrow> bool" where
  "baton pc \<longleftrightarrow> (case pc of Pc_Notify _ \<Rightarrow> True | Pc_Woken \<Rightarrow> True | _ \<Rightarrow> False)"

definition returned :: "CallerPc \<Rightarrow> bool" where
  "returned pc \<longleftrightarrow> (case pc of Pc_Done _ \<Rightarrow> True | _ \<Rightarrow> False)"

definition callers_at :: "ModelCache \<Rightarrow> (CallerPc \<Rightarrow> bool) \<Rightarrow> nat set" where
  "callers_at s P = {i. i < length (mc_callers s) \<and> P (mc_callers s ! i)}"

definition cache_inv :: "ModelCache \<Rightarrow> bool" where
  "cache_inv s \<longleftrightarrow>
     (mc_fetching s \<longleftrightarrow> callers_at s owner \<noteq> {}) \<and> (\<forall>i \<in> callers_at s owner. \<forall>j \<in> callers_at s owner. i = j)
     \<and> distinct (mc_queue s) \<and> set (mc_queue s) = callers_at s ((=) Pc_Parked)
     \<and> (mc_queue s \<noteq> [] \<longrightarrow> \<not> mc_permit s)
     \<and> (callers_at s ((=) Pc_Parked) \<union> callers_at s ((=) Pc_Wait) \<noteq> {} \<longrightarrow> mc_fetching s \<or> mc_permit s \<or> callers_at s baton \<noteq> {})"

lemma callers_at_set:
  "i < length (mc_callers s) \<Longrightarrow> callers_at (set_caller i pc s) P = (if P pc then insert i (callers_at s P) else callers_at s P - {i})"
  by (auto simp: callers_at_def set_caller_def nth_list_update)

lemma set_caller_simps [simp]:
  "mc_model_cache (set_caller i pc s) = mc_model_cache s" "mc_diagnostic (set_caller i pc s) = mc_diagnostic s"
  "mc_fetching (set_caller i pc s) = mc_fetching s" "mc_permit (set_caller i pc s) = mc_permit s"
  "mc_queue (set_caller i pc s) = mc_queue s" "length (mc_callers (set_caller i pc s)) = length (mc_callers s)"
  by (simp_all add: set_caller_def)

lemma callers_at_updates [simp]:
  "callers_at (s\<lparr>mc_fetching := f\<rparr>) P = callers_at s P" "callers_at (s\<lparr>mc_permit := b\<rparr>) P = callers_at s P" "callers_at (s\<lparr>mc_queue := q\<rparr>) P = callers_at s P"
  "callers_at (s\<lparr>mc_model_cache := c\<rparr>) P = callers_at s P" "callers_at (s\<lparr>mc_diagnostic := d\<rparr>) P = callers_at s P"
  by (simp_all add: callers_at_def)

lemma in_callers_at: "i < length (mc_callers s) \<Longrightarrow> i \<in> callers_at s P \<longleftrightarrow> P (mc_callers s ! i)"
  by (simp add: callers_at_def)

lemma callers_at_length: "i \<in> callers_at s P \<Longrightarrow> i < length (mc_callers s)"
  by (simp add: callers_at_def)

lemmas pc_class_simps = owner_def baton_def returned_def

text \<open>Passing the baton: a parked caller is woken, or the permit is stored.\<close>

lemma notify_one_Nil: "mc_queue s = [] \<Longrightarrow> notify_one s = s\<lparr>mc_permit := True\<rparr>"
  by (simp add: notify_one_def)

lemma notify_one_Cons:
  assumes "cache_inv s" "mc_queue s = j # q"
  shows "notify_one s = set_caller j Pc_Woken (s\<lparr>mc_queue := q\<rparr>)" "j < length (mc_callers s)"
    "mc_callers s ! j = Pc_Parked" "j \<notin> set q" "\<not> mc_permit s"
proof -
  have "j \<in> callers_at s ((=) Pc_Parked)" using assms by (auto simp: cache_inv_def)
  then show "j < length (mc_callers s)" "mc_callers s ! j = Pc_Parked" by (auto simp: callers_at_def)
qed (use assms in \<open>auto simp: notify_one_def cache_inv_def\<close>)

lemma notify_step_inv:
  assumes inv: "cache_inv s" and i: "i < length (mc_callers s)" "baton (mc_callers s ! i)"
    and pc: "pc = Pc_Check \<or> returned pc"
  shows "cache_inv (set_caller i pc (notify_one s))"
proof (cases "mc_queue s")
  case Nil
  have "\<not> owner pc" "pc \<noteq> Pc_Parked" "pc \<noteq> Pc_Wait" using pc by (auto simp: pc_class_simps split: CallerPc.splits)
  moreover have "i \<notin> callers_at s owner" "i \<notin> callers_at s ((=) Pc_Parked)"
    using i by (auto simp: in_callers_at pc_class_simps split: CallerPc.splits)
  ultimately show ?thesis using inv i Nil
    by (auto simp: cache_inv_def notify_one_Nil callers_at_set)
next
  case (Cons j q)
  note j = notify_one_Cons [OF inv Cons]
  have ij: "i \<noteq> j" using i j(3) by (auto simp: baton_def)
  have "\<not> owner pc" "pc \<noteq> Pc_Parked" "pc \<noteq> Pc_Wait" "\<not> owner Pc_Woken" "baton Pc_Woken"
    using pc by (auto simp: pc_class_simps split: CallerPc.splits)
  moreover have "i \<notin> callers_at s owner" "i \<notin> callers_at s ((=) Pc_Parked)" "j \<notin> callers_at s owner"
    using i j(2,3) by (auto simp: in_callers_at pc_class_simps split: CallerPc.splits)
  moreover have "set q = callers_at s ((=) Pc_Parked) - {j}" using inv Cons j(4) by (auto simp: cache_inv_def)
  ultimately show ?thesis using inv i ij j Cons
    by (auto simp: cache_inv_def callers_at_set)
qed

text \<open>Steps of a caller that neither is nor becomes an owner, a baton holder or a waiter.\<close>

lemma quiet_step_inv:
  assumes inv: "cache_inv s" and i: "i < length (mc_callers s)" "mc_callers s ! i = Pc_Check"
    and pc: "pc = Pc_Cas \<or> returned pc"
  shows "cache_inv (set_caller i pc s)"
proof -
  have "\<not> owner pc" "\<not> baton pc" "pc \<noteq> Pc_Parked" "pc \<noteq> Pc_Wait"
    using pc by (auto simp: pc_class_simps split: CallerPc.splits)
  moreover have "i \<notin> callers_at s owner" "i \<notin> callers_at s ((=) Pc_Parked)" "i \<notin> callers_at s baton"
    using i by (auto simp: in_callers_at pc_class_simps)
  ultimately show ?thesis using inv i by (auto simp: cache_inv_def callers_at_set)
qed

lemma cas_step_inv:
  assumes inv: "cache_inv s" and i: "i < length (mc_callers s)" "mc_callers s ! i = Pc_Cas"
  shows "mc_fetching s \<Longrightarrow> cache_inv (set_caller i Pc_Wait s)"
    and "\<not> mc_fetching s \<Longrightarrow> cache_inv (set_caller i Pc_Run (s\<lparr>mc_fetching := True\<rparr>))"
proof -
  have "i \<notin> callers_at s owner" "i \<notin> callers_at s ((=) Pc_Parked)" "i \<notin> callers_at s baton"
    using i by (auto simp: in_callers_at pc_class_simps)
  moreover have "\<not> owner Pc_Wait" "owner Pc_Run" by (simp_all add: owner_def)
  ultimately show "mc_fetching s \<Longrightarrow> cache_inv (set_caller i Pc_Wait s)"
    "\<not> mc_fetching s \<Longrightarrow> cache_inv (set_caller i Pc_Run (s\<lparr>mc_fetching := True\<rparr>))"
    using inv i by (auto simp: cache_inv_def callers_at_set)
qed

lemma run_step_inv:
  assumes inv: "cache_inv s" and i: "i < length (mc_callers s)" "mc_callers s ! i = Pc_Run"
    and s1: "mc_callers s1 = mc_callers s" "mc_fetching s1 = mc_fetching s" "mc_permit s1 = mc_permit s" "mc_queue s1 = mc_queue s"
  shows "cache_inv (set_caller i (Pc_Fetched parsed) s1)"
proof -
  have at1: "callers_at s1 P = callers_at s P" for P by (simp add: callers_at_def s1)
  have "i \<in> callers_at s owner" "i \<notin> callers_at s ((=) Pc_Parked)" "i \<notin> callers_at s baton" "i \<notin> callers_at s ((=) Pc_Wait)"
    using i by (auto simp: in_callers_at pc_class_simps)
  moreover have "owner (Pc_Fetched parsed)" "\<not> baton (Pc_Fetched parsed)" by (simp_all add: pc_class_simps)
  ultimately show ?thesis using inv i s1 by (auto simp: cache_inv_def callers_at_set at1)
qed

lemma fetched_step_inv:
  assumes inv: "cache_inv s" and i: "i < length (mc_callers s)" "mc_callers s ! i = Pc_Fetched parsed"
  shows "cache_inv (set_caller i (Pc_Notify parsed) (s\<lparr>mc_fetching := False\<rparr>))"
proof -
  have "i \<in> callers_at s owner" "i \<notin> callers_at s ((=) Pc_Parked)" "i \<notin> callers_at s ((=) Pc_Wait)"
    using i by (auto simp: in_callers_at pc_class_simps)
  moreover from this(1) have "callers_at s owner = {i}" using inv by (auto simp: cache_inv_def)
  moreover have "\<not> owner (Pc_Notify parsed)" "baton (Pc_Notify parsed)" by (simp_all add: pc_class_simps)
  ultimately show ?thesis using inv i by (auto simp: cache_inv_def callers_at_set)
qed

lemma wait_step_inv:
  assumes inv: "cache_inv s" and i: "i < length (mc_callers s)" "mc_callers s ! i = Pc_Wait"
  shows "cache_inv (poll_notified i s)"
proof -
  have "i \<notin> callers_at s owner" "i \<notin> callers_at s ((=) Pc_Parked)" "i \<in> callers_at s ((=) Pc_Wait)" "i \<notin> callers_at s baton"
    using i by (auto simp: in_callers_at pc_class_simps)
  moreover have "\<not> owner Pc_Woken" "baton Pc_Woken" "\<not> owner Pc_Parked" "\<not> baton Pc_Parked" by (simp_all add: pc_class_simps)
  ultimately show ?thesis using inv i by (auto simp: cache_inv_def poll_notified_def callers_at_set)
qed

lemma get_or_fetch_step_inv:
  assumes inv: "cache_inv s" and step: "get_or_fetch_step out i s = Some s'"
  shows "cache_inv s'"
proof -
  have i: "i < length (mc_callers s)" using step by (simp add: get_or_fetch_step_def split: if_splits)
  show ?thesis
  proof (cases "mc_callers s ! i")
    case Pc_Run
    then show ?thesis using step i run_step_inv [OF inv i Pc_Run]
      by (auto simp: get_or_fetch_step_def store_fetch_def Let_def split: RunOutcome.splits)
  next
    case Pc_Check
    have "cache_inv (set_caller i (Pc_Done m) s)" for m
      by (rule quiet_step_inv [OF inv i Pc_Check]) (simp add: returned_def)
    then show ?thesis using step i Pc_Check quiet_step_inv [OF inv i Pc_Check, of Pc_Cas]
      by (auto simp: get_or_fetch_step_def split: option.splits)
  next
    case Pc_Cas
    then show ?thesis using step i cas_step_inv [OF inv i Pc_Cas]
      by (auto simp: get_or_fetch_step_def split: if_splits)
  next
    case (Pc_Fetched m)
    then show ?thesis using step i fetched_step_inv [OF inv i] by (auto simp: get_or_fetch_step_def)
  next
    case (Pc_Notify m)
    then show ?thesis using step i notify_step_inv [OF inv i, of "Pc_Done m"]
      by (auto simp: get_or_fetch_step_def pc_class_simps)
  next
    case Pc_Woken
    then show ?thesis using step i notify_step_inv [OF inv i, of Pc_Check]
      by (auto simp: get_or_fetch_step_def pc_class_simps)
  next
    case Pc_Wait
    then show ?thesis using step i wait_step_inv [OF inv i] by (auto simp: get_or_fetch_step_def)
  qed (use step i in \<open>auto simp: get_or_fetch_step_def\<close>)
qed

lemma callers_at_call: "\<not> P Pc_Check \<Longrightarrow> callers_at (call_models s) P = callers_at s P"
  by (auto simp: callers_at_def call_models_def nth_append less_Suc_eq)

lemma call_models_simps [simp]:
  "mc_fetching (call_models s) = mc_fetching s" "mc_permit (call_models s) = mc_permit s" "mc_queue (call_models s) = mc_queue s"
  "mc_model_cache (call_models s) = mc_model_cache s"
  by (simp_all add: call_models_def)

lemma invalidate_simps [simp]:
  "mc_fetching (invalidate_model_cache s) = mc_fetching s" "mc_permit (invalidate_model_cache s) = mc_permit s"
  "mc_queue (invalidate_model_cache s) = mc_queue s" "callers_at (invalidate_model_cache s) P = callers_at s P"
  by (simp_all add: invalidate_model_cache_def)

lemma cache_step_inv: "cache_step s s' \<Longrightarrow> cache_inv s \<Longrightarrow> cache_inv s'"
proof (induction rule: cache_step.induct)
  case (caller out i s s')
  then show ?case using get_or_fetch_step_inv by blast
next
  case (invalidate s)
  then show ?case unfolding cache_inv_def invalidate_simps .
next
  case (call s)
  have at: "callers_at (call_models s) owner = callers_at s owner" "callers_at (call_models s) baton = callers_at s baton"
    "callers_at (call_models s) ((=) Pc_Parked) = callers_at s ((=) Pc_Parked)"
    "callers_at (call_models s) ((=) Pc_Wait) = callers_at s ((=) Pc_Wait)"
    by (simp_all add: callers_at_call pc_class_simps)
  show ?case using call unfolding cache_inv_def at call_models_simps .
qed

lemma cache_reachable_inv: "cache_reachable s \<Longrightarrow> cache_inv s"
proof (induction rule: cache_reachable.induct)
  case init
  then show ?case by (simp add: cache_inv_def new_model_cache_def callers_at_def)
qed (blast intro: cache_step_inv)

section \<open>Progress\<close>

text \<open>While a caller has not returned, some caller can take a step.\<close>

lemma active_pc: "owner pc \<or> baton pc \<Longrightarrow> pc \<noteq> Pc_Parked \<and> \<not> returned pc"
  by (cases pc) (simp_all add: pc_class_simps)

lemma cache_inv_active:
  assumes inv: "cache_inv s" and i: "i \<in> callers_at s ((=) Pc_Parked)"
  shows "\<exists>j. j \<in> callers_at s owner \<or> j \<in> callers_at s baton"
proof -
  have "set (mc_queue s) = callers_at s ((=) Pc_Parked)" using inv unfolding cache_inv_def by blast
  then have "mc_queue s \<noteq> []" using i by auto
  then have "\<not> mc_permit s" using inv unfolding cache_inv_def by blast
  moreover have "mc_fetching s \<or> mc_permit s \<or> callers_at s baton \<noteq> {}" using inv i unfolding cache_inv_def by blast
  moreover have "mc_fetching s \<longleftrightarrow> callers_at s owner \<noteq> {}" using inv unfolding cache_inv_def by blast
  ultimately show ?thesis by blast
qed

lemma not_stuck:
  assumes inv: "cache_inv s" and i: "i < length (mc_callers s)" "\<not> returned (mc_callers s ! i)"
  shows "\<exists>j. get_or_fetch_step out j s \<noteq> None"
proof -
  have enabled: "get_or_fetch_step out j s \<noteq> None"
    if "j < length (mc_callers s)" "mc_callers s ! j \<noteq> Pc_Parked" "\<not> returned (mc_callers s ! j)" for j
    using that by (cases "mc_callers s ! j") (auto simp: get_or_fetch_step_def returned_def split: prod.splits)
  show ?thesis
  proof (cases "mc_callers s ! i = Pc_Parked")
    case True
    then have "i \<in> callers_at s ((=) Pc_Parked)" using i by (simp add: in_callers_at)
    then obtain j where "j \<in> callers_at s owner \<or> j \<in> callers_at s baton" using cache_inv_active [OF inv] by blast
    then have "j < length (mc_callers s)" "mc_callers s ! j \<noteq> Pc_Parked" "\<not> returned (mc_callers s ! j)"
      using active_pc by (auto simp: callers_at_def)
    then show ?thesis using enabled by blast
  qed (use enabled i in blast)
qed

primrec pc_rank :: "CallerPc \<Rightarrow> nat" where
  "pc_rank (Pc_Done m) = 0"
| "pc_rank Pc_Check = 1"
| "pc_rank (Pc_Notify m) = 1"
| "pc_rank Pc_Woken = 2"
| "pc_rank (Pc_Fetched m) = 2"
| "pc_rank Pc_Parked = 3"
| "pc_rank Pc_Run = 3"
| "pc_rank Pc_Wait = 4"
| "pc_rank Pc_Cas = 5"

definition total_rank :: "(CallerPc \<Rightarrow> nat) \<Rightarrow> ModelCache \<Rightarrow> nat" where
  "total_rank f s = sum_list (map f (mc_callers s))"

lemma total_rank_set:
  "i < length (mc_callers s) \<Longrightarrow> total_rank f (set_caller i pc s) + f (mc_callers s ! i) = total_rank f s + f pc"
  using elem_le_sum_list [of i "map f (mc_callers s)"]
  by (simp add: total_rank_def set_caller_def map_update sum_list_update)

lemma total_rank_notify:
  assumes inv: "cache_inv s" and f: "f Pc_Woken \<le> f Pc_Parked"
  shows "total_rank f (notify_one s) \<le> total_rank f s"
proof (cases "mc_queue s")
  case (Cons j q)
  note j = notify_one_Cons [OF inv Cons]
  have "total_rank f (set_caller j Pc_Woken (s\<lparr>mc_queue := q\<rparr>)) + f Pc_Parked = total_rank f (s\<lparr>mc_queue := q\<rparr>) + f Pc_Woken"
    using total_rank_set [of j "s\<lparr>mc_queue := q\<rparr>" f Pc_Woken] j by simp
  moreover have "total_rank f (s\<lparr>mc_queue := q\<rparr>) = total_rank f s" by (simp add: total_rank_def)
  ultimately show ?thesis using j(1) f by simp
qed (simp add: notify_one_Nil total_rank_def)

lemma notify_one_simps [simp]:
  "mc_model_cache (notify_one s) = mc_model_cache s" "length (mc_callers (notify_one s)) = length (mc_callers s)"
  by (simp_all add: notify_one_def split: list.splits)

lemma notify_one_other:
  assumes "cache_inv s" "i < length (mc_callers s)" "mc_callers s ! i \<noteq> Pc_Parked"
  shows "mc_callers (notify_one s) ! i = mc_callers s ! i"
proof (cases "mc_queue s")
  case (Cons j q)
  note j = notify_one_Cons [OF assms(1) Cons]
  then have "i \<noteq> j" using assms(3) by auto
  then show ?thesis using j(1) by (simp add: set_caller_def)
qed (simp add: notify_one_Nil)

lemma total_rank_notify_step:
  assumes "cache_inv s" "i < length (mc_callers s)" "mc_callers s ! i \<noteq> Pc_Parked" "f pc < f (mc_callers s ! i)"
    "f Pc_Woken \<le> f Pc_Parked"
  shows "total_rank f (set_caller i pc (notify_one s)) < total_rank f s"
  using total_rank_set [of i "notify_one s" f pc] total_rank_notify [of s f] notify_one_other [OF assms(1-3)] assms
  by simp

lemma total_rank_less:
  assumes "i < length (mc_callers s)" "mc_callers s1 = mc_callers s" "f pc < f (mc_callers s ! i)"
  shows "total_rank f (set_caller i pc s1) < total_rank f s"
proof -
  have "total_rank f s1 = total_rank f s" by (simp add: total_rank_def assms(2))
  then show ?thesis using total_rank_set [of i s1 f pc] assms by simp
qed

text \<open>With the catalogue cached, every step brings the callers closer to their return.\<close>

lemma cached_step:
  assumes inv: "cache_inv s" and cached: "mc_model_cache s \<noteq> None" and step: "get_or_fetch_step out i s = Some s'"
  shows "total_rank pc_rank s' < total_rank pc_rank s \<and> mc_model_cache s' \<noteq> None"
proof -
  have i: "i < length (mc_callers s)" using step by (simp add: get_or_fetch_step_def split: if_splits)
  obtain m where m: "mc_model_cache s = Some m" using cached by blast
  show ?thesis
  proof (cases "mc_callers s ! i")
    case (Pc_Notify p)
    then show ?thesis using step i m total_rank_notify_step [OF inv i, of pc_rank "Pc_Done p"]
      by (auto simp: get_or_fetch_step_def)
  next
    case Pc_Woken
    then show ?thesis using step i m total_rank_notify_step [OF inv i, of pc_rank Pc_Check]
      by (auto simp: get_or_fetch_step_def)
  qed (use step i m in \<open>auto simp: get_or_fetch_step_def store_fetch_def poll_notified_def Let_def
      split: RunOutcome.splits if_splits intro!: total_rank_less\<close>)
qed

lemma run_callers_inv: "run_callers acts s = Some s' \<Longrightarrow> cache_inv s \<Longrightarrow> cache_inv s'"
  by (induction acts s rule: run_callers.induct) (auto split: option.splits dest: get_or_fetch_step_inv)

lemma run_callers_cached:
  assumes "run_callers acts s = Some s'" "cache_inv s" "mc_model_cache s \<noteq> None"
  shows "length acts + total_rank pc_rank s' \<le> total_rank pc_rank s \<and> mc_model_cache s' \<noteq> None"
  using assms
proof (induction acts s rule: run_callers.induct)
  case (2 i out acts s)
  then obtain t where t: "get_or_fetch_step out i s = Some t" "run_callers acts t = Some s'"
    by (auto split: option.splits)
  have "cache_inv t" using get_or_fetch_step_inv [OF 2(3) t(1)] .
  then show ?case using 2(1) [OF t(1,2)] cached_step [OF 2(3,4) t(1)] by fastforce
qed simp

lemma run_callers_append:
  "run_callers (xs @ ys) s = (case run_callers xs s of None \<Rightarrow> None | Some t \<Rightarrow> run_callers ys t)"
  by (induction xs s rule: run_callers.induct) (auto split: option.splits)

lemma total_rank_bound: "total_rank pc_rank s \<le> 5 * length (mc_callers s)"
proof -
  have "pc_rank pc \<le> 5" for pc by (cases pc) simp_all
  then have "sum_list (map pc_rank pcs) \<le> 5 * length pcs" for pcs
    by (induction pcs) (auto simp: add_mono)
  then show ?thesis by (simp add: total_rank_def)
qed

lemma cached_run_finishes:
  assumes "cache_inv s" "mc_model_cache s \<noteq> None"
  shows "\<exists>acts s'. run_callers acts s = Some s' \<and> (\<forall>pc \<in> set (mc_callers s'). returned pc)"
  using assms
proof (induction "total_rank pc_rank s" arbitrary: s rule: less_induct)
  case less
  show ?case
  proof (cases "\<forall>pc \<in> set (mc_callers s). returned pc")
    case True
    then have "run_callers [] s = Some s \<and> (\<forall>pc \<in> set (mc_callers s). returned pc)" by simp
    then show ?thesis by blast
  next
    case False
    then obtain i where "i < length (mc_callers s)" "\<not> returned (mc_callers s ! i)" by (auto simp: in_set_conv_nth)
    then obtain j t where t: "get_or_fetch_step Run_Failed j s = Some t" using not_stuck [OF less.prems(1)] by blast
    note c = cached_step [OF less.prems t] and inv = get_or_fetch_step_inv [OF less.prems(1) t]
    then obtain acts s' where "run_callers acts t = Some s'" "\<forall>pc \<in> set (mc_callers s'). returned pc"
      using less.hyps [of t] by blast
    then have "run_callers ((j, Run_Failed) # acts) s = Some s' \<and> (\<forall>pc \<in> set (mc_callers s'). returned pc)" using t by simp
    then show ?thesis by blast
  qed
qed

text \<open>On a cold cache the rank of the steps that lead to a fetch.\<close>

primrec cold_rank :: "CallerPc \<Rightarrow> nat" where
  "cold_rank (Pc_Done m) = 0"
| "cold_rank Pc_Run = 1"
| "cold_rank Pc_Cas = 2"
| "cold_rank Pc_Check = 3"
| "cold_rank Pc_Woken = 4"
| "cold_rank Pc_Parked = 5"
| "cold_rank Pc_Wait = 6"
| "cold_rank (Pc_Notify m) = 1"
| "cold_rank (Pc_Fetched m) = 2"

lemma baton_step:
  assumes inv: "cache_inv s" and i: "i < length (mc_callers s)" "baton (mc_callers s ! i)"
  shows "\<exists>t. get_or_fetch_step out i s = Some t \<and> total_rank cold_rank t < total_rank cold_rank s"
proof (cases "mc_callers s ! i")
  case (Pc_Notify p)
  then show ?thesis using i total_rank_notify_step [OF inv i(1), of cold_rank "Pc_Done p"]
    by (auto simp: get_or_fetch_step_def)
next
  case Pc_Woken
  then show ?thesis using i total_rank_notify_step [OF inv i(1), of cold_rank Pc_Check]
    by (auto simp: get_or_fetch_step_def)
qed (use i in \<open>auto simp: baton_def\<close>)

lemma owner_step:
  assumes i: "i < length (mc_callers s)" "owner (mc_callers s ! i)"
  shows "\<exists>t. get_or_fetch_step (Ran [] []) i s = Some t
    \<and> (mc_model_cache t \<noteq> None \<or> total_rank cold_rank t < total_rank cold_rank s)"
  using i by (cases "mc_callers s ! i")
    (auto simp: owner_def get_or_fetch_step_def store_fetch_def Let_def intro!: total_rank_less)

lemma free_step:
  assumes i: "i < length (mc_callers s)" and cold: "mc_model_cache s = None"
    and pc: "mc_callers s ! i = Pc_Check \<or> mc_callers s ! i = Pc_Cas \<and> \<not> mc_fetching s \<or> mc_callers s ! i = Pc_Wait \<and> mc_permit s"
  shows "\<exists>t. get_or_fetch_step out i s = Some t \<and> total_rank cold_rank t < total_rank cold_rank s"
  using i pc cold
  by (auto simp: get_or_fetch_step_def poll_notified_def intro!: total_rank_less)

lemma cold_step:
  assumes inv: "cache_inv s" and cold: "mc_model_cache s = None" and i: "i < length (mc_callers s)" "\<not> returned (mc_callers s ! i)"
  shows "\<exists>j t. get_or_fetch_step (Ran [] []) j s = Some t
    \<and> (mc_model_cache t \<noteq> None \<or> total_rank cold_rank t < total_rank cold_rank s)"
proof (cases "callers_at s owner = {} \<and> callers_at s baton = {}")
  case False
  then obtain j where "j < length (mc_callers s)" "owner (mc_callers s ! j) \<or> baton (mc_callers s ! j)"
    by (auto simp: callers_at_def)
  then show ?thesis using owner_step baton_step [OF inv] by blast
next
  case True
  have idle: "\<not> mc_fetching s" using True inv unfolding cache_inv_def by blast
  have "i \<notin> callers_at s ((=) Pc_Parked)" using True cache_inv_active [OF inv] by blast
  then have parked: "mc_callers s ! i \<noteq> Pc_Parked" using i by (auto simp: in_callers_at)
  have "i \<notin> callers_at s owner" "i \<notin> callers_at s baton" using True by auto
  then have "\<not> owner (mc_callers s ! i)" "\<not> baton (mc_callers s ! i)" using i by (auto simp: in_callers_at)
  moreover have "mc_permit s" if "mc_callers s ! i = Pc_Wait"
  proof -
    have "i \<in> callers_at s ((=) Pc_Wait)" using that i by (simp add: in_callers_at)
    then have "mc_fetching s \<or> mc_permit s \<or> callers_at s baton \<noteq> {}" using inv unfolding cache_inv_def by blast
    then show ?thesis using idle True by blast
  qed
  ultimately have "mc_callers s ! i = Pc_Check \<or> mc_callers s ! i = Pc_Cas \<and> \<not> mc_fetching s \<or> mc_callers s ! i = Pc_Wait \<and> mc_permit s"
    using parked idle i(2) by (cases "mc_callers s ! i") (auto simp: pc_class_simps)
  then show ?thesis using free_step [OF i(1) cold] by blast
qed

lemma run_finishes:
  assumes "cache_inv s"
  shows "\<exists>acts s'. run_callers acts s = Some s' \<and> (\<forall>pc \<in> set (mc_callers s'). returned pc)"
  using assms
proof (induction "total_rank cold_rank s" arbitrary: s rule: less_induct)
  case less
  show ?case
  proof (cases "mc_model_cache s \<noteq> None \<or> (\<forall>pc \<in> set (mc_callers s). returned pc)")
    case True
    then show ?thesis using cached_run_finishes [OF less.prems] run_callers.simps(1) by blast
  next
    case False
    then obtain i where "mc_model_cache s = None" "i < length (mc_callers s)" "\<not> returned (mc_callers s ! i)"
      by (auto simp: in_set_conv_nth)
    then obtain j t where t: "get_or_fetch_step (Ran [] []) j s = Some t"
      and or: "mc_model_cache t \<noteq> None \<or> total_rank cold_rank t < total_rank cold_rank s"
      using cold_step [OF less.prems] by blast
    have inv: "cache_inv t" by (rule get_or_fetch_step_inv [OF less.prems t])
    then obtain acts s' where "run_callers acts t = Some s'" "\<forall>pc \<in> set (mc_callers s'). returned pc"
      using or cached_run_finishes less.hyps by blast
    then have "run_callers ((j, Ran [] []) # acts) s = Some s' \<and> (\<forall>pc \<in> set (mc_callers s'). returned pc)" using t by simp
    then show ?thesis by blast
  qed
qed

section \<open>Properties\<close>

text \<open>
  Property C34. No wake-up is lost and no caller waits for ever: in every reachable state at most one
  caller runs the subprocess, some schedule of the callers lets all of them return, and once the catalogue is
  cached every schedule does, after at most five steps per caller, whatever the later subprocesses
  answer (a schedule that cannot be extended ends with every caller returned).
\<close>

theorem model_callers_return:
  assumes "cache_reachable s"
  shows "(\<forall>i < length (mc_callers s). \<forall>j < length (mc_callers s).
        owner (mc_callers s ! i) \<and> owner (mc_callers s ! j) \<longrightarrow> i = j)
    \<and> (\<exists>acts s'. run_callers acts s = Some s' \<and> (\<forall>pc \<in> set (mc_callers s'). returned pc))
    \<and> (mc_model_cache s \<noteq> None \<longrightarrow> (\<forall>acts s'. run_callers acts s = Some s' \<longrightarrow>
        length acts \<le> 5 * length (mc_callers s)
        \<and> ((\<forall>i out. get_or_fetch_step out i s' = None) \<longrightarrow> (\<forall>pc \<in> set (mc_callers s'). returned pc))))"
proof (intro conjI allI impI ballI)
  have inv: "cache_inv s" by (rule cache_reachable_inv [OF assms])
  show "\<exists>acts s'. run_callers acts s = Some s' \<and> (\<forall>pc \<in> set (mc_callers s'). returned pc)" by (rule run_finishes [OF inv])
  fix i j
  assume "i < length (mc_callers s)" "j < length (mc_callers s)" "owner (mc_callers s ! i) \<and> owner (mc_callers s ! j)"
  then show "i = j" using inv unfolding cache_inv_def callers_at_def by blast
next
  fix acts s'
  assume "mc_model_cache s \<noteq> None" and run: "run_callers acts s = Some s'"
  then have "length acts + total_rank pc_rank s' \<le> total_rank pc_rank s"
    using run_callers_cached cache_reachable_inv [OF assms] by blast
  then show "length acts \<le> 5 * length (mc_callers s)" using total_rank_bound [of s] by linarith
  fix pc
  assume stuck: "\<forall>i out. get_or_fetch_step out i s' = None" and pc: "pc \<in> set (mc_callers s')"
  have inv': "cache_inv s'" by (rule run_callers_inv [OF run cache_reachable_inv [OF assms]])
  obtain i where "i < length (mc_callers s')" "mc_callers s' ! i = pc" using pc by (auto simp: in_set_conv_nth)
  then show "returned pc" using not_stuck [OF inv', of i Run_Failed] stuck by auto
qed

text \<open>Two callers on a cold cache; the first has become the fetcher and the second is parked.\<close>

definition contended_cache :: ModelCache where
  "contended_cache = \<lparr>mc_model_cache = None, mc_diagnostic = None, mc_fetching = True, mc_permit = False,
     mc_queue = [1], mc_callers = [Pc_Run, Pc_Parked]\<rparr>"

lemma run_callers_reachable: "run_callers acts s = Some s' \<Longrightarrow> cache_reachable s \<Longrightarrow> cache_reachable s'"
  by (induction acts s rule: run_callers.induct)
    (auto split: option.splits intro: cache_reachable.step cache_step.caller)

lemma contended_reachable: "cache_reachable contended_cache"
proof -
  let ?s = "call_models (call_models new_model_cache)"
  let ?acts = "[(0, Run_Failed), (0, Run_Failed), (1, Run_Failed), (1, Run_Failed), (1, Run_Failed)]"
  have "cache_reachable ?s" by (intro cache_reachable.step [OF _ cache_step.call] cache_reachable.init)
  moreover have "run_callers ?acts ?s = Some contended_cache"
    by (simp add: call_models_def new_model_cache_def contended_cache_def get_or_fetch_step_def set_caller_def poll_notified_def)
  ultimately show ?thesis using run_callers_reachable by blast
qed

theorem model_callers_return_witness:
  "\<exists>acts s'. run_callers acts contended_cache = Some s' \<and> (\<forall>pc \<in> set (mc_callers s'). returned pc)"
  using model_callers_return [OF contended_reachable] by blast

text \<open>
  The stored permit is not harmless. After a fetch that nobody waited for, the permit stays; when the
  cache is invalidated and fetched again, a second caller consumes the permit, stores it again
  for the next waiter and is back where it started, so it spins for as long as the subprocess runs
  instead of parking.
\<close>

theorem stale_permit_spins:
  assumes "i < length (mc_callers s)" "mc_callers s ! i = Pc_Check"
    and "mc_model_cache s = None" "mc_fetching s" "mc_permit s" "mc_queue s = []"
  shows "run_callers (concat (replicate k [(i, out), (i, out), (i, out), (i, out)])) s = Some s"
proof -
  have "(mc_callers s)[i := Pc_Check] = mc_callers s" using assms(1,2) by (metis list_update_id)
  then have "run_callers [(i, out), (i, out), (i, out), (i, out)] s = Some s"
    using assms by (cases s) (simp add: get_or_fetch_step_def set_caller_def poll_notified_def notify_one_def)
  then show ?thesis by (induction k) (simp_all only: replicate.simps concat.simps run_callers.simps(1) run_callers_append option.case)
qed

definition spinning_cache :: ModelCache where
  "spinning_cache = \<lparr>mc_model_cache = None, mc_diagnostic = None, mc_fetching = True, mc_permit = True, mc_queue = [],
     mc_callers = [Pc_Done (parse_models []), Pc_Run, Pc_Check]\<rparr>"

theorem stale_permit_spins_witness:
  "cache_reachable spinning_cache
   \<and> run_callers (concat (replicate 1000 [(2, Run_Failed), (2, Run_Failed), (2, Run_Failed), (2, Run_Failed)])) spinning_cache
       = Some spinning_cache"
proof
  let ?s = "call_models (call_models (invalidate_model_cache
    \<lparr>mc_model_cache = Some (parse_models []), mc_diagnostic = catalog_diagnostic [] [] (parse_models []), mc_fetching = False,
     mc_permit = True, mc_queue = [], mc_callers = [Pc_Done (parse_models [])]\<rparr>))"
  have "cache_reachable (call_models new_model_cache)" by (intro cache_reachable.step [OF _ cache_step.call] cache_reachable.init)
  moreover have "run_callers (replicate 5 (0, Ran [] [])) (call_models new_model_cache) = Some
    \<lparr>mc_model_cache = Some (parse_models []), mc_diagnostic = catalog_diagnostic [] [] (parse_models []), mc_fetching = False,
     mc_permit = True, mc_queue = [], mc_callers = [Pc_Done (parse_models [])]\<rparr>"
    by (simp add: call_models_def new_model_cache_def get_or_fetch_step_def set_caller_def store_fetch_def Let_def
        notify_one_def numeral_eq_Suc)
  ultimately have "cache_reachable ?s" using run_callers_reachable
    by (blast intro: cache_reachable.step cache_step.call cache_step.invalidate)
  moreover have "run_callers [(1, Run_Failed), (1, Run_Failed)] ?s = Some spinning_cache"
    by (simp add: call_models_def invalidate_model_cache_def spinning_cache_def get_or_fetch_step_def set_caller_def)
  ultimately show "cache_reachable spinning_cache" using run_callers_reachable by blast
  show "run_callers (concat (replicate 1000 [(2, Run_Failed), (2, Run_Failed), (2, Run_Failed), (2, Run_Failed)])) spinning_cache
       = Some spinning_cache"
    by (rule stale_permit_spins) (simp_all add: spinning_cache_def)
qed

end
