(* ===== verification/Warm_Session.thy ===== *)
theory Warm_Session
  imports History_Seed Interrogatives
begin

text \<open>
  A warm session of the driver (\<^verbatim>\<open>server/pantoken-server/src/polytoken/driver.rs\<close>): the cached daemon state, one
  accumulator per subagent stream, the local queue and the open questions, with the operations that work on
  one session: handling a server-sent event and its effects, clearing the queue, answering a question and
  the throttled usage poll. The daemon's answers and the clock readings of an operation are its arguments.
  The connection itself (client, subscription, child process, consumer task) is not part of the state.
\<close>

section \<open>State\<close>

record WarmSession =
  ws_session_id :: string
  ws_accumulators :: "(string option, FoldAccumulator) hashmap"
  ws_last_state :: "SessionStateSnapshot option"
  ws_session_ref :: SessionRef
  ws_workspace :: WorkspaceRef
  ws_pending_interrogatives :: "(string, PendingInterrogative) hashmap"
  ws_monitor_mode :: "PermissionMonitorMode option"
  ws_autodrain_enabled :: "bool option"
  ws_queue :: "SessionQueuedMessage list"
  ws_usage_polled_at :: nat
  ws_usage_poll_in_flight :: bool

text \<open>What the daemon and the clock answer while one effect runs.\<close>

record DaemonIo =
  io_state :: "SessionStateSnapshot option"
  io_history :: "json_value list option"
  io_clock :: "nat \<Rightarrow> Timestamp"

definition in_flight :: "WarmSession \<Rightarrow> bool" where
  "in_flight ws \<longleftrightarrow> Option.bind (ws_last_state ws) sss_turn_in_flight = Some True"

definition live_status_of :: "WarmSession \<Rightarrow> SessionStatus" where
  "live_status_of ws = (if in_flight ws then St_Running else St_Idle)"

definition driver_snapshot :: "Timestamp \<Rightarrow> WarmSession \<Rightarrow> SessionStatus \<Rightarrow> SessionSnapshot" where
  "driver_snapshot now ws status = snapshot_from_state (ws_last_state ws) (ws_session_ref ws) (ws_workspace ws)
     status now (ws_monitor_mode ws) (ws_autodrain_enabled ws)"

definition driver_ctx :: "(nat \<Rightarrow> Timestamp) \<Rightarrow> WarmSession \<Rightarrow> MapCtx" where
  "driver_ctx clock ws = \<lparr>mc_ref = ws_session_ref ws, mc_workspace = ws_workspace ws, mc_now = clock,
     mc_snapshot = driver_snapshot (clock 1) ws, mc_live_status = live_status_of ws\<rparr>"

definition driver_base :: "Timestamp \<Rightarrow> WarmSession \<Rightarrow> SessionEventBase" where
  "driver_base now ws = \<lparr>eb_session_ref = ws_session_ref ws, eb_timestamp = now, eb_run_id = None,
     eb_subagent_handle = None\<rparr>"

section \<open>Notices and the queue\<close>

definition action_error_notice :: "Timestamp \<Rightarrow> string \<Rightarrow> SessionRef \<Rightarrow> string \<Rightarrow> string \<Rightarrow> SessionDriverEvent" where
  "action_error_notice now millis ref what err =
     E_HostUiRequest \<lparr>eb_session_ref = ref, eb_timestamp = now, eb_run_id = None, eb_subagent_handle = None\<rparr>
       (H_Notify (''action-error-'' @ millis) (what @ '' failed: '' @ err) (Some Nl_Warning))"

definition action_success_notice :: "Timestamp \<Rightarrow> string \<Rightarrow> SessionRef \<Rightarrow> string \<Rightarrow> SessionDriverEvent" where
  "action_success_notice now millis ref message =
     E_HostUiRequest \<lparr>eb_session_ref = ref, eb_timestamp = now, eb_run_id = None, eb_subagent_handle = None\<rparr>
       (H_Notify (''action-success-'' @ millis) message (Some Nl_Info))"

definition emit_queue_updated :: "Timestamp \<Rightarrow> WarmSession \<Rightarrow> SessionDriverEvent list" where
  "emit_queue_updated now ws = [E_QueueUpdated (driver_base now ws) (ws_queue ws)]"

section \<open>Effects\<close>

definition refresh_state :: "DaemonIo \<Rightarrow> WarmSession \<Rightarrow> WarmSession" where
  "refresh_state io ws = (case io_state io of Some st \<Rightarrow> ws\<lparr>ws_last_state := Some st\<rparr> | None \<Rightarrow> ws)"

definition reset_accumulators :: "WarmSession \<Rightarrow> WarmSession" where
  "reset_accumulators ws = ws\<lparr>ws_accumulators := map (\<lambda>(k, acc). (k, reset_accumulator acc)) (ws_accumulators ws)\<rparr>"

definition execute_reseed :: "DaemonIo \<Rightarrow> WarmSession \<Rightarrow> WarmSession \<times> SessionDriverEvent list" where
  "execute_reseed io ws =
     (let cleared = E_QueueUpdated (driver_base (io_clock io 0) ws) [];
          ws1 = refresh_state io (reset_accumulators (ws\<lparr>ws_queue := []\<rparr>))
      in case io_history io of
           None \<Rightarrow> (ws1, [cleared])
         | Some items \<Rightarrow> (ws1, cleared # build_reseed_events (\<lambda>n. io_clock io (n + 2))
             (driver_snapshot (io_clock io 1) ws1 (live_status_of ws1)) items (ws_session_ref ws)))"

definition execute_effect :: "DaemonIo \<Rightarrow> WarmSession \<Rightarrow> DaemonEffect \<Rightarrow> WarmSession \<times> SessionDriverEvent list" where
  "execute_effect io ws effect = (case effect of
     Ef_FetchState emit prompt_id \<Rightarrow>
       (let ws1 = refresh_state io ws
        in (ws1, [build_post_fetch_event emit (driver_ctx (io_clock io) ws1) prompt_id]))
   | Ef_Reseed \<Rightarrow> execute_reseed io ws
   | Ef_QueueAdd item_id content \<Rightarrow>
       (let now = io_clock io 0;
            ws1 = ws\<lparr>ws_queue := ws_queue ws @ [\<lparr>qm_id = item_id, qm_mode = Dm_Steer, qm_text = content,
              qm_created_at = now, qm_updated_at = now, qm_references = None\<rparr>]\<rparr>
        in (ws1, emit_queue_updated (io_clock io 1) ws1))
   | Ef_QueueRemove item_ids \<Rightarrow>
       (let ws1 = ws\<lparr>ws_queue := filter (\<lambda>m. qm_id m \<notin> set item_ids) (ws_queue ws)\<rparr>
        in (ws1, emit_queue_updated (io_clock io 0) ws1))
   | Ef_SetMonitorMode mode \<Rightarrow> (ws\<lparr>ws_monitor_mode := Some mode\<rparr>, [])
   | Ef_SetAutodrainEnabled enabled \<Rightarrow> (ws\<lparr>ws_autodrain_enabled := Some enabled\<rparr>, [])
   | Ef_RegisterInterrogative pending \<Rightarrow>
       (ws\<lparr>ws_pending_interrogatives := hm_insert (pg_interrogative_id pending) pending (ws_pending_interrogatives ws)\<rparr>, []))"

fun execute_effects :: "(nat \<Rightarrow> DaemonIo) \<Rightarrow> WarmSession \<Rightarrow> DaemonEffect list \<Rightarrow> WarmSession \<times> SessionDriverEvent list" where
  "execute_effects io ws [] = (ws, [])"
| "execute_effects io ws (ef # efs) =
     (let (ws1, events) = execute_effect (io 0) ws ef;
          (ws2, more) = execute_effects (\<lambda>n. io (Suc n)) ws1 efs
      in (ws2, events @ more))"

section \<open>Server-sent events\<close>

definition patch_title :: "DaemonEvent \<Rightarrow> WarmSession \<Rightarrow> WarmSession" where
  "patch_title ev ws = (case ev of
     D_SessionTitleChanged source h title \<Rightarrow>
       ws\<lparr>ws_last_state := map_option (\<lambda>st. st\<lparr>sss_session_title := Some title\<rparr>) (ws_last_state ws)\<rparr>
   | _ \<Rightarrow> ws)"

definition accumulator_of :: "WarmSession \<Rightarrow> string option \<Rightarrow> FoldAccumulator" where
  "accumulator_of ws key = (case hm_get (ws_accumulators ws) key of Some acc \<Rightarrow> acc | None \<Rightarrow> create_accumulator)"

text \<open>\<open>None\<close> is a panic of the mapper, which takes the session's consumer task down.\<close>

definition handle_sse_event ::
  "JsonLib \<Rightarrow> (nat \<Rightarrow> DaemonIo) \<Rightarrow> WarmSession \<Rightarrow> DaemonEvent \<Rightarrow> (WarmSession \<times> SessionDriverEvent list) option" where
  "handle_sse_event jl io ws ev =
     (let ws1 = patch_title ev ws;
          key = subagent_handle ev
      in case map_daemon_event jl ev (accumulator_of ws1 key) (driver_ctx (io_clock (io 0)) ws1) of
           None \<Rightarrow> None
         | Some (acc, events, effects) \<Rightarrow>
             (let (ws2, more) = execute_effects (\<lambda>n. io (Suc n))
                    (ws1\<lparr>ws_accumulators := hm_insert key acc (ws_accumulators ws1)\<rparr>) effects
              in Some (ws2, events @ more)))"

text \<open>The consumer task: one event after the other, each with the answers it meets.\<close>

fun consume ::
  "JsonLib \<Rightarrow> WarmSession \<Rightarrow> (DaemonEvent \<times> (nat \<Rightarrow> DaemonIo)) list \<Rightarrow> (WarmSession \<times> SessionDriverEvent list) option" where
  "consume jl ws [] = Some (ws, [])"
| "consume jl ws ((ev, io) # evs) = (case handle_sse_event jl io ws ev of
     None \<Rightarrow> None
   | Some (ws1, events) \<Rightarrow> map_option (\<lambda>(ws2, more). (ws2, events @ more)) (consume jl ws1 evs))"

section \<open>Usage polling\<close>

definition USAGE_POLL_MS :: nat where
  "USAGE_POLL_MS = 3000"

text \<open>The result says whether a background \<^verbatim>\<open>GET /state\<close> was started; its completion is \<open>finish_usage_poll\<close>.\<close>

definition get_usage :: "nat \<Rightarrow> WarmSession \<Rightarrow> WarmSession \<times> SessionUsage option \<times> bool" where
  "get_usage now ws =
     (let start = in_flight ws \<and> \<not> ws_usage_poll_in_flight ws \<and> now - ws_usage_polled_at ws \<ge> USAGE_POLL_MS;
          ws1 = (if start then ws\<lparr>ws_usage_polled_at := now, ws_usage_poll_in_flight := True\<rparr> else ws)
      in (ws1, usage_from_state (ws_last_state ws1), start))"

definition finish_usage_poll :: "DaemonIo \<Rightarrow> WarmSession \<Rightarrow> WarmSession" where
  "finish_usage_poll io ws = (refresh_state io ws)\<lparr>ws_usage_poll_in_flight := False\<rparr>"

section \<open>Clearing the queue\<close>

record ClearQueueResult =
  cq_steering :: "string list"
  cq_follow_up :: "string list"

datatype DriverError =
    De_Unsupported string
  | De_OperationFailed string string "ClearQueueResult option"

definition operation_failed :: "string \<Rightarrow> string \<Rightarrow> DriverError" where
  "operation_failed operation message = De_OperationFailed operation message None"

text \<open>The deletions still to do, newest first, and the texts deleted so far; \<open>del k\<close> is the daemon's answer to the \<open>k\<close>-th.\<close>

fun delete_newest :: "(nat \<Rightarrow> string option) \<Rightarrow> nat \<Rightarrow> string list \<Rightarrow> string list \<Rightarrow> string list \<times> string option" where
  "delete_newest del k restored [] = (restored, None)"
| "delete_newest del k restored (t # ts) = (case del k of
     Some e \<Rightarrow> (restored, Some e)
   | None \<Rightarrow> delete_newest del (Suc k) (restored @ [t]) ts)"

fun recovered :: "(nat \<Rightarrow> Timestamp) \<Rightarrow> nat \<Rightarrow> string list \<Rightarrow> SessionQueuedMessage list" where
  "recovered clock n [] = []"
| "recovered clock n (t # ts) = \<lparr>qm_id = ''recovered-'' @ show_nat n @ ''-'' @ clock 0, qm_mode = Dm_Steer, qm_text = t,
     qm_created_at = clock (2 * n + 1), qm_updated_at = clock (2 * n + 2), qm_references = None\<rparr> # recovered clock (Suc n) ts"

definition clear_queue ::
  "(nat \<Rightarrow> string option) \<Rightarrow> (nat \<Rightarrow> Timestamp) \<Rightarrow> WarmSession
    \<Rightarrow> WarmSession \<times> SessionDriverEvent list \<times> (DriverError + ClearQueueResult)" where
  "clear_queue del clock ws =
     (let texts = map qm_text (ws_queue ws);
          ws1 = ws\<lparr>ws_queue := []\<rparr>
      in case delete_newest del 0 [] (rev texts) of
           (restored, None) \<Rightarrow> (ws1, [], Inr \<lparr>cq_steering = rev restored, cq_follow_up = []\<rparr>)
         | (restored, Some e) \<Rightarrow>
             (let undeleted = take (length texts - length restored) texts;
                  ws2 = ws1\<lparr>ws_queue := recovered clock 0 undeleted\<rparr>
              in (ws2, [E_QueueUpdated (driver_base (clock (2 * length undeleted + 1)) ws2) (ws_queue ws2)],
                  Inl (De_OperationFailed ''clear_queue'' (e @ ''; restored '' @ show_nat (length restored) @ '' queued message(s)'')
                       (Some \<lparr>cq_steering = rev restored, cq_follow_up = []\<rparr>)))))"

text \<open>The texts that reach the composer: the result, or what the error carries.\<close>

definition handed_back :: "DriverError + ClearQueueResult \<Rightarrow> string list" where
  "handed_back r = (case r of
     Inr q \<Rightarrow> cq_steering q @ cq_follow_up q
   | Inl (De_OperationFailed _ _ (Some q)) \<Rightarrow> cq_steering q @ cq_follow_up q
   | _ \<Rightarrow> [])"

section \<open>Answering a question\<close>

text \<open>The third component is the answer posted to the daemon by a background task, if any.\<close>

definition respond_ui ::
  "Timestamp \<Rightarrow> HostUiResponse \<Rightarrow> WarmSession
    \<Rightarrow> WarmSession \<times> SessionDriverEvent list \<times> (string \<times> InterrogativeResponse) option" where
  "respond_ui now response ws =
     (let rid = response_request_id response;
          resolved = [E_HostUiResolved (driver_base now ws) rid];
          ws1 = ws\<lparr>ws_pending_interrogatives := hm_remove rid (ws_pending_interrogatives ws)\<rparr>
      in case hm_get (ws_pending_interrogatives ws) rid of
           None \<Rightarrow> (ws1, resolved, None)
         | Some pending \<Rightarrow> (ws1, resolved,
             map_option (Pair (pg_interrogative_id pending)) (build_interrogative_response pending response)))"

definition respond_post_failed :: "Timestamp \<Rightarrow> string \<Rightarrow> string \<Rightarrow> WarmSession \<Rightarrow> SessionDriverEvent" where
  "respond_post_failed now interrogative_id err ws = E_HostUiRequest (driver_base now ws)
     (H_Notify (''respond-error-'' @ interrogative_id) (''Failed to send response to daemon: '' @ err) (Some Nl_Error))"

section \<open>What the mapper asks for\<close>

definition reseeds :: "DaemonEvent \<Rightarrow> bool" where
  "reseeds ev = (case ev of
     D_StreamDiscontinuity _ _ \<Rightarrow> True | D_SessionRewound _ _ _ \<Rightarrow> True | D_ContextCleared _ _ _ \<Rightarrow> True | _ \<Rightarrow> False)"

lemma inner_effects_reseed:
  "map_daemon_event_inner ev jl acc ctx = Some (acc', es, fs) \<Longrightarrow>
     (if reseeds ev then es = [] \<and> fs = [Ef_Reseed] else Ef_Reseed \<notin> set fs)"
  by (cases ev) (auto simp: reseeds_def arm_defs Let_def finalize_opaque_block_def fetch_updated_def map_interrogative_def
      split: if_splits option.splits prod.splits BlockDeltaPayload.splits)

lemma interrogative_acc:
  "map_option fst (map_option (map_interrogative acc) (build_interrogative_mapping jl i t q options plan goal rule tc base))
   = map_option fst (map_option (map_interrogative acc) (build_interrogative_mapping jl i t q options plan goal rule tc base'))"
proof -
  have "map_option fst (map_option (map_interrogative acc) m) = (if m = None then None else Some acc)" for m
    by (cases m) (simp_all add: map_interrogative_def split: prod.splits)
  then show ?thesis by (simp add: interrogative_mapping_None)
qed

lemma inner_acc_ctx:
  "map_option fst (map_daemon_event_inner ev jl acc ctx) = map_option fst (map_daemon_event_inner ev jl acc ctx')"
proof (cases ev)
  case (D_Interrogative options ext goal i t rule tc plan p q h)
  then show ?thesis using interrogative_acc by simp
qed (simp_all add: arm_defs Let_def finalize_opaque_block_def split: if_splits option.splits prod.splits BlockDeltaPayload.splits)

text \<open>The accumulator after an event does not depend on the context it was mapped in.\<close>

lemma map_acc_ctx:
  "map_option fst (map_daemon_event jl ev acc ctx) = map_option fst (map_daemon_event jl ev acc ctx')"
  using inner_acc_ctx [of ev jl acc ctx ctx']
  by (simp add: map_daemon_event_eq option.map_comp comp_def case_prod_beta')

lemma map_effects_reseed:
  assumes "map_daemon_event jl ev acc ctx = Some (acc', es, fs)"
  shows "if reseeds ev then es = [] \<and> fs = [Ef_Reseed] else Ef_Reseed \<notin> set fs"
  using assms inner_effects_reseed [of ev jl acc ctx acc'] by (auto simp: map_daemon_event_eq)

section \<open>One accumulator per stream\<close>

definition next_acc :: "JsonLib \<Rightarrow> DaemonEvent \<Rightarrow> FoldAccumulator \<Rightarrow> FoldAccumulator" where
  "next_acc jl ev acc = (case map_daemon_event jl ev acc sample_ctx of Some (acc', _) \<Rightarrow> acc' | None \<Rightarrow> acc)"

definition stream_step :: "JsonLib \<Rightarrow> string option \<Rightarrow> FoldAccumulator \<Rightarrow> DaemonEvent \<Rightarrow> FoldAccumulator" where
  "stream_step jl handle acc ev =
     (let acc1 = (if subagent_handle ev = handle then next_acc jl ev acc else acc)
      in if reseeds ev then reset_accumulator acc1 else acc1)"

lemma next_acc_eq: "map_daemon_event jl ev acc ctx = Some (acc', r) \<Longrightarrow> next_acc jl ev acc = acc'"
  using map_acc_ctx [of jl ev acc ctx sample_ctx]
  by (cases "map_daemon_event jl ev acc sample_ctx") (auto simp: next_acc_def)

lemma accumulator_of_insert:
  "accumulator_of (ws\<lparr>ws_accumulators := hm_insert k acc (ws_accumulators ws)\<rparr>) h = (if h = k then acc else accumulator_of ws h)"
  by (simp add: accumulator_of_def)

lemma reset_create [simp]: "reset_accumulator create_accumulator = create_accumulator"
  by (simp add: reset_accumulator_def create_accumulator_def)

lemma accumulator_of_reset: "accumulator_of (reset_accumulators ws) h = reset_accumulator (accumulator_of ws h)"
  by (simp add: accumulator_of_def reset_accumulators_def map_of_map comp_def split: option.splits)

lemma accumulator_of_cong: "ws_accumulators ws = ws_accumulators ws' \<Longrightarrow> accumulator_of ws h = accumulator_of ws' h"
  by (simp add: accumulator_of_def)

lemma refresh_state_simps [simp]:
  "ws_accumulators (refresh_state io ws) = ws_accumulators ws" "ws_queue (refresh_state io ws) = ws_queue ws"
  "ws_session_ref (refresh_state io ws) = ws_session_ref ws" "ws_pending_interrogatives (refresh_state io ws) = ws_pending_interrogatives ws"
  by (simp_all add: refresh_state_def split: option.splits)

lemma execute_effect_acc:
  "ef \<noteq> Ef_Reseed \<Longrightarrow> ws_accumulators (fst (execute_effect io ws ef)) = ws_accumulators ws"
  by (cases ef) (simp_all add: execute_effect_def Let_def)

lemma execute_effects_acc:
  "Ef_Reseed \<notin> set efs \<Longrightarrow> ws_accumulators (fst (execute_effects io ws efs)) = ws_accumulators ws"
proof (induction efs arbitrary: io ws)
  case (Cons ef efs)
  then show ?case using execute_effect_acc [of ef "io 0" ws] by (auto simp: split: prod.splits) (metis fst_conv)+
qed simp

lemma execute_reseed_acc: "accumulator_of (fst (execute_reseed io ws)) h = reset_accumulator (accumulator_of ws h)"
proof -
  have "ws_accumulators (fst (execute_reseed io ws)) = ws_accumulators (reset_accumulators ws)"
    by (simp add: execute_reseed_def Let_def reset_accumulators_def split: option.splits)
  then show ?thesis using accumulator_of_reset accumulator_of_cong by metis
qed

lemma patch_title_simps [simp]:
  "ws_accumulators (patch_title ev ws) = ws_accumulators ws" "ws_queue (patch_title ev ws) = ws_queue ws"
  by (simp_all add: patch_title_def split: DaemonEvent.splits)

lemma handle_acc:
  assumes "handle_sse_event jl io ws ev = Some (ws', es)"
  shows "accumulator_of ws' h = stream_step jl h (accumulator_of ws h) ev"
proof -
  let ?ws1 = "patch_title ev ws" and ?key = "subagent_handle ev"
  obtain acc evs efs where m: "map_daemon_event jl ev (accumulator_of ?ws1 ?key) (driver_ctx (io_clock (io 0)) ?ws1) = Some (acc, evs, efs)"
    and ws': "ws' = fst (execute_effects (\<lambda>n. io (Suc n)) (?ws1\<lparr>ws_accumulators := hm_insert ?key acc (ws_accumulators ?ws1)\<rparr>) efs)"
    using assms by (auto simp: handle_sse_event_def Let_def split: option.splits prod.splits)
  have same: "accumulator_of ?ws1 k = accumulator_of ws k" for k by (rule accumulator_of_cong) simp
  have upd: "accumulator_of (?ws1\<lparr>ws_accumulators := hm_insert ?key acc (ws_accumulators ?ws1)\<rparr>) h
      = (if ?key = h then next_acc jl ev (accumulator_of ws h) else accumulator_of ws h)"
    using next_acc_eq [OF m] unfolding accumulator_of_insert same by auto
  show ?thesis
  proof (cases "reseeds ev")
    case True
    then have "efs = [Ef_Reseed]" using map_effects_reseed [OF m] by simp
    then have "accumulator_of ws' h = reset_accumulator (accumulator_of (?ws1\<lparr>ws_accumulators := hm_insert ?key acc (ws_accumulators ?ws1)\<rparr>) h)"
      using execute_reseed_acc ws' by (simp add: execute_effect_def split: prod.splits)
    then show ?thesis using True unfolding upd by (simp add: stream_step_def)
  next
    case False
    then have "Ef_Reseed \<notin> set efs" using map_effects_reseed [OF m] by simp
    then have "accumulator_of ws' h = accumulator_of (?ws1\<lparr>ws_accumulators := hm_insert ?key acc (ws_accumulators ?ws1)\<rparr>) h"
      unfolding ws' by (intro accumulator_of_cong execute_effects_acc)
    then show ?thesis using False unfolding upd by (simp add: stream_step_def)
  qed
qed

lemma consume_acc:
  "consume jl ws evs = Some (ws', es) \<Longrightarrow> accumulator_of ws' h = foldl (stream_step jl h) (accumulator_of ws h) (map fst evs)"
proof (induction evs arbitrary: ws es)
  case (Cons e evs)
  obtain ev io where e: "e = (ev, io)" by (cases e)
  then obtain ws1 es1 es2 where "handle_sse_event jl io ws ev = Some (ws1, es1)" "consume jl ws1 evs = Some (ws', es2)"
    using Cons.prems by (auto split: option.splits)
  then show ?case using Cons.IH handle_acc e by fastforce
qed simp

section \<open>The shown queue\<close>

text \<open>Events that leave the queue of the folded session state alone.\<close>

definition queue_neutral :: "SessionDriverEvent \<Rightarrow> bool" where
  "queue_neutral ev = (case ev of
     E_QueueUpdated _ _ \<Rightarrow> False
   | E_QueuedMessageStarted _ _ \<Rightarrow> False
   | E_SessionOpened _ _ \<Rightarrow> False
   | E_SessionUpdated _ sn \<Rightarrow> sn_queued_messages sn = None
   | E_RunCompleted _ sn _ _ \<Rightarrow> sn_queued_messages sn = None
   | _ \<Rightarrow> True)"

lemma fold_neutral: "queue_neutral ev \<Longrightarrow> ss_queued (fold_event st ev) = ss_queued st"
proof (cases ev)
  case (E_HostUiRequest b r)
  then show ?thesis by (cases r) (simp_all add: fold_request_def push_item_def Let_def)
qed (auto simp: queue_neutral_def fold_snapshot_def settle_run_def push_item_def Let_def or_keep_def split: option.splits)

lemma fold_neutral_all: "list_all queue_neutral evs \<Longrightarrow> ss_queued (fold_all_from st evs) = ss_queued st"
  by (induction evs arbitrary: st) (simp_all add: fold_neutral del: fold_event.simps)

lemma neutral_set_base: "queue_neutral (set_base b ev) = queue_neutral ev"
  by (cases ev) (simp_all add: queue_neutral_def)

lemma neutral_history_parts:
  "list_all queue_neutral (history_block base p b)" "list_all queue_neutral (fst (history_user base seq item))"
  "queue_neutral (history_finished base item)" "queue_neutral (history_reminder base i item)"
  "list_all queue_neutral (fst (history_compaction base i seq item))"
  "queue_neutral (E_SessionUpdated base (history_snapshot ref ts config facet))"
  by (simp_all add: history_block_def history_user_def history_finished_def history_reminder_def
      history_compaction_def history_snapshot_def queue_neutral_def Let_def split: option.splits prod.splits)

lemma neutral_blocks: "list_all queue_neutral (concat (map (history_block base p) blocks))"
  by (induction blocks) (simp_all add: neutral_history_parts)

lemma neutral_custom: "queue_neutral (E_CustomMessage base a b c d e)"
  by (simp add: queue_neutral_def)

lemma neutral_history_item: "list_all queue_neutral (fst (history_item ref i seq item))"
  unfolding history_item_def Let_def
  by (simp add: neutral_history_parts neutral_blocks neutral_custom split: option.split)

lemma neutral_history_items: "list_all queue_neutral (history_items ref i seq items)"
proof (induction ref i seq items rule: history_items.induct)
  case (2 ref i seq item items)
  then show ?case using neutral_history_item [of ref i seq item] by (auto split: prod.splits)
qed simp

lemma neutral_history: "list_all queue_neutral (history_to_seed_events items ref)"
  using neutral_history_items by (auto simp: history_to_seed_events_def Let_def queue_neutral_def list_all_iff)

lemma driver_snapshot_queue [simp]: "sn_queued_messages (driver_snapshot now ws st) = None"
  by (simp add: driver_snapshot_def snapshot_from_state_def)

lemma neutral_reseed: "list_all queue_neutral (build_reseed_events clock (driver_snapshot now ws st) items ref)"
  using neutral_history by (simp add: build_reseed_events_def queue_neutral_def)

definition queue_effect :: "DaemonEffect \<Rightarrow> bool" where
  "queue_effect ef = (case ef of Ef_QueueAdd _ _ \<Rightarrow> True | Ef_QueueRemove _ \<Rightarrow> True | Ef_Reseed \<Rightarrow> True | _ \<Rightarrow> False)"

text \<open>Only the arms for drained, discarded, queued and dequeued input and the reseeding arms concern the queue.\<close>

lemma interrogative_neutral:
  "build_interrogative_mapping jl i t q options plan goal rule tc base = Some (ev, pending) \<Longrightarrow> queue_neutral ev"
  by (cases t) (auto simp: build_interrogative_mapping_def build_permission_request_def host_ui_def queue_neutral_def Let_def
      split: option.splits if_splits)

lemma inner_queue:
  assumes "map_daemon_event_inner ev jl acc ctx = Some (acc', es, fs)" "\<And>st. sn_queued_messages (mc_snapshot ctx st) = None"
  shows "(\<exists>ef. fs = [ef] \<and> queue_effect ef) \<or> list_all queue_neutral es \<and> list_all (Not \<circ> queue_effect) fs"
proof (cases ev)
  case (D_Interrogative options ext goal i t rule tc plan p q h)
  then show ?thesis using assms(1) interrogative_neutral
    by (fastforce simp: map_interrogative_def queue_effect_def split: prod.splits)
qed (use assms in \<open>auto simp: arm_defs Let_def finalize_opaque_block_def fetch_updated_def queue_effect_def queue_neutral_def
    notify_def notice_def thinking_delta_def live_update_def build_ask_user_question_mapping_def host_ui_def
    split: if_splits option.splits prod.splits BlockDeltaPayload.splits\<close>)

lemma map_queue:
  assumes "map_daemon_event jl ev acc ctx = Some (acc', es, fs)" "\<And>st. sn_queued_messages (mc_snapshot ctx st) = None"
  shows "(\<exists>ef. fs = [ef] \<and> queue_effect ef) \<or> list_all queue_neutral es \<and> list_all (Not \<circ> queue_effect) fs"
proof -
  have "list_all queue_neutral (annotate_subagent_handle h xs) = list_all queue_neutral xs" for h xs
    by (simp add: annotate_subagent_handle_def list.pred_map comp_def neutral_set_base split: option.splits)
  moreover obtain a where "map_daemon_event_inner ev jl acc ctx = Some (acc', a, fs)" "es = annotate_subagent_handle (subagent_handle ev) a"
    using assms(1) by (auto simp: map_daemon_event_eq)
  ultimately show ?thesis using inner_queue [OF _ assms(2), of ev jl acc acc' a fs] by simp
qed

lemma execute_queue_effect:
  "queue_effect ef \<Longrightarrow> ss_queued (fold_all_from st (snd (execute_effect io ws ef))) = ws_queue (fst (execute_effect io ws ef))"
  by (cases ef) (auto simp: queue_effect_def execute_effect_def Let_def emit_queue_updated_def execute_reseed_def
      reset_accumulators_def fold_neutral_all neutral_reseed split: option.splits)

lemma execute_other_effect:
  "\<not> queue_effect ef \<Longrightarrow> list_all queue_neutral (snd (execute_effect io ws ef)) \<and> ws_queue (fst (execute_effect io ws ef)) = ws_queue ws"
  by (cases ef) (auto simp: queue_effect_def execute_effect_def Let_def build_post_fetch_event_def queue_neutral_def driver_ctx_def
      split: FetchEmit.splits)

lemma execute_other_effects:
  "list_all (Not \<circ> queue_effect) efs \<Longrightarrow>
     list_all queue_neutral (snd (execute_effects io ws efs)) \<and> ws_queue (fst (execute_effects io ws efs)) = ws_queue ws"
proof (induction efs arbitrary: io ws)
  case (Cons ef efs)
  then show ?case using execute_other_effect [of ef "io 0" ws] by (auto split: prod.splits) (metis fst_conv snd_conv)+
qed simp

lemma handle_queue:
  assumes "handle_sse_event jl io ws ev = Some (ws', es)" "ss_queued st = ws_queue ws"
  shows "ss_queued (fold_all_from st es) = ws_queue ws'"
proof -
  let ?ws1 = "patch_title ev ws" and ?key = "subagent_handle ev"
  let ?ctx = "driver_ctx (io_clock (io 0)) ?ws1"
  obtain acc evs efs where m: "map_daemon_event jl ev (accumulator_of ?ws1 ?key) ?ctx = Some (acc, evs, efs)"
    and ws': "ws' = fst (execute_effects (\<lambda>n. io (Suc n)) (?ws1\<lparr>ws_accumulators := hm_insert ?key acc (ws_accumulators ?ws1)\<rparr>) efs)"
    and es: "es = evs @ snd (execute_effects (\<lambda>n. io (Suc n)) (?ws1\<lparr>ws_accumulators := hm_insert ?key acc (ws_accumulators ?ws1)\<rparr>) efs)"
    using assms(1) by (auto simp: handle_sse_event_def Let_def split: option.splits prod.splits)
  have "sn_queued_messages (mc_snapshot ?ctx st) = None" for st by (simp add: driver_ctx_def)
  from map_queue [OF m this] show ?thesis
  proof
    assume "\<exists>ef. efs = [ef] \<and> queue_effect ef"
    then obtain ef where ef: "efs = [ef]" "queue_effect ef" by blast
    show ?thesis unfolding ws' es ef(1) fold_all_from_append
      using execute_queue_effect [OF ef(2)] by (simp add: case_prod_beta')
  next
    assume "list_all queue_neutral evs \<and> list_all (Not \<circ> queue_effect) efs"
    then have *: "list_all queue_neutral es \<and> ws_queue ws' = ws_queue ws" using execute_other_effects unfolding ws' es by simp
    then show ?thesis using assms(2) fold_neutral_all by metis
  qed
qed

lemma consume_queue:
  "consume jl ws evs = Some (ws', es) \<Longrightarrow> ss_queued st = ws_queue ws \<Longrightarrow> ss_queued (fold_all_from st es) = ws_queue ws'"
proof (induction evs arbitrary: ws es st)
  case (Cons e evs)
  obtain ev io where e: "e = (ev, io)" by (cases e)
  then obtain ws1 es1 es2 where h: "handle_sse_event jl io ws ev = Some (ws1, es1)" and c: "consume jl ws1 evs = Some (ws', es2)"
    and es: "es = es1 @ es2"
    using Cons.prems by (auto split: option.splits)
  show ?case unfolding es fold_all_from_append by (rule Cons.IH [OF c handle_queue [OF h Cons.prems(2)]])
qed simp

section \<open>Polling, clearing and finishing\<close>

datatype UsageOp = Uo_Get nat | Uo_Done DaemonIo

fun usage_run :: "UsageOp list \<Rightarrow> WarmSession \<Rightarrow> nat list" where
  "usage_run [] ws = []"
| "usage_run (Uo_Get now # ops) ws =
     (case get_usage now ws of (ws1, _, start) \<Rightarrow> (if start then [now] else []) @ usage_run ops ws1)"
| "usage_run (Uo_Done io # ops) ws = usage_run ops (finish_usage_poll io ws)"

lemma delete_newest_spec:
  "delete_newest del k restored ts = (deleted, e) \<Longrightarrow>
     \<exists>n \<le> length ts. deleted = restored @ take n ts \<and> (e = None \<longleftrightarrow> n = length ts)
       \<and> (e = None \<longleftrightarrow> (\<forall>j < length ts. del (k + j) = None))"
proof (induction del k restored ts rule: delete_newest.induct)
  case (2 del k restored t ts)
  show ?case
  proof (cases "del k")
    case None
    then obtain n where n: "n \<le> length ts" "deleted = (restored @ [t]) @ take n ts" "e = None \<longleftrightarrow> n = length ts"
      "e = None \<longleftrightarrow> (\<forall>j < length ts. del (Suc k + j) = None)"
      using 2 by auto
    have "(\<forall>j < length (t # ts). del (k + j) = None) \<longleftrightarrow> (\<forall>j < length ts. del (Suc k + j) = None)"
      using None by (auto simp: less_Suc_eq_0_disj)
    then show ?thesis using n by (intro exI [of _ "Suc n"]) simp
  next
    case (Some err)
    then have "deleted = restored" "e = Some err" using 2(2) by simp_all
    moreover have "\<not> (\<forall>j < length (t # ts). del (k + j) = None)" using Some by (intro notI) (drule spec [of _ 0], simp)
    ultimately show ?thesis by (intro exI [of _ 0]) simp
  qed
qed auto

lemma recovered_texts [simp]: "map qm_text (recovered clock n ts) = ts"
  by (induction clock n ts rule: recovered.induct) simp_all

lemma recovered_ids: "m \<in> set (recovered clock n ts) \<Longrightarrow> starts_with (qm_id m) ''recovered-''"
  by (induction clock n ts rule: recovered.induct) auto

definition not_running :: "TranscriptItem \<Rightarrow> bool" where
  "not_running it = (case it of T_Tool t \<Rightarrow> ti_status t \<noteq> Ts_Running | _ \<Rightarrow> True)"

lemma running_ids_empty: "running_ids items = {} \<longleftrightarrow> (\<forall>it \<in> set items. not_running it)"
  by (auto simp: running_ids_def not_running_def split: TranscriptItem.splits)

lemma stamp_not_running: "stamp_entry_id k e it = Some it' \<Longrightarrow> not_running it'"
  by (induction k e it rule: stamp_entry_id.induct) (auto simp: not_running_def)

lemma running_ids_stamp: "running_ids items = {} \<Longrightarrow> running_ids (stamp_last_entry_id items k e) = {}"
  unfolding running_ids_empty stamp_last_entry_id_def by (intro update_last_pred) (auto dest: stamp_not_running)

lemma fold_run_completed:
  "ss_status (fold_event st (E_RunCompleted b sn u a)) = sn_status sn
   \<and> running_ids (ss_items (fold_event st (E_RunCompleted b sn u a))) = {}"
  by (cases u; cases a) (simp_all add: settle_run_def fold_snapshot_def Let_def running_ids_stamp)

lemma handle_message_complete:
  assumes acc: "fa_expected_prompt_id (accumulator_of ws h) \<in> {None, Some p}"
    and handle: "handle_sse_event jl io ws (D_MessageComplete alert p h) = Some (ws', es)"
  shows "\<exists>es0. es = es0 @ [E_RunCompleted (meta (driver_ctx (io_clock (io 1)) ws'))
      (driver_snapshot (io_clock (io 1) 1) ws' St_Idle) (Some p) (Some p)]
    \<and> ws_last_state ws' = (case io_state (io 1) of Some st \<Rightarrow> Some st | None \<Rightarrow> ws_last_state ws)
    \<and> ws_session_ref ws' = ws_session_ref ws"
proof -
  let ?acc = "accumulator_of ws h" and ?ctx = "driver_ctx (io_clock (io 0)) ws"
  have "\<exists>acc' evs. map_daemon_event jl (D_MessageComplete alert p h) ?acc ?ctx
      = Some (acc', evs, [Ef_FetchState Fe_RunCompleted (Some p)])"
    using acc by (auto simp: map_daemon_event_eq map_message_complete_def fold_result_def Let_def split: prod.splits option.splits)
  then obtain acc' evs where m: "map_daemon_event jl (D_MessageComplete alert p h) ?acc ?ctx
      = Some (acc', evs, [Ef_FetchState Fe_RunCompleted (Some p)])" by blast
  have "patch_title (D_MessageComplete alert p h) ws = ws" "subagent_handle (D_MessageComplete alert p h) = h"
    by (simp_all add: patch_title_def)
  then show ?thesis using handle m
    by (auto simp: handle_sse_event_def execute_effect_def build_post_fetch_event_def Let_def driver_ctx_def refresh_state_def
        split: option.splits)
qed

lemma stream_step_other: "subagent_handle ev \<noteq> h \<Longrightarrow> \<not> reseeds ev \<Longrightarrow> stream_step jl h acc ev = acc"
  by (simp add: stream_step_def)

lemma stream_filter:
  "foldl (stream_step jl h) acc evs = foldl (stream_step jl h) acc (filter (\<lambda>ev. subagent_handle ev = h \<or> reseeds ev) evs)"
  by (induction evs arbitrary: acc) (auto simp: stream_step_other)

section \<open>Properties\<close>

text \<open>A session as \<^verbatim>\<open>install_warm\<close> leaves it, and answers that are all absent.\<close>

definition sample_session :: WarmSession where
  "sample_session = \<lparr>ws_session_id = ''s'', ws_accumulators = [(None, create_accumulator)], ws_last_state = None,
     ws_session_ref = sample_ref, ws_workspace = \<lparr>wr_workspace_id = ''w'', wr_path = ''/p'', wr_display_name = None\<rparr>,
     ws_pending_interrogatives = [], ws_monitor_mode = None, ws_autodrain_enabled = None, ws_queue = [],
     ws_usage_polled_at = 0, ws_usage_poll_in_flight = False\<rparr>"

definition silent_io :: DaemonIo where
  "silent_io = \<lparr>io_state = None, io_history = None, io_clock = (\<lambda>_. ''t'')\<rparr>"

text \<open>
  Property C17. Streams do not interfere. However the events of the top-level agent and of its subagents are
  interleaved, the accumulator of each stream is the one it would have if only its own events had arrived
  (and the reseeding events, which reset every stream): no block, tool input, expected prompt or turn error
  of one stream reaches another.
\<close>

theorem streams_do_not_interfere:
  assumes "consume jl ws evs = Some (ws', es)"
  shows "accumulator_of ws' h = foldl (stream_step jl h) (accumulator_of ws h)
    (filter (\<lambda>ev. subagent_handle ev = h \<or> reseeds ev) (map fst evs))"
  using consume_acc [OF assms] by (simp add: stream_filter [symmetric])

theorem streams_do_not_interfere_witness:
  "\<exists>ws' es. consume sample_json sample_session [(D_MessageStart ''p'' None, \<lambda>_. silent_io), (D_MessageStart ''q'' (Some ''a''), \<lambda>_. silent_io)]
      = Some (ws', es)
    \<and> fa_expected_prompt_id (accumulator_of ws' None) = Some ''p''"
proof -
  let ?evs = "[(D_MessageStart ''p'' None, \<lambda>_. silent_io), (D_MessageStart ''q'' (Some ''a''), \<lambda>_. silent_io)]"
  have "\<exists>r. consume sample_json sample_session ?evs = Some r"
    by (simp add: handle_sse_event_def map_daemon_event_eq map_message_start_def fold_result_def Let_def split: prod.splits)
  then obtain ws' es where c: "consume sample_json sample_session ?evs = Some (ws', es)" by auto
  have "accumulator_of ws' None = stream_step sample_json None (accumulator_of sample_session None) (D_MessageStart ''p'' None)"
    using streams_do_not_interfere [OF c, of None] by (simp add: reseeds_def)
  also have "fa_expected_prompt_id \<dots> = Some ''p''"
    by (simp add: stream_step_def reseeds_def next_acc_def map_daemon_event_eq map_message_start_def fold_result_def Let_def
        accumulator_of_def sample_session_def finalize_opaque_block_def create_accumulator_def)
  finally show ?thesis using c by blast
qed

text \<open>
  Property C18. The queue a client shows is the driver's queue. Along any sequence of server-sent events, with any
  answers of the daemon in between, a client that folds the emitted events and started with the driver's
  queue still has exactly the driver's queue.
\<close>

theorem shown_queue_in_sync:
  assumes "consume jl ws evs = Some (ws', es)" "ss_queued st = ws_queue ws"
  shows "ss_queued (fold_all_from st es) = ws_queue ws'"
  by (rule consume_queue [OF assms])

theorem shown_queue_in_sync_witness:
  "\<exists>ws' es. consume sample_json sample_session [(D_PendingTurnInputQueued ''p'' ''x'' ''i1'' 1 None, \<lambda>_. silent_io)] = Some (ws', es)
    \<and> ss_queued (fold_all_from initial_session_state es) = ws_queue ws' \<and> map qm_id (ws_queue ws') = [''i1'']"
proof -
  let ?evs = "[(D_PendingTurnInputQueued ''p'' ''x'' ''i1'' 1 None, \<lambda>_. silent_io)]"
  have "\<exists>ws' es. consume sample_json sample_session ?evs = Some (ws', es) \<and> map qm_id (ws_queue ws') = [''i1'']"
    by (simp add: handle_sse_event_def patch_title_def map_daemon_event_eq fold_result_def Let_def execute_effect_def sample_session_def)
  then obtain ws' es where c: "consume sample_json sample_session ?evs = Some (ws', es)" "map qm_id (ws_queue ws') = [''i1'']"
    by (elim exE conjE) (rule that)
  moreover have "ss_queued (fold_all_from initial_session_state es) = ws_queue ws'"
    by (rule shown_queue_in_sync [OF c(1)]) (simp add: initial_session_state_def sample_session_def)
  ultimately show ?thesis by (intro exI conjI)
qed

text \<open>
  The end of a subagent's message ends the parent's turn. Whatever stream a \<^verbatim>\<open>message_complete\<close> belongs to, the
  driver emits an untagged \<^verbatim>\<open>runCompleted\<close> with the status idle, even when the state it has just fetched says
  that a turn is in flight; a client then shows the session idle and every tool that was still running, the
  parent's included, as no longer running.
\<close>

theorem subagent_completion_ends_parent:
  assumes "fa_expected_prompt_id (accumulator_of ws (Some h)) \<in> {None, Some p}"
    and "handle_sse_event jl io ws (D_MessageComplete alert p (Some h)) = Some (ws', es)"
  shows "(\<exists>sn. last es = E_RunCompleted (driver_base (io_clock (io 1) 0) ws) sn (Some p) (Some p))
    \<and> ss_status (fold_all_from st es) = St_Idle \<and> running_ids (ss_items (fold_all_from st es)) = {}"
proof -
  obtain es0 b where es: "es = es0 @ [E_RunCompleted b (driver_snapshot (io_clock (io 1) 1) ws' St_Idle) (Some p) (Some p)]"
    and b: "b = meta (driver_ctx (io_clock (io 1)) ws')" and ref: "ws_session_ref ws' = ws_session_ref ws"
    using handle_message_complete [OF assms] by blast
  then have "b = driver_base (io_clock (io 1) 0) ws" by (simp add: b meta_def driver_ctx_def driver_base_def)
  then show ?thesis unfolding es fold_all_from_append
    using fold_run_completed by (simp del: fold_event.simps add: driver_snapshot_def snapshot_from_state_def)
qed

text \<open>A parent whose tool call is running while its subagent \<open>a\<close> finishes a message; the fetched state has a turn in flight.\<close>

definition busy_state :: SessionStateSnapshot where
  "busy_state = \<lparr>sss_active_facet = ''f'', sss_active_model = None, sss_active_plan = None, sss_active_reasoning_effort = None,
     sss_adventurous_handoff_active = None, sss_available_skills = None, sss_available_subagents = None,
     sss_context_usage = None, sss_current_goal = None, sss_cwd = None, sss_cwd_stack_depth = None, sss_flags = [],
     sss_mcp_servers = None, sss_pending_interrogatives = None, sss_project_cwd = None, sss_session_title = None,
     sss_todos = [], sss_turn_in_flight = Some True\<rparr>"

theorem subagent_completion_ends_parent_witness:
  "\<exists>ws' es. handle_sse_event sample_json (\<lambda>_. silent_io\<lparr>io_state := Some busy_state\<rparr>) sample_session
       (D_MessageComplete None ''p'' (Some ''a'')) = Some (ws', es)
    \<and> in_flight ws'
    \<and> running_ids (ss_items (fold_event initial_session_state (E_ToolStarted (driver_base ''t'' sample_session) ''task'' ''c1'' None None None))) = {''c1''}
    \<and> ss_status (fold_all_from (fold_event initial_session_state
          (E_ToolStarted (driver_base ''t'' sample_session) ''task'' ''c1'' None None None)) es) = St_Idle
    \<and> running_ids (ss_items (fold_all_from (fold_event initial_session_state
          (E_ToolStarted (driver_base ''t'' sample_session) ''task'' ''c1'' None None None)) es)) = {}"
proof -
  let ?io = "\<lambda>_. silent_io\<lparr>io_state := Some busy_state\<rparr>" and ?ev = "D_MessageComplete None ''p'' (Some ''a'')"
  let ?st = "fold_event initial_session_state (E_ToolStarted (driver_base ''t'' sample_session) ''task'' ''c1'' None None None)"
  have acc: "fa_expected_prompt_id (accumulator_of sample_session (Some ''a'')) \<in> {None, Some ''p''}"
    by (simp add: accumulator_of_def sample_session_def create_accumulator_def)
  have "\<exists>r. handle_sse_event sample_json ?io sample_session ?ev = Some r"
    by (auto simp: handle_sse_event_def map_daemon_event_eq map_message_complete_def fold_result_def Let_def split: prod.splits option.splits)
  then obtain ws' es where h: "handle_sse_event sample_json ?io sample_session ?ev = Some (ws', es)" by auto
  have "in_flight ws'" using handle_message_complete [OF acc h] by (simp add: in_flight_def silent_io_def busy_state_def)
  moreover have "running_ids (ss_items ?st) = {''c1''}" by (simp add: push_item_def initial_session_state_def close_open_assistant_def open_assistant_def)
  moreover have "ss_status (fold_all_from ?st es) = St_Idle" "running_ids (ss_items (fold_all_from ?st es)) = {}"
    using subagent_completion_ends_parent [OF acc h, of ?st] by blast+
  ultimately show ?thesis using h by (intro exI conjI)
qed

text \<open>
  Clearing the queue neither loses nor duplicates a text: what is handed back to the composer follows what
  stays queued, and together they are the queue as it was. It succeeds exactly when every deletion did,
  and then the queue is empty.
\<close>

theorem clear_queue_partition:
  assumes "clear_queue del clock ws = (ws', es, r)"
  shows "map qm_text (ws_queue ws') @ handed_back r = map qm_text (ws_queue ws)
    \<and> ((\<forall>k < length (ws_queue ws). del k = None) \<longleftrightarrow> (\<exists>q. r = Inr q)) \<and> ((\<exists>q. r = Inr q) \<longrightarrow> ws_queue ws' = [])"
proof -
  let ?texts = "map qm_text (ws_queue ws)"
  obtain deleted e where d: "delete_newest del 0 [] (rev ?texts) = (deleted, e)" by fastforce
  from delete_newest_spec [OF this] obtain n where n: "n \<le> length ?texts" "deleted = take n (rev ?texts)"
    "e = None \<longleftrightarrow> n = length ?texts" "e = None \<longleftrightarrow> (\<forall>j < length (ws_queue ws). del j = None)"
    by auto
  have restored: "rev deleted = drop (length ?texts - n) ?texts" unfolding n(2) by (simp add: take_rev)
  show ?thesis
  proof (cases e)
    case None
    then show ?thesis using assms d n restored by (auto simp: clear_queue_def handed_back_def Let_def)
  next
    case (Some err)
    have "length deleted = n" using n(1,2) by simp
    then show ?thesis using assms d n(3,4) restored Some append_take_drop_id [of "length ?texts - n" ?texts]
      by (auto simp: clear_queue_def handed_back_def Let_def)
  qed
qed

theorem clear_queue_partition_witness:
  "\<exists>ws' es r. clear_queue (\<lambda>k. if k = 1 then Some ''503'' else None) (\<lambda>_. ''t'')
      (sample_session\<lparr>ws_queue := [queue_message_from_item \<lparr>pi_admission_prompt_id = ''p'', pi_content = ''a'', pi_id = ''i1''\<rparr> ''t'',
         queue_message_from_item \<lparr>pi_admission_prompt_id = ''p'', pi_content = ''b'', pi_id = ''i2''\<rparr> ''t'']\<rparr>) = (ws', es, r)
    \<and> map qm_text (ws_queue ws') @ handed_back r = [''a'', ''b'']"
proof -
  let ?ws = "sample_session\<lparr>ws_queue := [queue_message_from_item \<lparr>pi_admission_prompt_id = ''p'', pi_content = ''a'', pi_id = ''i1''\<rparr> ''t'',
         queue_message_from_item \<lparr>pi_admission_prompt_id = ''p'', pi_content = ''b'', pi_id = ''i2''\<rparr> ''t'']\<rparr>"
  obtain ws' es r where c: "clear_queue (\<lambda>k. if k = 1 then Some ''503'' else None) (\<lambda>_. ''t'') ?ws = (ws', es, r)"
    by (metis prod_cases3)
  show ?thesis using clear_queue_partition [OF c] c by (simp add: queue_message_from_item_def)
qed

text \<open>
  After a clear that the daemon refused part of, the texts that stay queued carry made-up ids. The daemon's
  later events name the items by the ids it gave them, so they never remove these entries: the tray keeps
  showing texts that have long been sent, until a reseed.
\<close>

theorem recovered_items_stay:
  assumes "clear_queue del clock ws = (ws', es, Inl err)" "list_all (\<lambda>i. \<not> starts_with i ''recovered-'') item_ids"
  shows "ws_queue (fst (execute_effect io ws' (Ef_QueueRemove item_ids))) = ws_queue ws'"
proof -
  have "starts_with (qm_id m) ''recovered-''" if "m \<in> set (ws_queue ws')" for m
    using that assms(1) recovered_ids by (auto simp: clear_queue_def Let_def split: prod.splits option.splits)
  then have "filter (\<lambda>m. qm_id m \<notin> set item_ids) (ws_queue ws') = ws_queue ws'"
    using assms(2) by (auto simp: filter_id_conv list_all_iff)
  then show ?thesis by (simp add: execute_effect_def Let_def)
qed

theorem recovered_items_stay_witness:
  "map qm_text (ws_queue (fst (execute_effect silent_io (fst (clear_queue (\<lambda>_. Some ''503'') (\<lambda>_. ''t'')
      (sample_session\<lparr>ws_queue := [queue_message_from_item \<lparr>pi_admission_prompt_id = ''p'', pi_content = ''a'', pi_id = ''i1''\<rparr> ''t'']\<rparr>)))
      (Ef_QueueRemove [''i1''])))) = [''a'']"
proof -
  let ?ws = "sample_session\<lparr>ws_queue := [queue_message_from_item \<lparr>pi_admission_prompt_id = ''p'', pi_content = ''a'', pi_id = ''i1''\<rparr> ''t'']\<rparr>"
  obtain ws' es r where c: "clear_queue (\<lambda>_. Some ''503'') (\<lambda>_. ''t'') ?ws = (ws', es, r)" by (metis prod_cases3)
  moreover from c obtain err where r: "r = Inl err" and t: "map qm_text (ws_queue ws') = [''a'']"
    by (auto simp: clear_queue_def Let_def queue_message_from_item_def)
  ultimately show ?thesis using recovered_items_stay [of _ _ ?ws ws' es err "[''i1'']" silent_io] by simp
qed

text \<open>
  An answer that does not fit its question closes the card, forgets the question and posts nothing, so
  the daemon keeps waiting and no later answer can reach it.
\<close>

theorem unmatched_answer_forgets:
  assumes "hm_get (ws_pending_interrogatives ws) (response_request_id response) = Some pending"
    and "build_interrogative_response pending response = None"
    and "respond_ui now response ws = (ws', es, post)"
    and "response_request_id response' = response_request_id response"
  shows "post = None \<and> es = [E_HostUiResolved (driver_base now ws) (response_request_id response)]
    \<and> snd (snd (respond_ui now' response' ws')) = None"
  using assms by (auto simp: respond_ui_def Let_def)

theorem unmatched_answer_forgets_witness:
  "\<exists>ws' es post. respond_ui ''t'' (R_Confirmed ''q'' True)
      (sample_session\<lparr>ws_pending_interrogatives := [(''q'', blank_pending ''q'' Pi_Clarification)]\<rparr>) = (ws', es, post)
    \<and> post = None \<and> snd (snd (respond_ui ''t'' (R_Cancelled ''q'' True) ws')) = None"
proof -
  let ?ws = "sample_session\<lparr>ws_pending_interrogatives := [(''q'', blank_pending ''q'' Pi_Clarification)]\<rparr>"
  obtain ws' es post where r: "respond_ui ''t'' (R_Confirmed ''q'' True) ?ws = (ws', es, post)" by (metis prod_cases3)
  have "build_interrogative_response (blank_pending ''q'' Pi_Clarification) (R_Confirmed ''q'' True) = None"
    by (simp add: build_interrogative_response_def answer_clarification_def blank_pending_def)
  then show ?thesis using unmatched_answer_forgets [OF _ _ r, of "blank_pending ''q'' Pi_Clarification" "R_Cancelled ''q'' True" "''t''"] r by simp
qed

text \<open>
  The usage poll is throttled: however often the usage is asked for and whenever the polls finish,
  two polls of a session start at least three seconds apart, and the first at least three seconds after the
  session was warmed.
\<close>

theorem usage_polls_spaced:
  "successively (\<lambda>a b. a + USAGE_POLL_MS \<le> b) (ws_usage_polled_at ws # usage_run ops ws)"
proof (induction ops ws rule: usage_run.induct)
  case (2 now ops ws)
  then show ?case by (auto simp: get_usage_def Let_def USAGE_POLL_MS_def split: if_splits)
next
  case (3 io ops ws)
  then show ?case by (simp add: finish_usage_poll_def refresh_state_def split: option.splits)
qed simp

end
