(* ===== verification/Polytoken_Driver.thy ===== *)
theory Polytoken_Driver
  imports Warm_Session Models Lifecycle Session_Lists Layout
begin

text \<open>
  The driver's pool of warm sessions (\<^verbatim>\<open>server/pantoken-server/src/polytoken/driver.rs\<close>, \<^verbatim>\<open>PolytokenInner\<close>
  and the trait methods of \<^verbatim>\<open>PolytokenDriver\<close>): which sessions are warm, in which order they were focused, what the
  lifecycle store says of them, and the operations that open, prompt, configure, detach and destroy them. What
  the daemon, the file system and the clock answer are arguments. An operation that suspends between
  reading and writing the shared state is split there into a \<open>_begin\<close> and a \<open>_finish\<close> part, so that other
  operations can be placed in between; each part runs under the locks the code takes.
\<close>

section \<open>State\<close>

record PolytokenInner =
  pd_sessions_dir :: path
  pd_warm_cap :: i64
  pd_is_fake :: bool
  pd_has_fake_control :: bool
  pd_archive_store :: ArchiveStore
  pd_lifecycle :: LifecycleStore
  pd_lifecycle_disk :: disk_file
  pd_order :: "SessionId list"
  pd_warm :: "(SessionId, WarmSession) hashmap"

text \<open>The JSON package and the file-system outcomes a lifecycle update meets.\<close>

record LifecycleIo =
  li_codec :: "(string, LifecycleState) hashmap codec"
  li_outcome :: PersistOutcome

definition set_state :: "LifecycleIo \<Rightarrow> SessionId \<Rightarrow> LifecycleState \<Rightarrow> PolytokenInner \<Rightarrow> PolytokenInner \<times> (string + unit)" where
  "set_state li sid st d =
     (let (store, disk, r) = set_lifecycle (li_codec li) (li_outcome li) sid st (pd_lifecycle d) (pd_lifecycle_disk d)
      in (d\<lparr>pd_lifecycle := store, pd_lifecycle_disk := disk\<rparr>, r))"

definition get_warm :: "PolytokenInner \<Rightarrow> SessionId \<Rightarrow> WarmSession option" where
  "get_warm d sid = hm_get (pd_warm d) sid"

definition focus :: "SessionId \<Rightarrow> PolytokenInner \<Rightarrow> PolytokenInner" where
  "focus sid d = d\<lparr>pd_order := filter (\<lambda>x. x \<noteq> sid) (pd_order d) @ [sid]\<rparr>"

definition driver_session_id_from_path :: "string \<Rightarrow> SessionId option" where
  "driver_session_id_from_path path =
     (let normalized = map (\<lambda>c. if c = CHR 0x5C then CHR ''/'' else c) path;
          parts = filter (\<lambda>s. s \<noteq> []) (split_on (CHR ''/'') normalized)
      in if length parts \<ge> 2 \<and> parts ! (length parts - 1) = ''session.json''
         then Some (parts ! (length parts - 2)) else None)"

section \<open>Reading the pool\<close>

definition active_warm :: "PolytokenInner \<Rightarrow> WarmSession option" where
  "active_warm d = (if pd_order d = [] then None else get_warm d (last (pd_order d)))"

text \<open>\<open>project\<close> is the project path in the session's metadata on disk, if it can be read.\<close>

definition cwd_for_session :: "(string \<Rightarrow> string option) \<Rightarrow> string \<Rightarrow> string option" where
  "cwd_for_session project sid = (case project sid of Some p \<Rightarrow> if p = [] then None else Some p | None \<Rightarrow> None)"

definition warm_cwd :: "(string \<Rightarrow> string option) \<Rightarrow> WarmSession \<Rightarrow> string option" where
  "warm_cwd project ws =
     (case Option.bind (ws_last_state ws) (\<lambda>s. case sss_project_cwd s of Some p \<Rightarrow> Some p | None \<Rightarrow> sss_cwd s) of
        Some (c # cs) \<Rightarrow> Some (c # cs)
      | _ \<Rightarrow> cwd_for_session project (ws_session_id ws))"

definition target_warm_for_read :: "SessionId option \<Rightarrow> PolytokenInner \<Rightarrow> WarmSession option" where
  "target_warm_for_read session_id d = (case session_id of Some sid \<Rightarrow> get_warm d sid | None \<Rightarrow> active_warm d)"

definition targeted_session_cwd :: "(string \<Rightarrow> string option) \<Rightarrow> SessionId option \<Rightarrow> PolytokenInner \<Rightarrow> string option" where
  "targeted_session_cwd project session_id d = Option.bind (target_warm_for_read session_id d) (warm_cwd project)"

definition file_lookup_root ::
  "(string \<Rightarrow> string option) \<Rightarrow> string option \<Rightarrow> SessionId option \<Rightarrow> PolytokenInner \<Rightarrow> string option" where
  "file_lookup_root project cwd session_id d = (case cwd of
     Some (c # cs) \<Rightarrow> Some (c # cs) | _ \<Rightarrow> targeted_session_cwd project session_id d)"

definition turn_in_flight :: "PolytokenInner \<Rightarrow> SessionId \<Rightarrow> bool" where
  "turn_in_flight d sid = (case get_warm d sid of Some ws \<Rightarrow> in_flight ws | None \<Rightarrow> False)"

definition any_turn_in_flight :: "PolytokenInner \<Rightarrow> bool" where
  "any_turn_in_flight d = list_ex (\<lambda>(_, ws). in_flight ws) (pd_warm d)"

definition warm_session_count :: "PolytokenInner \<Rightarrow> nat" where
  "warm_session_count d = length (pd_warm d)"

definition has_warm_session :: "SessionId \<Rightarrow> PolytokenInner \<Rightarrow> bool" where
  "has_warm_session sid d = (get_warm d sid \<noteq> None)"

section \<open>Warming a session\<close>

text \<open>Evicting one victim: the synthetic close, then the session leaves the pool and the order.\<close>

definition evict_victim :: "Timestamp \<Rightarrow> SessionId \<Rightarrow> PolytokenInner \<Rightarrow> PolytokenInner \<times> SessionDriverEvent list" where
  "evict_victim now victim d = (case get_warm d victim of
     None \<Rightarrow> (d, [])
   | Some ws \<Rightarrow> (d\<lparr>pd_warm := hm_remove victim (pd_warm d), pd_order := filter (\<lambda>x. x \<noteq> victim) (pd_order d)\<rparr>,
       [E_SessionClosed (driver_base now ws) Cr_Ended]))"

fun evict_victims :: "(nat \<Rightarrow> Timestamp) \<Rightarrow> SessionId list \<Rightarrow> PolytokenInner \<Rightarrow> PolytokenInner \<times> SessionDriverEvent list" where
  "evict_victims clock [] d = (d, [])"
| "evict_victims clock (v # vs) d =
     (let (d1, es1) = evict_victim (clock 0) v d;
          (d2, es2) = evict_victims (\<lambda>n. clock (Suc n)) vs d1
      in (d2, es1 @ es2))"

definition eviction_victims :: "SessionId \<Rightarrow> PolytokenInner \<Rightarrow> SessionId list" where
  "eviction_victims sid d =
     (let empty_first = eviction_plan (pd_order d) (Some sid) (pd_warm_cap d)
            (\<lambda>x. \<not> turn_in_flight d x \<and> lifecycle_state (pd_lifecycle d) x = Ls_EmptyDefault)
      in if empty_first = [] then eviction_plan (pd_order d) (Some sid) (pd_warm_cap d) (\<lambda>x. \<not> turn_in_flight d x)
         else empty_first)"

datatype LeaseError = Le_Conflict "LeaseHeldInfo option" | Le_Other string

datatype ConnectOutcome = Connected | Connect_Failed string | Connect_Stopped

record StateResponse =
  sp_status :: nat
  sp_error :: "string option"
  sp_data :: "SessionStateSnapshot option"

text \<open>What installing a session meets: the health probe, the lease, the event stream, the hydration.\<close>

record InstallIo =
  ii_healthy :: bool
  ii_lease :: "LeaseError option"
  ii_connected :: ConnectOutcome
  ii_state :: StateResponse
  ii_monitor :: "string + PermissionMonitor"
  ii_autodrain :: "string + bool"
  ii_now :: nat
  ii_clock :: "nat \<Rightarrow> Timestamp"

text \<open>The checks of \<^verbatim>\<open>install_warm\<close>, up to the hydrated session.\<close>

definition hydrate ::
  "InstallIo \<Rightarrow> string \<Rightarrow> SessionRef \<Rightarrow> WorkspaceRef \<Rightarrow> WarmInstallError + WarmSession" where
  "hydrate io client_id ref workspace =
     (if \<not> ii_healthy io then Inl (We_Health ''daemon health probe failed'')
      else case ii_lease io of
        Some (Le_Conflict held) \<Rightarrow> Inl (We_LeaseConflict held ''lease claim failed'')
      | Some (Le_Other detail) \<Rightarrow> Inl (We_Lease detail)
      | None \<Rightarrow> (case ii_connected io of
          Connect_Failed e \<Rightarrow> Inl (We_Subscription (''event subscription failed: '' @ e))
        | Connect_Stopped \<Rightarrow> Inl (We_Subscription ''event subscription stopped before connecting'')
        | Connected \<Rightarrow> (case sp_data (ii_state io) of
            None \<Rightarrow> Inl (We_Hydration (''GET /state hydration failed ('' @ show_nat (sp_status (ii_state io)) @ ''): ''
              @ (case sp_error (ii_state io) of Some e \<Rightarrow> e | None \<Rightarrow> ''malformed success body'')))
          | Some st \<Rightarrow> (case ii_monitor io of
              Inl e \<Rightarrow> Inl (We_Hydration (''GET /permission-monitor hydration failed: '' @ e))
            | Inr monitor \<Rightarrow> (case ii_autodrain io of
                Inl e \<Rightarrow> Inl (We_Hydration (''GET /notification-autodrain hydration failed: '' @ e))
              | Inr enabled \<Rightarrow> Inr \<lparr>ws_session_id = client_id, ws_accumulators = [(None, create_accumulator)],
                  ws_last_state = Some st, ws_session_ref = ref, ws_workspace = workspace, ws_pending_interrogatives = [],
                  ws_monitor_mode = Some (monitor_to_mode monitor), ws_autodrain_enabled = Some enabled, ws_queue = [],
                  ws_usage_polled_at = ii_now io, ws_usage_poll_in_flight = False\<rparr>)))))"

definition install_warm ::
  "InstallIo \<Rightarrow> string \<Rightarrow> SessionId \<Rightarrow> SessionRef \<Rightarrow> WorkspaceRef \<Rightarrow> PolytokenInner
    \<Rightarrow> PolytokenInner \<times> SessionDriverEvent list \<times> (WarmInstallError + WarmSession)" where
  "install_warm io client_id sid ref workspace d = (case hydrate io client_id ref workspace of
     Inl e \<Rightarrow> (d, [], Inl e)
   | Inr ws \<Rightarrow>
       (let d1 = focus sid (d\<lparr>pd_warm := hm_insert sid ws (pd_warm d)\<rparr>);
            (d2, es) = evict_victims (ii_clock io) (eviction_victims sid d1) d1
        in (d2, es, Inr ws)))"

text \<open>The three ways to warm a session; the answer of a spawn is the daemon's session id or its error.\<close>

definition warm_session ::
  "(string + string) \<Rightarrow> InstallIo \<Rightarrow> SessionId \<Rightarrow> SessionRef \<Rightarrow> WorkspaceRef \<Rightarrow> PolytokenInner
    \<Rightarrow> PolytokenInner \<times> SessionDriverEvent list \<times> (WarmInstallError + WarmSession)" where
  "warm_session spawned io sid ref workspace d = (case get_warm d sid of
     Some ws \<Rightarrow> (d, [], Inr ws)
   | None \<Rightarrow> (case spawned of
       Inl detail \<Rightarrow> (d, [], Inl (We_Startup detail))
     | Inr actual \<Rightarrow> install_warm io actual actual (ref\<lparr>sr_session_id := actual\<rparr>) workspace d))"

definition warm_session_attach ::
  "InstallIo \<Rightarrow> SessionId \<Rightarrow> SessionRef \<Rightarrow> WorkspaceRef \<Rightarrow> PolytokenInner
    \<Rightarrow> PolytokenInner \<times> SessionDriverEvent list \<times> (WarmInstallError + WarmSession)" where
  "warm_session_attach io sid ref workspace d = (case get_warm d sid of
     Some ws \<Rightarrow> (d, [], Inr ws)
   | None \<Rightarrow> install_warm io sid sid ref workspace d)"

definition warm_session_resume ::
  "(string + string) \<Rightarrow> InstallIo \<Rightarrow> SessionId \<Rightarrow> SessionRef \<Rightarrow> WorkspaceRef \<Rightarrow> PolytokenInner
    \<Rightarrow> PolytokenInner \<times> SessionDriverEvent list \<times> (WarmInstallError + WarmSession)" where
  "warm_session_resume spawned io sid ref workspace d = (case get_warm d sid of
     Some ws \<Rightarrow> (d, [], Inr ws)
   | None \<Rightarrow> (case spawned of
       Inl detail \<Rightarrow> (d, [], Inl (We_Startup detail))
     | Inr actual \<Rightarrow> install_warm io actual sid ref workspace d))"

text \<open>
  Removing a session whose refresh failed after the daemon had changed it. The code removes the entry only
  when it is still the very session it refreshed; no other operation runs in between here.
\<close>

definition invalidate_warm :: "SessionId \<Rightarrow> PolytokenInner \<Rightarrow> PolytokenInner" where
  "invalidate_warm sid d = (if get_warm d sid = None then d
     else d\<lparr>pd_warm := hm_remove sid (pd_warm d), pd_order := filter (\<lambda>x. x \<noteq> sid) (pd_order d)\<rparr>)"

section \<open>Opening\<close>

definition session_seed :: "(nat \<Rightarrow> Timestamp) \<Rightarrow> WarmSession \<Rightarrow> json_value list \<Rightarrow> SessionDriverEvent list" where
  "session_seed clock ws items = build_branch_seed (\<lambda>n. clock (Suc n)) (driver_snapshot (clock 0) ws (live_status_of ws))
     items (ws_session_ref ws)"

record HistoryResponse =
  hr_status :: nat
  hr_error :: "string option"
  hr_items :: "json_value list option"

text \<open>
  What opening a session meets: the project path of its metadata, whether a port is recorded for a
  running daemon and how attaching to it goes, whether the project directory exists, how a resume goes.
\<close>

record OpenIo =
  oi_project :: "string option"
  oi_port :: bool
  oi_attach :: InstallIo
  oi_attach_history :: HistoryResponse
  oi_cwd_is_dir :: bool
  oi_spawned :: "string + string"
  oi_resume :: InstallIo
  oi_resume_history :: HistoryResponse
  oi_clock :: "nat \<Rightarrow> Timestamp"

text \<open>The seed of a session that was just attached or resumed, or its removal when the history cannot be read.\<close>

definition seed_or_invalidate ::
  "string \<Rightarrow> (nat \<Rightarrow> Timestamp) \<Rightarrow> HistoryResponse \<Rightarrow> SessionId \<Rightarrow> WarmSession \<Rightarrow> PolytokenInner
    \<Rightarrow> PolytokenInner \<times> (SessionSwitchError + SessionDriverEvent list)" where
  "seed_or_invalidate operation clock history sid ws d =
     (let d1 = focus (ws_session_id ws) d
      in case hr_items history of
           Some items \<Rightarrow> (d1, Inr (session_seed clock ws items))
         | None \<Rightarrow> (invalidate_warm sid d1, Inl (map_warm_error operation
             (We_History (''GET /history hydration failed ('' @ show_nat (hr_status history) @ '')'')))))"

definition open_cold ::
  "OpenIo \<Rightarrow> SessionId \<Rightarrow> SessionRef \<Rightarrow> string \<Rightarrow> PolytokenInner
    \<Rightarrow> PolytokenInner \<times> SessionDriverEvent list \<times> (SessionSwitchError + SessionDriverEvent list)" where
  "open_cold oi sid ref cwd d =
     (if \<not> oi_cwd_is_dir oi then (d, [], Inl (MissingCwd cwd (''session directory no longer exists: '' @ cwd)))
      else case warm_session_resume (oi_spawned oi) (oi_resume oi) sid ref
          \<lparr>wr_workspace_id = [], wr_path = cwd, wr_display_name = None\<rparr> d of
        (d1, es, Inl e) \<Rightarrow> (d1, es, Inl (map_warm_error ''open_session cold-start'' e))
      | (d1, es, Inr ws) \<Rightarrow>
          (let (d2, r) = seed_or_invalidate ''open_session cold-start history'' (oi_clock oi) (oi_resume_history oi) sid ws d1
           in (d2, es, r)))"

definition open_session ::
  "OpenIo \<Rightarrow> string \<Rightarrow> PolytokenInner
    \<Rightarrow> PolytokenInner \<times> SessionDriverEvent list \<times> (SessionSwitchError + SessionDriverEvent list)" where
  "open_session oi path d = (case driver_session_id_from_path path of
     None \<Rightarrow> (d, [], Inl (MissingSessionPath path (''could not resolve session id from path: '' @ path)))
   | Some sid \<Rightarrow> (case get_warm d sid of
       Some ws \<Rightarrow> (focus (ws_session_id ws) d, [], Inr (session_seed (oi_clock oi) ws []))
     | None \<Rightarrow>
         (let ref = \<lparr>sr_workspace_id = [], sr_session_id = sid\<rparr>;
              cwd = (case cwd_for_session (\<lambda>_. oi_project oi) sid of Some c \<Rightarrow> c | None \<Rightarrow> pd_sessions_dir d);
              workspace = \<lparr>wr_workspace_id = [], wr_path = cwd, wr_display_name = None\<rparr>
          in if \<not> oi_port oi then open_cold oi sid ref cwd d
             else case warm_session_attach (oi_attach oi) sid ref workspace d of
               (d1, es, Inr ws) \<Rightarrow>
                 (let (d2, r) = seed_or_invalidate ''open_session attach history'' (oi_clock oi) (oi_attach_history oi) sid ws d1
                  in (d2, es, r))
             | (d1, es, Inl (We_Health detail)) \<Rightarrow> open_cold oi sid ref cwd d1
             | (d1, es, Inl e) \<Rightarrow> (d1, es, Inl (map_warm_error ''open_session attach'' e)))))"

definition reload_session ::
  "OpenIo \<Rightarrow> string \<Rightarrow> PolytokenInner
    \<Rightarrow> PolytokenInner \<times> SessionDriverEvent list \<times> (SessionSwitchError + SessionDriverEvent list)" where
  "reload_session oi path d = (case driver_session_id_from_path path of
     None \<Rightarrow> (d, [], Inl (MissingSessionPath path (''could not resolve session id from path: '' @ path)))
   | Some sid \<Rightarrow> open_session oi path (d\<lparr>pd_warm := hm_remove sid (pd_warm d)\<rparr>))"

definition detach_session ::
  "Timestamp \<Rightarrow> string \<Rightarrow> PolytokenInner \<Rightarrow> PolytokenInner \<times> SessionDriverEvent list \<times> (DriverError + unit)" where
  "detach_session now path d = (case driver_session_id_from_path path of
     None \<Rightarrow> (d, [], Inl (operation_failed ''detach_session'' (''could not resolve session id from path: '' @ path)))
   | Some sid \<Rightarrow> (case get_warm d sid of
       None \<Rightarrow> (d, [], Inr ())
     | Some ws \<Rightarrow> (d\<lparr>pd_warm := hm_remove sid (pd_warm d)\<rparr>, [E_SessionClosed (driver_base now ws) Cr_Manual], Inr ())))"

section \<open>New sessions\<close>

record NewSessionOptsData =
  no_cwd :: "string option"
  no_model :: "string option"
  no_thinking :: "string option"
  no_facet :: "string option"
  no_permission_monitor :: "PermissionMonitorMode option"

text \<open>The home directory, what is at the directory, the spawn and the answers to the three settings.\<close>

datatype PathKind = No_Such_Path | Not_A_Directory | A_Directory

record NewIo =
  ni_home :: "string option"
  ni_path_kind :: "string \<Rightarrow> PathKind"
  ni_spawned :: "string + string"
  ni_install :: InstallIo
  ni_set_model :: "string option"
  ni_set_facet :: "string option"
  ni_set_permission :: "string option"
  ni_history :: "json_value list option"
  ni_clock :: "nat \<Rightarrow> Timestamp"
  ni_millis :: string

definition new_session_cwd :: "NewIo \<Rightarrow> NewSessionOptsData \<Rightarrow> string" where
  "new_session_cwd io opts = (case map_option trim (no_cwd opts) of
     Some (c # cs) \<Rightarrow> c # cs
   | _ \<Rightarrow> (case ni_home io of Some h \<Rightarrow> h | None \<Rightarrow> []))"

text \<open>The notices of the settings that could not be applied, in the order they are tried.\<close>

definition setting_notices :: "NewIo \<Rightarrow> NewSessionOptsData \<Rightarrow> SessionRef \<Rightarrow> SessionDriverEvent list" where
  "setting_notices io opts ref =
     (case (no_model opts, ni_set_model io) of (Some _, Some e) \<Rightarrow>
        [action_error_notice (ni_clock io 10) (ni_millis io) ref ''Applying the selected model'' e] | _ \<Rightarrow> [])
     @ (case (no_facet opts, ni_set_facet io) of (Some _, Some e) \<Rightarrow>
        [action_error_notice (ni_clock io 11) (ni_millis io) ref ''Applying the selected facet'' e] | _ \<Rightarrow> [])
     @ (case (no_permission_monitor opts, ni_set_permission io) of (Some _, Some e) \<Rightarrow>
        [action_error_notice (ni_clock io 12) (ni_millis io) ref ''Applying the selected permission mode'' e] | _ \<Rightarrow> [])"

definition apply_permission :: "NewIo \<Rightarrow> NewSessionOptsData \<Rightarrow> WarmSession \<Rightarrow> WarmSession" where
  "apply_permission io opts ws = (case (no_permission_monitor opts, ni_set_permission io) of
     (Some mode, None) \<Rightarrow> ws\<lparr>ws_monitor_mode := Some mode\<rparr> | _ \<Rightarrow> ws)"

definition new_session ::
  "NewIo \<Rightarrow> NewSessionOptsData \<Rightarrow> PolytokenInner
    \<Rightarrow> PolytokenInner \<times> SessionDriverEvent list \<times> (SessionSwitchError + SessionDriverEvent list)" where
  "new_session io opts d =
     (let cwd = new_session_cwd io opts
      in case ni_path_kind io cwd of
           No_Such_Path \<Rightarrow> (d, [], Inl (MissingCwd cwd (''no such directory: '' @ cwd)))
         | Not_A_Directory \<Rightarrow> (d, [], Inl (MissingCwd cwd (''not a directory: '' @ cwd)))
         | A_Directory \<Rightarrow>
             (case warm_session (ni_spawned io) (ni_install io) ''__new__'' \<lparr>sr_workspace_id = [], sr_session_id = []\<rparr>
                 \<lparr>wr_workspace_id = [], wr_path = cwd, wr_display_name = None\<rparr> d of
                (d1, es, Inl e) \<Rightarrow> (d1, es, Inl (map_warm_error ''new_session'' e))
              | (d1, es, Inr ws) \<Rightarrow>
                  (let ws1 = apply_permission io opts ws;
                       d2 = d1\<lparr>pd_warm := hm_modify (sr_session_id (ws_session_ref ws)) (\<lambda>_. ws1) (pd_warm d1)\<rparr>;
                       snapshot = driver_snapshot (ni_clock io 0) ws1 (live_status_of ws1);
                       seed = (case ni_history io of
                         Some items \<Rightarrow> build_branch_seed (\<lambda>n. ni_clock io (Suc n)) snapshot items (ws_session_ref ws1)
                       | None \<Rightarrow> [E_SessionOpened (driver_base (ni_clock io 1) ws1) snapshot])
                   in (d2, es, Inr (seed @ setting_notices io opts (ws_session_ref ws))))))"

section \<open>Branching\<close>

record BranchResult =
  br_seed :: "SessionDriverEvent list"
  br_editor_text :: "string option"
  br_cancelled :: bool
  br_aborted :: "bool option"

record BranchIo =
  bi_before :: HistoryResponse
  bi_rewind :: "string option"
  bi_state :: StateResponse
  bi_after :: HistoryResponse
  bi_clock :: "nat \<Rightarrow> Timestamp"

definition refresh_failed :: "string \<Rightarrow> nat \<Rightarrow> string option \<Rightarrow> string" where
  "refresh_failed what status err = ''rewind succeeded but '' @ what @ '' refresh failed ('' @ show_nat status @ ''): ''
     @ (case err of Some e \<Rightarrow> e | None \<Rightarrow> []) @ ''; the session was detached and must be reopened''"

text \<open>The second component says whether the daemon was asked to rewind.\<close>

definition branch_from ::
  "BranchIo \<Rightarrow> string \<Rightarrow> SessionId option \<Rightarrow> PolytokenInner \<Rightarrow> PolytokenInner \<times> bool \<times> (string + BranchResult)" where
  "branch_from io entry_id session_id d = (case session_id of
     None \<Rightarrow> (d, False, Inl ''cannot rewind without a target session'')
   | Some sid \<Rightarrow> (case get_warm d sid of
       None \<Rightarrow> (d, False, Inl (''session '' @ sid @ '' is not attached''))
     | Some ws \<Rightarrow>
         if hr_status (bi_before io) \<noteq> 200
         then (d, False, Inl (''cannot load transcript before rewind ('' @ show_nat (hr_status (bi_before io)) @ ''): ''
                @ (case hr_error (bi_before io) of Some e \<Rightarrow> e | None \<Rightarrow> [])))
         else (case hr_items (bi_before io) of
             None \<Rightarrow> (d, False, Inl ''cannot decode transcript before rewind'')
           | Some items \<Rightarrow> (case user_prompt_text items entry_id of
               None \<Rightarrow> (d, False, Inl ''cannot rewind: the target prompt text is unavailable'')
             | Some editor_text \<Rightarrow> (case bi_rewind io of
                 Some e \<Rightarrow> (d, True, Inl e)
               | None \<Rightarrow> (case sp_data (bi_state io) of
                   None \<Rightarrow> (invalidate_warm sid d, True, Inl (refresh_failed ''state'' (sp_status (bi_state io)) (sp_error (bi_state io))))
                 | Some st \<Rightarrow> (case hr_items (bi_after io) of
                     None \<Rightarrow> (invalidate_warm sid d, True, Inl (refresh_failed ''transcript'' (hr_status (bi_after io)) (hr_error (bi_after io))))
                   | Some after \<Rightarrow>
                       (let ws1 = ws\<lparr>ws_last_state := Some st\<rparr>
                        in (d\<lparr>pd_warm := hm_insert sid ws1 (pd_warm d)\<rparr>, True,
                            Inr \<lparr>br_seed = session_seed (bi_clock io) ws1 after, br_editor_text = Some editor_text,
                              br_cancelled = False, br_aborted = None\<rparr>)))))))))"

section \<open>Prompting\<close>

record PromptAccepted =
  pa_prompt_id :: PromptId
  pa_queued_item :: "PendingTurnInputItem option"
  pa_resolved_references :: "ResolvedPromptReference list option"
  pa_session_id :: string

text \<open>Up to the \<^verbatim>\<open>POST\<close>: the lifecycle guard, the lookup and the focus.\<close>

definition prompt_begin :: "SessionId option \<Rightarrow> PolytokenInner \<Rightarrow> PolytokenInner \<times> (string + WarmSession)" where
  "prompt_begin session_id d = (case session_id of
     None \<Rightarrow> (d, Inl ''no session to prompt'')
   | Some sid \<Rightarrow> (case ensure_healthy (pd_lifecycle d) of
       Inl e \<Rightarrow> (d, Inl e)
     | Inr _ \<Rightarrow>
         if lifecycle_state (pd_lifecycle d) sid \<in> {Ls_Tombstoned, Ls_DestroyPending}
         then (d, Inl ''session has been destroyed or is being destroyed'')
         else (case get_warm d sid of
             None \<Rightarrow> (d, Inl ''no warm polytoken session to prompt'')
           | Some ws \<Rightarrow> (focus sid d, Inr ws))))"

definition images_notice :: "Timestamp \<Rightarrow> string \<Rightarrow> ImageContent list \<Rightarrow> WarmSession \<Rightarrow> SessionDriverEvent list" where
  "images_notice now millis images ws =
     (if images = [] then []
      else [E_HostUiRequest (driver_base now ws) (H_Notify (''img-unsupported-'' @ millis)
        ([CHR 0xE2, CHR 0x9A, CHR 0xA0] @ '' ''
         @ (if length images = 1 then ''1 image was'' else show_nat (length images) @ '' images were'')
         @ '' attached but the daemon doesn'' @ [CHR 0x27] @ ''t support images yet '' @ em_dash_text @ '' only the text was sent.'')
        (Some Nl_Warning))])"

text \<open>After the daemon's answer.\<close>

definition prompt_finish ::
  "LifecycleIo \<Rightarrow> (nat \<Rightarrow> Timestamp) \<Rightarrow> string \<Rightarrow> string + PromptAccepted \<Rightarrow> string \<Rightarrow> ImageContent list \<Rightarrow> string option
    \<Rightarrow> SessionId \<Rightarrow> WarmSession \<Rightarrow> PolytokenInner \<Rightarrow> PolytokenInner \<times> SessionDriverEvent list \<times> (string + unit)" where
  "prompt_finish li clock millis answer text images prompt_id sid ws d = (case answer of
     Inl e \<Rightarrow> (d, [], Inl (''prompt failed: '' @ e))
   | Inr accepted \<Rightarrow> (case set_state li sid Ls_AcceptedPrompt d of
       (d1, Inl e) \<Rightarrow> (d1, [], Inl e)
     | (d1, Inr _) \<Rightarrow>
         (let now = clock 0; base = driver_base now ws
          in case pa_queued_item accepted of
               Some item \<Rightarrow> (d1, E_QueueUpdated base [queue_message_from_item item now] # images_notice now millis images ws, Inr ())
             | None \<Rightarrow> (d1, E_UserMessage base (case prompt_id of Some p \<Rightarrow> p | None \<Rightarrow> ''pt-'' @ millis) text
                   (if images = [] then None else Some images) None
                   (map_option map_resolved_references (pa_resolved_references accepted)) # images_notice now millis images ws, Inr ()))))"

definition prompt ::
  "LifecycleIo \<Rightarrow> (nat \<Rightarrow> Timestamp) \<Rightarrow> string \<Rightarrow> string + PromptAccepted \<Rightarrow> string \<Rightarrow> SessionId option \<Rightarrow> ImageContent list
    \<Rightarrow> string option \<Rightarrow> PolytokenInner \<Rightarrow> PolytokenInner \<times> SessionDriverEvent list \<times> (string + unit)" where
  "prompt li clock millis answer text session_id images prompt_id d = (case prompt_begin session_id d of
     (d1, Inl e) \<Rightarrow> (d1, [], Inl e)
   | (d1, Inr ws) \<Rightarrow> prompt_finish li clock millis answer text images prompt_id (the session_id) ws d1)"

definition abort :: "string option \<Rightarrow> SessionId option \<Rightarrow> PolytokenInner \<Rightarrow> string + unit" where
  "abort cancel session_id d = (case session_id of
     None \<Rightarrow> Inl ''No active session to stop.''
   | Some sid \<Rightarrow> (case get_warm d sid of
       None \<Rightarrow> Inl (''Couldn'' @ [CHR 0x27] @ ''t stop session '' @ sid @ '': it is not connected to the daemon.'')
     | Some ws \<Rightarrow> (case cancel of
         Some e \<Rightarrow> Inl (''Couldn'' @ [CHR 0x27] @ ''t send stop to the daemon: '' @ e) | None \<Rightarrow> Inr ())))"

section \<open>Actions\<close>

datatype McpAction = Ma_Enable | Ma_Disable | Ma_Disconnect | Ma_Reconnect

datatype SessionAction =
    Sa_ToggleAdventurousHandoff
  | Sa_SetNotificationAutodrain bool
  | Sa_Compact
  | Sa_ClearContext
  | Sa_SetMcpServer string McpAction
  | Sa_SetModel string "string option"
  | Sa_SetThinking string
  | Sa_SetFacet string
  | Sa_SetPermissionMonitor PermissionMonitorMode
  | Sa_ResetShell
  | Sa_DaemonReload
  | Sa_GoalSet string
  | Sa_GoalPause
  | Sa_GoalResume
  | Sa_GoalClear
  | Sa_SetTitle string

definition blocks_lifecycle :: "SessionAction \<Rightarrow> bool" where
  "blocks_lifecycle action = (case action of
     Sa_SetModel _ _ \<Rightarrow> True | Sa_SetThinking _ \<Rightarrow> True | Sa_SetFacet _ \<Rightarrow> True | Sa_SetPermissionMonitor _ \<Rightarrow> True
   | Sa_ToggleAdventurousHandoff \<Rightarrow> True | _ \<Rightarrow> False)"

primrec mode_text :: "PermissionMonitorMode \<Rightarrow> string" where
  "mode_text Pm_Standard = ''Standard''"
| "mode_text Pm_Bypass = ''Bypass''"
| "mode_text Pm_BypassPlus = ''BypassPlus''"
| "mode_text Pm_Autonomous = ''Autonomous''"

definition on_off :: "bool \<Rightarrow> string" where
  "on_off b = (if b then ''enabled'' else ''disabled'')"

text \<open>
  What was attempted, how it ended and the notice of success. \<open>post\<close> is the daemon's answer, whose flag only the
  handoff toggle reads.
\<close>

definition action_outcome ::
  "string option \<Rightarrow> string + bool \<Rightarrow> SessionAction \<Rightarrow> string \<times> (string + unit) \<times> string option" where
  "action_outcome active_model post action =
     (let result = (case post of Inl e \<Rightarrow> Inl e | Inr _ \<Rightarrow> Inr ())
      in case action of
        Sa_SetModel model_id level \<Rightarrow> (''Model switch'', result, Some (''Model switched to '' @ model_id
          @ (case level of Some l \<Rightarrow> '' (thinking: '' @ l @ '')'' | None \<Rightarrow> [])))
      | Sa_SetThinking level \<Rightarrow> (case active_model of
          Some _ \<Rightarrow> (''Thinking-level switch'', result, Some (''Thinking level set to '' @ level))
        | None \<Rightarrow> (''Thinking-level switch'', Inl (''the session'' @ [CHR 0x27] @ ''s active model isn'' @ [CHR 0x27]
            @ ''t known yet '' @ em_dash_text @ '' try again in a moment''), None))
      | Sa_SetFacet facet \<Rightarrow> (''Facet switch'', result, Some (''Facet switched to '' @ facet))
      | Sa_SetPermissionMonitor mode \<Rightarrow> (''Permission-mode switch'', result, Some (''Permission monitor set to '' @ mode_text mode))
      | Sa_ToggleAdventurousHandoff \<Rightarrow> (''Adventurous-handoff toggle'', result,
          (case post of Inr b \<Rightarrow> Some (''Adventurous handoff '' @ on_off b) | Inl _ \<Rightarrow> None))
      | Sa_SetNotificationAutodrain b \<Rightarrow> (''Notification-autodrain switch'', result, Some (''Notification auto-drain '' @ on_off b))
      | Sa_Compact \<Rightarrow> (''Compact'', result, None)
      | Sa_ClearContext \<Rightarrow> (''Clear context'', result, None)
      | Sa_ResetShell \<Rightarrow> (''Reset shell'', result, None)
      | Sa_DaemonReload \<Rightarrow> (''Daemon reload'', result, None)
      | Sa_GoalSet summary \<Rightarrow> (''Goal set'', result, Some (''Goal set: '' @ summary))
      | Sa_GoalPause \<Rightarrow> (''Goal pause'', result, Some ''Goal paused'')
      | Sa_GoalResume \<Rightarrow> (''Goal resume'', result, Some ''Goal resumed'')
      | Sa_GoalClear \<Rightarrow> (''Goal clear'', result, Some ''Goal cleared'')
      | Sa_SetTitle _ \<Rightarrow> (''Set title'', result, None)
      | Sa_SetMcpServer name _ \<Rightarrow> (''MCP server '' @ [CHR 0x27] @ name @ [CHR 0x27] @ '' action'', result, None))"

definition action_begin :: "SessionId option \<Rightarrow> PolytokenInner \<Rightarrow> DriverError + WarmSession" where
  "action_begin session_id d = (case session_id of
     None \<Rightarrow> Inl (operation_failed ''session_action'' ''no session targeted'')
   | Some sid \<Rightarrow> (case ensure_healthy (pd_lifecycle d) of
       Inl e \<Rightarrow> Inl (operation_failed ''session_action'' e)
     | Inr _ \<Rightarrow>
         if lifecycle_state (pd_lifecycle d) sid \<in> {Ls_Tombstoned, Ls_DestroyPending}
         then Inl (operation_failed ''session_action'' ''session has been destroyed or is being destroyed'')
         else (case get_warm d sid of
             None \<Rightarrow> Inl (operation_failed ''session_action'' ''no warm polytoken session to configure'')
           | Some ws \<Rightarrow> Inr ws)))"

definition action_finish ::
  "LifecycleIo \<Rightarrow> Timestamp \<Rightarrow> string \<Rightarrow> string + bool \<Rightarrow> SessionAction \<Rightarrow> SessionId \<Rightarrow> WarmSession \<Rightarrow> PolytokenInner
    \<Rightarrow> PolytokenInner \<times> SessionDriverEvent list \<times> (DriverError + unit)" where
  "action_finish li now millis post action sid ws d =
     (case action_outcome (Option.bind (ws_last_state ws) sss_active_model) post action of
        (what, Inl e, _) \<Rightarrow> (d, [action_error_notice now millis (ws_session_ref ws) what e], Inl (operation_failed ''session_action'' e))
      | (what, Inr _, message) \<Rightarrow>
          (let es = (case message of Some m \<Rightarrow> [action_success_notice now millis (ws_session_ref ws) m] | None \<Rightarrow> [])
           in if \<not> blocks_lifecycle action then (d, es, Inr ())
              else (case set_state li sid Ls_LiveConfigAction d of
                  (d1, Inl e) \<Rightarrow> (d1, es, Inl (operation_failed ''session_action'' e))
                | (d1, Inr _) \<Rightarrow> (d1, es, Inr ()))))"

definition session_action ::
  "LifecycleIo \<Rightarrow> Timestamp \<Rightarrow> string \<Rightarrow> string + bool \<Rightarrow> SessionAction \<Rightarrow> SessionId option \<Rightarrow> PolytokenInner
    \<Rightarrow> PolytokenInner \<times> SessionDriverEvent list \<times> (DriverError + unit)" where
  "session_action li now millis post action session_id d = (case action_begin session_id d of
     Inl e \<Rightarrow> (d, [], Inl e)
   | Inr ws \<Rightarrow> action_finish li now millis post action (the session_id) ws d)"

section \<open>Renaming\<close>

text \<open>\<open>set_title\<close> and \<open>write_title\<close> are the errors of the daemon call and of the write to the session's metadata.\<close>

definition rename_session ::
  "string option \<Rightarrow> string option \<Rightarrow> string \<Rightarrow> string \<Rightarrow> PolytokenInner \<Rightarrow> PolytokenInner \<times> (DriverError + unit)" where
  "rename_session set_title write_title path name d = (case driver_session_id_from_path path of
     None \<Rightarrow> (d, Inl (operation_failed ''rename_session'' (''could not resolve session id from path: '' @ path)))
   | Some sid \<Rightarrow> (case get_warm d sid of
       Some ws \<Rightarrow> (case set_title of
           Some e \<Rightarrow> (d, Inl (operation_failed ''rename_session'' (''POST /title failed for '' @ sid @ '': '' @ e)))
         | None \<Rightarrow> (d\<lparr>pd_warm := hm_insert sid (ws\<lparr>ws_last_state :=
             map_option (\<lambda>st. st\<lparr>sss_session_title := Some name\<rparr>) (ws_last_state ws)\<rparr>) (pd_warm d)\<rparr>, Inr ()))
     | None \<Rightarrow> (case write_title of
           Some e \<Rightarrow> (d, Inl (operation_failed ''rename_session'' (''failed to persist title for cold session '' @ path @ '': '' @ e)))
         | None \<Rightarrow> (d, Inr ()))))"

section \<open>Destroying\<close>

text \<open>\<^verbatim>\<open>Path::new(path).parent()\<close> and its file name.\<close>

definition parent_name :: "path \<Rightarrow> string option" where
  "parent_name p = (case rev (components p) of
     last_component # Normal name # _ \<Rightarrow> Some name | _ \<Rightarrow> None)"

definition session_json_path :: "PolytokenInner \<Rightarrow> SessionId \<Rightarrow> path" where
  "session_json_path d sid = join_path (join_path (pd_sessions_dir d) sid) ''session.json''"

text \<open>Up to the teardown of the warm session; \<open>Inr None\<close> when the session is already destroyed.\<close>

definition destroy_begin ::
  "LifecycleIo \<Rightarrow> path \<Rightarrow> PolytokenInner \<Rightarrow> PolytokenInner \<times> (DriverError + SessionId option)" where
  "destroy_begin li path d = (case parent_name path of
     None \<Rightarrow> (d, Inl (operation_failed ''destroy_session'' ''invalid session path''))
   | Some sid \<Rightarrow>
       if components path \<noteq> components (session_json_path d sid)
       then (d, Inl (operation_failed ''destroy_session'' ''invalid session path''))
       else if lifecycle_state (pd_lifecycle d) sid \<in> {Ls_AcceptedPrompt, Ls_LiveConfigAction}
       then (d, Inl (operation_failed ''destroy_session'' ''session is populated or configured''))
       else if lifecycle_state (pd_lifecycle d) sid = Ls_Tombstoned then (d, Inr None)
       else (case set_state li sid Ls_DestroyPending d of
           (d1, Inl e) \<Rightarrow> (d1, Inl (operation_failed ''destroy_session'' e))
         | (d1, Inr _) \<Rightarrow> (d1\<lparr>pd_warm := hm_remove sid (pd_warm d1)\<rparr>, Inr (Some sid))))"

definition destroy_finish :: "LifecycleIo \<Rightarrow> SessionId \<Rightarrow> PolytokenInner \<Rightarrow> PolytokenInner \<times> (DriverError + unit)" where
  "destroy_finish li sid d = (case set_state li sid Ls_Tombstoned d of
     (d1, Inl e) \<Rightarrow> (d1, Inl (operation_failed ''destroy_session'' e))
   | (d1, Inr _) \<Rightarrow> (d1\<lparr>pd_order := filter (\<lambda>x. x \<noteq> sid) (pd_order d1)\<rparr>, Inr ()))"

definition destroy_session ::
  "LifecycleIo \<Rightarrow> LifecycleIo \<Rightarrow> path \<Rightarrow> PolytokenInner \<Rightarrow> PolytokenInner \<times> (DriverError + unit)" where
  "destroy_session li li' path d = (case destroy_begin li path d of
     (d1, Inl e) \<Rightarrow> (d1, Inl e)
   | (d1, Inr None) \<Rightarrow> (d1, Inr ())
   | (d1, Inr (Some sid)) \<Rightarrow> destroy_finish li' sid d1)"

section \<open>Idle sessions and the list\<close>

definition dispose_idle_warm :: "PolytokenInner \<Rightarrow> PolytokenInner" where
  "dispose_idle_warm d =
     (let active = map (\<lambda>(_, ws). sr_session_id (ws_session_ref ws)) (filter (\<lambda>(_, ws). in_flight ws) (pd_warm d))
      in d\<lparr>pd_warm := filter (\<lambda>(sid, _). sid \<in> set active) (pd_warm d)\<rparr>)"

definition shutdown :: "PolytokenInner \<Rightarrow> PolytokenInner" where
  "shutdown d = d\<lparr>pd_warm := []\<rparr>"

definition driver_reset :: "PolytokenInner \<Rightarrow> PolytokenInner" where
  "driver_reset d = (if \<not> pd_is_fake d \<or> \<not> pd_has_fake_control d then d
     else d\<lparr>pd_warm := map (\<lambda>(sid, ws). (sid, reset_accumulators ws)) (pd_warm d)\<rparr>)"

definition default_seed :: "(nat \<Rightarrow> Timestamp) \<Rightarrow> PolytokenInner \<Rightarrow> SessionDriverEvent list option" where
  "default_seed clock d = (if \<not> pd_is_fake d \<or> \<not> pd_has_fake_control d then None
     else map_option (\<lambda>ws. [E_SessionOpened (driver_base (clock 1) ws) (driver_snapshot (clock 0) ws (live_status_of ws))])
       (active_warm d))"

definition warm_entry :: "Timestamp \<Rightarrow> PolytokenInner \<Rightarrow> SessionId \<times> WarmSession \<Rightarrow> SessionListEntry" where
  "warm_entry now d e = (case e of (sid, ws) \<Rightarrow>
     \<lparr>le_session_id = sid, le_path = session_json_path d sid, le_cwd = wr_path (ws_workspace ws),
      le_display_name = Option.bind (ws_last_state ws) sss_session_title, le_preview = [], le_user_message_count = 0,
      le_updated_at = now, le_created_at = now, le_last_user_message_at = now, le_parent_session_path = None,
      le_usage = None, le_archived = archive_has (pd_archive_store d) (session_json_path d sid)\<rparr>)"

text \<open>\<open>on_disk\<close> is the list of cold sessions read from the sessions directory.\<close>

definition list_sessions :: "Timestamp \<Rightarrow> SessionListEntry list \<Rightarrow> PolytokenInner \<Rightarrow> SessionListEntry list" where
  "list_sessions now on_disk d =
     (if ensure_healthy (pd_lifecycle d) \<noteq> Inr () then []
      else
        let warm_usage = List.map_filter (\<lambda>(sid, ws). map_option (Pair sid) (usage_from_state (ws_last_state ws))) (pd_warm d);
            merged = filter (\<lambda>e. le_session_id e \<notin> set (tombstones (pd_lifecycle d)))
              (merge_session_lists on_disk (map (warm_entry now d) (pd_warm d)))
        in map (\<lambda>e. case map_of warm_usage (le_session_id e) of Some u \<Rightarrow> e\<lparr>le_usage := Some u\<rparr> | None \<Rightarrow> e) merged)"

section \<open>Small helpers\<close>

fun push_component :: "string list \<Rightarrow> Component \<Rightarrow> string list" where
  "push_component out CurDir = out"
| "push_component out ParentDir = butlast out"
| "push_component out (Normal c) = out @ [c]"
| "push_component out RootDir = out"

definition render_absolute :: "string list \<Rightarrow> path" where
  "render_absolute names = (if names = [] then ''/'' else concat (map (\<lambda>n. ''/'' @ n) names))"

definition resolve_picker_path_with_home :: "string option \<Rightarrow> string \<Rightarrow> path" where
  "resolve_picker_path_with_home p home = (case map_option trim p of
     None \<Rightarrow> home
   | Some raw \<Rightarrow>
       if raw = [] \<or> raw = ''~'' then home
       else
         let expanded = (case strip_prefix raw ''~/'' of
               Some rest \<Rightarrow> join_path home rest
             | None \<Rightarrow> if is_absolute raw then raw else join_path home raw)
         in render_absolute (foldl push_component [] (components expanded)))"

definition parse_job_status :: "json_value \<Rightarrow> JobStatusKind" where
  "parse_job_status v =
     (let status = (case jget_str v ''status'' of Some s \<Rightarrow> Some s | None \<Rightarrow> as_str v)
      in case status of
           Some s \<Rightarrow>
             if s = ''reserved'' then Js_Reserved else if s = ''running'' then Js_Running
             else if s = ''completed'' then Js_Completed else if s = ''failed'' then Js_Failed
             else if s = ''cancelled'' then Js_Cancelled else Js_Running
         | None \<Rightarrow> Js_Running)"

definition at_refs_from_snapshot :: "SessionStateSnapshot option \<Rightarrow> AtRefs" where
  "at_refs_from_snapshot state = (case state of
     Some s \<Rightarrow> \<lparr>ar_skills = (case sss_available_skills s of Some x \<Rightarrow> x | None \<Rightarrow> []),
                ar_subagents = (case sss_available_subagents s of Some x \<Rightarrow> x | None \<Rightarrow> [])\<rparr>
   | None \<Rightarrow> \<lparr>ar_skills = [], ar_subagents = []\<rparr>)"

end
