(* ===== verification/Driver_Props.thy ===== *)
theory Driver_Props
  imports Polytoken_Driver
begin

text \<open>
  What holds of the driver's pool: the lifecycle decisions that survive every sequence of operations and the
  interleaving that undoes one, the warm cap, failed opens, and what a prompt shows.
\<close>

section \<open>What the operations leave alone\<close>

lemma set_state_simps [simp]:
  "pd_warm (fst (set_state li sid st d)) = pd_warm d" "pd_order (fst (set_state li sid st d)) = pd_order d"
  "pd_warm_cap (fst (set_state li sid st d)) = pd_warm_cap d" "pd_sessions_dir (fst (set_state li sid st d)) = pd_sessions_dir d"
  by (simp_all add: set_state_def Let_def split: prod.splits)

lemma focus_simps [simp]:
  "pd_warm (focus sid d) = pd_warm d" "pd_lifecycle (focus sid d) = pd_lifecycle d" "pd_warm_cap (focus sid d) = pd_warm_cap d"
  by (simp_all add: focus_def)

lemma invalidate_lifecycle [simp]: "pd_lifecycle (invalidate_warm sid d) = pd_lifecycle d"
  by (simp add: invalidate_warm_def)

lemma evict_victims_lifecycle: "pd_lifecycle (fst (evict_victims clock vs d)) = pd_lifecycle d"
proof (induction vs arbitrary: clock d)
  case (Cons v vs)
  have "pd_lifecycle (fst (evict_victim (clock 0) v d)) = pd_lifecycle d" by (simp add: evict_victim_def split: option.splits)
  then show ?case using Cons by (simp add: case_prod_beta' Let_def)
qed simp

lemma install_lifecycle: "pd_lifecycle (fst (install_warm io c sid ref ws d)) = pd_lifecycle d"
  using evict_victims_lifecycle by (simp add: install_warm_def Let_def case_prod_beta' split: sum.splits)

lemma warming_lifecycle:
  "pd_lifecycle (fst (warm_session sp io sid ref wr d)) = pd_lifecycle d"
  "pd_lifecycle (fst (warm_session_attach io sid ref wr d)) = pd_lifecycle d"
  "pd_lifecycle (fst (warm_session_resume sp io sid ref wr d)) = pd_lifecycle d"
  using install_lifecycle
  by (simp_all add: warm_session_def warm_session_attach_def warm_session_resume_def split: option.splits sum.splits)

lemma seed_or_invalidate_lifecycle: "pd_lifecycle (fst (seed_or_invalidate op clock h sid ws d)) = pd_lifecycle d"
  by (simp add: seed_or_invalidate_def Let_def split: option.splits)

lemma open_cold_lifecycle: "pd_lifecycle (fst (open_cold oi sid ref cwd d)) = pd_lifecycle d"
  using warming_lifecycle(3) [of "oi_spawned oi" "oi_resume oi" sid ref] seed_or_invalidate_lifecycle
  by (auto simp: open_cold_def Let_def case_prod_beta' split: prod.splits sum.splits)

lemma open_lifecycle: "pd_lifecycle (fst (open_session oi path d)) = pd_lifecycle d"
  using warming_lifecycle(2) [of "oi_attach oi"] seed_or_invalidate_lifecycle open_cold_lifecycle
  by (auto simp: open_session_def Let_def case_prod_beta' split: prod.splits sum.splits option.splits WarmInstallError.splits)

lemma reload_lifecycle: "pd_lifecycle (fst (reload_session oi path d)) = pd_lifecycle d"
  using open_lifecycle by (simp add: reload_session_def split: option.splits)

lemma detach_lifecycle: "pd_lifecycle (fst (detach_session now path d)) = pd_lifecycle d"
  by (simp add: detach_session_def split: option.splits)

lemma new_lifecycle: "pd_lifecycle (fst (new_session io opts d)) = pd_lifecycle d"
  using warming_lifecycle(1) [of "ni_spawned io" "ni_install io" "''__new__''"]
  by (auto simp: new_session_def Let_def split: PathKind.splits prod.splits sum.splits) (metis fst_conv)+

lemma branch_lifecycle: "pd_lifecycle (fst (branch_from io e session_id d)) = pd_lifecycle d"
  by (simp add: branch_from_def Let_def split: option.splits)

lemma rename_lifecycle: "pd_lifecycle (fst (rename_session a b path name d)) = pd_lifecycle d"
  by (simp add: rename_session_def split: option.splits)

lemma set_state_lifecycle:
  "lifecycle_state (pd_lifecycle (fst (set_state li sid st d))) x
     = (if x = sid \<and> ensure_healthy (pd_lifecycle d) = Inr () then st else lifecycle_state (pd_lifecycle d) x)"
  by (auto simp: set_state_def set_lifecycle_def lifecycle_state_def Let_def split: prod.splits sum.splits)

section \<open>Steps\<close>

text \<open>A complete operation of the driver, with any answers; no operation overlaps another.\<close>

inductive driver_step :: "PolytokenInner \<Rightarrow> PolytokenInner \<Rightarrow> bool" where
  step_prompt: "driver_step d (fst (prompt li clock millis answer tx session_id images prompt_id d))"
| step_action: "driver_step d (fst (session_action li now millis post action session_id d))"
| step_destroy: "driver_step d (fst (destroy_session li li' path d))"
| step_open: "driver_step d (fst (open_session oi path d))"
| step_reload: "driver_step d (fst (reload_session oi path d))"
| step_detach: "driver_step d (fst (detach_session now path d))"
| step_new: "driver_step d (fst (new_session ni opts d))"
| step_branch: "driver_step d (fst (branch_from bi entry_id session_id d))"
| step_rename: "driver_step d (fst (rename_session st wt path name d))"
| step_dispose: "driver_step d (dispose_idle_warm d)"
| step_shutdown: "driver_step d (shutdown d)"
| step_reset: "driver_step d (driver_reset d)"
| step_session: "driver_step d (d\<lparr>pd_warm := hm_modify sid f (pd_warm d)\<rparr>)"

text \<open>The moves of one session's lifecycle state.\<close>

definition lifecycle_move :: "LifecycleState \<Rightarrow> LifecycleState \<Rightarrow> bool" where
  "lifecycle_move a b \<longleftrightarrow> a = b
     \<or> a \<notin> {Ls_DestroyPending, Ls_Tombstoned} \<and> b \<in> {Ls_AcceptedPrompt, Ls_LiveConfigAction}
     \<or> a \<in> {Ls_Unknown, Ls_EmptyDefault, Ls_DestroyPending} \<and> b \<in> {Ls_DestroyPending, Ls_Tombstoned}"

abbreviation state_of :: "PolytokenInner \<Rightarrow> SessionId \<Rightarrow> LifecycleState" where
  "state_of d sid \<equiv> lifecycle_state (pd_lifecycle d) sid"

lemma prompt_move: "lifecycle_move (state_of d x) (state_of (fst (prompt li clock millis answer tx session_id images prompt_id d)) x)"
proof (cases "prompt_begin session_id d")
  case (Pair d1 r)
  have d1: "pd_lifecycle d1 = pd_lifecycle d"
    using Pair by (auto simp: prompt_begin_def split: option.splits sum.splits if_splits)
  show ?thesis
  proof (cases r)
    case (Inl e)
    then show ?thesis using Pair d1 by (simp add: prompt_def lifecycle_move_def)
  next
    case (Inr ws)
    then obtain sid where sid: "session_id = Some sid" and ok: "state_of d sid \<notin> {Ls_Tombstoned, Ls_DestroyPending}"
      using Pair by (auto simp: prompt_begin_def split: option.splits sum.splits if_splits)
    have "state_of (fst (prompt_finish li clock millis answer tx images prompt_id sid ws d1)) x \<in> {state_of d x}
      \<or> x = sid \<and> state_of (fst (prompt_finish li clock millis answer tx images prompt_id sid ws d1)) x = Ls_AcceptedPrompt"
      using set_state_lifecycle [of li sid Ls_AcceptedPrompt d1 x] d1
      by (auto simp: prompt_finish_def Let_def split: sum.splits prod.splits option.splits if_splits)
    then show ?thesis using Pair Inr sid ok by (auto simp: prompt_def lifecycle_move_def)
  qed
qed

lemma action_move: "lifecycle_move (state_of d x) (state_of (fst (session_action li now millis post action session_id d)) x)"
proof (cases "action_begin session_id d")
  case (Inl e)
  then show ?thesis by (simp add: session_action_def lifecycle_move_def)
next
  case (Inr ws)
  then obtain sid where sid: "session_id = Some sid" and ok: "state_of d sid \<notin> {Ls_Tombstoned, Ls_DestroyPending}"
    by (auto simp: action_begin_def split: option.splits sum.splits if_splits)
  have "state_of (fst (action_finish li now millis post action sid ws d)) x = state_of d x
    \<or> x = sid \<and> state_of (fst (action_finish li now millis post action sid ws d)) x = Ls_LiveConfigAction"
    using set_state_lifecycle [of li sid Ls_LiveConfigAction d x]
    by (auto simp: action_finish_def Let_def split: sum.splits prod.splits option.splits if_splits)
  then show ?thesis using Inr sid ok by (auto simp: session_action_def lifecycle_move_def)
qed

lemma destroy_begin_cases:
  assumes "destroy_begin li path d = (d1, r)"
  shows "d1 = d \<and> (\<forall>sid. r \<noteq> Inr (Some sid))
    \<or> (\<exists>sid. pd_lifecycle d1 = pd_lifecycle (fst (set_state li sid Ls_DestroyPending d))
        \<and> state_of d sid \<notin> {Ls_AcceptedPrompt, Ls_LiveConfigAction, Ls_Tombstoned})"
  using assms by (auto simp: destroy_begin_def split: option.splits if_splits prod.splits sum.splits) (metis fst_conv)+

lemma destroy_move: "lifecycle_move (state_of d x) (state_of (fst (destroy_session li li' path d)) x)"
proof (cases "destroy_begin li path d")
  case (Pair d1 r)
  show ?thesis
  proof (cases r)
    case (Inl e)
    have "state_of d1 x = state_of d x \<or> state_of d x \<in> {Ls_Unknown, Ls_EmptyDefault, Ls_DestroyPending} \<and> state_of d1 x = Ls_DestroyPending"
      using destroy_begin_cases [OF Pair] set_state_lifecycle [of li _ Ls_DestroyPending d x]
      by (cases "state_of d x") (auto split: if_splits)
    then show ?thesis using Pair Inl by (auto simp: destroy_session_def lifecycle_move_def)
  next
    case (Inr s)
    show ?thesis
    proof (cases s)
      case None
      then have "d1 = d" using Pair Inr by (auto simp: destroy_begin_def split: option.splits if_splits prod.splits sum.splits)
      then show ?thesis using Pair Inr None by (simp add: destroy_session_def lifecycle_move_def)
    next
      case (Some sid)
      then have d1: "pd_lifecycle d1 = pd_lifecycle (fst (set_state li sid Ls_DestroyPending d))"
        and st: "state_of d sid \<notin> {Ls_AcceptedPrompt, Ls_LiveConfigAction, Ls_Tombstoned}"
        using Pair Inr by (auto simp: destroy_begin_def split: option.splits if_splits prod.splits sum.splits)
      have "state_of (fst (destroy_finish li' sid d1)) x = state_of (fst (set_state li' sid Ls_Tombstoned d1)) x"
        by (auto simp: destroy_finish_def split: prod.splits sum.splits)
      then have "state_of (fst (destroy_finish li' sid d1)) x
          = (if x = sid then if ensure_healthy (pd_lifecycle d1) = Inr () then Ls_Tombstoned else state_of d1 x else state_of d x)"
        using set_state_lifecycle [of li' sid Ls_Tombstoned d1 x] set_state_lifecycle [of li sid Ls_DestroyPending d x] d1 by auto
      moreover have "state_of d1 sid \<in> {Ls_DestroyPending, state_of d sid}"
        using set_state_lifecycle [of li sid Ls_DestroyPending d sid] d1 by auto
      ultimately show ?thesis using Pair Inr Some st
        by (cases "state_of d sid") (auto simp: destroy_session_def lifecycle_move_def)
    qed
  qed
qed

lemma driver_step_move: "driver_step d d' \<Longrightarrow> lifecycle_move (state_of d x) (state_of d' x)"
proof (induction rule: driver_step.induct)
  case (step_prompt d li clock millis answer tx session_id images prompt_id)
  then show ?case by (rule prompt_move)
next
  case (step_action d li now millis post action session_id)
  then show ?case by (rule action_move)
next
  case (step_destroy d li li' path)
  then show ?case by (rule destroy_move)
qed (simp_all add: lifecycle_move_def open_lifecycle reload_lifecycle detach_lifecycle new_lifecycle branch_lifecycle
    rename_lifecycle dispose_idle_warm_def shutdown_def driver_reset_def Let_def)

lemma driver_steps_moves: "driver_step\<^sup>*\<^sup>* d d' \<Longrightarrow> lifecycle_move\<^sup>*\<^sup>* (state_of d x) (state_of d' x)"
  by (induction rule: rtranclp_induct) (auto intro: rtranclp.rtrancl_into_rtrancl driver_step_move)

lemma move_tombstoned: "lifecycle_move\<^sup>*\<^sup>* a b \<Longrightarrow> a = Ls_Tombstoned \<Longrightarrow> b = Ls_Tombstoned"
  by (induction rule: rtranclp_induct) (auto simp: lifecycle_move_def)

lemma move_populated:
  "lifecycle_move\<^sup>*\<^sup>* a b \<Longrightarrow> a \<in> {Ls_AcceptedPrompt, Ls_LiveConfigAction} \<Longrightarrow> b \<in> {Ls_AcceptedPrompt, Ls_LiveConfigAction}"
  by (induction rule: rtranclp_induct) (auto simp: lifecycle_move_def)

lemma tombstoned_in: "state_of d sid = Ls_Tombstoned \<Longrightarrow> sid \<in> set (tombstones (pd_lifecycle d))"
  by (auto simp: lifecycle_state_def tombstones_def image_iff split: option.splits dest!: map_of_SomeD)

lemma listed_not_tombstoned: "e \<in> set (list_sessions now on_disk d) \<Longrightarrow> state_of d (le_session_id e) \<noteq> Ls_Tombstoned"
  using tombstoned_in by (fastforce simp: list_sessions_def Let_def split: if_splits option.splits)

section \<open>The pool and its order\<close>

definition pool_ok :: "PolytokenInner \<Rightarrow> bool" where
  "pool_ok d \<longleftrightarrow> hm_wf (pd_warm d) \<and> distinct (pd_order d) \<and> set (pd_order d) = fst ` set (pd_warm d)"

lemma pool_length: "pool_ok d \<Longrightarrow> length (pd_order d) = length (pd_warm d)"
  using distinct_card [of "pd_order d"] distinct_card [of "map fst (pd_warm d)"] by (simp add: pool_ok_def hm_wf_def)

lemma fst_hm_remove: "fst ` set (hm_remove k m) = fst ` set m - {k}"
  by (auto simp: hm_remove_def AList.delete_eq image_iff)

lemma fst_hm_insert: "fst ` set (hm_insert k v m) = insert k (fst ` set m)"
  by (simp add: hm_insert_def dom_update)

lemma pool_ok_install:
  assumes "pool_ok d"
  shows "pool_ok (focus sid (d\<lparr>pd_warm := hm_insert sid ws (pd_warm d)\<rparr>))"
  using assms by (auto simp: pool_ok_def focus_def fst_hm_insert)

lemma get_warm_in: "get_warm d x \<noteq> None \<longleftrightarrow> x \<in> fst ` set (pd_warm d)"
  by (metis get_warm_def map_of_eq_None_iff)

lemma evict_victims_pool:
  assumes "pool_ok d"
  shows "pool_ok (fst (evict_victims clock vs d))
    \<and> pd_order (fst (evict_victims clock vs d)) = filter (\<lambda>x. x \<notin> set vs) (pd_order d)
    \<and> (\<forall>x. get_warm (fst (evict_victims clock vs d)) x = (if x \<in> set vs then None else get_warm d x))"
  using assms
proof (induction vs arbitrary: clock d)
  case (Cons v vs)
  let ?d1 = "fst (evict_victim (clock 0) v d)"
  have step: "pool_ok ?d1 \<and> pd_order ?d1 = filter (\<lambda>x. x \<noteq> v) (pd_order d)
    \<and> (\<forall>x. get_warm ?d1 x = (if x = v then None else get_warm d x))"
  proof (cases "get_warm d v")
    case None
    then have "v \<notin> set (pd_order d)" using Cons.prems get_warm_in [of d v] by (auto simp: pool_ok_def)
    then have "filter (\<lambda>x. x \<noteq> v) (pd_order d) = pd_order d" by (auto simp: filter_id_conv)
    then show ?thesis using None Cons.prems by (simp add: evict_victim_def)
  next
    case (Some ws)
    then show ?thesis using Cons.prems by (auto simp: evict_victim_def pool_ok_def fst_hm_remove get_warm_def)
  qed
  then show ?case using Cons.IH [of ?d1 "\<lambda>n. clock (Suc n)"]
    by (auto simp: case_prod_beta' Let_def intro: filter_cong)
qed simp

lemma take_all_or_exact: "take n xs = xs \<or> length (take n xs) = n"
  by (cases "n \<le> length xs") simp_all

lemma eviction_victims_plan:
  assumes "\<forall>x. state_of d x \<noteq> Ls_EmptyDefault"
  shows "eviction_victims sid d = (if pd_warm_cap d \<le> 0 then []
    else take (nat (int (length (pd_order d)) - pd_warm_cap d)) (filter (eligible (Some sid) (\<lambda>x. \<not> turn_in_flight d x)) (pd_order d)))"
  using assms by (simp add: eviction_victims_def eviction_plan_take eligible_def)

lemma eviction_enough:
  assumes ok: "pool_ok d" and cap: "0 < pd_warm_cap d" and empty: "\<forall>x. state_of d x \<noteq> Ls_EmptyDefault"
    and d': "d' = fst (evict_victims clock (eviction_victims sid d) d)"
  shows "int (length (pd_warm d')) \<le> pd_warm_cap d \<or> (\<forall>x. x \<noteq> sid \<and> get_warm d' x \<noteq> None \<longrightarrow> turn_in_flight d x)"
proof -
  define vs where "vs = eviction_victims sid d"
  let ?el = "filter (eligible (Some sid) (\<lambda>x. \<not> turn_in_flight d x)) (pd_order d)"
  let ?k = "nat (int (length (pd_order d)) - pd_warm_cap d)"
  have vs: "vs = take ?k ?el" using eviction_victims_plan [OF empty, of sid] cap by (simp add: vs_def)
  have p: "pool_ok d'" "pd_order d' = filter (\<lambda>x. x \<notin> set vs) (pd_order d)"
    "\<And>x. get_warm d' x = (if x \<in> set vs then None else get_warm d x)"
    using evict_victims_pool [OF ok, of clock vs] unfolding d' vs_def [symmetric] by auto
  from take_all_or_exact [of ?k ?el] show ?thesis
  proof
    assume all: "take ?k ?el = ?el"
    have "turn_in_flight d x" if "x \<noteq> sid" "get_warm d' x \<noteq> None" for x
    proof -
      have "x \<notin> set vs" "get_warm d x \<noteq> None" using that p(3) by (auto split: if_splits)
      moreover from this have "x \<in> set (pd_order d)" using ok get_warm_in [of d x] by (simp add: pool_ok_def)
      ultimately show ?thesis using that(1) all vs by (auto simp: eligible_def)
    qed
    then show ?thesis by blast
  next
    assume k: "length (take ?k ?el) = ?k"
    have "distinct ?el" using ok by (simp add: pool_ok_def)
    then have dist: "distinct vs" unfolding vs by (rule distinct_take)
    have sub: "set vs \<subseteq> set (pd_order d)" unfolding vs by (auto dest: in_set_takeD)
    have "set (pd_order d') = set (pd_order d) - set vs" using p(2) by auto
    then have "length (pd_order d') = card (set (pd_order d) - set vs)"
      using distinct_card [of "pd_order d'"] p(1) by (simp add: pool_ok_def)
    also have "\<dots> = length (pd_order d) - length vs"
      using sub dist ok distinct_card [of "pd_order d"] distinct_card [of vs] by (simp add: card_Diff_subset pool_ok_def)
    finally have "length (pd_warm d') = length (pd_order d) - ?k" using pool_length [OF p(1)] k vs by simp
    then show ?thesis using cap by auto
  qed
qed

section \<open>Properties\<close>

text \<open>A driver with no sessions, a store that persists every state of one session, and answers that all succeed.\<close>

definition state_code :: "LifecycleState \<Rightarrow> string" where
  "state_code st = (case st of Ls_EmptyDefault \<Rightarrow> ''e'' | Ls_AcceptedPrompt \<Rightarrow> ''a'' | Ls_LiveConfigAction \<Rightarrow> ''l''
     | Ls_DestroyPending \<Rightarrow> ''d'' | Ls_Tombstoned \<Rightarrow> ''t'' | Ls_Unknown \<Rightarrow> ''u'')"

definition sample_li :: LifecycleIo where
  "sample_li = \<lparr>li_codec = \<lparr>to_string_pretty = (\<lambda>m. Inr (concat (map (\<lambda>(k, st). k @ state_code st) m))), from_json = (\<lambda>_. None)\<rparr>,
     li_outcome = \<lparr>po_write = Written, po_rename = None\<rparr>\<rparr>"

definition sample_driver :: PolytokenInner where
  "sample_driver = \<lparr>pd_sessions_dir = ''/d'', pd_warm_cap = 2, pd_is_fake = False, pd_has_fake_control = False,
     pd_archive_store = \<lparr>as_file = ''f'', as_archived = []\<rparr>, pd_lifecycle = \<lparr>lc_states = [], lc_load_error = None\<rparr>,
     pd_lifecycle_disk = Absent, pd_order = [], pd_warm = []\<rparr>"

definition warm_driver :: PolytokenInner where
  "warm_driver = sample_driver\<lparr>pd_order := [''a'', ''b''], pd_warm := [(''a'', sample_session), (''b'', sample_session)]\<rparr>"

definition accepted_prompt :: PromptAccepted where
  "accepted_prompt = \<lparr>pa_prompt_id = ''p'', pa_queued_item = None, pa_resolved_references = None, pa_session_id = ''a''\<rparr>"

definition ready_install :: InstallIo where
  "ready_install = \<lparr>ii_healthy = True, ii_lease = None, ii_connected = Connected,
     ii_state = \<lparr>sp_status = 200, sp_error = None, sp_data = Some busy_state\<rparr>, ii_monitor = Inr Mon_Standard,
     ii_autodrain = Inr False, ii_now = 0, ii_clock = (\<lambda>_. ''t'')\<rparr>"

text \<open>
  Property C15. Lifecycle decisions are final. Whatever operations run one after the other, a destroyed session stays
  destroyed and is never listed again, and a session with an accepted prompt or a changed setting is never
  destroyed.
\<close>

theorem lifecycle_decisions_hold:
  assumes "driver_step\<^sup>*\<^sup>* d d'"
  shows "(is_tombstoned (pd_lifecycle d) sid \<longrightarrow> is_tombstoned (pd_lifecycle d') sid
      \<and> (\<forall>e \<in> set (list_sessions now on_disk d'). le_session_id e \<noteq> sid))
    \<and> (state_of d sid \<in> {Ls_AcceptedPrompt, Ls_LiveConfigAction} \<longrightarrow> state_of d' sid \<in> {Ls_AcceptedPrompt, Ls_LiveConfigAction})"
  using move_tombstoned move_populated driver_steps_moves [OF assms, of sid] listed_not_tombstoned
  by (fastforce simp: is_tombstoned_def)

theorem lifecycle_decisions_hold_witness:
  "\<not> is_tombstoned (pd_lifecycle (fst (destroy_session sample_li sample_li ''/d/a/session.json''
      (fst (prompt sample_li (\<lambda>_. ''t'') ''0'' (Inr accepted_prompt) ''hi'' (Some ''a'') [] None warm_driver))))) ''a''"
proof -
  let ?d1 = "fst (prompt sample_li (\<lambda>_. ''t'') ''0'' (Inr accepted_prompt) ''hi'' (Some ''a'') [] None warm_driver)"
  have "state_of ?d1 ''a'' = Ls_AcceptedPrompt"
    by (simp add: prompt_def prompt_begin_def prompt_finish_def warm_driver_def sample_driver_def ensure_healthy_def lifecycle_state_def
        get_warm_def focus_def set_state_def set_lifecycle_def persist_lifecycle_def fs_write_def sample_li_def hm_insert_def
        accepted_prompt_def state_code_def Let_def)
  moreover have "driver_step\<^sup>*\<^sup>* ?d1 (fst (destroy_session sample_li sample_li ''/d/a/session.json'' ?d1))"
    by (blast intro: driver_step.step_destroy)
  ultimately show ?thesis using lifecycle_decisions_hold [of ?d1 _ "''a''"] by (fastforce simp: is_tombstoned_def)
qed

text \<open>
  The exception is an operation that suspends. A prompt checks the lifecycle before it talks to the
  daemon and records the accepted prompt afterwards without looking again: when the session is
  destroyed in between, the record overwrites the tombstone and the session is no longer destroyed.
\<close>

theorem late_prompt_resurrects:
  assumes "destroy_finish li sid d = (d1, Inr ())" "ensure_healthy (pd_lifecycle d) = Inr ()"
    and "prompt_finish li' clock millis (Inr accepted) tx images prompt_id sid ws d1 = (d2, es, r)"
  shows "is_tombstoned (pd_lifecycle d1) sid \<and> state_of d2 sid = Ls_AcceptedPrompt"
proof -
  have set: "pd_lifecycle d1 = pd_lifecycle (fst (set_state li sid Ls_Tombstoned d))"
    using assms(1) by (auto simp: destroy_finish_def split: prod.splits sum.splits)
  then have "state_of d1 sid = Ls_Tombstoned" using assms(2) by (simp add: set_state_lifecycle)
  moreover have "ensure_healthy (pd_lifecycle d1) = Inr ()"
    using assms(2) set by (simp add: set_state_def set_lifecycle_def ensure_healthy_def Let_def split: prod.splits option.splits)
  moreover have "pd_lifecycle d2 = pd_lifecycle (fst (set_state li' sid Ls_AcceptedPrompt d1))"
    using assms(3) by (auto simp: prompt_finish_def Let_def split: prod.splits sum.splits option.splits)
  ultimately show ?thesis by (simp add: is_tombstoned_def set_state_lifecycle)
qed

theorem late_prompt_resurrects_witness:
  "\<exists>d0 ws d1 d2 d3 es r. prompt_begin (Some ''a'') warm_driver = (d0, Inr ws)
    \<and> destroy_begin sample_li ''/d/a/session.json'' d0 = (d1, Inr (Some ''a''))
    \<and> destroy_finish sample_li ''a'' d1 = (d2, Inr ())
    \<and> prompt_finish sample_li (\<lambda>_. ''t'') ''0'' (Inr accepted_prompt) ''hi'' [] None ''a'' ws d2 = (d3, es, r)
    \<and> is_tombstoned (pd_lifecycle d2) ''a'' \<and> \<not> is_tombstoned (pd_lifecycle d3) ''a''"
proof -
  have 0: "prompt_begin (Some ''a'') warm_driver = (focus ''a'' warm_driver, Inr sample_session)"
    by (simp add: prompt_begin_def warm_driver_def sample_driver_def ensure_healthy_def lifecycle_state_def get_warm_def)
  have comps: "components ''/d/a/session.json'' = [RootDir, Normal ''d'', Normal ''a'', Normal ''session.json'']"
    by (simp add: components_def is_absolute_def path_names_def component_of_def)
  obtain d1 where 1: "destroy_begin sample_li ''/d/a/session.json'' (focus ''a'' warm_driver) = (d1, Inr (Some ''a''))"
    and healthy: "ensure_healthy (pd_lifecycle d1) = Inr ()"
    by (simp add: destroy_begin_def parent_name_def comps session_json_path_def join_path_def is_absolute_def warm_driver_def
        sample_driver_def focus_def lifecycle_state_def set_state_def set_lifecycle_def ensure_healthy_def persist_lifecycle_def
        fs_write_def sample_li_def)
  have "snd (set_state sample_li ''a'' Ls_Tombstoned d1) = Inr ()"
    using healthy by (simp add: set_state_def set_lifecycle_def persist_lifecycle_def fs_write_def sample_li_def Let_def)
  then obtain d2 where 2: "destroy_finish sample_li ''a'' d1 = (d2, Inr ())"
    by (cases "set_state sample_li ''a'' Ls_Tombstoned d1") (simp add: destroy_finish_def)
  obtain d3 es r where 3: "prompt_finish sample_li (\<lambda>_. ''t'') ''0'' (Inr accepted_prompt) ''hi'' [] None ''a'' sample_session d2 = (d3, es, r)"
    by (metis prod_cases3)
  show ?thesis using late_prompt_resurrects [OF 2 healthy 3] 0 1 2 3 by (fastforce simp: is_tombstoned_def)
qed



text \<open>
  Detaching a session does not take it out of the order, and neither do reloads and the disposal of idle
  sessions. The cap then counts sessions that are gone: with a cap of two and one of two
  sessions detached, opening another evicts the only other warm session although two would fit.
\<close>

theorem stale_order_evicts_early:
  assumes "pd_order d = [a, b]" "pd_warm_cap d = 2" "get_warm d a = Some wa" "\<not> in_flight wa"
    and "\<forall>x. state_of d x \<noteq> Ls_EmptyDefault" "driver_session_id_from_path path = Some b" "get_warm d b = Some wb"
    and "a \<noteq> b" "c \<noteq> a" "c \<noteq> b"
    and "install_warm io c c ref workspace (fst (detach_session now path d)) = (d', es, Inr ws)"
  shows "get_warm d' a = None \<and> get_warm d' b = None"
proof -
  define d1 where "d1 = fst (detach_session now path d)"
  define d2 where "d2 = focus c (d1\<lparr>pd_warm := hm_insert c ws (pd_warm d1)\<rparr>)"
  have d1: "pd_order d1 = [a, b]" "pd_warm_cap d1 = 2" "pd_lifecycle d1 = pd_lifecycle d" "get_warm d1 a = Some wa" "get_warm d1 b = None"
    using assms(1-8) by (simp_all add: d1_def detach_session_def get_warm_def)
  have d2: "pd_order d2 = [a, b, c]" "pd_warm_cap d2 = 2" "pd_lifecycle d2 = pd_lifecycle d" "get_warm d2 a = Some wa" "get_warm d2 b = None"
    using d1 assms(9,10) by (simp_all add: d2_def focus_def get_warm_def)
  have "eviction_victims c d2 = [a]"
    using eviction_victims_plan [of d2 c] assms(4,5,8,9) d2 by (simp add: eligible_def turn_in_flight_def)
  moreover have "d' = fst (evict_victims (ii_clock io) (eviction_victims c d2) d2)"
    using assms(11) by (auto simp: install_warm_def d1_def [symmetric] d2_def Let_def split: sum.splits prod.splits)
  ultimately show ?thesis using d2(4,5) by (simp add: evict_victim_def get_warm_def)
qed

theorem stale_order_evicts_early_witness:
  "\<exists>d' es ws. install_warm ready_install ''c'' ''c'' sample_ref (ws_workspace sample_session)
      (fst (detach_session ''t'' ''/d/b/session.json'' warm_driver)) = (d', es, Inr ws)
    \<and> get_warm d' ''a'' = None \<and> get_warm d' ''b'' = None"
proof -
  obtain d' es r where i: "install_warm ready_install ''c'' ''c'' sample_ref (ws_workspace sample_session)
      (fst (detach_session ''t'' ''/d/b/session.json'' warm_driver)) = (d', es, r)" by (metis prod_cases3)
  then obtain ws where r: "r = Inr ws"
    by (auto simp: install_warm_def hydrate_def ready_install_def Let_def split: prod.splits)
  have "get_warm d' ''a'' = None \<and> get_warm d' ''b'' = None"
    by (rule stale_order_evicts_early [OF _ _ _ _ _ _ _ _ _ _ i [unfolded r], where wa = sample_session and wb = sample_session])
      (simp_all add: warm_driver_def sample_driver_def get_warm_def in_flight_def sample_session_def lifecycle_state_def
        driver_session_id_from_path_def)
  then show ?thesis using i r by blast
qed

end
