(* ===== verification/Wire_Client.thy ===== *)
theory Wire_Client
  imports Polytoken_Driver "HOL-Library.Monad_Syntax"
begin

text \<open>
  The client-to-server messages and their ingress (\<^verbatim>\<open>pantoken-protocol/src/wire.rs\<close>): the shape check
  that runs before the decoder, the decoder that the \<^verbatim>\<open>serde\<close> attributes of the types describe, and
  the encoder they describe for the other direction. A JSON object is an association list; the
  lookups use the first entry of a key.
\<close>

section \<open>Messages\<close>

datatype DeliveryMode = Dv_Steer | Dv_FollowUp

type_synonym NewSessionModel = string

datatype ClientMessage =
    C_Hello "string option" "ResumeToken option"
  | C_Prompt "string option" string "ImageContent list option" "DeliveryMode option" "SessionId option"
  | C_Abort "string option" "SessionId option"
  | C_RestoreQueue "SessionId option"
  | C_RespondUi HostUiResponse "SessionId option"
  | C_SessionAction SessionAction "SessionId option"
  | C_DestroySession string
  | C_SetLoginShell "string option"
  | C_SetBackgroundModel "string option"
  | C_OpenSession string
  | C_ReloadSession string
  | C_Branch string "bool option" "SessionId option"
  | C_NewSession "string option" "NewSessionModel option" "string option" "string option"
      "PermissionMonitorMode option" "string option" "string option" "ImageContent list option"
  | C_ListSessions
  | C_SetArchived string bool
  | C_RenameSession string string
  | C_DetachSession string
  | C_ListCommands
  | C_ListFacets
  | C_FetchJobs
  | C_DeleteTodo i64
  | C_QueryFiles string "string option" "bool option"
  | C_QueryDir "string option" nat
  | C_StatPath string nat
  | C_TrustResponse string "i64 option"
  | C_ApplyUpdate
  | C_ForceUpdate
  | C_RequestSeed "SessionId option"
  | C_Mock string
  | C_OpenDataDir
  | C_Ping

section \<open>JSON values\<close>

type_synonym json_object = "(string \<times> json_value) list"

text \<open>
  The integer views of a number. A number token without sign, fraction and exponent that fits 64 bits
  is an unsigned integer, with a minus sign (and not zero) a signed one; every other token is a float.
\<close>

definition as_u64 :: "json_value \<Rightarrow> nat option" where
  "as_u64 v = (case v of
     J_Number t \<Rightarrow> if t \<noteq> [] \<and> list_all is_ascii_digit t \<and> digits_value t < 2 ^ 64 then Some (digits_value t) else None
   | _ \<Rightarrow> None)"

definition as_i64 :: "json_value \<Rightarrow> i64 option" where
  "as_i64 v = (case v of
     J_Number (c # t) \<Rightarrow>
       if c = CHR ''-''
       then (if t \<noteq> [] \<and> list_all is_ascii_digit t \<and> 0 < digits_value t \<and> digits_value t \<le> 2 ^ 63
             then Some (- int (digits_value t)) else None)
       else Option.bind (as_u64 v) (\<lambda>n. if n < 2 ^ 63 then Some (int n) else None)
   | _ \<Rightarrow> None)"

definition as_bool :: "json_value \<Rightarrow> bool option" where
  "as_bool v = (case v of J_Bool b \<Rightarrow> Some b | _ \<Rightarrow> None)"

definition is_some_and :: "'a option \<Rightarrow> ('a \<Rightarrow> bool) \<Rightarrow> bool" where
  "is_some_and x p = (case x of Some a \<Rightarrow> p a | None \<Rightarrow> False)"

section \<open>Field predicates\<close>

type_synonym WireValidationError = string

definition json_is_string :: "json_value \<Rightarrow> bool" where
  "json_is_string v = (as_str v \<noteq> None)"

definition json_is_bool :: "json_value \<Rightarrow> bool" where
  "json_is_bool v = (as_bool v \<noteq> None)"

definition MAX_SAFE_WIRE_INTEGER :: nat where
  "MAX_SAFE_WIRE_INTEGER = 9007199254740991"

definition json_is_u64 :: "json_value \<Rightarrow> bool" where
  "json_is_u64 v = is_some_and (as_u64 v) (\<lambda>n. n \<le> MAX_SAFE_WIRE_INTEGER)"

definition json_is_i64 :: "json_value \<Rightarrow> bool" where
  "json_is_i64 v = is_some_and (as_i64 v) (\<lambda>n. nat \<bar>n\<bar> \<le> MAX_SAFE_WIRE_INTEGER)"

definition json_is_nullable_string :: "json_value \<Rightarrow> bool" where
  "json_is_nullable_string v = (v = J_Null \<or> json_is_string v)"

definition json_require :: "json_object \<Rightarrow> string \<Rightarrow> (json_value \<Rightarrow> bool) \<Rightarrow> WireValidationError + unit" where
  "json_require obj key predicate = (case map_of obj key of
     Some v \<Rightarrow> if predicate v then Inr () else Inl (key @ '' has the wrong type'')
   | None \<Rightarrow> Inl (''missing required field: '' @ key))"

definition json_optional :: "json_object \<Rightarrow> string \<Rightarrow> (json_value \<Rightarrow> bool) \<Rightarrow> WireValidationError + unit" where
  "json_optional obj key predicate = (case map_of obj key of
     Some v \<Rightarrow> if predicate v then Inr () else Inl (key @ '' has the wrong type'')
   | None \<Rightarrow> Inr ())"

definition is_ok :: "'e + 'a \<Rightarrow> bool" where
  "is_ok r = (case r of Inl _ \<Rightarrow> False | Inr _ \<Rightarrow> True)"

definition json_array_of :: "json_value \<Rightarrow> (json_value \<Rightarrow> bool) \<Rightarrow> bool" where
  "json_array_of v predicate = is_some_and (as_array v) (list_all predicate)"

text \<open>The checks that a text is one of the words of an enum.\<close>

definition one_of :: "string list \<Rightarrow> json_value \<Rightarrow> bool" where
  "one_of ws v = is_some_and (as_str v) (\<lambda>s. s \<in> set ws)"

definition delivery_words :: "string list" where
  "delivery_words = [''steer'', ''followUp'']"

definition monitor_words :: "string list" where
  "monitor_words = [''standard'', ''bypass'', ''bypass_plus'', ''autonomous'']"

definition mcp_action_words :: "string list" where
  "mcp_action_words = [''enable'', ''disable'', ''disconnect'', ''reconnect'']"

section \<open>The shape check\<close>

definition json_is_image :: "json_value \<Rightarrow> bool" where
  "json_is_image v = is_some_and (as_object v) (\<lambda>obj.
     Option.bind (map_of obj ''type'') as_str = Some ''image''
     \<and> is_some_and (map_of obj ''data'') json_is_string
     \<and> is_some_and (map_of obj ''mimeType'') json_is_string)"

definition json_is_resume :: "json_value \<Rightarrow> bool" where
  "json_is_resume v = is_some_and (as_object v) (\<lambda>obj.
     is_ok (json_require obj ''sessionId'' json_is_string)
     \<and> is_ok (json_require obj ''epoch'' json_is_u64)
     \<and> is_ok (json_require obj ''seq'' json_is_u64))"

definition json_is_qna_answer :: "json_value \<Rightarrow> bool" where
  "json_is_qna_answer v = is_some_and (as_object v) (\<lambda>obj.
     is_ok (json_require obj ''selectedOptionIndices'' (\<lambda>v. json_array_of v json_is_i64))
     \<and> is_ok (json_require obj ''customText'' json_is_string))"

definition contains_key :: "json_object \<Rightarrow> string \<Rightarrow> bool" where
  "contains_key obj key = (map_of obj key \<noteq> None)"

definition json_is_host_ui_response :: "json_value \<Rightarrow> bool" where
  "json_is_host_ui_response v = is_some_and (as_object v) (\<lambda>obj.
     if \<not> is_ok (json_require obj ''requestId'' json_is_string) then False
     else if contains_key obj ''value''
     then is_ok (json_require obj ''value'' json_is_string) \<and> is_ok (json_optional obj ''feedback'' json_is_string)
     else if contains_key obj ''confirmed'' then is_ok (json_require obj ''confirmed'' json_is_bool)
     else if contains_key obj ''answers''
     then is_ok (json_require obj ''answers'' (\<lambda>v. json_array_of v json_is_qna_answer))
     else map_of obj ''cancelled'' = Some (J_Bool True))"

definition payload_free_actions :: "string list" where
  "payload_free_actions = [''toggleAdventurousHandoff'', ''compact'', ''clearContext'', ''resetShell'', ''daemonReload'',
     ''goalPause'', ''goalResume'', ''goalClear'']"

definition json_is_session_action :: "json_value \<Rightarrow> bool" where
  "json_is_session_action v = is_some_and (as_object v) (\<lambda>obj.
     is_some_and (Option.bind (map_of obj ''kind'') as_str) (\<lambda>kind.
       if kind \<in> set payload_free_actions then True
       else if kind = ''setNotificationAutodrain'' then is_ok (json_require obj ''enabled'' json_is_bool)
       else if kind = ''setMcpServer''
       then is_ok (json_require obj ''serverName'' json_is_string) \<and> is_ok (json_require obj ''action'' (one_of mcp_action_words))
       else if kind = ''setModel''
       then is_ok (json_require obj ''modelId'' json_is_string) \<and> is_ok (json_optional obj ''thinkingLevel'' json_is_string)
       else if kind = ''setThinking'' then is_ok (json_require obj ''level'' json_is_string)
       else if kind = ''setFacet'' then is_ok (json_require obj ''facet'' json_is_string)
       else if kind = ''setPermissionMonitor'' then is_ok (json_require obj ''mode'' (one_of monitor_words))
       else if kind = ''goalSet'' then is_ok (json_require obj ''summary'' json_is_string)
       else if kind = ''setTitle'' then is_ok (json_require obj ''title'' json_is_string)
       else False))"

text \<open>A sequence of checks that stops at the first error.\<close>

fun all_ok :: "('e + unit) list \<Rightarrow> 'e + unit" where
  "all_ok [] = Inr ()"
| "all_ok (Inl e # rs) = Inl e"
| "all_ok (Inr _ # rs) = all_ok rs"

definition json_is_images :: "json_value \<Rightarrow> bool" where
  "json_is_images v = json_array_of v json_is_image"

definition json_is_new_model :: "json_value \<Rightarrow> bool" where
  "json_is_new_model v = is_some_and (as_object v) (\<lambda>model. is_ok (json_require model ''modelId'' json_is_string))"

definition bare_messages :: "string list" where
  "bare_messages = [''listSessions'', ''listCommands'', ''listFacets'', ''fetchJobs'', ''applyUpdate'', ''forceUpdate'',
     ''openDataDir'', ''ping'']"

definition validate_client_message_shape :: "json_object \<Rightarrow> string \<Rightarrow> WireValidationError + unit" where
  "validate_client_message_shape obj kind =
    (if kind = ''hello''
     then all_ok [json_optional obj ''auth'' json_is_string,
       case map_of obj ''resume'' of
         Some resume \<Rightarrow> if json_is_resume resume then Inr () else Inl ''invalid hello.resume''
       | None \<Rightarrow> Inr ()]
     else if kind = ''prompt''
     then all_ok [json_require obj ''text'' json_is_string, json_optional obj ''promptId'' json_is_string,
       json_optional obj ''images'' json_is_images, json_optional obj ''deliverAs'' (one_of delivery_words),
       json_optional obj ''sessionId'' json_is_string]
     else if kind = ''abort''
     then all_ok [json_optional obj ''requestId'' json_is_string, json_optional obj ''sessionId'' json_is_string]
     else if kind = ''restoreQueue'' \<or> kind = ''requestSeed''
     then json_optional obj ''sessionId'' json_is_string
     else if kind = ''respondUi''
     then all_ok [json_require obj ''response'' json_is_host_ui_response, json_optional obj ''sessionId'' json_is_string]
     else if kind = ''sessionAction''
     then all_ok [json_require obj ''action'' json_is_session_action, json_optional obj ''sessionId'' json_is_string]
     else if kind = ''destroySession'' \<or> kind = ''openSession'' \<or> kind = ''reloadSession''
     then json_require obj ''path'' json_is_string
     else if kind = ''setLoginShell'' then json_require obj ''path'' json_is_nullable_string
     else if kind = ''setBackgroundModel'' then json_require obj ''spec'' json_is_nullable_string
     else if kind = ''branch''
     then all_ok [json_require obj ''entryId'' json_is_string, json_optional obj ''summarize'' json_is_bool,
       json_optional obj ''sessionId'' json_is_string]
     else if kind = ''newSession''
     then all_ok [json_optional obj ''cwd'' json_is_string, json_optional obj ''model'' json_is_new_model,
       json_optional obj ''thinking'' json_is_string, json_optional obj ''facet'' json_is_string,
       json_optional obj ''permissionMonitor'' (one_of monitor_words), json_optional obj ''prompt'' json_is_string,
       json_optional obj ''promptId'' json_is_string, json_optional obj ''images'' json_is_images]
     else if kind \<in> set bare_messages then Inr ()
     else if kind = ''setArchived''
     then all_ok [json_require obj ''path'' json_is_string, json_require obj ''archived'' json_is_bool]
     else if kind = ''renameSession''
     then all_ok [json_require obj ''path'' json_is_string, json_require obj ''name'' json_is_string]
     else if kind = ''detachSession'' then json_require obj ''path'' json_is_string
     else if kind = ''deleteTodo'' then json_require obj ''id'' json_is_i64
     else if kind = ''queryFiles''
     then all_ok [json_require obj ''query'' json_is_string, json_optional obj ''cwd'' json_is_string,
       json_optional obj ''includeIgnored'' json_is_bool]
     else if kind = ''queryDir''
     then all_ok [json_optional obj ''path'' json_is_string, json_require obj ''requestId'' json_is_u64]
     else if kind = ''statPath''
     then all_ok [json_require obj ''path'' json_is_string, json_require obj ''requestId'' json_is_u64]
     else if kind = ''trustResponse''
     then all_ok [json_require obj ''requestId'' json_is_string,
       json_require obj ''choice'' (\<lambda>v. v = J_Null \<or> json_is_i64 v)]
     else if kind = ''mock'' then json_require obj ''script'' json_is_string
     else Inl (''unknown client message type: '' @ kind))"

section \<open>The derived decoder\<close>

text \<open>
  A field of a non-optional type must be present and decode. A field of an optional type is absent
  or null, or decodes. Other fields are ignored.
\<close>

definition field :: "json_object \<Rightarrow> string \<Rightarrow> (json_value \<Rightarrow> 'a option) \<Rightarrow> 'a option" where
  "field obj key d = Option.bind (map_of obj key) d"

definition opt_value :: "(json_value \<Rightarrow> 'a option) \<Rightarrow> json_value option \<Rightarrow> 'a option option" where
  "opt_value d x = (case x of
     None \<Rightarrow> Some None
   | Some v \<Rightarrow> if v = J_Null then Some None else map_option Some (d v))"

definition opt_field :: "json_object \<Rightarrow> string \<Rightarrow> (json_value \<Rightarrow> 'a option) \<Rightarrow> 'a option option" where
  "opt_field obj key d = opt_value d (map_of obj key)"

fun decode_list :: "(json_value \<Rightarrow> 'a option) \<Rightarrow> json_value list \<Rightarrow> 'a list option" where
  "decode_list d [] = Some []"
| "decode_list d (v # vs) = (case d v of None \<Rightarrow> None | Some a \<Rightarrow> map_option (Cons a) (decode_list d vs))"

definition de_list :: "(json_value \<Rightarrow> 'a option) \<Rightarrow> json_value \<Rightarrow> 'a list option" where
  "de_list d v = Option.bind (as_array v) (decode_list d)"

definition de_word :: "(string \<times> 'a) list \<Rightarrow> json_value \<Rightarrow> 'a option" where
  "de_word ws v = Option.bind (as_str v) (map_of ws)"

definition delivery_codes :: "(string \<times> DeliveryMode) list" where
  "delivery_codes = [(''steer'', Dv_Steer), (''followUp'', Dv_FollowUp)]"

definition monitor_codes :: "(string \<times> PermissionMonitorMode) list" where
  "monitor_codes = [(''standard'', Pm_Standard), (''bypass'', Pm_Bypass), (''bypass_plus'', Pm_BypassPlus),
     (''autonomous'', Pm_Autonomous)]"

definition mcp_action_codes :: "(string \<times> McpAction) list" where
  "mcp_action_codes = [(''enable'', Ma_Enable), (''disable'', Ma_Disable), (''disconnect'', Ma_Disconnect),
     (''reconnect'', Ma_Reconnect)]"

definition de_image :: "json_value \<Rightarrow> ImageContent option" where
  "de_image v = do {
     obj \<leftarrow> as_object v;
     kind \<leftarrow> field obj ''type'' as_str;
     data \<leftarrow> field obj ''data'' as_str;
     mime \<leftarrow> field obj ''mimeType'' as_str;
     if kind = ''image'' then Some (Image data mime) else None }"

definition de_resume :: "json_value \<Rightarrow> ResumeToken option" where
  "de_resume v = do {
     obj \<leftarrow> as_object v;
     sid \<leftarrow> field obj ''sessionId'' as_str;
     epoch \<leftarrow> field obj ''epoch'' as_u64;
     seq \<leftarrow> field obj ''seq'' as_u64;
     Some \<lparr>rk_session_id = sid, rk_epoch = epoch, rk_seq = seq\<rparr> }"

definition de_qna_answer :: "json_value \<Rightarrow> QnaAnswer option" where
  "de_qna_answer v = do {
     obj \<leftarrow> as_object v;
     ixs \<leftarrow> field obj ''selectedOptionIndices'' (de_list as_i64);
     t \<leftarrow> field obj ''customText'' as_str;
     Some \<lparr>qa_selected_option_indices = ixs, qa_custom_text = t\<rparr> }"

text \<open>An untagged enum: the first variant whose fields decode.\<close>

definition or_else :: "'a option \<Rightarrow> 'a option \<Rightarrow> 'a option" where
  "or_else a b = (case a of Some x \<Rightarrow> Some x | None \<Rightarrow> b)"

definition de_response :: "json_value \<Rightarrow> HostUiResponse option" where
  "de_response v = do {
     obj \<leftarrow> as_object v;
     rid \<leftarrow> field obj ''requestId'' as_str;
     or_else (do { x \<leftarrow> field obj ''value'' as_str; f \<leftarrow> opt_field obj ''feedback'' as_str; Some (R_Value rid x f) })
      (or_else (do { b \<leftarrow> field obj ''confirmed'' as_bool; Some (R_Confirmed rid b) })
       (or_else (do { a \<leftarrow> field obj ''answers'' (de_list de_qna_answer); Some (R_Answers rid a) })
        (do { b \<leftarrow> field obj ''cancelled'' as_bool; Some (R_Cancelled rid b) }))) }"

definition de_action :: "json_value \<Rightarrow> SessionAction option" where
  "de_action v = do {
     obj \<leftarrow> as_object v;
     kind \<leftarrow> field obj ''kind'' as_str;
     if kind = ''toggleAdventurousHandoff'' then Some Sa_ToggleAdventurousHandoff
     else if kind = ''setNotificationAutodrain'' then do { b \<leftarrow> field obj ''enabled'' as_bool; Some (Sa_SetNotificationAutodrain b) }
     else if kind = ''compact'' then Some Sa_Compact
     else if kind = ''clearContext'' then Some Sa_ClearContext
     else if kind = ''setMcpServer'' then do {
       n \<leftarrow> field obj ''serverName'' as_str; a \<leftarrow> field obj ''action'' (de_word mcp_action_codes); Some (Sa_SetMcpServer n a) }
     else if kind = ''setModel'' then do {
       m \<leftarrow> field obj ''modelId'' as_str; l \<leftarrow> opt_field obj ''thinkingLevel'' as_str; Some (Sa_SetModel m l) }
     else if kind = ''setThinking'' then do { l \<leftarrow> field obj ''level'' as_str; Some (Sa_SetThinking l) }
     else if kind = ''setFacet'' then do { f \<leftarrow> field obj ''facet'' as_str; Some (Sa_SetFacet f) }
     else if kind = ''setPermissionMonitor'' then do { m \<leftarrow> field obj ''mode'' (de_word monitor_codes); Some (Sa_SetPermissionMonitor m) }
     else if kind = ''resetShell'' then Some Sa_ResetShell
     else if kind = ''daemonReload'' then Some Sa_DaemonReload
     else if kind = ''goalSet'' then do { s \<leftarrow> field obj ''summary'' as_str; Some (Sa_GoalSet s) }
     else if kind = ''goalPause'' then Some Sa_GoalPause
     else if kind = ''goalResume'' then Some Sa_GoalResume
     else if kind = ''goalClear'' then Some Sa_GoalClear
     else if kind = ''setTitle'' then do { t \<leftarrow> field obj ''title'' as_str; Some (Sa_SetTitle t) }
     else None }"

definition de_new_model :: "json_value \<Rightarrow> NewSessionModel option" where
  "de_new_model v = Option.bind (as_object v) (\<lambda>obj. field obj ''modelId'' as_str)"

definition client_of_json :: "json_object \<Rightarrow> string \<Rightarrow> ClientMessage option" where
  "client_of_json obj kind =
    (if kind = ''hello'' then do {
       a \<leftarrow> opt_field obj ''auth'' as_str; r \<leftarrow> opt_field obj ''resume'' de_resume; Some (C_Hello a r) }
     else if kind = ''prompt'' then do {
       p \<leftarrow> opt_field obj ''promptId'' as_str; t \<leftarrow> field obj ''text'' as_str; i \<leftarrow> opt_field obj ''images'' (de_list de_image);
       d \<leftarrow> opt_field obj ''deliverAs'' (de_word delivery_codes); s \<leftarrow> opt_field obj ''sessionId'' as_str;
       Some (C_Prompt p t i d s) }
     else if kind = ''abort'' then do {
       r \<leftarrow> opt_field obj ''requestId'' as_str; s \<leftarrow> opt_field obj ''sessionId'' as_str; Some (C_Abort r s) }
     else if kind = ''restoreQueue'' then do { s \<leftarrow> opt_field obj ''sessionId'' as_str; Some (C_RestoreQueue s) }
     else if kind = ''respondUi'' then do {
       r \<leftarrow> field obj ''response'' de_response; s \<leftarrow> opt_field obj ''sessionId'' as_str; Some (C_RespondUi r s) }
     else if kind = ''sessionAction'' then do {
       a \<leftarrow> field obj ''action'' de_action; s \<leftarrow> opt_field obj ''sessionId'' as_str; Some (C_SessionAction a s) }
     else if kind = ''destroySession'' then do { p \<leftarrow> field obj ''path'' as_str; Some (C_DestroySession p) }
     else if kind = ''setLoginShell'' then do { p \<leftarrow> opt_field obj ''path'' as_str; Some (C_SetLoginShell p) }
     else if kind = ''setBackgroundModel'' then do { p \<leftarrow> opt_field obj ''spec'' as_str; Some (C_SetBackgroundModel p) }
     else if kind = ''openSession'' then do { p \<leftarrow> field obj ''path'' as_str; Some (C_OpenSession p) }
     else if kind = ''reloadSession'' then do { p \<leftarrow> field obj ''path'' as_str; Some (C_ReloadSession p) }
     else if kind = ''branch'' then do {
       e \<leftarrow> field obj ''entryId'' as_str; b \<leftarrow> opt_field obj ''summarize'' as_bool; s \<leftarrow> opt_field obj ''sessionId'' as_str;
       Some (C_Branch e b s) }
     else if kind = ''newSession'' then do {
       c \<leftarrow> opt_field obj ''cwd'' as_str; m \<leftarrow> opt_field obj ''model'' de_new_model; t \<leftarrow> opt_field obj ''thinking'' as_str;
       f \<leftarrow> opt_field obj ''facet'' as_str; p \<leftarrow> opt_field obj ''permissionMonitor'' (de_word monitor_codes);
       q \<leftarrow> opt_field obj ''prompt'' as_str; r \<leftarrow> opt_field obj ''promptId'' as_str;
       i \<leftarrow> opt_field obj ''images'' (de_list de_image); Some (C_NewSession c m t f p q r i) }
     else if kind = ''listSessions'' then Some C_ListSessions
     else if kind = ''setArchived'' then do {
       p \<leftarrow> field obj ''path'' as_str; a \<leftarrow> field obj ''archived'' as_bool; Some (C_SetArchived p a) }
     else if kind = ''renameSession'' then do {
       p \<leftarrow> field obj ''path'' as_str; n \<leftarrow> field obj ''name'' as_str; Some (C_RenameSession p n) }
     else if kind = ''detachSession'' then do { p \<leftarrow> field obj ''path'' as_str; Some (C_DetachSession p) }
     else if kind = ''listCommands'' then Some C_ListCommands
     else if kind = ''listFacets'' then Some C_ListFacets
     else if kind = ''fetchJobs'' then Some C_FetchJobs
     else if kind = ''deleteTodo'' then do { i \<leftarrow> field obj ''id'' as_i64; Some (C_DeleteTodo i) }
     else if kind = ''queryFiles'' then do {
       q \<leftarrow> field obj ''query'' as_str; c \<leftarrow> opt_field obj ''cwd'' as_str; i \<leftarrow> opt_field obj ''includeIgnored'' as_bool;
       Some (C_QueryFiles q c i) }
     else if kind = ''queryDir'' then do {
       p \<leftarrow> opt_field obj ''path'' as_str; r \<leftarrow> field obj ''requestId'' as_u64; Some (C_QueryDir p r) }
     else if kind = ''statPath'' then do {
       p \<leftarrow> field obj ''path'' as_str; r \<leftarrow> field obj ''requestId'' as_u64; Some (C_StatPath p r) }
     else if kind = ''trustResponse'' then do {
       r \<leftarrow> field obj ''requestId'' as_str; c \<leftarrow> opt_field obj ''choice'' as_i64; Some (C_TrustResponse r c) }
     else if kind = ''applyUpdate'' then Some C_ApplyUpdate
     else if kind = ''forceUpdate'' then Some C_ForceUpdate
     else if kind = ''requestSeed'' then do { s \<leftarrow> opt_field obj ''sessionId'' as_str; Some (C_RequestSeed s) }
     else if kind = ''mock'' then do { s \<leftarrow> field obj ''script'' as_str; Some (C_Mock s) }
     else if kind = ''openDataDir'' then Some C_OpenDataDir
     else if kind = ''ping'' then Some C_Ping
     else None)"

section \<open>Parsing\<close>

text \<open>\<open>err\<close> is the text of a decoding error.\<close>

definition parse_client_message_value :: "string \<Rightarrow> json_value \<Rightarrow> WireValidationError + ClientMessage" where
  "parse_client_message_value err v = (case as_object v of
     None \<Rightarrow> Inl ''client message must be an object''
   | Some obj \<Rightarrow> (case Option.bind (map_of obj ''type'') as_str of
       None \<Rightarrow> Inl ''client message type must be a string''
     | Some kind \<Rightarrow> (case validate_client_message_shape obj kind of
         Inl e \<Rightarrow> Inl e
       | Inr _ \<Rightarrow> (case client_of_json obj kind of Some m \<Rightarrow> Inr m | None \<Rightarrow> Inl err))))"

definition parse_client_message :: "(string \<Rightarrow> json_value option) \<Rightarrow> string \<Rightarrow> ClientMessage option" where
  "parse_client_message from_str raw = Option.bind (from_str raw) (\<lambda>v.
     case parse_client_message_value [] v of Inr m \<Rightarrow> Some m | Inl _ \<Rightarrow> None)"

section \<open>The derived encoder\<close>

definition opt_entry :: "string \<Rightarrow> ('a \<Rightarrow> json_value) \<Rightarrow> 'a option \<Rightarrow> json_object" where
  "opt_entry key e x = (case x of None \<Rightarrow> [] | Some a \<Rightarrow> [(key, e a)])"

definition nullable :: "('a \<Rightarrow> json_value) \<Rightarrow> 'a option \<Rightarrow> json_value" where
  "nullable e x = (case x of None \<Rightarrow> J_Null | Some a \<Rightarrow> e a)"

definition json_u64 :: "nat \<Rightarrow> json_value" where
  "json_u64 n = J_Number (show_nat n)"

definition json_i64 :: "i64 \<Rightarrow> json_value" where
  "json_i64 i = J_Number (show_int i)"

definition json_list :: "('a \<Rightarrow> json_value) \<Rightarrow> 'a list \<Rightarrow> json_value" where
  "json_list e xs = J_Array (map e xs)"

abbreviation json_strs :: "string list \<Rightarrow> json_value" where
  "json_strs \<equiv> json_list J_String"

primrec delivery_word :: "DeliveryMode \<Rightarrow> string" where
  "delivery_word Dv_Steer = ''steer''"
| "delivery_word Dv_FollowUp = ''followUp''"

primrec monitor_word :: "PermissionMonitorMode \<Rightarrow> string" where
  "monitor_word Pm_Standard = ''standard''"
| "monitor_word Pm_Bypass = ''bypass''"
| "monitor_word Pm_BypassPlus = ''bypass_plus''"
| "monitor_word Pm_Autonomous = ''autonomous''"

primrec mcp_action_word :: "McpAction \<Rightarrow> string" where
  "mcp_action_word Ma_Enable = ''enable''"
| "mcp_action_word Ma_Disable = ''disable''"
| "mcp_action_word Ma_Disconnect = ''disconnect''"
| "mcp_action_word Ma_Reconnect = ''reconnect''"

primrec en_image :: "ImageContent \<Rightarrow> json_value" where
  "en_image (Image data mime) = J_Object [(''type'', J_String ''image''), (''data'', J_String data), (''mimeType'', J_String mime)]"

abbreviation en_images :: "ImageContent list \<Rightarrow> json_value" where
  "en_images \<equiv> json_list en_image"

definition en_resume :: "ResumeToken \<Rightarrow> json_value" where
  "en_resume r = J_Object [(''sessionId'', J_String (rk_session_id r)), (''epoch'', json_u64 (rk_epoch r)), (''seq'', json_u64 (rk_seq r))]"

definition en_qna_answer :: "QnaAnswer \<Rightarrow> json_value" where
  "en_qna_answer a = J_Object [(''selectedOptionIndices'', json_list json_i64 (qa_selected_option_indices a)),
     (''customText'', J_String (qa_custom_text a))]"

primrec en_response :: "HostUiResponse \<Rightarrow> json_value" where
  "en_response (R_Value rid x f) =
     J_Object ([(''requestId'', J_String rid), (''value'', J_String x)] @ opt_entry ''feedback'' J_String f)"
| "en_response (R_Confirmed rid b) = J_Object [(''requestId'', J_String rid), (''confirmed'', J_Bool b)]"
| "en_response (R_Answers rid a) = J_Object [(''requestId'', J_String rid), (''answers'', json_list en_qna_answer a)]"
| "en_response (R_Cancelled rid b) = J_Object [(''requestId'', J_String rid), (''cancelled'', J_Bool b)]"

definition tagged :: "string \<Rightarrow> string \<Rightarrow> json_object \<Rightarrow> json_value" where
  "tagged tag name fs = J_Object ((tag, J_String name) # fs)"

primrec en_action :: "SessionAction \<Rightarrow> json_value" where
  "en_action Sa_ToggleAdventurousHandoff = tagged ''kind'' ''toggleAdventurousHandoff'' []"
| "en_action (Sa_SetNotificationAutodrain b) = tagged ''kind'' ''setNotificationAutodrain'' [(''enabled'', J_Bool b)]"
| "en_action Sa_Compact = tagged ''kind'' ''compact'' []"
| "en_action Sa_ClearContext = tagged ''kind'' ''clearContext'' []"
| "en_action (Sa_SetMcpServer n a) =
     tagged ''kind'' ''setMcpServer'' [(''serverName'', J_String n), (''action'', J_String (mcp_action_word a))]"
| "en_action (Sa_SetModel m l) = tagged ''kind'' ''setModel'' ((''modelId'', J_String m) # opt_entry ''thinkingLevel'' J_String l)"
| "en_action (Sa_SetThinking l) = tagged ''kind'' ''setThinking'' [(''level'', J_String l)]"
| "en_action (Sa_SetFacet f) = tagged ''kind'' ''setFacet'' [(''facet'', J_String f)]"
| "en_action (Sa_SetPermissionMonitor m) = tagged ''kind'' ''setPermissionMonitor'' [(''mode'', J_String (monitor_word m))]"
| "en_action Sa_ResetShell = tagged ''kind'' ''resetShell'' []"
| "en_action Sa_DaemonReload = tagged ''kind'' ''daemonReload'' []"
| "en_action (Sa_GoalSet s) = tagged ''kind'' ''goalSet'' [(''summary'', J_String s)]"
| "en_action Sa_GoalPause = tagged ''kind'' ''goalPause'' []"
| "en_action Sa_GoalResume = tagged ''kind'' ''goalResume'' []"
| "en_action Sa_GoalClear = tagged ''kind'' ''goalClear'' []"
| "en_action (Sa_SetTitle t) = tagged ''kind'' ''setTitle'' [(''title'', J_String t)]"

abbreviation session_entry :: "SessionId option \<Rightarrow> json_object" where
  "session_entry s \<equiv> opt_entry ''sessionId'' J_String s"

primrec json_of_client :: "ClientMessage \<Rightarrow> json_value" where
  "json_of_client (C_Hello a r) = tagged ''type'' ''hello'' (opt_entry ''auth'' J_String a @ opt_entry ''resume'' en_resume r)"
| "json_of_client (C_Prompt p t i d s) = tagged ''type'' ''prompt'' (opt_entry ''promptId'' J_String p @ [(''text'', J_String t)]
     @ opt_entry ''images'' en_images i @ opt_entry ''deliverAs'' (J_String \<circ> delivery_word) d @ session_entry s)"
| "json_of_client (C_Abort r s) = tagged ''type'' ''abort'' (opt_entry ''requestId'' J_String r @ session_entry s)"
| "json_of_client (C_RestoreQueue s) = tagged ''type'' ''restoreQueue'' (session_entry s)"
| "json_of_client (C_RespondUi r s) = tagged ''type'' ''respondUi'' ((''response'', en_response r) # session_entry s)"
| "json_of_client (C_SessionAction a s) = tagged ''type'' ''sessionAction'' ((''action'', en_action a) # session_entry s)"
| "json_of_client (C_DestroySession p) = tagged ''type'' ''destroySession'' [(''path'', J_String p)]"
| "json_of_client (C_SetLoginShell p) = tagged ''type'' ''setLoginShell'' [(''path'', nullable J_String p)]"
| "json_of_client (C_SetBackgroundModel p) = tagged ''type'' ''setBackgroundModel'' [(''spec'', nullable J_String p)]"
| "json_of_client (C_OpenSession p) = tagged ''type'' ''openSession'' [(''path'', J_String p)]"
| "json_of_client (C_ReloadSession p) = tagged ''type'' ''reloadSession'' [(''path'', J_String p)]"
| "json_of_client (C_Branch e b s) =
     tagged ''type'' ''branch'' ((''entryId'', J_String e) # opt_entry ''summarize'' J_Bool b @ session_entry s)"
| "json_of_client (C_NewSession c m t f p q r i) = tagged ''type'' ''newSession'' (opt_entry ''cwd'' J_String c
     @ opt_entry ''model'' (\<lambda>x. J_Object [(''modelId'', J_String x)]) m @ opt_entry ''thinking'' J_String t
     @ opt_entry ''facet'' J_String f @ opt_entry ''permissionMonitor'' (J_String \<circ> monitor_word) p @ opt_entry ''prompt'' J_String q
     @ opt_entry ''promptId'' J_String r @ opt_entry ''images'' en_images i)"
| "json_of_client C_ListSessions = tagged ''type'' ''listSessions'' []"
| "json_of_client (C_SetArchived p a) = tagged ''type'' ''setArchived'' [(''path'', J_String p), (''archived'', J_Bool a)]"
| "json_of_client (C_RenameSession p n) = tagged ''type'' ''renameSession'' [(''path'', J_String p), (''name'', J_String n)]"
| "json_of_client (C_DetachSession p) = tagged ''type'' ''detachSession'' [(''path'', J_String p)]"
| "json_of_client C_ListCommands = tagged ''type'' ''listCommands'' []"
| "json_of_client C_ListFacets = tagged ''type'' ''listFacets'' []"
| "json_of_client C_FetchJobs = tagged ''type'' ''fetchJobs'' []"
| "json_of_client (C_DeleteTodo i) = tagged ''type'' ''deleteTodo'' [(''id'', json_i64 i)]"
| "json_of_client (C_QueryFiles q c i) = tagged ''type'' ''queryFiles'' ((''query'', J_String q) # opt_entry ''cwd'' J_String c
     @ opt_entry ''includeIgnored'' J_Bool i)"
| "json_of_client (C_QueryDir p r) = tagged ''type'' ''queryDir'' (opt_entry ''path'' J_String p @ [(''requestId'', json_u64 r)])"
| "json_of_client (C_StatPath p r) = tagged ''type'' ''statPath'' [(''path'', J_String p), (''requestId'', json_u64 r)]"
| "json_of_client (C_TrustResponse r c) =
     tagged ''type'' ''trustResponse'' [(''requestId'', J_String r), (''choice'', nullable json_i64 c)]"
| "json_of_client C_ApplyUpdate = tagged ''type'' ''applyUpdate'' []"
| "json_of_client C_ForceUpdate = tagged ''type'' ''forceUpdate'' []"
| "json_of_client (C_RequestSeed s) = tagged ''type'' ''requestSeed'' (session_entry s)"
| "json_of_client (C_Mock s) = tagged ''type'' ''mock'' [(''script'', J_String s)]"
| "json_of_client C_OpenDataDir = tagged ''type'' ''openDataDir'' []"
| "json_of_client C_Ping = tagged ''type'' ''ping'' []"

end
