(* ===== verification/Wire_Server.thy ===== *)
theory Wire_Server
  imports Wire_Client
begin

text \<open>
  The server-to-client direction (\<^verbatim>\<open>pantoken-protocol/src/wire.rs\<close>): the shape check of every server message and of
  the records and events they carry, the gate of \<^verbatim>\<open>parse_server_message\<close>, and the encoder that the
  \<^verbatim>\<open>serde\<close> attributes describe. The text of a float (\<open>ryu\<close>) is a parameter; a float that is not finite
  is written as null.
\<close>

section \<open>Helpers\<close>

abbreviation has_field :: "json_object \<Rightarrow> string \<Rightarrow> (json_value \<Rightarrow> bool) \<Rightarrow> bool" where
  "has_field obj key p \<equiv> is_ok (json_require obj key p)"

abbreviation may_have :: "json_object \<Rightarrow> string \<Rightarrow> (json_value \<Rightarrow> bool) \<Rightarrow> bool" where
  "may_have obj key p \<equiv> is_ok (json_optional obj key p)"

definition json_is_number :: "json_value \<Rightarrow> bool" where
  "json_is_number v = (case v of J_Number _ \<Rightarrow> True | _ \<Rightarrow> False)"

definition json_server_required_fields :: "json_object \<Rightarrow> (string \<times> (json_value \<Rightarrow> bool)) list \<Rightarrow> bool" where
  "json_server_required_fields obj fs = list_all (\<lambda>(key, predicate). is_some_and (map_of obj key) predicate) fs"

definition json_server_nullable_required :: "json_object \<Rightarrow> string \<Rightarrow> (json_value \<Rightarrow> bool) \<Rightarrow> bool" where
  "json_server_nullable_required obj key predicate = is_some_and (map_of obj key) (\<lambda>v. v = J_Null \<or> predicate v)"

section \<open>Shapes\<close>

definition json_is_resolved_ref :: "json_value \<Rightarrow> bool" where
  "json_is_resolved_ref v = is_some_and (as_object v) (\<lambda>obj.
     has_field obj ''kind'' json_is_string
     \<and> has_field obj ''name'' json_is_string
     \<and> may_have obj ''fileKind'' json_is_string)"

definition json_is_queued_message :: "json_value \<Rightarrow> bool" where
  "json_is_queued_message v = is_some_and (as_object v) (\<lambda>obj.
     has_field obj ''id'' json_is_string
     \<and> has_field obj ''mode'' (one_of [''steer'', ''followUp''])
     \<and> has_field obj ''text'' json_is_string
     \<and> has_field obj ''createdAt'' json_is_string
     \<and> has_field obj ''updatedAt'' json_is_string
     \<and> may_have obj ''references'' (\<lambda>v. json_array_of v json_is_resolved_ref))"

definition json_is_session_config :: "json_value \<Rightarrow> bool" where
  "json_is_session_config v = is_some_and (as_object v) (\<lambda>obj.
     may_have obj ''modelId'' json_is_string
     \<and> may_have obj ''thinkingLevel'' json_is_string
     \<and> may_have obj ''availableThinkingLevels'' (\<lambda>v. json_array_of v json_is_string))"

definition json_is_usage :: "json_value \<Rightarrow> bool" where
  "json_is_usage v = is_some_and (as_object v) (\<lambda>obj.
     has_field obj ''tokens'' (\<lambda>v. v = J_Null \<or> json_is_i64 v)
     \<and> has_field obj ''contextWindow'' json_is_i64
     \<and> has_field obj ''percent'' (\<lambda>v. v = J_Null \<or> json_is_number v))"

definition json_is_mcp_info :: "json_value \<Rightarrow> bool" where
  "json_is_mcp_info v = is_some_and (as_object v) (\<lambda>obj.
     has_field obj ''serverName'' json_is_string
     \<and> has_field obj ''status'' (one_of [''connected'', ''disconnected'', ''reconnecting'', ''disabled''])
     \<and> has_field obj ''toolCount'' json_is_number)"

definition json_is_diagnostic :: "json_value \<Rightarrow> bool" where
  "json_is_diagnostic v = is_some_and (as_object v) (\<lambda>obj.
     has_field obj ''kind'' (one_of [''couldNotBeParsed'', ''emptyOutput'', ''noResponse''])
     \<and> has_field obj ''message'' json_is_string)"

definition json_is_model_option :: "json_value \<Rightarrow> bool" where
  "json_is_model_option v = is_some_and (as_object v) (\<lambda>obj.
     has_field obj ''modelId'' json_is_string
     \<and> has_field obj ''label'' json_is_string
     \<and> may_have obj ''thinkingLevels'' (\<lambda>v. json_array_of v json_is_string)
     \<and> may_have obj ''defaultThinkingLevel'' json_is_string)"

definition json_is_command_info :: "json_value \<Rightarrow> bool" where
  "json_is_command_info v = is_some_and (as_object v) (\<lambda>obj.
     has_field obj ''name'' json_is_string
     \<and> has_field obj ''source'' (one_of [''extension'', ''prompt'', ''skill'', ''builtin''])
     \<and> may_have obj ''description'' json_is_string
     \<and> may_have obj ''argumentHint'' json_is_string)"

definition json_is_file_info :: "json_value \<Rightarrow> bool" where
  "json_is_file_info v = is_some_and (as_object v) (\<lambda>obj.
     has_field obj ''path'' json_is_string
     \<and> has_field obj ''isDirectory'' json_is_bool)"

definition json_is_model_defaults :: "json_value \<Rightarrow> bool" where
  "json_is_model_defaults v = is_some_and (as_object v) (\<lambda>obj.
     may_have obj ''modelId'' json_is_string
     \<and> may_have obj ''thinkingLevel'' json_is_string
     \<and> has_field obj ''favorites'' (\<lambda>v. json_array_of v json_is_string)
     \<and> may_have obj ''defaultPermissionMonitor'' (one_of monitor_words))"

definition json_is_goal :: "json_value \<Rightarrow> bool" where
  "json_is_goal v = is_some_and (as_object v) (\<lambda>obj.
     has_field obj ''summary'' json_is_string
     \<and> has_field obj ''lifecycle'' json_is_string)"

definition json_is_flagged_file :: "json_value \<Rightarrow> bool" where
  "json_is_flagged_file v = is_some_and (as_object v) (\<lambda>obj.
     has_field obj ''path'' json_is_string
     \<and> has_field obj ''mode'' (one_of [''included'', ''referenced'']))"

definition json_is_todo :: "json_value \<Rightarrow> bool" where
  "json_is_todo v = is_some_and (as_object v) (\<lambda>obj.
     has_field obj ''id'' json_is_i64
     \<and> has_field obj ''title'' json_is_string
     \<and> has_field obj ''description'' json_is_string
     \<and> has_field obj ''status'' (one_of [''pending'', ''in_progress'', ''done'', ''blocked''])
     \<and> has_field obj ''dependencies'' (\<lambda>v. json_array_of v json_is_i64)
     \<and> may_have obj ''createdAt'' json_is_string)"

definition json_is_session_attention :: "json_value \<Rightarrow> bool" where
  "json_is_session_attention v = is_some_and (as_object v) (\<lambda>obj.
     has_field obj ''sessionId'' json_is_string
     \<and> has_field obj ''phase'' (one_of [''running'', ''waiting'', ''failed'', ''done''])
     \<and> may_have obj ''activity'' json_is_string
     \<and> may_have obj ''pendingCount'' json_is_i64
     \<and> may_have obj ''pendingTitle'' json_is_string
     \<and> has_field obj ''updatedAt'' json_is_string)"

definition json_is_background_job :: "json_value \<Rightarrow> bool" where
  "json_is_background_job v = is_some_and (as_object v) (\<lambda>obj.
     has_field obj ''handle'' json_is_string
     \<and> has_field obj ''kind'' (one_of [''shell'', ''subagent''])
     \<and> has_field obj ''status'' (one_of [''reserved'', ''running'', ''completed'', ''failed'', ''cancelled''])
     \<and> has_field obj ''toolName'' json_is_string
     \<and> has_field obj ''createdAt'' json_is_string
     \<and> has_field obj ''updatedAt'' json_is_string
     \<and> may_have obj ''endedAt'' json_is_string
     \<and> may_have obj ''startedAt'' json_is_string
     \<and> may_have obj ''subagentType'' json_is_string
     \<and> may_have obj ''model'' json_is_string
     \<and> may_have obj ''subagentHandle'' json_is_string
     \<and> may_have obj ''expiring'' json_is_bool
     \<and> may_have obj ''outputTail'' json_is_string
     \<and> may_have obj ''outputBytes'' json_is_i64)"

definition json_is_workspace :: "json_value \<Rightarrow> bool" where
  "json_is_workspace v = is_some_and (as_object v) (\<lambda>obj.
     has_field obj ''workspaceId'' json_is_string
     \<and> has_field obj ''path'' json_is_string
     \<and> may_have obj ''displayName'' json_is_string)"

definition json_is_session_ref :: "json_value \<Rightarrow> bool" where
  "json_is_session_ref v = is_some_and (as_object v) (\<lambda>obj.
     has_field obj ''workspaceId'' json_is_string
     \<and> has_field obj ''sessionId'' json_is_string)"

definition json_is_snapshot :: "json_value \<Rightarrow> bool" where
  "json_is_snapshot v = is_some_and (as_object v) (\<lambda>obj.
     has_field obj ''ref'' json_is_session_ref
     \<and> has_field obj ''workspace'' json_is_workspace
     \<and> has_field obj ''title'' json_is_string
     \<and> has_field obj ''status'' (one_of [''idle'', ''initializing'', ''running'', ''failed''])
     \<and> has_field obj ''updatedAt'' json_is_string
     \<and> may_have obj ''archivedAt'' json_is_string
     \<and> may_have obj ''preview'' json_is_string
     \<and> may_have obj ''config'' json_is_session_config
     \<and> may_have obj ''usage'' json_is_usage
     \<and> may_have obj ''runningRunId'' json_is_string
     \<and> may_have obj ''queuedMessages'' (\<lambda>v. json_array_of v json_is_queued_message)
     \<and> may_have obj ''facet'' json_is_string
     \<and> may_have obj ''permissionMonitor'' (one_of monitor_words)
     \<and> may_have obj ''adventurousHandoff'' json_is_bool
     \<and> may_have obj ''notificationAutodrain'' json_is_bool
     \<and> may_have obj ''activePlan'' json_is_string
     \<and> may_have obj ''goal'' (\<lambda>v. v = J_Null \<or> json_is_goal v)
     \<and> may_have obj ''flags'' (\<lambda>v. json_array_of v json_is_flagged_file)
     \<and> may_have obj ''todos'' (\<lambda>v. json_array_of v json_is_todo)
     \<and> may_have obj ''mcpServers'' (\<lambda>v. json_array_of v json_is_mcp_info)
     \<and> may_have obj ''cwd'' json_is_string
     \<and> may_have obj ''cwdStackDepth'' json_is_i64)"

definition json_is_session_list_entry :: "json_value \<Rightarrow> bool" where
  "json_is_session_list_entry v = is_some_and (as_object v) (\<lambda>obj.
     has_field obj ''sessionId'' json_is_string
     \<and> has_field obj ''path'' json_is_string
     \<and> has_field obj ''cwd'' json_is_string
     \<and> may_have obj ''displayName'' json_is_string
     \<and> has_field obj ''preview'' json_is_string
     \<and> has_field obj ''userMessageCount'' json_is_i64
     \<and> has_field obj ''updatedAt'' json_is_string
     \<and> has_field obj ''createdAt'' json_is_string
     \<and> has_field obj ''lastUserMessageAt'' json_is_string
     \<and> may_have obj ''parentSessionPath'' json_is_string
     \<and> may_have obj ''usage'' json_is_usage
     \<and> has_field obj ''archived'' json_is_bool
     \<and> may_have obj ''lifecycle'' (one_of [''emptyDefault'', ''acceptedPrompt'', ''liveConfigAction'', ''unknown'']))"

definition json_is_qna_option :: "json_value \<Rightarrow> bool" where
  "json_is_qna_option v = is_some_and (as_object v) (\<lambda>obj.
     has_field obj ''label'' json_is_string
     \<and> may_have obj ''description'' json_is_string)"

definition json_is_qna_question :: "json_value \<Rightarrow> bool" where
  "json_is_qna_question v = is_some_and (as_object v) (\<lambda>obj.
     has_field obj ''question'' json_is_string
     \<and> may_have obj ''context'' json_is_string
     \<and> may_have obj ''options'' (\<lambda>v. json_array_of v json_is_qna_option)
     \<and> may_have obj ''multiSelect'' json_is_bool)"

definition json_is_three_labels :: "json_value \<Rightarrow> bool" where
  "json_is_three_labels v = is_some_and (as_array v) (\<lambda>items. length items = 3 \<and> list_all json_is_string items)"

definition json_is_host_ui_request :: "json_value \<Rightarrow> bool" where
  "json_is_host_ui_request v = is_some_and (as_object v) (\<lambda>obj.
     is_some_and (Option.bind (map_of obj ''kind'') as_str) (\<lambda>kind.
     if \<not> has_field obj ''requestId'' json_is_string then False
     else if kind = ''confirm'' then has_field obj ''title'' json_is_string
       \<and> has_field obj ''message'' json_is_string
       \<and> may_have obj ''defaultValue'' json_is_bool
       \<and> may_have obj ''timeoutMs'' json_is_i64
     else if kind = ''input'' then has_field obj ''title'' json_is_string
       \<and> may_have obj ''placeholder'' json_is_string
       \<and> may_have obj ''initialValue'' json_is_string
       \<and> may_have obj ''timeoutMs'' json_is_i64
     else if kind = ''select'' then has_field obj ''title'' json_is_string
       \<and> has_field obj ''options'' (\<lambda>v. json_array_of v json_is_string)
       \<and> may_have obj ''allowMultiple'' json_is_bool
       \<and> may_have obj ''timeoutMs'' json_is_i64
     else if kind = ''editor'' then has_field obj ''title'' json_is_string
       \<and> may_have obj ''initialValue'' json_is_string
     else if kind = ''qna'' then may_have obj ''title'' json_is_string
       \<and> has_field obj ''questions'' (\<lambda>v. json_array_of v json_is_qna_question)
       \<and> may_have obj ''timeoutMs'' json_is_i64
     else if kind = ''plan'' then has_field obj ''title'' json_is_string
       \<and> has_field obj ''planText'' json_is_string
       \<and> may_have obj ''displayPath'' json_is_string
       \<and> may_have obj ''targetFacet'' json_is_string
       \<and> has_field obj ''actionLabels'' json_is_three_labels
       \<and> may_have obj ''refuseLabel'' json_is_string
       \<and> may_have obj ''timeoutMs'' json_is_i64
     else if kind = ''permission'' then has_field obj ''title'' json_is_string
       \<and> has_field obj ''toolName'' (\<lambda>v. v = J_Null \<or> json_is_string v)
       \<and> has_field obj ''toolInput'' (\<lambda>v. v = J_Null \<or> json_is_string v)
       \<and> has_field obj ''options'' (\<lambda>v. json_array_of v json_is_string)
       \<and> may_have obj ''timeoutMs'' json_is_i64
     else if kind = ''unknown'' then has_field obj ''title'' json_is_string
       \<and> has_field obj ''message'' json_is_string
     else if kind = ''notify'' then has_field obj ''message'' json_is_string
       \<and> may_have obj ''level'' (one_of [''info'', ''warning'', ''error''])
     else if kind = ''status'' then has_field obj ''key'' json_is_string
       \<and> may_have obj ''text'' json_is_string
     else if kind = ''widget'' then has_field obj ''key'' json_is_string
       \<and> may_have obj ''lines'' (\<lambda>v. json_array_of v json_is_string)
       \<and> may_have obj ''placement'' (one_of [''aboveComposer'', ''belowComposer''])
     else if kind = ''title'' then has_field obj ''title'' json_is_string
     else if kind = ''editorText'' then has_field obj ''text'' json_is_string
     else if kind = ''reset'' then True
     else False))"

definition json_is_error_info :: "json_value \<Rightarrow> bool" where
  "json_is_error_info v = is_some_and (as_object v) (\<lambda>obj.
     has_field obj ''message'' json_is_string
     \<and> may_have obj ''code'' json_is_string)"

definition json_is_issue :: "json_value \<Rightarrow> bool" where
  "json_is_issue v = is_some_and (as_object v) (\<lambda>obj.
     has_field obj ''capability'' json_is_string
     \<and> has_field obj ''classification'' (one_of [''terminal-only''])
     \<and> has_field obj ''message'' json_is_string
     \<and> may_have obj ''extensionPath'' json_is_string
     \<and> may_have obj ''eventName'' json_is_string)"

definition json_is_session_event :: "json_value \<Rightarrow> bool" where
  "json_is_session_event v = is_some_and (as_object v) (\<lambda>obj.
     if \<not> has_field obj ''type'' json_is_string \<or> \<not> has_field obj ''sessionRef'' json_is_session_ref
       \<or> \<not> has_field obj ''timestamp'' json_is_string \<or> \<not> may_have obj ''runId'' json_is_string
       \<or> \<not> may_have obj ''subagentHandle'' json_is_string then False
     else is_some_and (Option.bind (map_of obj ''type'') as_str) (\<lambda>kind.
     if kind = ''sessionOpened'' \<or> kind = ''sessionUpdated'' then has_field obj ''snapshot'' json_is_snapshot
     else if kind = ''assistantDelta'' then has_field obj ''text'' json_is_string
       \<and> may_have obj ''channel'' (one_of [''text'', ''thinking''])
       \<and> may_have obj ''entryId'' json_is_string
     else if kind = ''queuedMessageStarted'' then has_field obj ''message'' json_is_queued_message
     else if kind = ''queueUpdated'' then has_field obj ''messages'' (\<lambda>v. json_array_of v json_is_queued_message)
     else if kind = ''userMessage'' then has_field obj ''id'' json_is_string
       \<and> has_field obj ''text'' json_is_string
       \<and> may_have obj ''images'' json_is_images
       \<and> may_have obj ''entryId'' json_is_string
       \<and> may_have obj ''references'' (\<lambda>v. json_array_of v json_is_resolved_ref)
     else if kind = ''customMessage'' then has_field obj ''id'' json_is_string
       \<and> has_field obj ''customType'' json_is_string
       \<and> has_field obj ''text'' json_is_string
       \<and> has_field obj ''display'' json_is_bool
       \<and> may_have obj ''turnBoundary'' json_is_bool
     else if kind = ''toolStarted'' then has_field obj ''toolName'' json_is_string
       \<and> has_field obj ''callId'' json_is_string
       \<and> may_have obj ''label'' json_is_string
       \<and> may_have obj ''description'' json_is_string
     else if kind = ''toolUpdated'' then has_field obj ''callId'' json_is_string
       \<and> may_have obj ''text'' json_is_string
       \<and> may_have obj ''progress'' json_is_number
     else if kind = ''toolFinished'' then has_field obj ''callId'' json_is_string
       \<and> has_field obj ''success'' json_is_bool
       \<and> may_have obj ''images'' json_is_images
       \<and> may_have obj ''interrupted'' json_is_bool
     else if kind = ''runCompleted'' then has_field obj ''snapshot'' json_is_snapshot
       \<and> may_have obj ''userEntryId'' json_is_string
       \<and> may_have obj ''assistantEntryId'' json_is_string
     else if kind = ''usageUpdated'' then has_field obj ''usage'' json_is_usage
     else if kind = ''runFailed'' then has_field obj ''error'' json_is_error_info
     else if kind = ''hostUiRequest'' then has_field obj ''request'' json_is_host_ui_request
     else if kind = ''hostUiResolved'' then has_field obj ''requestId'' json_is_string
     else if kind = ''extensionCompatibilityIssue'' then has_field obj ''issue'' json_is_issue
     else if kind = ''sessionClosed'' then has_field obj ''reason'' (one_of [''manual'', ''ended'', ''failed''])
     else if kind = ''sessionReset'' then True
     else if kind = ''nestedReplayStatus'' then has_field obj ''subagentHandle'' json_is_string
       \<and> has_field obj ''status'' (one_of [''loading'', ''available'', ''unavailable''])
       \<and> may_have obj ''reason'' json_is_string
     else False))"

definition json_is_settings :: "json_value \<Rightarrow> bool" where
  "json_is_settings v = is_some_and (as_object v) (\<lambda>obj.
     json_server_nullable_required obj ''loginShell'' json_is_string
     \<and> json_server_nullable_required obj ''backgroundModel'' json_is_string
     \<and> may_have obj ''enabledExtensions'' (\<lambda>v. v = J_Null \<or> json_array_of v json_is_string))"

definition json_is_env :: "json_value \<Rightarrow> bool" where
  "json_is_env v = is_some_and (as_object v) (\<lambda>obj.
     json_server_nullable_required obj ''activeShell'' json_is_string
     \<and> json_server_required_fields obj [(''ok'', json_is_bool)]
     \<and> may_have obj ''detail'' json_is_string)"

definition json_is_trust_option :: "json_value \<Rightarrow> bool" where
  "json_is_trust_option v = is_some_and (as_object v) (\<lambda>obj.
     has_field obj ''label'' json_is_string
     \<and> has_field obj ''trusted'' json_is_bool)"

definition json_server_shape_is_valid :: "json_object \<Rightarrow> string \<Rightarrow> bool" where
  "json_server_shape_is_valid obj kind =
    (if kind = ''hello'' then json_server_required_fields obj [(''protocolVersion'', json_is_u64), (''serverId'', json_is_string),
           (''dataDir'', json_is_string)]
       \<and> may_have obj ''serverLabel'' json_is_string
       \<and> may_have obj ''buildSha'' json_is_string
     else if kind = ''pong'' then True
     else if kind = ''seed'' then json_server_required_fields obj [(''epoch'', json_is_u64), (''seq'', json_is_u64),
           (''events'', \<lambda>v. json_array_of v json_is_session_event)]
       \<and> json_server_nullable_required obj ''sessionId'' json_is_string
     else if kind = ''event'' then json_server_required_fields obj [(''epoch'', json_is_u64), (''seq'', json_is_u64), (''event'', json_is_session_event)]
     else if kind = ''sessionList'' then json_server_required_fields obj [(''sessions'', \<lambda>v. json_array_of v json_is_session_list_entry),
           (''defaultNewSessionCwd'', json_is_string)]
       \<and> json_server_nullable_required obj ''activeSessionId'' json_is_string
     else if kind = ''sessionStatus'' then json_server_required_fields obj [(''runningIds'', \<lambda>v. json_array_of v json_is_string)]
       \<and> may_have obj ''initializingIds'' (\<lambda>v. json_array_of v json_is_string)
       \<and> may_have obj ''attention'' (\<lambda>v. json_array_of v json_is_session_attention)
     else if kind = ''modelList'' then json_server_required_fields obj [(''models'', \<lambda>v. json_array_of v json_is_model_option)]
       \<and> may_have obj ''diagnostic'' json_is_diagnostic
     else if kind = ''commandList'' then json_server_required_fields obj [(''commands'', \<lambda>v. json_array_of v json_is_command_info)]
     else if kind = ''facetList'' then json_server_required_fields obj [(''facets'', \<lambda>v. json_array_of v json_is_string)]
     else if kind = ''jobsList'' then json_server_required_fields obj [(''jobs'', \<lambda>v. json_array_of v json_is_background_job)]
     else if kind = ''fileIndex'' then json_server_required_fields obj [(''files'', \<lambda>v. json_array_of v json_is_file_info)]
       \<and> may_have obj ''truncated'' json_is_bool
     else if kind = ''fileList'' then json_server_required_fields obj [(''query'', json_is_string),
           (''files'', \<lambda>v. json_array_of v json_is_file_info)]
       \<and> may_have obj ''includeIgnored'' json_is_bool
     else if kind = ''atRefs'' then json_server_required_fields obj [(''skills'', \<lambda>v. json_array_of v json_is_string),
           (''subagents'', \<lambda>v. json_array_of v json_is_string)]
     else if kind = ''dirListing'' then json_server_required_fields obj [(''requestId'', json_is_u64), (''path'', json_is_string),
           (''entries'', \<lambda>v. json_array_of v json_is_string)]
       \<and> json_server_nullable_required obj ''parent'' json_is_string
     else if kind = ''pathStat'' then json_server_required_fields obj [(''requestId'', json_is_u64), (''path'', json_is_string), (''exists'', json_is_bool),
           (''isDir'', json_is_bool)]
     else if kind = ''modelDefaults'' then json_server_required_fields obj [(''defaults'', json_is_model_defaults)]
     else if kind = ''pantokenSettings'' then json_server_required_fields obj [(''settings'', json_is_settings), (''env'', json_is_env),
           (''pendingRestart'', json_is_bool)]
     else if kind = ''trustRequest'' then json_server_required_fields obj [(''requestId'', json_is_string), (''cwd'', json_is_string),
           (''title'', json_is_string), (''options'', \<lambda>v. json_array_of v json_is_trust_option)]
     else if kind = ''trustResolved'' then json_server_required_fields obj [(''requestId'', json_is_string)]
     else if kind = ''updateStatus'' then json_server_required_fields obj [(''available'', json_is_bool), (''applying'', json_is_bool)]
       \<and> may_have obj ''sha'' json_is_string
       \<and> may_have obj ''status'' json_is_string
       \<and> may_have obj ''reason'' json_is_string
       \<and> may_have obj ''desktopStale'' json_is_bool
     else if kind = ''editorPrefill'' then json_server_required_fields obj [(''text'', json_is_string)]
     else if kind = ''promptResult'' then json_server_required_fields obj [(''promptId'', json_is_string), (''accepted'', json_is_bool)]
       \<and> may_have obj ''sessionId'' json_is_string
       \<and> may_have obj ''error'' json_is_string
     else if kind = ''queueRestored'' then json_server_required_fields obj [(''steering'', \<lambda>v. json_array_of v json_is_string),
           (''followUp'', \<lambda>v. json_array_of v json_is_string)]
     else if kind = ''abortResult'' then json_server_required_fields obj [(''accepted'', json_is_bool)]
       \<and> may_have obj ''requestId'' json_is_string
       \<and> may_have obj ''error'' json_is_string
     else if kind = ''error'' then json_server_required_fields obj [(''message'', json_is_string)]
       \<and> may_have obj ''kind'' json_is_string
     else False)"

section \<open>Parsing\<close>

definition server_kinds :: "string list" where
  "server_kinds = [''hello'', ''pong'', ''seed'', ''event'', ''sessionList'', ''sessionStatus'', ''modelList'',
     ''commandList'', ''facetList'', ''jobsList'', ''fileIndex'', ''fileList'', ''atRefs'', ''dirListing'',
     ''pathStat'', ''modelDefaults'', ''pantokenSettings'', ''trustRequest'', ''trustResolved'', ''updateStatus'',
     ''editorPrefill'', ''promptResult'', ''queueRestored'', ''abortResult'', ''error'']"

text \<open>The closed sets of texts that a shape check of a string leaves open.\<close>

definition closed_texts_ok :: "json_object \<Rightarrow> string \<Rightarrow> bool" where
  "closed_texts_ok obj kind =
     ((kind = ''updateStatus'' \<longrightarrow> pred_option (one_of [''deferred'', ''rejected'']) (map_of obj ''status'')
         \<and> pred_option (one_of [''busy'', ''failed'']) (map_of obj ''reason''))
      \<and> (kind = ''error'' \<longrightarrow> pred_option (one_of [''session-switch'', ''abort'', ''sessionAction'', ''destroySession'']) (map_of obj ''kind'')))"

text \<open>\<open>from_str\<close> parses JSON text and \<open>from_value\<close> is the derived decoder.\<close>

definition parse_server_message ::
  "(string \<Rightarrow> json_value option) \<Rightarrow> (json_value \<Rightarrow> ServerMessage option) \<Rightarrow> string \<Rightarrow> ServerMessage option" where
  "parse_server_message from_str from_value raw = do {
     v \<leftarrow> from_str raw;
     obj \<leftarrow> as_object v;
     t \<leftarrow> map_of obj ''type'';
     kind \<leftarrow> as_str t;
     if kind \<notin> set server_kinds then None
     else if \<not> json_server_shape_is_valid obj kind then None
     else if \<not> closed_texts_ok obj kind then None
     else from_value v }"

section \<open>The derived encoder\<close>

definition f64_is_finite :: "f64 \<Rightarrow> bool" where
  "f64_is_finite b = (b AND 0x7FF0000000000000 \<noteq> 0x7FF0000000000000)"

definition json_f64 :: "(f64 \<Rightarrow> string) \<Rightarrow> f64 \<Rightarrow> json_value" where
  "json_f64 ryu x = (if f64_is_finite x then J_Number (ryu x) else J_Null)"

primrec queue_mode_word :: "SessionMessageDeliveryMode \<Rightarrow> string" where
  "queue_mode_word Dm_Steer = ''steer''"
| "queue_mode_word Dm_FollowUp = ''followUp''"

primrec status_word :: "SessionStatus \<Rightarrow> string" where
  "status_word St_Idle = ''idle''"
| "status_word St_Initializing = ''initializing''"
| "status_word St_Running = ''running''"
| "status_word St_Failed = ''failed''"

primrec mcp_status_word :: "McpServerStatus \<Rightarrow> string" where
  "mcp_status_word Mcp_Connected = ''connected''"
| "mcp_status_word Mcp_Disconnected = ''disconnected''"
| "mcp_status_word Mcp_Reconnecting = ''reconnecting''"
| "mcp_status_word Mcp_Disabled = ''disabled''"

primrec command_source_word :: "CommandSource \<Rightarrow> string" where
  "command_source_word Cs_Extension = ''extension''"
| "command_source_word Cs_Prompt = ''prompt''"
| "command_source_word Cs_Skill = ''skill''"
| "command_source_word Cs_Builtin = ''builtin''"

primrec flagged_mode_word :: "FlaggedFileMode \<Rightarrow> string" where
  "flagged_mode_word Ff_Included = ''included''"
| "flagged_mode_word Ff_Referenced = ''referenced''"

primrec todo_status_word :: "TodoStatus \<Rightarrow> string" where
  "todo_status_word Td_Pending = ''pending''"
| "todo_status_word Td_InProgress = ''in_progress''"
| "todo_status_word Td_Done = ''done''"
| "todo_status_word Td_Blocked = ''blocked''"

primrec phase_word :: "SessionAttentionPhase \<Rightarrow> string" where
  "phase_word Ph_Running = ''running''"
| "phase_word Ph_Waiting = ''waiting''"
| "phase_word Ph_Failed = ''failed''"
| "phase_word Ph_Done = ''done''"

primrec job_kind_word :: "JobKind \<Rightarrow> string" where
  "job_kind_word Jk_Shell = ''shell''"
| "job_kind_word Jk_Subagent = ''subagent''"

primrec job_status_word :: "JobStatusKind \<Rightarrow> string" where
  "job_status_word Js_Reserved = ''reserved''"
| "job_status_word Js_Running = ''running''"
| "job_status_word Js_Completed = ''completed''"
| "job_status_word Js_Failed = ''failed''"
| "job_status_word Js_Cancelled = ''cancelled''"

primrec level_word :: "NotifyLevel \<Rightarrow> string" where
  "level_word Nl_Info = ''info''"
| "level_word Nl_Warning = ''warning''"
| "level_word Nl_Error = ''error''"

primrec placement_word :: "WidgetPlacement \<Rightarrow> string" where
  "placement_word Wp_AboveComposer = ''aboveComposer''"
| "placement_word Wp_BelowComposer = ''belowComposer''"

primrec classification_word :: "ExtensionIssueClassification \<Rightarrow> string" where
  "classification_word TerminalOnly = ''terminal-only''"

primrec closed_reason_word :: "SessionClosedReason \<Rightarrow> string" where
  "closed_reason_word Cr_Manual = ''manual''"
| "closed_reason_word Cr_Ended = ''ended''"
| "closed_reason_word Cr_Failed = ''failed''"

primrec replay_status_word :: "NestedReplayStatusKind \<Rightarrow> string" where
  "replay_status_word Nr_Loading = ''loading''"
| "replay_status_word Nr_Available = ''available''"
| "replay_status_word Nr_Unavailable = ''unavailable''"

primrec channel_word :: "AssistantDeltaChannel \<Rightarrow> string" where
  "channel_word Ch_Text = ''text''"
| "channel_word Ch_Thinking = ''thinking''"

definition en_resolved_ref :: "ResolvedRef \<Rightarrow> json_value" where
  "en_resolved_ref x = J_Object ([(''kind'', J_String (rr_kind x)), (''name'', J_String (rr_name x))]
     @ opt_entry ''fileKind'' J_String (rr_file_kind x))"

definition en_queued_message :: "SessionQueuedMessage \<Rightarrow> json_value" where
  "en_queued_message x = J_Object ([(''id'', J_String (qm_id x)), (''mode'', J_String (queue_mode_word (qm_mode x))),
     (''text'', J_String (qm_text x)), (''createdAt'', J_String (qm_created_at x)),
     (''updatedAt'', J_String (qm_updated_at x))]
     @ opt_entry ''references'' (json_list en_resolved_ref) (qm_references x))"

definition en_session_config :: "SessionConfig \<Rightarrow> json_value" where
  "en_session_config x = J_Object (opt_entry ''modelId'' J_String (cfg_model_id x)
     @ opt_entry ''thinkingLevel'' J_String (cfg_thinking_level x)
     @ opt_entry ''availableThinkingLevels'' (json_list J_String) (cfg_available_thinking_levels x))"

definition en_usage :: "(f64 \<Rightarrow> string) \<Rightarrow> SessionUsage \<Rightarrow> json_value" where
  "en_usage ryu x = J_Object ([(''tokens'', nullable json_i64 (us_tokens x)),
     (''contextWindow'', json_i64 (us_context_window x)), (''percent'', nullable (json_f64 ryu) (us_percent x))])"

definition en_mcp_info :: "McpServerInfo \<Rightarrow> json_value" where
  "en_mcp_info x = J_Object ([(''serverName'', J_String (mcp_server_name x)),
     (''status'', J_String (mcp_status_word (mcp_status x))), (''toolCount'', json_i64 (mcp_tool_count x))])"

definition en_model_option :: "ModelOption \<Rightarrow> json_value" where
  "en_model_option x = J_Object ([(''modelId'', J_String (mo_model_id x)), (''label'', J_String (mo_label x))]
     @ opt_entry ''thinkingLevels'' (json_list J_String) (mo_thinking_levels x)
     @ opt_entry ''defaultThinkingLevel'' J_String (mo_default_thinking_level x))"

definition en_model_defaults :: "ModelDefaults \<Rightarrow> json_value" where
  "en_model_defaults x = J_Object (opt_entry ''modelId'' J_String (md_model_id x)
     @ opt_entry ''thinkingLevel'' J_String (md_thinking_level x)
     @ [(''favorites'', json_list J_String (md_favorites x))]
     @ opt_entry ''defaultPermissionMonitor'' (J_String \<circ> monitor_word) (md_default_permission_monitor x))"

definition en_command_info :: "CommandInfo \<Rightarrow> json_value" where
  "en_command_info x = J_Object ([(''name'', J_String (ci_name x))]
     @ opt_entry ''description'' J_String (ci_description x)
     @ [(''source'', J_String (command_source_word (ci_source x)))]
     @ opt_entry ''argumentHint'' J_String (ci_argument_hint x))"

definition en_file_info :: "FileInfo \<Rightarrow> json_value" where
  "en_file_info x = J_Object ([(''path'', J_String (fi_path x)), (''isDirectory'', J_Bool (fi_is_directory x))])"

definition en_goal :: "GoalInfo \<Rightarrow> json_value" where
  "en_goal x = J_Object ([(''summary'', J_String (goal_summary x)), (''lifecycle'', J_String (goal_lifecycle x))])"

definition en_flagged_file :: "FlaggedFile \<Rightarrow> json_value" where
  "en_flagged_file x = J_Object ([(''path'', J_String (ff_path x)),
     (''mode'', J_String (flagged_mode_word (ff_mode x)))])"

definition en_todo :: "TodoItem \<Rightarrow> json_value" where
  "en_todo x = J_Object ([(''id'', json_i64 (td_id x)), (''title'', J_String (td_title x)),
     (''description'', J_String (td_description x)), (''status'', J_String (todo_status_word (td_status x))),
     (''dependencies'', json_list json_i64 (td_dependencies x))]
     @ opt_entry ''createdAt'' J_String (td_created_at x))"

definition en_attention :: "SessionAttention \<Rightarrow> json_value" where
  "en_attention x = J_Object ([(''sessionId'', J_String (sa_session_id x)),
     (''phase'', J_String (phase_word (sa_phase x)))] @ opt_entry ''activity'' J_String (sa_activity x)
     @ opt_entry ''pendingCount'' json_i64 (sa_pending_count x)
     @ opt_entry ''pendingTitle'' J_String (sa_pending_title x) @ [(''updatedAt'', J_String (sa_updated_at x))])"

definition en_background_job :: "BackgroundJob \<Rightarrow> json_value" where
  "en_background_job x = J_Object ([(''handle'', J_String (bj_handle x)),
     (''kind'', J_String (job_kind_word (bj_kind x))), (''status'', J_String (job_status_word (bj_status x))),
     (''toolName'', J_String (bj_tool_name x)), (''createdAt'', J_String (bj_created_at x))]
     @ opt_entry ''endedAt'' J_String (bj_ended_at x) @ opt_entry ''startedAt'' J_String (bj_started_at x)
     @ [(''updatedAt'', J_String (bj_updated_at x))] @ opt_entry ''subagentType'' J_String (bj_subagent_type x)
     @ opt_entry ''model'' J_String (bj_model x) @ opt_entry ''subagentHandle'' J_String (bj_subagent_handle x)
     @ opt_entry ''expiring'' J_Bool (bj_expiring x) @ opt_entry ''outputTail'' J_String (bj_output_tail x)
     @ opt_entry ''outputBytes'' json_i64 (bj_output_bytes x))"

definition en_workspace :: "WorkspaceRef \<Rightarrow> json_value" where
  "en_workspace x = J_Object ([(''workspaceId'', J_String (wr_workspace_id x)), (''path'', J_String (wr_path x))]
     @ opt_entry ''display_name'' J_String (wr_display_name x))"

definition en_session_ref :: "SessionRef \<Rightarrow> json_value" where
  "en_session_ref x = J_Object ([(''workspaceId'', J_String (sr_workspace_id x)),
     (''sessionId'', J_String (sr_session_id x))])"

definition en_snapshot :: "(f64 \<Rightarrow> string) \<Rightarrow> SessionSnapshot \<Rightarrow> json_value" where
  "en_snapshot ryu x = J_Object ([(''ref'', en_session_ref (sn_ref x)), (''workspace'', en_workspace (sn_workspace x)),
     (''title'', J_String (sn_title x)), (''status'', J_String (status_word (sn_status x))),
     (''updatedAt'', J_String (sn_updated_at x))] @ opt_entry ''archivedAt'' J_String (sn_archived_at x)
     @ opt_entry ''preview'' J_String (sn_preview x) @ opt_entry ''config'' en_session_config (sn_config x)
     @ opt_entry ''usage'' (en_usage ryu) (sn_usage x) @ opt_entry ''runningRunId'' J_String (sn_running_run_id x)
     @ opt_entry ''queuedMessages'' (json_list en_queued_message) (sn_queued_messages x)
     @ opt_entry ''facet'' J_String (sn_facet x)
     @ opt_entry ''permissionMonitor'' (J_String \<circ> monitor_word) (sn_permission_monitor x)
     @ opt_entry ''adventurousHandoff'' J_Bool (sn_adventurous_handoff x)
     @ opt_entry ''notificationAutodrain'' J_Bool (sn_notification_autodrain x)
     @ opt_entry ''activePlan'' J_String (sn_active_plan x) @ opt_entry ''goal'' (nullable en_goal) (sn_goal x)
     @ opt_entry ''flags'' (json_list en_flagged_file) (sn_flags x)
     @ opt_entry ''todos'' (json_list en_todo) (sn_todos x)
     @ opt_entry ''mcpServers'' (json_list en_mcp_info) (sn_mcp_servers x) @ opt_entry ''cwd'' J_String (sn_cwd x)
     @ opt_entry ''cwdStackDepth'' json_i64 (sn_cwd_stack_depth x))"

definition en_session_list_entry :: "(f64 \<Rightarrow> string) \<Rightarrow> SessionListEntry \<Rightarrow> json_value" where
  "en_session_list_entry ryu x = J_Object ([(''sessionId'', J_String (le_session_id x)),
     (''path'', J_String (le_path x)), (''cwd'', J_String (le_cwd x))]
     @ opt_entry ''displayName'' J_String (le_display_name x) @ [(''preview'', J_String (le_preview x)),
     (''userMessageCount'', json_i64 (le_user_message_count x)), (''updatedAt'', J_String (le_updated_at x)),
     (''createdAt'', J_String (le_created_at x)), (''lastUserMessageAt'', J_String (le_last_user_message_at x))]
     @ opt_entry ''parentSessionPath'' J_String (le_parent_session_path x)
     @ opt_entry ''usage'' (en_usage ryu) (le_usage x) @ [(''archived'', J_Bool (le_archived x))])"

definition en_qna_option :: "QnaQuestionOption \<Rightarrow> json_value" where
  "en_qna_option x = J_Object ([(''label'', J_String (qo_label x))]
     @ opt_entry ''description'' J_String (qo_description x))"

definition en_qna_question :: "QnaQuestion \<Rightarrow> json_value" where
  "en_qna_question x = J_Object ([(''question'', J_String (qq_question x))]
     @ opt_entry ''context'' J_String (qq_context x) @ opt_entry ''options'' (json_list en_qna_option) (qq_options x)
     @ opt_entry ''multiSelect'' J_Bool (qq_multi_select x))"

definition en_error_info :: "SessionErrorInfo \<Rightarrow> json_value" where
  "en_error_info x = J_Object ([(''message'', J_String (err_message x))] @ opt_entry ''code'' J_String (err_code x)
     @ opt_entry ''details'' (\<lambda>v. v) (err_details x))"

definition en_issue :: "ExtensionCompatibilityIssue \<Rightarrow> json_value" where
  "en_issue x = J_Object ([(''capability'', J_String (ei_capability x)),
     (''classification'', J_String (classification_word (ei_classification x))),
     (''message'', J_String (ei_message x))] @ opt_entry ''extensionPath'' J_String (ei_extension_path x)
     @ opt_entry ''eventName'' J_String (ei_event_name x))"

definition en_settings :: "PantokenSettings \<Rightarrow> json_value" where
  "en_settings x = J_Object ([(''loginShell'', nullable J_String (ps_login_shell x)),
     (''backgroundModel'', nullable J_String (ps_background_model x)),
     (''enabledExtensions'', nullable (json_list J_String) (ps_enabled_extensions x))])"

definition en_env :: "LoginEnvStatus \<Rightarrow> json_value" where
  "en_env x = J_Object ([(''activeShell'', nullable J_String (env_active_shell x)), (''ok'', J_Bool (env_ok x))]
     @ opt_entry ''detail'' J_String (env_detail x))"

definition en_trust_option :: "TrustRequestOption \<Rightarrow> json_value" where
  "en_trust_option x = J_Object ([(''label'', J_String (to_label x)), (''trusted'', J_Bool (to_trusted x))])"

primrec en_diagnostic :: "ModelCatalogDiagnostic \<Rightarrow> json_value" where
  "en_diagnostic (CouldNotBeParsed m) = tagged ''kind'' ''couldNotBeParsed'' [(''message'', J_String m)]"
| "en_diagnostic (EmptyOutput m) = tagged ''kind'' ''emptyOutput'' [(''message'', J_String m)]"
| "en_diagnostic (NoResponse m) = tagged ''kind'' ''noResponse'' [(''message'', J_String m)]"

definition en_labels :: "string \<times> string \<times> string \<Rightarrow> json_value" where
  "en_labels ls = (case ls of (a, b, c) \<Rightarrow> json_strs [a, b, c])"

primrec en_request :: "HostUiRequest \<Rightarrow> json_value" where
  "en_request (H_Confirm r t m d ms) = tagged ''kind'' ''confirm'' ((''requestId'', J_String r) # [(''title'', J_String t),
     (''message'', J_String m)] @ opt_entry ''defaultValue'' J_Bool d @ opt_entry ''timeoutMs'' json_i64 ms)"
| "en_request (H_Unknown r t m) = tagged ''kind'' ''unknown'' ((''requestId'', J_String r) # [(''title'', J_String t),
     (''message'', J_String m)])"
| "en_request (H_Input r t p i ms) = tagged ''kind'' ''input'' ((''requestId'', J_String r) # [(''title'', J_String t)]
     @ opt_entry ''placeholder'' J_String p @ opt_entry ''initialValue'' J_String i
     @ opt_entry ''timeoutMs'' json_i64 ms)"
| "en_request (H_Select r t os a ms) = tagged ''kind'' ''select'' ((''requestId'', J_String r) # [(''title'', J_String t),
     (''options'', json_strs os)] @ opt_entry ''allowMultiple'' J_Bool a @ opt_entry ''timeoutMs'' json_i64 ms)"
| "en_request (H_Editor r t i) = tagged ''kind'' ''editor'' ((''requestId'', J_String r) # [(''title'', J_String t)]
     @ opt_entry ''initialValue'' J_String i)"
| "en_request (H_Qna r t qs ms) = tagged ''kind'' ''qna'' ((''requestId'', J_String r) # opt_entry ''title'' J_String t
     @ [(''questions'', json_list en_qna_question qs)] @ opt_entry ''timeoutMs'' json_i64 ms)"
| "en_request (H_Plan r t p dp f ls rl ms) = tagged ''kind'' ''plan'' ((''requestId'', J_String r) # [(''title'', J_String t),
     (''planText'', J_String p)] @ opt_entry ''displayPath'' J_String dp @ opt_entry ''targetFacet'' J_String f
     @ [(''actionLabels'', en_labels ls)] @ opt_entry ''refuseLabel'' J_String rl
     @ opt_entry ''timeoutMs'' json_i64 ms)"
| "en_request (H_Permission r t n i os ms) = tagged ''kind'' ''permission'' ((''requestId'', J_String r) # [(''title'', J_String t),
     (''toolName'', nullable J_String n), (''toolInput'', nullable J_String i), (''options'', json_strs os)]
     @ opt_entry ''timeoutMs'' json_i64 ms)"
| "en_request (H_Notify r m l) = tagged ''kind'' ''notify'' ((''requestId'', J_String r) # [(''message'', J_String m)]
     @ opt_entry ''level'' (J_String \<circ> level_word) l)"
| "en_request (H_Status r k t) = tagged ''kind'' ''status'' ((''requestId'', J_String r) # [(''key'', J_String k)]
     @ opt_entry ''text'' J_String t)"
| "en_request (H_Widget r k ls p) = tagged ''kind'' ''widget'' ((''requestId'', J_String r) # [(''key'', J_String k)]
     @ opt_entry ''lines'' json_strs ls @ opt_entry ''placement'' (J_String \<circ> placement_word) p)"
| "en_request (H_Title r t) = tagged ''kind'' ''title'' ((''requestId'', J_String r) # [(''title'', J_String t)])"
| "en_request (H_EditorText r t) = tagged ''kind'' ''editorText'' ((''requestId'', J_String r) # [(''text'', J_String t)])"
| "en_request (H_Reset r) = tagged ''kind'' ''reset'' [(''requestId'', J_String r)]"

text \<open>The flattened base of an event. The replay status writes its own handle over that of the base.\<close>

definition base_entries :: "SessionEventBase \<Rightarrow> json_object" where
  "base_entries b = [(''sessionRef'', en_session_ref (eb_session_ref b)), (''timestamp'', J_String (eb_timestamp b))]
     @ opt_entry ''runId'' J_String (eb_run_id b) @ opt_entry ''subagentHandle'' J_String (eb_subagent_handle b)"

fun en_event :: "(f64 \<Rightarrow> string) \<Rightarrow> SessionDriverEvent \<Rightarrow> json_value" where
  "en_event ryu (E_SessionOpened b s) = tagged ''type'' ''sessionOpened'' (base_entries b
     @ [(''snapshot'', en_snapshot ryu s)])"
| "en_event ryu (E_SessionUpdated b s) = tagged ''type'' ''sessionUpdated'' (base_entries b
     @ [(''snapshot'', en_snapshot ryu s)])"
| "en_event ryu (E_AssistantDelta b t c e) = tagged ''type'' ''assistantDelta'' (base_entries b
     @ [(''text'', J_String t)] @ opt_entry ''channel'' (J_String \<circ> channel_word) c
     @ opt_entry ''entryId'' J_String e)"
| "en_event ryu (E_QueuedMessageStarted b m) = tagged ''type'' ''queuedMessageStarted'' (base_entries b
     @ [(''message'', en_queued_message m)])"
| "en_event ryu (E_QueueUpdated b ms) = tagged ''type'' ''queueUpdated'' (base_entries b
     @ [(''messages'', json_list en_queued_message ms)])"
| "en_event ryu (E_UserMessage b i t im e rs) = tagged ''type'' ''userMessage'' (base_entries b
     @ [(''id'', J_String i), (''text'', J_String t)] @ opt_entry ''images'' en_images im
     @ opt_entry ''entryId'' J_String e @ opt_entry ''references'' (json_list en_resolved_ref) rs)"
| "en_event ryu (E_CustomMessage b i c t d tb) = tagged ''type'' ''customMessage'' (base_entries b
     @ [(''id'', J_String i), (''customType'', J_String c), (''text'', J_String t), (''display'', J_Bool d)]
     @ opt_entry ''turnBoundary'' J_Bool (if tb then Some True else None))"
| "en_event ryu (E_ToolStarted b n c i l d) = tagged ''type'' ''toolStarted'' (base_entries b
     @ [(''toolName'', J_String n), (''callId'', J_String c)] @ opt_entry ''input'' (\<lambda>v. v) i
     @ opt_entry ''label'' J_String l @ opt_entry ''description'' J_String d)"
| "en_event ryu (E_ToolUpdated b c t p) = tagged ''type'' ''toolUpdated'' (base_entries b @ [(''callId'', J_String c)]
     @ opt_entry ''text'' J_String t @ opt_entry ''progress'' (json_f64 ryu) p)"
| "en_event ryu (E_ToolFinished b c s out im i) = tagged ''type'' ''toolFinished'' (base_entries b
     @ [(''callId'', J_String c), (''success'', J_Bool s)] @ opt_entry ''output'' (\<lambda>v. v) out
     @ opt_entry ''images'' en_images im @ opt_entry ''interrupted'' J_Bool i)"
| "en_event ryu (E_RunCompleted b s u a) = tagged ''type'' ''runCompleted'' (base_entries b
     @ [(''snapshot'', en_snapshot ryu s)] @ opt_entry ''userEntryId'' J_String u
     @ opt_entry ''assistantEntryId'' J_String a)"
| "en_event ryu (E_UsageUpdated b u) = tagged ''type'' ''usageUpdated'' (base_entries b
     @ [(''usage'', en_usage ryu u)])"
| "en_event ryu (E_RunFailed b e) = tagged ''type'' ''runFailed'' (base_entries b @ [(''error'', en_error_info e)])"
| "en_event ryu (E_HostUiRequest b r) = tagged ''type'' ''hostUiRequest'' (base_entries b
     @ [(''request'', en_request r)])"
| "en_event ryu (E_HostUiResolved b r) = tagged ''type'' ''hostUiResolved'' (base_entries b
     @ [(''requestId'', J_String r)])"
| "en_event ryu (E_ExtensionCompatibilityIssue b i) = tagged ''type'' ''extensionCompatibilityIssue'' (base_entries b
     @ [(''issue'', en_issue i)])"
| "en_event ryu (E_SessionClosed b r) = tagged ''type'' ''sessionClosed'' (base_entries b
     @ [(''reason'', J_String (closed_reason_word r))])"
| "en_event ryu (E_SessionReset b) = tagged ''type'' ''sessionReset'' (base_entries b)"
| "en_event ryu (E_NestedReplayStatus b h s r) = tagged ''type'' ''nestedReplayStatus'' (base_entries (b\<lparr>eb_subagent_handle := Some h\<rparr>)
     @ [(''status'', (J_String \<circ> replay_status_word) s)] @ opt_entry ''reason'' J_String r)"

fun json_of_server :: "(f64 \<Rightarrow> string) \<Rightarrow> ServerMessage \<Rightarrow> json_value" where
  "json_of_server ryu (M_Hello v i l d s) = tagged ''type'' ''hello'' ([(''protocolVersion'', json_u64 (unat v)),
     (''serverId'', J_String i), (''serverLabel'', J_String l), (''dataDir'', J_String d)]
     @ opt_entry ''buildSha'' J_String s)"
| "json_of_server ryu M_Pong = tagged ''type'' ''pong'' []"
| "json_of_server ryu (M_Seed s e q evs) = tagged ''type'' ''seed'' [(''sessionId'', nullable J_String s),
     (''epoch'', json_u64 e), (''seq'', json_u64 q), (''events'', json_list (en_event ryu) evs)]"
| "json_of_server ryu (M_Event ev e q) = tagged ''type'' ''event'' [(''event'', en_event ryu ev),
     (''epoch'', json_u64 e), (''seq'', json_u64 q)]"
| "json_of_server ryu (M_SessionList ss a d) = tagged ''type'' ''sessionList'' [(''sessions'', json_list (en_session_list_entry ryu) ss),
     (''activeSessionId'', nullable J_String a), (''defaultNewSessionCwd'', J_String d)]"
| "json_of_server ryu (M_SessionStatus r i a) = tagged ''type'' ''sessionStatus'' ([(''runningIds'', json_strs r)]
     @ opt_entry ''initializingIds'' json_strs i @ opt_entry ''attention'' (json_list en_attention) a)"
| "json_of_server ryu (M_ModelList ms d) = tagged ''type'' ''modelList'' ([(''models'', json_list en_model_option ms)]
     @ opt_entry ''diagnostic'' en_diagnostic d)"
| "json_of_server ryu (M_CommandList cs) = tagged ''type'' ''commandList'' [(''commands'', json_list en_command_info cs)]"
| "json_of_server ryu (M_FacetList fs) = tagged ''type'' ''facetList'' [(''facets'', json_strs fs)]"
| "json_of_server ryu (M_JobsList js) = tagged ''type'' ''jobsList'' [(''jobs'', json_list en_background_job js)]"
| "json_of_server ryu (M_FileIndex fs t) = tagged ''type'' ''fileIndex'' [(''files'', json_list en_file_info fs),
     (''truncated'', J_Bool t)]"
| "json_of_server ryu (M_FileList q fs i) = tagged ''type'' ''fileList'' ([(''query'', J_String q),
     (''files'', json_list en_file_info fs)] @ opt_entry ''includeIgnored'' J_Bool i)"
| "json_of_server ryu (M_AtRefs a) = tagged ''type'' ''atRefs'' [(''skills'', json_strs (ar_skills a)),
     (''subagents'', json_strs (ar_subagents a))]"
| "json_of_server ryu (M_DirListing l r) = tagged ''type'' ''dirListing'' ([(''path'', J_String (dl_path l)),
     (''parent'', nullable J_String (dl_parent l)), (''entries'', json_strs (dl_entries l))]
     @ opt_entry ''error'' J_Bool (dl_error l) @ [(''requestId'', json_u64 (unat r))])"
| "json_of_server ryu (M_PathStat s r) = tagged ''type'' ''pathStat'' [(''path'', J_String (pst_path s)),
     (''exists'', J_Bool (pst_exists s)), (''isDir'', J_Bool (pst_is_dir s)), (''requestId'', json_u64 (unat r))]"
| "json_of_server ryu (M_ModelDefaults d) = tagged ''type'' ''modelDefaults'' [(''defaults'', en_model_defaults d)]"
| "json_of_server ryu (M_PantokenSettings s e p w) = tagged ''type'' ''pantokenSettings'' ([(''settings'', en_settings s),
     (''env'', en_env e), (''pendingRestart'', J_Bool p)] @ opt_entry ''backgroundModelWarning'' J_String w)"
| "json_of_server ryu (M_TrustRequest t) = tagged ''type'' ''trustRequest'' [(''requestId'', J_String (tr_request_id t)),
     (''cwd'', J_String (tr_cwd t)), (''title'', J_String (tr_title t)),
     (''options'', json_list en_trust_option (tr_options t))]"
| "json_of_server ryu (M_TrustResolved r) = tagged ''type'' ''trustResolved'' [(''requestId'', J_String r)]"
| "json_of_server ryu (M_UpdateStatus av s ap st re ds) = tagged ''type'' ''updateStatus'' ([(''available'', J_Bool av)]
     @ opt_entry ''sha'' J_String s @ [(''applying'', J_Bool ap)] @ opt_entry ''status'' J_String st
     @ opt_entry ''reason'' J_String re @ opt_entry ''desktopStale'' J_Bool ds)"
| "json_of_server ryu (M_EditorPrefill t) = tagged ''type'' ''editorPrefill'' [(''text'', J_String t)]"
| "json_of_server ryu (M_PromptResult p a s e) = tagged ''type'' ''promptResult'' ([(''promptId'', J_String p),
     (''accepted'', J_Bool a)] @ opt_entry ''sessionId'' J_String s @ opt_entry ''error'' J_String e)"
| "json_of_server ryu (M_QueueRestored s f) = tagged ''type'' ''queueRestored'' [(''steering'', json_strs s),
     (''followUp'', json_strs f)]"
| "json_of_server ryu (M_AbortResult r a e) = tagged ''type'' ''abortResult'' (opt_entry ''requestId'' J_String r
     @ [(''accepted'', J_Bool a)] @ opt_entry ''error'' J_String e)"
| "json_of_server ryu (M_Error m k) = tagged ''type'' ''error'' ([(''message'', J_String m)]
     @ opt_entry ''kind'' J_String k)"

end
