(* ===== verification/Wire_Roundtrip.thy ===== *)
theory Wire_Roundtrip
  imports Wire_Client
begin

text \<open>
  The shape check and the derived codec of the client messages agree: what the check accepts decodes,
  and what a client encodes is accepted and decodes to the same message.
\<close>

section \<open>One field type\<close>

lemma json_require_ok [simp]:
  "json_require obj k p = Inr u \<longleftrightarrow> is_some_and (map_of obj k) p"
  by (cases u) (simp add: json_require_def is_some_and_def split: option.split)

lemma json_optional_ok [simp]:
  "json_optional obj k p = Inr u \<longleftrightarrow> pred_option p (map_of obj k)"
  by (cases u) (simp add: json_optional_def split: option.split)

lemma is_ok_iff [simp]: "is_ok r \<longleftrightarrow> (\<exists>u. r = Inr u)"
  by (simp add: is_ok_def split: sum.split)

lemma all_ok_Nil [simp]: "all_ok [] = Inr u"
  by (cases u) simp

lemma all_ok_Cons [simp]: "all_ok (r # rs) = Inr u \<longleftrightarrow> r = Inr () \<and> all_ok rs = Inr ()"
  by (cases u; cases r) simp_all

lemma is_some_and_simps [simp]: "is_some_and None p = False" "is_some_and (Some a) p = p a"
  by (simp_all add: is_some_and_def)

text \<open>
  The contract of a type of the wire: the check of a value, its encoder and the values that may travel.
  A type that is also read back adds its decoder.
\<close>

locale json_type =
  fixes check :: "json_value \<Rightarrow> bool"
    and en :: "'a \<Rightarrow> json_value"
    and ok :: "'a \<Rightarrow> bool"
  assumes not_null: "\<not> check J_Null"
    and encodes: "ok a \<Longrightarrow> check (en a)"
begin

lemma en_not_null: "ok a \<Longrightarrow> en a \<noteq> J_Null"
  using encodes [of a] not_null by auto

lemma optional_encodes: "pred_option ok x \<Longrightarrow> pred_option check (map_option en x)"
  using encodes by (cases x) auto

lemma nullable_encodes: "pred_option ok x \<Longrightarrow> nullable en x = J_Null \<or> check (nullable en x)"
  using encodes by (cases x) (auto simp: nullable_def)

lemma list_encodes: "list_all ok xs \<Longrightarrow> json_array_of (json_list en xs) check"
  using encodes by (auto simp: json_array_of_def as_array_def json_list_def list_all_iff)

lemma optional_list_encodes:
  "pred_option (list_all ok) x \<Longrightarrow> pred_option (\<lambda>v. json_array_of v check) (map_option (json_list en) x)"
  using list_encodes by (cases x) auto

lemma nullable_list_encodes:
  "pred_option (list_all ok) x \<Longrightarrow> nullable (json_list en) x = J_Null \<or> json_array_of (nullable (json_list en) x) check"
  using list_encodes by (cases x) (auto simp: nullable_def)

lemma array_type: "json_type (\<lambda>v. json_array_of v check) (json_list en) (list_all ok)"
  by unfold_locales (simp_all add: list_encodes, simp add: json_array_of_def as_array_def)

end

locale json_codec = json_type check en ok
  for check :: "json_value \<Rightarrow> bool" and en :: "'a \<Rightarrow> json_value" and ok :: "'a \<Rightarrow> bool" +
  fixes de :: "json_value \<Rightarrow> 'a option"
  assumes checked: "check v \<Longrightarrow> \<exists>a. de v = Some a"
    and decodes: "ok a \<Longrightarrow> de (en a) = Some a"
begin

lemma required_decodes: "is_some_and (map_of obj k) check \<Longrightarrow> \<exists>a. field obj k de = Some a"
  using checked by (auto simp: field_def is_some_and_def split: option.splits)

lemma optional_decodes: "pred_option check (map_of obj k) \<Longrightarrow> \<exists>a. opt_field obj k de = Some a"
  using checked by (cases "map_of obj k") (fastforce simp: opt_field_def opt_value_def)+

lemma optional_roundtrip: "pred_option ok x \<Longrightarrow> opt_value de (map_option en x) = Some x"
  using decodes en_not_null by (cases x) (auto simp: opt_value_def)

lemma nullable_decodes: "is_some_and (map_of obj k) (\<lambda>v. v = J_Null \<or> check v) \<Longrightarrow> \<exists>a. opt_field obj k de = Some a"
  using checked by (cases "map_of obj k") (fastforce simp: opt_field_def opt_value_def)+

lemma nullable_roundtrip: "pred_option ok x \<Longrightarrow> opt_value de (Some (nullable en x)) = Some x"
  using decodes en_not_null by (cases x) (auto simp: opt_value_def nullable_def)

lemma list_checked: "list_all check vs \<Longrightarrow> \<exists>xs. decode_list de vs = Some xs"
  using checked by (induction vs) fastforce+

lemma list_roundtrip: "list_all ok xs \<Longrightarrow> decode_list de (map en xs) = Some xs"
  using decodes by (induction xs) auto

lemma array_codec: "json_codec (\<lambda>v. json_array_of v check) (json_list en) (list_all ok) (de_list de)"
proof (rule json_codec.intro [OF array_type], unfold_locales)
  show "\<exists>a. de_list de v = Some a" if "json_array_of v check" for v
    using that list_checked by (auto simp: json_array_of_def de_list_def as_array_def is_some_and_def split: option.splits)
  show "de_list de (json_list en xs) = Some xs" if "list_all ok xs" for xs
    using that list_roundtrip by (simp add: de_list_def as_array_def json_list_def)
qed

end

section \<open>The types of the messages\<close>

definition any :: "'a \<Rightarrow> bool" where
  "any x = True"

lemma any_simp [simp]: "any x" "pred_option any y" "list_all any z" "pred_option (list_all any) w"
  by (cases y; cases w; simp add: any_def [abs_def] list_all_iff)+

definition safe_u64 :: "nat \<Rightarrow> bool" where
  "safe_u64 n = (n \<le> MAX_SAFE_WIRE_INTEGER)"

definition safe_i64 :: "i64 \<Rightarrow> bool" where
  "safe_i64 i = (nat \<bar>i\<bar> \<le> MAX_SAFE_WIRE_INTEGER)"

interpretation str: json_codec json_is_string J_String any as_str
  by unfold_locales (auto simp: json_is_string_def as_str_def)

interpretation bool: json_codec json_is_bool J_Bool any as_bool
  by unfold_locales (auto simp: json_is_bool_def as_bool_def)

lemma as_u64_json: "n < 2 ^ 64 \<Longrightarrow> as_u64 (json_u64 n) = Some n"
  by (simp add: as_u64_def json_u64_def digits_show_nat digits_value_show_nat)

interpretation u64: json_codec json_is_u64 json_u64 safe_u64 as_u64
proof
  fix n
  assume n: "safe_u64 n"
  then have "n < 2 ^ 64" by (simp add: safe_u64_def MAX_SAFE_WIRE_INTEGER_def)
  then show "as_u64 (json_u64 n) = Some n" by (rule as_u64_json)
  with n show "json_is_u64 (json_u64 n)" by (simp add: json_is_u64_def safe_u64_def)
qed (auto simp: json_is_u64_def is_some_and_def as_u64_def split: option.splits)

lemma show_nat_head: "\<exists>c t. show_nat n = c # t \<and> c \<noteq> CHR ''-''"
proof -
  obtain c t where e: "show_nat n = c # t" by (cases "show_nat n") (use show_nat_not_Nil in auto)
  have "is_ascii_digit c" using digits_show_nat [of n] e by simp
  then have "c \<noteq> CHR ''-''" by (auto simp: is_ascii_digit_def byte_of_def)
  with e show ?thesis by blast
qed

lemma as_i64_json:
  assumes "\<bar>i\<bar> < 2 ^ 63"
  shows "as_i64 (json_i64 i) = Some i"
proof (cases "i < 0")
  case True
  with assms have "nat (- i) \<le> 2 ^ 63" by simp
  then show ?thesis
    using True by (simp add: json_i64_def show_int_def as_i64_def digits_show_nat digits_value_show_nat)
next
  case False
  obtain c t where ct: "show_nat (nat i) = c # t" "c \<noteq> CHR ''-''" using show_nat_head by blast
  have "as_i64 (json_i64 i) = Option.bind (as_u64 (json_u64 (nat i))) (\<lambda>n. if n < 2 ^ 63 then Some (int n) else None)"
    using False ct by (simp add: json_i64_def show_int_def as_i64_def json_u64_def)
  also have "\<dots> = Some i"
    using False assms by (subst as_u64_json) auto
  finally show ?thesis .
qed

interpretation i64: json_codec json_is_i64 json_i64 safe_i64 as_i64
proof
  fix i
  assume i: "safe_i64 i"
  then have "\<bar>i\<bar> < 2 ^ 63" by (simp add: safe_i64_def MAX_SAFE_WIRE_INTEGER_def)
  then show "as_i64 (json_i64 i) = Some i" by (rule as_i64_json)
  with i show "json_is_i64 (json_i64 i)" by (simp add: json_is_i64_def safe_i64_def)
qed (auto simp: json_is_i64_def is_some_and_def as_i64_def split: option.splits)

text \<open>An enum without payload: the words of the check are those of the codec.\<close>

lemma word_codec:
  assumes "set ws = fst ` set codes" "\<And>a. map_of codes (word a) = Some a"
  shows "json_codec (one_of ws) (J_String \<circ> word) any (de_word codes)"
proof
  fix v
  assume "one_of ws v"
  then show "\<exists>a. de_word codes v = Some a"
    using assms(1) by (auto simp: one_of_def de_word_def is_some_and_def dom_map_of_conv_image_fst [symmetric] split: option.splits)
next
  show "\<not> one_of ws J_Null" by (simp add: one_of_def as_str_def)
next
  fix a
  have "word a \<in> set ws" using assms by (metis domI dom_map_of_conv_image_fst)
  then show "one_of ws ((J_String \<circ> word) a)" by (simp add: one_of_def as_str_def)
  show "de_word codes ((J_String \<circ> word) a) = Some a" using assms(2) by (simp add: de_word_def as_str_def)
qed

lemma delivery_code: "map_of delivery_codes (delivery_word a) = Some a"
  by (cases a) (simp_all add: delivery_codes_def)

lemma monitor_code: "map_of monitor_codes (monitor_word a) = Some a"
  by (cases a) (simp_all add: monitor_codes_def)

lemma mcp_action_code: "map_of mcp_action_codes (mcp_action_word a) = Some a"
  by (cases a) (simp_all add: mcp_action_codes_def)

interpretation delivery: json_codec "one_of delivery_words" "J_String \<circ> delivery_word" any "de_word delivery_codes"
  by (rule word_codec [OF _ delivery_code]) (auto simp: delivery_words_def delivery_codes_def)

interpretation monitor: json_codec "one_of monitor_words" "J_String \<circ> monitor_word" any "de_word monitor_codes"
  by (rule word_codec [OF _ monitor_code]) (auto simp: monitor_words_def monitor_codes_def)

interpretation mcp_action: json_codec "one_of mcp_action_words" "J_String \<circ> mcp_action_word" any "de_word mcp_action_codes"
  by (rule word_codec [OF _ mcp_action_code]) (auto simp: mcp_action_words_def mcp_action_codes_def)

lemma field_Some: "map_of obj k = Some v \<Longrightarrow> field obj k d = d v"
  by (simp add: field_def)

interpretation image: json_codec json_is_image en_image any de_image
proof
  fix v
  assume v: "json_is_image v"
  then obtain obj where obj: "as_object v = Some obj" "field obj ''type'' as_str = Some ''image''"
    "is_some_and (map_of obj ''data'') json_is_string" "is_some_and (map_of obj ''mimeType'') json_is_string"
    by (auto simp: json_is_image_def field_def is_some_and_def split: option.splits)
  then show "\<exists>a. de_image v = Some a"
    using str.required_decodes [of obj "''data''"] str.required_decodes [of obj "''mimeType''"]
    by (auto simp: de_image_def)
next
  show "\<not> json_is_image J_Null" by (simp add: json_is_image_def as_object_def)
next
  fix a
  show "json_is_image (en_image a)"
    by (cases a) (simp add: json_is_image_def as_object_def as_str_def json_is_string_def)
  show "de_image (en_image a) = Some a"
    by (cases a) (simp add: de_image_def as_object_def as_str_def field_def)
qed

interpretation images: json_codec json_is_images en_images "list_all any" "de_list de_image"
  using image.array_codec unfolding json_is_images_def [abs_def] .

definition safe_resume :: "ResumeToken \<Rightarrow> bool" where
  "safe_resume r = (safe_u64 (rk_epoch r) \<and> safe_u64 (rk_seq r))"

interpretation resume: json_codec json_is_resume en_resume safe_resume de_resume
proof
  fix v
  assume v: "json_is_resume v"
  then obtain obj where obj: "as_object v = Some obj" "is_some_and (map_of obj ''sessionId'') json_is_string"
    "is_some_and (map_of obj ''epoch'') json_is_u64" "is_some_and (map_of obj ''seq'') json_is_u64"
    by (auto simp: json_is_resume_def is_some_and_def split: option.splits)
  then show "\<exists>a. de_resume v = Some a"
    using str.required_decodes [of obj "''sessionId''"] u64.required_decodes [of obj "''epoch''"] u64.required_decodes [of obj "''seq''"]
    by (auto simp: de_resume_def)
next
  show "\<not> json_is_resume J_Null" by (simp add: json_is_resume_def as_object_def)
next
  fix a
  assume a: "safe_resume a"
  then show "json_is_resume (en_resume a)"
    using u64.encodes str.encodes by (simp add: json_is_resume_def en_resume_def as_object_def safe_resume_def)
  from a show "de_resume (en_resume a) = Some a"
    using u64.decodes str.decodes by (simp add: de_resume_def en_resume_def as_object_def safe_resume_def field_def)
qed

definition safe_answer :: "QnaAnswer \<Rightarrow> bool" where
  "safe_answer a = list_all safe_i64 (qa_selected_option_indices a)"

interpretation i64s: json_codec "\<lambda>v. json_array_of v json_is_i64" "json_list json_i64" "list_all safe_i64" "de_list as_i64"
  by (rule i64.array_codec)

interpretation qna_answer: json_codec json_is_qna_answer en_qna_answer safe_answer de_qna_answer
proof
  fix v
  assume v: "json_is_qna_answer v"
  then obtain obj where obj: "as_object v = Some obj" "is_some_and (map_of obj ''customText'') json_is_string"
    "is_some_and (map_of obj ''selectedOptionIndices'') (\<lambda>v. json_array_of v json_is_i64)"
    by (auto simp: json_is_qna_answer_def is_some_and_def split: option.splits)
  then show "\<exists>a. de_qna_answer v = Some a"
    using str.required_decodes [of obj "''customText''"] i64s.required_decodes [of obj "''selectedOptionIndices''"]
    by (auto simp: de_qna_answer_def)
next
  show "\<not> json_is_qna_answer J_Null" by (simp add: json_is_qna_answer_def as_object_def)
next
  fix a
  assume a: "safe_answer a"
  then show "json_is_qna_answer (en_qna_answer a)"
    using i64s.encodes str.encodes by (simp add: json_is_qna_answer_def en_qna_answer_def as_object_def safe_answer_def)
  from a show "de_qna_answer (en_qna_answer a) = Some a"
    using i64s.decodes str.decodes by (simp add: de_qna_answer_def en_qna_answer_def as_object_def safe_answer_def field_def)
qed

interpretation qna_answers: json_codec "\<lambda>v. json_array_of v json_is_qna_answer" "json_list en_qna_answer"
    "list_all safe_answer" "de_list de_qna_answer"
  by (rule qna_answer.array_codec)

interpretation new_model: json_codec json_is_new_model "\<lambda>x. J_Object [(''modelId'', J_String x)]" any de_new_model
proof
  fix v
  assume "json_is_new_model v"
  then show "\<exists>a. de_new_model v = Some a"
    using str.required_decodes by (auto simp: json_is_new_model_def de_new_model_def is_some_and_def split: option.splits)
qed (use str.encodes str.decodes in \<open>auto simp: json_is_new_model_def de_new_model_def as_object_def field_def\<close>)

section \<open>Answers and actions\<close>

definition safe_response :: "HostUiResponse \<Rightarrow> bool" where
  "safe_response r = (case r of R_Answers _ as \<Rightarrow> list_all safe_answer as | R_Cancelled _ b \<Rightarrow> b | _ \<Rightarrow> True)"

lemma or_else_simps [simp]: "or_else None b = b" "or_else (Some a) b = Some a" "or_else x None = x"
  by (simp_all add: or_else_def split: option.split)

lemma contains_some: "contains_key obj k \<Longrightarrow> is_some_and (map_of obj k) p \<longleftrightarrow> p (the (map_of obj k))"
  by (auto simp: contains_key_def)

lemma field_absent [simp]: "\<not> contains_key obj k \<Longrightarrow> field obj k d = None"
  by (simp add: contains_key_def field_def)

lemma response_object_checked:
  assumes "json_is_host_ui_response (J_Object obj)"
  shows "\<exists>a. de_response (J_Object obj) = Some a"
proof -
  have rid: "is_some_and (map_of obj ''requestId'') json_is_string"
    using assms by (auto simp: json_is_host_ui_response_def as_object_def split: if_splits)
  then obtain r where r: "field obj ''requestId'' as_str = Some r" using str.required_decodes by blast
  consider (val) "contains_key obj ''value''" | (con) "\<not> contains_key obj ''value''" "contains_key obj ''confirmed''"
    | (ans) "\<not> contains_key obj ''value''" "\<not> contains_key obj ''confirmed''" "contains_key obj ''answers''"
    | (can) "\<not> contains_key obj ''value''" "\<not> contains_key obj ''confirmed''" "\<not> contains_key obj ''answers''"
    by blast
  then show ?thesis
  proof cases
    case val
    then have "is_some_and (map_of obj ''value'') json_is_string" "pred_option json_is_string (map_of obj ''feedback'')"
      using assms rid by (auto simp: json_is_host_ui_response_def as_object_def)
    then obtain x f where "field obj ''value'' as_str = Some x" "opt_field obj ''feedback'' as_str = Some f"
      using str.required_decodes str.optional_decodes by blast
    then show ?thesis using r by (simp add: de_response_def as_object_def)
  next
    case con
    then have "is_some_and (map_of obj ''confirmed'') json_is_bool"
      using assms rid by (auto simp: json_is_host_ui_response_def as_object_def)
    then obtain b where "field obj ''confirmed'' as_bool = Some b" using bool.required_decodes by blast
    then show ?thesis using r con by (simp add: de_response_def as_object_def)
  next
    case ans
    then have "is_some_and (map_of obj ''answers'') (\<lambda>v. json_array_of v json_is_qna_answer)"
      using assms rid by (auto simp: json_is_host_ui_response_def as_object_def)
    then obtain b where "field obj ''answers'' (de_list de_qna_answer) = Some b" using qna_answers.required_decodes by blast
    then show ?thesis using r ans by (simp add: de_response_def as_object_def)
  next
    case can
    then have "map_of obj ''cancelled'' = Some (J_Bool True)"
      using assms rid by (auto simp: json_is_host_ui_response_def as_object_def)
    then show ?thesis using r can by (simp add: de_response_def as_object_def field_Some as_bool_def)
  qed
qed

lemma map_of_opt_entry [simp]:
  "map_of (opt_entry k e x @ r) k' = (if k = k' then or_else (map_option e x) (map_of r k') else map_of r k')"
  "map_of (opt_entry k e x) k' = (if k = k' then map_option e x else None)"
  by (simp_all add: opt_entry_def split: option.split)

interpretation response: json_codec json_is_host_ui_response en_response safe_response de_response
proof
  fix v
  assume v: "json_is_host_ui_response v"
  then obtain obj where "v = J_Object obj"
    by (auto simp: json_is_host_ui_response_def as_object_def is_some_and_def split: json_value.splits)
  with v show "\<exists>a. de_response v = Some a" using response_object_checked by blast
next
  show "\<not> json_is_host_ui_response J_Null" by (simp add: json_is_host_ui_response_def as_object_def)
next
  fix a
  assume a: "safe_response a"
  note en = str.encodes bool.encodes qna_answers.encodes str.optional_encodes
  note de = str.decodes bool.decodes qna_answers.decodes str.optional_roundtrip
  show "json_is_host_ui_response (en_response a)"
    using a en by (cases a) (simp_all add: json_is_host_ui_response_def as_object_def contains_key_def safe_response_def del: map_of_append)
  show "de_response (en_response a) = Some a"
    using a de by (cases a) (simp_all add: de_response_def as_object_def field_def opt_field_def safe_response_def)
qed

lemma as_str_Some: "as_str v = Some s \<longleftrightarrow> v = J_String s"
  by (cases v) (auto simp: as_str_def)

definition action_kinds :: "string list" where
  "action_kinds = payload_free_actions @ [''setNotificationAutodrain'', ''setMcpServer'', ''setModel'', ''setThinking'', ''setFacet'',
     ''setPermissionMonitor'', ''goalSet'', ''setTitle'']"

lemma action_checked:
  assumes "json_is_session_action v"
  shows "\<exists>a. de_action v = Some a"
proof -
  obtain obj kind where v: "as_object v = Some obj" "field obj ''kind'' as_str = Some kind"
    using assms by (auto simp: json_is_session_action_def field_def is_some_and_def split: option.splits)
  have k: "Option.bind (map_of obj ''kind'') as_str = Some kind" using v(2) by (simp add: field_def)
  have "kind \<in> set action_kinds"
  proof (rule ccontr)
    assume "kind \<notin> set action_kinds"
    then show False using assms by (simp add: json_is_session_action_def v k action_kinds_def)
  qed
  then show ?thesis
    using assms unfolding action_kinds_def payload_free_actions_def list.set append_Cons append_Nil
    by (elim insertE emptyE; auto simp: json_is_session_action_def de_action_def v k payload_free_actions_def
        dest!: str.required_decodes bool.required_decodes mcp_action.required_decodes monitor.required_decodes str.optional_decodes)
qed

interpretation action: json_codec json_is_session_action en_action any de_action
proof
  show "\<exists>a. de_action v = Some a" if "json_is_session_action v" for v
    using that by (rule action_checked)
  show "\<not> json_is_session_action J_Null" by (simp add: json_is_session_action_def as_object_def)
  fix a
  note en = str.encodes bool.encodes str.optional_encodes mcp_action.encodes monitor.encodes
  note de = str.decodes bool.decodes str.optional_roundtrip mcp_action.decodes monitor.decodes
  show "json_is_session_action (en_action a)"
    using en by (cases a) (simp_all add: json_is_session_action_def tagged_def as_object_def as_str_def payload_free_actions_def)
  show "de_action (en_action a) = Some a"
    using de by (cases a) (simp_all add: de_action_def tagged_def as_object_def field_def opt_field_def)
qed

section \<open>Ingress\<close>

lemmas required_decodes = str.required_decodes bool.required_decodes u64.required_decodes i64.required_decodes
  response.required_decodes action.required_decodes

lemmas optional_decodes = str.optional_decodes bool.optional_decodes images.optional_decodes delivery.optional_decodes
  monitor.optional_decodes new_model.optional_decodes resume.optional_decodes

lemmas nullable_decodes = str.nullable_decodes i64.nullable_decodes

definition client_kinds :: "string list" where
  "client_kinds = bare_messages @ [''hello'', ''prompt'', ''abort'', ''restoreQueue'', ''requestSeed'', ''respondUi'', ''sessionAction'',
     ''destroySession'', ''openSession'', ''reloadSession'', ''setLoginShell'', ''setBackgroundModel'', ''branch'', ''newSession'',
     ''setArchived'', ''renameSession'', ''detachSession'', ''deleteTodo'', ''queryFiles'', ''queryDir'', ''statPath'',
     ''trustResponse'', ''mock'']"

lemma shape_kind:
  assumes "validate_client_message_shape obj kind = Inr ()"
  shows "kind \<in> set client_kinds"
proof (rule ccontr)
  assume "kind \<notin> set client_kinds"
  then show False using assms by (simp add: validate_client_message_shape_def client_kinds_def)
qed

lemma resume_shape:
  "(case x of Some r \<Rightarrow> if json_is_resume r then Inr () else Inl e | None \<Rightarrow> Inr ()) = Inr () \<longleftrightarrow> pred_option json_is_resume x"
  by (cases x) auto

lemma shape_decodes:
  assumes "validate_client_message_shape obj kind = Inr ()"
  shows "\<exists>m. client_of_json obj kind = Some m"
  using shape_kind [OF assms] assms unfolding client_kinds_def bare_messages_def list.set append_Cons append_Nil
  by (elim insertE emptyE; auto simp: validate_client_message_shape_def client_of_json_def bare_messages_def resume_shape
      json_is_nullable_string_def [abs_def] dest!: required_decodes optional_decodes nullable_decodes)

text \<open>The messages whose integers a JavaScript peer can hold, and whose cancellations say so.\<close>

definition safe_client :: "ClientMessage \<Rightarrow> bool" where
  "safe_client m = (case m of
     C_Hello _ r \<Rightarrow> pred_option safe_resume r
   | C_RespondUi r _ \<Rightarrow> safe_response r
   | C_DeleteTodo i \<Rightarrow> safe_i64 i
   | C_QueryDir _ r \<Rightarrow> safe_u64 r
   | C_StatPath _ r \<Rightarrow> safe_u64 r
   | C_TrustResponse _ c \<Rightarrow> pred_option safe_i64 c
   | _ \<Rightarrow> True)"

lemmas wire_encodes = str.encodes bool.encodes u64.encodes i64.encodes response.encodes action.encodes
  str.optional_encodes bool.optional_encodes images.optional_encodes delivery.optional_encodes
  monitor.optional_encodes new_model.optional_encodes resume.optional_encodes

lemmas wire_decodes = str.decodes bool.decodes u64.decodes i64.decodes response.decodes action.decodes
  str.optional_roundtrip bool.optional_roundtrip images.optional_roundtrip delivery.optional_roundtrip
  monitor.optional_roundtrip new_model.optional_roundtrip resume.optional_roundtrip str.nullable_roundtrip i64.nullable_roundtrip

lemma encoded_shape:
  assumes "safe_client m"
  shows "\<exists>obj kind. json_of_client m = J_Object obj \<and> map_of obj ''type'' = Some (J_String kind)
    \<and> validate_client_message_shape obj kind = Inr () \<and> client_of_json obj kind = Some m"
  using assms wire_encodes wire_decodes str.nullable_encodes i64.nullable_encodes
  by (cases m) (simp_all add: tagged_def validate_client_message_shape_def client_of_json_def bare_messages_def safe_client_def
      field_def opt_field_def json_is_nullable_string_def resume_shape del: map_of_append case_map_option)

text \<open>
  Property C35. Every message a client serializes passes the ingress check and decodes to itself, as long
  as its integers stay within the range that JavaScript represents exactly and a cancellation is
  marked as one.
\<close>

theorem client_message_roundtrip:
  assumes "safe_client m"
  shows "parse_client_message_value err (json_of_client m) = Inr m"
proof -
  obtain obj kind where "json_of_client m = J_Object obj" "map_of obj ''type'' = Some (J_String kind)"
    "validate_client_message_shape obj kind = Inr ()" "client_of_json obj kind = Some m"
    using encoded_shape [OF assms] by blast
  then show ?thesis by (simp add: parse_client_message_value_def as_object_def as_str_def)
qed

theorem client_message_roundtrip_witness:
  "parse_client_message_value [] (json_of_client (C_RespondUi (R_Answers ''q1'' [\<lparr>qa_selected_option_indices = [0, - 1], qa_custom_text = ''x''\<rparr>]) None))
     = Inr (C_RespondUi (R_Answers ''q1'' [\<lparr>qa_selected_option_indices = [0, - 1], qa_custom_text = ''x''\<rparr>]) None)"
  by (rule client_message_roundtrip) (simp add: safe_client_def safe_response_def safe_answer_def safe_i64_def MAX_SAFE_WIRE_INTEGER_def)

text \<open>
  Property C36. The check is the whole contract of the ingress: a value is turned into a message exactly when
  it is an object with a textual type and passes the shape check of that type; the decoder that
  runs afterwards never fails.
\<close>

theorem ingress_exact:
  "(\<exists>m. parse_client_message_value err v = Inr m) \<longleftrightarrow>
     (\<exists>obj kind. v = J_Object obj \<and> map_of obj ''type'' = Some (J_String kind) \<and> validate_client_message_shape obj kind = Inr ())"
proof
  assume "\<exists>m. parse_client_message_value err v = Inr m"
  then obtain obj kind where "as_object v = Some obj" "Option.bind (map_of obj ''type'') as_str = Some kind"
    "validate_client_message_shape obj kind = Inr ()"
    by (auto simp: parse_client_message_value_def split: option.splits sum.splits)
  moreover have "v = J_Object obj" using \<open>as_object v = Some obj\<close> by (simp add: as_object_def split: json_value.splits)
  moreover have "map_of obj ''type'' = Some (J_String kind)"
    using \<open>Option.bind (map_of obj ''type'') as_str = Some kind\<close>
    by (auto simp: Option.bind_eq_Some_conv as_str_Some)
  ultimately show "\<exists>obj kind. v = J_Object obj \<and> map_of obj ''type'' = Some (J_String kind) \<and> validate_client_message_shape obj kind = Inr ()"
    by blast
next
  assume "\<exists>obj kind. v = J_Object obj \<and> map_of obj ''type'' = Some (J_String kind) \<and> validate_client_message_shape obj kind = Inr ()"
  then show "\<exists>m. parse_client_message_value err v = Inr m"
    using shape_decodes by (fastforce simp: parse_client_message_value_def as_object_def as_str_def)
qed

end
