(* ===== verification/Wire_Server_Props.thy ===== *)
theory Wire_Server_Props
  imports Wire_Server Wire_Roundtrip
begin

text \<open>
  Every server message that the server can write passes the shape check of the reading side. Each type
  of the wire is an interpretation of the contract of \<open>Wire_Roundtrip\<close>; the facts it provides are
  collected for the types that contain it.
\<close>

named_theorems encoded \<open>encoded values pass their check\<close>

declare str.encodes [encoded] str.optional_encodes [encoded] str.nullable_encodes [encoded] str.list_encodes [encoded]
  str.optional_list_encodes [encoded] str.nullable_list_encodes [encoded] bool.encodes [encoded] bool.optional_encodes [encoded] i64.encodes [encoded]
  i64.optional_encodes [encoded] i64.nullable_encodes [encoded] i64.list_encodes [encoded] u64.encodes [encoded]
  images.optional_encodes [encoded] monitor.optional_encodes [encoded]

section \<open>Words\<close>

lemma queue_mode_word_encoded [encoded]: "one_of [''steer'', ''followUp''] (J_String (queue_mode_word x))"
  by (cases x) (simp_all add: one_of_def as_str_def)

lemma status_word_encoded [encoded]: "one_of [''idle'', ''initializing'', ''running'', ''failed''] (J_String (status_word x))"
  by (cases x) (simp_all add: one_of_def as_str_def)

lemma mcp_status_word_encoded [encoded]: "one_of [''connected'', ''disconnected'', ''reconnecting'', ''disabled''] (J_String (mcp_status_word x))"
  by (cases x) (simp_all add: one_of_def as_str_def)

lemma command_source_word_encoded [encoded]: "one_of [''extension'', ''prompt'', ''skill'', ''builtin''] (J_String (command_source_word x))"
  by (cases x) (simp_all add: one_of_def as_str_def)

lemma flagged_mode_word_encoded [encoded]: "one_of [''included'', ''referenced''] (J_String (flagged_mode_word x))"
  by (cases x) (simp_all add: one_of_def as_str_def)

lemma todo_status_word_encoded [encoded]: "one_of [''pending'', ''in_progress'', ''done'', ''blocked''] (J_String (todo_status_word x))"
  by (cases x) (simp_all add: one_of_def as_str_def)

lemma phase_word_encoded [encoded]: "one_of [''running'', ''waiting'', ''failed'', ''done''] (J_String (phase_word x))"
  by (cases x) (simp_all add: one_of_def as_str_def)

lemma job_kind_word_encoded [encoded]: "one_of [''shell'', ''subagent''] (J_String (job_kind_word x))"
  by (cases x) (simp_all add: one_of_def as_str_def)

lemma job_status_word_encoded [encoded]: "one_of [''reserved'', ''running'', ''completed'', ''failed'', ''cancelled''] (J_String (job_status_word x))"
  by (cases x) (simp_all add: one_of_def as_str_def)

lemma classification_word_encoded [encoded]: "one_of [''terminal-only''] (J_String (classification_word x))"
  by (cases x) (simp_all add: one_of_def as_str_def)

lemma closed_reason_word_encoded [encoded]: "one_of [''manual'', ''ended'', ''failed''] (J_String (closed_reason_word x))"
  by (cases x) (simp_all add: one_of_def as_str_def)

lemma replay_status_word_encoded [encoded]: "one_of [''loading'', ''available'', ''unavailable''] (J_String (replay_status_word x))"
  by (cases x) (simp_all add: one_of_def as_str_def)

interpretation channel: json_type "one_of [''text'', ''thinking'']" "J_String \<circ> channel_word" any
proof
  show "one_of [''text'', ''thinking''] ((J_String \<circ> channel_word) x)" for x
    by (cases x) (simp_all add: one_of_def as_str_def)
qed (simp add: one_of_def as_str_def)

interpretation level: json_type "one_of [''info'', ''warning'', ''error'']" "J_String \<circ> level_word" any
proof
  show "one_of [''info'', ''warning'', ''error''] ((J_String \<circ> level_word) x)" for x
    by (cases x) (simp_all add: one_of_def as_str_def)
qed (simp add: one_of_def as_str_def)

interpretation placement: json_type "one_of [''aboveComposer'', ''belowComposer'']" "J_String \<circ> placement_word" any
proof
  show "one_of [''aboveComposer'', ''belowComposer''] ((J_String \<circ> placement_word) x)" for x
    by (cases x) (simp_all add: one_of_def as_str_def)
qed (simp add: one_of_def as_str_def)

declare channel.optional_encodes [encoded] level.optional_encodes [encoded] placement.optional_encodes [encoded]

section \<open>Records\<close>

lemma number_encoded [encoded]: "json_is_number (json_i64 i)"
  by (simp add: json_is_number_def json_i64_def)

lemma float_encoded [encoded]: "nullable (json_f64 ryu) x = J_Null \<or> json_is_number (nullable (json_f64 ryu) x)"
  by (cases x) (auto simp: nullable_def json_f64_def json_is_number_def)

lemma nullable_json [simp]: "pred_option (\<lambda>v. v = J_Null \<or> p v) (map_option (nullable e) x) \<longleftrightarrow> (\<forall>y. x = Some y \<longrightarrow> nullable e y = J_Null \<or> p (nullable e y))"
  by (cases x) simp_all

lemma required_simps [simp]:
  "json_server_required_fields obj []"
  "json_server_required_fields obj ((k, p) # fs) \<longleftrightarrow> is_some_and (map_of obj k) p \<and> json_server_required_fields obj fs"
  "json_server_nullable_required obj k p \<longleftrightarrow> is_some_and (map_of obj k) (\<lambda>v. v = J_Null \<or> p v)"
  by (simp_all add: json_server_required_fields_def json_server_nullable_required_def)

interpretation resolved_ref: json_type json_is_resolved_ref en_resolved_ref any
  by unfold_locales (simp_all add: json_is_resolved_ref_def en_resolved_ref_def as_object_def encoded del: map_of_append)

declare resolved_ref.encodes [encoded] resolved_ref.optional_encodes [encoded] resolved_ref.list_encodes [encoded] resolved_ref.optional_list_encodes [encoded]

interpretation queued_message: json_type json_is_queued_message en_queued_message any
  by unfold_locales (simp_all add: json_is_queued_message_def en_queued_message_def as_object_def encoded del: map_of_append)

declare queued_message.encodes [encoded] queued_message.optional_encodes [encoded] queued_message.list_encodes [encoded] queued_message.optional_list_encodes [encoded]

interpretation session_config: json_type json_is_session_config en_session_config any
  by unfold_locales (simp_all add: json_is_session_config_def en_session_config_def as_object_def encoded del: map_of_append)

declare session_config.encodes [encoded] session_config.optional_encodes [encoded] session_config.list_encodes [encoded] session_config.optional_list_encodes [encoded]

definition safe_usage :: "SessionUsage \<Rightarrow> bool" where
  "safe_usage x = (pred_option safe_i64 (us_tokens x) \<and> safe_i64 (us_context_window x))"

interpretation usage: json_type json_is_usage "en_usage ryu" safe_usage for ryu
  by unfold_locales (simp_all add: json_is_usage_def en_usage_def as_object_def safe_usage_def encoded del: map_of_append)

declare usage.encodes [encoded] usage.optional_encodes [encoded] usage.list_encodes [encoded] usage.optional_list_encodes [encoded]

interpretation mcp_info: json_type json_is_mcp_info en_mcp_info any
  by unfold_locales (simp_all add: json_is_mcp_info_def en_mcp_info_def as_object_def encoded del: map_of_append)

declare mcp_info.encodes [encoded] mcp_info.optional_encodes [encoded] mcp_info.list_encodes [encoded] mcp_info.optional_list_encodes [encoded]

interpretation model_option: json_type json_is_model_option en_model_option any
  by unfold_locales (simp_all add: json_is_model_option_def en_model_option_def as_object_def encoded del: map_of_append)

declare model_option.encodes [encoded] model_option.optional_encodes [encoded] model_option.list_encodes [encoded] model_option.optional_list_encodes [encoded]

interpretation model_defaults: json_type json_is_model_defaults en_model_defaults any
  by unfold_locales (simp_all add: json_is_model_defaults_def en_model_defaults_def as_object_def encoded del: map_of_append)

declare model_defaults.encodes [encoded] model_defaults.optional_encodes [encoded] model_defaults.list_encodes [encoded] model_defaults.optional_list_encodes [encoded]

interpretation command_info: json_type json_is_command_info en_command_info any
  by unfold_locales (simp_all add: json_is_command_info_def en_command_info_def as_object_def encoded del: map_of_append)

declare command_info.encodes [encoded] command_info.optional_encodes [encoded] command_info.list_encodes [encoded] command_info.optional_list_encodes [encoded]

interpretation file_info: json_type json_is_file_info en_file_info any
  by unfold_locales (simp_all add: json_is_file_info_def en_file_info_def as_object_def encoded del: map_of_append)

declare file_info.encodes [encoded] file_info.optional_encodes [encoded] file_info.list_encodes [encoded] file_info.optional_list_encodes [encoded]

interpretation goal: json_type json_is_goal en_goal any
  by unfold_locales (simp_all add: json_is_goal_def en_goal_def as_object_def encoded del: map_of_append)

declare goal.encodes [encoded] goal.optional_encodes [encoded] goal.list_encodes [encoded] goal.optional_list_encodes [encoded]

interpretation flagged_file: json_type json_is_flagged_file en_flagged_file any
  by unfold_locales (simp_all add: json_is_flagged_file_def en_flagged_file_def as_object_def encoded del: map_of_append)

declare flagged_file.encodes [encoded] flagged_file.optional_encodes [encoded] flagged_file.list_encodes [encoded] flagged_file.optional_list_encodes [encoded]

definition safe_todo :: "TodoItem \<Rightarrow> bool" where
  "safe_todo x = (safe_i64 (td_id x) \<and> list_all safe_i64 (td_dependencies x))"

interpretation todo: json_type json_is_todo en_todo safe_todo
  by unfold_locales (simp_all add: json_is_todo_def en_todo_def as_object_def safe_todo_def encoded del: map_of_append)

declare todo.encodes [encoded] todo.optional_encodes [encoded] todo.list_encodes [encoded] todo.optional_list_encodes [encoded]

definition safe_attention :: "SessionAttention \<Rightarrow> bool" where
  "safe_attention x = (pred_option safe_i64 (sa_pending_count x))"

interpretation attention: json_type json_is_session_attention en_attention safe_attention
  by unfold_locales (simp_all add: json_is_session_attention_def en_attention_def as_object_def safe_attention_def encoded del: map_of_append)

declare attention.encodes [encoded] attention.optional_encodes [encoded] attention.list_encodes [encoded] attention.optional_list_encodes [encoded]

definition safe_job :: "BackgroundJob \<Rightarrow> bool" where
  "safe_job x = (pred_option safe_i64 (bj_output_bytes x))"

interpretation background_job: json_type json_is_background_job en_background_job safe_job
  by unfold_locales (simp_all add: json_is_background_job_def en_background_job_def as_object_def safe_job_def encoded del: map_of_append)

declare background_job.encodes [encoded] background_job.optional_encodes [encoded] background_job.list_encodes [encoded] background_job.optional_list_encodes [encoded]

interpretation workspace: json_type json_is_workspace en_workspace any
  by unfold_locales (simp_all add: json_is_workspace_def en_workspace_def as_object_def encoded del: map_of_append)

declare workspace.encodes [encoded] workspace.optional_encodes [encoded] workspace.list_encodes [encoded] workspace.optional_list_encodes [encoded]

interpretation session_ref: json_type json_is_session_ref en_session_ref any
  by unfold_locales (simp_all add: json_is_session_ref_def en_session_ref_def as_object_def encoded del: map_of_append)

declare session_ref.encodes [encoded] session_ref.optional_encodes [encoded] session_ref.list_encodes [encoded] session_ref.optional_list_encodes [encoded]

definition safe_snapshot :: "SessionSnapshot \<Rightarrow> bool" where
  "safe_snapshot x = (pred_option safe_usage (sn_usage x) \<and> pred_option (list_all safe_todo) (sn_todos x)
     \<and> pred_option safe_i64 (sn_cwd_stack_depth x))"

lemma goal_encoded [encoded]: "nullable en_goal y = J_Null \<or> json_is_goal (nullable en_goal y)"
  by (rule goal.nullable_encodes) simp

interpretation snapshot: json_type json_is_snapshot "en_snapshot ryu" safe_snapshot for ryu
  by unfold_locales (simp_all add: json_is_snapshot_def en_snapshot_def as_object_def safe_snapshot_def encoded del: map_of_append)

declare snapshot.encodes [encoded] snapshot.optional_encodes [encoded] snapshot.list_encodes [encoded] snapshot.optional_list_encodes [encoded]

definition safe_entry :: "SessionListEntry \<Rightarrow> bool" where
  "safe_entry x = (safe_i64 (le_user_message_count x) \<and> pred_option safe_usage (le_usage x))"

interpretation session_list_entry: json_type json_is_session_list_entry "en_session_list_entry ryu" safe_entry for ryu
  by unfold_locales (simp_all add: json_is_session_list_entry_def en_session_list_entry_def as_object_def safe_entry_def encoded del: map_of_append)

declare session_list_entry.encodes [encoded] session_list_entry.optional_encodes [encoded] session_list_entry.list_encodes [encoded] session_list_entry.optional_list_encodes [encoded]

interpretation qna_option: json_type json_is_qna_option en_qna_option any
  by unfold_locales (simp_all add: json_is_qna_option_def en_qna_option_def as_object_def encoded del: map_of_append)

declare qna_option.encodes [encoded] qna_option.optional_encodes [encoded] qna_option.list_encodes [encoded] qna_option.optional_list_encodes [encoded]

interpretation qna_question: json_type json_is_qna_question en_qna_question any
  by unfold_locales (simp_all add: json_is_qna_question_def en_qna_question_def as_object_def encoded del: map_of_append)

declare qna_question.encodes [encoded] qna_question.optional_encodes [encoded] qna_question.list_encodes [encoded] qna_question.optional_list_encodes [encoded]

interpretation error_info: json_type json_is_error_info en_error_info any
  by unfold_locales (simp_all add: json_is_error_info_def en_error_info_def as_object_def encoded del: map_of_append)

declare error_info.encodes [encoded] error_info.optional_encodes [encoded] error_info.list_encodes [encoded] error_info.optional_list_encodes [encoded]

interpretation issue: json_type json_is_issue en_issue any
  by unfold_locales (simp_all add: json_is_issue_def en_issue_def as_object_def encoded del: map_of_append)

declare issue.encodes [encoded] issue.optional_encodes [encoded] issue.list_encodes [encoded] issue.optional_list_encodes [encoded]

interpretation settings: json_type json_is_settings en_settings any
  by unfold_locales (simp_all add: json_is_settings_def en_settings_def as_object_def encoded del: map_of_append)

declare settings.encodes [encoded] settings.optional_encodes [encoded] settings.list_encodes [encoded] settings.optional_list_encodes [encoded]

interpretation env: json_type json_is_env en_env any
  by unfold_locales (simp_all add: json_is_env_def en_env_def as_object_def encoded del: map_of_append)

declare env.encodes [encoded] env.optional_encodes [encoded] env.list_encodes [encoded] env.optional_list_encodes [encoded]

interpretation trust_option: json_type json_is_trust_option en_trust_option any
  by unfold_locales (simp_all add: json_is_trust_option_def en_trust_option_def as_object_def encoded del: map_of_append)

declare trust_option.encodes [encoded] trust_option.optional_encodes [encoded] trust_option.list_encodes [encoded] trust_option.optional_list_encodes [encoded]

lemma diagnostic_encoded [encoded]: "json_is_diagnostic (en_diagnostic d)"
  by (cases d) (simp_all add: json_is_diagnostic_def tagged_def as_object_def one_of_def as_str_def encoded)

lemma diagnostic_optional [encoded]: "pred_option json_is_diagnostic (map_option en_diagnostic d)"
  using diagnostic_encoded by (cases d) simp_all

section \<open>Requests and events\<close>

definition safe_request :: "HostUiRequest \<Rightarrow> bool" where
  "safe_request r = (case r of
     H_Confirm _ _ _ _ ms \<Rightarrow> pred_option safe_i64 ms | H_Input _ _ _ _ ms \<Rightarrow> pred_option safe_i64 ms
   | H_Select _ _ _ _ ms \<Rightarrow> pred_option safe_i64 ms | H_Qna _ _ _ ms \<Rightarrow> pred_option safe_i64 ms
   | H_Plan _ _ _ _ _ _ _ ms \<Rightarrow> pred_option safe_i64 ms | H_Permission _ _ _ _ _ ms \<Rightarrow> pred_option safe_i64 ms
   | _ \<Rightarrow> True)"

lemma labels_encoded [encoded]: "json_is_three_labels (en_labels ls)"
  by (simp add: json_is_three_labels_def en_labels_def json_list_def as_array_def encoded split: prod.split)

lemma request_encoded [encoded]:
  assumes "safe_request r"
  shows "json_is_host_ui_request (en_request r)"
  using assms by (cases r) (simp_all add: json_is_host_ui_request_def tagged_def as_object_def str.decodes safe_request_def encoded
      del: map_of_append)

definition safe_event :: "SessionDriverEvent \<Rightarrow> bool" where
  "safe_event ev = (case ev of
     E_SessionOpened _ s \<Rightarrow> safe_snapshot s | E_SessionUpdated _ s \<Rightarrow> safe_snapshot s | E_RunCompleted _ s _ _ \<Rightarrow> safe_snapshot s
   | E_ToolUpdated _ _ _ p \<Rightarrow> pred_option f64_is_finite p | E_UsageUpdated _ u \<Rightarrow> safe_usage u
   | E_HostUiRequest _ r \<Rightarrow> safe_request r | _ \<Rightarrow> True)"

lemma map_of_base [simp]:
  "map_of (base_entries b @ fs) k =
     (if k = ''sessionRef'' then Some (en_session_ref (eb_session_ref b))
      else if k = ''timestamp'' then Some (J_String (eb_timestamp b))
      else if k = ''runId'' then or_else (map_option J_String (eb_run_id b)) (map_of fs k)
      else if k = ''subagentHandle'' then or_else (map_option J_String (eb_subagent_handle b)) (map_of fs k)
      else map_of fs k)"
  "map_of (base_entries b) k =
     (if k = ''sessionRef'' then Some (en_session_ref (eb_session_ref b))
      else if k = ''timestamp'' then Some (J_String (eb_timestamp b))
      else if k = ''runId'' then map_option J_String (eb_run_id b)
      else if k = ''subagentHandle'' then map_option J_String (eb_subagent_handle b)
      else None)"
  by (auto simp: base_entries_def simp del: map_of_append)

lemma progress_encoded [encoded]: "pred_option f64_is_finite p \<Longrightarrow> pred_option json_is_number (map_option (json_f64 ryu) p)"
  by (cases p) (auto simp: json_f64_def json_is_number_def)

lemma event_encoded:
  assumes "safe_event ev"
  shows "json_is_session_event (en_event ryu ev)"
  using assms by (cases ev) (simp_all add: json_is_session_event_def tagged_def as_object_def str.decodes safe_event_def encoded
      del: map_of_append)

interpretation event: json_type json_is_session_event "en_event ryu" safe_event for ryu
proof
  show "\<not> json_is_session_event J_Null" by (simp add: json_is_session_event_def as_object_def)
qed (rule event_encoded)

declare event.encodes [encoded] event.list_encodes [encoded]

section \<open>Messages\<close>

text \<open>
  What a server message must satisfy: counters and integers that a JavaScript peer can hold, and a closed set of
  texts for the state of an update and the kind of an error.
\<close>

definition safe_server :: "ServerMessage \<Rightarrow> bool" where
  "safe_server m = (case m of
     M_Seed _ e q evs \<Rightarrow> safe_u64 e \<and> safe_u64 q \<and> list_all safe_event evs
   | M_Event ev e q \<Rightarrow> safe_u64 e \<and> safe_u64 q \<and> safe_event ev
   | M_SessionList ss _ _ \<Rightarrow> list_all safe_entry ss
   | M_SessionStatus _ _ a \<Rightarrow> pred_option (list_all safe_attention) a
   | M_JobsList js \<Rightarrow> list_all safe_job js
   | M_DirListing _ r \<Rightarrow> safe_u64 (unat r)
   | M_PathStat _ r \<Rightarrow> safe_u64 (unat r)
   | M_UpdateStatus _ _ _ st re _ \<Rightarrow> pred_option (\<lambda>s. s \<in> {''deferred'', ''rejected''}) st
       \<and> pred_option (\<lambda>s. s \<in> {''busy'', ''failed''}) re
   | M_Error _ k \<Rightarrow> pred_option (\<lambda>s. s \<in> {''session-switch'', ''abort'', ''sessionAction'', ''destroySession''}) k
   | _ \<Rightarrow> True)"

lemma unat_u32_safe [encoded]: "json_is_u64 (json_u64 (unat (v :: u32)))"
proof -
  have "unat v < 2 ^ 32" using unsigned_less [of v] by simp
  then show ?thesis by (intro u64.encodes) (simp add: safe_u64_def MAX_SAFE_WIRE_INTEGER_def)
qed

lemma text_one_of: "pred_option (one_of ws) (map_option J_String x) \<longleftrightarrow> pred_option (\<lambda>s. s \<in> set ws) x"
  by (cases x) (simp_all add: one_of_def as_str_def)

lemma server_encoded:
  assumes "safe_server m"
  shows "\<exists>obj kind. json_of_server ryu m = J_Object obj \<and> map_of obj ''type'' = Some (J_String kind) \<and> kind \<in> set server_kinds
    \<and> json_server_shape_is_valid obj kind \<and> closed_texts_ok obj kind"
  using assms by (cases m) (simp_all add: tagged_def json_server_shape_is_valid_def closed_texts_ok_def server_kinds_def
      safe_server_def text_one_of encoded del: map_of_append)

text \<open>
  The display name of a workspace is written under its Rust field name, while both checks (and the TypeScript
  types) call it \<^verbatim>\<open>displayName\<close>: no reader ever sees it.
\<close>

lemma workspace_display_name_unread:
  "\<exists>obj. en_workspace w = J_Object obj \<and> map_of obj ''displayName'' = None
     \<and> map_of obj ''display_name'' = map_option J_String (wr_display_name w)"
  by (simp add: en_workspace_def del: map_of_append)

text \<open>
  Every server message whose numbers a JavaScript peer can represent and whose status texts come from the
  closed sets reaches the decoder of the reading side: no shape check of a message, an event, a
  snapshot or a request rejects what the encoder writes.
\<close>

theorem server_message_accepted:
  assumes "from_str raw = Some (json_of_server ryu m)" "safe_server m"
  shows "parse_server_message from_str from_value raw = from_value (json_of_server ryu m)"
proof -
  obtain obj kind where "json_of_server ryu m = J_Object obj" "map_of obj ''type'' = Some (J_String kind)" "kind \<in> set server_kinds"
    "json_server_shape_is_valid obj kind" "closed_texts_ok obj kind"
    using server_encoded [OF assms(2)] by blast
  then show ?thesis using assms(1) by (simp add: parse_server_message_def as_object_def as_str_def)
qed

theorem server_message_accepted_witness:
  "parse_server_message (\<lambda>_. Some (json_of_server (\<lambda>_. ''0.5'') (M_Error ''no'' (Some ''abort'')))) (\<lambda>_. Some M_Pong) [] = Some M_Pong"
  using server_message_accepted [of "\<lambda>_. Some (json_of_server (\<lambda>_. ''0.5'') (M_Error ''no'' (Some ''abort'')))" "[]" "\<lambda>_. ''0.5''"
      "M_Error ''no'' (Some ''abort'')" "\<lambda>_. Some M_Pong"]
  by (simp add: safe_server_def)

end
