(* ===== verification/Background_Model.thy ===== *)
theory Background_Model
  imports Models
begin

text \<open>
  The background model setting (\<^verbatim>\<open>pantoken-server/src/background_model.rs\<close>): a spec
  \<^verbatim>\<open>modelId[:thinking]\<close> is resolved against the registered models, with a warning for what does not
  resolve. Slicing an id inside a UTF-8 character panics, so the functions return \<open>None\<close> then;
  \<^verbatim>\<open>str::to_lowercase\<close> is the parameter \<open>lower\<close>.
\<close>

section \<open>Definitions\<close>

record ResolvedBackgroundModel =
  bm_model :: "ModelOption option"
  bm_thinking_level :: "string option"
  bm_warning :: "string option"

definition unresolved :: "string option \<Rightarrow> ResolvedBackgroundModel" where
  "unresolved w = \<lparr>bm_model = None, bm_thinking_level = None, bm_warning = w\<rparr>"

definition VALID_THINKING_LEVELS :: "string list" where
  "VALID_THINKING_LEVELS = [''off'', ''minimal'', ''low'', ''medium'', ''high'', ''xhigh'']"

definition SCRIPT_PREFIX :: string where
  "SCRIPT_PREFIX = ''script:''"

definition has_trailing_date :: "string \<Rightarrow> bool option" where
  "has_trailing_date mid =
     (if length mid < 9 then Some False
      else if \<not> is_char_boundary mid (length mid - 9) then None
      else (let tail = drop (length mid - 9) mid
            in Some (hd tail = CHR ''-'' \<and> list_all is_ascii_digit (tl tail))))"

definition ends_with :: "string \<Rightarrow> string \<Rightarrow> bool" where
  "ends_with s p \<longleftrightarrow> length p \<le> length s \<and> drop (length s - length p) s = p"

definition is_alias :: "string \<Rightarrow> bool option" where
  "is_alias mid = (if ends_with mid ''-latest'' then Some True else map_option Not (has_trailing_date mid))"

definition find_exact_model_reference_match ::
  "(string \<Rightarrow> string) \<Rightarrow> string \<Rightarrow> ModelOption list \<Rightarrow> ModelOption option" where
  "find_exact_model_reference_match lower reference models =
     (let trimmed = str_trim reference in
      if trimmed = [] then None
      else case filter (\<lambda>m. lower (mo_model_id m) = lower trimmed) models of
             [m] \<Rightarrow> Some m
           | _ \<Rightarrow> None)"

text \<open>\<^verbatim>\<open>str::cmp\<close> on the bytes, and \<^verbatim>\<open>Iterator::max_by\<close>, which keeps the later of two equal elements.\<close>

fun str_cmp :: "string \<Rightarrow> string \<Rightarrow> ordering" where
  "str_cmp [] [] = Equal"
| "str_cmp [] (b # bs) = Less"
| "str_cmp (a # as) [] = Greater"
| "str_cmp (a # as) (b # bs) = (if byte_of a = byte_of b then str_cmp as bs else cmp (byte_of a) (byte_of b))"

fun max_by_id :: "ModelOption list \<Rightarrow> ModelOption option" where
  "max_by_id [] = None"
| "max_by_id (m # ms) = Some (foldl (\<lambda>best x.
     if str_cmp (mo_model_id best) (mo_model_id x) = Greater then best else x) m ms)"

text \<open>The aliases and the dated versions among the matches; a panic on one id is a panic of the whole.\<close>

fun partition_alias :: "ModelOption list \<Rightarrow> (ModelOption list \<times> ModelOption list) option" where
  "partition_alias [] = Some ([], [])"
| "partition_alias (m # ms) = (case is_alias (mo_model_id m) of
     None \<Rightarrow> None
   | Some a \<Rightarrow> map_option (\<lambda>(aliases, dated). if a then (m # aliases, dated) else (aliases, m # dated))
       (partition_alias ms))"

definition matching :: "(string \<Rightarrow> string) \<Rightarrow> string \<Rightarrow> ModelOption list \<Rightarrow> ModelOption list" where
  "matching lower pattern models = filter (\<lambda>m.
     str_contains (lower (mo_model_id m)) (lower pattern) \<or> str_contains (lower (mo_label m)) (lower pattern)) models"

definition try_match_model ::
  "(string \<Rightarrow> string) \<Rightarrow> string \<Rightarrow> ModelOption list \<Rightarrow> ModelOption option option" where
  "try_match_model lower pattern models =
     (case find_exact_model_reference_match lower pattern models of
        Some exact \<Rightarrow> Some (Some exact)
      | None \<Rightarrow>
          (if matching lower pattern models = [] then Some None
           else map_option (\<lambda>(aliases, dated). max_by_id (if aliases \<noteq> [] then aliases else dated))
                  (partition_alias (matching lower pattern models))))"

text \<open>\<^verbatim>\<open>str::find\<close> and \<^verbatim>\<open>str::rfind\<close> of an ASCII character.\<close>

fun find_char :: "char \<Rightarrow> string \<Rightarrow> nat option" where
  "find_char c [] = None"
| "find_char c (x # xs) = (if x = c then Some 0 else map_option Suc (find_char c xs))"

fun rfind_char :: "char \<Rightarrow> string \<Rightarrow> nat option" where
  "rfind_char c [] = None"
| "rfind_char c (x # xs) = (case rfind_char c xs of
     Some n \<Rightarrow> Some (Suc n)
   | None \<Rightarrow> if x = c then Some 0 else None)"

lemma rfind_char_less: "rfind_char c s = Some n \<Longrightarrow> n < length s"
  by (induction s arbitrary: n) (auto split: option.splits if_splits)

definition quoted :: "string \<Rightarrow> string" where
  "quoted s = CHR 0x22 # s @ [CHR 0x22]"

definition not_found_warning :: "string \<Rightarrow> string" where
  "not_found_warning spec = ''No registered model matches '' @ quoted spec
     @ ''. Check the model id, or connect the provider first.''"

definition dropped_level_warning :: "string \<Rightarrow> string \<Rightarrow> string" where
  "dropped_level_warning suffix spec = ''Invalid thinking level '' @ quoted suffix @ '' in spec '' @ quoted spec
     @ '' '' @ [CHR 0xE2, CHR 0x80, CHR 0x94] @ '' dropped; valid: '' @ join '', '' VALID_THINKING_LEVELS @ ''.''"

definition invalid_level_warning :: "string \<Rightarrow> string \<Rightarrow> string" where
  "invalid_level_warning suffix spec = ''No registered model matches '' @ quoted spec
     @ '' (invalid thinking level '' @ quoted suffix @ '' dropped; valid: ''
     @ join '', '' VALID_THINKING_LEVELS @ '').''"

function parse_spec :: "(string \<Rightarrow> string) \<Rightarrow> string \<Rightarrow> ModelOption list \<Rightarrow> ResolvedBackgroundModel option" where
  "parse_spec lower spec models = (case try_match_model lower spec models of
     None \<Rightarrow> None
   | Some (Some exact) \<Rightarrow> Some ((unresolved None)\<lparr>bm_model := Some exact\<rparr>)
   | Some None \<Rightarrow>
       (case rfind_char (CHR '':'') spec of
          None \<Rightarrow> Some (unresolved (Some (not_found_warning spec)))
        | Some colon \<Rightarrow>
            (if (case find_char (CHR ''/'') spec of None \<Rightarrow> False | Some s \<Rightarrow> \<not> colon > s)
             then Some (unresolved (Some (not_found_warning spec)))
             else (let suffix = drop (Suc colon) spec
                   in case parse_spec lower (take colon spec) models of
                     None \<Rightarrow> None
                   | Some inner \<Rightarrow> Some
                       (if suffix \<in> set VALID_THINKING_LEVELS
                        then (if bm_model inner \<noteq> None
                              then \<lparr>bm_model = bm_model inner, bm_thinking_level = Some suffix, bm_warning = None\<rparr>
                              else unresolved (Some (not_found_warning spec)))
                        else (if bm_model inner \<noteq> None
                              then \<lparr>bm_model = bm_model inner, bm_thinking_level = None,
                                     bm_warning = Some (dropped_level_warning suffix spec)\<rparr>
                              else unresolved (Some (invalid_level_warning suffix spec))))))))"
  by pat_completeness auto
termination
  by (relation "measure (\<lambda>(l, s, m). length s)") (auto dest: rfind_char_less)

declare parse_spec.simps [simp del]

definition resolve_script_spec :: "string \<Rightarrow> ResolvedBackgroundModel" where
  "resolve_script_spec script_path = unresolved (Some (''Background-model script resolution (''
     @ quoted script_path @ '') is not yet ported to the Rust server.''))"

definition resolve_background_model ::
  "(string \<Rightarrow> string) \<Rightarrow> string option \<Rightarrow> ModelOption list \<Rightarrow> ResolvedBackgroundModel option" where
  "resolve_background_model lower background_model models =
     (case Option.bind background_model (\<lambda>s. if str_trim s = [] then None else Some (str_trim s)) of
        None \<Rightarrow> Some (unresolved None)
      | Some spec \<Rightarrow>
          (case strip_prefix spec SCRIPT_PREFIX of
             Some path \<Rightarrow> Some (resolve_script_spec (str_trim path))
           | None \<Rightarrow> parse_spec lower spec models))"

section \<open>Lemmas\<close>

lemma unresolved_simps [simp]:
  "bm_model (unresolved w) = None" "bm_thinking_level (unresolved w) = None" "bm_warning (unresolved w) = w"
  by (simp_all add: unresolved_def)

lemma max_by_id_in: "max_by_id ms = Some m \<Longrightarrow> m \<in> set ms"
proof (cases ms)
  case (Cons a as)
  have "foldl (\<lambda>best x. if str_cmp (mo_model_id best) (mo_model_id x) = Greater then best else x) a as
      \<in> insert a (set as)"
    by (induction as arbitrary: a) auto
  moreover assume "max_by_id ms = Some m"
  ultimately show ?thesis using Cons by auto
qed simp

lemma partition_alias_set:
  "partition_alias ms = Some (aliases, dated) \<Longrightarrow> set aliases \<union> set dated = set ms"
  by (induction ms arbitrary: aliases dated) (auto split: option.splits if_splits)

lemma exact_match_in: "find_exact_model_reference_match lower p models = Some m \<Longrightarrow> m \<in> set models"
proof -
  assume "find_exact_model_reference_match lower p models = Some m"
  then have "filter (\<lambda>m. lower (mo_model_id m) = lower (str_trim p)) models = [m]"
    by (simp add: find_exact_model_reference_match_def Let_def split: list.splits if_splits)
  then have "m \<in> set (filter (\<lambda>m. lower (mo_model_id m) = lower (str_trim p)) models)" by simp
  then show ?thesis by (simp only: set_filter mem_Collect_eq)
qed

lemma try_match_in: "try_match_model lower p models = Some (Some m) \<Longrightarrow> m \<in> set models"
  by (auto simp: try_match_model_def matching_def split: option.splits if_splits
      dest!: exact_match_in max_by_id_in partition_alias_set)

text \<open>A model id is registered, a level belongs to a model and is valid, and nothing resolves without a word.\<close>

definition resolved_ok :: "ModelOption list \<Rightarrow> ResolvedBackgroundModel \<Rightarrow> bool" where
  "resolved_ok models r \<longleftrightarrow>
     (case bm_model r of Some m \<Rightarrow> m \<in> set models | None \<Rightarrow> bm_warning r \<noteq> None \<and> bm_thinking_level r = None)
     \<and> (case bm_thinking_level r of Some t \<Rightarrow> t \<in> set VALID_THINKING_LEVELS | None \<Rightarrow> True)"

lemma resolved_ok_simps [simp]:
  "resolved_ok models (unresolved (Some w))"
  "resolved_ok models \<lparr>bm_model = Some m, bm_thinking_level = l, bm_warning = w2\<rparr> \<longleftrightarrow>
     m \<in> set models \<and> (\<forall>t. l = Some t \<longrightarrow> t \<in> set VALID_THINKING_LEVELS)"
  "resolved_ok models ((unresolved None)\<lparr>bm_model := Some m\<rparr>) \<longleftrightarrow> m \<in> set models"
  by (auto simp: resolved_ok_def unresolved_def split: option.splits)

lemma resolved_ok_model: "resolved_ok models r \<Longrightarrow> bm_model r = Some m \<Longrightarrow> m \<in> set models"
  by (simp add: resolved_ok_def)

lemma parse_spec_ok: "parse_spec lower spec models = Some r \<Longrightarrow> resolved_ok models r"
proof (induction "length spec" arbitrary: spec r rule: less_induct)
  case less
  have ih: "resolved_ok models inner"
    if "rfind_char c spec = Some n" "parse_spec lower (take n spec) models = Some inner" for c n inner
    using less(1) [OF _ that(2)] rfind_char_less [OF that(1)] by simp
  show ?case
    using less(2)
    by (auto simp: parse_spec.simps [of lower spec] Let_def try_match_in split: option.splits if_splits
        dest!: ih dest: resolved_ok_model)
qed

text \<open>
  Fail-loud resolution of the background model. An unset or blank setting resolves to
  nothing and warns of nothing. For any other setting the result is a registered model (with a
  thinking level only if it is one of the valid ones) or a warning, never silence.
\<close>

theorem background_model_fail_loud:
  assumes "resolve_background_model lower setting models = Some r"
  shows "if setting = None \<or> str_trim (the setting) = [] then r = unresolved None
         else resolved_ok models r"
  using assms
  by (auto simp: resolve_background_model_def resolve_script_spec_def resolved_ok_def parse_spec_ok
      split: option.splits Option.bind_splits if_splits dest: parse_spec_ok)

theorem background_model_fail_loud_witness:
  "\<exists>r. resolve_background_model id (Some ''opus:low'')
     [\<lparr>mo_model_id = ''a/opus'', mo_label = ''Opus'', mo_thinking_levels = None, mo_default_thinking_level = None\<rparr>] = Some r
   \<and> bm_thinking_level r = Some ''low''
   \<and> resolved_ok [\<lparr>mo_model_id = ''a/opus'', mo_label = ''Opus'', mo_thinking_levels = None,
        mo_default_thinking_level = None\<rparr>] r"
proof -
  let ?ms = "[\<lparr>mo_model_id = ''a/opus'', mo_label = ''Opus'', mo_thinking_levels = None, mo_default_thinking_level = None\<rparr>]"
  have "map_option bm_thinking_level (resolve_background_model id (Some ''opus:low'') ?ms) = Some (Some ''low'')"
    by code_simp
  then have "\<exists>r. resolve_background_model id (Some ''opus:low'') ?ms = Some r \<and> bm_thinking_level r = Some ''low''"
    by (auto simp: map_option_case split: option.splits)
  moreover have "str_trim ''opus:low'' \<noteq> []" by code_simp
  ultimately show ?thesis
    using background_model_fail_loud [of id "Some ''opus:low''" ?ms] by auto
qed

text \<open>A model id with a character of several bytes at the cut makes the resolution panic.\<close>

lemma non_ascii_id_panics:
  "try_match_model id ''m''
     [\<lparr>mo_model_id = [CHR ''m'', CHR 0xC3, CHR 0xA9] @ ''12345678'', mo_label = [], mo_thinking_levels = None,
       mo_default_thinking_level = None\<rparr>] = None"
  by code_simp

text \<open>A \<^verbatim>\<open>-latest\<close> tag counts as an alias.\<close>

lemma latest_is_alias: "is_alias (p @ ''-latest'') = Some True"
  by (simp add: is_alias_def ends_with_def)

end
