(* ===== verification/Client_Dispatch.thy ===== *)
theory Client_Dispatch
  imports Wire_Client Background_Model Hub_Requests
begin

text \<open>
  The hub's dispatch of client messages and the applier of its operations (\<^verbatim>\<open>handle_client\<close>,
  \<^verbatim>\<open>run_hub_op_applier\<close>, \<^verbatim>\<open>spawn_connect_lists\<close> and \<^verbatim>\<open>enqueue_live_refresh\<close> in \<^verbatim>\<open>pantoken-server/src/hub.rs\<close>, with the
  calls of \<^verbatim>\<open>driver.rs\<close>).

  \<^item> A closure the code queues is a constructor of \<open>ClientOp\<close> that carries what the closure captures.
    The operations the hub itself queues (\<open>HubOp\<close>) share the queue: \<open>absorb\<close> moves them over.
  \<^item> The driver is outside: \<open>d_calls\<close> is the sequence of calls made to it, and what a call
    returns is the value of type \<open>DriverAnswer\<close> with which its caller goes on.
  \<^item> The applier awaits one operation at a time. \<open>d_running\<close> is the await point it is at; client
    messages and driver events act on the hub in between.
\<close>

section \<open>Driver calls and answers\<close>

record TodoDeleteDependent =
  td_id :: i64
  td_title :: string

datatype TodoDeleteError =
    Td_NotFound
  | Td_DependentsExist "TodoDeleteDependent list"
  | Td_TurnInFlight
  | Td_Other string

definition driver_operation :: "DriverError \<Rightarrow> string" where
  "driver_operation e = (case e of
     De_Unsupported operation \<Rightarrow> operation
   | De_OperationFailed operation _ _ \<Rightarrow> operation)"

definition driver_error_text :: "DriverError \<Rightarrow> string" where
  "driver_error_text e = client_driver_error (driver_operation e)"

datatype DriverCall =
    Dc_Prompt string "DeliveryMode option" "SessionId option" "ImageContent list" "string option"
  | Dc_Abort "SessionId option"
  | Dc_ClearQueue "SessionId option"
  | Dc_RespondUi HostUiResponse "SessionId option"
  | Dc_ListSessions
  | Dc_SetArchived string bool
  | Dc_RenameSession string string
  | Dc_OpenSession string
  | Dc_ReloadSession string
  | Dc_DetachSession string
  | Dc_NewSession NewSessionOptsData
  | Dc_BranchFrom string bool "SessionId option"
  | Dc_ListModels
  | Dc_ListCommands "SessionId option"
  | Dc_ListFacets "SessionId option"
  | Dc_ListFileIndex "SessionId option"
  | Dc_ListAtRefs "SessionId option"
  | Dc_ListFiles string "SessionId option" "string option" bool
  | Dc_ListDir "string option"
  | Dc_StatPath string
  | Dc_ListJobs "SessionId option"
  | Dc_DeleteTodo "SessionId option" i64
  | Dc_SessionAction SessionAction "SessionId option"
  | Dc_DestroySession string
  | Dc_GetModelDefaults
  | Dc_RunScript string

text \<open>
  What a call returns; \<open>None\<close> is success where the call returns nothing else. The home directory is read
  when the session list arrives, the catalogue's diagnostic with the models, usage and warm sessions at
  a live refresh.
\<close>

datatype DriverAnswer =
    A_Prompted "string option"
  | A_Unit "DriverError option"
  | A_Sessions "SessionListEntry list" string
  | A_Swapped "SessionSwitchError + SessionDriverEvent list"
  | A_Branched "string + BranchResult"
  | A_Queue "DriverError + ClearQueueResult"
  | A_Models "ModelOption list" "ModelCatalogDiagnostic option"
  | A_Commands "CommandInfo list"
  | A_Facets "string list"
  | A_FileIndex "FileInfo list" bool
  | A_AtRefs AtRefs
  | A_Files "FileInfo list"
  | A_Dir DirListing
  | A_Stat PathStat
  | A_Jobs "DriverError + BackgroundJob list"
  | A_Todo "TodoDeleteError option"
  | A_Defaults ModelDefaults
  | A_Nothing

section \<open>Queued operations\<close>

datatype ClientOp =
    P_Prompt nat string "DeliveryMode option" "SessionId option" "ImageContent list" "string option"
  | P_SessionAction nat SessionAction "SessionId option"
  | P_DestroySession nat string
  | P_ListSessions
  | P_OpenSession nat string
  | P_ReloadSession nat string
  | P_RestoreQueue nat "SessionId option"
  | P_Branch nat string bool "SessionId option"
  | P_NewSession nat NewSessionOptsData bool "string option" "ImageContent list" "string option"
  | P_SetArchived nat string bool
  | P_RenameSession nat string string
  | P_DetachSession nat string
  | P_ListCommands nat "SessionId option"
  | P_ListFacets nat "SessionId option"
  | P_FetchJobs nat "SessionId option"
  | P_DeleteTodo nat "SessionId option" i64
  | P_QueryFiles nat string "SessionId option" "string option" bool
  | P_QueryDir nat "string option" nat
  | P_StatPath nat string nat
  | P_ConnectSessionList nat "SessionId option"
  | P_ConnectModelList
  | P_ConnectFileIndex nat "SessionId option"
  | P_ConnectAtRefs nat "SessionId option"
  | P_ConnectModelDefaults
  | P_Hub HubOp

text \<open>
  The await points of the applier: the first call of an operation, a switch that waits for another
  switch of its client, the session list that a successful change re-reads, and the first prompt of a
  new session.
\<close>

datatype Stage =
    S_Op ClientOp
  | S_Parked ClientOp nat
  | S_Relist ClientOp
  | S_FirstPrompt nat SessionId "string option"

record Dispatch =
  d_hub :: SessionHub
  d_available_models :: "ModelOption list"
  d_settings :: disk_file
  d_queue :: "ClientOp list"
  d_running :: "Stage option"
  d_calls :: "DriverCall list"
  d_aborts :: "(nat \<times> string option) list"
  d_next_switch :: nat

text \<open>What a call of the dispatch reads from its surroundings.\<close>

record Ctx =
  cx_env :: Env
  cx_codec :: settings_codec
  cx_write :: write_outcome
  cx_login_env :: LoginEnvStatus
  cx_open_in_file_manager :: "string \<Rightarrow> string option"
  cx_now :: nat
  cx_now_unix_ms :: nat
  cx_nonce :: string
  cx_now_iso :: string
  cx_usage :: "SessionId \<Rightarrow> SessionUsage option"
  cx_has_warm :: "SessionId \<Rightarrow> bool"

definition enqueue :: "ClientOp \<Rightarrow> Dispatch \<Rightarrow> Dispatch" where
  "enqueue p d = d\<lparr>d_queue := d_queue d @ [p]\<rparr>"

definition driver_call :: "DriverCall \<Rightarrow> Dispatch \<Rightarrow> Dispatch" where
  "driver_call c d = d\<lparr>d_calls := d_calls d @ [c]\<rparr>"

definition reply :: "nat \<Rightarrow> ServerMessage \<Rightarrow> Dispatch \<Rightarrow> Dispatch" where
  "reply key m d = d\<lparr>d_hub := send_to_client key m (d_hub d)\<rparr>"

definition absorb :: "Dispatch \<Rightarrow> Dispatch" where
  "absorb d = d\<lparr>d_queue := d_queue d @ map P_Hub (h_hub_ops (d_hub d)),
     d_hub := (d_hub d)\<lparr>h_hub_ops := []\<rparr>\<rparr>"

section \<open>The dispatch\<close>

definition or_focused :: "SessionId option \<Rightarrow> nat \<Rightarrow> SessionHub \<Rightarrow> SessionId option" where
  "or_focused session_id key h = (case session_id of Some s \<Rightarrow> Some s | None \<Rightarrow> focused_of key h)"

definition handle_prompt ::
  "nat \<Rightarrow> string option \<Rightarrow> string \<Rightarrow> ImageContent list option \<Rightarrow> DeliveryMode option \<Rightarrow> SessionId option
    \<Rightarrow> Dispatch \<Rightarrow> Dispatch" where
  "handle_prompt key prompt_id txt images deliver_as session_id d =
     (case check_prompt_idempotency prompt_id (d_hub d) of
        Some cached \<Rightarrow> reply key cached d
      | None \<Rightarrow> enqueue (P_Prompt key txt deliver_as (or_focused session_id key (d_hub d))
                   (case images of Some i \<Rightarrow> i | None \<Rightarrow> []) prompt_id) d)"

text \<open>A stop goes around the queue: a task of its own calls the driver, if the client is there.\<close>

definition handle_abort :: "nat \<Rightarrow> string option \<Rightarrow> SessionId option \<Rightarrow> Dispatch \<Rightarrow> Dispatch" where
  "handle_abort key req_id session_id d =
     (if has_client (d_hub d) key
      then (driver_call (Dc_Abort (or_focused session_id key (d_hub d))) d)
             \<lparr>d_aborts := d_aborts d @ [(key, req_id)]\<rparr>
      else d)"

definition dialog_pending :: "SessionHub \<Rightarrow> SessionId option \<Rightarrow> string \<Rightarrow> bool" where
  "dialog_pending h sid rid = (case folded_state h sid of
     Some s \<Rightarrow> list_ex (\<lambda>p. host_request_id p = rid) (ss_pending_approvals s)
   | None \<Rightarrow> False)"

definition handle_respond_ui :: "nat \<Rightarrow> HostUiResponse \<Rightarrow> SessionId option \<Rightarrow> Dispatch \<Rightarrow> Dispatch" where
  "handle_respond_ui key response session_id d =
     (let sid = or_focused session_id key (d_hub d) in
      if dialog_pending (d_hub d) sid (response_request_id response)
      then driver_call (Dc_RespondUi response sid) d
      else d)"

definition turn_running :: "SessionHub \<Rightarrow> SessionId option \<Rightarrow> bool" where
  "turn_running h sid = (case folded_state h sid of
     Some s \<Rightarrow> ss_status s = St_Running \<or> ss_status s = St_Initializing
   | None \<Rightarrow> False)"

definition branch_refused :: ServerMessage where
  "branch_refused = M_Error (''Can't branch while a turn is running '' @ em_dash @ '' stop it first.'') None"

definition handle_branch :: "nat \<Rightarrow> string \<Rightarrow> bool option \<Rightarrow> SessionId option \<Rightarrow> Dispatch \<Rightarrow> Dispatch" where
  "handle_branch key entry_id summarize session_id d =
     (let target_id = or_focused session_id key (d_hub d) in
      if turn_running (d_hub d) target_id then reply key branch_refused d
      else enqueue (P_Branch key entry_id (summarize = Some True) target_id) d)"

text \<open>A text setting or prompt: trimmed, and absent when nothing is left.\<close>

definition non_blank :: "string option \<Rightarrow> string option" where
  "non_blank s = Option.bind s (\<lambda>p. if str_trim p = [] then None else Some (str_trim p))"

definition handle_new_session ::
  "nat \<Rightarrow> NewSessionOptsData \<Rightarrow> string option \<Rightarrow> string option \<Rightarrow> ImageContent list option \<Rightarrow> Dispatch \<Rightarrow> Dispatch" where
  "handle_new_session key opts prompt_id first_text images d =
     (case check_prompt_idempotency prompt_id (d_hub d) of
        Some cached \<Rightarrow> reply key cached d
      | None \<Rightarrow>
          (let first_prompt = non_blank first_text;
               imgs = (case images of Some i \<Rightarrow> i | None \<Rightarrow> [])
           in enqueue (P_NewSession key opts (first_prompt \<noteq> None \<or> imgs \<noteq> []) first_prompt imgs prompt_id) d))"

definition handle_rename_session :: "nat \<Rightarrow> string \<Rightarrow> string \<Rightarrow> Dispatch \<Rightarrow> Dispatch" where
  "handle_rename_session key path name d =
     (if str_trim name = [] then d else enqueue (P_RenameSession key path (str_trim name)) d)"

definition pantoken_settings_msg :: "Ctx \<Rightarrow> Dispatch \<Rightarrow> ServerMessage option" where
  "pantoken_settings_msg cx d =
     (let settings = (case h_data_dir (d_hub d) of
            Some _ \<Rightarrow> read_pantoken_settings (cx_codec cx) (d_settings d)
          | None \<Rightarrow> default_settings)
      in map_option (\<lambda>r. M_PantokenSettings settings (cx_login_env cx) False (bm_warning r))
           (resolve_background_model (env_lower (cx_env cx)) (ps_background_model settings) (d_available_models d)))"

definition write_setting :: "Ctx \<Rightarrow> PartialSettings \<Rightarrow> Dispatch \<Rightarrow> Dispatch option" where
  "write_setting cx patch d =
     (let d1 = (case h_data_dir (d_hub d) of
            Some _ \<Rightarrow> d\<lparr>d_settings := snd (write_pantoken_settings (cx_codec cx) (cx_write cx) (d_settings d) patch)\<rparr>
          | None \<Rightarrow> d)
      in map_option (\<lambda>m. d1\<lparr>d_hub := broadcast m (d_hub d1)\<rparr>) (pantoken_settings_msg cx d1))"

definition handle_set_login_shell :: "Ctx \<Rightarrow> string option \<Rightarrow> Dispatch \<Rightarrow> Dispatch option" where
  "handle_set_login_shell cx path d = write_setting cx
     \<lparr>pp_login_shell = Some (non_blank path), pp_background_model = None, pp_enabled_extensions = None\<rparr> d"

definition handle_set_background_model :: "Ctx \<Rightarrow> string option \<Rightarrow> Dispatch \<Rightarrow> Dispatch option" where
  "handle_set_background_model cx spec d = write_setting cx
     \<lparr>pp_login_shell = None, pp_background_model = Some (non_blank spec), pp_enabled_extensions = None\<rparr> d"

definition on_hub :: "(SessionHub \<Rightarrow> SessionHub) \<Rightarrow> Dispatch \<Rightarrow> Dispatch" where
  "on_hub f d = d\<lparr>d_hub := f (d_hub d)\<rparr>"

definition handle_client :: "Ctx \<Rightarrow> nat \<Rightarrow> ClientMessage \<Rightarrow> Dispatch \<Rightarrow> Dispatch option" where
  "handle_client cx key msg d = (let focused_id = focused_of key (d_hub d) in case msg of
     C_Hello _ _ \<Rightarrow> Some d
   | C_Ping \<Rightarrow> Some (on_hub (handle_ping key) d)
   | C_Prompt prompt_id txt images deliver_as session_id \<Rightarrow>
       Some (handle_prompt key prompt_id txt images deliver_as session_id d)
   | C_Abort req_id session_id \<Rightarrow> Some (handle_abort key req_id session_id d)
   | C_SessionAction action session_id \<Rightarrow>
       Some (enqueue (P_SessionAction key action (or_focused session_id key (d_hub d))) d)
   | C_DestroySession path \<Rightarrow> Some (enqueue (P_DestroySession key path) d)
   | C_ListSessions \<Rightarrow> Some (enqueue P_ListSessions d)
   | C_RequestSeed session_id \<Rightarrow> Some (on_hub (handle_request_seed key session_id) d)
   | C_Mock script \<Rightarrow> Some (driver_call (Dc_RunScript script) d)
   | C_OpenSession path \<Rightarrow> Some (enqueue (P_OpenSession key path) d)
   | C_ReloadSession path \<Rightarrow> Some (enqueue (P_ReloadSession key path) d)
   | C_RespondUi response session_id \<Rightarrow> Some (handle_respond_ui key response session_id d)
   | C_RestoreQueue session_id \<Rightarrow> Some (enqueue (P_RestoreQueue key (or_focused session_id key (d_hub d))) d)
   | C_Branch entry_id summarize session_id \<Rightarrow> Some (handle_branch key entry_id summarize session_id d)
   | C_NewSession cwd model thinking facet permission_monitor first_text prompt_id images \<Rightarrow>
       Some (handle_new_session key \<lparr>no_cwd = cwd, no_model = model, no_thinking = thinking, no_facet = facet,
          no_permission_monitor = permission_monitor\<rparr> prompt_id first_text images d)
   | C_SetArchived path archived \<Rightarrow> Some (enqueue (P_SetArchived key path archived) d)
   | C_RenameSession path name \<Rightarrow> Some (handle_rename_session key path name d)
   | C_DetachSession path \<Rightarrow> Some (enqueue (P_DetachSession key path) d)
   | C_ListCommands \<Rightarrow> Some (enqueue (P_ListCommands key focused_id) d)
   | C_ListFacets \<Rightarrow> Some (enqueue (P_ListFacets key focused_id) d)
   | C_FetchJobs \<Rightarrow> Some (enqueue (P_FetchJobs key focused_id) d)
   | C_DeleteTodo tid \<Rightarrow> Some (enqueue (P_DeleteTodo key focused_id tid) d)
   | C_QueryFiles query cwd include_ignored \<Rightarrow>
       Some (enqueue (P_QueryFiles key query focused_id cwd (include_ignored = Some True)) d)
   | C_QueryDir path req_id \<Rightarrow> Some (enqueue (P_QueryDir key path req_id) d)
   | C_StatPath path req_id \<Rightarrow> Some (enqueue (P_StatPath key path req_id) d)
   | C_SetLoginShell path \<Rightarrow> handle_set_login_shell cx path d
   | C_SetBackgroundModel spec \<Rightarrow> handle_set_background_model cx spec d
   | C_ApplyUpdate \<Rightarrow> Some (on_hub (apply_update (cx_now cx) (cx_now_unix_ms cx) (cx_nonce cx)) d)
   | C_ForceUpdate \<Rightarrow> Some (on_hub (force_update (cx_now cx) (cx_now_unix_ms cx) (cx_nonce cx)) d)
   | C_OpenDataDir \<Rightarrow> Some (on_hub (open_data_dir key (cx_open_in_file_manager cx)) d)
   | C_TrustResponse _ _ \<Rightarrow> Some d)"

text \<open>The lists a client gets after its attach, and the periodic refresh.\<close>

definition spawn_connect_lists :: "nat \<Rightarrow> Dispatch \<Rightarrow> Dispatch" where
  "spawn_connect_lists key d =
     (let focused = focused_of key (d_hub d)
      in d\<lparr>d_queue := d_queue d @ [P_ConnectSessionList key focused, P_ConnectModelList,
           P_ListCommands key focused, P_ListFacets key focused, P_ConnectFileIndex key focused,
           P_ConnectAtRefs key focused, P_ConnectModelDefaults]\<rparr>)"

definition enqueue_live_refresh :: "Dispatch \<Rightarrow> Dispatch" where
  "enqueue_live_refresh d =
     (let h = d_hub d;
          dirty = h_session_list_dirty h;
          usage = needs_live_refresh h;
          should_evict = (h_journals h \<noteq> [] \<and> h_journal_idle_evict_ms h > 0)
      in if \<not> dirty \<and> \<not> usage \<and> \<not> should_evict then d
         else enqueue (P_Hub (Op_LiveRefresh dirty usage should_evict)) d)"

section \<open>The applier\<close>

text \<open>The client whose focus an operation switches, with the flags it passes to \<^verbatim>\<open>switch_to\<close> (reseed, retry on raced events, suppress the error).\<close>

fun switch_of :: "ClientOp \<Rightarrow> (nat \<times> bool \<times> bool \<times> bool) option" where
  "switch_of (P_OpenSession key _) = Some (key, False, True, False)"
| "switch_of (P_ReloadSession key _) = Some (key, True, True, False)"
| "switch_of (P_Branch key _ _ _) = Some (key, True, False, False)"
| "switch_of (P_NewSession key _ has_first_prompt _ _ _) = Some (key, False, False, has_first_prompt)"
| "switch_of _ = None"

fun hub_call :: "HubOp \<Rightarrow> DriverCall option" where
  "hub_call (Op_FetchJobs sid) = Some (Dc_ListJobs (Some sid))"
| "hub_call (Op_SessionList _) = Some Dc_ListSessions"
| "hub_call (Op_LiveRefresh dirty _ _) = (if dirty then Some Dc_ListSessions else None)"
| "hub_call (Op_CommandList _ sid) = Some (Dc_ListCommands (Some sid))"
| "hub_call (Op_FacetList _ sid) = Some (Dc_ListFacets (Some sid))"
| "hub_call (Op_FileIndex _ sid) = Some (Dc_ListFileIndex (Some sid))"
| "hub_call (Op_AtRefs _ sid) = Some (Dc_ListAtRefs (Some sid))"
| "hub_call Op_ModelDefaults = Some Dc_GetModelDefaults"

text \<open>The call an operation starts with.\<close>

fun first_call :: "ClientOp \<Rightarrow> DriverCall option" where
  "first_call (P_Prompt _ txt deliver_as target images pid) = Some (Dc_Prompt txt deliver_as target images pid)"
| "first_call (P_SessionAction _ action target) = Some (Dc_SessionAction action target)"
| "first_call (P_DestroySession _ path) = Some (Dc_DestroySession path)"
| "first_call P_ListSessions = Some Dc_ListSessions"
| "first_call (P_OpenSession _ path) = Some (Dc_OpenSession path)"
| "first_call (P_ReloadSession _ path) = Some (Dc_ReloadSession path)"
| "first_call (P_RestoreQueue _ target) = Some (Dc_ClearQueue target)"
| "first_call (P_Branch _ entry_id summarize target) = Some (Dc_BranchFrom entry_id summarize target)"
| "first_call (P_NewSession _ opts _ _ _ _) = Some (Dc_NewSession opts)"
| "first_call (P_SetArchived _ path archived) = Some (Dc_SetArchived path archived)"
| "first_call (P_RenameSession _ path name) = Some (Dc_RenameSession path name)"
| "first_call (P_DetachSession _ path) = Some (Dc_DetachSession path)"
| "first_call (P_ListCommands _ focused) = Some (Dc_ListCommands focused)"
| "first_call (P_ListFacets _ focused) = Some (Dc_ListFacets focused)"
| "first_call (P_FetchJobs _ focused) = Some (Dc_ListJobs focused)"
| "first_call (P_DeleteTodo _ focused tid) = Some (Dc_DeleteTodo focused tid)"
| "first_call (P_QueryFiles _ query focused cwd include_ignored) = Some (Dc_ListFiles query focused cwd include_ignored)"
| "first_call (P_QueryDir _ path _) = Some (Dc_ListDir path)"
| "first_call (P_StatPath _ path _) = Some (Dc_StatPath path)"
| "first_call (P_ConnectSessionList _ _) = Some Dc_ListSessions"
| "first_call P_ConnectModelList = Some Dc_ListModels"
| "first_call (P_ConnectFileIndex _ focused) = Some (Dc_ListFileIndex focused)"
| "first_call (P_ConnectAtRefs _ focused) = Some (Dc_ListAtRefs focused)"
| "first_call P_ConnectModelDefaults = Some Dc_GetModelDefaults"
| "first_call (P_Hub p) = hub_call p"

definition await :: "Stage \<Rightarrow> DriverCall option \<Rightarrow> Dispatch \<Rightarrow> Dispatch" where
  "await st call d = d\<lparr>d_calls := d_calls d @ (case call of Some c \<Rightarrow> [c] | None \<Rightarrow> []), d_running := Some st\<rparr>"

text \<open>
  The applier takes the next operation. A switch of a client that has one in flight does not call the
  driver: it takes the client's waiting place and awaits its turn.
\<close>

definition start_op :: "ClientOp \<Rightarrow> Dispatch \<Rightarrow> Dispatch" where
  "start_op p d = (case switch_of p of
     None \<Rightarrow> await (S_Op p) (first_call p) d
   | Some (key, reseed, retry, suppress_error) \<Rightarrow>
       (let n = d_next_switch d;
            req = \<lparr>psw_swap = n, psw_reseed = reseed, psw_retry_on_raced_events = retry,
                   psw_suppress_error = suppress_error, psw_resolve = n\<rparr>
        in case switch_begin key req (d_hub d) of
             (h, True) \<Rightarrow> await (S_Op p) (first_call p) (d\<lparr>d_hub := h, d_next_switch := Suc n\<rparr>)
           | (h, False) \<Rightarrow> d\<lparr>d_hub := h, d_next_switch := Suc n, d_running := Some (S_Parked p n)\<rparr>))"

definition finish_op :: "SessionHub \<Rightarrow> Dispatch \<Rightarrow> Dispatch" where
  "finish_op h d = absorb (d\<lparr>d_hub := h, d_running := None\<rparr>)"

definition error_to :: "nat \<Rightarrow> string option \<Rightarrow> DriverError \<Rightarrow> SessionHub \<Rightarrow> SessionHub" where
  "error_to key kind e h = send_to_client key (M_Error (driver_error_text e) kind) h"

text \<open>The answer to a prompt: remembered for a retry, then sent.\<close>

definition prompt_result :: "string option \<Rightarrow> SessionId option \<Rightarrow> string option \<Rightarrow> ServerMessage" where
  "prompt_result pid target outcome =
     (let p = (case pid of Some s \<Rightarrow> s | None \<Rightarrow> []) in
      case outcome of
        None \<Rightarrow> M_PromptResult p True target None
      | Some e \<Rightarrow> M_PromptResult p False None (Some e))"

definition answer_prompt :: "nat \<Rightarrow> string option \<Rightarrow> ServerMessage \<Rightarrow> SessionHub \<Rightarrow> SessionHub" where
  "answer_prompt key pid m h =
     send_to_client key m (case pid of Some p \<Rightarrow> cache_prompt_result p m h | None \<Rightarrow> h)"

definition destroyed_id :: "string \<Rightarrow> string" where
  "destroyed_id path = (case rev (filter (\<lambda>s. s \<noteq> [] \<and> s \<noteq> ''.'') (split_on (CHR ''/'') path)) of
     _ # parent # _ \<Rightarrow> (if parent = ''..'' then [] else parent)
   | _ \<Rightarrow> [])"

definition unfocus :: "SessionId \<Rightarrow> SessionHub \<Rightarrow> SessionHub" where
  "unfocus sid h = h\<lparr>h_clients := map (\<lambda>(k, c).
       if cc_focused_id c = Some sid then (k, c\<lparr>cc_focused_id := None, cc_pending_switch := None\<rparr>) else (k, c))
     (h_clients h),
     h_resolved := h_resolved h @ concat (map (\<lambda>(k, c).
       if cc_focused_id c = Some sid then (case cc_pending_switch c of Some p \<Rightarrow> [(psw_resolve p, None)] | None \<Rightarrow> [])
       else []) (h_clients h))\<rparr>"

definition complete_restore :: "nat \<Rightarrow> DriverError + ClearQueueResult \<Rightarrow> SessionHub \<Rightarrow> SessionHub" where
  "complete_restore key result h = (case result of
     Inr r \<Rightarrow> send_to_client key (M_QueueRestored (cq_steering r) (cq_follow_up r)) h
   | Inl e \<Rightarrow> error_to key None e (case e of
       De_OperationFailed _ _ (Some r) \<Rightarrow> send_to_client key (M_QueueRestored (cq_steering r) (cq_follow_up r)) h
     | _ \<Rightarrow> h))"

definition todo_error :: "i64 \<Rightarrow> TodoDeleteError \<Rightarrow> string" where
  "todo_error tid e = (case e of
     Td_NotFound \<Rightarrow> ''Todo #'' @ show_int tid @ '' not found''
   | Td_DependentsExist deps \<Rightarrow> ''Cannot delete todo #'' @ show_int tid @ '': '' @ show_nat (length deps)
       @ '' todo(s) depend on it ('' @ join '', '' (map td_title deps) @ '')''
   | Td_TurnInFlight \<Rightarrow> ''Cannot delete todo #'' @ show_int tid @ '': a turn is in flight''
   | Td_Other msg \<Rightarrow> msg)"

definition jobs_refresh :: "SessionId \<Rightarrow> DriverError + BackgroundJob list \<Rightarrow> SessionHub \<Rightarrow> SessionHub" where
  "jobs_refresh sid result h = (case result of
     Inr jobs \<Rightarrow> deliver_all (clients_focused h sid) ''jobs.refresh'' (M_JobsList jobs) h
   | Inl _ \<Rightarrow> deliver_all (clients_focused h sid) ''jobs.refresh.error''
       (M_Error ''jobs refresh failed; see server logs for details'' None) h)"

definition live_refresh :: "Ctx \<Rightarrow> bool \<Rightarrow> bool \<Rightarrow> SessionHub \<Rightarrow> SessionHub" where
  "live_refresh cx usage should_evict h =
     (let h1 = (if usage then refresh_usage (cx_env cx) (cx_now cx) (cx_now_iso cx) (cx_usage cx) h else h)
      in if should_evict then evict_idle_journals_at (cx_now cx) (cx_has_warm cx) h1 else h1)"

text \<open>What follows a switch: nothing, the text to edit again, or the first prompt of a new session.\<close>

definition create_failed :: string where
  "create_failed = ''Could not create the new session''"

definition after_switch :: "ClientOp \<Rightarrow> string option \<Rightarrow> SessionId option \<Rightarrow> SessionHub \<Rightarrow> Dispatch \<Rightarrow> Dispatch" where
  "after_switch p prefill sid h d = (case p of
     P_Branch key _ _ _ \<Rightarrow> finish_op (case (sid, prefill) of
         (Some _, Some txt) \<Rightarrow> send_to_client key (M_EditorPrefill txt) h
       | _ \<Rightarrow> h) d
   | P_NewSession key _ has_first_prompt prompt_text images pid \<Rightarrow>
       (case sid of
          Some s \<Rightarrow>
            (if has_first_prompt
             then await (S_FirstPrompt key s pid)
                    (Some (Dc_Prompt (case prompt_text of Some t \<Rightarrow> t | None \<Rightarrow> []) None (Some s) images pid))
                    (absorb (d\<lparr>d_hub := h\<rparr>))
             else finish_op h d)
        | None \<Rightarrow>
            finish_op (if has_first_prompt
               then answer_prompt key pid (prompt_result pid None (Some create_failed)) h
               else send_to_client key (M_Error create_failed None) h) d)
   | _ \<Rightarrow> finish_op h d)"

definition complete_switch ::
  "Ctx \<Rightarrow> ClientOp \<Rightarrow> SessionSwitchError + SessionDriverEvent list \<Rightarrow> string option \<Rightarrow> Dispatch \<Rightarrow> Dispatch option" where
  "complete_switch cx p seed_result prefill d = (case switch_of p of
     None \<Rightarrow> Some d
   | Some (key, reseed, _, suppress_error) \<Rightarrow>
       map_option (\<lambda>(h, sid, queued). after_switch p prefill sid h d)
         (switch_complete (cx_env cx) (cx_now cx) key seed_result reseed suppress_error (d_hub d)))"

text \<open>A failed change is reported; a successful one re-reads the session list.\<close>

definition after_change :: "nat \<Rightarrow> string option \<Rightarrow> ClientOp \<Rightarrow> DriverError option \<Rightarrow> Dispatch \<Rightarrow> Dispatch" where
  "after_change key kind p outcome d = (case outcome of
     Some e \<Rightarrow> finish_op (error_to key kind e (d_hub d)) d
   | None \<Rightarrow> await (S_Relist p) (Some Dc_ListSessions) d)"

definition complete_hub_op :: "Ctx \<Rightarrow> HubOp \<Rightarrow> DriverAnswer \<Rightarrow> Dispatch \<Rightarrow> Dispatch" where
  "complete_hub_op cx p a d = (case p of
     Op_LiveRefresh dirty usage should_evict \<Rightarrow>
       finish_op (live_refresh cx usage should_evict (case a of
           A_Sessions sessions home \<Rightarrow> if dirty then broadcast_session_list_with sessions home (d_hub d) else d_hub d
         | _ \<Rightarrow> d_hub d)) d
   | Op_FetchJobs sid \<Rightarrow> (case a of A_Jobs r \<Rightarrow>
         finish_op (jobs_refresh sid r (d_hub d)) d | _ \<Rightarrow> d)
   | Op_SessionList _ \<Rightarrow> (case a of A_Sessions sessions home \<Rightarrow>
         finish_op (broadcast_session_list_with sessions home (d_hub d)) d | _ \<Rightarrow> d)
   | Op_CommandList key _ \<Rightarrow> (case a of A_Commands cs \<Rightarrow>
         finish_op (send_to_client key (M_CommandList cs) (d_hub d)) d | _ \<Rightarrow> d)
   | Op_FacetList key _ \<Rightarrow> (case a of A_Facets fs \<Rightarrow>
         finish_op (send_to_client key (M_FacetList fs) (d_hub d)) d | _ \<Rightarrow> d)
   | Op_FileIndex key _ \<Rightarrow> (case a of A_FileIndex files truncated \<Rightarrow>
         finish_op (send_to_client key (M_FileIndex files truncated) (d_hub d)) d | _ \<Rightarrow> d)
   | Op_AtRefs key _ \<Rightarrow> (case a of A_AtRefs refs \<Rightarrow>
         finish_op (send_to_client key (M_AtRefs refs) (d_hub d)) d | _ \<Rightarrow> d)
   | Op_ModelDefaults \<Rightarrow> (case a of A_Defaults defaults \<Rightarrow>
         finish_op (broadcast (M_ModelDefaults defaults) (d_hub d)) d | _ \<Rightarrow> d))"

definition complete_query :: "ClientOp \<Rightarrow> DriverAnswer \<Rightarrow> Dispatch \<Rightarrow> Dispatch" where
  "complete_query p a d = (case p of
     P_ListCommands key _ \<Rightarrow> (case a of A_Commands cs \<Rightarrow>
         finish_op (send_to_client key (M_CommandList cs) (d_hub d)) d | _ \<Rightarrow> d)
   | P_ListFacets key _ \<Rightarrow> (case a of A_Facets fs \<Rightarrow>
         finish_op (send_to_client key (M_FacetList fs) (d_hub d)) d | _ \<Rightarrow> d)
   | P_FetchJobs key _ \<Rightarrow> (case a of A_Jobs r \<Rightarrow>
         finish_op (case r of Inr jobs \<Rightarrow> send_to_client key (M_JobsList jobs) (d_hub d) | Inl e \<Rightarrow> error_to key None e (d_hub d)) d | _ \<Rightarrow> d)
   | P_DeleteTodo key _ tid \<Rightarrow> (case a of A_Todo outcome \<Rightarrow>
         finish_op (case outcome of None \<Rightarrow> d_hub d | Some e \<Rightarrow> send_to_client key (M_Error (todo_error tid e) None) (d_hub d)) d | _ \<Rightarrow> d)
   | P_QueryFiles key query _ _ include_ignored \<Rightarrow> (case a of A_Files files \<Rightarrow>
         finish_op (send_to_client key (M_FileList query files (Some include_ignored)) (d_hub d)) d | _ \<Rightarrow> d)
   | P_QueryDir key _ rid \<Rightarrow> (case a of A_Dir listing \<Rightarrow>
         finish_op (send_to_client key (M_DirListing listing (of_nat rid)) (d_hub d)) d | _ \<Rightarrow> d)
   | P_StatPath key _ rid \<Rightarrow> (case a of A_Stat stat \<Rightarrow>
         finish_op (send_to_client key (M_PathStat stat (of_nat rid)) (d_hub d)) d | _ \<Rightarrow> d)
   | _ \<Rightarrow> d)"

definition complete_connect :: "ClientOp \<Rightarrow> DriverAnswer \<Rightarrow> Dispatch \<Rightarrow> Dispatch" where
  "complete_connect p a d = (case p of
     P_ConnectSessionList key active \<Rightarrow> (case a of A_Sessions sessions home \<Rightarrow>
         finish_op (send_to_client key (M_SessionList sessions active home) (d_hub d)) d | _ \<Rightarrow> d)
   | P_ConnectModelList \<Rightarrow> (case a of A_Models models diagnostic \<Rightarrow>
         finish_op (broadcast (M_ModelList models diagnostic) (d_hub d)) (d\<lparr>d_available_models := models\<rparr>) | _ \<Rightarrow> d)
   | P_ConnectFileIndex key _ \<Rightarrow> (case a of A_FileIndex files truncated \<Rightarrow>
         finish_op (send_to_client key (M_FileIndex files truncated) (d_hub d)) d | _ \<Rightarrow> d)
   | P_ConnectAtRefs key _ \<Rightarrow> (case a of A_AtRefs refs \<Rightarrow>
         finish_op (send_to_client key (M_AtRefs refs) (d_hub d)) d | _ \<Rightarrow> d)
   | P_ConnectModelDefaults \<Rightarrow> (case a of A_Defaults defaults \<Rightarrow>
         finish_op (broadcast (M_ModelDefaults defaults) (d_hub d)) d | _ \<Rightarrow> d)
   | _ \<Rightarrow> d)"

definition complete_op :: "Ctx \<Rightarrow> ClientOp \<Rightarrow> DriverAnswer \<Rightarrow> Dispatch \<Rightarrow> Dispatch option" where
  "complete_op cx p a d = (case p of
     P_Prompt key _ _ target _ pid \<Rightarrow> (case a of A_Prompted outcome \<Rightarrow>
         Some (finish_op (answer_prompt key pid (prompt_result pid target outcome) (d_hub d)) d) | _ \<Rightarrow> Some d)
   | P_SessionAction key _ _ \<Rightarrow> (case a of A_Unit outcome \<Rightarrow>
         Some (finish_op (case outcome of Some e \<Rightarrow> error_to key (Some ''sessionAction'') e (d_hub d) | None \<Rightarrow> d_hub d) d) | _ \<Rightarrow> Some d)
   | P_DestroySession key path \<Rightarrow> (case a of A_Unit outcome \<Rightarrow>
         Some (after_change key (Some ''destroySession'') (P_DestroySession key path) outcome d) | _ \<Rightarrow> Some d)
   | P_ListSessions \<Rightarrow> (case a of A_Sessions sessions home \<Rightarrow>
         Some (finish_op (broadcast_session_list_with sessions home (d_hub d)) d) | _ \<Rightarrow> Some d)
   | P_OpenSession key path \<Rightarrow> (case a of A_Swapped r \<Rightarrow>
         complete_switch cx (P_OpenSession key path) r None d | _ \<Rightarrow> Some d)
   | P_ReloadSession key path \<Rightarrow> (case a of A_Swapped r \<Rightarrow>
         complete_switch cx (P_ReloadSession key path) r None d | _ \<Rightarrow> Some d)
   | P_Branch key e s t \<Rightarrow> (case a of A_Branched r \<Rightarrow>
         complete_switch cx (P_Branch key e s t) (case r of Inr b \<Rightarrow> Inr (br_seed b) | Inl msg \<Rightarrow> Inl (Unexpected ''session switch'' msg)) (case r of Inr b \<Rightarrow> br_editor_text b | Inl _ \<Rightarrow> None) d | _ \<Rightarrow> Some d)
   | P_NewSession key opts f t i pid \<Rightarrow> (case a of A_Swapped r \<Rightarrow>
         complete_switch cx (P_NewSession key opts f t i pid) r None d | _ \<Rightarrow> Some d)
   | P_RestoreQueue key _ \<Rightarrow> (case a of A_Queue r \<Rightarrow>
         Some (finish_op (complete_restore key r (d_hub d)) d) | _ \<Rightarrow> Some d)
   | P_SetArchived key path b \<Rightarrow> (case a of A_Unit outcome \<Rightarrow>
         Some (after_change key None (P_SetArchived key path b) outcome d) | _ \<Rightarrow> Some d)
   | P_RenameSession key path name \<Rightarrow> (case a of A_Unit outcome \<Rightarrow>
         Some (after_change key None (P_RenameSession key path name) outcome d) | _ \<Rightarrow> Some d)
   | P_DetachSession key path \<Rightarrow> (case a of A_Unit outcome \<Rightarrow>
         Some (after_change key None (P_DetachSession key path) outcome d) | _ \<Rightarrow> Some d)
   | P_Hub q \<Rightarrow> Some (complete_hub_op cx q a d)
   | P_ConnectSessionList _ _ \<Rightarrow> Some (complete_connect p a d)
   | P_ConnectModelList \<Rightarrow> Some (complete_connect p a d)
   | P_ConnectFileIndex _ _ \<Rightarrow> Some (complete_connect p a d)
   | P_ConnectAtRefs _ _ \<Rightarrow> Some (complete_connect p a d)
   | P_ConnectModelDefaults \<Rightarrow> Some (complete_connect p a d)
   | _ \<Rightarrow> Some (complete_query p a d))"

fun complete_relist :: "ClientOp \<Rightarrow> SessionListEntry list \<Rightarrow> string \<Rightarrow> SessionHub \<Rightarrow> SessionHub" where
  "complete_relist (P_DestroySession _ path) sessions home h =
     broadcast_session_list_with sessions home (unfocus (destroyed_id path) h)"
| "complete_relist (P_DetachSession key path) sessions home h =
     Hub_Requests.detach_session key path (Inr (sessions, home)) h"
| "complete_relist _ sessions home h = broadcast_session_list_with sessions home h"

definition answer :: "Ctx \<Rightarrow> Stage \<Rightarrow> DriverAnswer \<Rightarrow> Dispatch \<Rightarrow> Dispatch option" where
  "answer cx st a d = (case st of
     S_Op p \<Rightarrow> complete_op cx p a d
   | S_Relist p \<Rightarrow> (case a of A_Sessions sessions home \<Rightarrow>
         Some (finish_op (complete_relist p sessions home (d_hub d)) d) | _ \<Rightarrow> Some d)
   | S_FirstPrompt key sid pid \<Rightarrow> (case a of A_Prompted outcome \<Rightarrow>
         Some (finish_op (answer_prompt key pid (prompt_result pid (Some sid) outcome) (d_hub d)) d) | _ \<Rightarrow> Some d)
   | S_Parked p n \<Rightarrow> Some d)"

text \<open>
  A panic while a switch is completed (in the tracking of its seed) is caught by the applier: the swap
  counter is already down, the tracking is somewhere on its way, and nothing else of the switch happens.
\<close>

definition panicked :: "Tracking \<Rightarrow> Dispatch \<Rightarrow> Dispatch" where
  "panicked t d = d\<lparr>d_hub := (d_hub d)\<lparr>h_swaps_in_flight := h_swaps_in_flight (d_hub d) - 1, h_track := t\<rparr>,
     d_running := None\<rparr>"

text \<open>
  The end of a stop's task: the answer goes to the client's channel, waiting for room. A channel that is
  closed swallows it; the channel of a removed client may still be read by its connection.
\<close>

definition abort_result :: "string option \<Rightarrow> string option \<Rightarrow> ServerMessage" where
  "abort_result rid outcome = M_AbortResult rid (outcome = None) outcome"

definition send_wait :: "nat \<Rightarrow> ServerMessage \<Rightarrow> SessionHub \<Rightarrow> SessionHub option" where
  "send_wait key m h = (case hm_get (h_clients h) key of
     Some c \<Rightarrow> (case try_send m (cc_send c) of
         Inr ch \<Rightarrow> Some (h\<lparr>h_clients := hm_insert key (c\<lparr>cc_send := ch\<rparr>) (h_clients h)\<rparr>)
       | Inl Closed \<Rightarrow> Some h
       | Inl Full \<Rightarrow> None)
   | None \<Rightarrow> (case hm_get (h_removed h) key of
         Some ch \<Rightarrow> (case try_send m ch of
             Inr ch' \<Rightarrow> Some (h\<lparr>h_removed := hm_insert key ch' (h_removed h)\<rparr>)
           | Inl Closed \<Rightarrow> Some h
           | Inl Full \<Rightarrow> None)
       | None \<Rightarrow> Some h))"

definition finish_abort :: "string option \<Rightarrow> Dispatch \<Rightarrow> Dispatch option" where
  "finish_abort outcome d = (case d_aborts d of
     [] \<Rightarrow> Some d
   | (key, rid) # rest \<Rightarrow>
       map_option (\<lambda>h. d\<lparr>d_hub := h, d_aborts := rest\<rparr>) (send_wait key (abort_result rid outcome) (d_hub d)))"

end
