(* ===== verification/Dispatch_Flow.thy ===== *)
theory Dispatch_Flow
  imports Client_Dispatch Hub_Sync
begin

text \<open>
  The hub's applier as a transition system over the definitions of \<^verbatim>\<open>Client_Dispatch\<close>: what the hub's operations
  leave alone (\<open>calm\<close>), the steps of the applier and the steps around it, the bound on the steps an operation
  takes (\<open>load\<close>), and the invariant that no operation waits behind a switch (\<open>flowing\<close>).
\<close>

section \<open>What the hub's operations leave alone\<close>

text \<open>The connections with a switch in flight or waiting.\<close>

definition busy :: "SessionHub \<Rightarrow> nat set" where
  "busy h = {k. \<exists>c. hm_get (h_clients h) k = Some c \<and> (cc_switch_in_flight c \<or> cc_pending_switch c \<noteq> None)}"

text \<open>An operation that queues nothing and makes no connection busy.\<close>

definition calm :: "SessionHub \<Rightarrow> SessionHub \<Rightarrow> bool" where
  "calm h h' \<longleftrightarrow> h_hub_ops h' = h_hub_ops h \<and> busy h' \<subseteq> busy h"

named_theorems calm_intros \<open>hub operations that are calm\<close>

lemma calm_refl [calm_intros]: "calm h h"
  by (simp add: calm_def)

lemma calm_trans: "calm a b \<Longrightarrow> calm b c \<Longrightarrow> calm a c"
  by (auto simp: calm_def)

lemma calm_busy: "calm h h' \<Longrightarrow> k \<in> busy h' \<Longrightarrow> k \<in> busy h"
  by (auto simp: calm_def)

lemma calm_idle: "calm h h' \<Longrightarrow> busy h = {} \<Longrightarrow> busy h' = {}"
  by (auto simp: calm_def)

lemma calm_fields:
  "h_hub_ops h' = h_hub_ops h \<Longrightarrow> h_clients h' = h_clients h \<Longrightarrow> calm h h'"
  by (simp add: calm_def busy_def)

lemma calm_deliver: "calm h (fst (deliver k ctx m h))"
  by (auto simp: calm_def busy_def deliver_get bind_eq_Some_conv push_conn_Some split: if_splits)

lemma calm_send: "calm h (send_to_client k m h)"
  by (simp add: send_to_client_def calm_deliver)

lemma calm_deliver_each: "calm h (deliver_each ctx kms h)"
proof (induction kms arbitrary: h)
  case (Cons km kms)
  have "deliver_each ctx (km # kms) h = deliver_each ctx kms (fst (deliver (fst km) ctx (snd km) h))"
    by (simp add: deliver_each_def split_beta)
  then show ?case using Cons calm_trans calm_deliver by metis
qed (simp add: deliver_each_def calm_refl)

lemma calm_deliver_all: "calm h (deliver_all ks ctx m h)"
  by (simp add: deliver_all_def calm_deliver_each)

lemma calm_broadcast: "calm h (broadcast m h)"
  by (simp add: broadcast_def calm_deliver_all)

lemma calm_upd [simp]:
  "calm h (x\<lparr>h_session_list_dirty := b\<rparr>) = calm h x"
  "calm h (x\<lparr>h_track := t\<rparr>) = calm h x"
  "calm h (x\<lparr>h_journals := js\<rparr>) = calm h x"
  "calm h (x\<lparr>h_pending_deltas := pd\<rparr>) = calm h x"
  "calm h (x\<lparr>h_epoch_counter := n\<rparr>) = calm h x"
  "calm h (x\<lparr>h_default_focus_id := f\<rparr>) = calm h x"
  "calm h (x\<lparr>h_swap_buffer := sb\<rparr>) = calm h x"
  "calm h (x\<lparr>h_swaps_in_flight := n\<rparr>) = calm h x"
  "calm h (x\<lparr>h_last_usage_emitted := u\<rparr>) = calm h x"
  "calm h (x\<lparr>h_notifications := ns\<rparr>) = calm h x"
  "calm h (x\<lparr>h_update_status := us\<rparr>) = calm h x"
  "calm h (x\<lparr>h_update_reason := us\<rparr>) = calm h x"
  "calm h (x\<lparr>h_authorization_generation := g\<rparr>) = calm h x"
  "calm h (x\<lparr>h_lease_nonce := us\<rparr>) = calm h x"
  "calm h (x\<lparr>h_lease_sha := us\<rparr>) = calm h x"
  "calm h (x\<lparr>h_lease_expires_at := le\<rparr>) = calm h x"
  "calm h (x\<lparr>h_lease_expires_at_unix_ms := le\<rparr>) = calm h x"
  "calm h (x\<lparr>h_force_requested := b\<rparr>) = calm h x"
  "calm h (x\<lparr>h_prompt_results := pr\<rparr>) = calm h x"
  "calm h (x\<lparr>h_prompt_result_order := po\<rparr>) = calm h x"
  "calm h (x\<lparr>h_removed := rm\<rparr>) = calm h x"
  "calm h (x\<lparr>h_resolved := rs\<rparr>) = calm h x"
  by (simp_all add: calm_def busy_def)

text \<open>The rules for a chain of operations: the last one is calm, the earlier ones are the premise.\<close>

lemma calm_chain:
  "calm h x \<Longrightarrow> calm h (send_to_client k m x)"
  "calm h x \<Longrightarrow> calm h (fst (deliver k ctx m x))"
  "calm h x \<Longrightarrow> calm h (deliver_each ctx kms x)"
  "calm h x \<Longrightarrow> calm h (deliver_all ks ctx m x)"
  "calm h x \<Longrightarrow> calm h (broadcast m x)"
  using calm_trans calm_send calm_deliver calm_deliver_each calm_deliver_all calm_broadcast by blast+

declare calm_chain [calm_intros]

lemma calm_status [calm_intros]: "calm h x \<Longrightarrow> calm h (broadcast_session_status x)"
  by (simp add: broadcast_session_status_def calm_chain)

lemma calm_session_list [calm_intros]: "calm h x \<Longrightarrow> calm h (broadcast_session_list_with ss cwd x)"
  by (simp add: broadcast_session_list_with_def calm_chain)

lemma calm_cache [calm_intros]: "calm h x \<Longrightarrow> calm h (cache_prompt_result p m x)"
  by (simp add: cache_prompt_result_def Let_def split: prod.splits)

lemma calm_answer_prompt [calm_intros]: "calm h x \<Longrightarrow> calm h (answer_prompt key pid m x)"
  by (auto simp: answer_prompt_def intro!: calm_intros split: option.splits)

lemma calm_error_to [calm_intros]: "calm h x \<Longrightarrow> calm h (error_to key kind e x)"
  by (simp add: error_to_def calm_chain)

lemma calm_restore [calm_intros]: "calm h x \<Longrightarrow> calm h (complete_restore key r x)"
  by (auto simp: complete_restore_def intro!: calm_intros split: sum.splits DriverError.splits option.splits)

lemma calm_jobs [calm_intros]: "calm h x \<Longrightarrow> calm h (jobs_refresh sid r x)"
  by (auto simp: jobs_refresh_def intro!: calm_intros split: sum.splits)

lemma get_map_if:
  "hm_get (map (\<lambda>(k, c). if P c then (k, f c) else (k, c)) xs) k = map_option (\<lambda>c. if P c then f c else c) (hm_get xs k)"
  by (induction xs) auto

lemma calm_unfocus [calm_intros]: "calm h x \<Longrightarrow> calm h (unfocus sid x)"
proof -
  have "busy (unfocus sid x) \<subseteq> busy x"
    by (auto simp: busy_def unfocus_def get_map_if split: if_splits)
  then show "calm h x \<Longrightarrow> ?thesis" by (auto simp: calm_def unfocus_def)
qed

lemma calm_drop_pending [calm_intros]: "calm h x \<Longrightarrow> calm h (drop_pending sid x)"
  by (simp add: drop_pending_def split: option.splits)

lemma calm_detach [calm_intros]: "calm h x \<Longrightarrow> calm h (Hub_Requests.detach_session key path r x)"
  by (auto simp: Hub_Requests.detach_session_def drop_detached_def Let_def intro!: calm_intros
      split: sum.splits option.splits)

lemma calm_relist [calm_intros]: "calm h x \<Longrightarrow> calm h (complete_relist p ss home x)"
  by (cases p) (auto intro!: calm_intros)

lemma calm_ingest_reset [calm_intros]: "calm h x \<Longrightarrow> calm h (ingest_reset env now ev x)"
  by (auto simp: ingest_reset_def Let_def intro!: calm_intros split: option.splits)

lemma calm_ingest_now [calm_intros]: "calm h x \<Longrightarrow> calm h (ingest_now env now ev x)"
  by (auto simp: ingest_now_def Let_def intro!: calm_intros split: option.splits prod.splits)

lemma calm_flush [calm_intros]: "calm h x \<Longrightarrow> calm h (flush_pending env now sid x)"
  by (auto simp: flush_pending_def Let_def intro!: calm_intros split: option.splits)

lemma calm_start_run [calm_intros]: "calm h x \<Longrightarrow> calm h (start_run env now ev x)"
  by (auto simp: start_run_def Let_def intro!: calm_intros split: option.splits)

lemma calm_ingest [calm_intros]: "calm h x \<Longrightarrow> calm h (ingest env now ev x)"
  by (auto simp: ingest_def Let_def intro!: calm_intros split: option.splits)

lemma calm_usage_of: "calm h x \<Longrightarrow> calm h (refresh_usage_of env now tm us sid x)"
  by (auto simp: refresh_usage_of_def Let_def intro!: calm_intros split: option.splits)

lemma calm_usage [calm_intros]: "calm h x \<Longrightarrow> calm h (refresh_usage env now tm us x)"
proof -
  have "calm h (foldl (\<lambda>h sid. refresh_usage_of env now tm us sid h) y sids)" if "calm h y" for y sids
    using that by (induction sids arbitrary: y) (auto intro: calm_usage_of)
  then show "calm h x \<Longrightarrow> ?thesis" by (simp add: refresh_usage_def)
qed

lemma foldl_inv: "P x \<Longrightarrow> (\<And>x y. P x \<Longrightarrow> P (f x y)) \<Longrightarrow> P (foldl f x ys)"
  by (induction ys arbitrary: x) auto

lemma calm_evict [calm_intros]: "calm h x \<Longrightarrow> calm h (evict_idle_journals_at now w x)"
  by (auto simp: evict_idle_journals_at_def Let_def intro!: foldl_inv [of "calm h"] calm_drop_pending)

lemma calm_live_refresh [calm_intros]: "calm h x \<Longrightarrow> calm h (live_refresh cx u e x)"
  by (auto simp: live_refresh_def Let_def intro!: calm_intros)

section \<open>Switches\<close>

lemma switch_begin_busy:
  "busy (fst (switch_begin key req h)) \<subseteq> insert key (busy h)"
  "h_hub_ops (fst (switch_begin key req h)) = h_hub_ops h"
  "snd (switch_begin key req h) \<longleftrightarrow> (\<forall>c. hm_get (h_clients h) key = Some c \<longrightarrow> \<not> cc_switch_in_flight c)"
  by (auto simp: switch_begin_def busy_def split: option.splits if_splits)

lemma release_flight_busy:
  "release_flight key h = (h', q) \<Longrightarrow> busy h' = busy h - {key} \<and> h_hub_ops h' = h_hub_ops h"
  by (auto simp: release_flight_def busy_def split: option.splits if_splits)

lemma calm_set_focus [calm_intros]: "calm h x \<Longrightarrow> calm h (set_client_focus key sid x)"
proof -
  have "busy (set_client_focus key sid x) \<subseteq> busy x"
    by (auto simp: busy_def set_client_focus_def hm_get_modify split: if_splits)
  then show "calm h x \<Longrightarrow> ?thesis" by (auto simp: calm_def set_client_focus_def)
qed

lemma calm_start_journal [calm_intros]: "calm h x \<Longrightarrow> calm h (start_journal now reseed mc sid seed x)"
  by (auto simp: start_journal_def Let_def intro!: calm_intros)

lemma calm_reseed [calm_intros]: "calm h x \<Longrightarrow> calm h (reseed_coviewers key sid x)"
  by (simp add: reseed_coviewers_def calm_chain)

lemma fold_swap_seed_calm: "fold_swap_seed env seed x = Some (h1, mc, sid) \<Longrightarrow> calm h x \<Longrightarrow> calm h h1"
  by (auto simp: fold_swap_seed_def split: option.splits prod.splits)

lemma busy_ops [simp]: "busy (h\<lparr>h_hub_ops := p\<rparr>) = busy h"
  by (simp add: busy_def)

lemma length_refreshes [simp]: "length (switch_refreshes key sid) = 6"
  by (simp add: switch_refreshes_def)

lemma finish_switch_ops:
  assumes "finish_switch env now key seed reseed h = Some (h', sid)"
  shows "busy h' \<subseteq> busy h \<and> length (h_hub_ops h') \<le> length (h_hub_ops h) + 6"
proof (cases "seed = []")
  case True
  then have "calm h h'" using assms by (auto simp: finish_switch_def intro!: calm_intros)
  then show ?thesis by (simp add: calm_def)
next
  case False
  obtain h1 mc osid where f: "fold_swap_seed env seed h = Some (h1, mc, osid)"
    using assms False by (auto simp: finish_switch_def split: option.splits)
  have h1: "calm h h1" using fold_swap_seed_calm [OF f calm_refl] .
  show ?thesis
  proof (cases osid)
    case None
    then have "calm h h'" using assms False f h1 by (auto simp: finish_switch_def intro!: calm_intros)
    then show ?thesis by (simp add: calm_def)
  next
    case (Some s)
    let ?h2 = "start_journal now reseed mc s seed h1"
    let ?h3 = "set_client_focus key s ?h2"
    let ?h4 = "send_to_client key (seed_msg ?h3 (Some s)) ?h3"
    let ?h5 = "if reseed then reseed_coviewers key s ?h4 else ?h4"
    have c: "calm h ?h2" "calm h ?h5" using h1 by (auto intro!: calm_intros)
    have "h' = ?h2 \<or> h' = ?h5\<lparr>h_hub_ops := h_hub_ops ?h5 @ switch_refreshes key s\<rparr>"
      using assms False f Some by (auto simp: finish_switch_def Let_def split: if_splits)
    then obtain x where "calm h x" "h' = x \<or> h' = x\<lparr>h_hub_ops := h_hub_ops x @ switch_refreshes key s\<rparr>"
      using c by blast
    then show ?thesis by (auto simp: calm_def)
  qed
qed

lemma switch_complete_ops:
  assumes "switch_complete env now key r reseed suppress h = Some (h', sid, q)"
  shows "busy h' \<subseteq> busy h - {key}" "length (h_hub_ops h') \<le> length (h_hub_ops h) + 6"
proof -
  let ?h1 = "h\<lparr>h_swaps_in_flight := h_swaps_in_flight h - 1\<rparr>"
  have h1: "calm h ?h1" by (simp add: calm_refl)
  obtain h2 where h2: "busy h2 \<subseteq> busy h" "length (h_hub_ops h2) \<le> length (h_hub_ops h) + 6"
    "release_flight key h2 = (h', q)"
  proof (cases r)
    case (Inl raw)
    let ?h2 = "if \<not> superseded ?h1 key \<and> \<not> suppress
      then (case render_switch_error raw of (message, kind) \<Rightarrow> send_to_client key (M_Error message kind) ?h1) else ?h1"
    have "calm h ?h2" using h1 by (auto intro!: calm_intros split: prod.splits)
    moreover have "release_flight key ?h2 = (h', q)"
      using assms Inl by (auto simp: switch_complete_def Let_def split: prod.splits if_splits)
    ultimately obtain h2 where "calm h h2" "release_flight key h2 = (h', q)" by blast
    then show ?thesis using that [of h2] by (simp add: calm_def)
  next
    case (Inr seed)
    then obtain h2 sid2 where f: "finish_switch env now key seed reseed ?h1 = Some (h2, sid2)"
      "release_flight key h2 = (h', q)"
      using assms by (auto simp: switch_complete_def Let_def split: option.splits prod.splits)
    then show ?thesis using that finish_switch_ops [OF f(1)] h1 by (auto simp: calm_def)
  qed
  show "busy h' \<subseteq> busy h - {key}" "length (h_hub_ops h') \<le> length (h_hub_ops h) + 6"
    using h2 release_flight_busy [OF h2(3)] by auto
qed

section \<open>The applier's steps\<close>

text \<open>The kind of answer each call gets.\<close>

fun call_fits :: "DriverCall option \<Rightarrow> DriverAnswer \<Rightarrow> bool" where
  "call_fits None a = (a = A_Nothing)"
| "call_fits (Some (Dc_Prompt _ _ _ _ _)) a = (\<exists>e. a = A_Prompted e)"
| "call_fits (Some (Dc_Abort _)) a = False"
| "call_fits (Some (Dc_ClearQueue _)) a = (\<exists>r. a = A_Queue r)"
| "call_fits (Some (Dc_RespondUi _ _)) a = False"
| "call_fits (Some Dc_ListSessions) a = (\<exists>ss home. a = A_Sessions ss home)"
| "call_fits (Some (Dc_SetArchived _ _)) a = (\<exists>e. a = A_Unit e)"
| "call_fits (Some (Dc_RenameSession _ _)) a = (\<exists>e. a = A_Unit e)"
| "call_fits (Some (Dc_OpenSession _)) a = (\<exists>r. a = A_Swapped r)"
| "call_fits (Some (Dc_ReloadSession _)) a = (\<exists>r. a = A_Swapped r)"
| "call_fits (Some (Dc_DetachSession _)) a = (\<exists>e. a = A_Unit e)"
| "call_fits (Some (Dc_NewSession _)) a = (\<exists>r. a = A_Swapped r)"
| "call_fits (Some (Dc_BranchFrom _ _ _)) a = (\<exists>r. a = A_Branched r)"
| "call_fits (Some Dc_ListModels) a = (\<exists>ms g. a = A_Models ms g)"
| "call_fits (Some (Dc_ListCommands _)) a = (\<exists>cs. a = A_Commands cs)"
| "call_fits (Some (Dc_ListFacets _)) a = (\<exists>fs. a = A_Facets fs)"
| "call_fits (Some (Dc_ListFileIndex _)) a = (\<exists>fs t. a = A_FileIndex fs t)"
| "call_fits (Some (Dc_ListAtRefs _)) a = (\<exists>r. a = A_AtRefs r)"
| "call_fits (Some (Dc_ListFiles _ _ _ _)) a = (\<exists>fs. a = A_Files fs)"
| "call_fits (Some (Dc_ListDir _)) a = (\<exists>l. a = A_Dir l)"
| "call_fits (Some (Dc_StatPath _)) a = (\<exists>st. a = A_Stat st)"
| "call_fits (Some (Dc_ListJobs _)) a = (\<exists>r. a = A_Jobs r)"
| "call_fits (Some (Dc_DeleteTodo _ _)) a = (\<exists>e. a = A_Todo e)"
| "call_fits (Some (Dc_SessionAction _ _)) a = (\<exists>e. a = A_Unit e)"
| "call_fits (Some (Dc_DestroySession _)) a = (\<exists>e. a = A_Unit e)"
| "call_fits (Some Dc_GetModelDefaults) a = (\<exists>df. a = A_Defaults df)"
| "call_fits (Some (Dc_RunScript _)) a = False"

fun fits :: "Stage \<Rightarrow> DriverAnswer \<Rightarrow> bool" where
  "fits (S_Op p) a = call_fits (first_call p) a"
| "fits (S_Parked _ _) a = False"
| "fits (S_Relist _) a = (\<exists>ss home. a = A_Sessions ss home)"
| "fits (S_FirstPrompt _ _ _) a = (\<exists>e. a = A_Prompted e)"

text \<open>
  The applier takes the next operation when it is idle, goes on when its call is answered, and wakes a
  parked switch when its waiting place was resolved.
\<close>

inductive applier_step :: "Dispatch \<Rightarrow> Dispatch \<Rightarrow> bool" where
  Start: "d_running d = None \<Longrightarrow> d_queue d = p # q \<Longrightarrow> applier_step d (start_op p (d\<lparr>d_queue := q\<rparr>))"
| Answer: "d_running d = Some st \<Longrightarrow> fits st a \<Longrightarrow> answer cx st a d = Some d' \<Longrightarrow> applier_step d d'"
| Wake: "d_running d = Some (S_Parked p n) \<Longrightarrow> (n, sid) \<in> set (h_resolved (d_hub d)) \<Longrightarrow>
    applier_step d (after_switch p None sid (d_hub d) d)"

inductive_cases applier_stepE: "applier_step d d'"

text \<open>
  The steps an operation may take: its start, its answer, the session list after a change, the
  first prompt of a new session, and six refreshes after a switch.
\<close>

definition op_weight :: "ClientOp \<Rightarrow> nat" where
  "op_weight p = (if switch_of p = None then 3 else 21)"

fun stage_weight :: "Stage option \<Rightarrow> nat" where
  "stage_weight None = 0"
| "stage_weight (Some (S_Op p)) = op_weight p - 1"
| "stage_weight (Some (S_Parked p _)) = op_weight p - 1"
| "stage_weight (Some (S_Relist _)) = 1"
| "stage_weight (Some (S_FirstPrompt _ _ _)) = 1"

definition load :: "Dispatch \<Rightarrow> nat" where
  "load d = sum_list (map op_weight (d_queue d)) + 3 * length (h_hub_ops (d_hub d)) + stage_weight (d_running d)"

lemma op_weight_hub [simp]: "op_weight (P_Hub q) = 3"
  by (simp add: op_weight_def)

lemma op_weight_pos: "3 \<le> op_weight p"
  by (simp add: op_weight_def)

lemma load_finish [simp]:
  "load (finish_op h d) = sum_list (map op_weight (d_queue d)) + 3 * length (h_hub_ops h)"
  by (simp add: load_def finish_op_def absorb_def sum_list_triv comp_def)

lemma load_await [simp]:
  "load (await st c d) = sum_list (map op_weight (d_queue d)) + 3 * length (h_hub_ops (d_hub d)) + stage_weight (Some st)"
  by (simp add: load_def await_def)

lemma start_op_load:
  "load (start_op p d) = sum_list (map op_weight (d_queue d)) + 3 * length (h_hub_ops (d_hub d)) + (op_weight p - 1)"
proof (cases "switch_of p")
  case (Some t)
  obtain key reseed retry suppress where t: "t = (key, reseed, retry, suppress)" by (metis prod_cases4)
  show ?thesis using Some t switch_begin_busy(2)
    by (auto simp: start_op_def Let_def load_def await_def split: prod.splits bool.splits)
      (metis fst_conv)+
qed (simp add: start_op_def)

lemma calm_ops: "calm h h' \<Longrightarrow> h_hub_ops h' = h_hub_ops h"
  by (simp add: calm_def)

lemmas ops_frames = calm_intros [THEN calm_ops]

lemma after_switch_load:
  "load (after_switch p prefill sid h d) \<le> sum_list (map op_weight (d_queue d)) + 3 * length (h_hub_ops h) + 1"
proof -
  have ans: "h_hub_ops (answer_prompt key pid m h) = h_hub_ops h" for key pid m
    by (rule calm_ops) (intro calm_intros)
  show ?thesis
    by (auto simp: after_switch_def absorb_def sum_list_triv comp_def ans split: ClientOp.splits option.splits)
qed

lemma complete_switch_load:
  assumes "complete_switch cx p r prefill d = Some d'" "switch_of p \<noteq> None"
  shows "load d' \<le> sum_list (map op_weight (d_queue d)) + 3 * length (h_hub_ops (d_hub d)) + 19"
proof -
  obtain key reseed retry suppress where sw: "switch_of p = Some (key, reseed, retry, suppress)"
    using assms(2) by auto
  obtain h sid q where c: "switch_complete (cx_env cx) (cx_now cx) key r reseed suppress (d_hub d) = Some (h, sid, q)"
    "d' = after_switch p prefill sid h d"
    using assms(1) sw by (auto simp: complete_switch_def)
  show ?thesis using switch_complete_ops(2) [OF c(1)] after_switch_load [of p prefill sid h d] c(2) by simp
qed

lemma calm_load: "calm (d_hub d) h \<Longrightarrow>
  load (finish_op h d) = sum_list (map op_weight (d_queue d)) + 3 * length (h_hub_ops (d_hub d))"
  by (simp add: calm_def)

lemma after_change_load:
  "load (after_change key kind p outcome d)
    \<le> sum_list (map op_weight (d_queue d)) + 3 * length (h_hub_ops (d_hub d)) + 1"
proof -
  have "h_hub_ops (error_to key kind e (d_hub d)) = h_hub_ops (d_hub d)" for e
    by (rule calm_ops) (intro calm_intros)
  then show ?thesis by (auto simp: after_change_def split: option.splits)
qed

text \<open>How an operation's first answer goes on: with a switch, with a change, or to its end.\<close>

fun is_change :: "ClientOp \<Rightarrow> bool" where
  "is_change (P_DestroySession _ _) = True"
| "is_change (P_SetArchived _ _ _) = True"
| "is_change (P_RenameSession _ _ _) = True"
| "is_change (P_DetachSession _ _) = True"
| "is_change _ = False"

lemma complete_op_switch:
  assumes "fits (S_Op p) a" "complete_op cx p a d = Some d'" "switch_of p \<noteq> None"
  shows "\<exists>r prefill. complete_switch cx p r prefill d = Some d'"
  using assms by (cases p) (auto simp: complete_op_def complete_query_def complete_connect_def; blast)+

lemma complete_op_change:
  assumes "fits (S_Op p) a" "complete_op cx p a d = Some d'" "is_change p"
  shows "\<exists>key kind outcome. d' = after_change key kind p outcome d"
  using assms by (cases p) (auto simp: complete_op_def complete_query_def complete_connect_def; blast)+

definition ended :: "Dispatch \<Rightarrow> Dispatch \<Rightarrow> bool" where
  "ended d d' \<longleftrightarrow> (\<exists>h ms. calm (d_hub d) h \<and> d' = finish_op h (d\<lparr>d_available_models := ms\<rparr>))"

lemma endedI:
  "calm (d_hub d) h \<Longrightarrow> ended d (finish_op h d)"
  "calm (d_hub d) h \<Longrightarrow> ended d (finish_op h (d\<lparr>d_available_models := ms\<rparr>))"
  unfolding ended_def by (rule exI [of _ h], rule exI [of _ "d_available_models d"], simp) blast

lemma complete_hub_op_end:
  assumes "call_fits (hub_call q) a"
  shows "ended d (complete_hub_op cx q a d)"
  using assms by (cases q) (auto simp: complete_hub_op_def intro!: endedI calm_intros split: if_splits)

lemma complete_op_end:
  assumes "fits (S_Op p) a" "complete_op cx p a d = Some d'" "switch_of p = None" "\<not> is_change p"
  shows "ended d d'"
proof (cases p)
  case (P_Hub q)
  then show ?thesis using assms complete_hub_op_end [of q a d cx] by (auto simp: complete_op_def complete_query_def complete_connect_def)
qed (use assms in \<open>auto simp: complete_op_def complete_query_def complete_connect_def intro!: endedI calm_intros split: option.splits sum.splits\<close>)

lemma answer_load:
  assumes "d_running d = Some st" "fits st a" "answer cx st a d = Some d'"
  shows "load d' < load d"
proof (cases st)
  case (S_Op p)
  have load: "load d = sum_list (map op_weight (d_queue d)) + 3 * length (h_hub_ops (d_hub d)) + (op_weight p - 1)"
    using assms(1) S_Op by (simp add: load_def)
  have c: "fits (S_Op p) a" "complete_op cx p a d = Some d'" using assms S_Op by (auto simp: answer_def)
  consider "switch_of p \<noteq> None" | "is_change p" "switch_of p = None" | "switch_of p = None" "\<not> is_change p" by blast
  then show ?thesis
  proof cases
    case 1
    then obtain r prefill where "complete_switch cx p r prefill d = Some d'" using complete_op_switch [OF c] by blast
    from complete_switch_load [OF this 1] show ?thesis using load 1 by (simp add: op_weight_def)
  next
    case 2
    then obtain key kind outcome where "d' = after_change key kind p outcome d" using complete_op_change [OF c] by blast
    then show ?thesis using after_change_load [of key kind p outcome d] load 2 by (simp add: op_weight_def)
  next
    case 3
    then obtain h ms where "calm (d_hub d) h" "d' = finish_op h (d\<lparr>d_available_models := ms\<rparr>)"
      using complete_op_end [OF c] by (auto simp: ended_def)
    then show ?thesis using load by (simp add: calm_def op_weight_def)
  qed
next
  case (S_Relist p)
  have "calm (d_hub d) (complete_relist p ss home (d_hub d))" for ss home by (intro calm_intros)
  then show ?thesis using assms S_Relist by (auto simp: answer_def load_def calm_load [unfolded load_def])
next
  case (S_FirstPrompt key sid pid)
  have "calm (d_hub d) (answer_prompt key pid m (d_hub d))" for m by (intro calm_intros)
  then show ?thesis using assms S_FirstPrompt by (auto simp: answer_def load_def calm_load [unfolded load_def])
qed (use assms in auto)

lemma applier_load:
  assumes "applier_step d d'"
  shows "load d' < load d"
  using assms
proof (cases rule: applier_step.cases)
  case (Start p q)
  then show ?thesis using start_op_load [of p "d\<lparr>d_queue := q\<rparr>"] op_weight_pos [of p] by (simp add: load_def)
next
  case (Answer st a cx)
  then show ?thesis using answer_load by blast
next
  case (Wake p n sid)
  then show ?thesis
    using after_switch_load [of p None sid "d_hub d" d] op_weight_pos [of p] by (simp add: load_def)
qed

text \<open>Every call has an answer that does not make the completion panic.\<close>

lemma switch_error_total: "switch_complete env now key (Inl e) reseed suppress h \<noteq> None"
  by (auto simp: switch_complete_def Let_def split: prod.splits)

lemma complete_op_total: "switch_of p = None \<Longrightarrow> \<exists>d'. complete_op cx p a d = Some d'"
  by (cases p) (auto simp: complete_op_def complete_query_def complete_connect_def split: DriverAnswer.splits)

lemma answer_fits_exists:
  "\<exists>a. call_fits (first_call p) a \<and> (switch_of p \<noteq> None \<longrightarrow> (\<exists>d'. complete_op cx p a d = Some d'))"
proof -
  have sw: "\<exists>d'. complete_switch cx p (Inl e) prefill d = Some d'" for p e prefill
    using switch_error_total by (auto simp: complete_switch_def split: option.splits)
  have hub: "\<exists>a. call_fits (hub_call q) a" for q by (cases q) auto
  show ?thesis
  proof (cases p)
    case (P_Branch key e s t)
    then show ?thesis using sw by (auto simp: complete_op_def complete_query_def complete_connect_def intro!: exI [of _ "A_Branched (Inl [])"])
  next
    case (P_OpenSession key path)
    then show ?thesis using sw by (auto simp: complete_op_def complete_query_def complete_connect_def intro!: exI [of _ "A_Swapped (Inl (Unexpected [] []))"])
  next
    case (P_ReloadSession key path)
    then show ?thesis using sw by (auto simp: complete_op_def complete_query_def complete_connect_def intro!: exI [of _ "A_Swapped (Inl (Unexpected [] []))"])
  next
    case (P_NewSession key opts f t i pid)
    then show ?thesis using sw by (auto simp: complete_op_def complete_query_def complete_connect_def intro!: exI [of _ "A_Swapped (Inl (Unexpected [] []))"])
  next
    case (P_Hub q)
    then show ?thesis using hub by auto
  qed auto
qed

lemma answer_exists:
  assumes "\<And>p n. st \<noteq> S_Parked p n"
  shows "\<exists>a d'. fits st a \<and> answer cx st a d = Some d'"
proof (cases st)
  case (S_Op p)
  obtain a where a: "call_fits (first_call p) a" "switch_of p \<noteq> None \<longrightarrow> (\<exists>d'. complete_op cx p a d = Some d')"
    using answer_fits_exists [of p cx d] by blast
  then show ?thesis using S_Op complete_op_total [of p cx a d] by (cases "switch_of p") (auto simp: answer_def)
next
  case (S_Relist p)
  then show ?thesis by (intro exI [of _ "A_Sessions [] []"]) (simp add: answer_def)
qed (use assms in \<open>auto simp: answer_def\<close>)

section \<open>The steps around the applier\<close>

lemma calm_lease [calm_intros]: "calm h x \<Longrightarrow> calm h (clear_update_lease x)"
  by (simp add: clear_update_lease_def)

lemma calm_update [calm_intros]:
  "calm h x \<Longrightarrow> calm h (apply_update now unix nonce x)"
  "calm h x \<Longrightarrow> calm h (force_update now unix nonce x)"
  by (auto simp: apply_update_def force_update_def authorize_update_def Let_def intro!: calm_intros)

lemma calm_requests [calm_intros]:
  "calm h x \<Longrightarrow> calm h (handle_ping k x)"
  "calm h x \<Longrightarrow> calm h (handle_request_seed k s x)"
  "calm h x \<Longrightarrow> calm h (open_data_dir k f x)"
  by (auto simp: handle_ping_def handle_request_seed_def open_data_dir_def intro!: calm_intros split: option.splits)

text \<open>A client message leaves the applier where it is and only lengthens its queue.\<close>

lemma handle_client_frame:
  assumes "handle_client cx key msg d = Some d'"
  shows "calm (d_hub d) (d_hub d') \<and> d_running d' = d_running d \<and> d_next_switch d' = d_next_switch d
    \<and> (\<exists>ps. d_queue d' = d_queue d @ ps \<and> length ps \<le> 1)"
  using assms
  by (cases msg) (auto simp: handle_client_def Let_def on_hub_def enqueue_def driver_call_def reply_def
      handle_prompt_def handle_abort_def handle_respond_ui_def handle_branch_def handle_new_session_def
      handle_rename_session_def handle_set_login_shell_def handle_set_background_model_def write_setting_def
      intro!: calm_intros split: option.splits)

lemma calm_drop_closed [calm_intros]: "calm h x \<Longrightarrow> calm h (drop_closed ev x)"
  by (auto simp: drop_closed_def Let_def intro!: calm_intros)

lemma calm_buffer: "calm h x \<Longrightarrow> calm h (buffer_swap_event now sid ev x)"
  by (simp add: buffer_swap_event_def Let_def)

lemma busy_notify: "maybe_notify env ev (enqueue_jobs ev x) = Some h' \<Longrightarrow> busy h' = busy x"
  by (auto simp: maybe_notify_def enqueue_jobs_def busy_def split: if_splits)

lemma busy_on_event:
  assumes "on_event env now ev h = Some h'"
  shows "busy h' \<subseteq> busy h"
proof -
  obtain t ch where t: "track_event (env_lower env) ev (h_track h) = Some (t, ch)"
    using assms by (auto simp: on_event_def split: option.splits)
  let ?h1 = "h\<lparr>h_track := t\<rparr>"
  let ?h2 = "if ch then broadcast_session_status ?h1 else ?h1"
  let ?h3 = "if dirties_session_list ev then ?h2\<lparr>h_session_list_dirty := True\<rparr> else ?h2"
  let ?h4 = "if h_swaps_in_flight ?h3 > 0 \<and> \<not> hm_contains (h_journals ?h3) (ev_session_id ev)
     then buffer_swap_event now (ev_session_id ev) ev ?h3 else ?h3"
  let ?h5 = "drop_closed ev (ingest env now ev ?h4)"
  have "calm h ?h2" by (simp add: calm_status calm_refl)
  then have "calm h ?h3" by simp
  then have "calm h ?h4" by (simp add: calm_buffer)
  then have "calm h ?h5" by (intro calm_drop_closed calm_ingest)
  moreover have "maybe_notify env ev (enqueue_jobs ev ?h5) = Some h'"
    using assms t by (simp add: on_event_def Let_def)
  then have "busy h' = busy ?h5" by (rule busy_notify)
  ultimately show ?thesis by (simp add: calm_def)
qed

lemma calm_replay: "calm h x \<Longrightarrow> calm h (replay_tail key epoch fs x)"
proof (induction key epoch fs x rule: replay_tail.induct)
  case (2 key epoch f fs x)
  let ?r = "deliver key ''bootstrap.resume_tail'' (M_Event (jf_ev f) epoch (jf_seq f)) x"
  have c: "calm h (fst ?r)" using 2(2) by (rule calm_chain)
  show ?case using 2(1) [of "fst ?r" "snd ?r"] c by (cases ?r; cases "snd ?r") auto
qed simp

lemma calm_bootstrap:
  "calm h x \<Longrightarrow> calm h (bootstrap_transcript key resume focused x)"
  "calm h x \<Longrightarrow> calm h (bootstrap_status key sm x)"
  by (auto simp: bootstrap_transcript_def bootstrap_status_def Let_def intro!: calm_replay calm_intros
      split: option.splits)

lemma calm_add_client:
  assumes "add_client resume sm h = (h', key)"
  shows "calm h h'"
proof -
  have r: "calm h (register_client f h)" for f
    by (auto simp: calm_def busy_def register_client_def split: if_splits)
  let ?h1 = "register_client (initial_focus h resume) h"
  let ?r = "deliver (h_next_client_key h) ''bootstrap.hello'' (hello_msg ?h1) ?h1"
  have "calm h (fst ?r)" using r by (rule calm_chain)
  then show ?thesis
    using assms calm_bootstrap by (cases ?r; cases "snd ?r") (auto simp: add_client_def Let_def)
qed

lemma calm_remove: "calm h (remove_client k h)"
  by (auto simp: calm_def busy_def remove_get core_fields [OF core_remove] split: if_splits)

lemma calm_send_wait: "send_wait k m h = Some h' \<Longrightarrow> calm h h'"
  by (auto simp: send_wait_def calm_refl split: option.splits sum.splits DeliveryFailure.splits)
    (auto simp: calm_def busy_def split: if_splits)

text \<open>
  What happens between the applier's steps: client messages, driver events, clients that attach, leave
  and read, the refresh tick, and the end of a stop's task.
\<close>

inductive outside_step :: "Dispatch \<Rightarrow> Dispatch \<Rightarrow> bool" where
  Client: "handle_client cx key msg d = Some d' \<Longrightarrow> outside_step d d'"
| Event: "on_event env now ev (d_hub d) = Some h \<Longrightarrow> outside_step d (absorb (d\<lparr>d_hub := h\<rparr>))"
| Attach: "add_client resume sm (d_hub d) = (h, key) \<Longrightarrow>
    outside_step d (if has_client h key then spawn_connect_lists key (d\<lparr>d_hub := h\<rparr>) else d\<lparr>d_hub := h\<rparr>)"
| Leave: "outside_step d (d\<lparr>d_hub := remove_client key (d_hub d)\<rparr>)"
| Read: "hm_get (h_clients (d_hub d)) k = Some c \<Longrightarrow> ch_read (cc_send c) < length (ch_sent (cc_send c)) \<Longrightarrow>
    outside_step d (d\<lparr>d_hub := (d_hub d)\<lparr>h_clients := hm_insert k
      (c\<lparr>cc_send := (cc_send c)\<lparr>ch_read := Suc (ch_read (cc_send c))\<rparr>\<rparr>) (h_clients (d_hub d))\<rparr>\<rparr>)"
| Tick: "outside_step d (enqueue_live_refresh d)"
| Stopped: "finish_abort outcome d = Some d' \<Longrightarrow> outside_step d d'"

lemma outside_frame:
  assumes "outside_step d d'"
  shows "busy (d_hub d') \<subseteq> busy (d_hub d) \<and> d_running d' = d_running d"
  using assms
proof (cases rule: outside_step.cases)
  case (Client cx key msg)
  then show ?thesis using handle_client_frame by (auto simp: calm_def)
next
  case (Event env now ev h)
  then show ?thesis using busy_on_event by (simp add: absorb_def)
next
  case (Attach resume sm h key)
  then show ?thesis using calm_add_client by (auto simp: spawn_connect_lists_def Let_def calm_def)
next
  case (Leave key)
  then show ?thesis using calm_remove by (simp add: calm_def)
next
  case (Read k c)
  then show ?thesis by (auto simp: busy_def split: if_splits)
next
  case Tick
  then show ?thesis by (simp add: enqueue_live_refresh_def Let_def enqueue_def)
next
  case (Stopped outcome)
  then show ?thesis by (auto simp: finish_abort_def split: list.splits dest!: calm_send_wait dest: calm_busy)
qed

section \<open>No operation waits behind a switch\<close>

text \<open>A connection is busy only while the applier runs its switch.\<close>

fun switching :: "Stage option \<Rightarrow> nat set" where
  "switching (Some (S_Op p)) = (case switch_of p of Some (key, _) \<Rightarrow> {key} | None \<Rightarrow> {})"
| "switching _ = {}"

definition flowing :: "Dispatch \<Rightarrow> bool" where
  "flowing d \<longleftrightarrow> busy (d_hub d) \<subseteq> switching (d_running d) \<and> (\<forall>p n. d_running d \<noteq> Some (S_Parked p n))"

inductive flow_reachable :: "Dispatch \<Rightarrow> bool" where
  Init: "h_clients (d_hub d) = [] \<Longrightarrow> d_running d = None \<Longrightarrow> flow_reachable d"
| Applier: "flow_reachable d \<Longrightarrow> applier_step d d' \<Longrightarrow> flow_reachable d'"
| Outside: "flow_reachable d \<Longrightarrow> outside_step d d' \<Longrightarrow> flow_reachable d'"

lemma flowing_finish: "busy h \<subseteq> {} \<Longrightarrow> flowing (finish_op h d)"
  by (simp add: flowing_def finish_op_def absorb_def)

lemma flowing_after_switch:
  assumes "busy h \<subseteq> {}"
  shows "flowing (after_switch p prefill sid h d)"
proof -
  have "busy (answer_prompt key pid m h) = {}" "busy (send_to_client key m h) = {}" for key pid m
    using assms calm_idle [OF calm_answer_prompt [OF calm_refl]] calm_idle [OF calm_send] by simp_all
  then show ?thesis
    using assms by (auto simp: after_switch_def await_def flowing_def finish_op_def absorb_def
        split: ClientOp.splits option.splits)
qed

lemma flowing_start:
  assumes "flowing d" "d_running d = None"
  shows "flowing (start_op p (d\<lparr>d_queue := q\<rparr>))"
proof (cases "switch_of p")
  case None
  then show ?thesis using assms by (simp add: start_op_def await_def flowing_def)
next
  case (Some t)
  obtain key reseed retry suppress where t: "t = (key, reseed, retry, suppress)" by (metis prod_cases4)
  let ?req = "\<lparr>psw_swap = d_next_switch d, psw_reseed = reseed, psw_retry_on_raced_events = retry,
     psw_suppress_error = suppress, psw_resolve = d_next_switch d\<rparr>"
  have idle: "busy (d_hub d) = {}" using assms by (simp add: flowing_def)
  then have run: "snd (switch_begin key ?req (d_hub d))"
    by (auto simp: switch_begin_busy(3) busy_def)
  obtain h where h: "switch_begin key ?req (d_hub d) = (h, True)" using run by (cases "switch_begin key ?req (d_hub d)") auto
  then show ?thesis using Some t switch_begin_busy(1) [of key ?req "d_hub d"] idle
    by (auto simp: start_op_def Let_def await_def flowing_def)
qed

lemma flowing_answer:
  assumes "flowing d" "d_running d = Some st" "fits st a" "answer cx st a d = Some d'"
  shows "flowing d'"
proof (cases st)
  case (S_Op p)
  have c: "fits (S_Op p) a" "complete_op cx p a d = Some d'" using assms S_Op by (auto simp: answer_def)
  consider (switch) "switch_of p \<noteq> None" | (change) "is_change p" "switch_of p = None"
    | (ends) "switch_of p = None" "\<not> is_change p" by blast
  then show ?thesis
  proof cases
    case switch
    then obtain r prefill where r: "complete_switch cx p r prefill d = Some d'" using complete_op_switch [OF c] by blast
    obtain key reseed retry suppress where sw: "switch_of p = Some (key, reseed, retry, suppress)" using switch by auto
    obtain h sid q where h: "switch_complete (cx_env cx) (cx_now cx) key r reseed suppress (d_hub d) = Some (h, sid, q)"
      "d' = after_switch p prefill sid h d"
      using r sw by (auto simp: complete_switch_def)
    have "busy h \<subseteq> {}" using switch_complete_ops(1) [OF h(1)] assms(1,2) S_Op sw by (auto simp: flowing_def)
    then show ?thesis using h(2) flowing_after_switch by blast
  next
    case change
    then obtain key kind outcome where d': "d' = after_change key kind p outcome d" using complete_op_change [OF c] by blast
    have "busy (d_hub d) = {}" using assms(1,2) S_Op change by (simp add: flowing_def)
    then show ?thesis using d' calm_error_to [OF calm_refl, of "d_hub d"]
      by (auto simp: after_change_def await_def flowing_def finish_op_def absorb_def calm_def split: option.splits)
  next
    case ends
    then obtain h ms where "calm (d_hub d) h" "d' = finish_op h (d\<lparr>d_available_models := ms\<rparr>)"
      using complete_op_end [OF c] by (auto simp: ended_def)
    then show ?thesis using assms(1,2) S_Op ends by (auto intro!: flowing_finish simp: flowing_def [of d] calm_def)
  qed
next
  case (S_Relist p)
  have "busy (d_hub d) = {}" using assms(1,2) S_Relist by (simp add: flowing_def)
  then have "busy (complete_relist p ss home (d_hub d)) \<subseteq> {}" for ss home
    using calm_idle [OF calm_relist [OF calm_refl]] by simp
  then show ?thesis using assms(3,4) S_Relist flowing_finish by (auto simp: answer_def)
next
  case (S_FirstPrompt key sid pid)
  have "busy (d_hub d) = {}" using assms(1,2) S_FirstPrompt by (simp add: flowing_def)
  then have "busy (answer_prompt key pid m (d_hub d)) \<subseteq> {}" for m
    using calm_idle [OF calm_answer_prompt [OF calm_refl]] by simp
  then show ?thesis using assms(3,4) S_FirstPrompt flowing_finish by (auto simp: answer_def)
qed (use assms in \<open>auto simp: flowing_def\<close>)

lemma flow_reachable_flowing: "flow_reachable d \<Longrightarrow> flowing d"
proof (induction rule: flow_reachable.induct)
  case (Init d)
  then show ?case by (simp add: flowing_def busy_def)
next
  case (Applier d d')
  from Applier(2) show ?case
  proof (cases rule: applier_step.cases)
    case (Start p q)
    then show ?thesis using flowing_start Applier(3) by blast
  next
    case (Answer st a cx)
    then show ?thesis using flowing_answer Applier(3) by blast
  next
    case (Wake p n sid)
    then show ?thesis using Applier(3) by (simp add: flowing_def)
  qed
next
  case (Outside d d')
  then show ?case using outside_frame [OF Outside(2)] by (auto simp: flowing_def)
qed

end
