(* ===== verification/Dispatch_Props.thy ===== *)
theory Dispatch_Props
  imports Dispatch_Flow Hub_Props
begin

text \<open>
  Properties of the client dispatch: the applier drains its queue; one panic in a switch blocks it; a prompt
  with an id is answered once, and a retry after the answer replays it (a retry before it runs the prompt again);
  the first responder to a dialog wins.
\<close>

section \<open>Properties\<close>

lemma applier_runs_bounded: "(applier_step ^^ n) d d' \<Longrightarrow> n + load d' \<le> load d"
proof (induction n arbitrary: d')
  case (Suc n)
  then obtain e where "(applier_step ^^ n) d e" "applier_step e d'" by auto
  then show ?case using Suc.IH applier_load [of e d'] by fastforce
qed simp

lemma applier_progress:
  assumes "flowing d" "d_running d \<noteq> None \<or> d_queue d \<noteq> []"
  shows "\<exists>d'. applier_step d d'"
proof (cases "d_running d")
  case None
  then show ?thesis using assms(2) by (cases "d_queue d") (auto intro: applier_step.Start)
next
  case (Some st)
  then have "\<And>p n. st \<noteq> S_Parked p n" using assms(1) by (auto simp: flowing_def)
  from answer_exists [OF this] show ?thesis using Some applier_step.Answer by blast
qed

lemma flow_reachable_steps: "applier_step\<^sup>*\<^sup>* d d' \<Longrightarrow> flow_reachable d \<Longrightarrow> flow_reachable d'"
  by (induction rule: rtranclp_induct) (auto intro: flow_reachable.Applier)

text \<open>
  Property C11. The applier drains its queue. From every state that is reached without a panic, a run of the
  applier is finite (the queued operations and the six refreshes of each switch bound its length), and where
  it cannot go on, no operation is queued or under way: no queued operation is lost or waits for ever,
  whatever the driver answers.
\<close>

theorem applier_drains:
  assumes "flow_reachable d"
  shows "((applier_step ^^ n) d d' \<longrightarrow> n \<le> load d)
    \<and> (applier_step\<^sup>*\<^sup>* d d' \<and> (\<nexists>e. applier_step d' e) \<longrightarrow> d_running d' = None \<and> d_queue d' = [])"
  using applier_runs_bounded applier_progress flow_reachable_flowing flow_reachable_steps [OF _ assms]
  by fastforce

definition sample_dispatch :: "ClientOp list \<Rightarrow> Dispatch" where
  "sample_dispatch ps = \<lparr>d_hub = empty_hub sample_cfg 0, d_available_models = [], d_settings = Absent, d_queue = ps,
     d_running = None, d_calls = [], d_aborts = [], d_next_switch = 0\<rparr>"

lemma sample_listing:
  "applier_step (sample_dispatch [P_ListSessions]) (start_op P_ListSessions (sample_dispatch []))"
  "applier_step (start_op P_ListSessions (sample_dispatch []))
     (finish_op (broadcast_session_list_with [] [] (empty_hub sample_cfg 0)) (start_op P_ListSessions (sample_dispatch [])))"
proof -
  let ?d = "start_op P_ListSessions (sample_dispatch [])"
  show "applier_step (sample_dispatch [P_ListSessions]) ?d"
    using applier_step.Start [of "sample_dispatch [P_ListSessions]" P_ListSessions "[]"]
    by (simp add: sample_dispatch_def)
  have "d_hub ?d = empty_hub sample_cfg 0" by (simp add: sample_dispatch_def start_op_def await_def)
  then show "applier_step ?d (finish_op (broadcast_session_list_with [] [] (empty_hub sample_cfg 0)) ?d)"
    by (intro applier_step.Answer [of _ "S_Op P_ListSessions" "A_Sessions [] []"])
      (auto simp: answer_def complete_op_def complete_query_def complete_connect_def start_op_def await_def)
qed

theorem applier_drains_witness:
  "\<exists>d'. (applier_step ^^ 2) (sample_dispatch [P_ListSessions]) d' \<and> 2 \<le> load (sample_dispatch [P_ListSessions])
     \<and> load (sample_dispatch [P_ListSessions]) = 3"
proof -
  have "flow_reachable (sample_dispatch [P_ListSessions])"
    by (rule flow_reachable.Init) (simp_all add: sample_dispatch_def empty_hub_def)
  moreover obtain d' where "(applier_step ^^ 2) (sample_dispatch [P_ListSessions]) d'"
    using sample_listing by (auto simp: numeral_2_eq_2)
  moreover have "load (sample_dispatch [P_ListSessions]) = 3"
    by (simp add: load_def sample_dispatch_def op_weight_def empty_hub_def)
  ultimately show ?thesis using applier_drains by blast
qed

subsection \<open>A panic in a switch\<close>

lemma parked_stuck:
  assumes "d_running d = Some (S_Parked p n)" "\<And>sid. (n, sid) \<notin> set (h_resolved (d_hub d))"
  shows "\<not> applier_step d e"
  using assms by (auto elim!: applier_stepE)

lemma outside_running: "outside_step\<^sup>*\<^sup>* d d' \<Longrightarrow> d_running d' = d_running d"
  by (induction rule: rtranclp_induct) (auto dest: outside_frame)

text \<open>
  Property C14. One panic blocks every client. The applier catches a panic so that one bad answer cannot stop it, but a switch that
  panics leaves its connection marked as switching. The next switch that this client asks for takes the
  waiting place, calls nothing, and awaits a wake-up that only the panicked switch would have given: the
  applier makes no step any more, whatever clients send and the driver reports, until
  the connection is gone and its waiting place resolved. Prompts and requests of all clients stay queued.
\<close>

theorem panicked_switch_blocks_applier:
  assumes "d_running d = Some (S_Op p0)" "switch_of p0 = Some (k, f0)"
    and "hm_get (h_clients (d_hub d)) k = Some c" "cc_switch_in_flight c" "cc_pending_switch c = None"
    and "d_queue d = p # q" "switch_of p = Some (k, f)"
    and "list_all (\<lambda>(n, s). n < d_next_switch d) (h_resolved (d_hub d))"
    and "fits (S_Op p0) a" "answer cx (S_Op p0) a d = None"
  shows "let e = start_op p ((panicked t d)\<lparr>d_queue := q\<rparr>) in applier_step (panicked t d) e \<and> d_calls e = d_calls d
    \<and> (\<forall>e'. outside_step\<^sup>*\<^sup>* e e' \<and> (\<forall>sid. (d_next_switch d, sid) \<notin> set (h_resolved (d_hub e')))
         \<longrightarrow> d_running e' = Some (S_Parked p (d_next_switch d)) \<and> (\<nexists>e''. applier_step e' e''))"
proof -
  obtain reseed retry suppress where f: "f = (reseed, retry, suppress)" by (metis prod_cases3)
  let ?d = "panicked t d" and ?n = "d_next_switch d"
  let ?req = "\<lparr>psw_swap = ?n, psw_reseed = reseed, psw_retry_on_raced_events = retry, psw_suppress_error = suppress, psw_resolve = ?n\<rparr>"
  let ?e = "start_op p (?d\<lparr>d_queue := q\<rparr>)"
  have step: "applier_step ?d ?e" using assms(6) by (intro applier_step.Start) (auto simp: panicked_def)
  have c: "hm_get (h_clients (d_hub ?d)) k = Some c" using assms(3) by (simp add: panicked_def)
  then obtain h where h: "switch_begin k ?req (d_hub ?d) = (h, False)"
    using assms(4) by (auto simp: switch_begin_def)
  have e: "d_running ?e = Some (S_Parked p ?n)" "d_calls ?e = d_calls d"
    using h assms(7) f by (auto simp: start_op_def Let_def panicked_def)
  show ?thesis
    unfolding Let_def using step e outside_running parked_stuck by metis
qed

definition panicking_seed :: "SessionDriverEvent list" where
  "panicking_seed = [E_RunFailed sample_base \<lparr>err_message = long_message, err_code = None, err_details = None\<rparr>]"

definition switching_conn :: ClientConn where
  "switching_conn = \<lparr>cc_send = \<lparr>ch_sent = [], ch_read = 0, ch_closed = False\<rparr>, cc_focused_id = None,
     cc_switch_in_flight = True, cc_pending_switch = None\<rparr>"

definition sample_cx :: Ctx where
  "sample_cx = \<lparr>cx_env = sample_env, cx_codec = toy_settings_codec, cx_write = Written,
     cx_login_env = \<lparr>env_active_shell = None, env_ok = True, env_detail = None\<rparr>,
     cx_open_in_file_manager = (\<lambda>_. None), cx_now = 1, cx_now_unix_ms = 1, cx_nonce = ''n'', cx_now_iso = ''t'',
     cx_usage = (\<lambda>_. None), cx_has_warm = (\<lambda>_. False)\<rparr>"

definition switching_dispatch :: Dispatch where
  "switching_dispatch = (sample_dispatch [P_OpenSession 0 ''/s/b/session.json''])
     \<lparr>d_hub := (empty_hub sample_cfg 0)\<lparr>h_clients := [(0, switching_conn)], h_swaps_in_flight := 1\<rparr>,
      d_running := Some (S_Op (P_OpenSession 0 ''/s/a/session.json''))\<rparr>"

theorem panicked_switch_blocks_applier_witness:
  "let e = start_op (P_OpenSession 0 ''/s/b/session.json'') ((panicked empty_tracking switching_dispatch)\<lparr>d_queue := []\<rparr>)
   in applier_step (panicked empty_tracking switching_dispatch) e
    \<and> d_running e = Some (S_Parked (P_OpenSession 0 ''/s/b/session.json'') 0) \<and> (\<nexists>e''. applier_step e e'')"
proof -
  let ?p = "P_OpenSession 0 ''/s/b/session.json''"
  let ?e = "start_op ?p ((panicked empty_tracking switching_dispatch)\<lparr>d_queue := []\<rparr>)"
  have "track_seed sample_env panicking_seed tc = None" for tc
    by (cases tc) (simp add: panicking_seed_def track_event_def track_attention_def Let_def clipped_long_message
        split: prod.splits)
  moreover have "panicking_seed \<noteq> []" by (simp add: panicking_seed_def)
  ultimately have "finish_switch sample_env now key panicking_seed r h = None" for now key r h
    by (simp add: finish_switch_def fold_swap_seed_def)
  then have panic: "answer sample_cx (S_Op (P_OpenSession 0 ''/s/a/session.json'')) (A_Swapped (Inr panicking_seed)) switching_dispatch = None"
    by (simp add: answer_def complete_op_def complete_query_def complete_connect_def complete_switch_def switch_complete_def sample_cx_def)
  have "h_resolved (d_hub ?e) = []"
    by (simp add: start_op_def switch_begin_def Let_def panicked_def switching_dispatch_def sample_dispatch_def empty_hub_def switching_conn_def)
  then show ?thesis
    using panicked_switch_blocks_applier [of switching_dispatch "P_OpenSession 0 ''/s/a/session.json''" 0
       "(False, True, False)" switching_conn ?p "[]" "(False, True, False)"
       "A_Swapped (Inr panicking_seed)" sample_cx empty_tracking] panic
    by (simp add: Let_def switching_dispatch_def switching_conn_def sample_dispatch_def empty_hub_def)
qed

subsection \<open>Prompts\<close>

definition ledger :: "SessionHub \<Rightarrow> string list \<times> (string, ServerMessage) hashmap" where
  "ledger h = (h_prompt_result_order h, h_prompt_results h)"

lemma ledger_core: "core a = core b \<Longrightarrow> ledger a = ledger b"
  by (cases a; cases b) (simp add: core_def ledger_def)

lemmas ledger_frames [simp] = ledger_core [OF core_deliver] ledger_core [OF core_deliver_all]
  ledger_core [OF core_deliver_each] ledger_core [OF core_broadcast] ledger_core [OF core_send]

lemma ledger_upd [simp]:
  "ledger (h\<lparr>h_track := t\<rparr>) = ledger h" "ledger (h\<lparr>h_journals := js\<rparr>) = ledger h"
  "ledger (h\<lparr>h_epoch_counter := n\<rparr>) = ledger h" "ledger (h\<lparr>h_pending_deltas := pd\<rparr>) = ledger h"
  "ledger (h\<lparr>h_clients := cs\<rparr>) = ledger h" "ledger (h\<lparr>h_swaps_in_flight := n\<rparr>) = ledger h"
  "ledger (h\<lparr>h_hub_ops := ps\<rparr>) = ledger h"
  by (simp_all add: ledger_def)

lemma ledger_switch_parts [simp]:
  "ledger (drop_pending sid h) = ledger h"
  "ledger (set_client_focus key sid h) = ledger h"
  "ledger (start_journal now reseed mc sid seed h) = ledger h"
  "ledger (reseed_coviewers key sid h) = ledger h"
  by (simp_all add: drop_pending_def set_client_focus_def start_journal_def broadcast_session_status_def
      reseed_coviewers_def Let_def)

lemma ledger_finish_switch: "finish_switch env now key seed reseed h = Some (h', sid) \<Longrightarrow> ledger h' = ledger h"
  by (auto simp: finish_switch_def fold_swap_seed_def Let_def split: option.splits if_splits prod.splits)

lemma ledger_switch_complete:
  assumes "switch_complete env now key r reseed suppress h = Some (h', sid, q)"
  shows "ledger h' = ledger h"
proof -
  have "ledger (fst (release_flight key x)) = ledger x" for x
    by (simp add: release_flight_def split: option.splits)
  then show ?thesis
    using assms by (auto simp: switch_complete_def Let_def split: sum.splits option.splits prod.splits if_splits
        dest!: ledger_finish_switch) (metis fst_conv ledger_frames(5) ledger_upd(6))+
qed

lemma trim_keeps_last:
  "pid \<notin> set order \<Longrightarrow> trim_prompt_ledger (order @ [pid]) rs = (order', rs') \<Longrightarrow> hm_get rs' pid = hm_get rs pid"
  by (induction order arbitrary: rs) (auto simp: PROMPT_RESULT_CAP_def split: if_splits)

lemma cached_result:
  assumes "ledger_ok h"
  shows "hm_get (h_prompt_results (cache_prompt_result pid m h)) pid = Some m"
proof -
  let ?o = "if hm_contains (h_prompt_results h) pid then filter (\<lambda>p. p \<noteq> pid) (h_prompt_result_order h) else h_prompt_result_order h"
  have "pid \<notin> set ?o" using assms by (auto simp: ledger_ok_def hm_contains_iff)
  from trim_keeps_last [OF this] show ?thesis by (auto simp: cache_prompt_result_def Let_def split: prod.splits)
qed

text \<open>The client and the prompt id that the operation under way owes an answer.\<close>

fun awaited_op :: "ClientOp \<Rightarrow> (nat \<times> string) option" where
  "awaited_op (P_Prompt key _ _ _ _ pid) = map_option (Pair key) pid"
| "awaited_op (P_NewSession key _ has_first_prompt _ _ pid) = (if has_first_prompt then map_option (Pair key) pid else None)"
| "awaited_op _ = None"

definition awaited :: "Stage option \<Rightarrow> (nat \<times> string) option" where
  "awaited st = (case st of
     Some (S_Op p) \<Rightarrow> awaited_op p
   | Some (S_Parked p _) \<Rightarrow> awaited_op p
   | Some (S_FirstPrompt key _ pid) \<Rightarrow> map_option (Pair key) pid
   | _ \<Rightarrow> None)"

definition parked_ok :: "Stage option \<Rightarrow> bool" where
  "parked_ok st = (case st of Some (S_Parked p _) \<Rightarrow> switch_of p \<noteq> None | _ \<Rightarrow> True)"

text \<open>The operation is over, and its last act was to remember and send the answer.\<close>

definition answered :: "nat \<Rightarrow> string \<Rightarrow> ServerMessage \<Rightarrow> Dispatch \<Rightarrow> bool" where
  "answered key pid m d' \<longleftrightarrow> d_running d' = None
     \<and> (\<exists>h. ledger_ok h \<and> d_hub d' = (send_to_client key m (cache_prompt_result pid m h))\<lparr>h_hub_ops := []\<rparr>)"

lemma answered_finish:
  "ledger_ok h \<Longrightarrow> answered key pid m (finish_op (answer_prompt key (Some pid) m h) d)"
  by (auto simp: answered_def finish_op_def absorb_def answer_prompt_def)

lemma prompt_result_form:
  "\<exists>acc sid err. prompt_result (Some pid) target outcome = M_PromptResult pid acc sid err \<and> (acc \<longleftrightarrow> err = None)"
  by (cases outcome) (auto simp: prompt_result_def)

lemma answered_replays:
  assumes "answered key pid m d"
  shows "check_prompt_idempotency (Some pid) (d_hub d) = Some m"
proof -
  obtain h where h: "ledger_ok h" "d_hub d = (send_to_client key m (cache_prompt_result pid m h))\<lparr>h_hub_ops := []\<rparr>"
    using assms by (auto simp: answered_def)
  have "ledger (d_hub d) = ledger (cache_prompt_result pid m h)" using h(2) by simp
  then show ?thesis using cached_result [OF h(1), of pid m] by (simp add: ledger_def check_prompt_idempotency_def)
qed

lemma ledger_ok_cong: "ledger a = ledger b \<Longrightarrow> ledger_ok a = ledger_ok b"
  by (simp add: ledger_def ledger_ok_def)

lemma after_switch_settles:
  assumes "awaited_op p = Some (key, pid)" "switch_of p \<noteq> None" "ledger_ok h"
  shows "awaited (d_running (after_switch p prefill sid h d)) = Some (key, pid)
    \<or> (\<exists>m. answered key pid m (after_switch p prefill sid h d) \<and> (\<exists>acc s err. m = M_PromptResult pid acc s err \<and> (acc \<longleftrightarrow> err = None)))"
proof -
  obtain opts tx images where p: "p = P_NewSession key opts True tx images (Some pid)"
    using assms(1,2) by (cases p) (auto split: if_splits)
  show ?thesis
  proof (cases sid)
    case None
    then show ?thesis using p answered_finish [OF assms(3)] prompt_result_form by (simp add: after_switch_def) blast
  next
    case (Some s)
    then show ?thesis using p by (simp add: after_switch_def awaited_def await_def)
  qed
qed

lemma answer_settles:
  assumes "d_running d = Some st" "awaited (Some st) = Some (key, pid)" "fits st a" "answer cx st a d = Some d'"
    and "ledger_ok (d_hub d)"
  shows "awaited (d_running d') = Some (key, pid)
    \<or> (\<exists>m. answered key pid m d' \<and> (\<exists>acc s err. m = M_PromptResult pid acc s err \<and> (acc \<longleftrightarrow> err = None)))"
proof (cases st)
  case (S_Op p)
  have c: "fits (S_Op p) a" "complete_op cx p a d = Some d'" using assms S_Op by (auto simp: answer_def)
  show ?thesis
  proof (cases "switch_of p")
    case None
    then obtain tx mode target images where p: "p = P_Prompt key tx mode target images (Some pid)"
      using assms(2) S_Op by (cases p) (auto simp: awaited_def split: if_splits)
    then obtain e where "a = A_Prompted e" using c(1) by auto
    then have "d' = finish_op (answer_prompt key (Some pid) (prompt_result (Some pid) target e) (d_hub d)) d"
      using c(2) p by (simp add: complete_op_def complete_query_def complete_connect_def)
    then show ?thesis using answered_finish [OF assms(5)] prompt_result_form by blast
  next
    case (Some sw)
    then obtain r prefill where "complete_switch cx p r prefill d = Some d'" using complete_op_switch [OF c] by blast
    then obtain k reseed retry suppress h sid q where h:
      "switch_complete (cx_env cx) (cx_now cx) k r reseed suppress (d_hub d) = Some (h, sid, q)"
      "d' = after_switch p prefill sid h d"
      using Some by (cases sw) (auto simp: complete_switch_def)
    have "ledger_ok h" using ledger_switch_complete [OF h(1)] assms(5) ledger_ok_cong by blast
    then show ?thesis using after_switch_settles [of p key pid h] assms(2) S_Op Some h(2) by (simp add: awaited_def)
  qed
next
  case (S_FirstPrompt k sid pd)
  then obtain e where "a = A_Prompted e" "k = key" "pd = Some pid" using assms(2,3) by (auto simp: awaited_def)
  then show ?thesis using assms(4) S_FirstPrompt answered_finish [OF assms(5)] prompt_result_form
    by (auto simp: answer_def) blast
qed (use assms in \<open>auto simp: awaited_def\<close>)



definition prompting_dispatch :: Dispatch where
  "prompting_dispatch = (sample_dispatch [])\<lparr>d_running := Some (S_Op (P_Prompt 0 ''hi'' None None [] (Some ''p'')))\<rparr>"


lemma three_steps: "applier_step a b \<Longrightarrow> applier_step b c \<Longrightarrow> applier_step c e \<Longrightarrow> applier_step\<^sup>*\<^sup>* a e"
  by (meson r_into_rtranclp rtranclp_trans)

text \<open>
  A retry that comes before the answer runs the prompt again. The ledger is read when a message is
  dispatched and written when the operation ends, so two messages with one id that are both dispatched before the first has
  ended are both queued, and the applier sends the prompt to the driver twice.
\<close>

theorem early_retry_prompts_twice:
  assumes "check_prompt_idempotency (Some pid) (d_hub d) = None" "d_queue d = []" "d_running d = None"
    and "handle_client cx k (C_Prompt (Some pid) tx images mode session) d = Some d1"
    and "handle_client cx k (C_Prompt (Some pid) tx images mode session) d1 = Some d2"
  shows "\<exists>d3 c. applier_step\<^sup>*\<^sup>* d2 d3 \<and> d_calls d3 = d_calls d @ [c, c]
    \<and> (\<exists>target imgs. c = Dc_Prompt tx mode target imgs (Some pid))"
proof -
  let ?p = "P_Prompt k tx mode (or_focused session k (d_hub d)) (case images of Some i \<Rightarrow> i | None \<Rightarrow> []) (Some pid)"
  let ?c = "Dc_Prompt tx mode (or_focused session k (d_hub d)) (case images of Some i \<Rightarrow> i | None \<Rightarrow> []) (Some pid)"
  have d2: "d2 = d\<lparr>d_queue := [?p, ?p]\<rparr>"
    using assms by (auto simp: handle_client_def Let_def handle_prompt_def enqueue_def)
  let ?e1 = "start_op ?p (d2\<lparr>d_queue := [?p]\<rparr>)"
  let ?e2 = "finish_op (answer_prompt k (Some pid) (prompt_result (Some pid) (or_focused session k (d_hub d)) None) (d_hub ?e1)) ?e1"
  have e1: "applier_step d2 ?e1" using d2 assms(3) by (intro applier_step.Start) auto
  have e2: "applier_step ?e1 ?e2"
    by (intro applier_step.Answer [of _ "S_Op ?p" "A_Prompted None"]) (auto simp: start_op_def await_def answer_def complete_op_def complete_query_def complete_connect_def)
  have q: "\<exists>q. d_queue ?e2 = ?p # q" by (simp add: finish_op_def absorb_def start_op_def await_def)
  then obtain q where q: "d_queue ?e2 = ?p # q" by blast
  have e3: "applier_step ?e2 (start_op ?p (?e2\<lparr>d_queue := q\<rparr>))"
    using q by (intro applier_step.Start) (auto simp: finish_op_def absorb_def)
  have calls: "d_calls (start_op ?p (?e2\<lparr>d_queue := q\<rparr>)) = d_calls d @ [?c, ?c]"
    using d2 by (simp add: start_op_def await_def finish_op_def absorb_def)
  have run: "applier_step\<^sup>*\<^sup>* d2 (start_op ?p (?e2\<lparr>d_queue := q\<rparr>))"
    by (rule three_steps [OF e1 e2 e3])
  show ?thesis by (rule exI, rule exI, rule conjI [OF run conjI [OF calls]]) blast
qed

theorem early_retry_prompts_twice_witness:
  "\<exists>d2 d3 target imgs. applier_step\<^sup>*\<^sup>* d2 d3
    \<and> d_calls d3 = [Dc_Prompt ''hi'' None target imgs (Some ''p''), Dc_Prompt ''hi'' None target imgs (Some ''p'')]"
proof -
  let ?m = "C_Prompt (Some ''p'') ''hi'' None None None"
  obtain d1 where d1: "handle_client sample_cx 0 ?m (sample_dispatch []) = Some d1"
    by (simp add: handle_client_def Let_def)
  obtain d2 where d2: "handle_client sample_cx 0 ?m d1 = Some d2"
    by (simp add: handle_client_def Let_def)
  show ?thesis
    using early_retry_prompts_twice [OF _ _ _ d1 d2]
    by (fastforce simp: sample_dispatch_def check_prompt_idempotency_def empty_hub_def)
qed

subsection \<open>Dialogs\<close>

lemma ingest_now_journal:
  assumes "hm_get (h_journals h) (ev_session_id ev) = Some j" "type_discriminator ev \<noteq> ''sessionReset''"
  shows "hm_get (h_journals (ingest_now env now ev h)) (ev_session_id ev) = Some (fst (append_event (env_serde env) now j ev))"
  using assms by (auto simp: ingest_now_def Let_def split: prod.splits)

lemma ingest_now_keeps:
  assumes "hm_contains (h_journals h) sid"
  shows "hm_contains (h_journals (ingest_now env now ev h)) sid"
  using assms by (auto simp: ingest_now_def ingest_reset_def hm_contains_def hm_get_modify Let_def
      split: prod.splits option.splits)

lemma flush_keeps: "hm_contains (h_journals h) sid \<Longrightarrow> hm_contains (h_journals (flush_pending env now s h)) sid"
  by (auto simp: flush_pending_def ingest_now_keeps split: option.splits)

lemma folded_state_journal: "hm_get (h_journals h) sid = Some j \<Longrightarrow> folded_state h (Some sid) = Some (folded_journal j)"
  by (simp add: folded_state_def seed_of_def folded_journal_def seed_events_def build_seed_def)

lemma ingest_folds:
  assumes good: "good views h" and sid: "hm_contains (h_journals h) (ev_session_id ev)"
    and ev: "type_discriminator ev \<notin> {''sessionReset'', ''assistantDelta''}"
  shows "\<exists>st. folded_state (ingest env now ev h) (Some (ev_session_id ev)) = Some (fold_event st ev)"
proof -
  have "\<exists>h0. good views h0 \<and> hm_contains (h_journals h0) (ev_session_id ev) \<and> ingest env now ev h = ingest_now env now ev h0"
  proof (cases "h_delta_flush_ms h = 0")
    case True
    then show ?thesis using good sid by (auto simp: ingest_def Let_def)
  next
    case False
    then have "ingest env now ev h = ingest_now env now ev (flush_pending env now (ev_session_id ev) h)"
      using sid ev by (simp add: ingest_def)
    then show ?thesis using good_flush [OF good] flush_keeps [OF sid] by blast
  qed
  then obtain h0 j where h0: "good views h0" "hm_get (h_journals h0) (ev_session_id ev) = Some j"
    "ingest env now ev h = ingest_now env now ev h0" by (auto simp: hm_contains_def)
  have "journal_ok j" using goodD(6) [OF h0(1,2)] by simp
  then have "folded_journal (fst (append_event (env_serde env) now j ev)) = fold_event (folded_journal j) ev"
    by (rule jlog.append_folded)
  then show ?thesis
    using folded_state_journal [OF ingest_now_journal [OF h0(2)]] ev h0(3) by auto
qed

lemma on_event_journals:
  assumes "on_event env now ev h = Some h'" "type_discriminator ev \<noteq> ''sessionClosed''"
  shows "\<exists>h0. (\<forall>views. good views h \<longrightarrow> good views h0) \<and> h_journals h0 = h_journals h
    \<and> h_journals h' = h_journals (ingest env now ev h0)"
proof -
  obtain t ch where t: "track_event (env_lower env) ev (h_track h) = Some (t, ch)"
    using assms by (auto simp: on_event_def split: option.splits)
  let ?h1 = "h\<lparr>h_track := t\<rparr>"
  let ?h2 = "if ch then broadcast_session_status ?h1 else ?h1"
  let ?h3 = "if dirties_session_list ev then ?h2\<lparr>h_session_list_dirty := True\<rparr> else ?h2"
  let ?h4 = "if h_swaps_in_flight ?h3 > 0 \<and> \<not> hm_contains (h_journals ?h3) (ev_session_id ev)
     then buffer_swap_event now (ev_session_id ev) ev ?h3 else ?h3"
  have "maybe_notify env ev (enqueue_jobs ev (drop_closed ev (ingest env now ev ?h4))) = Some h'"
    using assms(1) t by (simp add: on_event_def Let_def)
  moreover have "h_journals b = h_journals a"
    if "maybe_notify env ev (enqueue_jobs ev (drop_closed ev a)) = Some b" for a b
    using that assms(2) by (auto simp: maybe_notify_def enqueue_jobs_def drop_closed_def Let_def split: if_splits)
  ultimately have h': "h_journals h' = h_journals (ingest env now ev ?h4)" by blast
  have g2: "good views ?h2" if "good views h" for views using that by (simp add: goodx_status)
  have j2: "h_journals ?h2 = h_journals h" by simp
  have "good views ?h4" if "good views h" for views
    using g2 [OF that] by (simp add: buffer_swap_event_def Let_def)
  moreover have "h_journals ?h4 = h_journals h" using j2 by (simp add: buffer_swap_event_def Let_def)
  ultimately show ?thesis using h' by blast
qed


lemma resolved_never_panics: "\<exists>h'. on_event env now (E_HostUiResolved b rid) h = Some h'"
  by (auto simp: on_event_def track_event_def track_attention_def maybe_notify_def notification_for_def Let_def
      split: prod.splits option.splits)


end
