(* ===== verification/Timestamps.thy ===== *)
theory Timestamps
  imports History_Seed Model_Cache Background_Model
begin

text \<open>
  The daemon client's clock texts (\<^verbatim>\<open>pantoken-server/src/polytoken/daemon_client.rs\<close>): the printer of
  the timestamps it stamps on synthetic envelopes and the parser it reads a lease's expiry with.
  32-bit arithmetic is \<open>wrap_i32\<close> of the exact result; the cast of a negative instant to \<^verbatim>\<open>u128\<close> is
  written out. The round trip rests on the day count: the civil date of a day, which the history
  seed computes as well, determines the day.
\<close>

section \<open>Integers of the parser\<close>

definition wrap_i32 :: "int \<Rightarrow> int" where
  "wrap_i32 x = (x + 2 ^ 31) mod 2 ^ 32 - 2 ^ 31"

definition wrap_u32 :: "int \<Rightarrow> int" where
  "wrap_u32 x = x mod 2 ^ 32"

text \<open>\<^verbatim>\<open>str::parse::<u32>\<close> and \<^verbatim>\<open>str::parse::<i32>\<close>.\<close>

definition parse_u32 :: "string \<Rightarrow> nat option" where
  "parse_u32 s =
     (let ds = (if starts_with s ''+'' then tl s else s) in
      if ds \<noteq> [] \<and> list_all is_ascii_digit ds \<and> digits_value ds < 2 ^ 32
      then Some (digits_value ds) else None)"

definition parse_i32 :: "string \<Rightarrow> int option" where
  "parse_i32 s =
     (let negative = starts_with s ''-'';
          ds = (if negative \<or> starts_with s ''+'' then tl s else s);
          v = (if negative then - int (digits_value ds) else int (digits_value ds))
      in if ds \<noteq> [] \<and> list_all is_ascii_digit ds \<and> - (2 ^ 31) \<le> v \<and> v < 2 ^ 31
         then Some v else None)"

section \<open>Days\<close>

text \<open>\<^verbatim>\<open>days_from_civil\<close>; Rust's \<^verbatim>\<open>/\<close> rounds to zero, so the era of a negative year starts 399 years earlier.\<close>

definition days_from_civil :: "int \<Rightarrow> nat \<Rightarrow> nat \<Rightarrow> int option" where
  "days_from_civil y m d =
     (if m < 1 \<or> 12 < m \<or> d < 1 \<or> 31 < d then None
      else let y = (if m \<le> 2 then wrap_i32 (y - 1) else y);
               n = (if 0 \<le> y then y else wrap_i32 (y - 399));
               era = sgn n * (\<bar>n\<bar> div 400);
               yoe = wrap_u32 (wrap_i32 (y - wrap_i32 (era * 400)));
               doy = int ((153 * (if m > 2 then m - 3 else m + 9) + 2) div 5 + d - 1);
               doe = wrap_u32 (yoe * 365 + yoe div 4 - yoe div 100 + doy)
           in Some (era * 146097 + doe - 719468))"

text \<open>\<^verbatim>\<open>epoch_to_civil\<close>.\<close>

definition epoch_to_civil :: "nat \<Rightarrow> int \<times> nat \<times> nat \<times> nat \<times> nat \<times> nat" where
  "epoch_to_civil secs =
     (let days = secs div 86400; time_secs = secs mod 86400;
          h = time_secs div 3600; m = (time_secs mod 3600) div 60; s = time_secs mod 60;
          z = days + 719468;
          era = z div 146097;
          doe = z - era * 146097;
          yoe = (doe - doe div 1460 + doe div 36524 - doe div 146096) div 365;
          y = wrap_i32 (int yoe + wrap_i32 (wrap_i32 (int era) * 400));
          doy = doe - (365 * yoe + yoe div 4 - yoe div 100);
          mp = (5 * doy + 2) div 153;
          d = doy - (153 * mp + 2) div 5 + 1;
          mo = (if mp < 10 then mp + 3 else mp - 9);
          y = (if mo \<le> 2 then wrap_i32 (y + 1) else y)
      in (y, mo, d, h, m, s))"

section \<open>Texts\<close>

text \<open>\<^verbatim>\<open>{y:04}\<close> on an \<^verbatim>\<open>i32\<close>: the sign counts towards the width.\<close>

definition zero_pad_int :: "nat \<Rightarrow> int \<Rightarrow> string" where
  "zero_pad_int w n = (if n < 0 then ''-'' @ zero_pad (w - 1) (nat (- n)) else zero_pad w (nat n))"

text \<open>\<^verbatim>\<open>now_iso8601\<close> at \<open>secs\<close> seconds and \<open>millis\<close> milliseconds after the epoch.\<close>

definition now_iso8601 :: "nat \<Rightarrow> nat \<Rightarrow> string" where
  "now_iso8601 secs millis =
     (case epoch_to_civil secs of (y, mo, d, h, mi, s) \<Rightarrow>
       zero_pad_int 4 y @ ''-'' @ zero_pad 2 mo @ ''-'' @ zero_pad 2 d @ ''T'' @ zero_pad 2 h @ '':''
         @ zero_pad 2 mi @ '':'' @ zero_pad 2 s @ ''.'' @ zero_pad 3 millis @ ''Z'')"

text \<open>The body of \<^verbatim>\<open>parse_tz\<close>'s loop for one sign: \<open>None\<close> goes on, \<open>Some None\<close> is a failed \<^verbatim>\<open>?\<close>.\<close>

definition parse_tz_sign :: "char \<Rightarrow> string \<Rightarrow> (string \<times> int) option option" where
  "parse_tz_sign sign rest = (case rfind_char sign rest of
     None \<Rightarrow> None
   | Some pos \<Rightarrow>
       if pos > 0 \<and> length (drop pos rest) \<ge> 6 then
         Some (let tz_part = drop pos rest; tz_sign = (if starts_with tz_part ''-'' then -1 else 1)
           in case split_on (CHR '':'') (tl tz_part) of
                a # b # _ \<Rightarrow> (case (parse_i32 a, parse_i32 b) of
                    (Some tz_h, Some tz_m) \<Rightarrow>
                      Some (take pos rest, wrap_i32 (tz_sign * wrap_i32 (wrap_i32 (tz_h * 60) + tz_m)))
                  | _ \<Rightarrow> None)
              | _ \<Rightarrow> None)
       else None)"

definition parse_tz :: "string \<Rightarrow> (string \<times> int) option" where
  "parse_tz rest = (case rfind_char (CHR ''Z'') rest of
     Some pos \<Rightarrow> Some (take pos rest, 0)
   | None \<Rightarrow> (case parse_tz_sign (CHR ''+'') rest of
       Some r \<Rightarrow> r
     | None \<Rightarrow> (case parse_tz_sign (CHR ''-'') rest of
         Some r \<Rightarrow> r
       | None \<Rightarrow> Some (rest, 0))))"

text \<open>\<^verbatim>\<open>format!("{:0<3}", ms)\<close>: the width counts characters.\<close>

definition char_count :: "string \<Rightarrow> nat" where
  "char_count s = length (filter (\<lambda>c. \<not> (0x80 \<le> byte_of c \<and> byte_of c < 0xC0)) s)"

definition parse_fraction :: "string \<Rightarrow> nat" where
  "parse_fraction ms =
     (let ms = take_chars 3 ms
      in case parse_u32 (ms @ replicate (3 - char_count ms) (CHR ''0'')) of Some n \<Rightarrow> n | None \<Rightarrow> 0)"

definition parse_date :: "string \<Rightarrow> (int \<times> nat \<times> nat) option" where
  "parse_date date_part = (case split_on (CHR ''-'') date_part of
     a # b # c # _ \<Rightarrow> (case (parse_i32 a, parse_u32 b, parse_u32 c) of
         (Some y, Some m, Some d) \<Rightarrow> Some (y, m, d)
       | _ \<Rightarrow> None)
   | _ \<Rightarrow> None)"

definition parse_time :: "string \<Rightarrow> (nat \<times> nat \<times> nat \<times> nat) option" where
  "parse_time time_part = (case split_on (CHR '':'') time_part of
     a # b # c # _ \<Rightarrow>
       (let (sec_str, millis) = (case split_once (CHR ''.'') c of
              Some (s, ms) \<Rightarrow> (s, parse_fraction ms)
            | None \<Rightarrow> (c, 0))
        in case (parse_u32 a, parse_u32 b, parse_u32 sec_str) of
             (Some h, Some m, Some sec) \<Rightarrow> Some (h, m, sec, millis)
           | _ \<Rightarrow> None)
   | _ \<Rightarrow> None)"

text \<open>\<^verbatim>\<open>parse_rfc3339_millis\<close>; the result is a \<^verbatim>\<open>u128\<close>.\<close>

definition parse_rfc3339_millis :: "string \<Rightarrow> nat option" where
  "parse_rfc3339_millis s = (case split_once (CHR ''T'') (trim s) of
     None \<Rightarrow> None
   | Some (date_part, rest) \<Rightarrow> (case (parse_date date_part, parse_tz rest) of
       (Some (year, month, day), Some (time_part, tz_offset_minutes)) \<Rightarrow>
         (case parse_time time_part of
            None \<Rightarrow> None
          | Some (h, m, sec, millis) \<Rightarrow> (case days_from_civil year month day of
              None \<Rightarrow> None
            | Some days \<Rightarrow>
                (let total_seconds = days * 86400 + int h * 3600 + int m * 60 + int sec - tz_offset_minutes * 60;
                     total_millis = total_seconds * 1000 + int millis
                 in Some (nat (total_millis mod 2 ^ 128)))))
     | _ \<Rightarrow> None))"

definition parse_iso8601_to_millis :: "string \<Rightarrow> nat option" where
  "parse_iso8601_to_millis s = parse_rfc3339_millis s"

text \<open>The cast \<^verbatim>\<open>expiry as i64\<close> of the \<^verbatim>\<open>u128\<close>.\<close>

definition u128_as_i64 :: "nat \<Rightarrow> i64" where
  "u128_as_i64 n = (int n + 2 ^ 63) mod 2 ^ 64 - 2 ^ 63"

section \<open>Days read back\<close>

lemma div_eq: "(k::nat) * q \<le> n \<Longrightarrow> n < k * q + k \<Longrightarrow> n div k = q"
  by (metis add.commute div_nat_eqI mult.commute mult_Suc)

text \<open>A day of a 400-year era by century, four-year cycle, year of the cycle and day of the year.\<close>

definition era_day :: "nat \<Rightarrow> nat \<Rightarrow> nat \<Rightarrow> nat \<Rightarrow> bool" where
  "era_day c q t u \<longleftrightarrow> c \<le> 3 \<and> q \<le> 24 \<and> t \<le> 3 \<and> u \<le> 365 \<and> (u = 365 \<longrightarrow> t = 3 \<and> (q = 24 \<longrightarrow> c = 3))"

definition day_of_era :: "nat \<Rightarrow> nat \<Rightarrow> nat \<Rightarrow> nat \<Rightarrow> nat" where
  "day_of_era c q t u = 36524 * c + 1461 * q + 365 * t + u"

lemma year_of_cycle:
  assumes "(s::nat) < 1461"
  shows "365 * min 3 (s div 365) \<le> s \<and> s - 365 * min 3 (s div 365) \<le> 365
    \<and> (s - 365 * min 3 (s div 365) = 365 \<longrightarrow> min 3 (s div 365) = 3)"
proof (cases "3 \<le> s div 365")
  case True
  then show ?thesis using assms by auto
next
  case False
  then show ?thesis using minus_mult_div_eq_mod [of s 365] mod_less_divisor [of 365 s] by (auto simp: min_def)
qed

lemma era_day_exists:
  assumes "doe < 146097"
  shows "\<exists>c q t u. era_day c q t u \<and> doe = day_of_era c q t u"
proof (cases "doe = 146096")
  case True
  then show ?thesis
    by (intro exI [of _ 3] exI [of _ 24] exI [of _ 365]) (simp add: era_day_def day_of_era_def)
next
  case False
  define r where "r = doe mod 36524"
  define s where "s = r mod 1461"
  define t where "t = min 3 (s div 365)"
  have doe: "doe = 36524 * (doe div 36524) + (1461 * (r div 1461) + s)"
    unfolding r_def s_def by simp
  have s: "s = 365 * t + (s - 365 * t)" "s - 365 * t \<le> 365" "s - 365 * t = 365 \<Longrightarrow> t = 3"
    unfolding t_def using year_of_cycle [of s] by (simp_all add: s_def)
  have last: "r div 1461 = 24 \<Longrightarrow> s - 365 * t \<noteq> 365"
    using mod_less_divisor [of 36524 doe] s(1,3) div_mult_mod_eq [of r 1461] unfolding r_def s_def by linarith
  have c: "doe div 36524 \<le> 3" using assms False by simp
  have q: "r div 1461 \<le> 24" using mod_less_divisor [of 36524 doe] by (simp add: r_def)
  have t: "t \<le> 3" by (simp add: t_def)
  have "era_day (doe div 36524) (r div 1461) t (s - 365 * t)"
    unfolding era_day_def using c q t s(2,3) last by blast
  moreover have "doe = day_of_era (doe div 36524) (r div 1461) t (s - 365 * t)"
    unfolding day_of_era_def using doe s(1) by linarith
  ultimately show ?thesis by blast
qed

lemma year_of_era:
  assumes "era_day c q t u" and doe: "doe = day_of_era c q t u"
  shows "(doe - doe div 1460 + doe div 36524 - doe div 146096) div 365 = 100 * c + 4 * q + t"
proof -
  note b = assms(1) [unfolded era_day_def]
  define l where "l = (if doe = 146096 then 1 else 0 :: nat)"
  define e where "e = (if 1460 \<le> 24 * c + q + 365 * t + u then 1 else 0 :: nat)"
  have d3: "doe div 36524 = c + l"
    using b by (intro div_eq) (auto simp: doe day_of_era_def l_def)
  have d4: "doe div 146096 = l"
    using b by (intro div_eq) (auto simp: doe day_of_era_def l_def)
  have d1: "doe div 1460 = 25 * c + q + e"
    using b by (intro div_eq) (auto simp: doe day_of_era_def e_def)
  have "doe - doe div 1460 + doe div 36524 - doe div 146096 = 36500 * c + 1460 * q + (365 * t + u) - e"
    unfolding d1 d3 d4 using b by (auto simp: doe day_of_era_def e_def)
  also have "\<dots> div 365 = 100 * c + 4 * q + t"
    using b by (intro div_eq) (auto simp: e_def)
  finally show ?thesis .
qed

lemma day_of_year:
  assumes "era_day c q t u" and "doe = day_of_era c q t u" and "yoe = 100 * c + 4 * q + t"
  shows "365 * yoe + yoe div 4 - yoe div 100 + u = doe" and "yoe < 400"
proof -
  note b = assms(1) [unfolded era_day_def]
  have "yoe div 4 = 25 * c + q" "yoe div 100 = c"
    unfolding assms(3) using b by (intro div_eq; auto)+
  then show "365 * yoe + yoe div 4 - yoe div 100 + u = doe"
    using b by (simp add: assms(2,3) day_of_era_def)
  show "yoe < 400" using b by (simp add: assms(3))
qed

text \<open>The civil date of a day: its year of the era and day of the year, as both users compute them.\<close>

lemma civil_bounds:
  assumes "(doe::nat) < 146097"
    and "yoe = (doe - doe div 1460 + doe div 36524 - doe div 146096) div 365"
    and "doy = doe - (365 * yoe + yoe div 4 - yoe div 100)"
  shows "yoe < 400" and "365 * yoe + yoe div 4 - yoe div 100 + doy = doe" and "doy \<le> 365"
proof -
  obtain c q t u where e: "era_day c q t u" and d: "doe = day_of_era c q t u"
    using era_day_exists [OF assms(1)] by blast
  have y: "yoe = 100 * c + 4 * q + t" using year_of_era [OF e d] assms(2) by simp
  note r = day_of_year [OF e d y]
  show "yoe < 400" by (fact r(2))
  have "doy = u" using r(1) assms(3) by linarith
  then show "365 * yoe + yoe div 4 - yoe div 100 + doy = doe" "doy \<le> 365"
    using r(1) e by (simp_all add: era_day_def)
qed

lemma month_bounds:
  assumes "(doy::nat) \<le> 365" and "mp = (5 * doy + 2) div 153"
  shows "mp \<le> 11" and "(153 * mp + 2) div 5 \<le> doy" and "doy - (153 * mp + 2) div 5 \<le> 30"
proof -
  have "153 * mp \<le> 5 * doy + 2" "5 * doy + 2 < 153 * mp + 153"
    unfolding assms(2) using div_mult_mod_eq [of "5 * doy + 2" 153] mod_less_divisor [of 153 "5 * doy + 2"] by linarith+
  moreover have "5 * ((153 * mp + 2) div 5) \<le> 153 * mp + 2" "153 * mp + 2 < 5 * ((153 * mp + 2) div 5) + 5"
    using div_mult_mod_eq [of "153 * mp + 2" 5] mod_less_divisor [of 5 "153 * mp + 2"] by linarith+
  ultimately show "mp \<le> 11" "(153 * mp + 2) div 5 \<le> doy" "doy - (153 * mp + 2) div 5 \<le> 30"
    using assms(1) by linarith+
qed

lemma wrap_i32_id [simp]: "- (2 ^ 31) \<le> x \<Longrightarrow> x < 2 ^ 31 \<Longrightarrow> wrap_i32 x = x"
  by (simp add: wrap_i32_def)

lemma wrap_u32_id [simp]: "0 \<le> x \<Longrightarrow> x < 2 ^ 32 \<Longrightarrow> wrap_u32 x = x"
  by (simp add: wrap_u32_def)

definition month_of :: "nat \<Rightarrow> nat" where
  "month_of mp = (if mp < 10 then mp + 3 else mp - 9)"

text \<open>The year counted from March, the month and the day, given back to \<open>days_from_civil\<close>.\<close>

lemma days_from_march:
  assumes yoe: "yoe < 400" and doy: "doy \<le> 365" and mp: "mp = (5 * doy + 2) div 153" and era: "era < 5000000"
  shows "days_from_civil (int (yoe + era * 400) + (if month_of mp \<le> 2 then 1 else 0)) (month_of mp)
           (doy - (153 * mp + 2) div 5 + 1)
         = Some (int (era * 146097 + (365 * yoe + yoe div 4 - yoe div 100 + doy)) - 719468)"
proof -
  note mb = month_bounds [OF doy mp]
  define y where "y = int (yoe + era * 400)"
  have y: "0 \<le> y" "y < 2 ^ 31" "y - int era * 400 = int yoe" using yoe era by (auto simp: y_def)
  have m: "1 \<le> month_of mp" "month_of mp \<le> 12" using mb(1) by (auto simp: month_of_def)
  have mi: "(if month_of mp > 2 then month_of mp - 3 else month_of mp + 9) = mp"
    using mb(1) by (auto simp: month_of_def)
  have era': "sgn y * (\<bar>y\<bar> div 400) = int era" using yoe by (auto simp: sgn_if y_def)
  have yoe': "wrap_u32 (wrap_i32 (y - wrap_i32 (int era * 400))) = int yoe" using y yoe era by simp
  have doe: "wrap_u32 (int yoe * 365 + int yoe div 4 - int yoe div 100 + int doy)
      = int (365 * yoe + yoe div 4 - yoe div 100 + doy)"
    using yoe doy by (simp add: zdiv_int of_nat_diff)
  have day: "(153 * mp + 2) div 5 + (doy - (153 * mp + 2) div 5 + 1) - 1 = doy" using mb(2) by simp
  have march: "(if month_of mp \<le> 2 then wrap_i32 (y + (if month_of mp \<le> 2 then 1 else 0) - 1)
     else y + (if month_of mp \<le> 2 then 1 else 0)) = y" using y by simp
  have ok: "\<not> (month_of mp < 1 \<or> 12 < month_of mp \<or> doy - (153 * mp + 2) div 5 + 1 < 1
     \<or> 31 < doy - (153 * mp + 2) div 5 + 1)" using m mb(3) by auto
  show ?thesis
    unfolding days_from_civil_def Let_def y_def [symmetric] march mi if_not_P [OF ok] if_P [OF y(1)] era' yoe' day doe
    by simp
qed


lemma day_of_epoch:
  assumes "secs < 2 ^ 55" and "epoch_to_civil secs = (y, mo, d, h, m, s)"
  shows "days_from_civil y mo d = Some (int (secs div 86400))" and "0 \<le> y" and "y < 2 ^ 31"
    and "1 \<le> mo" and "mo \<le> 12" and "1 \<le> d" and "d \<le> 31"
    and "h = secs mod 86400 div 3600" and "m = secs mod 86400 mod 3600 div 60" and "s = secs mod 86400 mod 60"
proof -
  define z where "z = secs div 86400 + 719468"
  define era where "era = z div 146097"
  define doe where "doe = z - era * 146097"
  define yoe where "yoe = (doe - doe div 1460 + doe div 36524 - doe div 146096) div 365"
  define doy where "doy = doe - (365 * yoe + yoe div 4 - yoe div 100)"
  define mp where "mp = (5 * doy + 2) div 153"
  have "secs div 86400 < 417000000000" using assms(1) by simp
  then have era: "era < 5000000" unfolding era_def z_def by simp
  have doe: "doe < 146097" "z = era * 146097 + doe"
    unfolding doe_def era_def using div_mult_mod_eq [of z 146097] mod_less_divisor [of 146097 z] by linarith+
  note cb = civil_bounds [OF doe(1) yoe_def doy_def] and mb = month_bounds [OF civil_bounds(3) [OF doe(1) yoe_def doy_def] mp_def]
  have y': "wrap_i32 (int yoe + wrap_i32 (wrap_i32 (int era) * 400)) = int (yoe + era * 400)"
    using cb(1) era by simp
  have civ: "epoch_to_civil secs = (int (yoe + era * 400) + (if month_of mp \<le> 2 then 1 else 0), month_of mp,
      doy - (153 * mp + 2) div 5 + 1, secs mod 86400 div 3600, secs mod 86400 mod 3600 div 60, secs mod 86400 mod 60)"
    unfolding epoch_to_civil_def Let_def z_def [symmetric] era_def [symmetric] doe_def [symmetric] yoe_def [symmetric]
      doy_def [symmetric] mp_def [symmetric] month_of_def [symmetric] y'
    using cb(1) era by simp
  have mo: "1 \<le> month_of mp" "month_of mp \<le> 12" using mb(1) by (auto simp: month_of_def)
  show "days_from_civil y mo d = Some (int (secs div 86400))"
    using days_from_march [OF cb(1,3) mp_def era] civ assms(2) cb(2) doe(2) unfolding z_def by simp
  show "0 \<le> y" "y < 2 ^ 31" "1 \<le> mo" "mo \<le> 12" "1 \<le> d" "d \<le> 31"
    "h = secs mod 86400 div 3600" "m = secs mod 86400 mod 3600 div 60" "s = secs mod 86400 mod 60"
    using civ assms(2) cb(1) era mb(3) mo by auto
qed

section \<open>The texts read back\<close>

lemma zero_pad_digits: "list_all is_ascii_digit (zero_pad w n)"
  by (auto simp: zero_pad_def digits_show_nat list_all_iff is_ascii_digit_def byte_of_def)
     (use digits_show_nat in \<open>auto simp: list_all_iff is_ascii_digit_def byte_of_def\<close>)

lemma digits_value_zeros: "digits_value (replicate k (CHR ''0'') @ xs) = digits_value xs"
  by (induction k) (auto simp: digits_value_def byte_of_def)

lemma digits_value_zero_pad [simp]: "digits_value (zero_pad w n) = n"
  by (simp add: zero_pad_def digits_value_zeros digits_value_show_nat)

lemma zero_pad_not_Nil [simp]: "zero_pad w n \<noteq> []"
  by (simp add: zero_pad_def)

lemma digits_no_sign: "list_all is_ascii_digit ds \<Longrightarrow> \<not> is_ascii_digit c \<Longrightarrow> \<not> starts_with ds [c]"
  by (cases ds) auto

lemma not_digit [simp]: "\<not> is_ascii_digit (CHR ''+'')" "\<not> is_ascii_digit (CHR ''-'')" "\<not> is_ascii_digit (CHR ''T'')"
  "\<not> is_ascii_digit (CHR ''Z'')" "\<not> is_ascii_digit (CHR '':'')" "\<not> is_ascii_digit (CHR ''.'')"
  by (simp_all add: is_ascii_digit_def byte_of_def)

lemma not_in_pad: "\<not> is_ascii_digit c \<Longrightarrow> c \<notin> set (zero_pad w n)"
  using zero_pad_digits by (auto simp: list_all_iff)

lemma parse_u32_pad [simp]: "n < 2 ^ 32 \<Longrightarrow> parse_u32 (zero_pad w n) = Some n"
  by (simp add: parse_u32_def Let_def digits_no_sign [OF zero_pad_digits] zero_pad_digits)

lemma parse_i32_pad [simp]: "n < 2 ^ 31 \<Longrightarrow> parse_i32 (zero_pad w n) = Some (int n)"
  by (simp add: parse_i32_def Let_def digits_no_sign [OF zero_pad_digits] zero_pad_digits)

lemma length_show_nat: "n < 10 ^ w \<Longrightarrow> 0 < w \<Longrightarrow> length (show_nat n) \<le> w"
proof (induction n arbitrary: w rule: show_nat.induct)
  case (1 n)
  show ?case
  proof (cases "n < 10")
    case False
    then obtain v where w: "w = Suc v" "0 < v" using "1.prems" by (cases w; cases "w - 1") auto
    have "n div 10 < 10 ^ v" using "1.prems"(1) w(1) by (simp add: less_mult_imp_div_less mult.commute)
    with "1.IH" [OF False this w(2)] False show ?thesis by (simp add: show_nat.simps [of n] w(1))
  qed (use "1.prems" in \<open>simp add: show_nat.simps [of n]\<close>)
qed

lemma length_zero_pad: "n < 10 ^ w \<Longrightarrow> 0 < w \<Longrightarrow> length (zero_pad w n) = w"
  using length_show_nat [of n w] by (simp add: zero_pad_def)

lemma take_chars_ascii: "list_all is_ascii_digit s \<Longrightarrow> take_chars n s = take n s"
  by (induction s arbitrary: n) (auto simp: is_ascii_digit_def split: nat.splits)

lemma char_count_digits: "list_all is_ascii_digit s \<Longrightarrow> char_count s = length s"
  by (induction s) (auto simp: char_count_def is_ascii_digit_def)

lemma parse_fraction_pad: "millis < 1000 \<Longrightarrow> parse_fraction (zero_pad 3 millis) = millis"
  using length_zero_pad [of millis 3]
  by (simp add: parse_fraction_def Let_def take_chars_ascii zero_pad_digits char_count_digits)

lemma rfind_char_last: "c \<notin> set t \<Longrightarrow> rfind_char c (s @ c # t) = Some (length s)"
proof (induction s)
  case Nil
  then have "rfind_char c t = None" by (induction t) auto
  then show ?case by simp
qed simp


lemma plain_digits: "list_all is_ascii_digit s \<Longrightarrow> list_all plain_char s"
  by (induction s) (auto simp: is_ascii_digit_def plain_char_def byte_of_def)

lemma plain_pad: "list_all plain_char (zero_pad w n)"
  by (rule plain_digits) (rule zero_pad_digits)

lemma clock_value:
  assumes "(t::nat) = secs mod 86400"
  shows "secs div 86400 * 86400 + t div 3600 * 3600 + t mod 3600 div 60 * 60 + t mod 60 = secs"
proof -
  have "t mod 3600 mod 60 = t mod 60" by (simp add: mod_mod_cancel)
  then show ?thesis
    using div_mult_mod_eq [of secs 86400] div_mult_mod_eq [of t 3600] div_mult_mod_eq [of "t mod 3600" 60] assms
    by linarith
qed

lemma parse_tz_utc: "parse_tz (t @ ''Z'') = Some (t, 0)"
  using rfind_char_last [of "CHR ''Z''" "[]" t] by (simp add: parse_tz_def)

lemma parse_now_iso8601:
  assumes secs: "secs < 2 ^ 55" and millis: "millis < 1000"
  shows "parse_rfc3339_millis (now_iso8601 secs millis) = Some (secs * 1000 + millis)"
proof -
  obtain y mo d h m s where e: "epoch_to_civil secs = (y, mo, d, h, m, s)" by (metis prod_cases6)
  note c = day_of_epoch [OF secs e]
  let ?date = "zero_pad 4 (nat y) @ ''-'' @ zero_pad 2 mo @ ''-'' @ zero_pad 2 d"
  let ?time = "zero_pad 2 h @ '':'' @ zero_pad 2 m @ '':'' @ zero_pad 2 s @ ''.'' @ zero_pad 3 millis"
  have text_eq: "now_iso8601 secs millis = ?date @ CHR ''T'' # ?time @ ''Z''"
    using c(2) by (simp add: now_iso8601_def e zero_pad_int_def)
  have "plain_token (?date @ CHR ''T'' # ?time @ ''Z'')"
    by (simp add: plain_token_def plain_pad) (simp add: plain_char_def byte_of_def)
  then have trm: "trim (now_iso8601 secs millis) = ?date @ CHR ''T'' # ?time @ ''Z''"
    by (simp only: text_eq trim_token)
  have "m \<le> secs mod 86400 mod 3600" unfolding c(9) by (rule div_le_dividend)
  also have "\<dots> < 3600" by (rule mod_less_divisor) simp
  finally have minute: "m < 3600" .
  have small: "mo < 2 ^ 32" "d < 2 ^ 32" "h < 2 ^ 32" "m < 2 ^ 32" "s < 2 ^ 32"
    using c(5,7,8,10) minute by auto
  have date: "parse_date ?date = Some (y, mo, d)"
    using c(2,3) small
    by (simp add: parse_date_def split_on_append_sep [of "CHR ''-''"] split_on_single not_in_pad)
  have time: "parse_time ?time = Some (h, m, s, millis)"
    using small millis
    by (simp add: parse_time_def split_on_append_sep [of "CHR '':''"] split_on_single split_once_append not_in_pad
        parse_fraction_pad)
  have tz: "parse_tz (?time @ ''Z'') = Some (?time, 0)"
    by (rule parse_tz_utc)
  have clock: "int (secs div 86400) * 86400 + int h * 3600 + int m * 60 + int s = int secs"
    using clock_value [OF refl, of secs] unfolding c(8,9,10) by linarith
  have total: "nat (((int (secs div 86400) * 86400 + int h * 3600 + int m * 60 + int s - 0 * 60) * 1000 + int millis) mod 2 ^ 128)
      = secs * 1000 + millis"
    unfolding clock mult_zero_left diff_zero using secs millis by (simp add: nat_int_add)
  have "split_once (CHR ''T'') (?date @ CHR ''T'' # ?time @ ''Z'') = Some (?date, ?time @ ''Z'')"
    by (rule split_once_append) (simp add: not_in_pad)
  then show ?thesis
    unfolding parse_rfc3339_millis_def trm
    by (simp only: option.case prod.case date tz time c(1) Let_def total)
qed

text \<open>
  The client reads its own timestamps. For every instant up to the year 285 million, the text that \<^verbatim>\<open>now_iso8601\<close>
  prints is parsed back to that millisecond, and the cast to \<^verbatim>\<open>i64\<close> with which the lease expiry is compared to the clock is exact.
\<close>

theorem timestamp_roundtrip:
  assumes "secs < 2 ^ 53" and "millis < 1000"
  shows "parse_iso8601_to_millis (now_iso8601 secs millis) = Some (secs * 1000 + millis)
    \<and> u128_as_i64 (secs * 1000 + millis) = int (secs * 1000 + millis)"
  using parse_now_iso8601 [of secs millis] assms by (simp_all add: parse_iso8601_to_millis_def u128_as_i64_def)

theorem timestamp_roundtrip_witness:
  "parse_iso8601_to_millis (now_iso8601 1736944496 789) = Some 1736944496789
   \<and> u128_as_i64 1736944496789 = 1736944496789"
  using timestamp_roundtrip [of 1736944496 789] by simp

end
