(* ===== verification/Daemon_Spawn.thy ===== *)
theory Daemon_Spawn
  imports Timestamps Polytoken_Driver Layout Wire_Client
begin

text \<open>
  Launching a daemon (\<^verbatim>\<open>pantoken-server/src/polytoken/daemon_client.rs\<close>): the two command lines, the
  texts they are read back with, and the poll for \<^verbatim>\<open>startup.json\<close>. A result is \<open>None\<close> when the
  operation panics, which slicing a text inside a character does. Parameters: \<open>from_str\<close> parses
  JSON, \<open>debug\<close> is \<^verbatim>\<open>{:?}\<close> on a \<^verbatim>\<open>str\<close>, and the files, the child process and the clock are what
  each poll observes of them.
\<close>

type_synonym 'a fallible = "(string + 'a) option"

section \<open>Reading the output of new\<close>

record SpawnedDaemon =
  sd_session_id :: string
  sd_port :: nat
  sd_auth_token :: "string option"

text \<open>\<^verbatim>\<open>str::find\<close> of a text, and the rest behind it.\<close>

fun find_str :: "string \<Rightarrow> string \<Rightarrow> string option" where
  "find_str key [] = (if key = [] then Some [] else None)"
| "find_str key (c # s) = (if starts_with (c # s) key then Some (drop (length key) (c # s)) else find_str key s)"

fun until_ws :: "string \<Rightarrow> string" where
  "until_ws [] = []"
| "until_ws (c # s) = (if ws_len (c # s) = 0 then c # until_ws s else [])"

definition extract_kv_value :: "string \<Rightarrow> string \<Rightarrow> string option" where
  "extract_kv_value line key = (case find_str key line of
     None \<Rightarrow> None
   | Some rest \<Rightarrow> (let val = until_ws rest in if val = [] then None else Some val))"

text \<open>\<^verbatim>\<open>str::lines\<close>: the pieces between line feeds without a final carriage return, and no empty last one.\<close>

definition strip_cr :: "string \<Rightarrow> string" where
  "strip_cr l = (if l \<noteq> [] \<and> last l = CHR 0x0D then butlast l else l)"

definition str_lines :: "string \<Rightarrow> string list" where
  "str_lines s = (let ps = split_on (CHR 0x0A) s
     in map strip_cr (butlast ps) @ (if last ps = [] then [] else [last ps]))"

definition parse_u16 :: "string \<Rightarrow> nat option" where
  "parse_u16 s =
     (let ds = (if starts_with s ''+'' then tl s else s) in
      if ds \<noteq> [] \<and> list_all is_ascii_digit ds \<and> digits_value ds < 2 ^ 16
      then Some (digits_value ds) else None)"

definition slice_min :: "nat \<Rightarrow> string \<Rightarrow> string option" where
  "slice_min n s = slice_to s (min (length s) n)"

definition parse_spawn_output :: "(string \<Rightarrow> string) \<Rightarrow> string \<Rightarrow> SpawnedDaemon fallible" where
  "parse_spawn_output debug stdout =
     (case find (\<lambda>l. str_contains l ''session_id='') (str_lines stdout) of
        None \<Rightarrow> map_option (\<lambda>t. Inl (''polytoken new --no-attach produced no session_id line:'' @ [CHR 0x0A] @ t))
                  (slice_min 500 stdout)
      | Some line \<Rightarrow>
          (let unparseable = Some (Inl (''polytoken new --no-attach line unparseable: '' @ debug line))
           in case (extract_kv_value line ''session_id='', extract_kv_value line ''port='') of
                (Some session_id, Some port_str) \<Rightarrow> (case parse_u16 port_str of
                    Some port \<Rightarrow> Some (Inr \<lparr>sd_session_id = session_id, sd_port = port, sd_auth_token = None\<rparr>)
                  | None \<Rightarrow> unparseable)
              | _ \<Rightarrow> unparseable))"

section \<open>Directories\<close>

definition dirs_or_home_config :: "string option \<Rightarrow> path" where
  "dirs_or_home_config home = join_path (str_or [] home) ''.config''"

definition default_global_config_dir :: "string option \<Rightarrow> string option \<Rightarrow> path" where
  "default_global_config_dir xdg_config_home home =
     (let base = (case xdg_config_home of
          Some x \<Rightarrow> if trim x = [] then dirs_or_home_config home else trim x
        | None \<Rightarrow> dirs_or_home_config home)
      in join_path base ''polytoken'')"

section \<open>Startup file and credential\<close>

record StartupJson =
  sj_state :: string
  sj_session_id :: "string option"
  sj_pid :: "int option"
  sj_port :: "int option"
  sj_message :: "string option"
  sj_credential_file_path :: "string option"

definition as_i32 :: "json_value \<Rightarrow> int option" where
  "as_i32 v = Option.bind (as_i64 v) (\<lambda>n. if - (2 ^ 31) \<le> n \<and> n < 2 ^ 31 then Some n else None)"

definition de_startup :: "json_value \<Rightarrow> StartupJson option" where
  "de_startup v = do {
     obj \<leftarrow> as_object v;
     state \<leftarrow> field obj ''state'' as_str;
     sid \<leftarrow> opt_field obj ''session_id'' as_str;
     pid \<leftarrow> opt_field obj ''pid'' as_i32;
     port \<leftarrow> opt_field obj ''port'' as_i32;
     msg \<leftarrow> opt_field obj ''message'' as_str;
     cred \<leftarrow> opt_field obj ''credential_file_path'' as_str;
     Some \<lparr>sj_state = state, sj_session_id = sid, sj_pid = pid, sj_port = port, sj_message = msg,
       sj_credential_file_path = cred\<rparr> }"

text \<open>The files: \<open>None\<close> is a file that is missing or cannot be read.\<close>

type_synonym files = "path \<Rightarrow> string option"

definition read_startup_json :: "(string \<Rightarrow> json_value option) \<Rightarrow> files \<Rightarrow> path \<Rightarrow> StartupJson option" where
  "read_startup_json from_str fs session_dir =
     Option.bind (Option.bind (fs (join_path session_dir ''startup.json'')) from_str) de_startup"

definition read_credential_token :: "(string \<Rightarrow> json_value option) \<Rightarrow> files \<Rightarrow> path \<Rightarrow> string option" where
  "read_credential_token from_str fs p = do {
     t \<leftarrow> fs p; v \<leftarrow> from_str t; obj \<leftarrow> as_object v; tok \<leftarrow> map_of obj ''token''; as_str tok }"

text \<open>The hexadecimal text of the 32 random bytes.\<close>

definition hex_digit :: "nat \<Rightarrow> char" where
  "hex_digit n = (if n < 10 then char_of (48 + n) else char_of (87 + n))"

definition hex_byte :: "u8 \<Rightarrow> string" where
  "hex_byte b = [hex_digit (unat b div 16), hex_digit (unat b mod 16)]"

definition generate_daemon_credential_token :: "u8 list \<Rightarrow> string" where
  "generate_daemon_credential_token random = concat (map hex_byte random)"

text \<open>
  The steps of \<^verbatim>\<open>prepare_resume_credential_file\<close> that can fail, in order, with their prefixes. The
  private mode of the parent (448 is octal 700) and of the file (384 is octal 600), which the daemon
  checks, are steps of their own. A new directory has the mode \<open>dir_mode\<close> that the process's mask
  leaves, and \<open>fails\<close> tells which step fails and how.
\<close>

datatype CredStep = Cs_Mkdir | Cs_ParentStat | Cs_ParentChmod | Cs_Open | Cs_Write | Cs_FileStat | Cs_FileChmod

record CredFile =
  cf_parent_mode :: "nat option"
  cf_mode :: "nat option"
  cf_content :: "json_value option"

definition cred_error :: "CredStep \<Rightarrow> path \<Rightarrow> path \<Rightarrow> string \<Rightarrow> string" where
  "cred_error st parent file e = (case st of
     Cs_Mkdir \<Rightarrow> ''failed to create credential file parent '' @ parent @ '': '' @ e
   | Cs_ParentStat \<Rightarrow> ''failed to stat credential file parent '' @ parent @ '': '' @ e
   | Cs_ParentChmod \<Rightarrow> ''failed to chmod credential file parent '' @ parent @ '' to 0700: '' @ e
   | Cs_Open \<Rightarrow> ''failed to create credential file '' @ file @ '': '' @ e
   | Cs_Write \<Rightarrow> ''failed to write credential file '' @ file @ '': '' @ e
   | Cs_FileStat \<Rightarrow> ''failed to stat credential file '' @ file @ '': '' @ e
   | Cs_FileChmod \<Rightarrow> ''failed to chmod credential file '' @ file @ '' to 0600: '' @ e)"

definition cred_effect :: "nat \<Rightarrow> string \<Rightarrow> CredStep \<Rightarrow> CredFile \<Rightarrow> CredFile" where
  "cred_effect dir_mode token st f = (case st of
     Cs_Mkdir \<Rightarrow> f\<lparr>cf_parent_mode := Some (case cf_parent_mode f of Some m \<Rightarrow> m | None \<Rightarrow> dir_mode)\<rparr>
   | Cs_ParentChmod \<Rightarrow> f\<lparr>cf_parent_mode := Some 448\<rparr>
   | Cs_Open \<Rightarrow> f\<lparr>cf_mode := Some (case cf_mode f of Some m \<Rightarrow> m | None \<Rightarrow> 384), cf_content := None\<rparr>
   | Cs_Write \<Rightarrow> f\<lparr>cf_content := Some (J_Object [(''version'', J_Number ''1''),
       (''kind'', J_String ''polytoken-daemon-credential''), (''token'', J_String token)])\<rparr>
   | Cs_FileChmod \<Rightarrow> f\<lparr>cf_mode := Some 384\<rparr>
   | _ \<Rightarrow> f)"


fun run_cred ::
  "(CredStep \<Rightarrow> string option) \<Rightarrow> nat \<Rightarrow> string \<Rightarrow> path \<Rightarrow> path \<Rightarrow> CredStep list \<Rightarrow> CredFile \<Rightarrow> CredFile \<times> (string + unit)" where
  "run_cred fails dir_mode token parent file [] f = (f, Inr ())"
| "run_cred fails dir_mode token parent file (st # sts) f = (case fails st of
     Some e \<Rightarrow> (f, Inl (cred_error st parent file e))
   | None \<Rightarrow> run_cred fails dir_mode token parent file sts (cred_effect dir_mode token st f))"

definition cred_steps :: "CredStep list" where
  "cred_steps = [Cs_Mkdir, Cs_ParentStat, Cs_ParentChmod, Cs_Open, Cs_Write, Cs_FileStat, Cs_FileChmod]"

text \<open>\<open>parent\<close> is what \<^verbatim>\<open>Path::parent\<close> gives for the file.\<close>

definition prepare_resume_credential_file ::
  "(CredStep \<Rightarrow> string option) \<Rightarrow> nat \<Rightarrow> u8 list \<Rightarrow> path option \<Rightarrow> path \<Rightarrow> CredFile \<Rightarrow> CredFile \<times> (string + string)" where
  "prepare_resume_credential_file fails dir_mode random parent file f = (case parent of
     None \<Rightarrow> (f, Inl (''credential file has no parent: '' @ file))
   | Some p \<Rightarrow>
       (let token = generate_daemon_credential_token random
        in case run_cred fails dir_mode token p file cred_steps f of
             (f', Inl e) \<Rightarrow> (f', Inl e)
           | (f', Inr _) \<Rightarrow> (f', Inr token)))"

section \<open>Waiting for the startup file\<close>

text \<open>What one turn of the loop observes: the parsed file, the child, whether the deadline is reached.\<close>

datatype TryWait = Exited string | Running | Wait_Error

record Poll =
  po_startup :: "StartupJson option"
  po_child :: TryWait
  po_now :: nat

definition pid_matches :: "int option \<Rightarrow> StartupJson \<Rightarrow> bool" where
  "pid_matches expect_pid json = (case expect_pid of Some ep \<Rightarrow> sj_pid json = Some ep | None \<Rightarrow> True)"

definition ready_ours :: "int option \<Rightarrow> StartupJson \<Rightarrow> bool" where
  "ready_ours expect_pid json \<longleftrightarrow> sj_state json = ''ready'' \<and> sj_port json \<noteq> None \<and> pid_matches expect_pid json"

definition failed_ours :: "int option \<Rightarrow> StartupJson \<Rightarrow> bool" where
  "failed_ours expect_pid json \<longleftrightarrow> sj_state json = ''failed'' \<and> pid_matches expect_pid json"

definition timeout_message :: "(StartupJson \<Rightarrow> string) \<Rightarrow> nat \<Rightarrow> StartupJson option \<Rightarrow> int option \<Rightarrow> string" where
  "timeout_message show_startup timeout_ms last_json expect_pid =
     ''polytoken daemon did not become ready within '' @ show_nat timeout_ms @ ''ms (startup.json: ''
     @ (case last_json of Some j \<Rightarrow> show_startup j | None \<Rightarrow> ''null'') @ ''; expected pid: ''
     @ (case expect_pid of Some p \<Rightarrow> show_int p | None \<Rightarrow> ''any'') @ '')'' @ [CHR 0x0A] @ ''daemon stderr: ''"

text \<open>
  One turn of the loop. \<open>stderr\<close> is what \<^verbatim>\<open>read_child_stderr\<close> reads up to the end of the stream, and
  \<open>None\<close> when the stream has no end, that is, while a process keeps it open: then the read does not
  return.
\<close>

datatype Verdict = Go_On | Blocked | Return "StartupJson fallible"

definition with_stderr :: "string option \<Rightarrow> (string \<Rightarrow> string) \<Rightarrow> Verdict" where
  "with_stderr stderr msg = (case stderr of
     None \<Rightarrow> Blocked
   | Some t \<Rightarrow> Return (map_option (\<lambda>e. Inl (msg e)) (slice_min 500 t)))"

definition poll_verdict ::
  "(StartupJson \<Rightarrow> string) \<Rightarrow> string option \<Rightarrow> nat \<Rightarrow> nat \<Rightarrow> int option \<Rightarrow> StartupJson option \<Rightarrow> Poll \<Rightarrow> Verdict" where
  "poll_verdict show_startup stderr timeout_ms deadline expect_pid last_json p =
     (let late = (case po_child p of
          Exited status \<Rightarrow> with_stderr stderr (\<lambda>e. ''polytoken daemon exited early (status '' @ status @ ''):''
             @ [CHR 0x0A] @ ''stderr: '' @ e)
        | _ \<Rightarrow>
            if deadline \<le> po_now p
            then with_stderr stderr (\<lambda>e. timeout_message show_startup timeout_ms last_json expect_pid @ e)
            else Go_On)
      in case po_startup p of
           Some j \<Rightarrow>
             if ready_ours expect_pid j then Return (Some (Inr j))
             else if failed_ours expect_pid j
             then Return (Some (Inl (''polytoken daemon failed to start: '' @ str_or ''no message'' (sj_message j))))
             else late
         | None \<Rightarrow> late)"

text \<open>The loop over the polls; \<open>None\<close> is a loop that still waits when they end, or a blocked one.\<close>

fun wait_loop ::
  "(StartupJson \<Rightarrow> string) \<Rightarrow> string option \<Rightarrow> nat \<Rightarrow> nat \<Rightarrow> int option \<Rightarrow> StartupJson option \<Rightarrow> Poll list
    \<Rightarrow> StartupJson fallible option" where
  "wait_loop show_startup stderr timeout_ms deadline expect_pid last_json [] = None"
| "wait_loop show_startup stderr timeout_ms deadline expect_pid last_json (p # ps) =
     (let last_json' = (case po_startup p of Some j \<Rightarrow> Some j | None \<Rightarrow> last_json)
      in case poll_verdict show_startup stderr timeout_ms deadline expect_pid last_json' p of
           Return r \<Rightarrow> Some r
         | Blocked \<Rightarrow> None
         | Go_On \<Rightarrow> wait_loop show_startup stderr timeout_ms deadline expect_pid last_json' ps)"

definition wait_for_daemon_startup ::
  "(StartupJson \<Rightarrow> string) \<Rightarrow> string option \<Rightarrow> nat \<Rightarrow> nat \<Rightarrow> int option \<Rightarrow> Poll list \<Rightarrow> StartupJson fallible option" where
  "wait_for_daemon_startup show_startup stderr timeout_ms start expect_pid polls =
     wait_loop show_startup stderr timeout_ms (start + timeout_ms) expect_pid None polls"

section \<open>Spawning\<close>

record SpawnDaemonOpts =
  so_cwd :: "string option"
  so_session_id :: "string option"
  so_sessions_dir :: "string option"
  so_global_config_dir :: "string option"
  so_login_env :: "(string, string) hashmap option"

definition merged_spawn_env :: "(string, string) hashmap \<Rightarrow> (string, string) hashmap option \<Rightarrow> (string, string) hashmap option" where
  "merged_spawn_env vars login_env = (case login_env of
     None \<Rightarrow> None
   | Some env \<Rightarrow> if env = [] then None else Some (fold (\<lambda>(k, v). hm_insert k v) env vars))"

datatype IoError = Io_NotFound | Io_Error string

definition spawn_error_message :: "string \<Rightarrow> string \<Rightarrow> IoError \<Rightarrow> string" where
  "spawn_error_message what polytoken_bin e = (case e of
     Io_NotFound \<Rightarrow> ''failed to spawn '' @ what @ '': polytoken binary not found at '' @ [CHR 0x27] @ polytoken_bin @ [CHR 0x27]
   | Io_Error t \<Rightarrow> ''failed to spawn '' @ what @ '': '' @ t)"

record ProcOutput =
  px_success :: bool
  px_status :: string
  px_stdout :: string
  px_stderr :: string

text \<open>What spawning meets: the parser, the files, the two processes, the polls.\<close>

record SpawnIo =
  si_from_str :: "string \<Rightarrow> json_value option"
  si_debug :: "string \<Rightarrow> string"
  si_show_startup :: "StartupJson \<Rightarrow> string"
  si_files :: files
  si_output :: "IoError + ProcOutput"
  si_spawned :: "IoError + int option"
  si_cred_fails :: "CredStep \<Rightarrow> string option"
  si_dir_mode :: nat
  si_random :: "u8 list"
  si_cred_parent :: "path option"
  si_cred_file :: CredFile
  si_polls :: "Poll list"
  si_start :: nat
  si_stderr :: "string option"
  si_final_stderr :: string

definition new_args :: "string option \<Rightarrow> string list" where
  "new_args cwd = (case cwd of Some c \<Rightarrow> [''--working-dir'', c] | None \<Rightarrow> []) @ [''new'', ''--no-attach'']"

definition with_token :: "SpawnIo \<Rightarrow> string option \<Rightarrow> SpawnedDaemon \<Rightarrow> SpawnedDaemon" where
  "with_token io sessions_dir sd = (case sessions_dir of
     None \<Rightarrow> sd
   | Some dir \<Rightarrow> (case read_startup_json (si_from_str io) (si_files io) (join_path dir (sd_session_id sd)) of
       None \<Rightarrow> sd
     | Some startup \<Rightarrow> (case sj_credential_file_path startup of
         None \<Rightarrow> sd
       | Some p \<Rightarrow> sd\<lparr>sd_auth_token := read_credential_token (si_from_str io) (si_files io) p\<rparr>)))"

definition spawn_new_daemon :: "SpawnIo \<Rightarrow> string \<Rightarrow> SpawnDaemonOpts \<Rightarrow> SpawnedDaemon fallible" where
  "spawn_new_daemon io polytoken_bin opts = (case si_output io of
     Inl e \<Rightarrow> Some (Inl (spawn_error_message ''polytoken new'' polytoken_bin e))
   | Inr out \<Rightarrow>
       if \<not> px_success out
       then (case (slice_min 500 (px_stderr out), slice_min 500 (px_stdout out)) of
           (Some e, Some o') \<Rightarrow> Some (Inl (''polytoken new --no-attach exited '' @ px_status out @ '':'' @ [CHR 0x0A]
             @ ''stderr: '' @ e @ [CHR 0x0A] @ ''stdout: '' @ o'))
         | _ \<Rightarrow> None)
       else map_option (map_sum (\<lambda>e. e) (with_token io (so_sessions_dir opts)))
              (parse_spawn_output (si_debug io) (px_stdout out)))"

definition build_resume_args :: "string \<Rightarrow> string \<Rightarrow> string \<Rightarrow> string \<Rightarrow> path \<Rightarrow> string list" where
  "build_resume_args cwd session_id global_config_dir sessions_dir credential_file =
     [''daemon'', ''--project-dir'', cwd, ''--session-id'', session_id, ''--resume'', ''--global-config-dir'',
      global_config_dir, ''--sessions-dir'', sessions_dir, ''--credential-file'', credential_file]"

text \<open>
  What became of the process and its arguments: none was started, \<^verbatim>\<open>new\<close> ran to its end, or the
  resumed daemon is kept by the caller, killed, or left running without an owner.
\<close>

datatype ChildFate =
    No_Child
  | Ran_New "string list"
  | Kept "string list"
  | Killed "string list"
  | Orphaned "string list"

definition resumed_daemon :: "SpawnIo \<Rightarrow> string \<Rightarrow> string \<Rightarrow> StartupJson \<Rightarrow> int \<Rightarrow> SpawnedDaemon" where
  "resumed_daemon io session_id prepared startup port = \<lparr>sd_session_id = session_id, sd_port = nat (port mod 2 ^ 16),
     sd_auth_token = or_else (Option.bind (sj_credential_file_path startup)
       (read_credential_token (si_from_str io) (si_files io))) (Some prepared)\<rparr>"

definition spawn_resume_daemon ::
  "SpawnIo \<Rightarrow> string \<Rightarrow> string \<Rightarrow> string \<Rightarrow> string \<Rightarrow> string \<Rightarrow> (ChildFate \<times> SpawnedDaemon fallible) option" where
  "spawn_resume_daemon io polytoken_bin session_id cwd sessions_dir global_config_dir =
     (let credential_file = join_path (join_path sessions_dir session_id) ''credential.json'';
          args = build_resume_args cwd session_id global_config_dir sessions_dir credential_file
      in case snd (prepare_resume_credential_file (si_cred_fails io) (si_dir_mode io) (si_random io)
                     (si_cred_parent io) credential_file (si_cred_file io)) of
           Inl e \<Rightarrow> Some (No_Child, Some (Inl e))
         | Inr prepared_auth_token \<Rightarrow> (case si_spawned io of
             Inl e \<Rightarrow> Some (No_Child, Some (Inl (spawn_error_message ''polytoken daemon'' polytoken_bin e)))
           | Inr pid \<Rightarrow>
               (case wait_for_daemon_startup (si_show_startup io) (si_stderr io) 15000 (si_start io) pid (si_polls io) of
                  None \<Rightarrow> None
                | Some None \<Rightarrow> Some (Orphaned args, None)
                | Some (Some (Inl e)) \<Rightarrow> Some (Killed args, map_option (\<lambda>t. Inl (e @ [CHR 0x0A] @ ''daemon stderr: '' @ t))
                    (slice_min 500 (si_final_stderr io)))
                | Some (Some (Inr startup)) \<Rightarrow> (case sj_port startup of
                    None \<Rightarrow> Some (Orphaned args, Some (Inl ''startup.json has no port''))
                  | Some port \<Rightarrow>
                      Some (Kept args, Some (Inr (resumed_daemon io session_id prepared_auth_token startup port)))))))"

definition spawn_daemon :: "SpawnIo \<Rightarrow> string \<Rightarrow> SpawnDaemonOpts \<Rightarrow> (ChildFate \<times> SpawnedDaemon fallible) option" where
  "spawn_daemon io polytoken_bin opts = (case so_session_id opts of
     Some session_id \<Rightarrow> (case so_cwd opts of
         None \<Rightarrow> Some (No_Child, Some (Inl ''spawnDaemon: resume requires cwd''))
       | Some cwd \<Rightarrow> (case so_sessions_dir opts of
           None \<Rightarrow> Some (No_Child, Some (Inl ''spawnDaemon: resume requires sessionsDir''))
         | Some sessions_dir \<Rightarrow> (case so_global_config_dir opts of
             None \<Rightarrow> Some (No_Child, Some (Inl ''spawnDaemon: resume requires globalConfigDir''))
           | Some dir \<Rightarrow> spawn_resume_daemon io polytoken_bin session_id cwd sessions_dir dir)))
   | None \<Rightarrow> Some (Ran_New (new_args (so_cwd opts)), spawn_new_daemon io polytoken_bin opts))"

section \<open>The wait\<close>

lemma poll_verdict_ready:
  "poll_verdict shw stderr t dl ep lj p = Return (Some (Inr j)) \<Longrightarrow> ready_ours ep j \<and> po_startup p = Some j"
  by (auto simp: poll_verdict_def with_stderr_def Let_def split: option.splits if_splits TryWait.splits)

lemma wait_loop_ready:
  "wait_loop shw stderr t dl ep lj ps = Some (Some (Inr j)) \<Longrightarrow> ready_ours ep j \<and> Some j \<in> po_startup ` set ps"
  by (induction ps arbitrary: lj) (auto simp: Let_def dest: poll_verdict_ready split: option.splits Verdict.splits)

lemma poll_verdict_deadline: "dl \<le> po_now p \<Longrightarrow> poll_verdict shw (Some e) t dl ep lj p \<noteq> Go_On"
  by (auto simp: poll_verdict_def with_stderr_def Let_def split: option.splits if_splits TryWait.splits)

lemma poll_verdict_not_blocked: "poll_verdict shw (Some e) t dl ep lj p \<noteq> Blocked"
  by (auto simp: poll_verdict_def with_stderr_def Let_def split: option.splits if_splits TryWait.splits)

lemma wait_loop_ends: "\<exists>p \<in> set ps. dl \<le> po_now p \<Longrightarrow> wait_loop shw (Some e) t dl ep lj ps \<noteq> None"
proof (induction ps arbitrary: lj)
  case (Cons p ps)
  then show ?case
    by (cases "dl \<le> po_now p")
       (auto simp: Let_def poll_verdict_deadline poll_verdict_not_blocked split: option.splits Verdict.splits)
qed simp

lemma poll_verdict_open_stderr:
  "po_child p = Running \<Longrightarrow> po_startup p = None \<Longrightarrow> poll_verdict shw None t dl ep lj p \<in> {Go_On, Blocked}"
  by (simp add: poll_verdict_def with_stderr_def)

lemma wait_loop_open_stderr:
  "\<forall>p \<in> set ps. po_child p = Running \<and> po_startup p = None \<Longrightarrow> wait_loop shw None t dl ep lj ps = None"
proof (induction ps arbitrary: lj)
  case (Cons p ps)
  have p: "po_startup p = None" "po_child p = Running" using Cons.prems by simp_all
  have rest: "wait_loop shw None t dl ep lj ps = None" using Cons.prems by (intro Cons.IH) simp
  from poll_verdict_open_stderr [OF p(2,1), of shw t dl ep lj] show ?case
    by (cases "poll_verdict shw None t dl ep lj p") (simp_all add: Let_def p(1) rest)
qed simp

text \<open>Each turn sleeps 100 ms, so the polls are at least that far apart.\<close>

definition paced :: "nat \<Rightarrow> Poll list \<Rightarrow> bool" where
  "paced start ps \<longleftrightarrow> (\<forall>i < length ps. start + 100 * i \<le> po_now (ps ! i))"

lemma paced_deadline:
  assumes "paced start ps" and "t \<le> 100 * (length ps - 1)" and "ps \<noteq> []"
  shows "\<exists>p \<in> set ps. start + t \<le> po_now p"
proof (intro bexI)
  show "last ps \<in> set ps" using assms(3) by simp
  have "start + 100 * (length ps - 1) \<le> po_now (ps ! (length ps - 1))"
    using assms(1,3) by (simp add: paced_def)
  then show "start + t \<le> po_now (last ps)" using assms(2,3) by (simp add: last_conv_nth)
qed

text \<open>
  Property C30. Waiting for a resumed daemon ends and never trusts a stale file. When the daemon's standard error reaches its end, the
  wait returns within its timeout, given polls that are 100 ms apart; and if it succeeds, a poll has read a ready record with a port
  and with the process id of the daemon that was just started, not one that an earlier daemon left behind.
\<close>

theorem startup_wait_sound:
  assumes "paced start polls" and "t \<le> 100 * (length polls - 1)" and "polls \<noteq> []"
  shows "\<exists>r. wait_for_daemon_startup shw (Some stderr) t start (Some ep) polls = Some r
    \<and> (\<forall>j. r = Some (Inr j) \<longrightarrow>
         Some j \<in> po_startup ` set polls \<and> sj_state j = ''ready'' \<and> sj_pid j = Some ep \<and> sj_port j \<noteq> None)"
proof -
  obtain r where r: "wait_for_daemon_startup shw (Some stderr) t start (Some ep) polls = Some r"
    using wait_loop_ends [OF paced_deadline [OF assms]] by (fastforce simp: wait_for_daemon_startup_def)
  then show ?thesis
    using wait_loop_ready by (fastforce simp: wait_for_daemon_startup_def ready_ours_def pid_matches_def)
qed


definition sample_startup :: "int \<Rightarrow> StartupJson" where
  "sample_startup pid = \<lparr>sj_state = ''ready'', sj_session_id = None, sj_pid = Some pid, sj_port = Some 4000,
     sj_message = None, sj_credential_file_path = None\<rparr>"

definition sample_polls :: "Poll list" where
  "sample_polls = [\<lparr>po_startup = Some (sample_startup 7), po_child = Running, po_now = 0\<rparr>,
     \<lparr>po_startup = Some (sample_startup 9), po_child = Running, po_now = 100\<rparr>]"

lemma sample_paced: "paced 0 sample_polls"
  by (auto simp: paced_def sample_polls_def less_Suc_eq)

theorem startup_wait_sound_witness:
  "wait_for_daemon_startup (\<lambda>_. []) (Some []) 100 0 (Some 9) sample_polls = Some (Some (Inr (sample_startup 9)))
   \<and> sj_pid (sample_startup 9) = Some 9"
proof -
  have len: "100 \<le> 100 * (length sample_polls - 1)" "sample_polls \<noteq> []" by (simp_all add: sample_polls_def)
  have "wait_for_daemon_startup (\<lambda>_. []) (Some []) 100 0 (Some 9) sample_polls = Some (Some (Inr (sample_startup 9)))"
    by (simp add: wait_for_daemon_startup_def sample_polls_def sample_startup_def poll_verdict_def ready_ours_def
        failed_ours_def pid_matches_def Let_def)
  with startup_wait_sound [OF sample_paced len, of "\<lambda>_. []" "[]" 9] show ?thesis by auto
qed

definition sample_spawn_io :: SpawnIo where
  "sample_spawn_io = \<lparr>si_from_str = (\<lambda>_. None), si_debug = (\<lambda>s. s), si_show_startup = (\<lambda>_. []), si_files = (\<lambda>_. None),
     si_output = Inl Io_NotFound, si_spawned = Inr (Some 9), si_cred_fails = (\<lambda>_. None), si_dir_mode = 493,
     si_random = [171], si_cred_parent = Some ''/s/a'',
     si_cred_file = \<lparr>cf_parent_mode = None, cf_mode = None, cf_content = None\<rparr>,
     si_polls = sample_polls, si_start = 0, si_stderr = Some [], si_final_stderr = []\<rparr>"

definition sample_spawn_opts :: SpawnDaemonOpts where
  "sample_spawn_opts = \<lparr>so_cwd = Some ''/p'', so_session_id = Some ''a'', so_sessions_dir = Some ''/s'',
     so_global_config_dir = Some ''/g'', so_login_env = None\<rparr>"

section \<open>The credential file\<close>

text \<open>The token is in the file only while its directory is private.\<close>

definition token_private :: "CredFile \<Rightarrow> bool" where
  "token_private f \<longleftrightarrow> (cf_content f \<noteq> None \<longrightarrow> cf_parent_mode f = Some 448)"

lemma run_cred_all:
  "run_cred fails m token p file sts f = (f', Inr u) \<Longrightarrow> f' = fold (cred_effect m token) sts f"
  by (induction sts arbitrary: f) (auto split: option.splits)

lemma run_cred_prefix:
  "run_cred fails m token p file sts f = (f', r) \<Longrightarrow> \<exists>n. f' = fold (cred_effect m token) (take n sts) f"
proof (induction sts arbitrary: f)
  case (Cons st sts)
  show ?case
  proof (cases "fails st")
    case None
    then obtain n where "f' = fold (cred_effect m token) (take n sts) (cred_effect m token st f)"
      using Cons by auto
    then show ?thesis by (intro exI [of _ "Suc n"]) simp
  next
    case (Some e)
    then show ?thesis using Cons.prems by (intro exI [of _ 0]) simp
  qed
qed auto

lemma cred_steps_private:
  assumes "token_private f"
  shows "token_private (fold (cred_effect m token) (take n cred_steps) f)"
proof -
  have "n = 0 \<or> n = 1 \<or> n = 2 \<or> n = 3 \<or> n = 4 \<or> n = 5 \<or> n = 6 \<or> 7 \<le> n" by auto
  then show ?thesis using assms
    by (auto simp: cred_steps_def cred_effect_def token_private_def numeral_eq_Suc split: option.splits)
qed

text \<open>
  Property C31. The credential is never readable by others. Whichever step of preparing the file fails, a token is in it only while its
  directory has mode 700; and on success the file has mode 600 and holds the token that is returned.
\<close>

theorem credential_stays_private:
  assumes "token_private f" and "prepare_resume_credential_file fails m random parent file f = (f', r)"
  shows "token_private f' \<and> (\<forall>token. r = Inr token \<longrightarrow>
    cf_parent_mode f' = Some 448 \<and> cf_mode f' = Some 384
    \<and> (\<exists>kvs. cf_content f' = Some (J_Object kvs) \<and> get_str kvs ''token'' = Some token))"
proof (cases parent)
  case None
  then show ?thesis using assms by (auto simp: prepare_resume_credential_file_def)
next
  case (Some p)
  let ?t = "generate_daemon_credential_token random"
  obtain r' where run: "run_cred fails m ?t p file cred_steps f = (f', r')"
    and r: "r = (case r' of Inl e \<Rightarrow> Inl e | Inr _ \<Rightarrow> Inr ?t)"
    using assms(2) Some by (auto simp: prepare_resume_credential_file_def Let_def split: prod.splits sum.splits)
  have "token_private f'" using run_cred_prefix [OF run] cred_steps_private [OF assms(1)] by auto
  moreover have "f' = fold (cred_effect m ?t) cred_steps f" if "r = Inr tk" for tk
    using run run_cred_all that r by (auto split: sum.splits)
  ultimately show ?thesis using r
    by (auto simp: cred_steps_def cred_effect_def get_str_def as_str_def split: sum.splits)
qed

theorem credential_stays_private_witness:
  "let f = \<lparr>cf_parent_mode = None, cf_mode = None, cf_content = None\<rparr>;
       f' = fst (prepare_resume_credential_file (\<lambda>_. None) 493 [171] (Some ''/s/a'') ''/s/a/credential.json'' f)
   in cf_parent_mode f' = Some 448 \<and> cf_mode f' = Some 384"
proof -
  let ?f = "\<lparr>cf_parent_mode = None, cf_mode = None, cf_content = None\<rparr>"
  let ?p = "prepare_resume_credential_file (\<lambda>_. None) 493 [171] (Some ''/s/a'') ''/s/a/credential.json'' ?f"
  have "token_private ?f" by (simp add: token_private_def)
  moreover have "?p = (fst ?p, Inr (generate_daemon_credential_token [171]))"
    by (simp add: prepare_resume_credential_file_def cred_steps_def Let_def)
  ultimately show ?thesis using credential_stays_private by (fastforce simp: Let_def)
qed

section \<open>The child of a resume\<close>

lemma spawn_resume_cases:
  assumes "spawn_resume_daemon io bin sid cwd dir gdir = Some (fate, Some r)"
  shows "(\<exists>args. fate = Kept args) \<longleftrightarrow> (\<exists>sd. r = Inr sd)" and "\<not> (\<exists>args. fate = Orphaned args)"
  using assms wait_loop_ready
  by (fastforce simp: spawn_resume_daemon_def Let_def wait_for_daemon_startup_def ready_ours_def
      split: sum.splits option.splits)+

text \<open>
  A resumed daemon has an owner. When the spawn returns, the process is kept by the caller exactly if the spawn succeeded,
  and after a failure none is left running: it was killed, or never started.
\<close>

theorem resume_child_owned:
  assumes "spawn_daemon io bin opts = Some (fate, Some r)" and "so_session_id opts \<noteq> None"
  shows "((\<exists>args. fate = Kept args) \<longleftrightarrow> (\<exists>sd. r = Inr sd)) \<and> \<not> (\<exists>args. fate = Orphaned args)"
  using assms spawn_resume_cases by (auto simp: spawn_daemon_def split: option.splits)


theorem resume_child_owned_witness:
  "\<exists>sd. spawn_daemon sample_spawn_io ''polytoken'' sample_spawn_opts = Some (Kept (build_resume_args ''/p'' ''a'' ''/g'' ''/s''
     ''/s/a/credential.json''), Some (Inr sd)) \<and> sd_port sd = 4000"
proof -
  let ?args = "build_resume_args ''/p'' ''a'' ''/g'' ''/s'' ''/s/a/credential.json''"
  have run: "spawn_daemon sample_spawn_io ''polytoken'' sample_spawn_opts
      = Some (Kept ?args, Some (Inr (resumed_daemon sample_spawn_io ''a'' (generate_daemon_credential_token [171]) (sample_startup 9) 4000)))"
    by (simp add: spawn_daemon_def sample_spawn_opts_def spawn_resume_daemon_def sample_spawn_io_def Let_def join_path_def
        is_absolute_def prepare_resume_credential_file_def cred_steps_def wait_for_daemon_startup_def sample_polls_def
        sample_startup_def poll_verdict_def ready_ours_def failed_ours_def pid_matches_def resumed_daemon_def)
  with resume_child_owned [OF run] show ?thesis by (simp add: resumed_daemon_def sample_spawn_opts_def)
qed

text \<open>
  The deadline does not bound the wait: its message quotes the daemon's standard error, which is read
  to the end of the stream, and a daemon that runs without becoming ready does not close it.
\<close>

theorem timeout_blocks_on_stderr:
  assumes "snd (prepare_resume_credential_file (si_cred_fails io) (si_dir_mode io) (si_random io) (si_cred_parent io)
      (join_path (join_path dir sid) ''credential.json'') (si_cred_file io)) = Inr token"
    and "si_spawned io = Inr pid" and "si_stderr io = None"
    and "\<forall>p \<in> set (si_polls io). po_child p = Running \<and> po_startup p = None"
  shows "spawn_resume_daemon io bin sid cwd dir gdir = None"
  using assms wait_loop_open_stderr by (simp add: spawn_resume_daemon_def Let_def wait_for_daemon_startup_def)

text \<open>A character across byte 500 of the error text: the message is cut inside it and the panic leaves the daemon running.\<close>

theorem cut_stderr_orphans_daemon:
  assumes "snd (prepare_resume_credential_file (si_cred_fails io) (si_dir_mode io) (si_random io) (si_cred_parent io)
      (join_path (join_path dir sid) ''credential.json'') (si_cred_file io)) = Inr token"
    and "si_spawned io = Inr pid" and "si_stderr io = Some e" and "500 < length e" and "\<not> is_char_boundary e 500"
    and "si_polls io = [p]" and "po_child p = Running" and "po_startup p = None" and "si_start io + 15000 \<le> po_now p"
  shows "spawn_resume_daemon io bin sid cwd dir gdir
    = Some (Orphaned (build_resume_args cwd sid gdir dir (join_path (join_path dir sid) ''credential.json'')), None)"
  using assms by (simp add: spawn_resume_daemon_def Let_def wait_for_daemon_startup_def poll_verdict_def with_stderr_def
      slice_min_def slice_to_def)

end
