(* ===== verification/Daemon_Lease.thy ===== *)
theory Daemon_Lease
  imports Daemon_Spawn
begin

text \<open>
  The attachment lease (\<^verbatim>\<open>pantoken-server/src/polytoken/daemon_client.rs\<close>): the body of a refused claim,
  the messages, and the retry policy. A run of the retries takes the claims' answers and the clock's
  readings as functions of the attempt, and reports the sleeps it took. 64-bit arithmetic wraps.
\<close>

section \<open>Texts\<close>

definition wrap_i64 :: "int \<Rightarrow> int" where
  "wrap_i64 x = (x + 2 ^ 63) mod 2 ^ 64 - 2 ^ 63"

text \<open>The two structs inside \<^verbatim>\<open>parse_lease_held_error\<close>: every field may be absent.\<close>

record Active =
  la_terminal_label :: "string option"
  la_pid :: "int option"
  la_expires_at :: "string option"

definition de_active :: "json_value \<Rightarrow> Active option" where
  "de_active v = do {
     obj \<leftarrow> as_object v;
     label \<leftarrow> opt_field obj ''active_terminal_label'' as_str;
     pid \<leftarrow> opt_field obj ''active_pid'' as_i64;
     expires \<leftarrow> opt_field obj ''expires_at'' as_str;
     Some \<lparr>la_terminal_label = label, la_pid = pid, la_expires_at = expires\<rparr> }"

definition held_summary :: "Active \<Rightarrow> string" where
  "held_summary a = [CHR 0x22] @ str_or ''unknown TUI'' (la_terminal_label a) @ [CHR 0x22]
     @ (case la_pid a of Some p \<Rightarrow> '' pid '' @ show_int p | None \<Rightarrow> [])
     @ (case la_expires_at a of Some e \<Rightarrow> '', lease expires '' @ e | None \<Rightarrow> [])"

definition parse_lease_held_error :: "(string \<Rightarrow> json_value option) \<Rightarrow> string option \<Rightarrow> LeaseHeldInfo option" where
  "parse_lease_held_error from_str err = do {
     text \<leftarrow> err;
     v \<leftarrow> from_str text;
     obj \<leftarrow> as_object v;
     active \<leftarrow> opt_field obj ''active'' de_active;
     message \<leftarrow> opt_field obj ''message'' as_str;
     (case active of
        Some a \<Rightarrow> Some \<lparr>lhi_summary = held_summary a, lhi_expires_at = la_expires_at a\<rparr>
      | None \<Rightarrow> map_option (\<lambda>m. \<lparr>lhi_summary = m, lhi_expires_at = None\<rparr>) message) }"

definition ceil_seconds :: "i64 \<Rightarrow> i64" where
  "ceil_seconds ms = (let s = ms div 1000 in if ms mod 1000 \<noteq> 0 then s + 1 else s)"

definition lease_error_text :: "LeaseError \<Rightarrow> string" where
  "lease_error_text e = (case e of
     Le_Conflict (Some h) \<Rightarrow> ''another TUI is attached to this session ('' @ lhi_summary h
       @ ''). Detach it there (/detach) or wait ~30s for its lease to lapse.''
   | Le_Conflict None \<Rightarrow> ''lease claim failed (409)''
   | Le_Other msg \<Rightarrow> msg)"

record LeaseConflictError =
  lc_message :: string
  lc_held :: "LeaseHeldInfo option"

definition lease_conflict_of :: "LeaseError \<Rightarrow> LeaseConflictError" where
  "lease_conflict_of e = (case e of
     Le_Conflict held \<Rightarrow> \<lparr>lc_message = lease_error_text e, lc_held = held\<rparr>
   | Le_Other msg \<Rightarrow> \<lparr>lc_message = msg, lc_held = None\<rparr>)"

section \<open>Retrying a claim\<close>

datatype RetryClaimFailure = Rc_Other string | Rc_Conflict "LeaseHeldInfo option" "i64 option"

definition held_expiry :: "LeaseHeldInfo option \<Rightarrow> nat option" where
  "held_expiry held = Option.bind (Option.bind held lhi_expires_at) parse_iso8601_to_millis"

definition until_expiry :: "nat option \<Rightarrow> i64 \<Rightarrow> i64 option" where
  "until_expiry expiry now = map_option (\<lambda>e. wrap_i64 (u128_as_i64 e - now)) expiry"

definition retry_window :: "int \<Rightarrow> int \<Rightarrow> nat \<Rightarrow> i64" where
  "retry_window max_retries attempt delay_ms = wrap_i64 ((max_retries - attempt) * wrap_i64 (int delay_ms))"

text \<open>
  The attempts that are left, from \<open>attempt\<close> on. \<open>claim k\<close> answers attempt \<open>k\<close>, \<open>now k\<close> is the clock
  after it, and \<open>now\<close> past the last attempt is the final reading.
\<close>

function retry_from ::
  "(nat \<Rightarrow> LeaseError + 'a) \<Rightarrow> (nat \<Rightarrow> i64) \<Rightarrow> nat \<Rightarrow> nat \<Rightarrow> nat \<Rightarrow> LeaseHeldInfo option \<times> nat option
    \<Rightarrow> nat list \<times> (RetryClaimFailure + 'a)" where
  "retry_from claim now max_retries delay_ms attempt last_conflict =
     (if max_retries < attempt
      then ([], Inl (Rc_Conflict (fst last_conflict) (until_expiry (snd last_conflict) (now attempt))))
      else case claim attempt of
        Inr value \<Rightarrow> ([], Inr value)
      | Inl (Le_Other detail) \<Rightarrow> ([], Inl (Rc_Other detail))
      | Inl (Le_Conflict held) \<Rightarrow>
          (let expiry = held_expiry held; remaining = until_expiry expiry (now attempt)
           in if attempt < max_retries
              then (case remaining of
                  Some r \<Rightarrow>
                    if retry_window (int max_retries) (int attempt) delay_ms < r
                    then ([], Inl (Rc_Conflict held (Some r)))
                    else (case retry_from claim now max_retries delay_ms (attempt + 1) (held, expiry) of
                        (sl, res) \<Rightarrow> (delay_ms # sl, res))
                | None \<Rightarrow> (case retry_from claim now max_retries delay_ms (attempt + 1) (held, expiry) of
                    (sl, res) \<Rightarrow> (delay_ms # sl, res)))
              else retry_from claim now max_retries delay_ms (attempt + 1) (held, expiry)))"
  by pat_completeness auto
termination
  by (relation "measure (\<lambda>(c, n, m, d, a, l). Suc m - a)") auto

declare retry_from.simps [simp del]

text \<open>\<^verbatim>\<open>max_retries\<close> is a \<^verbatim>\<open>u32\<close> cast to \<^verbatim>\<open>i32\<close>: no attempt is made when that is negative.\<close>

definition retry_claim_core ::
  "(nat \<Rightarrow> LeaseError + 'a) \<Rightarrow> (nat \<Rightarrow> i64) \<Rightarrow> nat option \<Rightarrow> nat option \<Rightarrow> nat list \<times> (RetryClaimFailure + 'a)" where
  "retry_claim_core claim now max_retries delay_ms =
     (let m = wrap_i32 (int (case max_retries of Some n \<Rightarrow> n | None \<Rightarrow> 3));
          d = (case delay_ms of Some n \<Rightarrow> n | None \<Rightarrow> 3000)
      in if m < 0 then ([], Inl (Rc_Conflict None None))
         else retry_from claim now (nat m) d 0 (None, None))"

definition retry_claim_typed ::
  "(nat \<Rightarrow> LeaseError + 'a) \<Rightarrow> (nat \<Rightarrow> i64) \<Rightarrow> nat option \<Rightarrow> nat option \<Rightarrow> LeaseError + 'a" where
  "retry_claim_typed claim now max_retries delay_ms = (case snd (retry_claim_core claim now max_retries delay_ms) of
     Inr v \<Rightarrow> Inr v
   | Inl (Rc_Other detail) \<Rightarrow> Inl (Le_Other detail)
   | Inl (Rc_Conflict held _) \<Rightarrow> Inl (Le_Conflict held))"

definition retry_claim ::
  "(nat \<Rightarrow> LeaseError + 'a) \<Rightarrow> (nat \<Rightarrow> i64) \<Rightarrow> nat option \<Rightarrow> nat option \<Rightarrow> LeaseConflictError + 'a" where
  "retry_claim claim now max_retries delay_ms = (case snd (retry_claim_core claim now max_retries delay_ms) of
     Inr v \<Rightarrow> Inr v
   | Inl (Rc_Other message) \<Rightarrow> Inl \<lparr>lc_message = message, lc_held = None\<rparr>
   | Inl (Rc_Conflict held ms) \<Rightarrow>
       Inl \<lparr>lc_message = format_lease_conflict_message held (map_option ceil_seconds ms), lc_held = held\<rparr>)"

section \<open>The policy\<close>

text \<open>
  The reference: attempt \<open>k\<close> is worth another one when it met a conflict whose lease is not known to
  outlast the sleeps that are left. The answer is that of the first attempt that is not.
\<close>

definition worth_retry :: "(nat \<Rightarrow> LeaseError + 'a) \<Rightarrow> (nat \<Rightarrow> i64) \<Rightarrow> nat \<Rightarrow> nat \<Rightarrow> nat \<Rightarrow> bool" where
  "worth_retry claim now m d k = (k < m \<and> (case claim k of
     Inl (Le_Conflict held) \<Rightarrow> (case until_expiry (held_expiry held) (now k) of
         Some r \<Rightarrow> r \<le> retry_window (int m) (int k) d
       | None \<Rightarrow> True)
   | _ \<Rightarrow> False))"

definition last_answer :: "(nat \<Rightarrow> LeaseError + 'a) \<Rightarrow> (nat \<Rightarrow> i64) \<Rightarrow> nat \<Rightarrow> nat \<Rightarrow> RetryClaimFailure + 'a" where
  "last_answer claim now m k = (case claim k of
     Inr v \<Rightarrow> Inr v
   | Inl (Le_Other detail) \<Rightarrow> Inl (Rc_Other detail)
   | Inl (Le_Conflict held) \<Rightarrow>
       Inl (Rc_Conflict held (until_expiry (held_expiry held) (now (if k < m then k else k + 1)))))"

lemma retry_from_policy:
  assumes "a \<le> m"
  shows "\<exists>k. a \<le> k \<and> k \<le> m \<and> (\<forall>i. a \<le> i \<and> i < k \<longrightarrow> worth_retry claim now m d i) \<and> \<not> worth_retry claim now m d k
    \<and> retry_from claim now m d a lst = (replicate (k - a) d, last_answer claim now m k)"
  using assms
proof (induction "m - a" arbitrary: a lst)
  case 0
  then have a: "a = m" by simp
  then show ?case
    by (intro exI [of _ m])
       (auto simp: worth_retry_def last_answer_def retry_from.simps [of _ _ _ _ m] retry_from.simps [of _ _ _ _ "Suc m"]
         Let_def split: sum.splits LeaseError.splits)
next
  case (Suc n)
  show ?case
  proof (cases "worth_retry claim now m d a")
    case False
    then show ?thesis using Suc.hyps(2)
      by (intro exI [of _ a])
         (auto simp: worth_retry_def last_answer_def retry_from.simps [of _ _ _ _ a] Let_def not_le
           split: sum.splits LeaseError.splits option.splits)
  next
    case True
    then obtain held where c: "claim a = Inl (Le_Conflict held)" and lt: "a < m"
      by (auto simp: worth_retry_def split: sum.splits LeaseError.splits)
    have n: "n = m - Suc a" using Suc.hyps(2) by simp
    obtain k where k: "Suc a \<le> k" "k \<le> m" "\<forall>i. Suc a \<le> i \<and> i < k \<longrightarrow> worth_retry claim now m d i"
      "\<not> worth_retry claim now m d k"
      "retry_from claim now m d (Suc a) (held, held_expiry held) = (replicate (k - Suc a) d, last_answer claim now m k)"
      using Suc.hyps(1) [OF n, of "(held, held_expiry held)"] lt by auto
    have "replicate (k - a) d = d # replicate (k - Suc a) d"
      using k(1) by (metis Suc_diff_le diff_Suc_Suc replicate_Suc Suc_le_D Suc_le_mono)
    then have "retry_from claim now m d a lst = (replicate (k - a) d, last_answer claim now m k)"
      using True c lt k(5)
      by (auto simp: retry_from.simps [of _ _ _ _ a] worth_retry_def Let_def not_less split: option.splits)
    with k True show ?thesis
      by (intro exI [of _ k]) (metis Suc_leD Suc_leI le_neq_implies_less)
  qed
qed

text \<open>
  The retries of a lease claim follow the policy. The claims made are those up to the first that is not worth another
  attempt: an answer other than a conflict, the last one allowed, or a lease known to outlast the sleeps that are left. The result is
  that of this claim, and the time slept is one delay for each earlier one.
\<close>

theorem retry_claim_policy:
  assumes "max_retries < 2 ^ 31"
  shows "\<exists>k \<le> max_retries. (\<forall>i < k. worth_retry claim now max_retries delay i)
    \<and> \<not> worth_retry claim now max_retries delay k
    \<and> retry_claim_core claim now (Some max_retries) (Some delay)
      = (replicate k delay, last_answer claim now max_retries k)"
  using assms retry_from_policy [of 0 max_retries claim now delay "(None, None)"]
  by (auto simp: retry_claim_core_def Let_def)

text \<open>The first claim meets a conflict without an expiry, the second succeeds.\<close>

theorem retry_claim_policy_witness:
  "retry_claim_core (\<lambda>k. if k = 0 then Inl (Le_Conflict None) else Inr True) (\<lambda>_. 0) (Some 3) (Some 3000)
   = ([3000], Inr True)"
proof -
  let ?c = "\<lambda>k::nat. if k = 0 then Inl (Le_Conflict None) else (Inr True :: LeaseError + bool)"
  have w: "worth_retry ?c (\<lambda>_. 0) 3 3000 k \<longleftrightarrow> k = 0" for k
    by (simp add: worth_retry_def held_expiry_def until_expiry_def)
  obtain k where k: "\<forall>i < k. worth_retry ?c (\<lambda>_. 0) 3 3000 i" "\<not> worth_retry ?c (\<lambda>_. 0) 3 3000 k"
    "retry_claim_core ?c (\<lambda>_. 0) (Some 3) (Some 3000) = (replicate k 3000, last_answer ?c (\<lambda>_. 0) 3 k)"
    using retry_claim_policy [of 3 ?c "\<lambda>_. 0" 3000] by auto
  have "k = 1" using k(1,2) unfolding w by (metis One_nat_def less_one nat_neq_iff zero_less_one)
  then show ?thesis using k(3) by (simp add: last_answer_def)
qed

end
