(* ===== verification/Daemon_Http.thy ===== *)
theory Daemon_Http
  imports Daemon_Lease
begin

text \<open>
  The HTTP surface of one daemon (\<^verbatim>\<open>pantoken-server/src/polytoken/daemon_client.rs\<close> and
  \<^verbatim>\<open>process_identity.rs\<close>). An operation gives the request it sends and reads the answer; an answer is
  \<open>Fetch_Failed\<close> for a connection error or a timeout, otherwise a status, a body and an error text.
  The result is \<open>None\<close> when the operation panics. Parameters: \<open>from_str\<close> parses JSON, the typed
  decoders of large bodies, \<open>enc\<close> is \<^verbatim>\<open>urlencoding::encode\<close>, and \<open>read_start_time\<close> reads the start
  time of a process from the operating system.
\<close>

section \<open>Requests and answers\<close>

datatype Method = GET | POST | DELETE

record HttpRequest =
  rq_method :: Method
  rq_path :: string
  rq_body :: "json_value option"
  rq_auth :: "(string \<times> string) option"

datatype Fetched = Fetch_Failed | Fetched nat "string option" "string option"

record 'a DaemonResponse =
  dr_status :: nat
  dr_data :: "'a option"
  dr_error :: "string option"

definition no_answer :: "'a DaemonResponse" where
  "no_answer = \<lparr>dr_status = 0, dr_data = None, dr_error = Some ''request failed (connection error or timeout)''\<rparr>"

definition jget_obj :: "json_value \<Rightarrow> string \<Rightarrow> json_value option" where
  "jget_obj v k = Option.bind (as_object v) (\<lambda>obj. map_of obj k)"

text \<open>The public message of an error body, with its code when there is one.\<close>

definition public_error :: "json_value \<Rightarrow> string option" where
  "public_error v = do {
     m \<leftarrow> jget_obj v ''message'';
     message \<leftarrow> as_str m;
     Some (case Option.bind (jget_obj v ''code'') as_str of
         Some code \<Rightarrow> if code \<noteq> [] then message @ '' ('' @ code @ '')'' else message
       | None \<Rightarrow> message) }"

definition format_daemon_response_error ::
  "(string \<Rightarrow> json_value option) \<Rightarrow> string \<Rightarrow> nat \<Rightarrow> string option \<Rightarrow> string" where
  "format_daemon_response_error from_str operation status detail =
     (let detail = trim (str_or [] detail);
          public_detail = (case Option.bind (from_str detail) public_error of Some t \<Rightarrow> t | None \<Rightarrow> detail)
      in if public_detail = [] then operation @ '' failed ('' @ show_nat status @ '')''
         else operation @ '' failed ('' @ show_nat status @ ''): '' @ public_detail)"

definition read_body :: "(string \<Rightarrow> 'a option) \<Rightarrow> string \<Rightarrow> 'a option" where
  "read_body dec text = (if text = [] then None else dec text)"

definition post_error :: "(string \<Rightarrow> json_value option) \<Rightarrow> bool \<Rightarrow> nat \<Rightarrow> string \<Rightarrow> string option option" where
  "post_error from_str preserve status text =
     (if status < 400 then Some None
      else if preserve \<and> status = 409 then Some (Some text)
      else case Option.bind (from_str text) public_error of
        Some t \<Rightarrow> Some (Some t)
      | None \<Rightarrow> map_option Some (slice_min 200 text))"

definition post_with_options ::
  "(string \<Rightarrow> json_value option) \<Rightarrow> (string \<Rightarrow> 'a option) \<Rightarrow> bool \<Rightarrow> Fetched \<Rightarrow> 'a DaemonResponse option" where
  "post_with_options from_str dec preserve f = (case f of
     Fetch_Failed \<Rightarrow> Some no_answer
   | Fetched status text fetch_err \<Rightarrow>
       if status = 0 then Some \<lparr>dr_status = 0, dr_data = None, dr_error = fetch_err\<rparr>
       else map_option (\<lambda>e. \<lparr>dr_status = status, dr_data = read_body dec (str_or [] text), dr_error = e\<rparr>)
              (post_error from_str preserve status (str_or [] text)))"

definition post :: "(string \<Rightarrow> json_value option) \<Rightarrow> (string \<Rightarrow> 'a option) \<Rightarrow> Fetched \<Rightarrow> 'a DaemonResponse option" where
  "post from_str dec f = post_with_options from_str dec False f"

text \<open>\<open>clip\<close> shortens the error text: by bytes in \<^verbatim>\<open>get\<close>, by characters in \<^verbatim>\<open>delete_todo\<close>.\<close>

definition respond_raw ::
  "(string \<Rightarrow> string option) \<Rightarrow> (string \<Rightarrow> 'a option) \<Rightarrow> Fetched \<Rightarrow> 'a DaemonResponse option" where
  "respond_raw clip dec f = (case f of
     Fetch_Failed \<Rightarrow> Some no_answer
   | Fetched status text fetch_err \<Rightarrow>
       if status = 0 then Some \<lparr>dr_status = 0, dr_data = None, dr_error = fetch_err\<rparr>
       else let text = str_or [] text
         in map_option (\<lambda>e. \<lparr>dr_status = status, dr_data = read_body dec text, dr_error = e\<rparr>)
              (if status < 400 then Some None else if text \<noteq> [] then map_option Some (clip text) else Some None))"

definition get_response :: "(string \<Rightarrow> 'a option) \<Rightarrow> Fetched \<Rightarrow> 'a DaemonResponse option" where
  "get_response dec f = respond_raw (slice_min 500) dec f"

section \<open>The client\<close>

record AttachmentLease =
  al_lease_id :: string
  al_heartbeat_interval_ms :: nat
  al_expires_after_ms :: nat
  al_task :: nat

text \<open>\<open>dc_tasks\<close> are the heartbeat tasks that run, with the lease each one refreshes.\<close>

record DaemonClient =
  dc_session_id :: string
  dc_port :: nat
  dc_pid :: int
  dc_auth_token :: "string option"
  dc_daemon_pid :: "int option"
  dc_daemon_start_time :: "nat option"
  dc_lease :: "AttachmentLease option"
  dc_sse_cancel :: bool
  dc_heartbeat_timeout_ms :: nat
  dc_tasks :: "(nat \<times> string) list"
  dc_next_task :: nat

definition new_daemon_client :: "string \<Rightarrow> nat \<Rightarrow> int \<Rightarrow> string option \<Rightarrow> DaemonClient" where
  "new_daemon_client session_id port pid auth_token = \<lparr>dc_session_id = session_id, dc_port = port, dc_pid = pid,
     dc_auth_token = auth_token, dc_daemon_pid = None, dc_daemon_start_time = None, dc_lease = None,
     dc_sse_cancel = False, dc_heartbeat_timeout_ms = 30000, dc_tasks = [], dc_next_task = 0\<rparr>"

definition auth_header :: "DaemonClient \<Rightarrow> (string \<times> string) option" where
  "auth_header c = map_option (\<lambda>t. (''Authorization'', ''Bearer '' @ t)) (dc_auth_token c)"

text \<open>The request that \<^verbatim>\<open>safe_fetch\<close> sends: every one carries the credential.\<close>

definition safe_fetch :: "DaemonClient \<Rightarrow> Method \<Rightarrow> string \<Rightarrow> json_value option \<Rightarrow> HttpRequest" where
  "safe_fetch c m p body = \<lparr>rq_method = m, rq_path = p, rq_body = (if m = POST then body else None), rq_auth = auth_header c\<rparr>"

section \<open>Health and process identity\<close>

text \<open>\<^verbatim>\<open>capture_start_time_linux\<close> on the text of \<^verbatim>\<open>/proc/<pid>/stat\<close>.\<close>

definition capture_start_time_linux :: "string option \<Rightarrow> nat option" where
  "capture_start_time_linux stat_content = do {
     t \<leftarrow> stat_content;
     last_paren \<leftarrow> rfind_char (CHR '')'') t;
     let fs = split_whitespace (drop (last_paren + 1) t);
     w \<leftarrow> (if 19 < length fs then Some (fs ! 19) else None);
     map_option unat (parse_u64 w) }"

definition verify :: "int \<Rightarrow> nat option \<Rightarrow> (int \<Rightarrow> nat option) \<Rightarrow> bool" where
  "verify pid stored_start_time read_start_time = (case stored_start_time of
     None \<Rightarrow> True
   | Some stored \<Rightarrow> (case read_start_time pid of Some current \<Rightarrow> current = stored | None \<Rightarrow> False))"

datatype TryWaitResult = Tw_Exited int | Tw_Running | Tw_Error

definition child_already_exited :: "TryWaitResult \<Rightarrow> bool" where
  "child_already_exited w = (case w of Tw_Running \<Rightarrow> False | _ \<Rightarrow> True)"

text \<open>\<open>dec\<close> decodes the health body to the daemon's process id.\<close>

definition health ::
  "(int \<Rightarrow> nat option) \<Rightarrow> (string \<Rightarrow> int option) \<Rightarrow> Fetched \<Rightarrow> DaemonClient \<Rightarrow> DaemonClient \<times> int DaemonResponse option" where
  "health capture dec f c = (case get_response dec f of
     None \<Rightarrow> (c, None)
   | Some r \<Rightarrow> (case dr_data r of
       Some pid \<Rightarrow>
         if dr_status r = 200
         then (c\<lparr>dc_daemon_pid := Some pid, dc_daemon_start_time := capture pid\<rparr>, Some r)
         else (c, Some r)
     | None \<Rightarrow> (c, Some r)))"

text \<open>\<^verbatim>\<open>kill\<close>: the process that gets SIGTERM, if any.\<close>

definition kill :: "(int \<Rightarrow> nat option) \<Rightarrow> DaemonClient \<Rightarrow> int option" where
  "kill read_start_time c = (case dc_daemon_pid c of
     None \<Rightarrow> None
   | Some pid \<Rightarrow> if verify pid (dc_daemon_start_time c) read_start_time then Some pid else None)"

section \<open>The lease\<close>

record TuiAttachClaimResponse =
  tc_expires_after_seconds :: i64
  tc_expires_at :: string
  tc_heartbeat_interval_seconds :: i64
  tc_lease_id :: string

definition de_claim :: "json_value \<Rightarrow> TuiAttachClaimResponse option" where
  "de_claim v = do {
     obj \<leftarrow> as_object v;
     after \<leftarrow> field obj ''expires_after_seconds'' as_i64;
     lapse \<leftarrow> field obj ''expires_at'' as_str;
     beat \<leftarrow> field obj ''heartbeat_interval_seconds'' as_i64;
     lid \<leftarrow> field obj ''lease_id'' as_str;
     Some \<lparr>tc_expires_after_seconds = after, tc_expires_at = lapse, tc_heartbeat_interval_seconds = beat, tc_lease_id = lid\<rparr> }"

definition claim_request :: "DaemonClient \<Rightarrow> string \<Rightarrow> HttpRequest" where
  "claim_request c label = safe_fetch c POST ''/tui-attachment/claim''
     (Some (J_Object [(''pid'', J_Number (show_int (dc_pid c))), (''terminal_label'', J_String label)]))"

text \<open>\<^verbatim>\<open>(seconds.max(1) as u64) * 1000\<close>.\<close>

definition lease_ms :: "i64 \<Rightarrow> nat" where
  "lease_ms s = (nat (max s 1) * 1000) mod 2 ^ 64"

text \<open>
  Storing the lease starts its heartbeat task. The lease it replaces is dropped, and with it the
  sender whose end stops the old task.
\<close>

definition store_lease :: "TuiAttachClaimResponse \<Rightarrow> DaemonClient \<Rightarrow> DaemonClient" where
  "store_lease r c = c\<lparr>
     dc_lease := Some \<lparr>al_lease_id = tc_lease_id r, al_heartbeat_interval_ms = lease_ms (tc_heartbeat_interval_seconds r),
       al_expires_after_ms = lease_ms (tc_expires_after_seconds r), al_task = dc_next_task c\<rparr>,
     dc_tasks := (dc_next_task c, tc_lease_id r)
       # filter (\<lambda>(t, _). map_option al_task (dc_lease c) \<noteq> Some t) (dc_tasks c),
     dc_next_task := dc_next_task c + 1\<rparr>"

definition claim_lease ::
  "(string \<Rightarrow> json_value option) \<Rightarrow> Fetched \<Rightarrow> DaemonClient \<Rightarrow> DaemonClient \<times> (LeaseError + TuiAttachClaimResponse) option" where
  "claim_lease from_str f c =
     (case post_with_options from_str (\<lambda>t. Option.bind (from_str t) de_claim) True f of
        None \<Rightarrow> (c, None)
      | Some res \<Rightarrow> (case (dr_status res = 200, dr_data res) of
          (True, Some d) \<Rightarrow> (store_lease d c, Some (Inr d))
        | _ \<Rightarrow>
            if dr_status res = 409 then (c, Some (Inl (Le_Conflict (parse_lease_held_error from_str (dr_error res)))))
            else (c, Some (Inl (Le_Other (''lease claim failed ('' @ show_nat (dr_status res) @ ''): '' @ str_or [] (dr_error res)))))))"

text \<open>The answer to a heartbeat ends its task when the lease has expired or was taken.\<close>

definition heartbeat_answer :: "nat \<Rightarrow> Fetched \<Rightarrow> DaemonClient \<Rightarrow> DaemonClient" where
  "heartbeat_answer task f c = (case f of
     Fetched status _ _ \<Rightarrow>
       if status = 404 \<or> status = 409 then c\<lparr>dc_tasks := filter (\<lambda>(t, _). t \<noteq> task) (dc_tasks c)\<rparr> else c
   | Fetch_Failed \<Rightarrow> c)"

definition heartbeat_request :: "DaemonClient \<Rightarrow> string \<Rightarrow> HttpRequest" where
  "heartbeat_request c lease_id = safe_fetch c POST ''/tui-attachment/heartbeat''
     (Some (J_Object [(''lease_id'', J_String lease_id), (''pid'', J_Number (show_int (dc_pid c)))]))"

definition clear_lease :: "DaemonClient \<Rightarrow> DaemonClient" where
  "clear_lease c = c\<lparr>dc_lease := None,
     dc_tasks := filter (\<lambda>(t, _). map_option al_task (dc_lease c) \<noteq> Some t) (dc_tasks c)\<rparr>"

definition release_lease :: "(string \<Rightarrow> string) \<Rightarrow> DaemonClient \<Rightarrow> DaemonClient \<times> HttpRequest list" where
  "release_lease enc c = (clear_lease c, (case dc_lease c of
     None \<Rightarrow> []
   | Some l \<Rightarrow> [safe_fetch c DELETE (''/tui-attachment/'' @ enc (al_lease_id l)) None]))"

section \<open>Shutdown\<close>

definition terminate_request :: "DaemonClient \<Rightarrow> HttpRequest" where
  "terminate_request c = safe_fetch c POST ''/terminate'' None"

definition terminate :: "(string \<Rightarrow> json_value option) \<Rightarrow> Fetched \<Rightarrow> unit fallible" where
  "terminate from_str f = map_option (\<lambda>r.
     if dr_status r = 200 then Inr ()
     else Inl (format_daemon_response_error from_str ''POST /terminate'' (dr_status r) (dr_error r)))
       (post from_str from_str f)"

text \<open>
  \<^verbatim>\<open>close\<close> and \<^verbatim>\<open>close_without_kill\<close>. The two requests race against two seconds, so a prefix of them
  is sent: \<open>sent\<close> tells how many.
\<close>

definition close_http :: "(string \<Rightarrow> string) \<Rightarrow> nat \<Rightarrow> DaemonClient \<Rightarrow> DaemonClient \<times> HttpRequest list" where
  "close_http enc sent c =
     (let (c1, reqs) = release_lease enc (c\<lparr>dc_sse_cancel := False\<rparr>)
      in (c1, take sent (reqs @ [terminate_request c1])))"

definition close ::
  "(string \<Rightarrow> string) \<Rightarrow> (int \<Rightarrow> nat option) \<Rightarrow> nat \<Rightarrow> DaemonClient \<Rightarrow> DaemonClient \<times> HttpRequest list \<times> int option" where
  "close enc read_start_time sent c =
     (let (c1, reqs) = close_http enc sent c in (c1, reqs, kill read_start_time c1))"

definition close_without_kill :: "(string \<Rightarrow> string) \<Rightarrow> nat \<Rightarrow> DaemonClient \<Rightarrow> DaemonClient \<times> HttpRequest list" where
  "close_without_kill enc sent c = close_http enc sent c"

section \<open>Endpoints\<close>

text \<open>An answer is accepted when its status is one of \<open>oks\<close>.\<close>

definition expect :: "string \<Rightarrow> nat list \<Rightarrow> 'a DaemonResponse \<Rightarrow> string + unit" where
  "expect operation oks r = (if dr_status r \<in> set oks then Inr ()
     else Inl (operation @ '' failed ('' @ show_nat (dr_status r) @ ''): '' @ str_or [] (dr_error r)))"

definition expect_data :: "string \<Rightarrow> nat \<Rightarrow> 'a DaemonResponse \<Rightarrow> string + 'a" where
  "expect_data operation ok r = (case (dr_status r = ok, dr_data r) of
     (True, Some d) \<Rightarrow> Inr d
   | _ \<Rightarrow> Inl (operation @ '' failed ('' @ show_nat (dr_status r) @ ''): '' @ str_or [] (dr_error r)))"

definition post_expect :: "(string \<Rightarrow> json_value option) \<Rightarrow> string \<Rightarrow> nat list \<Rightarrow> Fetched \<Rightarrow> unit fallible" where
  "post_expect from_str path oks f = map_option (expect (''POST '' @ path) oks) (post from_str from_str f)"

type_synonym 'a endpoint = "HttpRequest \<times> (Fetched \<Rightarrow> 'a fallible)"

definition post_endpoint ::
  "(string \<Rightarrow> json_value option) \<Rightarrow> DaemonClient \<Rightarrow> string \<Rightarrow> json_value option \<Rightarrow> nat list \<Rightarrow> unit endpoint" where
  "post_endpoint from_str c path body oks = (safe_fetch c POST path body, post_expect from_str path oks)"

definition opt_member :: "string \<Rightarrow> json_value option \<Rightarrow> json_object" where
  "opt_member k v = (case v of Some x \<Rightarrow> [(k, x)] | None \<Rightarrow> [])"

definition prompt_call ::
  "(string \<Rightarrow> json_value option) \<Rightarrow> (string \<Rightarrow> PromptAccepted option) \<Rightarrow> DaemonClient \<Rightarrow> string \<Rightarrow> int option \<Rightarrow> PromptAccepted endpoint" where
  "prompt_call from_str dec c content max_tool_turns =
     (safe_fetch c POST ''/prompt'' (Some (J_Object ((''content'', J_String content)
        # opt_member ''max_tool_turns'' (map_option (\<lambda>n. J_Number (show_int n)) max_tool_turns)))),
      \<lambda>f. map_option (expect_data ''POST /prompt'' 202) (post from_str dec f))"

definition no_input :: "(string \<Rightarrow> json_value option) \<Rightarrow> string option \<Rightarrow> bool" where
  "no_input from_str text \<longleftrightarrow>
     Option.bind (Option.bind (Option.bind text from_str) (\<lambda>v. jget_obj v ''code'')) as_str = Some ''no_input''"

definition dequeue_newest_input :: "(string \<Rightarrow> json_value option) \<Rightarrow> DaemonClient \<Rightarrow> unit endpoint" where
  "dequeue_newest_input from_str c =
     (safe_fetch c DELETE ''/turn/input/newest'' None,
      \<lambda>f. Some (case f of
        Fetch_Failed \<Rightarrow> Inl ''DELETE /turn/input/newest failed (connection error)''
      | Fetched status text err \<Rightarrow>
          if status = 200 then Inr ()
          else if status = 409 \<and> no_input from_str text then Inr ()
          else Inl (format_daemon_response_error from_str ''DELETE /turn/input/newest'' status (or_else text err))))"

definition de_enabled :: "json_value \<Rightarrow> bool option" where
  "de_enabled v = Option.bind (as_object v) (\<lambda>obj. field obj ''enabled'' as_bool)"

definition toggle_adventurous_handoff :: "(string \<Rightarrow> json_value option) \<Rightarrow> DaemonClient \<Rightarrow> bool endpoint" where
  "toggle_adventurous_handoff from_str c =
     (safe_fetch c POST ''/adventurous-handoff'' None,
      \<lambda>f. Some (case f of
        Fetch_Failed \<Rightarrow> Inl ''POST /adventurous-handoff failed (connection error)''
      | Fetched status text err \<Rightarrow>
          if status = 0 then Inl (''POST /adventurous-handoff failed ('' @ str_or ''fetch returned null'' err @ '')'')
          else if \<not> (200 \<le> status \<and> status < 300)
          then Inl (''POST /adventurous-handoff failed ('' @ show_nat status @ ''): ''
             @ str_or ''empty response body'' (or_else (Option.bind (Option.bind text from_str) public_error) text))
          else case Option.bind (Option.bind text from_str) de_enabled of
            Some b \<Rightarrow> Inr b
          | None \<Rightarrow> Inl ''POST /adventurous-handoff failed (malformed success body)''))"

definition cancel_turn :: "(string \<Rightarrow> json_value option) \<Rightarrow> DaemonClient \<Rightarrow> unit endpoint" where
  "cancel_turn from_str c = post_endpoint from_str c ''/turn/cancel'' None [202, 409]"

text \<open>The reads: the caller gets the response itself.\<close>

type_synonym 'a read = "HttpRequest \<times> (Fetched \<Rightarrow> 'a DaemonResponse option)"

definition state_read :: "(string \<Rightarrow> 'a option) \<Rightarrow> DaemonClient \<Rightarrow> 'a read" where
  "state_read dec c = (safe_fetch c GET ''/state'' None, get_response dec)"

definition history_path :: "i64 option \<Rightarrow> i64 option \<Rightarrow> string" where
  "history_path offset limit =
     (let params = (case offset of Some o' \<Rightarrow> [''offset='' @ show_int o'] | None \<Rightarrow> [])
                 @ (case limit of Some l \<Rightarrow> [''limit='' @ show_int l] | None \<Rightarrow> [])
      in ''/history'' @ (if params = [] then [] else ''?'' @ join ''&'' params))"

definition history_read :: "(string \<Rightarrow> 'a option) \<Rightarrow> DaemonClient \<Rightarrow> i64 option \<Rightarrow> i64 option \<Rightarrow> 'a read" where
  "history_read dec c offset limit = (safe_fetch c GET (history_path offset limit) None, get_response dec)"

definition files_read :: "(string \<Rightarrow> 'a option) \<Rightarrow> DaemonClient \<Rightarrow> bool option \<Rightarrow> 'a read" where
  "files_read dec c include_ignored =
     (safe_fetch c GET (''/files'' @ (if include_ignored = Some True then ''?include_ignored=true'' else [])) None, get_response dec)"

definition file_catalog_read :: "(string \<Rightarrow> 'a option) \<Rightarrow> DaemonClient \<Rightarrow> 'a read" where
  "file_catalog_read dec c = (safe_fetch c GET ''/files'' None, get_response dec)"

definition jobs_read :: "(string \<Rightarrow> 'a option) \<Rightarrow> DaemonClient \<Rightarrow> 'a read" where
  "jobs_read dec c = (safe_fetch c GET ''/jobs'' None, get_response dec)"

definition delete_todo :: "(string \<Rightarrow> 'a option) \<Rightarrow> DaemonClient \<Rightarrow> i64 \<Rightarrow> 'a read" where
  "delete_todo dec c tid = (safe_fetch c DELETE (''/todos/'' @ show_int tid) None, respond_raw (\<lambda>t. Some (take_chars 500 t)) dec)"

record ErrorBody =
  eb_code :: string
  eb_message :: string
  eb_retry_after_seconds :: "i64 option"

definition de_error_body :: "json_value \<Rightarrow> ErrorBody option" where
  "de_error_body v = do {
     obj \<leftarrow> as_object v;
     code \<leftarrow> field obj ''code'' as_str;
     msg \<leftarrow> field obj ''message'' as_str;
     retry \<leftarrow> opt_field obj ''retry_after_seconds'' as_i64;
     Some \<lparr>eb_code = code, eb_message = msg, eb_retry_after_seconds = retry\<rparr> }"

definition set_model :: "(string \<Rightarrow> json_value option) \<Rightarrow> DaemonClient \<Rightarrow> string \<Rightarrow> string option \<Rightarrow> unit endpoint" where
  "set_model from_str c model reasoning_effort =
     (safe_fetch c POST ''/model'' (Some (J_Object ((''model'', J_String model)
        # opt_member ''reasoning_effort'' (map_option J_String reasoning_effort)))),
      \<lambda>f. map_option (\<lambda>r.
        if dr_status r = 409 \<and> map_option eb_code (dr_data r) = Some ''no_change'' then Inr ()
        else expect ''POST /model'' [200] r) (post from_str (\<lambda>t. Option.bind (from_str t) de_error_body) f))"

definition set_title :: "(string \<Rightarrow> json_value option) \<Rightarrow> DaemonClient \<Rightarrow> string \<Rightarrow> unit endpoint" where
  "set_title from_str c title = post_endpoint from_str c ''/title'' (Some (J_Object [(''title'', J_String title)])) [200]"

definition respond_interrogative ::
  "(string \<Rightarrow> string) \<Rightarrow> DaemonClient \<Rightarrow> string \<Rightarrow> json_value \<Rightarrow> unit endpoint" where
  "respond_interrogative enc c iid response =
     (safe_fetch c POST (''/interrogative/'' @ enc iid @ ''/respond'') (Some response),
      \<lambda>f. case f of
        Fetch_Failed \<Rightarrow> Some (Inl (''POST /interrogative/respond timed out (10s) for '' @ iid))
      | Fetched status text fetch_err \<Rightarrow>
          if 200 \<le> status \<and> status < 300 then Some (Inr ())
          else map_option (\<lambda>m. Inl (''POST /interrogative/respond failed ('' @ show_nat status @ ''): '' @ m))
                 (slice_min 200 (str_or ''empty response body'' (or_else fetch_err text))))"

primrec permission_mode_text :: "PermissionMonitorMode \<Rightarrow> string" where
  "permission_mode_text Pm_Standard = ''standard''"
| "permission_mode_text Pm_Bypass = ''bypass''"
| "permission_mode_text Pm_BypassPlus = ''bypass_plus''"
| "permission_mode_text Pm_Autonomous = ''autonomous''"

definition set_permission_mode :: "(string \<Rightarrow> json_value option) \<Rightarrow> DaemonClient \<Rightarrow> PermissionMonitorMode \<Rightarrow> unit endpoint" where
  "set_permission_mode from_str c mode =
     post_endpoint from_str c ''/permission-monitor'' (Some (J_Object [(''mode'', J_String (permission_mode_text mode))])) [200]"

definition get_permission_monitor :: "(string \<Rightarrow> 'a option) \<Rightarrow> DaemonClient \<Rightarrow> 'a endpoint" where
  "get_permission_monitor dec c = (safe_fetch c GET ''/permission-monitor'' None,
     \<lambda>f. map_option (expect_data ''GET /permission-monitor'' 200) (get_response dec f))"

definition get_notification_autodrain :: "(string \<Rightarrow> 'a option) \<Rightarrow> DaemonClient \<Rightarrow> 'a endpoint" where
  "get_notification_autodrain dec c = (safe_fetch c GET ''/notification-autodrain'' None,
     \<lambda>f. map_option (expect_data ''GET /notification-autodrain'' 200) (get_response dec f))"

definition set_notification_autodrain :: "(string \<Rightarrow> json_value option) \<Rightarrow> DaemonClient \<Rightarrow> bool \<Rightarrow> unit endpoint" where
  "set_notification_autodrain from_str c enabled =
     post_endpoint from_str c ''/notification-autodrain'' (Some (J_Object [(''enabled'', J_Bool enabled)])) [200]"

definition clear_call :: "(string \<Rightarrow> json_value option) \<Rightarrow> DaemonClient \<Rightarrow> unit endpoint" where
  "clear_call from_str c = post_endpoint from_str c ''/clear'' None [200]"

definition compact_call :: "(string \<Rightarrow> json_value option) \<Rightarrow> DaemonClient \<Rightarrow> json_value option \<Rightarrow> unit endpoint" where
  "compact_call from_str c req = post_endpoint from_str c ''/compact'' (Some (case req of Some r \<Rightarrow> r | None \<Rightarrow> J_Null)) [202]"

definition rewind_call :: "(string \<Rightarrow> json_value option) \<Rightarrow> DaemonClient \<Rightarrow> json_value \<Rightarrow> unit endpoint" where
  "rewind_call from_str c req = post_endpoint from_str c ''/rewind'' (Some req) [202]"

definition set_facet :: "(string \<Rightarrow> json_value option) \<Rightarrow> DaemonClient \<Rightarrow> string \<Rightarrow> unit endpoint" where
  "set_facet from_str c facet = post_endpoint from_str c ''/facet'' (Some (J_Object [(''facet'', J_String facet)])) [200]"

definition reload_call :: "(string \<Rightarrow> json_value option) \<Rightarrow> DaemonClient \<Rightarrow> unit endpoint" where
  "reload_call from_str c = post_endpoint from_str c ''/reload'' None [200]"

definition reset_shell :: "(string \<Rightarrow> json_value option) \<Rightarrow> DaemonClient \<Rightarrow> unit endpoint" where
  "reset_shell from_str c = post_endpoint from_str c ''/reset-shell'' None [200]"

definition goal_set :: "(string \<Rightarrow> json_value option) \<Rightarrow> DaemonClient \<Rightarrow> string \<Rightarrow> unit endpoint" where
  "goal_set from_str c summary = post_endpoint from_str c ''/goal'' (Some (J_Object [(''summary'', J_String summary)])) [200]"

definition goal_pause :: "(string \<Rightarrow> json_value option) \<Rightarrow> DaemonClient \<Rightarrow> unit endpoint" where
  "goal_pause from_str c = post_endpoint from_str c ''/goal/pause'' None [200, 204]"

definition goal_resume :: "(string \<Rightarrow> json_value option) \<Rightarrow> DaemonClient \<Rightarrow> unit endpoint" where
  "goal_resume from_str c = post_endpoint from_str c ''/goal/resume'' None [200, 204]"

definition goal_clear :: "(string \<Rightarrow> json_value option) \<Rightarrow> DaemonClient \<Rightarrow> unit endpoint" where
  "goal_clear from_str c = post_endpoint from_str c ''/goal/clear'' None [200, 204]"

primrec mcp_action_str :: "McpAction \<Rightarrow> string" where
  "mcp_action_str Ma_Enable = ''enable''"
| "mcp_action_str Ma_Disable = ''disable''"
| "mcp_action_str Ma_Disconnect = ''disconnect''"
| "mcp_action_str Ma_Reconnect = ''reconnect''"

definition mcp_server_action ::
  "(string \<Rightarrow> json_value option) \<Rightarrow> (string \<Rightarrow> string) \<Rightarrow> DaemonClient \<Rightarrow> string \<Rightarrow> McpAction \<Rightarrow> unit endpoint" where
  "mcp_server_action from_str enc c server_name action =
     (safe_fetch c POST (''/mcp/'' @ enc server_name @ ''/'' @ mcp_action_str action) None,
      post_expect from_str (''/mcp/'' @ server_name @ ''/'' @ mcp_action_str action) [200])"

end
