(* ===== verification/Daemon_Http_Props.thy ===== *)
theory Daemon_Http_Props
  imports Daemon_Http
begin

text \<open>
  What the daemon client keeps over every sequence of its operations: one heartbeat task at most, that
  of the lease it holds, and a kill that checks the identity of the process. Then the reading of a
  process's start time, and how the refusals of a lease reach the operator.
\<close>

section \<open>Reachable clients\<close>

text \<open>\<open>seen\<close> are the processes and start times that the operating system reported at the health checks.\<close>

inductive client_reachable :: "(int \<times> nat) set \<Rightarrow> DaemonClient \<Rightarrow> bool" for seen where
  cr_new: "client_reachable seen (new_daemon_client sid port pid token)"
| cr_health: "client_reachable seen c \<Longrightarrow> \<forall>p t. capture p = Some t \<longrightarrow> (p, t) \<in> seen
    \<Longrightarrow> client_reachable seen (fst (health capture dec f c))"
| cr_claim: "client_reachable seen c \<Longrightarrow> client_reachable seen (fst (claim_lease from_str f c))"
| cr_beat: "client_reachable seen c \<Longrightarrow> client_reachable seen (heartbeat_answer task f c)"
| cr_release: "client_reachable seen c \<Longrightarrow> client_reachable seen (fst (release_lease enc c))"
| cr_close: "client_reachable seen c \<Longrightarrow> client_reachable seen (fst (close_http enc sent c))"

definition one_task :: "DaemonClient \<Rightarrow> bool" where
  "one_task c \<longleftrightarrow> (case dc_lease c of
     None \<Rightarrow> dc_tasks c = []
   | Some l \<Rightarrow> dc_tasks c = [] \<or> dc_tasks c = [(al_task l, al_lease_id l)])"

definition identified :: "(int \<times> nat) set \<Rightarrow> DaemonClient \<Rightarrow> bool" where
  "identified seen c \<longleftrightarrow> (\<forall>t. dc_daemon_start_time c = Some t \<longrightarrow> (\<exists>p. dc_daemon_pid c = Some p \<and> (p, t) \<in> seen))"

lemma claim_lease_cases:
  "fst (claim_lease from_str f c) = c \<or> (\<exists>r. fst (claim_lease from_str f c) = store_lease r c)"
  by (simp add: claim_lease_def split: option.split bool.split) blast

lemma health_cases:
  "fst (health capture dec f c) = c
   \<or> (\<exists>p. fst (health capture dec f c) = c\<lparr>dc_daemon_pid := Some p, dc_daemon_start_time := capture p\<rparr>)"
  by (simp add: health_def split: option.split) blast

lemma store_lease_one_task: "one_task c \<Longrightarrow> one_task (store_lease r c)"
  by (auto simp: one_task_def store_lease_def split: option.splits)

lemma clear_lease_one_task: "one_task c \<Longrightarrow> one_task (clear_lease c)"
  by (auto simp: one_task_def clear_lease_def split: option.splits)

lemma client_fields [simp]:
  "identified seen (store_lease r c) = identified seen c" "identified seen (clear_lease c) = identified seen c"
  "identified seen (heartbeat_answer task f c) = identified seen c"
  "identified seen (c\<lparr>dc_sse_cancel := b\<rparr>) = identified seen c" "one_task (c\<lparr>dc_sse_cancel := b\<rparr>) = one_task c"
  "one_task (c\<lparr>dc_daemon_pid := p, dc_daemon_start_time := t\<rparr>) = one_task c"
  by (simp_all add: identified_def one_task_def store_lease_def clear_lease_def heartbeat_answer_def
      split: Fetched.split option.split)

lemma heartbeat_one_task: "one_task c \<Longrightarrow> one_task (heartbeat_answer task f c)"
  by (cases f; cases "dc_lease c") (auto simp: one_task_def heartbeat_answer_def split: if_splits)

lemma close_http_state: "fst (close_http enc sent c) = clear_lease (c\<lparr>dc_sse_cancel := False\<rparr>)"
  by (simp add: close_http_def release_lease_def)

lemma client_reachable_one_task: "client_reachable seen c \<Longrightarrow> one_task c"
proof (induction rule: client_reachable.induct)
  case (cr_new sid port pid token)
  show ?case by (simp add: one_task_def new_daemon_client_def)
next
  case (cr_health c capture dec f)
  then show ?case using health_cases [of capture dec f c] by auto
next
  case (cr_claim c from_str f)
  then show ?case using claim_lease_cases [of from_str f c] by (auto simp: store_lease_one_task)
qed (simp_all add: heartbeat_one_task release_lease_def clear_lease_one_task close_http_state)

lemma client_reachable_identified: "client_reachable seen c \<Longrightarrow> identified seen c"
proof (induction rule: client_reachable.induct)
  case (cr_new sid port pid token)
  show ?case by (simp add: identified_def new_daemon_client_def)
next
  case (cr_health c capture dec f)
  then show ?case using health_cases [of capture dec f c] by (auto simp: identified_def)
next
  case (cr_claim c from_str f)
  then show ?case using claim_lease_cases [of from_str f c] by auto
qed (simp_all add: release_lease_def close_http_state)

text \<open>
  Property C32. One heartbeat at most. After every sequence of health checks, claims, heartbeat answers, releases and closes, at most one
  heartbeat task runs, and it refreshes the lease that the client holds; closing the client leaves none.
\<close>

theorem one_heartbeat:
  assumes "client_reachable seen c"
  shows "length (dc_tasks c) \<le> 1
    \<and> (\<forall>task lid. (task, lid) \<in> set (dc_tasks c) \<longrightarrow>
         (\<exists>l. dc_lease c = Some l \<and> al_task l = task \<and> al_lease_id l = lid))
    \<and> dc_tasks (fst (close_http enc sent c)) = []"
  using client_reachable_one_task [OF assms]
  by (auto simp: one_task_def close_http_state clear_lease_def split: option.splits)

definition sample_claim_body :: json_value where
  "sample_claim_body = J_Object [(''expires_after_seconds'', J_Number ''30''), (''expires_at'', J_String ''t''),
     (''heartbeat_interval_seconds'', J_Number ''5''), (''lease_id'', J_String ''L'')]"

definition sample_client :: DaemonClient where
  "sample_client = new_daemon_client ''s'' 4000 12 None"

definition sample_claimed :: DaemonClient where
  "sample_claimed = fst (claim_lease (\<lambda>_. Some sample_claim_body) (Fetched 200 (Some ''{}'') None) sample_client)"

lemma sample_claimed_tasks: "dc_tasks sample_claimed = [(0, ''L'')]"
  by (simp add: sample_claimed_def claim_lease_def post_with_options_def post_error_def read_body_def str_or_def
      sample_claim_body_def de_claim_def field_def as_object_def as_str_def as_i64_def as_u64_def is_ascii_digit_def
      byte_of_def digits_value_def sample_client_def new_daemon_client_def store_lease_def)

theorem one_heartbeat_witness:
  "dc_tasks sample_claimed = [(0, ''L'')] \<and> dc_tasks (fst (close_http (\<lambda>s. s) 2 sample_claimed)) = []"
  using one_heartbeat [of "{}" sample_claimed "\<lambda>s. s" 2] sample_claimed_tasks cr_claim [OF cr_new]
  by (simp add: sample_claimed_def sample_client_def)

text \<open>
  The kill does not hit a stranger. Closing a client signals only the process that a health check reported, and, where its
  start time was captured then, only if the process with that number still has that start time.
\<close>

theorem kill_checks_identity:
  assumes "client_reachable seen c" and "close enc rd sent c = (c', reqs, Some pid)"
  shows "dc_daemon_pid c = Some pid
    \<and> (dc_daemon_start_time c = None \<or> (\<exists>t. (pid, t) \<in> seen \<and> rd pid = Some t))"
  using client_reachable_identified [OF assms(1)] assms(2)
  by (auto simp: close_def Let_def kill_def verify_def identified_def close_http_state clear_lease_def
      split: prod.splits option.splits if_splits
      dest!: arg_cong [where f = fst])


definition sample_healthy :: DaemonClient where
  "sample_healthy = fst (health (\<lambda>p. if p = 77 then Some 5 else None) (\<lambda>_. Some 77) (Fetched 200 (Some ''{}'') None) sample_client)"

theorem kill_checks_identity_witness:
  "snd (snd (close (\<lambda>s. s) (\<lambda>_. Some 5) 2 sample_healthy)) = Some 77
   \<and> snd (snd (close (\<lambda>s. s) (\<lambda>_. Some 6) 2 sample_healthy)) = None \<and> dc_daemon_pid sample_healthy = Some 77"
proof -
  have r: "client_reachable {(77, 5)} sample_healthy"
    unfolding sample_healthy_def sample_client_def by (rule cr_health [OF cr_new]) (auto split: if_splits)
  have k: "snd (snd (close (\<lambda>s. s) (\<lambda>_. Some n) 2 sample_healthy)) = (if n = 5 then Some 77 else None)" for n
    by (simp add: close_def close_http_def release_lease_def clear_lease_def kill_def verify_def sample_healthy_def
        health_def get_response_def respond_raw_def read_body_def str_or_def sample_client_def new_daemon_client_def Let_def)
  obtain c' reqs where "close (\<lambda>s. s) (\<lambda>_. Some 5) 2 sample_healthy = (c', reqs, Some 77)"
    using k [of 5] by (metis prod.collapse)
  from kill_checks_identity [OF r this] k show ?thesis by simp
qed

section \<open>Reading the start time\<close>

lemma split_whitespace_words:
  "list_all plain_token ws \<Longrightarrow> split_whitespace (concat (map (\<lambda>w. CHR '' '' # w) ws)) = ws"
proof (induction ws)
  case Nil
  then show ?case by (simp add: split_whitespace_def)
next
  case (Cons w ws)
  have go: "split_ws acc (t @ rest) = (acc @ t) # split_ws [] (drop 1 rest)"
    if "list_all plain_char t" "acc @ t \<noteq> []" "rest \<noteq> [] \<and> hd rest = CHR '' ''" for acc t rest
    using that
  proof (induction t arbitrary: acc)
    case Nil
    then show ?case by (cases rest) auto
  next
    case (Cons c t)
    then show ?case by (simp add: Cons.IH)
  qed
  show ?case
  proof (cases "ws = []")
    case True
    then show ?thesis using Cons.prems by (simp add: split_whitespace_token)
  next
    case False
    then have "split_ws [] (w @ concat (map (\<lambda>w. CHR '' '' # w) ws))
        = w # split_ws [] (drop 1 (concat (map (\<lambda>w. CHR '' '' # w) ws)))"
      using Cons.prems by (subst go) (cases ws; simp add: plain_token_def)+
    moreover have "split_ws [] (drop 1 (concat (map (\<lambda>w. CHR '' '' # w) ws))) = ws"
      using Cons False by (cases ws) (simp_all add: split_whitespace_def)
    ultimately show ?thesis by (simp add: split_whitespace_def)
  qed
qed

lemma drop_prefix: "drop (length xs) (xs @ ys) = ys"
  by simp

text \<open>
  The start time of a process is read whatever its name is. For a line of \<^verbatim>\<open>/proc/<pid>/stat\<close> with any command name, one with
  parentheses and blanks included, the 22nd field is returned.
\<close>

theorem start_time_read:
  assumes "list_all plain_token ws" and "19 < length ws" and "ws ! 19 = show_nat t" and "t < 2 ^ 64"
  shows "capture_start_time_linux (Some (pid @ '' ('' @ comm @ '')'' @ concat (map (\<lambda>w. CHR '' '' # w) ws))) = Some t"
proof -
  have no: "CHR '')'' \<notin> set (concat (map (\<lambda>w. CHR '' '' # w) ws))"
    using assms(1) by (auto simp: list_all_iff plain_token_def plain_char_def)
  let ?pre = "pid @ '' ('' @ comm"
  have r: "rfind_char (CHR '')'') (pid @ '' ('' @ comm @ '')'' @ concat (map (\<lambda>w. CHR '' '' # w) ws)) = Some (length ?pre)"
    using rfind_char_last [OF no, of ?pre] by simp
  have d: "drop (length ?pre + 1) (pid @ '' ('' @ comm @ '')'' @ concat (map (\<lambda>w. CHR '' '' # w) ws))
      = concat (map (\<lambda>w. CHR '' '' # w) ws)"
    using drop_prefix [of "?pre @ '')''" "concat (map (\<lambda>w. CHR '' '' # w) ws)"] by simp
  have p: "parse_u64 (show_nat t) = Some (word_of_nat t)"
    using assms(4) by (simp add: parse_u64_def Let_def digits_no_sign [OF digits_show_nat] digits_show_nat digits_value_show_nat)
  show ?thesis
    unfolding capture_start_time_linux_def Option.bind.simps r Let_def d split_whitespace_words [OF assms(1)]
    using assms(2,3,4) p by (simp add: unat_of_nat take_bit_nat_eq_self)
qed

theorem start_time_read_witness:
  "capture_start_time_linux (Some (''7'' @ '' ('' @ '') S ('' @ '')''
     @ concat (map (\<lambda>w. CHR '' '' # w) (replicate 19 ''0'' @ [show_nat 42])))) = Some 42"
proof -
  have "list_all plain_token (replicate 19 ''0'' @ [show_nat 42])"
    using plain_digits [OF digits_show_nat [of 42]]
    by (simp add: plain_token_def plain_char_def byte_of_def list_all_iff)
  from start_time_read [OF this, of 42 "''7''" "'') S (''"] show ?thesis by (simp add: nth_append)
qed

section \<open>Refused leases\<close>

definition refusal :: "nat \<Rightarrow> string option \<Rightarrow> string" where
  "refusal status err = ''lease claim failed ('' @ show_nat status @ ''): '' @ str_or [] err"

lemma refusal_auth: "transport_class (refusal 401 err) = Rf_Auth"
proof -
  have "show_nat 401 = ''401''"
    by (simp add: show_nat.simps [of 401] show_nat.simps [of 40] show_nat.simps [of 4]) (simp add: char_of_def bit_iff_odd)
  then have "str_contains (refusal 401 err) ''401''"
    unfolding str_contains_iff refusal_def
    by (intro exI [of _ "''lease claim failed (''"] exI [of _ "''): '' @ str_or [] err"]) simp
  then show ?thesis by (simp add: transport_class_def)
qed

lemma refusal_unreachable:
  "transport_class (refusal 0 (Some ''request failed (connection error or timeout)'')) = Rf_Unreachable"
proof -
  let ?text = "''lease claim failed (0): request failed (connection error or timeout)''"
  have r: "refusal 0 (Some ''request failed (connection error or timeout)'') = ?text"
    by (simp add: refusal_def str_or_def show_sample)
  have l: "ascii_lowercase ?text = ?text" by (simp add: ascii_lowercase_def)
  show ?thesis unfolding r transport_class_def l by simp
qed

lemma claim_refused:
  assumes "post_with_options from_str (\<lambda>t. Option.bind (from_str t) de_claim) True f = Some res"
    and "dr_status res \<noteq> 200" and "dr_status res \<noteq> 409"
  shows "claim_lease from_str f c = (c, Some (Inl (Le_Other (refusal (dr_status res) (dr_error res)))))"
  using assms by (simp add: claim_lease_def refusal_def)

text \<open>
  A refused lease reaches the operator as what it is. A daemon that cannot be reached is classified as unreachable, a 401 as
  an authentication failure unless reading its body panics, and a 409 is a conflict that carries the holder; the client holds no lease.
\<close>

theorem lease_refusals:
  "(\<exists>e. claim_lease from_str Fetch_Failed c = (c, Some (Inl (Le_Other e))) \<and> transport_class e = Rf_Unreachable)
   \<and> (claim_lease from_str (Fetched 401 text err) c = (c, None)
      \<or> (\<exists>e. claim_lease from_str (Fetched 401 text err) c = (c, Some (Inl (Le_Other e))) \<and> transport_class e = Rf_Auth))
   \<and> claim_lease from_str (Fetched 409 text err) c
      = (c, Some (Inl (Le_Conflict (parse_lease_held_error from_str (Some (str_or [] text))))))"
proof (intro conjI)
  show "\<exists>e. claim_lease from_str Fetch_Failed c = (c, Some (Inl (Le_Other e))) \<and> transport_class e = Rf_Unreachable"
    using claim_refused [of from_str Fetch_Failed no_answer c] refusal_unreachable
    by (simp add: post_with_options_def no_answer_def)
  show "claim_lease from_str (Fetched 401 text err) c = (c, None)
      \<or> (\<exists>e. claim_lease from_str (Fetched 401 text err) c = (c, Some (Inl (Le_Other e))) \<and> transport_class e = Rf_Auth)"
  proof (cases "post_error from_str True 401 (str_or [] text)")
    case None
    then show ?thesis by (simp add: claim_lease_def post_with_options_def)
  next
    case (Some e)
    then show ?thesis using claim_refused [of from_str "Fetched 401 text err" _ c] refusal_auth
      by (simp add: post_with_options_def)
  qed
  show "claim_lease from_str (Fetched 409 text err) c
      = (c, Some (Inl (Le_Conflict (parse_lease_held_error from_str (Some (str_or [] text))))))"
    by (simp add: claim_lease_def post_with_options_def post_error_def)
qed

text \<open>An error text without a public message is cut after 200 bytes: inside a character, that panics.\<close>

theorem multibyte_error_panics:
  assumes "400 \<le> status" and "Option.bind (from_str text) public_error = None"
    and "200 < length text" and "\<not> is_char_boundary text 200"
  shows "post from_str dec (Fetched status (Some text) err) = None"
  using assms by (simp add: post_def post_with_options_def post_error_def slice_min_def slice_to_def str_or_def)

end
