(* ===== verification/Daemon_Sse.thy ===== *)
theory Daemon_Sse
  imports Daemon_Http
begin

text \<open>
  The event stream of a daemon (\<^verbatim>\<open>pantoken-server/src/polytoken/daemon_client.rs\<close>): the frame reader of
  \<^verbatim>\<open>sse_loop\<close> on the chunks of the response body, and the loop as a machine over the answers of the
  transport. \<open>dec\<close> decodes the envelope of a frame. An event carries the number of the connection it
  was read from, which the code does not have: it is there to state the order of the outputs.
\<close>

section \<open>Chunks to text\<close>

text \<open>
  \<^verbatim>\<open>String::from_utf8_lossy\<close>. \<open>utf8_step\<close> is the length of the next well-formed character, or of the
  longest start of one that is replaced by U+FFFD.
\<close>

definition in_range :: "nat \<Rightarrow> nat \<Rightarrow> char \<Rightarrow> bool" where
  "in_range lo hi c \<longleftrightarrow> lo \<le> byte_of c \<and> byte_of c \<le> hi"

definition second_ok :: "nat \<Rightarrow> char \<Rightarrow> bool" where
  "second_ok a c =
     (if a = 0xE0 then in_range 0xA0 0xBF c
      else if a = 0xED then in_range 0x80 0x9F c
      else if a = 0xF0 then in_range 0x90 0xBF c
      else if a = 0xF4 then in_range 0x80 0x8F c
      else in_range 0x80 0xBF c)"

definition char_len :: "char \<Rightarrow> nat" where
  "char_len c = (let a = byte_of c in
     if a < 0x80 then 1
     else if 0xC2 \<le> a \<and> a \<le> 0xDF then 2
     else if 0xE0 \<le> a \<and> a \<le> 0xEF then 3
     else if 0xF0 \<le> a \<and> a \<le> 0xF4 then 4
     else 0)"

fun tail_len :: "nat \<Rightarrow> string \<Rightarrow> nat" where
  "tail_len 0 s = 0"
| "tail_len (Suc n) [] = 0"
| "tail_len (Suc n) (c # s) = (if in_range 0x80 0xBF c then Suc (tail_len n s) else 0)"

definition utf8_step :: "char \<Rightarrow> string \<Rightarrow> nat \<times> bool" where
  "utf8_step c s =
     (let n = char_len c
      in if n = 0 then (1, False)
         else if n = 1 then (1, True)
         else case s of
           [] \<Rightarrow> (1, False)
         | d # t \<Rightarrow>
             if \<not> second_ok (byte_of c) d then (1, False)
             else let k = 2 + tail_len (n - 2) t in (k, k = n))"

definition replacement_char :: string where
  "replacement_char = [CHR 0xEF, CHR 0xBF, CHR 0xBD]"

lemma utf8_step_pos: "0 < fst (utf8_step c s)"
  by (simp add: utf8_step_def Let_def split: list.split)

function utf8_lossy :: "string \<Rightarrow> string" where
  "utf8_lossy [] = []"
| "utf8_lossy (c # s) =
     (case utf8_step c s of (n, ok) \<Rightarrow>
        (if ok then take n (c # s) else replacement_char) @ utf8_lossy (drop n (c # s)))"
  by pat_completeness auto
termination
proof (relation "measure length")
  fix c s n ok
  assume "(n, ok) = utf8_step c s"
  then have "0 < n" using utf8_step_pos [of c s] by (metis fst_conv)
  then show "(drop n (c # s), c # s) \<in> measure length" by simp
qed simp

text \<open>\<^verbatim>\<open>text.replace("\r\n", "\n")\<close>.\<close>

fun normalize_crlf :: "string \<Rightarrow> string" where
  "normalize_crlf [] = []"
| "normalize_crlf [c] = [c]"
| "normalize_crlf (c # d # s) =
     (if c = CHR 0x0D \<and> d = CHR 0x0A then CHR 0x0A # normalize_crlf s else c # normalize_crlf (d # s))"

section \<open>Reconnecting\<close>

record SseReconnectState =
  rs_backoff :: nat
  rs_backoff_start :: nat
  rs_backoff_cap :: nat
  rs_had_connected_once :: bool
  rs_last_event_id :: "string option"

definition new_reconnect :: "nat \<Rightarrow> nat \<Rightarrow> SseReconnectState" where
  "new_reconnect start cap = \<lparr>rs_backoff = start, rs_backoff_start = start, rs_backoff_cap = cap,
     rs_had_connected_once = False, rs_last_event_id = None\<rparr>"

definition record_event_id :: "string \<Rightarrow> SseReconnectState \<Rightarrow> SseReconnectState" where
  "record_event_id eid st = st\<lparr>rs_last_event_id := Some eid\<rparr>"

definition on_connected :: "SseReconnectState \<Rightarrow> SseReconnectState \<times> bool" where
  "on_connected st = (st\<lparr>rs_had_connected_once := True, rs_backoff := rs_backoff_start st\<rparr>, rs_had_connected_once st)"

definition on_failure :: "SseReconnectState \<Rightarrow> SseReconnectState \<times> nat" where
  "on_failure st = (st\<lparr>rs_backoff := min ((rs_backoff st * 2) mod 2 ^ 64) (rs_backoff_cap st)\<rparr>, rs_backoff st)"

section \<open>Frames\<close>

fun find_blank :: "string \<Rightarrow> (string \<times> string) option" where
  "find_blank [] = None"
| "find_blank [c] = None"
| "find_blank (c # d # s) =
     (if c = CHR 0x0A \<and> d = CHR 0x0A then Some ([], s)
      else map_option (\<lambda>(a, b). (c # a, b)) (find_blank (d # s)))"

definition strip_prefix :: "string \<Rightarrow> string \<Rightarrow> string option" where
  "strip_prefix p s = (if starts_with s p then Some (drop (length p) s) else None)"

definition frame_line :: "string \<Rightarrow> SseReconnectState \<times> string list \<Rightarrow> SseReconnectState \<times> string list" where
  "frame_line l acc = (case strip_prefix ''id:'' l of
     Some rest \<Rightarrow> (record_event_id (trim rest) (fst acc), snd acc)
   | None \<Rightarrow> (case strip_prefix ''data:'' l of
       Some rest \<Rightarrow> (fst acc, snd acc @ [case strip_prefix '' '' rest of Some d \<Rightarrow> d | None \<Rightarrow> rest])
     | None \<Rightarrow> acc))"

text \<open>A frame: the ids are recorded, its data lines are one envelope. A frame that does not decode is logged.\<close>

definition read_frame :: "(string \<Rightarrow> 'e option) \<Rightarrow> string \<Rightarrow> SseReconnectState \<Rightarrow> SseReconnectState \<times> 'e list" where
  "read_frame dec frame st =
     (case fold frame_line (split_on (CHR 0x0A) frame) (st, []) of (st', data_lines) \<Rightarrow>
        (let json = trim (join [CHR 0x0A] data_lines)
         in (st', if data_lines = [] \<or> json = [] then []
                  else case dec json of Some e \<Rightarrow> [e] | None \<Rightarrow> [])))"

lemma find_blank_shorter: "find_blank s = Some (a, b) \<Longrightarrow> length b < length s"
  by (induction s arbitrary: a rule: find_blank.induct) (auto split: if_splits)

function drain_frames :: "(string \<Rightarrow> 'e option) \<Rightarrow> SseReconnectState \<Rightarrow> string \<Rightarrow> SseReconnectState \<times> 'e list \<times> string" where
  "drain_frames dec st buffer = (case find_blank buffer of
     None \<Rightarrow> (st, [], buffer)
   | Some (frame, rest) \<Rightarrow>
       (case read_frame dec frame st of (st1, es) \<Rightarrow>
        (case drain_frames dec st1 rest of (st2, es', rest') \<Rightarrow> (st2, es @ es', rest'))))"
  by pat_completeness auto
termination
  by (relation "measure (\<lambda>(d, st, b). length b)") (auto dest: find_blank_shorter)

declare drain_frames.simps [simp del]

text \<open>A chunk of the body.\<close>

definition feed :: "(string \<Rightarrow> 'e option) \<Rightarrow> string \<Rightarrow> SseReconnectState \<times> string \<Rightarrow> SseReconnectState \<times> 'e list \<times> string" where
  "feed dec chunk s = drain_frames dec (fst s) (snd s @ normalize_crlf (utf8_lossy chunk))"

fun feed_all :: "(string \<Rightarrow> 'e option) \<Rightarrow> string list \<Rightarrow> SseReconnectState \<times> string \<Rightarrow> SseReconnectState \<times> 'e list \<times> string" where
  "feed_all dec [] s = (fst s, [], snd s)"
| "feed_all dec (chunk # chunks) s = (case feed dec chunk s of (st, es, rest) \<Rightarrow>
     (case feed_all dec chunks (st, rest) of (st', es', rest') \<Rightarrow> (st', es @ es', rest')))"

section \<open>The loop\<close>

datatype SsePhase = Connecting | Streaming string | Sleeping nat | Stopped

record SseLoop =
  sl_phase :: SsePhase
  sl_state :: SseReconnectState
  sl_initial :: bool
  sl_stream :: nat

datatype SseInput =
    Send_Error string
  | Bad_Status string
  | Bad_Content_Type "string option"
  | Stream_Opened
  | Chunk string
  | Stream_End
  | Stream_Error
  | Heartbeat_Lapse
  | Timer
  | Cancel

datatype 'e SseOutput =
    Out_Connected "string + unit"
  | Out_Discontinuity
  | Out_Event nat 'e

definition start_sse :: SseLoop where
  "start_sse = \<lparr>sl_phase = Connecting, sl_state = new_reconnect 1000 30000, sl_initial = True, sl_stream = 0\<rparr>"

text \<open>The request of a connect: the id of the last event goes with it.\<close>

definition sse_request :: "DaemonClient \<Rightarrow> SseLoop \<Rightarrow> (string \<times> string) list" where
  "sse_request c l = (case rs_last_event_id (sl_state l) of Some i \<Rightarrow> [(''Last-Event-ID'', i)] | None \<Rightarrow> [])
     @ (case auth_header c of Some h \<Rightarrow> [h] | None \<Rightarrow> [])"

definition content_type_is_sse :: "string option \<Rightarrow> bool" where
  "content_type_is_sse v = (case v of
     None \<Rightarrow> False
   | Some t \<Rightarrow> ascii_lowercase (trim (hd (split_on (CHR '';'') t))) = ''text/event-stream'')"

definition retry_later :: "SseLoop \<Rightarrow> SseLoop" where
  "retry_later l = (case on_failure (sl_state l) of (st, ms) \<Rightarrow> l\<lparr>sl_state := st, sl_phase := Sleeping ms\<rparr>)"

text \<open>A connect that fails: the first one reports its failure and ends the loop.\<close>

definition connect_failed :: "string \<Rightarrow> SseLoop \<Rightarrow> SseLoop \<times> 'e SseOutput list" where
  "connect_failed e l =
     (if sl_initial l then (l\<lparr>sl_initial := False, sl_phase := Stopped\<rparr>, [Out_Connected (Inl e)])
      else (retry_later l, []))"

definition stream_opened :: "SseLoop \<Rightarrow> SseLoop \<times> 'e SseOutput list" where
  "stream_opened l = (case on_connected (sl_state l) of (st, emit) \<Rightarrow>
     (l\<lparr>sl_initial := False, sl_state := st, sl_phase := Streaming [], sl_stream := Suc (sl_stream l)\<rparr>,
      (if sl_initial l then [Out_Connected (Inr ())] else []) @ (if emit then [Out_Discontinuity] else [])))"

definition chunk_read :: "(string \<Rightarrow> 'e option) \<Rightarrow> string \<Rightarrow> string \<Rightarrow> SseLoop \<Rightarrow> SseLoop \<times> 'e SseOutput list" where
  "chunk_read dec buffer bytes l = (case feed dec bytes (sl_state l, buffer) of (st, es, rest) \<Rightarrow>
     (l\<lparr>sl_state := st, sl_phase := Streaming rest\<rparr>, map (Out_Event (sl_stream l)) es))"

text \<open>One step; \<open>None\<close> when the input cannot occur in the phase.\<close>

definition sse_step :: "(string \<Rightarrow> 'e option) \<Rightarrow> SseInput \<Rightarrow> SseLoop \<Rightarrow> (SseLoop \<times> 'e SseOutput list) option" where
  "sse_step dec i l = (case sl_phase l of
     Stopped \<Rightarrow> None
   | Connecting \<Rightarrow> (case i of
       Cancel \<Rightarrow> Some (l\<lparr>sl_phase := Stopped\<rparr>, [])
     | Send_Error e \<Rightarrow> Some (connect_failed (''GET /events failed: '' @ e) l)
     | Bad_Status s \<Rightarrow> Some (connect_failed (''GET /events failed ('' @ s @ '')'') l)
     | Bad_Content_Type ct \<Rightarrow>
         if content_type_is_sse ct then None
         else Some (connect_failed (''GET /events failed: expected Content-Type text/event-stream, got ''
                @ str_or ''<missing>'' ct) l)
     | Stream_Opened \<Rightarrow> Some (stream_opened l)
     | _ \<Rightarrow> None)
   | Streaming buffer \<Rightarrow> (case i of
       Cancel \<Rightarrow> Some (l\<lparr>sl_phase := Stopped\<rparr>, [])
     | Chunk bytes \<Rightarrow> Some (chunk_read dec buffer bytes l)
     | Stream_End \<Rightarrow> Some (retry_later l, [])
     | Stream_Error \<Rightarrow> Some (retry_later l, [])
     | Heartbeat_Lapse \<Rightarrow> Some (retry_later l, [])
     | _ \<Rightarrow> None)
   | Sleeping ms \<Rightarrow> (case i of
       Cancel \<Rightarrow> Some (l\<lparr>sl_phase := Stopped\<rparr>, [])
     | Timer \<Rightarrow> Some (l\<lparr>sl_phase := Connecting\<rparr>, [])
     | _ \<Rightarrow> None))"

text \<open>A run: the outputs of the steps in order.\<close>

fun sse_run :: "(string \<Rightarrow> 'e option) \<Rightarrow> SseInput list \<Rightarrow> SseLoop \<Rightarrow> (SseLoop \<times> 'e SseOutput list) option" where
  "sse_run dec [] l = Some (l, [])"
| "sse_run dec (i # is) l = (case sse_step dec i l of
     None \<Rightarrow> None
   | Some (l1, os) \<Rightarrow> map_option (\<lambda>(l2, os'). (l2, os @ os')) (sse_run dec is l1))"

end
