(* ===== verification/Daemon_Sse_Props.thy ===== *)
theory Daemon_Sse_Props
  imports Daemon_Sse
begin

text \<open>
  The event stream's guarantees: what the consumer of the events can tell from the order of the
  outputs, the bounds of the retry delay, and when the way the transport cuts the body into chunks
  does not matter; then two cuts where it does.
\<close>

section \<open>Chunks\<close>


lemma tail_len_append: "tail_len n s = n \<Longrightarrow> tail_len n (s @ t) = n"
  by (induction n s rule: tail_len.induct) (auto split: if_splits)

lemma tail_len_le: "tail_len n s \<le> n" "tail_len n s \<le> length s"
  by (induction n s rule: tail_len.induct) auto

lemma utf8_step_append:
  assumes "utf8_step c s = (n, True)"
  shows "utf8_step c (s @ t) = (n, True)" and "n \<le> length (c # s)"
proof -
  have "utf8_step c (s @ t) = (n, True) \<and> n \<le> length (c # s)"
  proof (cases "char_len c = 0 \<or> char_len c = 1")
    case True
    then show ?thesis using assms by (auto simp: utf8_step_def)
  next
    case False
    then obtain d u where s: "s = d # u" using assms by (cases s) (auto simp: utf8_step_def)
    have two: "2 \<le> char_len c" using False by linarith
    have "second_ok (byte_of c) d" and n: "n = char_len c" and t: "2 + tail_len (char_len c - 2) u = char_len c"
      using assms False by (auto simp: utf8_step_def Let_def s split: if_splits)
    moreover have "tail_len (char_len c - 2) u = char_len c - 2" using t two by linarith
    ultimately show ?thesis
      using False two tail_len_append [of "char_len c - 2" u t] tail_len_le(2) [of "char_len c - 2" u]
      by (auto simp: utf8_step_def Let_def s)
  qed
  then show "utf8_step c (s @ t) = (n, True)" and "n \<le> length (c # s)" by simp_all
qed

text \<open>Whole characters only.\<close>

function utf8_whole :: "string \<Rightarrow> bool" where
  "utf8_whole [] = True"
| "utf8_whole (c # s) = (case utf8_step c s of (n, ok) \<Rightarrow> ok \<and> utf8_whole (drop n (c # s)))"
  by pat_completeness auto
termination
proof (relation "measure length")
  fix c s n ok
  assume "(n, ok) = utf8_step c s" 
  then have "0 < n" using utf8_step_pos [of c s] by (metis fst_conv)
  then show "(drop n (c # s), c # s) \<in> measure length" by simp
qed simp

lemma utf8_lossy_whole: "utf8_whole s \<Longrightarrow> utf8_lossy (s @ t) = s @ utf8_lossy t"
proof (induction s rule: utf8_whole.induct)
  case (2 c s)
  obtain n where st: "utf8_step c s = (n, True)" using "2.prems" by (auto split: prod.splits)
  note ap = utf8_step_append [OF st]
  have ih: "utf8_lossy (drop n (c # s) @ t) = drop n (c # s) @ utf8_lossy t"
    using "2.IH" [OF st [symmetric]] "2.prems" st by simp
  have "utf8_lossy ((c # s) @ t) = take n ((c # s) @ t) @ utf8_lossy (drop n ((c # s) @ t))"
    using ap(1) by simp
  also have "\<dots> = take n (c # s) @ utf8_lossy (drop n (c # s) @ t)"
    using ap(2) by (simp only: take_append drop_append diff_is_0_eq [THEN iffD2, OF ap(2)] take_0 drop_0 append_Nil2)
  also have "\<dots> = (c # s) @ utf8_lossy t" using ih by (metis append.assoc append_take_drop_id)
  finally show ?case .
qed simp

lemma normalize_crlf_append:
  "s = [] \<or> last s \<noteq> CHR 0x0D \<Longrightarrow> normalize_crlf (s @ t) = normalize_crlf s @ normalize_crlf t"
proof (induction s rule: normalize_crlf.induct)
  case (2 c)
  then show ?case by (cases t) auto
next
  case (3 c d s)
  show ?case
  proof (cases "c = CHR 0x0D \<and> d = CHR 0x0A")
    case True
    then show ?thesis using 3 by (cases s) auto
  next
    case False
    then have "normalize_crlf ((d # s) @ t) = normalize_crlf (d # s) @ normalize_crlf t"
      using 3 by auto
    then show ?thesis using False by auto
  qed
qed simp

lemma find_blank_append: "find_blank s = Some (a, b) \<Longrightarrow> find_blank (s @ t) = Some (a, b @ t)"
  by (induction s arbitrary: a rule: find_blank.induct) (auto split: if_splits)

lemma drain_frames_append:
  "drain_frames dec st (x @ y) = (case drain_frames dec st x of (st1, es, rest) \<Rightarrow>
     (case drain_frames dec st1 (rest @ y) of (st2, es', rest') \<Rightarrow> (st2, es @ es', rest')))"
proof (induction dec st x rule: drain_frames.induct)
  case (1 dec st x)
  show ?case
  proof (cases "find_blank x")
    case None
    then show ?thesis by (simp add: drain_frames.simps [of dec st x] split: prod.splits)
  next
    case (Some p)
    obtain frame rest where p: "p = (frame, rest)" by (cases p)
    obtain st1 es where f: "read_frame dec frame st = (st1, es)" by (cases "read_frame dec frame st")
    have fb: "find_blank x = Some (frame, rest)" "find_blank (x @ y) = Some (frame, rest @ y)"
      using Some p find_blank_append by auto
    show ?thesis
      using "1.IH" [OF fb(1) refl f [symmetric]]
      by (simp add: drain_frames.simps [of dec st x] drain_frames.simps [of dec st "x @ y"] fb f split: prod.splits)
  qed
qed

text \<open>A chunk that ends between characters and not between the two bytes of a line end.\<close>

definition whole_chunk :: "string \<Rightarrow> bool" where
  "whole_chunk ch \<longleftrightarrow> utf8_whole ch \<and> (ch = [] \<or> last ch \<noteq> CHR 0x0D)"

lemma feed_append:
  assumes "whole_chunk ch"
  shows "feed dec (ch @ t) (st, b) = (case feed dec ch (st, b) of (st1, es, rest) \<Rightarrow>
     (case feed dec t (st1, rest) of (st2, es', rest') \<Rightarrow> (st2, es @ es', rest')))"
proof -
  have l: "utf8_lossy (ch @ t) = ch @ utf8_lossy t" "utf8_lossy ch = ch"
    using assms utf8_lossy_whole [of ch] utf8_lossy_whole [of ch "[]"] by (simp_all add: whole_chunk_def)
  have "normalize_crlf (ch @ utf8_lossy t) = normalize_crlf ch @ normalize_crlf (utf8_lossy t)"
    using assms by (intro normalize_crlf_append) (auto simp: whole_chunk_def)
  then show ?thesis
    unfolding feed_def fst_conv snd_conv l using drain_frames_append [of dec st "b @ normalize_crlf ch"]
    by simp
qed

lemma feed_nil: "find_blank b = None \<Longrightarrow> feed dec [] (st, b) = (st, [], b)"
  by (simp add: feed_def drain_frames.simps)

lemma drain_frames_done: "drain_frames dec st x = (st', es, rest) \<Longrightarrow> find_blank rest = None"
proof (induction dec st x arbitrary: st' es rest rule: drain_frames.induct)
  case (1 dec st x)
  show ?case
  proof (cases "find_blank x")
    case None
    then show ?thesis using "1.prems" by (simp add: drain_frames.simps [of dec st x])
  next
    case (Some p)
    then show ?thesis using "1.prems" "1.IH" [OF Some surjective_pairing [symmetric] surjective_pairing [symmetric]]
      by (auto simp: drain_frames.simps [of dec st x] split: prod.splits)
  qed
qed

text \<open>
  Property C33. The cut of the event stream does not matter between characters. When no chunk ends inside a character or between the two
  bytes of a line end, reading the chunks one by one gives the same events, ids and rest as reading them at once.
\<close>

theorem sse_chunking:
  assumes "find_blank b = None" and "list_all whole_chunk chunks"
  shows "feed_all dec chunks (st, b) = feed dec (concat chunks) (st, b)"
  using assms
proof (induction chunks arbitrary: st b)
  case Nil
  then show ?case by (simp add: feed_nil)
next
  case (Cons ch chunks)
  obtain st1 es rest where f: "feed dec ch (st, b) = (st1, es, rest)" by (cases "feed dec ch (st, b)")
  have "find_blank rest = None" using f drain_frames_done by (auto simp: feed_def)
  then have "feed_all dec chunks (st1, rest) = feed dec (concat chunks) (st1, rest)"
    using Cons by simp
  then show ?case using Cons.prems feed_append [of ch dec "concat chunks" st b] f by simp
qed

lemma ascii_whole: "list_all (\<lambda>c. byte_of c < 0x80) s \<Longrightarrow> utf8_whole s"
  by (induction s) (simp_all add: utf8_step_def char_len_def)

lemma ascii_lossy: "list_all (\<lambda>c. byte_of c < 0x80) s \<Longrightarrow> utf8_lossy s = s"
  using utf8_lossy_whole [OF ascii_whole, of s "[]"] by simp

lemma byte_of_lit [simp]: "byte_of (CHR 0x0A) = 10" "byte_of (CHR 0x0D) = 13" "byte_of (CHR 0xC3) = 195" "byte_of (CHR 0xA9) = 169"
  by (simp_all add: byte_of_def)

lemmas feed_eval = feed_def drain_frames.simps read_frame_def frame_line_def strip_prefix_def record_event_id_def
  trim_token plain_token_def plain_char_def byte_of_def

theorem sse_chunking_witness:
  "feed_all (\<lambda>j. Some j) [''data: x'', [CHR 0x0A, CHR 0x0A]] (new_reconnect 1000 30000, [])
   = (new_reconnect 1000 30000, [''x''], [])"
proof -
  have a: "list_all (\<lambda>c. byte_of c < 0x80) (''data: x'' @ [CHR 0x0A, CHR 0x0A])"
    "list_all (\<lambda>c. byte_of c < 0x80) ''data: x''" "list_all (\<lambda>c. byte_of c < 0x80) [CHR 0x0A, CHR 0x0A]"
    by (simp_all add: byte_of_def)
  have w: "list_all whole_chunk [''data: x'', [CHR 0x0A, CHR 0x0A]]"
    using ascii_whole [OF a(2)] ascii_whole [OF a(3)] by (simp add: whole_chunk_def)
  have "feed (\<lambda>j. Some j) (concat [''data: x'', [CHR 0x0A, CHR 0x0A]]) (new_reconnect 1000 30000, [])
    = (new_reconnect 1000 30000, [''x''], [])"
    using ascii_lossy [OF a(1)] by (simp add: feed_eval)
  then show ?thesis using sse_chunking [OF _ w, of "[]" "\<lambda>j. Some j" "new_reconnect 1000 30000"] by simp
qed

lemma feed_text: "utf8_lossy chunk = t \<Longrightarrow> feed dec chunk (st, b) = drain_frames dec st (b @ normalize_crlf t)"
  by (simp add: feed_def)

lemma split_eacute:
  "utf8_lossy (''data: '' @ [CHR 0xC3]) = ''data: '' @ replacement_char"
  "utf8_lossy [CHR 0xA9, CHR 0x0A, CHR 0x0A] = replacement_char @ [CHR 0x0A, CHR 0x0A]"
  "utf8_lossy (''data: '' @ [CHR 0xC3, CHR 0xA9, CHR 0x0A, CHR 0x0A]) = ''data: '' @ [CHR 0xC3, CHR 0xA9, CHR 0x0A, CHR 0x0A]"
proof -
  have a: "utf8_whole ''data: ''" "utf8_whole [CHR 0x0A, CHR 0x0A]"
    by (rule ascii_whole, simp add: byte_of_def)+
  have b: "utf8_lossy [CHR 0x0A, CHR 0x0A] = [CHR 0x0A, CHR 0x0A]"
    using utf8_lossy_whole [OF a(2), of "[]"] by simp
  show "utf8_lossy (''data: '' @ [CHR 0xC3]) = ''data: '' @ replacement_char"
    unfolding utf8_lossy_whole [OF a(1)] by (simp add: utf8_step_def char_len_def)
  show "utf8_lossy [CHR 0xA9, CHR 0x0A, CHR 0x0A] = replacement_char @ [CHR 0x0A, CHR 0x0A]"
    by (subst utf8_lossy.simps) (simp add: utf8_step_def char_len_def b)
  show "utf8_lossy (''data: '' @ [CHR 0xC3, CHR 0xA9, CHR 0x0A, CHR 0x0A]) = ''data: '' @ [CHR 0xC3, CHR 0xA9, CHR 0x0A, CHR 0x0A]"
    unfolding utf8_lossy_whole [OF a(1)]
    by (subst utf8_lossy.simps) (simp add: utf8_step_def char_len_def second_ok_def in_range_def b)
qed

lemma trim_eacute: "trim [CHR 0xC3, CHR 0xA9] = [CHR 0xC3, CHR 0xA9]"
  "trim (replacement_char @ replacement_char) = replacement_char @ replacement_char"
  by (simp_all add: trim_def trim_start.simps trim_end.simps ws_end_len_def ws_len_def replacement_char_def byte_of_def)

lemmas drain_eval = drain_frames.simps read_frame_def frame_line_def strip_prefix_def

text \<open>The two bytes of a character in two chunks: the event's text is not the one that was sent.\<close>

theorem split_character_corrupts:
  "fst (snd (feed (\<lambda>j. Some j) (''data: '' @ [CHR 0xC3, CHR 0xA9, CHR 0x0A, CHR 0x0A]) (st, []))) = [[CHR 0xC3, CHR 0xA9]]
   \<and> fst (snd (feed_all (\<lambda>j. Some j) [''data: '' @ [CHR 0xC3], [CHR 0xA9, CHR 0x0A, CHR 0x0A]] (st, [])))
     = [replacement_char @ replacement_char]"
proof -
  have 1: "feed (\<lambda>j. Some j) (''data: '' @ [CHR 0xC3, CHR 0xA9, CHR 0x0A, CHR 0x0A]) (st, []) = (st, [[CHR 0xC3, CHR 0xA9]], [])"
    unfolding feed_text [OF split_eacute(3)] by (simp add: drain_eval trim_eacute)
  have 2: "feed (\<lambda>j. Some j) (''data: '' @ [CHR 0xC3]) (st, []) = (st, [], ''data: '' @ replacement_char)"
    unfolding feed_text [OF split_eacute(1)] by (simp add: drain_eval replacement_char_def)
  have 3: "feed (\<lambda>j. Some j) [CHR 0xA9, CHR 0x0A, CHR 0x0A] (st, ''data: '' @ replacement_char)
      = (st, [replacement_char @ replacement_char], [])"
    unfolding feed_text [OF split_eacute(2)] using trim_eacute(2) by (simp add: drain_eval replacement_char_def)
  show ?thesis unfolding feed_all.simps 1 2 by (simp only: prod.case 3) simp
qed

lemma line_end_texts:
  "utf8_lossy (''data: 1'' @ [CHR 0x0D, CHR 0x0A, CHR 0x0D]) = ''data: 1'' @ [CHR 0x0D, CHR 0x0A, CHR 0x0D]"
  "utf8_lossy (CHR 0x0A # ''data: 2'' @ [CHR 0x0D, CHR 0x0A, CHR 0x0D, CHR 0x0A])
    = CHR 0x0A # ''data: 2'' @ [CHR 0x0D, CHR 0x0A, CHR 0x0D, CHR 0x0A]"
  by (rule ascii_lossy, simp add: byte_of_def)+

text \<open>A line end in two chunks: the frame does not end, and both frames are read as one.\<close>

theorem split_line_end_merges:
  "fst (snd (feed_all (\<lambda>j. Some j) [''data: 1'' @ [CHR 0x0D, CHR 0x0A, CHR 0x0D],
      CHR 0x0A # ''data: 2'' @ [CHR 0x0D, CHR 0x0A, CHR 0x0D, CHR 0x0A]] (st, []))) = [''1'' @ CHR 0x0A # ''2'']"
proof -
  have 1: "feed (\<lambda>j. Some j) (''data: 1'' @ [CHR 0x0D, CHR 0x0A, CHR 0x0D]) (st, []) = (st, [], ''data: 1'' @ [CHR 0x0A, CHR 0x0D])"
    unfolding feed_text [OF line_end_texts(1)] by (simp add: drain_eval)
  have t: "trim (''1'' @ CHR 0x0A # ''2'') = ''1'' @ CHR 0x0A # ''2''"
    by (simp add: trim_def trim_start.simps trim_end.simps ws_end_len_def ws_len_def byte_of_def)
  have 2: "feed (\<lambda>j. Some j) (CHR 0x0A # ''data: 2'' @ [CHR 0x0D, CHR 0x0A, CHR 0x0D, CHR 0x0A]) (st, ''data: 1'' @ [CHR 0x0A, CHR 0x0D])
      = (st, [''1'' @ CHR 0x0A # ''2''], [])"
    unfolding feed_text [OF line_end_texts(2)] using t by (simp add: drain_eval)
  show ?thesis unfolding feed_all.simps 1 by (simp only: prod.case 2) simp
qed

section \<open>The order of the outputs\<close>


text \<open>
  The order of the outputs, with the number of connections announced so far: the first connection is
  announced by the readiness signal, every later one by a discontinuity, and an event comes from the
  connection that was announced last. A failed first connection is the last output.
\<close>

fun well_sequenced :: "nat \<Rightarrow> 'e SseOutput list \<Rightarrow> bool" where
  "well_sequenced n [] = True"
| "well_sequenced n (Out_Connected (Inr u) # os) = (n = 0 \<and> well_sequenced 1 os)"
| "well_sequenced n (Out_Connected (Inl e) # os) = (n = 0 \<and> os = [])"
| "well_sequenced n (Out_Discontinuity # os) = (0 < n \<and> well_sequenced (Suc n) os)"
| "well_sequenced n (Out_Event m e # os) = (0 < n \<and> m = n \<and> well_sequenced n os)"

definition sse_inv :: "SseLoop \<Rightarrow> bool" where
  "sse_inv l \<longleftrightarrow> rs_had_connected_once (sl_state l) = (0 < sl_stream l)
     \<and> (sl_phase l \<noteq> Stopped \<longrightarrow> sl_initial l = (sl_stream l = 0))
     \<and> (sl_stream l = 0 \<longrightarrow> sl_phase l = Connecting \<or> sl_phase l = Stopped)
     \<and> rs_backoff_start (sl_state l) = 1000 \<and> rs_backoff_cap (sl_state l) = 30000
     \<and> 1000 \<le> rs_backoff (sl_state l) \<and> rs_backoff (sl_state l) \<le> 30000
     \<and> (\<forall>ms. sl_phase l = Sleeping ms \<longrightarrow> 1000 \<le> ms \<and> ms \<le> 30000)"

lemma well_sequenced_events:
  "0 < n \<Longrightarrow> well_sequenced n (map (Out_Event n) es @ os) = well_sequenced n os"
  by (induction es) auto

definition same_backoff :: "SseReconnectState \<Rightarrow> SseReconnectState \<Rightarrow> bool" where
  "same_backoff st st' \<longleftrightarrow> (\<exists>i. st' = st\<lparr>rs_last_event_id := i\<rparr>)"

lemma same_backoff_refl [simp]: "same_backoff st st"
  unfolding same_backoff_def by (intro exI [of _ "rs_last_event_id st"]) simp

lemma same_backoff_trans: "same_backoff a b \<Longrightarrow> same_backoff b c \<Longrightarrow> same_backoff a c"
  by (auto simp: same_backoff_def)

lemma frame_line_backoff: "same_backoff (fst acc) (fst (frame_line l acc))"
  by (auto simp: frame_line_def record_event_id_def same_backoff_def split: option.split
      intro: exI [of _ "rs_last_event_id (fst acc)"])

lemma frame_lines_backoff: "same_backoff (fst acc) (fst (fold frame_line ls acc))"
proof (induction ls arbitrary: acc)
  case (Cons l ls)
  have "same_backoff (fst (frame_line l acc)) (fst (fold frame_line ls (frame_line l acc)))" by (rule Cons.IH)
  with frame_line_backoff show ?case unfolding fold_simps by (rule same_backoff_trans)
qed simp

lemma fst_read_frame: "fst (read_frame dec f st) = fst (fold frame_line (split_on (CHR 0x0A) f) (st, []))"
  by (simp add: read_frame_def Let_def split_beta)

lemma drain_backoff: "drain_frames dec st b = (st', es, rest) \<Longrightarrow> same_backoff st st'"
proof (induction dec st b arbitrary: st' es rest rule: drain_frames.induct)
  case (1 dec st b)
  show ?case
  proof (cases "find_blank b")
    case None
    then show ?thesis using "1.prems" by (simp add: drain_frames.simps [of dec st b])
  next
    case (Some p)
    have "same_backoff st (fst (read_frame dec (fst p) st))"
      using frame_lines_backoff [of "(st, [])"] by (simp add: fst_read_frame)
    then show ?thesis
      using Some "1.prems" "1.IH" [OF Some surjective_pairing [symmetric] surjective_pairing [symmetric]]
      by (auto simp: drain_frames.simps [of dec st b] split: prod.splits intro: same_backoff_trans)
  qed
qed

lemma retry_later_inv:
  assumes "sse_inv l" and "0 < sl_stream l" and "sl_phase l \<noteq> Stopped"
  shows "sse_inv (retry_later l)" and "sl_stream (retry_later l) = sl_stream l" and "sl_phase (retry_later l) \<noteq> Stopped"
  using assms by (auto simp: sse_inv_def retry_later_def on_failure_def)

lemma chunk_read_inv:
  assumes "sse_inv l" and "0 < sl_stream l" and "chunk_read dec b bytes l = (l', os)" and "sl_phase l \<noteq> Stopped"
  shows "sse_inv l' \<and> sl_stream l' = sl_stream l \<and> sl_phase l' \<noteq> Stopped
    \<and> (\<forall>t. well_sequenced (sl_stream l) (os @ t) = well_sequenced (sl_stream l') t)"
proof -
  obtain st es rest where f: "feed dec bytes (sl_state l, b) = (st, es, rest)" by (cases "feed dec bytes (sl_state l, b)")
  then have "same_backoff (sl_state l) st" using drain_backoff by (auto simp: feed_def)
  then obtain i where st: "st = (sl_state l)\<lparr>rs_last_event_id := i\<rparr>" by (auto simp: same_backoff_def)
  show ?thesis using assms f by (auto simp: chunk_read_def sse_inv_def st well_sequenced_events)
qed

lemma connect_failed_step:
  assumes "sse_inv l" and "sl_phase l = Connecting" and "connect_failed e l = (l', os)"
  shows "sse_inv l' \<and> (\<forall>t. (sl_phase l' = Stopped \<longrightarrow> t = []) \<longrightarrow> well_sequenced (sl_stream l') t \<longrightarrow> well_sequenced (sl_stream l) (os @ t))
    \<and> (sl_phase l' = Stopped \<longrightarrow> sl_stream l = 0 \<and> (\<exists>e. os = [Out_Connected (Inl e)]))"
  using assms retry_later_inv [of l] by (auto simp: connect_failed_def sse_inv_def split: if_splits)

lemma stream_opened_step:
  assumes "sse_inv l" and "sl_phase l = Connecting" and "stream_opened l = (l', os)"
  shows "sse_inv l' \<and> sl_phase l' \<noteq> Stopped \<and> (\<forall>t. well_sequenced (sl_stream l') t \<longrightarrow> well_sequenced (sl_stream l) (os @ t))"
  using assms by (auto simp: stream_opened_def on_connected_def sse_inv_def)

lemma sse_step_inv:
  assumes "sse_inv l" and "sse_step dec i l = Some (l', os)"
  shows "sse_inv l'
    \<and> (\<forall>t. (sl_phase l' = Stopped \<longrightarrow> t = []) \<longrightarrow> well_sequenced (sl_stream l') t \<longrightarrow> well_sequenced (sl_stream l) (os @ t))
    \<and> (sl_phase l' = Stopped \<longrightarrow> i = Cancel \<or> sl_stream l = 0 \<and> (\<exists>e. os = [Out_Connected (Inl e)]))"
proof (cases "i = Cancel")
  case True
  then show ?thesis using assms by (cases "sl_phase l") (auto simp: sse_step_def sse_inv_def)
next
  case False
  show ?thesis
  proof (cases "sl_phase l")
    case Connecting
    consider e where "connect_failed e l = (l', os)" | "stream_opened l = (l', os)"
      using assms(2) Connecting False by (cases i) (auto simp: sse_step_def split: if_splits)
    then show ?thesis
      using connect_failed_step [OF assms(1) Connecting] stream_opened_step [OF assms(1) Connecting] by cases blast+
  next
    case (Streaming b)
    then have s: "0 < sl_stream l" using assms(1) by (auto simp: sse_inv_def)
    consider bytes where "chunk_read dec b bytes l = (l', os)" | "l' = retry_later l" "os = []"
      using assms(2) Streaming False by (cases i) (auto simp: sse_step_def)
    then show ?thesis
    proof cases
      case 1
      from chunk_read_inv [OF assms(1) s this] Streaming show ?thesis by auto
    next
      case 2
      then show ?thesis using retry_later_inv [OF assms(1) s] Streaming by auto
    qed
  next
    case (Sleeping ms)
    then show ?thesis using assms False by (cases i) (auto simp: sse_step_def sse_inv_def)
  next
    case Stopped
    then show ?thesis using assms(2) by (simp add: sse_step_def)
  qed
qed

lemma sse_run_stopped: "sl_phase l = Stopped \<Longrightarrow> sse_run dec is l = Some (l', os) \<Longrightarrow> is = [] \<and> os = [] \<and> l' = l"
  by (cases "is") (auto simp: sse_step_def)

lemma sse_run_inv:
  assumes "sse_inv l" and "sse_run dec is l = Some (l', os)"
  shows "sse_inv l' \<and> well_sequenced (sl_stream l) os
    \<and> (sl_phase l' = Stopped \<longrightarrow> sl_phase l = Stopped \<or> Cancel \<in> set is \<or> sl_stream l = 0 \<and> (\<exists>e. os = [Out_Connected (Inl e)]))"
  using assms
proof (induction "is" arbitrary: l os)
  case (Cons i "is")
  obtain l1 os1 os2 where st: "sse_step dec i l = Some (l1, os1)" and run: "sse_run dec is l1 = Some (l', os2)" and os: "os = os1 @ os2"
    using Cons.prems(2) by (auto split: option.splits)
  note s = sse_step_inv [OF Cons.prems(1) st] and r = Cons.IH [OF _ run]
  have stop: "sl_phase l1 = Stopped \<Longrightarrow> os2 = [] \<and> l' = l1" using sse_run_stopped [OF _ run] by blast
  have first: "sl_stream l1 = 0 \<Longrightarrow> sl_phase l1 \<noteq> Stopped \<Longrightarrow> os1 = [] \<and> sl_stream l = 0"
    using st Cons.prems(1)
    by (cases "sl_phase l"; cases i)
       (auto simp: sse_step_def sse_inv_def connect_failed_def stream_opened_def on_connected_def chunk_read_def
         retry_later_def on_failure_def split: if_splits prod.splits)
  have "sse_inv l'" "well_sequenced (sl_stream l) os" using s r stop os by auto
  moreover have "Cancel \<in> set (i # is) \<or> sl_stream l = 0 \<and> (\<exists>e. os = [Out_Connected (Inl e)])"
    if "sl_phase l' = Stopped" "sl_phase l \<noteq> Stopped"
  proof (cases "sl_phase l1 = Stopped")
    case True
    then show ?thesis using s stop os by auto
  next
    case False
    then show ?thesis using s r that first os by auto
  qed
  ultimately show ?case by blast
qed simp

text \<open>
  The consumer of a daemon's events can always tell which connection they come from. The first connection is announced by
  the readiness signal, every later one by a discontinuity before its first event, and a failed first connection is reported and ends
  the loop. The delay before a reconnect is between 1 and 30 seconds, and only a cancellation or a failed first connection stops the loop.
\<close>

theorem sse_outputs_sequenced:
  assumes "sse_run dec is start_sse = Some (l, os)"
  shows "well_sequenced 0 os
    \<and> (\<forall>ms. sl_phase l = Sleeping ms \<longrightarrow> 1000 \<le> ms \<and> ms \<le> 30000)
    \<and> (sl_phase l = Stopped \<longrightarrow> Cancel \<in> set is \<or> (\<exists>e. os = [Out_Connected (Inl e)]))"
proof -
  have "sse_inv start_sse" by (simp add: sse_inv_def start_sse_def new_reconnect_def)
  from sse_run_inv [OF this assms] show ?thesis by (auto simp: sse_inv_def start_sse_def)
qed

theorem sse_outputs_sequenced_witness:
  "sse_run (\<lambda>j. Some j) [Stream_Opened, Stream_End, Timer, Stream_Opened] start_sse
     = Some (start_sse\<lparr>sl_phase := Streaming [], sl_initial := False, sl_stream := 2,
         sl_state := (new_reconnect 1000 30000)\<lparr>rs_had_connected_once := True\<rparr>\<rparr>,
       [Out_Connected (Inr ()), Out_Discontinuity])
   \<and> well_sequenced 0 [Out_Connected (Inr ()), Out_Discontinuity :: string SseOutput]"
proof -
  let ?l = "start_sse\<lparr>sl_phase := Streaming [], sl_initial := False, sl_stream := 2,
         sl_state := (new_reconnect 1000 30000)\<lparr>rs_had_connected_once := True\<rparr>\<rparr>"
  have run: "sse_run (\<lambda>j::string. Some j) [Stream_Opened, Stream_End, Timer, Stream_Opened] start_sse
      = Some (?l, [Out_Connected (Inr ()), Out_Discontinuity])"
    by (simp add: sse_step_def start_sse_def stream_opened_def on_connected_def retry_later_def on_failure_def
        new_reconnect_def)
  from sse_outputs_sequenced [OF run] run show ?thesis by simp
qed

end
