(* ===== verification/Transport.thy ===== *)
theory Transport
  imports Frame Wire_Client "HOL-Library.Sublist"
begin

text \<open>
  The two transports of a connection (\<^verbatim>\<open>connection/ws.rs\<close>, \<^verbatim>\<open>connection/stdio.rs\<close>) and the connection
  peek of the remote runtime (\<^verbatim>\<open>remote/runtime.rs\<close>). What has arrived is a list of frames or reads; a
  receive that has used it up is \<open>None\<close>: it still waits. The result of a receive is the message, or
  \<open>None\<close> inside for a closed transport, with the transport's state after it.
\<close>

section \<open>WebSocket\<close>

datatype WsFrame = Ws_Text string | Ws_Binary | Ws_Close | Ws_Error | Ws_Control | Ws_End

fun ws_recv :: "(string \<Rightarrow> json_value option) \<Rightarrow> WsFrame list \<Rightarrow> (ClientMessage option \<times> WsFrame list) option" where
  "ws_recv parse_json [] = None"
| "ws_recv parse_json (f # fs) = (case f of
     Ws_Text t \<Rightarrow> (case parse_client_message parse_json t of
         Some m \<Rightarrow> Some (Some m, fs)
       | None \<Rightarrow> ws_recv parse_json fs)
   | Ws_Close \<Rightarrow> Some (None, fs)
   | Ws_Error \<Rightarrow> Some (None, fs)
   | Ws_End \<Rightarrow> Some (None, fs)
   | _ \<Rightarrow> ws_recv parse_json fs)"

section \<open>Framed standard input\<close>

text \<open>One read: the bytes, none at the end of the input, or an error.\<close>

datatype Read = Rd_Ok bytes | Rd_Err

text \<open>The loop over the frames of one read: the first that decodes ends it, and the others go with it.\<close>

fun first_message :: "'m serde_json \<Rightarrow> (FrameError + bytes) list \<Rightarrow> 'm option" where
  "first_message serde [] = None"
| "first_message serde (r # rs) = (case r of
     Inl _ \<Rightarrow> first_message serde rs
   | Inr body \<Rightarrow> (case decode_client serde body of
       Inr env \<Rightarrow> Some (we_message env)
     | Inl _ \<Rightarrow> first_message serde rs))"

fun stdio_recv ::
  "'m serde_json \<Rightarrow> FrameDecoder \<Rightarrow> Read list \<Rightarrow> ('m option \<times> FrameDecoder \<times> Read list) option" where
  "stdio_recv serde d [] = None"
| "stdio_recv serde d (Rd_Err # rs) = Some (None, d, rs)"
| "stdio_recv serde d (Rd_Ok bs # rs) =
     (if bs = [] then Some (None, d, rs)
      else case push d bs of (results, d1) \<Rightarrow>
        (case first_message serde results of
           Some m \<Rightarrow> Some (Some m, d1, rs)
         | None \<Rightarrow> stdio_recv serde d1 rs))"

text \<open>The receive before the split has a decoder of its own, which is dropped with what it holds.\<close>

definition stdio_gate_recv :: "'m serde_json \<Rightarrow> Read list \<Rightarrow> ('m option \<times> Read list) option" where
  "stdio_gate_recv serde rs = map_option (\<lambda>(m, _, rs'). (m, rs')) (stdio_recv serde new_decoder rs)"

datatype WriteResult = Wr_Ok | Wr_Write_Error | Wr_Flush_Error

text \<open>\<^verbatim>\<open>send\<close>: the bytes given to the stream, and whether the session goes on.\<close>

definition stdio_send :: "'m serde_json \<Rightarrow> WriteResult \<Rightarrow> 'm \<Rightarrow> bytes \<times> bool" where
  "stdio_send serde w m = (case encode serde (new_envelope m) of
     Inl _ \<Rightarrow> ([], False)
   | Inr bs \<Rightarrow> (if w = Wr_Write_Error then [] else bs, w = Wr_Ok))"

definition encode_client_frame :: "'m serde_json \<Rightarrow> 'm \<Rightarrow> FrameError + bytes" where
  "encode_client_frame serde m = encode_client serde (new_envelope m)"

definition decode_server_frame :: "'m serde_json \<Rightarrow> bytes \<Rightarrow> FrameError + 'm" where
  "decode_server_frame serde body = (case decode serde body of Inl e \<Rightarrow> Inl e | Inr env \<Rightarrow> Inr (we_message env))"

section \<open>The peek of the remote runtime\<close>

datatype Peek = Peek_Closed | Peek_Error | Peek_First bytes "Read list"

text \<open>The first frame is taken only if it is the first result of its read.\<close>

fun peek_first :: "FrameDecoder \<Rightarrow> Read list \<Rightarrow> Peek option" where
  "peek_first d [] = None"
| "peek_first d (Rd_Err # rs) = Some Peek_Error"
| "peek_first d (Rd_Ok bs # rs) =
     (if bs = [] then Some Peek_Closed
      else case push d bs of
        (Inr body # _, _) \<Rightarrow> Some (Peek_First body rs)
      | (_, d1) \<Rightarrow> peek_first d1 rs)"

definition READ_BUFFER :: nat where
  "READ_BUFFER = 8192"

text \<open>Reads of a stream that holds these bytes, as many at a time as the buffer takes.\<close>

function buffer_reads :: "bytes \<Rightarrow> Read list" where
  "buffer_reads bs = (if bs = [] then [] else Rd_Ok (take READ_BUFFER bs) # buffer_reads (drop READ_BUFFER bs))"
  by pat_completeness auto
termination by (relation "measure length") (auto simp: READ_BUFFER_def)

declare buffer_reads.simps [simp del]

definition combined_reads :: "bytes \<Rightarrow> Read list \<Rightarrow> Read list" where
  "combined_reads pre rs = buffer_reads pre @ rs"

definition is_probe :: "(bytes \<Rightarrow> json_value option) \<Rightarrow> bytes \<Rightarrow> bool" where
  "is_probe from_slice body = (case from_slice body of
     Some (J_Object obj) \<Rightarrow> Option.bind (map_of obj ''type'') as_str = Some ''probe''
   | _ \<Rightarrow> False)"

datatype RuntimeState = Running | Starting | Incompatible | NotInstalled

record Identity =
  id_protocol_version :: u32
  id_daemon_target_version :: string
  id_state :: RuntimeState

datatype RuntimeConn =
    Rc_Closed | Rc_Error | Rc_Probed Identity | Rc_Session "Read list"

text \<open>What an accepted connection becomes; a session reads the returned stream.\<close>

definition handle_runtime_connection ::
  "(bytes \<Rightarrow> json_value option) \<Rightarrow> u32 \<Rightarrow> string \<Rightarrow> Read list \<Rightarrow> RuntimeConn option" where
  "handle_runtime_connection from_slice protocol_version daemon_target_version rs =
     map_option (\<lambda>p. case p of
       Peek_Closed \<Rightarrow> Rc_Closed
     | Peek_Error \<Rightarrow> Rc_Error
     | Peek_First body rest \<Rightarrow>
         if is_probe from_slice body
         then Rc_Probed \<lparr>id_protocol_version = protocol_version, id_daemon_target_version = daemon_target_version,
                id_state = Running\<rparr>
         else Rc_Session (combined_reads (to_be_bytes (word_of_nat (length body)) @ body) rest))
     (peek_first new_decoder rs)"

datatype ProxyVerdict = Pv_Relay | Pv_Refuse

text \<open>What the proxy makes of the probe's answer, or of its failure.\<close>

definition proxy_verdict :: "Identity option \<Rightarrow> ProxyVerdict" where
  "proxy_verdict i = (case i of
     Some x \<Rightarrow> if id_state x = Incompatible then Pv_Refuse else Pv_Relay
   | None \<Rightarrow> Pv_Relay)"

text \<open>The messages that the reader hands to the session, until it waits or the input ends.\<close>

lemma stdio_recv_shorter:
  "stdio_recv serde d rs = Some (m, d', rs') \<Longrightarrow> length rs' < length rs"
  by (induction serde d rs rule: stdio_recv.induct) (auto split: if_splits prod.splits option.splits)

function inbound_messages :: "'m serde_json \<Rightarrow> FrameDecoder \<Rightarrow> Read list \<Rightarrow> 'm list" where
  "inbound_messages serde d rs = (case stdio_recv serde d rs of
     Some (Some m, d', rs') \<Rightarrow> m # inbound_messages serde d' rs'
   | _ \<Rightarrow> [])"
  by pat_completeness auto
termination
  by (relation "measure (\<lambda>(_, _, rs). length rs)") (auto dest: stdio_recv_shorter)

declare inbound_messages.simps [simp del]

section \<open>Delivery\<close>

definition decoded :: "'m serde_json \<Rightarrow> (FrameError + bytes) list \<Rightarrow> 'm list" where
  "decoded serde rs = List.map_filter (\<lambda>r. first_message serde [r]) rs"

lemma decoded_simps [simp]:
  "decoded serde [] = []"
  "decoded serde (r # rs) = (case first_message serde [r] of Some m \<Rightarrow> m # decoded serde rs | None \<Rightarrow> decoded serde rs)"
  by (simp_all add: decoded_def map_filter_simps del: first_message.simps split: option.split)

lemma decoded_append [simp]: "decoded serde (a @ b) = decoded serde a @ decoded serde b"
  by (induction a) (simp_all split: option.split)

lemma first_message_decoded:
  "first_message serde rs = (case decoded serde rs of [] \<Rightarrow> None | m # _ \<Rightarrow> Some m)"
  by (induction rs) (auto split: sum.split option.split)

text \<open>The results of every read.\<close>

fun read_results :: "FrameDecoder \<Rightarrow> bytes list \<Rightarrow> (FrameError + bytes) list list" where
  "read_results d [] = []"
| "read_results d (c # cs) = fst (push d c) # read_results (snd (push d c)) cs"

lemma concat_read_results: "concat (read_results d cs) = fst (feed_chunks push d cs)"
  by (induction cs arbitrary: d) (simp_all add: split_beta)

lemma inbound_reads:
  assumes "[] \<notin> set cs"
  shows "inbound_messages serde d (map Rd_Ok cs @ [Rd_Ok []])
    = List.map_filter (first_message serde) (read_results d cs)"
  using assms
proof (induction cs arbitrary: d)
  case Nil
  then show ?case by (simp add: inbound_messages.simps map_filter_simps)
next
  case (Cons c cs)
  obtain rs d1 where p: "push d c = (rs, d1)" by (cases "push d c")
  have ne: "c \<noteq> []" using Cons.prems by auto
  have rest: "inbound_messages serde d1 (map Rd_Ok cs @ [Rd_Ok []]) = List.map_filter (first_message serde) (read_results d1 cs)"
    using Cons by simp
  show ?case
  proof (cases "first_message serde rs")
    case None
    then have "inbound_messages serde d (map Rd_Ok (c # cs) @ [Rd_Ok []])
        = inbound_messages serde d1 (map Rd_Ok cs @ [Rd_Ok []])"
      using ne p by (subst (1 2) inbound_messages.simps) simp
    then show ?thesis using None p rest by (simp add: map_filter_simps)
  next
    case (Some m)
    then have "inbound_messages serde d (map Rd_Ok (c # cs) @ [Rd_Ok []])
        = m # inbound_messages serde d1 (map Rd_Ok cs @ [Rd_Ok []])"
      using ne p by (subst inbound_messages.simps) simp
    then show ?thesis using Some p rest by (simp add: map_filter_simps)
  qed
qed

lemma first_of_each:
  "subseq (List.map_filter (first_message serde) rss) (decoded serde (concat rss))"
proof (induction rss)
  case (Cons rs rss)
  then show ?case
    by (cases "decoded serde rs") (auto simp: map_filter_simps first_message_decoded intro: list_emb_append2)
qed (simp add: map_filter_simps)

lemma one_of_each:
  assumes "\<forall>rs \<in> set rss. length rs \<le> 1"
  shows "List.map_filter (first_message serde) rss = decoded serde (concat rss)"
  using assms
proof (induction rss)
  case (Cons rs rss)
  then have "rs = [] \<or> (\<exists>r. rs = [r])" by (cases rs) auto
  then show ?case using Cons by (auto simp: map_filter_simps simp del: first_message.simps(2) split: option.split) 
qed (simp add: map_filter_simps)

lemma decoded_bodies:
  assumes "list_all2 (\<lambda>m body. decode_client serde body = Inr (new_envelope m)) ms bodies"
  shows "decoded serde (map Inr bodies) = ms"
  using assms by induction (simp_all add: new_envelope_def)

text \<open>What the codec relies on of the JSON library for the messages that are sent.\<close>

lemma sent_bodies:
  assumes "list_all (\<lambda>m. serde_roundtrips serde (new_envelope m)) ms"
    and "list_all2 (\<lambda>m f. encode_client_frame serde m = Inr f) ms frames"
  shows "\<exists>bodies. frames = map frame bodies \<and> list_all sendable bodies
    \<and> list_all2 (\<lambda>m body. decode_client serde body = Inr (new_envelope m)) ms bodies"
  using assms(2,1)
proof (induction rule: list_all2_induct)
  case (Cons m ms f fs)
  then obtain bodies where bs: "fs = map frame bodies" "list_all sendable bodies"
    "list_all2 (\<lambda>m body. decode_client serde body = Inr (new_envelope m)) ms bodies" by auto
  obtain body where b: "to_vec serde (new_envelope m) = Inr body" "body \<noteq> []" "utf8_valid body"
    "from_str serde body = Inr (new_envelope m)"
    using Cons.prems by (auto simp: serde_roundtrips_def sendable_def split: sum.splits)
  then have "f = frame body \<and> sendable body"
    using Cons.hyps by (auto simp: encode_client_frame_def encode_client_def encode_json_def frame_def sendable_def split: if_splits)
  moreover have "decode_client serde body = Inr (new_envelope m)"
    using b by (simp add: decode_client_def decode_envelope_def)
  ultimately have "f # fs = map frame (body # bodies) \<and> list_all sendable (body # bodies)
    \<and> list_all2 (\<lambda>m body. decode_client serde body = Inr (new_envelope m)) (m # ms) (body # bodies)"
    using bs by simp
  then show ?case by (rule exI)
qed simp

lemma sent_results:
  assumes "list_all (\<lambda>m. serde_roundtrips serde (new_envelope m)) ms"
    and "list_all2 (\<lambda>m f. encode_client_frame serde m = Inr f) ms frames" and "concat cs = concat frames"
  shows "decoded serde (concat (read_results new_decoder cs)) = ms"
proof -
  obtain bodies where b: "frames = map frame bodies" "list_all sendable bodies"
    "list_all2 (\<lambda>m body. decode_client serde body = Inr (new_envelope m)) ms bodies"
    using sent_bodies [OF assms(1,2)] by blast
  have "concat (read_results new_decoder cs) = map Inr bodies"
    using feed_frames [OF b(2), of cs] assms(3) b(1) by (simp add: concat_read_results)
  then show ?thesis using decoded_bodies [OF b(3)] by simp
qed


lemma toy_frames:
  "list_all (\<lambda>m. serde_roundtrips toy_serde (new_envelope m)) ms"
  "encode_client_frame toy_serde m = Inr (frame [if m then 49 else 48])"
  "decode_client toy_serde [if m then 49 else 48] = Inr (new_envelope m)"
proof -
  have one: "sendable [b]" "length [b] \<le> MAX_FRAME_BYTES" for b :: u8 by (simp_all add: sendable_def MAX_FRAME_BYTES_def)
  show "list_all (\<lambda>m. serde_roundtrips toy_serde (new_envelope m)) ms"
    using one(1) by (auto simp: list_all_iff serde_roundtrips_def toy_serde_def new_envelope_def byte_in_def)
  show "encode_client_frame toy_serde m = Inr (frame [if m then 49 else 48])"
    using encode_json_frame [OF one(1)] by (simp add: encode_client_frame_def encode_client_def toy_serde_def new_envelope_def)
  show "decode_client toy_serde [if m then 49 else 48] = Inr (new_envelope m)"
    by (simp add: decode_client_def decode_envelope_def toy_serde_def byte_in_def)
qed

lemma push_one_frame: "push new_decoder (frame [b]) = ([Inr [b]], new_decoder)"
  using push_loop_frames [of "[[b]]"] by (simp add: push_eq new_decoder_def sendable_def MAX_FRAME_BYTES_def)


text \<open>Two messages in one read: the second is lost.\<close>

theorem coalesced_message_lost:
  assumes "sendable b1" and "sendable b2" and "decode_client serde b1 = Inr (new_envelope m1)"
  shows "inbound_messages serde new_decoder [Rd_Ok (frame b1 @ frame b2), Rd_Ok []] = [m1]"
proof -
  have p: "push new_decoder (frame b1 @ frame b2) = ([Inr b1, Inr b2], new_decoder)"
    using push_loop_frames [of "[b1, b2]"] assms(1,2) by (simp add: push_eq new_decoder_def)
  have ne: "frame b1 @ frame b2 \<noteq> []" by (simp add: frame_def to_be_bytes_def)
  from inbound_reads [of "[frame b1 @ frame b2]" serde new_decoder] ne show ?thesis
    using p assms(3) by (simp add: map_filter_simps new_envelope_def)
qed

section \<open>Sessions of the remote runtime\<close>

lemma push_loop_partial:
  assumes "sendable body" and "p @ q = frame body" and "q \<noteq> []"
  shows "push_loop p = ([], p)"
proof (cases "length p < 4")
  case False
  have "unat (declared_len p) = length body"
    using declared_len_frame [of body "[]"] declared_len_append [OF False, of q] assms(1,2) by (simp add: sendable_def)
  moreover have "length p + length q = 4 + length body"
    using arg_cong [OF assms(2), of length] by (simp add: frame_def)
  ultimately show ?thesis using False assms(1,3)
    by (intro push_loop_wait) (simp_all add: sendable_def, metis add_less_cancel_left length_greater_0_conv less_add_same_cancel1)
qed (simp add: push_loop_short)

text \<open>A frame that arrives in pieces, the last of which ends with it.\<close>

lemma push_piece:
  assumes "sendable body" and "fd_buf d @ concat (c # cs) = frame body" and "[] \<notin> set (c # cs)"
  shows "push d c = (if cs = [] then ([Inr body], new_decoder) else ([], \<lparr>fd_buf = fd_buf d @ c\<rparr>))"
proof (cases "cs = []")
  case True
  then show ?thesis using assms push_loop_frames [of "[body]"] by (simp add: push_eq new_decoder_def)
next
  case False
  then have "concat cs \<noteq> []" using assms(3) by (cases cs) auto
  then have "push_loop (fd_buf d @ c) = ([], fd_buf d @ c)"
    using assms by (intro push_loop_partial [of body _ "concat cs"]) simp_all
  then show ?thesis using False by (simp add: push_eq)
qed

lemma stdio_recv_frame:
  assumes "sendable body" and "decode_client serde body = Inr env"
    and "fd_buf d @ concat cs = frame body" and "cs \<noteq> []" and "[] \<notin> set cs"
  shows "stdio_recv serde d (map Rd_Ok cs @ rs) = Some (Some (we_message env), new_decoder, rs)"
  using assms(3-5)
proof (induction cs arbitrary: d)
  case (Cons c cs)
  then have "c \<noteq> []" by auto
  then show ?case using Cons push_piece [OF assms(1) Cons.prems(1,3)] assms(2) by (cases "cs = []") simp_all
qed simp

lemma peek_frame:
  assumes "sendable body" and "fd_buf d @ concat cs = frame body" and "cs \<noteq> []" and "[] \<notin> set cs"
  shows "peek_first d (map Rd_Ok cs @ rs) = Some (Peek_First body rs)"
  using assms(2-4)
proof (induction cs arbitrary: d)
  case (Cons c cs)
  then have "c \<noteq> []" by auto
  then show ?case using Cons push_piece [OF assms(1) Cons.prems(1,3)] by (cases "cs = []") simp_all
qed simp

lemma buffer_reads_chunks:
  "\<exists>cs. buffer_reads bs = map Rd_Ok cs \<and> concat cs = bs \<and> [] \<notin> set cs"
proof (induction bs rule: buffer_reads.induct)
  case (1 bs)
  show ?case
  proof (cases "bs = []")
    case False
    then obtain cs where "buffer_reads (drop READ_BUFFER bs) = map Rd_Ok cs" "concat cs = drop READ_BUFFER bs" "[] \<notin> set cs"
      using 1 by blast
    then have "buffer_reads bs = map Rd_Ok (take READ_BUFFER bs # cs) \<and> concat (take READ_BUFFER bs # cs) = bs
        \<and> [] \<notin> set (take READ_BUFFER bs # cs)"
      using False by (subst buffer_reads.simps) (auto simp: READ_BUFFER_def)
    then show ?thesis by (rule exI)
  qed (simp add: buffer_reads.simps)
qed

text \<open>
  The runtime's peek at a connection is invisible. When the first frame ends with the read that completes it, and is no
  probe, the session opens, and its gate receives that frame's message and leaves the rest of the stream in place.
\<close>

theorem runtime_session_opens:
  assumes "sendable body" and "decode_client serde body = Inr env" and "\<not> is_probe parse_json body"
    and "concat cs = frame body" and "[] \<notin> set cs"
  shows "\<exists>stream. handle_runtime_connection parse_json pv dv (map Rd_Ok cs @ rs) = Some (Rc_Session stream)
    \<and> stdio_gate_recv serde stream = Some (Some (we_message env), rs)"
proof -
  have ne: "frame body \<noteq> []" by (simp add: frame_def to_be_bytes_def)
  then have "cs \<noteq> []" using assms(4) by auto
  then have "peek_first new_decoder (map Rd_Ok cs @ rs) = Some (Peek_First body rs)"
    using assms by (intro peek_frame) (simp_all add: new_decoder_def)
  then have h: "handle_runtime_connection parse_json pv dv (map Rd_Ok cs @ rs)
      = Some (Rc_Session (combined_reads (frame body) rs))"
    using assms(3) by (simp add: handle_runtime_connection_def frame_def)
  obtain bs where bs: "buffer_reads (frame body) = map Rd_Ok bs" "concat bs = frame body" "[] \<notin> set bs"
    using buffer_reads_chunks by blast
  then have "bs \<noteq> []" using ne by auto
  then have "stdio_gate_recv serde (combined_reads (frame body) rs) = Some (Some (we_message env), rs)"
    using stdio_recv_frame [OF assms(1,2), of new_decoder bs rs] bs
    by (simp add: stdio_gate_recv_def combined_reads_def new_decoder_def)
  with h show ?thesis by blast
qed

theorem runtime_session_opens_witness:
  "\<exists>stream. handle_runtime_connection (\<lambda>_. None) 1 [] [Rd_Ok [0, 0], Rd_Ok [0, 1, 49], Rd_Ok []] = Some (Rc_Session stream)
    \<and> stdio_gate_recv toy_serde stream = Some (Some True, [Rd_Ok []])"
proof -
  have f: "concat [[0, 0], [0, 1, 49]] = frame [49]" by (simp add: frame_def to_be_bytes_def)
  have d: "decode_client toy_serde [49] = Inr (new_envelope True)" using toy_frames(3) [of True] by simp
  from runtime_session_opens [OF _ d _ f, of "\<lambda>_. None" 1 "[]" "[Rd_Ok []]"]
  show ?thesis by (simp add: sendable_def MAX_FRAME_BYTES_def is_probe_def new_envelope_def)
qed

text \<open>The start of a second frame in the read that completes the first: it is dropped, and the session
  reads its other half as the start of a frame.\<close>

theorem peek_drops_read_ahead:
  assumes "sendable b1" and "sendable b2" and "p @ q = frame b2" and "q \<noteq> []" and "\<not> is_probe parse_json b1"
  shows "handle_runtime_connection parse_json pv dv (Rd_Ok (frame b1 @ p) # Rd_Ok q # rs)
    = Some (Rc_Session (combined_reads (frame b1) (Rd_Ok q # rs)))"
proof -
  have "push new_decoder (frame b1 @ p) = ([Inr b1], \<lparr>fd_buf = p\<rparr>)"
    using push_loop_frame [OF assms(1), of p] push_loop_partial [OF assms(2,3,4)] by (simp add: push_eq new_decoder_def)
  moreover have "frame b1 @ p \<noteq> []" by (simp add: frame_def to_be_bytes_def)
  ultimately have "peek_first new_decoder (Rd_Ok (frame b1 @ p) # Rd_Ok q # rs) = Some (Peek_First b1 (Rd_Ok q # rs))"
    by (simp only: peek_first.simps if_False prod.case list.case sum.case)
  then show ?thesis using assms(5) by (simp add: handle_runtime_connection_def frame_def)
qed

text \<open>Whatever versions the runtime reports, its state is running, and the proxy relays.\<close>

theorem version_mismatch_relays:
  assumes "handle_runtime_connection parse_json pv dv rs = Some (Rc_Probed i)"
  shows "id_protocol_version i = pv \<and> id_daemon_target_version i = dv \<and> proxy_verdict (Some i) = Pv_Relay"
proof (cases "peek_first new_decoder rs")
  case (Some k)
  then show ?thesis
    using assms by (cases k) (auto simp: handle_runtime_connection_def proxy_verdict_def split: if_splits)
qed (use assms in \<open>simp add: handle_runtime_connection_def\<close>)

end
