(* ===== verification/Static_Serve.thy ===== *)
theory Static_Serve
  imports Layout Models
begin

text \<open>
  Serving the built web client (\<^verbatim>\<open>pantoken-server/src/static_serve.rs\<close>): the normalization of the request
  path, the choice of the file, and the response with its cache headers, entity tag and encoding. The
  files under the client directory, gzip and Unicode lowercasing are parameters. The two caches are
  the state that a request passes on.
\<close>

section \<open>Paths\<close>

fun trim_dots :: "string \<Rightarrow> string" where
  "trim_dots (c # d # s) = (if c = CHR ''.'' \<and> d = CHR ''.'' then trim_dots s else c # d # s)"
| "trim_dots s = s"

definition trim_seps :: "string \<Rightarrow> string" where
  "trim_seps s = dropWhile (\<lambda>c. c = CHR ''/'' \<or> c = CHR 0x5C) s"

definition normalize_path :: "string \<Rightarrow> string" where
  "normalize_path pathname =
     (let stripped = trim_seps (trim_dots (trim_seps pathname))
      in dropWhile (\<lambda>c. c = CHR ''/'')
           (join ''/'' (filter (\<lambda>seg. seg \<noteq> ''..'' \<and> seg \<noteq> []) (split_on (CHR ''/'') stripped))))"

section \<open>Types of files\<close>

definition COMPRESSIBLE :: "string list" where
  "COMPRESSIBLE = [''.js'', ''.mjs'', ''.css'', ''.html'', ''.svg'', ''.json'', ''.webmanifest'', ''.map'', ''.txt'']"

definition GZIP_MIN_BYTES :: nat where
  "GZIP_MIN_BYTES = 1024"

definition mime_type :: "string \<Rightarrow> string option" where
  "mime_type ext =
     (if ext \<in> {''.js'', ''.mjs''} then Some ''text/javascript''
      else if ext = ''.css'' then Some ''text/css''
      else if ext = ''.html'' then Some ''text/html; charset=utf-8''
      else if ext = ''.svg'' then Some ''image/svg+xml''
      else if ext = ''.json'' then Some ''application/json''
      else if ext = ''.webmanifest'' then Some ''application/manifest+json''
      else if ext = ''.map'' then Some ''application/json''
      else if ext = ''.txt'' then Some ''text/plain; charset=utf-8''
      else if ext = ''.png'' then Some ''image/png''
      else if ext \<in> {''.jpg'', ''.jpeg''} then Some ''image/jpeg''
      else if ext = ''.gif'' then Some ''image/gif''
      else if ext = ''.webp'' then Some ''image/webp''
      else if ext = ''.ico'' then Some ''image/x-icon''
      else if ext = ''.woff'' then Some ''font/woff''
      else if ext = ''.woff2'' then Some ''font/woff2''
      else if ext = ''.wasm'' then Some ''application/wasm''
      else None)"

text \<open>\<^verbatim>\<open>Path::extension\<close>: what follows the last dot of the file name, unless the dot begins the name.\<close>

definition name_extension :: "string \<Rightarrow> string option" where
  "name_extension n = (let r = rev n in
     if CHR ''.'' \<in> set (butlast r) then Some (rev (takeWhile (\<lambda>c. c \<noteq> CHR ''.'') r)) else None)"

definition path_extension :: "path \<Rightarrow> string option" where
  "path_extension p = (if components p = [] then None
     else case last (components p) of Normal n \<Rightarrow> name_extension n | _ \<Rightarrow> None)"

definition ext_of :: "(string \<Rightarrow> string) \<Rightarrow> path \<Rightarrow> string" where
  "ext_of lower p = (case path_extension p of Some e \<Rightarrow> CHR ''.'' # lower e | None \<Rightarrow> ''.html'')"

section \<open>Entity tags\<close>

text \<open>\<^verbatim>\<open>xxhash\<close>: FNV-1a, whatever its name says.\<close>

definition xxhash :: "string \<Rightarrow> u64" where
  "xxhash data = foldl (\<lambda>h b. (h XOR word_of_nat (byte_of b)) * 0x100000001b3) 0xcbf29ce484222325 data"

definition hex_char :: "nat \<Rightarrow> char" where
  "hex_char n = (if n < 10 then char_of (48 + n) else char_of (87 + n))"

fun show_hex :: "nat \<Rightarrow> string" where
  "show_hex n = (if n < 16 then [hex_char n] else show_hex (n div 16) @ [hex_char (n mod 16)])"

declare show_hex.simps [simp del]

definition etag_of :: "string \<Rightarrow> string" where
  "etag_of data = [CHR 0x22] @ show_hex (unat (xxhash data)) @ ''-'' @ show_hex (length data) @ [CHR 0x22]"

section \<open>Responses\<close>

record StaticCache =
  sc_gzip :: "(string, string) hashmap"
  sc_etag :: "(string, string) hashmap"

record ReqHeaders =
  rh_if_none_match :: "string option"
  rh_accept_encoding :: "string option"

record Response =
  rp_status :: nat
  rp_headers :: "(string \<times> string) list"
  rp_body :: string

definition plain_response :: "nat \<Rightarrow> string \<Rightarrow> Response" where
  "plain_response status body = \<lparr>rp_status = status, rp_headers = [], rp_body = body\<rparr>"

definition etag_for :: "string \<Rightarrow> string \<Rightarrow> StaticCache \<Rightarrow> StaticCache \<times> string" where
  "etag_for rel bytes c = (case hm_get (sc_etag c) rel of
     Some tag \<Rightarrow> (c, tag)
   | None \<Rightarrow> (c\<lparr>sc_etag := hm_insert rel (etag_of bytes) (sc_etag c)\<rparr>, etag_of bytes))"

definition gzipped :: "(string \<Rightarrow> string option) \<Rightarrow> string \<Rightarrow> string \<Rightarrow> string \<Rightarrow> StaticCache \<Rightarrow> StaticCache \<times> string option" where
  "gzipped gzip_bytes rel bytes ext c =
     (if ext \<notin> set COMPRESSIBLE \<or> length bytes < GZIP_MIN_BYTES then (c, None)
      else case hm_get (sc_gzip c) rel of
        Some gz \<Rightarrow> (c, Some gz)
      | None \<Rightarrow> (case gzip_bytes bytes of
          None \<Rightarrow> (c, None)
        | Some gz \<Rightarrow> (c\<lparr>sc_gzip := hm_insert rel gz (sc_gzip c)\<rparr>, Some gz)))"

text \<open>\<^verbatim>\<open>s.split([',', ' ']).any(|part| part.trim() == "gzip")\<close>.\<close>

fun split_list_header :: "string \<Rightarrow> string list" where
  "split_list_header [] = [[]]"
| "split_list_header (c # s) = (if c = CHR '','' \<or> c = CHR '' '' then [] # split_list_header s
     else case split_list_header s of [] \<Rightarrow> [[c]] | p # ps \<Rightarrow> (c # p) # ps)"

definition accepts_gzip :: "ReqHeaders \<Rightarrow> bool" where
  "accepts_gzip h = (case rh_accept_encoding h of
     None \<Rightarrow> False
   | Some s \<Rightarrow> list_ex (\<lambda>part. trim part = ''gzip'') (split_list_header s))"

definition cache_control :: "bool \<Rightarrow> string" where
  "cache_control immutable = (if immutable then ''public, max-age=31536000, immutable'' else ''no-cache'')"

definition send_file ::
  "(string \<Rightarrow> string option) \<Rightarrow> string \<Rightarrow> string \<Rightarrow> string \<Rightarrow> ReqHeaders \<Rightarrow> string option \<Rightarrow> StaticCache \<Rightarrow> StaticCache \<times> Response" where
  "send_file gzip_bytes rel bytes ext h tag c =
     (let compressible = (ext \<in> set COMPRESSIBLE);
          headers = [(''cache-control'', cache_control (starts_with rel ''assets/''))]
            @ (case tag of Some t \<Rightarrow> [(''etag'', t)] | None \<Rightarrow> [])
            @ (if compressible then [(''vary'', ''accept-encoding'')] else [])
            @ (case mime_type ext of Some ct \<Rightarrow> [(''content-type'', ct)] | None \<Rightarrow> []);
          raw = \<lparr>rp_status = 200, rp_headers = headers, rp_body = bytes\<rparr>
      in if accepts_gzip h \<and> compressible \<and> GZIP_MIN_BYTES \<le> length bytes
         then (case gzipped gzip_bytes rel bytes ext c of
             (c1, Some gz) \<Rightarrow> (c1, \<lparr>rp_status = 200, rp_headers = headers @ [(''content-encoding'', ''gzip'')], rp_body = gz\<rparr>)
           | (c1, None) \<Rightarrow> (c1, raw))
         else (c, raw))"

definition respond ::
  "(string \<Rightarrow> string option) \<Rightarrow> (string \<Rightarrow> string) \<Rightarrow> string \<Rightarrow> path \<Rightarrow> string option \<Rightarrow> ReqHeaders \<Rightarrow> StaticCache \<Rightarrow> StaticCache \<times> Response" where
  "respond gzip_bytes lower rel file_path content h c = (case content of
     None \<Rightarrow> (c, plain_response 500 ''read error'')
   | Some bytes \<Rightarrow>
       if starts_with rel ''assets/'' then send_file gzip_bytes rel bytes (ext_of lower file_path) h None c
       else (case etag_for rel bytes c of (c1, etag) \<Rightarrow>
         if rh_if_none_match h = Some etag
         then (c1, \<lparr>rp_status = 304, rp_headers = [(''cache-control'', cache_control False), (''etag'', etag)], rp_body = []\<rparr>)
         else send_file gzip_bytes rel bytes (ext_of lower file_path) h (Some etag) c1))"

section \<open>Choosing the file\<close>

text \<open>\<open>fs\<close>: a path that is a file, with its content or a read error.\<close>

type_synonym dist_files = "path \<Rightarrow> string option option"

datatype Target = Serve_File string path | Missing_Asset | No_Build

definition target :: "dist_files \<Rightarrow> path \<Rightarrow> string \<Rightarrow> Target" where
  "target fs dist pathname =
     (let rel = normalize_path pathname; file_path = join_path dist rel
      in if fs file_path \<noteq> None then Serve_File rel file_path
         else if starts_with rel ''assets/'' then Missing_Asset
         else if fs (join_path dist ''index.html'') \<noteq> None then Serve_File ''index.html'' (join_path dist ''index.html'')
         else No_Build)"

definition serve ::
  "(string \<Rightarrow> string option) \<Rightarrow> (string \<Rightarrow> string) \<Rightarrow> dist_files \<Rightarrow> path \<Rightarrow> string \<Rightarrow> ReqHeaders \<Rightarrow> StaticCache
    \<Rightarrow> StaticCache \<times> Response option" where
  "serve gzip_bytes lower fs dist pathname h c = (case target fs dist pathname of
     Serve_File rel file_path \<Rightarrow>
       (case respond gzip_bytes lower rel file_path (Option.bind (fs file_path) (\<lambda>x. x)) h c of (c1, r) \<Rightarrow> (c1, Some r))
   | Missing_Asset \<Rightarrow> (c, Some (plain_response 404 ''not found''))
   | No_Build \<Rightarrow> (c, None))"

section \<open>The build stamp\<close>

definition is_hex_digit :: "char \<Rightarrow> bool" where
  "is_hex_digit b \<longleftrightarrow> is_ascii_digit b \<or> (97 \<le> byte_of b \<and> byte_of b \<le> 102) \<or> (65 \<le> byte_of b \<and> byte_of b \<le> 70)"

definition is_release_sha :: "string \<Rightarrow> bool" where
  "is_release_sha sha \<longleftrightarrow> length sha = 40 \<and> list_all is_hex_digit sha"

text \<open>The stamp, and whether the missing marker of a release build is logged.\<close>

definition resolve_build_sha :: "string option \<Rightarrow> string \<Rightarrow> string \<times> bool" where
  "resolve_build_sha marker compiled_sha = (case marker of
     Some s \<Rightarrow> if trim s \<noteq> [] then (trim s, False) else (compiled_sha, is_release_sha compiled_sha)
   | None \<Rightarrow> (compiled_sha, is_release_sha compiled_sha))"


section \<open>Below the client directory\<close>

lemma join_head:
  assumes "p \<noteq> []" and "hd p \<noteq> c"
  shows "dropWhile (\<lambda>x. x = c) (join sep (p # ps)) = join sep (p # ps)"
  using assms by (cases p; cases ps) auto

text \<open>The normalized path is its non-empty segments, none of which is the parent.\<close>

lemma normalize_path_segments:
  obtains ps where "normalize_path s = join ''/'' ps" and "\<forall>p \<in> set ps. p \<noteq> [] \<and> p \<noteq> ''..'' \<and> CHR ''/'' \<notin> set p"
proof -
  let ?ps = "filter (\<lambda>seg. seg \<noteq> ''..'' \<and> seg \<noteq> []) (split_on (CHR ''/'') (trim_seps (trim_dots (trim_seps s))))"
  have ok: "\<forall>p \<in> set ?ps. p \<noteq> [] \<and> p \<noteq> ''..'' \<and> CHR ''/'' \<notin> set p"
    using split_on_no_sep by fastforce
  have "dropWhile (\<lambda>c. c = CHR ''/'') (join ''/'' ?ps) = join ''/'' ?ps"
  proof (cases ?ps)
    case (Cons p qs)
    then have "p \<in> set ?ps" by simp
    then have "p \<noteq> []" "hd p \<noteq> CHR ''/''" using ok by (metis hd_in_set)+
    then show ?thesis unfolding Cons by (rule join_head)
  qed simp
  then have "normalize_path s = join ''/'' ?ps" by (simp add: normalize_path_def Let_def)
  then show ?thesis using ok by (rule that)
qed

lemma join_segments_relative:
  assumes "\<forall>p \<in> set ps. p \<noteq> [] \<and> CHR ''/'' \<notin> set p"
  shows "\<not> is_absolute (join ''/'' ps)"
proof (cases ps)
  case (Cons p qs)
  then have "p \<noteq> []" "hd p \<noteq> CHR ''/''" using assms by (auto dest: hd_in_set)
  then show ?thesis using Cons by (cases p; cases qs) (auto simp: is_absolute_def)
qed (simp add: is_absolute_def)

lemma path_names_join:
  assumes "\<forall>p \<in> set ps. p \<noteq> [] \<and> p \<noteq> ''..'' \<and> CHR ''/'' \<notin> set p"
  shows "path_names (join ''/'' ps) = map Normal (filter (\<lambda>p. p \<noteq> ''.'') ps)"
proof (cases "ps = []")
  case False
  then have "split_on (CHR ''/'') (join ''/'' ps) = ps" using assms by (intro split_on_join) auto
  then have "path_names (join ''/'' ps) = map component_of (filter (\<lambda>x. x \<noteq> [] \<and> x \<noteq> ''.'') ps)"
    by (simp add: path_names_def)
  also have "\<dots> = map Normal (filter (\<lambda>p. p \<noteq> ''.'') ps)"
    using assms by (induction ps) (auto simp: component_of_def)
  finally show ?thesis .
qed (simp add: path_names_def)

lemma normalized_below:
  assumes "dist \<noteq> []"
  shows "\<exists>ns. path_names (join_path dist (normalize_path s)) = path_names dist @ map Normal ns
    \<and> is_absolute (join_path dist (normalize_path s)) = is_absolute dist"
proof -
  obtain ps where n: "normalize_path s = join ''/'' ps" and ps: "\<forall>p \<in> set ps. p \<noteq> [] \<and> p \<noteq> ''..'' \<and> CHR ''/'' \<notin> set p"
    by (rule normalize_path_segments)
  have rel: "\<not> is_absolute (normalize_path s)" unfolding n using ps by (intro join_segments_relative) auto
  have "path_names (join_path dist (normalize_path s)) = path_names dist @ map Normal (filter (\<lambda>p. p \<noteq> ''.'') ps)"
    using names_join [OF rel, of dist] path_names_join [OF ps] n by simp
  moreover have "is_absolute (join_path dist (normalize_path s)) = is_absolute dist"
    using rel assms by (cases dist) (auto simp: join_path_def is_absolute_def)
  ultimately show ?thesis by blast
qed

text \<open>
  Property C28. The web server reads only below the client directory. Whatever path is asked for, with parent segments, backslashes or
  doubled slashes, the file that is served has the directory's components first and only plain names after them.
\<close>

theorem served_below_dist:
  assumes "target fs dist pathname = Serve_File rel file" and "dist \<noteq> []"
  shows "(\<exists>ns. path_names file = path_names dist @ map Normal ns) \<and> is_absolute file = is_absolute dist
    \<and> fs file \<noteq> None"
proof -
  have "path_names (join_path dist ''index.html'') = path_names dist @ map Normal [''index.html'']"
    using names_join [of "''index.html''" dist] by (simp add: is_absolute_def path_names_def component_of_def)
  moreover have "is_absolute (join_path dist ''index.html'') = is_absolute dist"
    using assms(2) by (cases dist) (auto simp: join_path_def is_absolute_def)
  moreover have "file = join_path dist (normalize_path pathname) \<or> file = join_path dist ''index.html''" and "fs file \<noteq> None"
    using assms(1) by (auto simp: target_def Let_def split: if_splits)
  ultimately show ?thesis using normalized_below [OF assms(2), of pathname] by metis
qed

text \<open>A traversal outside the directory reads the file of that name inside it.\<close>

theorem served_below_dist_witness:
  "target (\<lambda>p. if p = ''/d/etc/passwd'' then Some (Some []) else None) ''/d'' ''/../../etc/passwd''
     = Serve_File ''etc/passwd'' ''/d/etc/passwd''
   \<and> (\<exists>ns. path_names ''/d/etc/passwd'' = path_names ''/d'' @ map Normal ns)"
proof -
  have "normalize_path ''/../../etc/passwd'' = ''etc/passwd''"
    by (simp add: normalize_path_def trim_seps_def)
  then have t: "target (\<lambda>p. if p = ''/d/etc/passwd'' then Some (Some []) else None) ''/d'' ''/../../etc/passwd''
     = Serve_File ''etc/passwd'' ''/d/etc/passwd''"
    by (simp add: target_def Let_def join_path_def is_absolute_def)
  from served_below_dist [OF t] t show ?thesis by simp
qed

section \<open>Revalidation\<close>

text \<open>Every cached tag is that of the file, which the server takes to be immutable while it runs.\<close>

definition tags_current :: "(string \<Rightarrow> string option) \<Rightarrow> StaticCache \<Rightarrow> bool" where
  "tags_current bytes_of c \<longleftrightarrow> (\<forall>rel tag. hm_get (sc_etag c) rel = Some tag \<longrightarrow> map_option etag_of (bytes_of rel) = Some tag)"

lemma gzipped_etag [simp]: "sc_etag (fst (gzipped gz rel b e c)) = sc_etag c"
  by (simp add: gzipped_def split: option.split)

lemma send_file_etag [simp]: "sc_etag (fst (send_file gz rel b e h t c)) = sc_etag c"
proof -
  obtain c1 z where "gzipped gz rel b e c = (c1, z)" by (cases "gzipped gz rel b e c")
  then show ?thesis using gzipped_etag [of gz rel b e c] by (simp add: send_file_def Let_def split: option.split)
qed

lemma send_file_status: "rp_status (snd (send_file gz rel b e h t c)) = 200"
  by (simp add: send_file_def Let_def split: prod.splits option.splits)

lemma send_file_tag: "map_of (rp_headers (snd (send_file gz rel b e h (Some t) c))) ''etag'' = Some t"
  by (simp add: send_file_def Let_def split: prod.splits option.splits)

lemma etag_for_current:
  assumes "tags_current bytes_of c" and "bytes_of rel = Some b"
  shows "snd (etag_for rel b c) = etag_of b" and "tags_current bytes_of (fst (etag_for rel b c))"
    and "hm_get (sc_etag (fst (etag_for rel b c))) rel = Some (etag_of b)"
proof -
  have cached: "tag = etag_of b" if "hm_get (sc_etag c) rel = Some tag" for tag
    using assms that by (force simp: tags_current_def)
  show "snd (etag_for rel b c) = etag_of b" and "hm_get (sc_etag (fst (etag_for rel b c))) rel = Some (etag_of b)"
    using cached by (auto simp: etag_for_def split: option.split)
  show "tags_current bytes_of (fst (etag_for rel b c))"
    using assms by (auto simp: etag_for_def tags_current_def split: option.split)
qed

text \<open>
  Revalidation is exact. A response for a file outside the immutable assets carries the entity tag of its bytes, is a 304
  without a body exactly if the request names that tag, and the tag that it carries makes the next request a 304.
\<close>

theorem revalidation:
  assumes "tags_current bytes_of c" and "bytes_of rel = Some b" and "\<not> starts_with rel ''assets/''"
    and "respond gz lower rel f (Some b) h c = (c1, r)"
  shows "tags_current bytes_of c1
    \<and> map_of (rp_headers r) ''etag'' = Some (etag_of b)
    \<and> (rp_status r = 304 \<longleftrightarrow> rh_if_none_match h = Some (etag_of b))
    \<and> (rp_status r = 304 \<longrightarrow> rp_body r = [])
    \<and> rp_status (snd (respond gz lower rel f (Some b) (h\<lparr>rh_if_none_match := map_of (rp_headers r) ''etag''\<rparr>) c1)) = 304"
proof -
  obtain c2 where e: "etag_for rel b c = (c2, etag_of b)"
    using etag_for_current(1) [OF assms(1,2)] by (metis prod.collapse)
  note cur = etag_for_current [OF assms(1,2)]
  have e2: "etag_for rel b c' = (c', etag_of b)" if "sc_etag c' = sc_etag c2" for c'
  proof -
    have "hm_get (sc_etag c') rel = Some (etag_of b)" using cur(3) that unfolding e by simp
    then show ?thesis by (simp add: etag_for_def)
  qed
  show ?thesis
  proof (cases "rh_if_none_match h = Some (etag_of b)")
    case True
    then have "c1 = c2" "rp_status r = 304" "rp_headers r = [(''cache-control'', cache_control False), (''etag'', etag_of b)]" "rp_body r = []"
      using assms(3,4) e by (auto simp: respond_def)
    then show ?thesis using True assms(3) e2 [of c2] cur(2) e by (simp add: respond_def)
  next
    case False
    then have s: "send_file gz rel b (ext_of lower f) h (Some (etag_of b)) c2 = (c1, r)"
      using assms(3,4) e by (simp add: respond_def)
    have c1: "sc_etag c1 = sc_etag c2" using send_file_etag [of gz rel b "ext_of lower f" h "Some (etag_of b)" c2] s by simp
    have "tags_current bytes_of c1" using cur(2) c1 e by (simp add: tags_current_def)
    moreover have "rp_status r = 200" "map_of (rp_headers r) ''etag'' = Some (etag_of b)"
      using send_file_status [of gz rel b "ext_of lower f" h "Some (etag_of b)" c2]
        send_file_tag [of gz rel b "ext_of lower f" h "etag_of b" c2] s by simp_all
    ultimately show ?thesis using False assms(3) e2 [OF c1] by (simp add: respond_def)
  qed
qed

theorem revalidation_witness:
  "let c0 = \<lparr>sc_gzip = [], sc_etag = []\<rparr>; h = \<lparr>rh_if_none_match = None, rh_accept_encoding = None\<rparr>;
       (c1, r) = respond (\<lambda>_. None) (\<lambda>s. s) ''index.html'' ''/d/index.html'' (Some ''spa'') h c0
   in rp_status r = 200 \<and> rp_status (snd (respond (\<lambda>_. None) (\<lambda>s. s) ''index.html'' ''/d/index.html'' (Some ''spa'')
        (h\<lparr>rh_if_none_match := map_of (rp_headers r) ''etag''\<rparr>) c1)) = 304"
proof -
  let ?c = "\<lparr>sc_gzip = [], sc_etag = []\<rparr>" and ?h = "\<lparr>rh_if_none_match = None, rh_accept_encoding = None\<rparr>"
  let ?r = "respond (\<lambda>_. None) (\<lambda>s. s) ''index.html'' ''/d/index.html'' (Some ''spa'') ?h ?c"
  obtain c1 r where run: "?r = (c1, r)" by (cases ?r)
  have cur: "tags_current (\<lambda>_. Some ''spa'') ?c" by (simp add: tags_current_def)
  have na: "\<not> starts_with ''index.html'' ''assets/''" by simp
  from revalidation [OF cur refl na run]
  have "rp_status (snd (respond (\<lambda>_. None) (\<lambda>s. s) ''index.html'' ''/d/index.html'' (Some ''spa'')
        (?h\<lparr>rh_if_none_match := map_of (rp_headers r) ''etag''\<rparr>) c1)) = 304" by blast
  moreover have "rp_status r = 200"
    using run by (auto simp: respond_def etag_for_def send_file_def accepts_gzip_def Let_def)
  ultimately show ?thesis unfolding Let_def run by simp
qed

text \<open>A missing asset is a 404 under its own name, but the name with a leading dot segment is the page.\<close>

theorem dotted_asset_is_page:
  "target (\<lambda>p. if p = ''/d/index.html'' then Some (Some []) else None) ''/d'' ''/assets/gone.js'' = Missing_Asset
   \<and> target (\<lambda>p. if p = ''/d/index.html'' then Some (Some []) else None) ''/d'' ''/./assets/gone.js''
      = Serve_File ''index.html'' ''/d/index.html''"
  by (simp add: target_def Let_def normalize_path_def trim_seps_def join_path_def is_absolute_def)

end
