(* ===== verification/Pid_Lock.thy ===== *)
theory Pid_Lock
  imports Daemon_Spawn Wire_Roundtrip
begin

text \<open>
  The process lock and the server's identity (\<^verbatim>\<open>pantoken-server/src/pidlock.rs\<close>). The data directory is
  the text of its two files, a write can fail, and signal 0 is the parameter \<open>kill0\<close>. \<open>from_str\<close> and
  \<open>to_text\<close> are the JSON parser and printer. Taking the lock reads the file and then writes it: the
  two accesses are separate operations, so that two processes can be interleaved.
\<close>

section \<open>The lock file\<close>

record LockInfo =
  li_pid :: i64
  li_server_id :: "string option"

definition parse_i64 :: "string \<Rightarrow> i64 option" where
  "parse_i64 s =
     (let negative = starts_with s ''-'';
          ds = (if negative \<or> starts_with s ''+'' then tl s else s);
          v = (if negative then - int (digits_value ds) else int (digits_value ds))
      in if ds \<noteq> [] \<and> list_all is_ascii_digit ds \<and> - (2 ^ 63) \<le> v \<and> v < 2 ^ 63
         then Some v else None)"

definition json_pid :: "json_value \<Rightarrow> i64 option" where
  "json_pid v = (case v of
     J_Number _ \<Rightarrow> as_i64 v
   | J_Object obj \<Rightarrow> Option.bind (map_of obj ''pid'') as_i64
   | _ \<Rightarrow> None)"

definition json_server_id :: "json_value \<Rightarrow> string option" where
  "json_server_id v = Option.bind (as_object v) (\<lambda>obj. get_str obj ''serverId'')"

definition positive :: "i64 option \<Rightarrow> i64 option" where
  "positive x = (case x of Some n \<Rightarrow> if n > 0 then Some n else None | None \<Rightarrow> None)"

definition parse_lock :: "(string \<Rightarrow> json_value option) \<Rightarrow> string \<Rightarrow> LockInfo option" where
  "parse_lock from_str text =
     (let trimmed = trim text;
          bare = map_option (\<lambda>n. \<lparr>li_pid = n, li_server_id = None\<rparr>) (positive (parse_i64 trimmed))
      in if trimmed = [] then None
         else case from_str trimmed of
           None \<Rightarrow> bare
         | Some v \<Rightarrow> (case positive (json_pid v) of
             Some n \<Rightarrow> Some \<lparr>li_pid = n, li_server_id = json_server_id v\<rparr>
           | None \<Rightarrow> bare))"

datatype KillResult = Kill_Ok | Kill_Eperm | Kill_Esrch

text \<open>\<^verbatim>\<open>libc::kill(pid as i32, 0)\<close>.\<close>

definition is_pid_alive :: "(int \<Rightarrow> KillResult) \<Rightarrow> i64 \<Rightarrow> bool" where
  "is_pid_alive kill0 pid = (kill0 (wrap_i32 pid) \<in> {Kill_Ok, Kill_Eperm})"

definition lock_decision :: "(int \<Rightarrow> KillResult) \<Rightarrow> LockInfo option \<Rightarrow> i64 \<Rightarrow> string" where
  "lock_decision kill0 existing self_pid = (case existing of
     None \<Rightarrow> ''reclaim''
   | Some lock \<Rightarrow>
       if li_pid lock = self_pid then ''reclaim''
       else if is_pid_alive kill0 (li_pid lock) then ''live'' else ''reclaim'')"

record DataDir =
  dd_lock :: "string option"
  dd_server_id :: "string option"

record PidLock =
  pl_pid :: i64
  pl_server_id :: string
  pl_released :: bool

definition lock_json :: "i64 \<Rightarrow> string \<Rightarrow> json_value" where
  "lock_json pid server_id = J_Object [(''pid'', J_Number (show_int pid)), (''serverId'', J_String server_id)]"

text \<open>The first half of \<^verbatim>\<open>acquire_pid_lock\<close>: the decision over the file that was read. \<open>Inl\<close> is the holder.\<close>

definition acquire_check :: "(string \<Rightarrow> json_value option) \<Rightarrow> (int \<Rightarrow> KillResult) \<Rightarrow> i64 \<Rightarrow> DataDir \<Rightarrow> i64 + unit" where
  "acquire_check from_str kill0 self_pid d =
     (let existing = Option.bind (dd_lock d) (parse_lock from_str)
      in case existing of
           Some lock \<Rightarrow> if lock_decision kill0 existing self_pid = ''live'' then Inl (li_pid lock) else Inr ()
         | None \<Rightarrow> Inr ())"

text \<open>The second half: the write, whose failure is ignored.\<close>

definition acquire_write :: "(json_value \<Rightarrow> string) \<Rightarrow> bool \<Rightarrow> i64 \<Rightarrow> string \<Rightarrow> DataDir \<Rightarrow> DataDir \<times> PidLock" where
  "acquire_write to_text write_ok self_pid server_id d =
     (if write_ok then d\<lparr>dd_lock := Some (to_text (lock_json self_pid server_id))\<rparr> else d,
      \<lparr>pl_pid = self_pid, pl_server_id = server_id, pl_released = False\<rparr>)"

definition acquire_pid_lock ::
  "(string \<Rightarrow> json_value option) \<Rightarrow> (json_value \<Rightarrow> string) \<Rightarrow> (int \<Rightarrow> KillResult) \<Rightarrow> bool \<Rightarrow> i64 \<Rightarrow> string \<Rightarrow> DataDir
    \<Rightarrow> DataDir \<times> (i64 + PidLock)" where
  "acquire_pid_lock from_str to_text kill0 write_ok self_pid server_id d = (case acquire_check from_str kill0 self_pid d of
     Inl holder \<Rightarrow> (d, Inl holder)
   | Inr _ \<Rightarrow> (case acquire_write to_text write_ok self_pid server_id d of (d1, l) \<Rightarrow> (d1, Inr l)))"

definition release :: "(string \<Rightarrow> json_value option) \<Rightarrow> PidLock \<Rightarrow> DataDir \<Rightarrow> DataDir \<times> PidLock" where
  "release from_str l d =
     (if pl_released l then (d, l)
      else let l1 = l\<lparr>pl_released := True\<rparr>
        in case Option.bind (dd_lock d) (parse_lock from_str) of
             Some cur \<Rightarrow> if li_pid cur \<noteq> pl_pid l then (d, l1) else (d\<lparr>dd_lock := None\<rparr>, l1)
           | None \<Rightarrow> (d\<lparr>dd_lock := None\<rparr>, l1))"

section \<open>The server id\<close>

text \<open>The generator on 128 bits; each round gives one byte.\<close>

definition xorshift_round :: "128 word \<Rightarrow> 128 word" where
  "xorshift_round s0 =
     (let s1 = s0 XOR drop_bit 12 s0; s2 = s1 XOR push_bit 25 s1 in s2 XOR drop_bit 27 s2)"

fun random_bytes :: "nat \<Rightarrow> 128 word \<Rightarrow> u8 list" where
  "random_bytes 0 state = []"
| "random_bytes (Suc n) state =
     (let state' = xorshift_round state
      in ucast (drop_bit 32 (state' * 0x2545F4914F6CDD1D)) # random_bytes n state')"

definition random_hex :: "128 word \<Rightarrow> 128 word \<Rightarrow> nat \<Rightarrow> string" where
  "random_hex now pid bytes =
     (let state = now XOR push_bit 64 pid;
          state = (if state = 0 then 0xDEADBEEFCAFEBABE else state)
      in concat (map hex_byte (random_bytes bytes state)))"

text \<open>\<open>mkdir_ok\<close> and \<open>write_ok\<close>: the two accesses whose failure is returned.\<close>

definition mint_or_read_server_id ::
  "bool \<Rightarrow> bool \<Rightarrow> 128 word \<Rightarrow> 128 word \<Rightarrow> DataDir \<Rightarrow> DataDir \<times> string option" where
  "mint_or_read_server_id mkdir_ok write_ok now pid d =
     (if \<not> mkdir_ok then (d, None)
      else case dd_server_id d of
        Some existing \<Rightarrow>
          if trim existing \<noteq> [] then (d, Some (trim existing))
          else if write_ok then (d\<lparr>dd_server_id := Some (random_hex now pid 16)\<rparr>, Some (random_hex now pid 16)) else (d, None)
      | None \<Rightarrow>
          if write_ok then (d\<lparr>dd_server_id := Some (random_hex now pid 16)\<rparr>, Some (random_hex now pid 16)) else (d, None))"


section \<open>One holder\<close>

lemma hex_byte_digits: "list_all plain_char (hex_byte b) \<and> length (hex_byte b) = 2"
proof -
  have "plain_char (hex_digit n)" if "n < 16" for n
  proof -
    have "byte_of (hex_digit n) = (if n < 10 then 48 + n else 87 + n)"
      using that by (simp add: hex_digit_def byte_of_def)
    then show ?thesis using that by (auto simp: plain_char_def) (auto simp: byte_of_def split: if_splits)
  qed
  moreover have "unat b div 16 < 16" using unsigned_less [of b, where ?'a = nat] by (simp add: less_mult_imp_div_less)
  ultimately show ?thesis by (simp add: hex_byte_def)
qed

lemma hex_text: "list_all plain_char (concat (map hex_byte bs)) \<and> length (concat (map hex_byte bs)) = 2 * length bs"
  using hex_byte_digits by (induction bs) auto


text \<open>What the lock relies on of the JSON library: an object that was printed is read back.\<close>

definition json_reads_locks :: "(string \<Rightarrow> json_value option) \<Rightarrow> (json_value \<Rightarrow> string) \<Rightarrow> bool" where
  "json_reads_locks from_str to_text \<longleftrightarrow> (\<forall>pid sid. let t = to_text (lock_json pid sid)
     in t \<noteq> [] \<and> trim t = t \<and> from_str t = Some (lock_json pid sid))"

lemma parse_lock_written:
  assumes "json_reads_locks from_str to_text" and "0 < pid" and "pid < 2 ^ 31"
  shows "parse_lock from_str (to_text (lock_json pid sid)) = Some \<lparr>li_pid = pid, li_server_id = Some sid\<rparr>"
proof -
  have "as_i64 (J_Number (show_int pid)) = Some pid" using assms(2,3) as_i64_json [of pid] by (simp add: json_i64_def)
  then show ?thesis
    using assms by (simp add: json_reads_locks_def parse_lock_def Let_def lock_json_def json_pid_def json_server_id_def
        positive_def as_object_def get_str_def as_str_def)
qed

text \<open>The processes of a machine and the handles they hold.\<close>

record LockSystem =
  ly_dir :: DataDir
  ly_alive :: "int set"
  ly_holders :: "PidLock list"

definition signal0 :: "int set \<Rightarrow> int \<Rightarrow> KillResult" where
  "signal0 alive p = (if p \<in> alive then Kill_Ok else Kill_Esrch)"

definition is_process :: "int \<Rightarrow> bool" where
  "is_process p \<longleftrightarrow> 0 < p \<and> p < 2 ^ 31"

inductive lock_reachable :: "(string \<Rightarrow> json_value option) \<Rightarrow> (json_value \<Rightarrow> string) \<Rightarrow> LockSystem \<Rightarrow> bool"
  for from_str to_text where
  lr_init: "(\<forall>p \<in> alive. is_process p) \<Longrightarrow> lock_reachable from_str to_text \<lparr>ly_dir = d, ly_alive = alive, ly_holders = []\<rparr>"
| lr_start: "lock_reachable from_str to_text y \<Longrightarrow> is_process p
    \<Longrightarrow> lock_reachable from_str to_text (y\<lparr>ly_alive := insert p (ly_alive y)\<rparr>)"
| lr_acquire: "lock_reachable from_str to_text y \<Longrightarrow> p \<in> ly_alive y \<Longrightarrow> p \<notin> pl_pid ` set (ly_holders y)
    \<Longrightarrow> acquire_pid_lock from_str to_text (signal0 (ly_alive y)) True p sid (ly_dir y) = (d, Inr l)
    \<Longrightarrow> lock_reachable from_str to_text (y\<lparr>ly_dir := d, ly_holders := l # ly_holders y\<rparr>)"
| lr_release: "lock_reachable from_str to_text y \<Longrightarrow> l \<in> set (ly_holders y) \<Longrightarrow> release from_str l (ly_dir y) = (d, l')
    \<Longrightarrow> lock_reachable from_str to_text (y\<lparr>ly_dir := d, ly_holders := removeAll l (ly_holders y)\<rparr>)"
| lr_crash: "lock_reachable from_str to_text y
    \<Longrightarrow> lock_reachable from_str to_text (y\<lparr>ly_alive := ly_alive y - {p}, ly_holders := filter (\<lambda>l. pl_pid l \<noteq> p) (ly_holders y)\<rparr>)"

definition lock_inv :: "(string \<Rightarrow> json_value option) \<Rightarrow> LockSystem \<Rightarrow> bool" where
  "lock_inv from_str y \<longleftrightarrow> (\<forall>p \<in> ly_alive y. is_process p)
     \<and> (ly_holders y = [] \<or> (\<exists>l. ly_holders y = [l] \<and> pl_pid l \<in> ly_alive y
         \<and> map_option li_pid (Option.bind (dd_lock (ly_dir y)) (parse_lock from_str)) = Some (pl_pid l)))"

lemma acquire_blocked:
  assumes "map_option li_pid (Option.bind (dd_lock d) (parse_lock from_str)) = Some p"
    and "p \<in> alive" and "is_process p" and "q \<noteq> p"
  shows "acquire_pid_lock from_str to_text (signal0 alive) ok q sid d = (d, Inl p)"
proof -
  obtain lock where "Option.bind (dd_lock d) (parse_lock from_str) = Some lock" "li_pid lock = p" using assms(1) by auto
  moreover have "is_pid_alive (signal0 alive) p" using assms(2,3) by (simp add: is_pid_alive_def signal0_def is_process_def)
  ultimately show ?thesis using assms(4) by (simp add: acquire_pid_lock_def acquire_check_def lock_decision_def Let_def)
qed

lemma lock_reachable_inv:
  assumes "json_reads_locks from_str to_text" and "lock_reachable from_str to_text y"
  shows "lock_inv from_str y"
  using assms(2)
proof (induction rule: lock_reachable.induct)
  case (lr_acquire y p sid d l)
  have none: "ly_holders y = []"
  proof (rule ccontr)
    assume "ly_holders y \<noteq> []"
    then obtain h where h: "ly_holders y = [h]" "pl_pid h \<in> ly_alive y"
      "map_option li_pid (Option.bind (dd_lock (ly_dir y)) (parse_lock from_str)) = Some (pl_pid h)"
      using lr_acquire.IH by (auto simp: lock_inv_def)
    then have "is_process (pl_pid h)" "p \<noteq> pl_pid h" using lr_acquire by (auto simp: lock_inv_def)
    from acquire_blocked [OF h(3,2) this] lr_acquire.hyps(4) show False by simp
  qed
  have "is_process p" using lr_acquire by (auto simp: lock_inv_def)
  then have "parse_lock from_str (to_text (lock_json p sid)) = Some \<lparr>li_pid = p, li_server_id = Some sid\<rparr>"
    using parse_lock_written [OF assms(1)] by (simp add: is_process_def)
  moreover have "d = (ly_dir y)\<lparr>dd_lock := Some (to_text (lock_json p sid))\<rparr>" "pl_pid l = p"
    using lr_acquire.hyps(4) by (auto simp: acquire_pid_lock_def acquire_write_def split: sum.splits)
  ultimately show ?case using lr_acquire.IH lr_acquire.hyps(2) none by (simp add: lock_inv_def)
next
  case (lr_release y l d l')
  then show ?case by (auto simp: lock_inv_def)
next
  case (lr_crash y p)
  then consider "ly_holders y = []" | l where "ly_holders y = [l]" by (auto simp: lock_inv_def)
  then show ?case using lr_crash.IH by cases (auto simp: lock_inv_def)
qed (auto simp: lock_inv_def)


text \<open>A JSON library for the lock's objects: the number, a bar, and the id in hexadecimal.\<close>

definition hex_value :: "char \<Rightarrow> nat" where
  "hex_value c = (if byte_of c < 58 then byte_of c - 48 else byte_of c - 87)"

fun unhex :: "string \<Rightarrow> string" where
  "unhex (a # b # s) = char_of (16 * hex_value a + hex_value b) # unhex s"
| "unhex s = []"

definition sample_to_text :: "json_value \<Rightarrow> string" where
  "sample_to_text v = (case v of
     J_Object [(_, J_Number n), (_, J_String t)] \<Rightarrow> n @ ''|'' @ concat (map (\<lambda>c. hex_byte (word_of_nat (byte_of c))) t)
   | _ \<Rightarrow> [])"

definition sample_from_str :: "string \<Rightarrow> json_value option" where
  "sample_from_str s = map_option (\<lambda>(n, h). J_Object [(''pid'', J_Number n), (''serverId'', J_String (unhex h))])
     (split_once (CHR ''|'') s)"

lemma hex_value_digit: "n < 16 \<Longrightarrow> hex_value (hex_digit n) = n"
  by (auto simp: hex_value_def hex_digit_def byte_of_def)

lemma unhex_hex: "unhex (concat (map (\<lambda>c. hex_byte (word_of_nat (byte_of c))) t)) = t"
proof (induction t)
  case (Cons c t)
  have b: "byte_of c < 256" by (simp add: byte_of_def)
  have "16 * hex_value (hex_digit (byte_of c div 16)) + hex_value (hex_digit (byte_of c mod 16)) = byte_of c"
    using b by (simp add: hex_value_digit less_mult_imp_div_less)
  then show ?case using Cons b by (simp add: hex_byte_def unat_of_nat byte_of_def take_bit_nat_eq_self)
qed simp

lemma sample_json: "json_reads_locks sample_from_str sample_to_text"
proof -
  have digits: "list_all plain_char (show_int p) \<and> CHR ''|'' \<notin> set (show_int p)" for p
    using plain_digits [OF digits_show_nat] not_in_digits [of "CHR ''|''"]
    by (simp add: show_int_def plain_char_def byte_of_def is_ascii_digit_def)
  have "plain_token (sample_to_text (lock_json p t))" for p t
    using digits [of p] hex_text [of "map (\<lambda>c. word_of_nat (byte_of c)) t"]
    by (simp add: sample_to_text_def lock_json_def plain_token_def plain_char_def byte_of_def comp_def)
  moreover have "sample_from_str (sample_to_text (lock_json p t)) = Some (lock_json p t)" for p t
    using digits [of p] by (simp add: sample_from_str_def sample_to_text_def lock_json_def split_once_append unhex_hex)
  ultimately show ?thesis using trim_token(1) by (simp add: json_reads_locks_def Let_def plain_token_def)
qed

definition sample_locked :: LockSystem where
  "sample_locked = (let d = \<lparr>dd_lock = None, dd_server_id = None\<rparr>;
     r = acquire_pid_lock sample_from_str sample_to_text (signal0 {5, 9}) True 5 ''a'' d
     in \<lparr>ly_dir = fst r, ly_alive = {5, 9}, ly_holders = [\<lparr>pl_pid = 5, pl_server_id = ''a'', pl_released = False\<rparr>]\<rparr>)"

lemma sample_lock_reachable: "lock_reachable sample_from_str sample_to_text sample_locked"
proof -
  let ?d = "\<lparr>dd_lock = None, dd_server_id = None\<rparr>" and ?l = "\<lparr>pl_pid = 5, pl_server_id = ''a'', pl_released = False\<rparr>"
  let ?y = "\<lparr>ly_dir = ?d, ly_alive = {5, 9}, ly_holders = []\<rparr>"
  have init: "lock_reachable sample_from_str sample_to_text ?y" by (rule lr_init) (simp add: is_process_def)
  have acq: "acquire_pid_lock sample_from_str sample_to_text (signal0 (ly_alive ?y)) True 5 ''a'' (ly_dir ?y)
      = (fst (acquire_pid_lock sample_from_str sample_to_text (signal0 {5, 9}) True 5 ''a'' ?d), Inr ?l)"
    by (simp add: acquire_pid_lock_def acquire_check_def acquire_write_def)
  from lr_acquire [OF init _ _ acq] show ?thesis by (simp add: sample_locked_def Let_def)
qed


text \<open>Two live processes that both read before either writes: both return a lock.\<close>

theorem lock_race:
  assumes "dd_lock d = None"
  shows "acquire_check from_str kill0 p d = Inr () \<and> acquire_check from_str kill0 q d = Inr ()
    \<and> (\<exists>d1 d2 l1 l2. acquire_write to_text True p sid d = (d1, l1) \<and> acquire_write to_text True q sid d1 = (d2, l2)
         \<and> pl_pid l1 = p \<and> pl_pid l2 = q \<and> \<not> pl_released l1 \<and> \<not> pl_released l2)"
  using assms by (simp add: acquire_check_def acquire_write_def)

text \<open>A lock whose write failed is returned all the same.\<close>

theorem unwritten_lock_returned:
  assumes "dd_lock d = None"
  shows "acquire_pid_lock from_str to_text kill0 False p sid d = (d, Inr \<lparr>pl_pid = p, pl_server_id = sid, pl_released = False\<rparr>)"
  using assms by (simp add: acquire_pid_lock_def acquire_check_def acquire_write_def)

text \<open>A recorded number of more than 32 bits is cut before it is signalled: 2^32 asks for process 0, the own group.\<close>

theorem wide_pid_blocks:
  assumes "kill0 0 = Kill_Ok" and "li_pid lock = 2 ^ 32" and "self < 2 ^ 32"
  shows "lock_decision kill0 (Some lock) self = ''live''"
  using assms by (simp add: lock_decision_def is_pid_alive_def wrap_i32_def)

section \<open>A stable identity\<close>

lemma random_bytes_length: "length (random_bytes n s) = n"
  by (induction n arbitrary: s) (simp_all add: Let_def)

lemma random_hex_text: "list_all plain_char (random_hex now pid n)" "length (random_hex now pid n) = 2 * n"
  using hex_text random_bytes_length by (simp_all add: random_hex_def Let_def)

text \<open>
  The server keeps its identity. An id that was read or minted is not empty, and every later read returns it and
  changes nothing.
\<close>

theorem server_id_stable:
  assumes "mint_or_read_server_id mk wr now pid d = (d1, Some sid)"
  shows "sid \<noteq> [] \<and> mint_or_read_server_id True wr' now' pid' d1 = (d1, Some sid)"
proof -
  have r: "random_hex now pid 16 \<noteq> [] \<and> trim (random_hex now pid 16) = random_hex now pid 16"
    using random_hex_text [of now pid 16] trim_token(1) [of "random_hex now pid 16"]
    by (cases "random_hex now pid 16 = []") (simp_all add: plain_token_def)
  then show ?thesis using assms r by (auto simp: mint_or_read_server_id_def split: if_splits option.splits)
qed


theorem server_id_stable_witness:
  "snd (mint_or_read_server_id True False 0 0 \<lparr>dd_lock = None, dd_server_id = Some ''  ab ''\<rparr>)
   = snd (mint_or_read_server_id True True 1 2 \<lparr>dd_lock = None, dd_server_id = Some ''  ab ''\<rparr>)"
proof -
  let ?d = "\<lparr>dd_lock = None, dd_server_id = Some ''  ab ''\<rparr>"
  have "trim ''  ab '' \<noteq> []" using trim_token(3) [of "''ab''"]
    by (simp add: trim_def plain_token_def plain_char_def byte_of_def)
  then have r: "mint_or_read_server_id True False 0 0 ?d = (?d, Some (trim ''  ab ''))"
    by (simp add: mint_or_read_server_id_def)
  from server_id_stable [OF r] r show ?thesis by simp
qed

end
