(* ===== verification/Server_Config.thy ===== *)
theory Server_Config
  imports Static_Serve Pid_Lock Daemon_Lease
begin

text \<open>
  The configuration (\<^verbatim>\<open>pantoken-server/src/config.rs\<close>): the environment as a function, the defaults, the
  move of the old data directory, and the two forms of a credential, the token of a hello and the
  header of an HTTP request.
\<close>

section \<open>The environment\<close>

type_synonym environment = "string \<Rightarrow> string option"

definition dirs :: "environment \<Rightarrow> path" where
  "dirs env = (case env ''HOME'' of Some home \<Rightarrow> if home \<noteq> [] then home else ''/'' | None \<Rightarrow> ''/'')"

definition non_blank_var :: "environment \<Rightarrow> string \<Rightarrow> string option" where
  "non_blank_var env var = Option.bind (env var) (\<lambda>s. if trim s \<noteq> [] then Some s else None)"

definition default_data_dir :: "environment \<Rightarrow> path" where
  "default_data_dir env = join_path (case non_blank_var env ''XDG_DATA_HOME'' of
     Some s \<Rightarrow> s | None \<Rightarrow> join_path (join_path (dirs env) ''.local'') ''share'') ''pantoken''"

definition legacy_data_dir :: "environment \<Rightarrow> path" where
  "legacy_data_dir env = join_path (case non_blank_var env ''XDG_STATE_HOME'' of
     Some s \<Rightarrow> s | None \<Rightarrow> join_path (join_path (dirs env) ''.local'') ''state'') ''pantoken''"

record Config =
  cf_port :: nat
  cf_data_dir :: path
  cf_vapid_subject :: string
  cf_host :: string
  cf_token :: "string option"
  cf_debug :: bool
  cf_client_dist :: path
  cf_warm_cap :: i64
  cf_idle_reap_ms :: i64
  cf_hub_idle_ms :: i64
  cf_live_refresh_ms :: u64
  cf_delta_flush_ms :: u64
  cf_journal_idle_evict_ms :: i64

definition env_parse :: "(string \<Rightarrow> 'a option) \<Rightarrow> environment \<Rightarrow> string \<Rightarrow> 'a \<Rightarrow> 'a" where
  "env_parse parse env var def = (case Option.bind (env var) parse of Some x \<Rightarrow> x | None \<Rightarrow> def)"

text \<open>The multiplication of the default is of a release build, which wraps.\<close>

definition load_config :: "path \<Rightarrow> environment \<Rightarrow> Config" where
  "load_config manifest_dir env =
     (let or_default = (\<lambda>var def. case env var of Some s \<Rightarrow> s | None \<Rightarrow> def);
          idle_reap_ms = env_parse parse_i64 env ''PANTOKEN_IDLE_REAP_MS'' (10 * 60 * 1000)
      in \<lparr>cf_port = env_parse parse_u16 env ''PANTOKEN_PORT'' 8787,
          cf_data_dir = or_default ''PANTOKEN_DATA_DIR'' (default_data_dir env),
          cf_vapid_subject = or_default ''PANTOKEN_VAPID_SUBJECT'' ''mailto:pantoken@example.com'',
          cf_host = or_default ''PANTOKEN_HOST'' ''127.0.0.1'',
          cf_token = Option.bind (env ''PANTOKEN_TOKEN'') (\<lambda>t. if t \<noteq> [] then Some t else None),
          cf_debug = (case env ''PANTOKEN_DEBUG'' of Some v \<Rightarrow> v \<noteq> ''0'' | None \<Rightarrow> True),
          cf_client_dist = or_default ''PANTOKEN_CLIENT_DIST'' (join_path manifest_dir ''../../client/dist''),
          cf_warm_cap = env_parse parse_i64 env ''PANTOKEN_WARM_CAP'' 8,
          cf_idle_reap_ms = idle_reap_ms,
          cf_hub_idle_ms = env_parse parse_i64 env ''PANTOKEN_HUB_IDLE_MS'' (wrap_i64 (idle_reap_ms * 2)),
          cf_live_refresh_ms = env_parse parse_u64 env ''PANTOKEN_LIVE_REFRESH_MS'' 1000,
          cf_delta_flush_ms = env_parse parse_u64 env ''PANTOKEN_DELTA_FLUSH_MS'' 50,
          cf_journal_idle_evict_ms = env_parse parse_i64 env ''PANTOKEN_JOURNAL_IDLE_EVICT_MS'' (5 * 60 * 1000)\<rparr>)"

section \<open>The move of the data directory\<close>

text \<open>A file system as the content of each directory; \<open>mkdir_ok\<close> and \<open>rename_ok\<close> are the two calls.\<close>

type_synonym 'a dir_tree = "path \<Rightarrow> 'a option"

definition migrate_legacy_dir :: "bool \<Rightarrow> bool \<Rightarrow> path \<Rightarrow> path \<Rightarrow> 'a dir_tree \<Rightarrow> 'a dir_tree" where
  "migrate_legacy_dir mkdir_ok rename_ok data_dir legacy fs =
     (if fs legacy = None then fs
      else if fs data_dir \<noteq> None then fs
      else if \<not> mkdir_ok then fs
      else if rename_ok then fs(data_dir := fs legacy, legacy := None) else fs)"

definition migrate_legacy_dir_with_config ::
  "bool \<Rightarrow> bool \<Rightarrow> Config \<Rightarrow> path \<Rightarrow> bool \<Rightarrow> 'a dir_tree \<Rightarrow> 'a dir_tree" where
  "migrate_legacy_dir_with_config mkdir_ok rename_ok cfg legacy data_dir_configured fs =
     (if data_dir_configured then fs else migrate_legacy_dir mkdir_ok rename_ok (cf_data_dir cfg) legacy fs)"

definition migrate_legacy_data_dir :: "bool \<Rightarrow> bool \<Rightarrow> environment \<Rightarrow> Config \<Rightarrow> 'a dir_tree \<Rightarrow> 'a dir_tree" where
  "migrate_legacy_data_dir mkdir_ok rename_ok env cfg fs =
     migrate_legacy_dir_with_config mkdir_ok rename_ok cfg (legacy_data_dir env) (env ''PANTOKEN_DATA_DIR'' \<noteq> None) fs"

section \<open>Credentials\<close>

definition token_ok :: "string option \<Rightarrow> Config \<Rightarrow> bool" where
  "token_ok provided cfg \<longleftrightarrow> cf_token cfg = None \<or> provided = cf_token cfg"

definition is_ascii_whitespace :: "char \<Rightarrow> bool" where
  "is_ascii_whitespace c \<longleftrightarrow> byte_of c \<in> {9, 10, 12, 13, 32}"

definition bearer_credential :: "string \<Rightarrow> string option" where
  "bearer_credential s =
     (if starts_with s ''Bearer ''
      then (let t = drop 7 s in if t = [] \<or> list_ex is_ascii_whitespace t then None else Some t)
      else None)"

text \<open>A header value that \<^verbatim>\<open>to_str\<close> reads: visible ASCII and tabs.\<close>

definition header_to_str :: "string \<Rightarrow> string option" where
  "header_to_str v = (if list_all (\<lambda>c. byte_of c = 9 \<or> (32 \<le> byte_of c \<and> byte_of c < 127)) v then Some v else None)"

definition bearer_from_headers :: "string list \<Rightarrow> string option" where
  "bearer_from_headers authorization = (case authorization of
     [v] \<Rightarrow> Option.bind (header_to_str v) bearer_credential
   | _ \<Rightarrow> None)"

definition token_from_request :: "string option \<Rightarrow> string option \<Rightarrow> string option" where
  "token_from_request auth_header query_token = Option.bind auth_header bearer_credential"

end
