(* ===== verification/Connection.thy ===== *)
theory Connection
  imports Transport Server_Config Dispatch_Props
begin

text \<open>
  The life of a connection (\<^verbatim>\<open>connection/mod.rs\<close>): the hello gate, the registration, the inbound loop and
  the removal. A session's input is what its \<^verbatim>\<open>select!\<close> sees, interleaved with what the other tasks do
  to the hub under its lock.
\<close>

section \<open>The session\<close>

datatype GateVerdict = Gate_Return | Gate_Close | Gate_Open "ResumeToken option"

definition hello_gate :: "Config \<Rightarrow> ClientMessage option \<Rightarrow> GateVerdict" where
  "hello_gate cfg first = (case first of
     None \<Rightarrow> Gate_Return
   | Some (C_Hello auth resume) \<Rightarrow> if token_ok auth cfg then Gate_Open resume else Gate_Close
   | Some _ \<Rightarrow> Gate_Close)"

text \<open>
  A received message comes with what its handling reads from its surroundings. \<open>In_Other\<close> is a step of
  another task; \<open>In_Pump_Finished\<close> is the end of the outbound pump, after a failed write or a removal.
\<close>

datatype ConnInput =
    In_Message Ctx "ClientMessage option"
  | In_Pump_Finished
  | In_Other "Dispatch \<Rightarrow> Dispatch"

datatype ConnEnd = Ce_Unheard | Ce_Refused | Ce_Dropped | Ce_Closed nat | Ce_Panicked nat | Ce_Waiting nat

fun is_hello :: "ClientMessage \<Rightarrow> bool" where
  "is_hello (C_Hello _ _) = True"
| "is_hello _ = False"

text \<open>A panicking handler unwinds the task: the state is the one before the call.\<close>

fun inbound_loop :: "nat \<Rightarrow> ConnInput list \<Rightarrow> Dispatch \<Rightarrow> Dispatch \<times> ConnEnd" where
  "inbound_loop key [] d = (d, Ce_Waiting key)"
| "inbound_loop key (In_Other f # is) d = inbound_loop key is (f d)"
| "inbound_loop key (In_Pump_Finished # is) d = (d, Ce_Closed key)"
| "inbound_loop key (In_Message cx None # is) d = (d, Ce_Closed key)"
| "inbound_loop key (In_Message cx (Some m) # is) d =
     (if is_hello m then inbound_loop key is d
      else case handle_client cx key m d of
        None \<Rightarrow> (d, Ce_Panicked key)
      | Some d1 \<Rightarrow> inbound_loop key is d1)"

text \<open>The removal at the end of the inbound loop.\<close>

definition conn_cleanup :: "Dispatch \<times> ConnEnd \<Rightarrow> Dispatch \<times> ConnEnd" where
  "conn_cleanup r = (case r of
     (d, Ce_Closed key) \<Rightarrow> (d\<lparr>d_hub := remove_client key (d_hub d)\<rparr>, Ce_Closed key)
   | _ \<Rightarrow> r)"

definition conn_register :: "ResumeToken option \<Rightarrow> ServerMessage \<Rightarrow> Dispatch \<Rightarrow> Dispatch \<times> nat option" where
  "conn_register resume settings_msg d =
     (case add_client resume settings_msg (d_hub d) of (h, key) \<Rightarrow>
        if has_client h key then (spawn_connect_lists key (d\<lparr>d_hub := h\<rparr>), Some key)
        else (d\<lparr>d_hub := h\<rparr>, None))"

definition conn_run ::
  "Config \<Rightarrow> ServerMessage \<Rightarrow> ClientMessage option \<Rightarrow> ConnInput list \<Rightarrow> Dispatch \<Rightarrow> Dispatch \<times> ConnEnd" where
  "conn_run cfg settings_msg first is d = (case hello_gate cfg first of
     Gate_Return \<Rightarrow> (d, Ce_Unheard)
   | Gate_Close \<Rightarrow> (d, Ce_Refused)
   | Gate_Open resume \<Rightarrow> (case conn_register resume settings_msg d of
       (d1, None) \<Rightarrow> (d1, Ce_Dropped)
     | (d1, Some key) \<Rightarrow> conn_cleanup (inbound_loop key is d1)))"

section \<open>The gate\<close>

lemma hello_gate_open:
  "hello_gate cfg first = Gate_Open resume \<longleftrightarrow> (\<exists>auth. first = Some (C_Hello auth resume) \<and> token_ok auth cfg)"
  by (auto simp: hello_gate_def split: option.split ClientMessage.split)

text \<open>
  Property C22. No session without the credential. With a token configured, a connection whose first message is not a hello with that
  token changes nothing in the hub, whatever it sends later.
\<close>

theorem credential_gates_session:
  assumes "cf_token cfg = Some tok" and "\<forall>resume. first \<noteq> Some (C_Hello (Some tok) resume)"
  shows "conn_run cfg settings_msg first is d = (d, if first = None then Ce_Unheard else Ce_Refused)"
proof -
  have "hello_gate cfg first \<noteq> Gate_Open resume" for resume
    using assms unfolding hello_gate_open token_ok_def by auto
  moreover have "hello_gate cfg first = Gate_Return \<longleftrightarrow> first = None"
    by (simp add: hello_gate_def split: option.split ClientMessage.split)
  ultimately show ?thesis by (cases "hello_gate cfg first") (auto simp: conn_run_def)
qed

lemma inbound_loop_end: "snd (inbound_loop key is d) \<in> {Ce_Waiting key, Ce_Closed key, Ce_Panicked key}"
  by (induction key "is" d rule: inbound_loop.induct) (auto split: option.split)

lemma remove_client_gone [simp]: "\<not> has_client (remove_client key h) key"
  by (auto simp: remove_client_def has_client_def hm_contains_def split: option.split)

lemma session_leaves_no_client:
  assumes "conn_run cfg settings_msg first is d = (d1, Ce_Closed key)"
  shows "\<not> has_client (d_hub d1) key"
  using assms
  by (auto simp: conn_run_def conn_cleanup_def split: GateVerdict.splits prod.splits option.splits ConnEnd.splits)

section \<open>The session among the other tasks\<close>

lemma loop_keeps_flow:
  assumes "flow_reachable d" and "\<forall>f. In_Other f \<in> set is \<longrightarrow> (\<forall>x. flow_reachable x \<longrightarrow> flow_reachable (f x))"
  shows "flow_reachable (fst (inbound_loop key is d))"
  using assms
proof (induction key "is" d rule: inbound_loop.induct)
  case (5 key cx m "is" d)
  show ?case
  proof (cases "is_hello m \<or> handle_client cx key m d = None")
    case False
    then obtain d1 where h: "handle_client cx key m d = Some d1" by auto
    then have "flow_reachable d1" using 5(3) flow_reachable.Outside outside_step.Client by blast
    then show ?thesis using 5 False h by simp
  qed (use 5 in auto)
qed auto

lemma register_keeps_flow:
  assumes "flow_reachable d"
  shows "flow_reachable (fst (conn_register resume sm d))"
proof -
  obtain h key where a: "add_client resume sm (d_hub d) = (h, key)" by (cases "add_client resume sm (d_hub d)")
  from flow_reachable.Outside [OF assms outside_step.Attach [OF a]] show ?thesis
    by (simp add: conn_register_def a split: if_splits)
qed

lemma run_keeps_flow:
  assumes "flow_reachable d" and "\<forall>f. In_Other f \<in> set is \<longrightarrow> (\<forall>x. flow_reachable x \<longrightarrow> flow_reachable (f x))"
  shows "flow_reachable (fst (conn_run cfg settings_msg first is d))"
proof (cases "hello_gate cfg first")
  case (Gate_Open resume)
  obtain d1 k where r: "conn_register resume settings_msg d = (d1, k)" by (cases "conn_register resume settings_msg d")
  then have d1: "flow_reachable d1" using register_keeps_flow [OF assms(1), of resume settings_msg] by simp
  show ?thesis
  proof (cases k)
    case (Some key)
    obtain d2 e where l: "inbound_loop key is d1 = (d2, e)" by (cases "inbound_loop key is d1")
    then have "flow_reachable d2" using loop_keeps_flow [OF d1 assms(2), of key] by simp
    then show ?thesis
      using flow_reachable.Outside outside_step.Leave Gate_Open r Some l
      by (auto simp: conn_run_def conn_cleanup_def split: ConnEnd.split)
  qed (use Gate_Open r d1 in \<open>simp add: conn_run_def\<close>)
qed (use assms in \<open>simp_all add: conn_run_def\<close>)

text \<open>
  Property C21. A connection makes only the steps that the dispatch system is proved for. Starting in a reachable state, with other tasks
  that keep to reachable states, every session ends in a reachable one; and when it has closed, its client is gone.
\<close>

theorem session_refines_flow:
  assumes "flow_reachable d" and "\<forall>f. In_Other f \<in> set is \<longrightarrow> (\<forall>x. flow_reachable x \<longrightarrow> flow_reachable (f x))"
    and "conn_run cfg settings_msg first is d = (d1, e)"
  shows "flow_reachable d1 \<and> (\<forall>key. e = Ce_Closed key \<longrightarrow> \<not> has_client (d_hub d1) key)"
  using run_keeps_flow [OF assms(1,2), of cfg settings_msg first] assms(3) session_leaves_no_client by auto
definition guarded :: Config where
  "guarded = load_config [] (\<lambda>v. if v = ''PANTOKEN_TOKEN'' then Some ''s'' else None)"

lemma guarded_token: "cf_token guarded = Some ''s''"
  by (simp add: guarded_def load_config_def Let_def)

theorem credential_gates_session_witness:
  "conn_run guarded M_Pong (Some (C_Hello (Some ''guess'') None)) [In_Message sample_cx (Some C_Ping)] (sample_dispatch [])
   = (sample_dispatch [], Ce_Refused)"
  using credential_gates_session [OF guarded_token, of "Some (C_Hello (Some ''guess'') None)" M_Pong
      "[In_Message sample_cx (Some C_Ping)]" "sample_dispatch []"] by simp

theorem session_refines_flow_witness:
  "\<exists>d1. conn_run guarded M_Pong (Some (C_Hello (Some ''s'') None)) [In_Message sample_cx (Some C_Ping), In_Pump_Finished] (sample_dispatch [])
      = (d1, Ce_Closed 0) \<and> flow_reachable d1 \<and> \<not> has_client (d_hub d1) 0"
proof -
  let ?run = "conn_run guarded M_Pong (Some (C_Hello (Some ''s'') None)) [In_Message sample_cx (Some C_Ping), In_Pump_Finished] (sample_dispatch [])"
  have f: "flow_reachable (sample_dispatch [])"
    by (rule flow_reachable.Init) (simp_all add: sample_dispatch_def empty_hub_def)
  obtain d1 e where r: "?run = (d1, e)" by (cases ?run)
  have "has_client (fst (add_client None M_Pong (empty_hub sample_cfg 0))) 0" "snd (add_client None M_Pong (empty_hub sample_cfg 0)) = 0"
    by code_simp+
  then have "e = Ce_Closed 0"
    using r by (auto simp: conn_run_def hello_gate_def token_ok_def guarded_token conn_register_def sample_dispatch_def
        handle_client_def Let_def conn_cleanup_def split: prod.splits if_splits)
  then show ?thesis using session_refines_flow [OF f _ r] r by simp
qed

text \<open>A handler that panics ends the session without the removal.\<close>

theorem panic_keeps_client:
  assumes "hello_gate cfg first = Gate_Open resume" and "conn_register resume settings_msg d = (d1, Some key)"
    and "\<not> is_hello m" and "handle_client cx key m d1 = None"
  shows "conn_run cfg settings_msg first (In_Message cx (Some m) # is) d = (d1, Ce_Panicked key) \<and> has_client (d_hub d1) key"
  using assms
  by (auto simp: conn_run_def conn_cleanup_def conn_register_def spawn_connect_lists_def Let_def split: prod.splits if_splits)

section \<open>From bytes to the hub\<close>

text \<open>Handling messages one after the other, as long as none panics.\<close>

fun handle_each :: "nat \<Rightarrow> (Ctx \<times> ClientMessage) list \<Rightarrow> Dispatch \<Rightarrow> Dispatch option" where
  "handle_each key [] d = Some d"
| "handle_each key ((cx, m) # ms) d = Option.bind (handle_client cx key m d) (handle_each key ms)"

lemma handle_hello: "is_hello m \<Longrightarrow> handle_client cx key m d = Some d"
  by (cases m) (simp_all add: handle_client_def Let_def)

lemma loop_handles_each:
  assumes "handle_each key ms d = Some d1"
  shows "inbound_loop key (map (\<lambda>(cx, m). In_Message cx (Some m)) ms @ [In_Message cx' None]) d = (d1, Ce_Closed key)"
  using assms
proof (induction ms arbitrary: d)
  case (Cons cm ms)
  then show ?case by (cases cm) (auto simp: handle_hello split: Option.bind_splits)
qed simp

text \<open>
  From bytes to the hub: the frames of a list of messages, cut into reads that complete at most one frame each, have the
  effect of handling these messages in order, followed by the removal of the client.
\<close>

theorem framed_session_dispatch:
  assumes "list_all (\<lambda>m. serde_roundtrips serde (new_envelope m)) ms"
    and "list_all2 (\<lambda>m f. encode_client_frame serde m = Inr f) ms frames"
    and "concat cs = concat frames" and "[] \<notin> set cs"
    and "\<forall>rs \<in> set (read_results new_decoder cs). length rs \<le> 1"
    and "handle_each key (map (Pair cx) ms) d = Some d1"
  shows "conn_cleanup (inbound_loop key (map (\<lambda>m. In_Message cx (Some m))
      (inbound_messages serde new_decoder (map Rd_Ok cs @ [Rd_Ok []])) @ [In_Message cx None]) d)
    = (d1\<lparr>d_hub := remove_client key (d_hub d1)\<rparr>, Ce_Closed key)"
proof -
  have "inbound_messages serde new_decoder (map Rd_Ok cs @ [Rd_Ok []]) = ms"
    using assms(5) one_of_each [of "read_results new_decoder cs"] inbound_reads [OF assms(4)]
      sent_results [OF assms(1-3)] by metis
  then show ?thesis using loop_handles_each [OF assms(6)] by (simp add: conn_cleanup_def comp_def)
qed

definition ping_serde :: "ClientMessage serde_json" where
  "ping_serde = \<lparr>to_vec = (\<lambda>m. if we_message m = C_Ping then Inr [112] else Inl ''unsupported''),
     from_str = (\<lambda>s. if s = [112] then Inr (new_envelope C_Ping) else Inl ''syntax'')\<rparr>"

theorem framed_session_dispatch_witness:
  "conn_cleanup (inbound_loop 0 (map (\<lambda>m. In_Message sample_cx (Some m))
      (inbound_messages ping_serde new_decoder (map Rd_Ok [[0, 0], [0, 1, 112]] @ [Rd_Ok []])) @ [In_Message sample_cx None])
      (sample_dispatch []))
   = (let d1 = on_hub (handle_ping 0) (sample_dispatch []) in (d1\<lparr>d_hub := remove_client 0 (d_hub d1)\<rparr>, Ce_Closed 0))"
proof -
  have f: "frame [112] = [0, 0, 0, 1, 112]" by (simp add: frame_def to_be_bytes_def)
  have s: "list_all (\<lambda>m. serde_roundtrips ping_serde (new_envelope m)) [C_Ping]"
    by (simp add: serde_roundtrips_def ping_serde_def new_envelope_def sendable_def MAX_FRAME_BYTES_def byte_in_def)
  have e: "list_all2 (\<lambda>m f. encode_client_frame ping_serde m = Inr f) [C_Ping] [frame [112]]"
    using encode_json_frame [of "[112]"]
    by (simp add: encode_client_frame_def encode_client_def ping_serde_def new_envelope_def sendable_def MAX_FRAME_BYTES_def)
  have r: "\<forall>rs \<in> set (read_results new_decoder [[0, 0], [0, 1, 112]]). length rs \<le> 1"
    using push_piece [of "[112]" new_decoder "[0, 0]" "[[0, 1, 112]]"] push_piece [of "[112]" "\<lparr>fd_buf = [0, 0]\<rparr>" "[0, 1, 112]" "[]"]
    by (simp add: f new_decoder_def sendable_def MAX_FRAME_BYTES_def)
  have h: "handle_each 0 (map (Pair sample_cx) [C_Ping]) (sample_dispatch []) = Some (on_hub (handle_ping 0) (sample_dispatch []))"
    by (simp add: handle_client_def Let_def)
  from framed_session_dispatch [OF s e _ _ r h] show ?thesis by (simp add: f Let_def)
qed

end
