(* ===== verification/Idle_Reaper.thy ===== *)
theory Idle_Reaper
  imports Driver_Props
begin

text \<open>
  The idle reaper of the remote runtime (\<^verbatim>\<open>remote/lifecycle.rs\<close>): a task that wakes at an interval, reads
  the hub's connections and the driver's turns, disposes the warm sessions of an idle hub and, after
  a longer time, signals the hub to exit. Instants are milliseconds. What the other tasks do to the
  driver between two wakes, and while a disposal is awaited, is part of the input.
\<close>

record LifecycleConfig =
  lc_idle_reap_ms :: i64
  lc_hub_idle_ms :: i64

definition check_interval :: "LifecycleConfig \<Rightarrow> nat" where
  "check_interval cfg = max (nat (max (min (lc_idle_reap_ms cfg) (lc_hub_idle_ms cfg)) 1000) div 4) 1000"

record Reaper =
  rz_last_activity :: nat
  rz_last_reap :: nat

record 'd Wake =
  wk_now :: nat
  wk_before :: "'d \<Rightarrow> 'd"
  wk_clients :: nat
  wk_during :: "'d \<Rightarrow> 'd"

datatype 'd ReaperInput = Ri_Cancel | Ri_Wake "'d Wake"

datatype ReaperEnd = Re_Disabled | Re_Cancelled | Re_Exit nat | Re_Waiting Reaper

definition due :: "i64 \<Rightarrow> nat \<Rightarrow> bool" where
  "due limit elapsed \<longleftrightarrow> limit > 0 \<and> limit \<le> int elapsed"

text \<open>The first half of a wake without activity: the sessions are disposed if both timers allow it.\<close>

definition reap_due :: "LifecycleConfig \<Rightarrow> nat \<Rightarrow> nat \<Rightarrow> Reaper \<Rightarrow> bool" where
  "reap_due cfg now warm_count r \<longleftrightarrow>
     due (lc_idle_reap_ms cfg) (now - rz_last_activity r) \<and> warm_count > 0
     \<and> due (lc_idle_reap_ms cfg) (now - rz_last_reap r)"

record 'd WakeResult =
  wr_driver :: 'd
  wr_timers :: Reaper
  wr_active :: bool
  wr_reaped :: bool
  wr_exit :: bool

text \<open>The loop's body: activity resets a timer; else sessions are disposed and the exit is decided.\<close>

definition reaper_wake ::
  "('d \<Rightarrow> bool) \<Rightarrow> ('d \<Rightarrow> nat) \<Rightarrow> ('d \<Rightarrow> 'd) \<Rightarrow> LifecycleConfig \<Rightarrow> 'd Wake \<Rightarrow> Reaper \<Rightarrow> 'd \<Rightarrow> 'd WakeResult" where
  "reaper_wake turn warm dispose cfg w r d =
     (let d1 = wk_before w d; now = wk_now w in
      if wk_clients w > 0 \<or> turn d1
      then \<lparr>wr_driver = d1, wr_timers = r\<lparr>rz_last_activity := now\<rparr>, wr_active = True, wr_reaped = False, wr_exit = False\<rparr>
      else
        let reap = reap_due cfg now (warm d1) r;
            d2 = (if reap then dispose (wk_during w d1) else d1)
        in \<lparr>wr_driver = d2, wr_timers = (if reap then r\<lparr>rz_last_reap := now\<rparr> else r), wr_active = False,
            wr_reaped = reap, wr_exit = (due (lc_hub_idle_ms cfg) (now - rz_last_activity r) \<and> warm d2 = 0)\<rparr>)"

fun reaper_loop ::
  "('d \<Rightarrow> bool) \<Rightarrow> ('d \<Rightarrow> nat) \<Rightarrow> ('d \<Rightarrow> 'd) \<Rightarrow> LifecycleConfig \<Rightarrow> 'd ReaperInput list \<Rightarrow> Reaper \<Rightarrow> 'd \<Rightarrow> 'd \<times> ReaperEnd" where
  "reaper_loop turn warm dispose cfg [] r d = (d, Re_Waiting r)"
| "reaper_loop turn warm dispose cfg (Ri_Cancel # ws) r d = (d, Re_Cancelled)"
| "reaper_loop turn warm dispose cfg (Ri_Wake w # ws) r d =
     (let x = reaper_wake turn warm dispose cfg w r d in
      if wr_exit x then (wr_driver x, Re_Exit (wk_now w))
      else reaper_loop turn warm dispose cfg ws (wr_timers x) (wr_driver x))"

definition run_lifecycle_loop ::
  "('d \<Rightarrow> bool) \<Rightarrow> ('d \<Rightarrow> nat) \<Rightarrow> ('d \<Rightarrow> 'd) \<Rightarrow> LifecycleConfig \<Rightarrow> nat \<Rightarrow> 'd ReaperInput list \<Rightarrow> 'd \<Rightarrow> 'd \<times> ReaperEnd" where
  "run_lifecycle_loop turn warm dispose cfg start ws d =
     (if lc_idle_reap_ms cfg \<le> 0 \<and> lc_hub_idle_ms cfg \<le> 0 then (d, Re_Disabled)
      else reaper_loop turn warm dispose cfg ws \<lparr>rz_last_activity = start, rz_last_reap = start\<rparr> d)"

section \<open>Patience\<close>

text \<open>What each wake saw and did: its time, whether there was activity, whether it disposed.\<close>

fun reaper_trace ::
  "('d \<Rightarrow> bool) \<Rightarrow> ('d \<Rightarrow> nat) \<Rightarrow> ('d \<Rightarrow> 'd) \<Rightarrow> LifecycleConfig \<Rightarrow> 'd ReaperInput list \<Rightarrow> Reaper \<Rightarrow> 'd \<Rightarrow> (nat \<times> bool \<times> bool) list" where
  "reaper_trace turn warm dispose cfg [] r d = []"
| "reaper_trace turn warm dispose cfg (Ri_Cancel # ws) r d = []"
| "reaper_trace turn warm dispose cfg (Ri_Wake w # ws) r d =
     (let x = reaper_wake turn warm dispose cfg w r d in
      (wk_now w, wr_active x, wr_reaped x) #
        (if wr_exit x then [] else reaper_trace turn warm dispose cfg ws (wr_timers x) (wr_driver x)))"

fun wake_times :: "'d ReaperInput list \<Rightarrow> nat list" where
  "wake_times [] = []"
| "wake_times (Ri_Cancel # ws) = wake_times ws"
| "wake_times (Ri_Wake w # ws) = wk_now w # wake_times ws"

lemma wake_timers:
  "rz_last_activity (wr_timers (reaper_wake turn warm dispose cfg w r d)) =
     (if wr_active (reaper_wake turn warm dispose cfg w r d) then wk_now w else rz_last_activity r)"
  by (simp add: reaper_wake_def Let_def)

lemma wake_reaped:
  "wr_reaped (reaper_wake turn warm dispose cfg w r d) \<Longrightarrow>
     rz_last_activity r + nat (lc_idle_reap_ms cfg) \<le> wk_now w \<and> \<not> wr_active (reaper_wake turn warm dispose cfg w r d)"
  by (auto simp: reaper_wake_def Let_def reap_due_def due_def split: if_splits)

lemma wake_exit:
  "wr_exit (reaper_wake turn warm dispose cfg w r d) \<Longrightarrow>
     0 < lc_hub_idle_ms cfg \<and> rz_last_activity r + nat (lc_hub_idle_ms cfg) \<le> wk_now w
     \<and> \<not> wr_active (reaper_wake turn warm dispose cfg w r d) \<and> warm (wr_driver (reaper_wake turn warm dispose cfg w r d)) = 0"
  by (auto simp: reaper_wake_def Let_def due_def split: if_splits)

lemma loop_exit_cold:
  "reaper_loop turn warm dispose cfg ws r d = (d', Re_Exit t) \<Longrightarrow> warm d' = 0"
proof (induction ws arbitrary: r d)
  case (Cons i ws)
  then show ?case using wake_exit by (cases i) (fastforce simp: Let_def split: if_splits)+
qed simp

text \<open>Every disposal comes at least the reap time after each activity before it.\<close>

lemma disposals_wait:
  assumes "sorted (rz_last_activity r # wake_times ws)"
    and "reaper_trace turn warm dispose cfg ws r d = pre @ (t, a, True) # post"
  shows "rz_last_activity r + nat (lc_idle_reap_ms cfg) \<le> t
    \<and> (\<forall>t' b. (t', True, b) \<in> set pre \<longrightarrow> t' + nat (lc_idle_reap_ms cfg) \<le> t)"
  using assms
proof (induction ws arbitrary: r d pre)
  case (Cons i ws)
  then obtain w where i: "i = Ri_Wake w" by (cases i) auto
  let ?x = "reaper_wake turn warm dispose cfg w r d"
  show ?case
  proof (cases pre)
    case Nil
    then show ?thesis using Cons.prems(2) wake_reaped [of turn warm dispose cfg w r d] by (auto simp: i Let_def)
  next
    case (Cons p pre')
    then have tr: "reaper_trace turn warm dispose cfg ws (wr_timers ?x) (wr_driver ?x) = pre' @ (t, a, True) # post"
      and p: "p = (wk_now w, wr_active ?x, wr_reaped ?x)"
      using Cons.prems(2) by (auto simp: i Let_def split: if_splits)
    have "sorted (rz_last_activity (wr_timers ?x) # wake_times ws)"
      using Cons.prems(1) by (auto simp: i wake_timers)
    from Cons.IH [OF this tr] Cons.prems(1) show ?thesis
      using Cons p by (auto simp: i wake_timers split: if_splits)
  qed
qed simp

lemma exit_waits:
  assumes "sorted (rz_last_activity r # wake_times ws)"
    and "reaper_loop turn warm dispose cfg ws r d = (d', Re_Exit t)"
  shows "0 < lc_hub_idle_ms cfg \<and> warm d' = 0 \<and> rz_last_activity r + nat (lc_hub_idle_ms cfg) \<le> t
    \<and> (\<forall>t' b. (t', True, b) \<in> set (reaper_trace turn warm dispose cfg ws r d) \<longrightarrow> t' + nat (lc_hub_idle_ms cfg) \<le> t)"
  using assms
proof (induction ws arbitrary: r d)
  case (Cons i ws)
  then obtain w where i: "i = Ri_Wake w" by (cases i) auto
  let ?x = "reaper_wake turn warm dispose cfg w r d"
  show ?case
  proof (cases "wr_exit ?x")
    case True
    then show ?thesis using Cons.prems(2) wake_exit [OF True] by (auto simp: i Let_def)
  next
    case False
    then have l: "reaper_loop turn warm dispose cfg ws (wr_timers ?x) (wr_driver ?x) = (d', Re_Exit t)"
      using Cons.prems(2) by (simp add: i Let_def)
    have "sorted (rz_last_activity (wr_timers ?x) # wake_times ws)"
      using Cons.prems(1) by (auto simp: i wake_timers)
    from Cons.IH [OF this l] Cons.prems(1) show ?thesis
      using False by (auto simp: i Let_def wake_timers split: if_splits)
  qed
qed simp

text \<open>
  Property C25. The reaper waits. It disposes the warm sessions only when the idle time has passed since the start and since every wake
  that saw a connection or a turn; and it ends the hub only when no session is warm and its longer time has passed likewise.
\<close>

theorem reaper_patience:
  assumes "sorted (start # wake_times ws)" and "r = \<lparr>rz_last_activity = start, rz_last_reap = start\<rparr>"
    and "run_lifecycle_loop turn warm dispose cfg start ws d = (d', e)"
  shows "(\<forall>pre t a post. reaper_trace turn warm dispose cfg ws r d = pre @ (t, a, True) # post
        \<longrightarrow> start + nat (lc_idle_reap_ms cfg) \<le> t
          \<and> (\<forall>t' b. (t', True, b) \<in> set pre \<longrightarrow> t' + nat (lc_idle_reap_ms cfg) \<le> t))
    \<and> (\<forall>t. e = Re_Exit t \<longrightarrow> 0 < lc_hub_idle_ms cfg \<and> warm d' = 0 \<and> start + nat (lc_hub_idle_ms cfg) \<le> t
        \<and> (\<forall>t' b. (t', True, b) \<in> set (reaper_trace turn warm dispose cfg ws r d) \<longrightarrow> t' + nat (lc_hub_idle_ms cfg) \<le> t))"
proof (intro conjI allI impI)
  fix t assume "e = Re_Exit t"
  then have "reaper_loop turn warm dispose cfg ws r d = (d', Re_Exit t)"
    using assms(2,3) by (auto simp: run_lifecycle_loop_def split: if_splits)
  with exit_waits [of r ws] assms(1,2)
  have x: "0 < lc_hub_idle_ms cfg \<and> warm d' = 0 \<and> start + nat (lc_hub_idle_ms cfg) \<le> t
    \<and> (\<forall>t' b. (t', True, b) \<in> set (reaper_trace turn warm dispose cfg ws r d) \<longrightarrow> t' + nat (lc_hub_idle_ms cfg) \<le> t)"
    by fastforce
  then show "0 < lc_hub_idle_ms cfg" "warm d' = 0" "start + nat (lc_hub_idle_ms cfg) \<le> t" by blast+
  show "t' + nat (lc_hub_idle_ms cfg) \<le> t" if "(t', True, b) \<in> set (reaper_trace turn warm dispose cfg ws r d)" for t' b
    using x that by blast
next
  fix pre t a post t' b
  assume tr: "reaper_trace turn warm dispose cfg ws r d = pre @ (t, a, True) # post"
  have "sorted (rz_last_activity r # wake_times ws)" using assms(1,2) by simp
  from disposals_wait [OF this tr] assms(2) show "start + nat (lc_idle_reap_ms cfg) \<le> t" by simp
  from disposals_wait [OF \<open>sorted (rz_last_activity r # wake_times ws)\<close> tr]
  show "(t', True, b) \<in> set pre \<Longrightarrow> t' + nat (lc_idle_reap_ms cfg) \<le> t" by blast
qed

theorem reaper_patience_witness:
  "let w = (\<lambda>t n. Ri_Wake \<lparr>wk_now = t, wk_before = id, wk_clients = n, wk_during = id\<rparr>)
   in run_lifecycle_loop (\<lambda>_. False) (\<lambda>_. 0) id \<lparr>lc_idle_reap_ms = 1000, lc_hub_idle_ms = 2000\<rparr> 0 [w 1000 1, w 2000 0, w 3000 0] ()
        = ((), Re_Exit 3000) \<and> (1000 :: nat) + 2000 \<le> 3000"
proof -
  let ?w = "\<lambda>t n. Ri_Wake \<lparr>wk_now = t, wk_before = id, wk_clients = n, wk_during = id\<rparr>"
  let ?ws = "[?w 1000 1, ?w 2000 0, ?w 3000 0] :: unit ReaperInput list" and ?cfg = "\<lparr>lc_idle_reap_ms = 1000, lc_hub_idle_ms = 2000\<rparr>"
  let ?r = "\<lparr>rz_last_activity = 0, rz_last_reap = 0\<rparr>"
  have run: "run_lifecycle_loop (\<lambda>_. False) (\<lambda>_. 0) id ?cfg 0 ?ws () = ((), Re_Exit 3000)"
    by (simp add: run_lifecycle_loop_def reaper_wake_def due_def reap_due_def Let_def)
  have act: "(1000, True, False) \<in> set (reaper_trace (\<lambda>_. False) (\<lambda>_. 0) id ?cfg ?ws ?r ())"
    by (simp add: reaper_wake_def Let_def)
  have srt: "sorted (0 # wake_times ?ws)" by simp
  from reaper_patience [OF srt refl run] act have "(1000 :: nat) + nat 2000 \<le> 3000"
    by (metis LifecycleConfig.select_convs(2))
  then show ?thesis using run by (simp add: Let_def)
qed

section \<open>An idle runtime ends\<close>

text \<open>A wake that finds the hub idle, before which nothing is warmed up and no turn begins.\<close>

definition quiet :: "('d \<Rightarrow> bool) \<Rightarrow> ('d \<Rightarrow> nat) \<Rightarrow> 'd Wake \<Rightarrow> bool" where
  "quiet turn warm w \<longleftrightarrow> wk_clients w = 0 \<and> (\<forall>d. \<not> turn d \<longrightarrow> \<not> turn (wk_before w d) \<and> \<not> turn (wk_during w d))
     \<and> (\<forall>d. warm d = 0 \<longrightarrow> warm (wk_before w d) = 0)"

lemma wake_time_in: "Ri_Wake w \<in> set ws \<Longrightarrow> wk_now w \<in> set (wake_times ws)"
  by (induction ws rule: wake_times.induct) auto

text \<open>What the reaper relies on of a driver: without a turn, a disposal leaves no warm session and starts none.\<close>

locale reapable_driver =
  fixes turn :: "'d \<Rightarrow> bool" and warm :: "'d \<Rightarrow> nat" and dispose :: "'d \<Rightarrow> 'd"
  assumes dispose_idle: "\<not> turn d \<Longrightarrow> warm (dispose d) = 0"
    and dispose_quiet: "\<not> turn d \<Longrightarrow> \<not> turn (dispose d)"
begin

lemma quiet_wake:
  assumes "quiet turn warm w" and "\<not> turn d"
  shows "\<not> wr_active (reaper_wake turn warm dispose cfg w r d)" "\<not> turn (wr_driver (reaper_wake turn warm dispose cfg w r d))"
    "wr_timers (reaper_wake turn warm dispose cfg w r d) = r \<or> warm (wr_driver (reaper_wake turn warm dispose cfg w r d)) = 0"
    "rz_last_activity (wr_timers (reaper_wake turn warm dispose cfg w r d)) = rz_last_activity r"
    "warm d = 0 \<Longrightarrow> warm (wr_driver (reaper_wake turn warm dispose cfg w r d)) = 0"
  using assms dispose_idle dispose_quiet by (auto simp: reaper_wake_def quiet_def Let_def)

lemma quiet_exit:
  assumes "quiet turn warm w" and "\<not> turn d" and "0 < lc_hub_idle_ms cfg" and "0 < lc_idle_reap_ms cfg"
    and "rz_last_activity r + nat (max (lc_hub_idle_ms cfg) (lc_idle_reap_ms cfg)) \<le> wk_now w"
    and "warm d = 0 \<or> rz_last_reap r + nat (lc_idle_reap_ms cfg) \<le> wk_now w"
  shows "wr_exit (reaper_wake turn warm dispose cfg w r d)"
  using assms dispose_idle by (auto simp: reaper_wake_def quiet_def Let_def due_def reap_due_def)

lemma idle_exit:
  assumes "\<not> turn d" and "0 < lc_hub_idle_ms cfg" and "0 < lc_idle_reap_ms cfg"
    and "\<forall>i \<in> set ws. \<exists>w. i = Ri_Wake w \<and> quiet turn warm w" and "sorted (wake_times ws)"
    and "Ri_Wake w \<in> set ws"
    and "rz_last_activity r + nat (max (lc_hub_idle_ms cfg) (lc_idle_reap_ms cfg)) \<le> wk_now w"
    and "warm d = 0 \<or> rz_last_reap r + nat (lc_idle_reap_ms cfg) \<le> wk_now w"
  shows "\<exists>d' t. reaper_loop turn warm dispose cfg ws r d = (d', Re_Exit t) \<and> t \<le> wk_now w"
  using assms
proof (induction ws arbitrary: r d)
  case (Cons i ws)
  then obtain w0 where i: "i = Ri_Wake w0" and q: "quiet turn warm w0" by auto
  let ?x = "reaper_wake turn warm dispose cfg w0 r d"
  show ?case
  proof (cases "wr_exit ?x")
    case True
    then show ?thesis using wake_time_in [OF Cons.prems(6)] Cons.prems(5) by (auto simp: i Let_def)
  next
    case False
    then have "w \<noteq> w0" using quiet_exit [OF q Cons.prems(1,2,3)] Cons.prems(7,8) by auto
    then have w: "Ri_Wake w \<in> set ws" using Cons.prems(6) i by auto
    have "\<exists>d' t. reaper_loop turn warm dispose cfg ws (wr_timers ?x) (wr_driver ?x) = (d', Re_Exit t) \<and> t \<le> wk_now w"
      using Cons.prems quiet_wake [OF q Cons.prems(1), of cfg r] w by (intro Cons.IH) (auto simp: i)
    then show ?thesis using False by (simp add: i Let_def)
  qed
qed simp

end

lemma no_turn_disposed: "\<not> any_turn_in_flight d \<Longrightarrow> pd_warm (dispose_idle_warm d) = []"
  by (auto simp: any_turn_in_flight_def dispose_idle_warm_def Let_def list_ex_iff filter_empty_conv split_beta)

interpretation pt: reapable_driver any_turn_in_flight warm_session_count dispose_idle_warm
  by unfold_locales (simp_all add: no_turn_disposed warm_session_count_def any_turn_in_flight_def [of "dispose_idle_warm _"])

text \<open>The defaults of the driver interface, for a driver without warm sessions.\<close>

interpretation defaults: reapable_driver "\<lambda>_. False" "\<lambda>_. 0" id
  by unfold_locales simp_all

text \<open>
  Property C24. An idle runtime ends. With both timeouts set and the Polytoken driver, if no client connects, no turn begins and nothing
  is warmed up again, the loop signals the exit at the latest at the first wake after the longer timeout.
\<close>

theorem idle_runtime_exits:
  assumes "\<not> any_turn_in_flight d" and "0 < lc_hub_idle_ms cfg" and "0 < lc_idle_reap_ms cfg"
    and "\<forall>i \<in> set ws. \<exists>w. i = Ri_Wake w \<and> quiet any_turn_in_flight warm_session_count w"
    and "sorted (wake_times ws)" and "Ri_Wake w \<in> set ws"
    and "start + nat (max (lc_hub_idle_ms cfg) (lc_idle_reap_ms cfg)) \<le> wk_now w"
  shows "\<exists>d' t. run_lifecycle_loop any_turn_in_flight warm_session_count dispose_idle_warm cfg start ws d = (d', Re_Exit t)
    \<and> warm_session_count d' = 0 \<and> t \<le> wk_now w"
proof -
  let ?r = "\<lparr>rz_last_activity = start, rz_last_reap = start\<rparr>"
  have n: "nat (lc_idle_reap_ms cfg) \<le> nat (max (lc_hub_idle_ms cfg) (lc_idle_reap_ms cfg))" by (intro nat_mono) simp
  obtain d' t where l: "reaper_loop any_turn_in_flight warm_session_count dispose_idle_warm cfg ws ?r d = (d', Re_Exit t)" "t \<le> wk_now w"
    using pt.idle_exit [OF assms(1-6), of ?r] assms(7) n by auto
  moreover have "warm_session_count d' = 0"
    using loop_exit_cold [OF l(1)] .
  ultimately show ?thesis using assms(2) by (simp add: run_lifecycle_loop_def)
qed

theorem idle_runtime_exits_witness:
  "let cfg = \<lparr>lc_idle_reap_ms = 1000, lc_hub_idle_ms = 2000\<rparr>;
       w = (\<lambda>t. Ri_Wake \<lparr>wk_now = t, wk_before = id, wk_clients = 0, wk_during = id\<rparr>)
   in warm_session_count warm_driver = 2
    \<and> (\<exists>d t. run_lifecycle_loop any_turn_in_flight warm_session_count dispose_idle_warm cfg 0 [w 1000, w 2000] warm_driver
          = (d, Re_Exit t) \<and> warm_session_count d = 0 \<and> t \<le> 2000)"
proof -
  let ?cfg = "\<lparr>lc_idle_reap_ms = 1000, lc_hub_idle_ms = 2000\<rparr>"
  let ?k = "\<lambda>t. \<lparr>wk_now = t, wk_before = id, wk_clients = 0, wk_during = id\<rparr>"
  have quiet: "\<forall>i \<in> set [Ri_Wake (?k 1000), Ri_Wake (?k 2000)]. \<exists>w. i = Ri_Wake w \<and> quiet any_turn_in_flight warm_session_count w"
    by (simp add: quiet_def)
  have "\<not> any_turn_in_flight warm_driver" "warm_session_count warm_driver = 2"
    by (simp_all add: any_turn_in_flight_def warm_session_count_def warm_driver_def sample_session_def in_flight_def)
  moreover note idle_runtime_exits [OF this(1) _ _ quiet, of ?cfg "?k 2000" 0]
  ultimately show ?thesis by (simp add: Let_def)
qed

text \<open>The sessions that a disposal closes are chosen before it; those that leave the pool, after it.\<close>

definition dispose_selected :: "PolytokenInner \<Rightarrow> SessionId list" where
  "dispose_selected d = map fst (filter (\<lambda>(_, ws). \<not> in_flight ws) (pd_warm d))"

text \<open>A session that another task warms up meanwhile leaves the pool and is not closed.\<close>

theorem disposal_drops_new_session:
  assumes "sid \<notin> fst ` set (pd_warm d)" and "sid \<in> fst ` set (pd_warm d1)"
    and "\<forall>(k, ws) \<in> set (pd_warm d1). sr_session_id (ws_session_ref ws) = k" and "\<not> turn_in_flight d1 sid"
    and "distinct (map fst (pd_warm d1))"
  shows "sid \<notin> set (dispose_selected d) \<and> sid \<notin> fst ` set (pd_warm (dispose_idle_warm d1))"
proof -
  have quiet: "\<not> in_flight ws" if "(sid, ws) \<in> set (pd_warm d1)" for ws
    using assms(4,5) that by (simp add: turn_in_flight_def get_warm_def)
  have "sid \<notin> set (map (\<lambda>(_, ws). sr_session_id (ws_session_ref ws)) (filter (\<lambda>(_, ws). in_flight ws) (pd_warm d1)))"
  proof
    assume "sid \<in> set (map (\<lambda>(_, ws). sr_session_id (ws_session_ref ws)) (filter (\<lambda>(_, ws). in_flight ws) (pd_warm d1)))"
    then obtain k ws where w: "(k, ws) \<in> set (pd_warm d1)" "in_flight ws" "sr_session_id (ws_session_ref ws) = sid" by auto
    then have "k = sid" using assms(3) by blast
    with w quiet show False by blast
  qed
  then have "sid \<notin> fst ` set (pd_warm (dispose_idle_warm d1))"
    unfolding dispose_idle_warm_def Let_def by (auto simp del: set_map)
  moreover have "sid \<notin> set (dispose_selected d)" using assms(1) by (auto simp: dispose_selected_def)
  ultimately show ?thesis by blast
qed

end
