(* ===== verification/Push.thy ===== *)
theory Push
  imports Hub Pid_Lock
begin

text \<open>
  Web push (\<^verbatim>\<open>pantoken-server/src/push.rs\<close>): the subscription store with its file, the fan-out with the
  removal of dead endpoints, and the key pair. Signing, encryption and the push service are
  parameters, as are the JSON parser and printer of the two files.
\<close>

section \<open>The subscription store\<close>

record PushSubscription =
  pu_endpoint :: string
  pu_p256dh :: string
  pu_auth :: string

record push_codec =
  pc_parse :: "string \<Rightarrow> PushSubscription list option"
  pc_print :: "PushSubscription list \<Rightarrow> string"

text \<open>The store with the text of its file.\<close>

record PushSubscriptionStore =
  su_subs :: "(string, PushSubscription) hashmap"
  su_file :: "string option"

definition insert_sub :: "PushSubscription \<Rightarrow> (string, PushSubscription) hashmap \<Rightarrow> (string, PushSubscription) hashmap" where
  "insert_sub s m = hm_insert (pu_endpoint s) s m"

definition store_load :: "push_codec \<Rightarrow> string option \<Rightarrow> (string, PushSubscription) hashmap" where
  "store_load codec file = (case file of
     None \<Rightarrow> []
   | Some raw \<Rightarrow> (case pc_parse codec raw of None \<Rightarrow> [] | Some arr \<Rightarrow> fold insert_sub arr []))"

definition new_store :: "push_codec \<Rightarrow> string option \<Rightarrow> PushSubscriptionStore" where
  "new_store codec file = \<lparr>su_subs = store_load codec file, su_file = file\<rparr>"

definition store_count :: "PushSubscriptionStore \<Rightarrow> nat" where
  "store_count st = length (su_subs st)"

definition store_values :: "PushSubscriptionStore \<Rightarrow> PushSubscription list" where
  "store_values st = map snd (su_subs st)"

definition persist :: "push_codec \<Rightarrow> bool \<Rightarrow> PushSubscriptionStore \<Rightarrow> PushSubscriptionStore" where
  "persist codec write_ok st =
     (if write_ok then st\<lparr>su_file := Some (pc_print codec (store_values st) @ [CHR 0x0A])\<rparr> else st)"

definition store_add :: "push_codec \<Rightarrow> bool \<Rightarrow> PushSubscription \<Rightarrow> PushSubscriptionStore \<Rightarrow> PushSubscriptionStore" where
  "store_add codec write_ok s st = persist codec write_ok (st\<lparr>su_subs := insert_sub s (su_subs st)\<rparr>)"

definition store_remove :: "push_codec \<Rightarrow> bool \<Rightarrow> string \<Rightarrow> PushSubscriptionStore \<Rightarrow> PushSubscriptionStore" where
  "store_remove codec write_ok endpoint st =
     (if hm_contains (su_subs st) endpoint
      then persist codec write_ok (st\<lparr>su_subs := hm_remove endpoint (su_subs st)\<rparr>) else st)"

definition prune :: "push_codec \<Rightarrow> bool \<Rightarrow> string list \<Rightarrow> PushSubscriptionStore \<Rightarrow> PushSubscriptionStore" where
  "prune codec write_ok dead st =
     (if dead = [] then st
      else persist codec write_ok (st\<lparr>su_subs := fold hm_remove dead (su_subs st)\<rparr>))"

section \<open>The fan-out\<close>

datatype WebPushError = EndpointNotFound | EndpointNotValid | Other_Push_Error

datatype SendOutcome = Sent | Dead | Failed

definition is_dead_status :: "nat \<Rightarrow> bool" where
  "is_dead_status code \<longleftrightarrow> code = 404 \<or> code = 410"

definition is_dead_endpoint :: "WebPushError \<Rightarrow> bool" where
  "is_dead_endpoint e \<longleftrightarrow> e \<in> {EndpointNotFound, EndpointNotValid}"

definition classify_send_result :: "WebPushError + unit \<Rightarrow> SendOutcome" where
  "classify_send_result res = (case res of
     Inr _ \<Rightarrow> Sent | Inl e \<Rightarrow> if is_dead_endpoint e then Dead else Failed)"

record VapidKeys =
  vk_public_key :: string
  vk_private_key :: string

record PushService =
  pv_store :: PushSubscriptionStore
  pv_vapid :: VapidKeys
  pv_vapid_subject :: string
  pv_enabled :: bool

text \<open>\<open>build\<close>: a message is signed and encrypted for a subscription; \<open>send\<close>: the push service's answer.\<close>

definition push_results ::
  "(PushSubscription \<Rightarrow> 'm option) \<Rightarrow> ('m \<Rightarrow> WebPushError + unit) \<Rightarrow> PushSubscription list \<Rightarrow> (string \<times> SendOutcome) list" where
  "push_results build send subs = List.map_filter
     (\<lambda>s. map_option (\<lambda>m. (pu_endpoint s, classify_send_result (send m))) (build s)) subs"

definition send_to_all ::
  "push_codec \<Rightarrow> bool \<Rightarrow> (PushSubscription \<Rightarrow> 'm option) \<Rightarrow> ('m \<Rightarrow> WebPushError + unit) \<Rightarrow> PushService \<Rightarrow> PushService \<times> nat" where
  "send_to_all codec write_ok build send p =
     (let subs = store_values (pv_store p) in
      if subs = [] \<or> \<not> pv_enabled p then (p, 0)
      else
        let results = push_results build send subs;
            dead = map fst (filter (\<lambda>(_, x). x = Dead) results);
            sent = length (filter (\<lambda>(_, x). x = Sent) results)
        in (p\<lparr>pv_store := prune codec write_ok dead (pv_store p)\<rparr>, sent))"

section \<open>The key pair\<close>

text \<open>\<open>parse\<close> and \<open>to_text\<close> are the JSON library, \<open>fresh\<close> a new pair; the file's text is passed on.\<close>

definition load_or_create_vapid ::
  "(string \<Rightarrow> VapidKeys option) \<Rightarrow> (VapidKeys \<Rightarrow> string) \<Rightarrow> bool \<Rightarrow> VapidKeys \<Rightarrow> string option \<Rightarrow> string option \<times> VapidKeys" where
  "load_or_create_vapid parse to_text write_ok fresh file = (case Option.bind file parse of
     Some keys \<Rightarrow> (file, keys)
   | None \<Rightarrow> (if write_ok then Some (to_text fresh @ [CHR 0x0A]) else file, fresh))"

definition new_push_service ::
  "push_codec \<Rightarrow> (string \<Rightarrow> bool) \<Rightarrow> string \<Rightarrow> string option \<Rightarrow> VapidKeys \<Rightarrow> PushService" where
  "new_push_service codec key_parses subject subs_file vapid =
     \<lparr>pv_store = new_store codec subs_file, pv_vapid = vapid, pv_vapid_subject = subject,
      pv_enabled = key_parses (vk_private_key vapid)\<rparr>"

section \<open>The file mirrors the store\<close>

text \<open>What the store relies on of the JSON library: a printed list with a line end is read back.\<close>

definition codec_reads_back :: "push_codec \<Rightarrow> bool" where
  "codec_reads_back codec \<longleftrightarrow> (\<forall>arr. pc_parse codec (pc_print codec arr @ [CHR 0x0A]) = Some arr)"

definition store_wf :: "PushSubscriptionStore \<Rightarrow> bool" where
  "store_wf st \<longleftrightarrow> hm_wf (su_subs st) \<and> (\<forall>(k, s) \<in> set (su_subs st). pu_endpoint s = k)"

lemma fold_insert_sub:
  assumes "distinct (map fst ms @ map fst xs)" and "\<forall>(k, s) \<in> set xs. pu_endpoint s = k"
  shows "fold insert_sub (map snd xs) ms = ms @ xs"
  using assms
proof (induction xs arbitrary: ms)
  case (Cons x xs)
  obtain k s where x: "x = (k, s)" by (cases x)
  then have "insert_sub s ms = ms @ [(k, s)]" using Cons.prems by (auto simp: insert_sub_def intro!: hm_insert_fresh)
  then show ?case using Cons.IH [of "ms @ [(k, s)]"] Cons.prems x by simp
qed simp

lemma load_persisted:
  assumes "codec_reads_back codec" and "store_wf st"
  shows "store_load codec (su_file (persist codec True st)) = su_subs st"
  using assms fold_insert_sub [of "[]" "su_subs st"]
  by (simp add: store_load_def persist_def codec_reads_back_def store_values_def store_wf_def hm_wf_def)

lemma store_wf_ops:
  assumes "store_wf st"
  shows "store_wf (st\<lparr>su_subs := insert_sub s (su_subs st)\<rparr>)" "store_wf (st\<lparr>su_subs := hm_remove k (su_subs st)\<rparr>)"
    "store_wf (st\<lparr>su_subs := fold hm_remove ks (su_subs st)\<rparr>)"
proof -
  show "store_wf (st\<lparr>su_subs := insert_sub s (su_subs st)\<rparr>)"
    using assms set_hm_insert [of "pu_endpoint s" s "su_subs st"] by (auto simp: store_wf_def insert_sub_def)
  have rm: "hm_wf (fold hm_remove ks m) \<and> set (fold hm_remove ks m) \<subseteq> set m" if "hm_wf m" for ks and m :: "(string, PushSubscription) hashmap"
    using that
  proof (induction ks arbitrary: m)
    case (Cons x xs)
    then show ?case using Cons.IH [OF hm_wf_remove [OF Cons.prems, of x]] set_hm_remove [of x m] by auto
  qed simp
  then have all: "store_wf (st\<lparr>su_subs := fold hm_remove ks (su_subs st)\<rparr>)" for ks
    using assms by (fastforce simp: store_wf_def)
  from all show "store_wf (st\<lparr>su_subs := fold hm_remove ks (su_subs st)\<rparr>)" .
  from all [of "[k]"] show "store_wf (st\<lparr>su_subs := hm_remove k (su_subs st)\<rparr>)" by simp
qed

datatype StoreOp = So_Add PushSubscription | So_Remove string | So_Prune "string list"

fun store_op :: "push_codec \<Rightarrow> StoreOp \<Rightarrow> PushSubscriptionStore \<Rightarrow> PushSubscriptionStore" where
  "store_op codec (So_Add s) st = store_add codec True s st"
| "store_op codec (So_Remove e) st = store_remove codec True e st"
| "store_op codec (So_Prune ds) st = prune codec True ds st"

definition mirrored :: "push_codec \<Rightarrow> PushSubscriptionStore \<Rightarrow> bool" where
  "mirrored codec st \<longleftrightarrow> store_wf st \<and> store_load codec (su_file st) = su_subs st"

lemma persist_mirrored:
  assumes "codec_reads_back codec" and "store_wf st"
  shows "mirrored codec (persist codec True st)"
  using load_persisted [OF assms] assms(2) by (simp add: mirrored_def persist_def store_wf_def)

lemma store_op_mirrored:
  assumes "codec_reads_back codec" and "mirrored codec st"
  shows "mirrored codec (store_op codec p st)"
proof -
  have wf: "store_wf st" using assms(2) by (simp add: mirrored_def)
  note ops = persist_mirrored [OF assms(1) store_wf_ops(1) [OF wf]] persist_mirrored [OF assms(1) store_wf_ops(2) [OF wf]]
    persist_mirrored [OF assms(1) store_wf_ops(3) [OF wf]]
  then show ?thesis using assms(2) by (cases p) (simp_all add: store_add_def store_remove_def prune_def)
qed

text \<open>
  Push subscriptions survive a restart. After any sequence of additions, removals and prunings whose writes succeed,
  loading the file gives the subscriptions of the store.
\<close>

theorem subscriptions_survive_restart:
  assumes "codec_reads_back codec" and "st = fold (store_op codec) ops (new_store codec None)"
  shows "su_subs (new_store codec (su_file st)) = su_subs st"
proof -
  have "mirrored codec (fold (store_op codec) ops s)" if "mirrored codec s" for s
    using that store_op_mirrored [OF assms(1)] by (induction ops arbitrary: s) simp_all
  moreover have "mirrored codec (new_store codec None)" by (simp add: mirrored_def new_store_def store_load_def store_wf_def)
  ultimately show ?thesis using assms(2) by (simp add: mirrored_def new_store_def)
qed

text \<open>A codec for the witness: the texts in hexadecimal, each with a comma after it.\<close>

definition hex_of :: "string \<Rightarrow> string" where
  "hex_of t = concat (map (\<lambda>c. hex_byte (word_of_nat (byte_of c))) t)"

fun regroup :: "string list \<Rightarrow> PushSubscription list" where
  "regroup (e # p # a # ts) = \<lparr>pu_endpoint = e, pu_p256dh = p, pu_auth = a\<rparr> # regroup ts"
| "regroup ts = []"

definition hex_codec :: push_codec where
  "hex_codec = \<lparr>
     pc_parse = (\<lambda>raw. Some (regroup (map unhex (butlast (split_on (CHR '','') (butlast raw)))))),
     pc_print = (\<lambda>arr. join '','' (map hex_of (concat (map (\<lambda>s. [pu_endpoint s, pu_p256dh s, pu_auth s]) arr)) @ [[]]))\<rparr>"

lemma regroup_fields: "regroup (concat (map (\<lambda>s. [pu_endpoint s, pu_p256dh s, pu_auth s]) arr)) = arr"
  by (induction arr) simp_all

lemma hex_byte_no_comma: "CHR '','' \<notin> set (hex_byte b)"
proof -
  have "hex_digit n \<noteq> CHR '',''" if "n < 16" for n
  proof -
    have "48 \<le> byte_of (hex_digit n)" using that by (simp add: hex_digit_def byte_of_def)
    then show ?thesis by (auto simp: byte_of_def)
  qed
  moreover have "unat b div 16 < 16" using unsigned_less [of b, where ?'a = nat] by (simp add: less_mult_imp_div_less)
  moreover have "unat b mod 16 < 16" by simp
  ultimately have "hex_digit (unat b div 16) \<noteq> CHR '',''" "hex_digit (unat b mod 16) \<noteq> CHR '',''" by blast+
  then show ?thesis by (simp add: hex_byte_def)
qed

lemma hex_codec_reads_back: "codec_reads_back hex_codec"
proof -
  have no_comma: "CHR '','' \<notin> set (hex_of t)" for t
    using hex_byte_no_comma by (auto simp: hex_of_def)
  have "split_on (CHR '','') (join '','' (map hex_of fs @ [[]])) = map hex_of fs @ [[]]" for fs
    using no_comma by (intro split_on_join) auto
  moreover have "map (unhex \<circ> hex_of) fs = fs" for fs
    using unhex_hex by (simp add: hex_of_def comp_def)
  ultimately show ?thesis by (simp add: codec_reads_back_def hex_codec_def regroup_fields)
qed

theorem subscriptions_survive_restart_witness:
  "let s = (\<lambda>e. \<lparr>pu_endpoint = e, pu_p256dh = ''k'', pu_auth = ''a''\<rparr>);
       st = fold (store_op hex_codec) [So_Add (s ''x''), So_Add (s ''y''), So_Remove ''x''] (new_store hex_codec None)
   in su_subs (new_store hex_codec (su_file st)) = [(''y'', s ''y'')]"
proof -
  let ?s = "\<lambda>e. \<lparr>pu_endpoint = e, pu_p256dh = ''k'', pu_auth = ''a''\<rparr>"
  let ?st = "fold (store_op hex_codec) [So_Add (?s ''x''), So_Add (?s ''y''), So_Remove ''x''] (new_store hex_codec None)"
  have "su_subs ?st = [(''y'', ?s ''y'')]"
    by (simp add: store_add_def store_remove_def persist_def insert_sub_def new_store_def store_load_def hm_insert_def
        hm_remove_def hm_contains_def)
  then show ?thesis using subscriptions_survive_restart [OF hex_codec_reads_back, of ?st, OF refl] by (simp only: Let_def)
qed

section \<open>Dead endpoints\<close>

lemma fold_remove_get: "map_of (fold hm_remove ks m) k = (if k \<in> set ks then None else map_of m k)"
  by (induction ks arbitrary: m) auto

text \<open>
  A fan-out removes exactly the dead endpoints. A subscription leaves the store if and only if a message was built for it
  and the push service reported it gone; one that failed otherwise, or could not be signed, stays.
\<close>

theorem push_removes_exactly_dead:
  assumes "store_wf (pv_store p)" and "pv_enabled p" and "send_to_all codec ok build send p = (p', n)"
  shows "map_of (su_subs (pv_store p')) e = (case map_of (su_subs (pv_store p)) e of
       Some s \<Rightarrow> (case build s of
           Some m \<Rightarrow> if classify_send_result (send m) = Dead then None else Some s
         | None \<Rightarrow> Some s)
     | None \<Rightarrow> None)"
proof -
  let ?st = "pv_store p"
  let ?results = "push_results build send (store_values ?st)"
  let ?dead = "map fst (filter (\<lambda>(_, x). x = Dead) ?results)"
  have wf: "hm_wf (su_subs ?st)" and keys: "\<And>k s. (k, s) \<in> set (su_subs ?st) \<Longrightarrow> pu_endpoint s = k"
    using assms(1) by (auto simp: store_wf_def)
  have p': "su_subs (pv_store p') = fold hm_remove ?dead (su_subs ?st)"
    using assms(2,3) by (cases "store_values ?st = []") (auto simp: send_to_all_def Let_def prune_def persist_def push_results_def map_filter_simps)
  have dead: "e \<in> set ?dead \<longleftrightarrow> (\<exists>s m. map_of (su_subs ?st) e = Some s \<and> build s = Some m \<and> classify_send_result (send m) = Dead)"
  proof -
    have "e \<in> set ?dead \<longleftrightarrow> (\<exists>k s m. (k, s) \<in> set (su_subs ?st) \<and> pu_endpoint s = e \<and> build s = Some m \<and> classify_send_result (send m) = Dead)"
      by (force simp: push_results_def store_values_def List.map_filter_def image_iff)
    then show ?thesis using keys hm_wf_get_iff [OF wf] by blast
  qed
  show ?thesis unfolding p' fold_remove_get dead by (auto split: option.split)
qed

theorem push_removes_exactly_dead_witness:
  "let s = (\<lambda>e. \<lparr>pu_endpoint = e, pu_p256dh = [], pu_auth = []\<rparr>);
       p = \<lparr>pv_store = \<lparr>su_subs = [(''x'', s ''x''), (''y'', s ''y'')], su_file = None\<rparr>,
            pv_vapid = \<lparr>vk_public_key = [], vk_private_key = []\<rparr>, pv_vapid_subject = [], pv_enabled = True\<rparr>;
       gone = (\<lambda>e. if e = ''x'' then Inl EndpointNotFound else Inr ())
   in map_of (su_subs (pv_store (fst (send_to_all hex_codec True (\<lambda>s. Some (pu_endpoint s)) gone p)))) ''x'' = None"
proof -
  let ?s = "\<lambda>e. \<lparr>pu_endpoint = e, pu_p256dh = [], pu_auth = []\<rparr>"
  let ?p = "\<lparr>pv_store = \<lparr>su_subs = [(''x'', ?s ''x''), (''y'', ?s ''y'')], su_file = None\<rparr>,
            pv_vapid = \<lparr>vk_public_key = [], vk_private_key = []\<rparr>, pv_vapid_subject = [], pv_enabled = True\<rparr>"
  let ?gone = "\<lambda>e. if e = ''x'' then Inl EndpointNotFound else Inr ()"
  have "store_wf (pv_store ?p)" by (simp add: store_wf_def hm_wf_def)
  moreover obtain p' n where r: "send_to_all hex_codec True (\<lambda>s. Some (pu_endpoint s)) ?gone ?p = (p', n)"
    by (cases "send_to_all hex_codec True (\<lambda>s. Some (pu_endpoint s)) ?gone ?p")
  ultimately have "map_of (su_subs (pv_store p')) ''x'' = None"
    using push_removes_exactly_dead [of ?p hex_codec True "\<lambda>s. Some (pu_endpoint s)" ?gone p' n "''x''"]
    by (simp add: classify_send_result_def is_dead_endpoint_def)
  then show ?thesis by (simp only: Let_def r fst_conv)
qed

text \<open>A key file that does not parse is replaced by a new pair, and the service is enabled with it.\<close>

theorem corrupt_vapid_replaced:
  assumes "parse raw = None" and "key_parses (vk_private_key fresh)"
  shows "load_or_create_vapid parse to_text True fresh (Some raw) = (Some (to_text fresh @ [CHR 0x0A]), fresh)
    \<and> pv_enabled (new_push_service codec key_parses subject file (snd (load_or_create_vapid parse to_text True fresh (Some raw))))"
  using assms by (simp add: load_or_create_vapid_def new_push_service_def)

end
