(* ===== verification/Http_Routes.thy ===== *)
theory Http_Routes
  imports Push Server_Config Client_Dispatch Hub_Props
begin

text \<open>
  The HTTP boundary: the one-time setup credential (\<^verbatim>\<open>pantoken-server/src/bootstrap.rs\<close>) and the router
  with its handlers (\<^verbatim>\<open>pantoken-server/src/http.rs\<close>). A handler is a function of the shared state and the
  request. The framework's extractors are the request's fields; instants are milliseconds.
\<close>

section \<open>The setup credential\<close>

definition LIFETIME :: nat where
  "LIFETIME = 10 * 60 * 1000"

record IssuedCredential =
  ic_value :: string
  ic_issued_at :: nat
  ic_consumed :: bool

record BootstrapInner =
  bi_credential :: "IssuedCredential option"
  bi_generation :: u64

definition new_bootstrap :: BootstrapInner where
  "new_bootstrap = \<lparr>bi_credential = None, bi_generation = 0\<rparr>"

definition saturating_inc :: "u64 \<Rightarrow> u64" where
  "saturating_inc g = (if g = - 1 then g else g + 1)"

definition issue :: "nat \<Rightarrow> u8 list \<Rightarrow> BootstrapInner \<Rightarrow> BootstrapInner \<times> string" where
  "issue now bytes b = (let value = concat (map hex_byte bytes) in
     (b\<lparr>bi_generation := saturating_inc (bi_generation b),
        bi_credential := Some \<lparr>ic_value = value, ic_issued_at = now, ic_consumed = False\<rparr>\<rparr>, value))"

definition valid :: "nat \<Rightarrow> string \<Rightarrow> BootstrapInner \<Rightarrow> bool" where
  "valid now candidate b = (case bi_credential b of
     None \<Rightarrow> False
   | Some c \<Rightarrow> \<not> ic_consumed c \<and> now - ic_issued_at c < LIFETIME \<and> ic_value c = candidate)"

definition consume :: "nat \<Rightarrow> string \<Rightarrow> BootstrapInner \<Rightarrow> BootstrapInner \<times> bool" where
  "consume now candidate b = (case bi_credential b of
     None \<Rightarrow> (b, False)
   | Some c \<Rightarrow>
       if ic_consumed c \<or> now - ic_issued_at c \<ge> LIFETIME then (b, False)
       else if ic_value c \<noteq> candidate then (b, False)
       else (b\<lparr>bi_credential := Some (c\<lparr>ic_consumed := True\<rparr>)\<rparr>, True))"

definition invalidate :: "BootstrapInner \<Rightarrow> BootstrapInner" where
  "invalidate b = b\<lparr>bi_credential := None, bi_generation := saturating_inc (bi_generation b)\<rparr>"

record BootstrapStatus =
  bs_issued :: bool
  bs_expires_in_seconds :: "nat option"
  bs_generation :: u64

definition bootstrap_status_of :: "nat \<Rightarrow> BootstrapInner \<Rightarrow> BootstrapStatus" where
  "bootstrap_status_of now b = \<lparr>
     bs_issued = (case bi_credential b of None \<Rightarrow> False | Some c \<Rightarrow> \<not> ic_consumed c \<and> now - ic_issued_at c < LIFETIME),
     bs_expires_in_seconds = (case bi_credential b of
         None \<Rightarrow> None
       | Some c \<Rightarrow> if ic_consumed c then None
           else if now - ic_issued_at c \<le> LIFETIME then Some ((LIFETIME - (now - ic_issued_at c)) div 1000) else None),
     bs_generation = bi_generation b\<rparr>"

section \<open>Requests and responses\<close>

datatype Method = GET | POST | HEAD | Other_Method string

record Request =
  rq_method :: Method
  rq_path :: string
  rq_authorization :: "string list"
  rq_query :: "(string \<times> string) list"
  rq_content_type :: "string option"
  rq_body :: string
  rq_static :: ReqHeaders

text \<open>The setup page and the debugging snapshot of the hub stand for their contents.\<close>

datatype Body = B_Text string | B_Json json_value | B_Setup_Page | B_Debug_Snapshot

record HttpResponse =
  hr_status :: nat
  hr_headers :: "(string \<times> string) list"
  hr_body :: Body

datatype Answer = Respond HttpResponse | Upgrade

definition text_response :: "nat \<Rightarrow> string \<Rightarrow> HttpResponse" where
  "text_response status t = \<lparr>hr_status = status, hr_headers = [], hr_body = B_Text t\<rparr>"

definition json_response :: "nat \<Rightarrow> json_object \<Rightarrow> HttpResponse" where
  "json_response status obj = \<lparr>hr_status = status, hr_headers = [], hr_body = B_Json (J_Object obj)\<rparr>"

record AppState =
  ap_config :: Config
  ap_static :: StaticCache
  ap_hub :: SessionHub
  ap_push :: PushService
  ap_is_debug_driver :: bool
  ap_bootstrap :: BootstrapInner

record UpdateStateBody =
  ub_available :: "bool option"
  ub_sha :: "string option"
  ub_apply_failed :: "bool option"

record ConsumePermitBody =
  cb_authorization_generation :: u64
  cb_lease_nonce :: string
  cb_lease_sha :: string

text \<open>
  What the handlers take from outside: the deserialized bodies (for the update report, a rejection of
  the framework with its status), the clock, the push service, the client directory, the driver's
  default seed.
\<close>

record 'm HttpIo =
  io_now :: nat
  io_subscription :: "string \<Rightarrow> PushSubscription option"
  io_unsubscribe :: "string \<Rightarrow> string option option"
  io_update_state :: "Request \<Rightarrow> nat + UpdateStateBody"
  io_permit :: "Request \<Rightarrow> ConsumePermitBody option"
  io_exchange :: "string \<Rightarrow> string option option"
  io_codec :: push_codec
  io_write_ok :: bool
  io_build :: "PushSubscription \<Rightarrow> 'm option"
  io_send :: "'m \<Rightarrow> WebPushError + unit"
  io_env :: Env
  io_default_seed :: "SessionDriverEvent list option"
  io_gzip :: "string \<Rightarrow> string option"
  io_files :: dist_files

section \<open>Handlers\<close>

definition authorized :: "AppState \<Rightarrow> Request \<Rightarrow> bool" where
  "authorized st rq = token_ok (bearer_from_headers (rq_authorization rq)) (ap_config st)"

definition unauthorized :: HttpResponse where
  "unauthorized = text_response 401 ''unauthorized''"

definition bootstrap_unauthorized :: HttpResponse where
  "bootstrap_unauthorized = (json_response 401 [(''error'', J_String ''unauthorized'')])
     \<lparr>hr_headers := [(''content-type'', ''application/json'')]\<rparr>"

definition bootstrap_headers :: "(string \<times> string) list" where
  "bootstrap_headers = [(''cache-control'', ''no-store, no-cache, must-revalidate''), (''referrer-policy'', ''no-referrer'')]"

definition bootstrap_page :: HttpResponse where
  "bootstrap_page = \<lparr>hr_status = 200, hr_headers = bootstrap_headers @ [(''content-type'', ''text/html; charset=utf-8'')],
     hr_body = B_Setup_Page\<rparr>"

definition bootstrap_post_inner :: "'m HttpIo \<Rightarrow> Request \<Rightarrow> AppState \<Rightarrow> AppState \<times> HttpResponse" where
  "bootstrap_post_inner io rq st =
     (if rq_query rq \<noteq> [] \<or> rq_content_type rq \<noteq> Some ''application/json'' then (st, bootstrap_unauthorized)
      else case io_exchange io (rq_body rq) of
        None \<Rightarrow> (st, bootstrap_unauthorized)
      | Some None \<Rightarrow> (st, bootstrap_unauthorized)
      | Some (Some credential) \<Rightarrow>
          if credential = [] then (st, bootstrap_unauthorized)
          else (case consume (io_now io) credential (ap_bootstrap st) of
              (b, False) \<Rightarrow> (st\<lparr>ap_bootstrap := b\<rparr>, bootstrap_unauthorized)
            | (b, True) \<Rightarrow> (st\<lparr>ap_bootstrap := b\<rparr>, (case cf_token (ap_config st) of
                None \<Rightarrow> bootstrap_unauthorized
              | Some token \<Rightarrow> (json_response 200 [(''token'', J_String token)])\<lparr>hr_headers := bootstrap_headers\<rparr>))))"

definition bootstrap_method :: "'m HttpIo \<Rightarrow> Request \<Rightarrow> AppState \<Rightarrow> AppState \<times> HttpResponse" where
  "bootstrap_method io rq st = (case rq_method rq of
     GET \<Rightarrow> (st, case map_of (rq_query rq) ''credential'' of
         None \<Rightarrow> bootstrap_unauthorized
       | Some c \<Rightarrow> if valid (io_now io) c (ap_bootstrap st) then bootstrap_page else bootstrap_unauthorized)
   | POST \<Rightarrow> bootstrap_post_inner io rq st
   | _ \<Rightarrow> (st, (json_response 405 [(''error'', J_String ''method_not_allowed'')])\<lparr>hr_headers := [(''allow'', ''GET, POST'')]\<rparr>))"

definition json_nat :: "nat \<Rightarrow> json_value" where
  "json_nat n = J_Number (show_nat n)"

definition health_route :: "Request \<Rightarrow> AppState \<Rightarrow> HttpResponse" where
  "health_route rq st =
     (if \<not> authorized st rq then unauthorized
      else let t = h_track (ap_hub st) in json_response 200
        [(''service'', J_String ''pantoken-server''), (''ok'', J_Bool True), (''clients'', json_nat (client_count (ap_hub st))),
         (''running'', json_nat (length (tk_running t))), (''initializing'', json_nat (length (tk_initializing t))),
         (''busy'', J_Bool (tk_running t \<noteq> [] \<or> tk_initializing t \<noteq> []))])"

definition ws_handler :: "Request \<Rightarrow> Answer" where
  "ws_handler rq = (if map_of (rq_query rq) ''token'' \<noteq> None then Respond unauthorized else Upgrade)"

definition push_vapid :: "Request \<Rightarrow> AppState \<Rightarrow> HttpResponse" where
  "push_vapid rq st = (if \<not> authorized st rq then unauthorized
     else json_response 200 [(''publicKey'', J_String (vk_public_key (pv_vapid (ap_push st))))])"

definition push_subscribe :: "'m HttpIo \<Rightarrow> Request \<Rightarrow> AppState \<Rightarrow> AppState \<times> HttpResponse" where
  "push_subscribe io rq st =
     (if \<not> authorized st rq then (st, unauthorized)
      else case io_subscription io (rq_body rq) of
        None \<Rightarrow> (st, text_response 400 ''bad request'')
      | Some sub \<Rightarrow>
          (st\<lparr>ap_push := (ap_push st)\<lparr>pv_store := store_add (io_codec io) (io_write_ok io) sub (pv_store (ap_push st))\<rparr>\<rparr>,
           json_response 200 [(''ok'', J_Bool True)]))"

definition push_unsubscribe :: "'m HttpIo \<Rightarrow> Request \<Rightarrow> AppState \<Rightarrow> AppState \<times> HttpResponse" where
  "push_unsubscribe io rq st =
     (if \<not> authorized st rq then (st, unauthorized)
      else case io_unsubscribe io (rq_body rq) of
        None \<Rightarrow> (st, text_response 400 ''bad request'')
      | Some endpoint \<Rightarrow>
          ((case endpoint of
              Some e \<Rightarrow> st\<lparr>ap_push := (ap_push st)\<lparr>pv_store := store_remove (io_codec io) (io_write_ok io) e (pv_store (ap_push st))\<rparr>\<rparr>
            | None \<Rightarrow> st),
           json_response 200 [(''ok'', J_Bool True)]))"

definition push_test :: "'m HttpIo \<Rightarrow> Request \<Rightarrow> AppState \<Rightarrow> AppState \<times> HttpResponse" where
  "push_test io rq st =
     (if \<not> authorized st rq then (st, unauthorized)
      else case send_to_all (io_codec io) (io_write_ok io) (io_build io) (io_send io) (ap_push st) of
        (p, sent) \<Rightarrow> (st\<lparr>ap_push := p\<rparr>, json_response 200
          [(''ok'', J_Bool True), (''subscriptions'', json_nat (store_count (pv_store p))), (''sent'', json_nat sent)]))"

definition update_json :: "UpdateReport \<Rightarrow> json_object" where
  "update_json u =
     [(''applying'', J_Bool (ur_applying u)), (''force'', J_Bool (ur_force u)),
       (''authorizationGeneration'', nullable (json_nat \<circ> unat) (ur_authorization_generation u)),
       (''leaseNonce'', nullable J_String (ur_lease_nonce u)), (''leaseSha'', nullable J_String (ur_lease_sha u)),
       (''leaseExpiresAt'', nullable json_nat (ur_lease_expires_at u))]"

text \<open>The body is extracted before the handler runs: a malformed one is rejected ahead of the token check.\<close>

definition update_state :: "'m HttpIo \<Rightarrow> Request \<Rightarrow> AppState \<Rightarrow> AppState \<times> HttpResponse" where
  "update_state io rq st = (case io_update_state io rq of
     Inl status \<Rightarrow> (st, text_response status [])
   | Inr body \<Rightarrow>
       if \<not> authorized st rq then (st, unauthorized)
       else
         let sha = (if ub_available body = Some True then ub_sha body else None);
             apply_failed = (ub_apply_failed body = Some True)
         in case report_update sha apply_failed None (ap_hub st) of
              (h, result) \<Rightarrow> (st\<lparr>ap_hub := h\<rparr>, json_response 200 (update_json result)))"

definition consume_permit_route :: "'m HttpIo \<Rightarrow> Request \<Rightarrow> AppState \<Rightarrow> AppState \<times> HttpResponse" where
  "consume_permit_route io rq st =
     (if \<not> authorized st rq
      then (st, json_response 401 [(''permit'', J_Bool False), (''reason'', J_String ''unauthorized'')])
      else case io_permit io rq of
        None \<Rightarrow> (st, json_response 400 [(''permit'', J_Bool False), (''reason'', J_String ''malformed'')])
      | Some body \<Rightarrow>
          (case consume_update_permit (io_now io) (cb_authorization_generation body) (cb_lease_nonce body) (cb_lease_sha body) (ap_hub st) of
             (h, Inr _) \<Rightarrow> (st\<lparr>ap_hub := h\<rparr>, json_response 200 [(''permit'', J_Bool True)])
           | (h, Inl reason) \<Rightarrow> (st\<lparr>ap_hub := h\<rparr>, json_response 200 [(''permit'', J_Bool False), (''reason'', J_String reason)])))"

definition debug_state :: "Request \<Rightarrow> AppState \<Rightarrow> HttpResponse" where
  "debug_state rq st =
     (if \<not> cf_debug (ap_config st) then text_response 404 ''debug disabled''
      else if \<not> authorized st rq then unauthorized
      else \<lparr>hr_status = 200, hr_headers = [], hr_body = B_Debug_Snapshot\<rparr>)"

text \<open>\<open>None\<close> when the reset panics.\<close>

definition debug_reset :: "'m HttpIo \<Rightarrow> Request \<Rightarrow> AppState \<Rightarrow> (AppState \<times> HttpResponse) option" where
  "debug_reset io rq st =
     (if \<not> cf_debug (ap_config st) then Some (st, text_response 404 ''debug disabled'')
      else if \<not> authorized st rq then Some (st, unauthorized)
      else if \<not> ap_is_debug_driver st then Some (st, text_response 403 ''debug reset is dev-driver-only'')
      else map_option (\<lambda>h. (st\<lparr>ap_hub := h\<rparr>, json_response 200 [(''ok'', J_Bool True)]))
        (reset (io_env io) (io_now io) (map_of (rq_query rq) ''bootstrap'' \<noteq> Some ''0'') (io_default_seed io) (ap_hub st)))"

definition of_static :: "Response \<Rightarrow> HttpResponse" where
  "of_static r = \<lparr>hr_status = rp_status r, hr_headers = rp_headers r, hr_body = B_Text (rp_body r)\<rparr>"

definition static_fallback :: "'m HttpIo \<Rightarrow> Request \<Rightarrow> AppState \<Rightarrow> AppState \<times> HttpResponse" where
  "static_fallback io rq st =
     (if \<not> authorized st rq then (st, unauthorized)
      else case serve (io_gzip io) (env_lower (io_env io)) (io_files io) (cf_client_dist (ap_config st)) (rq_path rq) (rq_static rq) (ap_static st) of
        (c, Some r) \<Rightarrow> (st\<lparr>ap_static := c\<rparr>, of_static r)
      | (c, None) \<Rightarrow> (st\<lparr>ap_static := c\<rparr>,
          text_response 200 (''pantoken server '' @ em_dash @ '' no client build (run `bun run dev`)'')))"

section \<open>The router\<close>

datatype Route = Rt_Ws | Rt_Health | Rt_Bootstrap | Rt_Vapid | Rt_Subscribe | Rt_Unsubscribe | Rt_Push_Test
  | Rt_Update_State | Rt_Permit | Rt_Debug_State | Rt_Debug_Reset | Rt_Static | Rt_Wrong_Method

definition is_get :: "Method \<Rightarrow> bool" where
  "is_get m \<longleftrightarrow> m = GET \<or> m = HEAD"

definition route_of :: "Request \<Rightarrow> Route" where
  "route_of rq = (let m = rq_method rq; p = rq_path rq;
       on_get = (\<lambda>r. if is_get m then r else Rt_Wrong_Method);
       on_post = (\<lambda>r. if m = POST then r else Rt_Wrong_Method)
     in if p = ''/ws'' then on_get Rt_Ws
        else if p = ''/health'' then on_get Rt_Health
        else if p = ''/bootstrap'' then Rt_Bootstrap
        else if p = ''/push/vapid'' then on_get Rt_Vapid
        else if p = ''/push/subscribe'' then on_post Rt_Subscribe
        else if p = ''/push/unsubscribe'' then on_post Rt_Unsubscribe
        else if p = ''/push/test'' then on_post Rt_Push_Test
        else if p = ''/update/state'' then on_post Rt_Update_State
        else if p = ''/update/permit/consume'' then on_post Rt_Permit
        else if p = ''/debug/state'' then on_get Rt_Debug_State
        else if p = ''/debug/reset'' then (if is_get m \<or> m = POST then Rt_Debug_Reset else Rt_Wrong_Method)
        else Rt_Static)"

definition handle_request :: "'m HttpIo \<Rightarrow> Request \<Rightarrow> AppState \<Rightarrow> (AppState \<times> Answer) option" where
  "handle_request io rq st =
     (let respond = (\<lambda>r. Some (st, Respond r)); pass = (\<lambda>(s, r). Some (s, Respond r)) in
      case route_of rq of
        Rt_Ws \<Rightarrow> Some (st, ws_handler rq)
      | Rt_Health \<Rightarrow> respond (health_route rq st)
      | Rt_Bootstrap \<Rightarrow> pass (bootstrap_method io rq st)
      | Rt_Vapid \<Rightarrow> respond (push_vapid rq st)
      | Rt_Subscribe \<Rightarrow> pass (push_subscribe io rq st)
      | Rt_Unsubscribe \<Rightarrow> pass (push_unsubscribe io rq st)
      | Rt_Push_Test \<Rightarrow> pass (push_test io rq st)
      | Rt_Update_State \<Rightarrow> pass (update_state io rq st)
      | Rt_Permit \<Rightarrow> pass (consume_permit_route io rq st)
      | Rt_Debug_State \<Rightarrow> respond (debug_state rq st)
      | Rt_Debug_Reset \<Rightarrow> map_option (\<lambda>(s, r). (s, Respond r)) (debug_reset io rq st)
      | Rt_Static \<Rightarrow> pass (static_fallback io rq st)
      | Rt_Wrong_Method \<Rightarrow> respond (text_response 405 []))"

section \<open>The token guards every route\<close>

lemma route_exempt: "rq_path rq \<notin> {''/ws'', ''/bootstrap''} \<Longrightarrow> route_of rq \<notin> {Rt_Ws, Rt_Bootstrap}"
  by (simp add: route_of_def Let_def)

text \<open>
  Property C26. The token guards every route but the two that check a credential of their own. With a token configured, a request without
  it changes nothing, and is answered with a refusal or with the framework's rejection of its body.
\<close>

theorem token_guards_routes:
  assumes "cf_token (ap_config st) = Some token" and "bearer_from_headers (rq_authorization rq) \<noteq> Some token"
    and "rq_path rq \<notin> {''/ws'', ''/bootstrap''}"
  shows "\<exists>r. handle_request io rq st = Some (st, Respond r)
    \<and> (hr_status r \<in> {401, 404, 405} \<or> Inl (hr_status r) = io_update_state io rq)
    \<and> hr_body r \<noteq> B_Debug_Snapshot"
proof -
  have "\<not> authorized st rq" using assms(1,2) by (simp add: authorized_def token_ok_def)
  then show ?thesis using route_exempt [OF assms(3)]
    by (cases "route_of rq"; cases "io_update_state io rq")
      (auto simp: handle_request_def Let_def health_route_def push_vapid_def push_subscribe_def push_unsubscribe_def push_test_def
        update_state_def consume_permit_route_def debug_state_def debug_reset_def static_fallback_def unauthorized_def
        text_response_def json_response_def)
qed

definition sample_app :: AppState where
  "sample_app = \<lparr>ap_config = load_config [] (\<lambda>v. if v = ''PANTOKEN_TOKEN'' then Some ''s'' else None),
     ap_static = \<lparr>sc_gzip = [], sc_etag = []\<rparr>, ap_hub = empty_hub sample_cfg 0,
     ap_push = \<lparr>pv_store = \<lparr>su_subs = [], su_file = None\<rparr>, pv_vapid = \<lparr>vk_public_key = [], vk_private_key = []\<rparr>,
       pv_vapid_subject = [], pv_enabled = True\<rparr>,
     ap_is_debug_driver = True, ap_bootstrap = fst (issue 0 [0xAB] new_bootstrap)\<rparr>"

definition sample_io :: "unit HttpIo" where
  "sample_io = \<lparr>io_now = 5, io_subscription = (\<lambda>_. None), io_unsubscribe = (\<lambda>_. None), io_update_state = (\<lambda>_. Inl 415),
     io_permit = (\<lambda>_. None), io_exchange = (\<lambda>s. Some (Some s)), io_codec = hex_codec, io_write_ok = True, io_build = (\<lambda>_. None),
     io_send = (\<lambda>_. Inr ()), io_env = sample_env, io_default_seed = None, io_gzip = (\<lambda>_. None), io_files = (\<lambda>_. None)\<rparr>"

definition sample_request :: "Method \<Rightarrow> string \<Rightarrow> string \<Rightarrow> Request" where
  "sample_request m p body = \<lparr>rq_method = m, rq_path = p, rq_authorization = [''Bearer guess''], rq_query = [],
     rq_content_type = Some ''application/json'', rq_body = body,
     rq_static = \<lparr>rh_if_none_match = None, rh_accept_encoding = None\<rparr>\<rparr>"

lemma sample_app_token: "cf_token (ap_config sample_app) = Some ''s''"
  by (simp add: sample_app_def load_config_def Let_def)

theorem token_guards_routes_witness:
  "\<exists>r. handle_request sample_io (sample_request POST ''/debug/reset'' []) sample_app = Some (sample_app, Respond r)
     \<and> hr_status r \<in> {401, 404, 405, 415}"
proof -
  have "bearer_from_headers (rq_authorization (sample_request POST ''/debug/reset'' [])) \<noteq> Some ''s''"
    by (simp add: sample_request_def bearer_from_headers_def bearer_credential_def header_to_str_def Let_def)
  from token_guards_routes [OF sample_app_token this, of sample_io] show ?thesis
    by (auto simp: sample_request_def sample_io_def)
qed

section \<open>The setup credential is used once\<close>

datatype SetupOp = Su_Issue nat "u8 list" | Su_Invalidate | Su_Consume nat string

fun setup_op :: "SetupOp \<Rightarrow> BootstrapInner \<Rightarrow> BootstrapInner \<times> bool" where
  "setup_op (Su_Issue now bytes) b = (fst (issue now bytes b), False)"
| "setup_op Su_Invalidate b = (invalidate b, False)"
| "setup_op (Su_Consume now c) b = consume now c b"

fun setup_run :: "SetupOp list \<Rightarrow> BootstrapInner \<Rightarrow> BootstrapInner \<times> bool list" where
  "setup_run [] b = (b, [])"
| "setup_run (p # ps) b = (let (b1, x) = setup_op p b; (b2, xs) = setup_run ps b1 in (b2, x # xs))"

definition live :: "BootstrapInner \<Rightarrow> bool" where
  "live b \<longleftrightarrow> (case bi_credential b of Some c \<Rightarrow> \<not> ic_consumed c | None \<Rightarrow> False)"

fun is_issue :: "SetupOp \<Rightarrow> bool" where
  "is_issue (Su_Issue _ _) = True"
| "is_issue _ = False"

lemma setup_success:
  assumes "setup_op p b = (b1, True)"
  shows "\<exists>now c. p = Su_Consume now (ic_value c) \<and> bi_credential b = Some c \<and> \<not> ic_consumed c
    \<and> now - ic_issued_at c < LIFETIME \<and> \<not> live b1"
  using assms by (cases p) (auto simp: consume_def live_def split: option.splits if_splits)

lemma setup_dead:
  assumes "\<not> live b" and "\<not> is_issue p"
  shows "\<not> live (fst (setup_op p b)) \<and> \<not> snd (setup_op p b)"
  using assms by (cases p) (auto simp: consume_def invalidate_def live_def split: option.splits)

lemma successes_bounded:
  "length (filter id (snd (setup_run ps b))) \<le> length (filter is_issue ps) + (if live b then 1 else 0)"
proof (induction ps arbitrary: b)
  case (Cons p ps)
  obtain b1 x where p: "setup_op p b = (b1, x)" by (cases "setup_op p b")
  show ?case
  proof (cases x)
    case True
    then have "\<not> live b1" "live b" "\<not> is_issue p" using setup_success [of p b b1] p by (auto simp: live_def)
    then show ?thesis using Cons [of b1] p True by (simp add: split_beta)
  next
    case False
    then have "is_issue p \<or> live b \<or> \<not> live b1" using setup_dead [of b p] p by auto
    then show ?thesis using Cons [of b1] p False by (auto simp: split_beta split: if_splits)
  qed
qed simp

text \<open>
  Property C27. A setup link gives the token once. An exchange succeeds only for the credential that was issued last, unused, not
  invalidated and younger than ten minutes; and after it no exchange succeeds until another credential is issued.
\<close>

theorem setup_credential_once:
  assumes "bootstrap_method io rq st = (st1, r)" and "hr_status r = 200" and "rq_method rq = POST"
  shows "\<exists>c token. bi_credential (ap_bootstrap st) = Some c \<and> \<not> ic_consumed c \<and> io_now io - ic_issued_at c < LIFETIME
      \<and> io_exchange io (rq_body rq) = Some (Some (ic_value c)) \<and> cf_token (ap_config st) = Some token
      \<and> hr_body r = B_Json (J_Object [(''token'', J_String token)])
    \<and> (\<forall>ps. list_all (\<lambda>p. \<not> is_issue p) ps \<longrightarrow> True \<notin> set (snd (setup_run ps (ap_bootstrap st1))))"
proof -
  have ok: "rq_query rq = [] \<and> rq_content_type rq = Some ''application/json''"
    using assms by (auto simp: bootstrap_method_def bootstrap_post_inner_def bootstrap_unauthorized_def json_response_def split: if_splits)
  obtain cred where e: "io_exchange io (rq_body rq) = Some (Some cred)" and ne: "cred \<noteq> []"
    using assms ok by (auto simp: bootstrap_method_def bootstrap_post_inner_def bootstrap_unauthorized_def json_response_def
        split: option.splits if_splits)
  obtain b x where c: "consume (io_now io) cred (ap_bootstrap st) = (b, x)" by (cases "consume (io_now io) cred (ap_bootstrap st)")
  have x: "x" using assms ok e ne c
    by (cases x) (auto simp: bootstrap_method_def bootstrap_post_inner_def bootstrap_unauthorized_def json_response_def)
  obtain token where t: "cf_token (ap_config st) = Some token"
    using assms ok e ne c x
    by (auto simp: bootstrap_method_def bootstrap_post_inner_def bootstrap_unauthorized_def json_response_def split: option.splits)
  have r: "hr_body r = B_Json (J_Object [(''token'', J_String token)])" "ap_bootstrap st1 = b"
    using assms ok e ne c x t by (auto simp: bootstrap_method_def bootstrap_post_inner_def json_response_def)
  obtain i where i: "bi_credential (ap_bootstrap st) = Some i" "\<not> ic_consumed i" "io_now io - ic_issued_at i < LIFETIME"
    "cred = ic_value i" "\<not> live b"
    using setup_success [of "Su_Consume (io_now io) cred" "ap_bootstrap st" b] c x by auto
  have "True \<notin> set (snd (setup_run ps b))" if "list_all (\<lambda>p. \<not> is_issue p) ps" for ps
    using successes_bounded [of ps b] that i(5) by (auto simp: list_all_iff filter_empty_conv)
  then show ?thesis using i e t r by auto
qed

theorem setup_credential_once_witness:
  "\<exists>st r. bootstrap_method sample_io (sample_request POST ''/bootstrap'' ''ab'') sample_app = (st, r) \<and> hr_status r = 200
     \<and> hr_body r = B_Json (J_Object [(''token'', J_String ''s'')])
     \<and> snd (setup_run [Su_Consume 6 ''ab''] (ap_bootstrap st)) = [False]"
proof -
  let ?m = "bootstrap_method sample_io (sample_request POST ''/bootstrap'' ''ab'') sample_app"
  obtain st r where m: "?m = (st, r)" by (cases ?m)
  have hex: "concat (map hex_byte [0xAB]) = ''ab''"
    by (simp add: hex_byte_def hex_digit_def) (simp add: char_of_def bit_iff_odd)
  have "hr_status r = 200"
    using m hex by (auto simp: bootstrap_method_def bootstrap_post_inner_def sample_request_def sample_io_def sample_app_def
        consume_def issue_def new_bootstrap_def LIFETIME_def load_config_def json_response_def Let_def)
  moreover from setup_credential_once [OF m this]
  have b: "hr_body r = B_Json (J_Object [(''token'', J_String ''s'')])"
    and no: "list_all (\<lambda>p. \<not> is_issue p) ps \<Longrightarrow> True \<notin> set (snd (setup_run ps (ap_bootstrap st)))" for ps
    by (auto simp: sample_request_def sample_app_token)
  have "snd (setup_run [Su_Consume 6 ''ab''] (ap_bootstrap st)) = [False]"
    using no [of "[Su_Consume 6 ''ab'']"] by (auto simp: split_beta)
  ultimately show ?thesis using m b by blast
qed

end
