(* ===== verification/Desktop_Update.thy ===== *)
theory Desktop_Update
  imports Http_Routes Wire_Roundtrip
begin

text \<open>
  The desktop shell's updater (\<^verbatim>\<open>desktop/src/updater.rs\<close>) against the hub's HTTP boundary, with the two
  guards of the shell's end: the gate of relaunches (\<^verbatim>\<open>desktop/src/lifecycle.rs\<close>) and the barrier of the updater's
  workers (\<^verbatim>\<open>desktop/src/state.rs\<close>). A loopback request is a call of the router; the network can fail, and
  other tasks change the hub between the requests of a cycle.
\<close>

section \<open>The gate\<close>

datatype LifecycleGateState = Gs_Running | Gs_TeardownAdmitted | Gs_TornDown | Gs_Relaunching

record LifecycleGate =
  lg_state :: LifecycleGateState
  lg_relaunch_owner :: bool

definition new_gate :: LifecycleGate where
  "new_gate = \<lparr>lg_state = Gs_Running, lg_relaunch_owner = False\<rparr>"

definition try_admit_check :: "LifecycleGate \<Rightarrow> bool" where
  "try_admit_check g = (lg_state g = Gs_Running)"

definition admit_relaunch :: "LifecycleGate \<Rightarrow> LifecycleGate \<times> bool" where
  "admit_relaunch g =
     (if lg_state g \<noteq> Gs_Running \<or> lg_relaunch_owner g then (g, False)
      else (g\<lparr>lg_relaunch_owner := True, lg_state := Gs_Relaunching\<rparr>, True))"

definition cancel_relaunch :: "LifecycleGate \<Rightarrow> LifecycleGate" where
  "cancel_relaunch g =
     (if lg_state g = Gs_Relaunching then g\<lparr>lg_state := Gs_Running, lg_relaunch_owner := False\<rparr> else g)"

definition begin_teardown :: "LifecycleGate \<Rightarrow> LifecycleGate \<times> bool" where
  "begin_teardown g =
     (if lg_state g \<in> {Gs_TeardownAdmitted, Gs_TornDown} then (g, False)
      else (g\<lparr>lg_state := Gs_TeardownAdmitted\<rparr>, True))"

definition complete_teardown :: "LifecycleGate \<Rightarrow> LifecycleGate" where
  "complete_teardown g = g\<lparr>lg_state := Gs_TornDown\<rparr>"

section \<open>The barrier\<close>

record UpdaterBarrierState =
  ub_stopping :: bool
  ub_in_flight :: nat

definition new_barrier :: UpdaterBarrierState where
  "new_barrier = \<lparr>ub_stopping = False, ub_in_flight = 0\<rparr>"

definition admit :: "UpdaterBarrierState \<Rightarrow> UpdaterBarrierState option" where
  "admit b = (if ub_stopping b then None else Some (b\<lparr>ub_in_flight := Suc (ub_in_flight b)\<rparr>))"

definition drop_permit :: "UpdaterBarrierState \<Rightarrow> UpdaterBarrierState" where
  "drop_permit b = b\<lparr>ub_in_flight := ub_in_flight b - 1\<rparr>"

text \<open>\<^verbatim>\<open>stop_and_join\<close>: the flag is set, and the wait ends when nothing is in flight.\<close>

definition begin_stop :: "UpdaterBarrierState \<Rightarrow> UpdaterBarrierState" where
  "begin_stop b = b\<lparr>ub_stopping := True\<rparr>"

definition stop_done :: "UpdaterBarrierState \<Rightarrow> bool" where
  "stop_done b = (ub_stopping b \<and> ub_in_flight b = 0)"

inductive barrier_step :: "UpdaterBarrierState \<Rightarrow> UpdaterBarrierState \<Rightarrow> bool" where
  Admit: "admit b = Some b' \<Longrightarrow> barrier_step b b'"
| Drop: "0 < ub_in_flight b \<Longrightarrow> barrier_step b (drop_permit b)"
| Stop: "barrier_step b (begin_stop b)"

inductive_cases barrier_stepE: "barrier_step b b'"

lemma stop_is_final:
  assumes "barrier_step\<^sup>*\<^sup>* b b'" and "stop_done b"
  shows "stop_done b' \<and> admit b' = None"
  using assms
proof (induction rule: rtranclp_induct)
  case base
  then show ?case by (simp add: stop_done_def admit_def)
next
  case (step x y)
  then show ?case by (auto simp: stop_done_def admit_def begin_stop_def elim!: barrier_stepE)
qed

section \<open>Requests\<close>

text \<open>An answer: the body as JSON, if it parses, or a failure.\<close>

datatype LoopResponse = Lr_Ok "json_value option" | Lr_Unauthorized | Lr_Unavailable

definition loop_request :: "string option \<Rightarrow> Method \<Rightarrow> string \<Rightarrow> string option \<Rightarrow> Request" where
  "loop_request token m p body = \<lparr>rq_method = m, rq_path = p,
     rq_authorization = (case token of Some t \<Rightarrow> if t \<noteq> [] then [''Bearer '' @ t] else [] | None \<Rightarrow> []),
     rq_query = [], rq_content_type = (if body \<noteq> None then Some ''application/json'' else None),
     rq_body = (case body of Some b \<Rightarrow> b | None \<Rightarrow> []),
     rq_static = \<lparr>rh_if_none_match = None, rh_accept_encoding = None\<rparr>\<rparr>"

definition read_answer :: "Answer \<Rightarrow> LoopResponse" where
  "read_answer a = (case a of
     Respond r \<Rightarrow> if hr_status r = 401 then Lr_Unauthorized
       else if hr_status r = 200 then Lr_Ok (case hr_body r of B_Json v \<Rightarrow> Some v | _ \<Rightarrow> None)
       else Lr_Unavailable
   | Upgrade \<Rightarrow> Lr_Unavailable)"

text \<open>Whether a request is refused, has its effect and loses its answer, or is answered.\<close>

datatype Reach = Refused | Lost | Delivered

definition http_loopback :: "Reach \<Rightarrow> 'm HttpIo \<Rightarrow> Request \<Rightarrow> AppState \<Rightarrow> AppState \<times> LoopResponse" where
  "http_loopback reach io rq st =
     (if reach = Refused then (st, Lr_Unavailable)
      else case handle_request io rq st of
        None \<Rightarrow> (st, Lr_Unavailable)
      | Some (st', a) \<Rightarrow> (st', if reach = Lost then Lr_Unavailable else read_answer a))"

definition get_field :: "json_value \<Rightarrow> string \<Rightarrow> json_value option" where
  "get_field v k = (case v of J_Object obj \<Rightarrow> map_of obj k | _ \<Rightarrow> None)"

datatype ReportState = Approved bool bool "nat option" "string option" "string option"
  | Report_Unavailable | Report_Unauthorized | Report_Malformed

definition permit :: "ReportState \<Rightarrow> (nat \<times> string \<times> string) option" where
  "permit r = (case r of Approved _ _ (Some g) (Some n) (Some s) \<Rightarrow> Some (g, n, s) | _ \<Rightarrow> None)"

definition read_report :: "LoopResponse \<Rightarrow> ReportState" where
  "read_report r = (case r of
     Lr_Unauthorized \<Rightarrow> Report_Unauthorized
   | Lr_Unavailable \<Rightarrow> Report_Unavailable
   | Lr_Ok None \<Rightarrow> Report_Malformed
   | Lr_Ok (Some v) \<Rightarrow> Approved (Option.bind (get_field v ''applying'') as_bool = Some True)
       (Option.bind (get_field v ''force'') as_bool = Some True)
       (Option.bind (get_field v ''authorizationGeneration'') as_u64)
       (Option.bind (get_field v ''leaseNonce'') as_str) (Option.bind (get_field v ''leaseSha'') as_str))"

definition report_json :: "string option \<Rightarrow> bool \<Rightarrow> json_value" where
  "report_json version apply_failed = J_Object [(''available'', J_Bool (version \<noteq> None)), (''sha'', nullable J_String version),
     (''applyFailed'', J_Bool apply_failed)]"

definition permit_json :: "nat \<Rightarrow> string \<Rightarrow> string \<Rightarrow> json_value" where
  "permit_json g nonce sha = J_Object [(''authorizationGeneration'', json_nat g), (''leaseNonce'', J_String nonce), (''leaseSha'', J_String sha)]"

definition read_permit :: "LoopResponse \<Rightarrow> bool" where
  "read_permit r = (case r of Lr_Ok (Some v) \<Rightarrow> Option.bind (get_field v ''permit'') as_bool = Some True | _ \<Rightarrow> False)"

datatype Activity = Known nat bool | Activity_Unavailable | Activity_Unauthorized

definition read_activity :: "LoopResponse \<Rightarrow> Activity" where
  "read_activity r = (case r of
     Lr_Unauthorized \<Rightarrow> Activity_Unauthorized
   | Lr_Ok (Some v) \<Rightarrow> (case (Option.bind (get_field v ''clients'') as_u64, Option.bind (get_field v ''busy'') as_bool) of
       (Some clients, Some busy) \<Rightarrow> Known clients busy
     | _ \<Rightarrow> Activity_Unavailable)
   | _ \<Rightarrow> Activity_Unavailable)"

section \<open>One cycle\<close>

text \<open>
  \<open>cy_others\<close>: what other tasks do before the activity request, the report, the permit and the report of a
  failure; \<open>cy_reach\<close>: what becomes of these requests. \<open>cy_check\<close>: the manifest check, an error or the newer version if
  there is one. The activity is
  read for the log only.
\<close>

record 'm CycleIo =
  cy_check :: "unit + string option"
  cy_others :: "nat \<Rightarrow> AppState \<Rightarrow> AppState"
  cy_reach :: "nat \<Rightarrow> Reach"
  cy_http :: "nat \<Rightarrow> 'm HttpIo"
  cy_to_text :: "json_value \<Rightarrow> string"
  cy_token :: "string option"
  cy_stop :: bool
  cy_install_ok :: bool
  cy_check_interval :: nat

datatype CycleEnd = Wait nat | Install_Failed nat | Restart

definition PENDING_POLL :: nat where
  "PENDING_POLL = 5000"

definition cycle_call :: "'m CycleIo \<Rightarrow> nat \<Rightarrow> Request \<Rightarrow> AppState \<Rightarrow> AppState \<times> LoopResponse" where
  "cycle_call cy n rq st = http_loopback (cy_reach cy n) (cy_http cy n) rq (cy_others cy n st)"

definition report_call :: "'m CycleIo \<Rightarrow> nat \<Rightarrow> string option \<Rightarrow> bool \<Rightarrow> AppState \<Rightarrow> AppState \<times> ReportState" where
  "report_call cy n version apply_failed st =
     (case cycle_call cy n (loop_request (cy_token cy) POST ''/update/state'' (Some (cy_to_text cy (report_json version apply_failed)))) st of
        (st', r) \<Rightarrow> (st', read_report r))"

definition permit_call :: "'m CycleIo \<Rightarrow> nat \<Rightarrow> nat \<Rightarrow> string \<Rightarrow> string \<Rightarrow> AppState \<Rightarrow> AppState \<times> bool" where
  "permit_call cy n g nonce sha st =
     (case cycle_call cy n (loop_request (cy_token cy) POST ''/update/permit/consume'' (Some (cy_to_text cy (permit_json g nonce sha)))) st of
        (st', r) \<Rightarrow> (st', read_permit r))"

definition run_cycle_locked :: "'m CycleIo \<Rightarrow> AppState \<Rightarrow> LifecycleGate \<Rightarrow> AppState \<times> LifecycleGate \<times> CycleEnd" where
  "run_cycle_locked cy st g = (case cy_check cy of
     Inl _ \<Rightarrow> (st, g, Wait (cy_check_interval cy))
   | Inr None \<Rightarrow> (fst (report_call cy 1 None False st), g, Wait (cy_check_interval cy))
   | Inr (Some version) \<Rightarrow>
       (case cycle_call cy 0 (loop_request (cy_token cy) GET ''/health'' None) st of (st0, _) \<Rightarrow>
        case report_call cy 1 (Some version) False st0 of (st1, report) \<Rightarrow>
        case permit report of
          None \<Rightarrow> (st1, g, Wait PENDING_POLL)
        | Some (generation, nonce, lease_sha) \<Rightarrow>
            if lease_sha \<noteq> version then (st1, g, Wait PENDING_POLL)
            else (case permit_call cy 2 generation nonce lease_sha st1 of
                (st2, False) \<Rightarrow> (st2, g, Wait PENDING_POLL)
              | (st2, True) \<Rightarrow>
                  if cy_stop cy then (st2, g, Wait PENDING_POLL)
                  else (case admit_relaunch g of
                      (g1, False) \<Rightarrow> (st2, g1, Wait PENDING_POLL)
                    | (g1, True) \<Rightarrow>
                        if cy_install_ok cy then (st2, g1, Restart)
                        else (fst (report_call cy 3 (Some version) True st2), cancel_relaunch g1, Install_Failed (cy_check_interval cy))))))"

section \<open>An install is permitted\<close>

text \<open>What the updater relies on of the framework: the body that it sends is extracted as written.\<close>

definition extracts_permits :: "(json_value \<Rightarrow> string) \<Rightarrow> 'm HttpIo \<Rightarrow> bool" where
  "extracts_permits to_text io \<longleftrightarrow> (\<forall>token g n s. g < 2 ^ 64 \<longrightarrow>
     io_permit io (loop_request token POST ''/update/permit/consume'' (Some (to_text (permit_json g n s))))
       = Some \<lparr>cb_authorization_generation = word_of_nat g, cb_lease_nonce = n, cb_lease_sha = s\<rparr>)"

definition extracts_reports :: "(json_value \<Rightarrow> string) \<Rightarrow> 'm HttpIo \<Rightarrow> bool" where
  "extracts_reports to_text io \<longleftrightarrow> (\<forall>token v f.
     io_update_state io (loop_request token POST ''/update/state'' (Some (to_text (report_json v f))))
       = Inr \<lparr>ub_available = Some (v \<noteq> None), ub_sha = v, ub_apply_failed = Some f\<rparr>)"

text \<open>The hub as the permit request finds it.\<close>

definition after_report :: "'m CycleIo \<Rightarrow> string \<Rightarrow> AppState \<Rightarrow> AppState \<times> ReportState" where
  "after_report cy version st =
     report_call cy 1 (Some version) False (fst (cycle_call cy 0 (loop_request (cy_token cy) GET ''/health'' None) st))"

definition hub_at_permit :: "'m CycleIo \<Rightarrow> string \<Rightarrow> AppState \<Rightarrow> SessionHub" where
  "hub_at_permit cy version st = ap_hub (cy_others cy 2 (fst (after_report cy version st)))"

definition hub_idle :: "SessionHub \<Rightarrow> bool" where
  "hub_idle h \<longleftrightarrow> tk_running (h_track h) = [] \<and> tk_initializing (h_track h) = []"

definition lease_for :: "nat \<Rightarrow> string \<Rightarrow> SessionHub \<Rightarrow> bool" where
  "lease_for now version h \<longleftrightarrow> h_lease_nonce h \<noteq> None \<and> h_lease_sha h = Some version \<and> h_update_sha h = Some version
     \<and> (\<exists>expiry. h_lease_expires_at h = Some expiry \<and> now < expiry)"

lemma cycle_cases:
  assumes "run_cycle_locked cy st g = (st', g', e)" and "\<And>w. e \<noteq> Wait w"
  shows "\<exists>version gen nonce. cy_check cy = Inr (Some version) \<and> permit (snd (after_report cy version st)) = Some (gen, nonce, version)
    \<and> snd (permit_call cy 2 gen nonce version (fst (after_report cy version st))) \<and> snd (admit_relaunch g)"
proof -
  obtain version where v: "cy_check cy = Inr (Some version)"
    using assms by (auto simp: run_cycle_locked_def split: sum.splits option.splits)
  obtain st1 report where r: "after_report cy version st = (st1, report)" by (cases "after_report cy version st")
  obtain st0 a0 where c0: "cycle_call cy 0 (loop_request (cy_token cy) GET ''/health'' None) st = (st0, a0)"
    by (cases "cycle_call cy 0 (loop_request (cy_token cy) GET ''/health'' None) st")
  have r1: "report_call cy 1 (Some version) False st0 = (st1, report)" using r c0 by (simp add: after_report_def)
  obtain gen nonce sha where p: "permit report = Some (gen, nonce, sha)"
    using assms v c0 r1 by (cases "permit report") (auto simp: run_cycle_locked_def)
  have sha: "sha = version" using assms v c0 r1 p by (auto simp: run_cycle_locked_def split: if_splits)
  obtain st2 ok where q: "permit_call cy 2 gen nonce version st1 = (st2, ok)" by (cases "permit_call cy 2 gen nonce version st1")
  have ok: "ok" using assms v c0 r1 p sha q by (cases ok) (auto simp: run_cycle_locked_def)
  have "snd (admit_relaunch g)"
    using assms v c0 r1 p sha q ok by (auto simp: run_cycle_locked_def split: if_splits prod.splits bool.splits)
  then show ?thesis using v r p sha q ok by auto
qed

lemma permit_bound: "permit (read_report r) = Some (gen, n, s) \<Longrightarrow> gen < 2 ^ 64"
  by (auto simp: permit_def read_report_def as_u64_def bind_eq_Some_conv
      split: LoopResponse.splits option.splits json_value.splits if_splits)

lemma consumed_permit:
  "consume_update_permit now gen nonce sha h = (h', Inr u) \<Longrightarrow>
     hub_idle h \<and> h_lease_nonce h = Some nonce \<and> lease_for now sha h \<and> h_lease_nonce h' = None"
  by (auto simp: consume_update_permit_def hub_idle_def lease_for_def Let_def not_le clear_update_lease_def core_broadcast
      split: if_splits option.splits)

lemma route_permit: "route_of (loop_request token POST ''/update/permit/consume'' b) = Rt_Permit"
  "route_of (loop_request token POST ''/update/state'' b) = Rt_Update_State"
  "route_of (loop_request token GET ''/health'' b) = Rt_Health"
  by (simp_all add: route_of_def loop_request_def is_get_def)

lemma permit_call_granted:
  assumes "extracts_permits (cy_to_text cy) (cy_http cy n)" and "gen < 2 ^ 64" and "snd (permit_call cy n gen nonce sha st)"
  shows "hub_idle (ap_hub (cy_others cy n st)) \<and> lease_for (io_now (cy_http cy n)) sha (ap_hub (cy_others cy n st))"
proof -
  let ?rq = "loop_request (cy_token cy) POST ''/update/permit/consume'' (Some (cy_to_text cy (permit_json gen nonce sha)))"
  let ?st = "cy_others cy n st"
  obtain h x where c: "consume_update_permit (io_now (cy_http cy n)) (word_of_nat gen) nonce sha (ap_hub ?st) = (h, x)"
    by (cases "consume_update_permit (io_now (cy_http cy n)) (word_of_nat gen) nonce sha (ap_hub ?st)")
  have io: "io_permit (cy_http cy n) ?rq = Some \<lparr>cb_authorization_generation = word_of_nat gen, cb_lease_nonce = nonce, cb_lease_sha = sha\<rparr>"
    using assms(1,2) by (simp add: extracts_permits_def)
  have "\<exists>u. x = Inr u"
    using assms(3) io c
    by (cases x) (auto simp: permit_call_def cycle_call_def http_loopback_def handle_request_def Let_def route_permit
        consume_permit_route_def json_response_def read_answer_def read_permit_def get_field_def as_bool_def split: if_splits prod.splits)
  then show ?thesis using consumed_permit c by blast
qed

text \<open>
  Property C19. The desktop installs only with a permit. Whenever a cycle of the updater goes on to an install, whatever other tasks did to
  the hub between its requests, the hub that answered the permit request had no turn running or starting, held an unexpired lease for
  exactly the version that was checked, and the shell was not already relaunching or shutting down.
\<close>

theorem install_is_permitted:
  assumes "run_cycle_locked cy st g = (st', g', e)" and "\<forall>w. e \<noteq> Wait w"
    and "extracts_permits (cy_to_text cy) (cy_http cy 2)"
  shows "\<exists>version. cy_check cy = Inr (Some version) \<and> hub_idle (hub_at_permit cy version st)
    \<and> lease_for (io_now (cy_http cy 2)) version (hub_at_permit cy version st) \<and> lg_state g = Gs_Running"
proof -
  obtain version gen nonce where c: "cy_check cy = Inr (Some version)"
    "permit (snd (after_report cy version st)) = Some (gen, nonce, version)"
    "snd (permit_call cy 2 gen nonce version (fst (after_report cy version st)))" "snd (admit_relaunch g)"
    using cycle_cases [OF assms(1)] assms(2) by blast
  have "gen < 2 ^ 64" using c(2) permit_bound by (auto simp: after_report_def report_call_def split: prod.splits)
  then have "hub_idle (hub_at_permit cy version st) \<and> lease_for (io_now (cy_http cy 2)) version (hub_at_permit cy version st)"
    using permit_call_granted [OF assms(3)] c(3) by (auto simp: hub_at_permit_def)
  moreover have "lg_state g = Gs_Running" using c(4) by (auto simp: admit_relaunch_def split: if_splits)
  ultimately show ?thesis using c(1) by blast
qed

section \<open>Who asks for the lease\<close>

text \<open>The state as the report finds it.\<close>

definition app_at_report :: "'m CycleIo \<Rightarrow> AppState \<Rightarrow> AppState" where
  "app_at_report cy st = cy_others cy 1 (fst (cycle_call cy 0 (loop_request (cy_token cy) GET ''/health'' None) st))"

lemma report_grants_no_lease:
  "report_update sha failed dstale h = (h', u) \<Longrightarrow> h_lease_nonce h = None \<Longrightarrow> ur_lease_nonce u = None"
proof -
  have "h_lease_nonce h = None \<Longrightarrow> ur_lease_nonce (snd (report_update sha failed dstale h)) = None"
    by (simp add: report_update_def Let_def clear_update_lease_def split: option.splits)
  then show "report_update sha failed dstale h = (h', u) \<Longrightarrow> h_lease_nonce h = None \<Longrightarrow> ur_lease_nonce u = None" by simp
qed

lemma unleased_report:
  assumes "h_lease_nonce (ap_hub (cy_others cy n st)) = None"
  shows "permit (snd (report_call cy n version failed st)) = None"
proof -
  let ?st = "cy_others cy n st"
  let ?rq = "loop_request (cy_token cy) POST ''/update/state'' (Some (cy_to_text cy (report_json version failed)))"
  obtain st' r where u: "update_state (cy_http cy n) ?rq ?st = (st', r)" by (cases "update_state (cy_http cy n) ?rq ?st")
  have "permit (read_report (read_answer (Respond r))) = None"
    using u assms
    by (auto simp: update_state_def Let_def unauthorized_def text_response_def json_response_def read_answer_def read_report_def
        permit_def update_json_def get_field_def nullable_def as_str_def
        dest!: report_grants_no_lease split: sum.splits if_splits prod.splits option.splits)
  then show ?thesis
    using u by (auto simp: report_call_def cycle_call_def http_loopback_def handle_request_def Let_def route_permit
        read_report_def permit_def split: prod.splits if_splits)
qed

text \<open>
  Without a click nothing is installed. When no lease is outstanding as the report arrives, the cycle ends in a wait, even when no
  client is connected and no session is busy: only a client's request issues a lease, the report does not.
\<close>

theorem unattended_never_installs:
  assumes "h_lease_nonce (ap_hub (app_at_report cy st)) = None"
  shows "\<exists>w. snd (snd (run_cycle_locked cy st g)) = Wait w"
proof (rule ccontr)
  assume "\<not> ?thesis"
  then obtain version gen nonce where "permit (snd (after_report cy version st)) = Some (gen, nonce, version)"
    using cycle_cases [of cy st g] by (metis prod.collapse)
  then show False using unleased_report [OF assms [unfolded app_at_report_def]] by (simp add: after_report_def)
qed

section \<open>A click installs\<close>

lemma as_u64_nat: "as_u64 (json_nat (unat (w :: u64))) = Some (unat w)"
  using unat_bound64 [of w] by (simp add: as_u64_def json_nat_def digits_show_nat digits_value_show_nat)

text \<open>The hub after the report of the version whose lease it holds.\<close>

lemma leased_report:
  assumes "h_update_sha h = Some v" and "h_lease_nonce h = Some nonce"
  shows "report_update (Some v) False None h = (h\<lparr>h_force_requested := False\<rparr>,
    \<lparr>ur_applying = h_applying h, ur_force = h_force_requested h,
      ur_authorization_generation = Some (h_authorization_generation h), ur_lease_nonce = Some nonce,
      ur_lease_sha = h_lease_sha h, ur_lease_expires_at = h_lease_expires_at_unix_ms h\<rparr>)"
  using assms by (simp add: report_update_def Let_def)

definition quiet_cycle :: "'m CycleIo \<Rightarrow> AppState \<Rightarrow> bool" where
  "quiet_cycle cy st \<longleftrightarrow> (\<forall>n. cy_others cy n = id) \<and> (\<forall>n. cy_reach cy n = Delivered)
     \<and> extracts_permits (cy_to_text cy) (cy_http cy 2) \<and> extracts_reports (cy_to_text cy) (cy_http cy 1)
     \<and> (\<forall>m p b. authorized st (loop_request (cy_token cy) m p b)) \<and> \<not> cy_stop cy \<and> cy_install_ok cy"

lemma health_unchanged:
  "quiet_cycle cy st \<Longrightarrow> fst (cycle_call cy n (loop_request (cy_token cy) GET ''/health'' None) st) = st"
  by (simp add: quiet_cycle_def cycle_call_def http_loopback_def handle_request_def Let_def route_permit split: prod.splits)

lemma leased_report_call:
  assumes "quiet_cycle cy st" and "h_update_sha (ap_hub st) = Some v" and "h_lease_nonce (ap_hub st) = Some nonce"
    and "h_lease_sha (ap_hub st) = Some v"
  shows "\<exists>rep. report_call cy 1 (Some v) False st = (st\<lparr>ap_hub := (ap_hub st)\<lparr>h_force_requested := False\<rparr>\<rparr>, rep)
    \<and> permit rep = Some (unat (h_authorization_generation (ap_hub st)), nonce, v)"
  using assms
  by (simp add: quiet_cycle_def extracts_reports_def report_call_def cycle_call_def http_loopback_def handle_request_def
      Let_def route_permit update_state_def leased_report json_response_def read_answer_def read_report_def permit_def
      update_json_def get_field_def nullable_def as_str_def as_u64_nat)

lemma leased_permit_call:
  assumes "quiet_cycle cy st" and "h = (ap_hub st)\<lparr>h_force_requested := False\<rparr>"
    and "snd (consume_update_permit (io_now (cy_http cy 2)) (h_authorization_generation h) nonce v h) = Inr ()"
  shows "snd (permit_call cy 2 (unat (h_authorization_generation h)) nonce v (st\<lparr>ap_hub := h\<rparr>))"
proof -
  have "authorized (st\<lparr>ap_hub := h\<rparr>) rq = authorized st rq" for rq by (simp add: authorized_def)
  then show ?thesis
    using assms unat_bound64 [of "h_authorization_generation h"]
    by (auto simp: quiet_cycle_def extracts_permits_def permit_call_def cycle_call_def http_loopback_def handle_request_def
        Let_def route_permit consume_permit_route_def json_response_def read_answer_def read_permit_def get_field_def as_bool_def
        split: prod.splits)
qed

lemma leased_cycle:
  assumes "cy_check cy = Inr (Some v)" and "quiet_cycle cy st" and "hub_idle (ap_hub st)"
    and "lease_for (io_now (cy_http cy 2)) v (ap_hub st)"
  shows "snd (snd (run_cycle_locked cy st new_gate)) = Restart"
proof -
  define h where "h = (ap_hub st)\<lparr>h_force_requested := False\<rparr>"
  obtain nonce where nonce: "h_lease_nonce (ap_hub st) = Some nonce" using assms(4) by (auto simp: lease_for_def)
  have ok: "snd (consume_update_permit (io_now (cy_http cy 2)) (h_authorization_generation h) nonce v h) = Inr ()"
    using assms(3,4) nonce by (auto simp: h_def hub_idle_def lease_for_def consume_update_permit_def Let_def)
  obtain rep where rep: "report_call cy 1 (Some v) False st = (st\<lparr>ap_hub := h\<rparr>, rep)"
    "permit rep = Some (unat (h_authorization_generation h), nonce, v)"
    using leased_report_call [OF assms(2)] assms(4) nonce by (auto simp: h_def lease_for_def)
  have p: "snd (permit_call cy 2 (unat (h_authorization_generation h)) nonce v (st\<lparr>ap_hub := h\<rparr>))"
    using leased_permit_call [OF assms(2) h_def] ok .
  have c0: "fst (cycle_call cy 0 (loop_request (cy_token cy) GET ''/health'' None) st) = st"
    by (rule health_unchanged [OF assms(2)])
  show ?thesis
    using assms(1,2) c0 rep p
    by (auto simp: run_cycle_locked_def quiet_cycle_def new_gate_def admit_relaunch_def split: prod.splits bool.splits)
qed

text \<open>
  A click installs. When a client approves the staged version on an idle hub, and the desktop's next cycle reaches the hub within
  30 seconds with nothing else happening, the cycle restarts the shell into the installed version.
\<close>

theorem approved_update_installs:
  assumes "cy_check cy = Inr (Some v)" and "quiet_cycle cy st" and "io_now (cy_http cy 2) < now + 30000"
    and "h_update_sha (ap_hub st) = Some v" "\<not> h_applying (ap_hub st)" "hub_idle (ap_hub st)"
  shows "snd (snd (run_cycle_locked cy (st\<lparr>ap_hub := apply_update now unix_ms nonce (ap_hub st)\<rparr>) new_gate)) = Restart"
proof (rule leased_cycle [OF assms(1)])
  show "quiet_cycle cy (st\<lparr>ap_hub := apply_update now unix_ms nonce (ap_hub st)\<rparr>)"
    using assms(2) by (simp add: quiet_cycle_def authorized_def)
  show "hub_idle (ap_hub (st\<lparr>ap_hub := apply_update now unix_ms nonce (ap_hub st)\<rparr>))"
    using assms(4-6) by (simp add: apply_update_def authorize_update_def hub_idle_def Let_def)
  show "lease_for (io_now (cy_http cy 2)) v (ap_hub (st\<lparr>ap_hub := apply_update now unix_ms nonce (ap_hub st)\<rparr>))"
    using assms(3-6) by (simp add: apply_update_def authorize_update_def hub_idle_def lease_for_def Let_def UPDATE_LEASE_MS_def)
qed

section \<open>A concrete cycle\<close>

text \<open>A text form of the updater's bodies: each field with its length in unary.\<close>

definition frame_field :: "string \<Rightarrow> string" where
  "frame_field s = replicate (length s) CHR ''1'' @ CHR ''0'' # s"

definition next_field :: "string \<Rightarrow> string \<times> string" where
  "next_field t = (let n = length (takeWhile (\<lambda>c. c = CHR ''1'') t) in (take n (drop (Suc n) t), drop (Suc (n + n)) t))"

lemma next_frame: "next_field (frame_field s @ r) = (s, r)"
proof -
  have "takeWhile (\<lambda>c. c = CHR ''1'') (replicate n CHR ''1'' @ CHR ''0'' # u) = replicate n CHR ''1''" for n u
    by (induction n) simp_all
  then show ?thesis by (simp add: next_field_def frame_field_def Let_def)
qed

definition field_text :: "json_value \<Rightarrow> string" where
  "field_text v = (case v of J_String s \<Rightarrow> CHR ''s'' # s | J_Number t \<Rightarrow> t | J_Bool b \<Rightarrow> (if b then ''t'' else ''f'') | _ \<Rightarrow> [])"

definition sample_text :: "json_value \<Rightarrow> string" where
  "sample_text v = (case v of J_Object fs \<Rightarrow> concat (map (\<lambda>(_, x). frame_field (field_text x)) fs) | _ \<Rightarrow> [])"

definition three_fields :: "string \<Rightarrow> string \<times> string \<times> string" where
  "three_fields t = (case next_field t of (a, r) \<Rightarrow> case next_field r of (b, r') \<Rightarrow> (a, b, fst (next_field r')))"

definition desktop_io :: "unit HttpIo" where
  "desktop_io = sample_io\<lparr>
     io_permit := (\<lambda>rq. case three_fields (rq_body rq) of
       (g, n, s) \<Rightarrow> Some \<lparr>cb_authorization_generation = word_of_nat (digits_value g), cb_lease_nonce = tl n, cb_lease_sha = tl s\<rparr>),
     io_update_state := (\<lambda>rq. case three_fields (rq_body rq) of
       (a, s, f) \<Rightarrow> Inr \<lparr>ub_available = Some (a = ''t''), ub_sha = (if s = [] then None else Some (tl s)), ub_apply_failed = Some (f = ''t'')\<rparr>)\<rparr>"

lemma three_frames: "three_fields (frame_field a @ frame_field b @ frame_field c) = (a, b, c)"
  using next_frame [of c "[]"] by (simp add: three_fields_def next_frame)

lemma desktop_io_extracts: "extracts_permits sample_text desktop_io" "extracts_reports sample_text desktop_io"
  by (auto simp: extracts_permits_def extracts_reports_def desktop_io_def loop_request_def sample_text_def permit_json_def
      report_json_def json_nat_def field_text_def three_frames digits_value_show_nat nullable_def split: option.splits)

definition sample_desktop :: "string option \<Rightarrow> AppState" where
  "sample_desktop nonce = sample_app\<lparr>ap_config := load_config [] (\<lambda>_. None),
     ap_hub := staged_hub\<lparr>h_lease_nonce := nonce, h_lease_sha := map_option (\<lambda>_. ''abc'') nonce,
       h_lease_expires_at := map_option (\<lambda>_. 9) nonce\<rparr>\<rparr>"

definition sample_cycle :: "unit CycleIo" where
  "sample_cycle = \<lparr>cy_check = Inr (Some ''abc''), cy_others = (\<lambda>_. id), cy_reach = (\<lambda>_. Delivered), cy_http = (\<lambda>_. desktop_io),
     cy_to_text = sample_text, cy_token = None, cy_stop = False, cy_install_ok = True, cy_check_interval = 3600000\<rparr>"

lemma sample_quiet: "quiet_cycle sample_cycle (sample_desktop nonce)"
  by (simp add: quiet_cycle_def sample_cycle_def desktop_io_extracts authorized_def sample_desktop_def load_config_def Let_def
      token_ok_def)

lemma sample_hub: "hub_idle (ap_hub (sample_desktop nonce))" "h_update_sha (ap_hub (sample_desktop nonce)) = Some ''abc''"
  "\<not> h_applying (ap_hub (sample_desktop nonce))" "h_lease_nonce (ap_hub (sample_desktop nonce)) = nonce"
  by (simp_all add: hub_idle_def sample_desktop_def staged_hub_def empty_hub_def empty_tracking_def)

theorem approved_update_installs_witness:
  "snd (snd (run_cycle_locked sample_cycle ((sample_desktop None)\<lparr>ap_hub := apply_update 0 7 ''n'' (ap_hub (sample_desktop None))\<rparr>)
     new_gate)) = Restart"
  by (rule approved_update_installs [where v = "''abc''"])
    (simp_all add: sample_quiet sample_hub, simp_all add: sample_cycle_def desktop_io_def sample_io_def)

theorem unattended_never_installs_witness:
  "\<exists>w. snd (snd (run_cycle_locked sample_cycle (sample_desktop None) new_gate)) = Wait w"
proof (rule unattended_never_installs)
  have "app_at_report sample_cycle (sample_desktop None) = sample_desktop None"
    using health_unchanged [OF sample_quiet, of 0] by (simp add: app_at_report_def) (simp add: sample_cycle_def)
  then show "h_lease_nonce (ap_hub (app_at_report sample_cycle (sample_desktop None))) = None" by (simp add: sample_hub)
qed

theorem install_is_permitted_witness:
  "\<exists>version. cy_check sample_cycle = Inr (Some version) \<and> hub_idle (hub_at_permit sample_cycle version (sample_desktop (Some ''n'')))"
proof -
  let ?r = "run_cycle_locked sample_cycle (sample_desktop (Some ''n'')) new_gate"
  have "lease_for (io_now (cy_http sample_cycle 2)) ''abc'' (ap_hub (sample_desktop (Some ''n'')))"
    by (simp add: lease_for_def sample_hub, simp add: sample_desktop_def sample_cycle_def desktop_io_def sample_io_def)
  then have "snd (snd ?r) = Restart"
    by (intro leased_cycle [where v = "''abc''"]) (simp_all add: sample_quiet sample_hub, simp add: sample_cycle_def)
  then have "?r = (fst ?r, fst (snd ?r), Restart)" by (simp add: prod_eq_iff)
  from install_is_permitted [OF this] desktop_io_extracts(1) show ?thesis by (auto simp: sample_cycle_def)
qed

end
