(* ===== verification/Supervisor.thy ===== *)
theory Supervisor
  imports Desktop_Update
begin

text \<open>
  The desktop shell's supervisor of the local hub (\<^verbatim>\<open>desktop/src/supervisor.rs\<close>): the policy over probes and exits,
  the watch over one child, the loop that respawns it, and the reader of the answers to the health probe. Times are
  milliseconds; what the clock, the child and the network do is given as a list of ticks for each child.
\<close>

section \<open>The policy\<close>

datatype ProbeOutcome = Po_Healthy | Po_Unauthorized | Po_Unreachable | Po_Malformed | Po_WrongTarget | Po_EndpointUnverified

datatype RecoveryReason = Rr_Crash | Rr_Hang | Rr_HealthUnauthorized | Rr_HealthUnreachable | Rr_HealthMalformed
  | Rr_WrongTarget | Rr_EndpointUnverified | Rr_BootTimeout | Rr_CrashLoop

datatype SupervisorDecision = Sd_Wait | Sd_Healthy bool | Sd_Restart RecoveryReason | Sd_Unrecoverable RecoveryReason | Sd_Stopped

definition MAX_RAPID_RESTARTS :: nat where
  "MAX_RAPID_RESTARTS = 5"

definition BOOT_HEALTH_TIMEOUT :: nat where
  "BOOT_HEALTH_TIMEOUT = 30000"

definition LIVENESS_STRIKES :: nat where
  "LIVENESS_STRIKES = 6"

record SupervisionCore =
  sup_started :: bool
  sup_healthy :: bool
  sup_failures :: nat
  sup_rapid_restarts :: nat
  sup_boot_timeout_restarts :: nat
  sup_max_failures :: nat
  sup_max_rapid_restarts :: nat
  sup_stopping :: bool
  sup_terminal :: "RecoveryReason option"

definition default_core :: SupervisionCore where
  "default_core = \<lparr>sup_started = False, sup_healthy = False, sup_failures = 0, sup_rapid_restarts = 0,
     sup_boot_timeout_restarts = 0, sup_max_failures = LIVENESS_STRIKES, sup_max_rapid_restarts = MAX_RAPID_RESTARTS,
     sup_stopping = False, sup_terminal = None\<rparr>"

definition request_stop :: "SupervisionCore \<Rightarrow> SupervisionCore" where
  "request_stop c = c\<lparr>sup_stopping := True\<rparr>"

text \<open>\<^verbatim>\<open>u32::saturating_add(1)\<close>.\<close>

definition saturating_inc_u32 :: "nat \<Rightarrow> nat" where
  "saturating_inc_u32 n = min (n + 1) (2 ^ 32 - 1)"

definition restart_decision :: "ProbeOutcome \<Rightarrow> SupervisorDecision" where
  "restart_decision outcome = (case outcome of
     Po_Unauthorized \<Rightarrow> Sd_Restart Rr_HealthUnauthorized
   | Po_Malformed \<Rightarrow> Sd_Restart Rr_HealthMalformed
   | Po_WrongTarget \<Rightarrow> Sd_Restart Rr_WrongTarget
   | Po_EndpointUnverified \<Rightarrow> Sd_Restart Rr_EndpointUnverified
   | Po_Unreachable \<Rightarrow> Sd_Restart Rr_Hang
   | Po_Healthy \<Rightarrow> Sd_Wait)"

definition observe_probe :: "ProbeOutcome \<Rightarrow> bool \<Rightarrow> SupervisionCore \<Rightarrow> SupervisionCore \<times> SupervisorDecision" where
  "observe_probe outcome boot_timed_out c =
     (if sup_stopping c then (c, Sd_Stopped)
      else case sup_terminal c of Some reason \<Rightarrow> (c, Sd_Unrecoverable reason)
      | None \<Rightarrow>
        if outcome = Po_Healthy then
          (let c1 = c\<lparr>sup_failures := 0\<rparr> in
           if \<not> sup_healthy c1
           then (c1\<lparr>sup_started := True, sup_healthy := True, sup_boot_timeout_restarts := 0\<rparr>, Sd_Healthy (\<not> sup_started c1))
           else (c1, Sd_Wait))
        else if \<not> sup_healthy c \<and> boot_timed_out then
          (if \<not> sup_started c then (c\<lparr>sup_terminal := Some Rr_BootTimeout\<rparr>, Sd_Unrecoverable Rr_BootTimeout)
           else
             let c1 = c\<lparr>sup_boot_timeout_restarts := saturating_inc_u32 (sup_boot_timeout_restarts c)\<rparr> in
             if sup_max_rapid_restarts c1 < sup_boot_timeout_restarts c1
             then (c1\<lparr>sup_terminal := Some Rr_CrashLoop\<rparr>, Sd_Unrecoverable Rr_CrashLoop)
             else (c1\<lparr>sup_failures := 0\<rparr>, Sd_Restart Rr_BootTimeout))
        else
          let c1 = c\<lparr>sup_failures := saturating_inc_u32 (sup_failures c)\<rparr> in
          if sup_healthy c1 \<and> sup_max_failures c1 \<le> sup_failures c1
          then (c1\<lparr>sup_healthy := False\<rparr>, restart_decision outcome)
          else (c1, Sd_Wait))"

definition observe_exit :: "bool \<Rightarrow> SupervisionCore \<Rightarrow> SupervisionCore \<times> SupervisorDecision" where
  "observe_exit rapid c =
     (if sup_stopping c then (c, Sd_Stopped)
      else case sup_terminal c of Some reason \<Rightarrow> (c, Sd_Unrecoverable reason)
      | None \<Rightarrow>
        let c1 = c\<lparr>sup_rapid_restarts := (if rapid then saturating_inc_u32 (sup_rapid_restarts c) else 0)\<rparr> in
        if sup_max_rapid_restarts c1 < sup_rapid_restarts c1
        then (c1\<lparr>sup_terminal := Some Rr_CrashLoop\<rparr>, Sd_Unrecoverable Rr_CrashLoop)
        else (c1\<lparr>sup_healthy := False\<rparr>, Sd_Restart Rr_Crash))"

section \<open>One child\<close>

datatype SupervisorEvent = Ev_Healthy bool | Ev_ProbeFailed ProbeOutcome | Ev_Restarting RecoveryReason | Ev_Unrecoverable string

text \<open>
  One round of the watch: the stop flag, whether the child is found exited (or cannot be asked), the clock at the
  check of the probe's time, the outcome of the probe, and the clock when the boot deadline is compared and when the
  next probe is scheduled.
\<close>

record Tick =
  ti_stop :: bool
  ti_exited :: bool
  ti_now :: nat
  ti_outcome :: ProbeOutcome
  ti_deadline :: nat
  ti_schedule :: nat

record Watch =
  wa_healthy :: bool
  wa_started :: bool
  wa_next_probe :: nat

datatype WatchEnd = Watching | Child_Gone | Child_Terminated

definition unrecoverable_message :: "RecoveryReason \<Rightarrow> string" where
  "unrecoverable_message reason =
     (if reason = Rr_BootTimeout
      then ''The pantoken server didn'' @ [CHR 0x27] @ ''t become healthy within '' @ show_nat (BOOT_HEALTH_TIMEOUT div 1000) @ ''s.''
      else ''The pantoken server entered an unrecoverable crash loop.'')"

definition probe_round :: "nat \<Rightarrow> Tick \<Rightarrow> Watch \<Rightarrow> SupervisionCore \<Rightarrow> Watch \<times> SupervisionCore \<times> SupervisorEvent list \<times> bool" where
  "probe_round boot_deadline t w c =
     (let failed = (if ti_outcome t \<noteq> Po_Healthy then [Ev_ProbeFailed (ti_outcome t)] else []) in
      case observe_probe (ti_outcome t) (\<not> wa_healthy w \<and> boot_deadline < ti_deadline t) c of
        (c', Sd_Healthy first) \<Rightarrow>
          (w\<lparr>wa_healthy := True, wa_started := True, wa_next_probe := ti_schedule t + 5000\<rparr>, c', failed @ [Ev_Healthy first], False)
      | (c', Sd_Restart reason) \<Rightarrow> (w, c', failed @ [Ev_Restarting reason], True)
      | (c', Sd_Unrecoverable reason) \<Rightarrow> (w, c', failed @ [Ev_Unrecoverable (unrecoverable_message reason)], True)
      | (c', Sd_Stopped) \<Rightarrow> (w, c', failed, True)
      | (c', Sd_Wait) \<Rightarrow> (w\<lparr>wa_next_probe := ti_schedule t + (if wa_healthy w then 5000 else 250)\<rparr>, c', failed, False))"

fun watch_child :: "nat \<Rightarrow> Watch \<Rightarrow> Tick list \<Rightarrow> SupervisionCore \<Rightarrow> bool \<times> SupervisionCore \<times> SupervisorEvent list \<times> WatchEnd" where
  "watch_child boot_deadline w [] c = (wa_started w, c, [], Watching)"
| "watch_child boot_deadline w (t # ts) c =
     (if ti_stop t then (wa_started w, c, [], Child_Terminated)
      else if ti_exited t then (wa_started w, c, [], Child_Gone)
      else if ti_now t < wa_next_probe w then watch_child boot_deadline w ts c
      else case probe_round boot_deadline t w c of
        (w', c', es, True) \<Rightarrow> (wa_started w', c', es, Child_Terminated)
      | (w', c', es, False) \<Rightarrow> (case watch_child boot_deadline w' ts c' of (b, c2, es2, e) \<Rightarrow> (b, c2, es @ es2, e)))"

definition supervise_one :: "nat \<Rightarrow> Tick list \<Rightarrow> bool \<Rightarrow> SupervisionCore \<Rightarrow> bool \<times> SupervisionCore \<times> SupervisorEvent list \<times> WatchEnd" where
  "supervise_one now ts started c =
     watch_child (now + BOOT_HEALTH_TIMEOUT) \<lparr>wa_healthy = False, wa_started = started, wa_next_probe = now\<rparr> ts c"

section \<open>The loop\<close>

text \<open>
  One turn of the loop: the stop flag at its head; the errors of opening the log, of its second handle and of the
  spawn; the time and the ticks of the watch; the stop flag after it; the child's time from spawn to end; whether the
  pause ended by a stop.
\<close>

record Life =
  li_stop_before :: bool
  li_log_error :: "string option"
  li_clone_error :: "string option"
  li_spawn_error :: "string option"
  li_start :: nat
  li_ticks :: "Tick list"
  li_stop_after :: bool
  li_uptime :: nat
  li_stop_pause :: bool

record SupervisorRun =
  ru_started :: bool
  ru_rapid_restarts :: nat
  ru_policy :: SupervisionCore

definition new_run :: SupervisorRun where
  "new_run = \<lparr>ru_started = False, ru_rapid_restarts = 0, ru_policy = default_core\<rparr>"

fun reason_debug :: "RecoveryReason \<Rightarrow> string" where
  "reason_debug Rr_Crash = ''Crash''"
| "reason_debug Rr_Hang = ''Hang''"
| "reason_debug Rr_HealthUnauthorized = ''HealthUnauthorized''"
| "reason_debug Rr_HealthUnreachable = ''HealthUnreachable''"
| "reason_debug Rr_HealthMalformed = ''HealthMalformed''"
| "reason_debug Rr_WrongTarget = ''WrongTarget''"
| "reason_debug Rr_EndpointUnverified = ''EndpointUnverified''"
| "reason_debug Rr_BootTimeout = ''BootTimeout''"
| "reason_debug Rr_CrashLoop = ''CrashLoop''"

record SupervisorEnv =
  se_log_path :: string
  se_hub_bin :: string

definition crash_message :: "SupervisorEnv \<Rightarrow> RecoveryReason \<Rightarrow> string" where
  "crash_message env reason =
     ''The pantoken server entered an unrecoverable '' @ reason_debug reason @ '' state. Check the hub log at '' @ se_log_path env
       @ '' '' @ [CHR 0xE2, CHR 0x80, CHR 0x94]
       @ '' the bundled hub may be refusing a locked data dir or crashing at startup.''"

definition launch_error :: "SupervisorEnv \<Rightarrow> Life \<Rightarrow> string option" where
  "launch_error env l = (case li_log_error l of
     Some e \<Rightarrow> Some (''Couldn'' @ [CHR 0x27] @ ''t open the pantoken server log at '' @ se_log_path env @ '': '' @ e)
   | None \<Rightarrow> (case li_clone_error l of
       Some e \<Rightarrow> Some (''Couldn'' @ [CHR 0x27] @ ''t attach stderr to the pantoken server log at '' @ se_log_path env @ '': '' @ e)
     | None \<Rightarrow> map_option (\<lambda>e. ''Couldn'' @ [CHR 0x27] @ ''t launch the pantoken server at '' @ se_hub_bin env @ '': '' @ e)
         (li_spawn_error l)))"

datatype LoopEnd = Loop_Running | Loop_Over

definition rapid_exit :: "Life \<Rightarrow> bool" where
  "rapid_exit l \<longleftrightarrow> li_uptime l < 5000"

text \<open>After the child's end: the strikes, the policy's verdict, the pause.\<close>

definition next_rapid :: "Life \<Rightarrow> SupervisorRun \<Rightarrow> nat" where
  "next_rapid l s = (if rapid_exit l then ru_rapid_restarts s + 1 else 0)"

definition seeded_policy :: "Life \<Rightarrow> SupervisorRun \<Rightarrow> SupervisionCore" where
  "seeded_policy l s = (ru_policy s)\<lparr>sup_rapid_restarts := next_rapid l s - 1\<rparr>"

definition after_child :: "SupervisorEnv \<Rightarrow> Life \<Rightarrow> SupervisorRun \<Rightarrow> SupervisorRun \<times> SupervisorEvent list \<times> LoopEnd" where
  "after_child env l s =
     (case observe_exit (rapid_exit l) (seeded_policy l s) of (c, d) \<Rightarrow>
        let s' = s\<lparr>ru_rapid_restarts := next_rapid l s, ru_policy := c\<rparr>;
            pause = (if li_stop_pause l then Loop_Over else Loop_Running)
        in case d of
             Sd_Unrecoverable reason \<Rightarrow> (s', [Ev_Unrecoverable (crash_message env reason)], Loop_Over)
           | Sd_Restart reason \<Rightarrow> (s', [Ev_Restarting reason], pause)
           | _ \<Rightarrow> (s', [], pause))"

fun run_loop :: "SupervisorEnv \<Rightarrow> Life list \<Rightarrow> SupervisorRun \<Rightarrow> SupervisorRun \<times> SupervisorEvent list \<times> LoopEnd" where
  "run_loop env [] s = (s, [], Loop_Running)"
| "run_loop env (l # ls) s =
     (if li_stop_before l then (s, [], Loop_Over)
      else case launch_error env l of
        Some message \<Rightarrow> (s, [Ev_Unrecoverable message], Loop_Over)
      | None \<Rightarrow>
        (case supervise_one (li_start l) (li_ticks l) (ru_started s) (ru_policy s) of (started, c, es, e) \<Rightarrow>
           let s1 = s\<lparr>ru_started := started, ru_policy := c\<rparr> in
           if e = Watching then (s1, es, Loop_Running)
           else if li_stop_after l then (s1, es, Loop_Over)
           else case after_child env l s1 of
             (s2, es2, Loop_Over) \<Rightarrow> (s2, es @ es2, Loop_Over)
           | (s2, es2, Loop_Running) \<Rightarrow> (case run_loop env ls s2 of (s3, es3, e3) \<Rightarrow> (s3, es @ es2 @ es3, e3))))"

section \<open>What the policy keeps\<close>

text \<open>The policy as the loop uses it: its limits are the defaults and nobody asks it to stop.\<close>

definition usual_core :: "SupervisionCore \<Rightarrow> bool" where
  "usual_core c \<longleftrightarrow> \<not> sup_stopping c \<and> sup_max_rapid_restarts c = 5 \<and> sup_max_failures c = 6"

lemma usual_default: "usual_core default_core"
  by (simp add: usual_core_def default_core_def MAX_RAPID_RESTARTS_def LIVENESS_STRIKES_def)

lemma observe_probe_keeps:
  "observe_probe out b c = (c', d) \<Longrightarrow> usual_core c' = usual_core c \<and> sup_rapid_restarts c' = sup_rapid_restarts c"
  by (auto simp: observe_probe_def usual_core_def Let_def split: if_splits option.splits)

lemma observe_exit_keeps: "observe_exit r c = (c', d) \<Longrightarrow> usual_core c' = usual_core c"
  by (auto simp: observe_exit_def usual_core_def Let_def split: if_splits option.splits)

lemma probe_round_core:
  "probe_round bd t w c = (w', c', es, e) \<Longrightarrow> \<exists>d. observe_probe (ti_outcome t) (\<not> wa_healthy w \<and> bd < ti_deadline t) c = (c', d)"
  by (auto simp: probe_round_def Let_def split: prod.splits SupervisorDecision.splits)

lemma watch_keeps:
  "watch_child bd w ts c = (b, c', es, e) \<Longrightarrow> usual_core c' = usual_core c \<and> sup_rapid_restarts c' = sup_rapid_restarts c"
proof (induction bd w ts c arbitrary: b c' es e rule: watch_child.induct)
  case (2 bd w t ts c)
  show ?case
  proof (cases "ti_stop t \<or> ti_exited t \<or> ti_now t < wa_next_probe w")
    case True
    then show ?thesis using 2 by (auto split: if_splits)
  next
    case False
    obtain w1 c1 es1 e1 where p: "probe_round bd t w c = (w1, c1, es1, e1)" by (cases "probe_round bd t w c")
    then have k: "usual_core c1 = usual_core c \<and> sup_rapid_restarts c1 = sup_rapid_restarts c"
      using probe_round_core observe_probe_keeps by blast
    obtain b2 c2 es2 e2 where r: "watch_child bd w1 ts c1 = (b2, c2, es2, e2)" by (cases "watch_child bd w1 ts c1")
    show ?thesis
    proof (cases e1)
      case True
      then show ?thesis using 2(3) False p k by simp
    next
      case e1: False
      then have "c' = c2" using 2(3) False p r by simp
      moreover have "usual_core c2 = usual_core c1 \<and> sup_rapid_restarts c2 = sup_rapid_restarts c1"
        using 2(2) [OF _ _ _ p [symmetric] _ _ _ r] False e1 by simp
      ultimately show ?thesis using k by simp
    qed
  qed
qed simp

section \<open>A hang is six failures in a row\<close>

datatype Observation = Probed ProbeOutcome bool | Exited bool

fun observe :: "Observation \<Rightarrow> SupervisionCore \<Rightarrow> SupervisionCore" where
  "observe (Probed out b) c = fst (observe_probe out b c)"
| "observe (Exited r) c = fst (observe_exit r c)"

fun failing :: "Observation \<Rightarrow> bool" where
  "failing (Probed out b) = (out \<noteq> Po_Healthy)"
| "failing (Exited r) = False"

text \<open>The observations end in a good probe and this many failed ones.\<close>

definition failed_since :: "Observation list \<Rightarrow> nat \<Rightarrow> bool" where
  "failed_since obs n \<longleftrightarrow> (\<exists>pre b fs. obs = pre @ Probed Po_Healthy b # fs \<and> length fs = n \<and> list_all failing fs)"

lemma failed_since_healthy: "failed_since (obs @ [Probed Po_Healthy b]) 0"
  unfolding failed_since_def by (intro exI [of _ obs] exI [of _ b] exI [of _ "[]"]) simp

lemma failed_since_failed:
  assumes "failed_since obs n" and "out \<noteq> Po_Healthy"
  shows "failed_since (obs @ [Probed out b]) (Suc n)"
proof -
  obtain pre b' fs where "obs = pre @ Probed Po_Healthy b' # fs" "length fs = n" "list_all failing fs"
    using assms(1) by (auto simp: failed_since_def)
  then show ?thesis unfolding failed_since_def
    using assms(2) by (intro exI [of _ pre] exI [of _ b'] exI [of _ "fs @ [Probed out b]"]) simp
qed

definition strikes_inv :: "Observation list \<Rightarrow> SupervisionCore \<Rightarrow> bool" where
  "strikes_inv obs c \<longleftrightarrow> usual_core c \<and>
     (sup_terminal c = None \<and> sup_healthy c \<longrightarrow> sup_failures c < 6 \<and> failed_since obs (sup_failures c))"

lemma strikes_step:
  assumes "strikes_inv obs c"
  shows "strikes_inv (obs @ [x]) (observe x c)"
proof (cases x)
  case (Exited r)
  obtain c' d where e: "observe_exit r c = (c', d)" by (cases "observe_exit r c")
  then have "sup_terminal c' \<noteq> None \<or> \<not> sup_healthy c'"
    using assms by (auto simp: observe_exit_def strikes_inv_def usual_core_def Let_def split: if_splits option.splits)
  then show ?thesis using assms Exited e observe_exit_keeps [OF e] by (auto simp: strikes_inv_def)
next
  case (Probed out b)
  obtain c' d where e: "observe_probe out b c = (c', d)" by (cases "observe_probe out b c")
  have "sup_terminal c' = None \<Longrightarrow> sup_healthy c' \<Longrightarrow>
      (out = Po_Healthy \<and> sup_failures c' = 0) \<or> (out \<noteq> Po_Healthy \<and> sup_terminal c = None \<and> sup_healthy c
        \<and> sup_failures c' = Suc (sup_failures c) \<and> sup_failures c' < 6)"
    using e assms by (auto simp: observe_probe_def strikes_inv_def usual_core_def saturating_inc_u32_def Let_def split: if_splits option.splits)
  then show ?thesis
    using assms Probed e observe_probe_keeps [OF e] failed_since_healthy failed_since_failed by (auto simp: strikes_inv_def)
qed

lemma strikes_run: "strikes_inv obs (fold observe obs default_core)"
proof (induction obs rule: rev_induct)
  case Nil
  show ?case by (simp add: strikes_inv_def usual_default) (simp add: default_core_def)
next
  case (snoc x obs)
  then show ?case using strikes_step by simp
qed

text \<open>
  A healthy hub is not killed lightly. Whatever probes and exits came before, the supervisor restarts a running child for its
  health only at the sixth failed probe in a row after a good one; the only other restart it orders is that of a boot that timed out.
\<close>

theorem restart_is_earned:
  assumes "observe_probe out b (fold observe obs default_core) = (c, Sd_Restart reason)" and "reason \<noteq> Rr_BootTimeout"
  shows "out \<noteq> Po_Healthy \<and> failed_since obs 5"
proof -
  let ?c = "fold observe obs default_core"
  have i: "strikes_inv obs ?c" by (rule strikes_run)
  have "sup_terminal ?c = None \<and> sup_healthy ?c \<and> out \<noteq> Po_Healthy \<and> 6 \<le> Suc (sup_failures ?c)"
    using assms i by (auto simp: observe_probe_def strikes_inv_def usual_core_def saturating_inc_u32_def Let_def split: if_splits option.splits)
  moreover from this i have "sup_failures ?c < 6 \<and> failed_since obs (sup_failures ?c)" by (simp add: strikes_inv_def)
  moreover have "n = 5" if "6 \<le> Suc n" "n < 6" for n :: nat using that by simp
  ultimately show ?thesis by metis
qed

definition hang_obs :: "Observation list" where
  "hang_obs = [Probed Po_Healthy False, Probed Po_Unreachable False, Probed Po_Unreachable False, Probed Po_Unreachable False,
     Probed Po_Unreachable False, Probed Po_Unreachable False]"

lemma failure_counts:
  assumes "usual_core c" "sup_terminal c = None" "sup_healthy c" "sup_failures c < 5" "out \<noteq> Po_Healthy"
  shows "observe (Probed out b) c = c\<lparr>sup_failures := Suc (sup_failures c)\<rparr>"
  using assms by (simp add: usual_core_def observe_probe_def saturating_inc_u32_def Let_def)

definition struck_core :: "nat \<Rightarrow> SupervisionCore" where
  "struck_core n = default_core\<lparr>sup_started := True, sup_healthy := True, sup_failures := n\<rparr>"

lemma hang_core: "fold observe hang_obs default_core = struck_core 5"
proof -
  have h: "observe (Probed Po_Healthy False) default_core = struck_core 0"
    by (simp add: observe_probe_def default_core_def struck_core_def)
  have f: "n < 5 \<Longrightarrow> observe (Probed Po_Unreachable False) (struck_core n) = struck_core (Suc n)" for n
    using usual_default by (subst failure_counts) (simp_all add: struck_core_def usual_core_def, simp_all add: default_core_def)
  have "fold observe hang_obs default_core = struck_core (Suc (Suc (Suc (Suc (Suc 0)))))"
    by (simp add: hang_obs_def h f del: observe.simps)
  then show ?thesis by (simp add: eval_nat_numeral)
qed

theorem restart_is_earned_witness:
  "failed_since hang_obs 5"
proof -
  have "observe_probe Po_Unreachable False (fold observe hang_obs default_core)
      = (default_core\<lparr>sup_started := True, sup_healthy := False, sup_failures := 6\<rparr>, Sd_Restart Rr_Hang)"
    unfolding hang_core
    by (simp add: struck_core_def observe_probe_def restart_decision_def default_core_def saturating_inc_u32_def Let_def LIVENESS_STRIKES_def)
  then show ?thesis using restart_is_earned [of Po_Unreachable False hang_obs] by simp
qed

section \<open>A crash loop ends\<close>

definition child_ends :: "Life \<Rightarrow> bool" where
  "child_ends l \<longleftrightarrow> (\<exists>t \<in> set (li_ticks l). ti_stop t \<or> ti_exited t)"

lemma watch_ends:
  "\<exists>t \<in> set ts. ti_stop t \<or> ti_exited t \<Longrightarrow> snd (snd (snd (watch_child bd w ts c))) \<noteq> Watching"
proof (induction bd w ts c rule: watch_child.induct)
  case (2 bd w t ts c)
  show ?case
  proof (cases "ti_stop t \<or> ti_exited t")
    case True
    then show ?thesis by auto
  next
    case False
    then have later: "\<exists>t \<in> set ts. ti_stop t \<or> ti_exited t" using 2(3) by auto
    obtain w1 c1 es1 e1 where p: "probe_round bd t w c = (w1, c1, es1, e1)" by (cases "probe_round bd t w c")
    obtain b2 c2 es2 e2 where r: "watch_child bd w1 ts c1 = (b2, c2, es2, e2)" by (cases "watch_child bd w1 ts c1")
    show ?thesis
      using False 2(1) [OF _ _ _ later] 2(2) [OF _ _ _ p [symmetric] _ _ _ later] r p by (cases e1) auto
  qed
qed simp

lemma supervise_ends: "child_ends l \<Longrightarrow> snd (snd (snd (supervise_one now (li_ticks l) b c))) \<noteq> Watching"
  using watch_ends by (simp add: child_ends_def supervise_one_def)

lemma supervise_keeps:
  "supervise_one now ts b c = (b', c', es, e) \<Longrightarrow> usual_core c' = usual_core c \<and> sup_rapid_restarts c' = sup_rapid_restarts c"
  using watch_keeps by (simp add: supervise_one_def)

lemma after_child_run:
  "after_child env l s = (s', es, e) \<Longrightarrow> \<exists>d. observe_exit (rapid_exit l) (seeded_policy l s) = (ru_policy s', d)
     \<and> ru_rapid_restarts s' = next_rapid l s \<and> ((\<exists>r. d = Sd_Unrecoverable r) \<longrightarrow> e = Loop_Over)"
  by (cases "observe_exit (rapid_exit l) (seeded_policy l s)"; cases "snd (observe_exit (rapid_exit l) (seeded_policy l s))")
    (auto simp: after_child_def Let_def)

lemma usual_seeded: "usual_core (seeded_policy l s) = usual_core (ru_policy s)"
  by (simp add: seeded_policy_def usual_core_def)

lemma after_child_usual: "after_child env l s = (s', es, e) \<Longrightarrow> usual_core (ru_policy s) \<Longrightarrow> usual_core (ru_policy s')"
  using after_child_run observe_exit_keeps usual_seeded by metis

text \<open>A strike counts, and the sixth ends the loop.\<close>

lemma after_rapid:
  assumes "after_child env l s = (s', es, e)" and "usual_core (ru_policy s)" and "rapid_exit l"
  shows "ru_rapid_restarts s' = ru_rapid_restarts s + 1 \<and> (5 \<le> ru_rapid_restarts s \<longrightarrow> e = Loop_Over)"
proof -
  obtain d where d: "observe_exit True (seeded_policy l s) = (ru_policy s', d)" "ru_rapid_restarts s' = next_rapid l s"
    "(\<exists>r. d = Sd_Unrecoverable r) \<longrightarrow> e = Loop_Over"
    using after_child_run [OF assms(1)] assms(3) by auto
  have "5 \<le> ru_rapid_restarts s \<Longrightarrow> \<exists>r. d = Sd_Unrecoverable r"
    using d(1) assms(2,3) by (auto simp: observe_exit_def seeded_policy_def next_rapid_def usual_core_def saturating_inc_u32_def Let_def
        split: option.splits if_splits)
  then show ?thesis using d assms(3) by (auto simp: next_rapid_def)
qed

lemma run_loop_step:
  assumes "run_loop env (l # ls) s = (s', es, Loop_Running)" and "child_ends l"
  shows "\<exists>s1 s2 es1 es2. after_child env l s1 = (s2, es1, Loop_Running) \<and> run_loop env ls s2 = (s', es2, Loop_Running)
    \<and> usual_core (ru_policy s1) = usual_core (ru_policy s) \<and> ru_rapid_restarts s1 = ru_rapid_restarts s
    \<and> sup_rapid_restarts (ru_policy s1) = sup_rapid_restarts (ru_policy s)"
proof -
  obtain b c es0 e0 where w: "supervise_one (li_start l) (li_ticks l) (ru_started s) (ru_policy s) = (b, c, es0, e0)"
    by (cases "supervise_one (li_start l) (li_ticks l) (ru_started s) (ru_policy s)")
  define s1 where "s1 = s\<lparr>ru_started := b, ru_policy := c\<rparr>"
  have e0: "e0 \<noteq> Watching" using supervise_ends [OF assms(2)] w by (metis snd_conv)
  obtain s2 es1 e1 where a: "after_child env l s1 = (s2, es1, e1)" by (cases "after_child env l s1")
  have e1: "e1 = Loop_Running"
    using assms(1) w e0 a by (cases e1) (auto simp: s1_def [symmetric] Let_def split: if_splits option.splits)
  obtain es2 where "run_loop env ls s2 = (s', es2, Loop_Running)"
    using assms(1) w e0 a e1 by (auto simp: s1_def [symmetric] Let_def split: if_splits option.splits prod.splits)
  moreover have "usual_core (ru_policy s1) = usual_core (ru_policy s)" "ru_rapid_restarts s1 = ru_rapid_restarts s"
    "sup_rapid_restarts (ru_policy s1) = sup_rapid_restarts (ru_policy s)"
    using supervise_keeps [OF w] by (simp_all add: s1_def)
  ultimately show ?thesis using a e1 by blast
qed

lemma running_few_strikes:
  assumes "run_loop env ls s = (s', es, Loop_Running)" and "usual_core (ru_policy s)"
    and "list_all child_ends ls" and "list_all rapid_exit ls"
  shows "ls = [] \<or> length ls + ru_rapid_restarts s \<le> 5"
  using assms
proof (induction ls arbitrary: s es)
  case (Cons l ls)
  obtain s1 s2 es1 es2 where k: "after_child env l s1 = (s2, es1, Loop_Running)" "run_loop env ls s2 = (s', es2, Loop_Running)"
    "usual_core (ru_policy s1)" "ru_rapid_restarts s1 = ru_rapid_restarts s"
    using run_loop_step [OF Cons.prems(1)] Cons.prems by auto
  have r: "ru_rapid_restarts s2 = ru_rapid_restarts s + 1" "\<not> 5 \<le> ru_rapid_restarts s"
    using after_rapid [OF k(1,3)] k(4) Cons.prems by auto
  have "ls = [] \<or> length ls + ru_rapid_restarts s2 \<le> 5"
    using Cons.IH [OF k(2) after_child_usual [OF k(1,3)]] Cons.prems by simp
  then show ?case using r by auto
qed simp

lemma running_suffix:
  assumes "run_loop env (xs @ ys) s = (s', es, Loop_Running)" and "usual_core (ru_policy s)" and "list_all child_ends xs"
  shows "\<exists>s1 es1. run_loop env ys s1 = (s', es1, Loop_Running) \<and> usual_core (ru_policy s1)"
  using assms
proof (induction xs arbitrary: s es)
  case (Cons l xs)
  obtain s1 s2 es1 es2 where k: "after_child env l s1 = (s2, es1, Loop_Running)" "run_loop env (xs @ ys) s2 = (s', es2, Loop_Running)"
    "usual_core (ru_policy s1)"
    using run_loop_step [OF Cons.prems(1) [unfolded append_Cons]] Cons.prems(2,3) by auto
  then show ?case using Cons.IH [OF k(2) after_child_usual [OF k(1,3)]] Cons.prems by simp
qed auto

text \<open>
  Property C20. A crash loop ends. Whatever the children did before, after six children in a row that each end within five seconds of their
  start the supervision loop has returned.
\<close>

theorem crash_loop_ends:
  assumes "list_all child_ends (earlier @ crashes)" and "list_all rapid_exit crashes" and "6 \<le> length crashes"
  shows "snd (snd (run_loop env (earlier @ crashes) new_run)) = Loop_Over"
proof (cases "run_loop env (earlier @ crashes) new_run")
  case (fields s' es e)
  show ?thesis
  proof (cases e)
  case Loop_Running
  have r: "run_loop env (earlier @ crashes) new_run = (s', es, Loop_Running)" using fields Loop_Running by simp
  have "usual_core (ru_policy new_run)" by (simp add: new_run_def usual_default)
  from running_suffix [OF r this] obtain s1 es1 where "run_loop env crashes s1 = (s', es1, Loop_Running)" "usual_core (ru_policy s1)"
    using assms(1) by auto
  from running_few_strikes [OF this] show ?thesis using assms by auto
  qed (simp add: fields)
qed

section \<open>Two counters of one thing\<close>

definition strikes_agree :: "SupervisorRun \<Rightarrow> bool" where
  "strikes_agree s \<longleftrightarrow> usual_core (ru_policy s) \<and> sup_rapid_restarts (ru_policy s) = ru_rapid_restarts s \<and> ru_rapid_restarts s \<le> 5"

lemma after_child_agrees:
  assumes "after_child env l s = (s', es, Loop_Running)" and "strikes_agree s"
  shows "strikes_agree s'"
proof -
  obtain d where d: "observe_exit (rapid_exit l) (seeded_policy l s) = (ru_policy s', d)" "ru_rapid_restarts s' = next_rapid l s"
    "\<nexists>r. d = Sd_Unrecoverable r"
    using after_child_run [OF assms(1)] by auto
  have u: "usual_core (ru_policy s')" using after_child_usual [OF assms(1)] assms(2) by (simp add: strikes_agree_def)
  have "observe_exit (rapid_exit l) (seeded_policy l s) = (c, d) \<Longrightarrow> sup_rapid_restarts c = next_rapid l s \<and> next_rapid l s \<le> 5" for c
    using d(3) assms(2) by (auto simp: observe_exit_def seeded_policy_def next_rapid_def strikes_agree_def usual_core_def
        saturating_inc_u32_def Let_def split: option.splits if_splits)
  from this [OF d(1)] show ?thesis using u d(2) by (simp add: strikes_agree_def)
qed

text \<open>
  The loop's count of rapid exits and the policy's are the same. Whenever a child has ended, both counters agree and are at most
  five, so copying the one into the other does not change the verdict.
\<close>

theorem seeding_changes_nothing:
  assumes "run_loop env ls new_run = (s, es, Loop_Running)" and "list_all child_ends ls"
    and "supervise_one now ts (ru_started s) (ru_policy s) = (b, c, es', e)" and "s1 = s\<lparr>ru_started := b, ru_policy := c\<rparr>"
  shows "sup_rapid_restarts c = ru_rapid_restarts s1 \<and> ru_rapid_restarts s1 \<le> 5
    \<and> snd (observe_exit (rapid_exit l) (seeded_policy l s1)) = snd (observe_exit (rapid_exit l) c)"
proof -
  have "strikes_agree s'" if "run_loop env ls s0 = (s', es', Loop_Running)" "strikes_agree s0" "list_all child_ends ls" for ls s0 es' s'
    using that
  proof (induction ls arbitrary: s0 es')
    case (Cons l ls)
    obtain s1 s2 es1 es2 where k: "after_child env l s1 = (s2, es1, Loop_Running)" "run_loop env ls s2 = (s', es2, Loop_Running)"
      "strikes_agree s1"
      using run_loop_step [OF Cons.prems(1)] Cons.prems(2,3) by (auto simp: strikes_agree_def)
    then show ?case using Cons.IH [OF k(2) after_child_agrees [OF k(1,3)]] Cons.prems(3) by simp
  qed simp
  moreover have "strikes_agree new_run" using usual_default by (simp add: strikes_agree_def new_run_def) (simp add: default_core_def)
  ultimately have "strikes_agree s" using assms(1,2) by blast
  then have a: "strikes_agree s1" using supervise_keeps [OF assms(3)] by (simp add: assms(4) strikes_agree_def)
  have "seeded_policy l s1 = c" if "rapid_exit l"
    using that a by (simp add: seeded_policy_def next_rapid_def strikes_agree_def assms(4))
  moreover have "snd (observe_exit False (c\<lparr>sup_rapid_restarts := n\<rparr>)) = snd (observe_exit False c)" for n
    by (simp add: observe_exit_def Let_def split: option.split)
  ultimately show ?thesis using a by (cases "rapid_exit l") (auto simp: seeded_policy_def strikes_agree_def assms(4))
qed

section \<open>The first boot\<close>

definition fresh_core :: "SupervisionCore \<Rightarrow> bool" where
  "fresh_core c \<longleftrightarrow> usual_core c \<and> sup_terminal c = None \<and> \<not> sup_started c \<and> \<not> sup_healthy c"

lemma fresh_failed_probe:
  assumes "fresh_core c" and "out \<noteq> Po_Healthy"
  shows "(\<not> b \<longrightarrow> (\<exists>n. observe_probe out b c = (c\<lparr>sup_failures := n\<rparr>, Sd_Wait)))
    \<and> (b \<longrightarrow> observe_probe out b c = (c\<lparr>sup_terminal := Some Rr_BootTimeout\<rparr>, Sd_Unrecoverable Rr_BootTimeout))"
  using assms by (auto simp: fresh_core_def usual_core_def observe_probe_def Let_def)

text \<open>A tick of a boot that does not succeed.\<close>

definition bad_boot_tick :: "Tick \<Rightarrow> bool" where
  "bad_boot_tick t \<longleftrightarrow> \<not> ti_stop t \<and> \<not> ti_exited t \<and> ti_outcome t \<noteq> Po_Healthy"

lemma bad_boot_round:
  assumes "fresh_core c" and "bad_boot_tick t" and "\<not> wa_healthy w"
  shows "if bd < ti_deadline t
    then probe_round bd t w c = (w, c\<lparr>sup_terminal := Some Rr_BootTimeout\<rparr>,
      [Ev_ProbeFailed (ti_outcome t), Ev_Unrecoverable (unrecoverable_message Rr_BootTimeout)], True)
    else \<exists>n. probe_round bd t w c = (w\<lparr>wa_next_probe := ti_schedule t + 250\<rparr>, c\<lparr>sup_failures := n\<rparr>, [Ev_ProbeFailed (ti_outcome t)], False)"
  using fresh_failed_probe [OF assms(1), of "ti_outcome t" "bd < ti_deadline t"] assms(2,3)
  by (auto simp: probe_round_def bad_boot_tick_def)

lemma bad_boot_watch:
  assumes "list_all bad_boot_tick (ts @ [t])" and "fresh_core c" and "\<not> wa_healthy w" and "wa_next_probe w \<le> ti_now t"
    and "\<forall>x \<in> set ts. ti_schedule x + 250 \<le> ti_now t" and "bd < ti_deadline t"
  shows "\<exists>b n es. watch_child bd w (ts @ [t]) c = (b, c\<lparr>sup_failures := n, sup_terminal := Some Rr_BootTimeout\<rparr>,
    es @ [Ev_Unrecoverable (unrecoverable_message Rr_BootTimeout)], Child_Terminated)"
  using assms
proof (induction ts arbitrary: w c)
  case Nil
  have "c\<lparr>sup_failures := sup_failures c, sup_terminal := x\<rparr> = c\<lparr>sup_terminal := x\<rparr>" for x by simp
  then show ?case
    using Nil bad_boot_round [of c t w bd] by (auto simp: bad_boot_tick_def intro: exI [of _ "sup_failures c"])
next
  case (Cons x ts)
  show ?case
  proof (cases "ti_now x < wa_next_probe w")
    case True
    then show ?thesis using Cons.IH [of c w] Cons.prems by (simp add: bad_boot_tick_def)
  next
    case False
    note r = bad_boot_round [of c x w bd]
    show ?thesis
    proof (cases "bd < ti_deadline x")
      case True
      have "c\<lparr>sup_failures := sup_failures c, sup_terminal := y\<rparr> = c\<lparr>sup_terminal := y\<rparr>" for y by simp
      then show ?thesis
        using r True False Cons.prems by (auto simp: bad_boot_tick_def intro: exI [of _ "sup_failures c"])
    next
      case F: False
      then obtain n where p: "probe_round bd x w c
          = (w\<lparr>wa_next_probe := ti_schedule x + 250\<rparr>, c\<lparr>sup_failures := n\<rparr>, [Ev_ProbeFailed (ti_outcome x)], False)"
        using r Cons.prems by auto
      have "fresh_core (c\<lparr>sup_failures := n\<rparr>)" using Cons.prems(2) by (simp add: fresh_core_def usual_core_def)
      then obtain b m es where "watch_child bd (w\<lparr>wa_next_probe := ti_schedule x + 250\<rparr>) (ts @ [t]) (c\<lparr>sup_failures := n\<rparr>)
          = (b, c\<lparr>sup_failures := m, sup_terminal := Some Rr_BootTimeout\<rparr>, es @ [Ev_Unrecoverable (unrecoverable_message Rr_BootTimeout)], Child_Terminated)"
        using Cons.IH [of "c\<lparr>sup_failures := n\<rparr>" "w\<lparr>wa_next_probe := ti_schedule x + 250\<rparr>"] Cons.prems by auto
      then show ?thesis using False Cons.prems p by (auto simp: bad_boot_tick_def)
    qed
  qed
qed

text \<open>
  A first boot that fails is reported. When no probe of the first child succeeds and one is made after the 30 seconds, the loop ends
  with the message of the boot timeout, followed by a second report of the same state.
\<close>

theorem dead_boot_is_fatal:
  assumes "\<not> li_stop_before l" and "launch_error env l = None" and "\<not> li_stop_after l" and "li_ticks l = ts @ [t]"
    and "list_all bad_boot_tick (ts @ [t])" and "li_start l \<le> ti_now t" and "\<forall>x \<in> set ts. ti_schedule x + 250 \<le> ti_now t"
    and "li_start l + 30000 < ti_deadline t"
  shows "\<exists>s es. run_loop env (l # ls) new_run = (s, es @ [Ev_Unrecoverable (unrecoverable_message Rr_BootTimeout),
    Ev_Unrecoverable (crash_message env Rr_BootTimeout)], Loop_Over)"
proof -
  have f: "fresh_core default_core" using usual_default by (simp add: fresh_core_def) (simp add: default_core_def)
  obtain b n es where w: "supervise_one (li_start l) (ts @ [t]) False default_core
      = (b, default_core\<lparr>sup_failures := n, sup_terminal := Some Rr_BootTimeout\<rparr>,
         es @ [Ev_Unrecoverable (unrecoverable_message Rr_BootTimeout)], Child_Terminated)"
    using bad_boot_watch [OF assms(5) f, of "\<lparr>wa_healthy = False, wa_started = False, wa_next_probe = li_start l\<rparr>" "li_start l + BOOT_HEALTH_TIMEOUT"]
      assms(6-8) by (auto simp: supervise_one_def BOOT_HEALTH_TIMEOUT_def)
  have "observe_exit r (seeded_policy l s) = (seeded_policy l s, Sd_Unrecoverable Rr_BootTimeout)"
    if "ru_policy s = default_core\<lparr>sup_failures := n, sup_terminal := Some Rr_BootTimeout\<rparr>" for r s
    using that by (simp add: observe_exit_def seeded_policy_def default_core_def)
  then show ?thesis using assms(1-4) w by (auto simp: new_run_def after_child_def Let_def)
qed

section \<open>A server that never comes up\<close>

text \<open>A child that fails its probes and exits by itself before the boot deadline, five seconds or more after its start.\<close>

definition slow_crash :: "SupervisorEnv \<Rightarrow> Life \<Rightarrow> bool" where
  "slow_crash env l \<longleftrightarrow> \<not> li_stop_before l \<and> launch_error env l = None \<and> \<not> li_stop_after l \<and> \<not> li_stop_pause l \<and> 5000 \<le> li_uptime l
     \<and> li_ticks l \<noteq> [] \<and> list_all bad_boot_tick (butlast (li_ticks l)) \<and> \<not> ti_stop (last (li_ticks l)) \<and> ti_exited (last (li_ticks l))
     \<and> list_all (\<lambda>t. ti_deadline t \<le> li_start l + 30000) (li_ticks l)"

fun quiet_event :: "SupervisorEvent \<Rightarrow> bool" where
  "quiet_event (Ev_ProbeFailed out) = True"
| "quiet_event (Ev_Restarting r) = (r = Rr_Crash)"
| "quiet_event e = False"

lemma slow_watch:
  assumes "list_all bad_boot_tick ts" and "\<forall>x \<in> set ts. ti_deadline x \<le> bd" and "\<not> ti_stop t" and "ti_exited t"
    and "fresh_core c" and "\<not> wa_healthy w"
  shows "\<exists>n es. watch_child bd w (ts @ [t]) c = (wa_started w, c\<lparr>sup_failures := n\<rparr>, es, Child_Gone) \<and> list_all quiet_event es"
  using assms
proof (induction ts arbitrary: w c)
  case Nil
  then show ?case by (auto intro: exI [of _ "sup_failures c"])
next
  case (Cons x ts)
  show ?case
  proof (cases "ti_now x < wa_next_probe w")
    case True
    then show ?thesis using Cons.IH [of c w] Cons.prems by (simp add: bad_boot_tick_def)
  next
    case False
    obtain n where p: "probe_round bd x w c
        = (w\<lparr>wa_next_probe := ti_schedule x + 250\<rparr>, c\<lparr>sup_failures := n\<rparr>, [Ev_ProbeFailed (ti_outcome x)], False)"
      using bad_boot_round [of c x w bd] Cons.prems by auto
    have "fresh_core (c\<lparr>sup_failures := n\<rparr>)" using Cons.prems(5) by (simp add: fresh_core_def usual_core_def)
    then obtain m es where "watch_child bd (w\<lparr>wa_next_probe := ti_schedule x + 250\<rparr>) (ts @ [t]) (c\<lparr>sup_failures := n\<rparr>)
        = (wa_started w, c\<lparr>sup_failures := m\<rparr>, es, Child_Gone) \<and> list_all quiet_event es"
      using Cons.IH [of "c\<lparr>sup_failures := n\<rparr>" "w\<lparr>wa_next_probe := ti_schedule x + 250\<rparr>"] Cons.prems by auto
    then show ?thesis using False Cons.prems p by (auto simp: bad_boot_tick_def)
  qed
qed

lemma slow_turn:
  assumes "slow_crash env l" and "fresh_core (ru_policy s)"
  shows "\<exists>s2 es. run_loop env (l # ls) s = (case run_loop env ls s2 of (s3, es3, e3) \<Rightarrow> (s3, es @ es3, e3))
    \<and> fresh_core (ru_policy s2) \<and> list_all quiet_event es"
proof -
  have l: "li_ticks l = butlast (li_ticks l) @ [last (li_ticks l)]" using assms(1) by (simp add: slow_crash_def)
  have "\<forall>x \<in> set (butlast (li_ticks l)). ti_deadline x \<le> li_start l + BOOT_HEALTH_TIMEOUT"
    using assms(1) by (auto simp: slow_crash_def BOOT_HEALTH_TIMEOUT_def list_all_iff dest: in_set_butlastD)
  then obtain n es where w: "supervise_one (li_start l) (li_ticks l) (ru_started s) (ru_policy s)
      = (ru_started s, (ru_policy s)\<lparr>sup_failures := n\<rparr>, es, Child_Gone)" and q: "list_all quiet_event es"
    using slow_watch [of "butlast (li_ticks l)" "li_start l + BOOT_HEALTH_TIMEOUT" "last (li_ticks l)" "ru_policy s"
        "\<lparr>wa_healthy = False, wa_started = ru_started s, wa_next_probe = li_start l\<rparr>"] assms l
    by (auto simp: supervise_one_def slow_crash_def)
  define s1 where "s1 = s\<lparr>ru_started := ru_started s, ru_policy := (ru_policy s)\<lparr>sup_failures := n\<rparr>\<rparr>"
  have "\<not> rapid_exit l" using assms(1) by (simp add: slow_crash_def rapid_exit_def)
  then have a: "after_child env l s1 = (s1\<lparr>ru_rapid_restarts := 0, ru_policy := (ru_policy s1)\<lparr>sup_rapid_restarts := 0, sup_healthy := False\<rparr>\<rparr>,
      [Ev_Restarting Rr_Crash], Loop_Running)"
    using assms by (simp add: after_child_def observe_exit_def seeded_policy_def next_rapid_def s1_def fresh_core_def usual_core_def
        slow_crash_def Let_def)
  show ?thesis
    using assms w a q by (intro exI [of _ "s1\<lparr>ru_rapid_restarts := 0, ru_policy := (ru_policy s1)\<lparr>sup_rapid_restarts := 0, sup_healthy := False\<rparr>\<rparr>"]
        exI [of _ "es @ [Ev_Restarting Rr_Crash]"])
      (auto simp: slow_crash_def s1_def [symmetric] Let_def split: prod.splits,
       auto simp: s1_def fresh_core_def usual_core_def)
qed

text \<open>
  A server that never comes up can be restarted for ever. When every child fails its probes and exits by itself after five seconds
  or more, before the boot deadline, the loop never ends and never reports a failure, however many children there were.
\<close>

theorem slow_crash_never_fatal:
  assumes "list_all (slow_crash env) ls"
  shows "\<exists>s es. run_loop env ls new_run = (s, es, Loop_Running) \<and> list_all quiet_event es"
proof -
  have "\<exists>s' es. run_loop env ls s = (s', es, Loop_Running) \<and> list_all quiet_event es" if "fresh_core (ru_policy s)" for s
    using assms that
  proof (induction ls arbitrary: s)
    case (Cons l ls)
    obtain s2 es where k: "run_loop env (l # ls) s = (case run_loop env ls s2 of (s3, es3, e3) \<Rightarrow> (s3, es @ es3, e3))"
      "fresh_core (ru_policy s2)" "list_all quiet_event es"
      using slow_turn [of env l s ls] Cons.prems by auto
    obtain s' es' where "run_loop env ls s2 = (s', es', Loop_Running)" "list_all quiet_event es'"
      using Cons.IH [OF _ k(2)] Cons.prems by auto
    then show ?case using k by simp
  qed simp
  moreover have "fresh_core (ru_policy new_run)"
    using usual_default by (simp add: fresh_core_def new_run_def) (simp add: default_core_def)
  ultimately show ?thesis by blast
qed

section \<open>Concrete runs\<close>

definition sample_senv :: SupervisorEnv where
  "sample_senv = \<lparr>se_log_path = ''/d/pantoken.log'', se_hub_bin = ''/d/hub''\<rparr>"

definition boot_tick :: "nat \<Rightarrow> bool \<Rightarrow> Tick" where
  "boot_tick now exited = \<lparr>ti_stop = False, ti_exited = exited, ti_now = now, ti_outcome = Po_Unreachable, ti_deadline = now, ti_schedule = now\<rparr>"

definition sample_life :: "Tick list \<Rightarrow> nat \<Rightarrow> Life" where
  "sample_life ts uptime = \<lparr>li_stop_before = False, li_log_error = None, li_clone_error = None, li_spawn_error = None, li_start = 0,
     li_ticks = ts, li_stop_after = False, li_uptime = uptime, li_stop_pause = False\<rparr>"

lemma sample_launch: "launch_error sample_senv (sample_life ts n) = None"
  by (simp add: launch_error_def sample_life_def)

theorem crash_loop_ends_witness:
  "snd (snd (run_loop sample_senv ([sample_life [boot_tick 9000 True] 9000] @ replicate 6 (sample_life [boot_tick 60 True] 60)) new_run)) = Loop_Over"
  by (rule crash_loop_ends) (simp_all add: child_ends_def rapid_exit_def sample_life_def boot_tick_def list_all_iff)

theorem seeding_changes_nothing_witness:
  "ru_rapid_restarts new_run \<le> 5 \<and> snd (observe_exit True (seeded_policy (sample_life [] 60) new_run)) = snd (observe_exit True default_core)"
  using seeding_changes_nothing [of sample_senv "[]" new_run "[]" 0 "[]" False default_core "[]" Watching new_run "sample_life [] 60"]
  by (simp add: supervise_one_def new_run_def rapid_exit_def sample_life_def)

theorem dead_boot_is_fatal_witness:
  "\<exists>s es. run_loop sample_senv [sample_life [boot_tick 0 False, boot_tick 30001 False] 30001] new_run
     = (s, es @ [Ev_Unrecoverable (unrecoverable_message Rr_BootTimeout), Ev_Unrecoverable (crash_message sample_senv Rr_BootTimeout)], Loop_Over)"
  by (rule dead_boot_is_fatal [where ts = "[boot_tick 0 False]" and t = "boot_tick 30001 False"])
    (simp_all add: sample_launch, simp_all add: sample_life_def boot_tick_def bad_boot_tick_def)

theorem slow_crash_never_fatal_witness:
  "\<exists>s es. run_loop sample_senv (replicate 100 (sample_life [boot_tick 0 False, boot_tick 6000 True] 6000)) new_run = (s, es, Loop_Running)
     \<and> list_all quiet_event es"
  by (rule slow_crash_never_fatal)
    (simp add: list_all_iff slow_crash_def sample_launch, simp add: sample_life_def boot_tick_def bad_boot_tick_def)

end
