(* ===== verification/Health_Probe.thy ===== *)
theory Health_Probe
  imports Supervisor Daemon_Sse_Props
begin

text \<open>
  The supervisor's health probe (\<^verbatim>\<open>desktop/src/supervisor.rs\<close>): the request, the bounded reader of the answer, its status
  line and its body, and what the probe makes of the hub's own health route.
\<close>

section \<open>Reading an answer\<close>

datatype HttpReadError = Hre_Io | Hre_Malformed

definition RESPONSE_CAP :: nat where
  "RESPONSE_CAP = 16384"

text \<open>The reads up to the end of the stream or the cap: a failed read is \<^term>\<open>Inl ()\<close>, the end an empty one.\<close>

fun read_bytes :: "(unit + string) list \<Rightarrow> string \<Rightarrow> HttpReadError + string" where
  "read_bytes [] acc = Inr acc"
| "read_bytes (r # rs) acc =
     (if RESPONSE_CAP \<le> length acc then Inr acc
      else case r of Inl _ \<Rightarrow> Inl Hre_Io
        | Inr chunk \<Rightarrow> if chunk = [] then Inr acc else read_bytes rs (acc @ chunk))"

definition crlf :: string where
  "crlf = [CHR 0x0D, CHR 0x0A]"

definition header_end :: "string \<Rightarrow> nat option" where
  "header_end response = str_find (crlf @ crlf) response"

definition parse_http_status :: "string \<Rightarrow> HttpReadError + nat" where
  "parse_http_status response = (case header_end response of
     None \<Rightarrow> Inl Hre_Malformed
   | Some n \<Rightarrow>
       let header = take n response in
       if \<not> utf8_whole header then Inl Hre_Malformed
       else
         let line = (case str_find crlf header of Some k \<Rightarrow> take k header | None \<Rightarrow> header) in
         case split_on CHR '' '' line of
           version # rest \<Rightarrow>
             if version \<noteq> ''HTTP/1.1'' \<and> version \<noteq> ''HTTP/1.0'' then Inl Hre_Malformed
             else (case rest of
                 [] \<Rightarrow> Inl Hre_Malformed
               | status # _ \<Rightarrow>
                   if length status \<noteq> 3 \<or> \<not> list_all is_ascii_digit status then Inl Hre_Malformed
                   else Inr (digits_value status))
         | [] \<Rightarrow> Inl Hre_Malformed)"

definition read_http_response :: "(unit + string) list \<Rightarrow> HttpReadError + (nat \<times> string)" where
  "read_http_response rs = (case read_bytes rs [] of
     Inl e \<Rightarrow> Inl e
   | Inr response \<Rightarrow> (case parse_http_status response of
       Inl e \<Rightarrow> Inl e
     | Inr status \<Rightarrow> (case header_end response of
         None \<Rightarrow> Inl Hre_Malformed
       | Some n \<Rightarrow> Inr (status, utf8_lossy (drop (n + 4) response)))))"

section \<open>The probe\<close>

text \<open>The JSON reader is a parameter.\<close>

definition body_has_pantoken_health :: "(string \<Rightarrow> json_value option) \<Rightarrow> string \<Rightarrow> bool" where
  "body_has_pantoken_health json body = (case json (trim body) of
     None \<Rightarrow> False
   | Some v \<Rightarrow> Option.bind (get_field v ''ok'') as_bool = Some True
       \<and> Option.bind (get_field v ''clients'') as_u64 \<noteq> None
       \<and> Option.bind (get_field v ''busy'') as_bool \<noteq> None)"

definition authorization_header :: "string option \<Rightarrow> string" where
  "authorization_header token = (case token of
     Some t \<Rightarrow> if t \<noteq> [] then ''Authorization: Bearer '' @ t @ crlf else []
   | None \<Rightarrow> [])"

definition probe_request :: "nat \<Rightarrow> string option \<Rightarrow> string" where
  "probe_request port token = ''GET /health HTTP/1.1'' @ crlf @ ''Host: 127.0.0.1:'' @ show_nat port @ crlf @ ''Connection: close'' @ crlf
     @ authorization_header token @ crlf"

text \<open>The connection and the write succeed or not; then the reads.\<close>

definition health_probe :: "(string \<Rightarrow> json_value option) \<Rightarrow> bool \<Rightarrow> (unit + string) list \<Rightarrow> ProbeOutcome" where
  "health_probe json sent rs =
     (if \<not> sent then Po_Unreachable
      else case read_http_response rs of
        Inr (status, body) \<Rightarrow>
          if 200 \<le> status \<and> status \<le> 299 \<and> body_has_pantoken_health json body then Po_Healthy
          else if status = 401 then Po_Unauthorized
          else Po_Malformed
      | Inl Hre_Malformed \<Rightarrow> Po_Malformed
      | Inl Hre_Io \<Rightarrow> Po_Unreachable)"

section \<open>The cut of the answer does not matter\<close>

lemma read_bytes_concat:
  "list_all (\<lambda>c. c \<noteq> []) cs \<Longrightarrow> length (acc @ concat cs) < RESPONSE_CAP \<Longrightarrow> read_bytes (map Inr cs) acc = Inr (acc @ concat cs)"
  by (induction cs arbitrary: acc) auto

text \<open>A response on the wire: its head up to the first empty line, and the body.\<close>

definition wire_response :: "nat \<Rightarrow> string \<Rightarrow> string \<Rightarrow> string" where
  "wire_response status reason_and_headers body = ''HTTP/1.1 '' @ show_nat status @ '' '' @ reason_and_headers @ crlf @ crlf @ body"

lemma split_status:
  assumes "CHR '' '' \<notin> set st"
  shows "split_on CHR '' '' (''HTTP/1.1 '' @ st @ CHR '' '' # rest) = ''HTTP/1.1'' # st # split_on CHR '' '' rest"
proof -
  have "split_on CHR '' '' (st @ CHR '' '' # rest) = st # split_on CHR '' '' rest" using assms by (induction st) auto
  then show ?thesis by simp
qed

lemma str_find_skip:
  assumes "c \<notin> set p"
  shows "str_find (c # needle) (p @ s) = map_option (\<lambda>n. length p + n) (str_find (c # needle) s)"
  using assms by (induction p) (cases "str_find (c # needle) s", auto)+

definition head_text :: "nat \<Rightarrow> string \<Rightarrow> string" where
  "head_text status rh = ''HTTP/1.1 '' @ show_nat status @ '' '' @ rh"

lemma wire_head: "wire_response status rh body = head_text status rh @ crlf @ crlf @ body"
  by (simp add: wire_response_def head_text_def)

lemma status_line:
  assumes "length (show_nat status) = 3" and "header_end (wire_response status rh body) = Some (length (head_text status rh))"
    and "list_all (\<lambda>c. byte_of c < 0x80) rh"
  shows "parse_http_status (wire_response status rh body) = Inr status"
proof -
  define head where "head = head_text status rh"
  let ?start = "''HTTP/1.1 '' @ show_nat status @ '' ''"
  have head: "head = ?start @ rh" by (simp add: head_def head_text_def)
  have digits: "list_all is_ascii_digit (show_nat status)" by (rule digits_show_nat)
  have blank: "CHR '' '' \<notin> set (show_nat status)" "CHR 0x0D \<notin> set (show_nat status)"
    by (rule not_in_digits, code_simp)+
  have "list_all (\<lambda>c. byte_of c < 0x80) (show_nat status)"
    using digits by (auto simp: list_all_iff is_ascii_digit_def)
  moreover have "list_all (\<lambda>c. byte_of c < 0x80) ''HTTP/1.1 ''" "list_all (\<lambda>c. byte_of c < 0x80) '' ''" by code_simp+
  ultimately have whole: "utf8_whole head" using assms(3) by (intro ascii_whole) (simp only: head list_all_append)
  have "CHR 0x0D \<notin> set ?start" using blank by simp
  then have "str_find crlf head = map_option (\<lambda>n. length ?start + n) (str_find crlf rh)"
    unfolding head crlf_def by (rule str_find_skip)
  then obtain rest where line: "(case str_find crlf head of Some k \<Rightarrow> take k head | None \<Rightarrow> head) = ?start @ rest"
    by (cases "str_find crlf rh") (auto simp: head)
  have "split_on CHR '' '' (?start @ rest) = ''HTTP/1.1'' # show_nat status # split_on CHR '' '' rest"
    using split_status [OF blank(1)] by simp
  then show ?thesis
    using assms(1,2) whole line digits unfolding wire_head head_def [symmetric]
    by (simp add: parse_http_status_def Let_def digits_value_show_nat)
qed

lemma probe_reads:
  assumes "length (show_nat status) = 3" and "header_end (wire_response status rh body) = Some (length (head_text status rh))"
    and "list_all (\<lambda>c. byte_of c < 0x80) rh" and "list_all (\<lambda>c. c \<noteq> []) cs" and "concat cs = wire_response status rh body"
    and "length (wire_response status rh body) < RESPONSE_CAP"
  shows "read_http_response (map Inr cs) = Inr (status, utf8_lossy body)"
proof -
  have "read_bytes (map Inr cs) [] = Inr (wire_response status rh body)"
    using read_bytes_concat [of cs "[]"] assms(4-6) by simp
  then show ?thesis
    using status_line [OF assms(1-3)] assms(2) by (simp add: read_http_response_def) (simp add: wire_head crlf_def)
qed

lemma show_status: "show_nat 200 = ''200''" "show_nat 401 = ''401''"
  by (simp_all add: show_nat.simps [of 200] show_nat.simps [of 20] show_nat.simps [of 2] show_nat.simps [of 401] show_nat.simps [of 40]
      show_nat.simps [of 4]) (simp_all add: char_of_def bit_iff_odd)

text \<open>
  The probe reads the hub's own answer. However the response of the health route is cut into reads, as long as it is shorter than
  16 KiB, the probe is healthy exactly if the hub accepts the token, and unauthorized otherwise.
\<close>

theorem probe_sees_hub:
  assumes "health_route rq st = r" and "header_end (wire_response (hr_status r) rh body) = Some (length (head_text (hr_status r) rh))"
    and "list_all (\<lambda>c. byte_of c < 0x80) rh" and "list_all (\<lambda>c. c \<noteq> []) cs" and "concat cs = wire_response (hr_status r) rh body"
    and "length (concat cs) < 16384" and "\<forall>v. hr_body r = B_Json v \<longrightarrow> json (trim (utf8_lossy body)) = Some v"
    and "client_count (ap_hub st) < 2 ^ 64"
  shows "health_probe json True (map Inr cs) = (if authorized st rq then Po_Healthy else Po_Unauthorized)"
proof -
  have s: "hr_status r = (if authorized st rq then 200 else 401)"
    using assms(1) by (auto simp: health_route_def unauthorized_def text_response_def json_response_def Let_def)
  then have "length (show_nat (hr_status r)) = 3" by (simp add: show_status)
  then have rd: "read_http_response (map Inr cs) = Inr (hr_status r, utf8_lossy body)"
    using probe_reads assms(2-6) by (simp add: RESPONSE_CAP_def)
  show ?thesis
  proof (cases "authorized st rq")
    case True
    obtain v where v: "hr_body r = B_Json v" "v = J_Object [(''service'', J_String ''pantoken-server''), (''ok'', J_Bool True),
        (''clients'', json_nat (client_count (ap_hub st))), (''running'', json_nat (length (tk_running (h_track (ap_hub st))))),
        (''initializing'', json_nat (length (tk_initializing (h_track (ap_hub st))))),
        (''busy'', J_Bool (tk_running (h_track (ap_hub st)) \<noteq> [] \<or> tk_initializing (h_track (ap_hub st)) \<noteq> []))]"
      using assms(1) True by (auto simp: health_route_def json_response_def Let_def)
    have "as_u64 (json_nat (client_count (ap_hub st))) = Some (client_count (ap_hub st))"
      using assms(8) by (simp add: as_u64_def json_nat_def digits_show_nat digits_value_show_nat)
    then have "body_has_pantoken_health json (utf8_lossy body)"
      using assms(7) v by (simp add: body_has_pantoken_health_def get_field_def as_bool_def)
    then show ?thesis using rd s True by (simp add: health_probe_def)
  next
    case False
    then show ?thesis using rd s by (simp add: health_probe_def)
  qed
qed

definition sample_rh :: string where
  "sample_rh = ''Unauthorized'' @ crlf @ ''connection: close''"

theorem probe_sees_hub_witness:
  "health_probe (\<lambda>_. None) True [Inr (head_text 401 sample_rh), Inr (crlf @ crlf @ ''unauthorized'')] = Po_Unauthorized"
proof -
  let ?rq = "sample_request Http_Routes.GET ''/health'' []"
  have u: "\<not> authorized sample_app ?rq"
    using sample_app_token by (simp add: authorized_def token_ok_def sample_request_def bearer_from_headers_def bearer_credential_def
        header_to_str_def Let_def)
  have r: "health_route ?rq sample_app = unauthorized" using u by (simp add: health_route_def)
  have "str_find (crlf @ crlf) (crlf @ ''connection: close'' @ crlf @ crlf @ ''unauthorized'') = Some 19" by code_simp
  then have "str_find (crlf @ crlf) (''HTTP/1.1 '' @ show_nat 401 @ '' '' @ sample_rh @ crlf @ crlf @ ''unauthorized'') = Some (length (head_text 401 sample_rh))"
    using str_find_skip [of "CHR 0x0D" "''HTTP/1.1 401 Unauthorized''"] by (simp add: crlf_def sample_rh_def show_status head_text_def)
  then have h: "header_end (wire_response 401 sample_rh ''unauthorized'') = Some (length (head_text 401 sample_rh))"
    by (simp add: header_end_def wire_response_def)
  have a: "list_all (\<lambda>c. byte_of c < 0x80) sample_rh" by code_simp
  have c: "client_count (ap_hub sample_app) < 2 ^ 64" by (simp add: sample_app_def empty_hub_def client_count_def)
  have "health_probe (\<lambda>_. None) True (map Inr [head_text 401 sample_rh, crlf @ crlf @ ''unauthorized'']) = (if authorized sample_app ?rq then Po_Healthy else Po_Unauthorized)"
    by (rule probe_sees_hub [OF r, where rh = sample_rh and body = "''unauthorized''"])
      (use h a c in \<open>simp_all add: unauthorized_def text_response_def wire_head\<close>, simp_all add: head_text_def crlf_def sample_rh_def show_status)
  then show ?thesis using u by simp
qed

end
