(* ===== verification/Desktop_Diagnostics.thy ===== *)
theory Desktop_Diagnostics
  imports Supervisor
begin

text \<open>
  The desktop shell's launch machine and its diagnostics (\<^verbatim>\<open>desktop/src/lifecycle.rs\<close>), and what the shell records of the
  supervisor's events (\<^verbatim>\<open>desktop/src/main.rs\<close>). The URL parser is a parameter.
\<close>

section \<open>Launch\<close>

datatype StartupMode = OrdinaryActivation | LoginLaunch | Unknown_Startup

datatype LaunchContext = Login | Ordinary | Unknown_Context

definition launch_context :: "string option \<Rightarrow> bool \<Rightarrow> LaunchContext" where
  "launch_context login_var macos = (if login_var = Some ''1'' then Login else if macos then Ordinary else Unknown_Context)"

definition classify_startup :: "LaunchContext \<Rightarrow> StartupMode" where
  "classify_startup context = (case context of Login \<Rightarrow> LoginLaunch | Ordinary \<Rightarrow> OrdinaryActivation | Unknown_Context \<Rightarrow> Unknown_Startup)"

datatype LaunchEvent = DidFinishLaunching | DidBecomeActive | Reopen | TrayOpen | SecondInstance

datatype LaunchViewState = Launching | InitialActivationIgnored | AwaitingUserActivation | Revealed

record LaunchContextState =
  lc_mode :: StartupMode
  lc_view :: LaunchViewState

definition new_launch :: "StartupMode \<Rightarrow> LaunchContextState" where
  "new_launch mode = \<lparr>lc_mode = mode, lc_view = Launching\<rparr>"

definition launch_handle :: "LaunchEvent \<Rightarrow> LaunchContextState \<Rightarrow> LaunchContextState \<times> bool" where
  "launch_handle e s = (case (lc_view s, e) of
     (Launching, DidFinishLaunching) \<Rightarrow>
       (if lc_mode s \<noteq> OrdinaryActivation then s\<lparr>lc_view := InitialActivationIgnored\<rparr> else s, False)
   | (Launching, DidBecomeActive) \<Rightarrow>
       if lc_mode s = OrdinaryActivation then (s\<lparr>lc_view := Revealed\<rparr>, True)
       else (s\<lparr>lc_view := InitialActivationIgnored\<rparr>, False)
   | (InitialActivationIgnored, DidBecomeActive) \<Rightarrow> (s\<lparr>lc_view := AwaitingUserActivation\<rparr>, False)
   | (v, e) \<Rightarrow> if v \<noteq> Launching \<and> e \<noteq> DidFinishLaunching then (s\<lparr>lc_view := Revealed\<rparr>, True) else (s, False))"

fun launch_run :: "LaunchEvent list \<Rightarrow> LaunchContextState \<Rightarrow> LaunchContextState \<times> bool list" where
  "launch_run [] s = (s, [])"
| "launch_run (e # es) s = (case launch_handle e s of (s', shown) \<Rightarrow> case launch_run es s' of (s2, bs) \<Rightarrow> (s2, shown # bs))"

fun user_event :: "LaunchEvent \<Rightarrow> bool" where
  "user_event DidFinishLaunching = False"
| "user_event DidBecomeActive = False"
| "user_event _ = True"

lemma launch_system_hidden:
  assumes "lc_mode s \<noteq> OrdinaryActivation" and "list_all (\<lambda>e. \<not> user_event e) es"
    and "lc_view s \<noteq> Revealed"
    and "count_list es DidBecomeActive \<le> (case lc_view s of AwaitingUserActivation \<Rightarrow> 0 | _ \<Rightarrow> 1)"
  shows "True \<notin> set (snd (launch_run es s))"
  using assms
proof (induction es arbitrary: s)
  case (Cons e es)
  obtain s' b where h: "launch_handle e s = (s', b)" by (cases "launch_handle e s")
  have "\<not> b \<and> lc_mode s' = lc_mode s \<and> lc_view s' \<noteq> Revealed
      \<and> count_list es DidBecomeActive \<le> (case lc_view s' of AwaitingUserActivation \<Rightarrow> 0 | _ \<Rightarrow> 1)"
    using h Cons.prems by (cases e; cases "lc_view s") (auto simp: launch_handle_def split: if_splits)
  then show ?case using Cons.IH [of s'] Cons.prems h by (auto split: prod.splits)
qed simp

text \<open>
  A login launch stays hidden. However the notifications of the start arrive, a launch that is not an ordinary activation shows no
  window at the first activation, and then every request of the user shows it.
\<close>

theorem login_launch_hidden:
  assumes "mode \<noteq> OrdinaryActivation" and "list_all (\<lambda>e. \<not> user_event e) es" and "count_list es DidBecomeActive \<le> 1"
  shows "True \<notin> set (snd (launch_run es (new_launch mode)))
    \<and> (\<forall>e. user_event e \<longrightarrow> es \<noteq> [] \<longrightarrow> snd (launch_handle e (fst (launch_run es (new_launch mode)))))"
proof
  show "True \<notin> set (snd (launch_run es (new_launch mode)))"
    using launch_system_hidden [of "new_launch mode" es] assms by (simp add: new_launch_def)
  have settled: "lc_view (fst (launch_run es s)) \<noteq> Launching"
    if "es \<noteq> []" "lc_mode s \<noteq> OrdinaryActivation" "list_all (\<lambda>e. \<not> user_event e) es" for es s
    using that
  proof (induction es arbitrary: s)
    case (Cons e es)
    obtain s' b where h: "launch_handle e s = (s', b)" by (cases "launch_handle e s")
    have k: "lc_view s' \<noteq> Launching \<and> lc_mode s' = lc_mode s"
      using h Cons.prems by (cases e; cases "lc_view s") (auto simp: launch_handle_def split: if_splits)
    show ?case using Cons.IH [of s'] Cons.prems h k by (cases "es = []") (auto split: prod.splits)
  qed simp
  show "\<forall>e. user_event e \<longrightarrow> es \<noteq> [] \<longrightarrow> snd (launch_handle e (fst (launch_run es (new_launch mode))))"
  proof (intro allI impI)
    fix e assume "user_event e" and "es \<noteq> []"
    then show "snd (launch_handle e (fst (launch_run es (new_launch mode))))"
      using settled [of es "new_launch mode"] assms
      by (cases e; cases "lc_view (fst (launch_run es (new_launch mode)))") (auto simp: launch_handle_def new_launch_def)
  qed
qed

theorem login_launch_hidden_witness:
  "True \<notin> set (snd (launch_run [DidFinishLaunching, DidBecomeActive] (new_launch LoginLaunch)))
    \<and> snd (launch_handle Reopen (fst (launch_run [DidFinishLaunching, DidBecomeActive] (new_launch LoginLaunch))))"
  using login_launch_hidden [of LoginLaunch "[DidFinishLaunching, DidBecomeActive]"] by simp

section \<open>Diagnostics\<close>

datatype HealthClass = Hc_EndpointUnverified | Hc_EndpointUnreachable | Hc_HubUnreachable | Hc_Unauthorized | Hc_Healthy
  | Hc_CrashRestarting | Hc_HangRestarting | Hc_Shutdown

record ParsedUrl =
  pu_scheme :: string
  pu_host :: "string option"
  pu_username :: string
  pu_password :: "string option"
  pu_port :: "nat option"

type_synonym url_parser = "string \<Rightarrow> ParsedUrl option"

definition host_for_display :: "string \<Rightarrow> string" where
  "host_for_display host = (if CHR '':'' \<in> set host \<and> \<not> starts_with host ''['' then ''['' @ host @ '']'' else host)"

definition origin_text :: "string \<Rightarrow> string \<Rightarrow> nat option \<Rightarrow> string" where
  "origin_text scheme host port = scheme @ ''://'' @ host_for_display host @ (case port of Some p \<Rightarrow> '':'' @ show_nat p | None \<Rightarrow> [])"

definition safe_endpoint :: "url_parser \<Rightarrow> string \<Rightarrow> string option" where
  "safe_endpoint parse input = (case parse input of
     None \<Rightarrow> None
   | Some url \<Rightarrow>
       if pu_scheme url \<notin> {''http'', ''https''} then None
       else (case pu_host url of
           None \<Rightarrow> None
         | Some host \<Rightarrow>
             if pu_username url \<noteq> [] \<or> pu_password url \<noteq> None then None
             else Some (origin_text (pu_scheme url) host (pu_port url))))"

definition secret_words :: "string list" where
  "secret_words = [''bearer'', ''authorization'', ''token'', ''password'', ''secret'']"

definition redact_reason :: "string \<Rightarrow> string" where
  "redact_reason reason =
     (if list_ex (str_contains (ascii_lowercase reason)) secret_words then ''redacted lifecycle failure'' else take_chars 160 reason)"

record LifecycleDiagnostics =
  ld_health :: HealthClass
  ld_endpoint :: "string option"
  ld_last_healthy_at :: "string option"
  ld_last_restart_at :: "string option"
  ld_recovery_reason :: "string option"
  ld_recovery_count :: nat
  ld_shutdown :: bool

definition new_diagnostics :: LifecycleDiagnostics where
  "new_diagnostics = \<lparr>ld_health = Hc_EndpointUnverified, ld_endpoint = None, ld_last_healthy_at = None, ld_last_restart_at = None,
     ld_recovery_reason = None, ld_recovery_count = 0, ld_shutdown = False\<rparr>"

definition set_health :: "HealthClass \<Rightarrow> LifecycleDiagnostics \<Rightarrow> LifecycleDiagnostics" where
  "set_health health d = d\<lparr>ld_health := health\<rparr>"

definition set_endpoint :: "url_parser \<Rightarrow> string \<Rightarrow> LifecycleDiagnostics \<Rightarrow> LifecycleDiagnostics" where
  "set_endpoint parse endpoint d = d\<lparr>ld_endpoint := safe_endpoint parse endpoint\<rparr>"

definition record_healthy :: "url_parser \<Rightarrow> string \<Rightarrow> string \<Rightarrow> LifecycleDiagnostics \<Rightarrow> LifecycleDiagnostics" where
  "record_healthy parse endpoint timestamp d =
     d\<lparr>ld_health := Hc_Healthy, ld_endpoint := safe_endpoint parse endpoint, ld_last_healthy_at := Some timestamp\<rparr>"

definition record_recovery :: "HealthClass \<Rightarrow> string \<Rightarrow> string \<Rightarrow> LifecycleDiagnostics \<Rightarrow> LifecycleDiagnostics" where
  "record_recovery health reason timestamp d = d\<lparr>ld_health := health, ld_recovery_reason := Some (redact_reason reason),
     ld_last_restart_at := Some timestamp, ld_recovery_count := saturating_inc_u32 (ld_recovery_count d)\<rparr>"

definition record_failure :: "HealthClass \<Rightarrow> string \<Rightarrow> LifecycleDiagnostics \<Rightarrow> LifecycleDiagnostics" where
  "record_failure health reason d = d\<lparr>ld_health := health, ld_recovery_reason := Some (redact_reason reason)\<rparr>"

definition diagnostics_shutdown :: "LifecycleDiagnostics \<Rightarrow> LifecycleDiagnostics" where
  "diagnostics_shutdown d = d\<lparr>ld_shutdown := True, ld_health := Hc_Shutdown\<rparr>"

section \<open>What is recorded of the supervisor's events\<close>

fun outcome_debug :: "ProbeOutcome \<Rightarrow> string" where
  "outcome_debug Po_Healthy = ''Healthy''"
| "outcome_debug Po_Unauthorized = ''Unauthorized''"
| "outcome_debug Po_Unreachable = ''Unreachable''"
| "outcome_debug Po_Malformed = ''Malformed''"
| "outcome_debug Po_WrongTarget = ''WrongTarget''"
| "outcome_debug Po_EndpointUnverified = ''EndpointUnverified''"

fun outcome_health :: "ProbeOutcome \<Rightarrow> HealthClass" where
  "outcome_health Po_Unauthorized = Hc_Unauthorized"
| "outcome_health Po_Unreachable = Hc_EndpointUnreachable"
| "outcome_health Po_Healthy = Hc_Healthy"
| "outcome_health _ = Hc_EndpointUnverified"

definition on_supervisor_event :: "url_parser \<Rightarrow> string \<Rightarrow> string \<Rightarrow> SupervisorEvent \<Rightarrow> LifecycleDiagnostics \<Rightarrow> LifecycleDiagnostics" where
  "on_supervisor_event parse endpoint timestamp ev d =
     (let d1 = set_endpoint parse endpoint d in
      case ev of
        Ev_Healthy _ \<Rightarrow> record_healthy parse endpoint timestamp d1
      | Ev_ProbeFailed outcome \<Rightarrow>
          record_failure (outcome_health outcome) (''health probe: '' @ outcome_debug outcome) (set_health (outcome_health outcome) d1)
      | Ev_Restarting reason \<Rightarrow>
          record_recovery (if reason = Rr_Hang then Hc_HangRestarting else Hc_CrashRestarting) (reason_debug reason) timestamp d1
      | Ev_Unrecoverable _ \<Rightarrow> record_failure Hc_HubUnreachable ''unrecoverable supervisor state'' d1)"

section \<open>Nothing secret is recorded\<close>

datatype DiagOp = Do_Health HealthClass | Do_Endpoint string | Do_Healthy string string | Do_Recovery HealthClass string string
  | Do_Failure HealthClass string | Do_Shutdown | Do_Event string string SupervisorEvent

fun diag_op :: "url_parser \<Rightarrow> DiagOp \<Rightarrow> LifecycleDiagnostics \<Rightarrow> LifecycleDiagnostics" where
  "diag_op parse (Do_Health h) d = set_health h d"
| "diag_op parse (Do_Endpoint e) d = set_endpoint parse e d"
| "diag_op parse (Do_Healthy e t) d = record_healthy parse e t d"
| "diag_op parse (Do_Recovery h r t) d = record_recovery h r t d"
| "diag_op parse (Do_Failure h r) d = record_failure h r d"
| "diag_op parse Do_Shutdown d = diagnostics_shutdown d"
| "diag_op parse (Do_Event e t ev) d = on_supervisor_event parse e t ev d"

lemma take_chars_prefix: "\<exists>t. s = take_chars n s @ t"
  by (induction n s rule: take_chars.induct) (auto split: nat.split)

definition reason_safe :: "string \<Rightarrow> bool" where
  "reason_safe r \<longleftrightarrow> \<not> list_ex (str_contains (ascii_lowercase r)) secret_words"

lemma redacted_safe: "reason_safe (redact_reason r)"
proof (cases "list_ex (str_contains (ascii_lowercase r)) secret_words")
  case True
  have "reason_safe ''redacted lifecycle failure''" unfolding reason_safe_def secret_words_def by code_simp
  then show ?thesis using True by (simp add: redact_reason_def)
next
  case False
  obtain t where t: "r = take_chars 160 r @ t" using take_chars_prefix by blast
  have "str_contains (ascii_lowercase r) w" if c: "str_contains (ascii_lowercase (take_chars 160 r)) w" for w
  proof -
    obtain us vs where "ascii_lowercase (take_chars 160 r) = us @ w @ vs" using c unfolding str_contains_iff by blast
    then have "ascii_lowercase r = us @ w @ vs @ ascii_lowercase t"
      using t ascii_lowercase_append [of "take_chars 160 r" t] by (metis append.assoc)
    then show ?thesis unfolding str_contains_iff by blast
  qed
  then show ?thesis using False by (auto simp: redact_reason_def reason_safe_def list_ex_iff)
qed

definition diag_safe :: "LifecycleDiagnostics \<Rightarrow> bool" where
  "diag_safe d \<longleftrightarrow> (\<forall>r. ld_recovery_reason d = Some r \<longrightarrow> reason_safe r)
     \<and> (\<forall>e. ld_endpoint d = Some e \<longrightarrow> (\<exists>scheme host port. scheme \<in> {''http'', ''https''} \<and> e = origin_text scheme host port))"

lemma safe_endpoint_origin:
  "safe_endpoint parse e = Some t \<Longrightarrow> \<exists>scheme host port. scheme \<in> {''http'', ''https''} \<and> t = origin_text scheme host port"
  by (auto simp: safe_endpoint_def split: option.splits if_splits)

lemma diag_op_safe: "diag_safe d \<Longrightarrow> diag_safe (diag_op parse p d)"
  using redacted_safe safe_endpoint_origin
  by (cases p) (auto simp: diag_safe_def set_health_def set_endpoint_def record_healthy_def record_recovery_def record_failure_def
      diagnostics_shutdown_def on_supervisor_event_def Let_def split: SupervisorEvent.splits)

text \<open>
  The diagnostics hold no credential. After every sequence of records the reason contains none of the five words that mark a
  secret, in any case of letters, and the endpoint is a scheme, a host and a port.
\<close>

theorem diagnostics_redacted: "diag_safe (fold (diag_op parse) ops new_diagnostics)"
proof (induction ops rule: rev_induct)
  case Nil
  show ?case by (simp add: diag_safe_def new_diagnostics_def)
next
  case (snoc p ops)
  then show ?case using diag_op_safe by simp
qed

section \<open>A hang is recorded as a crash\<close>

text \<open>
  The watch reports the restart of a hung child, and the loop reports the child's end once more, as a crash: the
  diagnostics count two recoveries, and keep the wrong cause.
\<close>

theorem hang_recorded_as_crash:
  assumes "supervise_one (li_start l) (li_ticks l) (ru_started s) (ru_policy s) = (b, c, es @ [Ev_Restarting Rr_Hang], Child_Terminated)"
    and "usual_core c" "sup_terminal c = None" and "5000 \<le> li_uptime l"
    and "\<not> li_stop_before l" "launch_error env l = None" "\<not> li_stop_after l"
  shows "\<exists>es2. fst (snd (run_loop env (l # ls) s)) = es @ [Ev_Restarting Rr_Hang, Ev_Restarting Rr_Crash] @ es2
    \<and> (let d2 = fold (on_supervisor_event parse e t) [Ev_Restarting Rr_Hang, Ev_Restarting Rr_Crash] d in
        ld_health d2 = Hc_CrashRestarting \<and> ld_recovery_reason d2 = Some (redact_reason ''Crash'')
        \<and> ld_recovery_count d2 = saturating_inc_u32 (saturating_inc_u32 (ld_recovery_count d)))"
proof -
  define s1 where "s1 = s\<lparr>ru_started := b, ru_policy := c\<rparr>"
  have "\<not> rapid_exit l" using assms(4) by (simp add: rapid_exit_def)
  then have "\<exists>s2 e2. after_child env l s1 = (s2, [Ev_Restarting Rr_Crash], e2)"
    using assms(2,3) by (simp add: after_child_def observe_exit_def seeded_policy_def next_rapid_def s1_def usual_core_def Let_def)
  then obtain s2 e2 where a: "after_child env l s1 = (s2, [Ev_Restarting Rr_Crash], e2)" by blast
  have "\<exists>es2. fst (snd (run_loop env (l # ls) s)) = es @ [Ev_Restarting Rr_Hang, Ev_Restarting Rr_Crash] @ es2"
    using assms(1,5-7) a by (cases e2) (auto simp: s1_def [symmetric] Let_def split: prod.splits)
  then show ?thesis by (simp add: on_supervisor_event_def record_recovery_def set_endpoint_def Let_def)
qed

end
