(* ===== verification/Spec2Isabelle.thy ===== *)
theory Spec2Isabelle
  imports Journal Frame Layout Manifest Tar_Validate Session_Lists Stores Hub_Props Interrogatives History_Seed Context_Percent Lifecycle Model_Cache Driver_Props Wire_Server_Props Dispatch_Props Daemon_Http_Props Daemon_Sse_Props Connection Idle_Reaper Health_Probe Desktop_Diagnostics
begin

text \<open>
  A verification development for pantoken: a hub server in Rust that stands between coding-agent
  daemons and the web clients that watch and steer their sessions.

  \<^bold>\<open>The program.\<close> A daemon (one process per session) emits a stream of events. The driver keeps a pool of
  daemons warm, maps their events to session events and gives them to the hub. The hub folds the
  events of a session into its transcript, journals them, and sends every client that looks at the
  session a seed (the folded state) followed by numbered frames. A client that loses its connection
  resumes from the last frame it has. Client messages go the other way: through a transport and the
  hello gate to the hub's dispatch, which answers them or queues operations that one applier task runs against the
  driver. Around this stand the HTTP boundary with its token, web push, the static files of the web
  client, the process lock, the remote runtime with its idle reaper, and the tools for releases.

  \<^bold>\<open>How it is modelled.\<close> A struct is a record, an enum a datatype, a method a function from the state to
  its new state. A panic or an error is a value (\<open>None\<close>, \<open>Inl\<close>). Texts are byte strings, so that slicing
  inside a character is visible; 64-bit counters that the code lets wrap are words or carry an
  explicit wrap. Code that is not in the repository (\<^verbatim>\<open>serde_json\<close>, gzip, the push encryption, the
  network, the file system, clocks, processes) is an argument of the definitions, and what a theorem
  needs of it is a named hypothesis with a witness. Asynchronous code is cut at its await points:
  what other tasks do there is part of the input. A loop over input recurses on the input that has
  arrived; an input that is used up means that the loop still waits.

  \<^bold>\<open>Theories and sources\<close> (below \<^verbatim>\<open>src/server\<close> unless said otherwise):

  \<^item> \<open>Prelude\<close>: machine types, hash maps as association lists, string operations, shared lemmas.
  \<^item> \<open>Session_Types\<close>, \<open>Session_State\<close>: \<^verbatim>\<open>pantoken-protocol/src/session_driver.rs\<close> and \<^verbatim>\<open>state.rs\<close>, the session
    events and the reducer \<open>fold_event\<close>. The folded state is well formed after every event list.
  \<^item> \<open>Journal\<close>: \<^verbatim>\<open>journal.rs\<close>, the compacted log and the ring of frames. Coalescing and eviction do not change
    the folded transcript; a resume inside the ring catches up; the ring is bounded.
  \<^item> \<open>Activity_Text\<close>, \<open>Attention\<close>, \<open>Client_View\<close>, \<open>Hub\<close>, \<open>Hub_Requests\<close>: \<^verbatim>\<open>hub.rs\<close> with the stamp gate of the web
    client (\<^verbatim>\<open>src/client/src/lib/store.svelte.ts\<close>). \<open>Hub_Invariant\<close> and \<open>Hub_Sync\<close> prove that every
    operation keeps each client in step with its session (the journal is used through the locale
    \<open>transcript_log\<close>); \<open>Hub_Props\<close> has the properties of resume, eviction, update permits, the prompt
    ledger and failed switches.
  \<^item> \<open>Wire\<close>, \<open>Wire_Client\<close>, \<open>Wire_Server\<close>: \<^verbatim>\<open>pantoken-protocol/src/wire.rs\<close>, both directions with their shape
    checks. \<open>Wire_Roundtrip\<close> and \<open>Wire_Server_Props\<close> interpret one contract (\<open>json_type\<close>, \<open>json_codec\<close>)
    per type: what a client encodes is accepted and decodes to itself, the shape check accepts
    exactly what decodes, and the server writes only messages that the reader accepts.
  \<^item> \<open>Background_Model\<close>, \<open>Client_Dispatch\<close>: \<^verbatim>\<open>background_model.rs\<close> and \<^verbatim>\<open>handle_client\<close> with the applier of \<^verbatim>\<open>hub.rs\<close>.
    \<open>Dispatch_Flow\<close> makes a transition system of them; \<open>Dispatch_Props\<close> shows that the applier drains its
    queue, that a prompt is answered once, that the first responder of a dialog wins, and how a panic
    blocks the applier.
  \<^item> \<open>Frame\<close>: \<^verbatim>\<open>pantoken-protocol/src/frame.rs\<close>. \<open>Transport\<close> and \<open>Connection\<close>: \<^verbatim>\<open>connection/ws.rs\<close>, \<^verbatim>\<open>stdio.rs\<close>, \<^verbatim>\<open>mod.rs\<close>
    and the peek of \<^verbatim>\<open>remote/runtime.rs\<close>: what a session receives of the messages sent, the
    credential gate, and that a session makes only steps of the dispatch system.
  \<^item> \<open>Daemon_Types\<close>, \<open>Event_Map\<close>, \<open>Event_Mapper\<close>, \<open>Context_Percent\<close>: \<^verbatim>\<open>pantoken-daemon-types\<close> and
    \<^verbatim>\<open>polytoken/event_map.rs\<close>. \<open>Ui_Bridge\<close>, \<open>Interrogatives\<close>: \<^verbatim>\<open>ui_bridge.rs\<close>. \<open>History_Seed\<close>: \<^verbatim>\<open>history_seed.rs\<close>.
  \<^item> \<open>Lifecycle\<close>, \<open>Models\<close>, \<open>Model_Cache\<close>, \<open>Warm_Session\<close>, \<open>Polytoken_Driver\<close>, \<open>Driver_Props\<close>: \<^verbatim>\<open>lifecycle_store.rs\<close>,
    \<^verbatim>\<open>restore_error.rs\<close>, \<^verbatim>\<open>models.rs\<close> and \<^verbatim>\<open>polytoken/driver.rs\<close>: destroyed sessions stay destroyed, the warm
    cap, streams that do not interfere, the queue that is shown, callers of the model cache that return.
  \<^item> \<open>Timestamps\<close>, \<open>Daemon_Spawn\<close>, \<open>Daemon_Lease\<close>, \<open>Daemon_Http\<close>, \<open>Daemon_Sse\<close> with \<open>Daemon_Http_Props\<close> and
    \<open>Daemon_Sse_Props\<close>: \<^verbatim>\<open>polytoken/daemon_client.rs\<close> and \<^verbatim>\<open>process_identity.rs\<close>: the startup wait ends and trusts
    no stale file, the credential file is private, one heartbeat at most, the cuts of the event
    stream do not matter between characters, every reconnect is announced.
  \<^item> \<open>Static_Serve\<close>, \<open>Pid_Lock\<close>, \<open>Server_Config\<close>, \<open>Push\<close>, \<open>Http_Routes\<close>: \<^verbatim>\<open>static_serve.rs\<close>, \<^verbatim>\<open>pidlock.rs\<close>, \<^verbatim>\<open>config.rs\<close>,
    \<^verbatim>\<open>push.rs\<close>, \<^verbatim>\<open>http.rs\<close> and \<^verbatim>\<open>bootstrap.rs\<close>: files only below the client directory, one lock holder, a
    token on every route, a setup credential that works once.
  \<^item> \<open>Idle_Reaper\<close>: \<^verbatim>\<open>remote/lifecycle.rs\<close> over the driver interface (locale \<open>reapable_driver\<close>, interpreted on
    the Polytoken driver and on the interface's defaults): it waits long enough, and it ends an idle runtime.
  \<^item> \<open>Session_Lists\<close>, \<open>Stores\<close>: \<^verbatim>\<open>shared/warm_cap.rs\<close>, \<^verbatim>\<open>shared/session_list.rs\<close>, \<^verbatim>\<open>archive_store.rs\<close>,
    \<^verbatim>\<open>settings_store.rs\<close>. \<open>Layout\<close>, \<open>Semver\<close>, \<open>Manifest\<close>: \<^verbatim>\<open>pantoken-remote-layout\<close>. \<open>Tar_Validate\<close>:
    \<^verbatim>\<open>pantoken-tar-validate\<close>.
  \<^item> (below \<^verbatim>\<open>src/desktop/src\<close>) \<open>Desktop_Update\<close>: the cycle of \<^verbatim>\<open>updater.rs\<close> as calls of the router of \<open>Http_Routes\<close>, with the relaunch gate
    (\<^verbatim>\<open>lifecycle.rs\<close>) and the updater barrier (\<^verbatim>\<open>state.rs\<close>): an install needs a permit of an idle hub, a click leads to one, and
    without a click there is none. \<open>Supervisor\<close>, \<open>Health_Probe\<close>: \<^verbatim>\<open>supervisor.rs\<close>, with the end of crash loops, the six strikes
    of a hang, and the probe against the hub's health route. \<open>Desktop_Diagnostics\<close>: the launch machine and the redacted
    diagnostics of \<^verbatim>\<open>lifecycle.rs\<close>, and what \<^verbatim>\<open>main.rs\<close> records of the supervisor's events.

  \<^bold>\<open>Locales.\<close> Each interface is a locale whose laws are discharged on the model: \<open>transcript_log\<close> (journal for
  hub), \<open>mergeable_fold\<close> (reducer for journal), \<open>chunked_parser\<close> (frame decoder), \<open>json_type\<close> and \<open>json_codec\<close>
  (wire types), \<open>select_card\<close> (dialog cards), \<open>comparator\<close> (versions), \<open>reapable_driver\<close> (driver for the reaper).

  \<^bold>\<open>Bounds and fuel.\<close> No definition takes fuel. Loops recurse on a list or on a measure (the undecoded
  bytes of a frame buffer, the remaining reads). The waits are bounded by the input: the
  startup wait by its clock, the reaper by its wakes, the applier by the weight of its queue.
  The constants (queue of 128, ring sizes, 16 MiB frames, lifetimes) are those of the code.

  \<^bold>\<open>Abstractions.\<close> The hub and the driver's maps are changed under locks that the model takes as atomic steps;
  the three lock sections of the live refresh are one step. Operations of the driver are cut at the
  awaits that the theories name. The effects of a session run with the daemon's answers as
  arguments. A cancelled heartbeat stops at once. The reset's write of the settings, the panic of the
  settings warning, and a detach, destroy or seed request for another session are not steps of the
  system of \<open>Hub_Sync\<close>; a resume with a token of another server run is excluded there. After a panic in
  a message handler the state is taken as it was before the call.

  \<^bold>\<open>Not modelled.\<close> Process startup and signal wiring (\<^verbatim>\<open>main.rs\<close>), the shell environment (\<^verbatim>\<open>login_env.rs\<close>), socket
  setup and the bootstrap of the remote runtime's process, file search and the configuration watcher (traversals of the
  file system), the mock, stub and fake drivers (test doubles), the desktop application's
  windows, Tauri commands and bridges to remote hosts (SSH and Docker processes), the vendored encryption crate, and the web client beyond its
  stamp gate: they are input and output, test code, or another language.
\<close>

end
